(* ===== verification/Prelude.thy ===== *)
theory Prelude
  imports Main "HOL-Library.State_Monad" "HOL-Library.Finite_Map"
begin

text \<open>
  Shared vocabulary of the development: the fragment of the Go language and of its standard
  library that the operators use (strings, maps that may be nil, times and durations, errors that
  wrap one another), the state monad in which the controllers are written, and a small Hoare
  calculus over it.  Nothing here is specific to Keptn.
\<close>

named_theorems go_simps \<open>definitions of Go library fragments, for unfolding\<close>
named_theorems wp \<open>rules of the Hoare calculus on the state monad\<close>

section \<open>Maps that may be nil\<close>

text \<open>
  A Go map is nil or a finite map; reading from a nil map gives the zero value.  Both kinds are
  told apart by \<^verbatim>\<open>reflect.DeepEqual\<close>, hence the option.
\<close>

type_synonym ('k, 'v) gomap = "('k, 'v) fmap option"
type_synonym smap = "(string, string) gomap"

definition gm_lookup :: "('k, 'v) gomap \<Rightarrow> 'k \<Rightarrow> 'v option" where
  [go_simps]: "gm_lookup m k = (case m of None \<Rightarrow> None | Some f \<Rightarrow> fmlookup f k)"

text \<open>Reading a map of strings: the empty string where the key is absent.\<close>

definition gm_str :: "smap \<Rightarrow> string \<Rightarrow> string" where
  [go_simps]: "gm_str m k = (case gm_lookup m k of None \<Rightarrow> [] | Some v \<Rightarrow> v)"

definition gm_fmap :: "('k, 'v) gomap \<Rightarrow> ('k, 'v) fmap" where
  [go_simps]: "gm_fmap m = (case m of None \<Rightarrow> fmempty | Some f \<Rightarrow> f)"

definition gm_empty :: "('k, 'v) gomap \<Rightarrow> bool" where
  [go_simps]: "gm_empty m \<longleftrightarrow> gm_fmap m = fmempty"

lemma gm_lookup_fmap: "gm_lookup m k = fmlookup (gm_fmap m) k"
  by (cases m) (simp_all add: go_simps)

section \<open>Strings\<close>

definition has_prefix :: "string \<Rightarrow> string \<Rightarrow> bool" where
  [go_simps]: "has_prefix s p \<longleftrightarrow> take (length p) s = p"

text \<open>\<^verbatim>\<open>strings.TrimPrefix\<close>\<close>

definition trim_prefix :: "string \<Rightarrow> string \<Rightarrow> string" where
  [go_simps]: "trim_prefix s p = (if has_prefix s p then drop (length p) s else s)"

text \<open>\<^verbatim>\<open>strings.Contains\<close>\<close>

fun contains :: "string \<Rightarrow> string \<Rightarrow> bool" where
  "contains [] p \<longleftrightarrow> p = []"
| "contains (c # s) p \<longleftrightarrow> has_prefix (c # s) p \<or> contains s p"

text \<open>\<^verbatim>\<open>strings.Join\<close>\<close>

fun join :: "string \<Rightarrow> string list \<Rightarrow> string" where
  "join sep [] = []"
| "join sep [s] = s"
| "join sep (s # t # ts) = s @ sep @ join sep (t # ts)"

text \<open>\<^verbatim>\<open>strings.Split\<close> with a separator of one byte: always at least one piece.\<close>

fun split_on :: "char \<Rightarrow> string \<Rightarrow> string list" where
  "split_on c [] = [[]]"
| "split_on c (x # s) =
     (if x = c then [] # split_on c s
      else (case split_on c s of [] \<Rightarrow> [[x]] | p # ps \<Rightarrow> (x # p) # ps))"

lemma trim_prefix_append [simp]: "trim_prefix (p @ s) p = s"
  by (simp add: go_simps)

lemma split_on_not_Nil [simp]: "split_on c s \<noteq> []"
  by (cases s) (auto split: list.splits)

lemma split_on_no_sep: "c \<notin> set s \<Longrightarrow> split_on c s = [s]"
  by (induction s) auto

lemma split_on_append:
  assumes "c \<notin> set s"
  shows "split_on c (s @ c # t) = s # split_on c t"
  using assms by (induction s) auto

lemma length_join:
  "ss \<noteq> [] \<Longrightarrow> length (join sep ss) = sum_list (map length ss) + (length ss - 1) * length sep"
  by (induction sep ss rule: join.induct) auto

text \<open>Splitting undoes joining when no part holds the separator.\<close>

lemma split_on_join:
  assumes "ss \<noteq> []" and "\<forall>s\<in>set ss. c \<notin> set s"
  shows "split_on c (join [c] ss) = ss"
  using assms by (induction "[c]" ss rule: join.induct) (auto simp: split_on_no_sep split_on_append)

text \<open>\<^verbatim>\<open>strings.ToLower\<close> on bytes: only the ASCII capitals change.\<close>

definition to_lower_char :: "char \<Rightarrow> char" where
  "to_lower_char c =
     (let n = of_char c :: nat in if 65 \<le> n \<and> n \<le> 90 then char_of (n + 32) else c)"

definition to_lower :: "string \<Rightarrow> string" where
  "to_lower s = map to_lower_char s"

definition replace_char :: "char \<Rightarrow> char \<Rightarrow> string \<Rightarrow> string" where
  "replace_char a b s = map (\<lambda>c. if c = a then b else c) s"

lemma length_to_lower [simp]: "length (to_lower s) = length s"
  by (simp add: to_lower_def)

lemma length_replace_char [simp]: "length (replace_char a b s) = length s"
  by (simp add: replace_char_def)

definition is_upper :: "char \<Rightarrow> bool" where
  "is_upper c \<longleftrightarrow> (let n = of_char c :: nat in 65 \<le> n \<and> n \<le> 90)"

lemma to_lower_char_not_upper: "\<not> is_upper (to_lower_char c)"
proof (cases "65 \<le> (of_char c :: nat) \<and> (of_char c :: nat) \<le> 90")
  case True
  then have "(of_char (char_of ((of_char c :: nat) + 32) :: char) :: nat) = of_char c + 32"
    by simp
  with True show ?thesis by (simp add: is_upper_def to_lower_char_def Let_def)
next
  case False
  then show ?thesis by (auto simp: is_upper_def to_lower_char_def Let_def)
qed

lemma to_lower_char_id: "\<not> is_upper c \<Longrightarrow> to_lower_char c = c"
  by (auto simp: is_upper_def to_lower_char_def Let_def)

text \<open>\<^verbatim>\<open>strconv.Itoa\<close>\<close>

fun nat_digits :: "nat \<Rightarrow> string" where
  "nat_digits n =
     (if n < 10 then [char_of (48 + n)] else nat_digits (n div 10) @ [char_of (48 + n mod 10)])"

declare nat_digits.simps [simp del]

definition itoa :: "int \<Rightarrow> string" where
  "itoa i = (if i < 0 then CHR ''-'' # nat_digits (nat (- i)) else nat_digits (nat i))"

section \<open>Times and durations\<close>

text \<open>
  A \<^verbatim>\<open>time.Time\<close> is the number of nanoseconds since the zero time (year 1); a
  \<^verbatim>\<open>time.Duration\<close> is a signed 64-bit number of nanoseconds, and \<^verbatim>\<open>Time.Sub\<close> saturates at its
  bounds.
\<close>

type_synonym time = int
type_synonym duration = int

abbreviation IsZero :: "time \<Rightarrow> bool" where
  "IsZero t \<equiv> t = 0"

definition second :: duration where
  "second = 1000000000"

definition min_duration :: duration where
  "min_duration = - (2 ^ 63)"

definition max_duration :: duration where
  "max_duration = 2 ^ 63 - 1"

definition time_sub :: "time \<Rightarrow> time \<Rightarrow> duration" where
  "time_sub a b = max min_duration (min max_duration (a - b))"

lemma time_sub_bounds: "min_duration \<le> time_sub a b \<and> time_sub a b \<le> max_duration"
  by (auto simp: time_sub_def min_duration_def max_duration_def)

lemma time_sub_nonneg_iff: "0 \<le> time_sub a b \<longleftrightarrow> b \<le> a"
  by (auto simp: time_sub_def min_duration_def max_duration_def max_def min_def)

text \<open>\<^verbatim>\<open>int64\<close> arithmetic on durations wraps.\<close>

definition wrap64 :: "int \<Rightarrow> int" where
  "wrap64 i = (i + 2 ^ 63) mod 2 ^ 64 - 2 ^ 63"

lemma wrap64_id: "- (2 ^ 63) \<le> i \<Longrightarrow> i < 2 ^ 63 \<Longrightarrow> wrap64 i = i"
  by (simp add: wrap64_def)

lemma wrap64_bounds: "- (2 ^ 63) \<le> wrap64 i \<and> wrap64 i < 2 ^ 63"
proof -
  have "0 \<le> (i + 2 ^ 63) mod 2 ^ 64" "(i + 2 ^ 63) mod 2 ^ 64 < 2 ^ 64" by simp_all
  then show ?thesis by (simp add: wrap64_def)
qed

section \<open>Errors\<close>

text \<open>
  An error of the API server (the not-found reason apart from every other one), an error that
  wraps another (\<^verbatim>\<open>fmt.Errorf\<close> with \<^verbatim>\<open>%w\<close>), a plain message, or one of the sentinel errors of
  \<^verbatim>\<open>controllers/errors/errors.go\<close> by its name.
\<close>

datatype error =
    ApiNotFound string
  | ApiError string
  | Wrapped string error
  | Message string
  | Sentinel string

fun error_string :: "error \<Rightarrow> string" where
  "error_string (ApiNotFound m) = m"
| "error_string (ApiError m) = m"
| "error_string (Wrapped p e) = p @ error_string e"
| "error_string (Message m) = m"
| "error_string (Sentinel m) = m"

text \<open>\<^verbatim>\<open>apierrors.IsNotFound\<close> looks through wrapped errors.\<close>

fun IsNotFound :: "error \<Rightarrow> bool" where
  "IsNotFound (ApiNotFound _) = True"
| "IsNotFound (Wrapped _ e) = IsNotFound e"
| "IsNotFound _ = False"

text \<open>\<^verbatim>\<open>errors.Is\<close> against a sentinel, also through wrapped errors.\<close>

fun error_is :: "error \<Rightarrow> error \<Rightarrow> bool" where
  "error_is (Wrapped p e) t = (Wrapped p e = t \<or> error_is e t)"
| "error_is e t = (e = t)"

section \<open>The state monad\<close>

text \<open>
  Controllers are written in the state monad of the library.  \<^term>\<open>State_Monad.return\<close> is a
  qualified name there; the abbreviation keeps the models readable.
\<close>

abbreviation ret :: "'a \<Rightarrow> ('s, 'a) state" where
  "ret \<equiv> State_Monad.return"

abbreviation modify :: "('s \<Rightarrow> 's) \<Rightarrow> ('s, unit) state" where
  "modify \<equiv> State_Monad.update"

lemma run_modify [simp]: "run_state (modify f) s = ((), f s)"
  by (simp add: State_Monad.update_def)

subsection \<open>Hoare triples\<close>

text \<open>
  \<open>valid P m Q\<close>: from a state satisfying \<open>P\<close>, the program \<open>m\<close> ends in a result and a state
  related by \<open>Q\<close>.  Programs of the monad are total, so this is total correctness.
\<close>

definition valid :: "('s \<Rightarrow> bool) \<Rightarrow> ('s, 'a) state \<Rightarrow> ('a \<Rightarrow> 's \<Rightarrow> bool) \<Rightarrow> bool" where
  "valid P m Q \<longleftrightarrow> (\<forall>s. P s \<longrightarrow> (case run_state m s of (r, s') \<Rightarrow> Q r s'))"

lemma validI: "(\<And>s r s'. P s \<Longrightarrow> run_state m s = (r, s') \<Longrightarrow> Q r s') \<Longrightarrow> valid P m Q"
  by (auto simp: valid_def)

lemma validD: "valid P m Q \<Longrightarrow> P s \<Longrightarrow> run_state m s = (r, s') \<Longrightarrow> Q r s'"
  by (auto simp: valid_def)

lemma valid_return [wp]: "valid (Q x) (ret x) Q"
  by (simp add: valid_def)

lemma valid_modify [wp]: "valid (\<lambda>s. Q () (f s)) (modify f) Q"
  by (simp add: valid_def)

lemma valid_bind [wp]:
  assumes "\<And>x. valid (R x) (f x) Q" and "valid P m R"
  shows "valid P (State_Monad.bind m f) Q"
  using assms by (fastforce simp: valid_def split: prod.splits)

lemma valid_weaken:
  assumes "valid P' m Q'" and "\<And>s. P s \<Longrightarrow> P' s" and "\<And>r s. Q' r s \<Longrightarrow> Q r s"
  shows "valid P m Q"
  using assms by (fastforce simp: valid_def split: prod.splits)

lemma valid_pre: "valid P' m Q \<Longrightarrow> (\<And>s. P s \<Longrightarrow> P' s) \<Longrightarrow> valid P m Q"
  by (erule valid_weaken) auto

lemma valid_post: "valid P m Q' \<Longrightarrow> (\<And>r s. Q' r s \<Longrightarrow> Q r s) \<Longrightarrow> valid P m Q"
  by (erule valid_weaken) auto

lemma valid_conj: "valid P m Q \<Longrightarrow> valid P m R \<Longrightarrow> valid P m (\<lambda>r s. Q r s \<and> R r s)"
  by (auto simp: valid_def split: prod.splits)

lemma valid_if [wp]:
  assumes "b \<Longrightarrow> valid P m Q" and "\<not> b \<Longrightarrow> valid P' n Q"
  shows "valid (\<lambda>s. if b then P s else P' s) (if b then m else n) Q"
  using assms by simp

lemma valid_case_sum:
  assumes "\<And>x. e = Inl x \<Longrightarrow> valid P (f x) Q" and "\<And>y. e = Inr y \<Longrightarrow> valid P (g y) Q"
  shows "valid P (case e of Inl x \<Rightarrow> f x | Inr y \<Rightarrow> g y) Q"
  using assms by (cases e) auto

lemma valid_case_option:
  assumes "e = None \<Longrightarrow> valid P f Q" and "\<And>y. e = Some y \<Longrightarrow> valid P (g y) Q"
  shows "valid P (case e of None \<Rightarrow> f | Some y \<Rightarrow> g y) Q"
  using assms by (cases e) auto

lemma valid_True: "valid P m (\<lambda>_ _. True)"
  by (auto simp: valid_def split: prod.splits)

end
