(* ===== verification/Names.thy ===== *)
theory Names
  imports Prelude "HOL-Library.Sublist"
begin

text \<open>
  The names of the objects Keptn creates: \<^verbatim>\<open>lifecycle-operator/common/common.go\<close>, which shortens
  the parts of a name until it fits the limit of Kubernetes and makes it a legal resource name.
  Lengths are byte lengths; \<^verbatim>\<open>ToLower\<close> acts on ASCII capitals, which is all that label values and
  resource names can hold.
\<close>

section \<open>Model\<close>

text \<open>The first loop: halve the minimal length until every part can keep it.\<close>

function reduce_min :: "nat \<Rightarrow> nat \<Rightarrow> nat \<Rightarrow> nat" where
  "reduce_min parts maxLen minSubstrLen =
     (if maxLen < parts * minSubstrLen then reduce_min parts maxLen (minSubstrLen div 2)
      else minSubstrLen)"
  by pat_completeness auto
termination
  by (relation "measure (\<lambda>(p, l, m). m)") (auto intro!: div_less_dividend gr0I)

declare reduce_min.simps [simp del]

definition sanitizeResourceNameString :: "string \<Rightarrow> string" where
  "sanitizeResourceNameString name = replace_char (CHR ''_'') (CHR ''-'') (to_lower name)"

text \<open>The second loop: \<open>i\<close> is the index of the part looked at, \<open>str\<close> the slice it updates.\<close>

function shorten :: "nat \<Rightarrow> nat \<Rightarrow> nat \<Rightarrow> string list \<Rightarrow> string list" where
  "shorten maxLen minSubstrLen i str =
     (if i + 1 < length str then
        (let newStr = join ''-'' str in
         if maxLen < length newStr then
           if length (str ! i) \<le> minSubstrLen then shorten maxLen minSubstrLen (i + 1) str
           else
             (let cut = length newStr - maxLen in
              if length (str ! i) - minSubstrLen < cut
              then shorten maxLen minSubstrLen (i + 1) (str[i := take minSubstrLen (str ! i)])
              else shorten maxLen minSubstrLen (i + 1)
                     (str[i := take (length (str ! i) - cut) (str ! i)]))
         else str)
      else str)"
  by pat_completeness auto
termination
  by (relation "measure (\<lambda>(l, m, i, s). length s - i)") auto

declare shorten.simps [simp del]

definition CreateResourceName :: "nat \<Rightarrow> nat \<Rightarrow> string list \<Rightarrow> string" where
  "CreateResourceName maxLen minSubstrLen str =
     sanitizeResourceNameString
       (join ''-'' (shorten maxLen (reduce_min (length str) maxLen minSubstrLen) 0 str))"

section \<open>Properties\<close>

text \<open>The reduced minimum fits all parts and is never larger than the one asked for.\<close>

lemma reduce_min_fits: "n * reduce_min n l m \<le> l"
  by (induction n l m rule: reduce_min.induct) (subst reduce_min.simps, auto)

lemma reduce_min_le: "reduce_min n l m \<le> m"
proof (induction n l m rule: reduce_min.induct)
  case (1 n l m)
  then show ?case
    by (subst reduce_min.simps) (auto intro: order_trans)
qed

lemma reduce_min_id: "n * m \<le> l \<Longrightarrow> reduce_min n l m = m"
  by (subst reduce_min.simps) simp

lemma length_sanitize [simp]: "length (sanitizeResourceNameString s) = length s"
  by (simp add: sanitizeResourceNameString_def)

text \<open>
  The body of the loop in one equation: the part at \<open>i\<close> keeps \<open>kept\<close> bytes of it.
\<close>

definition kept :: "nat \<Rightarrow> nat \<Rightarrow> nat \<Rightarrow> nat \<Rightarrow> nat" where
  "kept l m t n = (if n \<le> m then n else max m (n - (t - l)))"

lemma kept_bounds: "kept l m t n \<le> n" "min m n \<le> kept l m t n"
  by (auto simp: kept_def)

lemma kept_arith:
  assumes "l < t" and "n \<le> t"
  shows "(if t - (n - kept l m t n) \<le> l then t - (n - kept l m t n)
      else max l (t - (n - kept l m t n) - S)) = max l (t - ((n - m) + S))"
proof -
  consider "n \<le> m" | "m < n" "n - m < t - l" | "m < n" "t - l \<le> n - m"
    by linarith
  then show ?thesis
  proof cases
    case 1
    with assms show ?thesis by (simp add: kept_def)
  next
    case 2
    then have "kept l m t n = m" by (simp add: kept_def)
    with 2 assms show ?thesis by simp
  next
    case 3
    with assms have "t - (n - kept l m t n) = l" by (simp add: kept_def)
    with 3 assms show ?thesis by simp
  qed
qed

lemma shorten_stop: "\<not> (i + 1 < length str \<and> l < length (join ''-'' str)) \<Longrightarrow> shorten l m i str = str"
  by (auto simp: shorten.simps [of l m i str] Let_def)

lemma shorten_step:
  assumes "i + 1 < length str" and "l < length (join ''-'' str)"
  shows "shorten l m i str =
    shorten l m (Suc i)
      (str[i := take (kept l m (length (join ''-'' str)) (length (str ! i))) (str ! i)])"
proof -
  let ?n = "length (str ! i)" and ?cut = "length (join ''-'' str) - l"
  have "take (kept l m (length (join ''-'' str)) ?n) (str ! i) =
    (if ?n \<le> m then str ! i else if ?n - m < ?cut then take m (str ! i) else take (?n - ?cut) (str ! i))"
    by (auto simp: kept_def max_def)
  with assms show ?thesis
    by (simp add: shorten.simps [of l m i str] Let_def)
qed

lemma length_shorten [simp]: "length (shorten l m i str) = length str"
proof (induction "length str - i" arbitrary: i str rule: less_induct)
  case less
  show ?case
  proof (cases "i + 1 < length str \<and> l < length (join ''-'' str)")
    case True
    then have "length str - Suc i < length str - i" by linarith
    with less True show ?thesis by (simp add: shorten_step)
  qed (simp add: shorten_stop)
qed

text \<open>Lengths of a joined name whose part at \<open>i\<close> is replaced.\<close>

lemma sum_list_length_update:
  "i < length str \<Longrightarrow>
   sum_list (map length (str[i := s])) + length (str ! i) = sum_list (map length str) + length s"
proof (induction str arbitrary: i)
  case (Cons a str)
  then show ?case by (cases i) auto
qed simp

lemma length_join_update:
  assumes "i < length str"
  shows "length (join sep (str[i := s])) + length (str ! i) = length (join sep str) + length s"
proof -
  from assms have "str \<noteq> []" "str[i := s] \<noteq> []" by auto
  with sum_list_length_update [OF assms, of s] show ?thesis
    by (simp add: length_join)
qed

text \<open>
  What the loop can still save from index \<open>i\<close> on: every part but the last may shrink to the
  minimum.
\<close>

definition savings :: "nat \<Rightarrow> nat \<Rightarrow> string list \<Rightarrow> nat" where
  "savings m i str = (\<Sum>j = i..<length str - 1. length (str ! j) - m)"

lemma savings_step:
  "i + 1 < length str \<Longrightarrow> savings m i str = (length (str ! i) - m) + savings m (Suc i) str"
  by (simp add: savings_def sum.atLeast_Suc_lessThan)

lemma savings_update [simp]: "savings m (Suc i) (str[i := s]) = savings m (Suc i) str"
  by (simp add: savings_def)

lemma savings_end: "\<not> i + 1 < length str \<Longrightarrow> savings m i str = 0"
  by (simp add: savings_def)

lemma shorten_length:
  "length (join ''-'' (shorten l m i str)) =
     (let t = length (join ''-'' str) in if t \<le> l then t else max l (t - savings m i str))"
proof (induction "length str - i" arbitrary: i str rule: less_induct)
  case less
  let ?t = "length (join ''-'' str)"
  show ?case
  proof (cases "i + 1 < length str \<and> l < ?t")
    case False
    then show ?thesis by (auto simp: shorten_stop Let_def savings_end)
  next
    case True
    let ?n = "length (str ! i)"
    let ?k = "kept l m ?t ?n"
    let ?str = "str[i := take ?k (str ! i)]"
    have "length (join ''-'' ?str) = ?t - (?n - ?k)"
      using length_join_update [of i str "''-''" "take ?k (str ! i)"] True kept_bounds(1) [of l m ?t ?n]
      by simp
    moreover have "length (join ''-'' (shorten l m (Suc i) ?str)) =
      (let t = length (join ''-'' ?str) in if t \<le> l then t else max l (t - savings m (Suc i) ?str))"
      using True by (intro less) (simp, linarith)
    moreover have "savings m i str = (?n - m) + savings m (Suc i) str"
      using True by (intro savings_step) simp
    moreover have "?n \<le> ?t"
      using length_join_update [of i str "''-''" "[]"] True by simp
    ultimately have "length (join ''-'' (shorten l m i str)) = max l (?t - savings m i str)"
      using True kept_arith [of l ?t ?n m "savings m (Suc i) str"]
      by (simp only: shorten_step savings_update Let_def simp_thms)
    with True show ?thesis by simp
  qed
qed

lemma shorten_fits: "length (join ''-'' str) \<le> l \<Longrightarrow> shorten l m i str = str"
  by (subst shorten.simps) (simp add: Let_def)

text \<open>Every part stays a prefix of at least the minimal length, and the last one stays whole.\<close>

definition part_of :: "nat \<Rightarrow> string \<Rightarrow> string \<Rightarrow> bool" where
  "part_of m p s \<longleftrightarrow> prefix p s \<and> min m (length s) \<le> length p"

lemma part_of_refl [simp]: "part_of m s s"
  by (simp add: part_of_def)

lemma part_of_take: "min m (length s) \<le> k \<Longrightarrow> part_of m (take k s) s"
  by (auto simp: part_of_def take_is_prefix)

lemma list_all2_part_of_update:
  assumes "list_all2 (part_of m) ys (str[i := s])" and "i < length str"
    and "ys ! i = s" and "part_of m s (str ! i)"
  shows "list_all2 (part_of m) ys str"
proof (rule list_all2_all_nthI)
  show len: "length ys = length str"
    using list_all2_lengthD [OF assms(1)] by simp
  fix n assume n: "n < length ys"
  then show "part_of m (ys ! n) (str ! n)"
    using list_all2_nthD [OF assms(1) n] assms(2-4) by (cases "n = i") auto
qed

lemma shorten_parts_all:
  "list_all2 (part_of m) (shorten l m i str) str
   \<and> (\<forall>j<i. shorten l m i str ! j = str ! j) \<and> last (shorten l m i str) = last str"
proof (induction "length str - i" arbitrary: i str rule: less_induct)
  case less
  let ?t = "length (join ''-'' str)"
  show ?case
  proof (cases "i + 1 < length str \<and> l < ?t")
    case False
    then show ?thesis by (simp add: shorten_stop list_all2_refl)
  next
    case True
    let ?s = "take (kept l m ?t (length (str ! i))) (str ! i)"
    let ?ys = "shorten l m (Suc i) (str[i := ?s])"
    have ih: "list_all2 (part_of m) ?ys (str[i := ?s])"
      "\<forall>j<Suc i. ?ys ! j = str[i := ?s] ! j" "last ?ys = last (str[i := ?s])"
      using less [of "str[i := ?s]" "Suc i"] diff_less_mono2 [of i "Suc i" "length str"] True by auto
    have "list_all2 (part_of m) ?ys str"
    proof (rule list_all2_part_of_update [OF ih(1)])
      show "i < length str" "?ys ! i = ?s"
        using ih(2) True by simp_all
      show "part_of m ?s (str ! i)"
        by (intro part_of_take kept_bounds)
    qed
    moreover have "last (str[i := ?s]) = last str"
      using True by (subst last_list_update) auto
    ultimately show ?thesis
      using ih True by (simp add: shorten_step)
  qed
qed

lemmas shorten_parts = shorten_parts_all [THEN conjunct1]
lemmas shorten_last = shorten_parts_all [THEN conjunct2, THEN conjunct2]

lemma length_CreateResourceName:
  "length (CreateResourceName l m str) =
     (let t = length (join ''-'' str) in
      if t \<le> l then t else max l (t - savings (reduce_min (length str) l m) 0 str))"
  by (simp add: CreateResourceName_def shorten_length)

lemma sanitize_legal:
  "c \<in> set (sanitizeResourceNameString s) \<Longrightarrow> c \<noteq> CHR ''_'' \<and> \<not> is_upper c"
  using to_lower_char_not_upper is_upper_def
  by (auto simp: sanitizeResourceNameString_def replace_char_def to_lower_def split: if_splits)

lemma sanitize_id:
  assumes "\<And>c. c \<in> set s \<Longrightarrow> c \<noteq> CHR ''_'' \<and> \<not> is_upper c"
  shows "sanitizeResourceNameString s = s"
  using assms
  by (induction s) (auto simp: sanitizeResourceNameString_def replace_char_def to_lower_def
      to_lower_char_id)

end
