(* ===== verification/Hashes.thy ===== *)
theory Hashes
  imports Prelude "HOL-Library.Word"
begin

text \<open>
  The two hash functions of the Go standard library that name and version Keptn objects:
  \<^verbatim>\<open>crypto/sha256\<close> (FIPS 180-4), used for the suffix of a KeptnAppVersion name and for the version
  of an automatically created KeptnApp, and \<^verbatim>\<open>hash/fnv\<close> (\<^verbatim>\<open>New32a\<close>), used for the version of a
  workload without a version annotation.  Both work on 32-bit words with wrap-around.
\<close>

unbundle bit_operations_syntax

type_synonym u32 = "32 word"

section \<open>SHA-256\<close>

definition sha_k :: "u32 list" where
  "sha_k =
    [1116352408, 1899447441, 3049323471, 3921009573, 961987163, 1508970993, 2453635748, 2870763221,
     3624381080, 310598401, 607225278, 1426881987, 1925078388, 2162078206, 2614888103, 3248222580,
     3835390401, 4022224774, 264347078, 604807628, 770255983, 1249150122, 1555081692, 1996064986,
     2554220882, 2821834349, 2952996808, 3210313671, 3336571891, 3584528711, 113926993, 338241895,
     666307205, 773529912, 1294757372, 1396182291, 1695183700, 1986661051, 2177026350, 2456956037,
     2730485921, 2820302411, 3259730800, 3345764771, 3516065817, 3600352804, 4094571909, 275423344,
     430227734, 506948616, 659060556, 883997877, 958139571, 1322822218, 1537002063, 1747873779,
     1955562222, 2024104815, 2227730452, 2361852424, 2428436474, 2756734187, 3204031479, 3329325298]"

type_synonym sha_state = "u32 \<times> u32 \<times> u32 \<times> u32 \<times> u32 \<times> u32 \<times> u32 \<times> u32"

definition sha_init :: sha_state where
  "sha_init = (1779033703, 3144134277, 1013904242, 2773480762,
               1359893119, 2600822924, 528734635, 1541459225)"

text \<open>Bytes as words, the padding to a multiple of 64 bytes, and the 16 words of a block.\<close>

definition bytes_of :: "string \<Rightarrow> u32 list" where
  "bytes_of s = map (\<lambda>c. word_of_nat (of_char c)) s"

definition len_bytes :: "nat \<Rightarrow> u32 list" where
  "len_bytes n = map (\<lambda>i. word_of_nat (8 * n div 256 ^ i mod 256)) (rev [0..<8])"

definition sha_pad :: "u32 list \<Rightarrow> u32 list" where
  "sha_pad bs =
     bs @ 0x80 # replicate ((119 - length bs mod 64) mod 64) 0 @ len_bytes (length bs)"

fun words_of :: "u32 list \<Rightarrow> u32 list" where
  "words_of (a # b # c # d # bs) =
     (push_bit 24 a OR push_bit 16 b OR push_bit 8 c OR d) # words_of bs"
| "words_of _ = []"

primrec sha_schedule :: "nat \<Rightarrow> u32 list \<Rightarrow> u32 list" where
  "sha_schedule 0 ws = ws"
| "sha_schedule (Suc n) ws =
     (let l = length ws; x = ws ! (l - 15); y = ws ! (l - 2);
          s0 = word_rotr 7 x XOR word_rotr 18 x XOR drop_bit 3 x;
          s1 = word_rotr 17 y XOR word_rotr 19 y XOR drop_bit 10 y
      in sha_schedule n (ws @ [ws ! (l - 16) + s0 + ws ! (l - 7) + s1]))"

fun sha_round :: "u32 \<times> u32 \<Rightarrow> sha_state \<Rightarrow> sha_state" where
  "sha_round (k, w) (a, b, c, d, e, f, g, h) =
     (let s1 = word_rotr 6 e XOR word_rotr 11 e XOR word_rotr 25 e;
          ch = (e AND f) XOR (NOT e AND g);
          t1 = h + s1 + ch + k + w;
          s0 = word_rotr 2 a XOR word_rotr 13 a XOR word_rotr 22 a;
          maj = (a AND b) XOR (a AND c) XOR (b AND c)
      in (t1 + s0 + maj, a, b, c, d + t1, e, f, g))"

fun sha_add :: "sha_state \<Rightarrow> sha_state \<Rightarrow> sha_state" where
  "sha_add (a, b, c, d, e, f, g, h) (a', b', c', d', e', f', g', h') =
     (a + a', b + b', c + c', d + d', e + e', f + f', g + g', h + h')"

definition sha_block :: "u32 list \<Rightarrow> sha_state \<Rightarrow> sha_state" where
  "sha_block ws st = sha_add st (fold sha_round (zip sha_k (sha_schedule 48 ws)) st)"

fun sha_blocks :: "nat \<Rightarrow> u32 list \<Rightarrow> sha_state \<Rightarrow> sha_state" where
  "sha_blocks 0 ws st = st"
| "sha_blocks (Suc n) ws st = sha_blocks n (drop 16 ws) (sha_block (take 16 ws) st)"

definition hex_digit :: "nat \<Rightarrow> char" where
  "hex_digit n = (if n < 10 then char_of (48 + n) else char_of (87 + n))"

definition hex_word :: "u32 \<Rightarrow> string" where
  "hex_word w = map (\<lambda>i. hex_digit (nat (uint w div 16 ^ i mod 16))) (rev [0..<8])"

text \<open>The digest in hexadecimal: 64 digits, the first 8 being its first 4 bytes.\<close>

definition sha256_hex :: "string \<Rightarrow> string" where
  "sha256_hex s =
     (let ws = words_of (sha_pad (bytes_of s));
          (a, b, c, d, e, f, g, h) = sha_blocks (length ws div 16) ws sha_init
      in concat (map hex_word [a, b, c, d, e, f, g, h]))"

lemma length_hex_word [simp]: "length (hex_word w) = 8"
  by (simp add: hex_word_def)

lemma length_sha256_hex [simp]: "length (sha256_hex s) = 64"
  by (simp add: sha256_hex_def Let_def split: prod.splits)

lemma hex_digit_legal:
  assumes "n < 16"
  shows "hex_digit n \<in> set ''0123456789abcdef''"
proof -
  have "list_all (\<lambda>n. hex_digit n \<in> set ''0123456789abcdef'') [0..<16]"
    by code_simp
  with assms show ?thesis by (simp only: list_all_iff set_upt) simp
qed

lemma set_hex_word: "set (hex_word w) \<subseteq> set ''0123456789abcdef''"
  unfolding hex_word_def set_map by (intro image_subsetI hex_digit_legal) simp

lemma set_sha256_hex: "set (sha256_hex s) \<subseteq> set ''0123456789abcdef''"
proof -
  have "set (concat (map hex_word ws)) \<subseteq> set ''0123456789abcdef''" for ws
    using set_hex_word by (induction ws) (simp_all only: list.map concat.simps set_append Un_subset_iff
        list.set(1) empty_subsetI simp_thms)
  then show ?thesis
    unfolding sha256_hex_def Let_def by (simp only: split: prod.splits) blast
qed

section \<open>FNV-1a, 32 bits\<close>

definition fnv32a :: "string \<Rightarrow> u32" where
  "fnv32a s = fold (\<lambda>b h. (h XOR b) * 16777619) (bytes_of s) 2166136261"

lemma fnv32a_Nil: "fnv32a [] = 2166136261"
  by (simp add: fnv32a_def bytes_of_def)

lemma fnv32a_snoc: "fnv32a (s @ [c]) = (fnv32a s XOR word_of_nat (of_char c)) * 16777619"
  by (simp add: fnv32a_def bytes_of_def)

end
