(* ===== verification/Keptn_Common.thy ===== *)
theory Keptn_Common
  imports Names Hashes
begin

text \<open>
  The package \<^verbatim>\<open>lifecycle-operator/apis/lifecycle/v1/common\<close>: annotation keys, the states of a
  phase or item and their summary, check types, phases, the helpers that derive names and merge
  maps.
\<close>

named_theorems phase_defs \<open>the phases, as pairs of a long and a short name\<close>
named_theorems state_defs \<open>the predicates on states\<close>

section \<open>Constants\<close>

abbreviation WorkloadAnnotation :: string where
  "WorkloadAnnotation \<equiv> ''keptn.sh/workload''"

abbreviation VersionAnnotation :: string where
  "VersionAnnotation \<equiv> ''keptn.sh/version''"

abbreviation AppAnnotation :: string where
  "AppAnnotation \<equiv> ''keptn.sh/app''"

abbreviation PreDeploymentTaskAnnotation :: string where
  "PreDeploymentTaskAnnotation \<equiv> ''keptn.sh/pre-deployment-tasks''"

abbreviation PostDeploymentTaskAnnotation :: string where
  "PostDeploymentTaskAnnotation \<equiv> ''keptn.sh/post-deployment-tasks''"

abbreviation K8sRecommendedWorkloadAnnotations :: string where
  "K8sRecommendedWorkloadAnnotations \<equiv> ''app.kubernetes.io/name''"

abbreviation K8sRecommendedVersionAnnotations :: string where
  "K8sRecommendedVersionAnnotations \<equiv> ''app.kubernetes.io/version''"

abbreviation K8sRecommendedAppAnnotations :: string where
  "K8sRecommendedAppAnnotations \<equiv> ''app.kubernetes.io/part-of''"

abbreviation K8sRecommendedManagedByAnnotations :: string where
  "K8sRecommendedManagedByAnnotations \<equiv> ''app.kubernetes.io/managed-by''"

abbreviation PreDeploymentEvaluationAnnotation :: string where
  "PreDeploymentEvaluationAnnotation \<equiv> ''keptn.sh/pre-deployment-evaluations''"

abbreviation PostDeploymentEvaluationAnnotation :: string where
  "PostDeploymentEvaluationAnnotation \<equiv> ''keptn.sh/post-deployment-evaluations''"

abbreviation SchedulingGateRemoved :: string where
  "SchedulingGateRemoved \<equiv> ''keptn.sh/scheduling-gate-removed''"

abbreviation TaskNameAnnotation :: string where
  "TaskNameAnnotation \<equiv> ''keptn.sh/task-name''"

abbreviation NamespaceEnabledAnnotation :: string where
  "NamespaceEnabledAnnotation \<equiv> ''keptn.sh/lifecycle-toolkit''"

abbreviation CreateAppTaskSpanName :: string where
  "CreateAppTaskSpanName \<equiv> ''create_%s_app_task''"

abbreviation CreateWorkloadTaskSpanName :: string where
  "CreateWorkloadTaskSpanName \<equiv> ''create_%s_deployment_task''"

abbreviation CreateAppEvalSpanName :: string where
  "CreateAppEvalSpanName \<equiv> ''create_%s_app_evaluation''"

abbreviation CreateWorkloadEvalSpanName :: string where
  "CreateWorkloadEvalSpanName \<equiv> ''create_%s_deployment_evaluation''"

abbreviation AppTypeAnnotation :: string where
  "AppTypeAnnotation \<equiv> ''keptn.sh/app-type''"

abbreviation KeptnGate :: string where
  "KeptnGate \<equiv> ''keptn-prechecks-gate''"

abbreviation ContainerNameAnnotation :: string where
  "ContainerNameAnnotation \<equiv> ''keptn.sh/container''"

abbreviation MetadataAnnotation :: string where
  "MetadataAnnotation \<equiv> ''keptn.sh/metadata''"

abbreviation MinKeptnNameLen :: nat where
  "MinKeptnNameLen \<equiv> 80"

abbreviation MaxK8sObjectLength :: nat where
  "MaxK8sObjectLength \<equiv> 253"

abbreviation AppTypeSingleService :: string where
  "AppTypeSingleService \<equiv> ''single-service''"

abbreviation AppTypeMultiService :: string where
  "AppTypeMultiService \<equiv> ''multi-service''"

section \<open>States\<close>

text \<open>
  A \<^verbatim>\<open>KeptnState\<close> is a string; the seven named values get a constructor each, and any other
  string (the zero value is the empty one) is kept as it is.
\<close>

datatype KeptnState =
    StateProgressing
  | StateSucceeded
  | StateFailed
  | StateUnknown
  | StatePending
  | StateDeprecated
  | StateWarning
  | StateOther string

abbreviation StateEmpty :: KeptnState where
  "StateEmpty \<equiv> StateOther []"

fun state_string :: "KeptnState \<Rightarrow> string" where
  "state_string StateProgressing = ''Progressing''"
| "state_string StateSucceeded = ''Succeeded''"
| "state_string StateFailed = ''Failed''"
| "state_string StateUnknown = ''Unknown''"
| "state_string StatePending = ''Pending''"
| "state_string StateDeprecated = ''Deprecated''"
| "state_string StateWarning = ''Warning''"
| "state_string (StateOther s) = s"

definition IsCompleted :: "KeptnState \<Rightarrow> bool" where
  [state_defs]: "IsCompleted k \<longleftrightarrow>
     k = StateSucceeded \<or> k = StateFailed \<or> k = StateDeprecated \<or> k = StateWarning"

definition IsSucceeded :: "KeptnState \<Rightarrow> bool" where
  [state_defs]: "IsSucceeded k \<longleftrightarrow> k = StateSucceeded"

definition IsFailed :: "KeptnState \<Rightarrow> bool" where
  [state_defs]: "IsFailed k \<longleftrightarrow> k = StateFailed"

definition IsDeprecated :: "KeptnState \<Rightarrow> bool" where
  [state_defs]: "IsDeprecated k \<longleftrightarrow> k = StateDeprecated"

definition IsPending :: "KeptnState \<Rightarrow> bool" where
  [state_defs]: "IsPending k \<longleftrightarrow> k = StatePending"

definition IsWarning :: "KeptnState \<Rightarrow> bool" where
  [state_defs]: "IsWarning k \<longleftrightarrow> k = StateWarning"

record StatusSummary =
  Total :: int
  Progressing :: int
  Failed :: int
  Succeeded :: int
  Pending :: int
  Unknown :: int
  Deprecated :: int

text \<open>The composite literal \<^verbatim>\<open>StatusSummary{Total: n}\<close>.\<close>

definition new_summary :: "int \<Rightarrow> StatusSummary" where
  "new_summary n = \<lparr>Total = n, Progressing = 0, Failed = 0, Succeeded = 0, Pending = 0,
     Unknown = 0, Deprecated = 0\<rparr>"

fun UpdateStatusSummary :: "KeptnState \<Rightarrow> StatusSummary \<Rightarrow> StatusSummary" where
  "UpdateStatusSummary StateFailed s = s\<lparr>Failed := Failed s + 1\<rparr>"
| "UpdateStatusSummary StateDeprecated s = s\<lparr>Deprecated := Deprecated s + 1\<rparr>"
| "UpdateStatusSummary StateSucceeded s = s\<lparr>Succeeded := Succeeded s + 1\<rparr>"
| "UpdateStatusSummary StateProgressing s = s\<lparr>Progressing := Progressing s + 1\<rparr>"
| "UpdateStatusSummary StatePending s = s\<lparr>Pending := Pending s + 1\<rparr>"
| "UpdateStatusSummary StateUnknown s = s\<lparr>Unknown := Unknown s + 1\<rparr>"
| "UpdateStatusSummary StateWarning s = s"
| "UpdateStatusSummary (StateOther t) s = (if t = [] then s\<lparr>Pending := Pending s + 1\<rparr> else s)"

definition GetTotalCount :: "StatusSummary \<Rightarrow> int" where
  "GetTotalCount s =
     Failed s + Succeeded s + Progressing s + Pending s + Unknown s + Deprecated s"

definition GetOverallState :: "StatusSummary \<Rightarrow> KeptnState" where
  "GetOverallState s =
     (if Failed s > 0 \<or> Deprecated s > 0 then StateFailed
      else if Progressing s > 0 then StateProgressing
      else if Pending s > 0 then StatePending
      else if Unknown s > 0 then StateUnknown
      else if GetTotalCount s \<noteq> Total s then StatePending
      else StateSucceeded)"

definition GetOverallStateBlockedDeployment :: "StatusSummary \<Rightarrow> bool \<Rightarrow> KeptnState" where
  "GetOverallStateBlockedDeployment s blockedDeployment =
     (let state = GetOverallState s in
      if \<not> blockedDeployment \<and> state = StateFailed then StateWarning else state)"

section \<open>Check types, attribute keys and names\<close>

definition TruncateString :: "string \<Rightarrow> nat \<Rightarrow> string" where
  "TruncateString s n = (if length s > n then take n s else s)"

text \<open>The first four bytes of the digest are its first eight hexadecimal digits.\<close>

definition Hash :: "int \<Rightarrow> string" where
  "Hash num = take 8 (sha256_hex (itoa num))"

type_synonym CheckType = string

abbreviation PreDeploymentCheckType :: CheckType where
  "PreDeploymentCheckType \<equiv> ''pre''"

abbreviation PostDeploymentCheckType :: CheckType where
  "PostDeploymentCheckType \<equiv> ''post''"

abbreviation PromotionCheckType :: CheckType where
  "PromotionCheckType \<equiv> ''promotion''"

abbreviation PreDeploymentEvaluationCheckType :: CheckType where
  "PreDeploymentEvaluationCheckType \<equiv> ''pre-eval''"

abbreviation PostDeploymentEvaluationCheckType :: CheckType where
  "PostDeploymentEvaluationCheckType \<equiv> ''post-eval''"

text \<open>A telemetry attribute is a key with a string value.\<close>

type_synonym KeyValue = "string \<times> string"

abbreviation AppName_key :: string where
  "AppName_key \<equiv> ''keptn.deployment.app.name''"

abbreviation AppVersion_key :: string where
  "AppVersion_key \<equiv> ''keptn.deployment.app.version''"

abbreviation AppNamespace_key :: string where
  "AppNamespace_key \<equiv> ''keptn.deployment.app.namespace''"

abbreviation AppStatus_key :: string where
  "AppStatus_key \<equiv> ''keptn.deployment.app.status''"

abbreviation AppPreviousVersion_key :: string where
  "AppPreviousVersion_key \<equiv> ''keptn.deployment.app.previousversion''"

abbreviation WorkloadName_key :: string where
  "WorkloadName_key \<equiv> ''keptn.deployment.workload.name''"

abbreviation WorkloadVersion_key :: string where
  "WorkloadVersion_key \<equiv> ''keptn.deployment.workload.version''"

abbreviation WorkloadPreviousVersion_key :: string where
  "WorkloadPreviousVersion_key \<equiv> ''keptn.deployment.workload.previousversion''"

abbreviation WorkloadNamespace_key :: string where
  "WorkloadNamespace_key \<equiv> ''keptn.deployment.workload.namespace''"

abbreviation WorkloadStatus_key :: string where
  "WorkloadStatus_key \<equiv> ''keptn.deployment.workload.status''"

abbreviation TaskStatus_key :: string where
  "TaskStatus_key \<equiv> ''keptn.deployment.task.status''"

abbreviation TaskName_key :: string where
  "TaskName_key \<equiv> ''keptn.deployment.task.name''"

abbreviation TaskType_key :: string where
  "TaskType_key \<equiv> ''keptn.deployment.task.type''"

abbreviation EvaluationStatus_key :: string where
  "EvaluationStatus_key \<equiv> ''keptn.deployment.evaluation.status''"

abbreviation EvaluationName_key :: string where
  "EvaluationName_key \<equiv> ''keptn.deployment.evaluation.name''"

abbreviation EvaluationType_key :: string where
  "EvaluationType_key \<equiv> ''keptn.deployment.evaluation.type''"

text \<open>
  \<^verbatim>\<open>rand.Intn(89999)\<close> is the argument \<open>intn\<close>: a random source is outside the program, its result
  lies in \<open>{0..<89999}\<close>.
\<close>

definition random_id :: "nat \<Rightarrow> string" where
  "random_id intn = itoa (int intn + 10000)"

definition GenerateTaskName :: "nat \<Rightarrow> CheckType \<Rightarrow> string \<Rightarrow> string" where
  "GenerateTaskName intn checkType taskName =
     CreateResourceName MaxK8sObjectLength MinKeptnNameLen [checkType, taskName, random_id intn]"

definition GenerateJobName :: "nat \<Rightarrow> string \<Rightarrow> string" where
  "GenerateJobName intn taskName =
     CreateResourceName MaxK8sObjectLength MinKeptnNameLen [taskName, random_id intn]"

definition GenerateEvaluationName :: "nat \<Rightarrow> CheckType \<Rightarrow> string \<Rightarrow> string" where
  "GenerateEvaluationName intn checkType evalName =
     CreateResourceName MaxK8sObjectLength MinKeptnNameLen [checkType, evalName, random_id intn]"

definition MergeMaps :: "smap \<Rightarrow> smap \<Rightarrow> smap" where
  "MergeMaps m1 m2 = Some (gm_fmap m1 ++\<^sub>f gm_fmap m2)"

record OwnerReference =
  or_UID :: string
  or_Kind :: string
  or_Name :: string
  or_APIVersion :: string
  or_Controller :: bool

definition IsOwnerSupported :: "OwnerReference \<Rightarrow> bool" where
  "IsOwnerSupported owner \<longleftrightarrow>
     or_Kind owner = ''ReplicaSet'' \<or> or_Kind owner = ''Deployment'' \<or>
     or_Kind owner = ''StatefulSet'' \<or> or_Kind owner = ''DaemonSet'' \<or> or_Kind owner = ''Rollout''"

section \<open>Phases\<close>

record KeptnPhaseType =
  LongName :: string
  ShortName :: string

definition PhaseWorkloadPreDeployment :: KeptnPhaseType where
  [phase_defs]: "PhaseWorkloadPreDeployment =
     \<lparr>LongName = ''Workload Pre-Deployment Tasks'', ShortName = ''WorkloadPreDeployTasks''\<rparr>"

definition PhaseWorkloadPostDeployment :: KeptnPhaseType where
  [phase_defs]: "PhaseWorkloadPostDeployment =
     \<lparr>LongName = ''Workload Post-Deployment Tasks'', ShortName = ''WorkloadPostDeployTasks''\<rparr>"

definition PhaseWorkloadPreEvaluation :: KeptnPhaseType where
  [phase_defs]: "PhaseWorkloadPreEvaluation =
     \<lparr>LongName = ''Workload Pre-Deployment Evaluations'', ShortName = ''WorkloadPreDeployEvaluations''\<rparr>"

definition PhaseWorkloadPostEvaluation :: KeptnPhaseType where
  [phase_defs]: "PhaseWorkloadPostEvaluation =
     \<lparr>LongName = ''Workload Post-Deployment Evaluations'', ShortName = ''WorkloadPostDeployEvaluations''\<rparr>"

definition PhaseWorkloadDeployment :: KeptnPhaseType where
  [phase_defs]: "PhaseWorkloadDeployment =
     \<lparr>LongName = ''Workload Deployment'', ShortName = ''WorkloadDeploy''\<rparr>"

definition PhaseAppPreDeployment :: KeptnPhaseType where
  [phase_defs]: "PhaseAppPreDeployment =
     \<lparr>LongName = ''App Pre-Deployment Tasks'', ShortName = ''AppPreDeployTasks''\<rparr>"

definition PhaseAppPostDeployment :: KeptnPhaseType where
  [phase_defs]: "PhaseAppPostDeployment =
     \<lparr>LongName = ''App Post-Deployment Tasks'', ShortName = ''AppPostDeployTasks''\<rparr>"

definition PhaseAppPreEvaluation :: KeptnPhaseType where
  [phase_defs]: "PhaseAppPreEvaluation =
     \<lparr>LongName = ''App Pre-Deployment Evaluations'', ShortName = ''AppPreDeployEvaluations''\<rparr>"

definition PhaseAppPostEvaluation :: KeptnPhaseType where
  [phase_defs]: "PhaseAppPostEvaluation =
     \<lparr>LongName = ''App Post-Deployment Evaluations'', ShortName = ''AppPostDeployEvaluations''\<rparr>"

definition PhasePromotion :: KeptnPhaseType where
  [phase_defs]: "PhasePromotion =
     \<lparr>LongName = ''Promotion Tasks'', ShortName = ''PromotionTasks''\<rparr>"

definition PhaseAppDeployment :: KeptnPhaseType where
  [phase_defs]: "PhaseAppDeployment =
     \<lparr>LongName = ''App Deployment'', ShortName = ''AppDeploy''\<rparr>"

definition PhaseReconcileEvaluation :: KeptnPhaseType where
  [phase_defs]: "PhaseReconcileEvaluation =
     \<lparr>LongName = ''Reconcile Evaluation'', ShortName = ''ReconcileEvaluation''\<rparr>"

definition PhaseReconcileTask :: KeptnPhaseType where
  [phase_defs]: "PhaseReconcileTask =
     \<lparr>LongName = ''Reconcile Task'', ShortName = ''ReconcileTask''\<rparr>"

definition PhaseReconcileWorkload :: KeptnPhaseType where
  [phase_defs]: "PhaseReconcileWorkload =
     \<lparr>LongName = ''Reconcile Workloads'', ShortName = ''ReconcileWorkload''\<rparr>"

definition PhaseCreateEvaluation :: KeptnPhaseType where
  [phase_defs]: "PhaseCreateEvaluation =
     \<lparr>LongName = ''Create Evaluation'', ShortName = ''CreateEvaluation''\<rparr>"

definition PhaseCreateTask :: KeptnPhaseType where
  [phase_defs]: "PhaseCreateTask =
     \<lparr>LongName = ''Create Task'', ShortName = ''CreateTask''\<rparr>"

definition PhaseCreateAppCreationRequest :: KeptnPhaseType where
  [phase_defs]: "PhaseCreateAppCreationRequest =
     \<lparr>LongName = ''Create AppCreationRequest'', ShortName = ''CreateAppCreationRequest''\<rparr>"

definition PhaseCreateWorkload :: KeptnPhaseType where
  [phase_defs]: "PhaseCreateWorkload =
     \<lparr>LongName = ''Create Workload'', ShortName = ''CreateWorkload''\<rparr>"

definition PhaseUpdateWorkload :: KeptnPhaseType where
  [phase_defs]: "PhaseUpdateWorkload =
     \<lparr>LongName = ''Update Workload'', ShortName = ''UpdateWorkload''\<rparr>"

definition PhaseCreateWorkloadVersion :: KeptnPhaseType where
  [phase_defs]: "PhaseCreateWorkloadVersion =
     \<lparr>LongName = ''Create WorkloadVersion'', ShortName = ''CreateWorkloadVersion''\<rparr>"

definition PhaseCreateAppVersion :: KeptnPhaseType where
  [phase_defs]: "PhaseCreateAppVersion =
     \<lparr>LongName = ''Create AppVersion'', ShortName = ''CreateAppVersion''\<rparr>"

definition PhaseDeprecateAppVersion :: KeptnPhaseType where
  [phase_defs]: "PhaseDeprecateAppVersion =
     \<lparr>LongName = ''Deprecate AppVersion'', ShortName = ''DeprecateAppVersion''\<rparr>"

definition PhaseAppCompleted :: KeptnPhaseType where
  [phase_defs]: "PhaseAppCompleted =
     \<lparr>LongName = ''App Completed'', ShortName = ''AppCompleted''\<rparr>"

definition PhaseWorkloadCompleted :: KeptnPhaseType where
  [phase_defs]: "PhaseWorkloadCompleted =
     \<lparr>LongName = ''Workload Completed'', ShortName = ''WorkloadCompleted''\<rparr>"

definition PhaseCompleted :: KeptnPhaseType where
  [phase_defs]: "PhaseCompleted =
     \<lparr>LongName = ''Completed'', ShortName = ''Completed''\<rparr>"

definition PhaseDeprecated :: KeptnPhaseType where
  [phase_defs]: "PhaseDeprecated =
     \<lparr>LongName = ''Deprecated'', ShortName = ''Deprecated''\<rparr>"

definition phases :: "KeptnPhaseType list" where
  "phases =
    [PhaseWorkloadPreDeployment,
     PhaseWorkloadPostDeployment,
     PhaseWorkloadPreEvaluation,
     PhaseWorkloadPostEvaluation,
     PhaseWorkloadDeployment,
     PhaseAppPreDeployment,
     PhaseAppPostDeployment,
     PhaseAppPreEvaluation,
     PhaseAppPostEvaluation,
     PhasePromotion,
     PhaseAppDeployment,
     PhaseReconcileEvaluation,
     PhaseReconcileTask,
     PhaseReconcileWorkload,
     PhaseUpdateWorkload,
     PhaseCreateEvaluation,
     PhaseCreateTask,
     PhaseCreateAppCreationRequest,
     PhaseCreateWorkload,
     PhaseCreateWorkloadVersion,
     PhaseCreateAppVersion,
     PhaseAppCompleted,
     PhaseWorkloadCompleted,
     PhaseDeprecateAppVersion,
     PhaseDeprecated,
     PhaseAppCompleted]"

definition IsEvaluation :: "KeptnPhaseType \<Rightarrow> bool" where
  "IsEvaluation p \<longleftrightarrow> contains (ShortName p) ''DeployEvaluations''"

definition IsPreEvaluation :: "KeptnPhaseType \<Rightarrow> bool" where
  "IsPreEvaluation p \<longleftrightarrow> contains (ShortName p) ''PreDeployEvaluations''"

definition IsPostEvaluation :: "KeptnPhaseType \<Rightarrow> bool" where
  "IsPostEvaluation p \<longleftrightarrow> contains (ShortName p) ''PostDeployEvaluations''"

definition IsTask :: "KeptnPhaseType \<Rightarrow> bool" where
  "IsTask p \<longleftrightarrow> contains (ShortName p) ''DeployTasks''"

definition IsPreTask :: "KeptnPhaseType \<Rightarrow> bool" where
  "IsPreTask p \<longleftrightarrow> contains (ShortName p) ''PreDeployTasks''"

definition IsPostTask :: "KeptnPhaseType \<Rightarrow> bool" where
  "IsPostTask p \<longleftrightarrow> contains (ShortName p) ''PostDeployTasks''"

definition IsPromotionTask :: "KeptnPhaseType \<Rightarrow> bool" where
  "IsPromotionTask p \<longleftrightarrow> contains (ShortName p) ''PromotionTasks''"

text \<open>The two loops, first over the short names and then over the long ones.\<close>

definition GetShortPhaseName :: "string \<Rightarrow> string" where
  "GetShortPhaseName phase =
     (case find (\<lambda>p. phase = ShortName p) phases of
        Some p \<Rightarrow> ShortName p
      | None \<Rightarrow>
          (case find (\<lambda>p. phase = LongName p) phases of
             Some p \<Rightarrow> ShortName p
           | None \<Rightarrow> []))"

text \<open>
  \<^verbatim>\<open>PhaseTraceID\<close> maps a short phase name to a carrier; writing to a nil map would panic, so the
  setter is used on a map that exists.
\<close>

type_synonym MapCarrier = smap
type_synonym PhaseTraceID = "(string, MapCarrier) gomap"

definition PhaseTraceID_SetPhaseTraceID ::
    "(string, MapCarrier) fmap \<Rightarrow> string \<Rightarrow> MapCarrier \<Rightarrow> (string, MapCarrier) fmap" where
  "PhaseTraceID_SetPhaseTraceID pid phase carrier = fmupd (GetShortPhaseName phase) carrier pid"

definition PhaseTraceID_GetPhaseTraceID :: "PhaseTraceID \<Rightarrow> string \<Rightarrow> MapCarrier" where
  "PhaseTraceID_GetPhaseTraceID pid phase =
     (case gm_lookup pid (GetShortPhaseName phase) of None \<Rightarrow> None | Some c \<Rightarrow> c)"

abbreviation PhaseStateFinished :: string where
  "PhaseStateFinished \<equiv> ''Finished''"

abbreviation PhaseStateStarted :: string where
  "PhaseStateStarted \<equiv> ''Started''"

abbreviation PhaseStateFailed :: string where
  "PhaseStateFailed \<equiv> ''Failed''"

abbreviation PhaseStateStatusChanged :: string where
  "PhaseStateStatusChanged \<equiv> ''StatusChanged''"

abbreviation PhaseStateReconcileError :: string where
  "PhaseStateReconcileError \<equiv> ''ReconcileError''"

abbreviation PhaseStateReconcileTimeout :: string where
  "PhaseStateReconcileTimeout \<equiv> ''ReconcileTimeout''"

abbreviation PhaseStateNotFound :: string where
  "PhaseStateNotFound \<equiv> ''NotFound''"

section \<open>Lemmas\<close>

subsection \<open>States and their summary\<close>

lemma state_simps [simp]:
  "IsCompleted StateSucceeded" "IsCompleted StateFailed" "IsCompleted StateDeprecated"
  "IsCompleted StateWarning" "\<not> IsCompleted StateProgressing" "\<not> IsCompleted StatePending"
  "\<not> IsCompleted StateUnknown" "\<not> IsCompleted (StateOther s)"
  by (simp_all add: state_defs)

lemma IsSucceeded_iff [simp]: "IsSucceeded k \<longleftrightarrow> k = StateSucceeded"
  by (simp add: state_defs)

lemma IsFailed_iff [simp]: "IsFailed k \<longleftrightarrow> k = StateFailed"
  by (simp add: state_defs)

lemma IsWarning_iff [simp]: "IsWarning k \<longleftrightarrow> k = StateWarning"
  by (simp add: state_defs)

lemma IsDeprecated_iff [simp]: "IsDeprecated k \<longleftrightarrow> k = StateDeprecated"
  by (simp add: state_defs)

lemma IsPending_iff [simp]: "IsPending k \<longleftrightarrow> k = StatePending"
  by (simp add: state_defs)

lemma IsCompleted_cases:
  "IsCompleted k \<longleftrightarrow> k \<in> {StateSucceeded, StateFailed, StateDeprecated, StateWarning}"
  by (simp add: state_defs)

text \<open>The summary of a list of states, as every loop over items builds it.\<close>

definition summarize :: "KeptnState list \<Rightarrow> StatusSummary \<Rightarrow> StatusSummary" where
  "summarize ss s = fold UpdateStatusSummary ss s"

lemma summarize_simps [simp]:
  "summarize [] s = s"
  "summarize (k # ks) s = summarize ks (UpdateStatusSummary k s)"
  "summarize (ks @ [k]) s = UpdateStatusSummary k (summarize ks s)"
  by (simp_all add: summarize_def)

definition count_state :: "KeptnState \<Rightarrow> KeptnState list \<Rightarrow> int" where
  "count_state k ks = int (count_list ks k)"

lemma count_state_simps [simp]:
  "count_state k [] = 0"
  "count_state k (a # ks) = (if a = k then 1 else 0) + count_state k ks"
  by (simp_all add: count_state_def)

lemma count_state_nonneg [simp]: "0 \<le> count_state k ks"
  by (simp add: count_state_def)

lemma count_state_pos [simp]: "0 < count_state k ks \<longleftrightarrow> k \<in> set ks"
  by (simp add: count_state_def count_list_0_iff zero_less_iff_neq_zero)

lemma summarize_fields:
  "Total (summarize ks s) = Total s"
  "Failed (summarize ks s) = Failed s + count_state StateFailed ks"
  "Deprecated (summarize ks s) = Deprecated s + count_state StateDeprecated ks"
  "Succeeded (summarize ks s) = Succeeded s + count_state StateSucceeded ks"
  "Progressing (summarize ks s) = Progressing s + count_state StateProgressing ks"
  "Unknown (summarize ks s) = Unknown s + count_state StateUnknown ks"
  "Pending (summarize ks s) =
     Pending s + count_state StatePending ks + count_state StateEmpty ks"
proof (induction ks arbitrary: s)
  case (Cons k ks)
  case 1 show ?case using Cons by (cases k) auto
  case 2 show ?case using Cons by (cases k) auto
  case 3 show ?case using Cons by (cases k) auto
  case 4 show ?case using Cons by (cases k) auto
  case 5 show ?case using Cons by (cases k) auto
  case 6 show ?case using Cons by (cases k) auto
  case 7 show ?case using Cons by (cases k) auto
qed simp_all

lemma summary_add_pos: "0 \<le> a \<Longrightarrow> 0 \<le> b \<Longrightarrow> 0 < a + b \<longleftrightarrow> 0 < a \<or> 0 < (b :: int)"
  by auto

lemma new_summary_fields [simp]:
  "Total (new_summary n) = n" "Failed (new_summary n) = 0" "Deprecated (new_summary n) = 0"
  "Succeeded (new_summary n) = 0" "Progressing (new_summary n) = 0"
  "Unknown (new_summary n) = 0" "Pending (new_summary n) = 0"
  by (simp_all add: new_summary_def)

text \<open>The overall state of a list of item states, in order of priority.\<close>

lemma overall_state_eq:
  "GetOverallState (summarize ks (new_summary n)) =
     (if StateFailed \<in> set ks \<or> StateDeprecated \<in> set ks then StateFailed
      else if StateProgressing \<in> set ks then StateProgressing
      else if StatePending \<in> set ks \<or> StateEmpty \<in> set ks then StatePending
      else if StateUnknown \<in> set ks then StateUnknown
      else if count_state StateSucceeded ks = n then StateSucceeded
      else StatePending)"
proof -
  have zero: "k \<notin> set ks \<Longrightarrow> count_state k ks = 0" for k
    by (simp add: count_state_def count_list_0_iff)
  show ?thesis
    by (simp add: GetOverallState_def GetTotalCount_def summarize_fields summary_add_pos zero)
qed

lemma count_list_eq_length: "count_list xs x = length xs \<longleftrightarrow> (\<forall>y\<in>set xs. y = x)"
proof (induction xs)
  case (Cons a xs)
  then show ?case using count_le_length [of xs x] by auto
qed simp

lemma count_state_all:
  assumes "int (length ks) \<le> n"
  shows "count_state k ks = n \<longleftrightarrow> int (length ks) = n \<and> (\<forall>s\<in>set ks. s = k)"
proof
  assume n: "count_state k ks = n"
  have "count_list ks k \<le> length ks" by (rule count_le_length)
  with n assms have "count_list ks k = length ks" by (simp add: count_state_def)
  with n show "int (length ks) = n \<and> (\<forall>s\<in>set ks. s = k)"
    by (auto simp: count_state_def count_list_eq_length)
next
  assume "int (length ks) = n \<and> (\<forall>s\<in>set ks. s = k)"
  then show "count_state k ks = n"
    using count_list_eq_length [of ks k] by (simp add: count_state_def)
qed

lemma overall_succeeded_iff:
  assumes "int (length ks) \<le> n"
  shows "GetOverallState (summarize ks (new_summary n)) = StateSucceeded \<longleftrightarrow>
    int (length ks) = n \<and> (\<forall>k\<in>set ks. k = StateSucceeded)"
  using count_state_all [OF assms, of StateSucceeded] by (auto simp: overall_state_eq)

lemma overall_failed_iff:
  "GetOverallState (summarize ks (new_summary n)) = StateFailed \<longleftrightarrow>
    StateFailed \<in> set ks \<or> StateDeprecated \<in> set ks"
  by (simp add: overall_state_eq)

lemma overall_never:
  "GetOverallState s \<noteq> StateDeprecated" "GetOverallState s \<noteq> StateWarning"
  by (simp_all add: GetOverallState_def)

subsection \<open>Phases\<close>

lemma phases_distinct_names:
  "\<forall>p\<in>set phases. \<forall>q\<in>set phases. ShortName p = LongName q \<longrightarrow> p = q"
  by code_simp

lemma short_names_inj:
  "\<forall>p\<in>set phases. \<forall>q\<in>set phases. ShortName p = ShortName q \<longrightarrow> p = q"
  by code_simp

lemma long_names_inj:
  "\<forall>p\<in>set phases. \<forall>q\<in>set phases. LongName p = LongName q \<longrightarrow> p = q"
  by code_simp

lemma find_SomeD: "find P xs = Some x \<Longrightarrow> x \<in> set xs \<and> P x"
  by (auto simp: find_Some_iff)

lemma find_at_most:
  assumes "\<And>y. y \<in> set xs \<Longrightarrow> P y \<Longrightarrow> y = x"
  shows "find P xs = None \<or> find P xs = Some x"
proof (cases "find P xs")
  case (Some y)
  with assms find_SomeD [OF Some] show ?thesis by simp
qed simp

lemma find_unique:
  assumes "x \<in> set xs" "P x" "\<And>y. y \<in> set xs \<Longrightarrow> P y \<Longrightarrow> y = x"
  shows "find P xs = Some x"
  using find_at_most [of xs P x, OF assms(3)] assms(1,2) by (auto simp: find_None_iff)

lemma GetShortPhaseName_phase:
  assumes "p \<in> set phases"
  shows "GetShortPhaseName (ShortName p) = ShortName p"
    and "GetShortPhaseName (LongName p) = ShortName p"
proof -
  have "find (\<lambda>q. ShortName p = ShortName q) phases = Some p"
    using assms short_names_inj by (intro find_unique) fastforce+
  then show "GetShortPhaseName (ShortName p) = ShortName p"
    by (simp add: GetShortPhaseName_def)
  have "find (\<lambda>q. LongName p = LongName q) phases = Some p"
    using assms long_names_inj by (intro find_unique) fastforce+
  moreover have "find (\<lambda>q. LongName p = ShortName q) phases = None \<or>
    find (\<lambda>q. LongName p = ShortName q) phases = Some p"
    using assms phases_distinct_names by (intro find_at_most) fastforce+
  ultimately show "GetShortPhaseName (LongName p) = ShortName p"
    by (auto simp: GetShortPhaseName_def)
qed

lemma GetShortPhaseName_range:
  "GetShortPhaseName s = [] \<or> (\<exists>p\<in>set phases. GetShortPhaseName s = ShortName p)"
  by (auto simp: GetShortPhaseName_def split: option.splits dest!: find_SomeD)

lemma GetShortPhaseName_empty [simp]: "GetShortPhaseName [] = []"
  by (simp add: GetShortPhaseName_def phases_def phase_defs)

subsection \<open>Names\<close>

lemma length_nat_digits_5:
  assumes "10000 \<le> n" "n < 100000"
  shows "length (nat_digits n) = 5"
proof -
  have step: "10 \<le> k \<Longrightarrow> length (nat_digits k) = Suc (length (nat_digits (k div 10)))" for k
    by (subst nat_digits.simps) simp
  have "10 \<le> n" "10 \<le> n div 10" "10 \<le> n div 10 div 10" "10 \<le> n div 10 div 10 div 10"
    "n div 10 div 10 div 10 div 10 < 10"
    using assms by linarith+
  then show ?thesis
    by (simp only: step) (subst nat_digits.simps, simp)
qed

lemma length_random_id: "intn < 89999 \<Longrightarrow> length (random_id intn) = 5"
  by (simp add: random_id_def itoa_def length_nat_digits_5 nat_add_distrib)

lemma length_Hash [simp]: "length (Hash n) = 8"
  by (simp add: Hash_def)

text \<open>
  A name fits whenever its last part does, each earlier part cut to the reduced minimum.
\<close>

lemma savings_ge:
  "str \<noteq> [] \<Longrightarrow>
   length (join ''-'' str) \<le> length (last str) + (length str - 1) * Suc m + savings m 0 str"
proof (induction "''-''" str rule: join.induct)
  case (3 s t ts)
  have "savings m 0 (s # t # ts) = (length s - m) + savings m 0 (t # ts)"
    by (simp add: savings_def sum.atLeast0_lessThan_Suc_shift del: sum.op_ivl_Suc)
  with 3 show ?case by simp
qed (simp_all add: savings_def)

lemma CreateResourceName_fits:
  assumes "str \<noteq> []"
    and "length (last str) + (length str - 1) * Suc (reduce_min (length str) l m) \<le> l"
  shows "length (CreateResourceName l m str) \<le> l"
  using savings_ge [OF assms(1), of "reduce_min (length str) l m"] assms(2)
  by (simp add: length_CreateResourceName Let_def)

lemma three_part_name_fits:
  "length c \<le> 91 \<Longrightarrow>
   length (CreateResourceName MaxK8sObjectLength MinKeptnNameLen [a, b, c]) \<le> MaxK8sObjectLength"
  by (rule CreateResourceName_fits) (simp_all add: reduce_min_id)

subsection \<open>Maps\<close>

lemma lookup_MergeMaps:
  "gm_lookup (MergeMaps m1 m2) k =
     (case gm_lookup m2 k of None \<Rightarrow> gm_lookup m1 k | Some v \<Rightarrow> Some v)"
  by (auto simp: MergeMaps_def gm_lookup_fmap gm_fmap_def map_add_def fmlookup_dom_iff split: option.splits)

lemma MergeMaps_assoc: "MergeMaps (MergeMaps a b) c = MergeMaps a (MergeMaps b c)"
  by (simp add: MergeMaps_def gm_fmap_def)

section \<open>Statements\<close>

text \<open>
  C40: A resource name that \<^const>\<open>CreateResourceName\<close> builds keeps, of every part but the last, a
  prefix of at least the reduced minimal length, and the last part whole; it fits the maximal length
  whenever the last part fits beside the shortest prefixes of the others.
\<close>

theorem resource_name_bounded:
  assumes "str \<noteq> []"
    and "length (last str) + (length str - 1) * Suc (reduce_min (length str) l m) \<le> l"
  shows "length (CreateResourceName l m str) \<le> l \<and>
    (\<exists>parts. CreateResourceName l m str = sanitizeResourceNameString (join ''-'' parts) \<and>
       list_all2 (part_of (reduce_min (length str) l m)) parts str \<and> last parts = last str)"
  using CreateResourceName_fits [OF assms] shorten_parts shorten_last
  unfolding CreateResourceName_def by blast

theorem resource_name_bounded_witness:
  "length (CreateResourceName 12 4 [''podtato-head'', ''frontend'', ''v1'']) \<le> 12"
proof -
  have r: "reduce_min (Suc (Suc (Suc 0))) 12 4 = 4" by (simp add: reduce_min_id)
  show ?thesis
    by (rule resource_name_bounded [where str = "[''podtato-head'', ''frontend'', ''v1'']" and l = 12 and m = 4,
          THEN conjunct1]) (simp_all add: r)
qed

text \<open>
  Resource names hold no upper case letter and no underscore, and a name that has neither and
  fits is the parts joined by dashes, unchanged.
\<close>

theorem resource_name_legal:
  "(\<forall>c\<in>set (CreateResourceName l m str). c \<noteq> CHR ''_'' \<and> \<not> is_upper c) \<and>
   (length (join ''-'' str) \<le> l \<and> (\<forall>c\<in>set (join ''-'' str). c \<noteq> CHR ''_'' \<and> \<not> is_upper c) \<longrightarrow>
      CreateResourceName l m str = join ''-'' str)"
proof (intro conjI ballI impI)
  show "c \<noteq> CHR ''_''" "\<not> is_upper c" if "c \<in> set (CreateResourceName l m str)" for c
    using that sanitize_legal unfolding CreateResourceName_def by blast+
  assume ok: "length (join ''-'' str) \<le> l \<and> (\<forall>c\<in>set (join ''-'' str). c \<noteq> CHR ''_'' \<and> \<not> is_upper c)"
  then show "CreateResourceName l m str = join ''-'' str"
    using sanitize_id [of "join ''-'' str"] by (simp add: CreateResourceName_def shorten_fits)
qed

theorem resource_name_legal_witness:
  "CreateResourceName 253 80 [''podtato'', ''v1''] = ''podtato-v1''"
proof -
  have "length (join ''-'' [''podtato'', ''v1'']) \<le> 253 \<and>
    (\<forall>c\<in>set (join ''-'' [''podtato'', ''v1'']). c \<noteq> CHR ''_'' \<and> \<not> is_upper c)"
    by (simp add: is_upper_def)
  then have "CreateResourceName 253 80 [''podtato'', ''v1''] = join ''-'' [''podtato'', ''v1'']"
    by (rule resource_name_legal [THEN conjunct2, THEN mp])
  also have "\<dots> = ''podtato-v1''" by simp
  finally show ?thesis .
qed

text \<open>
  The overall state of the items of a phase: Failed when one of them failed or is deprecated,
  else Progressing, Pending or Unknown when one of them is, else Succeeded exactly when as many have
  succeeded as the summary expects; a summary that misses items is Pending.
\<close>

theorem overall_state_by_priority:
  "GetOverallState (fold UpdateStatusSummary ks (new_summary n)) =
     (if StateFailed \<in> set ks \<or> StateDeprecated \<in> set ks then StateFailed
      else if StateProgressing \<in> set ks then StateProgressing
      else if StatePending \<in> set ks \<or> StateEmpty \<in> set ks then StatePending
      else if StateUnknown \<in> set ks then StateUnknown
      else if int (count_list ks StateSucceeded) = n then StateSucceeded
      else StatePending)"
  using overall_state_eq [of ks n] by (simp add: summarize_def count_state_def)

text \<open>
  A phase is found by its short name and by its long name: for each registered phase
  \<^const>\<open>GetShortPhaseName\<close> maps both to the short name, and every other result is empty.
\<close>

theorem short_phase_name_total:
  "(\<forall>p\<in>set phases. GetShortPhaseName (ShortName p) = ShortName p \<and>
      GetShortPhaseName (LongName p) = ShortName p) \<and>
   (GetShortPhaseName s = [] \<or> (\<exists>p\<in>set phases. GetShortPhaseName s = ShortName p))"
  using GetShortPhaseName_phase GetShortPhaseName_range by blast

theorem short_phase_name_total_witness:
  "GetShortPhaseName (LongName PhaseAppPreDeployment) = ''AppPreDeployTasks''"
proof -
  have "PhaseAppPreDeployment \<in> set phases" by code_simp
  then have "GetShortPhaseName (LongName PhaseAppPreDeployment) = ShortName PhaseAppPreDeployment"
    using short_phase_name_total by blast
  then show ?thesis by (simp add: PhaseAppPreDeployment_def)
qed

end
