(* ===== verification/Api_Types.thy ===== *)
theory Api_Types
  imports Keptn_Common
begin

text \<open>
  The custom resources of \<^verbatim>\<open>lifecycle-operator/apis/lifecycle/v1\<close>: a record per Go struct (the field
  names carry a prefix of the struct, since Isabelle's record fields are global; an embedded struct
  is a nested record) and a definition per method.  A method with a pointer receiver returns the
  updated object; \<^verbatim>\<open>time.Now()\<close> and \<^verbatim>\<open>rand.Intn\<close> are arguments.  The fields of Kubernetes' own types
  are those the operator reads or writes.
\<close>

section \<open>Object metadata\<close>

record ObjectMeta =
  om_Name :: string
  om_Namespace :: string
  om_UID :: string
  om_Labels :: smap
  om_Annotations :: smap
  om_Generation :: int
  om_CreationTimestamp :: time
  om_OwnerReferences :: "OwnerReference list"

definition zero_ObjectMeta :: ObjectMeta where
  "zero_ObjectMeta = \<lparr>om_Name = [], om_Namespace = [], om_UID = [], om_Labels = None,
     om_Annotations = None, om_Generation = 0, om_CreationTimestamp = 0, om_OwnerReferences = []\<rparr>"

definition named_meta :: "string \<Rightarrow> string \<Rightarrow> ObjectMeta" where
  "named_meta name namespace = zero_ObjectMeta\<lparr>om_Name := name, om_Namespace := namespace\<rparr>"

section \<open>Item status, workload references\<close>

record ItemStatus =
  is_DefinitionName :: string
  is_Status :: KeptnState
  is_Name :: string
  is_StartTime :: time
  is_EndTime :: time

definition ItemStatus_SetStartTime :: "time \<Rightarrow> ItemStatus \<Rightarrow> ItemStatus" where
  "ItemStatus_SetStartTime now e = (if IsZero (is_StartTime e) then e\<lparr>is_StartTime := now\<rparr> else e)"

definition ItemStatus_SetEndTime :: "time \<Rightarrow> ItemStatus \<Rightarrow> ItemStatus" where
  "ItemStatus_SetEndTime now e = (if IsZero (is_EndTime e) then e\<lparr>is_EndTime := now\<rparr> else e)"

record KeptnWorkloadRef =
  wr_Name :: string
  wr_Version :: string

record ResourceReference =
  rr_UID :: string
  rr_Kind :: string
  rr_Name :: string

section \<open>Task definitions and tasks\<close>

record EnvVar =
  ev_Name :: string
  ev_Value :: string
  ev_SecretKeyRef :: "(string \<times> string) option"

record VolumeMount =
  vm_Name :: string
  vm_ReadOnly :: bool
  vm_MountPath :: string
  vm_SubPath :: string

record Container =
  c_Name :: string
  c_Image :: string
  c_ImagePullPolicy :: string
  c_Command :: "string list"
  c_Args :: "string list"
  c_Env :: "EnvVar list"
  c_VolumeMounts :: "VolumeMount list"
  c_Limits :: smap

text \<open>\<^verbatim>\<open>ContainerSpec\<close> embeds a pointer to a container, which may be nil.\<close>

record ContainerSpec =
  cs_Container :: "Container option"

record RuntimeSpec =
  rs_FunctionReference :: string
  rs_Inline :: string
  rs_HttpReference :: string
  rs_ConfigMapReference :: string
  rs_Parameters :: smap
  rs_SecureParameters :: string
  rs_CmdParameters :: string

record KeptnTaskDefinitionSpec =
  tds_Python :: "RuntimeSpec option"
  tds_Deno :: "RuntimeSpec option"
  tds_Container :: "ContainerSpec option"
  tds_Retries :: "int option"
  tds_Timeout :: duration
  tds_ServiceAccount :: "string option"
  tds_AutomountServiceAccountToken :: "bool option option"
  tds_TTLSecondsAfterFinished :: "int option"
  tds_ImagePullSecrets :: "string list"

record KeptnTaskDefinition =
  td_meta :: ObjectMeta
  td_Spec :: KeptnTaskDefinitionSpec
  td_ConfigMap :: string

definition zero_KeptnTaskDefinitionSpec :: KeptnTaskDefinitionSpec where
  "zero_KeptnTaskDefinitionSpec = \<lparr>tds_Python = None, tds_Deno = None, tds_Container = None,
     tds_Retries = None, tds_Timeout = 0, tds_ServiceAccount = None,
     tds_AutomountServiceAccountToken = None, tds_TTLSecondsAfterFinished = None,
     tds_ImagePullSecrets = []\<rparr>"

definition TaskDefinition_GetServiceAccount :: "KeptnTaskDefinition \<Rightarrow> string" where
  "TaskDefinition_GetServiceAccount d =
     (case tds_ServiceAccount (td_Spec d) of None \<Rightarrow> [] | Some n \<Rightarrow> n)"

definition TaskDefinition_GetAutomountServiceAccountToken :: "KeptnTaskDefinition \<Rightarrow> bool option" where
  "TaskDefinition_GetAutomountServiceAccountToken d =
     (case tds_AutomountServiceAccountToken (td_Spec d) of None \<Rightarrow> None | Some t \<Rightarrow> t)"

text \<open>The admission webhook: exactly one of the three kinds of definition.\<close>

definition countSpec :: "KeptnTaskDefinition \<Rightarrow> nat" where
  "countSpec r =
     (let count = 0;
          count = (if tds_Container (td_Spec r) \<noteq> None then count + 1 else count);
          count = (if tds_Python (td_Spec r) \<noteq> None then count + 1 else count);
          count = (if tds_Deno (td_Spec r) \<noteq> None then count + 1 else count)
      in count)"

definition validateFields :: "KeptnTaskDefinition \<Rightarrow> error option" where
  "validateFields r =
     (let count = countSpec r in
      if count = 0 then
        Some (Message ''Forbidden! Either Container, Python, or Deno field must be defined'')
      else if count > 1 then
        Some (Message ''Forbidden! Only one of Container, Python, or Deno field can be defined'')
      else None)"

text \<open>The errors found, wrapped in one API error of reason Invalid that names the object.\<close>

definition validateKeptnTaskDefinition :: "KeptnTaskDefinition \<Rightarrow> error option" where
  "validateKeptnTaskDefinition r =
     (let allErrs = (case validateFields r of None \<Rightarrow> [] | Some err \<Rightarrow> [err]) in
      if allErrs = [] then None
      else Some (ApiError (om_Name (td_meta r) @ '' is invalid: '' @
        join '', '' (map error_string allErrs))))"

definition ValidateCreate :: "KeptnTaskDefinition \<Rightarrow> string list \<times> error option" where
  "ValidateCreate r = ([], validateKeptnTaskDefinition r)"

definition ValidateUpdate ::
    "KeptnTaskDefinition \<Rightarrow> KeptnTaskDefinition \<Rightarrow> string list \<times> error option" where
  "ValidateUpdate r old = ([], validateKeptnTaskDefinition r)"

definition ValidateDelete :: "KeptnTaskDefinition \<Rightarrow> string list \<times> error option" where
  "ValidateDelete r = ([], None)"

record TaskContext =
  tc_WorkloadName :: string
  tc_AppName :: string
  tc_AppVersion :: string
  tc_WorkloadVersion :: string
  tc_TaskType :: string
  tc_ObjectType :: string
  tc_Metadata :: smap

definition zero_TaskContext :: TaskContext where
  "zero_TaskContext = \<lparr>tc_WorkloadName = [], tc_AppName = [], tc_AppVersion = [],
     tc_WorkloadVersion = [], tc_TaskType = [], tc_ObjectType = [], tc_Metadata = None\<rparr>"

record KeptnTaskSpec =
  ts_TaskDefinition :: string
  ts_Context :: TaskContext
  ts_Parameters :: smap
  ts_SecureParameters :: string
  ts_Type :: CheckType
  ts_Retries :: "int option"
  ts_Timeout :: duration

record KeptnTaskStatus =
  tst_JobName :: string
  tst_Status :: KeptnState
  tst_Message :: string
  tst_StartTime :: time
  tst_EndTime :: time
  tst_Reason :: string

record KeptnTask =
  t_meta :: ObjectMeta
  t_Spec :: KeptnTaskSpec
  t_Status :: KeptnTaskStatus

definition zero_KeptnTaskStatus :: KeptnTaskStatus where
  "zero_KeptnTaskStatus = \<lparr>tst_JobName = [], tst_Status = StateEmpty, tst_Message = [],
     tst_StartTime = 0, tst_EndTime = 0, tst_Reason = []\<rparr>"

definition zero_KeptnTask :: KeptnTask where
  "zero_KeptnTask = \<lparr>t_meta = zero_ObjectMeta,
     t_Spec = \<lparr>ts_TaskDefinition = [], ts_Context = zero_TaskContext, ts_Parameters = None,
       ts_SecureParameters = [], ts_Type = [], ts_Retries = None, ts_Timeout = 0\<rparr>,
     t_Status = zero_KeptnTaskStatus\<rparr>"

definition Task_SetStartTime :: "time \<Rightarrow> KeptnTask \<Rightarrow> KeptnTask" where
  "Task_SetStartTime now t =
     (if IsZero (tst_StartTime (t_Status t)) then t\<lparr>t_Status := (t_Status t)\<lparr>tst_StartTime := now\<rparr>\<rparr>
      else t)"

definition Task_SetEndTime :: "time \<Rightarrow> KeptnTask \<Rightarrow> KeptnTask" where
  "Task_SetEndTime now t =
     (if IsZero (tst_EndTime (t_Status t)) then t\<lparr>t_Status := (t_Status t)\<lparr>tst_EndTime := now\<rparr>\<rparr>
      else t)"

definition Task_IsStartTimeSet :: "KeptnTask \<Rightarrow> bool" where
  "Task_IsStartTimeSet t \<longleftrightarrow> \<not> IsZero (tst_StartTime (t_Status t))"

definition Task_IsEndTimeSet :: "KeptnTask \<Rightarrow> bool" where
  "Task_IsEndTimeSet t \<longleftrightarrow> \<not> IsZero (tst_EndTime (t_Status t))"

definition Task_GetActiveMetricsAttributes :: "KeptnTask \<Rightarrow> KeyValue list" where
  "Task_GetActiveMetricsAttributes t =
     [(AppName_key, tc_AppName (ts_Context (t_Spec t))),
      (AppVersion_key, tc_AppVersion (ts_Context (t_Spec t))),
      (WorkloadName_key, tc_WorkloadName (ts_Context (t_Spec t))),
      (WorkloadVersion_key, tc_WorkloadVersion (ts_Context (t_Spec t))),
      (TaskName_key, om_Name (t_meta t)),
      (TaskType_key, ts_Type (t_Spec t))]"

definition Task_GetMetricsAttributes :: "KeptnTask \<Rightarrow> KeyValue list" where
  "Task_GetMetricsAttributes t =
     [(AppName_key, tc_AppName (ts_Context (t_Spec t))),
      (AppVersion_key, tc_AppVersion (ts_Context (t_Spec t))),
      (WorkloadName_key, tc_WorkloadName (ts_Context (t_Spec t))),
      (WorkloadVersion_key, tc_WorkloadVersion (ts_Context (t_Spec t))),
      (TaskName_key, om_Name (t_meta t)),
      (TaskType_key, ts_Type (t_Spec t)),
      (TaskStatus_key, state_string (tst_Status (t_Status t)))]"

definition Task_GetSpanAttributes :: "KeptnTask \<Rightarrow> KeyValue list" where
  "Task_GetSpanAttributes t =
     [(AppName_key, tc_AppName (ts_Context (t_Spec t))),
      (AppVersion_key, tc_AppVersion (ts_Context (t_Spec t))),
      (WorkloadName_key, tc_WorkloadName (ts_Context (t_Spec t))),
      (WorkloadVersion_key, tc_WorkloadVersion (ts_Context (t_Spec t))),
      (TaskName_key, om_Name (t_meta t)),
      (TaskType_key, ts_Type (t_Spec t))]"

definition Task_CreateKeptnAnnotations :: "KeptnTask \<Rightarrow> smap" where
  "Task_CreateKeptnAnnotations t =
     (if tc_WorkloadName (ts_Context (t_Spec t)) \<noteq> [] then
        MergeMaps (om_Annotations (t_meta t)) (Some (fmap_of_list
          [(AppAnnotation, tc_AppName (ts_Context (t_Spec t))),
           (WorkloadAnnotation, tc_WorkloadName (ts_Context (t_Spec t))),
           (VersionAnnotation, tc_WorkloadVersion (ts_Context (t_Spec t))),
           (TaskNameAnnotation, om_Name (t_meta t))]))
      else
        MergeMaps (om_Annotations (t_meta t)) (Some (fmap_of_list
          [(AppAnnotation, tc_AppName (ts_Context (t_Spec t))),
           (VersionAnnotation, tc_AppVersion (ts_Context (t_Spec t))),
           (TaskNameAnnotation, om_Name (t_meta t))])))"

definition Task_SetPhaseTraceID :: "string \<Rightarrow> MapCarrier \<Rightarrow> KeptnTask \<Rightarrow> KeptnTask" where
  "Task_SetPhaseTraceID phase carrier t = t"

definition Task_GetSpanKey :: "KeptnTask \<Rightarrow> string \<Rightarrow> string" where
  "Task_GetSpanKey t phase = om_Name (t_meta t)"

definition Task_GetSpanName :: "KeptnTask \<Rightarrow> string \<Rightarrow> string" where
  "Task_GetSpanName t phase = om_Name (t_meta t)"

definition Task_GetEventAnnotations :: "KeptnTask \<Rightarrow> smap" where
  "Task_GetEventAnnotations t = Some (fmap_of_list
     [(''appName'', tc_AppName (ts_Context (t_Spec t))),
      (''appVersion'', tc_AppVersion (ts_Context (t_Spec t))),
      (''workloadName'', tc_WorkloadName (ts_Context (t_Spec t))),
      (''workloadVersion'', tc_WorkloadVersion (ts_Context (t_Spec t))),
      (''taskName'', om_Name (t_meta t)),
      (''taskDefinitionName'', ts_TaskDefinition (t_Spec t))])"

section \<open>Evaluation definitions and evaluations\<close>

record FailureConditions =
  fc_Retries :: int
  fc_RetryInterval :: duration

record KeptnMetricReference =
  mr_Name :: string
  mr_Namespace :: string

record Objective =
  ob_KeptnMetricRef :: KeptnMetricReference
  ob_EvaluationTarget :: string

record KeptnEvaluationDefinitionSpec =
  eds_Objectives :: "Objective list"
  eds_FailureConditions :: FailureConditions

record KeptnEvaluationDefinition =
  ed_meta :: ObjectMeta
  ed_Spec :: KeptnEvaluationDefinitionSpec

record KeptnEvaluationSpec =
  es_Workload :: string
  es_WorkloadVersion :: string
  es_AppName :: string
  es_AppVersion :: string
  es_EvaluationDefinition :: string
  es_Type :: CheckType
  es_FailureConditions :: FailureConditions

record EvaluationStatusItem =
  esi_Value :: string
  esi_Status :: KeptnState
  esi_Message :: string

record KeptnEvaluationStatus =
  est_RetryCount :: int
  est_EvaluationStatus :: "(string, EvaluationStatusItem) gomap"
  est_OverallStatus :: KeptnState
  est_StartTime :: time
  est_EndTime :: time

record KeptnEvaluation =
  e_meta :: ObjectMeta
  e_Spec :: KeptnEvaluationSpec
  e_Status :: KeptnEvaluationStatus

definition zero_KeptnEvaluationSpec :: KeptnEvaluationSpec where
  "zero_KeptnEvaluationSpec = \<lparr>es_Workload = [], es_WorkloadVersion = [], es_AppName = [],
     es_AppVersion = [], es_EvaluationDefinition = [], es_Type = [],
     es_FailureConditions = \<lparr>fc_Retries = 0, fc_RetryInterval = 0\<rparr>\<rparr>"

definition zero_KeptnEvaluationStatus :: KeptnEvaluationStatus where
  "zero_KeptnEvaluationStatus = \<lparr>est_RetryCount = 0, est_EvaluationStatus = None,
     est_OverallStatus = StateEmpty, est_StartTime = 0, est_EndTime = 0\<rparr>"

definition zero_KeptnEvaluation :: KeptnEvaluation where
  "zero_KeptnEvaluation = \<lparr>e_meta = zero_ObjectMeta, e_Spec = zero_KeptnEvaluationSpec,
     e_Status = zero_KeptnEvaluationStatus\<rparr>"

definition Evaluation_SetStartTime :: "time \<Rightarrow> KeptnEvaluation \<Rightarrow> KeptnEvaluation" where
  "Evaluation_SetStartTime now e =
     (if IsZero (est_StartTime (e_Status e)) then e\<lparr>e_Status := (e_Status e)\<lparr>est_StartTime := now\<rparr>\<rparr>
      else e)"

definition Evaluation_SetEndTime :: "time \<Rightarrow> KeptnEvaluation \<Rightarrow> KeptnEvaluation" where
  "Evaluation_SetEndTime now e =
     (if IsZero (est_EndTime (e_Status e)) then e\<lparr>e_Status := (e_Status e)\<lparr>est_EndTime := now\<rparr>\<rparr>
      else e)"

definition Evaluation_IsStartTimeSet :: "KeptnEvaluation \<Rightarrow> bool" where
  "Evaluation_IsStartTimeSet e \<longleftrightarrow> \<not> IsZero (est_StartTime (e_Status e))"

definition Evaluation_IsEndTimeSet :: "KeptnEvaluation \<Rightarrow> bool" where
  "Evaluation_IsEndTimeSet e \<longleftrightarrow> \<not> IsZero (est_EndTime (e_Status e))"

definition Evaluation_GetActiveMetricsAttributes :: "KeptnEvaluation \<Rightarrow> KeyValue list" where
  "Evaluation_GetActiveMetricsAttributes e =
     [(AppName_key, es_AppName (e_Spec e)),
      (AppVersion_key, es_AppVersion (e_Spec e)),
      (WorkloadName_key, es_Workload (e_Spec e)),
      (WorkloadVersion_key, es_WorkloadVersion (e_Spec e)),
      (EvaluationName_key, om_Name (e_meta e)),
      (EvaluationType_key, es_Type (e_Spec e))]"

definition Evaluation_GetMetricsAttributes :: "KeptnEvaluation \<Rightarrow> KeyValue list" where
  "Evaluation_GetMetricsAttributes e =
     [(AppName_key, es_AppName (e_Spec e)),
      (AppVersion_key, es_AppVersion (e_Spec e)),
      (WorkloadName_key, es_Workload (e_Spec e)),
      (WorkloadVersion_key, es_WorkloadVersion (e_Spec e)),
      (EvaluationName_key, om_Name (e_meta e)),
      (EvaluationType_key, es_Type (e_Spec e)),
      (EvaluationStatus_key, state_string (est_OverallStatus (e_Status e)))]"

definition AddEvaluationStatus :: "Objective \<Rightarrow> KeptnEvaluation \<Rightarrow> KeptnEvaluation" where
  "AddEvaluationStatus objective e =
     (let evaluationStatusItem = \<lparr>esi_Value = [], esi_Status = StatePending, esi_Message = []\<rparr>;
          m = gm_fmap (est_EvaluationStatus (e_Status e))
      in e\<lparr>e_Status := (e_Status e)\<lparr>est_EvaluationStatus :=
           Some (fmupd (mr_Name (ob_KeptnMetricRef objective)) evaluationStatusItem m)\<rparr>\<rparr>)"

definition Evaluation_GetSpanAttributes :: "KeptnEvaluation \<Rightarrow> KeyValue list" where
  "Evaluation_GetSpanAttributes e =
     [(AppName_key, es_AppName (e_Spec e)),
      (AppVersion_key, es_AppVersion (e_Spec e)),
      (WorkloadName_key, es_Workload (e_Spec e)),
      (WorkloadVersion_key, es_WorkloadVersion (e_Spec e)),
      (EvaluationName_key, om_Name (e_meta e)),
      (EvaluationType_key, es_Type (e_Spec e))]"

definition Evaluation_SetPhaseTraceID ::
    "string \<Rightarrow> MapCarrier \<Rightarrow> KeptnEvaluation \<Rightarrow> KeptnEvaluation" where
  "Evaluation_SetPhaseTraceID phase carrier e = e"

definition Evaluation_GetSpanKey :: "KeptnEvaluation \<Rightarrow> string \<Rightarrow> string" where
  "Evaluation_GetSpanKey e phase = om_Name (e_meta e)"

definition Evaluation_GetSpanName :: "KeptnEvaluation \<Rightarrow> string \<Rightarrow> string" where
  "Evaluation_GetSpanName e phase = om_Name (e_meta e)"

definition Evaluation_GetEventAnnotations :: "KeptnEvaluation \<Rightarrow> smap" where
  "Evaluation_GetEventAnnotations e = Some (fmap_of_list
     [(''appName'', es_AppName (e_Spec e)),
      (''appVersion'', es_AppVersion (e_Spec e)),
      (''workloadName'', es_Workload (e_Spec e)),
      (''workloadVersion'', es_WorkloadVersion (e_Spec e)),
      (''evaluationName'', om_Name (e_meta e)),
      (''evaluationDefinitionName'', es_EvaluationDefinition (e_Spec e))])"

section \<open>Apps, app contexts, workloads and creation requests\<close>

record DeploymentTaskSpec =
  dts_PreDeploymentTasks :: "string list"
  dts_PostDeploymentTasks :: "string list"
  dts_PreDeploymentEvaluations :: "string list"
  dts_PostDeploymentEvaluations :: "string list"
  dts_PromotionTasks :: "string list"

record KeptnAppContextSpec =
  acs_DeploymentTaskSpec :: DeploymentTaskSpec
  acs_Metadata :: smap
  acs_SpanLinks :: "string list"

record KeptnAppContext =
  ac_meta :: ObjectMeta
  ac_Spec :: KeptnAppContextSpec

record KeptnAppSpec =
  as_Version :: string
  as_Revision :: nat
  as_Workloads :: "KeptnWorkloadRef list"

record KeptnApp =
  a_meta :: ObjectMeta
  a_Spec :: KeptnAppSpec
  a_CurrentVersion :: string

record KeptnAppVersionSpec =
  avs_ContextSpec :: KeptnAppContextSpec
  avs_AppSpec :: KeptnAppSpec
  avs_AppName :: string
  avs_PreviousVersion :: string
  avs_TraceId :: smap

record WorkloadStatus =
  ws_Workload :: KeptnWorkloadRef
  ws_Status :: KeptnState

record KeptnAppVersionStatus =
  avst_PreDeploymentStatus :: KeptnState
  avst_PostDeploymentStatus :: KeptnState
  avst_PromotionStatus :: KeptnState
  avst_PreDeploymentEvaluationStatus :: KeptnState
  avst_PostDeploymentEvaluationStatus :: KeptnState
  avst_WorkloadOverallStatus :: KeptnState
  avst_WorkloadStatus :: "WorkloadStatus list"
  avst_CurrentPhase :: string
  avst_PreDeploymentTaskStatus :: "ItemStatus list"
  avst_PostDeploymentTaskStatus :: "ItemStatus list"
  avst_PromotionTaskStatus :: "ItemStatus list"
  avst_PreDeploymentEvaluationTaskStatus :: "ItemStatus list"
  avst_PostDeploymentEvaluationTaskStatus :: "ItemStatus list"
  avst_PhaseTraceIDs :: PhaseTraceID
  avst_Status :: KeptnState
  avst_StartTime :: time
  avst_EndTime :: time

record KeptnAppVersion =
  av_meta :: ObjectMeta
  av_Spec :: KeptnAppVersionSpec
  av_Status :: KeptnAppVersionStatus

record KeptnWorkloadSpec =
  wks_AppName :: string
  wks_Version :: string
  wks_PreDeploymentTasks :: "string list"
  wks_PostDeploymentTasks :: "string list"
  wks_PreDeploymentEvaluations :: "string list"
  wks_PostDeploymentEvaluations :: "string list"
  wks_ResourceReference :: ResourceReference
  wks_Metadata :: smap

record KeptnWorkload =
  wk_meta :: ObjectMeta
  wk_Spec :: KeptnWorkloadSpec
  wk_CurrentVersion :: string

record KeptnWorkloadVersionSpec =
  wvs_WorkloadSpec :: KeptnWorkloadSpec
  wvs_WorkloadName :: string
  wvs_PreviousVersion :: string
  wvs_TraceId :: smap

record KeptnWorkloadVersionStatus =
  wvst_PreDeploymentStatus :: KeptnState
  wvst_DeploymentStatus :: KeptnState
  wvst_PreDeploymentEvaluationStatus :: KeptnState
  wvst_PostDeploymentEvaluationStatus :: KeptnState
  wvst_PostDeploymentStatus :: KeptnState
  wvst_PreDeploymentTaskStatus :: "ItemStatus list"
  wvst_PostDeploymentTaskStatus :: "ItemStatus list"
  wvst_PreDeploymentEvaluationTaskStatus :: "ItemStatus list"
  wvst_PostDeploymentEvaluationTaskStatus :: "ItemStatus list"
  wvst_StartTime :: time
  wvst_EndTime :: time
  wvst_CurrentPhase :: string
  wvst_PhaseTraceIDs :: PhaseTraceID
  wvst_Status :: KeptnState
  wvst_AppContextMetadata :: smap
  wvst_DeploymentStartTime :: time

record KeptnWorkloadVersion =
  wv_meta :: ObjectMeta
  wv_Spec :: KeptnWorkloadVersionSpec
  wv_Status :: KeptnWorkloadVersionStatus

record KeptnAppCreationRequest =
  cr_meta :: ObjectMeta
  cr_AppName :: string

definition zero_KeptnAppContextSpec :: KeptnAppContextSpec where
  "zero_KeptnAppContextSpec = \<lparr>acs_DeploymentTaskSpec = \<lparr>dts_PreDeploymentTasks = [],
     dts_PostDeploymentTasks = [], dts_PreDeploymentEvaluations = [],
     dts_PostDeploymentEvaluations = [], dts_PromotionTasks = []\<rparr>, acs_Metadata = None,
     acs_SpanLinks = []\<rparr>"

definition zero_KeptnAppVersionStatus :: KeptnAppVersionStatus where
  "zero_KeptnAppVersionStatus = \<lparr>avst_PreDeploymentStatus = StateEmpty,
     avst_PostDeploymentStatus = StateEmpty, avst_PromotionStatus = StateEmpty,
     avst_PreDeploymentEvaluationStatus = StateEmpty,
     avst_PostDeploymentEvaluationStatus = StateEmpty, avst_WorkloadOverallStatus = StateEmpty,
     avst_WorkloadStatus = [], avst_CurrentPhase = [], avst_PreDeploymentTaskStatus = [],
     avst_PostDeploymentTaskStatus = [], avst_PromotionTaskStatus = [],
     avst_PreDeploymentEvaluationTaskStatus = [], avst_PostDeploymentEvaluationTaskStatus = [],
     avst_PhaseTraceIDs = None, avst_Status = StateEmpty, avst_StartTime = 0, avst_EndTime = 0\<rparr>"

definition zero_KeptnWorkloadVersionStatus :: KeptnWorkloadVersionStatus where
  "zero_KeptnWorkloadVersionStatus = \<lparr>wvst_PreDeploymentStatus = StateEmpty,
     wvst_DeploymentStatus = StateEmpty, wvst_PreDeploymentEvaluationStatus = StateEmpty,
     wvst_PostDeploymentEvaluationStatus = StateEmpty, wvst_PostDeploymentStatus = StateEmpty,
     wvst_PreDeploymentTaskStatus = [], wvst_PostDeploymentTaskStatus = [],
     wvst_PreDeploymentEvaluationTaskStatus = [], wvst_PostDeploymentEvaluationTaskStatus = [],
     wvst_StartTime = 0, wvst_EndTime = 0, wvst_CurrentPhase = [], wvst_PhaseTraceIDs = None,
     wvst_Status = StateEmpty, wvst_AppContextMetadata = None, wvst_DeploymentStartTime = 0\<rparr>"

definition IsSingleService :: "KeptnAppCreationRequest \<Rightarrow> bool" where
  "IsSingleService kacr \<longleftrightarrow>
     gm_str (om_Annotations (cr_meta kacr)) AppTypeAnnotation = AppTypeSingleService"

definition CreationRequest_GetSpanAttributes :: "KeptnAppCreationRequest \<Rightarrow> KeyValue list" where
  "CreationRequest_GetSpanAttributes kacr = [(AppName_key, om_Name (cr_meta kacr))]"

definition GetAppVersionName :: "KeptnApp \<Rightarrow> string" where
  "GetAppVersionName a =
     CreateResourceName MaxK8sObjectLength MinKeptnNameLen
       [om_Name (a_meta a), as_Version (a_Spec a), Hash (om_Generation (a_meta a))]"

definition GenerateAppVersion :: "KeptnApp \<Rightarrow> string \<Rightarrow> KeptnAppVersion" where
  "GenerateAppVersion a previousVersion =
     \<lparr>av_meta = named_meta (GetAppVersionName a) (om_Namespace (a_meta a)),
      av_Spec = \<lparr>avs_ContextSpec = zero_KeptnAppContextSpec, avs_AppSpec = a_Spec a,
        avs_AppName = om_Name (a_meta a), avs_PreviousVersion = previousVersion,
        avs_TraceId = None\<rparr>,
      av_Status = zero_KeptnAppVersionStatus\<rparr>"

definition App_GetSpanAttributes :: "KeptnApp \<Rightarrow> KeyValue list" where
  "App_GetSpanAttributes a =
     [(AppName_key, om_Name (a_meta a)), (AppVersion_key, as_Version (a_Spec a))]"

definition App_GetEventAnnotations :: "KeptnApp \<Rightarrow> smap" where
  "App_GetEventAnnotations a = Some (fmap_of_list
     [(''appName'', om_Name (a_meta a)),
      (''appVersion'', as_Version (a_Spec a)),
      (''appRevision'', Hash (om_Generation (a_meta a)))])"

definition Workload_GetSpanAttributes :: "KeptnWorkload \<Rightarrow> KeyValue list" where
  "Workload_GetSpanAttributes w =
     [(AppName_key, wks_AppName (wk_Spec w)), (WorkloadName_key, om_Name (wk_meta w)),
      (WorkloadVersion_key, wks_Version (wk_Spec w))]"

definition Workload_GetEventAnnotations :: "KeptnWorkload \<Rightarrow> smap" where
  "Workload_GetEventAnnotations w = Some (fmap_of_list
     [(''appName'', wks_AppName (wk_Spec w)),
      (''workloadName'', om_Name (wk_meta w)),
      (''workloadVersion'', wks_Version (wk_Spec w))])"

definition GetNameWithoutAppPrefix :: "KeptnWorkload \<Rightarrow> string" where
  "GetNameWithoutAppPrefix w = trim_prefix (om_Name (wk_meta w)) (wks_AppName (wk_Spec w) @ ''-'')"

section \<open>App versions\<close>

definition AppVersion_IsPreDeploymentCompleted :: "KeptnAppVersion \<Rightarrow> bool" where
  "AppVersion_IsPreDeploymentCompleted a \<longleftrightarrow> IsCompleted (avst_PreDeploymentStatus (av_Status a))"

definition AppVersion_IsPreDeploymentEvaluationCompleted :: "KeptnAppVersion \<Rightarrow> bool" where
  "AppVersion_IsPreDeploymentEvaluationCompleted a \<longleftrightarrow> IsCompleted (avst_PreDeploymentEvaluationStatus (av_Status a))"

definition AppVersion_IsPreDeploymentSucceeded :: "KeptnAppVersion \<Rightarrow> bool \<Rightarrow> bool" where
  "AppVersion_IsPreDeploymentSucceeded a isBlocking \<longleftrightarrow> 
     (if isBlocking then IsSucceeded (avst_PreDeploymentStatus (av_Status a))
      else IsSucceeded (avst_PreDeploymentStatus (av_Status a)) \<or> IsWarning (avst_PreDeploymentStatus (av_Status a)))"

definition AppVersion_IsPreDeploymentFailed :: "KeptnAppVersion \<Rightarrow> bool" where
  "AppVersion_IsPreDeploymentFailed a \<longleftrightarrow> IsFailed (avst_PreDeploymentStatus (av_Status a))"

definition AppVersion_IsPreDeploymentEvaluationSucceeded :: "KeptnAppVersion \<Rightarrow> bool \<Rightarrow> bool" where
  "AppVersion_IsPreDeploymentEvaluationSucceeded a isBlocking \<longleftrightarrow> 
     (if isBlocking then IsSucceeded (avst_PreDeploymentEvaluationStatus (av_Status a))
      else IsSucceeded (avst_PreDeploymentEvaluationStatus (av_Status a)) \<or> IsWarning (avst_PreDeploymentEvaluationStatus (av_Status a)))"

definition AppVersion_IsPreDeploymentEvaluationFailed :: "KeptnAppVersion \<Rightarrow> bool" where
  "AppVersion_IsPreDeploymentEvaluationFailed a \<longleftrightarrow> IsFailed (avst_PreDeploymentEvaluationStatus (av_Status a))"

definition AppVersion_IsPostDeploymentCompleted :: "KeptnAppVersion \<Rightarrow> bool" where
  "AppVersion_IsPostDeploymentCompleted a \<longleftrightarrow> IsCompleted (avst_PostDeploymentStatus (av_Status a))"

definition AppVersion_IsPromotionCompleted :: "KeptnAppVersion \<Rightarrow> bool" where
  "AppVersion_IsPromotionCompleted a \<longleftrightarrow> IsCompleted (avst_PromotionStatus (av_Status a))"

definition AppVersion_IsPostDeploymentEvaluationCompleted :: "KeptnAppVersion \<Rightarrow> bool" where
  "AppVersion_IsPostDeploymentEvaluationCompleted a \<longleftrightarrow> IsCompleted (avst_PostDeploymentEvaluationStatus (av_Status a))"

definition AppVersion_IsPostDeploymentFailed :: "KeptnAppVersion \<Rightarrow> bool" where
  "AppVersion_IsPostDeploymentFailed a \<longleftrightarrow> IsFailed (avst_PostDeploymentStatus (av_Status a))"

definition AppVersion_IsPromotionFailed :: "KeptnAppVersion \<Rightarrow> bool" where
  "AppVersion_IsPromotionFailed a \<longleftrightarrow> IsFailed (avst_PromotionStatus (av_Status a))"

definition AppVersion_IsPostDeploymentEvaluationSucceeded :: "KeptnAppVersion \<Rightarrow> bool \<Rightarrow> bool" where
  "AppVersion_IsPostDeploymentEvaluationSucceeded a isBlocking \<longleftrightarrow> 
     (if isBlocking then IsSucceeded (avst_PostDeploymentEvaluationStatus (av_Status a))
      else IsSucceeded (avst_PostDeploymentEvaluationStatus (av_Status a)) \<or> IsWarning (avst_PostDeploymentEvaluationStatus (av_Status a)))"

definition AppVersion_IsPostDeploymentEvaluationFailed :: "KeptnAppVersion \<Rightarrow> bool" where
  "AppVersion_IsPostDeploymentEvaluationFailed a \<longleftrightarrow> IsFailed (avst_PostDeploymentEvaluationStatus (av_Status a))"

definition AppVersion_IsPostDeploymentSucceeded :: "KeptnAppVersion \<Rightarrow> bool \<Rightarrow> bool" where
  "AppVersion_IsPostDeploymentSucceeded a isBlocking \<longleftrightarrow> 
     (if isBlocking then IsSucceeded (avst_PostDeploymentStatus (av_Status a))
      else IsSucceeded (avst_PostDeploymentStatus (av_Status a)) \<or> IsWarning (avst_PostDeploymentStatus (av_Status a)))"

definition AppVersion_IsPromotionSucceeded :: "KeptnAppVersion \<Rightarrow> bool" where
  "AppVersion_IsPromotionSucceeded a \<longleftrightarrow> IsSucceeded (avst_PromotionStatus (av_Status a))"

definition AppVersion_AreWorkloadsCompleted :: "KeptnAppVersion \<Rightarrow> bool" where
  "AppVersion_AreWorkloadsCompleted a \<longleftrightarrow> IsCompleted (avst_WorkloadOverallStatus (av_Status a))"

definition AppVersion_AreWorkloadsSucceeded :: "KeptnAppVersion \<Rightarrow> bool" where
  "AppVersion_AreWorkloadsSucceeded a \<longleftrightarrow> IsSucceeded (avst_WorkloadOverallStatus (av_Status a))"

definition AppVersion_AreWorkloadsFailed :: "KeptnAppVersion \<Rightarrow> bool" where
  "AppVersion_AreWorkloadsFailed a \<longleftrightarrow> IsFailed (avst_WorkloadOverallStatus (av_Status a))"

definition AppVersion_SetStartTime :: "time \<Rightarrow> KeptnAppVersion \<Rightarrow> KeptnAppVersion" where
  "AppVersion_SetStartTime now a =
     (if IsZero (avst_StartTime (av_Status a)) then a\<lparr>av_Status := (av_Status a)\<lparr>avst_StartTime := now\<rparr>\<rparr> else a)"

definition AppVersion_SetEndTime :: "time \<Rightarrow> KeptnAppVersion \<Rightarrow> KeptnAppVersion" where
  "AppVersion_SetEndTime now a =
     (if IsZero (avst_EndTime (av_Status a)) then a\<lparr>av_Status := (av_Status a)\<lparr>avst_EndTime := now\<rparr>\<rparr> else a)"

definition AppVersion_GetStartTime :: "KeptnAppVersion \<Rightarrow> time" where
  "AppVersion_GetStartTime a = avst_StartTime (av_Status a)"

definition AppVersion_GetEndTime :: "KeptnAppVersion \<Rightarrow> time" where
  "AppVersion_GetEndTime a = avst_EndTime (av_Status a)"

definition AppVersion_IsStartTimeSet :: "KeptnAppVersion \<Rightarrow> bool" where
  "AppVersion_IsStartTimeSet a \<longleftrightarrow> \<not> IsZero (avst_StartTime (av_Status a))"

definition AppVersion_IsEndTimeSet :: "KeptnAppVersion \<Rightarrow> bool" where
  "AppVersion_IsEndTimeSet a \<longleftrightarrow> \<not> IsZero (avst_EndTime (av_Status a))"

definition AppVersion_Complete :: "time \<Rightarrow> KeptnAppVersion \<Rightarrow> KeptnAppVersion" where
  "AppVersion_Complete now a = AppVersion_SetEndTime now a"

definition AppVersion_GetActiveMetricsAttributes :: "KeptnAppVersion \<Rightarrow> KeyValue list" where
  "AppVersion_GetActiveMetricsAttributes a = 
     [(AppName_key, avs_AppName (av_Spec a)),
      (AppVersion_key, as_Version (avs_AppSpec (av_Spec a))),
      (AppNamespace_key, om_Namespace (av_meta a))]"

definition AppVersion_GetMetricsAttributes :: "KeptnAppVersion \<Rightarrow> KeyValue list" where
  "AppVersion_GetMetricsAttributes a = 
     [(AppName_key, avs_AppName (av_Spec a)),
      (AppVersion_key, as_Version (avs_AppSpec (av_Spec a))),
      (AppNamespace_key, om_Namespace (av_meta a)),
      (AppStatus_key, state_string (avst_Status (av_Status a)))]"

definition AppVersion_GetDurationMetricsAttributes :: "KeptnAppVersion \<Rightarrow> KeyValue list" where
  "AppVersion_GetDurationMetricsAttributes a = 
     [(AppName_key, avs_AppName (av_Spec a)),
      (AppNamespace_key, om_Namespace (av_meta a)),
      (AppVersion_key, as_Version (avs_AppSpec (av_Spec a))),
      (AppPreviousVersion_key, avs_PreviousVersion (av_Spec a))]"

definition AppVersion_GetState :: "KeptnAppVersion \<Rightarrow> KeptnState" where
  "AppVersion_GetState a = avst_Status (av_Status a)"

definition AppVersion_GetPreDeploymentTasks :: "KeptnAppVersion \<Rightarrow> string list" where
  "AppVersion_GetPreDeploymentTasks a = dts_PreDeploymentTasks (acs_DeploymentTaskSpec (avs_ContextSpec (av_Spec a)))"

definition AppVersion_GetPostDeploymentTasks :: "KeptnAppVersion \<Rightarrow> string list" where
  "AppVersion_GetPostDeploymentTasks a = dts_PostDeploymentTasks (acs_DeploymentTaskSpec (avs_ContextSpec (av_Spec a)))"

definition AppVersion_GetPromotionTasks :: "KeptnAppVersion \<Rightarrow> string list" where
  "AppVersion_GetPromotionTasks a = dts_PromotionTasks (acs_DeploymentTaskSpec (avs_ContextSpec (av_Spec a)))"

definition AppVersion_GetPreDeploymentTaskStatus :: "KeptnAppVersion \<Rightarrow> ItemStatus list" where
  "AppVersion_GetPreDeploymentTaskStatus a = avst_PreDeploymentTaskStatus (av_Status a)"

definition AppVersion_GetPostDeploymentTaskStatus :: "KeptnAppVersion \<Rightarrow> ItemStatus list" where
  "AppVersion_GetPostDeploymentTaskStatus a = avst_PostDeploymentTaskStatus (av_Status a)"

definition AppVersion_GetPreDeploymentEvaluations :: "KeptnAppVersion \<Rightarrow> string list" where
  "AppVersion_GetPreDeploymentEvaluations a = dts_PreDeploymentEvaluations (acs_DeploymentTaskSpec (avs_ContextSpec (av_Spec a)))"

definition AppVersion_GetPostDeploymentEvaluations :: "KeptnAppVersion \<Rightarrow> string list" where
  "AppVersion_GetPostDeploymentEvaluations a = dts_PostDeploymentEvaluations (acs_DeploymentTaskSpec (avs_ContextSpec (av_Spec a)))"

definition AppVersion_GetPreDeploymentEvaluationTaskStatus :: "KeptnAppVersion \<Rightarrow> ItemStatus list" where
  "AppVersion_GetPreDeploymentEvaluationTaskStatus a = avst_PreDeploymentEvaluationTaskStatus (av_Status a)"

definition AppVersion_GetPostDeploymentEvaluationTaskStatus :: "KeptnAppVersion \<Rightarrow> ItemStatus list" where
  "AppVersion_GetPostDeploymentEvaluationTaskStatus a = avst_PostDeploymentEvaluationTaskStatus (av_Status a)"

definition AppVersion_GetPromotionTaskStatus :: "KeptnAppVersion \<Rightarrow> ItemStatus list" where
  "AppVersion_GetPromotionTaskStatus a = avst_PromotionTaskStatus (av_Status a)"

definition AppVersion_GetAppName :: "KeptnAppVersion \<Rightarrow> string" where
  "AppVersion_GetAppName a = avs_AppName (av_Spec a)"

definition AppVersion_GetPreviousVersion :: "KeptnAppVersion \<Rightarrow> string" where
  "AppVersion_GetPreviousVersion a = avs_PreviousVersion (av_Spec a)"

definition AppVersion_GetParentName :: "KeptnAppVersion \<Rightarrow> string" where
  "AppVersion_GetParentName a = avs_AppName (av_Spec a)"

definition AppVersion_GetNamespace :: "KeptnAppVersion \<Rightarrow> string" where
  "AppVersion_GetNamespace a = om_Namespace (av_meta a)"

definition AppVersion_SetState :: "KeptnState \<Rightarrow> KeptnAppVersion \<Rightarrow> KeptnAppVersion" where
  "AppVersion_SetState state a = a\<lparr>av_Status := (av_Status a)\<lparr>avst_Status := state\<rparr>\<rparr>"

definition AppVersion_GetCurrentPhase :: "KeptnAppVersion \<Rightarrow> string" where
  "AppVersion_GetCurrentPhase a = avst_CurrentPhase (av_Status a)"

definition AppVersion_SetCurrentPhase :: "string \<Rightarrow> KeptnAppVersion \<Rightarrow> KeptnAppVersion" where
  "AppVersion_SetCurrentPhase phase a = a\<lparr>av_Status := (av_Status a)\<lparr>avst_CurrentPhase := phase\<rparr>\<rparr>"

definition AppVersion_GetVersion :: "KeptnAppVersion \<Rightarrow> string" where
  "AppVersion_GetVersion a = as_Version (avs_AppSpec (av_Spec a))"

definition AppVersion_GenerateTask ::
    "nat \<Rightarrow> KeptnAppVersion \<Rightarrow> KeptnTaskDefinition \<Rightarrow> CheckType \<Rightarrow> KeptnTask" where
  "AppVersion_GenerateTask intn a taskDefinition checkType =
     \<lparr>t_meta = (named_meta (GenerateTaskName intn checkType (om_Name (td_meta taskDefinition)))
          (om_Namespace (av_meta a)))
        \<lparr>om_Labels := om_Labels (td_meta taskDefinition),
         om_Annotations := om_Annotations (td_meta taskDefinition)\<rparr>,
      t_Spec =
        \<lparr>ts_TaskDefinition = om_Name (td_meta taskDefinition),
         ts_Context = zero_TaskContext\<lparr>tc_AppName := AppVersion_GetParentName a,
           tc_AppVersion := AppVersion_GetVersion a, tc_TaskType := checkType,
           tc_ObjectType := ''App''\<rparr>,
         ts_Parameters = None, ts_SecureParameters = [], ts_Type = checkType,
         ts_Retries = tds_Retries (td_Spec taskDefinition),
         ts_Timeout = tds_Timeout (td_Spec taskDefinition)\<rparr>,
      t_Status = zero_KeptnTaskStatus\<rparr>"

definition AppVersion_GenerateEvaluation ::
    "nat \<Rightarrow> KeptnAppVersion \<Rightarrow> KeptnEvaluationDefinition \<Rightarrow> CheckType \<Rightarrow> KeptnEvaluation" where
  "AppVersion_GenerateEvaluation intn a evaluationDefinition checkType =
     \<lparr>e_meta = named_meta
        (GenerateEvaluationName intn checkType (om_Name (ed_meta evaluationDefinition)))
        (om_Namespace (av_meta a)),
      e_Spec = zero_KeptnEvaluationSpec
        \<lparr>es_AppVersion := as_Version (avs_AppSpec (av_Spec a)),
         es_AppName := avs_AppName (av_Spec a),
         es_EvaluationDefinition := om_Name (ed_meta evaluationDefinition),
         es_Type := checkType,
         es_FailureConditions :=
           \<lparr>fc_Retries = fc_Retries (eds_FailureConditions (ed_Spec evaluationDefinition)),
            fc_RetryInterval =
              fc_RetryInterval (eds_FailureConditions (ed_Spec evaluationDefinition))\<rparr>\<rparr>,
      e_Status = zero_KeptnEvaluationStatus\<rparr>"

definition AppVersion_GetSpanName :: "KeptnAppVersion \<Rightarrow> string \<Rightarrow> string" where
  "AppVersion_GetSpanName a phase = (if phase = [] then om_Name (av_meta a) else phase)"

definition AppVersion_GetSpanAttributes :: "KeptnAppVersion \<Rightarrow> KeyValue list" where
  "AppVersion_GetSpanAttributes a = 
     [(AppName_key, avs_AppName (av_Spec a)),
      (AppVersion_key, as_Version (avs_AppSpec (av_Spec a))),
      (AppNamespace_key, om_Namespace (av_meta a))]"

definition AppVersion_GetSpanKey :: "KeptnAppVersion \<Rightarrow> string \<Rightarrow> string" where
  "AppVersion_GetSpanKey a phase = 
     gm_str (avs_TraceId (av_Spec a)) ''traceparent'' @ ''.'' @ avs_AppName (av_Spec a) @ ''.'' @ om_Namespace (av_meta a) @ ''.'' @
     as_Version (avs_AppSpec (av_Spec a)) @ ''.'' @ phase"

definition AppVersion_DeprecateRemainingPhases :: "KeptnPhaseType \<Rightarrow> KeptnAppVersion \<Rightarrow> KeptnAppVersion" where
  "AppVersion_DeprecateRemainingPhases phase a =
     (if phase = PhasePromotion then a
      else
        (let a = (if phase = PhaseAppPostEvaluation then
            a\<lparr>av_Status := (av_Status a)\<lparr>avst_PromotionStatus := StateDeprecated\<rparr>\<rparr> else a);
             a = (if phase = PhaseAppPostDeployment then
            a\<lparr>av_Status := (av_Status a)\<lparr>avst_PostDeploymentEvaluationStatus := StateDeprecated,
              avst_PromotionStatus := StateDeprecated\<rparr>\<rparr> else a);
             a = (if phase = PhaseAppDeployment then
            a\<lparr>av_Status := (av_Status a)\<lparr>avst_PostDeploymentStatus := StateDeprecated,
              avst_PostDeploymentEvaluationStatus := StateDeprecated,
              avst_PromotionStatus := StateDeprecated\<rparr>\<rparr> else a);
             a = (if phase = PhaseAppPreEvaluation then
            a\<lparr>av_Status := (av_Status a)\<lparr>avst_PostDeploymentStatus := StateDeprecated,
              avst_PostDeploymentEvaluationStatus := StateDeprecated,
              avst_WorkloadOverallStatus := StateDeprecated,
              avst_PromotionStatus := StateDeprecated\<rparr>\<rparr> else a);
             a = (if phase = PhaseAppPreDeployment then
            a\<lparr>av_Status := (av_Status a)\<lparr>avst_PostDeploymentStatus := StateDeprecated,
              avst_PostDeploymentEvaluationStatus := StateDeprecated,
              avst_WorkloadOverallStatus := StateDeprecated,
              avst_PreDeploymentEvaluationStatus := StateDeprecated,
              avst_PromotionStatus := StateDeprecated\<rparr>\<rparr> else a)
         in if phase = PhaseDeprecated then
              a\<lparr>av_Status := (av_Status a)\<lparr>avst_PostDeploymentStatus := StateDeprecated,
                avst_PostDeploymentEvaluationStatus := StateDeprecated,
                avst_WorkloadOverallStatus := StateDeprecated,
                avst_PreDeploymentEvaluationStatus := StateDeprecated,
                avst_PreDeploymentStatus := StateDeprecated,
                avst_PromotionStatus := StateDeprecated,
                avst_Status := StateDeprecated\<rparr>\<rparr>
            else a\<lparr>av_Status := (av_Status a)\<lparr>avst_Status := StateFailed\<rparr>\<rparr>))"

definition AppVersion_SetPhaseTraceID :: "string \<Rightarrow> MapCarrier \<Rightarrow> KeptnAppVersion \<Rightarrow> KeptnAppVersion" where
  "AppVersion_SetPhaseTraceID phase carrier a =
     a\<lparr>av_Status := (av_Status a)\<lparr>avst_PhaseTraceIDs := Some (fmupd (GetShortPhaseName phase) carrier
       (gm_fmap (avst_PhaseTraceIDs (av_Status a))))\<rparr>\<rparr>"

definition AppVersion_GetEventAnnotations :: "KeptnAppVersion \<Rightarrow> smap" where
  "AppVersion_GetEventAnnotations a = Some (fmap_of_list
     [(''appName'', avs_AppName (av_Spec a)),
      (''appVersion'', as_Version (avs_AppSpec (av_Spec a))),
      (''appVersionName'', om_Name (av_meta a))])"

definition RemoveDeprecated :: "KeptnAppVersion list \<Rightarrow> KeptnAppVersion list" where
  "RemoveDeprecated items = filter (\<lambda>i. avst_Status (av_Status i) \<noteq> StateDeprecated) items"

definition GetWorkloadNameOfApp :: "KeptnAppVersion \<Rightarrow> string \<Rightarrow> string" where
  "GetWorkloadNameOfApp v workloadName = avs_AppName (av_Spec v) @ ''-'' @ workloadName"

section \<open>Workload versions\<close>

definition WorkloadVersion_IsPreDeploymentCompleted :: "KeptnWorkloadVersion \<Rightarrow> bool" where
  "WorkloadVersion_IsPreDeploymentCompleted w \<longleftrightarrow> IsCompleted (wvst_PreDeploymentStatus (wv_Status w))"

definition WorkloadVersion_IsPreDeploymentEvaluationCompleted :: "KeptnWorkloadVersion \<Rightarrow> bool" where
  "WorkloadVersion_IsPreDeploymentEvaluationCompleted w \<longleftrightarrow> IsCompleted (wvst_PreDeploymentEvaluationStatus (wv_Status w))"

definition WorkloadVersion_IsPreDeploymentSucceeded :: "KeptnWorkloadVersion \<Rightarrow> bool \<Rightarrow> bool" where
  "WorkloadVersion_IsPreDeploymentSucceeded w isBlocking \<longleftrightarrow> 
     (if isBlocking then IsSucceeded (wvst_PreDeploymentStatus (wv_Status w))
      else IsSucceeded (wvst_PreDeploymentStatus (wv_Status w)) \<or> IsWarning (wvst_PreDeploymentStatus (wv_Status w)))"

definition WorkloadVersion_IsPreDeploymentFailed :: "KeptnWorkloadVersion \<Rightarrow> bool" where
  "WorkloadVersion_IsPreDeploymentFailed w \<longleftrightarrow> IsFailed (wvst_PreDeploymentStatus (wv_Status w))"

definition WorkloadVersion_IsPreDeploymentEvaluationSucceeded :: "KeptnWorkloadVersion \<Rightarrow> bool \<Rightarrow> bool" where
  "WorkloadVersion_IsPreDeploymentEvaluationSucceeded w isBlocking \<longleftrightarrow> 
     (if isBlocking then IsSucceeded (wvst_PreDeploymentEvaluationStatus (wv_Status w))
      else IsSucceeded (wvst_PreDeploymentEvaluationStatus (wv_Status w)) \<or> IsWarning (wvst_PreDeploymentEvaluationStatus (wv_Status w)))"

definition WorkloadVersion_IsPreDeploymentEvaluationFailed :: "KeptnWorkloadVersion \<Rightarrow> bool" where
  "WorkloadVersion_IsPreDeploymentEvaluationFailed w \<longleftrightarrow> IsFailed (wvst_PreDeploymentEvaluationStatus (wv_Status w))"

definition WorkloadVersion_IsPostDeploymentCompleted :: "KeptnWorkloadVersion \<Rightarrow> bool" where
  "WorkloadVersion_IsPostDeploymentCompleted w \<longleftrightarrow> IsCompleted (wvst_PostDeploymentStatus (wv_Status w))"

definition WorkloadVersion_IsPostDeploymentEvaluationCompleted :: "KeptnWorkloadVersion \<Rightarrow> bool" where
  "WorkloadVersion_IsPostDeploymentEvaluationCompleted w \<longleftrightarrow> IsCompleted (wvst_PostDeploymentEvaluationStatus (wv_Status w))"

definition WorkloadVersion_IsPostDeploymentSucceeded :: "KeptnWorkloadVersion \<Rightarrow> bool \<Rightarrow> bool" where
  "WorkloadVersion_IsPostDeploymentSucceeded w isBlocking \<longleftrightarrow> 
     (if isBlocking then IsSucceeded (wvst_PostDeploymentStatus (wv_Status w))
      else IsSucceeded (wvst_PostDeploymentStatus (wv_Status w)) \<or> IsWarning (wvst_PostDeploymentStatus (wv_Status w)))"

definition WorkloadVersion_IsPostDeploymentFailed :: "KeptnWorkloadVersion \<Rightarrow> bool" where
  "WorkloadVersion_IsPostDeploymentFailed w \<longleftrightarrow> IsFailed (wvst_PostDeploymentStatus (wv_Status w))"

definition WorkloadVersion_IsPostDeploymentEvaluationSucceeded :: "KeptnWorkloadVersion \<Rightarrow> bool \<Rightarrow> bool" where
  "WorkloadVersion_IsPostDeploymentEvaluationSucceeded w isBlocking \<longleftrightarrow> 
     (if isBlocking then IsSucceeded (wvst_PostDeploymentEvaluationStatus (wv_Status w))
      else IsSucceeded (wvst_PostDeploymentEvaluationStatus (wv_Status w)) \<or> IsWarning (wvst_PostDeploymentEvaluationStatus (wv_Status w)))"

definition WorkloadVersion_IsPostDeploymentEvaluationFailed :: "KeptnWorkloadVersion \<Rightarrow> bool" where
  "WorkloadVersion_IsPostDeploymentEvaluationFailed w \<longleftrightarrow> IsFailed (wvst_PostDeploymentEvaluationStatus (wv_Status w))"

definition WorkloadVersion_IsDeploymentCompleted :: "KeptnWorkloadVersion \<Rightarrow> bool" where
  "WorkloadVersion_IsDeploymentCompleted w \<longleftrightarrow> IsCompleted (wvst_DeploymentStatus (wv_Status w))"

definition WorkloadVersion_IsDeploymentSucceeded :: "KeptnWorkloadVersion \<Rightarrow> bool" where
  "WorkloadVersion_IsDeploymentSucceeded w \<longleftrightarrow> IsSucceeded (wvst_DeploymentStatus (wv_Status w))"

definition WorkloadVersion_IsDeploymentFailed :: "KeptnWorkloadVersion \<Rightarrow> bool" where
  "WorkloadVersion_IsDeploymentFailed w \<longleftrightarrow> IsFailed (wvst_DeploymentStatus (wv_Status w))"

definition WorkloadVersion_SetStartTime :: "time \<Rightarrow> KeptnWorkloadVersion \<Rightarrow> KeptnWorkloadVersion" where
  "WorkloadVersion_SetStartTime now w =
     (if IsZero (wvst_StartTime (wv_Status w)) then w\<lparr>wv_Status := (wv_Status w)\<lparr>wvst_StartTime := now\<rparr>\<rparr> else w)"

definition WorkloadVersion_SetEndTime :: "time \<Rightarrow> KeptnWorkloadVersion \<Rightarrow> KeptnWorkloadVersion" where
  "WorkloadVersion_SetEndTime now w =
     (if IsZero (wvst_EndTime (wv_Status w)) then w\<lparr>wv_Status := (wv_Status w)\<lparr>wvst_EndTime := now\<rparr>\<rparr> else w)"

definition WorkloadVersion_GetStartTime :: "KeptnWorkloadVersion \<Rightarrow> time" where
  "WorkloadVersion_GetStartTime w = wvst_StartTime (wv_Status w)"

definition WorkloadVersion_GetEndTime :: "KeptnWorkloadVersion \<Rightarrow> time" where
  "WorkloadVersion_GetEndTime w = wvst_EndTime (wv_Status w)"

definition WorkloadVersion_IsStartTimeSet :: "KeptnWorkloadVersion \<Rightarrow> bool" where
  "WorkloadVersion_IsStartTimeSet w \<longleftrightarrow> \<not> IsZero (wvst_StartTime (wv_Status w))"

definition WorkloadVersion_IsEndTimeSet :: "KeptnWorkloadVersion \<Rightarrow> bool" where
  "WorkloadVersion_IsEndTimeSet w \<longleftrightarrow> \<not> IsZero (wvst_EndTime (wv_Status w))"

definition WorkloadVersion_Complete :: "time \<Rightarrow> KeptnWorkloadVersion \<Rightarrow> KeptnWorkloadVersion" where
  "WorkloadVersion_Complete now w = WorkloadVersion_SetEndTime now w"

definition WorkloadVersion_GetActiveMetricsAttributes :: "KeptnWorkloadVersion \<Rightarrow> KeyValue list" where
  "WorkloadVersion_GetActiveMetricsAttributes w = 
     [(AppName_key, wks_AppName (wvs_WorkloadSpec (wv_Spec w))),
      (WorkloadName_key, wvs_WorkloadName (wv_Spec w)),
      (WorkloadVersion_key, wks_Version (wvs_WorkloadSpec (wv_Spec w))),
      (WorkloadNamespace_key, om_Namespace (wv_meta w))]"

definition WorkloadVersion_GetMetricsAttributes :: "KeptnWorkloadVersion \<Rightarrow> KeyValue list" where
  "WorkloadVersion_GetMetricsAttributes w = 
     [(AppName_key, wks_AppName (wvs_WorkloadSpec (wv_Spec w))),
      (WorkloadName_key, wvs_WorkloadName (wv_Spec w)),
      (WorkloadVersion_key, wks_Version (wvs_WorkloadSpec (wv_Spec w))),
      (WorkloadNamespace_key, om_Namespace (wv_meta w)),
      (WorkloadStatus_key, state_string (wvst_Status (wv_Status w)))]"

definition WorkloadVersion_GetDurationMetricsAttributes :: "KeptnWorkloadVersion \<Rightarrow> KeyValue list" where
  "WorkloadVersion_GetDurationMetricsAttributes w = 
     [(AppName_key, wks_AppName (wvs_WorkloadSpec (wv_Spec w))),
      (WorkloadName_key, wvs_WorkloadName (wv_Spec w)),
      (WorkloadNamespace_key, om_Namespace (wv_meta w)),
      (WorkloadVersion_key, wks_Version (wvs_WorkloadSpec (wv_Spec w))),
      (WorkloadPreviousVersion_key, wvs_PreviousVersion (wv_Spec w))]"

definition WorkloadVersion_GetState :: "KeptnWorkloadVersion \<Rightarrow> KeptnState" where
  "WorkloadVersion_GetState w = wvst_Status (wv_Status w)"

definition WorkloadVersion_GetPreDeploymentTasks :: "KeptnWorkloadVersion \<Rightarrow> string list" where
  "WorkloadVersion_GetPreDeploymentTasks w = wks_PreDeploymentTasks (wvs_WorkloadSpec (wv_Spec w))"

definition WorkloadVersion_GetPostDeploymentTasks :: "KeptnWorkloadVersion \<Rightarrow> string list" where
  "WorkloadVersion_GetPostDeploymentTasks w = wks_PostDeploymentTasks (wvs_WorkloadSpec (wv_Spec w))"

definition WorkloadVersion_GetPreDeploymentTaskStatus :: "KeptnWorkloadVersion \<Rightarrow> ItemStatus list" where
  "WorkloadVersion_GetPreDeploymentTaskStatus w = wvst_PreDeploymentTaskStatus (wv_Status w)"

definition WorkloadVersion_GetPostDeploymentTaskStatus :: "KeptnWorkloadVersion \<Rightarrow> ItemStatus list" where
  "WorkloadVersion_GetPostDeploymentTaskStatus w = wvst_PostDeploymentTaskStatus (wv_Status w)"

definition WorkloadVersion_GetPreDeploymentEvaluations :: "KeptnWorkloadVersion \<Rightarrow> string list" where
  "WorkloadVersion_GetPreDeploymentEvaluations w = wks_PreDeploymentEvaluations (wvs_WorkloadSpec (wv_Spec w))"

definition WorkloadVersion_GetPostDeploymentEvaluations :: "KeptnWorkloadVersion \<Rightarrow> string list" where
  "WorkloadVersion_GetPostDeploymentEvaluations w = wks_PostDeploymentEvaluations (wvs_WorkloadSpec (wv_Spec w))"

definition WorkloadVersion_GetPreDeploymentEvaluationTaskStatus :: "KeptnWorkloadVersion \<Rightarrow> ItemStatus list" where
  "WorkloadVersion_GetPreDeploymentEvaluationTaskStatus w = wvst_PreDeploymentEvaluationTaskStatus (wv_Status w)"

definition WorkloadVersion_GetPostDeploymentEvaluationTaskStatus :: "KeptnWorkloadVersion \<Rightarrow> ItemStatus list" where
  "WorkloadVersion_GetPostDeploymentEvaluationTaskStatus w = wvst_PostDeploymentEvaluationTaskStatus (wv_Status w)"

definition WorkloadVersion_GetPromotionTasks :: "KeptnWorkloadVersion \<Rightarrow> string list" where
  "WorkloadVersion_GetPromotionTasks w = []"

definition WorkloadVersion_GetPromotionTaskStatus :: "KeptnWorkloadVersion \<Rightarrow> ItemStatus list" where
  "WorkloadVersion_GetPromotionTaskStatus w = []"

definition WorkloadVersion_GetAppName :: "KeptnWorkloadVersion \<Rightarrow> string" where
  "WorkloadVersion_GetAppName w = wks_AppName (wvs_WorkloadSpec (wv_Spec w))"

definition WorkloadVersion_GetPreviousVersion :: "KeptnWorkloadVersion \<Rightarrow> string" where
  "WorkloadVersion_GetPreviousVersion w = wvs_PreviousVersion (wv_Spec w)"

definition WorkloadVersion_GetParentName :: "KeptnWorkloadVersion \<Rightarrow> string" where
  "WorkloadVersion_GetParentName w = wvs_WorkloadName (wv_Spec w)"

definition WorkloadVersion_GetNamespace :: "KeptnWorkloadVersion \<Rightarrow> string" where
  "WorkloadVersion_GetNamespace w = om_Namespace (wv_meta w)"

definition WorkloadVersion_SetState :: "KeptnState \<Rightarrow> KeptnWorkloadVersion \<Rightarrow> KeptnWorkloadVersion" where
  "WorkloadVersion_SetState state w = w\<lparr>wv_Status := (wv_Status w)\<lparr>wvst_Status := state\<rparr>\<rparr>"

definition WorkloadVersion_GetCurrentPhase :: "KeptnWorkloadVersion \<Rightarrow> string" where
  "WorkloadVersion_GetCurrentPhase w = wvst_CurrentPhase (wv_Status w)"

definition WorkloadVersion_SetCurrentPhase :: "string \<Rightarrow> KeptnWorkloadVersion \<Rightarrow> KeptnWorkloadVersion" where
  "WorkloadVersion_SetCurrentPhase phase w = w\<lparr>wv_Status := (wv_Status w)\<lparr>wvst_CurrentPhase := phase\<rparr>\<rparr>"

definition WorkloadVersion_GetVersion :: "KeptnWorkloadVersion \<Rightarrow> string" where
  "WorkloadVersion_GetVersion w = wks_Version (wvs_WorkloadSpec (wv_Spec w))"

definition WorkloadVersion_GenerateTask ::
    "nat \<Rightarrow> KeptnWorkloadVersion \<Rightarrow> KeptnTaskDefinition \<Rightarrow> CheckType \<Rightarrow> KeptnTask" where
  "WorkloadVersion_GenerateTask intn w taskDefinition checkType =
     \<lparr>t_meta = (named_meta (GenerateTaskName intn checkType (om_Name (td_meta taskDefinition)))
          (om_Namespace (wv_meta w)))
        \<lparr>om_Labels := om_Labels (td_meta taskDefinition),
         om_Annotations := om_Annotations (td_meta taskDefinition)\<rparr>,
      t_Spec =
        \<lparr>ts_TaskDefinition = om_Name (td_meta taskDefinition),
         ts_Context = zero_TaskContext\<lparr>tc_WorkloadName := WorkloadVersion_GetParentName w,
           tc_AppName := WorkloadVersion_GetAppName w,
           tc_WorkloadVersion := WorkloadVersion_GetVersion w, tc_TaskType := checkType,
           tc_ObjectType := ''Workload''\<rparr>,
         ts_Parameters = None, ts_SecureParameters = [], ts_Type = checkType,
         ts_Retries = tds_Retries (td_Spec taskDefinition),
         ts_Timeout = tds_Timeout (td_Spec taskDefinition)\<rparr>,
      t_Status = zero_KeptnTaskStatus\<rparr>"

definition WorkloadVersion_GenerateEvaluation ::
    "nat \<Rightarrow> KeptnWorkloadVersion \<Rightarrow> KeptnEvaluationDefinition \<Rightarrow> CheckType \<Rightarrow> KeptnEvaluation" where
  "WorkloadVersion_GenerateEvaluation intn w evaluationDefinition checkType =
     \<lparr>e_meta = named_meta
        (GenerateEvaluationName intn checkType (om_Name (ed_meta evaluationDefinition)))
        (om_Namespace (wv_meta w)),
      e_Spec = zero_KeptnEvaluationSpec
        \<lparr>es_AppName := WorkloadVersion_GetAppName w,
         es_WorkloadVersion := WorkloadVersion_GetVersion w,
         es_Workload := WorkloadVersion_GetParentName w,
         es_EvaluationDefinition := om_Name (ed_meta evaluationDefinition),
         es_Type := checkType,
         es_FailureConditions :=
           \<lparr>fc_Retries = fc_Retries (eds_FailureConditions (ed_Spec evaluationDefinition)),
            fc_RetryInterval =
              fc_RetryInterval (eds_FailureConditions (ed_Spec evaluationDefinition))\<rparr>\<rparr>,
      e_Status = zero_KeptnEvaluationStatus\<rparr>"

definition WorkloadVersion_GetSpanName :: "KeptnWorkloadVersion \<Rightarrow> string \<Rightarrow> string" where
  "WorkloadVersion_GetSpanName w phase = (if phase = [] then om_Name (wv_meta w) else wvs_WorkloadName (wv_Spec w) @ ''/'' @ phase)"

definition WorkloadVersion_GetSpanAttributes :: "KeptnWorkloadVersion \<Rightarrow> KeyValue list" where
  "WorkloadVersion_GetSpanAttributes w = 
     [(AppName_key, wks_AppName (wvs_WorkloadSpec (wv_Spec w))),
      (WorkloadName_key, wvs_WorkloadName (wv_Spec w)),
      (WorkloadVersion_key, wks_Version (wvs_WorkloadSpec (wv_Spec w))),
      (WorkloadNamespace_key, om_Namespace (wv_meta w))]"

definition WorkloadVersion_GetSpanKey :: "KeptnWorkloadVersion \<Rightarrow> string \<Rightarrow> string" where
  "WorkloadVersion_GetSpanKey w phase = 
     gm_str (wvs_TraceId (wv_Spec w)) ''traceparent'' @ ''.'' @ wvs_WorkloadName (wv_Spec w) @ ''.'' @ om_Namespace (wv_meta w) @ ''.'' @
     wks_Version (wvs_WorkloadSpec (wv_Spec w)) @ ''.'' @ phase"

definition WorkloadVersion_DeprecateRemainingPhases :: "KeptnPhaseType \<Rightarrow> KeptnWorkloadVersion \<Rightarrow> KeptnWorkloadVersion" where
  "WorkloadVersion_DeprecateRemainingPhases phase w =
     (if phase = PhaseWorkloadPostEvaluation then w
      else
        (let w = (if phase = PhaseWorkloadPostDeployment then
            w\<lparr>wv_Status := (wv_Status w)\<lparr>wvst_PostDeploymentEvaluationStatus := StateDeprecated\<rparr>\<rparr> else w);
             w = (if phase = PhaseWorkloadDeployment then
            w\<lparr>wv_Status := (wv_Status w)\<lparr>wvst_PostDeploymentStatus := StateDeprecated,
              wvst_PostDeploymentEvaluationStatus := StateDeprecated\<rparr>\<rparr> else w);
             w = (if phase = PhaseWorkloadPreEvaluation then
            w\<lparr>wv_Status := (wv_Status w)\<lparr>wvst_PostDeploymentStatus := StateDeprecated,
              wvst_PostDeploymentEvaluationStatus := StateDeprecated,
              wvst_DeploymentStatus := StateDeprecated\<rparr>\<rparr> else w);
             w = (if phase = PhaseWorkloadPreDeployment then
            w\<lparr>wv_Status := (wv_Status w)\<lparr>wvst_PostDeploymentStatus := StateDeprecated,
              wvst_PostDeploymentEvaluationStatus := StateDeprecated,
              wvst_DeploymentStatus := StateDeprecated,
              wvst_PreDeploymentEvaluationStatus := StateDeprecated\<rparr>\<rparr> else w)
         in if phase = PhaseDeprecated then
              w\<lparr>wv_Status := (wv_Status w)\<lparr>wvst_PostDeploymentStatus := StateDeprecated,
                wvst_PostDeploymentEvaluationStatus := StateDeprecated,
                wvst_DeploymentStatus := StateDeprecated,
                wvst_PreDeploymentEvaluationStatus := StateDeprecated,
                wvst_PreDeploymentStatus := StateDeprecated,
                wvst_Status := StateDeprecated\<rparr>\<rparr>
            else w\<lparr>wv_Status := (wv_Status w)\<lparr>wvst_Status := StateFailed\<rparr>\<rparr>))"

definition WorkloadVersion_SetPhaseTraceID :: "string \<Rightarrow> MapCarrier \<Rightarrow> KeptnWorkloadVersion \<Rightarrow> KeptnWorkloadVersion" where
  "WorkloadVersion_SetPhaseTraceID phase carrier w =
     w\<lparr>wv_Status := (wv_Status w)\<lparr>wvst_PhaseTraceIDs := Some (fmupd (GetShortPhaseName phase) carrier
       (gm_fmap (wvst_PhaseTraceIDs (wv_Status w))))\<rparr>\<rparr>"

definition WorkloadVersion_GetEventAnnotations :: "KeptnWorkloadVersion \<Rightarrow> smap" where
  "WorkloadVersion_GetEventAnnotations w = Some (fmap_of_list
     [(''appName'', wks_AppName (wvs_WorkloadSpec (wv_Spec w))),
      (''workloadName'', wvs_WorkloadName (wv_Spec w)),
      (''workloadVersion'', wks_Version (wvs_WorkloadSpec (wv_Spec w))),
      (''workloadVersionName'', om_Name (wv_meta w))])"

definition SetDeploymentStartTime :: "time \<Rightarrow> KeptnWorkloadVersion \<Rightarrow> KeptnWorkloadVersion" where
  "SetDeploymentStartTime now w = w\<lparr>wv_Status := (wv_Status w)\<lparr>wvst_DeploymentStartTime := now\<rparr>\<rparr>"

definition IsDeploymentStartTimeSet :: "KeptnWorkloadVersion \<Rightarrow> bool" where
  "IsDeploymentStartTimeSet w \<longleftrightarrow> \<not> IsZero (wvst_DeploymentStartTime (wv_Status w))"

section \<open>Statements\<close>

text \<open>
  The admission webhook accepts a KeptnTaskDefinition, when it is created and when it is
  updated, exactly when one and only one of the fields Container, Python and Deno is set; deleting
  is always accepted.
\<close>

theorem task_definition_one_runtime:
  "(snd (ValidateCreate r) = None \<longleftrightarrow>
      length (filter (\<lambda>set. set) [tds_Container (td_Spec r) \<noteq> None, tds_Python (td_Spec r) \<noteq> None,
        tds_Deno (td_Spec r) \<noteq> None]) = 1) \<and>
   snd (ValidateUpdate r old) = snd (ValidateCreate r) \<and> snd (ValidateDelete r) = None"
  by (auto simp: ValidateCreate_def ValidateUpdate_def ValidateDelete_def
      validateKeptnTaskDefinition_def validateFields_def countSpec_def Let_def split: if_splits)

end
