(* ===== verification/Cluster.thy ===== *)
theory Cluster
  imports Api_Types
begin

text \<open>
  What every controller of the lifecycle operator works with: the Kubernetes API server, the clock,
  the random source and OpenTelemetry, which are not part of the program and enter as one record of
  operations on an abstract world \<^typ>\<open>'w\<close>; the environment that a reconciliation changes (the
  world, the events emitted, the spans bound by the span handler and the calls made on spans and
  meters); the operator's configuration, contexts, the span handler, the event sender and the helper
  functions of \<^verbatim>\<open>controllers/common\<close>.
\<close>

named_theorems env_simps \<open>running the primitive operations on an environment\<close>

section \<open>Contexts\<close>

text \<open>
  Of a \<^verbatim>\<open>context.Context\<close> the code uses the app metadata stored by \<^verbatim>\<open>WithAppMetadata\<close> and, through
  OpenTelemetry, the span context it carries, which stays abstract.
\<close>

record Context =
  ctx_AppMetadata :: "(string, string) fmap option"
  ctx_Trace :: nat

definition context_TODO :: Context where
  "context_TODO = \<lparr>ctx_AppMetadata = None, ctx_Trace = 0\<rparr>"

definition WithAppMetadata :: "Context \<Rightarrow> smap list \<Rightarrow> Context" where
  "WithAppMetadata ctx appContextMeta =
     ctx\<lparr>ctx_AppMetadata := Some (fold (\<lambda>meta merged. merged ++\<^sub>f gm_fmap meta) appContextMeta fmempty)\<rparr>"

definition GetAppMetadataFromContext :: "Context \<Rightarrow> (string, string) fmap \<times> bool" where
  "GetAppMetadataFromContext ctx =
     (case ctx_AppMetadata ctx of Some m \<Rightarrow> (m, True) | None \<Rightarrow> (fmempty, False))"

section \<open>Kubernetes objects the operator reads or creates\<close>

record ReplicaSet =
  repl_meta :: ObjectMeta
  repl_Replicas :: int
  repl_AvailableReplicas :: int

record StatefulSet =
  sts_meta :: ObjectMeta
  sts_Replicas :: int
  sts_AvailableReplicas :: int

record DaemonSet =
  dms_meta :: ObjectMeta
  dms_DesiredNumberScheduled :: int
  dms_NumberReady :: int

record Rollout =
  rol_meta :: ObjectMeta
  rol_Replicas :: int
  rol_UpdatedReplicas :: int
  rol_Phase :: string

record JobCondition =
  jc_Type :: string
  jc_Message :: string
  jc_Reason :: string

text \<open>A quantity is one that was read, or \<^verbatim>\<open>resource.NewQuantity\<close> of a value and a format.\<close>

datatype Quantity = ParsedQuantity string | NewQuantity int string

record EmptyDirVolumeSource =
  ed_SizeLimit :: Quantity
  ed_Medium :: string

record Volume =
  vol_Name :: string
  vol_EmptyDir :: "EmptyDirVolumeSource option"
  vol_ConfigMap :: "string option"

record PodSpec =
  ps_RestartPolicy :: string
  ps_ServiceAccountName :: string
  ps_AutomountServiceAccountToken :: "bool option"
  ps_ImagePullSecrets :: "string list"
  ps_Volumes :: "Volume list"
  ps_Containers :: "Container list"

record Job =
  j_meta :: ObjectMeta
  j_TemplateLabels :: smap
  j_TemplateAnnotations :: smap
  j_PodSpec :: PodSpec
  j_BackoffLimit :: "int option"
  j_ActiveDeadlineSeconds :: "int option"
  j_TTLSecondsAfterFinished :: "int option"
  j_Conditions :: "JobCondition list"

record ConfigMap =
  cm_meta :: ObjectMeta
  cm_Data :: smap

record Pod =
  pod_meta :: ObjectMeta
  pod_SchedulingGates :: "string list"
  pod_Containers :: "Container list"

record Namespace =
  nsp_meta :: ObjectMeta

record Deployment =
  dep_meta :: ObjectMeta

text \<open>
  A KeptnMetric is read as an unstructured object: a nested string is there or not.
\<close>

record KeptnMetric =
  km_Value :: "string option"
  km_RawValue :: "string option"

section \<open>The world\<close>

text \<open>
  The operations of \<^verbatim>\<open>client.Client\<close> on one kind of object.  A read of a single object takes its
  namespace and name, a list its namespace and field selectors; a successful write returns the
  object as the server stored it, which the client library writes back into the caller's object.
\<close>

record ('w, 'o) api =
  api_Get :: "string \<Rightarrow> string \<Rightarrow> ('w, error + 'o) state"
  api_List :: "string \<Rightarrow> (string \<times> string) list \<Rightarrow> ('w, error + 'o list) state"
  api_Create :: "'o \<Rightarrow> ('w, error + 'o) state"
  api_Update :: "'o \<Rightarrow> ('w, error + 'o) state"
  api_StatusUpdate :: "'o \<Rightarrow> ('w, error + 'o) state"
  api_Delete :: "'o \<Rightarrow> ('w, error + unit) state"

type_synonym Link = "Context \<times> KeyValue list"

record 'w Client =
  cl_App :: "('w, KeptnApp) api"
  cl_AppVersion :: "('w, KeptnAppVersion) api"
  cl_AppContext :: "('w, KeptnAppContext) api"
  cl_CreationRequest :: "('w, KeptnAppCreationRequest) api"
  cl_Workload :: "('w, KeptnWorkload) api"
  cl_WorkloadVersion :: "('w, KeptnWorkloadVersion) api"
  cl_Task :: "('w, KeptnTask) api"
  cl_TaskDefinition :: "('w, KeptnTaskDefinition) api"
  cl_Evaluation :: "('w, KeptnEvaluation) api"
  cl_EvaluationDefinition :: "('w, KeptnEvaluationDefinition) api"
  cl_Metric :: "('w, KeptnMetric) api"
  cl_ReplicaSet :: "('w, ReplicaSet) api"
  cl_StatefulSet :: "('w, StatefulSet) api"
  cl_DaemonSet :: "('w, DaemonSet) api"
  cl_Rollout :: "('w, Rollout) api"
  cl_Job :: "('w, Job) api"
  cl_ConfigMap :: "('w, ConfigMap) api"
  cl_Pod :: "('w, Pod) api"
  cl_Namespace :: "('w, Namespace) api"
  cl_Deployment :: "('w, Deployment) api"
  cl_SetControllerReference :: "string \<Rightarrow> ObjectMeta \<Rightarrow> ObjectMeta \<Rightarrow> error + ObjectMeta"
  cl_Now :: "('w, time) state"
  cl_Intn :: "nat \<Rightarrow> ('w, nat) state"
  cl_RangeOrder :: "string fset \<Rightarrow> ('w, string list) state"
  cl_TracerStart :: "string \<Rightarrow> Context \<Rightarrow> string \<Rightarrow> Link list \<Rightarrow> ('w, Context \<times> nat) state"
  cl_Inject :: "Context \<Rightarrow> (string, string) fmap"
  cl_Extract :: "Context \<Rightarrow> MapCarrier \<Rightarrow> Context"

section \<open>The environment of a reconciliation\<close>

text \<open>A span is nil or a handle given by the tracer; calling a method of a nil span panics.\<close>

type_synonym Span = "nat option"

datatype SpanCode = CodeOk | CodeError

datatype SpanOp =
    AddEvent string "time option"
  | SetAttributes "KeyValue list"
  | SetStatus SpanCode string
  | SpanEnd

datatype MeterCall =
    CounterAdd string int "KeyValue list"
  | HistogramRecord string duration "KeyValue list"

text \<open>
  What an emitted event keeps of its object: the metadata and, when the object is an
  \<^verbatim>\<open>EventObject\<close>, its annotations.
\<close>

record EventTarget =
  et_meta :: ObjectMeta
  et_EventAnnotations :: "smap option"

record EventCall =
  evc_Phase :: KeptnPhaseType
  evc_Type :: string
  evc_Object :: EventTarget
  evc_Status :: string
  evc_Message :: string
  evc_Version :: string

record 'w Env =
  env_World :: 'w
  env_Events :: "EventCall list"
  env_Spans :: "(string, Context \<times> nat) fmap"
  env_SpanLog :: "(nat \<times> SpanOp) list"
  env_Meters :: "MeterCall list"
  env_Panicked :: bool

type_synonym ('w, 'a) prog = "('w Env, 'a) state"

definition initial_env :: "'w \<Rightarrow> 'w Env" where
  "initial_env w = \<lparr>env_World = w, env_Events = [], env_Spans = fmempty, env_SpanLog = [],
     env_Meters = [], env_Panicked = False\<rparr>"

text \<open>An operation of the world, as a program on the environment.\<close>

definition on_world :: "('w, 'a) state \<Rightarrow> ('w, 'a) prog" where
  "on_world m = State (\<lambda>s. case run_state m (env_World s) of (a, w) \<Rightarrow> (a, s\<lparr>env_World := w\<rparr>))"

definition Emit ::
    "KeptnPhaseType \<Rightarrow> string \<Rightarrow> EventTarget \<Rightarrow> string \<Rightarrow> string \<Rightarrow> string \<Rightarrow> ('w, unit) prog" where
  "Emit phase eventType obj status message version =
     modify (\<lambda>s. s\<lparr>env_Events := env_Events s @ [\<lparr>evc_Phase = phase, evc_Type = eventType,
       evc_Object = obj, evc_Status = status, evc_Message = message, evc_Version = version\<rparr>]\<rparr>)"

definition span_call :: "Span \<Rightarrow> SpanOp \<Rightarrow> ('w, unit) prog" where
  "span_call span operation =
     (case span of
        None \<Rightarrow> modify (\<lambda>s. s\<lparr>env_Panicked := True\<rparr>)
      | Some i \<Rightarrow> modify (\<lambda>s. s\<lparr>env_SpanLog := env_SpanLog s @ [(i, operation)]\<rparr>))"

definition meter_call :: "MeterCall \<Rightarrow> ('w, unit) prog" where
  "meter_call c = modify (\<lambda>s. s\<lparr>env_Meters := env_Meters s @ [c]\<rparr>)"

definition Now :: "'w Client \<Rightarrow> ('w, time) prog" where
  "Now cl = on_world (cl_Now cl)"

text \<open>The result of a reconciliation: \<^verbatim>\<open>ctrl.Result\<close> and an error that may be nil.\<close>

record Result =
  Requeue :: bool
  RequeueAfter :: duration

definition no_requeue :: Result where
  "no_requeue = \<lparr>Requeue = False, RequeueAfter = 0\<rparr>"

definition requeue_after :: "int \<Rightarrow> Result" where
  "requeue_after secs = \<lparr>Requeue = True, RequeueAfter = secs * second\<rparr>"

definition requeue_now :: Result where
  "requeue_now = \<lparr>Requeue = True, RequeueAfter = 0\<rparr>"

type_synonym outcome = "Result \<times> error option"

record Request =
  req_Name :: string
  req_Namespace :: string

section \<open>Configuration\<close>

record ControllerConfig =
  cfg_keptnAppCreationRequestTimeout :: duration
  cfg_cloudEventsEndpoint :: string
  cfg_defaultNamespace :: string
  cfg_blockDeployment :: bool
  cfg_observabilityTimeout :: duration
  cfg_restApiEnabled :: bool

definition defaultKeptnAppCreationRequestTimeout :: duration where
  "defaultKeptnAppCreationRequestTimeout = 30 * second"

text \<open>The singleton as \<^verbatim>\<open>Instance\<close> creates it.\<close>

definition Instance :: ControllerConfig where
  "Instance = \<lparr>cfg_keptnAppCreationRequestTimeout = defaultKeptnAppCreationRequestTimeout,
     cfg_cloudEventsEndpoint = [], cfg_defaultNamespace = [], cfg_blockDeployment = True,
     cfg_observabilityTimeout = 5 * 60 * second, cfg_restApiEnabled = False\<rparr>"

definition SetCreationRequestTimeout :: "duration \<Rightarrow> ControllerConfig \<Rightarrow> ControllerConfig" where
  "SetCreationRequestTimeout value c = c\<lparr>cfg_keptnAppCreationRequestTimeout := value\<rparr>"

definition GetCreationRequestTimeout :: "ControllerConfig \<Rightarrow> duration" where
  "GetCreationRequestTimeout c = cfg_keptnAppCreationRequestTimeout c"

definition SetCloudEventsEndpoint :: "string \<Rightarrow> ControllerConfig \<Rightarrow> ControllerConfig" where
  "SetCloudEventsEndpoint endpoint c = c\<lparr>cfg_cloudEventsEndpoint := endpoint\<rparr>"

definition GetCloudEventsEndpoint :: "ControllerConfig \<Rightarrow> string" where
  "GetCloudEventsEndpoint c = cfg_cloudEventsEndpoint c"

definition SetDefaultNamespace :: "string \<Rightarrow> ControllerConfig \<Rightarrow> ControllerConfig" where
  "SetDefaultNamespace ns c = c\<lparr>cfg_defaultNamespace := ns\<rparr>"

definition GetDefaultNamespace :: "ControllerConfig \<Rightarrow> string" where
  "GetDefaultNamespace c = cfg_defaultNamespace c"

definition SetBlockDeployment :: "bool \<Rightarrow> ControllerConfig \<Rightarrow> ControllerConfig" where
  "SetBlockDeployment value c = c\<lparr>cfg_blockDeployment := value\<rparr>"

definition GetBlockDeployment :: "ControllerConfig \<Rightarrow> bool" where
  "GetBlockDeployment c = cfg_blockDeployment c"

definition SetObservabilityTimeout :: "duration \<Rightarrow> ControllerConfig \<Rightarrow> ControllerConfig" where
  "SetObservabilityTimeout timeout c = c\<lparr>cfg_observabilityTimeout := timeout\<rparr>"

definition GetObservabilityTimeout :: "ControllerConfig \<Rightarrow> duration" where
  "GetObservabilityTimeout c = cfg_observabilityTimeout c"

definition SetRestApiEnabled :: "bool \<Rightarrow> ControllerConfig \<Rightarrow> ControllerConfig" where
  "SetRestApiEnabled value c = c\<lparr>cfg_restApiEnabled := value\<rparr>"

definition GetRestApiEnabled :: "ControllerConfig \<Rightarrow> bool" where
  "GetRestApiEnabled c = cfg_restApiEnabled c"

section \<open>Errors of the controllers\<close>

abbreviation ErrCannotWrapToPhaseItem :: error where
  "ErrCannotWrapToPhaseItem \<equiv> Sentinel ''provided object does not implement PhaseItem interface''"

abbreviation ErrCannotWrapToEventObject :: error where
  "ErrCannotWrapToEventObject \<equiv> Sentinel ''provided object does not implement EventObject interface''"

abbreviation ErrCannotWrapToSpanItem :: error where
  "ErrCannotWrapToSpanItem \<equiv> Sentinel ''provided object does not implement SpanItem interface''"

abbreviation ErrRetryCountExceeded :: error where
  "ErrRetryCountExceeded \<equiv> Sentinel ''retryCount for evaluation exceeded''"

abbreviation ErrNoValues :: error where
  "ErrNoValues \<equiv> Sentinel ''no values''"

abbreviation ErrInvalidOperator :: error where
  "ErrInvalidOperator \<equiv> Sentinel ''invalid operator''"

abbreviation ErrNoTaskDefinitionSpec :: error where
  "ErrNoTaskDefinitionSpec \<equiv> Sentinel ''the TaskDefinition specs are empty''"

abbreviation ErrUnsupportedWorkloadVersionResourceReference :: error where
  "ErrUnsupportedWorkloadVersionResourceReference \<equiv> Sentinel ''unsupported Resource Reference''"

abbreviation ErrCannotGetKeptnTaskDefinition :: error where
  "ErrCannotGetKeptnTaskDefinition \<equiv> Sentinel ''cannot retrieve KeptnTaskDefinition''"

abbreviation ErrCannotGetKeptnEvaluationDefinition :: error where
  "ErrCannotGetKeptnEvaluationDefinition \<equiv> Sentinel ''cannot retrieve KeptnEvaluationDefinition''"

abbreviation ErrNoMatchingAppVersionFound :: error where
  "ErrNoMatchingAppVersionFound \<equiv> Sentinel ''no matching KeptnAppVersion found''"

definition IgnoreReferencedResourceNotFound :: "error option \<Rightarrow> error option" where
  "IgnoreReferencedResourceNotFound err =
     (case err of
        None \<Rightarrow> None
      | Some e \<Rightarrow> if error_is e ErrNoMatchingAppVersionFound then None else Some e)"

section \<open>Events\<close>

definition setEventMessage :: "KeptnPhaseType \<Rightarrow> ObjectMeta \<Rightarrow> string \<Rightarrow> string \<Rightarrow> string" where
  "setEventMessage phase obj longReason version =
     (if version = [] then
        LongName phase @ '': '' @ longReason @ '' / Namespace: '' @ om_Namespace obj @
        '', Name: '' @ om_Name obj
      else
        LongName phase @ '': '' @ longReason @ '' / Namespace: '' @ om_Namespace obj @
        '', Name: '' @ om_Name obj @ '', Version: '' @ version)"

definition NewEventObjectWrapperFromClientObject :: "EventTarget \<Rightarrow> error + smap" where
  "NewEventObjectWrapperFromClientObject obj =
     (case et_EventAnnotations obj of
        None \<Rightarrow> Inl ErrCannotWrapToEventObject
      | Some m \<Rightarrow> Inr m)"

definition setAnnotations :: "EventTarget \<Rightarrow> KeptnPhaseType \<Rightarrow> smap" where
  "setAnnotations obj phase =
     (if om_Name (et_meta obj) = [] \<or> om_Namespace (et_meta obj) = [] then None
      else
        (let annotations = fmap_of_list
               [(''namespace'', om_Namespace (et_meta obj)),
                (''name'', om_Name (et_meta obj)),
                (''phase'', ShortName phase)];
             annotations =
               (case NewEventObjectWrapperFromClientObject obj of
                  Inl _ \<Rightarrow> annotations
                | Inr m \<Rightarrow> annotations ++\<^sub>f gm_fmap m);
             annotationsObject = om_Annotations (et_meta obj)
         in Some (fmupd ''traceparent'' (gm_str annotationsObject ''traceparent'') annotations)))"

text \<open>What the two emitters hand to the event recorder and to the CloudEvents client.\<close>

record K8sEvent =
  k8s_Annotations :: smap
  k8s_Type :: string
  k8s_Reason :: string
  k8s_Message :: string

definition k8sEvent_Emit :: "EventCall \<Rightarrow> K8sEvent" where
  "k8sEvent_Emit c =
     (let msg = setEventMessage (evc_Phase c) (et_meta (evc_Object c)) (evc_Message c) (evc_Version c);
          annotations = setAnnotations (evc_Object c) (evc_Phase c)
      in \<lparr>k8s_Annotations = annotations, k8s_Type = evc_Type c,
          k8s_Reason = ShortName (evc_Phase c) @ evc_Status c, k8s_Message = msg\<rparr>)"

record CloudEvent =
  ce_Target :: string
  ce_Source :: string
  ce_Type :: string
  ce_Message :: string
  ce_EventType :: string
  ce_Version :: string
  ce_Name :: string
  ce_Namespace :: string

definition cloudEvent_Emit :: "ControllerConfig \<Rightarrow> EventCall \<Rightarrow> CloudEvent option" where
  "cloudEvent_Emit cfg c =
     (let endpoint = GetCloudEventsEndpoint cfg in
      if endpoint = [] then None
      else
        (let msg = setEventMessage (evc_Phase c) (et_meta (evc_Object c)) (evc_Message c) (evc_Version c)
         in Some \<lparr>ce_Target = endpoint, ce_Source = ''keptn.sh'',
              ce_Type = LongName (evc_Phase c) @ ''.'' @ evc_Status c, ce_Message = msg,
              ce_EventType = evc_Type c, ce_Version = evc_Version c,
              ce_Name = om_Name (et_meta (evc_Object c)),
              ce_Namespace = om_Namespace (et_meta (evc_Object c))\<rparr>))"

section \<open>The span handler\<close>

text \<open>The interface \<^verbatim>\<open>SpanItem\<close> as a table of the methods of one type of object.\<close>

record 'o SpanItem =
  si_SpanAttributes :: "'o \<Rightarrow> KeyValue list"
  si_SetPhaseTraceID :: "string \<Rightarrow> MapCarrier \<Rightarrow> 'o \<Rightarrow> 'o"
  si_GetSpanKey :: "'o \<Rightarrow> string \<Rightarrow> string"
  si_GetSpanName :: "'o \<Rightarrow> string \<Rightarrow> string"

text \<open>A type assertion that fails is the absence of a table.\<close>

definition NewSpanItemWrapperFromClientObject :: "'o SpanItem option \<Rightarrow> error + 'o SpanItem" where
  "NewSpanItemWrapperFromClientObject t =
     (case t of None \<Rightarrow> Inl ErrCannotWrapToSpanItem | Some si \<Rightarrow> Inr si)"

fun set_meta_attributes :: "Span \<Rightarrow> (string, string) fmap \<Rightarrow> string list \<Rightarrow> ('w, unit) prog" where
  "set_meta_attributes span meta [] = ret ()"
| "set_meta_attributes span meta (key # keys) = do {
     span_call span (SetAttributes [(key, gm_str (Some meta) key)]);
     set_meta_attributes span meta keys
   }"

text \<open>
  \<^verbatim>\<open>GetSpan\<close> returns the object, whose trace ids it may set, and the context with the span or an
  error.  The mutex makes it atomic.
\<close>

definition GetSpan ::
    "'w Client \<Rightarrow> Context \<Rightarrow> string \<Rightarrow> 'o SpanItem option \<Rightarrow> 'o \<Rightarrow> string \<Rightarrow> Link list \<Rightarrow>
     ('w, 'o \<times> (error + Context \<times> Span)) prog" where
  "GetSpan cl ctx tracer item obj phase links =
     (case NewSpanItemWrapperFromClientObject item of
        Inl err \<Rightarrow> ret (obj, Inl err)
      | Inr piWrapper \<Rightarrow> do {
          s \<leftarrow> State_Monad.get;
          let spanKey = si_GetSpanKey piWrapper obj phase;
          case fmlookup (env_Spans s) spanKey of
            Some (spanCtx, span) \<Rightarrow> ret (obj, Inr (spanCtx, Some span))
          | None \<Rightarrow> do {
              let spanName = si_GetSpanName piWrapper obj phase;
              (childCtx, span) \<leftarrow> on_world (cl_TracerStart cl tracer ctx spanName links);
              span_call (Some span) (SetAttributes (si_SpanAttributes piWrapper obj));
              (case GetAppMetadataFromContext ctx of
                 (meta, True) \<Rightarrow> do {
                   keys \<leftarrow> on_world (cl_RangeOrder cl (fmdom meta));
                   set_meta_attributes (Some span) meta keys
                 }
               | (meta, False) \<Rightarrow> ret ());
              let obj = (if phase \<noteq> [] then
                  si_SetPhaseTraceID piWrapper phase (Some (cl_Inject cl childCtx)) obj else obj);
              modify (\<lambda>s. s\<lparr>env_Spans := fmupd spanKey (childCtx, span) (env_Spans s)\<rparr>);
              ret (obj, Inr (childCtx, Some span))
            }
        })"

definition UnbindSpan :: "'o SpanItem option \<Rightarrow> 'o \<Rightarrow> string \<Rightarrow> ('w, error option) prog" where
  "UnbindSpan item obj phase =
     (case NewSpanItemWrapperFromClientObject item of
        Inl err \<Rightarrow> ret (Some err)
      | Inr piWrapper \<Rightarrow> do {
          modify (\<lambda>s. s\<lparr>env_Spans := fmdrop (si_GetSpanKey piWrapper obj phase) (env_Spans s)\<rparr>);
          ret None
        })"

text \<open>What a caller of \<^verbatim>\<open>GetSpan\<close> that only logs the error goes on with: a nil span.\<close>

definition span_or_nil :: "Context \<Rightarrow> error + Context \<times> Span \<Rightarrow> Context \<times> Span" where
  "span_or_nil ctx r = (case r of Inl _ \<Rightarrow> (ctx, None) | Inr p \<Rightarrow> p)"

section \<open>Helper functions\<close>

definition GetItemStatus :: "string \<Rightarrow> ItemStatus list \<Rightarrow> ItemStatus" where
  "GetItemStatus name instanceStatus =
     (case find (\<lambda>status. is_DefinitionName status = name) instanceStatus of
        Some status \<Rightarrow> status
      | None \<Rightarrow> \<lparr>is_DefinitionName = name, is_Status = StatePending, is_Name = [],
                 is_StartTime = 0, is_EndTime = 0\<rparr>)"

definition GetOldStatus :: "string \<Rightarrow> ItemStatus list \<Rightarrow> KeptnState" where
  "GetOldStatus name statuses =
     fold (\<lambda>ts oldstatus. if is_DefinitionName ts = name then is_Status ts else oldstatus)
       statuses StateEmpty"

definition controllercommon_MergeMaps :: "smap \<Rightarrow> smap \<Rightarrow> smap" where
  "controllercommon_MergeMaps m1 m2 = Some (gm_fmap m1 ++\<^sub>f gm_fmap m2)"

definition getObject ::
    "('w, 'o) api \<Rightarrow> ControllerConfig \<Rightarrow> string \<Rightarrow> string \<Rightarrow> ('w, error + 'o) prog" where
  "getObject k8sclient cfg definitionName namespace = do {
     r \<leftarrow> on_world (api_Get k8sclient namespace definitionName);
     case r of
       Inl err \<Rightarrow>
         if IsNotFound err then
           on_world (api_Get k8sclient (GetDefaultNamespace cfg) definitionName)
         else ret (Inl err)
     | Inr found \<Rightarrow> ret (Inr found)
   }"

definition GetTaskDefinition ::
    "'w Client \<Rightarrow> ControllerConfig \<Rightarrow> string \<Rightarrow> string \<Rightarrow> ('w, error + KeptnTaskDefinition) prog" where
  "GetTaskDefinition cl cfg definitionName namespace =
     getObject (cl_TaskDefinition cl) cfg definitionName namespace"

definition GetEvaluationDefinition ::
    "'w Client \<Rightarrow> ControllerConfig \<Rightarrow> string \<Rightarrow> string \<Rightarrow>
     ('w, error + KeptnEvaluationDefinition) prog" where
  "GetEvaluationDefinition cl cfg definitionName namespace =
     getObject (cl_EvaluationDefinition cl) cfg definitionName namespace"

definition GetRequestInfo :: "Request \<Rightarrow> smap" where
  "GetRequestInfo req = Some (fmap_of_list
     [(''name'', req_Name req), (''namespace'', req_Namespace req)])"

definition KeptnWorkloadVersionResourceRefUIDIndexFunc :: "KeptnWorkloadVersion \<Rightarrow> string list" where
  "KeptnWorkloadVersionResourceRefUIDIndexFunc workloadVersion =
     (let uid = rr_UID (wks_ResourceReference (wvs_WorkloadSpec (wv_Spec workloadVersion))) in
      if uid = [] then [] else [uid])"

section \<open>Lemmas\<close>

lemma run_on_world [env_simps]:
  "run_state (on_world m) s =
     (fst (run_state m (env_World s)), s\<lparr>env_World := snd (run_state m (env_World s))\<rparr>)"
  by (simp add: on_world_def split: prod.splits)

text \<open>
  Frame rules: a program that only calls the world keeps every other component, and emitting
  keeps the world.
\<close>

lemma valid_on_world [wp]:
  "valid (\<lambda>s. \<forall>a w. run_state m (env_World s) = (a, w) \<longrightarrow> Q a (s\<lparr>env_World := w\<rparr>)) (on_world m) Q"
  by (auto simp: valid_def on_world_def split: prod.splits)

lemma valid_Emit [wp]:
  "valid (\<lambda>s. Q () (s\<lparr>env_Events := env_Events s @ [\<lparr>evc_Phase = p, evc_Type = t, evc_Object = obj,
       evc_Status = st, evc_Message = msg, evc_Version = v\<rparr>]\<rparr>)) (Emit p t obj st msg v) Q"
  unfolding Emit_def by (rule valid_modify)

lemma valid_span_call [wp]:
  "valid (\<lambda>s. Q () (s\<lparr>env_SpanLog := env_SpanLog s @ [(i, operation)]\<rparr>)) (span_call (Some i) operation) Q"
  by (simp add: span_call_def valid_def)

lemma valid_meter_call [wp]:
  "valid (\<lambda>s. Q () (s\<lparr>env_Meters := env_Meters s @ [c]\<rparr>)) (meter_call c) Q"
  unfolding meter_call_def by (rule valid_modify)

lemma valid_UnbindSpan [wp]:
  "valid (\<lambda>s. Q None (s\<lparr>env_Spans := fmdrop (si_GetSpanKey si obj phase) (env_Spans s)\<rparr>))
     (UnbindSpan (Some si) obj phase) Q"
  by (simp add: UnbindSpan_def NewSpanItemWrapperFromClientObject_def valid_def)

lemma span_or_nil_Inr [simp]: "span_or_nil ctx (Inr p) = p"
  by (simp add: span_or_nil_def)

lemma set_meta_attributes_frame:
  "valid (\<lambda>s. f s = x \<and> (\<forall>s l. f (s\<lparr>env_SpanLog := l\<rparr>) = f s))
     (set_meta_attributes (Some i) meta keys) (\<lambda>_ s. f s = x)"
  by (induction keys)
    (auto simp: valid_def span_call_def split: prod.splits)

text \<open>
  On an object whose type is a \<^verbatim>\<open>SpanItem\<close> the handler always gives a span, binds it under the
  object's key, keeps the object up to its trace id of the phase, and touches nothing but the
  world, the span table and the span log.
\<close>

definition trace_variant :: "'o SpanItem \<Rightarrow> string \<Rightarrow> 'o \<Rightarrow> 'o \<Rightarrow> bool" where
  "trace_variant si phase obj obj' \<longleftrightarrow>
     obj' = obj \<or> phase \<noteq> [] \<and> (\<exists>c. obj' = si_SetPhaseTraceID si phase c obj)"

lemma GetSpan_Some:
  assumes "run_state (GetSpan cl ctx tracer (Some si) obj phase links) s = (r, s')"
  shows "\<exists>obj' c i. r = (obj', Inr (c, Some i)) \<and> trace_variant si phase obj obj'
    \<and> fmlookup (env_Spans s') (si_GetSpanKey si obj phase) = Some (c, i)
    \<and> env_Events s' = env_Events s \<and> env_Meters s' = env_Meters s
    \<and> env_Panicked s' = env_Panicked s"
proof (cases "fmlookup (env_Spans s) (si_GetSpanKey si obj phase)")
  case None
  obtain c i w where start:
    "run_state (cl_TracerStart cl tracer ctx (si_GetSpanName si obj phase) links) (env_World s) = ((c, i), w)"
    by (metis prod.collapse)
  have frame: "run_state (set_meta_attributes (Some i) meta keys) t = (u, t') \<Longrightarrow>
    env_Events t' = env_Events t \<and> env_Meters t' = env_Meters t \<and> env_Panicked t' = env_Panicked t
    \<and> env_Spans t' = env_Spans t" for meta keys t u t'
    using set_meta_attributes_frame [of env_Events "env_Events t" i meta keys]
      set_meta_attributes_frame [of env_Meters "env_Meters t" i meta keys]
      set_meta_attributes_frame [of env_Panicked "env_Panicked t" i meta keys]
      set_meta_attributes_frame [of env_Spans "env_Spans t" i meta keys]
    by (auto dest!: validD [of _ _ _ t])
  from assms None start show ?thesis
    by (auto simp: GetSpan_def NewSpanItemWrapperFromClientObject_def env_simps
        GetAppMetadataFromContext_def span_call_def trace_variant_def Let_def
        split: prod.splits option.splits if_splits dest!: frame)
next
  case (Some p)
  with assms show ?thesis
    by (cases p) (auto simp: GetSpan_def NewSpanItemWrapperFromClientObject_def
        trace_variant_def)
qed

lemma GetItemStatus_name: "is_DefinitionName (GetItemStatus name xs) = name"
  by (auto simp: GetItemStatus_def split: option.splits dest!: find_SomeD)

section \<open>World invariants\<close>

text \<open>
  \<open>maintains J m Q\<close>: the program \<open>m\<close> keeps the invariant \<open>J\<close> of the world, and its result
  satisfies \<open>Q\<close>.  The rules follow the structure of programs; only calls of the world have a
  premise about \<open>J\<close>.
\<close>

definition maintains :: "('w \<Rightarrow> bool) \<Rightarrow> ('w, 'a) prog \<Rightarrow> ('a \<Rightarrow> bool) \<Rightarrow> bool" where
  "maintains J m Q \<longleftrightarrow>
     valid (\<lambda>s. J (env_World s)) m (\<lambda>r s. J (env_World s) \<and> Q r)"

named_theorems maintain \<open>introduction rules for \<open>maintains\<close>\<close>

lemma maintainsD:
  "maintains J m Q \<Longrightarrow> J (env_World s) \<Longrightarrow> run_state m s = (r, s') \<Longrightarrow> J (env_World s') \<and> Q r"
  unfolding maintains_def by (drule validD) auto

lemma maintains_conseq: "maintains J m Q' \<Longrightarrow> (\<And>r. Q' r \<Longrightarrow> Q r) \<Longrightarrow> maintains J m Q"
  unfolding maintains_def by (erule valid_post) auto

lemma maintains_ret [maintain]: "Q x \<Longrightarrow> maintains J (ret x) Q"
  by (simp add: maintains_def valid_def)

lemma maintains_bind:
  assumes "maintains J m R" and "\<And>x. R x \<Longrightarrow> maintains J (f x) Q"
  shows "maintains J (State_Monad.bind m f) Q"
  unfolding maintains_def
proof (rule valid_bind [where R = "\<lambda>x s. J (env_World s) \<and> R x"])
  show "valid (\<lambda>s. J (env_World s)) m (\<lambda>x s. J (env_World s) \<and> R x)"
    using assms(1) unfolding maintains_def .
  show "valid (\<lambda>s. J (env_World s) \<and> R x) (f x) (\<lambda>r s. J (env_World s) \<and> Q r)" for x
    using assms(2) [of x] by (auto simp: maintains_def valid_def)
qed

lemma maintains_modify [maintain]:
  "(\<And>s. env_World (f s) = env_World s) \<Longrightarrow> Q () \<Longrightarrow> maintains J (modify f) Q"
  by (simp add: maintains_def valid_def)

lemma maintains_get: "(\<And>s. Q s) \<Longrightarrow> maintains J State_Monad.get Q"
  by (simp add: maintains_def valid_def)

lemma maintains_Emit [maintain]: "Q () \<Longrightarrow> maintains J (Emit p t obj st msg v) Q"
  unfolding Emit_def by (rule maintains_modify) simp_all

lemma maintains_span_call [maintain]: "Q () \<Longrightarrow> maintains J (span_call span operation) Q"
  unfolding span_call_def by (cases span) (auto intro!: maintains_modify)

lemma maintains_meter_call [maintain]: "Q () \<Longrightarrow> maintains J (meter_call c) Q"
  unfolding meter_call_def by (rule maintains_modify) simp_all

lemma maintains_if [maintain]:
  "(b \<Longrightarrow> maintains J m Q) \<Longrightarrow> (\<not> b \<Longrightarrow> maintains J n Q) \<Longrightarrow>
   maintains J (if b then m else n) Q"
  by simp

lemma maintains_case_sum [maintain]:
  assumes "\<And>x. e = Inl x \<Longrightarrow> maintains J (f x) Q" and "\<And>y. e = Inr y \<Longrightarrow> maintains J (g y) Q"
  shows "maintains J (case e of Inl x \<Rightarrow> f x | Inr y \<Rightarrow> g y) Q"
  using assms by (cases e) auto

lemma maintains_case_option [maintain]:
  assumes "e = None \<Longrightarrow> maintains J f Q" and "\<And>y. e = Some y \<Longrightarrow> maintains J (g y) Q"
  shows "maintains J (case e of None \<Rightarrow> f | Some y \<Rightarrow> g y) Q"
  using assms by (cases e) auto

lemma maintains_case_prod [maintain]:
  assumes "\<And>a b. p = (a, b) \<Longrightarrow> maintains J (f a b) Q"
  shows "maintains J (case p of (a, b) \<Rightarrow> f a b) Q"
  using assms by (cases p) auto

lemma maintains_let [maintain]:
  "(\<And>x. x = e \<Longrightarrow> maintains J (f x) Q) \<Longrightarrow> maintains J (let x = e in f x) Q"
  by simp

text \<open>A call of the world that keeps \<open>J\<close> and whose results satisfy \<open>Q\<close>.\<close>

definition call_keeps :: "('w \<Rightarrow> bool) \<Rightarrow> ('w, 'a) state \<Rightarrow> ('a \<Rightarrow> bool) \<Rightarrow> bool" where
  "call_keeps J m Q \<longleftrightarrow> (\<forall>w r w'. J w \<longrightarrow> run_state m w = (r, w') \<longrightarrow> J w' \<and> Q r)"

abbreviation any :: "'a \<Rightarrow> bool" where
  "any \<equiv> \<lambda>_. True"

lemma maintains_on_world: "call_keeps J m Q \<Longrightarrow> maintains J (on_world m) Q"
  by (auto simp: maintains_def valid_def on_world_def call_keeps_def split: prod.splits)

lemma call_keepsD: "call_keeps J m Q \<Longrightarrow> J w \<Longrightarrow> run_state m w = (r, w') \<Longrightarrow> J w' \<and> Q r"
  by (auto simp: call_keeps_def)

lemma call_keeps_conseq: "call_keeps J m Q' \<Longrightarrow> (\<And>r. Q' r \<Longrightarrow> Q r) \<Longrightarrow> call_keeps J m Q"
  by (auto simp: call_keeps_def)

text \<open>
  The world outside the API server (clock, random source, iteration order, tracer) does not touch
  \<open>J\<close>; nor does reading objects of a kind.
\<close>

definition ambient :: "('w \<Rightarrow> bool) \<Rightarrow> 'w Client \<Rightarrow> bool" where
  "ambient J cl \<longleftrightarrow>
     call_keeps J (cl_Now cl) any \<and> (\<forall>n. call_keeps J (cl_Intn cl n) any) \<and>
     (\<forall>ks. call_keeps J (cl_RangeOrder cl ks) any) \<and>
     (\<forall>t c n l. call_keeps J (cl_TracerStart cl t c n l) any)"

definition reads :: "('w \<Rightarrow> bool) \<Rightarrow> ('w, 'o) api \<Rightarrow> ('o \<Rightarrow> bool) \<Rightarrow> bool" where
  "reads J k good \<longleftrightarrow>
     (\<forall>ns n. call_keeps J (api_Get k ns n) (\<lambda>r. \<forall>x. r = Inr x \<longrightarrow> good x)) \<and>
     (\<forall>ns f. call_keeps J (api_List k ns f) (\<lambda>r. \<forall>xs. r = Inr xs \<longrightarrow> (\<forall>x\<in>set xs. good x)))"

lemma ambientD:
  assumes "ambient J cl"
  shows "call_keeps J (cl_Now cl) any" "call_keeps J (cl_Intn cl n) any"
    "call_keeps J (cl_RangeOrder cl ks) any" "call_keeps J (cl_TracerStart cl t c m l) any"
  using assms by (auto simp: ambient_def)

lemma readsD:
  assumes "reads J k good"
  shows "call_keeps J (api_Get k ns n) (\<lambda>r. \<forall>x. r = Inr x \<longrightarrow> good x)"
    and "call_keeps J (api_List k ns f) (\<lambda>r. \<forall>xs. r = Inr xs \<longrightarrow> (\<forall>x\<in>set xs. good x))"
  using assms by (auto simp: reads_def)

lemma maintains_Now: "ambient J cl \<Longrightarrow> (\<And>t. Q t) \<Longrightarrow> maintains J (Now cl) Q"
  unfolding Now_def
  by (rule maintains_on_world, rule call_keeps_conseq, rule ambientD(1)) simp_all

lemma maintains_set_meta:
  "maintains J (set_meta_attributes span meta keys) any"
  by (induction keys) (auto intro!: maintain intro: maintains_bind)

lemma maintains_UnbindSpan [maintain]:
  "(\<And>r. Q r) \<Longrightarrow> maintains J (UnbindSpan item obj phase) Q"
  unfolding UnbindSpan_def
  by (intro maintain maintains_bind [of J _ any]) simp_all

lemma maintains_GetSpan:
  assumes "ambient J cl"
  shows "maintains J (GetSpan cl ctx tracer (Some si) obj phase links)
    (\<lambda>(obj', r). trace_variant si phase obj obj' \<and> (\<exists>c i. r = Inr (c, Some i)))"
proof -
  have "maintains J (GetSpan cl ctx tracer (Some si) obj phase links) any"
    unfolding GetSpan_def NewSpanItemWrapperFromClientObject_def
    using assms
    by (auto intro!: maintain maintains_bind [where R = any] maintains_get maintains_on_world
        ambientD maintains_set_meta split: option.splits bool.splits prod.splits)
  then show ?thesis
    using GetSpan_Some [of cl ctx tracer si obj phase links]
    unfolding maintains_def valid_def by (fastforce split: prod.splits)
qed

section \<open>A server without interference\<close>

text \<open>
  The laws of a kind of object while nobody else writes to it: \<open>objs\<close> reads the stored objects by
  namespace and name.  A read returns what is stored and changes nothing; a write of the status
  fails and changes nothing, or stores an object at the key of the object written.
\<close>

definition serves ::
    "('w \<Rightarrow> string \<times> string \<Rightarrow> 'o option) \<Rightarrow> ('o \<Rightarrow> string \<times> string) \<Rightarrow> ('w, 'o) api \<Rightarrow>
     ('o \<Rightarrow> 'o \<Rightarrow> bool) \<Rightarrow> bool" where
  "serves objs key k stored \<longleftrightarrow>
     (\<forall>ns n w r w'. run_state (api_Get k ns n) w = (r, w') \<longrightarrow> objs w' = objs w \<and>
        (\<forall>x. r = Inr x \<longrightarrow> objs w (ns, n) = Some x \<and> key x = (ns, n)) \<and>
        (\<forall>e. r = Inl e \<and> IsNotFound e \<longrightarrow> objs w (ns, n) = None)) \<and>
     (\<forall>y w r w'. run_state (api_StatusUpdate k y) w = (r, w') \<longrightarrow>
        (\<forall>z. r = Inr z \<longrightarrow> objs w' = (objs w)(key y \<mapsto> z) \<and> stored y z) \<and>
        (\<forall>e. r = Inl e \<longrightarrow> objs w' = objs w))"

lemma servesD:
  assumes "serves objs key k stored"
  shows "run_state (api_Get k ns n) w = (r, w') \<Longrightarrow> objs w' = objs w"
    and "run_state (api_Get k ns n) w = (Inr x, w') \<Longrightarrow> objs w (ns, n) = Some x \<and> key x = (ns, n)"
    and "run_state (api_Get k ns n) w = (Inl e, w') \<Longrightarrow> IsNotFound e \<Longrightarrow> objs w (ns, n) = None"
    and "run_state (api_StatusUpdate k y) w = (Inr z, w') \<Longrightarrow>
      objs w' = (objs w)(key y \<mapsto> z) \<and> stored y z"
    and "run_state (api_StatusUpdate k y) w = (Inl e, w') \<Longrightarrow> objs w' = objs w"
  using assms unfolding serves_def by blast+

end
