(* ===== verification/Phase.thy ===== *)
theory Phase
  imports Cluster
begin

text \<open>
  The phase handler (\<^verbatim>\<open>controllers/common/phase/handler.go\<close>), which drives every phase of a
  KeptnAppVersion and of a KeptnWorkloadVersion, and the interface \<^verbatim>\<open>PhaseItem\<close> through which it
  sees them (\<^verbatim>\<open>controllers/lifecycle/interfaces/phaseitem.go\<close>).
\<close>

section \<open>The interface\<close>

text \<open>A Go interface is a table of methods; a wrapper only forwards to it.\<close>

record 'o PhaseItem =
  pi_GetState :: "'o \<Rightarrow> KeptnState"
  pi_SetState :: "KeptnState \<Rightarrow> 'o \<Rightarrow> 'o"
  pi_GetCurrentPhase :: "'o \<Rightarrow> string"
  pi_SetCurrentPhase :: "string \<Rightarrow> 'o \<Rightarrow> 'o"
  pi_Complete :: "time \<Rightarrow> 'o \<Rightarrow> 'o"
  pi_IsEndTimeSet :: "'o \<Rightarrow> bool"
  pi_GetEndTime :: "'o \<Rightarrow> time"
  pi_GetStartTime :: "'o \<Rightarrow> time"
  pi_GetVersion :: "'o \<Rightarrow> string"
  pi_GetPreviousVersion :: "'o \<Rightarrow> string"
  pi_GetParentName :: "'o \<Rightarrow> string"
  pi_GetNamespace :: "'o \<Rightarrow> string"
  pi_GetAppName :: "'o \<Rightarrow> string"
  pi_GetPreDeploymentTasks :: "'o \<Rightarrow> string list"
  pi_GetPostDeploymentTasks :: "'o \<Rightarrow> string list"
  pi_GetPromotionTasks :: "'o \<Rightarrow> string list"
  pi_GetPreDeploymentTaskStatus :: "'o \<Rightarrow> ItemStatus list"
  pi_GetPostDeploymentTaskStatus :: "'o \<Rightarrow> ItemStatus list"
  pi_GetPromotionTaskStatus :: "'o \<Rightarrow> ItemStatus list"
  pi_GetPreDeploymentEvaluations :: "'o \<Rightarrow> string list"
  pi_GetPostDeploymentEvaluations :: "'o \<Rightarrow> string list"
  pi_GetPreDeploymentEvaluationTaskStatus :: "'o \<Rightarrow> ItemStatus list"
  pi_GetPostDeploymentEvaluationTaskStatus :: "'o \<Rightarrow> ItemStatus list"
  pi_GenerateTask :: "nat \<Rightarrow> 'o \<Rightarrow> KeptnTaskDefinition \<Rightarrow> CheckType \<Rightarrow> KeptnTask"
  pi_GenerateEvaluation ::
    "nat \<Rightarrow> 'o \<Rightarrow> KeptnEvaluationDefinition \<Rightarrow> CheckType \<Rightarrow> KeptnEvaluation"
  pi_GetSpanAttributes :: "'o \<Rightarrow> KeyValue list"
  pi_DeprecateRemainingPhases :: "KeptnPhaseType \<Rightarrow> 'o \<Rightarrow> 'o"

definition NewPhaseItemWrapperFromClientObject :: "'o PhaseItem option \<Rightarrow> error + 'o PhaseItem" where
  "NewPhaseItemWrapperFromClientObject t =
     (case t of None \<Rightarrow> Inl ErrCannotWrapToPhaseItem | Some p \<Rightarrow> Inr p)"

text \<open>
  A \<^verbatim>\<open>client.Object\<close> of some dynamic type: the tables its type assertions give, what an event keeps
  of it, and the client's operations on its kind.
\<close>

record ('w, 'o) Kind =
  k_Name :: string
  k_PhaseItem :: "'o PhaseItem option"
  k_SpanItem :: "'o SpanItem option"
  k_Event :: "'o \<Rightarrow> EventTarget"
  k_api :: "('w, 'o) api"

definition AppVersion_PhaseItem :: "KeptnAppVersion PhaseItem" where
  "AppVersion_PhaseItem =
     \<lparr>pi_GetState = AppVersion_GetState,
      pi_SetState = AppVersion_SetState,
      pi_GetCurrentPhase = AppVersion_GetCurrentPhase,
      pi_SetCurrentPhase = AppVersion_SetCurrentPhase,
      pi_Complete = AppVersion_Complete,
      pi_IsEndTimeSet = AppVersion_IsEndTimeSet,
      pi_GetEndTime = AppVersion_GetEndTime,
      pi_GetStartTime = AppVersion_GetStartTime,
      pi_GetVersion = AppVersion_GetVersion,
      pi_GetPreviousVersion = AppVersion_GetPreviousVersion,
      pi_GetParentName = AppVersion_GetParentName,
      pi_GetNamespace = AppVersion_GetNamespace,
      pi_GetAppName = AppVersion_GetAppName,
      pi_GetPreDeploymentTasks = AppVersion_GetPreDeploymentTasks,
      pi_GetPostDeploymentTasks = AppVersion_GetPostDeploymentTasks,
      pi_GetPromotionTasks = AppVersion_GetPromotionTasks,
      pi_GetPreDeploymentTaskStatus = AppVersion_GetPreDeploymentTaskStatus,
      pi_GetPostDeploymentTaskStatus = AppVersion_GetPostDeploymentTaskStatus,
      pi_GetPromotionTaskStatus = AppVersion_GetPromotionTaskStatus,
      pi_GetPreDeploymentEvaluations = AppVersion_GetPreDeploymentEvaluations,
      pi_GetPostDeploymentEvaluations = AppVersion_GetPostDeploymentEvaluations,
      pi_GetPreDeploymentEvaluationTaskStatus = AppVersion_GetPreDeploymentEvaluationTaskStatus,
      pi_GetPostDeploymentEvaluationTaskStatus = AppVersion_GetPostDeploymentEvaluationTaskStatus,
      pi_GenerateTask = AppVersion_GenerateTask,
      pi_GenerateEvaluation = AppVersion_GenerateEvaluation,
      pi_GetSpanAttributes = AppVersion_GetSpanAttributes,
      pi_DeprecateRemainingPhases = AppVersion_DeprecateRemainingPhases\<rparr>"

definition AppVersion_SpanItem :: "KeptnAppVersion SpanItem" where
  "AppVersion_SpanItem =
     \<lparr>si_SpanAttributes = AppVersion_GetSpanAttributes,
      si_SetPhaseTraceID = AppVersion_SetPhaseTraceID,
      si_GetSpanKey = AppVersion_GetSpanKey,
      si_GetSpanName = AppVersion_GetSpanName\<rparr>"

definition AppVersion_Event :: "KeptnAppVersion \<Rightarrow> EventTarget" where
  "AppVersion_Event a =
     \<lparr>et_meta = av_meta a, et_EventAnnotations = Some (AppVersion_GetEventAnnotations a)\<rparr>"

definition AppVersion_Kind :: "'w Client \<Rightarrow> ('w, KeptnAppVersion) Kind" where
  "AppVersion_Kind cl = \<lparr>k_Name = ''KeptnAppVersion'', k_PhaseItem = Some AppVersion_PhaseItem,
     k_SpanItem = Some AppVersion_SpanItem, k_Event = AppVersion_Event, k_api = cl_AppVersion cl\<rparr>"

definition WorkloadVersion_PhaseItem :: "KeptnWorkloadVersion PhaseItem" where
  "WorkloadVersion_PhaseItem =
     \<lparr>pi_GetState = WorkloadVersion_GetState,
      pi_SetState = WorkloadVersion_SetState,
      pi_GetCurrentPhase = WorkloadVersion_GetCurrentPhase,
      pi_SetCurrentPhase = WorkloadVersion_SetCurrentPhase,
      pi_Complete = WorkloadVersion_Complete,
      pi_IsEndTimeSet = WorkloadVersion_IsEndTimeSet,
      pi_GetEndTime = WorkloadVersion_GetEndTime,
      pi_GetStartTime = WorkloadVersion_GetStartTime,
      pi_GetVersion = WorkloadVersion_GetVersion,
      pi_GetPreviousVersion = WorkloadVersion_GetPreviousVersion,
      pi_GetParentName = WorkloadVersion_GetParentName,
      pi_GetNamespace = WorkloadVersion_GetNamespace,
      pi_GetAppName = WorkloadVersion_GetAppName,
      pi_GetPreDeploymentTasks = WorkloadVersion_GetPreDeploymentTasks,
      pi_GetPostDeploymentTasks = WorkloadVersion_GetPostDeploymentTasks,
      pi_GetPromotionTasks = WorkloadVersion_GetPromotionTasks,
      pi_GetPreDeploymentTaskStatus = WorkloadVersion_GetPreDeploymentTaskStatus,
      pi_GetPostDeploymentTaskStatus = WorkloadVersion_GetPostDeploymentTaskStatus,
      pi_GetPromotionTaskStatus = WorkloadVersion_GetPromotionTaskStatus,
      pi_GetPreDeploymentEvaluations = WorkloadVersion_GetPreDeploymentEvaluations,
      pi_GetPostDeploymentEvaluations = WorkloadVersion_GetPostDeploymentEvaluations,
      pi_GetPreDeploymentEvaluationTaskStatus = WorkloadVersion_GetPreDeploymentEvaluationTaskStatus,
      pi_GetPostDeploymentEvaluationTaskStatus = WorkloadVersion_GetPostDeploymentEvaluationTaskStatus,
      pi_GenerateTask = WorkloadVersion_GenerateTask,
      pi_GenerateEvaluation = WorkloadVersion_GenerateEvaluation,
      pi_GetSpanAttributes = WorkloadVersion_GetSpanAttributes,
      pi_DeprecateRemainingPhases = WorkloadVersion_DeprecateRemainingPhases\<rparr>"

definition WorkloadVersion_SpanItem :: "KeptnWorkloadVersion SpanItem" where
  "WorkloadVersion_SpanItem =
     \<lparr>si_SpanAttributes = WorkloadVersion_GetSpanAttributes,
      si_SetPhaseTraceID = WorkloadVersion_SetPhaseTraceID,
      si_GetSpanKey = WorkloadVersion_GetSpanKey,
      si_GetSpanName = WorkloadVersion_GetSpanName\<rparr>"

definition WorkloadVersion_Event :: "KeptnWorkloadVersion \<Rightarrow> EventTarget" where
  "WorkloadVersion_Event w =
     \<lparr>et_meta = wv_meta w, et_EventAnnotations = Some (WorkloadVersion_GetEventAnnotations w)\<rparr>"

definition WorkloadVersion_Kind :: "'w Client \<Rightarrow> ('w, KeptnWorkloadVersion) Kind" where
  "WorkloadVersion_Kind cl = \<lparr>k_Name = ''KeptnWorkloadVersion'', k_PhaseItem = Some WorkloadVersion_PhaseItem,
     k_SpanItem = Some WorkloadVersion_SpanItem, k_Event = WorkloadVersion_Event, k_api = cl_WorkloadVersion cl\<rparr>"

section \<open>The handler\<close>

record PhaseResult =
  Continue :: bool
  pr_Result :: Result

definition shouldAbortPhase :: "KeptnState \<Rightarrow> bool" where
  "shouldAbortPhase oldStatus \<longleftrightarrow> IsDeprecated oldStatus \<or> IsFailed oldStatus"

definition handleCompletedPhase ::
    "'w Client \<Rightarrow> ('w, 'o) Kind \<Rightarrow> KeptnState \<Rightarrow> 'o PhaseItem \<Rightarrow> KeptnPhaseType \<Rightarrow> 'o \<Rightarrow> Span \<Rightarrow>
     ('w, 'o \<times> PhaseResult \<times> error option) prog" where
  "handleCompletedPhase cl kind state piWrapper phase reconcileObject spanPhaseTrace =
     (if IsFailed state then do {
        now \<leftarrow> Now cl;
        let reconcileObject = pi_Complete piWrapper now reconcileObject;
        let reconcileObject = pi_SetState piWrapper StateFailed reconcileObject;
        span_call spanPhaseTrace (AddEvent (LongName phase @ '' has failed'') None);
        span_call spanPhaseTrace (SetStatus CodeError ''Failed'');
        span_call spanPhaseTrace SpanEnd;
        _ \<leftarrow> UnbindSpan (k_SpanItem kind) reconcileObject (ShortName phase);
        Emit phase ''Warning'' (k_Event kind reconcileObject) PhaseStateFailed ''has failed''
          (pi_GetVersion piWrapper reconcileObject);
        let reconcileObject = pi_DeprecateRemainingPhases piWrapper phase reconcileObject;
        ret (reconcileObject, \<lparr>Continue = False, pr_Result = no_requeue\<rparr>, None)
      }
      else do {
        span_call spanPhaseTrace (AddEvent (LongName phase @ '' has succeeded'') None);
        span_call spanPhaseTrace (SetStatus CodeOk ''Succeeded'');
        span_call spanPhaseTrace SpanEnd;
        _ \<leftarrow> UnbindSpan (k_SpanItem kind) reconcileObject (ShortName phase);
        Emit phase ''Normal'' (k_Event kind reconcileObject) PhaseStateFinished ''has finished''
          (pi_GetVersion piWrapper reconcileObject);
        ret (reconcileObject, \<lparr>Continue = True, pr_Result = requeue_after 5\<rparr>, None)
      })"

text \<open>
  The deferred function: the status is written when the state or the phase of the object has
  changed; an error is only logged.
\<close>

definition deferredStatusUpdate ::
    "('w, 'o) Kind \<Rightarrow> 'o PhaseItem \<Rightarrow> KeptnState \<Rightarrow> string \<Rightarrow> 'o \<Rightarrow> ('w, 'o) prog" where
  "deferredStatusUpdate kind piWrapper oldStatus oldPhase reconcileObject =
     (if oldStatus \<noteq> pi_GetState piWrapper reconcileObject
         \<or> oldPhase \<noteq> pi_GetCurrentPhase piWrapper reconcileObject then do {
        r \<leftarrow> on_world (api_StatusUpdate (k_api kind) reconcileObject);
        case r of
          Inl err \<Rightarrow> ret reconcileObject
        | Inr stored \<Rightarrow> ret stored
      }
      else ret reconcileObject)"

text \<open>
  \<open>reconcilePhase\<close> is the closure of the caller: it gets the context of the phase and the object
  and returns the object, the state of the phase and an error that may be nil.
\<close>

definition HandlePhase ::
    "'w Client \<Rightarrow> ('w, 'o) Kind \<Rightarrow> Context \<Rightarrow> string \<Rightarrow> 'o \<Rightarrow> KeptnPhaseType \<Rightarrow>
     (Context \<Rightarrow> 'o \<Rightarrow> ('w, 'o \<times> KeptnState \<times> error option) prog) \<Rightarrow>
     ('w, 'o \<times> PhaseResult \<times> error option) prog" where
  "HandlePhase cl kind ctxTrace tracer reconcileObject phase reconcilePhase =
     (let requeueResult = requeue_after 5 in
      case NewPhaseItemWrapperFromClientObject (k_PhaseItem kind) of
        Inl err \<Rightarrow> ret (reconcileObject, \<lparr>Continue = False, pr_Result = requeue_now\<rparr>, Some err)
      | Inr piWrapper \<Rightarrow>
          (let oldStatus = pi_GetState piWrapper reconcileObject;
               oldPhase = pi_GetCurrentPhase piWrapper reconcileObject in
           if shouldAbortPhase oldStatus then
             ret (reconcileObject, \<lparr>Continue = False, pr_Result = no_requeue\<rparr>, None)
           else do {
             reconcileObject \<leftarrow>
               (if oldPhase \<noteq> ShortName phase then do {
                  Emit phase ''Normal'' (k_Event kind reconcileObject) PhaseStateStarted
                    ''has started'' (pi_GetVersion piWrapper reconcileObject);
                  ret (pi_SetCurrentPhase piWrapper (ShortName phase) reconcileObject)
                }
                else ret reconcileObject);
             (reconcileObject, r) \<leftarrow>
               GetSpan cl ctxTrace tracer (k_SpanItem kind) reconcileObject (ShortName phase) [];
             let (spanPhaseCtx, spanPhaseTrace) = span_or_nil ctxTrace r;
             (reconcileObject, state, err) \<leftarrow> reconcilePhase spanPhaseCtx reconcileObject;
             (case err of
                Some e \<Rightarrow> do {
                  span_call spanPhaseTrace
                    (AddEvent (LongName phase @ '' could not get reconciled'') None);
                  Emit phase ''Warning'' (k_Event kind reconcileObject) PhaseStateReconcileError
                    ''could not get reconciled'' (pi_GetVersion piWrapper reconcileObject);
                  ret (reconcileObject, \<lparr>Continue = False, pr_Result = requeueResult\<rparr>, Some e)
                }
              | None \<Rightarrow> do {
                  (reconcileObject, result, err) \<leftarrow>
                    (if IsCompleted state then
                       handleCompletedPhase cl kind state piWrapper phase reconcileObject
                         spanPhaseTrace
                     else
                       ret (pi_SetState piWrapper StateProgressing reconcileObject,
                            \<lparr>Continue = False, pr_Result = requeueResult\<rparr>, None));
                  reconcileObject \<leftarrow>
                    deferredStatusUpdate kind piWrapper oldStatus oldPhase reconcileObject;
                  ret (reconcileObject, result, err)
                })
           }))"

text \<open>The end of every closure of a phase: the status is written, and the state returned with it.\<close>

definition write_status ::
    "('w, 'o) api \<Rightarrow> 'o \<Rightarrow> KeptnState \<Rightarrow> ('w, 'o \<times> KeptnState \<times> error option) prog" where
  "write_status k x state = do {
     r \<leftarrow> on_world (api_StatusUpdate k x);
     case r of
       Inl err \<Rightarrow> ret (x, StateUnknown, Some err)
     | Inr stored \<Rightarrow> ret (stored, state, None)
   }"

section \<open>Lemmas\<close>

subsection \<open>What the handler relies on\<close>

text \<open>
  The laws of a \<^verbatim>\<open>PhaseItem\<close>: its state and its current phase are independent fields that the other
  operations leave alone, completing sets the end time, and deprecating the phases after a failed
  one leaves a failed object failed.
\<close>

locale phase_item =
  fixes P :: "'o PhaseItem" and S :: "'o SpanItem"
  assumes state_set [simp]: "pi_GetState P (pi_SetState P k x) = k"
    and phase_set [simp]: "pi_GetCurrentPhase P (pi_SetCurrentPhase P p x) = p"
    and state_set_phase [simp]: "pi_GetState P (pi_SetCurrentPhase P p x) = pi_GetState P x"
    and phase_set_state [simp]: "pi_GetCurrentPhase P (pi_SetState P k x) = pi_GetCurrentPhase P x"
    and state_complete [simp]: "pi_GetState P (pi_Complete P t x) = pi_GetState P x"
    and phase_complete [simp]: "pi_GetCurrentPhase P (pi_Complete P t x) = pi_GetCurrentPhase P x"
    and end_complete: "t \<noteq> 0 \<Longrightarrow> pi_IsEndTimeSet P (pi_Complete P t x)"
    and end_set_state [simp]: "pi_IsEndTimeSet P (pi_SetState P k x) = pi_IsEndTimeSet P x"
    and state_deprecate:
      "pi_GetState P x = StateFailed \<Longrightarrow> phase \<noteq> PhaseDeprecated \<Longrightarrow>
       pi_GetState P (pi_DeprecateRemainingPhases P phase x) = StateFailed"
    and phase_deprecate [simp]:
      "pi_GetCurrentPhase P (pi_DeprecateRemainingPhases P phase x) = pi_GetCurrentPhase P x"
    and end_deprecate [simp]:
      "pi_IsEndTimeSet P (pi_DeprecateRemainingPhases P phase x) = pi_IsEndTimeSet P x"
    and state_trace [simp]: "pi_GetState P (si_SetPhaseTraceID S p c x) = pi_GetState P x"
    and phase_trace [simp]: "pi_GetCurrentPhase P (si_SetPhaseTraceID S p c x) = pi_GetCurrentPhase P x"

text \<open>The object a phase is reconciled with, and the object a failed phase leaves behind.\<close>

definition phase_begun ::
    "'o PhaseItem \<Rightarrow> 'o SpanItem \<Rightarrow> KeptnPhaseType \<Rightarrow> 'o \<Rightarrow> 'o \<Rightarrow> bool" where
  "phase_begun P S phase x x1 \<longleftrightarrow>
     trace_variant S (ShortName phase)
       (if pi_GetCurrentPhase P x \<noteq> ShortName phase
        then pi_SetCurrentPhase P (ShortName phase) x else x) x1"

definition phase_failed :: "'o PhaseItem \<Rightarrow> KeptnPhaseType \<Rightarrow> time \<Rightarrow> 'o \<Rightarrow> 'o" where
  "phase_failed P phase now x =
     pi_DeprecateRemainingPhases P phase (pi_SetState P StateFailed (pi_Complete P now x))"

text \<open>
  The specification of the handler: \<open>R\<close> describes what the phase's closure returns, \<open>stored\<close>
  what the server makes of a written object.
\<close>

definition phase_spec ::
    "'o PhaseItem \<Rightarrow> KeptnPhaseType \<Rightarrow> 'o \<Rightarrow> ('o \<Rightarrow> KeptnState \<Rightarrow> error option \<Rightarrow> bool) \<Rightarrow>
     ('o \<Rightarrow> 'o \<Rightarrow> bool) \<Rightarrow> 'o \<times> PhaseResult \<times> error option \<Rightarrow> bool" where
  "phase_spec P phase x R stored = (\<lambda>(x', res, err).
     if shouldAbortPhase (pi_GetState P x) then
       x' = x \<and> res = \<lparr>Continue = False, pr_Result = no_requeue\<rparr> \<and> err = None
     else
       (\<exists>x2 st e. R x2 st e \<and>
          (case e of
             Some _ \<Rightarrow>
               x' = x2 \<and> res = \<lparr>Continue = False, pr_Result = requeue_after 5\<rparr> \<and> err = e
           | None \<Rightarrow>
               err = None \<and>
               (\<exists>y. (x' = y \<or> stored y x') \<and>
                  (if st = StateFailed then
                     (\<exists>now. y = phase_failed P phase now x2) \<and>
                     res = \<lparr>Continue = False, pr_Result = no_requeue\<rparr>
                   else if IsCompleted st then
                     y = x2 \<and> res = \<lparr>Continue = True, pr_Result = requeue_after 5\<rparr>
                   else
                     y = pi_SetState P StateProgressing x2 \<and>
                     res = \<lparr>Continue = False, pr_Result = requeue_after 5\<rparr>)))))"

text \<open>What may be handed to the server: \<open>W\<close> holds of every object a phase ends with.\<close>

definition phase_writes ::
    "'o PhaseItem \<Rightarrow> KeptnPhaseType \<Rightarrow> ('o \<Rightarrow> KeptnState \<Rightarrow> error option \<Rightarrow> bool) \<Rightarrow>
     ('o \<Rightarrow> bool) \<Rightarrow> bool" where
  "phase_writes P phase R W \<longleftrightarrow>
     (\<forall>x now. R x StateFailed None \<longrightarrow> W (phase_failed P phase now x)) \<and>
     (\<forall>x st. R x st None \<longrightarrow> IsCompleted st \<longrightarrow> st \<noteq> StateFailed \<longrightarrow> W x) \<and>
     (\<forall>x st. R x st None \<longrightarrow> \<not> IsCompleted st \<longrightarrow> W (pi_SetState P StateProgressing x))"

definition writes ::
    "('w \<Rightarrow> bool) \<Rightarrow> ('o \<Rightarrow> ('w, error + 'o) state) \<Rightarrow> ('o \<Rightarrow> bool) \<Rightarrow> ('o \<Rightarrow> 'o \<Rightarrow> bool) \<Rightarrow> bool" where
  "writes J upd W stored \<longleftrightarrow>
     (\<forall>y. W y \<longrightarrow> call_keeps J (upd y) (\<lambda>r. \<forall>z. r = Inr z \<longrightarrow> stored y z))"

lemma maintains_handleCompletedPhase:
  assumes "ambient J cl"
  shows "maintains J (handleCompletedPhase cl kind st P phase x span) (\<lambda>(y, res, err).
    err = None \<and>
    (if st = StateFailed then
       (\<exists>now. y = phase_failed P phase now x) \<and> res = \<lparr>Continue = False, pr_Result = no_requeue\<rparr>
     else y = x \<and> res = \<lparr>Continue = True, pr_Result = requeue_after 5\<rparr>))"
  unfolding handleCompletedPhase_def
  by (intro maintain maintains_Now maintains_bind [where R = any] assms)
    (auto simp: phase_failed_def)

lemma maintains_deferredStatusUpdate:
  assumes "writes J (api_StatusUpdate (k_api kind)) W stored" and "W y"
  shows "maintains J (deferredStatusUpdate kind P st ph y) (\<lambda>x'. x' = y \<or> stored y x')"
proof -
  have "maintains J (on_world (api_StatusUpdate (k_api kind) y)) (\<lambda>r. \<forall>z. r = Inr z \<longrightarrow> stored y z)"
    using assms by (intro maintains_on_world) (simp add: writes_def)
  then show ?thesis
    unfolding deferredStatusUpdate_def
    by (intro maintains_if maintains_bind
        [where R = "\<lambda>r. \<forall>z. r = Inr z \<longrightarrow> stored y z"] maintains_case_sum maintains_ret) auto
qed

lemma HandlePhase_spec:
  assumes kind: "k_PhaseItem kind = Some P" "k_SpanItem kind = Some S"
    and amb: "ambient J cl"
    and rec: "\<And>ctx x1. \<not> shouldAbortPhase (pi_GetState P x) \<Longrightarrow> phase_begun P S phase x x1 \<Longrightarrow>
      maintains J (rec ctx x1) (\<lambda>(x2, st, e). R x2 st e)"
    and upd: "writes J (api_StatusUpdate (k_api kind)) W stored"
    and W: "phase_writes P phase R W"
  shows "maintains J (HandlePhase cl kind ctx tracer x phase rec) (phase_spec P phase x R stored)"
proof (cases "shouldAbortPhase (pi_GetState P x)")
  case True
  then show ?thesis
    by (simp add: HandlePhase_def NewPhaseItemWrapperFromClientObject_def kind phase_spec_def
        maintains_ret)
next
  case False
  let ?x0 = "if pi_GetCurrentPhase P x \<noteq> ShortName phase
    then pi_SetCurrentPhase P (ShortName phase) x else x"
  let ?run = "\<lambda>st x2 span. if IsCompleted st then handleCompletedPhase cl kind st P phase x2 span
    else ret (pi_SetState P StateProgressing x2, \<lparr>Continue = False, pr_Result = requeue_after 5\<rparr>, None)"
  let ?post = "\<lambda>st x2 (y, res, err). err = (None :: error option) \<and> W y \<and>
    (if st = StateFailed then
       (\<exists>now. y = phase_failed P phase now x2) \<and> res = \<lparr>Continue = False, pr_Result = no_requeue\<rparr>
     else if IsCompleted st then y = x2 \<and> res = \<lparr>Continue = True, pr_Result = requeue_after 5\<rparr>
     else y = pi_SetState P StateProgressing x2 \<and>
       res = \<lparr>Continue = False, pr_Result = requeue_after 5\<rparr>)"
  have step: "maintains J (?run st x2 span) (?post st x2)" if "R x2 st None" for st x2 span
    using W that unfolding phase_writes_def
    by (intro maintains_if maintains_ret
        maintains_conseq [OF maintains_handleCompletedPhase [OF amb]])
      (auto split: if_splits prod.splits)
  have finish: "maintains J (do {
      (y, res, err) \<leftarrow> ?run st x2 span;
      x' \<leftarrow> deferredStatusUpdate kind P (pi_GetState P x) (pi_GetCurrentPhase P x) y;
      ret (x', res, err)}) (phase_spec P phase x R stored)" if R: "R x2 st None" for st x2 span
  proof (rule maintains_bind [OF step [OF R]], clarify, rule maintains_bind)
    fix y res err
    assume W: "W y"
    show "maintains J (deferredStatusUpdate kind P (pi_GetState P x) (pi_GetCurrentPhase P x) y)
      (\<lambda>x'. x' = y \<or> stored y x')"
      by (rule maintains_deferredStatusUpdate [OF upd W])
  next
    fix y res err x'
    assume "if st = StateFailed then
         (\<exists>now. y = phase_failed P phase now x2) \<and> res = \<lparr>Continue = False, pr_Result = no_requeue\<rparr>
       else if IsCompleted st then y = x2 \<and> res = \<lparr>Continue = True, pr_Result = requeue_after 5\<rparr>
       else y = pi_SetState P StateProgressing x2 \<and>
         res = \<lparr>Continue = False, pr_Result = requeue_after 5\<rparr>"
      and "x' = y \<or> stored y x'"
    with R False show "maintains J (ret (x', res, None)) (phase_spec P phase x R stored)"
      by (intro maintains_ret) (force simp: phase_spec_def)
  qed
  have error: "phase_spec P phase x R stored
      (x2, \<lparr>Continue = False, pr_Result = requeue_after 5\<rparr>, Some e)" if "R x2 st (Some e)" for st x2 e
    using that False by (force simp: phase_spec_def)
  show ?thesis
    unfolding HandlePhase_def NewPhaseItemWrapperFromClientObject_def kind option.case sum.case Let_def
      if_not_P [OF False]
    apply (rule maintains_bind [where R = "\<lambda>x0. x0 = ?x0"])
     apply (intro maintain maintains_bind [where R = any]; simp)
    apply (rule maintains_bind, rule maintains_GetSpan [OF amb])
    apply (clarsimp simp del: if_split)
    apply (rule maintains_bind, rule rec [OF False])
     apply (simp add: phase_begun_def)
    apply (clarsimp simp del: if_split split del: if_split)
    apply (rule maintains_case_option)
     apply (rule finish, simp)
    apply (intro maintains_bind [where R = any] maintains_span_call maintains_Emit maintains_ret error; simp)
    done
qed

subsection \<open>Consequences of the laws\<close>

context phase_item
begin

lemma begun_state: "phase_begun P S phase x x1 \<Longrightarrow> pi_GetState P x1 = pi_GetState P x"
  by (auto simp: phase_begun_def trace_variant_def split: if_splits)

lemma begun_phase: "phase_begun P S phase x x1 \<Longrightarrow> pi_GetCurrentPhase P x1 = ShortName phase"
  by (auto simp: phase_begun_def trace_variant_def split: if_splits)

lemma failed_state:
  "phase \<noteq> PhaseDeprecated \<Longrightarrow> pi_GetState P (phase_failed P phase now x) = StateFailed"
  by (simp add: phase_failed_def state_deprecate)

lemma failed_phase: "pi_GetCurrentPhase P (phase_failed P phase now x) = pi_GetCurrentPhase P x"
  by (simp add: phase_failed_def)

lemma failed_end: "now \<noteq> 0 \<Longrightarrow> pi_IsEndTimeSet P (phase_failed P phase now x)"
  by (simp add: phase_failed_def end_complete)

lemma failed_aborts:
  "phase \<noteq> PhaseDeprecated \<Longrightarrow> shouldAbortPhase (pi_GetState P (phase_failed P phase now x))"
  by (simp add: failed_state shouldAbortPhase_def)

end

lemma phase_spec_continue:
  assumes "phase_spec P phase x R stored (x', res, err)" and "Continue res"
  shows "\<not> shouldAbortPhase (pi_GetState P x) \<and> err = None \<and>
    (\<exists>x2 st. R x2 st None \<and> IsCompleted st \<and> st \<noteq> StateFailed \<and> (x' = x2 \<or> stored x2 x'))"
  using assms by (auto simp: phase_spec_def split: if_splits option.splits)

lemma phase_spec_stop:
  assumes "phase_spec P phase x R stored (x', res, err)" and "\<not> Continue res"
  shows "x' = x \<or> (\<exists>x2 st e. R x2 st (Some e) \<and> x' = x2 \<and> err = Some e) \<or>
    (\<exists>x2 y. (x' = y \<or> stored y x') \<and> err = None \<and>
       ((\<exists>now. R x2 StateFailed None \<and> y = phase_failed P phase now x2) \<or>
        (\<exists>st. R x2 st None \<and> \<not> IsCompleted st \<and> y = pi_SetState P StateProgressing x2)))"
  using assms by (fastforce simp: phase_spec_def split: if_splits option.splits)

subsection \<open>App versions and workload versions are phase items\<close>

lemma fresh_phase_names:
  "PhaseDeprecated \<noteq> PhasePromotion" "PhaseDeprecated \<noteq> PhaseWorkloadPostEvaluation"
  by (simp_all add: phase_defs)

lemmas AppVersion_ops =
  AppVersion_PhaseItem_def AppVersion_SpanItem_def AppVersion_GetState_def AppVersion_SetState_def
  AppVersion_GetCurrentPhase_def AppVersion_SetCurrentPhase_def AppVersion_Complete_def
  AppVersion_SetEndTime_def AppVersion_IsEndTimeSet_def AppVersion_SetPhaseTraceID_def

lemmas WorkloadVersion_ops =
  WorkloadVersion_PhaseItem_def WorkloadVersion_SpanItem_def WorkloadVersion_GetState_def
  WorkloadVersion_SetState_def WorkloadVersion_GetCurrentPhase_def
  WorkloadVersion_SetCurrentPhase_def WorkloadVersion_Complete_def WorkloadVersion_SetEndTime_def
  WorkloadVersion_IsEndTimeSet_def WorkloadVersion_SetPhaseTraceID_def

interpretation av: phase_item AppVersion_PhaseItem AppVersion_SpanItem
  by unfold_locales
    (simp_all add: AppVersion_ops AppVersion_DeprecateRemainingPhases_def Let_def)

interpretation wv: phase_item WorkloadVersion_PhaseItem WorkloadVersion_SpanItem
  by unfold_locales
    (simp_all add: WorkloadVersion_ops WorkloadVersion_DeprecateRemainingPhases_def Let_def)

subsection \<open>Deprecating the phases after a failed one\<close>

text \<open>The phases in the order they run, and the states of them in the same order.\<close>

definition app_phases :: "KeptnPhaseType list" where
  "app_phases = [PhaseAppPreDeployment, PhaseAppPreEvaluation, PhaseAppDeployment,
     PhaseAppPostDeployment, PhaseAppPostEvaluation, PhasePromotion]"

definition app_phase_states :: "KeptnAppVersion \<Rightarrow> KeptnState list" where
  "app_phase_states a = (let s = av_Status a in
     [avst_PreDeploymentStatus s, avst_PreDeploymentEvaluationStatus s, avst_WorkloadOverallStatus s,
      avst_PostDeploymentStatus s, avst_PostDeploymentEvaluationStatus s, avst_PromotionStatus s])"

definition workload_phases :: "KeptnPhaseType list" where
  "workload_phases = [PhaseWorkloadPreDeployment, PhaseWorkloadPreEvaluation,
     PhaseWorkloadDeployment, PhaseWorkloadPostDeployment, PhaseWorkloadPostEvaluation]"

definition workload_phase_states :: "KeptnWorkloadVersion \<Rightarrow> KeptnState list" where
  "workload_phase_states w = (let s = wv_Status w in
     [wvst_PreDeploymentStatus s, wvst_PreDeploymentEvaluationStatus s, wvst_DeploymentStatus s,
      wvst_PostDeploymentStatus s, wvst_PostDeploymentEvaluationStatus s])"

text \<open>The reference: everything after position \<open>i\<close> is deprecated.\<close>

definition deprecate_after :: "nat \<Rightarrow> KeptnState list \<Rightarrow> KeptnState list" where
  "deprecate_after i ss = take (Suc i) ss @ replicate (length ss - Suc i) StateDeprecated"

lemma less_5_cases: "i < 5 \<Longrightarrow> i = 0 \<or> i = 1 \<or> i = 2 \<or> i = 3 \<or> i = (4 :: nat)"
  by linarith

lemma less_6_cases: "i < 6 \<Longrightarrow> i = 0 \<or> i = 1 \<or> i = 2 \<or> i = 3 \<or> i = 4 \<or> i = (5 :: nat)"
  by linarith

lemma app_phase_states_deprecate:
  assumes "i < 6"
  shows "app_phase_states (AppVersion_DeprecateRemainingPhases (app_phases ! i) a) =
    deprecate_after i (app_phase_states a)"
  using less_6_cases [OF assms]
  by (elim disjE)
    (simp_all add: app_phases_def app_phase_states_def deprecate_after_def Let_def
      AppVersion_DeprecateRemainingPhases_def phase_defs numeral_eq_Suc)

lemma workload_phase_states_deprecate:
  assumes "i < 5"
  shows "workload_phase_states (WorkloadVersion_DeprecateRemainingPhases (workload_phases ! i) w) =
    deprecate_after i (workload_phase_states w)"
  using less_5_cases [OF assms]
  by (elim disjE)
    (simp_all add: workload_phases_def workload_phase_states_def deprecate_after_def Let_def
      WorkloadVersion_DeprecateRemainingPhases_def phase_defs numeral_eq_Suc)

subsection \<open>States that may be passed, and stored states\<close>

text \<open>
  A phase may be passed when it succeeded, or only warned while the deployment is not blocked.
  A phase has begun when its state is more than pending, or an item or time is recorded for it.
\<close>

definition state_ok :: "bool \<Rightarrow> KeptnState \<Rightarrow> bool" where
  "state_ok block k \<longleftrightarrow> k = StateSucceeded \<or> \<not> block \<and> k = StateWarning"

definition begun :: "KeptnState \<Rightarrow> bool" where
  "begun k \<longleftrightarrow> k \<notin> {StateEmpty, StatePending, StateDeprecated}"

text \<open>The schema gives every state field the default Pending where it is empty.\<close>

definition default_state :: "KeptnState \<Rightarrow> KeptnState" where
  "default_state k = (if k = StateEmpty then StatePending else k)"

definition default_item :: "ItemStatus \<Rightarrow> ItemStatus" where
  "default_item i = i\<lparr>is_Status := default_state (is_Status i)\<rparr>"

lemma default_state_simps [simp]:
  "begun (default_state k) \<longleftrightarrow> begun k"
  "state_ok b (default_state k) \<longleftrightarrow> state_ok b k"
  "default_state k = StateSucceeded \<longleftrightarrow> k = StateSucceeded"
  "default_state k = StateFailed \<longleftrightarrow> k = StateFailed"
  "default_state k = StateDeprecated \<longleftrightarrow> k = StateDeprecated"
  "default_state k = StateWarning \<longleftrightarrow> k = StateWarning"
  by (auto simp: default_state_def begun_def state_ok_def)

lemma default_state_completed: "IsCompleted k \<Longrightarrow> default_state k = k"
  by (auto simp: default_state_def)

lemma begun_ok: "state_ok b k \<Longrightarrow> begun k"
  by (auto simp: begun_def state_ok_def)

lemma not_ok_simps [simp]:
  "\<not> state_ok b StateFailed" "\<not> begun StateDeprecated" "begun StateFailed"
  "begun StateProgressing" "begun StateSucceeded" "state_ok b StateSucceeded"
  by (simp_all add: state_ok_def begun_def)

text \<open>The overall state with which a blocked or unblocked phase ends.\<close>

lemma overall_blocked_completed:
  "IsCompleted (GetOverallStateBlockedDeployment sm b) \<Longrightarrow>
   GetOverallStateBlockedDeployment sm b = StateFailed \<or>
   state_ok b (GetOverallStateBlockedDeployment sm b)"
  using overall_never [of sm]
  by (auto simp: GetOverallStateBlockedDeployment_def state_ok_def IsCompleted_cases Let_def
      split: if_splits)

lemma maintains_write:
  assumes "writes J upd W stored" and "W y"
  shows "maintains J (on_world (upd y)) (\<lambda>r. \<forall>z. r = Inr z \<longrightarrow> stored y z)"
  using assms by (intro maintains_on_world) (simp add: writes_def)

lemma HandlePhase_abort:
  assumes "k_PhaseItem kind = Some P" and "shouldAbortPhase (pi_GetState P x)"
  shows "HandlePhase cl kind ctx tr x phase rec =
    ret (x, \<lparr>Continue = False, pr_Result = no_requeue\<rparr>, None)"
  using assms by (simp add: HandlePhase_def NewPhaseItemWrapperFromClientObject_def)

subsection \<open>Objects whose phases run in order\<close>

text \<open>
  What the closure of a phase returns: an object within the invariant whose field of the phase has
  the state that is returned, and a completed state is Failed or may be passed (\<open>pass\<close>).  What the
  handler makes of it: when it continues, the field may be passed.
\<close>

definition phase_ret ::
    "('o \<Rightarrow> bool) \<Rightarrow> ('o \<Rightarrow> bool) \<Rightarrow> ('o \<Rightarrow> KeptnState) \<Rightarrow> (KeptnState \<Rightarrow> bool) \<Rightarrow>
     'o \<Rightarrow> KeptnState \<Rightarrow> error option \<Rightarrow> bool" where
  "phase_ret good live get pass x st e \<longleftrightarrow> good x \<and> live x \<and>
     (e = None \<longrightarrow> get x = default_state st \<and> (IsCompleted st \<longrightarrow> st = StateFailed \<or> pass st))"

definition phase_after ::
    "('o \<Rightarrow> bool) \<Rightarrow> ('o \<Rightarrow> KeptnState) \<Rightarrow> (KeptnState \<Rightarrow> bool) \<Rightarrow>
     'o \<times> PhaseResult \<times> error option \<Rightarrow> bool" where
  "phase_after good get pass = (\<lambda>(x, res, err). good x \<and> (Continue res \<longrightarrow> pass (get x)))"

lemma phase_ret_failed:
  assumes "phase_ret good live get pass x StateFailed None"
  shows "good x" "get x = StateFailed"
  using assms by (simp_all add: phase_ret_def default_state_completed)

text \<open>
  An invariant of a phase item that storing, beginning a phase and reporting progress keep.  An
  object that no phase is aborted for is \<open>live\<close>.
\<close>

locale phased = phase_item P S for P :: "'o PhaseItem" and S :: "'o SpanItem" +
  fixes good live :: "'o \<Rightarrow> bool" and stored :: "'o \<Rightarrow> 'o \<Rightarrow> bool"
  assumes inv_stored: "stored y z \<Longrightarrow> good z = good y"
    and live_stored: "stored y z \<Longrightarrow> live z = live y"
    and begun_inv: "phase_begun P S phase x x1 \<Longrightarrow> good x1 = good x"
    and begun_live: "phase_begun P S phase x x1 \<Longrightarrow> live x1 = live x"
    and progress_inv: "good x \<Longrightarrow> live x \<Longrightarrow> good (pi_SetState P StateProgressing x)"
    and live_inv: "good x \<Longrightarrow> \<not> shouldAbortPhase (pi_GetState P x) \<Longrightarrow> live x"
begin

text \<open>The server stores the states of a field with their default.\<close>

definition defaulted :: "('o \<Rightarrow> KeptnState) \<Rightarrow> bool" where
  "defaulted get \<longleftrightarrow> (\<forall>y z. stored y z \<longrightarrow> get z = default_state (get y))"

lemma maintains_write_status:
  assumes upd: "writes J (api_StatusUpdate k) good stored" and get: "defaulted get"
    and y: "good y" "live y" "get y = st" and pass: "IsCompleted st \<Longrightarrow> st = StateFailed \<or> pass st"
  shows "maintains J (write_status k y st) (\<lambda>(x, st, e). phase_ret good live get pass x st e)"
proof -
  have "phase_ret good live get pass z st None" if "stored y z" for z
    using that get y pass inv_stored [OF that] live_stored [OF that]
    by (auto simp: phase_ret_def defaulted_def)
  moreover have "phase_ret good live get pass y StateUnknown (Some e)" for e
    using y by (simp add: phase_ret_def)
  ultimately show ?thesis
    unfolding write_status_def
    by (rule_tac maintains_bind, rule_tac maintains_write [OF upd y(1)]) (auto intro!: maintain)
qed

lemma maintains_phase:
  assumes kind: "k_PhaseItem kind = Some P" "k_SpanItem kind = Some S"
    and amb: "ambient J cl" and upd: "writes J (api_StatusUpdate (k_api kind)) good stored"
    and good: "good x" and get: "defaulted get" and pass: "\<And>k. pass k \<Longrightarrow> pass (default_state k)"
    and rec: "\<And>ctx x1. good x1 \<Longrightarrow> live x1 \<Longrightarrow> phase_begun P S phase x x1 \<Longrightarrow>
      maintains J (rec ctx x1) (\<lambda>(x, st, e). phase_ret good live get pass x st e)"
    and failed: "\<And>x now. phase_ret good live get pass x StateFailed None \<Longrightarrow>
      good (phase_failed P phase now x)"
  shows "maintains J (HandlePhase cl kind ctx tr x phase rec) (phase_after good get pass)"
proof -
  have "maintains J (HandlePhase cl kind ctx tr x phase rec)
    (phase_spec P phase x (phase_ret good live get pass) stored)"
  proof (rule HandlePhase_spec [OF kind amb _ upd])
    show "phase_writes P phase (phase_ret good live get pass) good"
      unfolding phase_writes_def using failed progress_inv by (auto simp: phase_ret_def)
    show "maintains J (rec ctx x1) (\<lambda>(x2, st, e). phase_ret good live get pass x2 st e)"
      if "\<not> shouldAbortPhase (pi_GetState P x)" "phase_begun P S phase x x1" for ctx x1
      using that good live_inv begun_inv [OF that(2)] begun_live [OF that(2)] by (intro rec) auto
  qed
  then show ?thesis
  proof (rule maintains_conseq, clarify)
    fix y res err
    assume spec: "phase_spec P phase x (phase_ret good live get pass) stored (y, res, err)"
    show "phase_after good get pass (y, res, err)"
    proof (cases "Continue res")
      case True
      then obtain x2 st where x2: "phase_ret good live get pass x2 st None" "IsCompleted st"
        "st \<noteq> StateFailed" "y = x2 \<or> stored x2 y"
        using phase_spec_continue [OF spec] by blast
      then have "pass (get x2)" and "pass (default_state (get x2))"
        using pass by (auto simp: phase_ret_def default_state_completed)
      then have "pass (get y)"
        using x2(4) get by (auto simp: defaulted_def)
      then show ?thesis
        using x2 inv_stored by (auto simp: phase_after_def phase_ret_def)
    next
      case False
      have "good y"
        using phase_spec_stop [OF spec False] good failed progress_inv inv_stored
        by (auto simp: phase_ret_def)
      with False show ?thesis by (simp add: phase_after_def)
    qed
  qed
qed

end

section \<open>Statements\<close>

lemma ambient_True: "ambient (\<lambda>w. True) cl"
  by (simp add: ambient_def call_keeps_def)

text \<open>
  C4: The phase handler implements its specification \<^const>\<open>phase_spec\<close>: an object that has failed or
  is deprecated is returned untouched and the phase does not continue; an error of the closure is
  returned with a requeue after five seconds; a failed phase leaves the object as
  \<^const>\<open>phase_failed\<close> describes and stops without a requeue; any other completed state continues
  with the object the closure returned; and otherwise the object is Progressing and requeued.  What
  is returned is the object or what the server stored of it.
\<close>

theorem HandlePhase_refines:
  assumes "k_PhaseItem kind = Some P" and "k_SpanItem kind = Some S"
    and "ambient J cl"
    and "\<And>ctx x1. \<not> shouldAbortPhase (pi_GetState P x) \<Longrightarrow> phase_begun P S phase x x1 \<Longrightarrow>
      maintains J (rec ctx x1) (\<lambda>(x2, st, e). R x2 st e)"
    and "writes J (api_StatusUpdate (k_api kind)) W stored" and "phase_writes P phase R W"
  shows "maintains J (HandlePhase cl kind ctx tracer x phase rec) (phase_spec P phase x R stored)"
  by (rule HandlePhase_spec [OF assms])

text \<open>
  When a phase of an app version fails, the handler stops, the app version is Failed, the state
  of every later phase is Deprecated and the state of every earlier phase is kept.
\<close>

theorem failed_app_phase_deprecates_rest:
  assumes "i < 6"
    and "run_state (handleCompletedPhase cl kind StateFailed AppVersion_PhaseItem (app_phases ! i) a span) s =
      ((a', result, err), s')"
  shows "app_phase_states a' = deprecate_after i (app_phase_states a) \<and>
    avst_Status (av_Status a') = StateFailed \<and> \<not> Continue result \<and> err = None"
proof -
  have "maintains (\<lambda>w. True) (handleCompletedPhase cl kind StateFailed AppVersion_PhaseItem
      (app_phases ! i) a span) (\<lambda>(y, res, err). err = None \<and>
        (\<exists>now. y = phase_failed AppVersion_PhaseItem (app_phases ! i) now a) \<and>
        res = \<lparr>Continue = False, pr_Result = no_requeue\<rparr>)"
    by (rule maintains_conseq, rule maintains_handleCompletedPhase [OF ambient_True]) auto
  from maintainsD [OF this _ assms(2)] obtain now where
    a': "a' = phase_failed AppVersion_PhaseItem (app_phases ! i) now a"
    and rest: "err = None" "result = \<lparr>Continue = False, pr_Result = no_requeue\<rparr>" by auto
  have "app_phases ! i \<noteq> PhaseDeprecated"
    using less_6_cases [OF assms(1)] by (elim disjE) (simp_all add: app_phases_def phase_defs numeral_eq_Suc)
  then have "avst_Status (av_Status a') = StateFailed"
    using av.failed_state a' by (simp add: AppVersion_PhaseItem_def AppVersion_GetState_def)
  moreover have "app_phase_states (AppVersion_SetState k (AppVersion_Complete t a)) = app_phase_states a"
    for k t
    by (simp add: app_phase_states_def AppVersion_SetState_def AppVersion_Complete_def
        AppVersion_SetEndTime_def Let_def)
  ultimately show ?thesis
    using rest app_phase_states_deprecate [OF assms(1)]
    by (simp add: a' phase_failed_def AppVersion_PhaseItem_def)
qed

text \<open>
  When a phase of a workload version fails, the handler stops, the workload version is Failed,
  the state of every later phase is Deprecated and the state of every earlier phase is kept.
\<close>

theorem failed_workload_phase_deprecates_rest:
  assumes "i < 5"
    and "run_state (handleCompletedPhase cl kind StateFailed WorkloadVersion_PhaseItem
      (workload_phases ! i) w span) s = ((w', result, err), s')"
  shows "workload_phase_states w' = deprecate_after i (workload_phase_states w) \<and>
    wvst_Status (wv_Status w') = StateFailed \<and> \<not> Continue result \<and> err = None"
proof -
  have "maintains (\<lambda>w. True) (handleCompletedPhase cl kind StateFailed WorkloadVersion_PhaseItem
      (workload_phases ! i) w span) (\<lambda>(y, res, err). err = None \<and>
        (\<exists>now. y = phase_failed WorkloadVersion_PhaseItem (workload_phases ! i) now w) \<and>
        res = \<lparr>Continue = False, pr_Result = no_requeue\<rparr>)"
    by (rule maintains_conseq, rule maintains_handleCompletedPhase [OF ambient_True]) auto
  from maintainsD [OF this _ assms(2)] obtain now where
    w': "w' = phase_failed WorkloadVersion_PhaseItem (workload_phases ! i) now w"
    and rest: "err = None" "result = \<lparr>Continue = False, pr_Result = no_requeue\<rparr>" by auto
  have "workload_phases ! i \<noteq> PhaseDeprecated"
    using less_5_cases [OF assms(1)]
    by (elim disjE) (simp_all add: workload_phases_def phase_defs numeral_eq_Suc)
  then have "wvst_Status (wv_Status w') = StateFailed"
    using wv.failed_state w' by (simp add: WorkloadVersion_PhaseItem_def WorkloadVersion_GetState_def)
  moreover have "workload_phase_states (WorkloadVersion_SetState k (WorkloadVersion_Complete t w)) =
      workload_phase_states w" for k t
    by (simp add: workload_phase_states_def WorkloadVersion_SetState_def WorkloadVersion_Complete_def
        WorkloadVersion_SetEndTime_def Let_def)
  ultimately show ?thesis
    using rest workload_phase_states_deprecate [OF assms(1)]
    by (simp add: w' phase_failed_def WorkloadVersion_PhaseItem_def)
qed

end
