(* ===== verification/Items.thy ===== *)
theory Items
  imports Phase "HOL-Library.Sublist"
begin

text \<open>
  The handlers that run the tasks and the evaluations of a phase
  (\<^verbatim>\<open>controllers/common/task/handler.go\<close>, \<^verbatim>\<open>controllers/common/evaluation/handler.go\<close>): for every
  definition named by the phase item they create a KeptnTask or KeptnEvaluation once, follow its
  state, and summarise the states.
\<close>

section \<open>Tasks\<close>

definition Task_SpanItem :: "KeptnTask SpanItem" where
  "Task_SpanItem =
     \<lparr>si_SpanAttributes = Task_GetSpanAttributes,
      si_SetPhaseTraceID = Task_SetPhaseTraceID,
      si_GetSpanKey = Task_GetSpanKey,
      si_GetSpanName = Task_GetSpanName\<rparr>"

definition Task_Event :: "KeptnTask \<Rightarrow> EventTarget" where
  "Task_Event t = \<lparr>et_meta = t_meta t, et_EventAnnotations = Some (Task_GetEventAnnotations t)\<rparr>"

text \<open>The definition to use is set per task, so the attributes are the check type alone.\<close>

definition setupTasks ::
    "CheckType \<Rightarrow> 'o PhaseItem \<Rightarrow> 'o \<Rightarrow> string list \<times> ItemStatus list" where
  "setupTasks checkType piWrapper obj =
     (if checkType = PreDeploymentCheckType then
        (pi_GetPreDeploymentTasks piWrapper obj, pi_GetPreDeploymentTaskStatus piWrapper obj)
      else if checkType = PostDeploymentCheckType then
        (pi_GetPostDeploymentTasks piWrapper obj, pi_GetPostDeploymentTaskStatus piWrapper obj)
      else if checkType = PromotionCheckType then
        (pi_GetPromotionTasks piWrapper obj, pi_GetPromotionTaskStatus piWrapper obj)
      else ([], []))"

definition injectKeptnContext :: "'w Client \<Rightarrow> Context \<Rightarrow> KeptnTask \<Rightarrow> KeptnTask" where
  "injectKeptnContext cl phaseCtx newTask =
     (case GetAppMetadataFromContext phaseCtx of
        (metadata, True) \<Rightarrow>
          newTask\<lparr>t_Spec := (t_Spec newTask)\<lparr>ts_Context := (ts_Context (t_Spec newTask))
            \<lparr>tc_Metadata := Some (metadata ++\<^sub>f cl_Inject cl phaseCtx)\<rparr>\<rparr>\<rparr>
      | (metadata, False) \<Rightarrow> newTask)"

definition set_task_owner :: "'w Client \<Rightarrow> string \<Rightarrow> ObjectMeta \<Rightarrow> KeptnTask \<Rightarrow> KeptnTask" where
  "set_task_owner cl owner_kind owner task =
     (case cl_SetControllerReference cl owner_kind owner (t_meta task) of
        Inl err \<Rightarrow> task
      | Inr m \<Rightarrow> task\<lparr>t_meta := m\<rparr>)"

definition CreateKeptnTask ::
    "'w Client \<Rightarrow> ('w, 'o) Kind \<Rightarrow> Context \<Rightarrow> 'o \<Rightarrow> KeptnTaskDefinition \<Rightarrow> CheckType \<Rightarrow>
     ('w, error + string) prog" where
  "CreateKeptnTask cl kind phaseCtx reconcileObject taskDefinition checkType =
     (case NewPhaseItemWrapperFromClientObject (k_PhaseItem kind) of
        Inl err \<Rightarrow> ret (Inl err)
      | Inr piWrapper \<Rightarrow> do {
          let phase = PhaseCreateTask;
          intn \<leftarrow> on_world (cl_Intn cl 89999);
          let newTask = pi_GenerateTask piWrapper intn reconcileObject taskDefinition checkType;
          let newTask = injectKeptnContext cl phaseCtx newTask;
          let newTask = set_task_owner cl (k_Name kind) (et_meta (k_Event kind reconcileObject)) newTask;
          r \<leftarrow> on_world (api_Create (cl_Task cl) newTask);
          case r of
            Inl err \<Rightarrow> do {
              Emit phase ''Warning'' (k_Event kind reconcileObject) PhaseStateFailed
                ''could not create KeptnTask'' (pi_GetVersion piWrapper reconcileObject);
              ret (Inl err)
            }
          | Inr newTask \<Rightarrow> ret (Inr (om_Name (t_meta newTask)))
        })"

definition setTaskFailureEvents :: "'w Client \<Rightarrow> KeptnTask \<Rightarrow> Span \<Rightarrow> ('w, unit) prog" where
  "setTaskFailureEvents cl task spanTrace = do {
     now \<leftarrow> Now cl;
     span_call spanTrace (AddEvent (''task '' @ [CHR 0x27] @ om_Name (t_meta task) @ [CHR 0x27] @
       '' failed with reason: '' @ [CHR 0x27] @ tst_Message (t_Status task) @ [CHR 0x27]) (Some now))
   }"

text \<open>Result: the new status of the item, or the error after which the loop goes on without it.\<close>

definition handleTaskNotExists ::
    "'w Client \<Rightarrow> ControllerConfig \<Rightarrow> ('w, 'o) Kind \<Rightarrow> Context \<Rightarrow> string \<Rightarrow> CheckType \<Rightarrow> string \<Rightarrow>
     'o PhaseItem \<Rightarrow> 'o \<Rightarrow> KeptnTask \<Rightarrow> ItemStatus \<Rightarrow> ('w, error + ItemStatus) prog" where
  "handleTaskNotExists cl cfg kind phaseCtx tracer checkType taskName piWrapper reconcileObject task
     taskStatus = do {
     d \<leftarrow> GetTaskDefinition cl cfg taskName (pi_GetNamespace piWrapper reconcileObject);
     case d of
       Inl err \<Rightarrow> ret (Inl ErrCannotGetKeptnTaskDefinition)
     | Inr taskDefinition \<Rightarrow> do {
         r \<leftarrow> CreateKeptnTask cl kind phaseCtx reconcileObject taskDefinition checkType;
         case r of
           Inl err \<Rightarrow> ret (Inl err)
         | Inr taskName \<Rightarrow> do {
             let taskStatus = taskStatus\<lparr>is_Name := taskName\<rparr>;
             now \<leftarrow> Now cl;
             let taskStatus = ItemStatus_SetStartTime now taskStatus;
             _ \<leftarrow> GetSpan cl phaseCtx tracer (Some Task_SpanItem) task [] [];
             ret (Inr taskStatus)
           }
       }
   }"

definition handleTaskExists ::
    "'w Client \<Rightarrow> Context \<Rightarrow> string \<Rightarrow> KeptnTask \<Rightarrow> ItemStatus \<Rightarrow> ('w, ItemStatus) prog" where
  "handleTaskExists cl phaseCtx tracer task taskStatus = do {
     (task, r) \<leftarrow> GetSpan cl phaseCtx tracer (Some Task_SpanItem) task [] [];
     let (_, spanTaskTrace) = span_or_nil phaseCtx r;
     let taskStatus = taskStatus\<lparr>is_Status := tst_Status (t_Status task)\<rparr>;
     if IsCompleted (is_Status taskStatus) then do {
       (if IsSucceeded (is_Status taskStatus) then do {
          span_call spanTaskTrace (AddEvent (om_Name (t_meta task) @ '' has finished'') None);
          span_call spanTaskTrace (SetStatus CodeOk ''Finished'')
        }
        else do {
          span_call spanTaskTrace (AddEvent (om_Name (t_meta task) @ '' has failed'') None);
          setTaskFailureEvents cl task spanTaskTrace;
          span_call spanTaskTrace (SetStatus CodeError ''Failed'')
        });
       span_call spanTaskTrace SpanEnd;
       _ \<leftarrow> UnbindSpan (Some Task_SpanItem) task [];
       now \<leftarrow> Now cl;
       ret (ItemStatus_SetEndTime now taskStatus)
     }
     else ret taskStatus
   }"

text \<open>
  One turn of the loop: an error that ends it, no status (the item could not be created), or the
  status to append.  A task that is gone from the cluster is still treated as existing: its object
  is the empty one that the failed read left.
\<close>

definition reconcileTask ::
    "'w Client \<Rightarrow> ControllerConfig \<Rightarrow> ('w, 'o) Kind \<Rightarrow> Context \<Rightarrow> string \<Rightarrow> CheckType \<Rightarrow>
     'o PhaseItem \<Rightarrow> 'o \<Rightarrow> ItemStatus list \<Rightarrow> string \<Rightarrow> ('w, error + ItemStatus option) prog" where
  "reconcileTask cl cfg kind phaseCtx tracer checkType piWrapper reconcileObject statuses
     taskDefinitionName = do {
     let oldstatus = GetOldStatus taskDefinitionName statuses;
     let taskStatus = GetItemStatus taskDefinitionName statuses;
     (if oldstatus \<noteq> is_Status taskStatus then
        Emit PhaseReconcileTask ''Normal'' (k_Event kind reconcileObject) PhaseStateStatusChanged
          (''task status changed from '' @ state_string oldstatus @ '' to '' @
           state_string (is_Status taskStatus)) (pi_GetVersion piWrapper reconcileObject)
      else ret ());
     if is_Status taskStatus = StateSucceeded \<or> is_Status taskStatus = StateFailed then
       ret (Inr (Some taskStatus))
     else if is_Name taskStatus \<noteq> [] then do {
       r \<leftarrow> on_world (api_Get (cl_Task cl) (pi_GetNamespace piWrapper reconcileObject)
         (is_Name taskStatus));
       case r of
         Inl err \<Rightarrow>
           if IsNotFound err then do {
             st \<leftarrow> handleTaskExists cl phaseCtx tracer zero_KeptnTask (taskStatus\<lparr>is_Name := []\<rparr>);
             ret (Inr (Some st))
           }
           else ret (Inl err)
       | Inr task \<Rightarrow> do {
           st \<leftarrow> handleTaskExists cl phaseCtx tracer task taskStatus;
           ret (Inr (Some st))
         }
     }
     else do {
       r \<leftarrow> handleTaskNotExists cl cfg kind phaseCtx tracer checkType taskDefinitionName piWrapper
         reconcileObject zero_KeptnTask taskStatus;
       case r of
         Inl err \<Rightarrow> ret (Inr None)
       | Inr st \<Rightarrow> ret (Inr (Some st))
     }
   }"

text \<open>The loop itself, shared in shape by both handlers: \<open>step\<close> is one turn.\<close>

fun item_loop ::
    "(string \<Rightarrow> ('w, error + ItemStatus option) prog) \<Rightarrow> string list \<Rightarrow> ItemStatus list \<Rightarrow>
     ('w, error + ItemStatus list) prog" where
  "item_loop step [] newStatus = ret (Inr newStatus)"
| "item_loop step (name # names) newStatus = do {
     r \<leftarrow> step name;
     case r of
       Inl err \<Rightarrow> ret (Inl err)
     | Inr None \<Rightarrow> item_loop step names newStatus
     | Inr (Some st) \<Rightarrow> item_loop step names (newStatus @ [st])
   }"

definition ReconcileTasks ::
    "'w Client \<Rightarrow> ControllerConfig \<Rightarrow> ('w, 'o) Kind \<Rightarrow> Context \<Rightarrow> string \<Rightarrow> 'o \<Rightarrow> CheckType \<Rightarrow>
     ('w, error + ItemStatus list \<times> StatusSummary) prog" where
  "ReconcileTasks cl cfg kind phaseCtx tracer reconcileObject checkType =
     (case NewPhaseItemWrapperFromClientObject (k_PhaseItem kind) of
        Inl err \<Rightarrow> ret (Inl err)
      | Inr piWrapper \<Rightarrow> do {
          let (tasks, statuses) = setupTasks checkType piWrapper reconcileObject;
          let summary = new_summary (int (length tasks));
          r \<leftarrow> item_loop (reconcileTask cl cfg kind phaseCtx tracer checkType piWrapper
            reconcileObject statuses) tasks [];
          case r of
            Inl err \<Rightarrow> ret (Inl err)
          | Inr newStatus \<Rightarrow>
              ret (Inr (newStatus,
                fold (\<lambda>ns summary. UpdateStatusSummary (is_Status ns) summary) newStatus summary))
        })"

section \<open>Evaluations\<close>

definition Evaluation_SpanItem :: "KeptnEvaluation SpanItem" where
  "Evaluation_SpanItem =
     \<lparr>si_SpanAttributes = Evaluation_GetSpanAttributes,
      si_SetPhaseTraceID = Evaluation_SetPhaseTraceID,
      si_GetSpanKey = Evaluation_GetSpanKey,
      si_GetSpanName = Evaluation_GetSpanName\<rparr>"

definition Evaluation_Event :: "KeptnEvaluation \<Rightarrow> EventTarget" where
  "Evaluation_Event e =
     \<lparr>et_meta = e_meta e, et_EventAnnotations = Some (Evaluation_GetEventAnnotations e)\<rparr>"

definition setupEvaluations ::
    "CheckType \<Rightarrow> 'o PhaseItem \<Rightarrow> 'o \<Rightarrow> string list \<times> ItemStatus list" where
  "setupEvaluations checkType piWrapper obj =
     (if checkType = PreDeploymentEvaluationCheckType then
        (pi_GetPreDeploymentEvaluations piWrapper obj,
         pi_GetPreDeploymentEvaluationTaskStatus piWrapper obj)
      else if checkType = PostDeploymentEvaluationCheckType then
        (pi_GetPostDeploymentEvaluations piWrapper obj,
         pi_GetPostDeploymentEvaluationTaskStatus piWrapper obj)
      else ([], []))"

definition set_evaluation_owner ::
    "'w Client \<Rightarrow> string \<Rightarrow> ObjectMeta \<Rightarrow> KeptnEvaluation \<Rightarrow> KeptnEvaluation" where
  "set_evaluation_owner cl owner_kind owner evaluation =
     (case cl_SetControllerReference cl owner_kind owner (e_meta evaluation) of
        Inl err \<Rightarrow> evaluation
      | Inr m \<Rightarrow> evaluation\<lparr>e_meta := m\<rparr>)"

definition CreateKeptnEvaluation ::
    "'w Client \<Rightarrow> ('w, 'o) Kind \<Rightarrow> 'o \<Rightarrow> KeptnEvaluationDefinition \<Rightarrow> CheckType \<Rightarrow>
     ('w, error + string) prog" where
  "CreateKeptnEvaluation cl kind reconcileObject evaluationDefinition checkType =
     (case NewPhaseItemWrapperFromClientObject (k_PhaseItem kind) of
        Inl err \<Rightarrow> ret (Inl err)
      | Inr piWrapper \<Rightarrow> do {
          let phase = PhaseCreateEvaluation;
          intn \<leftarrow> on_world (cl_Intn cl 89999);
          let newEvaluation =
            pi_GenerateEvaluation piWrapper intn reconcileObject evaluationDefinition checkType;
          let newEvaluation = set_evaluation_owner cl (k_Name kind)
            (et_meta (k_Event kind reconcileObject)) newEvaluation;
          r \<leftarrow> on_world (api_Create (cl_Evaluation cl) newEvaluation);
          case r of
            Inl err \<Rightarrow> do {
              Emit phase ''Warning'' (k_Event kind reconcileObject) PhaseStateFailed
                ''could not create KeptnEvaluation'' (pi_GetVersion piWrapper reconcileObject);
              ret (Inl err)
            }
          | Inr newEvaluation \<Rightarrow> ret (Inr (om_Name (e_meta newEvaluation)))
        })"

text \<open>The loop over the map of objective results, in the order the runtime iterates it.\<close>

fun failure_messages ::
    "'w Client \<Rightarrow> Span \<Rightarrow> (string, EvaluationStatusItem) gomap \<Rightarrow> string list \<Rightarrow> string \<Rightarrow>
     ('w, string) prog" where
  "failure_messages cl span m [] k8sEventMessage = ret k8sEventMessage"
| "failure_messages cl span m (k # ks) k8sEventMessage =
     (case gm_lookup m k of
        None \<Rightarrow> failure_messages cl span m ks k8sEventMessage
      | Some v \<Rightarrow>
          if esi_Status v = StateFailed then do {
            let msg = ''evaluation of '' @ [CHR 0x27] @ k @ [CHR 0x27] @ '' failed with value: '' @
              [CHR 0x27] @ esi_Value v @ [CHR 0x27] @ '' and reason: '' @ [CHR 0x27] @ esi_Message v @
              [CHR 0x27];
            now \<leftarrow> Now cl;
            span_call span (AddEvent msg (Some now));
            failure_messages cl span m ks (k8sEventMessage @ [CHR 0x0A] @ msg)
          }
          else failure_messages cl span m ks k8sEventMessage)"

definition emitEvaluationFailureEvents ::
    "'w Client \<Rightarrow> KeptnEvaluation \<Rightarrow> Span \<Rightarrow> string \<Rightarrow> ('w, unit) prog" where
  "emitEvaluationFailureEvents cl evaluation spanTrace version = do {
     let m = est_EvaluationStatus (e_Status evaluation);
     keys \<leftarrow> on_world (cl_RangeOrder cl (fmdom (gm_fmap m)));
     k8sEventMessage \<leftarrow> failure_messages cl spanTrace m keys ''evaluation failed'';
     Emit PhaseReconcileEvaluation ''Warning'' (Evaluation_Event evaluation) PhaseStateFailed
       k8sEventMessage version
   }"

definition handleEvaluationNotExists ::
    "'w Client \<Rightarrow> ControllerConfig \<Rightarrow> ('w, 'o) Kind \<Rightarrow> Context \<Rightarrow> string \<Rightarrow> CheckType \<Rightarrow> string \<Rightarrow>
     'o PhaseItem \<Rightarrow> 'o \<Rightarrow> KeptnEvaluation \<Rightarrow> ItemStatus \<Rightarrow> ('w, error + ItemStatus) prog" where
  "handleEvaluationNotExists cl cfg kind phaseCtx tracer checkType evaluationName piWrapper
     reconcileObject evaluation evaluationStatus = do {
     d \<leftarrow> GetEvaluationDefinition cl cfg evaluationName (pi_GetNamespace piWrapper reconcileObject);
     case d of
       Inl err \<Rightarrow> ret (Inl ErrCannotGetKeptnEvaluationDefinition)
     | Inr evaluationDefinition \<Rightarrow> do {
         r \<leftarrow> CreateKeptnEvaluation cl kind reconcileObject evaluationDefinition checkType;
         case r of
           Inl err \<Rightarrow> ret (Inl err)
         | Inr evaluationName \<Rightarrow> do {
             let evaluationStatus = evaluationStatus\<lparr>is_Name := evaluationName\<rparr>;
             now \<leftarrow> Now cl;
             let evaluationStatus = ItemStatus_SetStartTime now evaluationStatus;
             _ \<leftarrow> GetSpan cl phaseCtx tracer (Some Evaluation_SpanItem) evaluation [] [];
             ret (Inr evaluationStatus)
           }
       }
   }"

definition handleEvaluationExists ::
    "'w Client \<Rightarrow> Context \<Rightarrow> string \<Rightarrow> string \<Rightarrow> KeptnEvaluation \<Rightarrow> ItemStatus \<Rightarrow>
     ('w, ItemStatus) prog" where
  "handleEvaluationExists cl phaseCtx tracer version evaluation evaluationStatus = do {
     (evaluation, r) \<leftarrow> GetSpan cl phaseCtx tracer (Some Evaluation_SpanItem) evaluation [] [];
     let (_, spanEvaluationTrace) = span_or_nil phaseCtx r;
     let evaluationStatus =
       evaluationStatus\<lparr>is_Status := est_OverallStatus (e_Status evaluation)\<rparr>;
     if IsCompleted (is_Status evaluationStatus) then do {
       (if IsSucceeded (is_Status evaluationStatus) then do {
          span_call spanEvaluationTrace
            (AddEvent (om_Name (e_meta evaluation) @ '' has finished'') None);
          span_call spanEvaluationTrace (SetStatus CodeOk ''Finished'')
        }
        else do {
          span_call spanEvaluationTrace
            (AddEvent (om_Name (e_meta evaluation) @ '' has failed'') None);
          emitEvaluationFailureEvents cl evaluation spanEvaluationTrace version;
          span_call spanEvaluationTrace (SetStatus CodeError ''Failed'')
        });
       span_call spanEvaluationTrace SpanEnd;
       _ \<leftarrow> UnbindSpan (Some Evaluation_SpanItem) evaluation [];
       now \<leftarrow> Now cl;
       ret (ItemStatus_SetEndTime now evaluationStatus)
     }
     else ret evaluationStatus
   }"

definition reconcileEvaluation ::
    "'w Client \<Rightarrow> ControllerConfig \<Rightarrow> ('w, 'o) Kind \<Rightarrow> Context \<Rightarrow> string \<Rightarrow> CheckType \<Rightarrow>
     'o PhaseItem \<Rightarrow> 'o \<Rightarrow> ItemStatus list \<Rightarrow> string \<Rightarrow> ('w, error + ItemStatus option) prog" where
  "reconcileEvaluation cl cfg kind phaseCtx tracer checkType piWrapper reconcileObject statuses
     evaluationName = do {
     let oldstatus = GetOldStatus evaluationName statuses;
     let evaluationStatus = GetItemStatus evaluationName statuses;
     (if oldstatus \<noteq> is_Status evaluationStatus then
        Emit PhaseReconcileEvaluation ''Normal'' (k_Event kind reconcileObject)
          PhaseStateStatusChanged
          (''evaluation status changed from '' @ state_string oldstatus @ '' to '' @
           state_string (is_Status evaluationStatus)) (pi_GetVersion piWrapper reconcileObject)
      else ret ());
     if IsCompleted (is_Status evaluationStatus) then ret (Inr (Some evaluationStatus))
     else if is_Name evaluationStatus \<noteq> [] then do {
       r \<leftarrow> on_world (api_Get (cl_Evaluation cl) (pi_GetNamespace piWrapper reconcileObject)
         (is_Name evaluationStatus));
       case r of
         Inl err \<Rightarrow>
           if IsNotFound err then do {
             st \<leftarrow> handleEvaluationExists cl phaseCtx tracer
               (pi_GetVersion piWrapper reconcileObject) zero_KeptnEvaluation
               (evaluationStatus\<lparr>is_Name := []\<rparr>);
             ret (Inr (Some st))
           }
           else ret (Inl err)
       | Inr evaluation \<Rightarrow> do {
           st \<leftarrow> handleEvaluationExists cl phaseCtx tracer
             (pi_GetVersion piWrapper reconcileObject) evaluation evaluationStatus;
           ret (Inr (Some st))
         }
     }
     else do {
       r \<leftarrow> handleEvaluationNotExists cl cfg kind phaseCtx tracer checkType evaluationName piWrapper
         reconcileObject zero_KeptnEvaluation evaluationStatus;
       case r of
         Inl err \<Rightarrow> ret (Inr None)
       | Inr st \<Rightarrow> ret (Inr (Some st))
     }
   }"

definition ReconcileEvaluations ::
    "'w Client \<Rightarrow> ControllerConfig \<Rightarrow> ('w, 'o) Kind \<Rightarrow> Context \<Rightarrow> string \<Rightarrow> 'o \<Rightarrow> CheckType \<Rightarrow>
     ('w, error + ItemStatus list \<times> StatusSummary) prog" where
  "ReconcileEvaluations cl cfg kind phaseCtx tracer reconcileObject checkType =
     (case NewPhaseItemWrapperFromClientObject (k_PhaseItem kind) of
        Inl err \<Rightarrow> ret (Inl err)
      | Inr piWrapper \<Rightarrow> do {
          let (evaluations, statuses) = setupEvaluations checkType piWrapper reconcileObject;
          let summary = new_summary (int (length evaluations));
          r \<leftarrow> item_loop (reconcileEvaluation cl cfg kind phaseCtx tracer checkType piWrapper
            reconcileObject statuses) evaluations [];
          case r of
            Inl err \<Rightarrow> ret (Inl err)
          | Inr newStatus \<Rightarrow>
              ret (Inr (newStatus,
                fold (\<lambda>ns summary. UpdateStatusSummary (is_Status ns) summary) newStatus summary))
        })"

section \<open>Lemmas\<close>

subsection \<open>Invariants of the world\<close>

text \<open>
  What the two handlers read, and what they may create.
\<close>

definition item_reads :: "('w \<Rightarrow> bool) \<Rightarrow> 'w Client \<Rightarrow> bool" where
  "item_reads J cl \<longleftrightarrow> ambient J cl \<and> reads J (cl_Task cl) any \<and> reads J (cl_TaskDefinition cl) any \<and>
     reads J (cl_Evaluation cl) any \<and> reads J (cl_EvaluationDefinition cl) any"

definition item_creates :: "('w \<Rightarrow> bool) \<Rightarrow> 'w Client \<Rightarrow> bool" where
  "item_creates J cl \<longleftrightarrow> (\<forall>t. call_keeps J (api_Create (cl_Task cl) t) any) \<and>
     (\<forall>e. call_keeps J (api_Create (cl_Evaluation cl) e) any)"

lemma item_readsD:
  assumes "item_reads J cl"
  shows "ambient J cl" "reads J (cl_Task cl) any" "reads J (cl_TaskDefinition cl) any"
    "reads J (cl_Evaluation cl) any" "reads J (cl_EvaluationDefinition cl) any"
  using assms by (auto simp: item_reads_def)

lemma item_reads_True: "item_reads (\<lambda>_. True) cl"
  by (simp add: item_reads_def ambient_def reads_def call_keeps_def)

lemma item_creates_True: "item_creates (\<lambda>_. True) cl"
  by (simp add: item_creates_def call_keeps_def)

lemma maintains_api_Get:
  "reads J k good \<Longrightarrow> maintains J (on_world (api_Get k ns n)) any"
  by (rule maintains_on_world, rule call_keeps_conseq, erule readsD(1)) simp

lemma maintains_getObject:
  "reads J k good \<Longrightarrow> maintains J (getObject k cfg n ns) any"
  unfolding getObject_def
  by (intro maintain maintains_bind [where R = any] maintains_api_Get) simp_all

text \<open>Programs whose every result is accepted, by their structure.\<close>

lemmas maintain_any = maintain maintains_bind [where R = any] maintains_Now
  maintains_on_world maintains_GetSpan [THEN maintains_conseq]

lemma maintains_CreateKeptnTask:
  assumes "ambient J cl" and "item_creates J cl" and "k_PhaseItem kind = Some P"
  shows "maintains J (CreateKeptnTask cl kind ctx x d ct) any"
  unfolding CreateKeptnTask_def NewPhaseItemWrapperFromClientObject_def assms(3)
  using assms(2) unfolding item_creates_def
  by (auto intro!: maintain_any ambientD [OF assms(1)])

lemma maintains_CreateKeptnEvaluation:
  assumes "ambient J cl" and "item_creates J cl" and "k_PhaseItem kind = Some P"
  shows "maintains J (CreateKeptnEvaluation cl kind x d ct) any"
  unfolding CreateKeptnEvaluation_def NewPhaseItemWrapperFromClientObject_def assms(3)
  using assms(2) unfolding item_creates_def
  by (auto intro!: maintain_any ambientD [OF assms(1)])

lemma ItemStatus_times [simp]:
  "is_DefinitionName (ItemStatus_SetStartTime t st) = is_DefinitionName st"
  "is_DefinitionName (ItemStatus_SetEndTime t st) = is_DefinitionName st"
  "is_Status (ItemStatus_SetStartTime t st) = is_Status st"
  "is_Status (ItemStatus_SetEndTime t st) = is_Status st"
  "is_Name (ItemStatus_SetStartTime t st) = is_Name st"
  "is_Name (ItemStatus_SetEndTime t st) = is_Name st"
  by (simp_all add: ItemStatus_SetStartTime_def ItemStatus_SetEndTime_def)

lemma trace_variant_Task: "trace_variant Task_SpanItem p t t' \<Longrightarrow> t' = t"
  by (auto simp: trace_variant_def Task_SpanItem_def Task_SetPhaseTraceID_def)

lemma trace_variant_Evaluation: "trace_variant Evaluation_SpanItem p e e' \<Longrightarrow> e' = e"
  by (auto simp: trace_variant_def Evaluation_SpanItem_def Evaluation_SetPhaseTraceID_def)

lemma maintains_setTaskFailureEvents:
  "ambient J cl \<Longrightarrow> maintains J (setTaskFailureEvents cl task span) any"
  unfolding setTaskFailureEvents_def by (intro maintain_any) simp_all

lemma maintains_failure_messages:
  "ambient J cl \<Longrightarrow> maintains J (failure_messages cl span m ks msg) any"
  by (induction ks arbitrary: msg) (auto intro!: maintain_any)

lemma maintains_emitEvaluationFailureEvents:
  "ambient J cl \<Longrightarrow> maintains J (emitEvaluationFailureEvents cl e span v) any"
  unfolding emitEvaluationFailureEvents_def
  by (intro maintain_any maintains_failure_messages ambientD) simp_all

lemma maintains_handleTaskExists:
  assumes "ambient J cl"
  shows "maintains J (handleTaskExists cl ctx tracer task st) (\<lambda>st'.
    is_DefinitionName st' = is_DefinitionName st \<and> is_Name st' = is_Name st \<and>
    is_Status st' = tst_Status (t_Status task))"
  unfolding handleTaskExists_def
  by (rule maintains_bind, rule maintains_GetSpan [OF assms])
    (auto intro!: maintain_any assms maintains_setTaskFailureEvents dest: trace_variant_Task)

lemma maintains_handleEvaluationExists:
  assumes "ambient J cl"
  shows "maintains J (handleEvaluationExists cl ctx tracer v e st) (\<lambda>st'.
    is_DefinitionName st' = is_DefinitionName st \<and> is_Name st' = is_Name st \<and>
    is_Status st' = est_OverallStatus (e_Status e))"
  unfolding handleEvaluationExists_def
  by (rule maintains_bind, rule maintains_GetSpan [OF assms])
    (auto intro!: maintain_any assms maintains_emitEvaluationFailureEvents
      dest: trace_variant_Evaluation)

lemma maintains_handleTaskNotExists:
  assumes "item_reads J cl" and "item_creates J cl" and "k_PhaseItem kind = Some P"
  shows "maintains J (handleTaskNotExists cl cfg kind ctx tracer ct n pw x task st) (\<lambda>r.
    \<forall>st'. r = Inr st' \<longrightarrow> is_DefinitionName st' = is_DefinitionName st \<and> is_Status st' = is_Status st)"
  unfolding handleTaskNotExists_def GetTaskDefinition_def
  by (intro maintain_any maintains_getObject [OF item_readsD(3) [OF assms(1)]]
      maintains_CreateKeptnTask [OF item_readsD(1) [OF assms(1)] assms(2,3)]
      item_readsD(1) [OF assms(1)]) auto

lemma maintains_handleEvaluationNotExists:
  assumes "item_reads J cl" and "item_creates J cl" and "k_PhaseItem kind = Some P"
  shows "maintains J (handleEvaluationNotExists cl cfg kind ctx tracer ct n pw x e st) (\<lambda>r.
    \<forall>st'. r = Inr st' \<longrightarrow> is_DefinitionName st' = is_DefinitionName st \<and> is_Status st' = is_Status st)"
  unfolding handleEvaluationNotExists_def GetEvaluationDefinition_def
  by (intro maintain_any maintains_getObject [OF item_readsD(5) [OF assms(1)]]
      maintains_CreateKeptnEvaluation [OF item_readsD(1) [OF assms(1)] assms(2,3)]
      item_readsD(1) [OF assms(1)]) auto

subsection \<open>The loop\<close>

text \<open>
  One turn keeps the definition's name; it creates an object only when the status of the item
  records none and is not final.
\<close>

definition item_open :: "ItemStatus list \<Rightarrow> string \<Rightarrow> bool" where
  "item_open statuses name \<longleftrightarrow>
     is_Status (GetItemStatus name statuses) \<notin> {StateSucceeded, StateFailed} \<and>
     is_Name (GetItemStatus name statuses) = []"

definition turn_ok :: "string \<Rightarrow> error + ItemStatus option \<Rightarrow> bool" where
  "turn_ok name r \<longleftrightarrow> (\<forall>st. r = Inr (Some st) \<longrightarrow> is_DefinitionName st = name)"

lemma turn_ok_simps [simp]:
  "turn_ok n (Inl e)" "turn_ok n (Inr None)" "turn_ok n (Inr (Some st)) \<longleftrightarrow> is_DefinitionName st = n"
  by (auto simp: turn_ok_def)

lemma maintains_turn:
  "maintains J m (\<lambda>st'. is_DefinitionName st' = n \<and> R st') \<Longrightarrow>
   maintains J (State_Monad.bind m (\<lambda>st'. ret (Inr (Some st')))) (turn_ok n)"
  by (erule maintains_bind) (simp add: maintains_ret)

lemma maintains_reconcileTask:
  assumes "item_reads J cl" and "k_PhaseItem kind = Some P"
    and "item_open statuses n \<Longrightarrow> item_creates J cl"
  shows "maintains J (reconcileTask cl cfg kind ctx tracer ct P x statuses n) (turn_ok n)"
proof -
  note amb = item_readsD(1) [OF assms(1)]
  have exists: "maintains J (do { st' \<leftarrow> handleTaskExists cl ctx tracer task st; ret (Inr (Some st')) })
      (turn_ok n)" if "is_DefinitionName st = n" for task st
    using that
    by (intro maintains_turn maintains_conseq [OF maintains_handleTaskExists [OF amb]]) auto
  have open_: "maintains J (do {
      r \<leftarrow> handleTaskNotExists cl cfg kind ctx tracer ct n P x task (GetItemStatus n statuses);
      case r of Inl err \<Rightarrow> ret (Inr None) | Inr st \<Rightarrow> ret (Inr (Some st)) }) (turn_ok n)"
    if "item_open statuses n" for task
    by (rule maintains_bind,
        rule maintains_handleTaskNotExists [OF assms(1) assms(3) [OF that] assms(2)])
      (auto intro!: maintain simp: GetItemStatus_name)
  show ?thesis
    unfolding reconcileTask_def Let_def
    by (intro maintains_bind [where R = any] maintains_if maintains_case_sum maintains_ret exists open_
        maintains_Emit maintains_api_Get [OF item_readsD(2) [OF assms(1)]])
      (auto simp: GetItemStatus_name item_open_def)
qed

lemma maintains_reconcileEvaluation:
  assumes "item_reads J cl" and "k_PhaseItem kind = Some P"
    and "item_open statuses n \<Longrightarrow> item_creates J cl"
  shows "maintains J (reconcileEvaluation cl cfg kind ctx tracer ct P x statuses n) (turn_ok n)"
proof -
  note amb = item_readsD(1) [OF assms(1)]
  have exists: "maintains J (do { st' \<leftarrow> handleEvaluationExists cl ctx tracer v e st;
      ret (Inr (Some st')) }) (turn_ok n)" if "is_DefinitionName st = n" for e st v
    using that
    by (intro maintains_turn maintains_conseq [OF maintains_handleEvaluationExists [OF amb]]) auto
  have open_: "maintains J (do {
      r \<leftarrow> handleEvaluationNotExists cl cfg kind ctx tracer ct n P x e (GetItemStatus n statuses);
      case r of Inl err \<Rightarrow> ret (Inr None) | Inr st \<Rightarrow> ret (Inr (Some st)) }) (turn_ok n)"
    if "item_open statuses n" for e
    by (rule maintains_bind,
        rule maintains_handleEvaluationNotExists [OF assms(1) assms(3) [OF that] assms(2)])
      (auto intro!: maintain simp: GetItemStatus_name)
  show ?thesis
    unfolding reconcileEvaluation_def Let_def
    by (intro maintains_bind [where R = any] maintains_if maintains_case_sum maintains_ret exists open_
        maintains_Emit maintains_api_Get [OF item_readsD(4) [OF assms(1)]])
      (auto simp: GetItemStatus_name item_open_def)
qed

lemma subseq_snoc: "subseq xs ys \<Longrightarrow> subseq (xs @ [y]) (ys @ [y])"
  by simp

lemma maintains_item_loop:
  assumes "\<And>n. n \<in> set names \<Longrightarrow> maintains J (step n) (turn_ok n)"
    and "subseq (map is_DefinitionName acc) seen"
  shows "maintains J (item_loop step names acc) (\<lambda>r. \<forall>ns. r = Inr ns \<longrightarrow>
    subseq (map is_DefinitionName ns) (seen @ names))"
  using assms
proof (induction names arbitrary: acc seen)
  case Nil
  then show ?case by (simp add: maintains_ret)
next
  case (Cons n names)
  have skip: "maintains J (item_loop step names acc) (\<lambda>r. \<forall>ns. r = Inr ns \<longrightarrow>
      subseq (map is_DefinitionName ns) ((seen @ [n]) @ names))"
    using Cons.prems by (intro Cons.IH) (auto intro: subseq_order.trans)
  have keep: "maintains J (item_loop step names (acc @ [st])) (\<lambda>r. \<forall>ns. r = Inr ns \<longrightarrow>
      subseq (map is_DefinitionName ns) ((seen @ [n]) @ names))" if "is_DefinitionName st = n" for st
    using Cons.prems that by (intro Cons.IH) auto
  show ?case
    using skip keep
    by (auto intro!: maintains_bind [OF Cons.prems(1)] maintain)
qed

text \<open>What both handlers return: statuses in the order of the definitions, and their summary.\<close>

definition items_ok ::
    "string list \<Rightarrow> error + ItemStatus list \<times> StatusSummary \<Rightarrow> bool" where
  "items_ok names r \<longleftrightarrow> (\<forall>ns summary. r = Inr (ns, summary) \<longrightarrow>
     subseq (map is_DefinitionName ns) names \<and>
     summary = summarize (map is_Status ns) (new_summary (int (length names))))"

lemma fold_summary:
  "fold (\<lambda>ns s. UpdateStatusSummary (is_Status ns) s) ns s = summarize (map is_Status ns) s"
  by (simp add: summarize_def fold_map comp_def)

lemma maintains_ReconcileTasks:
  assumes "item_reads J cl" and "k_PhaseItem kind = Some P"
    and "setupTasks ct P x = (tasks, statuses)"
    and "\<And>n. n \<in> set tasks \<Longrightarrow> item_open statuses n \<Longrightarrow> item_creates J cl"
  shows "maintains J (ReconcileTasks cl cfg kind ctx tracer x ct) (items_ok tasks)"
  unfolding ReconcileTasks_def NewPhaseItemWrapperFromClientObject_def assms(2,3) option.case sum.case
    Let_def prod.case
  by (rule maintains_bind, rule maintains_item_loop [where seen = "[]"])
    (auto intro!: maintains_reconcileTask assms maintain simp: items_ok_def fold_summary)

lemma maintains_ReconcileEvaluations:
  assumes "item_reads J cl" and "k_PhaseItem kind = Some P"
    and "setupEvaluations ct P x = (evaluations, statuses)"
    and "\<And>n. n \<in> set evaluations \<Longrightarrow> item_open statuses n \<Longrightarrow> item_creates J cl"
  shows "maintains J (ReconcileEvaluations cl cfg kind ctx tracer x ct) (items_ok evaluations)"
  unfolding ReconcileEvaluations_def NewPhaseItemWrapperFromClientObject_def assms(2,3) option.case
    sum.case Let_def prod.case
  by (rule maintains_bind, rule maintains_item_loop [where seen = "[]"])
    (auto intro!: maintains_reconcileEvaluation assms maintain simp: items_ok_def fold_summary)

lemma subseq_eq: "subseq xs ys \<Longrightarrow> length xs = length ys \<Longrightarrow> xs = ys"
  by (metis subseq_same_length)

text \<open>The overall state is Succeeded exactly when every definition has a succeeded item.\<close>

lemma items_ok_succeeded:
  assumes "items_ok names (Inr (ns, summary))"
  shows "GetOverallState summary = StateSucceeded \<longleftrightarrow>
    map is_DefinitionName ns = names \<and> (\<forall>st\<in>set ns. is_Status st = StateSucceeded)"
proof -
  from assms have sub: "subseq (map is_DefinitionName ns) names"
    and sum: "summary = summarize (map is_Status ns) (new_summary (int (length names)))"
    by (auto simp: items_ok_def)
  have "int (length (map is_Status ns)) \<le> int (length names)"
    using list_emb_length [OF sub] by simp
  from overall_succeeded_iff [OF this] have
    "GetOverallState summary = StateSucceeded \<longleftrightarrow>
      length ns = length names \<and> (\<forall>st\<in>set ns. is_Status st = StateSucceeded)"
    by (simp add: sum)
  with sub show ?thesis
    by (metis length_map subseq_eq)
qed

lemma items_ok_failed:
  assumes "items_ok names (Inr (ns, summary))"
  shows "GetOverallState summary = StateFailed \<longleftrightarrow>
    (\<exists>st\<in>set ns. is_Status st = StateFailed \<or> is_Status st = StateDeprecated)"
  using assms by (simp add: items_ok_def overall_failed_iff image_iff) metis

subsection \<open>A phase of tasks, a phase of evaluations\<close>

context phased
begin

lemma maintains_task_phase:
  assumes rd: "item_reads J cl" and cr: "item_creates J cl" and kind: "k_PhaseItem kind = Some P"
    and upd: "writes J (api_StatusUpdate k) good stored" and get: "defaulted get"
    and x: "good x" "live x"
    and set_phase: "\<And>st ns. good (set_phase st ns) \<and> live (set_phase st ns) \<and> get (set_phase st ns) = st"
  shows "maintains J (do {
      r \<leftarrow> ReconcileTasks cl cfg kind ctx tracer x ct;
      case r of
        Inl err \<Rightarrow> ret (x, StateUnknown, Some err)
      | Inr (ns, sm) \<Rightarrow> write_status k (set_phase (GetOverallStateBlockedDeployment sm b) ns)
          (GetOverallStateBlockedDeployment sm b) })
    (\<lambda>(x, st, e). phase_ret good live get (state_ok b) x st e)"
proof -
  obtain tasks statuses where names: "setupTasks ct P x = (tasks, statuses)"
    by (cases "setupTasks ct P x")
  have "maintains J (write_status k (set_phase (GetOverallStateBlockedDeployment sm b) ns)
      (GetOverallStateBlockedDeployment sm b))
      (\<lambda>(x, st, e). phase_ret good live get (state_ok b) x st e)" for sm ns
    using set_phase overall_blocked_completed [of sm b]
    by (intro maintains_write_status [OF upd get]) auto
  then show ?thesis
    by (rule_tac maintains_bind, rule_tac maintains_ReconcileTasks [OF rd kind names cr])
      (auto intro!: maintain simp: phase_ret_def x)
qed

lemma maintains_evaluation_phase:
  assumes rd: "item_reads J cl" and cr: "item_creates J cl" and kind: "k_PhaseItem kind = Some P"
    and upd: "writes J (api_StatusUpdate k) good stored" and get: "defaulted get"
    and x: "good x" "live x"
    and set_phase: "\<And>st ns. good (set_phase st ns) \<and> live (set_phase st ns) \<and> get (set_phase st ns) = st"
  shows "maintains J (do {
      r \<leftarrow> ReconcileEvaluations cl cfg kind ctx tracer x ct;
      case r of
        Inl err \<Rightarrow> ret (x, StateUnknown, Some err)
      | Inr (ns, sm) \<Rightarrow> write_status k (set_phase (GetOverallStateBlockedDeployment sm b) ns)
          (GetOverallStateBlockedDeployment sm b) })
    (\<lambda>(x, st, e). phase_ret good live get (state_ok b) x st e)"
proof -
  obtain evaluations statuses where names: "setupEvaluations ct P x = (evaluations, statuses)"
    by (cases "setupEvaluations ct P x")
  have "maintains J (write_status k (set_phase (GetOverallStateBlockedDeployment sm b) ns)
      (GetOverallStateBlockedDeployment sm b))
      (\<lambda>(x, st, e). phase_ret good live get (state_ok b) x st e)" for sm ns
    using set_phase overall_blocked_completed [of sm b]
    by (intro maintains_write_status [OF upd get]) auto
  then show ?thesis
    by (rule_tac maintains_bind, rule_tac maintains_ReconcileEvaluations [OF rd kind names cr])
      (auto intro!: maintain simp: phase_ret_def x)
qed

end

section \<open>The statuses of tasks\<close>

lemma maintains_conj:
  "maintains J m Q \<Longrightarrow> maintains J m R \<Longrightarrow> maintains J m (\<lambda>r. Q r \<and> R r)"
  unfolding maintains_def by (drule (1) valid_conj) (erule valid_post, simp)

text \<open>
  How the new status of an item comes about: a final one is kept; otherwise it has the state of the
  task that is recorded, as \<open>T\<close> says the server returns it by that name, or is emptied when the
  task is gone; an item without a task gets the name of the one that is created, of which \<open>C\<close> holds.
\<close>

definition follows_task ::
    "(string \<Rightarrow> error + KeptnTask \<Rightarrow> bool) \<Rightarrow> (string \<Rightarrow> bool) \<Rightarrow> ItemStatus \<Rightarrow> ItemStatus \<Rightarrow> bool" where
  "follows_task T C old new \<longleftrightarrow>
     (if is_Status old \<in> {StateSucceeded, StateFailed} then new = old
      else if is_Name old \<noteq> [] then \<exists>r. T (is_Name old) r \<and>
        (case r of
           Inl err \<Rightarrow> IsNotFound err \<and> is_Name new = [] \<and> is_Status new = StateEmpty
         | Inr task \<Rightarrow> is_Name new = is_Name old \<and> is_Status new = tst_Status (t_Status task))
      else is_Status new = is_Status old \<and> C (is_Name new))"

lemma maintains_CreateKeptnTask_name:
  assumes "ambient J cl" and "k_PhaseItem kind = Some P"
    and "\<And>t. call_keeps J (api_Create (cl_Task cl) t) (\<lambda>r. \<forall>t'. r = Inr t' \<longrightarrow> C (om_Name (t_meta t')))"
  shows "maintains J (CreateKeptnTask cl kind ctx x d ct) (\<lambda>r. \<forall>n. r = Inr n \<longrightarrow> C n)"
  unfolding CreateKeptnTask_def NewPhaseItemWrapperFromClientObject_def assms(2) option.case sum.case
    Let_def
  by (rule maintains_bind, rule maintains_on_world, rule ambientD(2) [OF assms(1)],
      rule maintains_bind, rule maintains_on_world, rule assms(3))
    (auto intro!: maintain maintains_bind [where R = any])

lemma maintains_handleTaskNotExists_name:
  assumes "item_reads J cl" and "k_PhaseItem kind = Some P"
    and "\<And>t. call_keeps J (api_Create (cl_Task cl) t) (\<lambda>r. \<forall>t'. r = Inr t' \<longrightarrow> C (om_Name (t_meta t')))"
  shows "maintains J (handleTaskNotExists cl cfg kind ctx tracer ct n pw x task st) (\<lambda>r.
    \<forall>st'. r = Inr st' \<longrightarrow> is_Status st' = is_Status st \<and> C (is_Name st'))"
  unfolding handleTaskNotExists_def GetTaskDefinition_def Let_def
  by (rule maintains_bind, rule maintains_getObject [OF item_readsD(3) [OF assms(1)]],
      rule maintains_case_sum, rule maintains_ret, simp,
      rule maintains_bind, rule maintains_CreateKeptnTask_name [where C = C, OF item_readsD(1) [OF assms(1)] assms(2,3)])
    (auto intro!: maintain maintains_bind [where R = any] maintains_Now item_readsD(1) [OF assms(1)]
        maintains_GetSpan [THEN maintains_conseq])

lemma maintains_reconcileTask_follows:
  assumes "item_reads J cl" and "k_PhaseItem kind = Some P" and "item_creates J cl"
    and create: "\<And>t. call_keeps J (api_Create (cl_Task cl) t) (\<lambda>r. \<forall>t'. r = Inr t' \<longrightarrow> C (om_Name (t_meta t')))"
    and read: "\<And>m. call_keeps J (api_Get (cl_Task cl) (pi_GetNamespace P x) m) (T m)"
  shows "maintains J (reconcileTask cl cfg kind ctx tracer ct P x statuses n) (\<lambda>r. \<forall>st. r = Inr (Some st) \<longrightarrow>
    is_DefinitionName st = n \<and> follows_task T C (GetItemStatus n statuses) st)"
proof -
  note amb = item_readsD(1) [OF assms(1)]
  let ?old = "GetItemStatus n statuses"
  let ?ok = "\<lambda>r. \<forall>st. r = Inr (Some st) \<longrightarrow> follows_task T C ?old st"
  have exists: "maintains J (do { st' \<leftarrow> handleTaskExists cl ctx tracer task st; ret (Inr (Some st')) }) ?ok"
    if "\<And>st'. is_Name st' = is_Name st \<Longrightarrow> is_Status st' = tst_Status (t_Status task) \<Longrightarrow>
      follows_task T C ?old st'" for task st
    by (rule maintains_bind, rule maintains_handleTaskExists [OF amb]) (auto intro!: maintain that)
  have recorded: "maintains J (do {
      r \<leftarrow> on_world (api_Get (cl_Task cl) (pi_GetNamespace P x) (is_Name ?old));
      case r of
        Inl err \<Rightarrow>
          if IsNotFound err then do {
            st \<leftarrow> handleTaskExists cl ctx tracer zero_KeptnTask (?old\<lparr>is_Name := []\<rparr>);
            ret (Inr (Some st))
          }
          else ret (Inl err)
      | Inr task \<Rightarrow> do { st \<leftarrow> handleTaskExists cl ctx tracer task ?old; ret (Inr (Some st)) } }) ?ok"
    if "is_Status ?old \<noteq> StateSucceeded" "is_Status ?old \<noteq> StateFailed" "is_Name ?old \<noteq> []"
  proof (rule maintains_bind, rule maintains_on_world, rule read, rule maintains_case_sum)
    fix r err
    assume r: "T (is_Name ?old) r" "r = Inl err"
    show "maintains J (if IsNotFound err then do {
        st \<leftarrow> handleTaskExists cl ctx tracer zero_KeptnTask (?old\<lparr>is_Name := []\<rparr>);
        ret (Inr (Some st)) } else ret (Inl err)) ?ok"
      using r that
      by (intro maintains_if exists maintains_ret)
        (auto simp: follows_task_def zero_KeptnTask_def zero_KeptnTaskStatus_def intro!: exI [of _ r])
  next
    fix r task
    assume r: "T (is_Name ?old) r" "r = Inr task"
    show "maintains J (do { st \<leftarrow> handleTaskExists cl ctx tracer task ?old; ret (Inr (Some st)) }) ?ok"
      using r that by (intro exists) (auto simp: follows_task_def intro!: exI [of _ r])
  qed
  have open_: "maintains J (do {
      r \<leftarrow> handleTaskNotExists cl cfg kind ctx tracer ct n P x zero_KeptnTask ?old;
      case r of Inl err \<Rightarrow> ret (Inr None) | Inr st \<Rightarrow> ret (Inr (Some st)) }) ?ok"
    if "item_open statuses n"
    by (rule maintains_bind, rule maintains_handleTaskNotExists_name [where C = C, OF assms(1,2) create])
      (use that in \<open>auto intro!: maintain simp: follows_task_def item_open_def\<close>)
  have "maintains J (reconcileTask cl cfg kind ctx tracer ct P x statuses n) ?ok"
    unfolding reconcileTask_def Let_def
    by (intro maintains_bind [where R = any] maintains_if maintains_ret recorded open_ maintains_Emit)
      (auto simp: follows_task_def item_open_def)
  moreover have "maintains J (reconcileTask cl cfg kind ctx tracer ct P x statuses n) (turn_ok n)"
    by (rule maintains_reconcileTask [OF assms(1,2,3)])
  ultimately show ?thesis
    by (rule maintains_conj [THEN maintains_conseq]) (auto simp: turn_ok_def)
qed


lemma maintains_item_loop_all:
  assumes "\<And>n. n \<in> set names \<Longrightarrow> maintains J (step n) (\<lambda>r. \<forall>st. r = Inr (Some st) \<longrightarrow> R st)"
    and "\<forall>st\<in>set acc. R st"
  shows "maintains J (item_loop step names acc) (\<lambda>r. \<forall>ns. r = Inr ns \<longrightarrow> (\<forall>st\<in>set ns. R st))"
  using assms
proof (induction names arbitrary: acc)
  case Nil
  then show ?case by (simp add: maintains_ret)
next
  case (Cons n names)
  have "maintains J (item_loop step names acc') (\<lambda>r. \<forall>ns. r = Inr ns \<longrightarrow> (\<forall>st\<in>set ns. R st))"
    if "\<forall>st\<in>set acc'. R st" for acc'
    using Cons.prems that by (intro Cons.IH) auto
  then show ?case
    using Cons.prems(2) by (auto intro!: maintains_bind [OF Cons.prems(1)] maintain)
qed

lemma maintains_ReconcileTasks_follow:
  assumes "item_reads J cl" and "k_PhaseItem kind = Some P" and "item_creates J cl"
    and "setupTasks ct P x = (tasks, statuses)"
    and "\<And>t. call_keeps J (api_Create (cl_Task cl) t) (\<lambda>r. \<forall>t'. r = Inr t' \<longrightarrow> C (om_Name (t_meta t')))"
    and "\<And>m. call_keeps J (api_Get (cl_Task cl) (pi_GetNamespace P x) m) (T m)"
  shows "maintains J (ReconcileTasks cl cfg kind ctx tracer x ct) (\<lambda>r. \<forall>ns summary.
    r = Inr (ns, summary) \<longrightarrow>
      (\<forall>st\<in>set ns. follows_task T C (GetItemStatus (is_DefinitionName st) statuses) st))"
  unfolding ReconcileTasks_def NewPhaseItemWrapperFromClientObject_def assms(2,4) option.case sum.case
    Let_def prod.case
  by (rule maintains_bind, rule maintains_item_loop_all
      [where R = "\<lambda>st. follows_task T C (GetItemStatus (is_DefinitionName st) statuses) st"],
      rule maintains_conseq, rule maintains_reconcileTask_follows [OF assms(1-3,5,6)])
    (auto intro!: maintain)

section \<open>The tasks that are created\<close>

text \<open>
  \<open>J h\<close> says of the world that tasks of the definitions \<open>h\<close> have been created, in this order: reading
  keeps it, creating a task adds its definition or fails, and a definition that is read has the name
  that was asked for.  \<open>appends\<close> bounds the definitions that a program adds.
\<close>

definition task_log :: "(string list \<Rightarrow> 'w \<Rightarrow> bool) \<Rightarrow> 'w Client \<Rightarrow> bool" where
  "task_log J cl \<longleftrightarrow>
     (\<forall>h. item_reads (J h) cl) \<and>
     (\<forall>h ns n. call_keeps (J h) (api_Get (cl_TaskDefinition cl) ns n)
        (\<lambda>r. \<forall>d. r = Inr d \<longrightarrow> om_Name (td_meta d) = n)) \<and>
     (\<forall>h t w r w'. J h w \<longrightarrow> run_state (api_Create (cl_Task cl) t) w = (r, w') \<longrightarrow>
        J (h @ [ts_TaskDefinition (t_Spec t)]) w' \<or> (\<exists>e. r = Inl e) \<and> J h w')"

lemma task_logD:
  assumes "task_log J cl"
  shows "item_reads (J h) cl"
    and "call_keeps (J h) (api_Get (cl_TaskDefinition cl) ns n) (\<lambda>r. \<forall>d. r = Inr d \<longrightarrow> om_Name (td_meta d) = n)"
    and "J h w \<Longrightarrow> run_state (api_Create (cl_Task cl) t) w = (r, w') \<Longrightarrow>
      J (h @ [ts_TaskDefinition (t_Spec t)]) w' \<or> (\<exists>e. r = Inl e) \<and> J h w'"
  using assms by (auto simp: task_log_def)

definition appends ::
    "(string list \<Rightarrow> 'w \<Rightarrow> bool) \<Rightarrow> ('w, 'a) prog \<Rightarrow> string list \<Rightarrow> ('a \<Rightarrow> bool) \<Rightarrow> bool" where
  "appends J m names Q \<longleftrightarrow> (\<forall>h s r s'. J h (env_World s) \<longrightarrow> run_state m s = (r, s') \<longrightarrow>
     Q r \<and> (\<exists>ds. subseq ds names \<and> J (h @ ds) (env_World s')))"

lemma appendsD:
  assumes "appends J m names Q" and "J h (env_World s)" and "run_state m s = (r, s')"
  shows "Q r" and "\<exists>ds. subseq ds names \<and> J (h @ ds) (env_World s')"
  using assms unfolding appends_def by blast+

lemma appends_maintains: "(\<And>h. maintains (J h) m Q) \<Longrightarrow> appends J m [] Q"
  unfolding appends_def by (metis append_Nil2 maintainsD subseq_order.order_refl)

lemma appends_more: "appends J m names Q \<Longrightarrow> subseq names names' \<Longrightarrow> appends J m names' Q"
  unfolding appends_def by (meson subseq_order.trans)

lemma appends_bind:
  assumes "appends J m as R" and "\<And>x. R x \<Longrightarrow> appends J (f x) bs Q"
  shows "appends J (State_Monad.bind m f) (as @ bs) Q"
  unfolding appends_def
proof (intro allI impI)
  fix h s r s'
  assume J: "J h (env_World s)" and run: "run_state (State_Monad.bind m f) s = (r, s')"
  obtain x t where m: "run_state m s = (x, t)" by (cases "run_state m s")
  with run have f: "run_state (f x) t = (r, s')" by simp
  from appendsD [OF assms(1) J m] obtain ds where x: "R x"
    and ds: "subseq ds as" "J (h @ ds) (env_World t)" by blast
  from appendsD [OF assms(2) [OF x] ds(2) f] obtain es where "Q r"
    and es: "subseq es bs" "J ((h @ ds) @ es) (env_World s')" by blast
  with ds(1) show "Q r \<and> (\<exists>ds. subseq ds (as @ bs) \<and> J (h @ ds) (env_World s'))"
    by (auto intro: list_emb_append_mono)
qed

lemmas appends_quiet_bind = appends_bind [where as = "[]", unfolded append_Nil]

lemma appends_CreateKeptnTask:
  assumes "task_log J cl" and "k_PhaseItem kind = Some P"
    and "\<And>i. ts_TaskDefinition (t_Spec (pi_GenerateTask P i x d ct)) = om_Name (td_meta d)"
  shows "appends J (CreateKeptnTask cl kind ctx x d ct) [om_Name (td_meta d)] any"
proof -
  note amb = task_logD(1) [OF assms(1), THEN item_readsD(1)]
  have create: "appends J (on_world (api_Create (cl_Task cl) t)) [ts_TaskDefinition (t_Spec t)] any" for t
    unfolding appends_def
  proof (intro allI impI)
    fix h s r s'
    assume J: "J h (env_World s)" and run: "run_state (on_world (api_Create (cl_Task cl) t)) s = (r, s')"
    then have w: "run_state (api_Create (cl_Task cl) t) (env_World s) = (r, env_World s')"
      by (auto simp: on_world_def split: prod.splits)
    from task_logD(3) [OF assms(1) J w]
    have "J (h @ [ts_TaskDefinition (t_Spec t)]) (env_World s') \<or> J h (env_World s')" by blast
    then show "any r \<and> (\<exists>ds. subseq ds [ts_TaskDefinition (t_Spec t)] \<and> J (h @ ds) (env_World s'))"
      by (metis append_Nil2 list_emb_Nil subseq_order.order_refl)
  qed
  have spec: "ts_TaskDefinition (t_Spec (set_task_owner cl kn owner (injectKeptnContext cl ctx t))) =
      ts_TaskDefinition (t_Spec t)" for kn owner t
    by (auto simp: set_task_owner_def injectKeptnContext_def split: sum.splits prod.splits bool.splits)
  have intn: "appends J (on_world (cl_Intn cl b)) [] any" for b
    by (intro appends_maintains maintains_on_world ambientD(2) [OF amb])
  have creating: "appends J (on_world (api_Create (cl_Task cl) (set_task_owner cl kn owner
      (injectKeptnContext cl ctx (pi_GenerateTask P i x d ct))))) [om_Name (td_meta d)] any" for kn owner i
    using create [of "set_task_owner cl kn owner (injectKeptnContext cl ctx (pi_GenerateTask P i x d ct))"]
    by (simp add: spec assms(3))
  show ?thesis
    unfolding CreateKeptnTask_def NewPhaseItemWrapperFromClientObject_def assms(2) option.case sum.case
      Let_def
    by (rule appends_quiet_bind [OF intn], rule appends_bind [OF creating, where bs = "[]", unfolded append_Nil2],
        rule appends_maintains)
      (intro maintain maintains_bind [where R = any] TrueI)
qed

lemma appends_handleTaskNotExists:
  assumes "task_log J cl" and "k_PhaseItem kind = Some P"
    and "\<And>i d. ts_TaskDefinition (t_Spec (pi_GenerateTask P i x d ct)) = om_Name (td_meta d)"
  shows "appends J (handleTaskNotExists cl cfg kind ctx tracer ct n P x task st) [n] any"
proof -
  note amb = task_logD(1) [OF assms(1), THEN item_readsD(1)]
  note get = task_logD(2) [OF assms(1)]
  have read: "maintains (J h) (getObject (cl_TaskDefinition cl) cfg n ns)
      (\<lambda>r. \<forall>d. r = Inr d \<longrightarrow> om_Name (td_meta d) = n)" for h ns
    unfolding getObject_def
    by (rule maintains_bind, rule maintains_on_world, rule get)
      (auto intro!: maintain maintains_on_world [OF get])
  have create: "appends J (do {
      r \<leftarrow> CreateKeptnTask cl kind ctx x d ct;
      case r of
        Inl err \<Rightarrow> ret (Inl err)
      | Inr taskName \<Rightarrow> do {
          now \<leftarrow> Now cl;
          _ \<leftarrow> GetSpan cl ctx tracer (Some Task_SpanItem) task [] [];
          ret (Inr (ItemStatus_SetStartTime now (st\<lparr>is_Name := taskName\<rparr>))) } }) [n] any"
    if "om_Name (td_meta d) = n" for d
    by (rule appends_bind [where bs = "[]", unfolded append_Nil2],
        rule appends_CreateKeptnTask [OF assms, where d = d, unfolded that], rule appends_maintains)
      (auto intro!: maintain maintains_bind [where R = any] maintains_Now amb
        maintains_GetSpan [THEN maintains_conseq])
  show ?thesis
    unfolding handleTaskNotExists_def GetTaskDefinition_def Let_def
    by (rule appends_quiet_bind, rule appends_maintains, rule read)
      (auto split: sum.split intro!: create appends_maintains [THEN appends_more] maintain)
qed

lemma appends_reconcileTask:
  assumes "task_log J cl" and "k_PhaseItem kind = Some P"
    and "\<And>i d. ts_TaskDefinition (t_Spec (pi_GenerateTask P i x d ct)) = om_Name (td_meta d)"
  shows "appends J (reconcileTask cl cfg kind ctx tracer ct P x statuses n)
    (filter (item_open statuses) [n]) any"
proof (cases "item_open statuses n")
  case False
  then show ?thesis
    by (auto intro!: appends_maintains maintains_conseq
        [OF maintains_reconcileTask [OF task_logD(1) [OF assms(1)] assms(2)]])
next
  case True
  then have closed: "is_Status (GetItemStatus n statuses) \<noteq> StateSucceeded"
    "is_Status (GetItemStatus n statuses) \<noteq> StateFailed" "is_Name (GetItemStatus n statuses) = []"
    by (auto simp: item_open_def)
  have emit: "appends J (if b then Emit p t e st msg v else ret ()) [] any" for b p t e st msg v
    by (intro appends_maintains maintain TrueI)
  have create: "appends J (do {
      r \<leftarrow> handleTaskNotExists cl cfg kind ctx tracer ct n P x zero_KeptnTask (GetItemStatus n statuses);
      case r of Inl err \<Rightarrow> ret (Inr None) | Inr st \<Rightarrow> ret (Inr (Some st)) }) [n] any"
    by (rule appends_bind [where bs = "[]", unfolded append_Nil2],
        rule appends_handleTaskNotExists [OF assms], rule appends_maintains) (intro maintain TrueI)
  show ?thesis
    using True closed unfolding reconcileTask_def Let_def
    by (simp add: appends_quiet_bind [OF emit create])
qed

lemma appends_item_loop:
  assumes "\<And>n. n \<in> set names \<Longrightarrow> appends J (step n) (filter p [n]) any"
  shows "appends J (item_loop step names acc) (filter p names) any"
  using assms
proof (induction names arbitrary: acc)
  case Nil
  then show ?case by (simp add: appends_maintains maintains_ret)
next
  case (Cons n names)
  have rest: "appends J (item_loop step names acc') (filter p names) any" for acc'
    using Cons.prems by (intro Cons.IH) auto
  have tail: "appends J (case r of
      Inl err \<Rightarrow> ret (Inl err)
    | Inr None \<Rightarrow> item_loop step names acc
    | Inr (Some st) \<Rightarrow> item_loop step names (acc @ [st])) (filter p names) any" for r
    by (auto split: sum.split option.split intro!: rest appends_maintains [THEN appends_more] maintain)
  have "appends J (item_loop step (n # names) acc) (filter p [n] @ filter p names) any"
    unfolding item_loop.simps by (rule appends_bind, rule Cons.prems, simp, rule tail)
  then show ?case
    by (simp split: if_splits)
qed

lemma GenerateTask_definition [simp]:
  "ts_TaskDefinition (t_Spec (pi_GenerateTask AppVersion_PhaseItem i a d ct)) = om_Name (td_meta d)"
  "ts_TaskDefinition (t_Spec (pi_GenerateTask WorkloadVersion_PhaseItem i v d ct)) = om_Name (td_meta d)"
  by (simp_all add: AppVersion_PhaseItem_def AppVersion_GenerateTask_def WorkloadVersion_PhaseItem_def
      WorkloadVersion_GenerateTask_def)

section \<open>Statements\<close>

text \<open>
  C5: When the task handler returns no error, its item statuses name a subsequence of the task
  definitions of the phase, in their order.  A status that was Succeeded or Failed is kept; one that
  records a task gets the state of the KeptnTask that the server returns by that name, or is emptied
  when the server does not find it; one that records no task keeps its state and gets the name of the
  task that is created.  The overall state of the summary is Succeeded exactly when every definition
  has a status and all of them are Succeeded, and Failed exactly when one of them failed or is
  deprecated.
\<close>

theorem ReconcileTasks_result:
  assumes "k_PhaseItem kind = Some P" and "setupTasks ct P x = (tasks, statuses)"
    and "item_reads J cl" and "item_creates J cl"
    and "\<And>n. call_keeps J (api_Get (cl_Task cl) (pi_GetNamespace P x) n) (T n)"
    and "\<And>t. call_keeps J (api_Create (cl_Task cl) t) (\<lambda>r. \<forall>t'. r = Inr t' \<longrightarrow> C (om_Name (t_meta t')))"
    and "J (env_World s)"
    and "run_state (ReconcileTasks cl cfg kind ctx tracer x ct) s = (Inr (ns, summary), s')"
  shows "subseq (map is_DefinitionName ns) tasks \<and>
    (\<forall>st\<in>set ns. follows_task T C (GetItemStatus (is_DefinitionName st) statuses) st) \<and>
    (GetOverallState summary = StateSucceeded \<longleftrightarrow>
       map is_DefinitionName ns = tasks \<and> (\<forall>st\<in>set ns. is_Status st = StateSucceeded)) \<and>
    (GetOverallState summary = StateFailed \<longleftrightarrow>
       (\<exists>st\<in>set ns. is_Status st = StateFailed \<or> is_Status st = StateDeprecated))"
proof -
  have "items_ok tasks (Inr (ns, summary))"
    using maintainsD [OF maintains_ReconcileTasks [OF assms(3,1,2,4)] assms(7,8)] by simp
  moreover have "\<forall>st\<in>set ns. follows_task T C (GetItemStatus (is_DefinitionName st) statuses) st"
    using maintainsD [OF maintains_ReconcileTasks_follow [OF assms(3,1,4,2,6,5)] assms(7,8)] by simp
  ultimately show ?thesis
    using items_ok_succeeded items_ok_failed by (auto simp: items_ok_def)
qed

text \<open>
  When the evaluation handler returns no error, its item statuses name a subsequence of the
  evaluation definitions of the phase, in their order.  The overall state of its summary is
  Succeeded exactly when every definition has a status and all of them are Succeeded, and Failed
  exactly when one of them failed or is deprecated.
\<close>

theorem ReconcileEvaluations_result:
  assumes "k_PhaseItem kind = Some P" and "setupEvaluations ct P x = (evaluations, statuses)"
    and "run_state (ReconcileEvaluations cl cfg kind ctx tracer x ct) s = (Inr (ns, summary), s')"
  shows "subseq (map is_DefinitionName ns) evaluations \<and>
    (GetOverallState summary = StateSucceeded \<longleftrightarrow>
       map is_DefinitionName ns = evaluations \<and> (\<forall>st\<in>set ns. is_Status st = StateSucceeded)) \<and>
    (GetOverallState summary = StateFailed \<longleftrightarrow>
       (\<exists>st\<in>set ns. is_Status st = StateFailed \<or> is_Status st = StateDeprecated))"
proof -
  have "items_ok evaluations (Inr (ns, summary))"
    using maintainsD [OF maintains_ReconcileEvaluations [OF item_reads_True assms(1,2) item_creates_True] _ assms(3)]
    by simp
  then show ?thesis
    using items_ok_succeeded items_ok_failed by (auto simp: items_ok_def)
qed

text \<open>
  C6: Where \<open>J h\<close> says that tasks of the definitions \<open>h\<close> have been created, a run of the task handler
  adds only definitions of the phase whose status is neither Succeeded nor Failed and records no task,
  each at most once and in their order, also when the run ends with an error: a definition that is
  recorded or final is not started again, whatever the other definitions are.  The handler makes its
  tasks by \<open>GenerateTask\<close> of the phase item, which names the definition for app versions and workload
  versions (\<open>GenerateTask_definition\<close>).
\<close>

theorem recorded_tasks_not_recreated:
  assumes "task_log J cl" and "k_PhaseItem kind = Some P" and "setupTasks ct P x = (tasks, statuses)"
    and "\<And>i d. ts_TaskDefinition (t_Spec (pi_GenerateTask P i x d ct)) = om_Name (td_meta d)"
    and "J h (env_World s)" and "run_state (ReconcileTasks cl cfg kind ctx tracer x ct) s = (r, s')"
  shows "\<exists>ds. subseq ds (filter (item_open statuses) tasks) \<and> J (h @ ds) (env_World s')"
proof -
  have "appends J (ReconcileTasks cl cfg kind ctx tracer x ct) (filter (item_open statuses) tasks) any"
    unfolding ReconcileTasks_def NewPhaseItemWrapperFromClientObject_def assms(2,3) option.case sum.case
      Let_def prod.case
    by (rule appends_bind [where bs = "[]", unfolded append_Nil2], rule appends_item_loop,
        rule appends_reconcileTask [OF assms(1,2,4)], rule appends_maintains) (auto intro!: maintain)
  from appendsD(2) [OF this assms(5,6)] show ?thesis .
qed

text \<open>
  The evaluation handler creates a KeptnEvaluation only for a definition whose status is neither
  Succeeded nor Failed and records no evaluation yet: when there is no such definition, it keeps
  every property of the world that reading keeps, so it writes nothing.
\<close>

theorem recorded_evaluations_not_recreated:
  assumes "item_reads J cl" and "k_PhaseItem kind = Some P"
    and "setupEvaluations ct P x = (evaluations, statuses)"
    and "\<And>n. n \<in> set evaluations \<Longrightarrow> \<not> item_open statuses n"
    and "J (env_World s)" and "run_state (ReconcileEvaluations cl cfg kind ctx tracer x ct) s = (r, s')"
  shows "J (env_World s')"
proof -
  have "maintains J (ReconcileEvaluations cl cfg kind ctx tracer x ct) (items_ok evaluations)"
    by (rule maintains_ReconcileEvaluations [OF assms(1-3)]) (use assms(4) in blast)
  from maintainsD [OF this assms(5,6)] show ?thesis by simp
qed

end
