(* ===== verification/Workload_Version.thy ===== *)
theory Workload_Version
  imports Items
begin

text \<open>
  The controller of KeptnWorkloadVersions (\<^verbatim>\<open>controllers/lifecycle/keptnworkloadversion\<close>): a workload
  version waits for the pre-deployment evaluations of its app, then runs its five phases in order.
\<close>

abbreviation wv_tracer :: string where
  "wv_tracer \<equiv> ''keptn/lifecycle-operator/workloadversion''"

section \<open>Looking up the app version\<close>

definition isNewer :: "KeptnAppVersion \<Rightarrow> KeptnAppVersion option \<Rightarrow> bool" where
  "isNewer app latestVersion =
     (let latest = (case latestVersion of None \<Rightarrow> 0 | Some a \<Rightarrow> om_CreationTimestamp (av_meta a)) in
      om_CreationTimestamp (av_meta app) > latest \<or> IsZero latest)"

definition workloadMatchesApp ::
    "KeptnWorkloadRef \<Rightarrow> KeptnWorkloadVersion \<Rightarrow> KeptnAppVersion \<Rightarrow> bool" where
  "workloadMatchesApp appWorkload wli app \<longleftrightarrow>
     wr_Version appWorkload = wks_Version (wvs_WorkloadSpec (wv_Spec wli)) \<and>
     GetWorkloadNameOfApp app (wr_Name appWorkload) = wvs_WorkloadName (wv_Spec wli)"

text \<open>
  The two nested loops; the accumulator is \<open>workloadFound\<close> and \<open>latestVersion\<close>, the empty
  KeptnAppVersion being \<^term>\<open>None\<close>.
\<close>

definition getLatestAppVersion ::
    "KeptnAppVersion list \<Rightarrow> KeptnWorkloadVersion \<Rightarrow> bool \<times> KeptnAppVersion option" where
  "getLatestAppVersion apps wli =
     fold (\<lambda>app acc.
       if avs_AppName (av_Spec app) = wks_AppName (wvs_WorkloadSpec (wv_Spec wli)) then
         fold (\<lambda>appWorkload (workloadFound, latestVersion).
           if workloadMatchesApp appWorkload wli app then
             (True, if isNewer app latestVersion then Some app else latestVersion)
           else (workloadFound, latestVersion))
         (as_Workloads (avs_AppSpec (av_Spec app))) acc
       else acc)
     apps (False, None)"

text \<open>
  An error, or the app version that was found; \<^term>\<open>Inr None\<close> is the result \<open>found = false\<close>, also
  given when the latest version has an empty version string.
\<close>

definition getAppVersionForWorkloadVersion ::
    "'w Client \<Rightarrow> KeptnWorkloadVersion \<Rightarrow> ('w, error + KeptnAppVersion option) prog" where
  "getAppVersionForWorkloadVersion cl wli = do {
     r \<leftarrow> on_world (api_List (cl_AppVersion cl) (om_Namespace (wv_meta wli)) []);
     case r of
       Inl err \<Rightarrow> ret (Inl err)
     | Inr items \<Rightarrow>
         (case getLatestAppVersion (RemoveDeprecated items) wli of
            (True, Some latestVersion) \<Rightarrow>
              if as_Version (avs_AppSpec (av_Spec latestVersion)) = [] then ret (Inr None)
              else ret (Inr (Some latestVersion))
          | _ \<Rightarrow> ret (Inr None))
   }"

section \<open>Waiting for the app\<close>

definition sendUnfinishedPreEvaluationEvents ::
    "KeptnState \<Rightarrow> KeptnPhaseType \<Rightarrow> KeptnWorkloadVersion \<Rightarrow> ('w, unit) prog" where
  "sendUnfinishedPreEvaluationEvents appPreEvalStatus phase workloadVersion =
     (if IsFailed appPreEvalStatus then
        Emit phase ''Warning'' (WorkloadVersion_Event workloadVersion) PhaseStateFailed
          ''has failed since app has failed'' (WorkloadVersion_GetVersion workloadVersion)
      else ret ())"

text \<open>The app's metadata is copied into the status when it differs.\<close>

definition setAppContextMetadata ::
    "'w Client \<Rightarrow> KeptnAppVersion \<Rightarrow> KeptnWorkloadVersion \<Rightarrow>
     ('w, KeptnWorkloadVersion \<times> error option) prog" where
  "setAppContextMetadata cl appVersion workloadVersion =
     (let metadata = acs_Metadata (avs_ContextSpec (av_Spec appVersion)) in
      if metadata \<noteq> wvst_AppContextMetadata (wv_Status workloadVersion) then do {
        let workloadVersion = workloadVersion\<lparr>wv_Status :=
          (wv_Status workloadVersion)\<lparr>wvst_AppContextMetadata := metadata\<rparr>\<rparr>;
        r \<leftarrow> on_world (api_StatusUpdate (cl_WorkloadVersion cl) workloadVersion);
        case r of
          Inl err \<Rightarrow> ret (workloadVersion, Some err)
        | Inr stored \<Rightarrow> ret (stored, None)
      }
      else ret (workloadVersion, None))"

text \<open>
  The trace id of the app's deployment phase, or of the app itself, is copied into the spec when
  there is none.
\<close>

definition setAppTraceId ::
    "'w Client \<Rightarrow> KeptnAppVersion \<Rightarrow> KeptnWorkloadVersion \<Rightarrow>
     ('w, KeptnWorkloadVersion \<times> error option) prog" where
  "setAppTraceId cl appVersion workloadVersion =
     (if gm_empty (wvs_TraceId (wv_Spec workloadVersion)) then do {
        let appDeploymentTraceID =
          (case gm_lookup (avst_PhaseTraceIDs (av_Status appVersion)) (ShortName PhaseAppDeployment) of
             None \<Rightarrow> None
           | Some c \<Rightarrow> c);
        let traceId = (if appDeploymentTraceID \<noteq> None then appDeploymentTraceID
          else avs_TraceId (av_Spec appVersion));
        let workloadVersion = workloadVersion\<lparr>wv_Spec :=
          (wv_Spec workloadVersion)\<lparr>wvs_TraceId := traceId\<rparr>\<rparr>;
        r \<leftarrow> on_world (api_Update (cl_WorkloadVersion cl) workloadVersion);
        case r of
          Inl err \<Rightarrow> ret (workloadVersion, Some err)
        | Inr stored \<Rightarrow> ret (stored, None)
      }
      else ret (workloadVersion, None))"

text \<open>Result: the object, whether to requeue, and an error that may be nil.\<close>

definition checkPreEvaluationStatusOfApp ::
    "'w Client \<Rightarrow> KeptnWorkloadVersion \<Rightarrow> ('w, KeptnWorkloadVersion \<times> bool \<times> error option) prog" where
  "checkPreEvaluationStatusOfApp cl workloadVersion =
     (if WorkloadVersion_GetCurrentPhase workloadVersion \<noteq> [] then ret (workloadVersion, False, None)
      else do {
        let phase = PhaseAppPreEvaluation;
        r \<leftarrow> getAppVersionForWorkloadVersion cl workloadVersion;
        case r of
          Inl err \<Rightarrow> do {
            Emit phase ''Warning'' (WorkloadVersion_Event workloadVersion) ''GetAppVersionFailed''
              ''has failed since app could not be retrieved''
              (WorkloadVersion_GetVersion workloadVersion);
            ret (workloadVersion, True, Some (Message
              (''could not fetch AppVersion for KeptnWorkloadVersion: '' @ error_string err)))
          }
        | Inr None \<Rightarrow> do {
            Emit phase ''Warning'' (WorkloadVersion_Event workloadVersion) ''AppVersionNotFound''
              ''has failed since app could not be found''
              (WorkloadVersion_GetVersion workloadVersion);
            ret (workloadVersion, True, Some ErrNoMatchingAppVersionFound)
          }
        | Inr (Some appVersion) \<Rightarrow>
            (let appPreEvalStatus = avst_PreDeploymentEvaluationStatus (av_Status appVersion) in
             if \<not> IsSucceeded appPreEvalStatus then do {
               sendUnfinishedPreEvaluationEvents appPreEvalStatus phase workloadVersion;
               ret (workloadVersion, True, None)
             }
             else do {
               (workloadVersion, err) \<leftarrow> setAppContextMetadata cl appVersion workloadVersion;
               case err of
                 Some e \<Rightarrow> ret (workloadVersion, True, Some e)
               | None \<Rightarrow> do {
                   (workloadVersion, err) \<leftarrow> setAppTraceId cl appVersion workloadVersion;
                   case err of
                     Some e \<Rightarrow> ret (workloadVersion, True, Some e)
                   | None \<Rightarrow> ret (workloadVersion, False, None)
                 }
             })
      })"

section \<open>The closures of the phases\<close>

definition WorkloadVersion_reconcilePrePostDeployment ::
    "'w Client \<Rightarrow> ControllerConfig \<Rightarrow> CheckType \<Rightarrow> Context \<Rightarrow> KeptnWorkloadVersion \<Rightarrow>
     ('w, KeptnWorkloadVersion \<times> KeptnState \<times> error option) prog" where
  "WorkloadVersion_reconcilePrePostDeployment cl cfg checkType phaseCtx workloadVersion = do {
     r \<leftarrow> ReconcileTasks cl cfg (WorkloadVersion_Kind cl) phaseCtx wv_tracer workloadVersion checkType;
     case r of
       Inl err \<Rightarrow> ret (workloadVersion, StateUnknown, Some err)
     | Inr (newStatus, state) \<Rightarrow>
         (let overallState = GetOverallStateBlockedDeployment state (GetBlockDeployment cfg);
              status = wv_Status workloadVersion;
              status =
                (if checkType = PreDeploymentCheckType then
                   status\<lparr>wvst_PreDeploymentStatus := overallState,
                     wvst_PreDeploymentTaskStatus := newStatus\<rparr>
                 else if checkType = PostDeploymentCheckType then
                   status\<lparr>wvst_PostDeploymentStatus := overallState,
                     wvst_PostDeploymentTaskStatus := newStatus\<rparr>
                 else status)
          in write_status (cl_WorkloadVersion cl) (workloadVersion\<lparr>wv_Status := status\<rparr>) overallState)
   }"

definition WorkloadVersion_reconcilePrePostEvaluation ::
    "'w Client \<Rightarrow> ControllerConfig \<Rightarrow> CheckType \<Rightarrow> Context \<Rightarrow> KeptnWorkloadVersion \<Rightarrow>
     ('w, KeptnWorkloadVersion \<times> KeptnState \<times> error option) prog" where
  "WorkloadVersion_reconcilePrePostEvaluation cl cfg checkType phaseCtx workloadVersion = do {
     r \<leftarrow> ReconcileEvaluations cl cfg (WorkloadVersion_Kind cl) phaseCtx wv_tracer workloadVersion
       checkType;
     case r of
       Inl err \<Rightarrow> ret (workloadVersion, StateUnknown, Some err)
     | Inr (newStatus, state) \<Rightarrow>
         (let overallState = GetOverallStateBlockedDeployment state (GetBlockDeployment cfg);
              status = wv_Status workloadVersion;
              status =
                (if checkType = PreDeploymentEvaluationCheckType then
                   status\<lparr>wvst_PreDeploymentEvaluationStatus := overallState,
                     wvst_PreDeploymentEvaluationTaskStatus := newStatus\<rparr>
                 else if checkType = PostDeploymentEvaluationCheckType then
                   status\<lparr>wvst_PostDeploymentEvaluationStatus := overallState,
                     wvst_PostDeploymentEvaluationTaskStatus := newStatus\<rparr>
                 else status)
          in write_status (cl_WorkloadVersion cl) (workloadVersion\<lparr>wv_Status := status\<rparr>) overallState)
   }"

subsection \<open>The deployment phase\<close>

definition isRolloutRunning :: "'w Client \<Rightarrow> string \<Rightarrow> string \<Rightarrow> ('w, error + bool) prog" where
  "isRolloutRunning cl name namespace = do {
     r \<leftarrow> on_world (api_Get (cl_Rollout cl) namespace name);
     case r of
       Inl err \<Rightarrow> ret (Inl err)
     | Inr rollout \<Rightarrow> ret (Inr (rol_Replicas rollout = rol_UpdatedReplicas rollout \<and>
         rol_Phase rollout = ''Healthy''))
   }"

definition isReplicaSetRunning ::
    "'w Client \<Rightarrow> ResourceReference \<Rightarrow> string \<Rightarrow> ('w, error + bool) prog" where
  "isReplicaSetRunning cl resource namespace = do {
     r \<leftarrow> on_world (api_Get (cl_ReplicaSet cl) namespace (rr_Name resource));
     case r of
       Inl err \<Rightarrow> ret (Inl err)
     | Inr rep \<Rightarrow>
         (case find (\<lambda>ownerRef. or_Kind ownerRef = ''Rollout'') (om_OwnerReferences (repl_meta rep)) of
            Some ownerRef \<Rightarrow> isRolloutRunning cl (or_Name ownerRef) namespace
          | None \<Rightarrow> ret (Inr (repl_Replicas rep = repl_AvailableReplicas rep)))
   }"

definition isDaemonSetRunning ::
    "'w Client \<Rightarrow> ResourceReference \<Rightarrow> string \<Rightarrow> ('w, error + bool) prog" where
  "isDaemonSetRunning cl resource namespace = do {
     r \<leftarrow> on_world (api_Get (cl_DaemonSet cl) namespace (rr_Name resource));
     case r of
       Inl err \<Rightarrow> ret (Inl err)
     | Inr daemonSet \<Rightarrow> ret (Inr (dms_DesiredNumberScheduled daemonSet = dms_NumberReady daemonSet))
   }"

definition isStatefulSetRunning ::
    "'w Client \<Rightarrow> ResourceReference \<Rightarrow> string \<Rightarrow> ('w, error + bool) prog" where
  "isStatefulSetRunning cl resource namespace = do {
     r \<leftarrow> on_world (api_Get (cl_StatefulSet cl) namespace (rr_Name resource));
     case r of
       Inl err \<Rightarrow> ret (Inl err)
     | Inr sts \<Rightarrow> ret (Inr (sts_Replicas sts = sts_AvailableReplicas sts))
   }"

definition isDeploymentTimedOut :: "ControllerConfig \<Rightarrow> time \<Rightarrow> KeptnWorkloadVersion \<Rightarrow> bool" where
  "isDeploymentTimedOut cfg currentTime workloadVersion =
     (if \<not> IsDeploymentStartTimeSet workloadVersion then False
      else
        (let deploymentDeadline = wvst_DeploymentStartTime (wv_Status workloadVersion) +
               GetObservabilityTimeout cfg
         in currentTime > deploymentDeadline))"

definition isWorkloadRunning ::
    "'w Client \<Rightarrow> KeptnWorkloadVersion \<Rightarrow> ('w, error + bool) prog" where
  "isWorkloadRunning cl workloadVersion =
     (let resource = wks_ResourceReference (wvs_WorkloadSpec (wv_Spec workloadVersion));
          namespace = om_Namespace (wv_meta workloadVersion) in
      if rr_Kind resource = ''ReplicaSet'' then isReplicaSetRunning cl resource namespace
      else if rr_Kind resource = ''StatefulSet'' then isStatefulSetRunning cl resource namespace
      else if rr_Kind resource = ''DaemonSet'' then isDaemonSetRunning cl resource namespace
      else ret (Inl ErrUnsupportedWorkloadVersionResourceReference))"

definition reconcileDeployment ::
    "'w Client \<Rightarrow> ControllerConfig \<Rightarrow> KeptnWorkloadVersion \<Rightarrow>
     ('w, KeptnWorkloadVersion \<times> KeptnState \<times> error option) prog" where
  "reconcileDeployment cl cfg workloadVersion = do {
     now \<leftarrow> Now cl;
     if isDeploymentTimedOut cfg now workloadVersion then do {
       let workloadVersion = workloadVersion\<lparr>wv_Status :=
         (wv_Status workloadVersion)\<lparr>wvst_DeploymentStatus := StateFailed\<rparr>\<rparr>;
       r \<leftarrow> on_world (api_StatusUpdate (cl_WorkloadVersion cl) workloadVersion);
       case r of
         Inl err \<Rightarrow> ret (workloadVersion, StateUnknown, Some err)
       | Inr workloadVersion \<Rightarrow> do {
           Emit PhaseWorkloadDeployment ''Warning'' (WorkloadVersion_Event workloadVersion)
             PhaseStateFinished ''has reached timeout'' (WorkloadVersion_GetVersion workloadVersion);
           ret (workloadVersion, wvst_DeploymentStatus (wv_Status workloadVersion), None)
         }
     }
     else do {
       r \<leftarrow> isWorkloadRunning cl workloadVersion;
       case r of
         Inl err \<Rightarrow> ret (workloadVersion, StateUnknown, Some err)
       | Inr isRunning \<Rightarrow> do {
           now \<leftarrow> Now cl;
           let workloadVersion =
             (if \<not> IsDeploymentStartTimeSet workloadVersion then
                (let workloadVersion = SetDeploymentStartTime now workloadVersion in
                 workloadVersion\<lparr>wv_Status :=
                   (wv_Status workloadVersion)\<lparr>wvst_DeploymentStatus := StateProgressing\<rparr>\<rparr>)
              else workloadVersion);
           let workloadVersion =
             (if isRunning then
                workloadVersion\<lparr>wv_Status :=
                  (wv_Status workloadVersion)\<lparr>wvst_DeploymentStatus := StateSucceeded\<rparr>\<rparr>
              else workloadVersion);
           r \<leftarrow> on_world (api_StatusUpdate (cl_WorkloadVersion cl) workloadVersion);
           case r of
             Inl err \<Rightarrow> ret (workloadVersion, StateUnknown, Some err)
           | Inr workloadVersion \<Rightarrow>
               ret (workloadVersion, wvst_DeploymentStatus (wv_Status workloadVersion), None)
         }
     }
   }"

section \<open>The phases in order\<close>

definition doPreDeploymentTaskPhase ::
    "'w Client \<Rightarrow> ControllerConfig \<Rightarrow> KeptnWorkloadVersion \<Rightarrow> Context \<Rightarrow>
     ('w, KeptnWorkloadVersion \<times> PhaseResult \<times> error option) prog" where
  "doPreDeploymentTaskPhase cl cfg workloadVersion ctxWorkloadTrace =
     (if \<not> WorkloadVersion_IsPreDeploymentSucceeded workloadVersion (GetBlockDeployment cfg) then
        HandlePhase cl (WorkloadVersion_Kind cl) ctxWorkloadTrace wv_tracer workloadVersion
          PhaseWorkloadPreDeployment
          (WorkloadVersion_reconcilePrePostDeployment cl cfg PreDeploymentCheckType)
      else ret (workloadVersion, \<lparr>Continue = True, pr_Result = no_requeue\<rparr>, None))"

definition doPreDeploymentEvaluationPhase ::
    "'w Client \<Rightarrow> ControllerConfig \<Rightarrow> KeptnWorkloadVersion \<Rightarrow> Context \<Rightarrow>
     ('w, KeptnWorkloadVersion \<times> PhaseResult \<times> error option) prog" where
  "doPreDeploymentEvaluationPhase cl cfg workloadVersion ctxWorkloadTrace =
     (if \<not> WorkloadVersion_IsPreDeploymentEvaluationSucceeded workloadVersion (GetBlockDeployment cfg) then
        HandlePhase cl (WorkloadVersion_Kind cl) ctxWorkloadTrace wv_tracer workloadVersion
          PhaseWorkloadPreEvaluation
          (WorkloadVersion_reconcilePrePostEvaluation cl cfg PreDeploymentEvaluationCheckType)
      else ret (workloadVersion, \<lparr>Continue = True, pr_Result = no_requeue\<rparr>, None))"

definition doDeploymentPhase ::
    "'w Client \<Rightarrow> ControllerConfig \<Rightarrow> KeptnWorkloadVersion \<Rightarrow> Context \<Rightarrow>
     ('w, KeptnWorkloadVersion \<times> PhaseResult \<times> error option) prog" where
  "doDeploymentPhase cl cfg workloadVersion ctxWorkloadTrace =
     (if \<not> WorkloadVersion_IsDeploymentSucceeded workloadVersion then
        HandlePhase cl (WorkloadVersion_Kind cl) ctxWorkloadTrace wv_tracer workloadVersion
          PhaseWorkloadDeployment
          (\<lambda>phaseCtx. reconcileDeployment cl cfg)
      else ret (workloadVersion, \<lparr>Continue = True, pr_Result = no_requeue\<rparr>, None))"

definition doPostDeploymentTaskPhase ::
    "'w Client \<Rightarrow> ControllerConfig \<Rightarrow> KeptnWorkloadVersion \<Rightarrow> Context \<Rightarrow>
     ('w, KeptnWorkloadVersion \<times> PhaseResult \<times> error option) prog" where
  "doPostDeploymentTaskPhase cl cfg workloadVersion ctxWorkloadTrace =
     (if \<not> WorkloadVersion_IsPostDeploymentSucceeded workloadVersion (GetBlockDeployment cfg) then
        HandlePhase cl (WorkloadVersion_Kind cl) ctxWorkloadTrace wv_tracer workloadVersion
          PhaseWorkloadPostDeployment
          (WorkloadVersion_reconcilePrePostDeployment cl cfg PostDeploymentCheckType)
      else ret (workloadVersion, \<lparr>Continue = True, pr_Result = no_requeue\<rparr>, None))"

definition doPostDeploymentEvaluationPhase ::
    "'w Client \<Rightarrow> ControllerConfig \<Rightarrow> KeptnWorkloadVersion \<Rightarrow> Context \<Rightarrow>
     ('w, KeptnWorkloadVersion \<times> PhaseResult \<times> error option) prog" where
  "doPostDeploymentEvaluationPhase cl cfg workloadVersion ctxWorkloadTrace =
     (if \<not> WorkloadVersion_IsPostDeploymentEvaluationSucceeded workloadVersion (GetBlockDeployment cfg) then
        HandlePhase cl (WorkloadVersion_Kind cl) ctxWorkloadTrace wv_tracer workloadVersion
          PhaseWorkloadPostEvaluation
          (WorkloadVersion_reconcilePrePostEvaluation cl cfg PostDeploymentEvaluationCheckType)
      else ret (workloadVersion, \<lparr>Continue = True, pr_Result = no_requeue\<rparr>, None))"

definition closeFailedWorkloadVersionSpan :: "KeptnWorkloadVersion \<Rightarrow> Span \<Rightarrow> ('w, unit) prog" where
  "closeFailedWorkloadVersionSpan workloadVersion spanWorkloadTrace =
     (if wvst_Status (wv_Status workloadVersion) \<noteq> StateFailed then ret ()
      else do {
        span_call spanWorkloadTrace (AddEvent (om_Name (wv_meta workloadVersion) @ '' has failed'') None);
        span_call spanWorkloadTrace (SetStatus CodeError ''Failed'');
        span_call spanWorkloadTrace SpanEnd;
        _ \<leftarrow> UnbindSpan (Some WorkloadVersion_SpanItem) workloadVersion [];
        Emit PhaseWorkloadCompleted ''Warning'' (WorkloadVersion_Event workloadVersion)
          PhaseStateFailed ''has failed'' (WorkloadVersion_GetVersion workloadVersion)
      })"

definition finishKeptnWorkloadVersionReconcile ::
    "'w Client \<Rightarrow> KeptnWorkloadVersion \<Rightarrow> Span \<Rightarrow> ('w, KeptnWorkloadVersion \<times> outcome) prog" where
  "finishKeptnWorkloadVersionReconcile cl workloadVersion spanWorkloadTrace = do {
     now \<leftarrow> Now cl;
     let workloadVersion =
       (if \<not> WorkloadVersion_IsEndTimeSet workloadVersion then
          WorkloadVersion_SetEndTime now (workloadVersion\<lparr>wv_Status := (wv_Status workloadVersion)
            \<lparr>wvst_CurrentPhase := ShortName PhaseCompleted, wvst_Status := StateSucceeded\<rparr>\<rparr>)
        else workloadVersion);
     r \<leftarrow> on_world (api_StatusUpdate (cl_WorkloadVersion cl) workloadVersion);
     case r of
       Inl err \<Rightarrow> ret (workloadVersion, requeue_now, Some err)
     | Inr workloadVersion \<Rightarrow> do {
         Emit PhaseWorkloadCompleted ''Normal'' (WorkloadVersion_Event workloadVersion)
           PhaseStateFinished ''has finished'' (WorkloadVersion_GetVersion workloadVersion);
         let attrs = WorkloadVersion_GetMetricsAttributes workloadVersion;
         let duration = time_sub (wvst_EndTime (wv_Status workloadVersion))
           (wvst_StartTime (wv_Status workloadVersion));
         meter_call (HistogramRecord ''keptn.deployment.duration'' duration attrs);
         span_call spanWorkloadTrace
           (AddEvent (om_Name (wv_meta workloadVersion) @ '' has finished'') None);
         span_call spanWorkloadTrace (SetStatus CodeOk ''Finished'');
         span_call spanWorkloadTrace SpanEnd;
         _ \<leftarrow> UnbindSpan (Some WorkloadVersion_SpanItem) workloadVersion [];
         ret (workloadVersion, no_requeue, None)
       }
   }"

text \<open>The function that \<^verbatim>\<open>getCompletionFunc\<close> returns; the start time is set by its caller below.\<close>

definition wv_completionFunc :: "KeptnWorkloadVersion \<Rightarrow> ('w, unit) prog" where
  "wv_completionFunc workloadVersion =
     (if WorkloadVersion_IsEndTimeSet workloadVersion then
        meter_call (CounterAdd ''keptn.deployment.count'' 1
          (WorkloadVersion_GetMetricsAttributes workloadVersion))
      else ret ())"

text \<open>From the first phase to the last: a phase that does not continue ends the reconciliation.\<close>

definition wv_continue ::
    "(KeptnWorkloadVersion \<Rightarrow> ('w, KeptnWorkloadVersion \<times> PhaseResult \<times> error option) prog) \<Rightarrow>
     (KeptnWorkloadVersion \<Rightarrow> ('w, KeptnWorkloadVersion \<times> outcome) prog) \<Rightarrow>
     KeptnWorkloadVersion \<Rightarrow> ('w, KeptnWorkloadVersion \<times> outcome) prog" where
  "wv_continue phase next workloadVersion = do {
     (workloadVersion, result, err) \<leftarrow> phase workloadVersion;
     if \<not> Continue result then ret (workloadVersion, pr_Result result, err)
     else next workloadVersion
   }"

definition wv_phases ::
    "'w Client \<Rightarrow> ControllerConfig \<Rightarrow> Context \<Rightarrow> Span \<Rightarrow> KeptnWorkloadVersion \<Rightarrow>
     ('w, KeptnWorkloadVersion \<times> outcome) prog" where
  "wv_phases cl cfg ctxWorkloadTrace spanWorkloadTrace =
     wv_continue (\<lambda>w. doPreDeploymentTaskPhase cl cfg w ctxWorkloadTrace)
       (wv_continue (\<lambda>w. doPreDeploymentEvaluationPhase cl cfg w ctxWorkloadTrace)
         (wv_continue (\<lambda>w. doDeploymentPhase cl cfg w ctxWorkloadTrace)
           (wv_continue (\<lambda>w. doPostDeploymentTaskPhase cl cfg w ctxWorkloadTrace)
             (wv_continue (\<lambda>w. doPostDeploymentEvaluationPhase cl cfg w ctxWorkloadTrace)
               (\<lambda>w. finishKeptnWorkloadVersionReconcile cl w spanWorkloadTrace)))))"

definition wv_trace_context :: "'w Client \<Rightarrow> KeptnWorkloadVersion \<Rightarrow> Context" where
  "wv_trace_context cl workloadVersion =
     WithAppMetadata (cl_Extract cl context_TODO (wvs_TraceId (wv_Spec workloadVersion)))
       [controllercommon_MergeMaps (wvst_AppContextMetadata (wv_Status workloadVersion))
          (wks_Metadata (wvs_WorkloadSpec (wv_Spec workloadVersion)))]"

definition WorkloadVersion_Reconcile ::
    "'w Client \<Rightarrow> ControllerConfig \<Rightarrow> Request \<Rightarrow> ('w, outcome) prog" where
  "WorkloadVersion_Reconcile cl cfg req = do {
     r \<leftarrow> on_world (api_Get (cl_WorkloadVersion cl) (req_Namespace req) (req_Name req));
     case r of
       Inl err \<Rightarrow>
         if IsNotFound err then ret (no_requeue, None)
         else ret (no_requeue, Some (Wrapped ''could not retrieve KeptnWorkloadVersion: '' err))
     | Inr workloadVersion \<Rightarrow> do {
         now \<leftarrow> Now cl;
         let workloadVersion = WorkloadVersion_SetStartTime now workloadVersion;
         (workloadVersion, requeue, err) \<leftarrow> checkPreEvaluationStatusOfApp cl workloadVersion;
         if requeue then do {
           wv_completionFunc workloadVersion;
           ret (requeue_after 10, IgnoreReferencedResourceNotFound err)
         }
         else do {
           let ctxAppTrace = wv_trace_context cl workloadVersion;
           (workloadVersion, r) \<leftarrow>
             GetSpan cl ctxAppTrace wv_tracer (Some WorkloadVersion_SpanItem) workloadVersion [] [];
           let (ctxWorkloadTrace, spanWorkloadTrace) = span_or_nil ctxAppTrace r;
           (if wvst_CurrentPhase (wv_Status workloadVersion) = [] then do {
              now \<leftarrow> Now cl;
              span_call spanWorkloadTrace
                (AddEvent ''WorkloadVersion Pre-Deployment Tasks started'' (Some now))
            }
            else ret ());
           (workloadVersion, out) \<leftarrow>
             wv_phases cl cfg ctxWorkloadTrace spanWorkloadTrace workloadVersion;
           closeFailedWorkloadVersionSpan workloadVersion spanWorkloadTrace;
           wv_completionFunc workloadVersion;
           ret out
         }
       }
   }"

section \<open>The order of the phases\<close>

subsection \<open>The invariant\<close>

definition wv_inv :: "bool \<Rightarrow> KeptnWorkloadVersion \<Rightarrow> bool" where
  "wv_inv b w \<longleftrightarrow> (let s = wv_Status w in
     (begun (wvst_PreDeploymentEvaluationStatus s) \<or> wvst_PreDeploymentEvaluationTaskStatus s \<noteq> [] \<longrightarrow>
        state_ok b (wvst_PreDeploymentStatus s)) \<and>
     (begun (wvst_DeploymentStatus s) \<or> wvst_DeploymentStartTime s \<noteq> 0 \<longrightarrow>
        state_ok b (wvst_PreDeploymentEvaluationStatus s)) \<and>
     (begun (wvst_PostDeploymentStatus s) \<or> wvst_PostDeploymentTaskStatus s \<noteq> [] \<longrightarrow>
        wvst_DeploymentStatus s = StateSucceeded) \<and>
     (begun (wvst_PostDeploymentEvaluationStatus s) \<or>
      wvst_PostDeploymentEvaluationTaskStatus s \<noteq> [] \<longrightarrow>
        state_ok b (wvst_PostDeploymentStatus s)) \<and>
     (wvst_Status s = StateSucceeded \<longrightarrow> state_ok b (wvst_PostDeploymentEvaluationStatus s)) \<and>
     (wvst_DeploymentStatus s \<in> {StateDeprecated, StateWarning} \<longrightarrow>
        wvst_Status s \<in> {StateFailed, StateDeprecated}))"

definition wv_live :: "KeptnWorkloadVersion \<Rightarrow> bool" where
  "wv_live w \<longleftrightarrow> wvst_DeploymentStatus (wv_Status w) \<notin> {StateDeprecated, StateWarning}"

text \<open>
  What the API server stores of a written status: the schema gives every state field the default
  Pending where it is empty.
\<close>

definition default_wv_status :: "KeptnWorkloadVersionStatus \<Rightarrow> KeptnWorkloadVersionStatus" where
  "default_wv_status s = s
     \<lparr>wvst_PreDeploymentStatus := default_state (wvst_PreDeploymentStatus s),
      wvst_DeploymentStatus := default_state (wvst_DeploymentStatus s),
      wvst_PreDeploymentEvaluationStatus := default_state (wvst_PreDeploymentEvaluationStatus s),
      wvst_PostDeploymentEvaluationStatus := default_state (wvst_PostDeploymentEvaluationStatus s),
      wvst_PostDeploymentStatus := default_state (wvst_PostDeploymentStatus s),
      wvst_PreDeploymentTaskStatus := map default_item (wvst_PreDeploymentTaskStatus s),
      wvst_PostDeploymentTaskStatus := map default_item (wvst_PostDeploymentTaskStatus s),
      wvst_PreDeploymentEvaluationTaskStatus :=
        map default_item (wvst_PreDeploymentEvaluationTaskStatus s),
      wvst_PostDeploymentEvaluationTaskStatus :=
        map default_item (wvst_PostDeploymentEvaluationTaskStatus s),
      wvst_Status := default_state (wvst_Status s)\<rparr>"

definition wv_stored :: "KeptnWorkloadVersion \<Rightarrow> KeptnWorkloadVersion \<Rightarrow> bool" where
  "wv_stored y z \<longleftrightarrow> wv_Status z = default_wv_status (wv_Status y)"

lemma wv_inv_stored: "wv_stored y z \<Longrightarrow> wv_inv b z = wv_inv b y"
  by (simp add: wv_inv_def wv_stored_def default_wv_status_def Let_def)

lemma wv_live_stored: "wv_stored y z \<Longrightarrow> wv_live z = wv_live y"
  by (simp add: wv_live_def wv_stored_def default_wv_status_def)

text \<open>The invariant makes every passed phase imply all earlier ones.\<close>

definition wv_all_ok :: "bool \<Rightarrow> KeptnWorkloadVersion \<Rightarrow> bool" where
  "wv_all_ok b w \<longleftrightarrow> (let s = wv_Status w in
     state_ok b (wvst_PreDeploymentStatus s) \<and> state_ok b (wvst_PreDeploymentEvaluationStatus s) \<and>
     wvst_DeploymentStatus s = StateSucceeded \<and> state_ok b (wvst_PostDeploymentStatus s) \<and>
     state_ok b (wvst_PostDeploymentEvaluationStatus s))"

lemma wv_inv_all_ok:
  assumes "wv_inv b w" and "state_ok b (wvst_PostDeploymentEvaluationStatus (wv_Status w))"
  shows "wv_all_ok b w"
proof -
  have "begun StateSucceeded" by (simp add: begun_def)
  with assms begun_ok show ?thesis
    unfolding wv_inv_def wv_all_ok_def Let_def by metis
qed

subsection \<open>What a phase does to it\<close>

text \<open>
  The laws of the API server for workload versions, under an invariant \<open>J\<close> of the world: reads give
  objects within the phase order, writing such an object is stored as written, and a write of the
  spec gives back a stored object.
\<close>

definition wv_server :: "('w \<Rightarrow> bool) \<Rightarrow> 'w Client \<Rightarrow> bool \<Rightarrow> bool" where
  "wv_server J cl b \<longleftrightarrow>
     item_reads J cl \<and> item_creates J cl \<and>
     reads J (cl_AppVersion cl) any \<and> reads J (cl_ReplicaSet cl) any \<and>
     reads J (cl_StatefulSet cl) any \<and> reads J (cl_DaemonSet cl) any \<and> reads J (cl_Rollout cl) any \<and>
     reads J (cl_WorkloadVersion cl) (wv_inv b) \<and>
     writes J (api_StatusUpdate (cl_WorkloadVersion cl)) (wv_inv b) wv_stored \<and>
     writes J (api_Update (cl_WorkloadVersion cl)) (wv_inv b) (\<lambda>y. wv_inv b)"

lemma wv_serverD:
  assumes "wv_server J cl b"
  shows "item_reads J cl" "item_creates J cl" "ambient J cl"
    "reads J (cl_AppVersion cl) any" "reads J (cl_ReplicaSet cl) any"
    "reads J (cl_StatefulSet cl) any" "reads J (cl_DaemonSet cl) any" "reads J (cl_Rollout cl) any"
    "reads J (cl_WorkloadVersion cl) (wv_inv b)"
    "writes J (api_StatusUpdate (cl_WorkloadVersion cl)) (wv_inv b) wv_stored"
    "writes J (api_Update (cl_WorkloadVersion cl)) (wv_inv b) (\<lambda>y. wv_inv b)"
  using assms by (auto simp: wv_server_def item_reads_def)

text \<open>Beginning a phase changes neither a phase state nor a recorded item.\<close>

lemma wv_begun_status:
  assumes "phase_begun WorkloadVersion_PhaseItem WorkloadVersion_SpanItem phase w w1"
  shows "\<exists>p t. wv_Status w1 = (wv_Status w)\<lparr>wvst_CurrentPhase := p, wvst_PhaseTraceIDs := t\<rparr>"
proof -
  let ?w0 = "if wvst_CurrentPhase (wv_Status w) \<noteq> ShortName phase
    then WorkloadVersion_SetCurrentPhase (ShortName phase) w else w"
  have w0: "wv_Status ?w0 = (wv_Status w)\<lparr>wvst_CurrentPhase := ShortName phase\<rparr>"
    by (auto simp: WorkloadVersion_SetCurrentPhase_def)
  from assms consider "w1 = ?w0" | c where "w1 = WorkloadVersion_SetPhaseTraceID (ShortName phase) c ?w0"
    unfolding phase_begun_def trace_variant_def
    by (auto simp: WorkloadVersion_PhaseItem_def WorkloadVersion_SpanItem_def
        WorkloadVersion_GetCurrentPhase_def split: if_splits)
  then show ?thesis
  proof cases
    case 1
    then have "wv_Status w1 = (wv_Status w)\<lparr>wvst_CurrentPhase := ShortName phase,
        wvst_PhaseTraceIDs := wvst_PhaseTraceIDs (wv_Status w)\<rparr>"
      by (simp only: w0) simp
    then show ?thesis by blast
  next
    case (2 c)
    then have "\<exists>t. wv_Status w1 = (wv_Status ?w0)\<lparr>wvst_PhaseTraceIDs := t\<rparr>"
      by (simp only: WorkloadVersion_SetPhaseTraceID_def) auto
    then show ?thesis by (auto simp only: w0)
  qed
qed

lemma wv_begun_inv:
  assumes "phase_begun WorkloadVersion_PhaseItem WorkloadVersion_SpanItem phase w w1"
  shows "wv_inv b w1 = wv_inv b w" "wv_live w1 = wv_live w"
    "wvst_PreDeploymentStatus (wv_Status w1) = wvst_PreDeploymentStatus (wv_Status w)"
    "wvst_PreDeploymentEvaluationStatus (wv_Status w1) =
       wvst_PreDeploymentEvaluationStatus (wv_Status w)"
    "wvst_DeploymentStatus (wv_Status w1) = wvst_DeploymentStatus (wv_Status w)"
    "wvst_PostDeploymentStatus (wv_Status w1) = wvst_PostDeploymentStatus (wv_Status w)"
    "wvst_PostDeploymentEvaluationStatus (wv_Status w1) =
       wvst_PostDeploymentEvaluationStatus (wv_Status w)"
    "wvst_Status (wv_Status w1) = wvst_Status (wv_Status w)"
  by (use wv_begun_status [OF assms] in \<open>elim exE, simp add: wv_inv_def wv_live_def Let_def\<close>)+

lemma wv_live_inv:
  "wv_inv b w \<Longrightarrow> \<not> shouldAbortPhase (pi_GetState WorkloadVersion_PhaseItem w) \<Longrightarrow> wv_live w"
  by (auto simp: wv_inv_def wv_live_def shouldAbortPhase_def WorkloadVersion_PhaseItem_def
      WorkloadVersion_GetState_def Let_def)

lemma wv_progress:
  "wv_inv b x \<Longrightarrow> wv_live x \<Longrightarrow> wv_inv b (pi_SetState WorkloadVersion_PhaseItem StateProgressing x)"
  by (simp add: wv_inv_def wv_live_def WorkloadVersion_PhaseItem_def WorkloadVersion_SetState_def
      Let_def)

lemma WorkloadVersion_Kind_simps [simp]:
  "k_PhaseItem (WorkloadVersion_Kind cl) = Some WorkloadVersion_PhaseItem"
  "k_SpanItem (WorkloadVersion_Kind cl) = Some WorkloadVersion_SpanItem"
  "k_api (WorkloadVersion_Kind cl) = cl_WorkloadVersion cl"
  by (simp_all add: WorkloadVersion_Kind_def)

interpretation wo: phased WorkloadVersion_PhaseItem WorkloadVersion_SpanItem
  "wv_inv b" wv_live wv_stored for b
  by unfold_locales
    (auto simp: wv_inv_stored wv_live_stored wv_begun_inv wv_progress intro: wv_live_inv)

lemma defaulted_fields:
  "wo.defaulted (\<lambda>w. wvst_PreDeploymentStatus (wv_Status w))"
  "wo.defaulted (\<lambda>w. wvst_PreDeploymentEvaluationStatus (wv_Status w))"
  "wo.defaulted (\<lambda>w. wvst_DeploymentStatus (wv_Status w))"
  "wo.defaulted (\<lambda>w. wvst_PostDeploymentStatus (wv_Status w))"
  "wo.defaulted (\<lambda>w. wvst_PostDeploymentEvaluationStatus (wv_Status w))"
  by (simp_all add: wo.defaulted_def wv_stored_def default_wv_status_def)

lemmas maintains_wv_phase = wo.maintains_phase
  [where kind = "WorkloadVersion_Kind cl" for cl, OF WorkloadVersion_Kind_simps(1,2),
   unfolded WorkloadVersion_Kind_simps]

lemma maintains_wv_tasks:
  assumes srv: "wv_server J cl b" and cfg: "GetBlockDeployment cfg = b"
    and get: "wo.defaulted get"
    and inv: "\<And>st ns. wv_inv b (set_phase st ns w) \<and> wv_live (set_phase st ns w) \<and>
      get (set_phase st ns w) = st"
    and live: "wv_inv b w" "wv_live w"
    and ct: "\<And>st ns. w\<lparr>wv_Status := (if ct = PreDeploymentCheckType then
         (wv_Status w)\<lparr>wvst_PreDeploymentStatus := st, wvst_PreDeploymentTaskStatus := ns\<rparr>
       else if ct = PostDeploymentCheckType then
         (wv_Status w)\<lparr>wvst_PostDeploymentStatus := st, wvst_PostDeploymentTaskStatus := ns\<rparr>
       else wv_Status w)\<rparr> = set_phase st ns w"
  shows "maintains J (WorkloadVersion_reconcilePrePostDeployment cl cfg ct ctx w)
    (\<lambda>(x, st, e). phase_ret (wv_inv b) wv_live get (state_ok b) x st e)"
  unfolding WorkloadVersion_reconcilePrePostDeployment_def Let_def ct cfg
  by (rule wo.maintains_task_phase [OF wv_serverD(1,2) [OF srv] WorkloadVersion_Kind_simps(1)
        wv_serverD(10) [OF srv] get live inv])

lemma maintains_wv_evaluations:
  assumes srv: "wv_server J cl b" and cfg: "GetBlockDeployment cfg = b"
    and get: "wo.defaulted get"
    and inv: "\<And>st ns. wv_inv b (set_phase st ns w) \<and> wv_live (set_phase st ns w) \<and>
      get (set_phase st ns w) = st"
    and live: "wv_inv b w" "wv_live w"
    and ct: "\<And>st ns. w\<lparr>wv_Status := (if ct = PreDeploymentEvaluationCheckType then
         (wv_Status w)\<lparr>wvst_PreDeploymentEvaluationStatus := st,
           wvst_PreDeploymentEvaluationTaskStatus := ns\<rparr>
       else if ct = PostDeploymentEvaluationCheckType then
         (wv_Status w)\<lparr>wvst_PostDeploymentEvaluationStatus := st,
           wvst_PostDeploymentEvaluationTaskStatus := ns\<rparr>
       else wv_Status w)\<rparr> = set_phase st ns w"
  shows "maintains J (WorkloadVersion_reconcilePrePostEvaluation cl cfg ct ctx w)
    (\<lambda>(x, st, e). phase_ret (wv_inv b) wv_live get (state_ok b) x st e)"
  unfolding WorkloadVersion_reconcilePrePostEvaluation_def Let_def ct cfg
  by (rule wo.maintains_evaluation_phase [OF wv_serverD(1,2) [OF srv] WorkloadVersion_Kind_simps(1)
        wv_serverD(10) [OF srv] get live inv])

lemma maintains_isRolloutRunning:
  "reads J (cl_Rollout cl) any \<Longrightarrow> maintains J (isRolloutRunning cl n ns) any"
  unfolding isRolloutRunning_def
  by (intro maintain maintains_bind [where R = any] maintains_api_Get) simp_all

lemma maintains_isWorkloadRunning:
  assumes "wv_server J cl b"
  shows "maintains J (isWorkloadRunning cl w) any"
  unfolding isWorkloadRunning_def Let_def isReplicaSetRunning_def isStatefulSetRunning_def
    isDaemonSetRunning_def
  by (intro maintains_if maintains_ret maintains_bind [where R = any] maintains_case_sum
      maintains_case_option maintains_api_Get [OF wv_serverD(5) [OF assms]]
      maintains_api_Get [OF wv_serverD(6) [OF assms]] maintains_api_Get [OF wv_serverD(7) [OF assms]]
      maintains_isRolloutRunning wv_serverD(8) [OF assms]) simp_all

lemma maintains_reconcileDeployment:
  assumes srv: "wv_server J cl b"
    and inv: "\<And>st t. st \<in> {StateProgressing, StateSucceeded, StateFailed} \<Longrightarrow>
      wv_inv b (w\<lparr>wv_Status := (wv_Status w)\<lparr>wvst_DeploymentStatus := st\<rparr>\<rparr>) \<and>
      wv_inv b (w\<lparr>wv_Status := (wv_Status w)
        \<lparr>wvst_DeploymentStartTime := t, wvst_DeploymentStatus := st\<rparr>\<rparr>)"
    and live: "wv_inv b w" "wv_live w"
  shows "maintains J (reconcileDeployment cl cfg w)
    (\<lambda>(x, st, e). phase_ret (wv_inv b) wv_live (\<lambda>w. wvst_DeploymentStatus (wv_Status w)) (\<lambda>k. k = StateSucceeded) x st e)"
proof -
  let ?Q = "\<lambda>(x, st, e). phase_ret (wv_inv b) wv_live (\<lambda>w. wvst_DeploymentStatus (wv_Status w)) (\<lambda>k. k = StateSucceeded) x st e"
  have ret: "phase_ret (wv_inv b) wv_live (\<lambda>w. wvst_DeploymentStatus (wv_Status w)) (\<lambda>k. k = StateSucceeded) z
      (wvst_DeploymentStatus (wv_Status z)) None" if "wv_stored y z" "wv_inv b y" "wv_live y" for y z
    using that wv_inv_stored [OF that(1)] wv_live_stored [OF that(1)]
    by (auto simp: phase_ret_def wv_live_def IsCompleted_cases wv_stored_def default_wv_status_def
        default_state_def)
  have err: "phase_ret (wv_inv b) wv_live (\<lambda>w. wvst_DeploymentStatus (wv_Status w)) (\<lambda>k. k = StateSucceeded) y st (Some e)"
    if "wv_inv b y" "wv_live y" for y st e
    using that by (simp add: phase_ret_def)
  have emit: "maintains J (do {
      r \<leftarrow> on_world (api_StatusUpdate (cl_WorkloadVersion cl) y);
      case r of
        Inl e \<Rightarrow> ret (y, StateUnknown, Some e)
      | Inr z \<Rightarrow> do { _ \<leftarrow> f z; ret (z, wvst_DeploymentStatus (wv_Status z), None) } }) ?Q"
    if "wv_inv b y" "wv_live y" "\<And>z. maintains J (f z) any" for y and f :: "_ \<Rightarrow> ('a, unit) prog"
    using that ret [OF _ that(1,2)] err [OF that(1,2)]
    by (rule_tac maintains_bind, rule_tac maintains_write [OF wv_serverD(10) [OF srv]])
      (auto intro!: maintain maintains_bind [where R = any])
  have plain: "maintains J (do {
      r \<leftarrow> on_world (api_StatusUpdate (cl_WorkloadVersion cl) y);
      case r of
        Inl e \<Rightarrow> ret (y, StateUnknown, Some e)
      | Inr z \<Rightarrow> ret (z, wvst_DeploymentStatus (wv_Status z), None) }) ?Q"
    if "wv_inv b y" "wv_live y" for y
    using emit [OF that, of "\<lambda>_. ret ()"] by (simp add: maintains_ret)
  have lives: "wv_live (w\<lparr>wv_Status := (wv_Status w)\<lparr>wvst_DeploymentStatus := st\<rparr>\<rparr>)"
    "wv_live (w\<lparr>wv_Status := (wv_Status w)
       \<lparr>wvst_DeploymentStartTime := t, wvst_DeploymentStatus := st\<rparr>\<rparr>)"
    if "st \<in> {StateProgressing, StateSucceeded, StateFailed}" for st t
    using that by (auto simp: wv_live_def)
  show ?thesis
    unfolding reconcileDeployment_def Let_def
  proof (rule maintains_bind [where R = any], rule maintains_Now [OF wv_serverD(3) [OF srv]], simp,
      rule maintains_if, goal_cases timeout running)
    case (timeout now)
    show ?case
      using inv [of StateFailed] lives [of StateFailed]
      by (intro emit maintains_Emit) simp_all
  next
    case (running now)
    show ?case
      by (rule maintains_bind [where R = any], rule maintains_isWorkloadRunning [OF srv],
          rule maintains_case_sum, rule maintains_ret, simp add: err live,
          rule maintains_bind [where R = any], rule maintains_Now [OF wv_serverD(3) [OF srv]], simp,
          rule plain)
        (use inv live lives in \<open>auto simp: SetDeploymentStartTime_def split: if_splits\<close>)
  qed
qed

subsection \<open>Each phase keeps it\<close>

lemmas wv_failed_defs = phase_failed_def WorkloadVersion_PhaseItem_def
  WorkloadVersion_DeprecateRemainingPhases_def WorkloadVersion_SetState_def
  WorkloadVersion_Complete_def WorkloadVersion_SetEndTime_def

text \<open>Where a phase cannot be passed, nothing after it has begun.\<close>

definition wv_idle_post_eval :: "KeptnWorkloadVersionStatus \<Rightarrow> bool" where
  "wv_idle_post_eval s \<longleftrightarrow> \<not> begun (wvst_PostDeploymentEvaluationStatus s) \<and>
     wvst_PostDeploymentEvaluationTaskStatus s = []"

definition wv_idle_post :: "KeptnWorkloadVersionStatus \<Rightarrow> bool" where
  "wv_idle_post s \<longleftrightarrow> \<not> begun (wvst_PostDeploymentStatus s) \<and>
     wvst_PostDeploymentTaskStatus s = [] \<and> wv_idle_post_eval s"

definition wv_idle_deploy :: "KeptnWorkloadVersionStatus \<Rightarrow> bool" where
  "wv_idle_deploy s \<longleftrightarrow> \<not> begun (wvst_DeploymentStatus s) \<and>
     wvst_DeploymentStartTime s = 0 \<and> wv_idle_post s"

definition wv_idle_pre_eval :: "KeptnWorkloadVersionStatus \<Rightarrow> bool" where
  "wv_idle_pre_eval s \<longleftrightarrow> \<not> begun (wvst_PreDeploymentEvaluationStatus s) \<and>
     wvst_PreDeploymentEvaluationTaskStatus s = [] \<and> wv_idle_deploy s"

lemma wv_idle:
  assumes "wv_inv b w"
  shows "\<not> state_ok b (wvst_PostDeploymentStatus (wv_Status w)) \<Longrightarrow> wv_idle_post_eval (wv_Status w)"
    and "wvst_DeploymentStatus (wv_Status w) \<noteq> StateSucceeded \<Longrightarrow> wv_idle_post (wv_Status w)"
    and "\<not> state_ok b (wvst_PreDeploymentEvaluationStatus (wv_Status w)) \<Longrightarrow>
      wv_idle_deploy (wv_Status w)"
    and "\<not> state_ok b (wvst_PreDeploymentStatus (wv_Status w)) \<Longrightarrow> wv_idle_pre_eval (wv_Status w)"
proof -
  show post_eval: "wv_idle_post_eval (wv_Status w)"
    if "\<not> state_ok b (wvst_PostDeploymentStatus (wv_Status w))"
    using that assms by (simp add: wv_inv_def wv_idle_post_eval_def Let_def)
  show post: "wv_idle_post (wv_Status w)" if "wvst_DeploymentStatus (wv_Status w) \<noteq> StateSucceeded"
  proof -
    have no: "\<not> begun (wvst_PostDeploymentStatus (wv_Status w))"
      "wvst_PostDeploymentTaskStatus (wv_Status w) = []"
      using that assms by (simp_all add: wv_inv_def Let_def)
    then have "wv_idle_post_eval (wv_Status w)" using post_eval begun_ok by blast
    with no show ?thesis by (simp add: wv_idle_post_def)
  qed
  show deploy: "wv_idle_deploy (wv_Status w)"
    if "\<not> state_ok b (wvst_PreDeploymentEvaluationStatus (wv_Status w))"
  proof -
    have no: "\<not> begun (wvst_DeploymentStatus (wv_Status w))" "wvst_DeploymentStartTime (wv_Status w) = 0"
      using that assms by (simp_all add: wv_inv_def Let_def)
    with post show ?thesis
      by (cases "wvst_DeploymentStatus (wv_Status w) = StateSucceeded") (simp_all add: wv_idle_deploy_def)
  qed
  show "wv_idle_pre_eval (wv_Status w)" if "\<not> state_ok b (wvst_PreDeploymentStatus (wv_Status w))"
  proof -
    have no: "\<not> begun (wvst_PreDeploymentEvaluationStatus (wv_Status w))"
      "wvst_PreDeploymentEvaluationTaskStatus (wv_Status w) = []"
      using that assms by (simp_all add: wv_inv_def Let_def)
    then have "wv_idle_deploy (wv_Status w)" using deploy begun_ok by blast
    with no show ?thesis by (simp add: wv_idle_pre_eval_def)
  qed
qed

lemmas wv_idle_defs = wv_idle_pre_eval_def wv_idle_deploy_def wv_idle_post_def wv_idle_post_eval_def

text \<open>A failed phase leaves the phases after it deprecated and the object in order.\<close>

lemma wv_inv_failed:
  "phase_ret (wv_inv b) wv_live (\<lambda>w. wvst_PreDeploymentStatus (wv_Status w)) (state_ok b) x StateFailed None \<Longrightarrow>
     wv_inv b (phase_failed WorkloadVersion_PhaseItem PhaseWorkloadPreDeployment now x)"
  "phase_ret (wv_inv b) wv_live (\<lambda>w. wvst_PreDeploymentEvaluationStatus (wv_Status w)) (state_ok b) x StateFailed None \<Longrightarrow>
     wv_inv b (phase_failed WorkloadVersion_PhaseItem PhaseWorkloadPreEvaluation now x)"
  "phase_ret (wv_inv b) wv_live (\<lambda>w. wvst_DeploymentStatus (wv_Status w)) (\<lambda>k. k = StateSucceeded) x StateFailed None \<Longrightarrow>
     wv_inv b (phase_failed WorkloadVersion_PhaseItem PhaseWorkloadDeployment now x)"
  "phase_ret (wv_inv b) wv_live (\<lambda>w. wvst_PostDeploymentStatus (wv_Status w)) (state_ok b) x StateFailed None \<Longrightarrow>
     wv_inv b (phase_failed WorkloadVersion_PhaseItem PhaseWorkloadPostDeployment now x)"
  "phase_ret (wv_inv b) wv_live (\<lambda>w. wvst_PostDeploymentEvaluationStatus (wv_Status w)) (state_ok b) x StateFailed None \<Longrightarrow>
     wv_inv b (phase_failed WorkloadVersion_PhaseItem PhaseWorkloadPostEvaluation now x)"
proof -
  note defs = wv_failed_defs phase_defs Let_def wv_inv_def wv_idle_defs
  show "wv_inv b (phase_failed WorkloadVersion_PhaseItem PhaseWorkloadPreDeployment now x)"
    if "phase_ret (wv_inv b) wv_live (\<lambda>w. wvst_PreDeploymentStatus (wv_Status w)) (state_ok b) x StateFailed None"
    using phase_ret_failed [OF that] wv_idle(4) [OF phase_ret_failed(1) [OF that]] by (simp add: defs)
  show "wv_inv b (phase_failed WorkloadVersion_PhaseItem PhaseWorkloadPreEvaluation now x)"
    if "phase_ret (wv_inv b) wv_live (\<lambda>w. wvst_PreDeploymentEvaluationStatus (wv_Status w)) (state_ok b) x StateFailed None"
    using phase_ret_failed [OF that] wv_idle(3) [OF phase_ret_failed(1) [OF that]] by (simp add: defs)
  show "wv_inv b (phase_failed WorkloadVersion_PhaseItem PhaseWorkloadDeployment now x)"
    if "phase_ret (wv_inv b) wv_live (\<lambda>w. wvst_DeploymentStatus (wv_Status w)) (\<lambda>k. k = StateSucceeded) x StateFailed None"
    using phase_ret_failed [OF that] wv_idle(2) [OF phase_ret_failed(1) [OF that]] by (simp add: defs)
  show "wv_inv b (phase_failed WorkloadVersion_PhaseItem PhaseWorkloadPostDeployment now x)"
    if "phase_ret (wv_inv b) wv_live (\<lambda>w. wvst_PostDeploymentStatus (wv_Status w)) (state_ok b) x StateFailed None"
    using phase_ret_failed [OF that] wv_idle(1) [OF phase_ret_failed(1) [OF that]] by (simp add: defs)
  show "wv_inv b (phase_failed WorkloadVersion_PhaseItem PhaseWorkloadPostEvaluation now x)"
    if "phase_ret (wv_inv b) wv_live (\<lambda>w. wvst_PostDeploymentEvaluationStatus (wv_Status w)) (state_ok b) x StateFailed None"
    using phase_ret_failed [OF that] by (simp add: defs)
qed

lemma maintains_wv_skip:
  "wv_inv b w \<Longrightarrow> pass (get w) \<Longrightarrow>
   maintains J (ret (w, \<lparr>Continue = True, pr_Result = no_requeue\<rparr>, None))
     (phase_after (wv_inv b) get pass)"
  by (simp add: maintains_ret phase_after_def)

lemmas wv_succeeded_defs =
  WorkloadVersion_IsPreDeploymentSucceeded_def WorkloadVersion_IsPreDeploymentEvaluationSucceeded_def
  WorkloadVersion_IsDeploymentSucceeded_def WorkloadVersion_IsPostDeploymentSucceeded_def
  WorkloadVersion_IsPostDeploymentEvaluationSucceeded_def state_ok_def

lemma maintains_doPreDeploymentTaskPhase:
  assumes "wv_server J cl b" and "GetBlockDeployment cfg = b" and "wv_inv b w"
  shows "maintains J (doPreDeploymentTaskPhase cl cfg w ctx)
    (phase_after (wv_inv b) (\<lambda>w. wvst_PreDeploymentStatus (wv_Status w)) (state_ok b))"
  unfolding doPreDeploymentTaskPhase_def assms(2)
proof (rule maintains_if)
  assume "\<not> WorkloadVersion_IsPreDeploymentSucceeded w b"
  then have no: "\<not> state_ok b (wvst_PreDeploymentStatus (wv_Status w))"
    by (auto simp: wv_succeeded_defs split: if_splits)
  show "maintains J (HandlePhase cl (WorkloadVersion_Kind cl) ctx wv_tracer w PhaseWorkloadPreDeployment
    (WorkloadVersion_reconcilePrePostDeployment cl cfg PreDeploymentCheckType))
    (phase_after (wv_inv b) (\<lambda>w. wvst_PreDeploymentStatus (wv_Status w)) (state_ok b))"
    using no
    by (intro maintains_wv_phase [OF wv_serverD(3,10) [OF assms(1)]] maintains_wv_tasks [where set_phase = "\<lambda>st ns w. w\<lparr>wv_Status :=
          (wv_Status w)\<lparr>wvst_PreDeploymentStatus := st, wvst_PreDeploymentTaskStatus := ns\<rparr>\<rparr>"]
        assms defaulted_fields wv_inv_failed)
      (auto simp: wv_inv_def wv_live_def wv_begun_inv Let_def)
qed (use assms in \<open>auto intro!: maintains_wv_skip simp: wv_succeeded_defs split: if_splits\<close>)

lemma maintains_doPreDeploymentEvaluationPhase:
  assumes "wv_server J cl b" and "GetBlockDeployment cfg = b" and "wv_inv b w"
    and prev: "state_ok b (wvst_PreDeploymentStatus (wv_Status w))"
  shows "maintains J (doPreDeploymentEvaluationPhase cl cfg w ctx)
    (phase_after (wv_inv b) (\<lambda>w. wvst_PreDeploymentEvaluationStatus (wv_Status w)) (state_ok b))"
  unfolding doPreDeploymentEvaluationPhase_def assms(2)
proof (rule maintains_if)
  assume "\<not> WorkloadVersion_IsPreDeploymentEvaluationSucceeded w b"
  then have no: "\<not> state_ok b (wvst_PreDeploymentEvaluationStatus (wv_Status w))"
    by (auto simp: wv_succeeded_defs split: if_splits)
  show "maintains J (HandlePhase cl (WorkloadVersion_Kind cl) ctx wv_tracer w PhaseWorkloadPreEvaluation
    (WorkloadVersion_reconcilePrePostEvaluation cl cfg PreDeploymentEvaluationCheckType))
    (phase_after (wv_inv b) (\<lambda>w. wvst_PreDeploymentEvaluationStatus (wv_Status w)) (state_ok b))"
    using no prev
    by (intro maintains_wv_phase [OF wv_serverD(3,10) [OF assms(1)]] maintains_wv_evaluations [where set_phase = "\<lambda>st ns w. w\<lparr>wv_Status :=
          (wv_Status w)\<lparr>wvst_PreDeploymentEvaluationStatus := st,
            wvst_PreDeploymentEvaluationTaskStatus := ns\<rparr>\<rparr>"]
        assms defaulted_fields wv_inv_failed)
      (auto simp: wv_inv_def wv_live_def wv_begun_inv Let_def)
qed (use assms in \<open>auto intro!: maintains_wv_skip simp: wv_succeeded_defs split: if_splits\<close>)

lemma maintains_doDeploymentPhase:
  assumes "wv_server J cl b" and "wv_inv b w"
    and prev: "state_ok b (wvst_PreDeploymentEvaluationStatus (wv_Status w))"
  shows "maintains J (doDeploymentPhase cl cfg w ctx)
    (phase_after (wv_inv b) (\<lambda>w. wvst_DeploymentStatus (wv_Status w)) (\<lambda>k. k = StateSucceeded))"
  unfolding doDeploymentPhase_def
proof (rule maintains_if)
  assume "\<not> WorkloadVersion_IsDeploymentSucceeded w"
  then have no: "wvst_DeploymentStatus (wv_Status w) \<noteq> StateSucceeded"
    by (simp add: wv_succeeded_defs)
  show "maintains J (HandlePhase cl (WorkloadVersion_Kind cl) ctx wv_tracer w PhaseWorkloadDeployment
    (\<lambda>phaseCtx. reconcileDeployment cl cfg))
    (phase_after (wv_inv b) (\<lambda>w. wvst_DeploymentStatus (wv_Status w)) (\<lambda>k. k = StateSucceeded))"
    using no prev
    by (intro maintains_wv_phase [OF wv_serverD(3,10) [OF assms(1)]] maintains_reconcileDeployment assms defaulted_fields
        wv_inv_failed)
      (auto simp: wv_inv_def wv_live_def wv_begun_inv Let_def)
qed (use assms in \<open>auto intro!: maintains_wv_skip simp: wv_succeeded_defs\<close>)

lemma maintains_doPostDeploymentTaskPhase:
  assumes "wv_server J cl b" and "GetBlockDeployment cfg = b" and "wv_inv b w"
    and prev: "wvst_DeploymentStatus (wv_Status w) = StateSucceeded"
  shows "maintains J (doPostDeploymentTaskPhase cl cfg w ctx)
    (phase_after (wv_inv b) (\<lambda>w. wvst_PostDeploymentStatus (wv_Status w)) (state_ok b))"
  unfolding doPostDeploymentTaskPhase_def assms(2)
proof (rule maintains_if)
  assume "\<not> WorkloadVersion_IsPostDeploymentSucceeded w b"
  then have no: "\<not> state_ok b (wvst_PostDeploymentStatus (wv_Status w))"
    by (auto simp: wv_succeeded_defs split: if_splits)
  show "maintains J (HandlePhase cl (WorkloadVersion_Kind cl) ctx wv_tracer w PhaseWorkloadPostDeployment
    (WorkloadVersion_reconcilePrePostDeployment cl cfg PostDeploymentCheckType))
    (phase_after (wv_inv b) (\<lambda>w. wvst_PostDeploymentStatus (wv_Status w)) (state_ok b))"
    using no prev
    by (intro maintains_wv_phase [OF wv_serverD(3,10) [OF assms(1)]] maintains_wv_tasks [where set_phase = "\<lambda>st ns w. w\<lparr>wv_Status :=
          (wv_Status w)\<lparr>wvst_PostDeploymentStatus := st,
            wvst_PostDeploymentTaskStatus := ns\<rparr>\<rparr>"]
        assms defaulted_fields wv_inv_failed)
      (auto simp: wv_inv_def wv_live_def wv_begun_inv Let_def)
qed (use assms in \<open>auto intro!: maintains_wv_skip simp: wv_succeeded_defs split: if_splits\<close>)

lemma maintains_doPostDeploymentEvaluationPhase:
  assumes "wv_server J cl b" and "GetBlockDeployment cfg = b" and "wv_inv b w"
    and prev: "state_ok b (wvst_PostDeploymentStatus (wv_Status w))"
  shows "maintains J (doPostDeploymentEvaluationPhase cl cfg w ctx)
    (phase_after (wv_inv b) (\<lambda>w. wvst_PostDeploymentEvaluationStatus (wv_Status w)) (state_ok b))"
  unfolding doPostDeploymentEvaluationPhase_def assms(2)
proof (rule maintains_if)
  assume "\<not> WorkloadVersion_IsPostDeploymentEvaluationSucceeded w b"
  then have no: "\<not> state_ok b (wvst_PostDeploymentEvaluationStatus (wv_Status w))"
    by (auto simp: wv_succeeded_defs split: if_splits)
  show "maintains J (HandlePhase cl (WorkloadVersion_Kind cl) ctx wv_tracer w PhaseWorkloadPostEvaluation
    (WorkloadVersion_reconcilePrePostEvaluation cl cfg PostDeploymentEvaluationCheckType))
    (phase_after (wv_inv b) (\<lambda>w. wvst_PostDeploymentEvaluationStatus (wv_Status w)) (state_ok b))"
    using no prev
    by (intro maintains_wv_phase [OF wv_serverD(3,10) [OF assms(1)]] maintains_wv_evaluations [where set_phase = "\<lambda>st ns w. w\<lparr>wv_Status :=
          (wv_Status w)\<lparr>wvst_PostDeploymentEvaluationStatus := st,
            wvst_PostDeploymentEvaluationTaskStatus := ns\<rparr>\<rparr>"]
        assms defaulted_fields wv_inv_failed)
      (auto simp: wv_inv_def wv_live_def wv_begun_inv Let_def)
qed (use assms in \<open>auto intro!: maintains_wv_skip simp: wv_succeeded_defs split: if_splits\<close>)

subsection \<open>A whole reconciliation keeps it\<close>

lemma maintains_finish_wv:
  assumes "wv_server J cl b" and "wv_inv b w"
    and "state_ok b (wvst_PostDeploymentEvaluationStatus (wv_Status w))"
  shows "maintains J (finishKeptnWorkloadVersionReconcile cl w span) (\<lambda>(x, _). wv_inv b x)"
proof -
  let ?w = "\<lambda>now. if \<not> WorkloadVersion_IsEndTimeSet w then
      WorkloadVersion_SetEndTime now (w\<lparr>wv_Status := (wv_Status w)
        \<lparr>wvst_CurrentPhase := ShortName PhaseCompleted, wvst_Status := StateSucceeded\<rparr>\<rparr>) else w"
  have "wvst_DeploymentStatus (wv_Status w) = StateSucceeded"
    using wv_inv_all_ok [OF assms(2,3)] by (simp add: wv_all_ok_def Let_def)
  then have inv: "wv_inv b (?w now)" for now
    using assms(2,3) by (simp add: wv_inv_def WorkloadVersion_SetEndTime_def Let_def)
  show ?thesis
    unfolding finishKeptnWorkloadVersionReconcile_def Let_def
    by (rule maintains_bind [where R = any], rule maintains_Now [OF wv_serverD(3) [OF assms(1)]], simp,
        rule maintains_bind, rule maintains_write [OF wv_serverD(10) [OF assms(1)] inv])
      (auto intro!: maintain maintains_bind [where R = any] inv simp: wv_inv_stored
        split del: if_split)
qed

lemma maintains_wv_continue:
  assumes "maintains J (phase w) (phase_after (wv_inv b) get pass)"
    and "\<And>x. wv_inv b x \<Longrightarrow> pass (get x) \<Longrightarrow> maintains J (next x) (\<lambda>(x, _). wv_inv b x)"
  shows "maintains J (wv_continue phase next w) (\<lambda>(x, _). wv_inv b x)"
  unfolding wv_continue_def
  by (rule maintains_bind [OF assms(1)]) (auto intro!: maintain assms(2) simp: phase_after_def)

lemma maintains_wv_phases:
  assumes "wv_server J cl b" and "GetBlockDeployment cfg = b" and "wv_inv b w"
  shows "maintains J (wv_phases cl cfg ctx span w) (\<lambda>(x, _). wv_inv b x)"
  unfolding wv_phases_def
  by (intro maintains_wv_continue [OF maintains_doPreDeploymentTaskPhase]
      maintains_wv_continue [OF maintains_doPreDeploymentEvaluationPhase]
      maintains_wv_continue [OF maintains_doDeploymentPhase]
      maintains_wv_continue [OF maintains_doPostDeploymentTaskPhase]
      maintains_wv_continue [OF maintains_doPostDeploymentEvaluationPhase]
      maintains_finish_wv assms)

lemma maintains_getAppVersion:
  assumes "reads J (cl_AppVersion cl) good"
  shows "maintains J (getAppVersionForWorkloadVersion cl w) any"
  unfolding getAppVersionForWorkloadVersion_def
  by (rule maintains_bind, rule maintains_on_world, rule readsD(2) [OF assms])
    (auto intro!: maintain split: prod.splits bool.splits option.splits)

lemma maintains_check_app:
  assumes srv: "wv_server J cl b" and inv: "wv_inv b w"
  shows "maintains J (checkPreEvaluationStatusOfApp cl w) (\<lambda>(x, _). wv_inv b x)"
proof -
  have meta: "maintains J (setAppContextMetadata cl av x) (\<lambda>(y, _). wv_inv b y)" if "wv_inv b x" for av x
  proof -
    have inv': "wv_inv b (x\<lparr>wv_Status := (wv_Status x)\<lparr>wvst_AppContextMetadata := m\<rparr>\<rparr>)" for m
      using that by (simp add: wv_inv_def Let_def)
    show ?thesis
      unfolding setAppContextMetadata_def Let_def
      by (rule maintains_if, rule maintains_bind,
          rule maintains_write [OF wv_serverD(10) [OF srv] inv'])
        (auto intro!: maintain inv' that simp: wv_inv_stored)
  qed
  have trace: "maintains J (setAppTraceId cl av x) (\<lambda>(y, _). wv_inv b y)" if "wv_inv b x" for av x
  proof -
    have inv': "wv_inv b (x\<lparr>wv_Spec := sp\<rparr>)" for sp
      using that by (simp add: wv_inv_def)
    show ?thesis
      unfolding setAppTraceId_def Let_def
      by (rule maintains_if, rule maintains_bind,
          rule maintains_write [OF wv_serverD(11) [OF srv] inv'])
        (auto intro!: maintain inv' that)
  qed
  show ?thesis
    unfolding checkPreEvaluationStatusOfApp_def sendUnfinishedPreEvaluationEvents_def Let_def
    by (intro maintains_if maintains_ret maintains_case_sum maintains_case_option
        maintains_bind [where R = any] maintains_Emit
        maintains_getAppVersion [OF wv_serverD(4) [OF srv]]
        maintains_bind [OF meta] maintains_bind [OF trace] maintains_case_prod)
      (use inv in auto)
qed

lemma wv_inv_start: "wv_inv b (WorkloadVersion_SetStartTime t w) = wv_inv b w"
  by (simp add: wv_inv_def WorkloadVersion_SetStartTime_def Let_def)

lemma maintains_WorkloadVersion_Reconcile:
  assumes srv: "wv_server J cl b" and cfg: "GetBlockDeployment cfg = b"
  shows "maintains J (WorkloadVersion_Reconcile cl cfg req) any"
proof -
  have close: "maintains J (closeFailedWorkloadVersionSpan x span) any" for x span
    unfolding closeFailedWorkloadVersionSpan_def
    by (intro maintain maintains_bind [where R = any]) simp_all
  have compl: "maintains J (wv_completionFunc x) any" for x
    unfolding wv_completionFunc_def by (intro maintain) simp_all
  show ?thesis
    unfolding WorkloadVersion_Reconcile_def Let_def
  proof (rule maintains_bind, rule maintains_on_world, rule readsD(1) [OF wv_serverD(9) [OF srv]],
      rule maintains_case_sum, goal_cases missing found)
    case (missing r err)
    show ?case by (intro maintain) simp_all
  next
    case (found r w)
    then have w: "wv_inv b w" by simp
    show ?case
      by (rule maintains_bind [where R = any], rule maintains_Now [OF wv_serverD(3) [OF srv]], simp,
          rule maintains_bind, rule maintains_check_app [OF srv], simp add: wv_inv_start w)
        (auto intro!: maintains_if maintains_bind [where R = any] maintains_ret compl close
          maintains_Now [OF wv_serverD(3) [OF srv]] maintains_span_call
          maintains_bind [OF maintains_GetSpan [OF wv_serverD(3) [OF srv]]]
          maintains_bind [OF maintains_wv_phases [OF srv cfg]]
          simp: trace_variant_def split del: if_split)
  qed
qed

section \<open>A failed or deprecated workload version stays as it is\<close>

definition wv_dead :: "bool \<Rightarrow> KeptnWorkloadVersion \<Rightarrow> bool" where
  "wv_dead b w \<longleftrightarrow> wvst_Status (wv_Status w) \<in> {StateFailed, StateDeprecated} \<and>
     \<not> wv_all_ok b w \<and> wvst_CurrentPhase (wv_Status w) \<noteq> []"

lemma wv_phases_dead:
  assumes "wv_dead (GetBlockDeployment cfg) w"
  shows "wv_phases cl cfg ctx span w = ret (w, no_requeue, None)"
proof -
  have "shouldAbortPhase (pi_GetState WorkloadVersion_PhaseItem w)"
    using assms by (simp add: wv_dead_def shouldAbortPhase_def WorkloadVersion_PhaseItem_def
        WorkloadVersion_GetState_def) blast
  then have "HandlePhase cl (WorkloadVersion_Kind cl) ctx wv_tracer w phase rec =
      ret (w, \<lparr>Continue = False, pr_Result = no_requeue\<rparr>, None)" for phase rec
    by (simp add: HandlePhase_abort)
  with assms show ?thesis
    by (auto simp: wv_phases_def wv_continue_def doPreDeploymentTaskPhase_def
        doPreDeploymentEvaluationPhase_def doDeploymentPhase_def doPostDeploymentTaskPhase_def
        doPostDeploymentEvaluationPhase_def wv_dead_def wv_all_ok_def wv_succeeded_defs Let_def)
qed

lemma wv_dead_trace:
  "trace_variant WorkloadVersion_SpanItem [] w w' \<Longrightarrow> w' = w"
  by (simp add: trace_variant_def)

lemma wv_dead_start: "wv_dead b (WorkloadVersion_SetStartTime t w) = wv_dead b w"
  by (simp add: wv_dead_def wv_all_ok_def WorkloadVersion_SetStartTime_def Let_def)

lemma maintains_wv_dead:
  assumes amb: "ambient J cl" and get: "reads J (cl_WorkloadVersion cl) (wv_dead (GetBlockDeployment cfg))"
  shows "maintains J (WorkloadVersion_Reconcile cl cfg req) any"
proof -
  have close: "maintains J (closeFailedWorkloadVersionSpan x span) any" for x span
    unfolding closeFailedWorkloadVersionSpan_def
    by (intro maintain maintains_bind [where R = any]) simp_all
  have compl: "maintains J (wv_completionFunc x) any" for x
    unfolding wv_completionFunc_def by (intro maintain) simp_all
  show ?thesis
    unfolding WorkloadVersion_Reconcile_def Let_def
  proof (rule maintains_bind, rule maintains_on_world, rule readsD(1) [OF get],
      rule maintains_case_sum, goal_cases missing found)
    case (missing r err)
    show ?case by (intro maintain) simp_all
  next
    case (found r w)
    then have dead: "wv_dead (GetBlockDeployment cfg) (WorkloadVersion_SetStartTime t w)" for t
      by (simp add: wv_dead_start)
    then have check: "checkPreEvaluationStatusOfApp cl (WorkloadVersion_SetStartTime t w) =
      ret (WorkloadVersion_SetStartTime t w, False, None)" for t
      by (simp add: checkPreEvaluationStatusOfApp_def wv_dead_def WorkloadVersion_GetCurrentPhase_def)
    show ?case
      by (rule maintains_bind [where R = any], rule maintains_Now [OF amb], simp,
          simp add: check, rule maintains_bind [OF maintains_GetSpan [OF amb]])
        (auto dest!: wv_dead_trace simp: wv_phases_dead [OF dead] intro!: maintains_bind [where R = any]
          maintains_if maintains_ret compl close maintains_Now [OF amb] maintains_span_call
          split del: if_split)
  qed
qed

section \<open>The app version a workload version belongs to\<close>

definition app_matches :: "KeptnWorkloadVersion \<Rightarrow> KeptnAppVersion \<Rightarrow> bool" where
  "app_matches wli app \<longleftrightarrow>
     avs_AppName (av_Spec app) = wks_AppName (wvs_WorkloadSpec (wv_Spec wli)) \<and>
     (\<exists>appWorkload\<in>set (as_Workloads (avs_AppSpec (av_Spec app))). workloadMatchesApp appWorkload wli app)"

definition latest_ok ::
    "KeptnWorkloadVersion \<Rightarrow> KeptnAppVersion list \<Rightarrow> bool \<times> KeptnAppVersion option \<Rightarrow> bool" where
  "latest_ok wli apps r \<longleftrightarrow> (case r of
     (found, None) \<Rightarrow> \<not> found \<and> (\<forall>app\<in>set apps. \<not> app_matches wli app)
   | (found, Some a) \<Rightarrow> found \<and> a \<in> set apps \<and> app_matches wli a \<and>
       (\<forall>app\<in>set apps. app_matches wli app \<longrightarrow>
          om_CreationTimestamp (av_meta app) \<le> om_CreationTimestamp (av_meta a)))"

text \<open>The inner loop picks the app version at most once.\<close>

lemma latest_inner:
  assumes "om_CreationTimestamp (av_meta app) > 0"
  shows "fold (\<lambda>appWorkload (found, latest).
      if workloadMatchesApp appWorkload wli app then
        (True, if isNewer app latest then Some app else latest) else (found, latest)) ws acc =
    (if \<exists>appWorkload\<in>set ws. workloadMatchesApp appWorkload wli app
     then (True, if isNewer app (snd acc) then Some app else snd acc) else acc)"
  using assms
  by (induction ws arbitrary: acc) (auto simp: isNewer_def Let_def split: prod.splits option.splits)

lemma latest_step:
  assumes "latest_ok wli apps acc" and "om_CreationTimestamp (av_meta app) > 0"
    and "\<forall>a\<in>set apps. om_CreationTimestamp (av_meta a) > 0"
  shows "latest_ok wli (apps @ [app])
    (if app_matches wli app then (True, if isNewer app (snd acc) then Some app else snd acc) else acc)"
  using assms by (cases acc; cases "snd acc") (fastforce simp: latest_ok_def isNewer_def Let_def)+

lemma getLatestAppVersion_snoc:
  assumes "om_CreationTimestamp (av_meta app) > 0"
  shows "getLatestAppVersion (apps @ [app]) wli =
    (let acc = getLatestAppVersion apps wli in
     if app_matches wli app then (True, if isNewer app (snd acc) then Some app else snd acc) else acc)"
  by (simp add: getLatestAppVersion_def app_matches_def latest_inner [OF assms] Let_def)

lemma getLatestAppVersion_ok:
  "\<forall>app\<in>set apps. om_CreationTimestamp (av_meta app) > 0 \<Longrightarrow>
   latest_ok wli apps (getLatestAppVersion apps wli)"
proof (induction apps rule: rev_induct)
  case Nil
  then show ?case by (simp add: getLatestAppVersion_def latest_ok_def)
next
  case (snoc app apps)
  then show ?case
    using latest_step [of wli apps "getLatestAppVersion apps wli" app]
    by (simp add: getLatestAppVersion_snoc Let_def)
qed

section \<open>Statements\<close>

text \<open>
  Of the app versions given, \<^const>\<open>getLatestAppVersion\<close> finds the newest one that has the app
  name of the workload version and lists its workload in its version, and none exactly when there is
  none; every object has a creation time.
\<close>

theorem latest_app_version:
  assumes "\<forall>app\<in>set apps. om_CreationTimestamp (av_meta app) > 0"
  shows "latest_ok wli apps (getLatestAppVersion apps wli)"
  by (rule getLatestAppVersion_ok [OF assms])

text \<open>
  While the server stores what is written, the deployment phase returns Failed when the deadline
  after its start has passed; otherwise Succeeded when the referenced resource runs, Progressing when
  it is looked at for the first time, and the recorded state in every other case.
\<close>

theorem deployment_state:
  assumes "run_state (cl_Now cl) (env_World s) = (now, w1)"
    and "run_state (isWorkloadRunning cl v) (s\<lparr>env_World := w1\<rparr>) = (running, s2)"
    and "run_state (reconcileDeployment cl cfg v) s = ((v', state, None), s')"
    and "writes J (api_StatusUpdate (cl_WorkloadVersion cl)) any wv_stored"
    and "call_keeps J (cl_Now cl) any" and "J w1" and "J (env_World s2)"
  shows "wvst_DeploymentStatus (wv_Status v') = state \<and>
    (if isDeploymentTimedOut cfg now v then state = StateFailed
     else \<exists>isRunning. running = Inr isRunning \<and>
       state = (if isRunning then StateSucceeded
         else if \<not> IsDeploymentStartTimeSet v then StateProgressing
         else default_state (wvst_DeploymentStatus (wv_Status v))))"
proof -
  have stored: "run_state (api_StatusUpdate (cl_WorkloadVersion cl) y) u = (Inr z, u') \<Longrightarrow> J u \<Longrightarrow>
      wvst_DeploymentStatus (wv_Status z) = default_state (wvst_DeploymentStatus (wv_Status y))" for y z u u'
    using assms(4) unfolding writes_def call_keeps_def
    by (fastforce simp: wv_stored_def default_wv_status_def)
  have tick: "J u'" if "run_state (cl_Now cl) (env_World s2) = (t, u')" for t u'
    using assms(5,7) that unfolding call_keeps_def by blast
  show ?thesis
  proof (cases "isDeploymentTimedOut cfg now v")
    case True
    let ?failed = "v\<lparr>wv_Status := (wv_Status v)\<lparr>wvst_DeploymentStatus := StateFailed\<rparr>\<rparr>"
    obtain r u where upd: "run_state (api_StatusUpdate (cl_WorkloadVersion cl) ?failed) w1 = (r, u)"
      by fastforce
    with True assms(1,3) have "r = Inr v'" "state = wvst_DeploymentStatus (wv_Status v')"
      by (auto simp: reconcileDeployment_def Now_def env_simps Let_def split: sum.splits prod.splits)
    with stored [OF _ assms(6)] upd True show ?thesis by (simp add: default_state_def)
  next
    case False
    have "running \<noteq> Inl e" for e
      using False assms(1-3) by (auto simp: reconcileDeployment_def Now_def env_simps Let_def)
    then obtain isRunning where run: "running = Inr isRunning" by (cases running) auto
    obtain t u where t: "run_state (cl_Now cl) (env_World s2) = (t, u)" by fastforce
    let ?started = "if \<not> IsDeploymentStartTimeSet v then
        (let w = SetDeploymentStartTime t v in
         w\<lparr>wv_Status := (wv_Status w)\<lparr>wvst_DeploymentStatus := StateProgressing\<rparr>\<rparr>) else v"
    let ?y = "if isRunning then
        ?started\<lparr>wv_Status := (wv_Status ?started)\<lparr>wvst_DeploymentStatus := StateSucceeded\<rparr>\<rparr>
      else ?started"
    obtain r u' where upd: "run_state (api_StatusUpdate (cl_WorkloadVersion cl) ?y) u = (r, u')"
      by fastforce
    have r: "r = Inr v'" and st: "state = wvst_DeploymentStatus (wv_Status v')"
      using False assms(1-3) run t upd
      by (auto simp: reconcileDeployment_def Now_def env_simps Let_def split: sum.splits split del: if_split)
    from stored [OF upd [unfolded r] tick [OF t]] run st False show ?thesis
      by (simp add: Let_def default_state_def)
  qed
qed

text \<open>
  An app version whose pre-deployment evaluations ended with a warning has passed them when the
  deployment is not blocked, but its workload versions go on waiting: the check asks for a requeue.
\<close>

theorem warning_blocks_workload:
  assumes "WorkloadVersion_GetCurrentPhase w = []"
    and "run_state (getAppVersionForWorkloadVersion cl w) s = (Inr (Some app), s1)"
    and "avst_PreDeploymentEvaluationStatus (av_Status app) = StateWarning"
  shows "AppVersion_IsPreDeploymentEvaluationSucceeded app False \<and>
    run_state (checkPreEvaluationStatusOfApp cl w) s = ((w, True, None), s1)"
  using assms
  by (simp add: checkPreEvaluationStatusOfApp_def sendUnfinishedPreEvaluationEvents_def Let_def
      AppVersion_IsPreDeploymentEvaluationSucceeded_def env_simps)

end
