(* ===== verification/App_Version.thy ===== *)
theory App_Version
  imports Items
begin

text \<open>
  The controller of KeptnAppVersions (\<^verbatim>\<open>controllers/lifecycle/keptnappversion\<close>): the pre-deployment
  tasks and evaluations of an app, the wait for its workloads, the post-deployment tasks and
  evaluations, and the promotion tasks.
\<close>

abbreviation av_tracer :: string where
  "av_tracer \<equiv> ''keptn/lifecycle-operator/appversion''"

section \<open>The closures of the phases\<close>

definition AppVersion_reconcilePhase ::
    "'w Client \<Rightarrow> ControllerConfig \<Rightarrow> CheckType \<Rightarrow> Context \<Rightarrow> KeptnAppVersion \<Rightarrow>
     ('w, KeptnAppVersion \<times> KeptnState \<times> error option) prog" where
  "AppVersion_reconcilePhase cl cfg checkType phaseCtx appVersion = do {
     r \<leftarrow> ReconcileTasks cl cfg (AppVersion_Kind cl) phaseCtx av_tracer appVersion checkType;
     case r of
       Inl err \<Rightarrow> ret (appVersion, StateUnknown, Some err)
     | Inr (newStatus, state) \<Rightarrow>
         (let overallState = GetOverallStateBlockedDeployment state (GetBlockDeployment cfg);
              status = av_Status appVersion;
              status =
                (if checkType = PreDeploymentCheckType then
                   status\<lparr>avst_PreDeploymentStatus := overallState,
                     avst_PreDeploymentTaskStatus := newStatus\<rparr>
                 else if checkType = PostDeploymentCheckType then
                   status\<lparr>avst_PostDeploymentStatus := overallState,
                     avst_PostDeploymentTaskStatus := newStatus\<rparr>
                 else if checkType = PromotionCheckType then
                   status\<lparr>avst_PromotionStatus := overallState,
                     avst_PromotionTaskStatus := newStatus\<rparr>
                 else status)
          in write_status (cl_AppVersion cl) (appVersion\<lparr>av_Status := status\<rparr>) overallState)
   }"

definition AppVersion_reconcilePrePostEvaluation ::
    "'w Client \<Rightarrow> ControllerConfig \<Rightarrow> CheckType \<Rightarrow> Context \<Rightarrow> KeptnAppVersion \<Rightarrow>
     ('w, KeptnAppVersion \<times> KeptnState \<times> error option) prog" where
  "AppVersion_reconcilePrePostEvaluation cl cfg checkType phaseCtx appVersion = do {
     r \<leftarrow> ReconcileEvaluations cl cfg (AppVersion_Kind cl) phaseCtx av_tracer appVersion checkType;
     case r of
       Inl err \<Rightarrow> ret (appVersion, StateUnknown, Some err)
     | Inr (newStatus, state) \<Rightarrow>
         (let overallState = GetOverallStateBlockedDeployment state (GetBlockDeployment cfg);
              status = av_Status appVersion;
              status =
                (if checkType = PreDeploymentEvaluationCheckType then
                   status\<lparr>avst_PreDeploymentEvaluationStatus := overallState,
                     avst_PreDeploymentEvaluationTaskStatus := newStatus\<rparr>
                 else if checkType = PostDeploymentEvaluationCheckType then
                   status\<lparr>avst_PostDeploymentEvaluationStatus := overallState,
                     avst_PostDeploymentEvaluationTaskStatus := newStatus\<rparr>
                 else status)
          in write_status (cl_AppVersion cl) (appVersion\<lparr>av_Status := status\<rparr>) overallState)
   }"

subsection \<open>Waiting for the workloads\<close>

definition getWorkloadVersionName :: "string \<Rightarrow> string \<Rightarrow> string \<Rightarrow> string" where
  "getWorkloadVersionName appName workloadName version =
     CreateResourceName MaxK8sObjectLength MinKeptnNameLen [appName, workloadName, version]"

definition getWorkloadVersionList ::
    "'w Client \<Rightarrow> string \<Rightarrow> string \<Rightarrow> ('w, error + KeptnWorkloadVersion list) prog" where
  "getWorkloadVersionList cl namespace appName =
     on_world (api_List (cl_WorkloadVersion cl) namespace [(''spec.app'', appName)])"

definition handleUnaccessibleWorkloadVersionList ::
    "'w Client \<Rightarrow> KeptnAppVersion \<Rightarrow> ('w, KeptnAppVersion \<times> error option) prog" where
  "handleUnaccessibleWorkloadVersionList cl appVersion = do {
     let newStatus = map (\<lambda>w. \<lparr>ws_Workload = w, ws_Status = StateUnknown\<rparr>)
       (as_Workloads (avs_AppSpec (av_Spec appVersion)));
     let appVersion = appVersion\<lparr>av_Status := (av_Status appVersion)
       \<lparr>avst_WorkloadOverallStatus := StateUnknown, avst_WorkloadStatus := newStatus\<rparr>\<rparr>;
     r \<leftarrow> on_world (api_StatusUpdate (cl_AppVersion cl) appVersion);
     case r of
       Inl err \<Rightarrow> ret (appVersion, Some err)
     | Inr appVersion \<Rightarrow> ret (appVersion, None)
   }"

text \<open>The inner loop over the workload versions: whether one was found, and the last state found.\<close>

definition lookup_workload ::
    "KeptnWorkloadVersion list \<Rightarrow> string \<Rightarrow> bool \<times> KeptnState" where
  "lookup_workload items instanceName =
     fold (\<lambda>i (found, workloadStatus).
       if instanceName = om_Name (wv_meta i) then (True, wvst_Status (wv_Status i))
       else (found, workloadStatus)) items (False, StatePending)"

fun reconcile_workload_refs ::
    "KeptnAppVersion \<Rightarrow> KeptnWorkloadVersion list \<Rightarrow> KeptnWorkloadRef list \<Rightarrow> WorkloadStatus list \<Rightarrow>
     StatusSummary \<Rightarrow> ('w, WorkloadStatus list \<times> StatusSummary) prog" where
  "reconcile_workload_refs appVersion items [] newStatus summary = ret (newStatus, summary)"
| "reconcile_workload_refs appVersion items (w # ws) newStatus summary = do {
     let instanceName =
       getWorkloadVersionName (avs_AppName (av_Spec appVersion)) (wr_Name w) (wr_Version w);
     let (found, workloadStatus) = lookup_workload items instanceName;
     (if \<not> found then
        Emit PhaseReconcileWorkload ''Warning'' (AppVersion_Event appVersion) PhaseStateNotFound
          (''could not find KeptnWorkloadVersion for KeptnWorkload: '' @ wr_Name w @ '' '')
          (AppVersion_GetVersion appVersion)
      else ret ());
     reconcile_workload_refs appVersion items ws
       (newStatus @ [\<lparr>ws_Workload = w, ws_Status = workloadStatus\<rparr>])
       (UpdateStatusSummary workloadStatus summary)
   }"

text \<open>
  When the list cannot be read, the state Unknown is returned together with the error of writing
  it, which is nil when the write succeeds.
\<close>

definition reconcileWorkloads ::
    "'w Client \<Rightarrow> KeptnAppVersion \<Rightarrow> ('w, KeptnAppVersion \<times> KeptnState \<times> error option) prog" where
  "reconcileWorkloads cl appVersion = do {
     let workloads = as_Workloads (avs_AppSpec (av_Spec appVersion));
     let summary = new_summary (int (length workloads));
     r \<leftarrow> getWorkloadVersionList cl (om_Namespace (av_meta appVersion))
       (avs_AppName (av_Spec appVersion));
     case r of
       Inl err \<Rightarrow> do {
         (appVersion, err) \<leftarrow> handleUnaccessibleWorkloadVersionList cl appVersion;
         ret (appVersion, StateUnknown, err)
       }
     | Inr items \<Rightarrow> do {
         (newStatus, summary) \<leftarrow> reconcile_workload_refs appVersion items workloads [] summary;
         let overallState = GetOverallState summary;
         let appVersion = appVersion\<lparr>av_Status := (av_Status appVersion)
           \<lparr>avst_WorkloadOverallStatus := overallState, avst_WorkloadStatus := newStatus\<rparr>\<rparr>;
         r \<leftarrow> on_world (api_StatusUpdate (cl_AppVersion cl) appVersion);
         case r of
           Inl err \<Rightarrow> ret (appVersion, overallState, Some err)
         | Inr appVersion \<Rightarrow> ret (appVersion, overallState, None)
       }
   }"

section \<open>The reconciliation\<close>

definition closeFailedAppVersionSpan :: "KeptnAppVersion \<Rightarrow> Span \<Rightarrow> ('w, unit) prog" where
  "closeFailedAppVersionSpan appVersion spanAppTrace =
     (if avst_Status (av_Status appVersion) \<noteq> StateFailed then ret ()
      else do {
        span_call spanAppTrace (AddEvent (om_Name (av_meta appVersion) @ '' has failed'') None);
        span_call spanAppTrace (SetStatus CodeError ''Failed'');
        span_call spanAppTrace SpanEnd;
        _ \<leftarrow> UnbindSpan (Some AppVersion_SpanItem) appVersion [];
        Emit PhaseAppCompleted ''Warning'' (AppVersion_Event appVersion) PhaseStateFailed
          ''has failed'' (AppVersion_GetVersion appVersion)
      })"

definition finishKeptnAppVersionReconcile ::
    "'w Client \<Rightarrow> bool \<Rightarrow> KeptnAppVersion \<Rightarrow> Span \<Rightarrow> ('w, KeptnAppVersion \<times> outcome) prog" where
  "finishKeptnAppVersionReconcile cl promotionTasksEnabled appVersion spanAppTrace = do {
     now \<leftarrow> Now cl;
     let appVersion =
       (if \<not> AppVersion_IsEndTimeSet appVersion then
          AppVersion_SetEndTime now (appVersion\<lparr>av_Status := (av_Status appVersion)
            \<lparr>avst_CurrentPhase := ShortName PhaseCompleted, avst_Status := StateSucceeded\<rparr>\<rparr>)
        else appVersion);
     r \<leftarrow> on_world (api_StatusUpdate (cl_AppVersion cl) appVersion);
     case r of
       Inl err \<Rightarrow> ret (appVersion, requeue_now, Some err)
     | Inr appVersion \<Rightarrow> do {
         Emit PhaseAppCompleted ''Normal'' (AppVersion_Event appVersion) PhaseStateFinished
           ''has finished'' (AppVersion_GetVersion appVersion);
         let attrs = AppVersion_GetMetricsAttributes appVersion;
         (if promotionTasksEnabled \<and> AppVersion_IsPromotionCompleted appVersion \<and>
             AppVersion_GetPromotionTaskStatus appVersion \<noteq> [] then
            meter_call (CounterAdd ''keptn.promotion.count'' 1 attrs)
          else ret ());
         let duration = time_sub (avst_EndTime (av_Status appVersion))
           (avst_StartTime (av_Status appVersion));
         meter_call (HistogramRecord ''keptn.app.duration'' duration attrs);
         span_call spanAppTrace (AddEvent (om_Name (av_meta appVersion) @ '' has finished'') None);
         span_call spanAppTrace (SetStatus CodeOk ''Finished'');
         span_call spanAppTrace SpanEnd;
         _ \<leftarrow> UnbindSpan (Some AppVersion_SpanItem) appVersion [];
         ret (appVersion, no_requeue, None)
       }
   }"

text \<open>The context and the deferred function of \<^verbatim>\<open>setupSpansContexts\<close>.\<close>

definition av_trace_context :: "'w Client \<Rightarrow> KeptnAppVersion \<Rightarrow> Context" where
  "av_trace_context cl appVersion =
     WithAppMetadata (cl_Extract cl context_TODO (avs_TraceId (av_Spec appVersion)))
       [acs_Metadata (avs_ContextSpec (av_Spec appVersion))]"

definition av_completionFunc :: "KeptnAppVersion \<Rightarrow> ('w, unit) prog" where
  "av_completionFunc appVersion =
     (if AppVersion_IsEndTimeSet appVersion then
        meter_call (CounterAdd ''keptn.app.count'' 1 (AppVersion_GetMetricsAttributes appVersion))
      else ret ())"

definition getLinkedSpans :: "'w Client \<Rightarrow> KeptnAppVersion \<Rightarrow> Link list" where
  "getLinkedSpans cl appVersion =
     map (\<lambda>linkedSpan.
       (cl_Extract cl context_TODO (Some (fmap_of_list [(''traceparent'', linkedSpan)])),
        [(''opentracing.ref_type'', ''follows-from'')]))
     (acs_SpanLinks (avs_ContextSpec (av_Spec appVersion)))"

definition av_phase ::
    "'w Client \<Rightarrow> Context \<Rightarrow> KeptnPhaseType \<Rightarrow> (KeptnAppVersion \<Rightarrow> bool) \<Rightarrow>
     (Context \<Rightarrow> KeptnAppVersion \<Rightarrow> ('w, KeptnAppVersion \<times> KeptnState \<times> error option) prog) \<Rightarrow>
     (KeptnAppVersion \<Rightarrow> ('w, KeptnAppVersion \<times> outcome) prog) \<Rightarrow>
     KeptnAppVersion \<Rightarrow> ('w, KeptnAppVersion \<times> outcome) prog" where
  "av_phase cl ctxAppTrace currentPhase passed reconcile next appVersion =
     (if \<not> passed appVersion then do {
        (appVersion, result, err) \<leftarrow>
          HandlePhase cl (AppVersion_Kind cl) ctxAppTrace av_tracer appVersion currentPhase reconcile;
        if \<not> Continue result then ret (appVersion, pr_Result result, err)
        else next appVersion
      }
      else next appVersion)"

definition av_phases ::
    "'w Client \<Rightarrow> ControllerConfig \<Rightarrow> bool \<Rightarrow> Context \<Rightarrow> Span \<Rightarrow> KeptnAppVersion \<Rightarrow>
     ('w, KeptnAppVersion \<times> outcome) prog" where
  "av_phases cl cfg promotionTasksEnabled ctxAppTrace spanAppTrace =
     (let block = GetBlockDeployment cfg in
      av_phase cl ctxAppTrace PhaseAppPreDeployment
        (\<lambda>a. AppVersion_IsPreDeploymentSucceeded a block)
        (AppVersion_reconcilePhase cl cfg PreDeploymentCheckType)
      (av_phase cl ctxAppTrace PhaseAppPreEvaluation
        (\<lambda>a. AppVersion_IsPreDeploymentEvaluationSucceeded a block)
        (AppVersion_reconcilePrePostEvaluation cl cfg PreDeploymentEvaluationCheckType)
      (av_phase cl ctxAppTrace PhaseAppDeployment AppVersion_AreWorkloadsSucceeded
        (\<lambda>phaseCtx. reconcileWorkloads cl)
      (av_phase cl ctxAppTrace PhaseAppPostDeployment
        (\<lambda>a. AppVersion_IsPostDeploymentSucceeded a block)
        (AppVersion_reconcilePhase cl cfg PostDeploymentCheckType)
      (av_phase cl ctxAppTrace PhaseAppPostEvaluation
        (\<lambda>a. AppVersion_IsPostDeploymentEvaluationSucceeded a block)
        (AppVersion_reconcilePrePostEvaluation cl cfg PostDeploymentEvaluationCheckType)
      (av_phase cl ctxAppTrace PhasePromotion
        (\<lambda>a. \<not> (promotionTasksEnabled \<and> \<not> AppVersion_IsPromotionCompleted a))
        (AppVersion_reconcilePhase cl cfg PromotionCheckType)
      (\<lambda>a. finishKeptnAppVersionReconcile cl promotionTasksEnabled a spanAppTrace)))))))"

definition AppVersion_Reconcile ::
    "'w Client \<Rightarrow> ControllerConfig \<Rightarrow> bool \<Rightarrow> Request \<Rightarrow> ('w, outcome) prog" where
  "AppVersion_Reconcile cl cfg promotionTasksEnabled req = do {
     r \<leftarrow> on_world (api_Get (cl_AppVersion cl) (req_Namespace req) (req_Name req));
     case r of
       Inl err \<Rightarrow>
         if IsNotFound err then ret (no_requeue, None)
         else ret (no_requeue, Some (Wrapped ''could not retrieve KeptnappVersion: '' err))
     | Inr appVersion \<Rightarrow> do {
         now \<leftarrow> Now cl;
         let appVersion = AppVersion_SetStartTime now appVersion;
         let ctxAppTrace = av_trace_context cl appVersion;
         (appVersion, r) \<leftarrow> GetSpan cl ctxAppTrace av_tracer (Some AppVersion_SpanItem) appVersion []
           (getLinkedSpans cl appVersion);
         let (ctxAppTrace, spanAppTrace) = span_or_nil ctxAppTrace r;
         (if avst_CurrentPhase (av_Status appVersion) = [] then do {
            span_call spanAppTrace (SetAttributes (AppVersion_GetSpanAttributes appVersion));
            now \<leftarrow> Now cl;
            span_call spanAppTrace (AddEvent ''App Version Pre-Deployment Tasks started'' (Some now))
          }
          else ret ());
         (appVersion, out) \<leftarrow>
           av_phases cl cfg promotionTasksEnabled ctxAppTrace spanAppTrace appVersion;
         closeFailedAppVersionSpan appVersion spanAppTrace;
         av_completionFunc appVersion;
         ret out
       }
   }"

section \<open>The order of the phases\<close>

subsection \<open>The invariant\<close>

text \<open>
  The phases in order: a phase has begun only when the one before it may be passed, the workloads
  have succeeded only when each of them has, and the app version has succeeded only when its last
  evaluations may be passed and, with promotion tasks, its promotion is completed.
\<close>

definition av_order :: "bool \<Rightarrow> bool \<Rightarrow> KeptnAppVersion \<Rightarrow> bool" where
  "av_order b promo a \<longleftrightarrow> (let s = av_Status a in
     (begun (avst_PreDeploymentEvaluationStatus s) \<or> avst_PreDeploymentEvaluationTaskStatus s \<noteq> [] \<longrightarrow>
        state_ok b (avst_PreDeploymentStatus s)) \<and>
     (begun (avst_WorkloadOverallStatus s) \<or> avst_WorkloadStatus s \<noteq> [] \<longrightarrow>
        state_ok b (avst_PreDeploymentEvaluationStatus s)) \<and>
     (begun (avst_PostDeploymentStatus s) \<or> avst_PostDeploymentTaskStatus s \<noteq> [] \<longrightarrow>
        avst_WorkloadOverallStatus s = StateSucceeded) \<and>
     (begun (avst_PostDeploymentEvaluationStatus s) \<or>
      avst_PostDeploymentEvaluationTaskStatus s \<noteq> [] \<longrightarrow>
        state_ok b (avst_PostDeploymentStatus s)) \<and>
     (begun (avst_PromotionStatus s) \<or> avst_PromotionTaskStatus s \<noteq> [] \<longrightarrow>
        state_ok b (avst_PostDeploymentEvaluationStatus s)) \<and>
     (avst_Status s = StateSucceeded \<longrightarrow> state_ok b (avst_PostDeploymentEvaluationStatus s) \<and>
        (promo \<longrightarrow> IsCompleted (avst_PromotionStatus s))) \<and>
     (avst_WorkloadOverallStatus s = StateSucceeded \<longrightarrow>
        (\<forall>w\<in>set (avst_WorkloadStatus s). ws_Status w = StateSucceeded)))"

text \<open>An app version that the KeptnApp controller has deprecated as a whole.\<close>

definition av_deprecated :: "KeptnAppVersion \<Rightarrow> bool" where
  "av_deprecated a \<longleftrightarrow> avst_Status (av_Status a) = StateDeprecated \<and>
     avst_PreDeploymentStatus (av_Status a) = StateDeprecated"

definition av_inv :: "bool \<Rightarrow> bool \<Rightarrow> KeptnAppVersion \<Rightarrow> bool" where
  "av_inv b promo a \<longleftrightarrow> av_deprecated a \<or> av_order b promo a"

definition default_workload :: "WorkloadStatus \<Rightarrow> WorkloadStatus" where
  "default_workload w = w\<lparr>ws_Status := default_state (ws_Status w)\<rparr>"

definition default_av_status :: "KeptnAppVersionStatus \<Rightarrow> KeptnAppVersionStatus" where
  "default_av_status s = s
     \<lparr>avst_PreDeploymentStatus := default_state (avst_PreDeploymentStatus s),
      avst_PostDeploymentStatus := default_state (avst_PostDeploymentStatus s),
      avst_PromotionStatus := default_state (avst_PromotionStatus s),
      avst_PreDeploymentEvaluationStatus := default_state (avst_PreDeploymentEvaluationStatus s),
      avst_PostDeploymentEvaluationStatus := default_state (avst_PostDeploymentEvaluationStatus s),
      avst_WorkloadOverallStatus := default_state (avst_WorkloadOverallStatus s),
      avst_WorkloadStatus := map default_workload (avst_WorkloadStatus s),
      avst_PreDeploymentTaskStatus := map default_item (avst_PreDeploymentTaskStatus s),
      avst_PostDeploymentTaskStatus := map default_item (avst_PostDeploymentTaskStatus s),
      avst_PromotionTaskStatus := map default_item (avst_PromotionTaskStatus s),
      avst_PreDeploymentEvaluationTaskStatus :=
        map default_item (avst_PreDeploymentEvaluationTaskStatus s),
      avst_PostDeploymentEvaluationTaskStatus :=
        map default_item (avst_PostDeploymentEvaluationTaskStatus s),
      avst_Status := default_state (avst_Status s)\<rparr>"

definition av_stored :: "KeptnAppVersion \<Rightarrow> KeptnAppVersion \<Rightarrow> bool" where
  "av_stored y z \<longleftrightarrow> av_Status z = default_av_status (av_Status y)"

definition av_all_ok :: "bool \<Rightarrow> KeptnAppVersion \<Rightarrow> bool" where
  "av_all_ok b a \<longleftrightarrow> (let s = av_Status a in
     state_ok b (avst_PreDeploymentStatus s) \<and> state_ok b (avst_PreDeploymentEvaluationStatus s) \<and>
     avst_WorkloadOverallStatus s = StateSucceeded \<and>
     (\<forall>w\<in>set (avst_WorkloadStatus s). ws_Status w = StateSucceeded) \<and>
     state_ok b (avst_PostDeploymentStatus s) \<and> state_ok b (avst_PostDeploymentEvaluationStatus s))"

lemma av_order_all_ok:
  assumes "av_order b promo a" and "state_ok b (avst_PostDeploymentEvaluationStatus (av_Status a))"
  shows "av_all_ok b a"
proof -
  let ?s = "av_Status a"
  have post: "state_ok b (avst_PostDeploymentStatus ?s)"
    using assms begun_ok unfolding av_order_def Let_def by blast
  then have workloads: "avst_WorkloadOverallStatus ?s = StateSucceeded"
    using assms begun_ok unfolding av_order_def Let_def by blast
  then have eval: "state_ok b (avst_PreDeploymentEvaluationStatus ?s)"
    using assms unfolding av_order_def Let_def by (simp add: begun_def)
  then have "state_ok b (avst_PreDeploymentStatus ?s)"
    using assms begun_ok unfolding av_order_def Let_def by blast
  with post workloads eval assms show ?thesis
    unfolding av_order_def av_all_ok_def Let_def by blast
qed

text \<open>Where a phase cannot be passed, nothing after it has begun.\<close>

definition av_idle_promotion :: "KeptnAppVersionStatus \<Rightarrow> bool" where
  "av_idle_promotion s \<longleftrightarrow> \<not> begun (avst_PromotionStatus s) \<and> avst_PromotionTaskStatus s = []"

definition av_idle_post_eval :: "KeptnAppVersionStatus \<Rightarrow> bool" where
  "av_idle_post_eval s \<longleftrightarrow> \<not> begun (avst_PostDeploymentEvaluationStatus s) \<and>
     avst_PostDeploymentEvaluationTaskStatus s = [] \<and> av_idle_promotion s"

definition av_idle_post :: "KeptnAppVersionStatus \<Rightarrow> bool" where
  "av_idle_post s \<longleftrightarrow> \<not> begun (avst_PostDeploymentStatus s) \<and>
     avst_PostDeploymentTaskStatus s = [] \<and> av_idle_post_eval s"

definition av_idle_deploy :: "KeptnAppVersionStatus \<Rightarrow> bool" where
  "av_idle_deploy s \<longleftrightarrow> \<not> begun (avst_WorkloadOverallStatus s) \<and>
     avst_WorkloadStatus s = [] \<and> av_idle_post s"

definition av_idle_pre_eval :: "KeptnAppVersionStatus \<Rightarrow> bool" where
  "av_idle_pre_eval s \<longleftrightarrow> \<not> begun (avst_PreDeploymentEvaluationStatus s) \<and>
     avst_PreDeploymentEvaluationTaskStatus s = [] \<and> av_idle_deploy s"

lemmas av_idle_defs = av_idle_pre_eval_def av_idle_deploy_def av_idle_post_def
  av_idle_post_eval_def av_idle_promotion_def

lemma av_idle:
  assumes "av_order b promo a"
  shows "\<not> state_ok b (avst_PostDeploymentEvaluationStatus (av_Status a)) \<Longrightarrow>
      av_idle_promotion (av_Status a)"
    and "\<not> state_ok b (avst_PostDeploymentStatus (av_Status a)) \<Longrightarrow> av_idle_post_eval (av_Status a)"
    and "avst_WorkloadOverallStatus (av_Status a) \<noteq> StateSucceeded \<Longrightarrow> av_idle_post (av_Status a)"
    and "\<not> state_ok b (avst_PreDeploymentEvaluationStatus (av_Status a)) \<Longrightarrow>
      av_idle_deploy (av_Status a)"
    and "\<not> state_ok b (avst_PreDeploymentStatus (av_Status a)) \<Longrightarrow> av_idle_pre_eval (av_Status a)"
proof -
  let ?s = "av_Status a"
  show promotion: "av_idle_promotion ?s" if "\<not> state_ok b (avst_PostDeploymentEvaluationStatus ?s)"
    using that assms by (simp add: av_order_def av_idle_promotion_def Let_def)
  show post_eval: "av_idle_post_eval ?s" if "\<not> state_ok b (avst_PostDeploymentStatus ?s)"
  proof -
    have no: "\<not> begun (avst_PostDeploymentEvaluationStatus ?s)"
      "avst_PostDeploymentEvaluationTaskStatus ?s = []"
      using that assms by (simp_all add: av_order_def Let_def)
    then have "av_idle_promotion ?s" using promotion begun_ok by blast
    with no show ?thesis by (simp add: av_idle_post_eval_def)
  qed
  show post: "av_idle_post ?s" if "avst_WorkloadOverallStatus ?s \<noteq> StateSucceeded"
  proof -
    have no: "\<not> begun (avst_PostDeploymentStatus ?s)" "avst_PostDeploymentTaskStatus ?s = []"
      using that assms by (simp_all add: av_order_def Let_def)
    then have "av_idle_post_eval ?s" using post_eval begun_ok by blast
    with no show ?thesis by (simp add: av_idle_post_def)
  qed
  show deploy: "av_idle_deploy ?s" if "\<not> state_ok b (avst_PreDeploymentEvaluationStatus ?s)"
  proof -
    have no: "\<not> begun (avst_WorkloadOverallStatus ?s)" "avst_WorkloadStatus ?s = []"
      using that assms by (simp_all add: av_order_def Let_def)
    with post show ?thesis
      by (cases "avst_WorkloadOverallStatus ?s = StateSucceeded") (simp_all add: av_idle_deploy_def)
  qed
  show "av_idle_pre_eval ?s" if "\<not> state_ok b (avst_PreDeploymentStatus ?s)"
  proof -
    have no: "\<not> begun (avst_PreDeploymentEvaluationStatus ?s)"
      "avst_PreDeploymentEvaluationTaskStatus ?s = []"
      using that assms by (simp_all add: av_order_def Let_def)
    then have "av_idle_deploy ?s" using deploy begun_ok by blast
    with no show ?thesis by (simp add: av_idle_pre_eval_def)
  qed
qed

subsection \<open>App versions are phased objects\<close>

lemma IsCompleted_default [simp]: "IsCompleted (default_state k) \<longleftrightarrow> IsCompleted k"
  by (auto simp: default_state_def)

lemma av_order_stored: "av_stored y z \<Longrightarrow> av_order b promo z = av_order b promo y"
  by (simp add: av_order_def av_stored_def default_av_status_def default_workload_def Let_def)

lemma av_begun_status:
  assumes "phase_begun AppVersion_PhaseItem AppVersion_SpanItem phase a a1"
  shows "\<exists>p t. av_Status a1 = (av_Status a)\<lparr>avst_CurrentPhase := p, avst_PhaseTraceIDs := t\<rparr>"
proof -
  let ?a0 = "if avst_CurrentPhase (av_Status a) \<noteq> ShortName phase
    then AppVersion_SetCurrentPhase (ShortName phase) a else a"
  have a0: "av_Status ?a0 = (av_Status a)\<lparr>avst_CurrentPhase := ShortName phase\<rparr>"
    by (auto simp: AppVersion_SetCurrentPhase_def)
  from assms consider "a1 = ?a0" | c where "a1 = AppVersion_SetPhaseTraceID (ShortName phase) c ?a0"
    unfolding phase_begun_def trace_variant_def
    by (auto simp: AppVersion_PhaseItem_def AppVersion_SpanItem_def
        AppVersion_GetCurrentPhase_def split: if_splits)
  then show ?thesis
  proof cases
    case 1
    then have "av_Status a1 = (av_Status a)\<lparr>avst_CurrentPhase := ShortName phase,
        avst_PhaseTraceIDs := avst_PhaseTraceIDs (av_Status a)\<rparr>"
      by (simp only: a0) simp
    then show ?thesis by blast
  next
    case (2 c)
    then have "\<exists>t. av_Status a1 = (av_Status ?a0)\<lparr>avst_PhaseTraceIDs := t\<rparr>"
      by (simp only: AppVersion_SetPhaseTraceID_def) auto
    then show ?thesis by (auto simp only: a0)
  qed
qed

lemma av_begun_inv:
  assumes "phase_begun AppVersion_PhaseItem AppVersion_SpanItem phase a a1"
  shows "av_order b promo a1 = av_order b promo a"
    "avst_PreDeploymentStatus (av_Status a1) = avst_PreDeploymentStatus (av_Status a)"
    "avst_PreDeploymentEvaluationStatus (av_Status a1) =
       avst_PreDeploymentEvaluationStatus (av_Status a)"
    "avst_WorkloadOverallStatus (av_Status a1) = avst_WorkloadOverallStatus (av_Status a)"
    "avst_PostDeploymentStatus (av_Status a1) = avst_PostDeploymentStatus (av_Status a)"
    "avst_PostDeploymentEvaluationStatus (av_Status a1) =
       avst_PostDeploymentEvaluationStatus (av_Status a)"
    "avst_PromotionStatus (av_Status a1) = avst_PromotionStatus (av_Status a)"
    "avst_Status (av_Status a1) = avst_Status (av_Status a)"
  by (use av_begun_status [OF assms] in \<open>elim exE, simp add: av_order_def Let_def\<close>)+

lemma av_progress:
  "av_order b promo a \<Longrightarrow> av_order b promo (pi_SetState AppVersion_PhaseItem StateProgressing a)"
  by (simp add: av_order_def AppVersion_PhaseItem_def AppVersion_SetState_def Let_def)

interpretation ao: phased AppVersion_PhaseItem AppVersion_SpanItem "av_order b promo" any av_stored
  for b promo
  by unfold_locales (auto simp: av_order_stored av_begun_inv av_progress)

lemma av_defaulted_fields:
  "ao.defaulted (\<lambda>a. avst_PreDeploymentStatus (av_Status a))"
  "ao.defaulted (\<lambda>a. avst_PreDeploymentEvaluationStatus (av_Status a))"
  "ao.defaulted (\<lambda>a. avst_WorkloadOverallStatus (av_Status a))"
  "ao.defaulted (\<lambda>a. avst_PostDeploymentStatus (av_Status a))"
  "ao.defaulted (\<lambda>a. avst_PostDeploymentEvaluationStatus (av_Status a))"
  "ao.defaulted (\<lambda>a. avst_PromotionStatus (av_Status a))"
  by (simp_all add: ao.defaulted_def av_stored_def default_av_status_def)

lemma AppVersion_Kind_simps [simp]:
  "k_PhaseItem (AppVersion_Kind cl) = Some AppVersion_PhaseItem"
  "k_SpanItem (AppVersion_Kind cl) = Some AppVersion_SpanItem"
  "k_api (AppVersion_Kind cl) = cl_AppVersion cl"
  by (simp_all add: AppVersion_Kind_def)

lemmas maintains_av_phase = ao.maintains_phase
  [where kind = "AppVersion_Kind cl" for cl, OF AppVersion_Kind_simps(1,2),
   unfolded AppVersion_Kind_simps]

subsection \<open>Each phase keeps it\<close>

text \<open>The laws of the API server for app versions, under an invariant \<open>J\<close> of the world.\<close>

definition av_server :: "('w \<Rightarrow> bool) \<Rightarrow> 'w Client \<Rightarrow> bool \<Rightarrow> bool \<Rightarrow> bool" where
  "av_server J cl b promo \<longleftrightarrow>
     item_reads J cl \<and> item_creates J cl \<and> reads J (cl_WorkloadVersion cl) any \<and>
     reads J (cl_AppVersion cl) (av_inv b promo) \<and>
     writes J (api_StatusUpdate (cl_AppVersion cl)) (av_inv b promo) av_stored"

lemma writes_mono: "writes J upd W stored \<Longrightarrow> (\<And>y. V y \<Longrightarrow> W y) \<Longrightarrow> writes J upd V stored"
  by (simp add: writes_def)

lemma av_serverD:
  assumes "av_server J cl b promo"
  shows "item_reads J cl" "item_creates J cl" "ambient J cl" "reads J (cl_WorkloadVersion cl) any"
    "reads J (cl_AppVersion cl) (av_inv b promo)"
    "writes J (api_StatusUpdate (cl_AppVersion cl)) (av_order b promo) av_stored"
  using assms by (auto simp: av_server_def item_reads_def av_inv_def elim: writes_mono)

lemma maintains_av_tasks:
  assumes srv: "av_server J cl b promo" and cfg: "GetBlockDeployment cfg = b"
    and get: "ao.defaulted get"
    and inv: "\<And>st ns. av_order b promo (set_phase st ns a) \<and> get (set_phase st ns a) = st"
    and a: "av_order b promo a"
    and ct: "\<And>st ns. a\<lparr>av_Status := (if ct = PreDeploymentCheckType then
         (av_Status a)\<lparr>avst_PreDeploymentStatus := st, avst_PreDeploymentTaskStatus := ns\<rparr>
       else if ct = PostDeploymentCheckType then
         (av_Status a)\<lparr>avst_PostDeploymentStatus := st, avst_PostDeploymentTaskStatus := ns\<rparr>
       else if ct = PromotionCheckType then
         (av_Status a)\<lparr>avst_PromotionStatus := st, avst_PromotionTaskStatus := ns\<rparr>
       else av_Status a)\<rparr> = set_phase st ns a"
  shows "maintains J (AppVersion_reconcilePhase cl cfg ct ctx a)
    (\<lambda>(x, st, e). phase_ret (av_order b promo) any get (state_ok b) x st e)"
  unfolding AppVersion_reconcilePhase_def Let_def ct cfg
  by (rule ao.maintains_task_phase [OF av_serverD(1,2) [OF srv] AppVersion_Kind_simps(1)
        av_serverD(6) [OF srv] get a TrueI]) (use inv in simp)

lemma maintains_av_evaluations:
  assumes srv: "av_server J cl b promo" and cfg: "GetBlockDeployment cfg = b"
    and get: "ao.defaulted get"
    and inv: "\<And>st ns. av_order b promo (set_phase st ns a) \<and> get (set_phase st ns a) = st"
    and a: "av_order b promo a"
    and ct: "\<And>st ns. a\<lparr>av_Status := (if ct = PreDeploymentEvaluationCheckType then
         (av_Status a)\<lparr>avst_PreDeploymentEvaluationStatus := st,
           avst_PreDeploymentEvaluationTaskStatus := ns\<rparr>
       else if ct = PostDeploymentEvaluationCheckType then
         (av_Status a)\<lparr>avst_PostDeploymentEvaluationStatus := st,
           avst_PostDeploymentEvaluationTaskStatus := ns\<rparr>
       else av_Status a)\<rparr> = set_phase st ns a"
  shows "maintains J (AppVersion_reconcilePrePostEvaluation cl cfg ct ctx a)
    (\<lambda>(x, st, e). phase_ret (av_order b promo) any get (state_ok b) x st e)"
  unfolding AppVersion_reconcilePrePostEvaluation_def Let_def ct cfg
  by (rule ao.maintains_evaluation_phase [OF av_serverD(1,2) [OF srv] AppVersion_Kind_simps(1)
        av_serverD(6) [OF srv] get a TrueI]) (use inv in simp)

text \<open>The loop over the workloads: one status per workload, and the summary of them.\<close>

lemma maintains_workload_refs:
  assumes "sm = summarize (map ws_Status acc) (new_summary n)"
  shows "maintains J (reconcile_workload_refs a items ws acc sm) (\<lambda>(ns, sm').
    ns = acc @ map (\<lambda>w. \<lparr>ws_Workload = w, ws_Status = snd (lookup_workload items
      (getWorkloadVersionName (avs_AppName (av_Spec a)) (wr_Name w) (wr_Version w)))\<rparr>) ws \<and>
    sm' = summarize (map ws_Status ns) (new_summary n))"
  using assms
proof (induction ws arbitrary: acc sm)
  case Nil
  then show ?case by (simp add: maintains_ret)
next
  case (Cons w ws)
  obtain found st where st: "lookup_workload items (getWorkloadVersionName
      (avs_AppName (av_Spec a)) (wr_Name w) (wr_Version w)) = (found, st)"
    by fastforce
  have "maintains J (reconcile_workload_refs a items ws (acc @ [\<lparr>ws_Workload = w, ws_Status = st\<rparr>])
      (UpdateStatusSummary st sm)) (\<lambda>(ns, sm').
    ns = (acc @ [\<lparr>ws_Workload = w, ws_Status = st\<rparr>]) @ map (\<lambda>w. \<lparr>ws_Workload = w, ws_Status =
      snd (lookup_workload items
        (getWorkloadVersionName (avs_AppName (av_Spec a)) (wr_Name w) (wr_Version w)))\<rparr>) ws \<and>
    sm' = summarize (map ws_Status ns) (new_summary n))"
    using Cons.prems by (intro Cons.IH) (simp add: summarize_def)
  then show ?case
    by (auto simp: st intro!: maintains_bind [where R = any] maintain)
qed

lemma overall_workloads:
  assumes "int (length ws) = n"
  shows "GetOverallState (summarize (map ws_Status ws) (new_summary n)) = StateSucceeded \<Longrightarrow>
    w \<in> set ws \<Longrightarrow> ws_Status w = StateSucceeded"
  using overall_succeeded_iff [of "map ws_Status ws" n] assms by auto

lemma maintains_reconcileWorkloads:
  assumes srv: "av_server J cl b promo" and a: "av_order b promo a"
    and prev: "state_ok b (avst_PreDeploymentEvaluationStatus (av_Status a))"
    and no: "avst_WorkloadOverallStatus (av_Status a) \<noteq> StateSucceeded"
  shows "maintains J (reconcileWorkloads cl a) (\<lambda>(x, st, e). phase_ret (av_order b promo) any
    (\<lambda>a. avst_WorkloadOverallStatus (av_Status a)) (\<lambda>k. k = StateSucceeded) x st e)"
proof -
  let ?y = "\<lambda>st ns. a\<lparr>av_Status := (av_Status a)
    \<lparr>avst_WorkloadOverallStatus := st, avst_WorkloadStatus := ns\<rparr>\<rparr>"
  let ?ret = "phase_ret (av_order b promo) any
    (\<lambda>a. avst_WorkloadOverallStatus (av_Status a)) (\<lambda>k. k = StateSucceeded)"
  have y: "av_order b promo (?y st ns)"
    if "st = StateSucceeded \<Longrightarrow> \<forall>w\<in>set ns. ws_Status w = StateSucceeded" for st ns
    using that a prev av_idle(3) [OF a no] by (simp add: av_order_def av_idle_defs Let_def)
  have wr: "maintains J (do {
      r \<leftarrow> on_world (api_StatusUpdate (cl_AppVersion cl) (?y st ns));
      case r of Inl e \<Rightarrow> ret (?y st ns, st, Some e) | Inr z \<Rightarrow> ret (z, st, None) })
    (\<lambda>(x, st, e). ?ret x st e)"
    if ns: "st = StateSucceeded \<Longrightarrow> \<forall>w\<in>set ns. ws_Status w = StateSucceeded"
      and st: "st \<noteq> StateDeprecated" "st \<noteq> StateWarning" for st ns
  proof -
    note inv = y [OF ns]
    have "?ret z st None" if "av_stored (?y st ns) z" for z
      using that st inv av_order_stored [OF that]
      by (auto simp: phase_ret_def av_stored_def default_av_status_def IsCompleted_cases)
    then show ?thesis
      by (rule_tac maintains_bind, rule_tac maintains_write [OF av_serverD(6) [OF srv] inv])
        (auto intro!: maintain inv simp: phase_ret_def)
  qed
  have unknown: "maintains J (do { (x, e) \<leftarrow> handleUnaccessibleWorkloadVersionList cl a;
      ret (x, StateUnknown, e) }) (\<lambda>(x, st, e). ?ret x st e)"
  proof -
    let ?ns = "map (\<lambda>w. \<lparr>ws_Workload = w, ws_Status = StateUnknown\<rparr>)
      (as_Workloads (avs_AppSpec (av_Spec a)))"
    have inv: "av_order b promo (?y StateUnknown ?ns)" by (rule y) simp
    have "?ret z StateUnknown None" if "av_stored (?y StateUnknown ?ns) z" for z
      using that inv av_order_stored [OF that]
      by (auto simp: phase_ret_def av_stored_def default_av_status_def default_state_def)
    then have "maintains J (handleUnaccessibleWorkloadVersionList cl a)
        (\<lambda>(x, e). ?ret x StateUnknown e)"
      unfolding handleUnaccessibleWorkloadVersionList_def Let_def
      by (rule_tac maintains_bind, rule_tac maintains_write [OF av_serverD(6) [OF srv] inv])
        (auto intro!: maintain inv simp: phase_ret_def)
    then show ?thesis
      by (rule maintains_bind) (auto intro!: maintain)
  qed
  show ?thesis
    unfolding reconcileWorkloads_def Let_def getWorkloadVersionList_def
    by (rule maintains_bind, rule maintains_on_world, rule readsD(2) [OF av_serverD(4) [OF srv]],
        rule maintains_case_sum, rule unknown,
        rule maintains_bind, rule maintains_workload_refs [where n = "int (length
          (as_Workloads (avs_AppSpec (av_Spec a))))"], simp add: summarize_def)
      (auto intro!: maintains_case_prod wr simp: overall_never
        dest!: overall_workloads [rotated])
qed

lemmas av_failed_defs = phase_failed_def AppVersion_PhaseItem_def
  AppVersion_DeprecateRemainingPhases_def AppVersion_SetState_def
  AppVersion_Complete_def AppVersion_SetEndTime_def

text \<open>A failed phase leaves the phases after it deprecated and the object in order.\<close>

lemma av_order_failed:
  "phase_ret (av_order b promo) any (\<lambda>a. avst_PreDeploymentStatus (av_Status a)) pass x StateFailed None \<Longrightarrow>
     av_order b promo (phase_failed AppVersion_PhaseItem PhaseAppPreDeployment now x)"
  "phase_ret (av_order b promo) any (\<lambda>a. avst_PreDeploymentEvaluationStatus (av_Status a)) pass x StateFailed None \<Longrightarrow>
     av_order b promo (phase_failed AppVersion_PhaseItem PhaseAppPreEvaluation now x)"
  "phase_ret (av_order b promo) any (\<lambda>a. avst_WorkloadOverallStatus (av_Status a)) pass x StateFailed None \<Longrightarrow>
     av_order b promo (phase_failed AppVersion_PhaseItem PhaseAppDeployment now x)"
  "phase_ret (av_order b promo) any (\<lambda>a. avst_PostDeploymentStatus (av_Status a)) pass x StateFailed None \<Longrightarrow>
     av_order b promo (phase_failed AppVersion_PhaseItem PhaseAppPostDeployment now x)"
  "phase_ret (av_order b promo) any (\<lambda>a. avst_PostDeploymentEvaluationStatus (av_Status a)) pass x StateFailed None \<Longrightarrow>
     av_order b promo (phase_failed AppVersion_PhaseItem PhaseAppPostEvaluation now x)"
  "phase_ret (av_order b promo) any (\<lambda>a. avst_PromotionStatus (av_Status a)) pass x StateFailed None \<Longrightarrow>
     av_order b promo (phase_failed AppVersion_PhaseItem PhasePromotion now x)"
proof -
  note defs = av_failed_defs phase_defs Let_def av_order_def av_idle_defs
  show "av_order b promo (phase_failed AppVersion_PhaseItem PhaseAppPreDeployment now x)"
    if "phase_ret (av_order b promo) any (\<lambda>a. avst_PreDeploymentStatus (av_Status a)) pass x StateFailed None"
    using phase_ret_failed [OF that] av_idle(5) [OF phase_ret_failed(1) [OF that]] by (simp add: defs)
  show "av_order b promo (phase_failed AppVersion_PhaseItem PhaseAppPreEvaluation now x)"
    if "phase_ret (av_order b promo) any (\<lambda>a. avst_PreDeploymentEvaluationStatus (av_Status a)) pass x StateFailed None"
    using phase_ret_failed [OF that] av_idle(4) [OF phase_ret_failed(1) [OF that]] by (simp add: defs)
  show "av_order b promo (phase_failed AppVersion_PhaseItem PhaseAppDeployment now x)"
    if "phase_ret (av_order b promo) any (\<lambda>a. avst_WorkloadOverallStatus (av_Status a)) pass x StateFailed None"
    using phase_ret_failed [OF that] av_idle(3) [OF phase_ret_failed(1) [OF that]] by (simp add: defs)
  show "av_order b promo (phase_failed AppVersion_PhaseItem PhaseAppPostDeployment now x)"
    if "phase_ret (av_order b promo) any (\<lambda>a. avst_PostDeploymentStatus (av_Status a)) pass x StateFailed None"
    using phase_ret_failed [OF that] av_idle(2) [OF phase_ret_failed(1) [OF that]] by (simp add: defs)
  show "av_order b promo (phase_failed AppVersion_PhaseItem PhaseAppPostEvaluation now x)"
    if "phase_ret (av_order b promo) any (\<lambda>a. avst_PostDeploymentEvaluationStatus (av_Status a)) pass x StateFailed None"
    using phase_ret_failed [OF that] av_idle(1) [OF phase_ret_failed(1) [OF that]] by (simp add: defs)
  show "av_order b promo (phase_failed AppVersion_PhaseItem PhasePromotion now x)"
    if "phase_ret (av_order b promo) any (\<lambda>a. avst_PromotionStatus (av_Status a)) pass x StateFailed None"
    using phase_ret_failed [OF that] by (simp add: defs)
qed

lemmas av_succeeded_defs =
  AppVersion_IsPreDeploymentSucceeded_def AppVersion_IsPreDeploymentEvaluationSucceeded_def
  AppVersion_AreWorkloadsSucceeded_def AppVersion_IsPostDeploymentSucceeded_def
  AppVersion_IsPostDeploymentEvaluationSucceeded_def AppVersion_IsPromotionCompleted_def state_ok_def

text \<open>One phase and what follows it.\<close>

lemma maintains_av_step:
  assumes srv: "av_server J cl b promo" and a: "av_order b promo a"
    and get: "ao.defaulted get" and pass: "\<And>k. pass k \<Longrightarrow> pass (default_state k)"
    and skip: "passed a \<Longrightarrow> pass (get a)"
    and rec: "\<And>ctx x1. \<not> passed a \<Longrightarrow> av_order b promo x1 \<Longrightarrow>
      phase_begun AppVersion_PhaseItem AppVersion_SpanItem phase a x1 \<Longrightarrow>
      maintains J (rec ctx x1) (\<lambda>(x, st, e). phase_ret (av_order b promo) any get pass x st e)"
    and failed: "\<And>x now. phase_ret (av_order b promo) any get pass x StateFailed None \<Longrightarrow>
      av_order b promo (phase_failed AppVersion_PhaseItem phase now x)"
    and rest: "\<And>x. av_order b promo x \<Longrightarrow> pass (get x) \<Longrightarrow>
      maintains J (next x) (\<lambda>(x, _). av_order b promo x)"
  shows "maintains J (av_phase cl ctx phase passed rec next a) (\<lambda>(x, _). av_order b promo x)"
proof (cases "passed a")
  case True
  then show ?thesis using rest [OF a] skip by (simp add: av_phase_def)
next
  case False
  have "maintains J (HandlePhase cl (AppVersion_Kind cl) ctx av_tracer a phase rec)
    (phase_after (av_order b promo) get pass)"
    by (rule maintains_av_phase [OF av_serverD(3,6) [OF srv] a get])
      (use rec [OF False] failed pass in simp_all)
  then show ?thesis
    unfolding av_phase_def if_P [OF False]
    by (rule maintains_bind) (auto intro!: maintain rest simp: phase_after_def)
qed

lemma maintains_finish_av:
  assumes srv: "av_server J cl b promo" and a: "av_order b promo a"
    and last: "state_ok b (avst_PostDeploymentEvaluationStatus (av_Status a))"
    and promo: "promo \<longrightarrow> IsCompleted (avst_PromotionStatus (av_Status a))"
  shows "maintains J (finishKeptnAppVersionReconcile cl p a span) (\<lambda>(x, _). av_order b promo x)"
proof -
  let ?a = "\<lambda>now. if \<not> AppVersion_IsEndTimeSet a then
      AppVersion_SetEndTime now (a\<lparr>av_Status := (av_Status a)
        \<lparr>avst_CurrentPhase := ShortName PhaseCompleted, avst_Status := StateSucceeded\<rparr>\<rparr>) else a"
  have inv: "av_order b promo (?a now)" for now
    using a last promo by (simp add: av_order_def AppVersion_SetEndTime_def Let_def)
  have inv_z: "av_order b promo z" if "av_stored (?a now) z" for z now
    using av_order_stored [OF that, of b promo] inv by blast
  show ?thesis
    unfolding finishKeptnAppVersionReconcile_def Let_def
  proof (rule maintains_bind [where R = any], rule maintains_Now [OF av_serverD(3) [OF srv]], simp,
      rule maintains_bind, rule maintains_write [OF av_serverD(6) [OF srv] inv], rule maintains_case_sum,
      goal_cases failed stored)
    case (failed now r err)
    show ?case by (rule maintains_ret) (simp add: inv split del: if_split)
  next
    case (stored now r z)
    from stored have "av_stored (?a now) z" by blast
    from inv_z [OF this] show ?case
      by (intro maintains_bind [where R = any] maintain) simp_all
  qed
qed

subsection \<open>A whole reconciliation keeps it\<close>

lemma state_ok_completed: "state_ok b k \<Longrightarrow> IsCompleted k"
  by (auto simp: state_ok_def IsCompleted_cases)

lemma maintains_av_promotion:
  assumes srv: "av_server J cl b promo" and cfg: "GetBlockDeployment cfg = b"
    and a: "av_order b promo a"
    and prev: "state_ok b (avst_PostDeploymentEvaluationStatus (av_Status a))"
  shows "maintains J (av_phase cl ctx PhasePromotion
      (\<lambda>a. \<not> (promo \<and> \<not> AppVersion_IsPromotionCompleted a))
      (AppVersion_reconcilePhase cl cfg PromotionCheckType)
      (\<lambda>a. finishKeptnAppVersionReconcile cl promo a span) a) (\<lambda>(x, _). av_order b promo x)"
proof -
  let ?get = "\<lambda>a. avst_PromotionStatus (av_Status a)"
  let ?last = "\<lambda>x. state_ok b (avst_PostDeploymentEvaluationStatus (av_Status x))"
  let ?set = "\<lambda>st ns w. w\<lparr>av_Status := (av_Status w)\<lparr>avst_PromotionStatus := st, avst_PromotionTaskStatus := ns\<rparr>\<rparr>"
  have last: "?last x" if "av_order b promo x" "state_ok b (?get x)" for x
    using that(1) begun_ok [OF that(2)] by (simp add: av_order_def Let_def)
  show ?thesis
  proof (cases "promo \<and> \<not> AppVersion_IsPromotionCompleted a")
    case False
    then show ?thesis
      using maintains_finish_av [OF srv a prev]
      by (simp add: av_phase_def AppVersion_IsPromotionCompleted_def)
  next
    case True
    have rec: "maintains J (AppVersion_reconcilePhase cl cfg PromotionCheckType ctx x1)
        (\<lambda>(x, st, e). phase_ret (av_order b promo) any ?get (state_ok b) x st e)"
      if x1: "av_order b promo x1" "phase_begun AppVersion_PhaseItem AppVersion_SpanItem PhasePromotion a x1"
      for ctx x1
    proof (rule maintains_av_tasks [OF srv cfg av_defaulted_fields(6), where set_phase = ?set])
      have "avst_Status (av_Status x1) = StateSucceeded \<longrightarrow> \<not> promo"
        using x1(1) True av_begun_inv(7) [OF x1(2)]
        by (simp add: av_order_def AppVersion_IsPromotionCompleted_def Let_def)
      then show "av_order b promo (?set st ns x1) \<and> ?get (?set st ns x1) = st" for st ns
        using x1(1) prev av_begun_inv(6) [OF x1(2)] by (simp add: av_order_def Let_def)
    qed (simp_all add: x1)
    have rest: "maintains J (finishKeptnAppVersionReconcile cl promo x span) (\<lambda>(x, _). av_order b promo x)"
      if "av_order b promo x" "state_ok b (?get x)" for x
      using that by (intro maintains_finish_av [OF srv] last) (simp_all add: state_ok_completed)
    show ?thesis
    proof (rule maintains_av_step [OF srv a av_defaulted_fields(6) _ _ rec av_order_failed(6) rest])
      assume "\<not> (promo \<and> \<not> AppVersion_IsPromotionCompleted a)"
      with True show "state_ok b (?get a)" by simp
    qed simp_all
  qed
qed

lemma maintains_av_post_evaluation:
  assumes srv: "av_server J cl b promo" and cfg: "GetBlockDeployment cfg = b"
    and a: "av_order b promo a"
    and prev: "state_ok b (avst_PostDeploymentStatus (av_Status a))"
    and rest: "\<And>x. av_order b promo x \<Longrightarrow>
      state_ok b (avst_PostDeploymentEvaluationStatus (av_Status x)) \<Longrightarrow>
      maintains J (next x) (\<lambda>(x, _). av_order b promo x)"
  shows "maintains J (av_phase cl ctx PhaseAppPostEvaluation
      (\<lambda>a. AppVersion_IsPostDeploymentEvaluationSucceeded a b)
      (AppVersion_reconcilePrePostEvaluation cl cfg PostDeploymentEvaluationCheckType) next a)
      (\<lambda>(x, _). av_order b promo x)"
proof -
  let ?set = "\<lambda>st ns a. a\<lparr>av_Status := (av_Status a)\<lparr>avst_PostDeploymentEvaluationStatus := st,
    avst_PostDeploymentEvaluationTaskStatus := ns\<rparr>\<rparr>"
  show ?thesis
  proof (rule maintains_av_step [OF srv a av_defaulted_fields(5) _ _ _ av_order_failed(5) rest])
    fix ctx x1
    assume no: "\<not> AppVersion_IsPostDeploymentEvaluationSucceeded a b" and x1: "av_order b promo x1"
      and begun: "phase_begun AppVersion_PhaseItem AppVersion_SpanItem PhaseAppPostEvaluation a x1"
    then have no1: "\<not> state_ok b (avst_PostDeploymentEvaluationStatus (av_Status x1))"
      by (auto simp: av_begun_inv [OF begun] av_succeeded_defs split: if_splits)
    show "maintains J (AppVersion_reconcilePrePostEvaluation cl cfg PostDeploymentEvaluationCheckType ctx x1)
      (\<lambda>(x, st, e). phase_ret (av_order b promo) any
        (\<lambda>a. avst_PostDeploymentEvaluationStatus (av_Status a)) (state_ok b) x st e)"
      by (rule maintains_av_evaluations [OF srv cfg av_defaulted_fields(5), where set_phase = ?set])
        (use x1 no1 prev av_idle(1) [OF x1 no1] in
          \<open>simp_all add: av_begun_inv [OF begun] av_order_def av_idle_defs Let_def\<close>)
  qed (simp_all add: av_succeeded_defs split: if_splits)
qed

lemma maintains_av_post_deployment:
  assumes srv: "av_server J cl b promo" and cfg: "GetBlockDeployment cfg = b"
    and a: "av_order b promo a"
    and prev: "avst_WorkloadOverallStatus (av_Status a) = StateSucceeded"
    and rest: "\<And>x. av_order b promo x \<Longrightarrow> state_ok b (avst_PostDeploymentStatus (av_Status x)) \<Longrightarrow>
      maintains J (next x) (\<lambda>(x, _). av_order b promo x)"
  shows "maintains J (av_phase cl ctx PhaseAppPostDeployment
      (\<lambda>a. AppVersion_IsPostDeploymentSucceeded a b)
      (AppVersion_reconcilePhase cl cfg PostDeploymentCheckType) next a)
      (\<lambda>(x, _). av_order b promo x)"
proof -
  let ?set = "\<lambda>st ns a. a\<lparr>av_Status := (av_Status a)\<lparr>avst_PostDeploymentStatus := st,
    avst_PostDeploymentTaskStatus := ns\<rparr>\<rparr>"
  show ?thesis
  proof (rule maintains_av_step [OF srv a av_defaulted_fields(4) _ _ _ av_order_failed(4) rest])
    fix ctx x1
    assume no: "\<not> AppVersion_IsPostDeploymentSucceeded a b" and x1: "av_order b promo x1"
      and begun: "phase_begun AppVersion_PhaseItem AppVersion_SpanItem PhaseAppPostDeployment a x1"
    then have no1: "\<not> state_ok b (avst_PostDeploymentStatus (av_Status x1))"
      by (auto simp: av_begun_inv [OF begun] av_succeeded_defs split: if_splits)
    show "maintains J (AppVersion_reconcilePhase cl cfg PostDeploymentCheckType ctx x1)
      (\<lambda>(x, st, e). phase_ret (av_order b promo) any
        (\<lambda>a. avst_PostDeploymentStatus (av_Status a)) (state_ok b) x st e)"
      by (rule maintains_av_tasks [OF srv cfg av_defaulted_fields(4), where set_phase = ?set])
        (use x1 no1 prev av_idle(2) [OF x1 no1] in
          \<open>simp_all add: av_begun_inv [OF begun] av_order_def av_idle_defs Let_def\<close>)
  qed (simp_all add: av_succeeded_defs split: if_splits)
qed

lemma maintains_av_deployment:
  assumes srv: "av_server J cl b promo" and a: "av_order b promo a"
    and prev: "state_ok b (avst_PreDeploymentEvaluationStatus (av_Status a))"
    and rest: "\<And>x. av_order b promo x \<Longrightarrow> avst_WorkloadOverallStatus (av_Status x) = StateSucceeded \<Longrightarrow>
      maintains J (next x) (\<lambda>(x, _). av_order b promo x)"
  shows "maintains J (av_phase cl ctx PhaseAppDeployment AppVersion_AreWorkloadsSucceeded
      (\<lambda>phaseCtx. reconcileWorkloads cl) next a) (\<lambda>(x, _). av_order b promo x)"
proof (rule maintains_av_step [OF srv a av_defaulted_fields(3) _ _ _ av_order_failed(3) rest,
    where pass = "\<lambda>k. k = StateSucceeded"])
  fix ctx :: Context and x1
  assume no: "\<not> AppVersion_AreWorkloadsSucceeded a" and x1: "av_order b promo x1"
    and begun: "phase_begun AppVersion_PhaseItem AppVersion_SpanItem PhaseAppDeployment a x1"
  then show "maintains J (reconcileWorkloads cl x1) (\<lambda>(x, st, e). phase_ret (av_order b promo) any
      (\<lambda>a. avst_WorkloadOverallStatus (av_Status a)) (\<lambda>k. k = StateSucceeded) x st e)"
    using prev
    by (intro maintains_reconcileWorkloads [OF srv])
      (simp_all add: av_begun_inv [OF begun] AppVersion_AreWorkloadsSucceeded_def)
qed (simp_all add: AppVersion_AreWorkloadsSucceeded_def)

lemma maintains_av_pre_evaluation:
  assumes srv: "av_server J cl b promo" and cfg: "GetBlockDeployment cfg = b"
    and a: "av_order b promo a"
    and prev: "state_ok b (avst_PreDeploymentStatus (av_Status a))"
    and rest: "\<And>x. av_order b promo x \<Longrightarrow>
      state_ok b (avst_PreDeploymentEvaluationStatus (av_Status x)) \<Longrightarrow>
      maintains J (next x) (\<lambda>(x, _). av_order b promo x)"
  shows "maintains J (av_phase cl ctx PhaseAppPreEvaluation
      (\<lambda>a. AppVersion_IsPreDeploymentEvaluationSucceeded a b)
      (AppVersion_reconcilePrePostEvaluation cl cfg PreDeploymentEvaluationCheckType) next a)
      (\<lambda>(x, _). av_order b promo x)"
proof -
  let ?set = "\<lambda>st ns a. a\<lparr>av_Status := (av_Status a)\<lparr>avst_PreDeploymentEvaluationStatus := st,
    avst_PreDeploymentEvaluationTaskStatus := ns\<rparr>\<rparr>"
  show ?thesis
  proof (rule maintains_av_step [OF srv a av_defaulted_fields(2) _ _ _ av_order_failed(2) rest])
    fix ctx x1
    assume no: "\<not> AppVersion_IsPreDeploymentEvaluationSucceeded a b" and x1: "av_order b promo x1"
      and begun: "phase_begun AppVersion_PhaseItem AppVersion_SpanItem PhaseAppPreEvaluation a x1"
    then have no1: "\<not> state_ok b (avst_PreDeploymentEvaluationStatus (av_Status x1))"
      by (auto simp: av_begun_inv [OF begun] av_succeeded_defs split: if_splits)
    show "maintains J (AppVersion_reconcilePrePostEvaluation cl cfg PreDeploymentEvaluationCheckType ctx x1)
      (\<lambda>(x, st, e). phase_ret (av_order b promo) any
        (\<lambda>a. avst_PreDeploymentEvaluationStatus (av_Status a)) (state_ok b) x st e)"
      by (rule maintains_av_evaluations [OF srv cfg av_defaulted_fields(2), where set_phase = ?set])
        (use x1 no1 prev av_idle(4) [OF x1 no1] in
          \<open>simp_all add: av_begun_inv [OF begun] av_order_def av_idle_defs Let_def\<close>)
  qed (simp_all add: av_succeeded_defs split: if_splits)
qed

lemma maintains_av_pre_deployment:
  assumes srv: "av_server J cl b promo" and cfg: "GetBlockDeployment cfg = b"
    and a: "av_order b promo a"
    and rest: "\<And>x. av_order b promo x \<Longrightarrow> state_ok b (avst_PreDeploymentStatus (av_Status x)) \<Longrightarrow>
      maintains J (next x) (\<lambda>(x, _). av_order b promo x)"
  shows "maintains J (av_phase cl ctx PhaseAppPreDeployment
      (\<lambda>a. AppVersion_IsPreDeploymentSucceeded a b)
      (AppVersion_reconcilePhase cl cfg PreDeploymentCheckType) next a)
      (\<lambda>(x, _). av_order b promo x)"
proof -
  let ?set = "\<lambda>st ns a. a\<lparr>av_Status := (av_Status a)\<lparr>avst_PreDeploymentStatus := st,
    avst_PreDeploymentTaskStatus := ns\<rparr>\<rparr>"
  show ?thesis
  proof (rule maintains_av_step [OF srv a av_defaulted_fields(1) _ _ _ av_order_failed(1) rest])
    fix ctx x1
    assume no: "\<not> AppVersion_IsPreDeploymentSucceeded a b" and x1: "av_order b promo x1"
      and begun: "phase_begun AppVersion_PhaseItem AppVersion_SpanItem PhaseAppPreDeployment a x1"
    then have no1: "\<not> state_ok b (avst_PreDeploymentStatus (av_Status x1))"
      by (auto simp: av_begun_inv [OF begun] av_succeeded_defs split: if_splits)
    show "maintains J (AppVersion_reconcilePhase cl cfg PreDeploymentCheckType ctx x1)
      (\<lambda>(x, st, e). phase_ret (av_order b promo) any
        (\<lambda>a. avst_PreDeploymentStatus (av_Status a)) (state_ok b) x st e)"
      by (rule maintains_av_tasks [OF srv cfg av_defaulted_fields(1), where set_phase = ?set])
        (use x1 no1 av_idle(5) [OF x1 no1] in
          \<open>simp_all add: av_order_def av_idle_defs Let_def\<close>)
  qed (simp_all add: av_succeeded_defs split: if_splits)
qed

lemma maintains_av_phases:
  assumes srv: "av_server J cl b promo" and cfg: "GetBlockDeployment cfg = b" and a: "av_order b promo a"
  shows "maintains J (av_phases cl cfg promo ctx span a) (\<lambda>(x, _). av_order b promo x)"
  unfolding av_phases_def Let_def cfg
  by (intro maintains_av_pre_deployment [OF srv cfg] maintains_av_pre_evaluation [OF srv cfg]
      maintains_av_deployment [OF srv] maintains_av_post_deployment [OF srv cfg]
      maintains_av_post_evaluation [OF srv cfg] maintains_av_promotion [OF srv cfg] a)

section \<open>A failed or deprecated app version stays as it is\<close>

definition av_dead :: "bool \<Rightarrow> KeptnAppVersion \<Rightarrow> bool" where
  "av_dead b a \<longleftrightarrow> avst_Status (av_Status a) \<in> {StateFailed, StateDeprecated} \<and>
     (let s = av_Status a in \<not> (state_ok b (avst_PreDeploymentStatus s) \<and>
        state_ok b (avst_PreDeploymentEvaluationStatus s) \<and>
        avst_WorkloadOverallStatus s = StateSucceeded \<and>
        state_ok b (avst_PostDeploymentStatus s) \<and>
        state_ok b (avst_PostDeploymentEvaluationStatus s)))"

lemma av_deprecated_dead: "av_deprecated a \<Longrightarrow> av_dead b a"
  by (simp add: av_deprecated_def av_dead_def state_ok_def Let_def)

lemma av_phases_dead:
  assumes "av_dead (GetBlockDeployment cfg) a"
  shows "av_phases cl cfg promo ctx span a = ret (a, no_requeue, None)"
proof -
  have "shouldAbortPhase (pi_GetState AppVersion_PhaseItem a)"
    using assms by (simp add: av_dead_def shouldAbortPhase_def AppVersion_PhaseItem_def
        AppVersion_GetState_def) blast
  then have "HandlePhase cl (AppVersion_Kind cl) ctx av_tracer a phase rec =
      ret (a, \<lparr>Continue = False, pr_Result = no_requeue\<rparr>, None)" for phase rec
    by (simp add: HandlePhase_abort)
  with assms show ?thesis
    by (auto simp: av_phases_def av_phase_def av_dead_def av_succeeded_defs Let_def)
qed

lemma av_start_time [simp]:
  "av_dead b (AppVersion_SetStartTime t a) = av_dead b a"
  "av_order b promo (AppVersion_SetStartTime t a) = av_order b promo a"
  by (simp_all add: av_dead_def av_order_def AppVersion_SetStartTime_def Let_def)

lemma av_trace_empty: "trace_variant AppVersion_SpanItem [] a a' \<Longrightarrow> a' = a"
  by (simp add: trace_variant_def)

text \<open>
  What surrounds the phases keeps every invariant: a reconciliation keeps \<open>J\<close> when the phases do for
  the object that was read.
\<close>

lemma maintains_around_av_phases:
  assumes amb: "ambient J cl" and get: "reads J (cl_AppVersion cl) good"
    and phases: "\<And>a t ctx span. good a \<Longrightarrow>
      maintains J (av_phases cl cfg promo ctx span (AppVersion_SetStartTime t a)) any"
  shows "maintains J (AppVersion_Reconcile cl cfg promo req) any"
proof -
  have close: "maintains J (closeFailedAppVersionSpan x span) any" for x span
    unfolding closeFailedAppVersionSpan_def
    by (intro maintain maintains_bind [where R = any]) simp_all
  have compl: "maintains J (av_completionFunc x) any" for x
    unfolding av_completionFunc_def by (intro maintain) simp_all
  show ?thesis
    unfolding AppVersion_Reconcile_def Let_def
  proof (rule maintains_bind, rule maintains_on_world, rule readsD(1) [OF get],
      rule maintains_case_sum, goal_cases missing found)
    case (missing r err)
    show ?case by (intro maintain) simp_all
  next
    case (found r a)
    then have a: "good a" by simp
    show ?case
      by (rule maintains_bind [where R = any], rule maintains_Now [OF amb], simp,
          rule maintains_bind [OF maintains_GetSpan [OF amb]])
        (auto dest!: av_trace_empty intro!: maintains_bind [where R = any] maintains_if maintains_ret
          compl close maintains_Now [OF amb] maintains_span_call phases [OF a] maintains_case_prod
          split del: if_split)
  qed
qed

lemma maintains_AppVersion_Reconcile:
  assumes srv: "av_server J cl b promo" and cfg: "GetBlockDeployment cfg = b"
  shows "maintains J (AppVersion_Reconcile cl cfg promo req) any"
proof (rule maintains_around_av_phases [OF av_serverD(3,5) [OF srv]])
  fix a t ctx span
  assume "av_inv b promo a"
  then consider "av_dead b a" | "av_order b promo a"
    using av_deprecated_dead by (auto simp: av_inv_def)
  then show "maintains J (av_phases cl cfg promo ctx span (AppVersion_SetStartTime t a)) any"
  proof cases
    case 1
    then show ?thesis by (simp add: av_phases_dead cfg maintains_ret)
  next
    case 2
    then have "av_order b promo (AppVersion_SetStartTime t a)" by simp
    from maintains_av_phases [OF srv cfg this] show ?thesis
      by (rule maintains_conseq) simp
  qed
qed

lemma maintains_av_dead:
  assumes "ambient J cl" and "reads J (cl_AppVersion cl) (av_dead (GetBlockDeployment cfg))"
  shows "maintains J (AppVersion_Reconcile cl cfg promo req) any"
  by (rule maintains_around_av_phases [OF assms]) (simp add: av_phases_dead maintains_ret)

section \<open>The state of the workloads\<close>

text \<open>The inner loop finds the last workload version of the name, and Pending where there is none.\<close>

lemma lookup_workload_eq:
  "lookup_workload items name =
     (case find (\<lambda>i. om_Name (wv_meta i) = name) (rev items) of
        None \<Rightarrow> (False, StatePending)
      | Some i \<Rightarrow> (True, wvst_Status (wv_Status i)))"
  by (induction items rule: rev_induct) (auto simp: lookup_workload_def)

lemma lookup_workload_unique:
  assumes "distinct (map (\<lambda>i. om_Name (wv_meta i)) items)"
  shows "snd (lookup_workload items name) = StateSucceeded \<longleftrightarrow>
    (\<exists>i\<in>set items. om_Name (wv_meta i) = name \<and> wvst_Status (wv_Status i) = StateSucceeded)"
proof (cases "find (\<lambda>i. om_Name (wv_meta i) = name) (rev items)")
  case None
  then have "\<forall>i\<in>set items. om_Name (wv_meta i) \<noteq> name" by (auto simp: find_None_iff)
  with None show ?thesis by (simp add: lookup_workload_eq)
next
  case (Some i)
  then have i: "i \<in> set items" "om_Name (wv_meta i) = name"
    by (auto dest: find_SomeD)
  then have "j = i" if "j \<in> set items" "om_Name (wv_meta j) = name" for j
    using that assms unfolding distinct_map inj_on_def by metis
  with i have "(\<exists>j\<in>set items. om_Name (wv_meta j) = name \<and> wvst_Status (wv_Status j) = StateSucceeded)
    \<longleftrightarrow> wvst_Status (wv_Status i) = StateSucceeded"
    by blast
  with Some show ?thesis by (simp add: lookup_workload_eq)
qed

section \<open>Statements\<close>

lemma av_passed_iff:
  "AppVersion_IsPreDeploymentSucceeded a b \<longleftrightarrow> state_ok b (avst_PreDeploymentStatus (av_Status a))"
  "AppVersion_IsPreDeploymentEvaluationSucceeded a b \<longleftrightarrow>
     state_ok b (avst_PreDeploymentEvaluationStatus (av_Status a))"
  "AppVersion_AreWorkloadsSucceeded a \<longleftrightarrow> avst_WorkloadOverallStatus (av_Status a) = StateSucceeded"
  "AppVersion_IsPostDeploymentSucceeded a b \<longleftrightarrow> state_ok b (avst_PostDeploymentStatus (av_Status a))"
  "AppVersion_IsPostDeploymentEvaluationSucceeded a b \<longleftrightarrow>
     state_ok b (avst_PostDeploymentEvaluationStatus (av_Status a))"
  "AppVersion_IsPromotionCompleted a \<longleftrightarrow> IsCompleted (avst_PromotionStatus (av_Status a))"
  by (auto simp: av_succeeded_defs)

text \<open>
  C11: The state the app's deployment phase returns is Succeeded exactly when every workload of the
  app version has a workload version of its name that has succeeded; the names of the listed workload
  versions are distinct.
\<close>

theorem workloads_succeeded_iff:
  assumes "run_state (api_List (cl_WorkloadVersion cl) (om_Namespace (av_meta a))
      [(''spec.app'', avs_AppName (av_Spec a))]) (env_World s) = (Inr items, w1)"
    and "distinct (map (\<lambda>i. om_Name (wv_meta i)) items)"
    and "run_state (reconcileWorkloads cl a) s = ((a', state, err), s')"
  shows "state = StateSucceeded \<longleftrightarrow>
    (\<forall>w\<in>set (as_Workloads (avs_AppSpec (av_Spec a))). \<exists>i\<in>set items.
       om_Name (wv_meta i) = getWorkloadVersionName (avs_AppName (av_Spec a)) (wr_Name w) (wr_Version w) \<and>
       wvst_Status (wv_Status i) = StateSucceeded)"
proof -
  let ?ws = "as_Workloads (avs_AppSpec (av_Spec a))"
  let ?st = "\<lambda>w. snd (lookup_workload items
    (getWorkloadVersionName (avs_AppName (av_Spec a)) (wr_Name w) (wr_Version w)))"
  obtain ns sm s2 where refs: "run_state (reconcile_workload_refs a items ?ws []
      (new_summary (int (length ?ws)))) (s\<lparr>env_World := w1\<rparr>) = ((ns, sm), s2)" by (metis prod.collapse)
  have "maintains (\<lambda>w. True) (reconcile_workload_refs a items ?ws [] (new_summary (int (length ?ws))))
    (\<lambda>(ns, sm). ns = map (\<lambda>w. \<lparr>ws_Workload = w, ws_Status = ?st w\<rparr>) ?ws \<and>
      sm = summarize (map ws_Status ns) (new_summary (int (length ?ws))))"
    by (rule maintains_conseq, rule maintains_workload_refs [where n = "int (length ?ws)"])
      (simp_all add: summarize_def split: prod.splits)
  from maintainsD [OF this _ refs] have
    sm: "sm = summarize (map ?st ?ws) (new_summary (int (length ?ws)))" by (simp add: comp_def)
  have "state = GetOverallState sm"
    using assms(1,3) refs
    by (simp add: reconcileWorkloads_def getWorkloadVersionList_def env_simps Let_def
        split: prod.splits sum.splits)
  then have "state = StateSucceeded \<longleftrightarrow> (\<forall>w\<in>set ?ws. ?st w = StateSucceeded)"
    using overall_succeeded_iff [of "map ?st ?ws" "int (length ?ws)"] sm by simp
  then show ?thesis
    using lookup_workload_unique [OF assms(2)] by simp
qed

text \<open>
  An app version whose promotion has failed but whose failure was not stored, its other phases
  being passed, is finished by its next reconciliation: no phase is run, and it goes on to be marked
  as Succeeded while its end time is not set.
\<close>

theorem failed_promotion_finishes:
  assumes "av_all_ok (GetBlockDeployment cfg) a"
    and "avst_PromotionStatus (av_Status a) = StateFailed"
  shows "av_phases cl cfg True ctx span a = finishKeptnAppVersionReconcile cl True a span"
proof -
  let ?b = "GetBlockDeployment cfg"
  have "AppVersion_IsPreDeploymentSucceeded a ?b" "AppVersion_IsPreDeploymentEvaluationSucceeded a ?b"
    "AppVersion_AreWorkloadsSucceeded a" "AppVersion_IsPostDeploymentSucceeded a ?b"
    "AppVersion_IsPostDeploymentEvaluationSucceeded a ?b" "AppVersion_IsPromotionCompleted a"
    using assms by (simp_all add: av_passed_iff av_all_ok_def Let_def)
  then show ?thesis
    by (simp add: av_phases_def av_phase_def Let_def)
qed

end
