(* ===== verification/Keptn_App.thy ===== *)
theory Keptn_App
  imports App_Version
begin

text \<open>
  The controller of KeptnApps (\<^verbatim>\<open>controllers/lifecycle/keptnapp\<close>): it creates the KeptnAppVersion of
  the current generation of an app, and deprecates the app versions of the earlier generations.
\<close>

definition App_Event :: "KeptnApp \<Rightarrow> EventTarget" where
  "App_Event app = \<lparr>et_meta = a_meta app, et_EventAnnotations = Some (App_GetEventAnnotations app)\<rparr>"

section \<open>Operations\<close>

definition createAppVersion ::
    "'w Client \<Rightarrow> KeptnApp \<Rightarrow> KeptnAppContextSpec \<Rightarrow> error + KeptnAppVersion" where
  "createAppVersion cl app appContextSpec =
     (let previousVersion =
            (if as_Version (a_Spec app) \<noteq> a_CurrentVersion app then a_CurrentVersion app else []);
          appVersion = GenerateAppVersion app previousVersion;
          appVersion = appVersion\<lparr>av_Spec := (av_Spec appVersion)\<lparr>avs_ContextSpec := appContextSpec\<rparr>\<rparr>
      in case cl_SetControllerReference cl ''KeptnApp'' (a_meta app) (av_meta appVersion) of
           Inl err \<Rightarrow> Inl err
         | Inr meta \<Rightarrow> Inr (appVersion\<lparr>av_meta := meta\<rparr>))"

text \<open>The app version of an earlier generation \<open>i\<close> with the current version string.\<close>

definition revision_name :: "KeptnApp \<Rightarrow> int \<Rightarrow> string" where
  "revision_name app i = CreateResourceName MaxK8sObjectLength MinKeptnNameLen
     [om_Name (a_meta app), as_Version (a_Spec app), Hash i]"

text \<open>The body of the loop for one generation; \<open>lastResultErr\<close> is the last error so far.\<close>

definition deprecate_revision ::
    "'w Client \<Rightarrow> KeptnApp \<Rightarrow> int \<Rightarrow> error option \<Rightarrow> ('w, error option) prog" where
  "deprecate_revision cl app i lastResultErr = do {
     r \<leftarrow> on_world (api_Get (cl_AppVersion cl) (om_Namespace (a_meta app)) (revision_name app i));
     case r of
       Inl err \<Rightarrow> if \<not> IsNotFound err then ret (Some err) else ret lastResultErr
     | Inr deprecatedAppVersion \<Rightarrow>
         if \<not> IsDeprecated (avst_Status (av_Status deprecatedAppVersion)) then do {
           let deprecatedAppVersion =
             AppVersion_DeprecateRemainingPhases PhaseDeprecated deprecatedAppVersion;
           r \<leftarrow> on_world (api_StatusUpdate (cl_AppVersion cl) deprecatedAppVersion);
           case r of
             Inl err \<Rightarrow> ret (Some err)
           | Inr stored \<Rightarrow> ret lastResultErr
         }
         else ret lastResultErr
   }"

fun deprecate_revisions ::
    "'w Client \<Rightarrow> KeptnApp \<Rightarrow> int list \<Rightarrow> error option \<Rightarrow> ('w, error option) prog" where
  "deprecate_revisions cl app [] lastResultErr = ret lastResultErr"
| "deprecate_revisions cl app (i # is) lastResultErr = do {
     lastResultErr \<leftarrow> deprecate_revision cl app i lastResultErr;
     deprecate_revisions cl app is lastResultErr
   }"

definition deprecateAppVersions :: "'w Client \<Rightarrow> KeptnApp \<Rightarrow> ('w, error option) prog" where
  "deprecateAppVersions cl app =
     deprecate_revisions cl app (rev [1..om_Generation (a_meta app) - 1]) None"

definition handleGenerationBump :: "'w Client \<Rightarrow> KeptnApp \<Rightarrow> ('w, error option) prog" where
  "handleGenerationBump cl app =
     (if om_Generation (a_meta app) \<noteq> 1 then do {
        err \<leftarrow> deprecateAppVersions cl app;
        case err of
          Some e \<Rightarrow> do {
            Emit PhaseDeprecateAppVersion ''Warning'' (App_Event app) PhaseStateFailed
              (''could not deprecate outdated revisions of KeptnAppVersion: '' @ GetAppVersionName app)
              (as_Version (a_Spec app));
            ret (Some e)
          }
        | None \<Rightarrow> ret None
      }
      else ret None)"

text \<open>A KeptnAppContext that cannot be read is the empty one.\<close>

definition App_Reconcile :: "'w Client \<Rightarrow> Request \<Rightarrow> ('w, outcome) prog" where
  "App_Reconcile cl req = do {
     r \<leftarrow> on_world (api_Get (cl_App cl) (req_Namespace req) (req_Name req));
     case r of
       Inl err \<Rightarrow>
         if IsNotFound err then ret (no_requeue, None)
         else ret (no_requeue, Some (Wrapped ''could not retrieve KeptnApp: '' err))
     | Inr app \<Rightarrow> do {
         r \<leftarrow> on_world (api_Get (cl_AppVersion cl) (om_Namespace (a_meta app)) (GetAppVersionName app));
         case r of
           Inr appVersion \<Rightarrow> ret (no_requeue, None)
         | Inl err \<Rightarrow>
             if \<not> IsNotFound err then ret (no_requeue, Some err)
             else do {
               r \<leftarrow> on_world (api_Get (cl_AppContext cl) (om_Namespace (a_meta app)) (om_Name (a_meta app)));
               let appContextSpec = (case r of Inl err \<Rightarrow> zero_KeptnAppContextSpec | Inr c \<Rightarrow> ac_Spec c);
               case createAppVersion cl app appContextSpec of
                 Inl err \<Rightarrow> ret (no_requeue, Some err)
               | Inr appVersion \<Rightarrow> do {
                   r \<leftarrow> on_world (api_Create (cl_AppVersion cl) appVersion);
                   case r of
                     Inl err \<Rightarrow> do {
                       Emit PhaseCreateAppVersion ''Warning'' (AppVersion_Event appVersion)
                         PhaseStateFailed ''Could not create KeptnAppVersion''
                         (as_Version (avs_AppSpec (av_Spec appVersion)));
                       ret (no_requeue, Some err)
                     }
                   | Inr created \<Rightarrow> do {
                       r \<leftarrow> on_world (api_StatusUpdate (cl_App cl)
                         (app\<lparr>a_CurrentVersion := as_Version (a_Spec app)\<rparr>));
                       case r of
                         Inl err \<Rightarrow> ret (no_requeue, Some err)
                       | Inr app \<Rightarrow> do {
                           err \<leftarrow> handleGenerationBump cl app;
                           case err of
                             Some e \<Rightarrow> ret (requeue_now, None)
                           | None \<Rightarrow> ret (no_requeue, None)
                         }
                     }
                 }
             }
       }
   }"

section \<open>The earlier generations are deprecated\<close>

definition av_key :: "KeptnAppVersion \<Rightarrow> string \<times> string" where
  "av_key a = (om_Namespace (av_meta a), om_Name (av_meta a))"

abbreviation revision_key :: "KeptnApp \<Rightarrow> int \<Rightarrow> string \<times> string" where
  "revision_key app i \<equiv> (om_Namespace (a_meta app), revision_name app i)"

text \<open>At a key there is no app version, or one that is deprecated.\<close>

definition outdated :: "(string \<times> string \<Rightarrow> KeptnAppVersion option) \<Rightarrow> string \<times> string \<Rightarrow> bool" where
  "outdated m k \<longleftrightarrow> (\<forall>a. m k = Some a \<longrightarrow> avst_Status (av_Status a) = StateDeprecated)"

lemma deprecate_all_state:
  "avst_Status (av_Status (AppVersion_DeprecateRemainingPhases PhaseDeprecated a)) = StateDeprecated"
  "av_key (AppVersion_DeprecateRemainingPhases PhaseDeprecated a) = av_key a"
  by (simp_all add: AppVersion_DeprecateRemainingPhases_def av_key_def phase_defs Let_def)

lemma deprecate_revision_step:
  assumes srv: "serves objs av_key (cl_AppVersion cl) av_stored"
    and run: "run_state (deprecate_revision cl app i err) s = (err', s')"
  shows "(\<forall>k. outdated (objs (env_World s)) k \<longrightarrow> outdated (objs (env_World s')) k)"
    and "\<forall>k. k \<noteq> revision_key app i \<longrightarrow> objs (env_World s') k = objs (env_World s) k"
    and "err' = None \<Longrightarrow> err = None \<and> outdated (objs (env_World s')) (revision_key app i)"
proof -
  let ?k = "revision_key app i"
  obtain r w where get: "run_state (api_Get (cl_AppVersion cl) (om_Namespace (a_meta app))
      (revision_name app i)) (env_World s) = (r, w)" by fastforce
  have same: "objs w = objs (env_World s)" using servesD(1) [OF srv get] .
  have "(\<forall>k. outdated (objs (env_World s)) k \<longrightarrow> outdated (objs (env_World s')) k) \<and>
    (\<forall>k. k \<noteq> ?k \<longrightarrow> objs (env_World s') k = objs (env_World s) k) \<and>
    (err' = None \<longrightarrow> err = None \<and> outdated (objs (env_World s')) ?k)"
  proof (cases r)
    case (Inl e)
    with get run same servesD(3) [OF srv, of _ _ _ e w] show ?thesis
      by (auto simp: deprecate_revision_def env_simps outdated_def split: if_splits)
  next
    case (Inr a)
    then have a: "objs (env_World s) ?k = Some a" "av_key a = ?k"
      using servesD(2) [OF srv] get by auto
    show ?thesis
    proof (cases "IsDeprecated (avst_Status (av_Status a))")
      case True
      with Inr get run same a show ?thesis
        by (auto simp: deprecate_revision_def env_simps outdated_def)
    next
      case False
      let ?d = "AppVersion_DeprecateRemainingPhases PhaseDeprecated a"
      obtain u w2 where upd: "run_state (api_StatusUpdate (cl_AppVersion cl) ?d) w = (u, w2)"
        by fastforce
      have s': "env_World s' = w2" "err' = (case u of Inl e \<Rightarrow> Some e | Inr z \<Rightarrow> err)"
        using False Inr get run upd
        by (auto simp: deprecate_revision_def env_simps Let_def split: sum.splits)
      show ?thesis
      proof (cases u)
        case (Inl e)
        with s' same servesD(5) [OF srv] upd show ?thesis by auto
      next
        case (Inr z)
        have z: "objs w2 = (objs w)(?k \<mapsto> z)" "av_stored ?d z"
          using servesD(4) [OF srv] upd Inr a by (auto simp: deprecate_all_state)
        then have "avst_Status (av_Status z) = StateDeprecated"
          by (simp add: av_stored_def default_av_status_def deprecate_all_state)
        with z same s' Inr show ?thesis by (auto simp: outdated_def)
      qed
    qed
  qed
  then show "(\<forall>k. outdated (objs (env_World s)) k \<longrightarrow> outdated (objs (env_World s')) k)"
    and "\<forall>k. k \<noteq> ?k \<longrightarrow> objs (env_World s') k = objs (env_World s) k"
    and "err' = None \<Longrightarrow> err = None \<and> outdated (objs (env_World s')) ?k"
    by blast+
qed

lemma deprecate_revisions_all:
  assumes srv: "serves objs av_key (cl_AppVersion cl) av_stored"
    and run: "run_state (deprecate_revisions cl app is err) s = (err', s')"
  shows "(\<forall>k. outdated (objs (env_World s)) k \<longrightarrow> outdated (objs (env_World s')) k) \<and>
    (\<forall>k. k \<notin> revision_key app ` set is \<longrightarrow> objs (env_World s') k = objs (env_World s) k) \<and>
    (err' = None \<longrightarrow> err = None \<and> (\<forall>i\<in>set is. outdated (objs (env_World s')) (revision_key app i)))"
  using run
proof (induction "is" arbitrary: err s)
  case Nil
  then show ?case by auto
next
  case (Cons i "is")
  obtain err1 s1 where turn: "run_state (deprecate_revision cl app i err) s = (err1, s1)"
    and rest: "run_state (deprecate_revisions cl app is err1) s1 = (err', s')"
    using Cons.prems by (auto simp: env_simps split: prod.splits)
  show ?case
    using deprecate_revision_step [OF srv turn] Cons.IH [OF rest] by simp
qed

section \<open>The invariant of app versions\<close>

definition app_server :: "('w \<Rightarrow> bool) \<Rightarrow> 'w Client \<Rightarrow> bool \<Rightarrow> bool \<Rightarrow> bool" where
  "app_server J cl b promo \<longleftrightarrow> av_server J cl b promo \<and>
     reads J (cl_App cl) any \<and> reads J (cl_AppContext cl) any \<and>
     writes J (api_StatusUpdate (cl_App cl)) any (\<lambda>y. any) \<and>
     writes J (api_Create (cl_AppVersion cl)) (av_order b promo) (\<lambda>y. any)"

lemma app_serverD:
  assumes "app_server J cl b promo"
  shows "av_server J cl b promo" "reads J (cl_App cl) any" "reads J (cl_AppContext cl) any"
    "writes J (api_StatusUpdate (cl_App cl)) any (\<lambda>y. any)"
    "writes J (api_Create (cl_AppVersion cl)) (av_order b promo) (\<lambda>y. any)"
    "writes J (api_StatusUpdate (cl_AppVersion cl)) (av_inv b promo) av_stored"
  using assms by (auto simp: app_server_def av_server_def)

lemma maintains_write_any:
  assumes "writes J upd W stored" and "W y"
  shows "maintains J (on_world (upd y)) any"
  by (rule maintains_conseq [OF maintains_write [OF assms]]) simp

lemma created_order:
  assumes "createAppVersion cl app spec = Inr a"
  shows "av_order b promo a"
proof -
  have "av_Status a = zero_KeptnAppVersionStatus"
    using assms by (auto simp: createAppVersion_def GenerateAppVersion_def Let_def split: sum.splits)
  then show ?thesis
    by (simp add: av_order_def zero_KeptnAppVersionStatus_def begun_def Let_def)
qed

lemma deprecated_inv:
  "av_inv b promo (AppVersion_DeprecateRemainingPhases PhaseDeprecated a)"
  by (simp add: av_inv_def av_deprecated_def AppVersion_DeprecateRemainingPhases_def phase_defs Let_def)

lemma maintains_deprecate_revision:
  assumes "app_server J cl b promo"
  shows "maintains J (deprecate_revision cl app i err) any"
  unfolding deprecate_revision_def Let_def
  by (intro maintain maintains_bind [where R = any]
      maintains_api_Get [OF av_serverD(5) [OF app_serverD(1) [OF assms]]]
      maintains_write_any [OF app_serverD(6) [OF assms] deprecated_inv]) simp_all

lemma maintains_deprecate_revisions:
  assumes "app_server J cl b promo"
  shows "maintains J (deprecate_revisions cl app is err) any"
  by (induction "is" arbitrary: err)
    (auto intro!: maintain maintains_bind [OF maintains_deprecate_revision [OF assms]])

lemma maintains_handleGenerationBump:
  assumes "app_server J cl b promo"
  shows "maintains J (handleGenerationBump cl app) any"
  unfolding handleGenerationBump_def deprecateAppVersions_def
  by (intro maintain maintains_bind [where R = any] maintains_deprecate_revisions [OF assms]) simp_all

lemma maintains_App_Reconcile:
  assumes "app_server J cl b promo"
  shows "maintains J (App_Reconcile cl req) any"
  unfolding App_Reconcile_def
  by (intro maintain maintains_bind [where R = any] maintains_handleGenerationBump [OF assms]
      maintains_api_Get [OF app_serverD(2) [OF assms]]
      maintains_api_Get [OF app_serverD(3) [OF assms]]
      maintains_api_Get [OF av_serverD(5) [OF app_serverD(1) [OF assms]]]
      maintains_write_any [OF app_serverD(4) [OF assms]]
      maintains_write_any [OF app_serverD(5) [OF assms]])
    (auto intro: created_order)

section \<open>Statements\<close>

text \<open>
  C35: When deprecating the outdated revisions of an app ends without an error and nobody else writes
  app versions, every stored app version whose name is made of the app, its current version string and
  an earlier generation is deprecated.  Every other app version is as it was, also one of an earlier
  generation that was made for another version string.
\<close>

theorem outdated_revisions_deprecated:
  assumes "serves objs av_key (cl_AppVersion cl) av_stored"
    and "run_state (deprecateAppVersions cl app) s = (None, s')"
  shows "(\<forall>i a. 0 < i \<and> i < om_Generation (a_meta app) \<and>
      objs (env_World s') (revision_key app i) = Some a \<longrightarrow> avst_Status (av_Status a) = StateDeprecated) \<and>
    (\<forall>k. k \<notin> revision_key app ` {1..om_Generation (a_meta app) - 1} \<longrightarrow>
      objs (env_World s') k = objs (env_World s) k)"
  using deprecate_revisions_all [OF assms(1) assms(2) [unfolded deprecateAppVersions_def]]
  by (auto simp: outdated_def)

text \<open>
  An app whose current app version exists is left alone: the reconciliation only reads, and ends
  without a requeue.  So earlier generations whose deprecation failed when that app version was
  created are not tried again.
\<close>

theorem existing_app_version_not_revisited:
  assumes "run_state (api_Get (cl_App cl) (req_Namespace req) (req_Name req)) (env_World s) = (Inr app, w1)"
    and "run_state (api_Get (cl_AppVersion cl) (om_Namespace (a_meta app)) (GetAppVersionName app)) w1 =
      (Inr appVersion, w2)"
  shows "run_state (App_Reconcile cl req) s = ((no_requeue, None), s\<lparr>env_World := w2\<rparr>)"
  using assms by (simp add: App_Reconcile_def env_simps)

end
