(* ===== verification/Keptn_Workload.thy ===== *)
theory Keptn_Workload
  imports Workload_Version Keptn_App
begin

text \<open>
  The controller of KeptnWorkloads (\<^verbatim>\<open>controllers/lifecycle/keptnworkload\<close>): it creates the
  KeptnWorkloadVersion of the version of a workload, and copies later changes of the spec into it.
\<close>

section \<open>Operations\<close>

definition workload_version_name :: "KeptnWorkload \<Rightarrow> string" where
  "workload_version_name w = CreateResourceName MaxK8sObjectLength MinKeptnNameLen
     [om_Name (wk_meta w), wks_Version (wk_Spec w)]"

definition generateWorkloadVersion ::
    "string \<Rightarrow> (string, string) fmap \<Rightarrow> KeptnWorkload \<Rightarrow> KeptnWorkloadVersion" where
  "generateWorkloadVersion previousVersion traceContextCarrier w =
     \<lparr>wv_meta = (named_meta (workload_version_name w) (om_Namespace (wk_meta w)))
        \<lparr>om_Annotations := Some traceContextCarrier\<rparr>,
      wv_Spec = \<lparr>wvs_WorkloadSpec = wk_Spec w, wvs_WorkloadName = om_Name (wk_meta w),
        wvs_PreviousVersion = previousVersion, wvs_TraceId = None\<rparr>,
      wv_Status = zero_KeptnWorkloadVersionStatus\<rparr>"

definition createWorkloadVersion ::
    "'w Client \<Rightarrow> Context \<Rightarrow> KeptnWorkload \<Rightarrow> error + KeptnWorkloadVersion" where
  "createWorkloadVersion cl ctx workload =
     (let traceContextCarrier = cl_Inject cl ctx;
          previousVersion = (if wks_Version (wk_Spec workload) \<noteq> wk_CurrentVersion workload
            then wk_CurrentVersion workload else []);
          workloadVersion = generateWorkloadVersion previousVersion traceContextCarrier workload
      in case cl_SetControllerReference cl ''KeptnWorkload'' (wk_meta workload) (wv_meta workloadVersion) of
           Inl err \<Rightarrow> Inl err
         | Inr meta \<Rightarrow> Inr (workloadVersion\<lparr>wv_meta := meta\<rparr>))"

definition retry_after :: "int \<Rightarrow> Result" where
  "retry_after secs = \<lparr>Requeue = False, RequeueAfter = secs * second\<rparr>"

definition Workload_Reconcile :: "'w Client \<Rightarrow> Request \<Rightarrow> ('w, outcome) prog" where
  "Workload_Reconcile cl req = do {
     r \<leftarrow> on_world (api_Get (cl_Workload cl) (req_Namespace req) (req_Name req));
     case r of
       Inl err \<Rightarrow>
         if IsNotFound err then ret (no_requeue, None)
         else ret (no_requeue, Some (Wrapped ''could not retrieve KeptnWorkload: '' err))
     | Inr workload \<Rightarrow> do {
         let ctx = cl_Extract cl context_TODO (om_Annotations (wk_meta workload));
         r \<leftarrow> on_world (api_Get (cl_WorkloadVersion cl) (om_Namespace (wk_meta workload))
           (workload_version_name workload));
         case r of
           Inl err \<Rightarrow>
             if \<not> IsNotFound err then ret (retry_after 10, Some err)
             else
               (case createWorkloadVersion cl ctx workload of
                  Inl err \<Rightarrow> ret (no_requeue, Some err)
                | Inr workloadVersion \<Rightarrow> do {
                    r \<leftarrow> on_world (api_Create (cl_WorkloadVersion cl) workloadVersion);
                    case r of
                      Inl err \<Rightarrow> do {
                        Emit PhaseCreateWorkloadVersion ''Warning'' (WorkloadVersion_Event workloadVersion)
                          PhaseStateFailed ''could not create KeptnWorkloadVersion ''
                          (wks_Version (wvs_WorkloadSpec (wv_Spec workloadVersion)));
                        ret (retry_after 10, Some err)
                      }
                    | Inr created \<Rightarrow> do {
                        r \<leftarrow> on_world (api_StatusUpdate (cl_Workload cl)
                          (workload\<lparr>wk_CurrentVersion := wks_Version (wk_Spec workload)\<rparr>));
                        case r of
                          Inl err \<Rightarrow> ret (no_requeue, Some err)
                        | Inr stored \<Rightarrow> ret (no_requeue, None)
                      }
                  })
         | Inr workloadVersion \<Rightarrow>
             if wvs_WorkloadSpec (wv_Spec workloadVersion) \<noteq> wk_Spec workload then do {
               r \<leftarrow> on_world (api_Update (cl_WorkloadVersion cl) (workloadVersion\<lparr>wv_Spec :=
                 (wv_Spec workloadVersion)\<lparr>wvs_WorkloadSpec := wk_Spec workload\<rparr>\<rparr>));
               case r of
                 Inl err \<Rightarrow> ret (retry_after 10, Some err)
               | Inr stored \<Rightarrow> ret (no_requeue, None)
             }
             else ret (no_requeue, None)
       }
   }"

section \<open>The invariant of workload versions\<close>

definition workload_server :: "('w \<Rightarrow> bool) \<Rightarrow> 'w Client \<Rightarrow> bool \<Rightarrow> bool" where
  "workload_server J cl b \<longleftrightarrow> wv_server J cl b \<and> reads J (cl_Workload cl) any \<and>
     writes J (api_StatusUpdate (cl_Workload cl)) any (\<lambda>y. any) \<and>
     writes J (api_Create (cl_WorkloadVersion cl)) (wv_inv b) (\<lambda>y. any)"

lemma workload_serverD:
  assumes "workload_server J cl b"
  shows "wv_server J cl b" "reads J (cl_Workload cl) any"
    "writes J (api_StatusUpdate (cl_Workload cl)) any (\<lambda>y. any)"
    "writes J (api_Create (cl_WorkloadVersion cl)) (wv_inv b) (\<lambda>y. any)"
  using assms by (auto simp: workload_server_def)

lemma createWorkloadVersion_spec:
  assumes "createWorkloadVersion cl ctx w = Inr v"
  shows "wv_inv b v" and "wvs_WorkloadSpec (wv_Spec v) = wk_Spec w"
    and "wvs_WorkloadName (wv_Spec v) = om_Name (wk_meta w)"
proof -
  have "wv_Status v = zero_KeptnWorkloadVersionStatus"
    using assms by (auto simp: createWorkloadVersion_def generateWorkloadVersion_def Let_def
        split: sum.splits)
  then show "wv_inv b v"
    by (simp add: wv_inv_def zero_KeptnWorkloadVersionStatus_def begun_def Let_def)
  show "wvs_WorkloadSpec (wv_Spec v) = wk_Spec w" "wvs_WorkloadName (wv_Spec v) = om_Name (wk_meta w)"
    using assms by (auto simp: createWorkloadVersion_def generateWorkloadVersion_def Let_def
        split: sum.splits)
qed

lemma maintains_Workload_Reconcile:
  assumes srv: "workload_server J cl b"
  shows "maintains J (Workload_Reconcile cl req) any"
proof -
  note wv = workload_serverD(1) [OF srv]
  have inv: "wv_inv b (v\<lparr>wv_Spec := sp\<rparr>)" if "wv_inv b v" for v sp
    using that by (simp add: wv_inv_def)
  show ?thesis
    unfolding Workload_Reconcile_def Let_def
  proof (rule maintains_bind [where R = any], rule maintains_api_Get [OF workload_serverD(2) [OF srv]],
      rule maintains_case_sum, goal_cases missing found)
    case (missing r err)
    show ?case by (intro maintain) simp_all
  next
    case (found r workload)
    show ?case
      by (rule maintains_bind, rule maintains_on_world, rule readsD(1) [OF wv_serverD(9) [OF wv]])
        (auto intro!: maintain maintains_bind [where R = any] inv
          maintains_write_any [OF workload_serverD(3) [OF srv]]
          maintains_write_any [OF workload_serverD(4) [OF srv]]
          maintains_write_any [OF wv_serverD(11) [OF wv]] intro: createWorkloadVersion_spec(1))
  qed
qed

section \<open>Statements\<close>

definition wv_key :: "KeptnWorkloadVersion \<Rightarrow> string \<times> string" where
  "wv_key v = (om_Namespace (wv_meta v), om_Name (wv_meta v))"

text \<open>
  The laws of a server without interference for writes of whole objects: a created or updated object
  is stored at its key with its spec, and the workloads are kept apart.
\<close>

definition stores_specs ::
    "('w \<Rightarrow> string \<times> string \<Rightarrow> KeptnWorkloadVersion option) \<Rightarrow> 'w Client \<Rightarrow> bool" where
  "stores_specs objs cl \<longleftrightarrow>
     (\<forall>y w z w'. run_state (api_Create (cl_WorkloadVersion cl) y) w = (Inr z, w') \<or>
        run_state (api_Update (cl_WorkloadVersion cl) y) w = (Inr z, w') \<longrightarrow>
        (\<exists>v. objs w' (wv_key y) = Some v \<and> wv_Spec v = wv_Spec y)) \<and>
     (\<forall>y w. objs (snd (run_state (api_StatusUpdate (cl_Workload cl) y) w)) = objs w) \<and>
     (\<forall>kind owner meta meta'. cl_SetControllerReference cl kind owner meta = Inr meta' \<longrightarrow>
        om_Name meta' = om_Name meta \<and> om_Namespace meta' = om_Namespace meta)"

lemma createWorkloadVersion_key:
  assumes "createWorkloadVersion cl ctx w = Inr v" and "stores_specs objs cl"
  shows "wv_key v = (om_Namespace (wk_meta w), workload_version_name w)"
  using assms
  by (auto simp: createWorkloadVersion_def generateWorkloadVersion_def named_meta_def wv_key_def
      stores_specs_def Let_def split: sum.splits)

text \<open>The two ways to a workload version: one is created, or the one that exists is brought up to date.\<close>

lemma created_in_sync:
  assumes "run_state (api_Get (cl_Workload cl) (req_Namespace req) (req_Name req)) (env_World s) = (Inr workload, w1)"
    and "run_state (Workload_Reconcile cl req) s = ((result, None), s')" and "stores_specs objs cl"
    and "run_state (api_Get (cl_WorkloadVersion cl) (om_Namespace (wk_meta workload)) (workload_version_name workload)) w1 =
      (Inl err, w2)"
  shows "\<exists>v. objs (env_World s') (om_Namespace (wk_meta workload), workload_version_name workload) = Some v \<and>
    wvs_WorkloadSpec (wv_Spec v) = wk_Spec workload"
proof -
  note laws = assms(3) [unfolded stores_specs_def]
  obtain v where v: "createWorkloadVersion cl (cl_Extract cl context_TODO
      (om_Annotations (wk_meta workload))) workload = Inr v"
    using assms(1,2,4) by (auto simp: Workload_Reconcile_def env_simps Let_def split: sum.splits if_splits)
  obtain c w3 where create: "run_state (api_Create (cl_WorkloadVersion cl) v) w2 = (c, w3)" by fastforce
  obtain z where c: "c = Inr z"
    using assms(1,2,4) v create
    by (auto simp: Workload_Reconcile_def env_simps Let_def split: sum.splits if_splits prod.splits)
  have "env_World s' = snd (run_state (api_StatusUpdate (cl_Workload cl)
      (workload\<lparr>wk_CurrentVersion := wks_Version (wk_Spec workload)\<rparr>)) w3)"
    using assms(1,2,4) v create c
    by (auto simp: Workload_Reconcile_def env_simps Let_def split: sum.splits if_splits prod.splits)
  then have "objs (env_World s') = objs w3" using laws by simp
  moreover obtain v' where "objs w3 (wv_key v) = Some v'" "wv_Spec v' = wv_Spec v"
    using laws create c by blast
  ultimately show ?thesis
    using createWorkloadVersion_key [OF v assms(3)] createWorkloadVersion_spec(2) [OF v] by auto
qed

lemma updated_in_sync:
  assumes "run_state (api_Get (cl_Workload cl) (req_Namespace req) (req_Name req)) (env_World s) = (Inr workload, w1)"
    and "run_state (Workload_Reconcile cl req) s = ((result, None), s')" and "stores_specs objs cl"
    and "run_state (api_Get (cl_WorkloadVersion cl) (om_Namespace (wk_meta workload)) (workload_version_name workload)) w1 =
      (Inr v, w2)"
    and "objs w2 (wv_key v) = Some v"
    and "wv_key v = (om_Namespace (wk_meta workload), workload_version_name workload)"
  shows "\<exists>v. objs (env_World s') (om_Namespace (wk_meta workload), workload_version_name workload) = Some v \<and>
    wvs_WorkloadSpec (wv_Spec v) = wk_Spec workload"
proof (cases "wvs_WorkloadSpec (wv_Spec v) = wk_Spec workload")
  case True
  then have "env_World s' = w2"
    using assms(1,2,4) by (auto simp: Workload_Reconcile_def env_simps Let_def)
  with assms(5,6) True show ?thesis by simp
next
  case False
  let ?u = "v\<lparr>wv_Spec := (wv_Spec v)\<lparr>wvs_WorkloadSpec := wk_Spec workload\<rparr>\<rparr>"
  obtain c w3 where upd: "run_state (api_Update (cl_WorkloadVersion cl) ?u) w2 = (c, w3)" by fastforce
  then obtain z where c: "c = Inr z" and s': "env_World s' = w3"
    using assms(1,2,4) False by (auto simp: Workload_Reconcile_def env_simps Let_def split: sum.splits)
  have "\<exists>v'. objs w3 (wv_key ?u) = Some v' \<and> wv_Spec v' = wv_Spec ?u"
    using assms(3) [unfolded stores_specs_def] upd c by blast
  moreover have "wv_key ?u = wv_key v" by (simp add: wv_key_def)
  ultimately show ?thesis using s' assms(6) by auto
qed

text \<open>
  C37: When the reconciliation of a workload ends without an error, there is a workload version under
  the name of the workload and its version whose spec is the spec of the workload: it was created, it
  was brought up to date, or it was so already.
\<close>

theorem workload_version_in_sync:
  assumes "run_state (api_Get (cl_Workload cl) (req_Namespace req) (req_Name req)) (env_World s) =
      (Inr workload, w1)"
    and "run_state (Workload_Reconcile cl req) s = ((result, None), s')"
    and "serves objs wv_key (cl_WorkloadVersion cl) stored" and "stores_specs objs cl"
  shows "\<exists>v. objs (env_World s') (om_Namespace (wk_meta workload), workload_version_name workload) = Some v \<and>
    wvs_WorkloadSpec (wv_Spec v) = wk_Spec workload"
proof -
  obtain r w2 where get: "run_state (api_Get (cl_WorkloadVersion cl) (om_Namespace (wk_meta workload))
      (workload_version_name workload)) w1 = (r, w2)" by fastforce
  show ?thesis
  proof (cases r)
    case (Inl err)
    with created_in_sync [OF assms(1,2,4)] get show ?thesis by simp
  next
    case (Inr v)
    moreover from this have "objs w2 (wv_key v) = Some v"
      and "wv_key v = (om_Namespace (wk_meta workload), workload_version_name workload)"
      using servesD(1,2) [OF assms(3)] get by auto
    ultimately show ?thesis using updated_in_sync [OF assms(1,2,4)] get by simp
  qed
qed

end
