(* ===== verification/App_Creation.thy ===== *)
theory App_Creation
  imports Cluster "HOL-Library.List_Lexorder" "HOL-Library.Char_ord"
begin

text \<open>
  The controller of KeptnAppCreationRequests (\<^verbatim>\<open>controllers/lifecycle/keptnappcreationrequest\<close>): the
  apps that are created and kept up to date from the workloads that name them.
\<close>

section \<open>Operations\<close>

abbreviation managedByKeptn :: string where
  "managedByKeptn \<equiv> ''keptn''"

definition appIsManagedByKeptn :: "KeptnApp \<Rightarrow> bool" where
  "appIsManagedByKeptn keptnApp \<longleftrightarrow>
     gm_str (om_Labels (a_meta keptnApp)) K8sRecommendedManagedByAnnotations = managedByKeptn"

definition computeVersionFromWorkloads :: "KeptnWorkload list \<Rightarrow> string" where
  "computeVersionFromWorkloads workloads =
     (case workloads of
        [workload] \<Rightarrow> wks_Version (wk_Spec workload)
      | _ \<Rightarrow>
          (let versionString = concat (map (\<lambda>workload.
                 om_Name (wk_meta workload) @ ''-'' @ wks_Version (wk_Spec workload)) workloads)
           in TruncateString (sha256_hex versionString) 10))"

text \<open>
  One round of the loop over the workloads: the first reference of the name gets the version, or a
  reference is appended.
\<close>

fun set_ref_version ::
    "string \<Rightarrow> string \<Rightarrow> KeptnWorkloadRef list \<Rightarrow> (KeptnWorkloadRef list \<times> bool) option" where
  "set_ref_version name version [] = None"
| "set_ref_version name version (appWorkload # refs) =
     (if wr_Name appWorkload = name then
        (if wr_Version appWorkload \<noteq> version then
           Some (appWorkload\<lparr>wr_Version := version\<rparr> # refs, True)
         else Some (appWorkload # refs, False))
      else
        (case set_ref_version name version refs of
           None \<Rightarrow> None
         | Some (refs, updated) \<Rightarrow> Some (appWorkload # refs, updated)))"

definition add_or_update ::
    "KeptnWorkload \<Rightarrow> KeptnWorkloadRef list \<times> bool \<Rightarrow> KeptnWorkloadRef list \<times> bool" where
  "add_or_update workload = (\<lambda>(refs, updated).
     (let workloadName = GetNameWithoutAppPrefix workload;
          version = wks_Version (wk_Spec workload)
      in case set_ref_version workloadName version refs of
           Some (refs, changed) \<Rightarrow> (refs, updated \<or> changed)
         | None \<Rightarrow> (refs @ [\<lparr>wr_Name = workloadName, wr_Version = version\<rparr>], True)))"

definition addOrUpdateWorkloads :: "KeptnWorkload list \<Rightarrow> KeptnApp \<Rightarrow> KeptnApp \<times> bool" where
  "addOrUpdateWorkloads workloads keptnApp =
     (let (refs, updated) = fold add_or_update workloads (as_Workloads (a_Spec keptnApp), False)
      in (keptnApp\<lparr>a_Spec := (a_Spec keptnApp)\<lparr>as_Workloads := refs\<rparr>\<rparr>, updated))"

text \<open>
  The variable \<open>foundWorkload\<close> of the loop is never set, so every reference counts as an update.
\<close>

definition cleanupWorkloads :: "KeptnWorkload list \<Rightarrow> KeptnApp \<Rightarrow> KeptnApp \<times> bool" where
  "cleanupWorkloads workloads keptnApp =
     (let (updatedWorkloads, updated) =
            fold (\<lambda>appWorkload (updatedWorkloads, updated).
              (let updatedWorkloads =
                     (if \<exists>workload\<in>set workloads. wr_Name appWorkload = GetNameWithoutAppPrefix workload
                      then updatedWorkloads @ [appWorkload] else updatedWorkloads);
                   foundWorkload = False
               in (updatedWorkloads, if \<not> foundWorkload then True else updated)))
            (as_Workloads (a_Spec keptnApp)) ([], False)
      in (keptnApp\<lparr>a_Spec := (a_Spec keptnApp)\<lparr>as_Workloads := updatedWorkloads\<rparr>\<rparr>, updated))"

definition updateKeptnApp ::
    "'w Client \<Rightarrow> KeptnApp \<Rightarrow> KeptnWorkload list \<Rightarrow> ('w, error option) prog" where
  "updateKeptnApp cl keptnApp workloads =
     (let (keptnApp, addOrUpdatedWorkload) = addOrUpdateWorkloads workloads keptnApp;
          (keptnApp, removedWorkload) = cleanupWorkloads workloads keptnApp
      in if \<not> addOrUpdatedWorkload \<and> \<not> removedWorkload then ret None
         else do {
           r \<leftarrow> on_world (api_Update (cl_App cl) (keptnApp\<lparr>a_Spec :=
             (a_Spec keptnApp)\<lparr>as_Version := computeVersionFromWorkloads workloads\<rparr>\<rparr>));
           case r of Inl err \<Rightarrow> ret (Some err) | Inr stored \<Rightarrow> ret None
         })"

text \<open>The revision of a created app is the default of the schema, given by the server.\<close>

definition new_app :: "KeptnAppCreationRequest \<Rightarrow> KeptnWorkload list \<Rightarrow> KeptnApp" where
  "new_app creationRequest workloads =
     \<lparr>a_meta = (named_meta (cr_AppName creationRequest) (om_Namespace (cr_meta creationRequest)))
        \<lparr>om_Labels := Some (fmap_of_list [(K8sRecommendedManagedByAnnotations, managedByKeptn)]),
         om_Annotations := om_Annotations (cr_meta creationRequest)\<rparr>,
      a_Spec = \<lparr>as_Version = computeVersionFromWorkloads workloads, as_Revision = 0,
        as_Workloads = map (\<lambda>workload. \<lparr>wr_Name = trim_prefix (om_Name (wk_meta workload))
          (cr_AppName creationRequest @ ''-''), wr_Version = wks_Version (wk_Spec workload)\<rparr>) workloads\<rparr>,
      a_CurrentVersion = []\<rparr>"

definition createKeptnApp ::
    "'w Client \<Rightarrow> KeptnAppCreationRequest \<Rightarrow> KeptnWorkload list \<Rightarrow> ('w, error option) prog" where
  "createKeptnApp cl creationRequest workloads = do {
     r \<leftarrow> on_world (api_Create (cl_App cl) (new_app creationRequest workloads));
     case r of Inl err \<Rightarrow> ret (Some err) | Inr stored \<Rightarrow> ret None
   }"

text \<open>Names are unique in a namespace, so the unstable sort of the source is determined.\<close>

definition getWorkloads ::
    "'w Client \<Rightarrow> KeptnAppCreationRequest \<Rightarrow> ('w, error + KeptnWorkload list) prog" where
  "getWorkloads cl creationRequest = do {
     r \<leftarrow> on_world (api_List (cl_Workload cl) (om_Namespace (cr_meta creationRequest))
       [(''spec.app'', cr_AppName creationRequest)]);
     case r of
       Inl err \<Rightarrow> ret (Inl err)
     | Inr items \<Rightarrow> ret (Inr (sort_key (\<lambda>w. om_Name (wk_meta w)) items))
   }"

definition getCreationRequestExpirationDuration ::
    "ControllerConfig \<Rightarrow> time \<Rightarrow> KeptnAppCreationRequest \<Rightarrow> duration" where
  "getCreationRequestExpirationDuration cfg now cr =
     (let deadline = om_CreationTimestamp (cr_meta cr) + GetCreationRequestTimeout cfg;
          duration = time_sub deadline now
      in if duration \<ge> 0 then duration else 0)"

definition shouldCreateApp ::
    "'w Client \<Rightarrow> ControllerConfig \<Rightarrow> KeptnAppCreationRequest \<Rightarrow> ('w, bool) prog" where
  "shouldCreateApp cl cfg creationRequest =
     (if IsSingleService creationRequest then ret True
      else do {
        now \<leftarrow> Now cl;
        ret (now > om_CreationTimestamp (cr_meta creationRequest) + GetCreationRequestTimeout cfg)
      })"

definition delete_request :: "'w Client \<Rightarrow> KeptnAppCreationRequest \<Rightarrow> ('w, outcome) prog" where
  "delete_request cl creationRequest = do {
     _ \<leftarrow> on_world (api_Delete (cl_CreationRequest cl) creationRequest);
     ret (no_requeue, None)
   }"

definition create_or_update ::
    "'w Client \<Rightarrow> KeptnApp option \<Rightarrow> KeptnAppCreationRequest \<Rightarrow> ('w, outcome) prog" where
  "create_or_update cl found creationRequest = do {
     r \<leftarrow> getWorkloads cl creationRequest;
     case r of
       Inl err \<Rightarrow> ret (no_requeue, Some (Wrapped ''could not retrieve KeptnWorkloads: '' err))
     | Inr workloads \<Rightarrow> do {
         err \<leftarrow> (case found of
           None \<Rightarrow> createKeptnApp cl creationRequest workloads
         | Some keptnApp \<Rightarrow> updateKeptnApp cl keptnApp workloads);
         case err of
           Some e \<Rightarrow> ret (no_requeue, Some (Wrapped ''could not update: '' e))
         | None \<Rightarrow> delete_request cl creationRequest
       }
   }"

text \<open>\<open>found\<close> is the app, or \<^term>\<open>None\<close> when \<open>appFound\<close> is false.\<close>

definition CreationRequest_Reconcile ::
    "'w Client \<Rightarrow> ControllerConfig \<Rightarrow> Request \<Rightarrow> ('w, outcome) prog" where
  "CreationRequest_Reconcile cl cfg req = do {
     r \<leftarrow> on_world (api_Get (cl_CreationRequest cl) (req_Namespace req) (req_Name req));
     case r of
       Inl err \<Rightarrow>
         if IsNotFound err then ret (no_requeue, None)
         else ret (no_requeue, Some (Wrapped ''could not retrieve KeptnAppCreationRequest: '' err))
     | Inr creationRequest \<Rightarrow> do {
         r \<leftarrow> on_world (api_Get (cl_App cl) (req_Namespace req) (cr_AppName creationRequest));
         case (case r of
             Inl err \<Rightarrow> if IsNotFound err then Inr None else Inl err
           | Inr keptnApp \<Rightarrow> Inr (Some keptnApp)) of
           Inl err \<Rightarrow> ret (no_requeue, Some (Wrapped ''could not retrieve KeptnApp '' err))
         | Inr found \<Rightarrow>
             if (case found of None \<Rightarrow> False | Some keptnApp \<Rightarrow> \<not> appIsManagedByKeptn keptnApp) then
               delete_request cl creationRequest
             else do {
               create \<leftarrow> shouldCreateApp cl cfg creationRequest;
               if \<not> create then do {
                 now \<leftarrow> Now cl;
                 ret (\<lparr>Requeue = False, RequeueAfter =
                   getCreationRequestExpirationDuration cfg now creationRequest\<rparr>, None)
               }
               else create_or_update cl found creationRequest
             }
       }
   }"

section \<open>The references follow the workloads\<close>

definition ref_pairs :: "KeptnWorkloadRef list \<Rightarrow> (string \<times> string) list" where
  "ref_pairs refs = map (\<lambda>r. (wr_Name r, wr_Version r)) refs"

abbreviation ref_names :: "KeptnWorkloadRef list \<Rightarrow> string list" where
  "ref_names refs \<equiv> map wr_Name refs"

text \<open>As a map from names to versions, a round of the loop is an update.\<close>

lemma set_ref_version_None:
  "set_ref_version name version refs = None \<longleftrightarrow> name \<notin> set (ref_names refs)"
proof (induction refs)
  case (Cons r refs)
  then show ?case
    by (cases "wr_Name r = name"; cases "set_ref_version name version refs") auto
qed simp

lemma set_ref_version_map:
  "set_ref_version name version refs = Some (refs', c) \<Longrightarrow>
     map_of (ref_pairs refs') = (map_of (ref_pairs refs))(name \<mapsto> version) \<and>
     ref_names refs' = ref_names refs"
proof (induction refs arbitrary: refs')
  case Nil
  then show ?case by simp
next
  case (Cons r refs)
  show ?case
  proof (cases "wr_Name r = name")
    case True
    with Cons.prems have "refs' = r # refs \<and> wr_Version r = version \<or>
        refs' = r\<lparr>wr_Version := version\<rparr> # refs"
      by (cases "wr_Version r = version") simp_all
    with True show ?thesis by (elim disjE) (simp_all add: ref_pairs_def fun_eq_iff)
  next
    case False
    with Cons.prems obtain rs where "set_ref_version name version refs = Some (rs, c)" "refs' = r # rs"
      by (cases "set_ref_version name version refs") (simp_all split: prod.splits)
    with Cons.IH False show ?thesis
      by (simp add: ref_pairs_def fun_eq_iff)
  qed
qed

lemma map_of_ref_append:
  "name \<notin> set (ref_names refs) \<Longrightarrow>
   map_of (ref_pairs (refs @ [\<lparr>wr_Name = name, wr_Version = version\<rparr>])) =
     (map_of (ref_pairs refs))(name \<mapsto> version)"
  by (induction refs) (auto simp: ref_pairs_def)

lemma add_or_update_map:
  "map_of (ref_pairs (fst (add_or_update w acc))) =
     (map_of (ref_pairs (fst acc)))(GetNameWithoutAppPrefix w \<mapsto> wks_Version (wk_Spec w))"
  "distinct (ref_names (fst acc)) \<Longrightarrow> distinct (ref_names (fst (add_or_update w acc)))"
proof -
  let ?n = "GetNameWithoutAppPrefix w" and ?v = "wks_Version (wk_Spec w)"
  show "map_of (ref_pairs (fst (add_or_update w acc))) = (map_of (ref_pairs (fst acc)))(?n \<mapsto> ?v)"
    using set_ref_version_None [of ?n ?v "fst acc"] set_ref_version_map [of ?n ?v "fst acc"]
      map_of_ref_append [of ?n "fst acc" ?v]
    by (cases acc) (auto simp: add_or_update_def Let_def split: option.splits)
  show "distinct (ref_names (fst (add_or_update w acc)))" if "distinct (ref_names (fst acc))"
    using that set_ref_version_None [of ?n ?v "fst acc"] set_ref_version_map [of ?n ?v "fst acc"]
    by (cases acc) (auto simp: add_or_update_def Let_def split: option.splits)
qed

definition workload_versions :: "KeptnWorkload list \<Rightarrow> (string \<times> string) list" where
  "workload_versions ws = map (\<lambda>w. (GetNameWithoutAppPrefix w, wks_Version (wk_Spec w))) ws"

lemma fold_add_or_update:
  "map_of (ref_pairs (fst (fold add_or_update ws acc))) =
     map_of (ref_pairs (fst acc)) ++ map_of (rev (workload_versions ws))"
  by (induction ws arbitrary: acc)
    (simp_all add: add_or_update_map(1) workload_versions_def map_add_def fun_eq_iff
      split: option.splits)

lemma fold_add_or_update_distinct:
  "distinct (ref_names (fst acc)) \<Longrightarrow> distinct (ref_names (fst (fold add_or_update ws acc)))"
  by (induction ws arbitrary: acc) (simp_all add: add_or_update_map(2))

lemma cleanupWorkloads_eq:
  "cleanupWorkloads ws app =
     (app\<lparr>a_Spec := (a_Spec app)\<lparr>as_Workloads := filter (\<lambda>r. wr_Name r \<in> GetNameWithoutAppPrefix ` set ws)
        (as_Workloads (a_Spec app))\<rparr>\<rparr>, as_Workloads (a_Spec app) \<noteq> [])"
proof -
  have "fold (\<lambda>r (kept, updated). (if \<exists>w\<in>set ws. wr_Name r = GetNameWithoutAppPrefix w
      then kept @ [r] else kept, True)) refs (kept, updated) =
    (kept @ filter (\<lambda>r. wr_Name r \<in> GetNameWithoutAppPrefix ` set ws) refs, updated \<or> refs \<noteq> [])"
    for refs kept updated
    by (induction refs arbitrary: kept updated) auto
  from this [of "as_Workloads (a_Spec app)" "[]" False] show ?thesis
    unfolding cleanupWorkloads_def Let_def by simp
qed

lemma map_of_filter_refs:
  "map_of (ref_pairs (filter (\<lambda>r. wr_Name r \<in> N) refs)) = map_of (ref_pairs refs) |` N"
  by (induction refs) (auto simp: ref_pairs_def restrict_map_def fun_eq_iff)

lemma map_add_restrict_right: "(m ++ n) |` dom n = n"
  by (auto simp: restrict_map_def fun_eq_iff map_add_def split: option.splits)

text \<open>
  The references an app ends up with: as a map they are the workloads with their versions, and the
  names stay distinct.
\<close>

definition synced_refs :: "KeptnWorkload list \<Rightarrow> KeptnApp \<Rightarrow> KeptnWorkloadRef list" where
  "synced_refs ws app =
     as_Workloads (a_Spec (fst (cleanupWorkloads ws (fst (addOrUpdateWorkloads ws app)))))"

lemma synced_refs_map:
  "map_of (ref_pairs (synced_refs ws app)) = map_of (rev (workload_versions ws))"
proof -
  let ?N = "GetNameWithoutAppPrefix ` set ws"
  let ?refs = "fst (fold add_or_update ws (as_Workloads (a_Spec app), False))"
  have dom: "dom (map_of (rev (workload_versions ws))) = ?N"
    by (auto simp: dom_map_of_conv_image_fst workload_versions_def image_image)
  have "map_of (ref_pairs (synced_refs ws app)) = map_of (ref_pairs ?refs) |` ?N"
    by (simp add: synced_refs_def cleanupWorkloads_eq addOrUpdateWorkloads_def map_of_filter_refs
        split: prod.splits)
  also have "\<dots> = map_of (rev (workload_versions ws))"
    unfolding fold_add_or_update dom [symmetric] by (rule map_add_restrict_right)
  finally show ?thesis .
qed

lemma synced_refs_distinct:
  assumes "distinct (ref_names (as_Workloads (a_Spec app)))"
  shows "distinct (ref_names (synced_refs ws app))"
proof -
  have "distinct (ref_names (fst (fold add_or_update ws (as_Workloads (a_Spec app), False))))"
    using assms by (intro fold_add_or_update_distinct) simp
  then show ?thesis
    by (auto simp: synced_refs_def cleanupWorkloads_eq addOrUpdateWorkloads_def distinct_map_filter
        split: prod.splits)
qed

text \<open>With distinct names on both sides, the references are exactly the workloads.\<close>

lemma set_by_map:
  "distinct (map fst xs) \<Longrightarrow> distinct (map fst ys) \<Longrightarrow> map_of xs = map_of ys \<Longrightarrow> set xs = set ys"
  by (metis map_of_inject_set)

lemma synced_refs_set:
  assumes "distinct (ref_names (as_Workloads (a_Spec app)))"
    and "distinct (map GetNameWithoutAppPrefix ws)"
  shows "set (ref_pairs (synced_refs ws app)) = set (workload_versions ws)"
proof -
  have "map fst (workload_versions ws) = map GetNameWithoutAppPrefix ws"
    by (simp add: workload_versions_def)
  moreover have "map fst (ref_pairs (synced_refs ws app)) = ref_names (synced_refs ws app)"
    by (simp add: ref_pairs_def)
  ultimately show ?thesis
    using set_by_map [of "ref_pairs (synced_refs ws app)" "rev (workload_versions ws)"]
      synced_refs_distinct [OF assms(1)] assms(2) synced_refs_map [of ws app]
    by (simp flip: rev_map)
qed

section \<open>Statements\<close>

text \<open>
  C36: After an update from the workloads of an app, the references of the app are exactly the
  workloads with their current versions: none is missing, none is stale, none is left over; the names
  on either side are distinct.
\<close>

theorem app_refs_follow_workloads:
  assumes "distinct (map wr_Name (as_Workloads (a_Spec app)))"
    and "distinct (map GetNameWithoutAppPrefix ws)"
  shows "(\<lambda>r. (wr_Name r, wr_Version r)) `
      set (as_Workloads (a_Spec (fst (cleanupWorkloads ws (fst (addOrUpdateWorkloads ws app)))))) =
    (\<lambda>w. (GetNameWithoutAppPrefix w, wks_Version (wk_Spec w))) ` set ws"
  using synced_refs_set [OF assms] by (simp add: ref_pairs_def workload_versions_def synced_refs_def)

text \<open>
  For an app that does not carry the label of Keptn, a creation request is deleted and nothing
  else happens: the app is neither created nor updated, and there is no requeue.
\<close>

theorem user_app_untouched:
  assumes "run_state (api_Get (cl_CreationRequest cl) (req_Namespace req) (req_Name req)) (env_World s) =
      (Inr cr, w1)"
    and "run_state (api_Get (cl_App cl) (req_Namespace req) (cr_AppName cr)) w1 = (Inr app, w2)"
    and "\<not> appIsManagedByKeptn app"
  shows "run_state (CreationRequest_Reconcile cl cfg req) s =
    ((no_requeue, None),
     s\<lparr>env_World := snd (run_state (api_Delete (cl_CreationRequest cl) cr) w2)\<rparr>)"
  using assms
  by (simp add: CreationRequest_Reconcile_def delete_request_def env_simps split: prod.splits)

text \<open>
  Updating an app that lists a workload always writes the app: the update is skipped only for an
  app without references and without workloads, although it means to be skipped when nothing changed.
\<close>

theorem app_always_updated:
  "(\<not> snd (addOrUpdateWorkloads ws app) \<and>
    \<not> snd (cleanupWorkloads ws (fst (addOrUpdateWorkloads ws app)))) \<longleftrightarrow>
   as_Workloads (a_Spec app) = [] \<and> ws = []"
proof (cases ws)
  case Nil
  then show ?thesis by (simp add: addOrUpdateWorkloads_def cleanupWorkloads_eq)
next
  case (Cons w rest)
  have "GetNameWithoutAppPrefix w \<in> dom (map_of (ref_pairs (fst (fold add_or_update ws
      (as_Workloads (a_Spec app), False)))))"
    unfolding fold_add_or_update
    by (auto simp: Cons workload_versions_def dom_map_of_conv_image_fst)
  then have "fst (fold add_or_update ws (as_Workloads (a_Spec app), False)) \<noteq> []"
    by (auto simp: ref_pairs_def)
  then have "as_Workloads (a_Spec (fst (addOrUpdateWorkloads ws app))) \<noteq> []"
    by (cases "fold add_or_update ws (as_Workloads (a_Spec app), False)")
      (simp add: addOrUpdateWorkloads_def)
  with Cons show ?thesis by (simp add: cleanupWorkloads_eq)
qed

text \<open>
  Until the discovery deadline a creation request for several services is only requeued, for
  exactly the time left; after it, or for a single service, it is acted on.
\<close>

theorem creation_deadline:
  assumes "run_state (cl_Now cl) (env_World s) = (now, w1)"
    and "deadline = om_CreationTimestamp (cr_meta cr) + GetCreationRequestTimeout cfg"
    and "deadline - now \<le> max_duration"
  shows "(fst (run_state (shouldCreateApp cl cfg cr) s) \<longleftrightarrow> IsSingleService cr \<or> deadline < now) \<and>
    now + getCreationRequestExpirationDuration cfg now cr = max now deadline"
proof -
  have "max 0 (time_sub deadline now) = max 0 (deadline - now)"
    using assms(3) by (auto simp: time_sub_def min_duration_def max_duration_def max_def min_def)
  then show ?thesis
    using assms(1) by (auto simp: shouldCreateApp_def Now_def env_simps assms(2)
        getCreationRequestExpirationDuration_def Let_def max_def split: if_splits)
qed

end
