(* ===== verification/Memory_Server.thy ===== *)
theory Memory_Server
  imports Keptn_Workload App_Creation
begin

text \<open>
  An API server in memory, as an instance of the client that the controllers are proved for: every
  kind of object is a list in the world, and the clock advances by one at each reading.  It shows
  that the laws assumed of the API server can be met, and it runs the controllers on examples.
\<close>

section \<open>One kind of object\<close>

text \<open>
  A kind is given by the list of its objects in the world (\<open>get\<close>, \<open>set\<close>), the key of an object, the
  fields it can be selected by, what creating stores, and what the two updates store.
\<close>

definition mem_api ::
    "('w \<Rightarrow> 'o list) \<Rightarrow> ('o list \<Rightarrow> 'w \<Rightarrow> 'w) \<Rightarrow> ('o \<Rightarrow> string \<times> string) \<Rightarrow>
     ('o \<Rightarrow> (string \<times> string) list \<Rightarrow> bool) \<Rightarrow> ('o \<Rightarrow> 'o) \<Rightarrow> ('o \<Rightarrow> 'o \<Rightarrow> 'o) \<Rightarrow> ('o \<Rightarrow> 'o \<Rightarrow> 'o) \<Rightarrow>
     ('w, 'o) api" where
  "mem_api get put key selected created updated status_updated =
     (let find_key = (\<lambda>k w. find (\<lambda>x. key x = k) (get w));
          replace = (\<lambda>f y. State (\<lambda>w. case find_key (key y) w of
            None \<Rightarrow> (Inl (ApiNotFound ''not found''), w)
          | Some x \<Rightarrow> (Inr (f x y), put (map (\<lambda>z. if key z = key y then f x y else z) (get w)) w)))
      in \<lparr>api_Get = (\<lambda>ns n. State (\<lambda>w. case find_key (ns, n) w of
            None \<Rightarrow> (Inl (ApiNotFound ''not found''), w)
          | Some x \<Rightarrow> (Inr x, w))),
          api_List = (\<lambda>ns f. State (\<lambda>w. (Inr (filter (\<lambda>x. fst (key x) = ns \<and> selected x f) (get w)), w))),
          api_Create = (\<lambda>y. State (\<lambda>w. case find_key (key y) w of
            None \<Rightarrow> (Inr (created y), put (get w @ [created y]) w)
          | Some x \<Rightarrow> (Inl (ApiError ''already exists''), w))),
          api_Update = replace updated,
          api_StatusUpdate = replace status_updated,
          api_Delete = (\<lambda>y. State (\<lambda>w. (Inr (), put (filter (\<lambda>z. key z \<noteq> key y) (get w)) w)))\<rparr>)"

definition no_api :: "('w, 'o) api" where
  "no_api = mem_api (\<lambda>w. []) (\<lambda>xs w. w) (\<lambda>x. ([], [])) (\<lambda>x f. True) (\<lambda>x. x) (\<lambda>x y. y) (\<lambda>x y. y)"

text \<open>What reading and writing do to an invariant of the world.\<close>

lemma reads_mem:
  assumes "\<And>w x. J w \<Longrightarrow> x \<in> set (get w) \<Longrightarrow> good x"
  shows "reads J (mem_api get put key sel cr up st) good"
  using assms
  by (auto simp: reads_def call_keeps_def mem_api_def Let_def split: option.splits dest: find_SomeD)

lemma writes_mem_status:
  assumes "\<And>x y. W y \<Longrightarrow> stored y (st x y)"
    and "\<And>w x y. J w \<Longrightarrow> W y \<Longrightarrow> J (put (map (\<lambda>z. if key z = key y then st x y else z) (get w)) w)"
  shows "writes J (api_StatusUpdate (mem_api get put key sel cr up st)) W stored"
  using assms by (auto simp: writes_def call_keeps_def mem_api_def Let_def split: option.splits)

lemma writes_mem_update:
  assumes "\<And>w x y. J w \<Longrightarrow> x \<in> set (get w) \<Longrightarrow> W y \<Longrightarrow> stored y (up x y)"
    and "\<And>w x y. J w \<Longrightarrow> x \<in> set (get w) \<Longrightarrow> W y \<Longrightarrow>
      J (put (map (\<lambda>z. if key z = key y then up x y else z) (get w)) w)"
  shows "writes J (api_Update (mem_api get put key sel cr up st)) W stored"
  using assms
  by (auto simp: writes_def call_keeps_def mem_api_def Let_def split: option.splits dest!: find_SomeD)

lemma writes_mem_create:
  assumes "\<And>w y. J w \<Longrightarrow> W y \<Longrightarrow> J (put (get w @ [cr y]) w)"
  shows "writes J (api_Create (mem_api get put key sel cr up st)) W (\<lambda>y z. True)"
  using assms by (auto simp: writes_def call_keeps_def mem_api_def Let_def split: option.splits)

text \<open>What is stored after a write.\<close>

lemma find_map_replace:
  "key v = k \<Longrightarrow> find (\<lambda>z. key z = k') (map (\<lambda>z. if key z = k then v else z) xs) =
     (if k' = k then (if \<exists>z\<in>set xs. key z = k then Some v else None) else find (\<lambda>z. key z = k') xs)"
  by (induction xs) auto

lemma find_append_new: "find P xs = None \<Longrightarrow> P x \<Longrightarrow> find P (xs @ [x]) = Some x"
  by (induction xs) (auto split: if_splits)

lemma mem_created:
  assumes "run_state (api_Create (mem_api get put key sel cr up st) y) w = (Inr z, w')"
    and "\<And>xs w. get (put xs w) = xs" and "key (cr y) = key y"
  shows "z = cr y \<and> find (\<lambda>x. key x = key y) (get w') = Some (cr y)"
  using assms by (auto simp: mem_api_def Let_def find_append_new split: option.splits)

lemma mem_updated:
  assumes "run_state (api_Update (mem_api get put key sel cr up st) y) w = (Inr z, w')"
    and "\<And>xs w. get (put xs w) = xs" and "\<And>x. key x = key y \<Longrightarrow> key (up x y) = key y"
  shows "\<exists>x. z = up x y \<and> find (\<lambda>x. key x = key y) (get w') = Some z"
  using assms by (auto simp: mem_api_def Let_def find_map_replace split: option.splits dest!: find_SomeD)

lemma mem_status_updated:
  assumes "find (\<lambda>x. key x = key y) (get w) = Some x"
    and "\<And>xs w. get (put xs w) = xs" and "key (st x y) = key y"
  shows "\<exists>w'. run_state (api_StatusUpdate (mem_api get put key sel cr up st) y) w = (Inr (st x y), w') \<and>
    find (\<lambda>x. key x = key y) (get w') = Some (st x y) \<and> w' = put (get w') w"
  using assms by (auto simp: mem_api_def Let_def find_map_replace dest!: find_SomeD)

section \<open>The client\<close>

record memory =
  m_Apps :: "KeptnApp list"
  m_AppVersions :: "KeptnAppVersion list"
  m_AppContexts :: "KeptnAppContext list"
  m_CreationRequests :: "KeptnAppCreationRequest list"
  m_Workloads :: "KeptnWorkload list"
  m_WorkloadVersions :: "KeptnWorkloadVersion list"
  m_Tasks :: "KeptnTask list"
  m_TaskDefinitions :: "KeptnTaskDefinition list"
  m_Evaluations :: "KeptnEvaluation list"
  m_EvaluationDefinitions :: "KeptnEvaluationDefinition list"
  m_ReplicaSets :: "ReplicaSet list"
  m_Jobs :: "Job list"
  m_ConfigMaps :: "ConfigMap list"
  m_Pods :: "Pod list"
  m_Namespaces :: "Namespace list"
  m_Deployments :: "Deployment list"
  m_Metrics :: "((string \<times> string) \<times> KeptnMetric) list"
  m_Clock :: int
  m_Spans :: nat

definition empty_memory :: memory where
  "empty_memory = \<lparr>m_Apps = [], m_AppVersions = [], m_AppContexts = [], m_CreationRequests = [],
     m_Workloads = [], m_WorkloadVersions = [], m_Tasks = [], m_TaskDefinitions = [],
     m_Evaluations = [], m_EvaluationDefinitions = [], m_ReplicaSets = [], m_Jobs = [], m_ConfigMaps = [],
     m_Pods = [], m_Namespaces = [], m_Deployments = [], m_Metrics = [], m_Clock = 1, m_Spans = 0\<rparr>"

abbreviation meta_key :: "ObjectMeta \<Rightarrow> string \<times> string" where
  "meta_key m \<equiv> (om_Namespace m, om_Name m)"

definition mem_AppVersion :: "(memory, KeptnAppVersion) api" where
  "mem_AppVersion = mem_api m_AppVersions (\<lambda>xs. m_AppVersions_update (\<lambda>_. xs)) av_key (\<lambda>x f. True)
     (\<lambda>a. a\<lparr>av_Status := default_av_status zero_KeptnAppVersionStatus\<rparr>)
     (\<lambda>x y. y\<lparr>av_Status := av_Status x\<rparr>)
     (\<lambda>x y. x\<lparr>av_Status := default_av_status (av_Status y)\<rparr>)"

definition mem_WorkloadVersion :: "(memory, KeptnWorkloadVersion) api" where
  "mem_WorkloadVersion = mem_api m_WorkloadVersions (\<lambda>xs. m_WorkloadVersions_update (\<lambda>_. xs))
     (\<lambda>v. meta_key (wv_meta v))
     (\<lambda>v f. \<forall>a\<in>set f. a = (''spec.app'', wks_AppName (wvs_WorkloadSpec (wv_Spec v))) \<or>
        a = (''.spec.resourceReference.uid'', rr_UID (wks_ResourceReference (wvs_WorkloadSpec (wv_Spec v)))))
     (\<lambda>v. v\<lparr>wv_Status := default_wv_status zero_KeptnWorkloadVersionStatus\<rparr>)
     (\<lambda>x y. y\<lparr>wv_Status := wv_Status x\<rparr>)
     (\<lambda>x y. x\<lparr>wv_Status := default_wv_status (wv_Status y)\<rparr>)"

text \<open>
  A status is stored as it is written, with the default \<^verbatim>\<open>Pending\<close> of the definition of the resource in the
  place of an empty state; empty metadata are not sent.
\<close>

definition mem_Task :: "(memory, KeptnTask) api" where
  "mem_Task = mem_api m_Tasks (\<lambda>xs. m_Tasks_update (\<lambda>_. xs)) (\<lambda>x. meta_key (t_meta x)) (\<lambda>x f. True)
     (\<lambda>x. x) (\<lambda>x y. y\<lparr>t_Status := t_Status x\<rparr>)
     (\<lambda>x y. x\<lparr>t_Status := (t_Status y)\<lparr>tst_Status := default_state (tst_Status (t_Status y))\<rparr>\<rparr>)"

definition mem_Evaluation :: "(memory, KeptnEvaluation) api" where
  "mem_Evaluation = mem_api m_Evaluations (\<lambda>xs. m_Evaluations_update (\<lambda>_. xs)) (\<lambda>x. meta_key (e_meta x))
     (\<lambda>x f. True) (\<lambda>x. x) (\<lambda>x y. y\<lparr>e_Status := e_Status x\<rparr>)
     (\<lambda>x y. x\<lparr>e_Status := (e_Status y)\<lparr>est_OverallStatus := default_state (est_OverallStatus (e_Status y))\<rparr>\<rparr>)"

definition omit_empty :: "KeptnWorkload \<Rightarrow> KeptnWorkload" where
  "omit_empty x = (if gm_empty (wks_Metadata (wk_Spec x))
     then x\<lparr>wk_Spec := (wk_Spec x)\<lparr>wks_Metadata := None\<rparr>\<rparr> else x)"

definition mem_Workload :: "(memory, KeptnWorkload) api" where
  "mem_Workload = mem_api m_Workloads (\<lambda>xs. m_Workloads_update (\<lambda>_. xs)) (\<lambda>x. meta_key (wk_meta x))
     (\<lambda>x f. \<forall>a\<in>set f. a = (''spec.app'', wks_AppName (wk_Spec x))) omit_empty
     (\<lambda>x y. omit_empty (y\<lparr>wk_CurrentVersion := wk_CurrentVersion x\<rparr>))
     (\<lambda>x y. x\<lparr>wk_CurrentVersion := wk_CurrentVersion y\<rparr>)"

definition mem_Metric :: "(memory, KeptnMetric) api" where
  "mem_Metric = no_api\<lparr>api_Get := (\<lambda>ns n. State (\<lambda>w. (case map_of (m_Metrics w) (ns, n) of
     None \<Rightarrow> Inl (ApiNotFound ''not found'') | Some x \<Rightarrow> Inr x, w)))\<rparr>"

definition mem_client :: "memory Client" where
  "mem_client =
     \<lparr>cl_App = mem_api m_Apps (\<lambda>xs. m_Apps_update (\<lambda>_. xs)) (\<lambda>x. meta_key (a_meta x)) (\<lambda>x f. True)
        (\<lambda>x. x) (\<lambda>x y. y) (\<lambda>x y. y),
      cl_AppVersion = mem_AppVersion,
      cl_AppContext = mem_api m_AppContexts (\<lambda>xs. m_AppContexts_update (\<lambda>_. xs))
        (\<lambda>x. meta_key (ac_meta x)) (\<lambda>x f. True) (\<lambda>x. x) (\<lambda>x y. y) (\<lambda>x y. y),
      cl_CreationRequest = mem_api m_CreationRequests (\<lambda>xs. m_CreationRequests_update (\<lambda>_. xs))
        (\<lambda>x. meta_key (cr_meta x)) (\<lambda>x f. True) (\<lambda>x. x) (\<lambda>x y. y) (\<lambda>x y. y),
      cl_Workload = mem_Workload,
      cl_WorkloadVersion = mem_WorkloadVersion,
      cl_Task = mem_Task,
      cl_TaskDefinition = mem_api m_TaskDefinitions (\<lambda>xs. m_TaskDefinitions_update (\<lambda>_. xs))
        (\<lambda>x. meta_key (td_meta x)) (\<lambda>x f. True) (\<lambda>x. x) (\<lambda>x y. y\<lparr>td_ConfigMap := td_ConfigMap x\<rparr>)
        (\<lambda>x y. x\<lparr>td_ConfigMap := td_ConfigMap y\<rparr>),
      cl_Evaluation = mem_Evaluation,
      cl_EvaluationDefinition = mem_api m_EvaluationDefinitions
        (\<lambda>xs. m_EvaluationDefinitions_update (\<lambda>_. xs))
        (\<lambda>x. meta_key (ed_meta x)) (\<lambda>x f. True) (\<lambda>x. x) (\<lambda>x y. y) (\<lambda>x y. y),
      cl_Metric = mem_Metric,
      cl_ReplicaSet = mem_api m_ReplicaSets (\<lambda>xs. m_ReplicaSets_update (\<lambda>_. xs))
        (\<lambda>x. meta_key (repl_meta x)) (\<lambda>x f. True) (\<lambda>x. x) (\<lambda>x y. y) (\<lambda>x y. y),
      cl_StatefulSet = no_api, cl_DaemonSet = no_api, cl_Rollout = no_api,
      cl_Job = mem_api m_Jobs (\<lambda>xs. m_Jobs_update (\<lambda>_. xs)) (\<lambda>x. meta_key (j_meta x)) (\<lambda>x f. True)
        (\<lambda>x. x) (\<lambda>x y. y) (\<lambda>x y. y),
      cl_ConfigMap = mem_api m_ConfigMaps (\<lambda>xs. m_ConfigMaps_update (\<lambda>_. xs)) (\<lambda>x. meta_key (cm_meta x))
        (\<lambda>x f. True) (\<lambda>x. x) (\<lambda>x y. y) (\<lambda>x y. y),
      cl_Pod = mem_api m_Pods (\<lambda>xs. m_Pods_update (\<lambda>_. xs)) (\<lambda>x. meta_key (pod_meta x)) (\<lambda>x f. True)
        (\<lambda>x. x) (\<lambda>x y. y) (\<lambda>x y. y),
      cl_Namespace = mem_api m_Namespaces (\<lambda>xs. m_Namespaces_update (\<lambda>_. xs))
        (\<lambda>x. ([], om_Name (nsp_meta x))) (\<lambda>x f. True) (\<lambda>x. x) (\<lambda>x y. y) (\<lambda>x y. y),
      cl_Deployment = mem_api m_Deployments (\<lambda>xs. m_Deployments_update (\<lambda>_. xs))
        (\<lambda>x. meta_key (dep_meta x)) (\<lambda>x f. True) (\<lambda>x. x) (\<lambda>x y. y) (\<lambda>x y. y),
      cl_SetControllerReference = (\<lambda>kind owner meta. Inr meta),
      cl_Now = State (\<lambda>w. (m_Clock w, w\<lparr>m_Clock := m_Clock w + 1\<rparr>)),
      cl_Intn = (\<lambda>n. State (\<lambda>w. (0, w))),
      cl_RangeOrder = (\<lambda>ks. State (\<lambda>w. (sorted_list_of_fset ks, w))),
      cl_TracerStart = (\<lambda>t ctx name links. State (\<lambda>w. ((ctx, m_Spans w), w\<lparr>m_Spans := Suc (m_Spans w)\<rparr>))),
      cl_Inject = (\<lambda>ctx. fmempty),
      cl_Extract = (\<lambda>ctx carrier. ctx)\<rparr>"

section \<open>It obeys the laws\<close>

text \<open>Every stored app version and workload version is in order.\<close>

definition mem_ok :: "bool \<Rightarrow> bool \<Rightarrow> memory \<Rightarrow> bool" where
  "mem_ok b promo m \<longleftrightarrow> (\<forall>a\<in>set (m_AppVersions m). av_inv b promo a) \<and>
     (\<forall>v\<in>set (m_WorkloadVersions m). wv_inv b v)"

lemma mem_ok_simps [simp]:
  "mem_ok b promo (m_Apps_update f m) = mem_ok b promo m"
  "mem_ok b promo (m_AppContexts_update f2 m) = mem_ok b promo m"
  "mem_ok b promo (m_Workloads_update f3 m) = mem_ok b promo m"
  "mem_ok b promo (m_Tasks_update f4 m) = mem_ok b promo m"
  "mem_ok b promo (m_TaskDefinitions_update f5 m) = mem_ok b promo m"
  "mem_ok b promo (m_Evaluations_update f6 m) = mem_ok b promo m"
  "mem_ok b promo (m_Clock_update f7 m) = mem_ok b promo m"
  "mem_ok b promo (m_Spans_update f8 m) = mem_ok b promo m"
  "mem_ok b promo (m_CreationRequests_update f9 m) = mem_ok b promo m"
  "mem_ok b promo (m_EvaluationDefinitions_update f10 m) = mem_ok b promo m"
  "mem_ok b promo (m_ReplicaSets_update f11 m) = mem_ok b promo m"
  "mem_ok b promo (m_Jobs_update f12 m) = mem_ok b promo m"
  "mem_ok b promo (m_ConfigMaps_update f13 m) = mem_ok b promo m"
  "mem_ok b promo (m_Pods_update f14 m) = mem_ok b promo m"
  "mem_ok b promo (m_Namespaces_update f15 m) = mem_ok b promo m"
  "mem_ok b promo (m_Deployments_update f16 m) = mem_ok b promo m"
  by (simp_all add: mem_ok_def)

lemma av_inv_status:
  "av_inv b promo (a\<lparr>av_meta := me\<rparr>) = av_inv b promo a"
  "av_Status a = av_Status a' \<Longrightarrow> av_inv b promo a = av_inv b promo a'"
  by (simp_all add: av_inv_def av_deprecated_def av_order_def)

lemma wv_inv_status: "wv_Status v = wv_Status v' \<Longrightarrow> wv_inv b v = wv_inv b v'"
  by (simp add: wv_inv_def)

lemma av_inv_default:
  "av_inv b promo y \<Longrightarrow> av_inv b promo (x\<lparr>av_Status := default_av_status (av_Status y)\<rparr>)"
  using av_order_stored [of y "x\<lparr>av_Status := default_av_status (av_Status y)\<rparr>" b promo]
  by (auto simp: av_inv_def av_deprecated_def av_stored_def default_av_status_def)

lemma wv_inv_default:
  "wv_inv b y \<Longrightarrow> wv_inv b (x\<lparr>wv_Status := default_wv_status (wv_Status y)\<rparr>)"
  using wv_inv_stored [of y "x\<lparr>wv_Status := default_wv_status (wv_Status y)\<rparr>" b]
  by (simp add: wv_stored_def)

lemma av_order_zero: "av_order b promo (a\<lparr>av_Status := default_av_status zero_KeptnAppVersionStatus\<rparr>)"
  by (simp add: av_order_def zero_KeptnAppVersionStatus_def default_av_status_def default_state_def
      begun_def Let_def)

lemma wv_inv_zero: "wv_inv b (v\<lparr>wv_Status := default_wv_status zero_KeptnWorkloadVersionStatus\<rparr>)"
  by (simp add: wv_inv_def zero_KeptnWorkloadVersionStatus_def default_wv_status_def default_state_def
      begun_def Let_def)

lemma mem_ambient: "ambient (mem_ok b promo) mem_client"
  by (simp add: ambient_def call_keeps_def mem_client_def)

lemma mem_item_reads: "item_reads (mem_ok b promo) mem_client"
  using mem_ambient by (simp add: item_reads_def mem_client_def mem_Task_def mem_Evaluation_def reads_mem)

lemma mem_item_creates: "item_creates (mem_ok b promo) mem_client"
  by (auto simp: item_creates_def call_keeps_def mem_client_def mem_Task_def mem_Evaluation_def mem_api_def Let_def
      split: option.splits)

lemma mem_reads_versions:
  "reads (mem_ok b promo) (cl_AppVersion mem_client) (av_inv b promo)"
  "reads (mem_ok b promo) (cl_WorkloadVersion mem_client) (wv_inv b)"
  unfolding mem_client_def mem_AppVersion_def mem_WorkloadVersion_def Client.select_convs
  by (rule reads_mem; simp add: mem_ok_def)+

lemma mem_writes_av:
  "writes (mem_ok b promo) (api_StatusUpdate (cl_AppVersion mem_client)) (av_inv b promo) av_stored"
  "writes (mem_ok b promo) (api_Create (cl_AppVersion mem_client)) (av_order b promo) (\<lambda>y. any)"
proof -
  show "writes (mem_ok b promo) (api_StatusUpdate (cl_AppVersion mem_client)) (av_inv b promo) av_stored"
    unfolding mem_client_def mem_AppVersion_def Client.select_convs
    by (rule writes_mem_status) (auto simp: av_stored_def mem_ok_def intro!: av_inv_default)
  show "writes (mem_ok b promo) (api_Create (cl_AppVersion mem_client)) (av_order b promo) (\<lambda>y. any)"
    unfolding mem_client_def mem_AppVersion_def Client.select_convs
    by (rule writes_mem_create) (simp add: mem_ok_def av_inv_def av_order_zero)
qed

lemma mem_writes_wv:
  "writes (mem_ok b promo) (api_StatusUpdate (cl_WorkloadVersion mem_client)) (wv_inv b) wv_stored"
  "writes (mem_ok b promo) (api_Update (cl_WorkloadVersion mem_client)) (wv_inv b) (\<lambda>y. wv_inv b)"
  "writes (mem_ok b promo) (api_Create (cl_WorkloadVersion mem_client)) (wv_inv b) (\<lambda>y. any)"
proof -
  have up: "wv_inv b (y\<lparr>wv_Status := wv_Status x\<rparr>) = wv_inv b x" for x y
    by (rule wv_inv_status) simp
  show "writes (mem_ok b promo) (api_StatusUpdate (cl_WorkloadVersion mem_client)) (wv_inv b) wv_stored"
    unfolding mem_client_def mem_WorkloadVersion_def Client.select_convs
    by (rule writes_mem_status) (auto simp: wv_stored_def mem_ok_def intro!: wv_inv_default)
  show "writes (mem_ok b promo) (api_Update (cl_WorkloadVersion mem_client)) (wv_inv b) (\<lambda>y. wv_inv b)"
    unfolding mem_client_def mem_WorkloadVersion_def Client.select_convs
    by (rule writes_mem_update) (auto simp: mem_ok_def up)
  show "writes (mem_ok b promo) (api_Create (cl_WorkloadVersion mem_client)) (wv_inv b) (\<lambda>y. any)"
    unfolding mem_client_def mem_WorkloadVersion_def Client.select_convs
    by (rule writes_mem_create) (simp add: mem_ok_def wv_inv_zero)
qed

lemma reads_any: "reads J k good \<Longrightarrow> reads J k any"
  unfolding reads_def call_keeps_def by blast

lemma mem_wv_server: "wv_server (mem_ok b promo) mem_client b"
  unfolding wv_server_def
  by (intro conjI mem_item_reads mem_item_creates mem_reads_versions mem_writes_wv
      reads_any [OF mem_reads_versions(1)])
    (simp_all add: mem_client_def reads_mem no_api_def)

lemma mem_av_server: "av_server (mem_ok b promo) mem_client b promo"
  unfolding av_server_def
  by (intro conjI mem_item_reads mem_item_creates mem_reads_versions mem_writes_av
      reads_any [OF mem_reads_versions(2)])

lemma mem_app_server: "app_server (mem_ok b promo) mem_client b promo"
  unfolding app_server_def
  by (intro conjI mem_av_server mem_writes_av)
    (auto simp: mem_client_def mem_Workload_def reads_mem intro!: writes_mem_status)

lemma mem_workload_server: "workload_server (mem_ok b promo) mem_client b"
  unfolding workload_server_def
  by (intro conjI mem_wv_server mem_writes_wv)
    (auto simp: mem_client_def mem_Workload_def reads_mem intro!: writes_mem_status)

text \<open>While keys are unique, it stores by key.\<close>

definition mem_find :: "memory \<Rightarrow> string \<times> string \<Rightarrow> KeptnAppVersion option" where
  "mem_find m = (\<lambda>k. find (\<lambda>a. av_key a = k) (m_AppVersions m))"

lemma mem_serves: "serves mem_find av_key (cl_AppVersion mem_client) av_stored"
proof -
  have key: "av_key (x\<lparr>av_Status := s\<rparr>) = av_key x" for x s by (simp add: av_key_def)
  have upd: "(\<lambda>k. find (\<lambda>a. av_key a = k) (map (\<lambda>z. if av_key z = av_key y
      then x\<lparr>av_Status := st\<rparr> else z) xs)) = (\<lambda>k. find (\<lambda>a. av_key a = k) xs)
      (av_key y \<mapsto> x\<lparr>av_Status := st\<rparr>)"
    if "find (\<lambda>a. av_key a = av_key y) xs = Some x" for xs x y st
  proof -
    have "av_key (x\<lparr>av_Status := st\<rparr>) = av_key y" "\<exists>z\<in>set xs. av_key z = av_key y"
      using find_SomeD [OF that] by (auto simp: key)
    then show ?thesis
      by (simp add: fun_eq_iff find_map_replace)
  qed
  show ?thesis
    unfolding serves_def
    by (auto simp: mem_client_def mem_AppVersion_def mem_api_def Let_def mem_find_def av_stored_def key
        upd split: option.splits dest: find_SomeD)
qed

end
