(* ===== verification/Floats.thy ===== *)
theory Floats
  imports Prelude "HOL-Library.Log_Nat"
begin

text \<open>
  64-bit floating point numbers as far as the operators use them: \<^verbatim>\<open>strconv.ParseFloat\<close>, comparison, and
  rounding to the nearest even.  A finite number is its rational value, so that the two zeros are one.
\<close>

section \<open>Rounding\<close>

definition pow2 :: "int \<Rightarrow> rat" where
  "pow2 k = (if 0 \<le> k then 2 ^ nat k else 1 / 2 ^ nat (- k))"

text \<open>The exponent \<open>e\<close> of a positive number, \<open>2\<^sup>e \<le> q < 2\<^sup>e\<^sup>+\<^sup>1\<close>.\<close>

definition expo :: "rat \<Rightarrow> int" where
  "expo q = (let (a, b) = quotient_of q; k = bitlen a - bitlen b
     in if pow2 k \<le> q then k else k - 1)"

definition round_half_even :: "rat \<Rightarrow> int" where
  "round_half_even q =
     (let f = \<lfloor>q\<rfloor>; d = q - of_int f
      in if d < 1 / 2 then f else if d > 1 / 2 then f + 1 else if even f then f else f + 1)"

definition ulp :: "rat \<Rightarrow> rat" where
  "ulp q = pow2 (max (expo q) (- 1022) - 52)"

definition round_pos :: "rat \<Rightarrow> rat" where
  "round_pos q = of_int (round_half_even (q / ulp q)) * ulp q"

definition round_rat :: "rat \<Rightarrow> rat" where
  "round_rat q = (if q = 0 then 0 else if 0 < q then round_pos q else - round_pos (- q))"

datatype float64 = Finite rat | Infinite bool | NaN

definition float_of_rat :: "rat \<Rightarrow> float64" where
  "float_of_rat q =
     (let r = round_rat q in if pow2 1024 \<le> \<bar>r\<bar> then Infinite (r < 0) else Finite r)"

fun float_less :: "float64 \<Rightarrow> float64 \<Rightarrow> bool" where
  "float_less (Finite x) (Finite y) \<longleftrightarrow> x < y"
| "float_less (Infinite neg) (Finite y) \<longleftrightarrow> neg"
| "float_less (Finite x) (Infinite neg) \<longleftrightarrow> \<not> neg"
| "float_less (Infinite m) (Infinite n) \<longleftrightarrow> m \<and> \<not> n"
| "float_less _ _ \<longleftrightarrow> False"

section \<open>Parsing\<close>

definition is_dec :: "char \<Rightarrow> bool" where
  "is_dec c \<longleftrightarrow> 48 \<le> (of_char c :: nat) \<and> (of_char c :: nat) \<le> 57"

definition is_hex :: "char \<Rightarrow> bool" where
  "is_hex c \<longleftrightarrow> is_dec c \<or> 97 \<le> (of_char (to_lower_char c) :: nat) \<and> (of_char (to_lower_char c) :: nat) \<le> 102"

definition digit_of :: "char \<Rightarrow> int" where
  "digit_of c = (if is_dec c then of_char c - 48 else of_char (to_lower_char c) - 87)"

definition drop_sign :: "string \<Rightarrow> bool \<times> string" where
  "drop_sign s =
     (case s of c # t \<Rightarrow> if c = CHR ''-'' then (True, t) else if c = CHR ''+'' then (False, t) else (False, s)
      | [] \<Rightarrow> (False, []))"

text \<open>Underscores separate digits, or a digit and the prefix of the base.\<close>

fun underscores_between :: "bool \<Rightarrow> char \<Rightarrow> string \<Rightarrow> bool" where
  "underscores_between hexa prev [] \<longleftrightarrow> prev \<noteq> CHR ''_''"
| "underscores_between hexa prev (c # s) \<longleftrightarrow>
     (if is_dec c \<or> hexa \<and> is_hex c then underscores_between hexa CHR ''0'' s
      else if c = CHR ''_'' then prev = CHR ''0'' \<and> underscores_between hexa CHR ''_'' s
      else prev \<noteq> CHR ''_'' \<and> underscores_between hexa CHR ''!'' s)"

definition underscoreOK :: "string \<Rightarrow> bool" where
  "underscoreOK s =
     (let t = snd (drop_sign s) in
      case t of
        z # p # u \<Rightarrow>
          if z = CHR ''0'' \<and> to_lower_char p \<in> set ''box'' then
            underscores_between (to_lower_char p = CHR ''x'') CHR ''0'' u
          else underscores_between False CHR ''^'' t
      | _ \<Rightarrow> underscores_between False CHR ''^'' t)"

record mantissa =
  mn_Value :: int
  mn_Fraction :: nat
  mn_Dot :: bool
  mn_Digits :: bool

text \<open>The digits of the mantissa, up to the first other character or a second dot.\<close>

fun read_mantissa :: "bool \<Rightarrow> mantissa \<Rightarrow> string \<Rightarrow> mantissa \<times> string" where
  "read_mantissa hexa m [] = (m, [])"
| "read_mantissa hexa m (c # s) =
     (if c = CHR ''_'' then read_mantissa hexa m s
      else if c = CHR ''.'' \<and> \<not> mn_Dot m then read_mantissa hexa (m\<lparr>mn_Dot := True\<rparr>) s
      else if is_dec c \<or> hexa \<and> is_hex c then
        read_mantissa hexa (m\<lparr>mn_Value := mn_Value m * (if hexa then 16 else 10) + digit_of c,
          mn_Fraction := (if mn_Dot m then Suc (mn_Fraction m) else 0), mn_Digits := True\<rparr>) s
      else (m, c # s))"

fun read_exponent :: "int \<Rightarrow> string \<Rightarrow> int \<times> string" where
  "read_exponent e [] = (e, [])"
| "read_exponent e (c # s) =
     (if c = CHR ''_'' then read_exponent e s
      else if is_dec c then read_exponent (if e < 10000 then e * 10 + digit_of c else e) s
      else (e, c # s))"

text \<open>\<^verbatim>\<open>readFloat\<close>: the exact value of a number, when the whole string is one.\<close>

definition readFloat :: "string \<Rightarrow> rat option" where
  "readFloat s =
     (let (neg, t) = drop_sign s;
          hexa = (case t of z # p # c # u \<Rightarrow> z = CHR ''0'' \<and> to_lower_char p = CHR ''x'' | _ \<Rightarrow> False);
          (m, u) = read_mantissa hexa \<lparr>mn_Value = 0, mn_Fraction = 0, mn_Dot = False, mn_Digits = False\<rparr>
            (if hexa then drop 2 t else t);
          value = (\<lambda>e. (if neg then - 1 else 1) * of_int (mn_Value m) / (if hexa then 16 else 10) ^ mn_Fraction m *
            (if hexa then pow2 e else if 0 \<le> e then 10 ^ nat e else 1 / 10 ^ nat (- e)))
      in if \<not> mn_Digits m then None
         else
           (case u of
              [] \<Rightarrow> if hexa \<or> \<not> underscoreOK s then None else Some (value 0)
            | c # v \<Rightarrow>
                if to_lower_char c \<noteq> (if hexa then CHR ''p'' else CHR ''e'') then None
                else
                  (let (eneg, w) = drop_sign v in
                   case w of
                     [] \<Rightarrow> None
                   | d # w' \<Rightarrow>
                       if \<not> is_dec d then None
                       else
                         (let (e, rest) = read_exponent 0 w in
                          if rest \<noteq> [] \<or> \<not> underscoreOK s then None
                          else Some (value (if eneg then - e else e))))))"

text \<open>
  \<^verbatim>\<open>ParseFloat\<close> with 64 bits.  A number that is too large is an error, and so is every other string; the
  messages quote the string (\<^verbatim>\<open>strconv.Quote\<close>, an argument here).
\<close>

definition special :: "string \<Rightarrow> float64 option" where
  "special s =
     (let l = to_lower s in
      if l = ''nan'' then Some NaN
      else if snd (drop_sign l) = ''inf'' \<or> snd (drop_sign l) = ''infinity'' then Some (Infinite (fst (drop_sign l)))
      else None)"

definition num_error :: "(string \<Rightarrow> string) \<Rightarrow> string \<Rightarrow> string \<Rightarrow> error" where
  "num_error quote s what = Message (''strconv.ParseFloat: parsing '' @ quote s @ '': '' @ what)"

definition ParseFloat :: "(string \<Rightarrow> string) \<Rightarrow> string \<Rightarrow> error + float64" where
  "ParseFloat quote s =
     (case special s of
        Some x \<Rightarrow> Inr x
      | None \<Rightarrow>
          (case readFloat s of
             None \<Rightarrow> Inl (num_error quote s ''invalid syntax'')
           | Some q \<Rightarrow>
               (case float_of_rat q of
                  Infinite neg \<Rightarrow> Inl (num_error quote s ''value out of range'')
                | x \<Rightarrow> Inr x)))"

section \<open>Rounding keeps the order\<close>

lemma pow2_pos [simp]: "0 < pow2 k"
  by (simp add: pow2_def)

lemma pow2_Suc: "pow2 (k + 1) = 2 * pow2 k"
proof (cases "0 \<le> k")
  case True
  then show ?thesis by (simp add: pow2_def nat_add_distrib)
next
  case False
  then have "nat (- k) = Suc (nat (- (k + 1)))" by simp
  with False show ?thesis by (cases "k = - 1") (auto simp: pow2_def)
qed

lemma pow2_add_nat: "pow2 (k + int n) = pow2 k * 2 ^ n"
proof (induction n)
  case (Suc n)
  then show ?case using pow2_Suc [of "k + int n"] by (simp add: algebra_simps)
qed simp

lemma pow2_mono: "j \<le> k \<Longrightarrow> pow2 j \<le> pow2 k"
  using pow2_add_nat [of j "nat (k - j)"] mult_left_mono [of 1 "2 ^ nat (k - j)" "pow2 j"]
  by (simp add: less_imp_le)

lemma pow2_less: "j < k \<Longrightarrow> pow2 j < pow2 k"
  using pow2_mono [of "j + 1" k] pow2_Suc [of j] pow2_pos [of j] by linarith

lemma pow2_diff: "pow2 (a - b) * pow2 b = pow2 a"
proof (cases "0 \<le> b")
  case True
  then show ?thesis using pow2_add_nat [of "a - b" "nat b"] by (simp add: pow2_def)
next
  case False
  then show ?thesis using pow2_add_nat [of a "nat (- b)"] by (simp add: pow2_def field_simps)
qed

lemma expo_bounds:
  assumes "0 < q"
  shows "pow2 (expo q) \<le> q \<and> q < pow2 (expo q + 1)"
proof -
  obtain a b where ab: "quotient_of q = (a, b)" by fastforce
  have b: "0 < b" and q: "q = of_int a / of_int b"
    using quotient_of_denom_pos [OF ab] quotient_of_div [OF ab] by auto
  then have a: "0 < a" using assms by (simp add: zero_less_divide_iff)
  let ?k = "bitlen a - bitlen b"
  have pw: "(of_int (2 ^ nat n) :: rat) = pow2 n" if "0 \<le> n" for n using that by (simp add: pow2_def)
  have bl: "0 < bitlen a" "0 < bitlen b" using a b bitlen_nonneg bitlen_eq_zero_iff by (simp_all add: less_le)
  have A: "pow2 (bitlen a - 1) \<le> of_int a" "of_int a < pow2 (bitlen a)"
    using bitlen_bounds [OF a] bl by (simp_all flip: pw)
  have B: "pow2 (bitlen b - 1) \<le> of_int b" "of_int b < pow2 (bitlen b)"
    using bitlen_bounds [OF b] bl by (simp_all flip: pw)
  have "of_int a < pow2 (?k + 1) * of_int b"
  proof -
    have "pow2 (bitlen a) = pow2 (?k + 1) * pow2 (bitlen b - 1)"
      using pow2_diff [of "bitlen a" "bitlen b - 1"] by (simp add: algebra_simps)
    moreover have "pow2 (?k + 1) * pow2 (bitlen b - 1) \<le> pow2 (?k + 1) * of_int b"
      by (rule mult_left_mono [OF B(1)]) (simp add: less_imp_le)
    ultimately show ?thesis using A(2) by linarith
  qed
  moreover have "pow2 (?k - 1) * of_int b < of_int a"
  proof -
    have "pow2 (bitlen a - 1) = pow2 (?k - 1) * pow2 (bitlen b)"
      using pow2_diff [of "bitlen a - 1" "bitlen b"] by (simp add: algebra_simps)
    moreover have "pow2 (?k - 1) * of_int b < pow2 (?k - 1) * pow2 (bitlen b)"
      by (rule mult_strict_left_mono [OF B(2)]) simp
    ultimately show ?thesis using A(1) by linarith
  qed
  ultimately have "pow2 (?k - 1) < q" "q < pow2 (?k + 1)"
    using b by (simp_all add: q field_simps)
  then show ?thesis by (simp add: expo_def ab Let_def)
qed

lemma expo_mono:
  assumes "0 < q" and "q \<le> r"
  shows "expo q \<le> expo r"
proof (rule ccontr)
  assume "\<not> expo q \<le> expo r"
  then have "pow2 (expo r + 1) \<le> pow2 (expo q)" by (intro pow2_mono) simp
  with expo_bounds [OF assms(1)] expo_bounds [of r] assms show False by linarith
qed

lemma round_half_even_mono:
  assumes "q \<le> r"
  shows "round_half_even q \<le> round_half_even r"
proof (cases "\<lfloor>q\<rfloor> = \<lfloor>r\<rfloor>")
  case True
  with assms show ?thesis by (simp add: round_half_even_def Let_def)
next
  case False
  with floor_mono [OF assms] have "\<lfloor>q\<rfloor> + 1 \<le> \<lfloor>r\<rfloor>" by simp
  moreover have "round_half_even q \<le> \<lfloor>q\<rfloor> + 1" "\<lfloor>r\<rfloor> \<le> round_half_even r"
    by (simp_all add: round_half_even_def Let_def)
  ultimately show ?thesis by simp
qed

lemma round_half_even_of_int [simp]: "round_half_even (of_int n) = n"
  by (simp add: round_half_even_def)

lemma round_half_even_le: "q \<le> of_int n \<Longrightarrow> round_half_even q \<le> n"
  using round_half_even_mono [of q "of_int n"] by simp

lemma round_half_even_ge: "of_int n \<le> q \<Longrightarrow> n \<le> round_half_even q"
  using round_half_even_mono [of "of_int n" q] by simp

lemma ulp_pos [simp]: "0 < ulp q"
  by (simp add: ulp_def)

lemma round_pos_nonneg: "0 \<le> q \<Longrightarrow> 0 \<le> round_pos q"
  using round_half_even_ge [of 0 "q / ulp q"] by (simp add: round_pos_def less_imp_le)

lemma round_pos_mono:
  assumes "0 < q" and "q \<le> r"
  shows "round_pos q \<le> round_pos r"
proof -
  define e e' where "e = max (expo q) (- 1022)" and "e' = max (expo r) (- 1022)"
  have u: "ulp q = pow2 (e - 52)" "ulp r = pow2 (e' - 52)" by (simp_all add: ulp_def e_def e'_def)
  have "e \<le> e'" using expo_mono [OF assms] by (simp add: e_def e'_def)
  show ?thesis
  proof (cases "e = e'")
    case True
    then have "ulp q = ulp r" by (simp add: u)
    moreover have "q / ulp r \<le> r / ulp r" using assms by (simp add: divide_right_mono less_imp_le)
    ultimately show ?thesis
      using round_half_even_mono by (simp add: round_pos_def mult_right_mono less_imp_le)
  next
    case False
    with \<open>e \<le> e'\<close> have e': "e' = expo r" "e + 1 \<le> e'" by (auto simp: e_def e'_def)
    have "q < pow2 (e + 1)"
      using expo_bounds [OF assms(1)] pow2_mono [of "expo q + 1" "e + 1"] by (simp add: e_def)
    also have top: "pow2 (e + 1) = of_int (2 ^ 53) * ulp q"
      using pow2_add_nat [of "e - 52" 53] by (simp add: u algebra_simps)
    finally have "round_half_even (q / ulp q) \<le> 2 ^ 53"
      by (intro round_half_even_le) (simp add: pos_divide_le_eq)
    then have "of_int (round_half_even (q / ulp q)) \<le> (of_int (2 ^ 53) :: rat)"
      by (simp only: of_int_le_iff)
    then have "round_pos q \<le> pow2 (e + 1)"
      unfolding round_pos_def top by (rule mult_right_mono) (simp add: less_imp_le)
    also have "\<dots> \<le> pow2 e'" using e'(2) by (rule pow2_mono)
    also have bot: "pow2 e' = of_int (2 ^ 52) * ulp r"
      using pow2_add_nat [of "e' - 52" 52] by (simp add: u)
    also have "\<dots> \<le> round_pos r"
    proof -
      have "of_int (2 ^ 52) * ulp r \<le> r" using expo_bounds [of r] assms e'(1) bot by simp
      then have "2 ^ 52 \<le> round_half_even (r / ulp r)"
        by (intro round_half_even_ge) (simp add: pos_le_divide_eq)
      then have "(of_int (2 ^ 52) :: rat) \<le> of_int (round_half_even (r / ulp r))"
        by (simp only: of_int_le_iff)
      then show ?thesis unfolding round_pos_def by (rule mult_right_mono) (simp add: less_imp_le)
    qed
    finally show ?thesis .
  qed
qed

lemma round_rat_mono: "q \<le> r \<Longrightarrow> round_rat q \<le> round_rat r"
  using round_pos_mono [of q r] round_pos_mono [of "- r" "- q"] round_pos_nonneg [of r]
    round_pos_nonneg [of "- q"] by (auto simp: round_rat_def)

lemma float_less_sound: "float_less (float_of_rat q) (float_of_rat r) \<Longrightarrow> q < r"
  using round_rat_mono [of r q] pow2_pos [of 1024]
  by (auto simp: float_of_rat_def Let_def not_le [symmetric] split: if_splits)


end
