(* ===== verification/Keptn_Evaluation.thy ===== *)
theory Keptn_Evaluation
  imports Items Floats
begin

text \<open>
  The controller of KeptnEvaluations (\<^verbatim>\<open>controllers/lifecycle/keptnevaluation\<close>) with the provider of metric
  values (\<^verbatim>\<open>controllers/common/providers/keptnmetric\<close>): each round fetches the value of every objective
  that has not been met yet and compares it with its target, until all are met or the retries are used
  up.
\<close>

section \<open>The metric provider\<close>

definition GetKeptnMetric ::
    "'w Client \<Rightarrow> ControllerConfig \<Rightarrow> Objective \<Rightarrow> string \<Rightarrow> ('w, error + KeptnMetric) prog" where
  "GetKeptnMetric cl cfg objective namespace =
     (let ref = ob_KeptnMetricRef objective in
      if mr_Namespace ref \<noteq> [] then on_world (api_Get (cl_Metric cl) (mr_Namespace ref) (mr_Name ref))
      else do {
        r \<leftarrow> on_world (api_Get (cl_Metric cl) namespace (mr_Name ref));
        case r of
          Inr metric \<Rightarrow> ret (Inr metric)
        | Inl err \<Rightarrow> on_world (api_Get (cl_Metric cl) (GetDefaultNamespace cfg) (mr_Name ref))
      })"

definition FetchData ::
    "'w Client \<Rightarrow> ControllerConfig \<Rightarrow> Objective \<Rightarrow> string \<Rightarrow> ('w, error + string \<times> string) prog" where
  "FetchData cl cfg objective namespace = do {
     r \<leftarrow> GetKeptnMetric cl cfg objective namespace;
     ret (case r of
       Inl err \<Rightarrow> Inl err
     | Inr metric \<Rightarrow>
         (case km_Value metric of
            None \<Rightarrow> Inl (Message (''empty value for: '' @ mr_Name (ob_KeptnMetricRef objective)))
          | Some value \<Rightarrow>
              if value = [] then Inl (Message (''empty value for: '' @ mr_Name (ob_KeptnMetricRef objective)))
              else
                (case km_RawValue metric of
                   None \<Rightarrow> Inl (Message (''empty rawValue for: '' @ mr_Name (ob_KeptnMetricRef objective)))
                 | Some rawValue \<Rightarrow>
                     if rawValue = [] then
                       Inl (Message (''empty rawValue for: '' @ mr_Name (ob_KeptnMetricRef objective)))
                     else Inr (value, rawValue))))
   }"

section \<open>Objectives\<close>

definition checkValue ::
    "(string \<Rightarrow> string) \<Rightarrow> Objective \<Rightarrow> EvaluationStatusItem \<Rightarrow> bool \<times> error option" where
  "checkValue quote objective item =
     (case ob_EvaluationTarget objective of
        [] \<Rightarrow> (False, Some (Message ''no values''))
      | sign # eval \<Rightarrow>
          if esi_Value item = [] then (False, Some (Message ''no values''))
          else
            (case ParseFloat quote (esi_Value item) of
               Inl err \<Rightarrow> (False, Some err)
             | Inr resultValue \<Rightarrow>
                 if resultValue = NaN then (False, None)
                 else
                   (case ParseFloat quote eval of
                      Inl err \<Rightarrow> (False, Some err)
                    | Inr compareValue \<Rightarrow>
                        if compareValue = NaN then (False, None)
                        else if sign = CHR ''>'' then (float_less compareValue resultValue, None)
                        else if sign = CHR ''<'' then (float_less resultValue compareValue, None)
                        else (False, Some (Message ''invalid operator'')))))"

type_synonym item_map = "(string, EvaluationStatusItem) fmap"

definition updateStatusSummary ::
    "StatusSummary \<Rightarrow> EvaluationStatusItem \<Rightarrow> item_map \<Rightarrow> Objective \<Rightarrow> item_map \<times> StatusSummary" where
  "updateStatusSummary statusSummary statusItem newStatus objective =
     (let statusSummary = UpdateStatusSummary (esi_Status statusItem) statusSummary;
          newStatus = fmupd (mr_Name (ob_KeptnMetricRef objective)) statusItem newStatus
      in (newStatus, statusSummary))"

definition evaluateObjective ::
    "'w Client \<Rightarrow> ControllerConfig \<Rightarrow> (string \<Rightarrow> string) \<Rightarrow> KeptnEvaluation \<Rightarrow> StatusSummary \<Rightarrow> item_map \<Rightarrow>
     Objective \<Rightarrow> ('w, KeptnEvaluation \<times> item_map \<times> StatusSummary) prog" where
  "evaluateObjective cl cfg quote evaluation statusSummary newStatus objective =
     (let name = mr_Name (ob_KeptnMetricRef objective);
          evaluation =
            (if gm_lookup (est_EvaluationStatus (e_Status evaluation)) name = None
             then AddEvaluationStatus objective evaluation else evaluation);
          recorded =
            (case gm_lookup (est_EvaluationStatus (e_Status evaluation)) name of
               None \<Rightarrow> \<lparr>esi_Value = [], esi_Status = StateEmpty, esi_Message = []\<rparr>
             | Some item \<Rightarrow> item)
      in if IsSucceeded (esi_Status recorded) then
           ret (evaluation, fmupd name recorded newStatus, UpdateStatusSummary StateSucceeded statusSummary)
         else do {
           let statusItem = \<lparr>esi_Value = [], esi_Status = StateFailed, esi_Message = []\<rparr>;
           r \<leftarrow> FetchData cl cfg objective (om_Namespace (e_meta evaluation));
           case r of
             Inl err \<Rightarrow>
               ret (evaluation, updateStatusSummary statusSummary
                 (statusItem\<lparr>esi_Message := error_string err\<rparr>) newStatus objective)
           | Inr (value, rawValue) \<Rightarrow>
               (let statusItem = statusItem\<lparr>esi_Value := value\<rparr>;
                    statusItem =
                      (case checkValue quote objective statusItem of
                         (_, Some err) \<Rightarrow> statusItem\<lparr>esi_Message := error_string err\<rparr>
                       | (True, None) \<Rightarrow> statusItem\<lparr>esi_Status := StateSucceeded, esi_Message :=
                           ''value '' @ [CHR 0x27] @ value @ [CHR 0x27] @ '' met objective '' @
                           [CHR 0x27] @ ob_EvaluationTarget objective @ [CHR 0x27]\<rparr>
                       | (False, None) \<Rightarrow> statusItem\<lparr>esi_Message :=
                           ''value '' @ [CHR 0x27] @ value @ [CHR 0x27] @ '' did not meet objective '' @
                           [CHR 0x27] @ ob_EvaluationTarget objective @ [CHR 0x27]\<rparr>)
                in ret (evaluation, updateStatusSummary statusSummary statusItem newStatus objective))
         })"

fun evaluateObjectives ::
    "'w Client \<Rightarrow> ControllerConfig \<Rightarrow> (string \<Rightarrow> string) \<Rightarrow> Objective list \<Rightarrow> KeptnEvaluation \<Rightarrow> StatusSummary \<Rightarrow>
     item_map \<Rightarrow> ('w, KeptnEvaluation \<times> item_map \<times> StatusSummary) prog" where
  "evaluateObjectives cl cfg quote [] evaluation statusSummary newStatus =
     ret (evaluation, newStatus, statusSummary)"
| "evaluateObjectives cl cfg quote (query # objectives) evaluation statusSummary newStatus = do {
     (evaluation, newStatus, statusSummary) \<leftarrow>
       evaluateObjective cl cfg quote evaluation statusSummary newStatus query;
     evaluateObjectives cl cfg quote objectives evaluation statusSummary newStatus
   }"

definition performEvaluation ::
    "'w Client \<Rightarrow> ControllerConfig \<Rightarrow> (string \<Rightarrow> string) \<Rightarrow> KeptnEvaluation \<Rightarrow> KeptnEvaluationDefinition \<Rightarrow>
     ('w, KeptnEvaluation) prog" where
  "performEvaluation cl cfg quote evaluation evaluationDefinition = do {
     let objectives = eds_Objectives (ed_Spec evaluationDefinition);
     let evaluation = evaluation\<lparr>e_Status := (e_Status evaluation)\<lparr>est_EvaluationStatus :=
       Some (gm_fmap (est_EvaluationStatus (e_Status evaluation)))\<rparr>\<rparr>;
     (evaluation, newStatus, statusSummary) \<leftarrow>
       evaluateObjectives cl cfg quote objectives evaluation (new_summary (int (length objectives))) fmempty;
     ret (evaluation\<lparr>e_Status := (e_Status evaluation)
       \<lparr>est_RetryCount := est_RetryCount (e_Status evaluation) + 1,
        est_EvaluationStatus := Some newStatus,
        est_OverallStatus := (if GetOverallState statusSummary = StateSucceeded then StateSucceeded
          else StateProgressing)\<rparr>\<rparr>)
   }"

section \<open>The controller\<close>

definition handleEvaluationIncomplete :: "'w Client \<Rightarrow> KeptnEvaluation \<Rightarrow> ('w, error option) prog" where
  "handleEvaluationIncomplete cl evaluation = do {
     r \<leftarrow> on_world (api_StatusUpdate (cl_Evaluation cl) evaluation);
     case r of
       Inl err \<Rightarrow> do {
         Emit PhaseReconcileEvaluation ''Warning'' (Evaluation_Event evaluation) PhaseStateReconcileError
           ''could not update status'' [];
         ret (Some err)
       }
     | Inr stored \<Rightarrow> ret None
   }"

definition updateFinishedEvaluationMetrics :: "'w Client \<Rightarrow> KeptnEvaluation \<Rightarrow> ('w, error option) prog" where
  "updateFinishedEvaluationMetrics cl evaluation = do {
     now \<leftarrow> Now cl;
     let evaluation = Evaluation_SetEndTime now evaluation;
     r \<leftarrow> on_world (api_StatusUpdate (cl_Evaluation cl) evaluation);
     case r of
       Inl err \<Rightarrow> do {
         Emit PhaseReconcileEvaluation ''Warning'' (Evaluation_Event evaluation) PhaseStateReconcileError
           ''could not update status'' [];
         ret (Some err)
       }
     | Inr evaluation \<Rightarrow> do {
         let attrs = Evaluation_GetMetricsAttributes evaluation;
         meter_call (CounterAdd ''keptn.evaluation.count'' 1 attrs);
         meter_call (HistogramRecord ''keptn.evaluation.duration''
           (time_sub (est_EndTime (e_Status evaluation)) (est_StartTime (e_Status evaluation))) attrs);
         ret None
       }
   }"

definition handleEvaluationExceededRetries :: "'w Client \<Rightarrow> KeptnEvaluation \<Rightarrow> ('w, unit) prog" where
  "handleEvaluationExceededRetries cl evaluation = do {
     Emit PhaseReconcileEvaluation ''Warning'' (Evaluation_Event evaluation) PhaseStateReconcileTimeout
       ''retryCount exceeded'' [];
     _ \<leftarrow> updateFinishedEvaluationMetrics cl
       (evaluation\<lparr>e_Status := (e_Status evaluation)\<lparr>est_OverallStatus := StateFailed\<rparr>\<rparr>);
     ret ()
   }"

text \<open>The part of \<^verbatim>\<open>Reconcile\<close> after the evaluation: it is stored, and tried again or finished.\<close>

definition conclude :: "'w Client \<Rightarrow> KeptnEvaluation \<Rightarrow> ('w, outcome) prog" where
  "conclude cl evaluation =
     (if \<not> IsSucceeded (est_OverallStatus (e_Status evaluation)) then do {
        err \<leftarrow> handleEvaluationIncomplete cl evaluation;
        case err of
          Some e \<Rightarrow> ret (requeue_now, Some e)
        | None \<Rightarrow> ret (\<lparr>Requeue = True,
            RequeueAfter = fc_RetryInterval (es_FailureConditions (e_Spec evaluation))\<rparr>, None)
      }
      else do {
        err \<leftarrow> updateFinishedEvaluationMetrics cl evaluation;
        ret (no_requeue, err)
      })"

definition Evaluation_Reconcile ::
    "'w Client \<Rightarrow> ControllerConfig \<Rightarrow> (string \<Rightarrow> string) \<Rightarrow> Request \<Rightarrow> ('w, outcome) prog" where
  "Evaluation_Reconcile cl cfg quote req = do {
     r \<leftarrow> on_world (api_Get (cl_Evaluation cl) (req_Namespace req) (req_Name req));
     case r of
       Inl err \<Rightarrow> ret (no_requeue, None)
     | Inr evaluation \<Rightarrow> do {
         now \<leftarrow> Now cl;
         let evaluation = Evaluation_SetStartTime now evaluation;
         if est_RetryCount (e_Status evaluation) \<ge> fc_Retries (es_FailureConditions (e_Spec evaluation)) then do {
           handleEvaluationExceededRetries cl evaluation;
           ret (no_requeue, None)
         }
         else if \<not> IsSucceeded (est_OverallStatus (e_Status evaluation)) then do {
           d \<leftarrow> GetEvaluationDefinition cl cfg (es_EvaluationDefinition (e_Spec evaluation)) (req_Namespace req);
           case d of
             Inl err \<Rightarrow>
               if IsNotFound err then ret (requeue_after 10, None) else ret (no_requeue, None)
           | Inr evaluationDefinition \<Rightarrow> do {
               evaluation \<leftarrow> performEvaluation cl cfg quote evaluation evaluationDefinition;
               conclude cl evaluation
             }
         }
         else conclude cl evaluation
       }
   }"

section \<open>What a round records\<close>

abbreviation metric_name :: "Objective \<Rightarrow> string" where
  "metric_name objective \<equiv> mr_Name (ob_KeptnMetricRef objective)"

definition recorded_items :: "KeptnEvaluation \<Rightarrow> item_map" where
  "recorded_items e = gm_fmap (est_EvaluationStatus (e_Status e))"

text \<open>An item that is recorded as succeeded was so already, or its value meets the objective.\<close>

definition earned :: "(string \<Rightarrow> string) \<Rightarrow> item_map \<Rightarrow> Objective \<Rightarrow> EvaluationStatusItem \<Rightarrow> bool" where
  "earned quote old objective item \<longleftrightarrow>
     (esi_Status item = StateSucceeded \<longrightarrow>
        fmlookup old (metric_name objective) = Some item \<or> checkValue quote objective item = (True, None))"

lemma checkValue_item:
  "esi_Value item = esi_Value item' \<Longrightarrow> checkValue quote objective item = checkValue quote objective item'"
  by (cases "ob_EvaluationTarget objective") (simp_all add: checkValue_def)

text \<open>An evaluation whose items have grown by pending ones, and is otherwise the same.\<close>

definition with_pending :: "KeptnEvaluation \<Rightarrow> KeptnEvaluation \<Rightarrow> bool" where
  "with_pending e e' \<longleftrightarrow>
     (\<exists>m. e' = e\<lparr>e_Status := (e_Status e)\<lparr>est_EvaluationStatus := m\<rparr>\<rparr>) \<and>
     (\<forall>n item. fmlookup (recorded_items e') n = Some item \<and> esi_Status item = StateSucceeded \<longrightarrow>
        fmlookup (recorded_items e) n = Some item)"

lemma with_pending_refl: "with_pending e e"
  by (auto simp: with_pending_def intro!: exI [of _ "est_EvaluationStatus (e_Status e)"])

lemma with_pending_trans: "with_pending e e1 \<Longrightarrow> with_pending e1 e2 \<Longrightarrow> with_pending e e2"
  by (auto simp: with_pending_def)

lemma with_pending_add: "with_pending e (AddEvaluationStatus objective e)"
  by (auto simp: with_pending_def AddEvaluationStatus_def recorded_items_def gm_fmap_def Let_def
      split: option.splits if_splits)

lemma earned_pending:
  "with_pending e e' \<Longrightarrow> earned quote (recorded_items e') objective item \<Longrightarrow>
   earned quote (recorded_items e) objective item"
  unfolding earned_def with_pending_def by blast

lemma evaluateObjective_spec:
  assumes "run_state (evaluateObjective cl cfg quote e sm ns objective) s = ((e', ns', sm'), s')"
  shows "\<exists>item. with_pending e e' \<and> ns' = fmupd (metric_name objective) item ns \<and>
    sm' = UpdateStatusSummary (esi_Status item) sm \<and> earned quote (recorded_items e) objective item"
proof -
  define e1 where "e1 = (if gm_lookup (est_EvaluationStatus (e_Status e)) (metric_name objective) = None
    then AddEvaluationStatus objective e else e)"
  have e1: "with_pending e e1" by (simp add: e1_def with_pending_refl with_pending_add)
  obtain old where old: "gm_lookup (est_EvaluationStatus (e_Status e1)) (metric_name objective) = Some old"
    by (cases "gm_lookup (est_EvaluationStatus (e_Status e)) (metric_name objective)")
      (auto simp: e1_def AddEvaluationStatus_def gm_lookup_def Let_def)
  show ?thesis
  proof (cases "esi_Status old = StateSucceeded")
    case True
    then have "e' = e1 \<and> ns' = fmupd (metric_name objective) old ns \<and>
        sm' = UpdateStatusSummary (esi_Status old) sm"
      using assms old by (simp add: evaluateObjective_def Let_def e1_def [symmetric] IsSucceeded_def)
    moreover have "earned quote (recorded_items e1) objective old"
      using old by (simp add: earned_def recorded_items_def gm_lookup_fmap)
    ultimately show ?thesis using e1 earned_pending by blast
  next
    case False
    obtain r s1 where r: "run_state (FetchData cl cfg objective (om_Namespace (e_meta e1))) s = (r, s1)"
      by fastforce
    show ?thesis
    proof (cases r)
      case (Inl err)
      with assms old False r e1 show ?thesis
        by (auto simp: evaluateObjective_def Let_def e1_def [symmetric] IsSucceeded_def
            updateStatusSummary_def earned_def)
    next
      case (Inr p)
      obtain check err where c: "checkValue quote objective
          \<lparr>esi_Value = fst p, esi_Status = StateFailed, esi_Message = []\<rparr> = (check, err)" by fastforce
      have same: "checkValue quote objective item = (check, err)" if "esi_Value item = fst p" for item
        using c checkValue_item [of item "\<lparr>esi_Value = fst p, esi_Status = StateFailed, esi_Message = []\<rparr>"]
          that by simp
      from assms old False r e1 Inr c show ?thesis
        by (cases p; cases check; cases err)
          (auto simp: evaluateObjective_def Let_def e1_def [symmetric] IsSucceeded_def
            updateStatusSummary_def earned_def same)
    qed
  qed
qed

lemma evaluateObjectives_spec:
  assumes "run_state (evaluateObjectives cl cfg quote objectives e sm ns) s = ((e', ns', sm'), s')"
  shows "with_pending e e' \<and> (\<exists>items. length items = length objectives \<and>
    ns' = fold (\<lambda>(objective, item). fmupd (metric_name objective) item) (zip objectives items) ns \<and>
    sm' = summarize (map esi_Status items) sm \<and> list_all2 (earned quote (recorded_items e)) objectives items)"
  using assms
proof (induction objectives arbitrary: e sm ns s)
  case Nil
  then show ?case by (simp add: with_pending_refl summarize_def)
next
  case (Cons objective objectives)
  obtain e1 ns1 sm1 s1 where one: "run_state (evaluateObjective cl cfg quote e sm ns objective) s =
      ((e1, ns1, sm1), s1)"
    by (metis prod.collapse)
  then have rest: "run_state (evaluateObjectives cl cfg quote objectives e1 sm1 ns1) s1 = ((e', ns', sm'), s')"
    using Cons.prems by simp
  obtain item where item: "with_pending e e1" "ns1 = fmupd (metric_name objective) item ns"
      "sm1 = UpdateStatusSummary (esi_Status item) sm" "earned quote (recorded_items e) objective item"
    using evaluateObjective_spec [OF one] by blast
  obtain items where items: "with_pending e1 e'" "length items = length objectives"
      "ns' = fold (\<lambda>(objective, item). fmupd (metric_name objective) item) (zip objectives items) ns1"
      "sm' = summarize (map esi_Status items) sm1"
      "list_all2 (earned quote (recorded_items e1)) objectives items"
    using Cons.IH [OF rest] by blast
  have "list_all2 (earned quote (recorded_items e)) objectives items"
    using items(5) by (rule list_all2_mono) (rule earned_pending [OF item(1)])
  then show ?case
    using item items with_pending_trans [OF item(1) items(1)]
    by (intro conjI exI [of _ "item # items"]) (simp_all add: summarize_def)
qed

lemma fold_upd_other:
  "n \<notin> metric_name ` fst ` set ps \<Longrightarrow>
   fmlookup (fold (\<lambda>(objective, item). fmupd (metric_name objective) item) ps m) n = fmlookup m n"
  by (induction ps arbitrary: m) auto

lemma fold_upd_lookup:
  assumes "distinct (map (\<lambda>p. metric_name (fst p)) ps)" and "(objective, item) \<in> set ps"
  shows "fmlookup (fold (\<lambda>(objective, item). fmupd (metric_name objective) item) ps m)
    (metric_name objective) = Some item"
  using assms
proof (induction ps arbitrary: m)
  case (Cons p ps)
  show ?case
  proof (cases "(objective, item) \<in> set ps")
    case True
    with Cons show ?thesis by (cases p) simp
  next
    case False
    with Cons.prems have "p = (objective, item)" by auto
    with Cons.prems show ?thesis by (auto simp: fold_upd_other image_image)
  qed
qed simp

text \<open>The number of rounds and the rest of the evaluation.\<close>

lemma performEvaluation_spec:
  assumes "run_state (performEvaluation cl cfg quote e d) s = (e', s')"
  shows "e_Spec e' = e_Spec e \<and> e_meta e' = e_meta e \<and>
    est_RetryCount (e_Status e') = est_RetryCount (e_Status e) + 1 \<and>
    (est_OverallStatus (e_Status e') = StateSucceeded \<or> est_OverallStatus (e_Status e') = StateProgressing) \<and>
    (\<exists>items. length items = length (eds_Objectives (ed_Spec d)) \<and>
      recorded_items e' = fold (\<lambda>(objective, item). fmupd (metric_name objective) item)
        (zip (eds_Objectives (ed_Spec d)) items) fmempty \<and>
      list_all2 (earned quote (recorded_items e)) (eds_Objectives (ed_Spec d)) items \<and>
      (est_OverallStatus (e_Status e') = StateSucceeded \<longleftrightarrow> (\<forall>item\<in>set items. esi_Status item = StateSucceeded)))"
proof -
  let ?objectives = "eds_Objectives (ed_Spec d)"
  define e0 where "e0 = e\<lparr>e_Status := (e_Status e)\<lparr>est_EvaluationStatus :=
    Some (gm_fmap (est_EvaluationStatus (e_Status e)))\<rparr>\<rparr>"
  have e0: "recorded_items e0 = recorded_items e" by (simp add: e0_def recorded_items_def gm_fmap_def)
  obtain e1 ns sm s1 where run: "run_state (evaluateObjectives cl cfg quote ?objectives e0
      (new_summary (int (length ?objectives))) fmempty) s = ((e1, ns, sm), s1)"
    by (metis prod.collapse)
  have e': "e' = e1\<lparr>e_Status := (e_Status e1)\<lparr>est_RetryCount := est_RetryCount (e_Status e1) + 1,
      est_EvaluationStatus := Some ns, est_OverallStatus :=
        (if GetOverallState sm = StateSucceeded then StateSucceeded else StateProgressing)\<rparr>\<rparr>"
    using assms run by (simp add: performEvaluation_def Let_def e0_def [symmetric])
  have pending: "with_pending e0 e1" using evaluateObjectives_spec [OF run] by blast
  obtain items where items: "length items = length ?objectives"
      "ns = fold (\<lambda>(objective, item). fmupd (metric_name objective) item) (zip ?objectives items) fmempty"
      "sm = summarize (map esi_Status items) (new_summary (int (length ?objectives)))"
      "list_all2 (earned quote (recorded_items e)) ?objectives items"
    using evaluateObjectives_spec [OF run] e0 by auto
  have "GetOverallState sm = StateSucceeded \<longleftrightarrow> (\<forall>item\<in>set items. esi_Status item = StateSucceeded)"
    unfolding items(3) by (subst overall_succeeded_iff) (simp_all add: items(1))
  then show ?thesis
    using items pending
    by (auto simp: e' with_pending_def e0_def recorded_items_def gm_fmap_def intro!: exI [of _ items])
qed

section \<open>Comparison\<close>

text \<open>The exact value that a numeral denotes, and the comparison that a target asks for.\<close>

definition exact_value :: "string \<Rightarrow> rat option" where
  "exact_value s = (if special s = None then readFloat s else None)"

definition exactly_meets :: "string \<Rightarrow> string \<Rightarrow> bool" where
  "exactly_meets v target \<longleftrightarrow>
     (\<exists>sign t. target = sign # t \<and> (\<forall>x y. exact_value v = Some x \<and> exact_value t = Some y \<longrightarrow>
        (if sign = CHR ''>'' then y < x else sign = CHR ''<'' \<and> x < y)))"

lemma ParseFloat_exact:
  "ParseFloat quote s = Inr x \<Longrightarrow> exact_value s = Some q \<Longrightarrow> x = float_of_rat q"
  by (auto simp: ParseFloat_def exact_value_def split: option.splits float64.splits if_splits)

lemma checkValue_exact:
  assumes "checkValue quote objective item = (True, None)"
  shows "exactly_meets (esi_Value item) (ob_EvaluationTarget objective)"
proof -
  obtain sign t where target: "ob_EvaluationTarget objective = sign # t"
    using assms by (auto simp: checkValue_def split: list.splits)
  obtain a where a: "ParseFloat quote (esi_Value item) = Inr a"
    using assms by (auto simp: checkValue_def target split: if_splits sum.splits)
  obtain b where b: "ParseFloat quote t = Inr b"
    using assms a by (auto simp: checkValue_def target split: if_splits sum.splits)
  have "if sign = CHR ''>'' then float_less b a else sign = CHR ''<'' \<and> float_less a b"
    using assms a b by (auto simp: checkValue_def target split: if_splits)
  then show ?thesis
    unfolding exactly_meets_def target
    using ParseFloat_exact [OF a] ParseFloat_exact [OF b] float_less_sound by (auto split: if_splits)
qed

section \<open>Rounds\<close>

primrec rounds :: "nat \<Rightarrow> ('w, 'a) prog \<Rightarrow> 'w Env \<Rightarrow> 'w Env" where
  "rounds 0 m s = s"
| "rounds (Suc n) m s = rounds n m (snd (run_state m s))"

text \<open>
  The laws of a server while nobody else writes the evaluation, whose definition exists: reads succeed
  and change nothing, and a status is stored as it is written.
\<close>

definition evaluation_key :: "KeptnEvaluation \<Rightarrow> string \<times> string" where
  "evaluation_key e = (om_Namespace (e_meta e), om_Name (e_meta e))"

definition evaluation_server ::
    "('w \<Rightarrow> KeptnEvaluation option) \<Rightarrow> 'w Client \<Rightarrow> Request \<Rightarrow> bool" where
  "evaluation_server obj cl req \<longleftrightarrow>
     (\<forall>w e. obj w = Some e \<longrightarrow> evaluation_key e = (req_Namespace req, req_Name req) \<and>
        (\<exists>w'. run_state (api_Get (cl_Evaluation cl) (req_Namespace req) (req_Name req)) w = (Inr e, w') \<and>
           obj w' = obj w) \<and>
        (\<exists>d w'. run_state (api_Get (cl_EvaluationDefinition cl) (req_Namespace req)
             (es_EvaluationDefinition (e_Spec e))) w = (Inr d, w') \<and> obj w' = obj w) \<and>
        (\<forall>y. evaluation_key y = evaluation_key e \<longrightarrow> (\<exists>z w'. run_state (api_StatusUpdate (cl_Evaluation cl) y) w = (Inr z, w') \<and> obj w' = Some z \<and>
           e_Spec z = e_Spec e \<and> est_RetryCount (e_Status z) = est_RetryCount (e_Status y) \<and>
           est_OverallStatus (e_Status z) =
             (if est_OverallStatus (e_Status y) = StateEmpty then StatePending
              else est_OverallStatus (e_Status y))))) \<and>
     (\<forall>w ns n. obj (snd (run_state (api_Get (cl_Metric cl) ns n) w)) = obj w) \<and>
     (\<forall>w. obj (snd (run_state (cl_Now cl) w)) = obj w)"

definition retries_left :: "KeptnEvaluation \<Rightarrow> int" where
  "retries_left e = fc_Retries (es_FailureConditions (e_Spec e)) - est_RetryCount (e_Status e)"

definition settled :: "KeptnEvaluation \<Rightarrow> bool" where
  "settled e \<longleftrightarrow> est_OverallStatus (e_Status e) = StateSucceeded \<or>
     est_OverallStatus (e_Status e) = StateFailed \<and> retries_left e \<le> 0"

lemma FetchData_obj:
  assumes "evaluation_server obj cl req"
  shows "obj (env_World (snd (run_state (FetchData cl cfg objective ns) s))) = obj (env_World s)"
proof -
  have metric: "obj (snd (run_state (api_Get (cl_Metric cl) a b) w)) = obj w" for a b w
    using assms by (simp add: evaluation_server_def)
  show ?thesis
    by (auto simp: FetchData_def GetKeptnMetric_def env_simps metric Let_def split: sum.splits prod.splits)
qed

lemma evaluateObjectives_obj:
  assumes "evaluation_server obj cl req"
  shows "obj (env_World (snd (run_state (evaluateObjectives cl cfg quote objectives e sm ns) s))) =
    obj (env_World s)"
proof (induction objectives arbitrary: e sm ns s)
  case (Cons objective objectives)
  have "obj (env_World (snd (run_state (evaluateObjective cl cfg quote e sm ns objective) s))) = obj (env_World s)"
    using FetchData_obj [OF assms, of cfg objective _ s]
    by (auto simp: evaluateObjective_def Let_def split: sum.splits prod.splits) (metis snd_conv)+
  with Cons.IH show ?case by (simp split: prod.splits) (metis snd_conv)
qed simp

lemma performEvaluation_obj:
  assumes "evaluation_server obj cl req"
  shows "obj (env_World (snd (run_state (performEvaluation cl cfg quote e d) s))) = obj (env_World s)"
  using evaluateObjectives_obj [OF assms]
  by (simp add: performEvaluation_def Let_def split: prod.splits) (metis snd_conv)

lemma evaluation_serverD:
  assumes "evaluation_server obj cl req" and "obj w = Some e"
  shows "\<exists>w'. run_state (api_Get (cl_Evaluation cl) (req_Namespace req) (req_Name req)) w = (Inr e, w') \<and>
      obj w' = Some e"
    and "\<exists>d w'. run_state (api_Get (cl_EvaluationDefinition cl) (req_Namespace req)
      (es_EvaluationDefinition (e_Spec e))) w = (Inr d, w') \<and> obj w' = Some e"
    and "est_OverallStatus (e_Status y) \<noteq> StateEmpty \<Longrightarrow> evaluation_key y = evaluation_key e \<Longrightarrow>
      \<exists>z w'. run_state (api_StatusUpdate (cl_Evaluation cl) y) w = (Inr z, w') \<and> obj w' = Some z \<and>
        e_Spec z = e_Spec e \<and> est_RetryCount (e_Status z) = est_RetryCount (e_Status y) \<and>
        est_OverallStatus (e_Status z) = est_OverallStatus (e_Status y)"
    and "obj (snd (run_state (cl_Now cl) w)) = Some e"
  using assms unfolding evaluation_server_def by (metis, metis, metis, metis)

lemma finished_stored:
  assumes "evaluation_server obj cl req" and "obj (env_World s) = Some e"
    and "est_OverallStatus (e_Status y) \<noteq> StateEmpty" and "evaluation_key y = evaluation_key e"
  shows "\<exists>z. obj (env_World (snd (run_state (updateFinishedEvaluationMetrics cl y) s))) = Some z \<and>
    e_Spec z = e_Spec e \<and> est_RetryCount (e_Status z) = est_RetryCount (e_Status y) \<and>
    est_OverallStatus (e_Status z) = est_OverallStatus (e_Status y)"
proof -
  let ?now = "fst (run_state (cl_Now cl) (env_World s))" and ?w = "snd (run_state (cl_Now cl) (env_World s))"
  let ?y = "Evaluation_SetEndTime ?now y"
  have y: "est_OverallStatus (e_Status ?y) = est_OverallStatus (e_Status y)"
    "est_RetryCount (e_Status ?y) = est_RetryCount (e_Status y)"
    by (simp_all add: Evaluation_SetEndTime_def)
  moreover have "evaluation_key ?y = evaluation_key e"
    using assms(4) by (simp add: Evaluation_SetEndTime_def evaluation_key_def)
  moreover have "obj ?w = Some e" using evaluation_serverD(4) [OF assms(1,2)] .
  ultimately obtain z w' where "run_state (api_StatusUpdate (cl_Evaluation cl) ?y) ?w = (Inr z, w')" "obj w' = Some z"
    "e_Spec z = e_Spec e" "est_RetryCount (e_Status z) = est_RetryCount (e_Status y)"
    "est_OverallStatus (e_Status z) = est_OverallStatus (e_Status y)"
    using evaluation_serverD(3) [OF assms(1), of ?w e ?y] assms(3) by auto
  then show ?thesis
    by (simp add: updateFinishedEvaluationMetrics_def Now_def env_simps meter_call_def Let_def)
qed

lemma conclude_stored:
  assumes "evaluation_server obj cl req" and "obj (env_World s) = Some e"
    and "est_OverallStatus (e_Status y) \<noteq> StateEmpty" and "evaluation_key y = evaluation_key e"
  shows "\<exists>z. obj (env_World (snd (run_state (conclude cl y) s))) = Some z \<and> e_Spec z = e_Spec e \<and>
    est_RetryCount (e_Status z) = est_RetryCount (e_Status y) \<and>
    est_OverallStatus (e_Status z) = est_OverallStatus (e_Status y)"
proof (cases "est_OverallStatus (e_Status y) = StateSucceeded")
  case True
  with finished_stored [OF assms] show ?thesis
    by (simp add: conclude_def IsSucceeded_def split: prod.splits) (metis snd_conv)
next
  case False
  with evaluation_serverD(3) [OF assms(1,2), of y] assms(3,4) show ?thesis
    by (auto simp: conclude_def IsSucceeded_def handleEvaluationIncomplete_def env_simps)
qed

lemma evaluation_exceeded:
  assumes "evaluation_server obj cl req" and "obj (env_World s) = Some e" and "retries_left e \<le> 0"
  shows "\<exists>e'. obj (env_World (snd (run_state (Evaluation_Reconcile cl cfg quote req) s))) = Some e' \<and>
    est_OverallStatus (e_Status e') = StateFailed \<and> retries_left e' = retries_left e"
proof -
  obtain w1 where get: "run_state (api_Get (cl_Evaluation cl) (req_Namespace req) (req_Name req)) (env_World s) =
      (Inr e, w1)" "obj w1 = Some e"
    using evaluation_serverD(1) [OF assms(1,2)] by blast
  obtain now w2 where now: "run_state (cl_Now cl) w1 = (now, w2)" "obj w2 = Some e"
    using evaluation_serverD(4) [OF assms(1) get(2)] by (metis prod.collapse)
  define y where "y = Evaluation_SetStartTime now e"
  have y: "evaluation_key y = evaluation_key e" "e_Spec y = e_Spec e" "est_RetryCount (e_Status y) = est_RetryCount (e_Status e)"
    by (simp_all add: y_def Evaluation_SetStartTime_def evaluation_key_def)
  let ?t = "s\<lparr>env_World := w2, env_Events := env_Events s @ [\<lparr>evc_Phase = PhaseReconcileEvaluation,
    evc_Type = ''Warning'', evc_Object = Evaluation_Event y, evc_Status = PhaseStateReconcileTimeout,
    evc_Message = ''retryCount exceeded'', evc_Version = []\<rparr>]\<rparr>"
  let ?y = "y\<lparr>e_Status := (e_Status y)\<lparr>est_OverallStatus := StateFailed\<rparr>\<rparr>"
  have "obj (env_World ?t) = Some e" using now by simp
  moreover have "evaluation_key ?y = evaluation_key e" using y(1) by (simp add: evaluation_key_def)
  ultimately show ?thesis
    using finished_stored [OF assms(1), of ?t e ?y] assms(3) y
    by (auto simp: Evaluation_Reconcile_def Now_def env_simps get now y_def [symmetric]
        handleEvaluationExceededRetries_def Emit_def retries_left_def split: prod.splits)
qed

lemma succeeded_step:
  assumes "evaluation_server obj cl req" and "obj (env_World s) = Some e"
    and "\<not> retries_left e \<le> 0" and "est_OverallStatus (e_Status e) = StateSucceeded"
  shows "\<exists>e'. obj (env_World (snd (run_state (Evaluation_Reconcile cl cfg quote req) s))) = Some e' \<and>
    est_OverallStatus (e_Status e') = StateSucceeded \<and> retries_left e' = retries_left e"
proof -
  obtain w1 where get: "run_state (api_Get (cl_Evaluation cl) (req_Namespace req) (req_Name req)) (env_World s) =
      (Inr e, w1)" "obj w1 = Some e"
    using evaluation_serverD(1) [OF assms(1,2)] by blast
  obtain now w2 where now: "run_state (cl_Now cl) w1 = (now, w2)" "obj w2 = Some e"
    using evaluation_serverD(4) [OF assms(1) get(2)] by (metis prod.collapse)
  define y where "y = Evaluation_SetStartTime now e"
  have y: "evaluation_key y = evaluation_key e" "e_Spec y = e_Spec e"
    "est_RetryCount (e_Status y) = est_RetryCount (e_Status e)"
    "est_OverallStatus (e_Status y) = est_OverallStatus (e_Status e)"
    by (simp_all add: y_def Evaluation_SetStartTime_def evaluation_key_def)
  have "obj (env_World (s\<lparr>env_World := w2\<rparr>)) = Some e" using now by simp
  from conclude_stored [OF assms(1) this, of y] assms(3,4) y show ?thesis
    by (auto simp: Evaluation_Reconcile_def Now_def env_simps get now y_def [symmetric] retries_left_def
        IsSucceeded_def)
qed

lemma evaluation_step:
  assumes "evaluation_server obj cl req" and "obj (env_World s) = Some e"
  shows "\<exists>e'. obj (env_World (snd (run_state (Evaluation_Reconcile cl cfg quote req) s))) = Some e' \<and>
    (settled e' \<or> \<not> settled e \<and> 0 < retries_left e \<and> retries_left e' = retries_left e - 1)"
proof -
  obtain w1 where get: "run_state (api_Get (cl_Evaluation cl) (req_Namespace req) (req_Name req)) (env_World s) =
      (Inr e, w1)" "obj w1 = Some e"
    using evaluation_serverD(1) [OF assms] by blast
  obtain now w2 where now: "run_state (cl_Now cl) w1 = (now, w2)" "obj w2 = Some e"
    using evaluation_serverD(4) [OF assms(1) get(2)] by (metis prod.collapse)
  define y where "y = Evaluation_SetStartTime now e"
  have y: "evaluation_key y = evaluation_key e" "e_Spec y = e_Spec e" "est_RetryCount (e_Status y) = est_RetryCount (e_Status e)"
    "est_OverallStatus (e_Status y) = est_OverallStatus (e_Status e)" "retries_left y = retries_left e"
    by (simp_all add: y_def Evaluation_SetStartTime_def retries_left_def evaluation_key_def)
  let ?s = "s\<lparr>env_World := w2\<rparr>"
  note run = Evaluation_Reconcile_def Now_def env_simps get now y_def [symmetric]
  consider (exceeded) "retries_left e \<le> 0"
    | (succeeded) "\<not> retries_left e \<le> 0" "est_OverallStatus (e_Status e) = StateSucceeded"
    | (perform) "\<not> retries_left e \<le> 0" "est_OverallStatus (e_Status e) \<noteq> StateSucceeded" by blast
  then show ?thesis
  proof cases
    case exceeded
    with evaluation_exceeded [OF assms] show ?thesis by (fastforce simp: settled_def)
  next
    case succeeded
    with succeeded_step [OF assms] show ?thesis by (fastforce simp: settled_def)
  next
    case perform
    obtain d w3 where d: "run_state (api_Get (cl_EvaluationDefinition cl) (req_Namespace req)
        (es_EvaluationDefinition (e_Spec y))) w2 = (Inr d, w3)" "obj w3 = Some e"
      using evaluation_serverD(2) [OF assms(1) now(2)] y by auto
    obtain y' s4 where eval: "run_state (performEvaluation cl cfg quote y d) (s\<lparr>env_World := w3\<rparr>) = (y', s4)"
      by fastforce
    have obj: "obj (env_World s4) = Some e"
      using performEvaluation_obj [OF assms(1), of cfg quote y d "s\<lparr>env_World := w3\<rparr>"] eval d by simp
    note y' = performEvaluation_spec [OF eval]
    obtain z where z: "obj (env_World (snd (run_state (conclude cl y') s4))) = Some z" "e_Spec z = e_Spec e"
      "est_RetryCount (e_Status z) = est_RetryCount (e_Status y')"
      "est_OverallStatus (e_Status z) = est_OverallStatus (e_Status y')"
      using conclude_stored [OF assms(1) obj, of y'] y' y(1) by (auto simp: evaluation_key_def)
    moreover have "obj (env_World (snd (run_state (Evaluation_Reconcile cl cfg quote req) s))) = Some z"
      using perform y z(1) eval d
      by (simp add: run retries_left_def IsSucceeded_def GetEvaluationDefinition_def getObject_def)
    ultimately show ?thesis
      using perform y y' by (auto simp: settled_def retries_left_def)
  qed
qed

lemma settled_rounds:
  assumes "evaluation_server obj cl req" and "obj (env_World s) = Some e"
    and "settled e \<or> retries_left e < int n"
  shows "\<exists>e'. obj (env_World (rounds n (Evaluation_Reconcile cl cfg quote req) s)) = Some e' \<and>
    (settled e' \<or> n = 0)"
  using assms(2,3)
proof (induction n arbitrary: s e)
  case 0
  then show ?case by simp
next
  case (Suc n)
  obtain e1 where e1: "obj (env_World (snd (run_state (Evaluation_Reconcile cl cfg quote req) s))) = Some e1"
    and step: "settled e1 \<or> \<not> settled e \<and> 0 < retries_left e \<and> retries_left e1 = retries_left e - 1"
    using evaluation_step [OF assms(1) Suc.prems(1)] by blast
  show ?case
  proof (cases n)
    case 0
    with e1 step Suc.prems show ?thesis by auto
  next
    case (Suc k)
    from step Suc.prems have "settled e1 \<or> retries_left e1 < int n" by auto
    from Suc.IH [OF e1 this] Suc show ?thesis by simp
  qed
qed

text \<open>What becomes of an evaluation that has ended: retries are looked at before the state.\<close>

definition later_status :: "KeptnEvaluation \<Rightarrow> KeptnState" where
  "later_status e = (if est_OverallStatus (e_Status e) = StateSucceeded \<and> 0 < retries_left e
     then StateSucceeded else StateFailed)"

lemma settled_step:
  assumes "evaluation_server obj cl req" and "obj (env_World s) = Some e" and "settled e"
  shows "\<exists>e'. obj (env_World (snd (run_state (Evaluation_Reconcile cl cfg quote req) s))) = Some e' \<and>
    est_OverallStatus (e_Status e') = later_status e \<and> retries_left e' = retries_left e"
proof (cases "retries_left e \<le> 0")
  case True
  with evaluation_exceeded [OF assms(1,2)] show ?thesis by (simp add: later_status_def)
next
  case False
  with assms(3) have "est_OverallStatus (e_Status e) = StateSucceeded" by (auto simp: settled_def)
  with succeeded_step [OF assms(1,2) _ this] False show ?thesis by (auto simp: later_status_def)
qed

lemma later_again:
  "est_OverallStatus (e_Status e') = later_status e \<Longrightarrow> retries_left e' = retries_left e \<Longrightarrow>
   later_status e' = later_status e"
  by (simp add: later_status_def)

lemma settled_later:
  assumes "evaluation_server obj cl req" and "obj (env_World s) = Some e" and "settled e"
  shows "\<exists>e'. obj (env_World (rounds (Suc k) (Evaluation_Reconcile cl cfg quote req) s)) = Some e' \<and>
    est_OverallStatus (e_Status e') = later_status e"
  using assms(2,3)
proof (induction k arbitrary: s e)
  case 0
  with settled_step [OF assms(1) 0] show ?case by simp blast
next
  case (Suc k)
  obtain e1 where e1: "obj (env_World (snd (run_state (Evaluation_Reconcile cl cfg quote req) s))) = Some e1"
    "est_OverallStatus (e_Status e1) = later_status e" "retries_left e1 = retries_left e"
    using settled_step [OF assms(1) Suc.prems] by blast
  have "settled e1"
    using Suc.prems(2) e1(2,3) by (auto simp: settled_def later_status_def split: if_splits)
  from Suc.IH [OF e1(1) this] later_again [OF e1(2,3)] show ?case by simp
qed

lemma rounds_add: "rounds (m + k) p s = rounds k p (rounds m p s)"
  by (induction m arbitrary: s) simp_all

text \<open>One objective: already met, or looked at with the value that the provider gives.\<close>

lemma evaluateObjective_recorded:
  assumes "fmlookup (recorded_items e) (metric_name objective) = Some item"
    and "esi_Status item = StateSucceeded"
  shows "run_state (evaluateObjective cl cfg quote e sm ns objective) s =
    ((e, fmupd (metric_name objective) item ns, UpdateStatusSummary StateSucceeded sm), s)"
  using assms
  by (simp add: evaluateObjective_def recorded_items_def gm_lookup_fmap [symmetric] IsSucceeded_def Let_def)

lemma evaluateObjective_fetched:
  assumes "\<forall>item. fmlookup (recorded_items e) (metric_name objective) = Some item \<longrightarrow>
      esi_Status item \<noteq> StateSucceeded"
    and "run_state (FetchData cl cfg objective (om_Namespace (e_meta e))) s = (Inr (v, raw), s)"
    and "checkValue quote objective \<lparr>esi_Value = v, esi_Status = StateFailed, esi_Message = []\<rparr> = (check, None)"
  shows "\<exists>e1 item. run_state (evaluateObjective cl cfg quote e sm ns objective) s =
      ((e1, fmupd (metric_name objective) item ns, UpdateStatusSummary (esi_Status item) sm), s) \<and>
    with_pending e e1 \<and> esi_Status item = (if check then StateSucceeded else StateFailed)"
proof -
  define e1 where "e1 = (if gm_lookup (est_EvaluationStatus (e_Status e)) (metric_name objective) = None
    then AddEvaluationStatus objective e else e)"
  have e1: "with_pending e e1" by (simp add: e1_def with_pending_refl with_pending_add)
  then have meta: "e_meta e1 = e_meta e" by (auto simp: with_pending_def)
  obtain old where old: "gm_lookup (est_EvaluationStatus (e_Status e1)) (metric_name objective) = Some old"
    by (cases "gm_lookup (est_EvaluationStatus (e_Status e)) (metric_name objective)")
      (auto simp: e1_def AddEvaluationStatus_def gm_lookup_def Let_def)
  then have "esi_Status old \<noteq> StateSucceeded"
    using e1 assms(1) unfolding with_pending_def recorded_items_def gm_lookup_fmap by blast
  with old assms(2,3) e1 show ?thesis
    by (cases check) (simp_all add: evaluateObjective_def Let_def e1_def [symmetric] IsSucceeded_def
        updateStatusSummary_def meta, (rule exI, intro conjI, rule refl, simp_all)+)
qed

section \<open>Statements\<close>

text \<open>
  Every item that is recorded as Succeeded has a value that meets an objective on its metric.
\<close>

definition recorded_met :: "(string \<Rightarrow> string) \<Rightarrow> Objective list \<Rightarrow> KeptnEvaluation \<Rightarrow> bool" where
  "recorded_met quote objectives e \<longleftrightarrow>
     (\<forall>objective\<in>set objectives. \<forall>item. fmlookup (recorded_items e) (metric_name objective) = Some item \<and>
        esi_Status item = StateSucceeded \<longrightarrow>
        (\<exists>other\<in>set objectives. metric_name other = metric_name objective \<and>
           checkValue quote other item = (True, None)))"

lemma round_items:
  assumes "recorded_met quote (eds_Objectives (ed_Spec d)) e"
    and "run_state (performEvaluation cl cfg quote e d) s = (e', s')"
  shows "\<exists>items. length items = length (eds_Objectives (ed_Spec d)) \<and>
     recorded_items e' = fold (\<lambda>(objective, item). fmupd (metric_name objective) item)
       (zip (eds_Objectives (ed_Spec d)) items) fmempty \<and>
     (\<forall>(objective, item)\<in>set (zip (eds_Objectives (ed_Spec d)) items). esi_Status item = StateSucceeded \<longrightarrow>
        (\<exists>other\<in>set (eds_Objectives (ed_Spec d)). metric_name other = metric_name objective \<and>
           checkValue quote other item = (True, None))) \<and>
     (est_OverallStatus (e_Status e') = StateSucceeded \<longleftrightarrow> (\<forall>item\<in>set items. esi_Status item = StateSucceeded))"
proof -
  let ?objectives = "eds_Objectives (ed_Spec d)"
  obtain items where items: "length items = length ?objectives"
      "recorded_items e' = fold (\<lambda>(objective, item). fmupd (metric_name objective) item) (zip ?objectives items) fmempty"
      "list_all2 (earned quote (recorded_items e)) ?objectives items"
      "est_OverallStatus (e_Status e') = StateSucceeded \<longleftrightarrow> (\<forall>item\<in>set items. esi_Status item = StateSucceeded)"
    using performEvaluation_spec [OF assms(2)] by blast
  have "\<exists>other\<in>set ?objectives. metric_name other = metric_name objective \<and> checkValue quote other item = (True, None)"
    if "(objective, item) \<in> set (zip ?objectives items)" "esi_Status item = StateSucceeded" for objective item
  proof -
    have "objective \<in> set ?objectives" using that(1) by (rule set_zip_leftD)
    moreover have "earned quote (recorded_items e) objective item"
      using items(3) that(1) by (auto simp: list_all2_iff)
    ultimately show ?thesis
      using that(2) assms(1) unfolding earned_def recorded_met_def by blast
  qed
  with items show ?thesis by (intro exI [of _ items]) auto
qed

lemma fold_upd_cases:
  "fmlookup (fold (\<lambda>(objective, item). fmupd (metric_name objective) item) ps m) n = Some item \<Longrightarrow>
   fmlookup m n = Some item \<or> (\<exists>objective. (objective, item) \<in> set ps \<and> metric_name objective = n)"
proof (induction ps arbitrary: m)
  case (Cons p ps)
  obtain objective item' where p: "p = (objective, item')" by fastforce
  from Cons.prems p have "fmlookup (fold (\<lambda>(objective, item). fmupd (metric_name objective) item) ps
      (fmupd (metric_name objective) item' m)) n = Some item" by simp
  from Cons.IH [OF this] p show ?case by (auto split: if_splits)
qed simp

lemma fold_upd_keeps:
  "fmlookup m n \<noteq> None \<Longrightarrow>
   fmlookup (fold (\<lambda>(objective, item). fmupd (metric_name objective) item) ps m) n \<noteq> None"
  by (induction ps arbitrary: m) auto

lemma fold_upd_some:
  "(objective, item) \<in> set ps \<Longrightarrow>
   fmlookup (fold (\<lambda>(objective, item). fmupd (metric_name objective) item) ps m) (metric_name objective) \<noteq> None"
proof (induction ps arbitrary: m)
  case (Cons p ps)
  then show ?case
    using Cons.IH fold_upd_keeps by (cases "p = (objective, item)") force+
qed simp

text \<open>
  C8: Every item recorded as Succeeded has a value that meets an objective on its metric, and a round
  that makes the evaluation Succeeded has recorded, for every objective, an item that is Succeeded and
  whose value meets an objective on the same metric, also when value and target are compared as the
  exact numbers they denote and not as floating point numbers.  When the objectives name distinct
  metrics, that objective is the objective itself, and a round makes the evaluation Succeeded exactly
  when there is such an item for every objective; two objectives on one metric share an item
  (\<open>shared_metric_hides_failure\<close>).
\<close>

theorem evaluation_success_is_earned:
  assumes "recorded_met quote (eds_Objectives (ed_Spec d)) e"
    and "run_state (performEvaluation cl cfg quote e d) s = (e', s')"
  shows "recorded_met quote (eds_Objectives (ed_Spec d)) e' \<and>
    (est_OverallStatus (e_Status e') = StateSucceeded \<longrightarrow>
      (\<forall>objective\<in>set (eds_Objectives (ed_Spec d)). \<exists>item. \<exists>other\<in>set (eds_Objectives (ed_Spec d)).
         fmlookup (recorded_items e') (metric_name objective) = Some item \<and> esi_Status item = StateSucceeded \<and>
         metric_name other = metric_name objective \<and>
         exactly_meets (esi_Value item) (ob_EvaluationTarget other))) \<and>
    (distinct (map metric_name (eds_Objectives (ed_Spec d))) \<longrightarrow>
      (est_OverallStatus (e_Status e') = StateSucceeded \<longleftrightarrow>
        (\<forall>objective\<in>set (eds_Objectives (ed_Spec d)). \<exists>item.
           fmlookup (recorded_items e') (metric_name objective) = Some item \<and> esi_Status item = StateSucceeded \<and>
           exactly_meets (esi_Value item) (ob_EvaluationTarget objective))))"
proof -
  let ?os = "eds_Objectives (ed_Spec d)"
  obtain items where len: "length items = length ?os"
    and rec: "recorded_items e' = fold (\<lambda>(objective, item). fmupd (metric_name objective) item) (zip ?os items) fmempty"
    and met: "\<And>objective item. (objective, item) \<in> set (zip ?os items) \<Longrightarrow> esi_Status item = StateSucceeded \<Longrightarrow>
        \<exists>other\<in>set ?os. metric_name other = metric_name objective \<and> checkValue quote other item = (True, None)"
    and overall: "est_OverallStatus (e_Status e') = StateSucceeded \<longleftrightarrow> (\<forall>item\<in>set items. esi_Status item = StateSucceeded)"
    using round_items [OF assms] by blast
  have from_pair: "\<exists>objective. (objective, item) \<in> set (zip ?os items) \<and> metric_name objective = n"
    if "fmlookup (recorded_items e') n = Some item" for n item
    using fold_upd_cases [OF that [unfolded rec]] by simp
  have some: "\<exists>item. fmlookup (recorded_items e') (metric_name objective) = Some item"
    if member: "objective \<in> set ?os" for objective
  proof -
    obtain item where "(objective, item) \<in> set (zip ?os items)"
      by (rule in_set_impl_in_set_zip1 [OF len [symmetric] member])
    from fold_upd_some [OF this] show ?thesis unfolding rec by blast
  qed
  have rmet: "recorded_met quote ?os e'"
    unfolding recorded_met_def using from_pair met by metis
  have succ: "\<exists>item. \<exists>other\<in>set ?os. fmlookup (recorded_items e') (metric_name objective) = Some item \<and>
      esi_Status item = StateSucceeded \<and> metric_name other = metric_name objective \<and>
      exactly_meets (esi_Value item) (ob_EvaluationTarget other)"
    if ended: "est_OverallStatus (e_Status e') = StateSucceeded" and member: "objective \<in> set ?os" for objective
  proof -
    obtain item where item: "fmlookup (recorded_items e') (metric_name objective) = Some item"
      using some [OF member] by blast
    obtain o' where pair: "(o', item) \<in> set (zip ?os items)" "metric_name o' = metric_name objective"
      using from_pair [OF item] by blast
    have "esi_Status item = StateSucceeded"
      using ended overall set_zip_rightD [OF pair(1)] by blast
    with met [OF pair(1)] pair(2) item show ?thesis using checkValue_exact by metis
  qed
  have own: "est_OverallStatus (e_Status e') = StateSucceeded"
    if "distinct (map metric_name ?os)" "\<forall>objective\<in>set ?os. \<exists>item.
      fmlookup (recorded_items e') (metric_name objective) = Some item \<and> esi_Status item = StateSucceeded"
  proof -
    have "map (\<lambda>p. metric_name (fst p)) (zip ?os items) = map metric_name (map fst (zip ?os items))" by simp
    then have dist: "distinct (map (\<lambda>p. metric_name (fst p)) (zip ?os items))"
      using that(1) by (simp only: map_fst_zip [OF len [symmetric]])
    have "esi_Status item = StateSucceeded" if item: "item \<in> set items" for item
    proof -
      obtain objective where pair: "(objective, item) \<in> set (zip ?os items)"
        by (rule in_set_impl_in_set_zip2 [OF len [symmetric] item])
      from fold_upd_lookup [OF dist this] rec
      have "fmlookup (recorded_items e') (metric_name objective) = Some item" by simp
      with \<open>\<forall>objective\<in>set ?os. _\<close> set_zip_leftD [OF pair] show ?thesis by force
    qed
    with overall show ?thesis by blast
  qed
  have same: "other = objective" if "distinct (map metric_name ?os)" "other \<in> set ?os" "objective \<in> set ?os"
    "metric_name other = metric_name objective" for other objective
    using that by (metis distinct_map inj_onD)
  have each: "\<exists>item. fmlookup (recorded_items e') (metric_name objective) = Some item \<and>
      esi_Status item = StateSucceeded \<and> exactly_meets (esi_Value item) (ob_EvaluationTarget objective)"
    if dist: "distinct (map metric_name ?os)" and ended: "est_OverallStatus (e_Status e') = StateSucceeded"
      and member: "objective \<in> set ?os" for objective
  proof -
    from succ [OF ended member] obtain item other where "other \<in> set ?os"
      and item: "fmlookup (recorded_items e') (metric_name objective) = Some item"
        "esi_Status item = StateSucceeded" "metric_name other = metric_name objective"
        "exactly_meets (esi_Value item) (ob_EvaluationTarget other)" by blast
    with same [OF dist _ member] show ?thesis by blast
  qed
  have iff: "est_OverallStatus (e_Status e') = StateSucceeded \<longleftrightarrow> (\<forall>objective\<in>set ?os. \<exists>item.
      fmlookup (recorded_items e') (metric_name objective) = Some item \<and> esi_Status item = StateSucceeded \<and>
      exactly_meets (esi_Value item) (ob_EvaluationTarget objective))"
    if dist: "distinct (map metric_name ?os)"
  proof (rule iffI)
    assume all: "\<forall>objective\<in>set ?os. \<exists>item. fmlookup (recorded_items e') (metric_name objective) = Some item \<and>
      esi_Status item = StateSucceeded \<and> exactly_meets (esi_Value item) (ob_EvaluationTarget objective)"
    show "est_OverallStatus (e_Status e') = StateSucceeded"
      by (rule own [OF dist]) (use all in blast)
  qed (use each [OF dist] in blast)
  show ?thesis
    by (intro conjI impI ballI, rule rmet, erule (1) succ, erule iff)
qed

text \<open>
  C7: While nobody else writes an evaluation and its definition exists, the evaluation comes to an end:
  after more rounds than it has retries left it is Succeeded or Failed.  What comes after that is
  determined: an evaluation that succeeded with retries left stays Succeeded and one that is Failed
  stays Failed in all later rounds, while one that succeeded with its last retry is Failed from the
  next round on.
\<close>

theorem evaluation_completes:
  assumes "evaluation_server obj cl req" and "obj (env_World s) = Some e"
    and "retries_left e \<le> int n" and "n < m"
  shows "\<exists>e1 e2. obj (env_World (rounds m (Evaluation_Reconcile cl cfg quote req) s)) = Some e1 \<and>
    (est_OverallStatus (e_Status e1) = StateSucceeded \<or> est_OverallStatus (e_Status e1) = StateFailed) \<and>
    obj (env_World (rounds (m + Suc k) (Evaluation_Reconcile cl cfg quote req) s)) = Some e2 \<and>
    est_OverallStatus (e_Status e2) = later_status e1"
proof -
  from settled_rounds [OF assms(1,2), of m] assms(3,4) obtain e1 where
    e1: "obj (env_World (rounds m (Evaluation_Reconcile cl cfg quote req) s)) = Some e1" "settled e1"
    by auto
  from settled_later [OF assms(1) this, where cfg = cfg and quote = quote and k = k] obtain e2 where
    "obj (env_World (rounds (m + Suc k) (Evaluation_Reconcile cl cfg quote req) s)) = Some e2"
    "est_OverallStatus (e_Status e2) = later_status e1"
    by (metis rounds_add)
  with e1 show ?thesis by (auto simp: settled_def)
qed

text \<open>
  Items are recorded under the name of their metric alone.  Of two objectives for one metric the
  second overwrites the first, so that a value that misses the first and meets the second makes the
  evaluation Succeeded in the second round, whatever the first objective asks for.
\<close>

theorem shared_metric_hides_failure:
  assumes "eds_Objectives (ed_Spec d) = [o1, o2]" and "metric_name o1 = metric_name o2"
    and "recorded_items e = fmempty"
    and "run_state (FetchData cl cfg o1 (om_Namespace (e_meta e))) s = (Inr (v, raw), s)"
    and "run_state (FetchData cl cfg o2 (om_Namespace (e_meta e))) s = (Inr (v, raw), s)"
    and "checkValue quote o1 \<lparr>esi_Value = v, esi_Status = StateFailed, esi_Message = []\<rparr> = (False, None)"
    and "checkValue quote o2 \<lparr>esi_Value = v, esi_Status = StateFailed, esi_Message = []\<rparr> = (True, None)"
  shows "\<exists>e1 e2. run_state (performEvaluation cl cfg quote e d) s = (e1, s) \<and>
    est_OverallStatus (e_Status e1) = StateProgressing \<and>
    run_state (performEvaluation cl cfg quote e1 d) s = (e2, s) \<and>
    est_OverallStatus (e_Status e2) = StateSucceeded"
proof -
  let ?n = "metric_name o2"
  define start where "start e = e\<lparr>e_Status := (e_Status e)\<lparr>est_EvaluationStatus :=
    Some (gm_fmap (est_EvaluationStatus (e_Status e)))\<rparr>\<rparr>" for e :: KeptnEvaluation
  have start: "recorded_items (start e) = recorded_items e" "e_meta (start e) = e_meta e" for e
    by (simp_all add: start_def recorded_items_def gm_fmap_def)
  obtain e1 i1 where one: "run_state (evaluateObjective cl cfg quote (start e) (new_summary 2) fmempty o1) s =
      ((e1, fmupd ?n i1 fmempty, UpdateStatusSummary StateFailed (new_summary 2)), s)" "with_pending (start e) e1"
    using evaluateObjective_fetched [of "start e" o1 cl cfg s v raw quote False "new_summary 2" fmempty] assms start
    by auto
  have "e_meta e1 = e_meta e"
    "\<forall>item. fmlookup (recorded_items e1) ?n = Some item \<longrightarrow> esi_Status item \<noteq> StateSucceeded"
    using one(2) assms(3) start unfolding with_pending_def by auto
  then obtain e2 i2 sm where two: "run_state (evaluateObjective cl cfg quote e1
      (UpdateStatusSummary StateFailed (new_summary 2)) (fmupd ?n i1 fmempty) o2) s =
      ((e2, fmupd ?n i2 (fmupd ?n i1 fmempty), UpdateStatusSummary StateSucceeded
        (UpdateStatusSummary StateFailed (new_summary 2))), s)" "esi_Status i2 = StateSucceeded"
    using evaluateObjective_fetched [of e1 o2 cl cfg s v raw quote True
        "UpdateStatusSummary StateFailed (new_summary 2)" "fmupd ?n i1 fmempty"] assms(5,7) by auto
  have overall:
    "GetOverallState (UpdateStatusSummary StateSucceeded (UpdateStatusSummary StateFailed (new_summary 2))) =
       StateFailed"
    "GetOverallState (UpdateStatusSummary StateSucceeded (UpdateStatusSummary StateSucceeded (new_summary 2))) =
       StateSucceeded"
    by (simp_all add: GetOverallState_def GetTotalCount_def new_summary_def)
  define e3 where "e3 = e2\<lparr>e_Status := (e_Status e2)\<lparr>est_RetryCount := est_RetryCount (e_Status e2) + 1,
    est_EvaluationStatus := Some (fmupd ?n i2 (fmupd ?n i1 fmempty)), est_OverallStatus := StateProgressing\<rparr>\<rparr>"
  have round1: "run_state (performEvaluation cl cfg quote e d) s = (e3, s)"
    using one two assms(1) overall
    by (simp add: performEvaluation_def start_def [symmetric] e3_def del: UpdateStatusSummary.simps)
  have "fmlookup (recorded_items (start e3)) ?n = Some i2"
    by (simp add: start) (simp add: recorded_items_def e3_def gm_fmap_def)
  note rec = evaluateObjective_recorded [OF this two(2)]
    evaluateObjective_recorded [of "start e3" o1, unfolded assms(2), OF this two(2)]
  have "\<exists>e4. run_state (performEvaluation cl cfg quote e3 d) s = (e4, s) \<and>
      est_OverallStatus (e_Status e4) = StateSucceeded"
    using assms(1) overall
    by (simp add: performEvaluation_def start_def [symmetric] rec del: UpdateStatusSummary.simps)
  moreover have "est_OverallStatus (e_Status e3) = StateProgressing" by (simp add: e3_def)
  ultimately show ?thesis using round1 by blast
qed

text \<open>
  The retries are counted before the state is looked at: when an evaluation that succeeded with its
  last retry is reconciled again, it is stored as Failed.
\<close>

theorem last_retry_success_fails:
  assumes "evaluation_server obj cl req" and "obj (env_World s) = Some e"
    and "est_OverallStatus (e_Status e) = StateSucceeded" and "retries_left e \<le> 0"
  shows "\<exists>e'. obj (env_World (snd (run_state (Evaluation_Reconcile cl cfg quote req) s))) = Some e' \<and>
    est_OverallStatus (e_Status e') = StateFailed"
  using evaluation_exceeded [OF assms(1,2,4)] by blast


end
