(* ===== verification/Task_Definition.thy ===== *)
theory Task_Definition
  imports Cluster
begin

text \<open>
  Task definitions: the helpers of \<^verbatim>\<open>controllers/common/taskdefinition\<close> and the controller
  \<^verbatim>\<open>controllers/lifecycle/keptntaskdefinition\<close>, which keeps the code of inline functions in ConfigMaps.
\<close>

section \<open>Helpers\<close>

abbreviation FunctionRuntimeImageKey :: string where
  "FunctionRuntimeImageKey \<equiv> ''FUNCTION_RUNNER_IMAGE''"

abbreviation PythonRuntimeImageKey :: string where
  "PythonRuntimeImageKey \<equiv> ''PYTHON_RUNNER_IMAGE''"

abbreviation FunctionScriptMountPath :: string where
  "FunctionScriptMountPath \<equiv> ''/var/data/function.ts''"

abbreviation PythonScriptMountPath :: string where
  "PythonScriptMountPath \<equiv> ''/var/data/function.py''"

definition zero_RuntimeSpec :: RuntimeSpec where
  "zero_RuntimeSpec = \<lparr>rs_FunctionReference = [], rs_Inline = [], rs_HttpReference = [],
     rs_ConfigMapReference = [], rs_Parameters = None, rs_SecureParameters = [], rs_CmdParameters = []\<rparr>"

definition IsRuntimeEmpty :: "RuntimeSpec option \<Rightarrow> bool" where
  "IsRuntimeEmpty spec \<longleftrightarrow> (case spec of None \<Rightarrow> True | Some s \<Rightarrow> s = zero_RuntimeSpec)"

definition IsContainerEmpty :: "ContainerSpec option \<Rightarrow> bool" where
  "IsContainerEmpty spec \<longleftrightarrow> (case spec of None \<Rightarrow> True | Some s \<Rightarrow> s = \<lparr>cs_Container = None\<rparr>)"

definition IsVolumeMountPresent :: "ContainerSpec option \<Rightarrow> bool" where
  "IsVolumeMountPresent spec \<longleftrightarrow>
     (case spec of
        None \<Rightarrow> False
      | Some s \<Rightarrow> (case cs_Container s of None \<Rightarrow> False | Some c \<Rightarrow> c_VolumeMounts c \<noteq> []))"

definition IsInline :: "RuntimeSpec option \<Rightarrow> bool" where
  "IsInline spec \<longleftrightarrow> (case spec of None \<Rightarrow> False | Some s \<Rightarrow> rs_Inline s \<noteq> [])"

definition GetRuntimeSpec :: "KeptnTaskDefinition \<Rightarrow> RuntimeSpec option" where
  "GetRuntimeSpec def =
     (if \<not> IsRuntimeEmpty (tds_Deno (td_Spec def)) then tds_Deno (td_Spec def)
      else if \<not> IsRuntimeEmpty (tds_Python (td_Spec def)) then tds_Python (td_Spec def)
      else None)"

text \<open>The environment of the process (\<^verbatim>\<open>os.Getenv\<close>) is an argument.\<close>

definition GetRuntimeImage :: "(string \<Rightarrow> string) \<Rightarrow> KeptnTaskDefinition \<Rightarrow> string" where
  "GetRuntimeImage getenv def =
     (if \<not> IsRuntimeEmpty (tds_Python (td_Spec def)) \<and> IsRuntimeEmpty (tds_Deno (td_Spec def))
      then getenv PythonRuntimeImageKey else getenv FunctionRuntimeImageKey)"

definition GetCmName :: "string \<Rightarrow> RuntimeSpec \<Rightarrow> string" where
  "GetCmName functionName spec =
     (if IsInline (Some spec) then ''keptnfn-'' @ TruncateString functionName 245
      else rs_ConfigMapReference spec)"

definition GetRuntimeMountPath :: "KeptnTaskDefinition \<Rightarrow> string" where
  "GetRuntimeMountPath def =
     (if \<not> IsRuntimeEmpty (tds_Python (td_Spec def)) \<and> IsRuntimeEmpty (tds_Deno (td_Spec def))
      then PythonScriptMountPath else FunctionScriptMountPath)"

definition SpecExists :: "KeptnTaskDefinition \<Rightarrow> bool" where
  "SpecExists definition' \<longleftrightarrow>
     (if GetRuntimeSpec definition' \<noteq> None then True
      else \<not> IsContainerEmpty (tds_Container (td_Spec definition')))"

section \<open>The controller\<close>

definition generateConfigMap :: "RuntimeSpec \<Rightarrow> string \<Rightarrow> string \<Rightarrow> ConfigMap" where
  "generateConfigMap spec name namespace =
     \<lparr>cm_meta = named_meta name namespace, cm_Data = Some (fmap_of_list [(''code'', rs_Inline spec)])\<rparr>"

definition zero_ConfigMap :: ConfigMap where
  "zero_ConfigMap = \<lparr>cm_meta = zero_ObjectMeta, cm_Data = None\<rparr>"

definition ConfigMap_Event :: "ConfigMap \<Rightarrow> EventTarget" where
  "ConfigMap_Event cm = \<lparr>et_meta = cm_meta cm, et_EventAnnotations = None\<rparr>"

text \<open>
  A write returns the ConfigMap as it is stored; the caller's object becomes the stored one.
\<close>

definition reconcileConfigMap ::
    "'w Client \<Rightarrow> ConfigMap option \<Rightarrow> ConfigMap option \<Rightarrow> ('w, ConfigMap option) prog" where
  "reconcileConfigMap cl functionCm cm =
     (case functionCm of
        None \<Rightarrow> ret None
      | Some f \<Rightarrow>
          if cm = None \<or> cm = Some zero_ConfigMap then do {
            r \<leftarrow> on_world (api_Create (cl_ConfigMap cl) f);
            case r of
              Inl err \<Rightarrow> do {
                Emit PhaseReconcileTask ''Warning'' (ConfigMap_Event f) PhaseStateFailed
                  ''could not create configmap'' [];
                ret (Some f)
              }
            | Inr stored \<Rightarrow> ret (Some stored)
          }
          else if cm \<noteq> functionCm then do {
            r \<leftarrow> on_world (api_Update (cl_ConfigMap cl) f);
            case r of
              Inl err \<Rightarrow> do {
                Emit PhaseReconcileTask ''Warning'' (ConfigMap_Event f) PhaseStateFailed
                  ''could not update configmap'' [];
                ret (Some f)
              }
            | Inr stored \<Rightarrow> ret (Some stored)
          }
          else ret functionCm)"

definition getConfigMap :: "'w Client \<Rightarrow> string \<Rightarrow> string \<Rightarrow> ('w, error + ConfigMap) prog" where
  "getConfigMap cl cmName namespace = on_world (api_Get (cl_ConfigMap cl) namespace cmName)"

text \<open>The ConfigMap with the reference to its definition is returned; nothing stores it.\<close>

definition updateTaskDefinitionStatus ::
    "'w Client \<Rightarrow> ConfigMap option \<Rightarrow> KeptnTaskDefinition \<Rightarrow> ConfigMap option \<times> KeptnTaskDefinition" where
  "updateTaskDefinitionStatus cl functionCm definition' =
     (case functionCm of
        None \<Rightarrow> (None, definition')
      | Some f \<Rightarrow>
          if td_ConfigMap definition' \<noteq> om_Name (cm_meta f) then
            (Some (case cl_SetControllerReference cl ''KeptnTaskDefinition'' (td_meta definition') (cm_meta f) of
               Inl err \<Rightarrow> f
             | Inr meta \<Rightarrow> f\<lparr>cm_meta := meta\<rparr>),
             definition'\<lparr>td_ConfigMap := om_Name (cm_meta f)\<rparr>)
          else (functionCm, definition'))"

definition reconcile_function ::
    "'w Client \<Rightarrow> KeptnTaskDefinition \<Rightarrow> RuntimeSpec \<Rightarrow> string \<Rightarrow> ConfigMap option \<Rightarrow> ('w, outcome) prog" where
  "reconcile_function cl definition' defSpec cmName cm = do {
     let functionCm =
       (if IsInline (Some defSpec) then
          Some (generateConfigMap defSpec cmName (om_Namespace (td_meta definition')))
        else cm);
     functionCm \<leftarrow> reconcileConfigMap cl functionCm cm;
     let (functionCm, definition') = updateTaskDefinitionStatus cl functionCm definition';
     r \<leftarrow> on_world (api_StatusUpdate (cl_TaskDefinition cl) definition');
     ret (no_requeue, None)
   }"

definition TaskDefinition_Reconcile :: "'w Client \<Rightarrow> Request \<Rightarrow> ('w, outcome) prog" where
  "TaskDefinition_Reconcile cl req = do {
     r \<leftarrow> on_world (api_Get (cl_TaskDefinition cl) (req_Namespace req) (req_Name req));
     case r of
       Inl err \<Rightarrow>
         if IsNotFound err then ret (no_requeue, None) else ret (requeue_after 30, None)
     | Inr definition' \<Rightarrow>
         (case (tds_Container (td_Spec definition'), GetRuntimeSpec definition') of
            (None, Some defSpec) \<Rightarrow> do {
              let cmName = GetCmName (om_Name (td_meta definition')) defSpec;
              r \<leftarrow> getConfigMap cl cmName (req_Namespace req);
              case r of
                Inl err \<Rightarrow>
                  if \<not> IsNotFound err then ret (no_requeue, None)
                  else reconcile_function cl definition' defSpec cmName None
              | Inr cm \<Rightarrow> reconcile_function cl definition' defSpec cmName (Some cm)
            }
          | _ \<Rightarrow> ret (no_requeue, None))
   }"

section \<open>Lemmas\<close>

text \<open>A change of the reference of ownership is not seen by anybody.\<close>

lemma updateTaskDefinitionStatus_definition:
  "snd (updateTaskDefinitionStatus cl functionCm definition') =
     (case functionCm of None \<Rightarrow> definition' | Some f \<Rightarrow> definition'\<lparr>td_ConfigMap := om_Name (cm_meta f)\<rparr>)"
  by (auto simp: updateTaskDefinitionStatus_def split: option.splits)

lemma reconcile_function_definition:
  "reconcile_function cl definition' defSpec cmName cm = do {
     functionCm \<leftarrow> reconcileConfigMap cl (if IsInline (Some defSpec) then
       Some (generateConfigMap defSpec cmName (om_Namespace (td_meta definition'))) else cm) cm;
     r \<leftarrow> on_world (api_StatusUpdate (cl_TaskDefinition cl)
       (case functionCm of None \<Rightarrow> definition' | Some f \<Rightarrow> definition'\<lparr>td_ConfigMap := om_Name (cm_meta f)\<rparr>));
     ret (no_requeue, None)
   }"
  by (simp add: reconcile_function_def case_prod_beta updateTaskDefinitionStatus_definition Let_def)




section \<open>Statements\<close>

text \<open>
  The laws of a server that stores ConfigMaps by namespace and name: reads return what is stored and
  change nothing, and a ConfigMap that was written holds the data written.
\<close>

definition stores_config_maps ::
    "('w \<Rightarrow> string \<times> string \<Rightarrow> ConfigMap option) \<Rightarrow> 'w Client \<Rightarrow> bool" where
  "stores_config_maps cms cl \<longleftrightarrow>
     (\<forall>ns n w r w'. run_state (api_Get (cl_ConfigMap cl) ns n) w = (r, w') \<longrightarrow>
        cms w' = cms w \<and> (\<forall>c. r = Inr c \<longrightarrow> cms w (ns, n) = Some c)) \<and>
     (\<forall>y w z w'. run_state (api_Create (cl_ConfigMap cl) y) w = (Inr z, w') \<or>
        run_state (api_Update (cl_ConfigMap cl) y) w = (Inr z, w') \<longrightarrow>
        (\<exists>c. cms w' (om_Namespace (cm_meta y), om_Name (cm_meta y)) = Some c \<and> cm_Data c = cm_Data y)) \<and>
     (\<forall>y w. cms (snd (run_state (api_StatusUpdate (cl_TaskDefinition cl) y) w)) = cms w)"

lemma reconcileConfigMap_stored:
  assumes "stores_config_maps cms cl" and "run_state (reconcileConfigMap cl (Some f) cm) s = (r, s')"
    and "env_Events s' = env_Events s"
    and "\<And>c. cm = Some c \<Longrightarrow> cms (env_World s) (om_Namespace (cm_meta f), om_Name (cm_meta f)) = Some c"
  shows "\<exists>c. cms (env_World s') (om_Namespace (cm_meta f), om_Name (cm_meta f)) = Some c \<and> cm_Data c = cm_Data f"
proof -
  have laws: "run_state (api_Create (cl_ConfigMap cl) f) (env_World s) = (Inr z, w') \<or>
      run_state (api_Update (cl_ConfigMap cl) f) (env_World s) = (Inr z, w') \<Longrightarrow>
      \<exists>c. cms w' (om_Namespace (cm_meta f), om_Name (cm_meta f)) = Some c \<and> cm_Data c = cm_Data f" for z w'
    using assms(1) unfolding stores_config_maps_def by blast
  consider (create) "cm = None \<or> cm = Some zero_ConfigMap"
    | (update) c where "cm = Some c" "c \<noteq> zero_ConfigMap" "c \<noteq> f"
    | (same) "cm = Some f" "f \<noteq> zero_ConfigMap"
    by (cases cm) auto
  then show ?thesis
  proof cases
    case create
    with assms(2,3) show ?thesis
      by (cases "run_state (api_Create (cl_ConfigMap cl) f) (env_World s)")
        (auto simp: reconcileConfigMap_def env_simps Emit_def split: sum.splits intro: laws)
  next
    case update
    with assms(2,3) show ?thesis
      by (cases "run_state (api_Update (cl_ConfigMap cl) f) (env_World s)")
        (auto simp: reconcileConfigMap_def env_simps Emit_def split: sum.splits intro: laws)
  next
    case same
    with assms(2,4) show ?thesis by (auto simp: reconcileConfigMap_def)
  qed
qed

text \<open>
  When a task definition with an inline function is reconciled and no failure is reported, the
  ConfigMap of the definition holds exactly the code of the function: it was created, it was brought up
  to date, or it did so already.
\<close>

theorem inline_code_stored:
  assumes "stores_config_maps cms cl"
    and "run_state (api_Get (cl_TaskDefinition cl) (req_Namespace req) (req_Name req)) (env_World s) =
      (Inr definition', w1)"
    and "om_Namespace (td_meta definition') = req_Namespace req"
    and "tds_Container (td_Spec definition') = None" and "GetRuntimeSpec definition' = Some spec"
    and "rs_Inline spec \<noteq> []"
    and "run_state (api_Get (cl_ConfigMap cl) (req_Namespace req)
      (GetCmName (om_Name (td_meta definition')) spec)) w1 = (found, w2)"
    and "\<forall>err. found = Inl err \<longrightarrow> IsNotFound err"
    and "run_state (TaskDefinition_Reconcile cl req) s = (outcome, s')" and "env_Events s' = env_Events s"
  shows "\<exists>c. cms (env_World s') (req_Namespace req, GetCmName (om_Name (td_meta definition')) spec) = Some c \<and>
    cm_Data c = Some (fmap_of_list [(''code'', rs_Inline spec)])"
proof -
  let ?name = "GetCmName (om_Name (td_meta definition')) spec"
  let ?f = "generateConfigMap spec ?name (req_Namespace req)"
  let ?cm = "case found of Inl _ \<Rightarrow> None | Inr c \<Rightarrow> Some c"
  have inline: "IsInline (Some spec)" using assms(6) by (simp add: IsInline_def)
  have run: "run_state (reconcile_function cl definition' spec ?name ?cm) (s\<lparr>env_World := w2\<rparr>) = (outcome, s')"
    using assms(2,4,5,7,8,9)
    by (auto simp: TaskDefinition_Reconcile_def getConfigMap_def env_simps Let_def split: sum.splits)
  obtain g s1 where one: "run_state (reconcileConfigMap cl (Some ?f) ?cm) (s\<lparr>env_World := w2\<rparr>) = (g, s1)"
    by fastforce
  obtain y where s': "s' = s1\<lparr>env_World := snd (run_state (api_StatusUpdate (cl_TaskDefinition cl) y) (env_World s1))\<rparr>"
    using run one assms(3) inline
    by (auto simp: reconcile_function_definition env_simps split: if_splits)
  have meta: "om_Namespace (cm_meta ?f) = req_Namespace req" "om_Name (cm_meta ?f) = ?name"
    by (simp_all add: generateConfigMap_def named_meta_def)
  have "cms w2 = cms w1" "\<forall>c. found = Inr c \<longrightarrow> cms w1 (req_Namespace req, ?name) = Some c"
    using assms(1,7) unfolding stores_config_maps_def by blast+
  then have "?cm = Some c \<Longrightarrow> cms w2 (req_Namespace req, ?name) = Some c" for c
    by (auto split: sum.splits)
  then have "\<exists>c. cms (env_World s1) (req_Namespace req, ?name) = Some c \<and> cm_Data c = cm_Data ?f"
    using reconcileConfigMap_stored [OF assms(1) one] s' assms(10) meta by simp
  moreover have "cms (env_World s') = cms (env_World s1)"
    using assms(1) s' by (simp add: stores_config_maps_def)
  ultimately show ?thesis by (simp add: generateConfigMap_def)
qed

text \<open>
  The reference that makes a task definition the owner of its ConfigMap never reaches the server:
  it is set after the ConfigMap has been written, so that the reconciliation does the same whatever
  setting the reference does.
\<close>

theorem owner_reference_lost:
  "run_state (TaskDefinition_Reconcile (cl\<lparr>cl_SetControllerReference := set_reference\<rparr>) req) s =
   run_state (TaskDefinition_Reconcile cl req) s"
proof -
  have "reconcileConfigMap (cl\<lparr>cl_SetControllerReference := set_reference\<rparr>) f cm = reconcileConfigMap cl f cm" for f cm
    by (cases f) (simp_all add: reconcileConfigMap_def)
  then have same: "reconcile_function (cl\<lparr>cl_SetControllerReference := set_reference\<rparr>) = reconcile_function cl"
    "getConfigMap (cl\<lparr>cl_SetControllerReference := set_reference\<rparr>) = getConfigMap cl"
    by (intro ext, simp add: reconcile_function_definition getConfigMap_def)+
  show ?thesis
    unfolding TaskDefinition_Reconcile_def same by simp
qed

end
