(* ===== verification/Json.thy ===== *)
theory Json
  imports Api_Types "HOL-Library.List_Lexorder" "HOL-Library.Char_ord"
begin

text \<open>
  What the operator uses of \<^verbatim>\<open>encoding/json\<close>: \<^verbatim>\<open>json.Marshal\<close> of string maps and of the context of a task,
  which reach a job as the environment variables \<^verbatim>\<open>DATA\<close> and \<^verbatim>\<open>KEPTN_CONTEXT\<close>.  Strings are sequences of
  bytes; what is not UTF-8 is replaced.  A decoder shows that nothing else is lost.
\<close>

section \<open>Strings\<close>

abbreviation byte :: "char \<Rightarrow> nat" where
  "byte c \<equiv> of_char c"

definition byte_in :: "nat \<Rightarrow> nat \<Rightarrow> char \<Rightarrow> bool" where
  "byte_in lo hi c \<longleftrightarrow> lo \<le> byte c \<and> byte c \<le> hi"

text \<open>
  \<^verbatim>\<open>utf8.DecodeRune\<close>: the first byte gives the length and the range of the second byte.  The length of
  the encoded rune at the start of a string, or 0 when there is none.
\<close>

definition rune_len :: "char \<Rightarrow> nat" where
  "rune_len c =
     (if byte_in 0xC2 0xDF c then 2 else if byte_in 0xE0 0xEF c then 3 else if byte_in 0xF0 0xF4 c then 4 else 0)"

definition rune_second :: "char \<Rightarrow> char \<Rightarrow> bool" where
  "rune_second c0 c1 \<longleftrightarrow>
     byte_in (if byte c0 = 0xE0 then 0xA0 else if byte c0 = 0xF0 then 0x90 else 0x80)
       (if byte c0 = 0xED then 0x9F else if byte c0 = 0xF4 then 0x8F else 0xBF) c1"

definition utf8_size :: "string \<Rightarrow> nat" where
  "utf8_size s =
     (case s of
        c0 # c1 # t \<Rightarrow>
          if rune_len c0 \<le> length s \<and> rune_second c0 c1 \<and>
             list_all (byte_in 0x80 0xBF) (take (rune_len c0 - 2) t) then rune_len c0 else 0
      | _ \<Rightarrow> 0)"

definition json_ascii :: "char \<Rightarrow> string" where
  "json_ascii c =
     (if c = CHR 0x22 \<or> c = CHR 0x5C then [CHR 0x5C, c]
      else if c = CHR 0x08 then CHR 0x5C # ''b''
      else if c = CHR 0x0C then CHR 0x5C # ''f''
      else if c = CHR 0x0A then CHR 0x5C # ''n''
      else if c = CHR 0x0D then CHR 0x5C # ''r''
      else if c = CHR 0x09 then CHR 0x5C # ''t''
      else if byte c < 0x20 \<or> c = CHR ''<'' \<or> c = CHR ''>'' \<or> c = CHR ''&'' then
        CHR 0x5C # ''u00'' @ [hex_digit (byte c div 16), hex_digit (byte c mod 16)]
      else [c])"

definition json_rune :: "string \<Rightarrow> string" where
  "json_rune r =
     (if r = [CHR 0xE2, CHR 0x80, CHR 0xA8] then CHR 0x5C # ''u2028''
      else if r = [CHR 0xE2, CHR 0x80, CHR 0xA9] then CHR 0x5C # ''u2029''
      else r)"

function json_chars :: "string \<Rightarrow> string" where
  "json_chars [] = []"
| "json_chars (c # s) =
     (if byte c < 0x80 then json_ascii c @ json_chars s
      else
        (let n = utf8_size (c # s) in
         if n = 0 then CHR 0x5C # ''ufffd'' @ json_chars s
         else json_rune (take n (c # s)) @ json_chars (drop n (c # s))))"
  by pat_completeness auto
termination
  by (relation "measure length") auto

definition json_string :: "string \<Rightarrow> string" where
  "json_string s = CHR 0x22 # json_chars s @ [CHR 0x22]"

section \<open>Objects\<close>

definition json_member :: "string \<times> string \<Rightarrow> string" where
  "json_member p = json_string (fst p) @ CHR '':'' # json_string (snd p)"

definition json_object :: "(string \<times> string) list \<Rightarrow> string" where
  "json_object ps = CHR ''{'' # join '','' (map json_member ps) @ [CHR ''}'']"

text \<open>The members of a map are printed in the order of their keys.\<close>

definition json_members :: "(string, string) fmap \<Rightarrow> (string \<times> string) list" where
  "json_members f = map (\<lambda>k. (k, case fmlookup f k of None \<Rightarrow> [] | Some v \<Rightarrow> v))
     (sorted_list_of_fset (fmdom f))"

definition json_map :: "smap \<Rightarrow> string" where
  "json_map m = (case m of None \<Rightarrow> ''null'' | Some f \<Rightarrow> json_object (json_members f))"

definition json_TaskContext :: "TaskContext \<Rightarrow> string" where
  "json_TaskContext c =
     CHR ''{'' # join '','' (map json_member
       [(''workloadName'', tc_WorkloadName c), (''appName'', tc_AppName c),
        (''appVersion'', tc_AppVersion c), (''workloadVersion'', tc_WorkloadVersion c),
        (''taskType'', tc_TaskType c), (''objectType'', tc_ObjectType c)]) @
     (if gm_empty (tc_Metadata c) then []
      else CHR '','' # json_string ''metadata'' @ CHR '':'' # json_map (tc_Metadata c)) @ [CHR ''}'']"

section \<open>Reading it back\<close>

fun utf8_valid :: "string \<Rightarrow> bool" where
  "utf8_valid [] = True"
| "utf8_valid (c # s) =
     (if byte c < 0x80 then utf8_valid s
      else utf8_size (c # s) \<noteq> 0 \<and> utf8_valid (drop (utf8_size (c # s) - 1) s))"

definition hex_value :: "char \<Rightarrow> nat" where
  "hex_value c = (if byte c < 58 then byte c - 48 else byte c - 87)"

definition utf8_bmp :: "nat \<Rightarrow> string" where
  "utf8_bmp n =
     (if n < 0x80 then [char_of n]
      else if n < 0x800 then [char_of (0xC0 + n div 64), char_of (0x80 + n mod 64)]
      else [char_of (0xE0 + n div 4096), char_of (0x80 + n div 64 mod 64), char_of (0x80 + n mod 64)])"

definition unescape :: "char \<Rightarrow> char" where
  "unescape c =
     (if c = CHR ''b'' then CHR 0x08 else if c = CHR ''f'' then CHR 0x0C else if c = CHR ''n'' then CHR 0x0A
      else if c = CHR ''r'' then CHR 0x0D else if c = CHR ''t'' then CHR 0x09 else c)"

abbreviation put_front :: "string \<Rightarrow> (string \<times> string) option \<Rightarrow> (string \<times> string) option" where
  "put_front t \<equiv> map_option (\<lambda>(u, r). (t @ u, r))"

fun json_unchars :: "string \<Rightarrow> (string \<times> string) option" where
  "json_unchars [] = None"
| "json_unchars (c # s) =
     (if c = CHR 0x22 then Some ([], s)
      else if c = CHR 0x5C then
        (case s of
           d # h1 # h2 # h3 # h4 # s' \<Rightarrow>
             if d = CHR ''u'' then
               put_front (utf8_bmp (((hex_value h1 * 16 + hex_value h2) * 16 + hex_value h3) * 16 + hex_value h4))
                 (json_unchars s')
             else put_front [unescape d] (json_unchars (h1 # h2 # h3 # h4 # s'))
         | d # s' \<Rightarrow> put_front [unescape d] (json_unchars s')
         | [] \<Rightarrow> None)
      else put_front [c] (json_unchars s))"

lemma hex_value_digit: "n < 16 \<Longrightarrow> hex_value (hex_digit n) = n"
  by (auto simp: hex_value_def hex_digit_def of_char_of)

lemma json_unchars_escape:
  "d \<noteq> CHR ''u'' \<Longrightarrow> json_unchars (CHR 0x5C # d # x) = put_front [unescape d] (json_unchars x)"
  by (auto split: list.splits)

lemma json_unchars_unicode:
  "json_unchars (CHR 0x5C # CHR ''u'' # h1 # h2 # h3 # h4 # x) =
     put_front (utf8_bmp (((hex_value h1 * 16 + hex_value h2) * 16 + hex_value h3) * 16 + hex_value h4))
       (json_unchars x)"
  by simp

declare json_unchars.simps(2) [simp del]

lemma json_unchars_ascii:
  assumes "byte c < 0x80"
  shows "json_unchars (json_ascii c @ x) = put_front [c] (json_unchars x)"
proof (cases "c \<in> set [CHR 0x22, CHR 0x5C, CHR 0x08, CHR 0x0C, CHR 0x0A, CHR 0x0D, CHR 0x09]")
  case True
  then show ?thesis by (auto simp: json_ascii_def json_unchars_escape unescape_def)
next
  case False
  have "hex_value CHR ''0'' = 0" by (simp add: hex_value_def)
  moreover have "byte c div 16 < 16" "byte c div 16 * 16 + byte c mod 16 = byte c"
    using assms by simp_all
  ultimately show ?thesis
    using assms False
    by (auto simp: json_ascii_def json_unchars_unicode hex_value_digit utf8_bmp_def json_unchars.simps(2))
qed

lemma json_unchars_bytes:
  "\<forall>c\<in>set r. 0x80 \<le> byte c \<Longrightarrow> json_unchars (r @ x) = put_front r (json_unchars x)"
proof (induction r)
  case Nil
  then show ?case by (cases "json_unchars x") simp_all
next
  case (Cons c r)
  then have "c \<noteq> CHR 0x22" "c \<noteq> CHR 0x5C" by auto
  with Cons show ?case
    by (auto simp: json_unchars.simps(2) option.map_comp comp_def case_prod_beta)
qed

lemma utf8_size_bytes:
  assumes "c \<in> set (take (utf8_size s) s)"
  shows "0x80 \<le> byte c"
proof -
  obtain c0 c1 t where s: "s = c0 # c1 # t"
    using assms by (auto simp: utf8_size_def split: list.splits)
  have ok: "utf8_size s = rune_len c0" "rune_second c0 c1" "list_all (byte_in 0x80 0xBF) (take (rune_len c0 - 2) t)"
    and "rune_len c0 \<noteq> 0"
    using assms by (auto simp: utf8_size_def s split: if_splits intro: gr0I)
  then have "2 \<le> rune_len c0" "0x80 \<le> byte c0"
    by (auto simp: rune_len_def byte_in_def split: if_splits)
  moreover have "0x80 \<le> byte c1"
    using ok(2) by (auto simp: rune_second_def byte_in_def split: if_splits)
  ultimately show ?thesis
    using assms ok by (auto simp: s take_Cons' list_all_iff byte_in_def numeral_2_eq_2 split: if_splits)
qed

lemma json_unchars_rune:
  assumes "\<forall>c\<in>set r. 0x80 \<le> byte c"
  shows "json_unchars (json_rune r @ x) = put_front r (json_unchars x)"
proof -
  have "hex_value CHR ''2'' = 2" "hex_value CHR ''0'' = 0" "hex_value CHR ''8'' = 8" "hex_value CHR ''9'' = 9"
    by (simp_all add: hex_value_def)
  moreover have "(char_of (226 :: nat) :: char) = CHR 0xE2" "(char_of (128 :: nat) :: char) = CHR 0x80"
    "(char_of (168 :: nat) :: char) = CHR 0xA8" "(char_of (169 :: nat) :: char) = CHR 0xA9"
    by (simp_all add: char_of_def bit_iff_odd)
  ultimately show ?thesis
    using json_unchars_bytes [OF assms]
    by (simp add: json_rune_def json_unchars_unicode utf8_bmp_def)
qed

lemma json_unchars_chars:
  "utf8_valid s \<Longrightarrow> json_unchars (json_chars s @ CHR 0x22 # x) = Some (s, x)"
proof (induction s rule: json_chars.induct)
  case 1
  then show ?case by (simp add: json_unchars.simps(2))
next
  case (2 c s)
  show ?case
  proof (cases "byte c < 0x80")
    case True
    with 2 show ?thesis by (simp add: json_unchars_ascii)
  next
    case False
    let ?n = "utf8_size (c # s)"
    have n: "?n \<noteq> 0" and valid: "utf8_valid (drop ?n (c # s))"
      using "2.prems" False by (auto simp: drop_Cons')
    have "json_unchars (json_chars (c # s) @ CHR 0x22 # x) =
        put_front (take ?n (c # s)) (json_unchars (json_chars (drop ?n (c # s)) @ CHR 0x22 # x))"
      using False n utf8_size_bytes [of _ "c # s"] by (simp add: json_unchars_rune Let_def)
    also have "\<dots> = Some (c # s, x)"
      using "2.IH"(3) [OF False refl n valid] by simp
    finally show ?thesis .
  qed
qed

lemma json_string_inject:
  assumes "json_string s @ x = json_string t @ y" and "utf8_valid s" and "utf8_valid t"
  shows "s = t \<and> x = y"
proof -
  have "json_chars s @ CHR 0x22 # x = json_chars t @ CHR 0x22 # y"
    using assms(1) by (simp add: json_string_def)
  then have "Some (s, x) = Some (t, y)"
    using json_unchars_chars [OF assms(2)] json_unchars_chars [OF assms(3)] by metis
  then show ?thesis by simp
qed

definition member_valid :: "string \<times> string \<Rightarrow> bool" where
  "member_valid p \<longleftrightarrow> utf8_valid (fst p) \<and> utf8_valid (snd p)"

lemma json_member_inject:
  assumes "json_member p @ x = json_member q @ y" and "member_valid p" and "member_valid q"
  shows "p = q \<and> x = y"
proof -
  have "fst p = fst q \<and> CHR '':'' # json_string (snd p) @ x = CHR '':'' # json_string (snd q) @ y"
    by (rule json_string_inject) (use assms in \<open>simp_all add: json_member_def member_valid_def\<close>)
  moreover from this have "snd p = snd q \<and> x = y"
    by (intro json_string_inject) (use assms in \<open>simp_all add: member_valid_def\<close>)
  ultimately show ?thesis by (simp add: prod_eq_iff)
qed

lemma join_members_inject:
  assumes "join '','' (map json_member ps) @ CHR ''}'' # x = join '','' (map json_member qs) @ CHR ''}'' # y"
    and "list_all member_valid ps" and "list_all member_valid qs"
  shows "ps = qs \<and> x = y"
  using assms
proof (induction ps arbitrary: qs)
  case Nil
  then show ?case
    by (cases qs; cases "tl qs") (auto simp: json_member_def json_string_def)
next
  case (Cons p ps)
  then obtain q qs' where qs: "qs = q # qs'"
    by (cases qs; cases ps) (auto simp: json_member_def json_string_def)
  have rest: "p = q \<and> (case ps of [] \<Rightarrow> CHR ''}'' # x | _ \<Rightarrow> CHR '','' # join '','' (map json_member ps) @ CHR ''}'' # x) =
      (case qs' of [] \<Rightarrow> CHR ''}'' # y | _ \<Rightarrow> CHR '','' # join '','' (map json_member qs') @ CHR ''}'' # y)"
    by (rule json_member_inject)
      (use Cons.prems in \<open>auto simp: qs split: list.splits\<close>)
  then show ?case
    using Cons.IH [of qs'] Cons.prems by (cases ps; cases qs') (auto simp: qs)
qed

lemma map_of_json_members: "map_of (json_members f) k = fmlookup f k"
  by (auto simp: json_members_def map_of_map_restrict restrict_map_def split: option.splits
      intro: fmdomI dest: fmdom_notD)

lemma json_members_inject: "json_members f = json_members g \<Longrightarrow> f = g"
  by (rule fmap_ext) (metis map_of_json_members)

text \<open>The strings of a map, and those of a context, are UTF-8.\<close>

definition map_valid :: "smap \<Rightarrow> bool" where
  "map_valid m \<longleftrightarrow> list_all member_valid (json_members (gm_fmap m))"

definition context_valid :: "TaskContext \<Rightarrow> bool" where
  "context_valid c \<longleftrightarrow> list_all utf8_valid [tc_WorkloadName c, tc_AppName c, tc_AppVersion c,
     tc_WorkloadVersion c, tc_TaskType c, tc_ObjectType c] \<and> map_valid (tc_Metadata c)"


lemma join_members_length_inject:
  assumes "join '','' (map json_member ps) @ x = join '','' (map json_member qs) @ y"
    and "length ps = length qs" and "list_all member_valid ps" and "list_all member_valid qs"
  shows "ps = qs \<and> x = y"
  using assms(2,1,3,4)
proof (induction ps qs rule: list_induct2)
  case Nil
  then show ?case by simp
next
  case (Cons p ps q qs)
  let ?rest = "\<lambda>rs z. (case rs of [] \<Rightarrow> z | _ \<Rightarrow> CHR '','' # join '','' (map json_member rs) @ z)"
  have "p = q \<and> ?rest ps x = ?rest qs y"
    by (rule json_member_inject) (use Cons.prems in \<open>auto split: list.splits\<close>)
  then show ?case
    using Cons.IH Cons.prems Cons.hyps by (cases ps; cases qs) auto
qed

lemma json_map_inject:
  assumes "json_map m @ CHR ''}'' # x = json_map n @ CHR ''}'' # y" and "map_valid m" and "map_valid n"
    and "m \<noteq> None" and "n \<noteq> None"
  shows "m = n \<and> x = y"
proof -
  obtain f g where fg: "m = Some f" "n = Some g" using assms(4,5) by blast
  have "json_members f = json_members g \<and> CHR ''}'' # x = CHR ''}'' # y"
    by (rule join_members_inject)
      (use assms(1-3) in \<open>simp_all add: fg json_map_def json_object_def map_valid_def gm_fmap_def\<close>)
  then show ?thesis using json_members_inject fg by blast
qed

section \<open>Contexts and their texts\<close>

text \<open>
  Contexts of UTF-8 strings that are printed as the same JSON have the same names, versions and types and
  the same metadata, where no metadata and an empty map are the same; and these are printed alike.
\<close>

definition same_context :: "TaskContext \<Rightarrow> TaskContext \<Rightarrow> bool" where
  "same_context c d \<longleftrightarrow>
     c\<lparr>tc_Metadata := Some (gm_fmap (tc_Metadata c))\<rparr> = d\<lparr>tc_Metadata := Some (gm_fmap (tc_Metadata d))\<rparr>"

lemma task_context_json_inject:
  assumes "json_TaskContext c = json_TaskContext d" and "context_valid c" and "context_valid d"
  shows "same_context c d"
proof -
  define fields where "fields c = [(''workloadName'', tc_WorkloadName c), (''appName'', tc_AppName c),
     (''appVersion'', tc_AppVersion c), (''workloadVersion'', tc_WorkloadVersion c),
     (''taskType'', tc_TaskType c), (''objectType'', tc_ObjectType c)]" for c :: TaskContext
  define meta where "meta c = (if gm_empty (tc_Metadata c) then []
     else CHR '','' # json_string ''metadata'' @ CHR '':'' # json_map (tc_Metadata c)) @ [CHR ''}'']" for c :: TaskContext
  have json: "json_TaskContext c = CHR ''{'' # join '','' (map json_member (fields c)) @ meta c" for c
    by (simp add: json_TaskContext_def fields_def meta_def)
  have valid: "list_all member_valid (fields c)" "map_valid (tc_Metadata c)" if "context_valid c" for c
    using that by (simp_all add: context_valid_def fields_def member_valid_def)
  have "fields c = fields d \<and> meta c = meta d"
    by (rule join_members_length_inject)
      (use assms(1) valid(1) [OF assms(2)] valid(1) [OF assms(3)] in \<open>simp_all add: json fields_def\<close>)
  moreover from this have "gm_fmap (tc_Metadata c) = gm_fmap (tc_Metadata d)"
    using json_map_inject [of "tc_Metadata c" "[]" "tc_Metadata d" "[]"]
      valid(2) [OF assms(2)] valid(2) [OF assms(3)]
    by (auto simp: meta_def gm_empty_def gm_fmap_def split: if_splits option.splits)
  ultimately show ?thesis by (simp add: fields_def same_context_def)
qed

lemma json_TaskContext_cong: "same_context c d \<Longrightarrow> json_TaskContext c = json_TaskContext d"
  by (cases c; cases d)
    (auto simp: same_context_def json_TaskContext_def gm_empty_def gm_fmap_def json_map_def split: option.splits)

end
