(* ===== verification/Keptn_Task.thy ===== *)
theory Keptn_Task
  imports Items Task_Definition Json Floats
begin

text \<open>
  The controller of KeptnTasks (\<^verbatim>\<open>controllers/lifecycle/keptntask\<close>): a task is run as a Kubernetes Job, built
  from the task definition, its parent and the parameters of the task, and the state of the task follows
  the conditions of the Job.
\<close>

section \<open>Parameters of a function\<close>

abbreviation KeptnContextEnvVar :: string where
  "KeptnContextEnvVar \<equiv> ''KEPTN_CONTEXT''"

abbreviation SecureData :: string where
  "SecureData \<equiv> ''SECURE_DATA''"

abbreviation Data :: string where
  "Data \<equiv> ''DATA''"

abbreviation CmdArgs :: string where
  "CmdArgs \<equiv> ''CMD_ARGS''"

abbreviation Script :: string where
  "Script \<equiv> ''SCRIPT''"

abbreviation FunctionMountName :: string where
  "FunctionMountName \<equiv> ''function-mount''"

record RuntimeExecutionParams =
  rp_ConfigMap :: string
  rp_Parameters :: smap
  rp_SecureParameters :: string
  rp_CmdParameters :: string
  rp_URL :: string
  rp_Context :: TaskContext
  rp_Image :: string
  rp_MountPath :: string

definition zero_RuntimeExecutionParams :: RuntimeExecutionParams where
  "zero_RuntimeExecutionParams = \<lparr>rp_ConfigMap = [], rp_Parameters = None, rp_SecureParameters = [],
     rp_CmdParameters = [], rp_URL = [], rp_Context = zero_TaskContext, rp_Image = [], rp_MountPath = []\<rparr>"

text \<open>
  A call returns an error, or it dereferences a nil pointer and panics.  The package \<^verbatim>\<open>mergo\<close> is an
  argument: it merges a map, and the parameters of a function, into those that are there.
\<close>

datatype fault = Panic | Fault error

record Mergo =
  merge_map :: "smap \<Rightarrow> smap \<Rightarrow> error + smap"
  merge_params :: "RuntimeExecutionParams \<Rightarrow> RuntimeExecutionParams \<Rightarrow> error + RuntimeExecutionParams"

record BuilderOptions =
  bo_req :: Request
  bo_task :: KeptnTask
  bo_containerSpec :: "ContainerSpec option"
  bo_funcSpec :: "RuntimeSpec option"
  bo_Image :: string
  bo_MountPath :: string
  bo_ConfigMap :: string

definition parseRuntimeTaskDefinition ::
    "RuntimeSpec option \<Rightarrow> string \<Rightarrow> string \<Rightarrow> string \<Rightarrow> fault + RuntimeExecutionParams \<times> bool" where
  "parseRuntimeTaskDefinition spec name namespace configMap =
     (case spec of
        None \<Rightarrow> Inl Panic
      | Some spec \<Rightarrow>
          (let hasParent = (rs_FunctionReference spec \<noteq> []);
               params = zero_RuntimeExecutionParams\<lparr>rp_ConfigMap := configMap\<rparr>
           in if rp_ConfigMap params = [] \<and> rs_HttpReference spec = [] \<and> \<not> hasParent then
                Inl (Fault (Message (''no ConfigMap specified or HTTP source specified in TaskDefinition / Namespace: '' @
                  namespace @ '', Name: '' @ name)))
              else
                (let params = (if rp_ConfigMap params = [] then params\<lparr>rp_URL := rs_HttpReference spec\<rparr> else params);
                     params = (if \<not> gm_empty (rs_Parameters spec)
                       then params\<lparr>rp_Parameters := rs_Parameters spec\<rparr> else params);
                     params = (if rs_SecureParameters spec \<noteq> []
                       then params\<lparr>rp_SecureParameters := rs_SecureParameters spec\<rparr> else params);
                     params = (if rs_CmdParameters spec \<noteq> []
                       then params\<lparr>rp_CmdParameters := rs_CmdParameters spec\<rparr> else params)
                 in Inr (params, hasParent))))"

definition emit_task_warning :: "KeptnTask \<Rightarrow> string \<Rightarrow> string \<Rightarrow> ('w, unit) prog" where
  "emit_task_warning task status message =
     Emit PhaseCreateTask ''Warning'' (Task_Event task) status message []"

definition handleParent ::
    "'w Client \<Rightarrow> ControllerConfig \<Rightarrow> (string \<Rightarrow> string) \<Rightarrow> Mergo \<Rightarrow> BuilderOptions \<Rightarrow> RuntimeSpec \<Rightarrow>
     RuntimeExecutionParams \<Rightarrow> ('w, fault + RuntimeExecutionParams) prog" where
  "handleParent cl cfg getenv mergo options funcSpec params = do {
     let definitionName = ts_TaskDefinition (t_Spec (bo_task options));
     r \<leftarrow> GetTaskDefinition cl cfg (rs_FunctionReference funcSpec) (req_Namespace (bo_req options));
     case r of
       Inl err \<Rightarrow> do {
         emit_task_warning (bo_task options) PhaseStateNotFound
           (''could not find KeptnTaskDefinition: '' @ definitionName @ '' '');
         ret (Inl (Fault err))
       }
     | Inr parentDefinition \<Rightarrow>
         (case parseRuntimeTaskDefinition (GetRuntimeSpec parentDefinition) (om_Name (td_meta parentDefinition))
            (om_Namespace (td_meta parentDefinition)) (td_ConfigMap parentDefinition) of
            Inl err \<Rightarrow> ret (Inl err)
          | Inr (parentJobParams, _) \<Rightarrow>
              (case merge_params mergo params parentJobParams of
                 Inl err \<Rightarrow> do {
                   emit_task_warning (bo_task options) PhaseStateFailed
                     (''could not merge KeptnTaskDefinition: '' @ definitionName @ '' '');
                   ret (Inl (Fault err))
                 }
               | Inr params \<Rightarrow>
                   ret (Inr (params\<lparr>
                     rp_URL := (case GetRuntimeSpec parentDefinition of
                       None \<Rightarrow> [] | Some parSpec \<Rightarrow> rs_HttpReference parSpec),
                     rp_ConfigMap := td_ConfigMap parentDefinition,
                     rp_Image := GetRuntimeImage getenv parentDefinition,
                     rp_MountPath := GetRuntimeMountPath parentDefinition\<rparr>))))
   }"

definition getParams ::
    "'w Client \<Rightarrow> ControllerConfig \<Rightarrow> (string \<Rightarrow> string) \<Rightarrow> Mergo \<Rightarrow> BuilderOptions \<Rightarrow> RuntimeSpec \<Rightarrow>
     ('w, fault + RuntimeExecutionParams) prog" where
  "getParams cl cfg getenv mergo options funcSpec =
     (let task = bo_task options in
      case parseRuntimeTaskDefinition (Some funcSpec) (ts_TaskDefinition (t_Spec task))
          (om_Namespace (t_meta task)) (bo_ConfigMap options) of
        Inl err \<Rightarrow> ret (Inl err)
      | Inr (params, hasParent) \<Rightarrow> do {
          let params = params\<lparr>rp_Image := bo_Image options, rp_MountPath := bo_MountPath options\<rparr>;
          r \<leftarrow> (if hasParent then handleParent cl cfg getenv mergo options funcSpec params
                else ret (Inr params));
          case r of
            Inl err \<Rightarrow> ret (Inl err)
          | Inr params \<Rightarrow> do {
              let params = params\<lparr>rp_Context := ts_Context (t_Spec task)\<rparr>;
              let secure = (\<lambda>params. if ts_SecureParameters (t_Spec task) \<noteq> []
                then params\<lparr>rp_SecureParameters := ts_SecureParameters (t_Spec task)\<rparr> else params);
              if gm_empty (ts_Parameters (t_Spec task)) then ret (Inr (secure params))
              else
                (case merge_map mergo (rp_Parameters params) (ts_Parameters (t_Spec task)) of
                   Inl err \<Rightarrow> do {
                     emit_task_warning task PhaseStateFailed
                       (''could not merge KeptnTaskDefinition: '' @ ts_TaskDefinition (t_Spec task) @ '' '');
                     ret (Inl (Fault err))
                   }
                 | Inr merged \<Rightarrow> ret (Inr (secure (params\<lparr>rp_Parameters := merged\<rparr>))))
            }
        })"

section \<open>Containers and volumes\<close>

abbreviation plain_env :: "string \<Rightarrow> string \<Rightarrow> EnvVar" where
  "plain_env name v \<equiv> \<lparr>ev_Name = name, ev_Value = v, ev_SecretKeyRef = None\<rparr>"

definition runtime_container :: "RuntimeExecutionParams \<Rightarrow> Container" where
  "runtime_container params =
     (let envVars =
            (if gm_empty (rp_Parameters params) then []
             else [plain_env Data (json_map (rp_Parameters params))]) @
            [plain_env KeptnContextEnvVar (json_TaskContext (rp_Context params)),
             plain_env CmdArgs (rp_CmdParameters params)] @
            (if rp_SecureParameters params = [] then []
             else [\<lparr>ev_Name = SecureData, ev_Value = [],
                     ev_SecretKeyRef = Some (rp_SecureParameters params, SecureData)\<rparr>]);
          container = \<lparr>c_Name = ''keptn-function-runner'', c_Image = rp_Image params,
            c_ImagePullPolicy = ''IfNotPresent'', c_Command = [], c_Args = [], c_Env = [],
            c_VolumeMounts = [], c_Limits = None\<rparr>
      in if rp_ConfigMap params \<noteq> [] then
           container\<lparr>c_VolumeMounts := [\<lparr>vm_Name = FunctionMountName, vm_ReadOnly = True,
               vm_MountPath = rp_MountPath params, vm_SubPath = ''code''\<rparr>],
             c_Env := envVars @ [plain_env Script (rp_MountPath params)]\<rparr>
         else container\<lparr>c_Env := envVars @ [plain_env Script (rp_URL params)]\<rparr>)"

definition Runtime_CreateContainer ::
    "'w Client \<Rightarrow> ControllerConfig \<Rightarrow> (string \<Rightarrow> string) \<Rightarrow> Mergo \<Rightarrow> BuilderOptions \<Rightarrow> RuntimeSpec \<Rightarrow>
     ('w, fault + Container) prog" where
  "Runtime_CreateContainer cl cfg getenv mergo options funcSpec = do {
     r \<leftarrow> getParams cl cfg getenv mergo options funcSpec;
     ret (case r of Inl err \<Rightarrow> Inl err | Inr params \<Rightarrow> Inr (runtime_container params))
   }"

definition runtime_volume :: "RuntimeExecutionParams \<Rightarrow> Volume option" where
  "runtime_volume params =
     (if rp_ConfigMap params \<noteq> [] then
        Some \<lparr>vol_Name = FunctionMountName, vol_EmptyDir = None, vol_ConfigMap = Some (rp_ConfigMap params)\<rparr>
      else None)"

definition Runtime_CreateVolume ::
    "'w Client \<Rightarrow> ControllerConfig \<Rightarrow> (string \<Rightarrow> string) \<Rightarrow> Mergo \<Rightarrow> BuilderOptions \<Rightarrow> RuntimeSpec \<Rightarrow>
     ('w, fault + Volume option) prog" where
  "Runtime_CreateVolume cl cfg getenv mergo options funcSpec = do {
     r \<leftarrow> getParams cl cfg getenv mergo options funcSpec;
     ret (case r of Inl err \<Rightarrow> Inl err | Inr params \<Rightarrow> Inr (runtime_volume params))
   }"

text \<open>A container of the user gets the context of the task as an environment variable.\<close>

definition Container_CreateContainer :: "ContainerSpec \<Rightarrow> KeptnTaskSpec \<Rightarrow> error + Container" where
  "Container_CreateContainer containerSpec taskSpec =
     (case cs_Container containerSpec of
        None \<Rightarrow> Inl (Message ''no container definition provided'')
      | Some result \<Rightarrow>
          (let jsonContext = json_TaskContext (ts_Context taskSpec);
               foundKeptnContextVar = (\<exists>envVar\<in>set (c_Env result). ev_Name envVar = KeptnContextEnvVar);
               env = map (\<lambda>envVar. if ev_Name envVar = KeptnContextEnvVar
                 then envVar\<lparr>ev_Value := jsonContext\<rparr> else envVar) (c_Env result)
           in Inr (result\<lparr>c_Env := (if foundKeptnContextVar then env
                else env @ [plain_env KeptnContextEnvVar jsonContext])\<rparr>)))"

definition getVolumeSource :: "Container \<Rightarrow> EmptyDirVolumeSource" where
  "getVolumeSource container =
     (case gm_lookup (c_Limits container) ''memory'' of
        Some quantity \<Rightarrow> \<lparr>ed_SizeLimit = ParsedQuantity quantity, ed_Medium = ''Memory''\<rparr>
      | None \<Rightarrow> \<lparr>ed_SizeLimit = NewQuantity 1 ''Gi'', ed_Medium = ''Memory''\<rparr>)"

definition generateVolume :: "ContainerSpec \<Rightarrow> Volume option" where
  "generateVolume containerSpec =
     (case cs_Container containerSpec of
        None \<Rightarrow> None
      | Some container \<Rightarrow>
          (case c_VolumeMounts container of
             [] \<Rightarrow> None
           | mount # _ \<Rightarrow> Some \<lparr>vol_Name = vm_Name mount, vol_EmptyDir = Some (getVolumeSource container),
               vol_ConfigMap = None\<rparr>))"

datatype JobRunnerBuilder = RuntimeBuilder RuntimeSpec | ContainerBuilder ContainerSpec

definition NewJobRunnerBuilder :: "BuilderOptions \<Rightarrow> JobRunnerBuilder option" where
  "NewJobRunnerBuilder options =
     (case bo_funcSpec options of
        Some funcSpec \<Rightarrow> Some (RuntimeBuilder funcSpec)
      | None \<Rightarrow> map_option ContainerBuilder (bo_containerSpec options))"

fun CreateContainer ::
    "'w Client \<Rightarrow> ControllerConfig \<Rightarrow> (string \<Rightarrow> string) \<Rightarrow> Mergo \<Rightarrow> BuilderOptions \<Rightarrow> JobRunnerBuilder \<Rightarrow>
     ('w, fault + Container) prog" where
  "CreateContainer cl cfg getenv mergo options (RuntimeBuilder funcSpec) =
     Runtime_CreateContainer cl cfg getenv mergo options funcSpec"
| "CreateContainer cl cfg getenv mergo options (ContainerBuilder containerSpec) =
     ret (map_sum Fault id (Container_CreateContainer containerSpec (t_Spec (bo_task options))))"

fun CreateVolume ::
    "'w Client \<Rightarrow> ControllerConfig \<Rightarrow> (string \<Rightarrow> string) \<Rightarrow> Mergo \<Rightarrow> BuilderOptions \<Rightarrow> JobRunnerBuilder \<Rightarrow>
     ('w, fault + Volume option) prog" where
  "CreateVolume cl cfg getenv mergo options (RuntimeBuilder funcSpec) =
     Runtime_CreateVolume cl cfg getenv mergo options funcSpec"
| "CreateVolume cl cfg getenv mergo options (ContainerBuilder containerSpec) =
     ret (Inr (generateVolume containerSpec))"

section \<open>Jobs\<close>

text \<open>
  \<^verbatim>\<open>int64(deadline.Seconds())\<close>: the seconds are a floating point number, the sum of the whole seconds and
  the nanoseconds over \<open>10\<^sup>9\<close>, and are cut off towards zero.  Parsing the text of a duration gives the
  duration.
\<close>

definition duration_Seconds :: "duration \<Rightarrow> rat" where
  "duration_Seconds d =
     (let sec = sgn d * (\<bar>d\<bar> div 1000000000); nsec = sgn d * (\<bar>d\<bar> mod 1000000000)
      in round_rat (of_int sec + round_rat (of_int nsec / 1000000000)))"

definition GetActiveDeadlineSeconds :: "KeptnTask \<Rightarrow> int" where
  "GetActiveDeadlineSeconds t =
     (let seconds = duration_Seconds (ts_Timeout (t_Spec t)) in if 0 \<le> seconds then \<lfloor>seconds\<rfloor> else \<lceil>seconds\<rceil>)"

definition new_job :: "string \<Rightarrow> KeptnTask \<Rightarrow> KeptnTaskDefinition \<Rightarrow> Job" where
  "new_job name task definition' =
     \<lparr>j_meta = (named_meta name (om_Namespace (t_meta task)))
        \<lparr>om_Labels := om_Labels (t_meta task), om_Annotations := Task_CreateKeptnAnnotations task\<rparr>,
      j_TemplateLabels = om_Labels (t_meta task),
      j_TemplateAnnotations = om_Annotations (t_meta task),
      j_PodSpec = \<lparr>ps_RestartPolicy = ''OnFailure'',
        ps_ServiceAccountName = TaskDefinition_GetServiceAccount definition',
        ps_AutomountServiceAccountToken = TaskDefinition_GetAutomountServiceAccountToken definition',
        ps_ImagePullSecrets = tds_ImagePullSecrets (td_Spec definition'), ps_Volumes = [], ps_Containers = []\<rparr>,
      j_BackoffLimit = ts_Retries (t_Spec task),
      j_ActiveDeadlineSeconds = Some (GetActiveDeadlineSeconds task),
      j_TTLSecondsAfterFinished = tds_TTLSecondsAfterFinished (td_Spec definition'),
      j_Conditions = []\<rparr>"

definition builder_options ::
    "(string \<Rightarrow> string) \<Rightarrow> KeptnTask \<Rightarrow> KeptnTaskDefinition \<Rightarrow> Request \<Rightarrow> BuilderOptions" where
  "builder_options getenv task definition' request =
     \<lparr>bo_req = request, bo_task = task, bo_containerSpec = tds_Container (td_Spec definition'),
      bo_funcSpec = GetRuntimeSpec definition', bo_Image = GetRuntimeImage getenv definition',
      bo_MountPath = GetRuntimeMountPath definition', bo_ConfigMap = td_ConfigMap definition'\<rparr>"

fun wrap_fault :: "string \<Rightarrow> fault \<Rightarrow> fault" where
  "wrap_fault message Panic = Panic"
| "wrap_fault message (Fault err) = Fault (Wrapped message err)"

definition generateJob ::
    "'w Client \<Rightarrow> ControllerConfig \<Rightarrow> (string \<Rightarrow> string) \<Rightarrow> Mergo \<Rightarrow> KeptnTask \<Rightarrow> KeptnTaskDefinition \<Rightarrow> Request \<Rightarrow>
     ('w, fault + Job) prog" where
  "generateJob cl cfg getenv mergo task definition' request = do {
     intn \<leftarrow> on_world (cl_Intn cl 89999);
     let job = new_job (GenerateJobName intn (om_Name (t_meta task))) task definition';
     let job = (case cl_SetControllerReference cl ''KeptnTask'' (t_meta task) (j_meta job) of
       Inl err \<Rightarrow> job | Inr meta \<Rightarrow> job\<lparr>j_meta := meta\<rparr>);
     let options = builder_options getenv task definition' request;
     case NewJobRunnerBuilder options of
       None \<Rightarrow> ret (Inl (Fault ErrNoTaskDefinitionSpec))
     | Some builder \<Rightarrow> do {
         r \<leftarrow> CreateContainer cl cfg getenv mergo options builder;
         case r of
           Inl err \<Rightarrow> ret (Inl (wrap_fault ''could not create container for Job: '' err))
         | Inr container \<Rightarrow> do {
             r \<leftarrow> CreateVolume cl cfg getenv mergo options builder;
             ret (case r of
               Inl err \<Rightarrow> Inl (wrap_fault ''could not create volume for Job: '' err)
             | Inr volume \<Rightarrow> Inr (job\<lparr>j_PodSpec := (j_PodSpec job)
                 \<lparr>ps_Volumes := (case volume of None \<Rightarrow> [] | Some v \<Rightarrow> [v]),
                  ps_Containers := [container]\<rparr>\<rparr>))
           }
       }
   }"

definition createFunctionJob ::
    "'w Client \<Rightarrow> ControllerConfig \<Rightarrow> (string \<Rightarrow> string) \<Rightarrow> Mergo \<Rightarrow> Request \<Rightarrow> KeptnTask \<Rightarrow> KeptnTaskDefinition \<Rightarrow>
     ('w, fault + string) prog" where
  "createFunctionJob cl cfg getenv mergo req task definition' = do {
     r \<leftarrow> generateJob cl cfg getenv mergo task definition' req;
     case r of
       Inl err \<Rightarrow> ret (Inl err)
     | Inr job \<Rightarrow> do {
         r \<leftarrow> on_world (api_Create (cl_Job cl) job);
         case r of
           Inl err \<Rightarrow> do {
             emit_task_warning task PhaseStateFailed (''could not create Job: '' @ om_Name (t_meta task) @ '' '');
             ret (Inl (Fault err))
           }
         | Inr stored \<Rightarrow> ret (Inr (om_Name (j_meta stored)))
       }
   }"

definition createJob ::
    "'w Client \<Rightarrow> ControllerConfig \<Rightarrow> (string \<Rightarrow> string) \<Rightarrow> Mergo \<Rightarrow> Request \<Rightarrow> KeptnTask \<Rightarrow>
     ('w, fault + KeptnTask) prog" where
  "createJob cl cfg getenv mergo req task = do {
     r \<leftarrow> GetTaskDefinition cl cfg (ts_TaskDefinition (t_Spec task)) (req_Namespace req);
     case r of
       Inl err \<Rightarrow> do {
         emit_task_warning task PhaseStateNotFound
           (''could not find KeptnTaskDefinition: '' @ ts_TaskDefinition (t_Spec task) @ '' '');
         ret (Inl (Fault err))
       }
     | Inr definition' \<Rightarrow> do {
         r \<leftarrow> (if SpecExists definition' then createFunctionJob cl cfg getenv mergo req task definition'
               else ret (Inr []));
         ret (case r of
           Inl err \<Rightarrow> Inl err
         | Inr jobName \<Rightarrow> Inr (task\<lparr>t_Status := (t_Status task)
             \<lparr>tst_JobName := jobName, tst_Status := StatePending\<rparr>\<rparr>))
       }
   }"

definition hasJobCondition :: "JobCondition list \<Rightarrow> string \<Rightarrow> bool" where
  "hasJobCondition conditions searched \<longleftrightarrow> (\<exists>v\<in>set conditions. jc_Type v = searched)"

definition updateTaskStatus :: "Job \<Rightarrow> KeptnTask \<Rightarrow> KeptnTask" where
  "updateTaskStatus job task =
     (case j_Conditions job of
        [] \<Rightarrow> task
      | c # _ \<Rightarrow>
          if hasJobCondition (j_Conditions job) ''Complete'' \<or>
             hasJobCondition (j_Conditions job) ''SuccessCriteriaMet'' then
            task\<lparr>t_Status := (t_Status task)\<lparr>tst_Status := StateSucceeded\<rparr>\<rparr>
          else if hasJobCondition (j_Conditions job) ''Failed'' \<or>
             hasJobCondition (j_Conditions job) ''FailureTarget'' then
            task\<lparr>t_Status := (t_Status task)\<lparr>tst_Status := StateFailed, tst_Message := jc_Message c,
              tst_Reason := jc_Reason c\<rparr>\<rparr>
          else task)"

definition getJob :: "'w Client \<Rightarrow> string \<Rightarrow> string \<Rightarrow> ('w, error + Job) prog" where
  "getJob cl jobName namespace = on_world (api_Get (cl_Job cl) namespace jobName)"

section \<open>The controller\<close>

text \<open>
  The body of \<^verbatim>\<open>Reconcile\<close> once the task is read: the task as the deferred update stores it, and the
  result, or none when the body panics.
\<close>

definition task_body ::
    "'w Client \<Rightarrow> ControllerConfig \<Rightarrow> (string \<Rightarrow> string) \<Rightarrow> Mergo \<Rightarrow> Request \<Rightarrow> KeptnTask \<Rightarrow>
     ('w, KeptnTask \<times> outcome option) prog" where
  "task_body cl cfg getenv mergo req task = do {
     r \<leftarrow> getJob cl (tst_JobName (t_Status task)) (req_Namespace req);
     case r of
       Inl err \<Rightarrow>
         if \<not> IsNotFound err then ret (task, Some (requeue_after 30, None))
         else do {
           r \<leftarrow> createJob cl cfg getenv mergo req task;
           ret (case r of
             Inl Panic \<Rightarrow> (task, None)
           | Inl (Fault err) \<Rightarrow> (task, Some (requeue_after 10, None))
           | Inr task \<Rightarrow> (task\<lparr>t_Status := (t_Status task)\<lparr>tst_Status := StateProgressing\<rparr>\<rparr>,
               Some (requeue_after 10, None)))
         }
     | Inr job \<Rightarrow>
         if \<not> IsCompleted (tst_Status (t_Status task)) then
           ret (updateTaskStatus job task, Some (requeue_after 10, None))
         else do {
           now \<leftarrow> Now cl;
           let task = Task_SetEndTime now task;
           let attrs = Task_GetMetricsAttributes task;
           meter_call (CounterAdd ''keptn.task.count'' 1 attrs);
           meter_call (HistogramRecord ''keptn.task.duration''
             (time_sub (tst_EndTime (t_Status task)) (tst_StartTime (t_Status task))) attrs);
           ret (task, Some (no_requeue, None))
         }
   }"

definition Task_Reconcile ::
    "'w Client \<Rightarrow> ControllerConfig \<Rightarrow> (string \<Rightarrow> string) \<Rightarrow> Mergo \<Rightarrow> Request \<Rightarrow> ('w, outcome) prog" where
  "Task_Reconcile cl cfg getenv mergo req = do {
     r \<leftarrow> on_world (api_Get (cl_Task cl) (req_Namespace req) (req_Name req));
     case r of
       Inl err \<Rightarrow>
         if IsNotFound err then ret (no_requeue, None) else ret (requeue_after 30, None)
     | Inr task \<Rightarrow> do {
         now \<leftarrow> Now cl;
         let task = Task_SetStartTime now task;
         (task, result) \<leftarrow> task_body cl cfg getenv mergo req task;
         _ \<leftarrow> on_world (api_StatusUpdate (cl_Task cl) task);
         (case result of
            Some r \<Rightarrow> ret r
          | None \<Rightarrow> do {
              modify (\<lambda>s. s\<lparr>env_Panicked := True\<rparr>);
              ret (no_requeue, None)
            })
       }
   }"

section \<open>Lemmas\<close>

text \<open>
  A program that only reads, and only emits events: in a given world it has one result.
\<close>

definition quiet :: "'w \<Rightarrow> ('w, 'a) prog \<Rightarrow> bool" where
  "quiet w m \<longleftrightarrow> (\<exists>r. \<forall>s. env_World s = w \<longrightarrow> (\<exists>ev. run_state m s = (r, s\<lparr>env_Events := ev\<rparr>)))"

named_theorems quiet_intros \<open>introduction rules for \<open>quiet\<close>\<close>

lemma same_events: "\<exists>ev. s = s\<lparr>env_Events := ev\<rparr>"
  by (rule exI [of _ "env_Events s"]) simp

lemma quiet_ret [quiet_intros]: "quiet w (ret x)"
  by (simp add: quiet_def same_events)

lemma quiet_Emit [quiet_intros]: "quiet w (emit_task_warning task status message)"
  unfolding quiet_def emit_task_warning_def Emit_def by (rule exI) auto

lemma quiet_bind [quiet_intros]:
  assumes "quiet w m" and "\<And>x. quiet w (f x)"
  shows "quiet w (State_Monad.bind m f)"
proof -
  obtain x where x: "\<forall>s. env_World s = w \<longrightarrow> (\<exists>ev. run_state m s = (x, s\<lparr>env_Events := ev\<rparr>))"
    using assms(1) by (auto simp: quiet_def)
  obtain r where r: "\<forall>s. env_World s = w \<longrightarrow> (\<exists>ev. run_state (f x) s = (r, s\<lparr>env_Events := ev\<rparr>))"
    using assms(2) by (auto simp: quiet_def)
  have "\<exists>ev. run_state (State_Monad.bind m f) s = (r, s\<lparr>env_Events := ev\<rparr>)" if s: "env_World s = w" for s
  proof -
    obtain ev where ev: "run_state m s = (x, s\<lparr>env_Events := ev\<rparr>)" using x s by blast
    have "env_World (s\<lparr>env_Events := ev\<rparr>) = w" using s by simp
    with r obtain ev' where "run_state (f x) (s\<lparr>env_Events := ev\<rparr>) = (r, s\<lparr>env_Events := ev\<rparr>\<lparr>env_Events := ev'\<rparr>)"
      by blast
    with ev show ?thesis by auto
  qed
  then show ?thesis unfolding quiet_def by blast
qed

lemma quiet_if [quiet_intros]: "quiet w m \<Longrightarrow> quiet w n \<Longrightarrow> quiet w (if b then m else n)"
  by simp

lemma quiet_case_sum [quiet_intros]:
  "(\<And>x. quiet w (f x)) \<Longrightarrow> (\<And>y. quiet w (g y)) \<Longrightarrow> quiet w (case e of Inl x \<Rightarrow> f x | Inr y \<Rightarrow> g y)"
  by (cases e) simp_all

lemma quiet_case_prod [quiet_intros]: "(\<And>a b. quiet w (f a b)) \<Longrightarrow> quiet w (case p of (a, b) \<Rightarrow> f a b)"
  by (cases p) simp

text \<open>Reading a task definition changes nothing.\<close>

definition reads_definitions :: "'w Client \<Rightarrow> bool" where
  "reads_definitions cl \<longleftrightarrow> (\<forall>ns n w. snd (run_state (api_Get (cl_TaskDefinition cl) ns n) w) = w)"

lemma quiet_get: "reads_definitions cl \<Longrightarrow> quiet w (on_world (api_Get (cl_TaskDefinition cl) ns n))"
  unfolding quiet_def reads_definitions_def
  by (rule exI [of _ "fst (run_state (api_Get (cl_TaskDefinition cl) ns n) w)"])
    (auto simp: env_simps intro: same_events)

lemma quiet_GetTaskDefinition:
  "reads_definitions cl \<Longrightarrow> quiet w (GetTaskDefinition cl cfg name ns)"
  unfolding GetTaskDefinition_def getObject_def by (intro quiet_intros quiet_get)

lemma quiet_getParams:
  "reads_definitions cl \<Longrightarrow> quiet w (getParams cl cfg getenv mergo options funcSpec)"
  unfolding getParams_def handleParent_def Let_def by (intro quiet_intros quiet_GetTaskDefinition)

lemma quiet_twice:
  assumes "quiet w m" and "env_World s = w" and "run_state m s = (r, s')"
  shows "env_World s' = w \<and> (\<forall>t. env_World t = w \<longrightarrow> fst (run_state m t) = r)"
proof -
  obtain x where x: "\<And>s. env_World s = w \<Longrightarrow> \<exists>ev. run_state m s = (x, s\<lparr>env_Events := ev\<rparr>)"
    using assms(1) by (auto simp: quiet_def)
  from x [OF assms(2)] assms(2,3) have "x = r" "env_World s' = w" by auto
  then show ?thesis using x by (metis fst_conv)
qed

text \<open>The values of \<^verbatim>\<open>KEPTN_CONTEXT\<close> in the containers of a Job.\<close>

definition env_contexts :: "EnvVar list \<Rightarrow> string list" where
  "env_contexts env = map ev_Value (filter (\<lambda>v. ev_Name v = KeptnContextEnvVar) env)"

definition job_contexts :: "Job \<Rightarrow> string set" where
  "job_contexts job = (\<Union>container\<in>set (ps_Containers (j_PodSpec job)). set (env_contexts (c_Env container)))"

lemma runtime_container_context:
  assumes "run_state (getParams cl cfg getenv mergo options funcSpec) s = (Inr params, s')"
  shows "env_contexts (c_Env (runtime_container params)) = [json_TaskContext (ts_Context (t_Spec (bo_task options)))]"
proof -
  have "rp_Context params = ts_Context (t_Spec (bo_task options))"
    using assms by (auto simp: getParams_def Let_def split: sum.splits prod.splits if_splits)
  then show ?thesis by (simp add: runtime_container_def env_contexts_def Let_def)
qed

lemma env_contexts_replaced:
  "set (env_contexts (map (\<lambda>v. if ev_Name v = KeptnContextEnvVar then v\<lparr>ev_Value := json\<rparr> else v) env)) =
     (if \<exists>v\<in>set env. ev_Name v = KeptnContextEnvVar then {json} else {})"
  by (induction env) (auto simp: env_contexts_def)

lemma container_context:
  assumes "Container_CreateContainer containerSpec taskSpec = Inr container"
  shows "set (env_contexts (c_Env container)) = {json_TaskContext (ts_Context taskSpec)}"
proof -
  obtain c where c: "cs_Container containerSpec = Some c"
    using assms by (cases "cs_Container containerSpec") (simp_all add: Container_CreateContainer_def)
  let ?json = "json_TaskContext (ts_Context taskSpec)"
  let ?env = "map (\<lambda>v. if ev_Name v = KeptnContextEnvVar then v\<lparr>ev_Value := ?json\<rparr> else v) (c_Env c)"
  have split: "env_contexts (env @ [plain_env KeptnContextEnvVar ?json]) = env_contexts env @ [?json]" for env
    by (simp add: env_contexts_def)
  have "c_Env container = (if \<exists>v\<in>set (c_Env c). ev_Name v = KeptnContextEnvVar then ?env
      else ?env @ [plain_env KeptnContextEnvVar ?json])"
    using assms c by (auto simp: Container_CreateContainer_def Let_def)
  then show ?thesis using env_contexts_replaced [of ?json "c_Env c"] by (simp add: split)
qed

lemma generated_job_context:
  assumes "run_state (generateJob cl cfg getenv mergo task definition' req) s = (Inr job, s')"
  shows "job_contexts job = {json_TaskContext (ts_Context (t_Spec task))}"
proof -
  let ?options = "builder_options getenv task definition' req"
  obtain builder where builder: "NewJobRunnerBuilder ?options = Some builder"
    using assms by (cases "NewJobRunnerBuilder ?options") (simp_all add: generateJob_def env_simps Let_def)
  define s1 where "s1 = s\<lparr>env_World := snd (run_state (cl_Intn cl 89999) (env_World s))\<rparr>"
  obtain container s2 where container: "run_state (CreateContainer cl cfg getenv mergo ?options builder) s1 = (Inr container, s2)"
      "ps_Containers (j_PodSpec job) = [container]"
    using assms builder by (auto simp: generateJob_def env_simps s1_def Let_def split: sum.splits prod.splits)
  have task: "bo_task ?options = task" by (simp add: builder_options_def)
  have "set (env_contexts (c_Env container)) = {json_TaskContext (ts_Context (t_Spec task))}"
  proof (cases builder)
    case (RuntimeBuilder funcSpec)
    with container(1) obtain params where "run_state (getParams cl cfg getenv mergo ?options funcSpec) s1 = (Inr params, s2)"
      "container = runtime_container params"
      by (auto simp: Runtime_CreateContainer_def split: sum.splits prod.splits)
    then show ?thesis using runtime_container_context [of cl cfg getenv mergo ?options] task by simp
  next
    case (ContainerBuilder containerSpec)
    with container(1) task have "Container_CreateContainer containerSpec (t_Spec task) = Inr container"
      by (cases "Container_CreateContainer containerSpec (t_Spec task)") simp_all
    then show ?thesis by (rule container_context)
  qed
  then show ?thesis by (simp add: job_contexts_def container(2))
qed

section \<open>Statements\<close>

text \<open>
  C38: The Job of a function has one container, whose volume mounts are backed: the volumes of the pod
  are exactly those that the container mounts.  The container is told the context of the task, once, and
  where to find the code: at the mount, or at the address of the function when nothing is mounted.
  Reading task definitions changes nothing.
\<close>

theorem function_job_consistent:
  assumes "reads_definitions cl" and "GetRuntimeSpec definition' = Some funcSpec"
    and "run_state (generateJob cl cfg getenv mergo task definition' req) s = (Inr job, s')"
  shows "\<exists>container. ps_Containers (j_PodSpec job) = [container] \<and>
    map vol_Name (ps_Volumes (j_PodSpec job)) = map vm_Name (c_VolumeMounts container) \<and>
    filter (\<lambda>v. ev_Name v = KeptnContextEnvVar) (c_Env container) =
      [plain_env KeptnContextEnvVar (json_TaskContext (ts_Context (t_Spec task)))] \<and>
    (\<exists>code. last (c_Env container) = plain_env Script code \<and>
       (\<forall>mount\<in>set (c_VolumeMounts container). vm_MountPath mount = code))"
proof -
  let ?options = "builder_options getenv task definition' req"
  let ?params = "getParams cl cfg getenv mergo ?options funcSpec"
  define s1 where "s1 = s\<lparr>env_World := snd (run_state (cl_Intn cl 89999) (env_World s))\<rparr>"
  have builder: "NewJobRunnerBuilder ?options = Some (RuntimeBuilder funcSpec)"
    using assms(2) by (simp add: NewJobRunnerBuilder_def builder_options_def)
  obtain r s2 where r: "run_state ?params s1 = (r, s2)" by fastforce
  obtain params where params: "r = Inr params"
    using assms(3) r builder
    by (cases r) (auto simp: generateJob_def Runtime_CreateContainer_def env_simps s1_def Let_def)
  have twice: "fst (run_state ?params s2) = Inr params"
    using quiet_twice [OF quiet_getParams [OF assms(1)] refl r] params by blast
  have pod: "ps_Containers (j_PodSpec job) = [runtime_container params]"
    "ps_Volumes (j_PodSpec job) = (case runtime_volume params of None \<Rightarrow> [] | Some v \<Rightarrow> [v])"
    using assms(3) r builder params twice
    by (auto simp: generateJob_def Runtime_CreateContainer_def Runtime_CreateVolume_def env_simps
        s1_def Let_def split: prod.splits)
  have "rp_Context params = ts_Context (t_Spec task)"
    using r params
    by (auto simp: getParams_def builder_options_def Let_def split: sum.splits prod.splits if_splits)
  then show ?thesis
    unfolding pod by (simp add: runtime_container_def runtime_volume_def Let_def)
qed

text \<open>
  C39: The pod of every Job of a task, whether its definition is a function or a container, is told the
  context of that task and nothing else under \<^verbatim>\<open>KEPTN_CONTEXT\<close>, also when the container of the user sets
  the variable itself; and the text loses nothing: two Jobs have the same text there exactly when their
  tasks have the same context, where no metadata and an empty map are the same.  The strings of the
  contexts are UTF-8, as the API server requires.
\<close>

theorem job_context_faithful:
  assumes "run_state (generateJob cl cfg getenv mergo task definition' req) s = (Inr job, s')"
    and "run_state (generateJob cl2 cfg2 getenv2 mergo2 task2 definition2 req2) t = (Inr job2, t')"
    and "context_valid (ts_Context (t_Spec task))" and "context_valid (ts_Context (t_Spec task2))"
  shows "job_contexts job = {json_TaskContext (ts_Context (t_Spec task))} \<and>
    (job_contexts job = job_contexts job2 \<longleftrightarrow> same_context (ts_Context (t_Spec task)) (ts_Context (t_Spec task2)))"
  using generated_job_context [OF assms(1)] generated_job_context [OF assms(2)]
    task_context_json_inject [OF _ assms(3,4)] json_TaskContext_cong by auto

text \<open>
  A definition whose function refers to a parent that has no function of its own, such as one for a
  container, makes the controller dereference a nil pointer: the reconciliation of the task panics.
\<close>

theorem parent_without_function_panics:
  assumes "run_state (api_Get (cl_Task cl) (req_Namespace req) (req_Name req)) (env_World s) = (Inr task, w1)"
    and "run_state (cl_Now cl) w1 = (now, w2)"
    and "run_state (api_Get (cl_Job cl) (req_Namespace req) (tst_JobName (t_Status task))) w2 = (Inl err, w3)"
    and "IsNotFound err"
    and "run_state (GetTaskDefinition cl cfg (ts_TaskDefinition (t_Spec task)) (req_Namespace req))
      (s\<lparr>env_World := w3\<rparr>) = (Inr definition', s4)"
    and "GetRuntimeSpec definition' = Some funcSpec" and "rs_FunctionReference funcSpec \<noteq> []"
    and "run_state (GetTaskDefinition cl cfg (rs_FunctionReference funcSpec) (req_Namespace req))
      (s4\<lparr>env_World := snd (run_state (cl_Intn cl 89999) (env_World s4))\<rparr>) = (Inr parent, s5)"
    and "GetRuntimeSpec parent = None"
  shows "env_Panicked (snd (run_state (Task_Reconcile cl cfg getenv mergo req) s))"
proof -
  define t where "t = Task_SetStartTime now task"
  have t: "t_Spec t = t_Spec task" "tst_JobName (t_Status t) = tst_JobName (t_Status task)"
    by (simp_all add: t_def Task_SetStartTime_def)
  let ?options = "builder_options getenv t definition' req"
  obtain params where "parseRuntimeTaskDefinition (Some funcSpec) (ts_TaskDefinition (t_Spec t))
      (om_Namespace (t_meta t)) (bo_ConfigMap ?options) = Inr (params, True)"
    using assms(7) by (simp add: parseRuntimeTaskDefinition_def Let_def)
  then have "run_state (getParams cl cfg getenv mergo ?options funcSpec)
      (s4\<lparr>env_World := snd (run_state (cl_Intn cl 89999) (env_World s4))\<rparr>) = (Inl Panic, s5)"
    using assms(8,9)
    by (simp add: getParams_def handleParent_def builder_options_def parseRuntimeTaskDefinition_def Let_def)
  moreover have "NewJobRunnerBuilder ?options = Some (RuntimeBuilder funcSpec)"
    using assms(6) by (simp add: NewJobRunnerBuilder_def builder_options_def)
  ultimately have "run_state (generateJob cl cfg getenv mergo t definition' req) s4 = (Inl Panic, s5)"
    by (simp add: generateJob_def Runtime_CreateContainer_def env_simps Let_def)
  moreover have "SpecExists definition'" using assms(6) by (simp add: SpecExists_def)
  ultimately have "run_state (createJob cl cfg getenv mergo req t) (s\<lparr>env_World := w3\<rparr>) = (Inl Panic, s5)"
    using assms(5) t by (simp add: createJob_def createFunctionJob_def)
  then have "run_state (task_body cl cfg getenv mergo req t) (s\<lparr>env_World := w2\<rparr>) = ((t, None), s5)"
    using assms(3,4) t by (simp add: task_body_def getJob_def env_simps)
  then show ?thesis
    using assms(1,2) by (simp add: Task_Reconcile_def Now_def env_simps t_def [symmetric])
qed

text \<open>
  A task that has succeeded or failed is run again when its Job is gone, as it is once the time to
  live after finishing has passed: a new Job is created and the task is stored as Progressing.
\<close>

theorem finished_task_runs_again:
  assumes "run_state (api_Get (cl_Task cl) (req_Namespace req) (req_Name req)) (env_World s) = (Inr task, w1)"
    and "run_state (cl_Now cl) w1 = (now, w2)" and "IsCompleted (tst_Status (t_Status task))"
    and "run_state (api_Get (cl_Job cl) (req_Namespace req) (tst_JobName (t_Status task))) w2 = (Inl err, w3)"
    and "IsNotFound err"
    and "run_state (createJob cl cfg getenv mergo req (Task_SetStartTime now task)) (s\<lparr>env_World := w3\<rparr>) =
      (Inr task', s4)"
  shows "run_state (Task_Reconcile cl cfg getenv mergo req) s =
    ((requeue_after 10, None), s4\<lparr>env_World := snd (run_state (api_StatusUpdate (cl_Task cl)
       (task'\<lparr>t_Status := (t_Status task')\<lparr>tst_Status := StateProgressing\<rparr>\<rparr>)) (env_World s4))\<rparr>)"
proof -
  have "tst_JobName (t_Status (Task_SetStartTime now task)) = tst_JobName (t_Status task)"
    by (simp add: Task_SetStartTime_def)
  then show ?thesis
    using assms by (simp add: Task_Reconcile_def task_body_def getJob_def Now_def env_simps Let_def)
qed

text \<open>
  The laws of a server while nobody else writes the task and its Job stays as it is: reads succeed and
  change nothing, and a status is stored as it is written, Pending when it is empty.
\<close>

abbreviation task_key :: "ObjectMeta \<Rightarrow> string \<times> string" where
  "task_key m \<equiv> (om_Namespace m, om_Name m)"

definition task_server :: "('w \<Rightarrow> KeptnTask option) \<Rightarrow> 'w Client \<Rightarrow> Request \<Rightarrow> string \<Rightarrow> Job \<Rightarrow> bool" where
  "task_server obj cl req jobName job \<longleftrightarrow>
     (\<forall>w t. obj w = Some t \<longrightarrow> task_key (t_meta t) = (req_Namespace req, req_Name req) \<and>
        (\<exists>w'. run_state (api_Get (cl_Task cl) (req_Namespace req) (req_Name req)) w = (Inr t, w') \<and> obj w' = obj w) \<and>
        (\<exists>w'. run_state (api_Get (cl_Job cl) (req_Namespace req) jobName) w = (Inr job, w') \<and> obj w' = obj w) \<and>
        (\<forall>y. task_key (t_meta y) = task_key (t_meta t) \<longrightarrow>
           (\<exists>z w'. run_state (api_StatusUpdate (cl_Task cl) y) w = (Inr z, w') \<and> obj w' = Some z \<and>
              t_Status z = (t_Status y)\<lparr>tst_Status := (if tst_Status (t_Status y) = StateEmpty then StatePending
                else tst_Status (t_Status y))\<rparr>))) \<and>
     (\<forall>w. obj (snd (run_state (cl_Now cl) w)) = obj w)"

definition job_state :: "Job \<Rightarrow> KeptnState option" where
  "job_state job =
     (if \<exists>c\<in>set (j_Conditions job). jc_Type c = ''Complete'' \<or> jc_Type c = ''SuccessCriteriaMet'' then
        Some StateSucceeded
      else if \<exists>c\<in>set (j_Conditions job). jc_Type c = ''Failed'' \<or> jc_Type c = ''FailureTarget'' then
        Some StateFailed
      else None)"

lemma updateTaskStatus_state:
  "tst_Status (t_Status (updateTaskStatus job t)) =
     (case job_state job of Some k \<Rightarrow> k | None \<Rightarrow> tst_Status (t_Status t))"
  "tst_JobName (t_Status (updateTaskStatus job t)) = tst_JobName (t_Status t)"
  "t_meta (updateTaskStatus job t) = t_meta t"
  by (auto simp: updateTaskStatus_def job_state_def hasJobCondition_def split: list.splits)

text \<open>
  C9: While the Job that a task records exists and nobody else writes the task, a reconciliation makes
  the state of the task follow the Job: Succeeded once the Job is complete, Failed once it has failed,
  and otherwise as it was; a state that has ended is left as it is, and the task goes on recording this
  Job.  Once the Job has been removed, by its time to live or by hand, nothing of this holds: the next
  reconciliation runs the task again (\<open>finished_task_runs_again\<close>).
\<close>

theorem task_follows_job:
  assumes "obj (env_World s) = Some t" and "task_server obj cl req (tst_JobName (t_Status t)) job"
  shows "\<exists>t'. obj (env_World (snd (run_state (Task_Reconcile cl cfg getenv mergo req) s))) = Some t' \<and>
    tst_JobName (t_Status t') = tst_JobName (t_Status t) \<and>
    tst_Status (t_Status t') =
      (if IsCompleted (tst_Status (t_Status t)) then tst_Status (t_Status t)
       else case job_state job of
         Some k \<Rightarrow> k
       | None \<Rightarrow> if tst_Status (t_Status t) = StateEmpty then StatePending else tst_Status (t_Status t))"
proof -
  note laws = assms(2) [unfolded task_server_def]
  obtain w1 where get: "run_state (api_Get (cl_Task cl) (req_Namespace req) (req_Name req)) (env_World s) = (Inr t, w1)"
      "obj w1 = Some t"
    using laws assms(1) by metis
  obtain now w2 where now: "run_state (cl_Now cl) w1 = (now, w2)" "obj w2 = Some t"
    using laws get(2) by (metis prod.collapse)
  obtain w3 where job: "run_state (api_Get (cl_Job cl) (req_Namespace req) (tst_JobName (t_Status t))) w2 = (Inr job, w3)"
      "obj w3 = Some t"
    using laws now(2) by metis
  define u where "u = Task_SetStartTime now t"
  have u: "t_meta u = t_meta t" "tst_Status (t_Status u) = tst_Status (t_Status t)"
    "tst_JobName (t_Status u) = tst_JobName (t_Status t)"
    by (simp_all add: u_def Task_SetStartTime_def)
  have stored: "\<exists>z. obj (snd (run_state (api_StatusUpdate (cl_Task cl) y) w)) = Some z \<and>
      t_Status z = (t_Status y)\<lparr>tst_Status := (if tst_Status (t_Status y) = StateEmpty then StatePending
        else tst_Status (t_Status y))\<rparr>"
    if "obj w = Some t" "t_meta y = t_meta t" for w y
    using laws that by (metis snd_conv)
  show ?thesis
  proof (cases "IsCompleted (tst_Status (t_Status t))")
    case False
    have run: "env_World (snd (run_state (Task_Reconcile cl cfg getenv mergo req) s)) =
        snd (run_state (api_StatusUpdate (cl_Task cl) (updateTaskStatus job u)) w3)"
      using get(1) now(1) job(1) u False
      by (simp add: Task_Reconcile_def task_body_def getJob_def Now_def env_simps u_def [symmetric])
    have "job_state job \<noteq> Some StateEmpty" by (simp add: job_state_def)
    then show ?thesis
      unfolding run using stored [OF job(2), of "updateTaskStatus job u"] u False
      by (auto simp: updateTaskStatus_state split: option.splits)
  next
    case True
    define now2 w4 where "now2 = fst (run_state (cl_Now cl) w3)" and "w4 = snd (run_state (cl_Now cl) w3)"
    have w4: "obj w4 = Some t" using laws job(2) by (simp add: w4_def)
    have run: "env_World (snd (run_state (Task_Reconcile cl cfg getenv mergo req) s)) =
        snd (run_state (api_StatusUpdate (cl_Task cl) (Task_SetEndTime now2 u)) w4)"
      using get(1) now(1) job(1) u True
      by (simp add: Task_Reconcile_def task_body_def getJob_def Now_def env_simps u_def [symmetric]
          meter_call_def now2_def w4_def Let_def)
    have "tst_Status (t_Status t) \<noteq> StateEmpty" using True by (auto simp: IsCompleted_def state_defs)
    then show ?thesis
      unfolding run using stored [OF w4, of "Task_SetEndTime now2 u"] u True
      by (auto simp: Task_SetEndTime_def split: if_splits)
  qed
qed


end
