(* ===== verification/Scheduling_Gates.thy ===== *)
theory Scheduling_Gates
  imports Phase
begin

text \<open>
  The controller of scheduling gates (\<^verbatim>\<open>controllers/lifecycle/schedulinggates\<close>): a pod that the webhook has
  gated is released when the deployment of a workload version of its owner has begun.
\<close>

section \<open>The controller\<close>

definition hasKeptnSchedulingGate :: "Pod \<Rightarrow> bool" where
  "hasKeptnSchedulingGate pod \<longleftrightarrow> (\<exists>gate\<in>set (pod_SchedulingGates pod). gate = KeptnGate)"

text \<open>The pod as it is written when its gates are removed.\<close>

definition ungated :: "Pod \<Rightarrow> Pod" where
  "ungated pod =
     pod\<lparr>pod_SchedulingGates := [],
         pod_meta := (pod_meta pod)\<lparr>om_Annotations :=
           Some (fmupd SchedulingGateRemoved ''true'' (gm_fmap (om_Annotations (pod_meta pod))))\<rparr>\<rparr>"

definition removeGate :: "'w Client \<Rightarrow> Pod \<Rightarrow> ('w, outcome) prog" where
  "removeGate cl pod = do {
     r \<leftarrow> on_world (api_Update (cl_Pod cl) (ungated pod));
     ret (case r of Inl err \<Rightarrow> (no_requeue, Some err) | Inr stored \<Rightarrow> (no_requeue, None))
   }"

definition deployment_begun :: "KeptnWorkloadVersion \<Rightarrow> bool" where
  "deployment_begun workloadVersion \<longleftrightarrow>
     IsCompleted (wvst_DeploymentStatus (wv_Status workloadVersion)) \<or>
     wvst_DeploymentStatus (wv_Status workloadVersion) = StateProgressing"

definition Gates_Reconcile :: "'w Client \<Rightarrow> Request \<Rightarrow> ('w, outcome) prog" where
  "Gates_Reconcile cl req = do {
     r \<leftarrow> on_world (api_Get (cl_Pod cl) (req_Namespace req) (req_Name req));
     case r of
       Inl err \<Rightarrow>
         if IsNotFound err then ret (no_requeue, None)
         else ret (no_requeue, Some (Wrapped ''could not retrieve pod, '' err))
     | Inr pod \<Rightarrow>
         (case om_OwnerReferences (pod_meta pod) of
            [] \<Rightarrow> ret (no_requeue, None)
          | owner # _ \<Rightarrow> do {
              r \<leftarrow> on_world (api_List (cl_WorkloadVersion cl) (om_Namespace (pod_meta pod))
                [(''.spec.resourceReference.uid'', or_UID owner)]);
              case r of
                Inl err \<Rightarrow> ret (no_requeue, Some err)
              | Inr items \<Rightarrow>
                  if \<exists>workloadVersion\<in>set items. deployment_begun workloadVersion then removeGate cl pod
                  else ret (\<lparr>Requeue = False, RequeueAfter = 10 * second\<rparr>, None)
            })
   }"

section \<open>Statements\<close>

text \<open>
  A failed phase before the deployment releases the pods: the handler of the phase deprecates the
  deployment of the workload version, and to the controller of the gates a deprecated deployment is one
  that has begun.
\<close>

theorem failed_predeployment_releases_pod:
  assumes "phase = PhaseWorkloadPreDeployment \<or> phase = PhaseWorkloadPreEvaluation"
    and "run_state (handleCompletedPhase cl kind StateFailed WorkloadVersion_PhaseItem phase v span) s0 =
      ((v', result, err), s1)"
    and "run_state (api_Get (cl_Pod cl) (req_Namespace req) (req_Name req)) (env_World s) = (Inr pod, w1)"
    and "om_OwnerReferences (pod_meta pod) = owner # owners"
    and "run_state (api_List (cl_WorkloadVersion cl) (om_Namespace (pod_meta pod))
      [(''.spec.resourceReference.uid'', or_UID owner)]) w1 = (Inr items, w2)"
    and "u \<in> set items" and "wvst_DeploymentStatus (wv_Status u) = wvst_DeploymentStatus (wv_Status v')"
  shows "env_World (snd (run_state (Gates_Reconcile cl req) s)) =
    snd (run_state (api_Update (cl_Pod cl) (ungated pod)) w2)"
proof -
  have "maintains (\<lambda>w. True) (handleCompletedPhase cl kind StateFailed WorkloadVersion_PhaseItem phase v span)
      (\<lambda>(y, res, err). \<exists>now. y = phase_failed WorkloadVersion_PhaseItem phase now v)"
    by (rule maintains_conseq, rule maintains_handleCompletedPhase [OF ambient_True]) auto
  from maintainsD [OF this _ assms(2)] obtain now where "v' = phase_failed WorkloadVersion_PhaseItem phase now v"
    by auto
  then have "wvst_DeploymentStatus (wv_Status v') = StateDeprecated"
    using assms(1)
    by (elim disjE) (simp_all add: phase_failed_def WorkloadVersion_PhaseItem_def phase_defs
        WorkloadVersion_DeprecateRemainingPhases_def Let_def)
  with assms(7) have "deployment_begun u" by (simp add: deployment_begun_def IsCompleted_def)
  with assms(6) have "\<exists>v\<in>set items. deployment_begun v" by blast
  with assms(3-5) show ?thesis
    by (simp add: Gates_Reconcile_def removeGate_def env_simps)
qed

end
