(* ===== verification/Pod_Mutator.thy ===== *)
theory Pod_Mutator
  imports Scheduling_Gates Items
begin

text \<open>
  The mutating webhook for pods (\<^verbatim>\<open>webhooks/pod_mutator\<close>): it finds the workload, app and version of a pod
  in the labels and annotations of the pod or of its parent, gates the pod, and creates or updates the
  KeptnWorkload and the KeptnAppCreationRequest.
\<close>

section \<open>Labels and annotations\<close>

definition GetLabelOrAnnotation :: "ObjectMeta \<Rightarrow> string \<Rightarrow> string \<Rightarrow> string \<times> bool" where
  "GetLabelOrAnnotation resource primaryAnnotation secondaryAnnotation =
     (if gm_str (om_Annotations resource) primaryAnnotation \<noteq> [] then
        (gm_str (om_Annotations resource) primaryAnnotation, True)
      else if gm_str (om_Labels resource) primaryAnnotation \<noteq> [] then
        (gm_str (om_Labels resource) primaryAnnotation, True)
      else if secondaryAnnotation = [] then ([], False)
      else if gm_str (om_Annotations resource) secondaryAnnotation \<noteq> [] then
        (gm_str (om_Annotations resource) secondaryAnnotation, True)
      else if gm_str (om_Labels resource) secondaryAnnotation \<noteq> [] then
        (gm_str (om_Labels resource) secondaryAnnotation, True)
      else ([], False))"

definition isAppAnnotationPresent :: "ObjectMeta \<Rightarrow> bool" where
  "isAppAnnotationPresent meta \<longleftrightarrow> snd (GetLabelOrAnnotation meta AppAnnotation K8sRecommendedAppAnnotations)"

definition getAppName :: "ObjectMeta \<Rightarrow> string" where
  "getAppName meta =
     (let applicationName =
            (if \<not> isAppAnnotationPresent meta then
               fst (GetLabelOrAnnotation meta WorkloadAnnotation K8sRecommendedWorkloadAnnotations)
             else fst (GetLabelOrAnnotation meta AppAnnotation K8sRecommendedAppAnnotations))
      in CreateResourceName MaxK8sObjectLength MinKeptnNameLen [applicationName])"

definition getWorkloadName :: "ObjectMeta \<Rightarrow> string \<Rightarrow> string" where
  "getWorkloadName meta applicationName =
     (let workloadName = fst (GetLabelOrAnnotation meta WorkloadAnnotation K8sRecommendedWorkloadAnnotations)
      in CreateResourceName MaxK8sObjectLength MinKeptnNameLen [applicationName, workloadName])"

definition getValuesForAnnotations :: "ObjectMeta \<Rightarrow> string \<Rightarrow> string list" where
  "getValuesForAnnotations objMeta annotationKey =
     (case GetLabelOrAnnotation objMeta annotationKey [] of
        (annotations, found) \<Rightarrow> if found then split_on CHR '','' annotations else [])"

definition zero_OwnerReference :: OwnerReference where
  "zero_OwnerReference = \<lparr>or_UID = [], or_Kind = [], or_Name = [], or_APIVersion = [], or_Controller = False\<rparr>"

definition GetOwnerReference :: "ObjectMeta \<Rightarrow> OwnerReference" where
  "GetOwnerReference resource =
     fold (\<lambda>owner reference.
         if IsOwnerSupported owner then
           reference\<lparr>or_UID := or_UID owner, or_Kind := or_Kind owner, or_Name := or_Name owner,
             or_APIVersion := or_APIVersion owner\<rparr>
         else reference)
       (om_OwnerReferences resource) zero_OwnerReference"

definition setMapKey :: "smap \<Rightarrow> string \<Rightarrow> string \<Rightarrow> smap" where
  "setMapKey myMap key val =
     (case myMap of None \<Rightarrow> None | Some m \<Rightarrow> if val \<noteq> [] then Some (fmupd key val m) else Some m)"

definition initEmptyAnnotations :: "ObjectMeta \<Rightarrow> ObjectMeta" where
  "initEmptyAnnotations meta =
     (if gm_empty (om_Annotations meta) then meta\<lparr>om_Annotations := Some fmempty\<rparr> else meta)"

section \<open>Versions\<close>

definition getImageVersion :: "string \<Rightarrow> error + string" where
  "getImageVersion img =
     (let splitImage = split_on CHR '':'' img; v = last splitImage in
      if 2 \<le> length splitImage \<and> v \<noteq> [] \<and> v \<noteq> ''latest'' then Inr v
      else Inl (Message ''Invalid image version''))"

text \<open>
  The loop over the containers: the version of the image of the named container, or else everything that
  is hashed, and whether there is such a container.
\<close>

fun scan_containers :: "string \<Rightarrow> Container list \<Rightarrow> string \<Rightarrow> bool \<Rightarrow> string + string \<times> bool" where
  "scan_containers containerName [] name containerFound = Inr (name, containerFound)"
| "scan_containers containerName (item # items) name containerFound =
     (let found = (c_Name item = containerName);
          rest = scan_containers containerName items
            (name @ c_Name item @ c_Image item @ concat (map (\<lambda>e. ev_Name e @ ev_Value e) (c_Env item)))
            (containerFound \<or> found)
      in if found then
           (case getImageVersion (c_Image item) of Inr version \<Rightarrow> Inl version | Inl err \<Rightarrow> rest)
         else rest)"

definition calculateVersion :: "Pod \<Rightarrow> string \<Rightarrow> error + string" where
  "calculateVersion pod containerName =
     (case scan_containers containerName (pod_Containers pod) [] False of
        Inl version \<Rightarrow> Inr version
      | Inr (name, containerFound) \<Rightarrow>
          if containerName \<noteq> [] \<and> \<not> containerFound then
            Inl (Message (''The container name '' @ [CHR 0x27] @ containerName @ [CHR 0x27] @
              '' specified in '' @ ContainerNameAnnotation @ '' does not match any containers in the pod''))
          else Inr (itoa (uint (fnv32a name))))"

section \<open>The annotations of a pod\<close>

definition isPodAnnotated :: "Pod \<Rightarrow> Pod \<times> bool" where
  "isPodAnnotated pod =
     (let meta = pod_meta pod;
          containerName = fst (GetLabelOrAnnotation meta ContainerNameAnnotation []);
          gotWorkloadAnnotation = snd (GetLabelOrAnnotation meta WorkloadAnnotation K8sRecommendedWorkloadAnnotations);
          gotVersionAnnotation = snd (GetLabelOrAnnotation meta VersionAnnotation K8sRecommendedVersionAnnotations)
      in if gotWorkloadAnnotation then
           (if \<not> gotVersionAnnotation then
              (let pod = pod\<lparr>pod_meta := initEmptyAnnotations meta\<rparr> in
               case calculateVersion pod containerName of
                 Inl err \<Rightarrow> (pod, True)
               | Inr version \<Rightarrow>
                   (pod\<lparr>pod_meta := (pod_meta pod)\<lparr>om_Annotations :=
                      Some (fmupd VersionAnnotation version (gm_fmap (om_Annotations (pod_meta pod))))\<rparr>\<rparr>, True))
            else (pod, True))
         else (pod, False))"

definition set_annotations :: "(string \<times> string) list \<Rightarrow> Pod \<Rightarrow> Pod" where
  "set_annotations kvs pod = pod\<lparr>pod_meta := (pod_meta pod)
     \<lparr>om_Annotations := fold (\<lambda>(k, v) m. setMapKey m k v) kvs (om_Annotations (pod_meta pod))\<rparr>\<rparr>"

definition copyResourceLabelsIfPresent :: "ObjectMeta option \<Rightarrow> Pod \<Rightarrow> Pod \<times> bool" where
  "copyResourceLabelsIfPresent sourceResource targetPod =
     (case sourceResource of
        None \<Rightarrow> (targetPod, False)
      | Some source \<Rightarrow>
          (let targetPod = targetPod\<lparr>pod_meta := initEmptyAnnotations (pod_meta targetPod)\<rparr>;
               (workloadName, gotWorkloadName) =
                 GetLabelOrAnnotation source WorkloadAnnotation K8sRecommendedWorkloadAnnotations;
               appName = fst (GetLabelOrAnnotation source AppAnnotation K8sRecommendedAppAnnotations);
               (version, gotVersion) =
                 GetLabelOrAnnotation source VersionAnnotation K8sRecommendedVersionAnnotations;
               preDeploymentChecks = fst (GetLabelOrAnnotation source PreDeploymentTaskAnnotation []);
               postDeploymentChecks = fst (GetLabelOrAnnotation source PostDeploymentTaskAnnotation []);
               preEvaluationChecks = fst (GetLabelOrAnnotation source PreDeploymentEvaluationAnnotation []);
               postEvaluationChecks = fst (GetLabelOrAnnotation source PostDeploymentEvaluationAnnotation []);
               containerName = fst (GetLabelOrAnnotation source ContainerNameAnnotation []);
               metadata = fst (GetLabelOrAnnotation source MetadataAnnotation [])
           in if gotWorkloadName then
                (let targetPod = set_annotations [(WorkloadAnnotation, workloadName)] targetPod in
                 case (if gotVersion then Inr version else calculateVersion targetPod containerName) of
                   Inl err \<Rightarrow> (targetPod, False)
                 | Inr version \<Rightarrow>
                     (set_annotations
                        [(VersionAnnotation, version), (AppAnnotation, appName),
                         (PreDeploymentTaskAnnotation, preDeploymentChecks),
                         (PostDeploymentTaskAnnotation, postDeploymentChecks),
                         (PreDeploymentEvaluationAnnotation, preEvaluationChecks),
                         (PostDeploymentEvaluationAnnotation, postEvaluationChecks),
                         (MetadataAnnotation, metadata)] targetPod, True))
              else (targetPod, False)))"

definition fetchParent ::
    "('w, 'o) api \<Rightarrow> ('o \<Rightarrow> ObjectMeta) \<Rightarrow> string \<Rightarrow> string \<Rightarrow> ('w, ObjectMeta option) prog" where
  "fetchParent k meta namespace name = do {
     r \<leftarrow> on_world (api_Get k namespace name);
     ret (case r of
       Inl err \<Rightarrow> None
     | Inr parent \<Rightarrow> Some (zero_ObjectMeta\<lparr>om_Labels := om_Labels (meta parent),
         om_Annotations := om_Annotations (meta parent)\<rparr>))
   }"

definition copyAnnotationsIfParentAnnotated :: "'w Client \<Rightarrow> string \<Rightarrow> Pod \<Rightarrow> ('w, Pod \<times> bool) prog" where
  "copyAnnotationsIfParentAnnotated cl namespace pod =
     (let podOwner = GetOwnerReference (pod_meta pod) in
      if or_UID podOwner = [] then ret (pod, False)
      else if or_Kind podOwner = ''ReplicaSet'' then do {
        r \<leftarrow> on_world (api_Get (cl_ReplicaSet cl) namespace (or_Name podOwner));
        case r of
          Inl err \<Rightarrow> ret (pod, False)
        | Inr rs \<Rightarrow>
            (let rsOwner = GetOwnerReference (repl_meta rs) in
             if or_UID rsOwner = [] then ret (pod, False)
             else if or_Kind rsOwner = ''Rollout'' then do {
               parent \<leftarrow> fetchParent (cl_Rollout cl) rol_meta namespace (or_Name rsOwner);
               ret (copyResourceLabelsIfPresent parent pod)
             }
             else do {
               parent \<leftarrow> fetchParent (cl_Deployment cl) dep_meta namespace (or_Name rsOwner);
               ret (copyResourceLabelsIfPresent parent pod)
             })
      }
      else if or_Kind podOwner = ''StatefulSet'' then do {
        parent \<leftarrow> fetchParent (cl_StatefulSet cl) sts_meta namespace (or_Name podOwner);
        ret (copyResourceLabelsIfPresent parent pod)
      }
      else if or_Kind podOwner = ''DaemonSet'' then do {
        parent \<leftarrow> fetchParent (cl_DaemonSet cl) dms_meta namespace (or_Name podOwner);
        ret (copyResourceLabelsIfPresent parent pod)
      }
      else ret (pod, False))"

definition IsAnnotated :: "'w Client \<Rightarrow> string \<Rightarrow> Pod \<Rightarrow> ('w, Pod \<times> bool) prog" where
  "IsAnnotated cl namespace pod =
     (case isPodAnnotated pod of
        (pod, podIsAnnotated) \<Rightarrow>
          if \<not> podIsAnnotated then copyAnnotationsIfParentAnnotated cl namespace pod
          else ret (pod, True))"

section \<open>Workloads\<close>

definition parseWorkloadMetadata :: "string list \<Rightarrow> smap" where
  "parseWorkloadMetadata annotations =
     Some (fold (\<lambda>entry result.
         (case split_on CHR ''='' entry of [k, v] \<Rightarrow> fmupd k v result | _ \<Rightarrow> result)) annotations fmempty)"

definition generateWorkload :: "'w Client \<Rightarrow> Context \<Rightarrow> Pod \<Rightarrow> string \<Rightarrow> KeptnWorkload" where
  "generateWorkload cl ctx pod namespace =
     (let meta = pod_meta pod;
          version = to_lower (fst (GetLabelOrAnnotation meta VersionAnnotation K8sRecommendedVersionAnnotations));
          applicationName = getAppName meta;
          ownerRef = GetOwnerReference meta
      in \<lparr>wk_meta = (named_meta (getWorkloadName meta applicationName) namespace)
            \<lparr>om_Annotations := Some (cl_Inject cl ctx), om_OwnerReferences := [ownerRef]\<rparr>,
          wk_Spec = \<lparr>wks_AppName = applicationName, wks_Version = version,
            wks_PreDeploymentTasks = getValuesForAnnotations meta PreDeploymentTaskAnnotation,
            wks_PostDeploymentTasks = getValuesForAnnotations meta PostDeploymentTaskAnnotation,
            wks_PreDeploymentEvaluations = getValuesForAnnotations meta PreDeploymentEvaluationAnnotation,
            wks_PostDeploymentEvaluations = getValuesForAnnotations meta PostDeploymentEvaluationAnnotation,
            wks_ResourceReference = \<lparr>rr_UID = or_UID ownerRef, rr_Kind = or_Kind ownerRef,
              rr_Name = or_Name ownerRef\<rparr>,
            wks_Metadata = parseWorkloadMetadata (getValuesForAnnotations meta MetadataAnnotation)\<rparr>,
          wk_CurrentVersion = []\<rparr>)"

definition Workload_Event :: "KeptnWorkload \<Rightarrow> EventTarget" where
  "Workload_Event w = \<lparr>et_meta = wk_meta w, et_EventAnnotations = Some (Workload_GetEventAnnotations w)\<rparr>"

definition plain_target :: "ObjectMeta \<Rightarrow> EventTarget" where
  "plain_target meta = \<lparr>et_meta = meta, et_EventAnnotations = None\<rparr>"

definition createWorkload :: "'w Client \<Rightarrow> KeptnWorkload \<Rightarrow> ('w, error option) prog" where
  "createWorkload cl newWorkload = do {
     r \<leftarrow> on_world (api_Create (cl_Workload cl) newWorkload);
     case r of
       Inl err \<Rightarrow> do {
         Emit PhaseCreateWorkload ''Warning'' (Workload_Event newWorkload) PhaseStateFailed
           ''could not create KeptnWorkload'' (wks_Version (wk_Spec newWorkload));
         ret (Some err)
       }
     | Inr stored \<Rightarrow> ret None
   }"

definition updateWorkload :: "'w Client \<Rightarrow> KeptnWorkload \<Rightarrow> KeptnWorkload \<Rightarrow> ('w, error option) prog" where
  "updateWorkload cl workload newWorkload =
     (if wk_Spec workload = wk_Spec newWorkload \<and>
         om_OwnerReferences (wk_meta workload) = om_OwnerReferences (wk_meta newWorkload) then ret None
      else do {
        let workload = workload\<lparr>wk_Spec := wk_Spec newWorkload, wk_meta := (wk_meta workload)
          \<lparr>om_OwnerReferences := om_OwnerReferences (wk_meta newWorkload)\<rparr>\<rparr>;
        r \<leftarrow> on_world (api_Update (cl_Workload cl) workload);
        case r of
          Inl err \<Rightarrow> do {
            Emit PhaseUpdateWorkload ''Warning'' (Workload_Event workload) PhaseStateFailed
              ''could not update KeptnWorkload'' (wks_Version (wk_Spec workload));
            ret (Some err)
          }
        | Inr stored \<Rightarrow> ret None
      })"

definition Workload_Handle :: "'w Client \<Rightarrow> Context \<Rightarrow> Pod \<Rightarrow> string \<Rightarrow> ('w, error option) prog" where
  "Workload_Handle cl ctx pod namespace = do {
     let newWorkload = generateWorkload cl ctx pod namespace;
     r \<leftarrow> on_world (api_Get (cl_Workload cl) namespace (om_Name (wk_meta newWorkload)));
     case r of
       Inl err \<Rightarrow>
         if IsNotFound err then createWorkload cl newWorkload
         else ret (Some (Wrapped ''could not fetch Workload '' err))
     | Inr workload \<Rightarrow> updateWorkload cl workload newWorkload
   }"

section \<open>App creation requests\<close>

definition generateResource :: "'w Client \<Rightarrow> Context \<Rightarrow> Pod \<Rightarrow> string \<Rightarrow> Pod \<times> KeptnAppCreationRequest" where
  "generateResource cl ctx pod namespace =
     (let annotations = cl_Inject cl ctx;
          (pod, annotations) =
            (if \<not> isAppAnnotationPresent (pod_meta pod) then
               (let meta = initEmptyAnnotations (pod_meta pod);
                    appName = fst (GetLabelOrAnnotation meta WorkloadAnnotation K8sRecommendedWorkloadAnnotations)
                in (pod\<lparr>pod_meta := meta\<lparr>om_Annotations :=
                      Some (fmupd AppAnnotation appName (gm_fmap (om_Annotations meta)))\<rparr>\<rparr>,
                    fmupd AppTypeAnnotation AppTypeSingleService annotations))
             else (pod, annotations));
          appName = getAppName (pod_meta pod)
      in (pod, \<lparr>cr_meta = (named_meta appName namespace)\<lparr>om_Annotations := Some annotations\<rparr>,
                cr_AppName = appName\<rparr>))"

definition createResource :: "'w Client \<Rightarrow> KeptnAppCreationRequest \<Rightarrow> ('w, error option) prog" where
  "createResource cl newAppCreationRequest = do {
     r \<leftarrow> on_world (api_Create (cl_CreationRequest cl) newAppCreationRequest);
     case r of
       Inl err \<Rightarrow> do {
         Emit PhaseCreateAppCreationRequest ''Warning'' (plain_target (cr_meta newAppCreationRequest))
           PhaseStateFailed ''could not create KeptnAppCreationRequest'' (cr_AppName newAppCreationRequest);
         ret (Some err)
       }
     | Inr stored \<Rightarrow> ret None
   }"

definition AppCreationRequest_Handle ::
    "'w Client \<Rightarrow> Context \<Rightarrow> Pod \<Rightarrow> string \<Rightarrow> ('w, Pod \<times> error option) prog" where
  "AppCreationRequest_Handle cl ctx pod namespace = do {
     let (pod, newAppCreationRequest) = generateResource cl ctx pod namespace;
     r \<leftarrow> on_world (api_Get (cl_CreationRequest cl) namespace (om_Name (cr_meta newAppCreationRequest)));
     case r of
       Inl err \<Rightarrow>
         if IsNotFound err then do {
           e \<leftarrow> createResource cl newAppCreationRequest;
           ret (pod, e)
         }
         else ret (pod, Some (Wrapped ''could not fetch AppCreationRequest '' err))
     | Inr appCreationRequest \<Rightarrow> ret (pod, None)
   }"

section \<open>The webhook\<close>

text \<open>An answer to the API server: an error with its status code, the pod as it is, or the pod patched.\<close>

datatype Response = Errored int error | Allowed string | Patched Pod

definition handleScheduling :: "Pod \<Rightarrow> Pod \<times> bool" where
  "handleScheduling pod =
     (if snd (GetLabelOrAnnotation (pod_meta pod) SchedulingGateRemoved []) then (pod, True)
      else (pod\<lparr>pod_SchedulingGates := [KeptnGate]\<rparr>, False))"

definition handle_annotated :: "'w Client \<Rightarrow> Context \<Rightarrow> string \<Rightarrow> Pod \<Rightarrow> ('w, Response) prog" where
  "handle_annotated cl ctx namespace pod =
     (let (pod, scheduled) = handleScheduling pod in
      if scheduled then ret (Allowed ''gate of the pod already removed'')
      else do {
        err \<leftarrow> Workload_Handle cl ctx pod namespace;
        case err of
          Some e \<Rightarrow> ret (Errored 400 e)
        | None \<Rightarrow> do {
            (pod, err) \<leftarrow> AppCreationRequest_Handle cl ctx pod namespace;
            case err of
              Some e \<Rightarrow> ret (Errored 400 e)
            | None \<Rightarrow> ret (Patched pod)
          }
      })"

text \<open>Decoding the request, and printing the pod, are done by the libraries; the first may fail.\<close>

definition Handle :: "'w Client \<Rightarrow> Context \<Rightarrow> string \<Rightarrow> error + Pod \<Rightarrow> ('w, Response) prog" where
  "Handle cl ctx namespace decoded =
     (case decoded of
        Inl err \<Rightarrow> ret (Errored 400 err)
      | Inr pod \<Rightarrow> do {
          r \<leftarrow> on_world (api_Get (cl_Namespace cl) [] namespace);
          case r of
            Inl err \<Rightarrow> ret (Errored 500 err)
          | Inr ns \<Rightarrow>
              if gm_str (om_Annotations (nsp_meta ns)) NamespaceEnabledAnnotation \<noteq> ''enabled'' then
                ret (Allowed ''namespace is not enabled for lifecycle operator'')
              else if or_Kind (GetOwnerReference (pod_meta pod)) = [] then
                ret (Allowed ''owner of pod is not supported by lifecycle operator'')
              else do {
                (pod, annotated) \<leftarrow> IsAnnotated cl namespace pod;
                if annotated then handle_annotated cl ctx namespace pod
                else ret (Patched pod)
              }
        })"

section \<open>What annotating a pod keeps\<close>

lemma gm_str_fmupd [simp]: "gm_str (Some (fmupd k v m)) k' = (if k' = k then v else gm_str (Some m) k')"
  by (simp add: go_simps)

lemma gm_str_initEmpty [simp]: "gm_str (om_Annotations (initEmptyAnnotations meta)) k = gm_str (om_Annotations meta) k"
  by (auto simp: initEmptyAnnotations_def go_simps split: option.splits)

lemma gm_str_setMapKeys:
  assumes "k \<notin> fst ` set kvs"
  shows "gm_str (fold (\<lambda>(key, v) m. setMapKey m key v) kvs ann) k = gm_str ann k"
  using assms
proof (induction kvs arbitrary: ann)
  case (Cons kv kvs)
  then show ?case
    by (cases kv) (auto simp: setMapKey_def split: option.splits)
qed simp

text \<open>
  A pod differs from another only in the annotations that the webhook copies to it: the marker of a
  removed gate, the labels, the owners and the gates are the same.
\<close>

definition copied :: "Pod \<Rightarrow> Pod \<Rightarrow> bool" where
  "copied p q \<longleftrightarrow> pod_SchedulingGates q = pod_SchedulingGates p \<and>
     om_Labels (pod_meta q) = om_Labels (pod_meta p) \<and>
     om_OwnerReferences (pod_meta q) = om_OwnerReferences (pod_meta p) \<and>
     gm_str (om_Annotations (pod_meta q)) SchedulingGateRemoved =
       gm_str (om_Annotations (pod_meta p)) SchedulingGateRemoved"

lemma copied_refl [simp]: "copied p p"
  by (simp add: copied_def)

lemma copied_init: "copied p (p\<lparr>pod_meta := initEmptyAnnotations (pod_meta p)\<rparr>)"
  by (simp add: copied_def) (simp add: initEmptyAnnotations_def)

lemma copied_set: "copied p q \<Longrightarrow> SchedulingGateRemoved \<notin> fst ` set kvs \<Longrightarrow> copied p (set_annotations kvs q)"
  by (simp add: copied_def set_annotations_def gm_str_setMapKeys)

lemma copied_isPodAnnotated: "copied p (fst (isPodAnnotated p))"
proof -
  have "copied p (q\<lparr>pod_meta := (pod_meta q)\<lparr>om_Annotations :=
      Some (fmupd VersionAnnotation v (gm_fmap (om_Annotations (pod_meta q))))\<rparr>\<rparr>)" if "copied p q" for q v
    using that by (simp add: copied_def) (auto simp: go_simps split: option.splits)
  from this [OF copied_init] copied_init show ?thesis
    by (simp add: isPodAnnotated_def Let_def split: sum.splits)
qed

lemma copied_copyResourceLabels: "copied p (fst (copyResourceLabelsIfPresent source p))"
  by (auto simp: copyResourceLabelsIfPresent_def Let_def split: option.splits prod.splits sum.splits
      intro!: copied_set copied_init)

lemma copied_copyAnnotations:
  "valid (\<lambda>s. True) (copyAnnotationsIfParentAnnotated cl ns p) (\<lambda>r s. copied p (fst r))"
  unfolding valid_def copyAnnotationsIfParentAnnotated_def fetchParent_def Let_def
  by (auto simp: env_simps copied_copyResourceLabels split: sum.splits if_splits)


lemma IsAnnotated_copied:
  assumes "run_state (IsAnnotated cl ns p) s = ((q, annotated), s')"
  shows "copied p q"
proof -
  obtain p1 found where p1: "isPodAnnotated p = (p1, found)" by fastforce
  have c: "copied p p1" using copied_isPodAnnotated [of p] p1 by simp
  show ?thesis
  proof (cases found)
    case True
    with assms p1 c show ?thesis by (simp add: IsAnnotated_def env_simps)
  next
    case False
    with assms p1 have "copied p1 q"
      using copied_copyAnnotations [of cl ns p1] by (auto simp: IsAnnotated_def valid_def dest: spec [of _ s])
    with c show ?thesis by (simp add: copied_def)
  qed
qed

text \<open>Naming a single-service app after its workload does not change what is generated for the pod.\<close>

lemma GetLabelOrAnnotation_init [simp]:
  "GetLabelOrAnnotation (initEmptyAnnotations meta) a b = GetLabelOrAnnotation meta a b"
  by (simp add: GetLabelOrAnnotation_def) (simp add: initEmptyAnnotations_def)

lemma gm_str_gm_fmap [simp]: "gm_str (Some (gm_fmap m)) k = gm_str m k"
  by (simp add: go_simps split: option.splits)

lemma GetLabelOrAnnotation_upd:
  assumes "k \<noteq> a" "k \<noteq> b"
  shows "GetLabelOrAnnotation (meta\<lparr>om_Annotations := Some (fmupd k v (gm_fmap (om_Annotations meta)))\<rparr>) a b =
    GetLabelOrAnnotation meta a b"
  using assms by (simp add: GetLabelOrAnnotation_def)

lemma GetLabelOrAnnotation_set:
  assumes "\<not> snd (GetLabelOrAnnotation meta a b)" and "a \<noteq> b"
  shows "GetLabelOrAnnotation (meta\<lparr>om_Annotations := Some (fmupd a v (gm_fmap (om_Annotations meta)))\<rparr>) a b =
    (v, v \<noteq> [])"
  using assms by (auto simp: GetLabelOrAnnotation_def split: if_splits)

definition single_service :: "Pod \<Rightarrow> Pod" where
  "single_service pod =
     (if \<not> isAppAnnotationPresent (pod_meta pod) then
        (let meta = initEmptyAnnotations (pod_meta pod) in
         pod\<lparr>pod_meta := meta\<lparr>om_Annotations := Some (fmupd AppAnnotation
           (fst (GetLabelOrAnnotation meta WorkloadAnnotation K8sRecommendedWorkloadAnnotations))
           (gm_fmap (om_Annotations meta)))\<rparr>\<rparr>)
      else pod)"

lemma generateResource_parts:
  "fst (generateResource cl ctx pod ns) = single_service pod"
  "cr_AppName (snd (generateResource cl ctx pod ns)) = getAppName (pod_meta (single_service pod))"
  "om_Namespace (cr_meta (snd (generateResource cl ctx pod ns))) = ns"
  "om_Name (cr_meta (snd (generateResource cl ctx pod ns))) = getAppName (pod_meta (single_service pod))"
  by (simp_all add: generateResource_def single_service_def Let_def named_meta_def split: prod.splits)

lemma single_service_lookup:
  assumes "AppAnnotation \<noteq> a" "AppAnnotation \<noteq> b"
  shows "GetLabelOrAnnotation (pod_meta (single_service pod)) a b = GetLabelOrAnnotation (pod_meta pod) a b"
  using assms by (simp add: single_service_def Let_def GetLabelOrAnnotation_upd)

lemma single_service_app: "getAppName (pod_meta (single_service pod)) = getAppName (pod_meta pod)"
proof (cases "isAppAnnotationPresent (pod_meta pod)")
  case False
  let ?wl = "GetLabelOrAnnotation (pod_meta pod) WorkloadAnnotation K8sRecommendedWorkloadAnnotations"
  have "GetLabelOrAnnotation (pod_meta (single_service pod)) AppAnnotation K8sRecommendedAppAnnotations =
      (fst ?wl, fst ?wl \<noteq> [])"
    using False GetLabelOrAnnotation_set [of "initEmptyAnnotations (pod_meta pod)" AppAnnotation
        K8sRecommendedAppAnnotations "fst ?wl"]
    by (simp add: isAppAnnotationPresent_def single_service_def Let_def)
  then show ?thesis
    using single_service_lookup [of WorkloadAnnotation K8sRecommendedWorkloadAnnotations pod] False
    by (simp add: getAppName_def isAppAnnotationPresent_def)
qed (simp add: single_service_def)

lemma single_service_owner: "om_OwnerReferences (pod_meta (single_service pod)) = om_OwnerReferences (pod_meta pod)"
  by (simp add: single_service_def Let_def) (simp add: initEmptyAnnotations_def)

lemma generateWorkload_single_service:
  "generateWorkload cl ctx (single_service pod) ns = generateWorkload cl ctx pod ns"
  by (simp add: generateWorkload_def getWorkloadName_def getValuesForAnnotations_def single_service_app
      single_service_lookup GetOwnerReference_def single_service_owner Let_def)


section \<open>Laws of the API server\<close>

text \<open>
  A workload reads back as it was written, up to the encoding: an empty map of metadata is not sent, and
  comes back as none.
\<close>

definition same_spec :: "KeptnWorkloadSpec \<Rightarrow> KeptnWorkloadSpec \<Rightarrow> bool" where
  "same_spec a b \<longleftrightarrow> a\<lparr>wks_Metadata := None\<rparr> = b\<lparr>wks_Metadata := None\<rparr> \<and>
     gm_fmap (wks_Metadata a) = gm_fmap (wks_Metadata b)"

definition wk_key :: "KeptnWorkload \<Rightarrow> string \<times> string" where
  "wk_key x = (om_Namespace (wk_meta x), om_Name (wk_meta x))"

definition cr_key :: "KeptnAppCreationRequest \<Rightarrow> string \<times> string" where
  "cr_key x = (om_Namespace (cr_meta x), om_Name (cr_meta x))"

text \<open>
  What the webhook relies on while it answers: reading returns what is stored and changes nothing, and
  what has been created or updated without an error is stored; \<open>wl\<close> and \<open>crs\<close> are the stored
  workloads and creation requests.
\<close>

definition webhook_server ::
    "('w \<Rightarrow> string \<times> string \<Rightarrow> KeptnWorkload option) \<Rightarrow>
     ('w \<Rightarrow> string \<times> string \<Rightarrow> KeptnAppCreationRequest option) \<Rightarrow> 'w Client \<Rightarrow> bool" where
  "webhook_server wl crs cl \<longleftrightarrow>
     (\<forall>ns n w x w'. run_state (api_Get (cl_Workload cl) ns n) w = (Inr x, w') \<longrightarrow>
        wl w (ns, n) = Some x \<and> wk_key x = (ns, n) \<and> wl w' = wl w) \<and>
     (\<forall>x w y w'. run_state (api_Create (cl_Workload cl) x) w = (Inr y, w') \<longrightarrow>
        wl w' (wk_key x) = Some y \<and> same_spec (wk_Spec y) (wk_Spec x)) \<and>
     (\<forall>x w y w'. run_state (api_Update (cl_Workload cl) x) w = (Inr y, w') \<longrightarrow>
        wl w' (wk_key x) = Some y \<and> same_spec (wk_Spec y) (wk_Spec x)) \<and>
     (\<forall>ns n w r w'. run_state (api_Get (cl_CreationRequest cl) ns n) w = (r, w') \<longrightarrow>
        wl w' = wl w \<and> crs w' = crs w \<and> (\<forall>x. r = Inr x \<longrightarrow> crs w (ns, n) = Some x)) \<and>
     (\<forall>x w y w'. run_state (api_Create (cl_CreationRequest cl) x) w = (Inr y, w') \<longrightarrow>
        wl w' = wl w \<and> crs w' (cr_key x) = Some y)"

lemma webhook_serverD:
  assumes "webhook_server wl crs cl"
  shows "run_state (api_Get (cl_Workload cl) ns n) w = (Inr x, w') \<Longrightarrow>
      wl w (ns, n) = Some x \<and> wk_key x = (ns, n) \<and> wl w' = wl w"
    and "run_state (api_Create (cl_Workload cl) x) w = (Inr y, w') \<Longrightarrow>
      wl w' (wk_key x) = Some y \<and> same_spec (wk_Spec y) (wk_Spec x)"
    and "run_state (api_Update (cl_Workload cl) x) w = (Inr y, w') \<Longrightarrow>
      wl w' (wk_key x) = Some y \<and> same_spec (wk_Spec y) (wk_Spec x)"
    and "run_state (api_Get (cl_CreationRequest cl) ns n) w = (r, w') \<Longrightarrow>
      wl w' = wl w \<and> crs w' = crs w \<and> (r = Inr c \<longrightarrow> crs w (ns, n) = Some c)"
    and "run_state (api_Create (cl_CreationRequest cl) c) w = (Inr d, w') \<Longrightarrow>
      wl w' = wl w \<and> crs w' (cr_key c) = Some d"
  using assms unfolding webhook_server_def by (metis, metis, metis, metis, metis)

lemma generateWorkload_key [simp]:
  "wk_key (generateWorkload cl ctx pod ns) = (ns, getWorkloadName (pod_meta pod) (getAppName (pod_meta pod)))"
  by (simp add: wk_key_def generateWorkload_def named_meta_def Let_def)

lemma createWorkload_stores:
  assumes "webhook_server wl crs cl" and "run_state (createWorkload cl x) s = (None, s')"
  shows "\<exists>y. wl (env_World s') (wk_key x) = Some y \<and> same_spec (wk_Spec y) (wk_Spec x)"
proof -
  obtain r w where call: "run_state (api_Create (cl_Workload cl) x) (env_World s) = (r, w)" by fastforce
  with assms(2) obtain y where "r = Inr y" "env_World s' = w"
    by (auto simp: createWorkload_def env_simps Emit_def split: sum.splits)
  with webhook_serverD(2) [OF assms(1)] call show ?thesis by simp
qed

lemma updateWorkload_stores:
  assumes "webhook_server wl crs cl" and "run_state (updateWorkload cl old x) s = (None, s')"
    and "wl (env_World s) (wk_key x) = Some old" and "wk_key old = wk_key x"
  shows "\<exists>y. wl (env_World s') (wk_key x) = Some y \<and> same_spec (wk_Spec y) (wk_Spec x)"
proof (cases "wk_Spec old = wk_Spec x \<and> om_OwnerReferences (wk_meta old) = om_OwnerReferences (wk_meta x)")
  case True
  with assms show ?thesis by (simp add: updateWorkload_def same_spec_def)
next
  case False
  let ?new = "old\<lparr>wk_Spec := wk_Spec x, wk_meta := (wk_meta old)\<lparr>om_OwnerReferences :=
    om_OwnerReferences (wk_meta x)\<rparr>\<rparr>"
  have key: "wk_key ?new = wk_key x" using assms(4) by (simp add: wk_key_def)
  obtain r w where call: "run_state (api_Update (cl_Workload cl) ?new) (env_World s) = (r, w)" by fastforce
  with assms(2) False obtain y where "r = Inr y" "env_World s' = w"
    by (auto simp: updateWorkload_def env_simps Emit_def Let_def split: sum.splits)
  with webhook_serverD(3) [OF assms(1), of ?new] call key show ?thesis by simp
qed

lemma Workload_Handle_stores:
  assumes srv: "webhook_server wl crs cl" and run: "run_state (Workload_Handle cl ctx pod ns) s = (None, s')"
  shows "\<exists>y. wl (env_World s') (ns, getWorkloadName (pod_meta pod) (getAppName (pod_meta pod))) = Some y \<and>
    same_spec (wk_Spec y) (wk_Spec (generateWorkload cl ctx pod ns))"
proof -
  let ?x = "generateWorkload cl ctx pod ns"
  obtain r w where get: "run_state (api_Get (cl_Workload cl) ns (om_Name (wk_meta ?x))) (env_World s) = (r, w)"
    by fastforce
  show ?thesis
  proof (cases r)
    case (Inl e)
    with run get have "run_state (createWorkload cl ?x) (s\<lparr>env_World := w\<rparr>) = (None, s')"
      by (simp add: Workload_Handle_def env_simps Let_def split: if_splits)
    from createWorkload_stores [OF srv this] show ?thesis by simp
  next
    case (Inr old)
    with run get have "run_state (updateWorkload cl old ?x) (s\<lparr>env_World := w\<rparr>) = (None, s')"
      by (simp add: Workload_Handle_def env_simps Let_def)
    moreover have "wl w (wk_key ?x) = Some old" "wk_key old = wk_key ?x"
      using webhook_serverD(1) [OF srv get [unfolded Inr]] by (simp_all add: wk_key_def generateWorkload_def named_meta_def Let_def)
    ultimately show ?thesis using updateWorkload_stores [OF srv, of old ?x "s\<lparr>env_World := w\<rparr>" s'] by simp
  qed
qed

lemma AppCreationRequest_Handle_stores:
  assumes srv: "webhook_server wl crs cl"
    and run: "run_state (AppCreationRequest_Handle cl ctx pod ns) s = ((q, None), s')"
  shows "q = single_service pod \<and> wl (env_World s') = wl (env_World s) \<and>
    crs (env_World s') (ns, getAppName (pod_meta q)) \<noteq> None"
proof -
  obtain c where gen: "generateResource cl ctx pod ns = (single_service pod, c)"
    using generateResource_parts(1) [of cl ctx pod ns] by (metis prod.collapse)
  have key: "om_Name (cr_meta c) = getAppName (pod_meta (single_service pod))"
    "cr_key c = (ns, getAppName (pod_meta (single_service pod)))"
    using generateResource_parts [of cl ctx pod ns] gen by (simp_all add: cr_key_def)
  obtain r w where get: "run_state (api_Get (cl_CreationRequest cl) ns (om_Name (cr_meta c))) (env_World s) = (r, w)"
    by fastforce
  show ?thesis
  proof (cases r)
    case (Inl e)
    obtain r' w' where call: "run_state (api_Create (cl_CreationRequest cl) c) w = (r', w')" by fastforce
    with Inl run get gen obtain y where "q = single_service pod" "env_World s' = w'" "r' = Inr y"
      by (auto simp: AppCreationRequest_Handle_def createResource_def env_simps Let_def Emit_def
          split: if_splits sum.splits)
    with webhook_serverD(4) [OF srv get] webhook_serverD(5) [OF srv, of c w] call key show ?thesis by simp
  next
    case (Inr old)
    with run get gen have "q = single_service pod" "s' = s\<lparr>env_World := w\<rparr>"
      by (auto simp: AppCreationRequest_Handle_def env_simps Let_def)
    with webhook_serverD(4) [OF srv get] Inr key show ?thesis by simp
  qed
qed


section \<open>Statements\<close>

text \<open>
  C12: When the webhook gates a pod, what the gate waits for exists: the workload of the pod is stored
  under its name with the app, version, checks and owner that the annotations of the pod give, and so is
  a creation request for its app.
\<close>

theorem gated_pod_has_workload:
  assumes srv: "webhook_server wl crs cl"
    and run: "run_state (Handle cl ctx ns (Inr pod)) s = (Patched p, s')"
    and gated: "hasKeptnSchedulingGate p" "\<not> hasKeptnSchedulingGate pod"
  shows "(\<exists>w. wl (env_World s') (ns, getWorkloadName (pod_meta p) (getAppName (pod_meta p))) = Some w \<and>
      same_spec (wk_Spec w) (wk_Spec (generateWorkload cl ctx p ns))) \<and>
    crs (env_World s') (ns, getAppName (pod_meta p)) \<noteq> None"
proof -
  obtain r w where "run_state (api_Get (cl_Namespace cl) [] ns) (env_World s) = (r, w)" by fastforce
  moreover obtain q annotated s1 where
    ann: "run_state (IsAnnotated cl ns pod) (s\<lparr>env_World := w\<rparr>) = ((q, annotated), s1)"
    by (metis prod.collapse)
  moreover have "\<not> hasKeptnSchedulingGate q"
    using IsAnnotated_copied [OF ann] gated(2) by (simp add: copied_def hasKeptnSchedulingGate_def)
  ultimately have "run_state (handle_annotated cl ctx ns q) s1 = (Patched p, s')"
    using run gated(1) by (auto simp: Handle_def env_simps split: sum.splits if_splits)
  then obtain s2 where wl: "run_state (Workload_Handle cl ctx (q\<lparr>pod_SchedulingGates := [KeptnGate]\<rparr>) ns) s1 = (None, s2)"
    and cr: "run_state (AppCreationRequest_Handle cl ctx (q\<lparr>pod_SchedulingGates := [KeptnGate]\<rparr>) ns) s2 = ((p, None), s')"
    by (auto simp: handle_annotated_def handleScheduling_def env_simps split: if_splits prod.splits option.splits)
  from Workload_Handle_stores [OF srv wl] AppCreationRequest_Handle_stores [OF srv cr] show ?thesis
    by (auto simp: generateWorkload_single_service single_service_app single_service_lookup getWorkloadName_def)
qed

text \<open>Reading the namespace and the parents of a pod, which is all that annotating it does.\<close>

definition parent_reads :: "('w \<Rightarrow> bool) \<Rightarrow> 'w Client \<Rightarrow> bool" where
  "parent_reads J cl \<longleftrightarrow> reads J (cl_Namespace cl) any \<and> reads J (cl_ReplicaSet cl) any \<and>
     reads J (cl_Deployment cl) any \<and> reads J (cl_Rollout cl) any \<and> reads J (cl_StatefulSet cl) any \<and>
     reads J (cl_DaemonSet cl) any"

lemma maintains_fetchParent: "reads J api any \<Longrightarrow> maintains J (fetchParent api meta ns n) any"
  unfolding fetchParent_def by (intro maintain maintains_bind [where R = any] maintains_api_Get) simp_all

lemma maintains_IsAnnotated:
  assumes "parent_reads J cl"
  shows "maintains J (IsAnnotated cl ns pod) any"
proof -
  have k: "reads J (cl_ReplicaSet cl) any" "reads J (cl_Deployment cl) any" "reads J (cl_Rollout cl) any"
    "reads J (cl_StatefulSet cl) any" "reads J (cl_DaemonSet cl) any"
    using assms by (simp_all add: parent_reads_def)
  show ?thesis
    unfolding IsAnnotated_def copyAnnotationsIfParentAnnotated_def Let_def
    by (intro maintain maintains_bind [where R = any] maintains_api_Get [OF k(1)] maintains_fetchParent k) simp_all
qed

text \<open>
  C14: A pod that the controller of the gates has released is never gated again, and nothing is written
  for it: for the pod it wrote, the webhook only reads, so that it keeps every property of the world
  that reading the namespace and the parents keeps, and a pod it patches still has no gates.
\<close>

theorem released_pod_stays_released:
  assumes "parent_reads J cl" and "J (env_World s)"
    and "run_state (Handle cl ctx ns (Inr (ungated pod))) s = (response, s')"
  shows "J (env_World s') \<and> (\<forall>p. response = Patched p \<longrightarrow> pod_SchedulingGates p = [])"
proof -
  obtain r w where get: "run_state (api_Get (cl_Namespace cl) [] ns) (env_World s) = (r, w)" by fastforce
  obtain q annotated s1 where
    ann: "run_state (IsAnnotated cl ns (ungated pod)) (s\<lparr>env_World := w\<rparr>) = ((q, annotated), s1)"
    by (metis prod.collapse)
  have ns: "reads J (cl_Namespace cl) any" using assms(1) by (simp add: parent_reads_def)
  have J: "J w" using call_keepsD [OF readsD(1) [OF ns] assms(2) get] by simp
  then have J1: "J (env_World s1)"
    using maintainsD [OF maintains_IsAnnotated [OF assms(1)] _ ann] by simp
  have "pod_SchedulingGates q = []" and "handleScheduling q = (q, True)"
    using IsAnnotated_copied [OF ann]
    by (simp_all add: copied_def ungated_def handleScheduling_def GetLabelOrAnnotation_def)
  with get ann J J1 assms(3) show ?thesis
    by (auto simp: Handle_def handle_annotated_def env_simps split: sum.splits if_splits)
qed

text \<open>
  A workload that was stored without metadata is written each time one of its pods is admitted, even when
  nothing has changed: the parsed metadata are an empty map, which never equals the missing one.
\<close>

lemma unchanged_workload_updated:
  assumes "wks_Metadata (wk_Spec workload) = None"
  shows "env_World (snd (run_state (updateWorkload cl workload (generateWorkload cl ctx pod ns)) s)) =
    snd (run_state (api_Update (cl_Workload cl) (workload\<lparr>wk_Spec := wk_Spec (generateWorkload cl ctx pod ns),
      wk_meta := (wk_meta workload)\<lparr>om_OwnerReferences := om_OwnerReferences (wk_meta (generateWorkload cl ctx pod ns))\<rparr>\<rparr>))
      (env_World s))"
proof -
  have "wk_Spec workload \<noteq> wk_Spec (generateWorkload cl ctx pod ns)"
    using assms by (auto simp: generateWorkload_def parseWorkloadMetadata_def Let_def)
  then show ?thesis
    by (simp add: updateWorkload_def env_simps Let_def Emit_def split: sum.splits)
qed

end
