(* ===== verification/Operator.thy ===== *)
theory Operator
  imports Keptn_App App_Creation Keptn_Evaluation Keptn_Task Pod_Mutator
begin

text \<open>
  The controllers and the webhook that write no app version and no workload version: whatever they do, a
  property of the world that does not depend on the kinds of object they write is kept.
\<close>

section \<open>Kinds that a property does not depend on\<close>

definition harmless :: "('w \<Rightarrow> bool) \<Rightarrow> ('w, 'o) api \<Rightarrow> bool" where
  "harmless J k \<longleftrightarrow>
     (\<forall>ns n. call_keeps J (api_Get k ns n) any) \<and> (\<forall>ns f. call_keeps J (api_List k ns f) any) \<and>
     (\<forall>y. call_keeps J (api_Create k y) any) \<and> (\<forall>y. call_keeps J (api_Update k y) any) \<and>
     (\<forall>y. call_keeps J (api_StatusUpdate k y) any) \<and> (\<forall>y. call_keeps J (api_Delete k y) any)"

lemma harmless_calls:
  assumes "harmless J k"
  shows "maintains J (on_world (api_Get k ns n)) any" "maintains J (on_world (api_List k ns f)) any"
    "maintains J (on_world (api_Create k y)) any" "maintains J (on_world (api_Update k y)) any"
    "maintains J (on_world (api_StatusUpdate k y)) any" "maintains J (on_world (api_Delete k y)) any"
  using assms by (auto simp: harmless_def intro!: maintains_on_world)

lemma harmless_getObject: "harmless J k \<Longrightarrow> maintains J (getObject k cfg n ns) any"
  unfolding getObject_def by (intro maintain maintains_bind [where R = any] harmless_calls) simp_all

lemma maintains_case_list:
  "(xs = [] \<Longrightarrow> maintains J m Q) \<Longrightarrow> (\<And>y ys. xs = y # ys \<Longrightarrow> maintains J (f y ys) Q) \<Longrightarrow>
   maintains J (case xs of [] \<Rightarrow> m | y # ys \<Rightarrow> f y ys) Q"
  by (cases xs) simp_all

locale bystander =
  fixes J :: "'w \<Rightarrow> bool" and cl :: "'w Client"
  assumes ambient: "ambient J cl"
    and versions: "reads J (cl_WorkloadVersion cl) any"
    and items: "harmless J (cl_Task cl)" "harmless J (cl_TaskDefinition cl)" "harmless J (cl_Evaluation cl)"
      "harmless J (cl_EvaluationDefinition cl)" "harmless J (cl_Metric cl)" "harmless J (cl_Job cl)"
      "harmless J (cl_ConfigMap cl)"
    and pods: "harmless J (cl_Pod cl)" "harmless J (cl_Namespace cl)" "harmless J (cl_Deployment cl)"
      "harmless J (cl_ReplicaSet cl)" "harmless J (cl_StatefulSet cl)" "harmless J (cl_DaemonSet cl)"
      "harmless J (cl_Rollout cl)"
    and apps: "harmless J (cl_App cl)" "harmless J (cl_Workload cl)" "harmless J (cl_CreationRequest cl)"
begin

lemma maintains_clock: "maintains J (Now cl) any"
  by (rule maintains_Now [OF ambient]) simp

lemma maintains_Intn: "maintains J (on_world (cl_Intn cl n)) any"
  by (rule maintains_on_world [OF ambientD(2) [OF ambient]])

lemmas steps = maintain maintains_bind [where R = any] maintains_clock maintains_Intn harmless_calls
  harmless_getObject items pods apps

lemma maintains_evaluateObjectives:
  "maintains J (evaluateObjectives cl cfg quote objectives e sm ns) any"
proof (induction objectives arbitrary: e sm ns)
  case Nil
  show ?case unfolding evaluateObjectives.simps by (intro steps) simp
next
  case (Cons objective objectives)
  have "maintains J (evaluateObjective cl cfg quote e sm ns objective) any"
    unfolding evaluateObjective_def FetchData_def GetKeptnMetric_def Let_def by (intro steps) simp_all
  with Cons.IH show ?case unfolding evaluateObjectives.simps by (intro steps) simp_all
qed

lemma maintains_Evaluation_Reconcile: "maintains J (Evaluation_Reconcile cl cfg quote req) any"
  unfolding Evaluation_Reconcile_def performEvaluation_def conclude_def handleEvaluationExceededRetries_def
    handleEvaluationIncomplete_def updateFinishedEvaluationMetrics_def GetEvaluationDefinition_def Let_def
  by (intro steps maintains_evaluateObjectives) simp_all

lemma maintains_TaskDefinition_Reconcile: "maintains J (TaskDefinition_Reconcile cl req) any"
proof -
  have cm: "maintains J (reconcileConfigMap cl f cm) any" for f cm
    unfolding reconcileConfigMap_def by (intro steps) simp_all
  show ?thesis
    unfolding TaskDefinition_Reconcile_def getConfigMap_def reconcile_function_definition Let_def
    by (auto intro!: steps cm split: option.splits)
qed

lemma maintains_getParams: "maintains J (getParams cl cfg getenv mergo options funcSpec) any"
  unfolding getParams_def handleParent_def emit_task_warning_def GetTaskDefinition_def Let_def
  by (intro steps) simp_all

lemma maintains_generateJob: "maintains J (generateJob cl cfg getenv mergo task d req) any"
proof -
  have "maintains J (CreateContainer cl cfg getenv mergo options builder) any"
    "maintains J (CreateVolume cl cfg getenv mergo options builder) any" for options builder
    by (cases builder; simp add: Runtime_CreateContainer_def Runtime_CreateVolume_def;
        intro steps maintains_getParams; simp)+
  then show ?thesis
    unfolding generateJob_def Let_def by (intro steps) simp_all
qed

lemma maintains_Task_Reconcile: "maintains J (Task_Reconcile cl cfg getenv mergo req) any"
  unfolding Task_Reconcile_def task_body_def getJob_def createJob_def createFunctionJob_def
    emit_task_warning_def GetTaskDefinition_def Let_def
  by (intro steps maintains_generateJob) simp_all

lemma maintains_versions: "maintains J (on_world (api_List (cl_WorkloadVersion cl) ns f)) any"
  by (rule maintains_on_world, rule call_keeps_conseq, rule readsD(2) [OF versions]) simp

lemma maintains_Gates_Reconcile: "maintains J (Gates_Reconcile cl req) any"
  unfolding Gates_Reconcile_def removeGate_def
  by (intro maintains_versions maintains_case_list steps) simp_all

lemma maintains_CreationRequest_Reconcile: "maintains J (CreationRequest_Reconcile cl cfg req) any"
  unfolding CreationRequest_Reconcile_def create_or_update_def updateKeptnApp_def createKeptnApp_def
    getWorkloads_def shouldCreateApp_def delete_request_def Let_def
  by (intro steps) simp_all

lemma maintains_Workload_Handle: "maintains J (Workload_Handle cl ctx pod ns) any"
  unfolding Workload_Handle_def createWorkload_def updateWorkload_def Let_def
  by (intro steps) simp_all

lemma maintains_AppCreationRequest_Handle: "maintains J (AppCreationRequest_Handle cl ctx pod ns) any"
  unfolding AppCreationRequest_Handle_def createResource_def Let_def
  by (intro steps) simp_all

lemma maintains_Handle: "maintains J (Handle cl ctx ns decoded) any"
proof -
  have "maintains J (IsAnnotated cl ns pod) any" for pod
    unfolding IsAnnotated_def copyAnnotationsIfParentAnnotated_def fetchParent_def Let_def
    by (intro steps) simp_all
  then show ?thesis
    unfolding Handle_def handle_annotated_def Let_def
    by (intro maintains_Workload_Handle maintains_AppCreationRequest_Handle steps) simp_all
qed

end

end
