(* ===== verification/System.thy ===== *)
theory System
  imports Memory_Server Operator
begin

text \<open>
  The operator as a whole: the reconcilers of all its resources and the webhook for pods run in any
  order on one world, and between them anybody else may change it.
\<close>

section \<open>Steps and reachable states\<close>

text \<open>
  A step is one reconciliation, of any request, an answer of the webhook, or a change of the world by
  somebody else (a job that ends, a pod that starts, a user that edits a spec), described by \<open>other\<close>.
  The libraries that the controllers of tasks and evaluations are given are collected in a record.
\<close>

record libraries =
  lib_getenv :: "string \<Rightarrow> string"
  lib_mergo :: Mergo
  lib_quote :: "string \<Rightarrow> string"

inductive keptn_step ::
    "'w Client \<Rightarrow> ControllerConfig \<Rightarrow> libraries \<Rightarrow> bool \<Rightarrow> ('w \<Rightarrow> 'w \<Rightarrow> bool) \<Rightarrow> 'w Env \<Rightarrow> 'w Env \<Rightarrow> bool"
  for cl cfg lib promo other where
  app: "keptn_step cl cfg lib promo other s (snd (run_state (App_Reconcile cl req) s))"
| app_version:
    "keptn_step cl cfg lib promo other s (snd (run_state (AppVersion_Reconcile cl cfg promo req) s))"
| workload: "keptn_step cl cfg lib promo other s (snd (run_state (Workload_Reconcile cl req) s))"
| workload_version:
    "keptn_step cl cfg lib promo other s (snd (run_state (WorkloadVersion_Reconcile cl cfg req) s))"
| creation_request:
    "keptn_step cl cfg lib promo other s (snd (run_state (CreationRequest_Reconcile cl cfg req) s))"
| evaluation:
    "keptn_step cl cfg lib promo other s (snd (run_state (Evaluation_Reconcile cl cfg (lib_quote lib) req) s))"
| task:
    "keptn_step cl cfg lib promo other s
      (snd (run_state (Task_Reconcile cl cfg (lib_getenv lib) (lib_mergo lib) req) s))"
| task_definition: "keptn_step cl cfg lib promo other s (snd (run_state (TaskDefinition_Reconcile cl req) s))"
| gates: "keptn_step cl cfg lib promo other s (snd (run_state (Gates_Reconcile cl req) s))"
| webhook: "keptn_step cl cfg lib promo other s (snd (run_state (Handle cl ctx namespace decoded) s))"
| elsewhere: "other (env_World s) w \<Longrightarrow> keptn_step cl cfg lib promo other s (s\<lparr>env_World := w\<rparr>)"

inductive reachable ::
    "'w Client \<Rightarrow> ControllerConfig \<Rightarrow> libraries \<Rightarrow> bool \<Rightarrow> ('w \<Rightarrow> 'w \<Rightarrow> bool) \<Rightarrow> 'w \<Rightarrow> 'w Env \<Rightarrow> bool"
  for cl cfg lib promo other w0 where
  start: "reachable cl cfg lib promo other w0 (initial_env w0)"
| step: "reachable cl cfg lib promo other w0 s \<Longrightarrow> keptn_step cl cfg lib promo other s s' \<Longrightarrow>
    reachable cl cfg lib promo other w0 s'"

section \<open>The phase order is an invariant of the system\<close>

lemma maintains_run: "maintains J m any \<Longrightarrow> J (env_World s) \<Longrightarrow> J (env_World (snd (run_state m s)))"
  using maintainsD [of J m any s "fst (run_state m s)" "snd (run_state m s)"] by simp

definition keptn_server :: "('w \<Rightarrow> bool) \<Rightarrow> 'w Client \<Rightarrow> bool \<Rightarrow> bool \<Rightarrow> bool" where
  "keptn_server J cl b promo \<longleftrightarrow> app_server J cl b promo \<and> workload_server J cl b \<and> bystander J cl"

lemma keptn_step_keeps:
  assumes srv: "keptn_server J cl (GetBlockDeployment cfg) promo"
    and other: "\<And>w w'. other w w' \<Longrightarrow> J w \<Longrightarrow> J w'"
    and step: "keptn_step cl cfg lib promo other s s'" and J: "J (env_World s)"
  shows "J (env_World s')"
proof -
  have app: "app_server J cl (GetBlockDeployment cfg) promo"
    and wl: "workload_server J cl (GetBlockDeployment cfg)" and bys: "bystander J cl"
    using srv by (simp_all add: keptn_server_def)
  from step J show ?thesis
  proof cases
    case (elsewhere w)
    with other J show ?thesis by simp
  qed (simp_all add: maintains_run maintains_App_Reconcile [OF app]
      maintains_AppVersion_Reconcile [OF app_serverD(1) [OF app] refl]
      maintains_Workload_Reconcile [OF wl]
      maintains_WorkloadVersion_Reconcile [OF workload_serverD(1) [OF wl] refl]
      bystander.maintains_CreationRequest_Reconcile [OF bys] bystander.maintains_Evaluation_Reconcile [OF bys]
      bystander.maintains_Task_Reconcile [OF bys] bystander.maintains_TaskDefinition_Reconcile [OF bys]
      bystander.maintains_Gates_Reconcile [OF bys] bystander.maintains_Handle [OF bys])
qed

lemma reachable_keeps:
  assumes "keptn_server J cl (GetBlockDeployment cfg) promo"
    and "\<And>w w'. other w w' \<Longrightarrow> J w \<Longrightarrow> J w'" and "J w0"
    and "reachable cl cfg lib promo other w0 s"
  shows "J (env_World s)"
  using assms(4)
proof induction
  case start
  then show ?case using assms(3) by (simp add: initial_env_def)
next
  case (step s s')
  show ?case by (rule keptn_step_keeps [OF assms(1) _ step.hyps(2) step.IH]) (rule assms(2))
qed

lemma harmless_mem:
  assumes "\<And>xs w. J w \<Longrightarrow> J (put xs w)"
  shows "harmless J (mem_api get put key sel cr up st)"
  using assms by (auto simp: harmless_def call_keeps_def mem_api_def Let_def split: option.splits)

lemma harmless_no_api: "harmless J no_api"
  unfolding no_api_def by (rule harmless_mem)

lemma mem_harmless_Metric: "harmless J mem_Metric"
proof -
  have "call_keeps J (api_Get mem_Metric ns n) any" for ns n
    by (simp add: mem_Metric_def call_keeps_def)
  moreover have "harmless J (no_api :: (memory, KeptnMetric) api)" by (rule harmless_no_api)
  ultimately show ?thesis
    unfolding harmless_def by (simp add: mem_Metric_def)
qed

interpretation mem: bystander "mem_ok b promo" mem_client
  by unfold_locales
    (rule mem_ambient, rule reads_any [OF mem_reads_versions(2)],
     simp_all add: mem_client_def mem_Task_def mem_Evaluation_def mem_Workload_def harmless_mem
       harmless_no_api mem_harmless_Metric)

lemma mem_keptn_server: "keptn_server (mem_ok b promo) mem_client b promo"
  by (simp add: keptn_server_def mem_app_server mem_workload_server mem.bystander_axioms)

lemma reads_good:
  assumes "reads J k good" and "J w" and "run_state (api_Get k ns n) w = (Inr x, w')"
  shows "good x"
  using readsD(1) [OF assms(1)] assms(2,3) unfolding call_keeps_def by blast

section \<open>Statements\<close>

text \<open>
  C1: The reconciliation of a workload version keeps every stored workload version within the order
  of the phases (\<^const>\<open>wv_inv\<close>): a phase begins only after the one before it has been passed, and the
  workload version has succeeded only after all of them.  It holds for every client that obeys the
  laws \<^const>\<open>wv_server\<close> of the API server under an invariant \<open>J\<close> of the world.
\<close>

theorem workload_phase_order:
  assumes "wv_server J cl (GetBlockDeployment cfg)" and "J (env_World s)"
    and "run_state (WorkloadVersion_Reconcile cl cfg req) s = (outcome, s')"
  shows "J (env_World s') \<and>
    (\<forall>ns n v w'. run_state (api_Get (cl_WorkloadVersion cl) ns n) (env_World s') = (Inr v, w') \<longrightarrow>
       wv_inv (GetBlockDeployment cfg) v)"
proof -
  have J: "J (env_World s')"
    using maintainsD [OF maintains_WorkloadVersion_Reconcile [OF assms(1) refl] assms(2,3)] by simp
  with reads_good [OF wv_serverD(9) [OF assms(1)]] show ?thesis by blast
qed

text \<open>
  C2: The reconciliation of an app version keeps every stored app version within the order of the
  phases (\<^const>\<open>av_inv\<close>), from the pre-deployment tasks over the evaluations, the workloads and the
  post-deployment tasks and evaluations to the promotion, or deprecated as a whole.
\<close>

theorem app_phase_order:
  assumes "av_server J cl (GetBlockDeployment cfg) promo" and "J (env_World s)"
    and "run_state (AppVersion_Reconcile cl cfg promo req) s = (outcome, s')"
  shows "J (env_World s') \<and>
    (\<forall>ns n a w'. run_state (api_Get (cl_AppVersion cl) ns n) (env_World s') = (Inr a, w') \<longrightarrow>
       av_inv (GetBlockDeployment cfg) promo a)"
proof -
  have J: "J (env_World s')"
    using maintainsD [OF maintains_AppVersion_Reconcile [OF assms(1) refl] assms(2,3)] by simp
  with reads_good [OF av_serverD(5) [OF assms(1)]] show ?thesis by blast
qed

text \<open>
  C3: In every state that the operator reaches, with its reconcilers interleaved in any order with
  changes made elsewhere that keep \<open>J\<close>, a workload version that reads as Succeeded has passed its
  tasks, evaluations and deployment, and an app version that reads as Succeeded has passed its tasks and
  evaluations before and after the deployment and has only succeeded workloads.  With promotion tasks
  enabled, its promotion has ended; it may have ended as failed (\<open>failed_promotion_finishes\<close>).
\<close>

theorem reachable_success_is_earned:
  assumes "keptn_server J cl (GetBlockDeployment cfg) promo"
    and "\<And>w w'. other w w' \<Longrightarrow> J w \<Longrightarrow> J w'" and "J w0"
    and "reachable cl cfg lib promo other w0 s"
  shows "(\<forall>ns n v w'. run_state (api_Get (cl_WorkloadVersion cl) ns n) (env_World s) = (Inr v, w') \<and>
      wvst_Status (wv_Status v) = StateSucceeded \<longrightarrow> wv_all_ok (GetBlockDeployment cfg) v) \<and>
    (\<forall>ns n a w'. run_state (api_Get (cl_AppVersion cl) ns n) (env_World s) = (Inr a, w') \<and>
      avst_Status (av_Status a) = StateSucceeded \<longrightarrow> av_all_ok (GetBlockDeployment cfg) a \<and>
        (promo \<longrightarrow> IsCompleted (avst_PromotionStatus (av_Status a))))"
proof (intro conjI allI impI)
  let ?b = "GetBlockDeployment cfg"
  have J: "J (env_World s)" by (rule reachable_keeps [OF assms])
  have wv: "reads J (cl_WorkloadVersion cl) (wv_inv ?b)" and av: "reads J (cl_AppVersion cl) (av_inv ?b promo)"
    using assms(1) by (auto simp: keptn_server_def dest: workload_serverD(1) wv_serverD(9)
        app_serverD(1) av_serverD(5))
  fix ns n v w'
  assume v: "run_state (api_Get (cl_WorkloadVersion cl) ns n) (env_World s) = (Inr v, w') \<and>
    wvst_Status (wv_Status v) = StateSucceeded"
  then have "wv_inv ?b v" using call_keepsD [OF readsD(1) [OF wv] J] by blast
  with v show "wv_all_ok ?b v" by (intro wv_inv_all_ok) (simp_all add: wv_inv_def Let_def)
next
  let ?b = "GetBlockDeployment cfg"
  have J: "J (env_World s)" by (rule reachable_keeps [OF assms])
  have av: "reads J (cl_AppVersion cl) (av_inv ?b promo)"
    using assms(1) by (auto simp: keptn_server_def dest: app_serverD(1) av_serverD(5))
  fix ns n a w'
  assume a: "run_state (api_Get (cl_AppVersion cl) ns n) (env_World s) = (Inr a, w') \<and>
    avst_Status (av_Status a) = StateSucceeded"
  then have "av_inv ?b promo a" using call_keepsD [OF readsD(1) [OF av] J] by blast
  with a have order: "av_order ?b promo a" by (simp add: av_inv_def av_deprecated_def)
  with a have last: "state_ok ?b (avst_PostDeploymentEvaluationStatus (av_Status a))"
    and promo: "promo \<longrightarrow> IsCompleted (avst_PromotionStatus (av_Status a))"
    by (simp_all add: av_order_def Let_def)
  show "av_all_ok ?b a" by (rule av_order_all_ok [OF order last])
  show "IsCompleted (avst_PromotionStatus (av_Status a))" if promo using that promo by simp
qed

text \<open>
  C10: A workload version whose first phase has not begun passes the check of its app only when the
  server lists an app version that is not deprecated, lists this workload in its version, is the newest
  of those, and has passed its pre-deployment tasks and its pre-deployment evaluations: they succeeded
  or, while deployments are not blocked, ended with a warning.  The app versions are those that
  \<open>app_phase_order\<close> keeps in order.  (The code waits for longer than this asks for: it does not let a
  warning pass, \<open>warning_blocks_workload\<close>.)
\<close>

theorem workload_waits_for_app:
  assumes "WorkloadVersion_GetCurrentPhase w = []"
    and "run_state (checkPreEvaluationStatusOfApp cl w) s = ((w', False, err), s')"
    and "reads J (cl_AppVersion cl) (\<lambda>a. av_inv b promo a \<and> om_CreationTimestamp (av_meta a) > 0)"
    and "J (env_World s)"
  shows "\<exists>items u app.
    run_state (api_List (cl_AppVersion cl) (om_Namespace (wv_meta w)) []) (env_World s) = (Inr items, u) \<and>
    app \<in> set items \<and> avst_Status (av_Status app) \<noteq> StateDeprecated \<and> app_matches w app \<and>
    state_ok b (avst_PreDeploymentStatus (av_Status app)) \<and>
    state_ok b (avst_PreDeploymentEvaluationStatus (av_Status app)) \<and>
    (\<forall>other\<in>set items. avst_Status (av_Status other) \<noteq> StateDeprecated \<and> app_matches w other \<longrightarrow>
       om_CreationTimestamp (av_meta other) \<le> om_CreationTimestamp (av_meta app))"
proof -
  obtain r u where list: "run_state (api_List (cl_AppVersion cl) (om_Namespace (wv_meta w)) [])
      (env_World s) = (r, u)" by fastforce
  obtain q s1 where found: "run_state (getAppVersionForWorkloadVersion cl w) s = (q, s1)" by fastforce
  obtain app where q: "q = Inr (Some app)"
    and ok: "avst_PreDeploymentEvaluationStatus (av_Status app) = StateSucceeded"
    using assms(1,2) found
    by (auto simp: checkPreEvaluationStatusOfApp_def env_simps Let_def
        split: sum.splits option.splits if_splits prod.splits)
  obtain items where r: "r = Inr items" and latest: "getLatestAppVersion (RemoveDeprecated items) w = (True, Some app)"
    using found list unfolding q
    by (auto simp: getAppVersionForWorkloadVersion_def env_simps
        split: sum.splits option.splits if_splits prod.splits bool.splits)
  have good: "\<forall>a\<in>set items. av_inv b promo a \<and> om_CreationTimestamp (av_meta a) > 0"
    using call_keepsD [OF readsD(2) [OF assms(3)] assms(4) list] r by simp
  then have "\<forall>a\<in>set (RemoveDeprecated items). om_CreationTimestamp (av_meta a) > 0"
    by (simp add: RemoveDeprecated_def)
  from getLatestAppVersion_ok [OF this, of w] have app:
    "app \<in> set (RemoveDeprecated items)" "app_matches w app"
    "\<forall>other\<in>set (RemoveDeprecated items). app_matches w other \<longrightarrow>
       om_CreationTimestamp (av_meta other) \<le> om_CreationTimestamp (av_meta app)"
    by (auto simp: latest latest_ok_def)
  then have "av_order b promo app"
    using good by (auto simp: RemoveDeprecated_def av_inv_def av_deprecated_def)
  then have "state_ok b (avst_PreDeploymentStatus (av_Status app))"
    using ok by (simp add: av_order_def Let_def begun_def)
  then show ?thesis
    using list r ok app by (auto simp: RemoveDeprecated_def state_ok_def)
qed

text \<open>
  C13: The pods of a workload stay gated until its checks before the deployment have been passed.
  While the server lists workload versions in the order of the phases, as \<open>workload_phase_order\<close> keeps
  them, and none of those of the pod's owner was given up, the pod is released, that is written without
  gates and marked, exactly when one of them has passed its pre-deployment tasks and evaluations and its
  deployment has begun; otherwise nothing is written and the pod is looked at again after ten seconds.
  (A workload version that was given up, because such a check failed, has a deprecated deployment and
  releases the pod as well, \<open>failed_predeployment_releases_pod\<close>.)
\<close>

theorem gated_until_checks_pass:
  assumes "reads J (cl_Pod cl) any" and "reads J (cl_WorkloadVersion cl) (wv_inv b)" and "J (env_World s)"
    and "run_state (api_Get (cl_Pod cl) (req_Namespace req) (req_Name req)) (env_World s) = (Inr pod, w1)"
    and "om_OwnerReferences (pod_meta pod) = owner # owners"
    and "run_state (api_List (cl_WorkloadVersion cl) (om_Namespace (pod_meta pod))
      [(''.spec.resourceReference.uid'', or_UID owner)]) w1 = (Inr items, w2)"
    and "\<forall>v\<in>set items. wv_live v"
  shows "run_state (Gates_Reconcile cl req) s =
    (if \<exists>v\<in>set items. state_ok b (wvst_PreDeploymentStatus (wv_Status v)) \<and>
        state_ok b (wvst_PreDeploymentEvaluationStatus (wv_Status v)) \<and>
        wvst_DeploymentStatus (wv_Status v) \<in> {StateProgressing, StateSucceeded, StateFailed}
     then case run_state (api_Update (cl_Pod cl) (ungated pod)) w2 of
       (r, w3) \<Rightarrow> ((no_requeue, case r of Inl err \<Rightarrow> Some err | Inr _ \<Rightarrow> None), s\<lparr>env_World := w3\<rparr>)
     else ((\<lparr>Requeue = False, RequeueAfter = 10 * second\<rparr>, None), s\<lparr>env_World := w2\<rparr>))"
proof -
  have "J w1" using call_keepsD [OF readsD(1) [OF assms(1)] assms(3,4)] by simp
  then have inv: "\<forall>v\<in>set items. wv_inv b v"
    using call_keepsD [OF readsD(2) [OF assms(2)] _ assms(6)] by simp
  have begun: "deployment_begun v \<longleftrightarrow> state_ok b (wvst_PreDeploymentStatus (wv_Status v)) \<and>
      state_ok b (wvst_PreDeploymentEvaluationStatus (wv_Status v)) \<and>
      wvst_DeploymentStatus (wv_Status v) \<in> {StateProgressing, StateSucceeded, StateFailed}" (is "_ \<longleftrightarrow> ?ok v")
    if v: "v \<in> set items" for v
  proof -
    let ?s = "wv_Status v"
    from inv v have "begun (wvst_PreDeploymentEvaluationStatus ?s) \<longrightarrow> state_ok b (wvst_PreDeploymentStatus ?s)"
      and "begun (wvst_DeploymentStatus ?s) \<longrightarrow> state_ok b (wvst_PreDeploymentEvaluationStatus ?s)"
      unfolding wv_inv_def Let_def by blast+
    moreover have "state_ok b k \<Longrightarrow> begun k" for k by (auto simp: state_ok_def begun_def)
    moreover have "wvst_DeploymentStatus ?s \<notin> {StateDeprecated, StateWarning}"
      using assms(7) v by (simp add: wv_live_def)
    moreover have "deployment_begun v \<longleftrightarrow> wvst_DeploymentStatus ?s \<in>
        {StateProgressing, StateSucceeded, StateFailed, StateDeprecated, StateWarning}"
      by (auto simp: deployment_begun_def IsCompleted_def)
    moreover have "wvst_DeploymentStatus ?s \<in> {StateProgressing, StateSucceeded, StateFailed} \<Longrightarrow>
        begun (wvst_DeploymentStatus ?s)"
      by (auto simp: begun_def)
    ultimately show ?thesis by blast
  qed
  have "run_state (Gates_Reconcile cl req) s =
    (if \<exists>v\<in>set items. deployment_begun v
     then case run_state (api_Update (cl_Pod cl) (ungated pod)) w2 of
       (r, w3) \<Rightarrow> ((no_requeue, case r of Inl err \<Rightarrow> Some err | Inr _ \<Rightarrow> None), s\<lparr>env_World := w3\<rparr>)
     else ((\<lparr>Requeue = False, RequeueAfter = 10 * second\<rparr>, None), s\<lparr>env_World := w2\<rparr>))"
    using assms(4-6)
    by (simp add: Gates_Reconcile_def removeGate_def env_simps split: prod.splits sum.splits)
  then show ?thesis
    by (simp only: bex_cong [OF refl begun])
qed

text \<open>
  A failed or deprecated workload version is never written again: where only such workload
  versions are read, the reconciliation keeps every property of the world that reading keeps, so it
  updates no status and creates no task or evaluation.
\<close>

theorem failed_workload_version_untouched:
  assumes "ambient J cl" and "reads J (cl_WorkloadVersion cl) (wv_dead (GetBlockDeployment cfg))"
    and "J (env_World s)" and "run_state (WorkloadVersion_Reconcile cl cfg req) s = (outcome, s')"
  shows "J (env_World s')"
  using maintainsD [OF maintains_wv_dead [OF assms(1,2)] assms(3,4)] by simp

text \<open>
  A failed or deprecated app version is never written again, unless its promotion is all that
  failed: where only such app versions are read, the reconciliation keeps every property of the world
  that reading keeps.
\<close>

theorem failed_app_version_untouched:
  assumes "ambient J cl" and "reads J (cl_AppVersion cl) (av_dead (GetBlockDeployment cfg))"
    and "J (env_World s)" and "run_state (AppVersion_Reconcile cl cfg promo req) s = (outcome, s')"
  shows "J (env_World s')"
  using maintainsD [OF maintains_av_dead [OF assms(1,2)] assms(3,4)] by simp

end
