(* ===== verification/Examples.thy ===== *)
theory Examples
  imports System
begin

text \<open>
  The controllers on concrete objects and the server in memory: each theorem that has hypotheses is
  applied where they hold.
\<close>

section \<open>Objects\<close>

definition ex_meta :: "string \<Rightarrow> ObjectMeta" where
  "ex_meta name = (named_meta name ''podtato'')\<lparr>om_CreationTimestamp := 7\<rparr>"

definition ex_app :: KeptnApp where
  "ex_app = \<lparr>a_meta = (ex_meta ''shop'')\<lparr>om_Generation := 2\<rparr>,
     a_Spec = \<lparr>as_Version = ''v1'', as_Revision = 1, as_Workloads = [\<lparr>wr_Name = ''front'', wr_Version = ''1''\<rparr>]\<rparr>,
     a_CurrentVersion = ''v1''\<rparr>"

text \<open>An app version whose first evaluations have ended in the state \<open>k\<close>.\<close>

definition ex_av :: "KeptnState \<Rightarrow> KeptnAppVersion" where
  "ex_av k = \<lparr>av_meta = ex_meta ''shop-v1'',
     av_Spec = \<lparr>avs_ContextSpec = zero_KeptnAppContextSpec, avs_AppSpec = a_Spec ex_app,
       avs_AppName = ''shop'', avs_PreviousVersion = [], avs_TraceId = None\<rparr>,
     av_Status = zero_KeptnAppVersionStatus
       \<lparr>avst_PreDeploymentStatus := StateSucceeded, avst_PreDeploymentEvaluationStatus := k,
        avst_Status := StateProgressing\<rparr>\<rparr>"

definition ex_spec :: KeptnWorkloadSpec where
  "ex_spec = \<lparr>wks_AppName = ''shop'', wks_Version = ''1'', wks_PreDeploymentTasks = [''migrate''],
     wks_PostDeploymentTasks = [], wks_PreDeploymentEvaluations = [''ready''],
     wks_PostDeploymentEvaluations = [],
     wks_ResourceReference = \<lparr>rr_UID = ''u'', rr_Kind = ''ReplicaSet'', rr_Name = ''front-rs''\<rparr>,
     wks_Metadata = None\<rparr>"

definition ex_item :: "string \<Rightarrow> KeptnState \<Rightarrow> ItemStatus" where
  "ex_item name k = \<lparr>is_DefinitionName = name, is_Status = k, is_Name = name @ ''-1'',
     is_StartTime = 3, is_EndTime = 4\<rparr>"

definition ex_wv :: KeptnWorkloadVersion where
  "ex_wv = \<lparr>wv_meta = ex_meta ''shop-front-1'',
     wv_Spec = \<lparr>wvs_WorkloadSpec = ex_spec, wvs_WorkloadName = ''shop-front'', wvs_PreviousVersion = [],
       wvs_TraceId = Some (fmap_of_list [(''traceparent'', ''00-1'')])\<rparr>,
     wv_Status = zero_KeptnWorkloadVersionStatus
       \<lparr>wvst_PreDeploymentStatus := StateSucceeded,
        wvst_PreDeploymentTaskStatus := [ex_item ''migrate'' StateSucceeded],
        wvst_PreDeploymentEvaluationTaskStatus := [ex_item ''ready'' StateSucceeded]\<rparr>\<rparr>"

definition ex_workload :: KeptnWorkload where
  "ex_workload = \<lparr>wk_meta = ex_meta ''shop-front'', wk_Spec = ex_spec, wk_CurrentVersion = ''1''\<rparr>"

definition ex_memory :: "KeptnState \<Rightarrow> memory" where
  "ex_memory k = empty_memory\<lparr>m_AppVersions := [ex_av k], m_WorkloadVersions := [ex_wv],
     m_Workloads := [ex_workload],
     m_ReplicaSets := [\<lparr>repl_meta = ex_meta ''front-rs'', repl_Replicas = 2, repl_AvailableReplicas = 2\<rparr>]\<rparr>"

definition ex_env :: "KeptnState \<Rightarrow> memory Env" where
  "ex_env k = initial_env (ex_memory k)"

definition ex_request :: Request where
  "ex_request = \<lparr>req_Name = ''shop-front-1'', req_Namespace = ''podtato''\<rparr>"

definition ex_mergo :: Mergo where
  "ex_mergo = \<lparr>merge_map = (\<lambda>a b. Inr (Some (gm_fmap a ++\<^sub>f gm_fmap b))), merge_params = (\<lambda>a b. Inr a)\<rparr>"

definition ex_libraries :: libraries where
  "ex_libraries = \<lparr>lib_getenv = (\<lambda>_. []), lib_mergo = ex_mergo, lib_quote = id\<rparr>"

lemmas ex_defs = ex_meta_def ex_app_def ex_av_def ex_spec_def ex_item_def ex_wv_def ex_workload_def
  ex_memory_def ex_env_def empty_memory_def initial_env_def named_meta_def zero_ObjectMeta_def
  zero_KeptnAppVersionStatus_def zero_KeptnWorkloadVersionStatus_def

lemmas mem_defs = mem_client_def mem_AppVersion_def mem_WorkloadVersion_def mem_Task_def mem_Evaluation_def
  mem_Workload_def mem_Metric_def mem_api_def no_api_def

lemma ex_memory_ok: "mem_ok True promo (ex_memory StateSucceeded)"
  by (simp add: mem_ok_def av_inv_def av_order_def wv_inv_def ex_defs begun_def state_ok_def Let_def)

lemma Instance_blocks: "GetBlockDeployment Instance = True"
  by (simp add: GetBlockDeployment_def Instance_def)

lemma run_pair: "run_state m s = (fst (run_state m s), snd (run_state m s))"
  by simp

lemma ex_env_world: "env_World (ex_env k) = ex_memory k"
  by (simp add: ex_env_def initial_env_def)

section \<open>The system\<close>

theorem workload_phase_order_witness:
  "mem_ok True False (env_World (snd (run_state
     (WorkloadVersion_Reconcile mem_client Instance ex_request) (ex_env StateSucceeded))))"
  by (rule workload_phase_order [OF _ _ run_pair, THEN conjunct1])
    (simp_all add: Instance_blocks mem_wv_server ex_memory_ok ex_env_world)

theorem app_phase_order_witness:
  "mem_ok True True (env_World (snd (run_state
     (AppVersion_Reconcile mem_client Instance True ex_request) (ex_env StateSucceeded))))"
  by (rule app_phase_order [OF _ _ run_pair, THEN conjunct1])
    (simp_all add: Instance_blocks mem_av_server ex_memory_ok ex_env_world)

theorem reachable_success_is_earned_witness:
  "reachable mem_client Instance ex_libraries True (\<lambda>w w'. False) (ex_memory StateSucceeded)
     (snd (run_state (WorkloadVersion_Reconcile mem_client Instance ex_request) (ex_env StateSucceeded))) \<and>
   \<not> (\<exists>ns n v w'. run_state (api_Get (cl_WorkloadVersion mem_client) ns n) (env_World (snd (run_state
      (WorkloadVersion_Reconcile mem_client Instance ex_request) (ex_env StateSucceeded)))) = (Inr v, w') \<and>
      wvst_Status (wv_Status v) = StateSucceeded \<and> \<not> wv_all_ok True v)"
proof
  let ?s = "snd (run_state (WorkloadVersion_Reconcile mem_client Instance ex_request) (ex_env StateSucceeded))"
  show reach: "reachable mem_client Instance ex_libraries True (\<lambda>w w'. False) (ex_memory StateSucceeded) ?s"
    unfolding ex_env_def by (intro reachable.step [OF reachable.start] keptn_step.workload_version)
  have "keptn_server (mem_ok True True) mem_client (GetBlockDeployment Instance) True"
    by (simp add: Instance_blocks mem_keptn_server)
  from reachable_success_is_earned [OF this _ ex_memory_ok reach]
  show "\<not> (\<exists>ns n v w'. run_state (api_Get (cl_WorkloadVersion mem_client) ns n) (env_World ?s) = (Inr v, w') \<and>
      wvst_Status (wv_Status v) = StateSucceeded \<and> \<not> wv_all_ok True v)"
    by (simp only: Instance_blocks) blast
qed

text \<open>Only failed versions are stored, and nothing is written.\<close>

definition ex_failed_wv :: KeptnWorkloadVersion where
  "ex_failed_wv = ex_wv\<lparr>wv_Status := (wv_Status ex_wv)\<lparr>wvst_Status := StateFailed,
     wvst_CurrentPhase := ShortName PhaseWorkloadPreDeployment\<rparr>\<rparr>"

definition only_failed_wv :: "memory \<Rightarrow> bool" where
  "only_failed_wv m \<longleftrightarrow> m_WorkloadVersions m = [ex_failed_wv] \<and> m_Tasks m = []"

theorem failed_workload_version_untouched_witness:
  "only_failed_wv (env_World (snd (run_state (WorkloadVersion_Reconcile mem_client Instance ex_request)
     (initial_env ((ex_memory StateSucceeded)\<lparr>m_WorkloadVersions := [ex_failed_wv]\<rparr>)))))"
proof (rule failed_workload_version_untouched [OF _ _ _ run_pair])
  show "ambient only_failed_wv mem_client"
    by (simp add: ambient_def call_keeps_def mem_client_def only_failed_wv_def)
  have "wv_dead True ex_failed_wv"
    by (simp add: wv_dead_def wv_all_ok_def ex_failed_wv_def ex_defs phase_defs state_ok_def Let_def)
  then show "reads only_failed_wv (cl_WorkloadVersion mem_client) (wv_dead (GetBlockDeployment Instance))"
    unfolding mem_client_def mem_WorkloadVersion_def Client.select_convs Instance_blocks
    by (intro reads_mem) (simp add: only_failed_wv_def)
  show "only_failed_wv (env_World (initial_env ((ex_memory StateSucceeded)
      \<lparr>m_WorkloadVersions := [ex_failed_wv]\<rparr>)))"
    by (simp add: only_failed_wv_def ex_memory_def empty_memory_def initial_env_def)
qed

definition ex_failed_av :: KeptnAppVersion where
  "ex_failed_av = (ex_av StateFailed)\<lparr>av_Status := (av_Status (ex_av StateFailed))\<lparr>avst_Status := StateFailed\<rparr>\<rparr>"

definition only_failed_av :: "memory \<Rightarrow> bool" where
  "only_failed_av m \<longleftrightarrow> m_AppVersions m = [ex_failed_av] \<and> m_Tasks m = []"

theorem failed_app_version_untouched_witness:
  "only_failed_av (env_World (snd (run_state (AppVersion_Reconcile mem_client Instance True
     \<lparr>req_Name = ''shop-v1'', req_Namespace = ''podtato''\<rparr>)
     (initial_env ((ex_memory StateFailed)\<lparr>m_AppVersions := [ex_failed_av]\<rparr>)))))"
proof (rule failed_app_version_untouched [OF _ _ _ run_pair])
  show "ambient only_failed_av mem_client"
    by (simp add: ambient_def call_keeps_def mem_client_def only_failed_av_def)
  have "av_dead True ex_failed_av"
    by (simp add: av_dead_def ex_failed_av_def ex_defs state_ok_def Let_def)
  then show "reads only_failed_av (cl_AppVersion mem_client) (av_dead (GetBlockDeployment Instance))"
    unfolding mem_client_def mem_AppVersion_def Client.select_convs Instance_blocks
    by (intro reads_mem) (simp add: only_failed_av_def)
  show "only_failed_av (env_World (initial_env ((ex_memory StateFailed)\<lparr>m_AppVersions := [ex_failed_av]\<rparr>)))"
    by (simp add: only_failed_av_def ex_memory_def empty_memory_def initial_env_def)
qed

section \<open>Phases and items\<close>

theorem HandlePhase_refines_witness:
  "maintains (mem_ok True True) (HandlePhase mem_client (AppVersion_Kind mem_client) context_TODO av_tracer
      (ex_av StateSucceeded) PhaseAppPreDeployment (\<lambda>ctx a. ret (a, StateSucceeded, None)))
    (phase_spec AppVersion_PhaseItem PhaseAppPreDeployment (ex_av StateSucceeded)
      (\<lambda>a st e. av_order True True a \<and> st = StateSucceeded \<and> e = None) av_stored)"
proof (rule HandlePhase_refines [where W = "av_inv True True"])
  have order: "av_order True True (ex_av StateSucceeded)"
    by (simp add: av_order_def ex_defs begun_def state_ok_def Let_def)
  show "maintains (mem_ok True True) (ret (x1, StateSucceeded, None))
      (\<lambda>(x2, st, e). av_order True True x2 \<and> st = StateSucceeded \<and> e = None)"
    if "phase_begun AppVersion_PhaseItem AppVersion_SpanItem PhaseAppPreDeployment (ex_av StateSucceeded) x1"
    for x1
    using order av_begun_inv(1) [OF that] by (simp add: maintains_ret)
qed (simp_all add: mem_ambient mem_writes_av phase_writes_def av_inv_def)

theorem failed_app_phase_deprecates_rest_witness:
  "app_phase_states (fst (fst (run_state (handleCompletedPhase mem_client (AppVersion_Kind mem_client)
     StateFailed AppVersion_PhaseItem (app_phases ! 1) (ex_av StateFailed) (Some 0)) (ex_env StateFailed)))) =
   [StateSucceeded, StateFailed, StateDeprecated, StateDeprecated, StateDeprecated, StateDeprecated]"
proof -
  let ?m = "handleCompletedPhase mem_client (AppVersion_Kind mem_client)
     StateFailed AppVersion_PhaseItem (app_phases ! 1) (ex_av StateFailed) (Some 0)"
  obtain a res err s where run: "run_state ?m (ex_env StateFailed) = ((a, res, err), s)"
    by (metis prod.collapse)
  have "app_phase_states a = deprecate_after 1 (app_phase_states (ex_av StateFailed))"
    using failed_app_phase_deprecates_rest [OF _ run] by simp
  with run show ?thesis
    by (simp add: deprecate_after_def app_phase_states_def ex_defs numeral_eq_Suc)
qed

theorem failed_workload_phase_deprecates_rest_witness:
  "workload_phase_states (fst (fst (run_state (handleCompletedPhase mem_client (WorkloadVersion_Kind mem_client)
     StateFailed WorkloadVersion_PhaseItem (workload_phases ! 1) ex_wv (Some 0)) (ex_env StateFailed)))) =
   [StateSucceeded, StateEmpty, StateDeprecated, StateDeprecated, StateDeprecated]"
proof -
  let ?m = "handleCompletedPhase mem_client (WorkloadVersion_Kind mem_client)
     StateFailed WorkloadVersion_PhaseItem (workload_phases ! 1) ex_wv (Some 0)"
  obtain w res err s where run: "run_state ?m (ex_env StateFailed) = ((w, res, err), s)"
    by (metis prod.collapse)
  have "workload_phase_states w = deprecate_after 1 (workload_phase_states ex_wv)"
    using failed_workload_phase_deprecates_rest [OF _ run] by simp
  with run show ?thesis
    by (simp add: deprecate_after_def workload_phase_states_def ex_defs numeral_eq_Suc)
qed

lemma ex_setup:
  "setupTasks PreDeploymentCheckType WorkloadVersion_PhaseItem ex_wv =
     ([''migrate''], [ex_item ''migrate'' StateSucceeded])"
  "setupEvaluations PreDeploymentEvaluationCheckType WorkloadVersion_PhaseItem ex_wv =
     ([''ready''], [ex_item ''ready'' StateSucceeded])"
  by (simp_all add: setupTasks_def setupEvaluations_def WorkloadVersion_PhaseItem_def
      WorkloadVersion_GetPreDeploymentTasks_def WorkloadVersion_GetPreDeploymentTaskStatus_def
      WorkloadVersion_GetPreDeploymentEvaluations_def
      WorkloadVersion_GetPreDeploymentEvaluationTaskStatus_def ex_defs)

lemma ex_tasks_run:
  "run_state (ReconcileTasks mem_client Instance (WorkloadVersion_Kind mem_client) context_TODO wv_tracer
     ex_wv PreDeploymentCheckType) (ex_env StateSucceeded) =
   (Inr ([ex_item ''migrate'' StateSucceeded], UpdateStatusSummary StateSucceeded (new_summary 1)),
    ex_env StateSucceeded)"
  by (simp add: ReconcileTasks_def NewPhaseItemWrapperFromClientObject_def ex_setup reconcileTask_def
      GetOldStatus_def GetItemStatus_def ex_item_def)

lemma ex_evaluations_run:
  "run_state (ReconcileEvaluations mem_client Instance (WorkloadVersion_Kind mem_client) context_TODO
     wv_tracer ex_wv PreDeploymentEvaluationCheckType) (ex_env StateSucceeded) =
   (Inr ([ex_item ''ready'' StateSucceeded], UpdateStatusSummary StateSucceeded (new_summary 1)),
    ex_env StateSucceeded)"
  by (simp add: ReconcileEvaluations_def NewPhaseItemWrapperFromClientObject_def ex_setup
      reconcileEvaluation_def GetOldStatus_def GetItemStatus_def ex_item_def)

text \<open>A workload version whose task is recorded, and the task, which has succeeded.\<close>

definition ex_recorded_wv :: KeptnWorkloadVersion where
  "ex_recorded_wv = ex_wv\<lparr>wv_Status := (wv_Status ex_wv)
     \<lparr>wvst_PreDeploymentTaskStatus := [ex_item ''migrate'' StateProgressing]\<rparr>\<rparr>"

definition ex_recorded_task :: KeptnTask where
  "ex_recorded_task = zero_KeptnTask\<lparr>t_meta := ex_meta ''migrate-1'',
     t_Status := zero_KeptnTaskStatus\<lparr>tst_Status := StateSucceeded\<rparr>\<rparr>"

definition recorded_task_stored :: "memory \<Rightarrow> bool" where
  "recorded_task_stored m \<longleftrightarrow>
     find (\<lambda>t. meta_key (t_meta t) = (''podtato'', ''migrate-1'')) (m_Tasks m) = Some ex_recorded_task"

lemma find_append_Some: "find P xs = Some x \<Longrightarrow> find P (xs @ ys) = Some x"
  by (induction xs) auto

lemma ex_recorded_reads: "item_reads recorded_task_stored mem_client"
  by (simp add: item_reads_def ambient_def call_keeps_def mem_client_def mem_Task_def mem_Evaluation_def
      reads_mem recorded_task_stored_def)

lemma ex_recorded_creates: "item_creates recorded_task_stored mem_client"
  by (simp add: item_creates_def call_keeps_def mem_client_def mem_Task_def mem_Evaluation_def mem_api_def
      recorded_task_stored_def find_append_Some Let_def split: option.splits)

lemma ex_recorded_setup:
  "setupTasks PreDeploymentCheckType WorkloadVersion_PhaseItem ex_recorded_wv =
     ([''migrate''], [ex_item ''migrate'' StateProgressing])"
  by (simp add: setupTasks_def WorkloadVersion_PhaseItem_def WorkloadVersion_GetPreDeploymentTasks_def
      WorkloadVersion_GetPreDeploymentTaskStatus_def ex_recorded_wv_def ex_defs)

lemma ex_recorded_get:
  "call_keeps recorded_task_stored
     (api_Get (cl_Task mem_client) (pi_GetNamespace WorkloadVersion_PhaseItem ex_recorded_wv) n)
     (\<lambda>r. n = ''migrate-1'' \<longrightarrow> r = Inr ex_recorded_task)"
  by (auto simp: call_keeps_def mem_client_def mem_Task_def mem_api_def recorded_task_stored_def
      WorkloadVersion_PhaseItem_def WorkloadVersion_GetNamespace_def ex_recorded_wv_def ex_wv_def ex_meta_def
      named_meta_def split: option.splits)

lemma ex_recorded_create:
  "call_keeps recorded_task_stored (api_Create (cl_Task mem_client) t)
     (\<lambda>r. \<forall>t'. r = Inr t' \<longrightarrow> any (om_Name (t_meta t')))"
  using ex_recorded_creates by (simp add: item_creates_def)

theorem ReconcileTasks_result_witness:
  "\<exists>st summary s. run_state (ReconcileTasks mem_client Instance (WorkloadVersion_Kind mem_client) context_TODO
     wv_tracer ex_recorded_wv PreDeploymentCheckType)
     (initial_env (empty_memory\<lparr>m_Tasks := [ex_recorded_task]\<rparr>)) = (Inr ([st], summary), s) \<and>
   is_Name st = ''migrate-1'' \<and> is_Status st = StateSucceeded \<and> GetOverallState summary = StateSucceeded"
proof -
  let ?s = "initial_env (empty_memory\<lparr>m_Tasks := [ex_recorded_task]\<rparr>)"
  let ?old = "ex_item ''migrate'' StateProgressing"
  have J: "recorded_task_stored (env_World ?s)"
    by (simp add: recorded_task_stored_def initial_env_def ex_recorded_task_def ex_meta_def named_meta_def)
  have "fst (run_state (api_Get (cl_Task mem_client) (pi_GetNamespace WorkloadVersion_PhaseItem ex_recorded_wv)
      ''migrate-1'') (env_World ?s)) = Inr ex_recorded_task"
    using call_keepsD [OF ex_recorded_get J prod.collapse [symmetric]] by simp
  then obtain w where get: "run_state (api_Get (cl_Task mem_client)
      (pi_GetNamespace WorkloadVersion_PhaseItem ex_recorded_wv) ''migrate-1'') (env_World ?s) = (Inr ex_recorded_task, w)"
    by (metis prod.collapse)
  obtain st u where exists: "run_state (handleTaskExists mem_client context_TODO wv_tracer ex_recorded_task ?old)
      (?s\<lparr>env_World := w\<rparr>) = (st, u)" by fastforce
  let ?summary = "UpdateStatusSummary (is_Status st) (new_summary 1)"
  have run: "run_state (ReconcileTasks mem_client Instance (WorkloadVersion_Kind mem_client) context_TODO wv_tracer
      ex_recorded_wv PreDeploymentCheckType) ?s = (Inr ([st], ?summary), u)"
    using get exists
    by (simp add: ReconcileTasks_def NewPhaseItemWrapperFromClientObject_def ex_recorded_setup reconcileTask_def
        GetOldStatus_def GetItemStatus_def ex_item_def env_simps Let_def)
  note result = ReconcileTasks_result [OF WorkloadVersion_Kind_simps(1) ex_recorded_setup ex_recorded_reads
      ex_recorded_creates ex_recorded_get ex_recorded_create J run]
  have "is_DefinitionName st = ''migrate''"
    using result by (auto split: if_splits)
  with result have st: "is_Name st = ''migrate-1'' \<and> is_Status st = StateSucceeded"
    by (simp add: follows_task_def GetItemStatus_def ex_item_def) (auto simp: ex_recorded_task_def)
  moreover have "GetOverallState ?summary = StateSucceeded"
    using result st \<open>is_DefinitionName st = ''migrate''\<close> by auto
  ultimately show ?thesis using run by blast
qed

theorem ReconcileEvaluations_result_witness:
  "GetOverallState (UpdateStatusSummary StateSucceeded (new_summary 1)) = StateSucceeded \<and>
   subseq [''ready''] [''ready'']"
  using ReconcileEvaluations_result [OF WorkloadVersion_Kind_simps(1) ex_setup(2) ex_evaluations_run]
  by (simp add: ex_item_def)

definition no_items :: "memory \<Rightarrow> bool" where
  "no_items m \<longleftrightarrow> m_Tasks m = [] \<and> m_Evaluations m = []"

lemma ex_item_reads: "item_reads no_items mem_client"
  by (simp add: item_reads_def ambient_def call_keeps_def mem_client_def mem_Task_def mem_Evaluation_def
      reads_mem no_items_def)

lemma ex_closed:
  "n \<in> set [''migrate''] \<Longrightarrow> \<not> item_open [ex_item ''migrate'' StateSucceeded] n"
  "n \<in> set [''ready''] \<Longrightarrow> \<not> item_open [ex_item ''ready'' StateSucceeded] n"
  by (simp_all add: item_open_def GetItemStatus_def ex_item_def)

text \<open>One task of the phase is recorded and one is not; every read of a task definition finds it.\<close>

definition ex_half_wv :: KeptnWorkloadVersion where
  "ex_half_wv = ex_recorded_wv\<lparr>wv_Spec := (wv_Spec ex_wv)\<lparr>wvs_WorkloadSpec :=
     ex_spec\<lparr>wks_PreDeploymentTasks := [''migrate'', ''warm-up'']\<rparr>\<rparr>\<rparr>"

definition tasks_created :: "string list \<Rightarrow> memory \<Rightarrow> bool" where
  "tasks_created h m \<longleftrightarrow> map (ts_TaskDefinition \<circ> t_Spec) (m_Tasks m) = h"

lemma ex_task_log: "task_log tasks_created mem_client"
  unfolding task_log_def
proof (intro conjI allI impI)
  show "item_reads (tasks_created h) mem_client" for h
    by (simp add: item_reads_def ambient_def call_keeps_def mem_client_def mem_Task_def mem_Evaluation_def
        reads_mem tasks_created_def)
  show "call_keeps (tasks_created h) (api_Get (cl_TaskDefinition mem_client) ns n)
      (\<lambda>r. \<forall>d. r = Inr d \<longrightarrow> om_Name (td_meta d) = n)" for h ns n
    by (auto simp: call_keeps_def mem_client_def mem_api_def Let_def split: option.splits dest: find_SomeD)
  show "tasks_created (h @ [ts_TaskDefinition (t_Spec t)]) w' \<or> (\<exists>e. r = Inl e) \<and> tasks_created h w'"
    if "tasks_created h w" "run_state (api_Create (cl_Task mem_client) t) w = (r, w')" for h t w r w'
    using that by (auto simp: mem_client_def mem_Task_def mem_api_def tasks_created_def Let_def split: option.splits)
qed

theorem recorded_tasks_not_recreated_witness:
  "\<exists>ds. subseq ds [''warm-up''] \<and> tasks_created ds (env_World (snd (run_state (ReconcileTasks mem_client Instance
     (WorkloadVersion_Kind mem_client) context_TODO wv_tracer ex_half_wv PreDeploymentCheckType)
     (ex_env StateSucceeded))))"
proof -
  let ?statuses = "[ex_item ''migrate'' StateProgressing]"
  have half: "setupTasks PreDeploymentCheckType WorkloadVersion_PhaseItem ex_half_wv =
      ([''migrate'', ''warm-up''], ?statuses)"
    by (simp add: setupTasks_def WorkloadVersion_PhaseItem_def WorkloadVersion_GetPreDeploymentTasks_def
        WorkloadVersion_GetPreDeploymentTaskStatus_def ex_half_wv_def ex_recorded_wv_def ex_defs)
  have "filter (item_open ?statuses) [''migrate'', ''warm-up''] = [''warm-up'']"
    by (simp add: item_open_def GetItemStatus_def ex_item_def)
  with recorded_tasks_not_recreated [OF ex_task_log WorkloadVersion_Kind_simps(1) half _ _ run_pair,
      of "[]" "ex_env StateSucceeded"]
  show ?thesis by (simp add: tasks_created_def ex_env_world ex_memory_def empty_memory_def)
qed

theorem recorded_evaluations_not_recreated_witness:
  "no_items (env_World (snd (run_state (ReconcileEvaluations mem_client Instance
     (WorkloadVersion_Kind mem_client) context_TODO wv_tracer ex_wv PreDeploymentEvaluationCheckType)
     (ex_env StateSucceeded))))"
  by (rule recorded_evaluations_not_recreated [OF ex_item_reads WorkloadVersion_Kind_simps(1) ex_setup(2)
        ex_closed(2) _ run_pair]) (simp_all add: no_items_def ex_env_world ex_defs)

section \<open>Workload versions and app versions\<close>

lemma ex_matches: "app_matches ex_wv (ex_av k)"
  by (simp add: app_matches_def workloadMatchesApp_def GetWorkloadNameOfApp_def ex_defs)

lemma ex_list_av:
  "run_state (api_List (cl_AppVersion mem_client) (om_Namespace (wv_meta ex_wv)) []) (ex_memory k) =
     (Inr [ex_av k], ex_memory k)"
  by (simp add: mem_defs av_key_def ex_defs Let_def)

lemma ex_get_av:
  "run_state (getAppVersionForWorkloadVersion mem_client ex_wv) (ex_env k) = (Inr (Some (ex_av k)), ex_env k)"
proof -
  have "getLatestAppVersion (RemoveDeprecated [ex_av k]) ex_wv = (True, Some (ex_av k))"
    by (simp add: getLatestAppVersion_def RemoveDeprecated_def isNewer_def workloadMatchesApp_def
        GetWorkloadNameOfApp_def ex_defs Let_def)
  then show ?thesis
    by (simp add: getAppVersionForWorkloadVersion_def env_simps ex_env_world ex_list_av ex_av_def ex_app_def)
qed

theorem latest_app_version_witness:
  "latest_ok ex_wv [ex_av StateSucceeded] (getLatestAppVersion [ex_av StateSucceeded] ex_wv)"
  by (rule latest_app_version) (simp add: ex_defs)

definition one_app_version :: "memory \<Rightarrow> bool" where
  "one_app_version m \<longleftrightarrow> m_AppVersions m = [ex_av StateSucceeded]"

lemma ex_app_version_reads:
  "reads one_app_version (cl_AppVersion mem_client)
     (\<lambda>a. av_inv True True a \<and> om_CreationTimestamp (av_meta a) > 0)"
proof -
  have "av_inv True True (ex_av StateSucceeded)"
    using ex_memory_ok [of True] by (simp add: mem_ok_def ex_memory_def)
  then show ?thesis
    unfolding mem_client_def mem_AppVersion_def
    by simp (rule reads_mem, auto simp: one_app_version_def, simp add: ex_defs)
qed

theorem workload_waits_for_app_witness:
  "\<exists>items u app. run_state (api_List (cl_AppVersion mem_client) ''podtato'' []) (ex_memory StateSucceeded) =
     (Inr items, u) \<and> app \<in> set items \<and> app_matches ex_wv app \<and>
     state_ok True (avst_PreDeploymentStatus (av_Status app)) \<and>
     state_ok True (avst_PreDeploymentEvaluationStatus (av_Status app))"
proof -
  have phase: "WorkloadVersion_GetCurrentPhase ex_wv = []"
    by (simp add: WorkloadVersion_GetCurrentPhase_def ex_defs)
  have "wvs_TraceId (wv_Spec ex_wv) = Some (fmupd ''traceparent'' ''00-1'' fmempty)"
    by (simp add: ex_wv_def)
  then have traced: "\<not> gm_empty (wvs_TraceId (wv_Spec ex_wv))"
    by (simp add: gm_empty_def gm_fmap_def)
  have same: "acs_Metadata (avs_ContextSpec (av_Spec (ex_av k))) = wvst_AppContextMetadata (wv_Status ex_wv)"
    "avst_PreDeploymentEvaluationStatus (av_Status (ex_av k)) = k" for k
    by (simp_all add: ex_defs zero_KeptnAppContextSpec_def)
  have run: "run_state (checkPreEvaluationStatusOfApp mem_client ex_wv) (ex_env StateSucceeded) =
      ((ex_wv, False, None), ex_env StateSucceeded)"
    by (simp add: checkPreEvaluationStatusOfApp_def phase ex_get_av setAppContextMetadata_def
        setAppTraceId_def traced same Let_def)
  have "om_Namespace (wv_meta ex_wv) = ''podtato''" by (simp add: ex_defs)
  moreover have "one_app_version (env_World (ex_env StateSucceeded))"
    by (simp add: one_app_version_def ex_env_world ex_memory_def)
  ultimately show ?thesis
    using workload_waits_for_app [OF phase run ex_app_version_reads] by (simp add: ex_env_world) blast
qed

theorem warning_blocks_workload_witness:
  "AppVersion_IsPreDeploymentEvaluationSucceeded (ex_av StateWarning) False \<and>
   run_state (checkPreEvaluationStatusOfApp mem_client ex_wv) (ex_env StateWarning) =
     ((ex_wv, True, None), ex_env StateWarning)"
  by (rule warning_blocks_workload [OF _ ex_get_av])
    (simp_all add: WorkloadVersion_GetCurrentPhase_def ex_defs)

lemma ex_list_wv:
  "run_state (api_List (cl_WorkloadVersion mem_client) (om_Namespace (av_meta (ex_av k)))
     [(''spec.app'', avs_AppName (av_Spec (ex_av k)))]) (env_World (ex_env k)) = (Inr [ex_wv], ex_memory k)"
  by (simp add: mem_defs ex_defs Let_def)

theorem workloads_succeeded_iff_witness:
  "fst (snd (fst (run_state (reconcileWorkloads mem_client (ex_av StateSucceeded)) (ex_env StateSucceeded)))) \<noteq>
   StateSucceeded"
proof -
  obtain a st err s where run: "run_state (reconcileWorkloads mem_client (ex_av StateSucceeded))
      (ex_env StateSucceeded) = ((a, st, err), s)"
    by (metis prod.collapse)
  have "wvst_Status (wv_Status ex_wv) = StateEmpty" "as_Workloads (avs_AppSpec (av_Spec (ex_av k))) \<noteq> []" for k
    by (simp_all add: ex_defs)
  with workloads_succeeded_iff [OF ex_list_wv _ run] run show ?thesis
    by auto
qed

text \<open>An app in its second generation, and the app version of its first.\<close>

definition ex_old_av :: KeptnAppVersion where
  "ex_old_av = (ex_av StateSucceeded)\<lparr>av_meta := ex_meta (revision_name ex_app 1)\<rparr>"

definition ex_app_memory :: memory where
  "ex_app_memory = empty_memory\<lparr>m_Apps := [ex_app], m_AppVersions := [ex_old_av]\<rparr>"

theorem outdated_revisions_deprecated_witness:
  "\<exists>a. mem_find (env_World (snd (run_state (deprecateAppVersions mem_client ex_app)
       (initial_env ex_app_memory)))) (revision_key ex_app 1) = Some a \<and>
     avst_Status (av_Status a) = StateDeprecated"
proof -
  let ?run = "run_state (deprecateAppVersions mem_client ex_app) (initial_env ex_app_memory)"
  have gen: "om_Generation (a_meta ex_app) = 2" by (simp add: ex_app_def)
  have ns: "om_Namespace (a_meta ex_app) = ''podtato''" by (simp add: ex_defs)
  have key: "av_key ex_old_av = (''podtato'', revision_name ex_app 1)"
    "avst_Status (av_Status ex_old_av) = StateProgressing"
    by (simp_all add: av_key_def ex_old_av_def ex_meta_def named_meta_def zero_ObjectMeta_def ex_av_def)
  have "fst ?run = None"
    by (simp add: deprecateAppVersions_def gen deprecate_revision_def env_simps ns mem_defs key
        deprecate_all_state ex_app_memory_def initial_env_def Let_def)
  then have run: "?run = (None, snd ?run)" by (metis prod.collapse)
  have keeps_key: "av_key (x\<lparr>av_Status := st\<rparr>) = av_key x" for x st by (simp add: av_key_def)
  have "mem_find (env_World (snd ?run)) (revision_key ex_app 1) \<noteq> None"
    by (simp add: deprecateAppVersions_def gen deprecate_revision_def env_simps ns mem_defs key mem_find_def
        keeps_key deprecate_all_state ex_app_memory_def initial_env_def empty_memory_def Let_def)
  with outdated_revisions_deprecated [OF mem_serves run, THEN conjunct1, rule_format, of 1]
  show ?thesis by (auto simp: gen)
qed

definition ex_current_av :: KeptnAppVersion where
  "ex_current_av = (ex_av StateSucceeded)\<lparr>av_meta := ex_meta (GetAppVersionName ex_app)\<rparr>"

theorem existing_app_version_not_revisited_witness:
  "run_state (App_Reconcile mem_client \<lparr>req_Name = ''shop'', req_Namespace = ''podtato''\<rparr>)
     (initial_env (empty_memory\<lparr>m_Apps := [ex_app], m_AppVersions := [ex_current_av]\<rparr>)) =
   ((no_requeue, None), initial_env (empty_memory\<lparr>m_Apps := [ex_app], m_AppVersions := [ex_current_av]\<rparr>))"
proof -
  let ?m = "empty_memory\<lparr>m_Apps := [ex_app], m_AppVersions := [ex_current_av]\<rparr>"
  let ?req = "\<lparr>req_Name = ''shop'', req_Namespace = ''podtato''\<rparr>"
  have key: "av_key ex_current_av = (''podtato'', GetAppVersionName ex_app)"
    by (simp add: av_key_def ex_current_av_def ex_meta_def named_meta_def zero_ObjectMeta_def)
  have ns: "om_Namespace (a_meta ex_app) = ''podtato''" "om_Name (a_meta ex_app) = ''shop''"
    by (simp_all add: ex_defs)
  have "run_state (api_Get (cl_App mem_client) (req_Namespace ?req) (req_Name ?req))
      (env_World (initial_env ?m)) = (Inr ex_app, ?m)"
    by (simp add: mem_defs ns initial_env_def Let_def)
  moreover have "run_state (api_Get (cl_AppVersion mem_client) (om_Namespace (a_meta ex_app))
      (GetAppVersionName ex_app)) ?m = (Inr ex_current_av, ?m)"
    by (simp add: mem_defs ns key Let_def)
  ultimately show ?thesis
    by (subst existing_app_version_not_revisited) (simp_all add: initial_env_def)
qed

theorem failed_promotion_finishes_witness:
  "av_phases mem_client Instance True context_TODO (Some 0) ((ex_av StateSucceeded)\<lparr>av_Status :=
      (av_Status (ex_av StateSucceeded))\<lparr>avst_WorkloadOverallStatus := StateSucceeded,
        avst_PostDeploymentStatus := StateSucceeded, avst_PostDeploymentEvaluationStatus := StateSucceeded,
        avst_PromotionStatus := StateFailed\<rparr>\<rparr>) =
   finishKeptnAppVersionReconcile mem_client True ((ex_av StateSucceeded)\<lparr>av_Status :=
      (av_Status (ex_av StateSucceeded))\<lparr>avst_WorkloadOverallStatus := StateSucceeded,
        avst_PostDeploymentStatus := StateSucceeded, avst_PostDeploymentEvaluationStatus := StateSucceeded,
        avst_PromotionStatus := StateFailed\<rparr>\<rparr>) (Some 0)"
  by (rule failed_promotion_finishes)
    (simp_all add: av_all_ok_def ex_av_def zero_KeptnAppVersionStatus_def Let_def)

theorem deployment_state_witness:
  "fst (snd (fst (run_state (reconcileDeployment mem_client Instance ex_wv) (ex_env StateSucceeded)))) =
   StateSucceeded"
proof -
  let ?s = "ex_env StateSucceeded" and ?c = "(ex_memory StateSucceeded)\<lparr>m_Clock := 2\<rparr>"
  let ?run = "run_state (reconcileDeployment mem_client Instance ex_wv) ?s"
  have now: "run_state (cl_Now mem_client) (env_World ?s) = (1, ?c)"
    by (simp add: mem_client_def ex_env_world) (simp add: ex_memory_def empty_memory_def)
  have key: "wv_meta ex_wv = ex_meta ''shop-front-1''" by (simp add: ex_wv_def)
  have running: "run_state (isWorkloadRunning mem_client ex_wv) (?s\<lparr>env_World := ?c\<rparr>) =
      (Inr True, ?s\<lparr>env_World := ?c\<rparr>)"
    by (simp add: isWorkloadRunning_def isReplicaSetRunning_def env_simps mem_defs ex_defs Let_def)
  have late: "\<not> isDeploymentTimedOut Instance 1 ex_wv"
    by (simp add: isDeploymentTimedOut_def IsDeploymentStartTimeSet_def ex_defs)
  have "snd (snd (fst ?run)) = None"
    by (simp add: reconcileDeployment_def Now_def env_simps now running late)
      (simp add: env_simps mem_defs ex_defs IsDeploymentStartTimeSet_def SetDeploymentStartTime_def Let_def)
  then have run: "?run = ((fst (fst ?run), fst (snd (fst ?run)), None), snd ?run)"
    by (metis prod.collapse)
  have "writes (\<lambda>m. True) (api_StatusUpdate (cl_WorkloadVersion mem_client)) any wv_stored"
    unfolding mem_client_def mem_WorkloadVersion_def Client.select_convs
    by (rule writes_mem_status) (simp_all add: wv_stored_def)
  from deployment_state [OF now running run this] late show ?thesis
    by (auto simp: call_keeps_def)
qed

section \<open>Apps and workloads\<close>

lemma ex_prefix: "GetNameWithoutAppPrefix ex_workload = ''front''"
  by (simp add: GetNameWithoutAppPrefix_def go_simps ex_defs)

theorem app_refs_follow_workloads_witness:
  "(\<lambda>r. (wr_Name r, wr_Version r)) `
      set (as_Workloads (a_Spec (fst (cleanupWorkloads [ex_workload]
        (fst (addOrUpdateWorkloads [ex_workload] ex_app)))))) = {(''front'', ''1'')}"
proof -
  have "wks_Version (wk_Spec ex_workload) = ''1''" by (simp add: ex_defs)
  with app_refs_follow_workloads [of ex_app "[ex_workload]"] show ?thesis
    by (simp add: ex_prefix ex_app_def)
qed

definition ex_creation :: KeptnAppCreationRequest where
  "ex_creation = \<lparr>cr_meta = ex_meta ''shop-request'', cr_AppName = ''shop''\<rparr>"

theorem user_app_untouched_witness:
  "m_Apps (env_World (snd (run_state (CreationRequest_Reconcile mem_client Instance
     \<lparr>req_Name = ''shop-request'', req_Namespace = ''podtato''\<rparr>)
     (initial_env (empty_memory\<lparr>m_Apps := [ex_app], m_CreationRequests := [ex_creation]\<rparr>))))) = [ex_app]"
proof -
  let ?m = "empty_memory\<lparr>m_Apps := [ex_app], m_CreationRequests := [ex_creation]\<rparr>"
  let ?req = "\<lparr>req_Name = ''shop-request'', req_Namespace = ''podtato''\<rparr>"
  have cr: "run_state (api_Get (cl_CreationRequest mem_client) (req_Namespace ?req) (req_Name ?req))
      (env_World (initial_env ?m)) = (Inr ex_creation, ?m)"
    by (simp add: mem_defs ex_creation_def ex_meta_def named_meta_def initial_env_def Let_def)
  have app: "run_state (api_Get (cl_App mem_client) (req_Namespace ?req) (cr_AppName ex_creation)) ?m =
      (Inr ex_app, ?m)"
    by (simp add: mem_defs ex_creation_def ex_app_def ex_meta_def named_meta_def Let_def)
  have "\<not> appIsManagedByKeptn ex_app"
    by (simp add: appIsManagedByKeptn_def go_simps ex_defs)
  from user_app_untouched [OF cr app this] show ?thesis
    by (simp add: mem_defs Let_def)
qed

theorem creation_deadline_witness:
  "\<not> fst (run_state (shouldCreateApp mem_client Instance ex_creation) (ex_env StateSucceeded)) \<and>
   getCreationRequestExpirationDuration Instance 1 ex_creation = 30000000006"
proof -
  have now: "run_state (cl_Now mem_client) (env_World (ex_env StateSucceeded)) =
      (1, (ex_memory StateSucceeded)\<lparr>m_Clock := 2\<rparr>)"
    by (simp add: mem_client_def ex_env_world) (simp add: ex_memory_def empty_memory_def)
  have deadline: "30000000007 = om_CreationTimestamp (cr_meta ex_creation) + GetCreationRequestTimeout Instance"
    by (simp add: ex_creation_def ex_meta_def GetCreationRequestTimeout_def Instance_def
        defaultKeptnAppCreationRequestTimeout_def second_def)
  have "\<not> IsSingleService ex_creation"
    by (simp add: IsSingleService_def go_simps ex_creation_def ex_meta_def named_meta_def zero_ObjectMeta_def)
  with creation_deadline [OF now deadline] show ?thesis by (simp add: max_duration_def)
qed

definition wv_find :: "memory \<Rightarrow> string \<times> string \<Rightarrow> KeptnWorkloadVersion option" where
  "wv_find m = (\<lambda>k. find (\<lambda>v. wv_key v = k) (m_WorkloadVersions m))"

lemma wv_serves: "serves wv_find wv_key (cl_WorkloadVersion mem_client) wv_stored"
proof -
  have key: "wv_key (x\<lparr>wv_Status := s\<rparr>) = wv_key x" for x s by (simp add: wv_key_def)
  have upd: "(\<lambda>k. find (\<lambda>a. wv_key a = k) (map (\<lambda>z. if wv_key z = wv_key y
      then x\<lparr>wv_Status := st\<rparr> else z) xs)) = (\<lambda>k. find (\<lambda>a. wv_key a = k) xs)
      (wv_key y \<mapsto> x\<lparr>wv_Status := st\<rparr>)"
    if "find (\<lambda>a. wv_key a = wv_key y) xs = Some x" for xs x y st
  proof -
    have "wv_key (x\<lparr>wv_Status := st\<rparr>) = wv_key y" "\<exists>z\<in>set xs. wv_key z = wv_key y"
      using find_SomeD [OF that] by (auto simp: key)
    then show ?thesis
      by (simp add: fun_eq_iff find_map_replace)
  qed
  show ?thesis
    unfolding serves_def
    by (auto simp: mem_client_def mem_WorkloadVersion_def mem_api_def Let_def wv_find_def wv_stored_def key
        upd wv_key_def [symmetric] split: option.splits dest: find_SomeD)
qed

lemma find_append_None: "find P xs = None \<Longrightarrow> find P (xs @ ys) = find P ys"
  by (induction xs) (auto split: if_splits)

lemma wv_stores_specs: "stores_specs wv_find mem_client"
proof -
  have key: "wv_key (x\<lparr>wv_Status := s\<rparr>) = wv_key x" for x s by (simp add: wv_key_def)
  have "\<exists>v. wv_find w' (wv_key y) = Some v \<and> wv_Spec v = wv_Spec y"
    if "run_state (api_Create (cl_WorkloadVersion mem_client) y) w = (Inr z, w')" for y w z w'
    using that
    by (auto simp: mem_client_def mem_WorkloadVersion_def mem_api_def Let_def wv_find_def key
        wv_key_def [symmetric] find_append_None split: option.splits)
  moreover have "\<exists>v. wv_find w' (wv_key y) = Some v \<and> wv_Spec v = wv_Spec y"
    if "run_state (api_Update (cl_WorkloadVersion mem_client) y) w = (Inr z, w')" for y w z w'
    using that
    by (auto simp: mem_client_def mem_WorkloadVersion_def mem_api_def Let_def wv_find_def key
        wv_key_def [symmetric] find_map_replace split: option.splits dest!: find_SomeD)
  ultimately show ?thesis
    unfolding stores_specs_def
    by (auto simp: mem_client_def mem_Workload_def mem_api_def Let_def wv_find_def split: option.splits)
qed

theorem workload_version_in_sync_witness:
  "\<exists>v. wv_find (env_World (snd (run_state (Workload_Reconcile mem_client
      \<lparr>req_Name = ''shop-front'', req_Namespace = ''podtato''\<rparr>)
      (initial_env (empty_memory\<lparr>m_Workloads := [ex_workload]\<rparr>)))))
      (''podtato'', workload_version_name ex_workload) = Some v \<and>
    wvs_WorkloadSpec (wv_Spec v) = ex_spec"
proof -
  let ?req = "\<lparr>req_Name = ''shop-front'', req_Namespace = ''podtato''\<rparr>"
  let ?m = "empty_memory\<lparr>m_Workloads := [ex_workload]\<rparr>"
  let ?run = "run_state (Workload_Reconcile mem_client ?req) (initial_env ?m)"
  have k: "om_Namespace (wk_meta ex_workload) = ''podtato''" "om_Name (wk_meta ex_workload) = ''shop-front''"
    by (simp_all add: ex_defs)
  have get: "run_state (api_Get (cl_Workload mem_client) (req_Namespace ?req) (req_Name ?req))
      (env_World (initial_env ?m)) = (Inr ex_workload, ?m)"
    by (simp add: mem_defs k initial_env_def Let_def)
  obtain v where v: "createWorkloadVersion mem_client context_TODO ex_workload = Inr v"
    by (simp add: createWorkloadVersion_def generateWorkloadVersion_def mem_defs Let_def)
  have "snd (fst ?run) = None"
    by (simp add: Workload_Reconcile_def env_simps mem_defs k initial_env_def empty_memory_def Let_def
        createWorkloadVersion_def generateWorkloadVersion_def split: sum.splits)
  then have "?run = ((fst (fst ?run), None), snd ?run)" by (metis prod.collapse)
  from workload_version_in_sync [OF get this wv_serves wv_stores_specs]
  show ?thesis by (simp add: k) (simp add: ex_workload_def)
qed

end
