(* ===== verification/Examples_Checks.thy ===== *)
theory Examples_Checks
  imports Examples
begin

text \<open>
  Evaluations, tasks, task definitions, gates and the webhook on concrete objects and the server in memory.
\<close>

section \<open>Evaluations\<close>

definition ex_objective :: "string \<Rightarrow> Objective" where
  "ex_objective target = \<lparr>ob_KeptnMetricRef = \<lparr>mr_Name = ''slo'', mr_Namespace = ''podtato''\<rparr>,
     ob_EvaluationTarget = target\<rparr>"

definition ex_evaluation_definition :: "string list \<Rightarrow> KeptnEvaluationDefinition" where
  "ex_evaluation_definition targets = \<lparr>ed_meta = ex_meta ''ready'',
     ed_Spec = \<lparr>eds_Objectives = map ex_objective targets,
       eds_FailureConditions = \<lparr>fc_Retries = 2, fc_RetryInterval = 5\<rparr>\<rparr>\<rparr>"

definition ex_evaluation :: "KeptnState \<Rightarrow> int \<Rightarrow> KeptnEvaluation" where
  "ex_evaluation k n = \<lparr>e_meta = ex_meta ''check'',
     e_Spec = zero_KeptnEvaluationSpec\<lparr>es_EvaluationDefinition := ''ready'',
       es_FailureConditions := \<lparr>fc_Retries = 2, fc_RetryInterval = 5\<rparr>\<rparr>,
     e_Status = zero_KeptnEvaluationStatus\<lparr>est_OverallStatus := k, est_RetryCount := n\<rparr>\<rparr>"

definition ex_checks :: "KeptnState \<Rightarrow> int \<Rightarrow> memory Env" where
  "ex_checks k n = initial_env (empty_memory\<lparr>m_Evaluations := [ex_evaluation k n],
     m_EvaluationDefinitions := [ex_evaluation_definition [''>10'']],
     m_Metrics := [((''podtato'', ''slo''), \<lparr>km_Value = Some ''12'', km_RawValue = Some ''12''\<rparr>)]\<rparr>)"

lemmas check_defs = ex_objective_def ex_evaluation_definition_def ex_evaluation_def ex_checks_def ex_defs
  zero_KeptnEvaluationSpec_def zero_KeptnEvaluationStatus_def

definition check_request :: Request where
  "check_request = \<lparr>req_Name = ''check'', req_Namespace = ''podtato''\<rparr>"

text \<open>The evaluation of the request, while its definition is there.\<close>

definition stored_evaluation :: "memory \<Rightarrow> KeptnEvaluation option" where
  "stored_evaluation w =
     (case find (\<lambda>e. meta_key (e_meta e) = (''podtato'', ''check'')) (m_Evaluations w) of
        None \<Rightarrow> None
      | Some e \<Rightarrow>
          if find (\<lambda>d. meta_key (ed_meta d) = (''podtato'', es_EvaluationDefinition (e_Spec e)))
            (m_EvaluationDefinitions w) = None
          then None else Some e)"

lemma stored_evaluationD:
  assumes "stored_evaluation w = Some e"
  shows "find (\<lambda>e. meta_key (e_meta e) = (''podtato'', ''check'')) (m_Evaluations w) = Some e"
    and "\<exists>d. find (\<lambda>d. meta_key (ed_meta d) = (''podtato'', es_EvaluationDefinition (e_Spec e)))
      (m_EvaluationDefinitions w) = Some d"
    and "meta_key (e_meta e) = (''podtato'', ''check'')"
  using assms by (auto simp: stored_evaluation_def split: option.splits if_splits dest: find_SomeD)

lemma mem_evaluation_server: "evaluation_server stored_evaluation mem_client check_request"
proof -
  have upd: "\<exists>z w'. run_state (api_StatusUpdate (cl_Evaluation mem_client) y) w = (Inr z, w') \<and>
      stored_evaluation w' = Some z \<and> z = e\<lparr>e_Status := (e_Status y)
        \<lparr>est_OverallStatus := default_state (est_OverallStatus (e_Status y))\<rparr>\<rparr>"
    if e: "stored_evaluation w = Some e" and y: "evaluation_key y = evaluation_key e" for w e y
  proof -
    let ?z = "e\<lparr>e_Status := (e_Status y)\<lparr>est_OverallStatus := default_state (est_OverallStatus (e_Status y))\<rparr>\<rparr>"
    note E = stored_evaluationD [OF e]
    have key: "meta_key (e_meta y) = (''podtato'', ''check'')" using y E(3) by (simp add: evaluation_key_def)
    have "\<exists>w'. run_state (api_StatusUpdate (cl_Evaluation mem_client) y) w = (Inr ?z, w') \<and>
        find (\<lambda>x. meta_key (e_meta x) = meta_key (e_meta y)) (m_Evaluations w') = Some ?z \<and>
        w' = m_Evaluations_update (\<lambda>_. m_Evaluations w') w"
      unfolding mem_client_def mem_Evaluation_def Client.select_convs
      by (rule mem_status_updated) (use E(1,3) key in simp_all)
    then obtain w' where w': "run_state (api_StatusUpdate (cl_Evaluation mem_client) y) w = (Inr ?z, w')"
        "find (\<lambda>x. meta_key (e_meta x) = (''podtato'', ''check'')) (m_Evaluations w') = Some ?z"
        "w' = m_Evaluations_update (\<lambda>_. m_Evaluations w') w"
      unfolding key by blast
    have "m_EvaluationDefinitions w' = m_EvaluationDefinitions w" by (subst w'(3)) simp
    then have "stored_evaluation w' = Some ?z" using w'(2) E(2) by (auto simp: stored_evaluation_def)
    with w'(1) show ?thesis by blast
  qed
  have get: "run_state (api_Get (cl_Evaluation mem_client) ''podtato'' ''check'') w = (Inr e, w)"
    "\<exists>d. run_state (api_Get (cl_EvaluationDefinition mem_client) ''podtato'' (es_EvaluationDefinition (e_Spec e))) w =
      (Inr d, w)" if "stored_evaluation w = Some e" for w e
    using stored_evaluationD [OF that]
    by (auto simp: mem_client_def mem_Evaluation_def mem_api_def Let_def split: option.splits)
  have other: "snd (run_state (api_Get (cl_Metric mem_client) ns n) w) = w" for ns n w
    by (simp add: mem_client_def mem_Metric_def)
  have clock: "stored_evaluation (snd (run_state (cl_Now mem_client) w)) = stored_evaluation w" for w
    by (simp add: mem_client_def stored_evaluation_def split: option.split)
  show ?thesis
    unfolding evaluation_server_def check_request_def Request.select_convs
  proof (intro conjI allI impI)
    fix w e
    assume e: "stored_evaluation w = Some e"
    show "evaluation_key e = (''podtato'', ''check'')"
      using stored_evaluationD(3) [OF e] by (simp add: evaluation_key_def)
    show "\<exists>w'. run_state (api_Get (cl_Evaluation mem_client) ''podtato'' ''check'') w = (Inr e, w') \<and>
      stored_evaluation w' = stored_evaluation w"
      using get(1) [OF e] by auto
    show "\<exists>d w'. run_state (api_Get (cl_EvaluationDefinition mem_client) ''podtato''
        (es_EvaluationDefinition (e_Spec e))) w = (Inr d, w') \<and> stored_evaluation w' = stored_evaluation w"
      using get(2) [OF e] by auto
    fix y
    assume "evaluation_key y = evaluation_key e"
    from upd [OF e this] show "\<exists>z w'. run_state (api_StatusUpdate (cl_Evaluation mem_client) y) w = (Inr z, w') \<and>
        stored_evaluation w' = Some z \<and> e_Spec z = e_Spec e \<and>
        est_RetryCount (e_Status z) = est_RetryCount (e_Status y) \<and>
        est_OverallStatus (e_Status z) = (if est_OverallStatus (e_Status y) = StateEmpty then StatePending
          else est_OverallStatus (e_Status y))"
      by (auto simp: default_state_def)
  qed (simp_all add: other clock)
qed

lemma stored_ex_evaluation: "stored_evaluation (env_World (ex_checks k n)) = Some (ex_evaluation k n)"
  by (simp add: stored_evaluation_def check_defs)

theorem evaluation_completes_witness:
  "\<exists>e1 e2. stored_evaluation (env_World (rounds 3 (Evaluation_Reconcile mem_client Instance id check_request)
     (ex_checks StatePending 0))) = Some e1 \<and>
   (est_OverallStatus (e_Status e1) = StateSucceeded \<or> est_OverallStatus (e_Status e1) = StateFailed) \<and>
   stored_evaluation (env_World (rounds (3 + Suc 4) (Evaluation_Reconcile mem_client Instance id check_request)
     (ex_checks StatePending 0))) = Some e2 \<and> est_OverallStatus (e_Status e2) = later_status e1"
  by (rule evaluation_completes [OF mem_evaluation_server stored_ex_evaluation, of StatePending 0 2])
    (simp_all add: retries_left_def check_defs)

theorem last_retry_success_fails_witness:
  "\<exists>e'. stored_evaluation (env_World (snd (run_state (Evaluation_Reconcile mem_client Instance id check_request)
     (ex_checks StateSucceeded 2)))) = Some e' \<and> est_OverallStatus (e_Status e') = StateFailed"
  by (rule last_retry_success_fails [OF mem_evaluation_server stored_ex_evaluation])
    (simp_all add: retries_left_def check_defs)

text \<open>The number of the metric, compared with two targets.\<close>

lemma ex_numerals:
  "readFloat ''10'' = Some 10" "readFloat ''12'' = Some 12" "readFloat ''20'' = Some 20"
  "special ''10'' = None" "special ''12'' = None" "special ''20'' = None"
  "expo 10 = 3" "expo 12 = 3" "expo 20 = 4"
  by code_simp+

lemma ex_floats: "float_of_rat 10 = Finite 10" "float_of_rat 12 = Finite 12" "float_of_rat 20 = Finite 20"
  by (simp_all add: float_of_rat_def round_rat_def round_pos_def ulp_def pow2_def round_half_even_def
      ex_numerals Let_def)

lemma ex_checkValue:
  "checkValue id (ex_objective ''>10'') \<lparr>esi_Value = ''12'', esi_Status = k, esi_Message = m\<rparr> = (True, None)"
  "checkValue id (ex_objective ''>20'') \<lparr>esi_Value = ''12'', esi_Status = k, esi_Message = m\<rparr> = (False, None)"
  by (simp_all add: checkValue_def ParseFloat_def ex_objective_def ex_numerals ex_floats)

lemma ex_FetchData:
  "run_state (FetchData mem_client Instance (ex_objective target) ns) (ex_checks k n) =
     (Inr (''12'', ''12''), ex_checks k n)"
  by (simp add: FetchData_def GetKeptnMetric_def env_simps mem_defs check_defs)

theorem evaluation_success_is_earned_witness:
  "let e = fst (run_state (performEvaluation mem_client Instance id (ex_evaluation StatePending 0)
     (ex_evaluation_definition [''>10''])) (ex_checks StatePending 0))
   in recorded_met id [ex_objective ''>10''] e \<and> est_OverallStatus (e_Status e) = StateSucceeded \<and>
     (\<exists>item. fmlookup (recorded_items e) (metric_name (ex_objective ''>10'')) = Some item \<and>
        exactly_meets (esi_Value item) ''>10'')"
proof -
  let ?d = "ex_evaluation_definition [''>10'']"
  let ?run = "run_state (performEvaluation mem_client Instance id (ex_evaluation StatePending 0) ?d)
    (ex_checks StatePending 0)"
  have d: "eds_Objectives (ed_Spec ?d) = [ex_objective ''>10'']" by (simp add: ex_evaluation_definition_def)
  have "recorded_met id (eds_Objectives (ed_Spec ?d)) (ex_evaluation StatePending 0)"
    by (simp add: recorded_met_def recorded_items_def check_defs gm_fmap_def)
  from evaluation_success_is_earned [where cl = mem_client and cfg = Instance and s = "ex_checks StatePending 0",
      OF this run_pair]
  have earned: "recorded_met id [ex_objective ''>10''] (fst ?run)"
    "est_OverallStatus (e_Status (fst ?run)) = StateSucceeded \<longrightarrow>
     (\<exists>item. fmlookup (recorded_items (fst ?run)) (metric_name (ex_objective ''>10'')) = Some item \<and>
        exactly_meets (esi_Value item) ''>10'')"
    by (auto simp: d ex_objective_def)
  moreover have "est_OverallStatus (e_Status (fst ?run)) = StateSucceeded"
    by (simp add: performEvaluation_def d evaluateObjective_def ex_FetchData ex_checkValue Let_def) (simp add: check_defs
      AddEvaluationStatus_def updateStatusSummary_def gm_fmap_def gm_lookup_def IsSucceeded_def new_summary_def GetOverallState_def GetTotalCount_def)
  ultimately show ?thesis by (simp add: Let_def)
qed

theorem shared_metric_hides_failure_witness:
  "\<exists>e1 e2. run_state (performEvaluation mem_client Instance id (ex_evaluation StatePending 0)
      (ex_evaluation_definition [''>20'', ''>10''])) (ex_checks StatePending 0) = (e1, ex_checks StatePending 0) \<and>
    est_OverallStatus (e_Status e1) = StateProgressing \<and>
    run_state (performEvaluation mem_client Instance id e1 (ex_evaluation_definition [''>20'', ''>10'']))
      (ex_checks StatePending 0) = (e2, ex_checks StatePending 0) \<and>
    est_OverallStatus (e_Status e2) = StateSucceeded"
  by (rule shared_metric_hides_failure [where ?o1.0 = "ex_objective ''>20''" and ?o2.0 = "ex_objective ''>10''"
        and v = "''12''" and raw = "''12''"])
    (simp_all add: ex_checkValue ex_FetchData,
     simp_all add: recorded_items_def check_defs gm_fmap_def)

section \<open>Task definitions\<close>

definition ex_runtime :: RuntimeSpec where
  "ex_runtime = \<lparr>rs_FunctionReference = [], rs_Inline = ''console.log(1)'', rs_HttpReference = [],
     rs_ConfigMapReference = [], rs_Parameters = None, rs_SecureParameters = [], rs_CmdParameters = []\<rparr>"

definition ex_task_definition :: "string \<Rightarrow> RuntimeSpec option \<Rightarrow> KeptnTaskDefinition" where
  "ex_task_definition name spec = \<lparr>td_meta = ex_meta name,
     td_Spec = zero_KeptnTaskDefinitionSpec\<lparr>tds_Deno := spec\<rparr>, td_ConfigMap = []\<rparr>"

definition stored_config_map :: "memory \<Rightarrow> string \<times> string \<Rightarrow> ConfigMap option" where
  "stored_config_map w k = find (\<lambda>c. meta_key (cm_meta c) = k) (m_ConfigMaps w)"

lemma mem_stores_config_maps: "stores_config_maps stored_config_map mem_client"
proof -
  have create: "stored_config_map w' (meta_key (cm_meta y)) = Some y"
    if "run_state (api_Create (cl_ConfigMap mem_client) y) w = (Inr z, w')" for y z w w'
    using mem_created [OF that [unfolded mem_client_def Client.select_convs]] by (simp add: stored_config_map_def)
  have update: "stored_config_map w' (meta_key (cm_meta y)) = Some y"
    if "run_state (api_Update (cl_ConfigMap mem_client) y) w = (Inr z, w')" for y z w w'
    using mem_updated [OF that [unfolded mem_client_def Client.select_convs]] by (auto simp: stored_config_map_def)
  have get: "w' = w \<and> (\<forall>c. r = Inr c \<longrightarrow> stored_config_map w (ns, n) = Some c)"
    if "run_state (api_Get (cl_ConfigMap mem_client) ns n) w = (r, w')" for ns n w r w'
    using that by (auto simp: mem_client_def mem_api_def stored_config_map_def split: option.splits)
  have status: "stored_config_map (snd (run_state (api_StatusUpdate (cl_TaskDefinition mem_client) y) w)) =
      stored_config_map w" for y w
    by (rule ext) (simp add: mem_client_def mem_api_def Let_def stored_config_map_def split: option.split)
  show ?thesis
    unfolding stores_config_maps_def
    by (intro conjI allI impI status) (use get create update in \<open>blast+\<close>)
qed

definition ex_definitions :: "KeptnTaskDefinition list \<Rightarrow> memory Env" where
  "ex_definitions ds = initial_env (empty_memory\<lparr>m_TaskDefinitions := ds\<rparr>)"

definition fn_request :: Request where
  "fn_request = \<lparr>req_Name = ''fn'', req_Namespace = ''podtato''\<rparr>"

lemmas definition_defs = ex_task_definition_def ex_runtime_def ex_definitions_def fn_request_def
  zero_KeptnTaskDefinitionSpec_def ex_defs

theorem inline_code_stored_witness:
  "\<exists>c. stored_config_map (env_World (snd (run_state (TaskDefinition_Reconcile mem_client fn_request)
      (ex_definitions [ex_task_definition ''fn'' (Some ex_runtime)])))) (''podtato'', ''keptnfn-fn'') = Some c \<and>
    cm_Data c = Some (fmap_of_list [(''code'', ''console.log(1)'')])"
proof -
  let ?d = "ex_task_definition ''fn'' (Some ex_runtime)"
  let ?s = "ex_definitions [?d]"
  have get: "run_state (api_Get (cl_TaskDefinition mem_client) (req_Namespace fn_request) (req_Name fn_request))
      (env_World ?s) = (Inr ?d, env_World ?s)"
    by (simp add: mem_client_def mem_api_def definition_defs)
  have spec: "GetRuntimeSpec ?d = Some ex_runtime" "tds_Container (td_Spec ?d) = None"
    by (simp_all add: GetRuntimeSpec_def IsRuntimeEmpty_def zero_RuntimeSpec_def definition_defs)
  have cm: "run_state (api_Get (cl_ConfigMap mem_client) (req_Namespace fn_request)
      (GetCmName (om_Name (td_meta ?d)) ex_runtime)) (env_World ?s) = (Inl (ApiNotFound ''not found''), env_World ?s)"
    by (simp add: mem_client_def mem_api_def definition_defs)
  have quiet: "env_Events (snd (run_state (TaskDefinition_Reconcile mem_client fn_request) ?s)) = env_Events ?s"
    using get spec cm
    by (simp add: TaskDefinition_Reconcile_def getConfigMap_def env_simps reconcile_function_definition Let_def)
      (simp add: IsInline_def reconcileConfigMap_def env_simps mem_client_def mem_api_def Let_def definition_defs
        GetCmName_def generateConfigMap_def)
  have name: "GetCmName (om_Name (td_meta ?d)) ex_runtime = ''keptnfn-fn''"
    by (simp add: GetCmName_def IsInline_def TruncateString_def definition_defs)
  show ?thesis
    using inline_code_stored [OF mem_stores_config_maps get _ spec(2,1) _ cm _ run_pair quiet]
    by (simp add: name) (simp add: definition_defs)
qed

section \<open>Tasks\<close>

definition ex_task :: "KeptnState \<Rightarrow> string \<Rightarrow> KeptnTask" where
  "ex_task k job = \<lparr>t_meta = ex_meta ''task'',
     t_Spec = \<lparr>ts_TaskDefinition = ''fn'', ts_Context = zero_TaskContext, ts_Parameters = None,
       ts_SecureParameters = [], ts_Type = [], ts_Retries = Some 3, ts_Timeout = 60000000000\<rparr>,
     t_Status = zero_KeptnTaskStatus\<lparr>tst_Status := k, tst_JobName := job\<rparr>\<rparr>"

definition ex_container :: Container where
  "ex_container = \<lparr>c_Name = ''run'', c_Image = ''app:1.0'', c_ImagePullPolicy = [], c_Command = [], c_Args = [],
     c_Env = [], c_VolumeMounts = [], c_Limits = None\<rparr>"

definition container_definition :: "string \<Rightarrow> KeptnTaskDefinition" where
  "container_definition name = \<lparr>td_meta = ex_meta name,
     td_Spec = zero_KeptnTaskDefinitionSpec\<lparr>tds_Container := Some \<lparr>cs_Container = Some ex_container\<rparr>\<rparr>,
     td_ConfigMap = []\<rparr>"

definition ex_job :: "string \<Rightarrow> Job" where
  "ex_job condition = (new_job ''job'' (ex_task StatePending ''job'') (container_definition ''fn''))
     \<lparr>j_Conditions := [\<lparr>jc_Type = condition, jc_Message = [], jc_Reason = []\<rparr>]\<rparr>"

definition ex_tasks :: "KeptnTask \<Rightarrow> KeptnTaskDefinition list \<Rightarrow> Job list \<Rightarrow> memory Env" where
  "ex_tasks t ds js = initial_env (empty_memory\<lparr>m_Tasks := [t], m_TaskDefinitions := ds, m_Jobs := js\<rparr>)"

definition task_request :: Request where
  "task_request = \<lparr>req_Name = ''task'', req_Namespace = ''podtato''\<rparr>"

lemmas task_defs = ex_mergo_def ex_task_def ex_container_def container_definition_def ex_job_def ex_tasks_def
  task_request_def zero_KeptnTaskStatus_def definition_defs

text \<open>The task of the request, while its Job is there.\<close>

definition stored_task :: "Job \<Rightarrow> memory \<Rightarrow> KeptnTask option" where
  "stored_task job w =
     (if find (\<lambda>j. meta_key (j_meta j) = (''podtato'', ''job'')) (m_Jobs w) = Some job
      then find (\<lambda>t. meta_key (t_meta t) = (''podtato'', ''task'')) (m_Tasks w) else None)"

lemma mem_task_server: "task_server (stored_task job) mem_client task_request ''job'' job"
proof -
  have stored: "find (\<lambda>j. meta_key (j_meta j) = (''podtato'', ''job'')) (m_Jobs w) = Some job"
    "find (\<lambda>t. meta_key (t_meta t) = (''podtato'', ''task'')) (m_Tasks w) = Some t"
    "meta_key (t_meta t) = (''podtato'', ''task'')" if "stored_task job w = Some t" for w t
    using that by (auto simp: stored_task_def split: if_splits dest: find_SomeD)
  have upd: "\<exists>z w'. run_state (api_StatusUpdate (cl_Task mem_client) y) w = (Inr z, w') \<and>
      stored_task job w' = Some z \<and> t_Status z = (t_Status y)\<lparr>tst_Status := default_state (tst_Status (t_Status y))\<rparr>"
    if t: "stored_task job w = Some t" and y: "meta_key (t_meta y) = meta_key (t_meta t)" for w t y
  proof -
    let ?z = "t\<lparr>t_Status := (t_Status y)\<lparr>tst_Status := default_state (tst_Status (t_Status y))\<rparr>\<rparr>"
    note T = stored [OF t]
    have key: "meta_key (t_meta y) = (''podtato'', ''task'')" using y T(3) by simp
    have "\<exists>w'. run_state (api_StatusUpdate (cl_Task mem_client) y) w = (Inr ?z, w') \<and>
        find (\<lambda>x. meta_key (t_meta x) = meta_key (t_meta y)) (m_Tasks w') = Some ?z \<and>
        w' = m_Tasks_update (\<lambda>_. m_Tasks w') w"
      unfolding mem_client_def mem_Task_def Client.select_convs
      by (rule mem_status_updated) (use T(2,3) key in simp_all)
    then obtain w' where w': "run_state (api_StatusUpdate (cl_Task mem_client) y) w = (Inr ?z, w')"
        "find (\<lambda>x. meta_key (t_meta x) = (''podtato'', ''task'')) (m_Tasks w') = Some ?z"
        "w' = m_Tasks_update (\<lambda>_. m_Tasks w') w"
      unfolding key by blast
    have "m_Jobs w' = m_Jobs w" by (subst w'(3)) simp
    then have "stored_task job w' = Some ?z" using w'(2) T(1) by (simp add: stored_task_def)
    with w'(1) show ?thesis by (intro exI [of _ ?z] exI [of _ w']) simp
  qed
  have get: "run_state (api_Get (cl_Task mem_client) ''podtato'' ''task'') w = (Inr t, w)"
    "run_state (api_Get (cl_Job mem_client) ''podtato'' ''job'') w = (Inr job, w)"
    if "stored_task job w = Some t" for w t
    using stored [OF that] by (simp_all add: mem_client_def mem_Task_def mem_api_def)
  have clock: "stored_task job (snd (run_state (cl_Now mem_client) w)) = stored_task job w" for w
    by (simp add: mem_client_def stored_task_def)
  show ?thesis
    unfolding task_server_def task_request_def Request.select_convs
    using stored(3) get upd clock by (auto simp: default_state_def)
qed

theorem task_follows_job_witness:
  "\<exists>t. stored_task (ex_job ''Complete'') (env_World (snd (run_state
      (Task_Reconcile mem_client Instance (\<lambda>_. []) ex_mergo task_request)
      (ex_tasks (ex_task StateProgressing ''job'') [] [ex_job ''Complete''])))) = Some t \<and>
    tst_Status (t_Status t) = StateSucceeded"
proof -
  have "stored_task (ex_job ''Complete'') (env_World (ex_tasks (ex_task StateProgressing ''job'') [] [ex_job ''Complete''])) =
      Some (ex_task StateProgressing ''job'')"
    by (simp add: stored_task_def task_defs new_job_def)
  moreover have "tst_JobName (t_Status (ex_task StateProgressing ''job'')) = ''job''"
    "tst_Status (t_Status (ex_task StateProgressing ''job'')) = StateProgressing"
    "job_state (ex_job ''Complete'') = Some StateSucceeded"
    by (simp_all add: task_defs job_state_def)
  ultimately show ?thesis
    using task_follows_job [of "stored_task (ex_job ''Complete'')" _ "ex_task StateProgressing ''job''" mem_client
        task_request "ex_job ''Complete''" Instance "\<lambda>_. []" ex_mergo] mem_task_server
    by (auto simp: IsCompleted_def)
qed


theorem finished_task_runs_again_witness:
  "let s = ex_tasks (ex_task StateSucceeded ''gone'') [container_definition ''fn''] []
   in \<exists>task s4. run_state (Task_Reconcile mem_client Instance (\<lambda>_. []) ex_mergo task_request) s =
     ((requeue_after 10, None), s4\<lparr>env_World := snd (run_state (api_StatusUpdate (cl_Task mem_client)
       (task\<lparr>t_Status := (t_Status task)\<lparr>tst_Status := StateProgressing\<rparr>\<rparr>)) (env_World s4))\<rparr>)"
proof -
  let ?t = "ex_task StateSucceeded ''gone''"
  let ?s = "ex_tasks ?t [container_definition ''fn''] []"
  let ?w = "env_World ?s"
  have get: "run_state (api_Get (cl_Task mem_client) (req_Namespace task_request) (req_Name task_request)) ?w = (Inr ?t, ?w)"
    and now: "run_state (cl_Now mem_client) ?w = (1, ?w\<lparr>m_Clock := 2\<rparr>)"
    and job: "run_state (api_Get (cl_Job mem_client) (req_Namespace task_request) (tst_JobName (t_Status ?t)))
      (?w\<lparr>m_Clock := 2\<rparr>) = (Inl (ApiNotFound ''not found''), ?w\<lparr>m_Clock := 2\<rparr>)"
    by (simp_all add: mem_defs task_defs)
  let ?d = "container_definition ''fn''"
  let ?s2 = "?s\<lparr>env_World := ?w\<lparr>m_Clock := 2\<rparr>\<rparr>"
  have def: "run_state (GetTaskDefinition mem_client Instance ''fn'' (req_Namespace task_request)) ?s2 = (Inr ?d, ?s2)"
    by (simp add: GetTaskDefinition_def getObject_def env_simps mem_defs task_defs)
  have d: "GetRuntimeSpec ?d = None" "tds_Container (td_Spec ?d) = Some \<lparr>cs_Container = Some ex_container\<rparr>" "SpecExists ?d"
    by (simp_all add: SpecExists_def GetRuntimeSpec_def IsRuntimeEmpty_def zero_RuntimeSpec_def IsContainerEmpty_def
        container_definition_def zero_KeptnTaskDefinitionSpec_def)
  have intn: "run_state (on_world (cl_Intn mem_client 89999)) ?s2 = (0, ?s2)"
    by (simp add: env_simps mem_client_def)
  have "\<exists>job. run_state (generateJob mem_client Instance (\<lambda>_. []) ex_mergo (Task_SetStartTime 1 ?t) ?d task_request) ?s2 =
      (Inr job, ?s2)"
    by (simp add: generateJob_def builder_options_def NewJobRunnerBuilder_def Container_CreateContainer_def intn d Let_def)
  then obtain job where gen: "run_state (generateJob mem_client Instance (\<lambda>_. []) ex_mergo (Task_SetStartTime 1 ?t) ?d
      task_request) ?s2 = (Inr job, ?s2)" by blast
  have "\<exists>w. run_state (api_Create (cl_Job mem_client) job) (?w\<lparr>m_Clock := 2\<rparr>) = (Inr job, w)"
    by (simp add: mem_client_def mem_api_def Let_def ex_tasks_def initial_env_def empty_memory_def)
  moreover have "ts_TaskDefinition (t_Spec (Task_SetStartTime 1 ?t)) = ''fn''"
    by (simp add: Task_SetStartTime_def ex_task_def)
  ultimately have "\<exists>task s4. run_state (createJob mem_client Instance (\<lambda>_. []) ex_mergo task_request (Task_SetStartTime 1 ?t))
      ?s2 = (Inr task, s4)"
    using def gen d(3) by (auto simp: createJob_def createFunctionJob_def env_simps)
  then obtain task s4 where "run_state (createJob mem_client Instance (\<lambda>_. []) ex_mergo task_request
      (Task_SetStartTime 1 ?t)) (?s\<lparr>env_World := ?w\<lparr>m_Clock := 2\<rparr>\<rparr>) = (Inr task, s4)" by blast
  from finished_task_runs_again [OF get now _ job _ this] show ?thesis
    by (auto simp: Let_def IsCompleted_def ex_task_def)
qed

theorem parent_without_function_panics_witness:
  "env_Panicked (snd (run_state (Task_Reconcile mem_client Instance (\<lambda>_. []) ex_mergo task_request)
     (ex_tasks (ex_task StatePending []) [ex_task_definition ''fn'' (Some (ex_runtime\<lparr>rs_FunctionReference := ''base''\<rparr>)),
        container_definition ''base''] [])))"
proof -
  let ?f = "ex_runtime\<lparr>rs_FunctionReference := ''base''\<rparr>"
  let ?t = "ex_task StatePending []"
  let ?d = "ex_task_definition ''fn'' (Some ?f)"
  let ?s = "ex_tasks ?t [?d, container_definition ''base''] []"
  let ?w = "env_World ?s\<lparr>m_Clock := 2\<rparr>"
  have get: "run_state (api_Get (cl_Task mem_client) (req_Namespace task_request) (req_Name task_request)) (env_World ?s) =
      (Inr ?t, env_World ?s)"
    and now: "run_state (cl_Now mem_client) (env_World ?s) = (1, ?w)"
    and job: "run_state (api_Get (cl_Job mem_client) (req_Namespace task_request) (tst_JobName (t_Status ?t))) ?w =
      (Inl (ApiNotFound ''not found''), ?w)"
    and intn: "run_state (cl_Intn mem_client 89999) ?w = (0, ?w)"
    by (simp_all add: mem_defs task_defs)
  have def: "run_state (GetTaskDefinition mem_client Instance (ts_TaskDefinition (t_Spec ?t)) (req_Namespace task_request))
      (?s\<lparr>env_World := ?w\<rparr>) = (Inr ?d, ?s\<lparr>env_World := ?w\<rparr>)"
    and parent: "run_state (GetTaskDefinition mem_client Instance (rs_FunctionReference ?f) (req_Namespace task_request))
      (?s\<lparr>env_World := ?w\<rparr>) = (Inr (container_definition ''base''), ?s\<lparr>env_World := ?w\<rparr>)"
    by (simp_all add: GetTaskDefinition_def getObject_def env_simps mem_defs task_defs)
  have spec: "GetRuntimeSpec ?d = Some ?f" "GetRuntimeSpec (container_definition ''base'') = None" "rs_FunctionReference ?f \<noteq> []"
    by (simp_all add: GetRuntimeSpec_def IsRuntimeEmpty_def zero_RuntimeSpec_def task_defs)
  have parent': "run_state (GetTaskDefinition mem_client Instance (rs_FunctionReference ?f) (req_Namespace task_request))
      (?s\<lparr>env_World := ?w\<rparr>\<lparr>env_World := snd (run_state (cl_Intn mem_client 89999) (env_World (?s\<lparr>env_World := ?w\<rparr>)))\<rparr>) =
      (Inr (container_definition ''base''), ?s\<lparr>env_World := ?w\<rparr>)"
    using parent intn by simp
  show ?thesis
    by (rule parent_without_function_panics [OF get now job _ def spec(1,3) parent' spec(2)]) simp
qed

theorem function_job_consistent_witness:
  "\<exists>job container. fst (run_state (generateJob mem_client Instance (\<lambda>_. []) ex_mergo (ex_task StatePending [])
      (ex_task_definition ''fn'' (Some ex_runtime)\<lparr>td_ConfigMap := ''keptnfn-fn''\<rparr>) task_request) (ex_definitions [])) = Inr job \<and>
    ps_Containers (j_PodSpec job) = [container] \<and>
    map vol_Name (ps_Volumes (j_PodSpec job)) = map vm_Name (c_VolumeMounts container)"
proof -
  let ?d = "ex_task_definition ''fn'' (Some ex_runtime)\<lparr>td_ConfigMap := ''keptnfn-fn''\<rparr>"
  let ?run = "run_state (generateJob mem_client Instance (\<lambda>_. []) ex_mergo (ex_task StatePending []) ?d task_request) (ex_definitions [])"
  have reads: "reads_definitions mem_client"
    by (auto simp: reads_definitions_def mem_client_def mem_api_def split: option.splits)
  have spec: "GetRuntimeSpec ?d = Some ex_runtime"
    by (simp add: GetRuntimeSpec_def IsRuntimeEmpty_def zero_RuntimeSpec_def definition_defs)
  have "\<exists>job s. ?run = (Inr job, s)"
    using spec
    by (simp add: generateJob_def builder_options_def NewJobRunnerBuilder_def Runtime_CreateContainer_def
        Runtime_CreateVolume_def getParams_def parseRuntimeTaskDefinition_def env_simps Let_def mem_client_def)
      (simp add: task_defs)
  then obtain job s where run: "?run = (Inr job, s)" by blast
  from function_job_consistent [OF reads spec run] run show ?thesis by auto
qed

text \<open>A function and a container get the same context: no metadata and an empty map are printed alike.\<close>

definition with_metadata :: "KeptnTask \<Rightarrow> KeptnTask" where
  "with_metadata t = t\<lparr>t_Spec := (t_Spec t)\<lparr>ts_Context := zero_TaskContext\<lparr>tc_Metadata := Some fmempty\<rparr>\<rparr>\<rparr>"

lemma ex_function_job:
  "\<exists>job s. run_state (generateJob mem_client Instance (\<lambda>_. []) ex_mergo (ex_task StatePending [])
     (ex_task_definition ''fn'' (Some ex_runtime)\<lparr>td_ConfigMap := ''keptnfn-fn''\<rparr>) task_request) (ex_definitions []) =
   (Inr job, s)"
proof -
  have "GetRuntimeSpec (ex_task_definition ''fn'' (Some ex_runtime)\<lparr>td_ConfigMap := ''keptnfn-fn''\<rparr>) = Some ex_runtime"
    by (simp add: GetRuntimeSpec_def IsRuntimeEmpty_def zero_RuntimeSpec_def definition_defs)
  then show ?thesis
    by (simp add: generateJob_def builder_options_def NewJobRunnerBuilder_def Runtime_CreateContainer_def
        Runtime_CreateVolume_def getParams_def parseRuntimeTaskDefinition_def env_simps Let_def mem_client_def)
      (simp add: task_defs)
qed

lemma ex_container_job:
  "\<exists>job s. run_state (generateJob mem_client Instance (\<lambda>_. []) ex_mergo (with_metadata (ex_task StatePending []))
     (container_definition ''fn'') task_request) (ex_definitions []) = (Inr job, s)"
proof -
  have "GetRuntimeSpec (container_definition ''fn'') = None"
    "tds_Container (td_Spec (container_definition ''fn'')) = Some \<lparr>cs_Container = Some ex_container\<rparr>"
    by (simp_all add: GetRuntimeSpec_def IsRuntimeEmpty_def zero_RuntimeSpec_def container_definition_def
        zero_KeptnTaskDefinitionSpec_def)
  then show ?thesis
    by (simp add: generateJob_def builder_options_def NewJobRunnerBuilder_def Container_CreateContainer_def
        env_simps mem_client_def Let_def)
qed

theorem job_context_faithful_witness:
  "\<exists>job job2. fst (run_state (generateJob mem_client Instance (\<lambda>_. []) ex_mergo (ex_task StatePending [])
      (ex_task_definition ''fn'' (Some ex_runtime)\<lparr>td_ConfigMap := ''keptnfn-fn''\<rparr>) task_request) (ex_definitions [])) = Inr job \<and>
    fst (run_state (generateJob mem_client Instance (\<lambda>_. []) ex_mergo (with_metadata (ex_task StatePending []))
      (container_definition ''fn'') task_request) (ex_definitions [])) = Inr job2 \<and>
    job_contexts job = {json_TaskContext zero_TaskContext} \<and> job_contexts job = job_contexts job2"
proof -
  let ?t = "ex_task StatePending []"
  obtain job s where job: "run_state (generateJob mem_client Instance (\<lambda>_. []) ex_mergo ?t
      (ex_task_definition ''fn'' (Some ex_runtime)\<lparr>td_ConfigMap := ''keptnfn-fn''\<rparr>) task_request) (ex_definitions []) =
      (Inr job, s)" using ex_function_job by blast
  obtain job2 s2 where job2: "run_state (generateJob mem_client Instance (\<lambda>_. []) ex_mergo (with_metadata ?t)
      (container_definition ''fn'') task_request) (ex_definitions []) = (Inr job2, s2)" using ex_container_job by blast
  have contexts: "ts_Context (t_Spec ?t) = zero_TaskContext"
    "ts_Context (t_Spec (with_metadata ?t)) = zero_TaskContext\<lparr>tc_Metadata := Some fmempty\<rparr>"
    by (simp_all add: ex_task_def with_metadata_def)
  have "sorted_list_of_fset {||} = ([] :: string list)"
    by (simp add: sorted_list_of_fset.rep_eq)
  then have "context_valid (ts_Context (t_Spec ?t))" "context_valid (ts_Context (t_Spec (with_metadata ?t)))"
    unfolding contexts by (simp_all add: context_valid_def zero_TaskContext_def map_valid_def gm_fmap_def json_members_def)
  note faithful = job_context_faithful [OF job job2 this, unfolded contexts]
  have "same_context zero_TaskContext (zero_TaskContext\<lparr>tc_Metadata := Some fmempty\<rparr>)"
    by (simp add: same_context_def zero_TaskContext_def gm_fmap_def)
  with faithful have "job_contexts job = {json_TaskContext zero_TaskContext}" "job_contexts job = job_contexts job2"
    by blast+
  then show ?thesis using job job2 by simp
qed

section \<open>Gates and the webhook\<close>

definition ex_owner :: OwnerReference where
  "ex_owner = \<lparr>or_UID = ''u'', or_Kind = ''ReplicaSet'', or_Name = ''front-rs'', or_APIVersion = ''apps/v1'',
     or_Controller = True\<rparr>"

definition ex_pod :: "string list \<Rightarrow> Pod" where
  "ex_pod gates = \<lparr>pod_meta = (ex_meta ''front-0'')\<lparr>om_OwnerReferences := [ex_owner],
     om_Labels := Some (fmap_of_list [(''keptn.sh/workload'', ''front''), (''keptn.sh/version'', ''1'')])\<rparr>,
     pod_SchedulingGates = gates, pod_Containers = []\<rparr>"

definition ex_pod_wv :: "KeptnState \<Rightarrow> KeptnWorkloadVersion" where
  "ex_pod_wv k = ex_wv\<lparr>wv_Status := (wv_Status ex_wv)
     \<lparr>wvst_PreDeploymentEvaluationStatus := StateSucceeded, wvst_DeploymentStatus := k\<rparr>\<rparr>"

definition ex_pods :: "KeptnState \<Rightarrow> memory Env" where
  "ex_pods k = initial_env (empty_memory\<lparr>m_Pods := [ex_pod [KeptnGate]],
     m_WorkloadVersions := [ex_pod_wv k],
     m_Namespaces := [\<lparr>nsp_meta = (ex_meta ''podtato'')\<lparr>om_Annotations :=
       Some (fmap_of_list [(NamespaceEnabledAnnotation, ''enabled'')])\<rparr>\<rparr>]\<rparr>)"

definition pod_request :: Request where
  "pod_request = \<lparr>req_Name = ''front-0'', req_Namespace = ''podtato''\<rparr>"

lemmas pod_defs = ex_owner_def ex_pod_def ex_pods_def pod_request_def ex_defs

lemma ex_pod_reads:
  "run_state (api_Get (cl_Pod mem_client) (req_Namespace pod_request) (req_Name pod_request)) (env_World (ex_pods k)) =
     (Inr (ex_pod [KeptnGate]), env_World (ex_pods k))"
  "om_OwnerReferences (pod_meta (ex_pod gates)) = [ex_owner]"
  "run_state (api_List (cl_WorkloadVersion mem_client) (om_Namespace (pod_meta (ex_pod gates)))
     [(''.spec.resourceReference.uid'', or_UID ex_owner)]) (env_World (ex_pods k)) =
   (Inr [ex_pod_wv k], env_World (ex_pods k))"
  by (simp_all add: mem_defs pod_defs ex_pod_wv_def)

lemma ex_pod_wv_status:
  "wvst_DeploymentStatus (wv_Status (ex_pod_wv k)) = k"
  "state_ok True (wvst_PreDeploymentStatus (wv_Status (ex_pod_wv k)))"
  "state_ok True (wvst_PreDeploymentEvaluationStatus (wv_Status (ex_pod_wv k)))"
  by (simp_all add: ex_pod_wv_def ex_defs state_ok_def)

lemma ex_pod_laws:
  assumes "k \<in> {StatePending, StateProgressing}"
  shows "reads (\<lambda>m. m_WorkloadVersions m = [ex_pod_wv k]) (cl_Pod mem_client) any"
    and "reads (\<lambda>m. m_WorkloadVersions m = [ex_pod_wv k]) (cl_WorkloadVersion mem_client) (wv_inv True)"
    and "m_WorkloadVersions (env_World (ex_pods k)) = [ex_pod_wv k]"
    and "\<forall>v\<in>set [ex_pod_wv k]. wv_live v"
proof -
  have "wv_inv True (ex_pod_wv k)" and live: "wv_live (ex_pod_wv k)"
    using assms by (auto simp: wv_inv_def begun_def state_ok_def wv_live_def ex_pod_wv_def ex_defs)
  then show "reads (\<lambda>m. m_WorkloadVersions m = [ex_pod_wv k]) (cl_WorkloadVersion mem_client) (wv_inv True)"
    unfolding mem_client_def mem_WorkloadVersion_def Client.select_convs by (intro reads_mem) auto
  show "reads (\<lambda>m. m_WorkloadVersions m = [ex_pod_wv k]) (cl_Pod mem_client) any"
    unfolding mem_client_def Client.select_convs by (rule reads_mem) simp
  show "\<forall>v\<in>set [ex_pod_wv k]. wv_live v" using live by simp
  show "m_WorkloadVersions (env_World (ex_pods k)) = [ex_pod_wv k]"
    by (simp add: ex_pods_def initial_env_def empty_memory_def)
qed

theorem gated_until_checks_pass_witness:
  "fst (run_state (Gates_Reconcile mem_client pod_request) (ex_pods StatePending)) =
     (\<lparr>Requeue = False, RequeueAfter = 10 * second\<rparr>, None) \<and>
   run_state (Gates_Reconcile mem_client pod_request) (ex_pods StateProgressing) =
     ((no_requeue, None), ex_pods StateProgressing\<lparr>env_World := snd (run_state
       (api_Update (cl_Pod mem_client) (ungated (ex_pod [KeptnGate]))) (env_World (ex_pods StateProgressing)))\<rparr>)"
proof -
  have "fst (run_state (api_Update (cl_Pod mem_client) (ungated (ex_pod [KeptnGate]))) (env_World (ex_pods StateProgressing))) =
      Inr (ungated (ex_pod [KeptnGate]))"
    by (simp add: mem_client_def mem_api_def Let_def ungated_def pod_defs)
  then show ?thesis
    using gated_until_checks_pass [OF ex_pod_laws(1-3) ex_pod_reads ex_pod_laws(4), of StatePending]
      gated_until_checks_pass [OF ex_pod_laws(1-3) ex_pod_reads ex_pod_laws(4), of StateProgressing]
    by (simp add: case_prod_beta ex_pod_wv_status)
qed

theorem failed_predeployment_releases_pod_witness:
  "let v = fst (fst (run_state (handleCompletedPhase mem_client (WorkloadVersion_Kind mem_client) StateFailed WorkloadVersion_PhaseItem
         PhaseWorkloadPreDeployment ex_wv (Some 0)) (ex_env StateSucceeded)));
       s = ex_pods (wvst_DeploymentStatus (wv_Status v))
   in env_World (snd (run_state (Gates_Reconcile mem_client pod_request) s)) =
     snd (run_state (api_Update (cl_Pod mem_client) (ungated (ex_pod [KeptnGate]))) (env_World s))"
proof -
  let ?run = "run_state (handleCompletedPhase mem_client (WorkloadVersion_Kind mem_client) StateFailed
    WorkloadVersion_PhaseItem PhaseWorkloadPreDeployment ex_wv (Some 0)) (ex_env StateSucceeded)"
  have "?run = ((fst (fst ?run), fst (snd (fst ?run)), snd (snd (fst ?run))), snd ?run)" by simp
  from failed_predeployment_releases_pod [OF disjI1 [OF refl] this ex_pod_reads(1)
      [of "wvst_DeploymentStatus (wv_Status (fst (fst ?run)))"] ex_pod_reads(2) ex_pod_reads(3)]
  show ?thesis by (simp add: Let_def ex_pod_wv_status)
qed

definition stored_workload :: "memory \<Rightarrow> string \<times> string \<Rightarrow> KeptnWorkload option" where
  "stored_workload w k = find (\<lambda>x. wk_key x = k) (m_Workloads w)"

definition stored_request :: "memory \<Rightarrow> string \<times> string \<Rightarrow> KeptnAppCreationRequest option" where
  "stored_request w k = find (\<lambda>x. cr_key x = k) (m_CreationRequests w)"

lemma omit_empty_same: "same_spec (wk_Spec (omit_empty x)) (wk_Spec x)" "wk_key (omit_empty x) = wk_key x"
  by (simp_all add: same_spec_def omit_empty_def wk_key_def gm_empty_def gm_fmap_def)

lemma mem_webhook_server: "webhook_server stored_workload stored_request mem_client"
proof -
  have api: "cl_Workload mem_client = mem_api m_Workloads (\<lambda>xs. m_Workloads_update (\<lambda>_. xs)) wk_key
      (\<lambda>x f. \<forall>a\<in>set f. a = (''spec.app'', wks_AppName (wk_Spec x))) omit_empty
      (\<lambda>x y. omit_empty (y\<lparr>wk_CurrentVersion := wk_CurrentVersion x\<rparr>))
      (\<lambda>x y. x\<lparr>wk_CurrentVersion := wk_CurrentVersion y\<rparr>)"
    "cl_CreationRequest mem_client = mem_api m_CreationRequests (\<lambda>xs. m_CreationRequests_update (\<lambda>_. xs))
      cr_key (\<lambda>x f. True) (\<lambda>x. x) (\<lambda>x y. y) (\<lambda>x y. y)"
    by (simp_all add: mem_client_def mem_Workload_def wk_key_def [abs_def] cr_key_def [abs_def])
  have get: "stored_workload w (ns, n) = Some x \<and> wk_key x = (ns, n) \<and> w' = w"
    if "run_state (api_Get (cl_Workload mem_client) ns n) w = (Inr x, w')" for ns n w x w'
    using that by (auto simp: api mem_api_def stored_workload_def split: option.splits dest: find_SomeD)
  have create: "stored_workload w' (wk_key x) = Some y \<and> same_spec (wk_Spec y) (wk_Spec x)"
    if "run_state (api_Create (cl_Workload mem_client) x) w = (Inr y, w')" for x w y w'
    using mem_created [OF that [unfolded api]] omit_empty_same by (auto simp: stored_workload_def)
  have update: "stored_workload w' (wk_key x) = Some y \<and> same_spec (wk_Spec y) (wk_Spec x)"
    if "run_state (api_Update (cl_Workload mem_client) x) w = (Inr y, w')" for x w y w'
  proof -
    have key: "wk_key (omit_empty (x\<lparr>wk_CurrentVersion := c\<rparr>)) = wk_key x"
      "same_spec (wk_Spec (omit_empty (x\<lparr>wk_CurrentVersion := c\<rparr>))) (wk_Spec x)" for c
      using omit_empty_same [of "x\<lparr>wk_CurrentVersion := c\<rparr>"] by (simp_all add: wk_key_def)
    show ?thesis
      using mem_updated [OF that [unfolded api]] key by (auto simp: stored_workload_def)
  qed
  have request: "w' = w \<and> (\<forall>x. r = Inr x \<longrightarrow> stored_request w (ns, n) = Some x)"
    if "run_state (api_Get (cl_CreationRequest mem_client) ns n) w = (r, w')" for ns n w r w'
    using that by (auto simp: api mem_api_def stored_request_def split: option.splits)
  have requested: "stored_workload w' = stored_workload w \<and> stored_request w' (cr_key x) = Some y"
    if "run_state (api_Create (cl_CreationRequest mem_client) x) w = (Inr y, w')" for x w y w'
  proof
    show "stored_workload w' = stored_workload w"
      using that by (auto simp: api mem_api_def Let_def stored_workload_def fun_eq_iff split: option.splits)
    show "stored_request w' (cr_key x) = Some y"
      using mem_created [OF that [unfolded api]] by (auto simp: stored_request_def)
  qed
  show ?thesis
    unfolding webhook_server_def
    by (intro conjI allI impI; drule get create update request requested; simp)
qed

lemma empty_workloads:
  assumes "m_Workloads w = []"
  shows "run_state (api_Get (cl_Workload mem_client) ns n) w = (Inl (ApiNotFound ''not found''), w)"
    and "run_state (api_Create (cl_Workload mem_client) x) w = (Inr (omit_empty x), w\<lparr>m_Workloads := [omit_empty x]\<rparr>)"
  using assms by (simp_all add: mem_client_def mem_Workload_def mem_api_def Let_def)

lemma empty_requests:
  assumes "m_CreationRequests w = []"
  shows "run_state (api_Get (cl_CreationRequest mem_client) ns n) w = (Inl (ApiNotFound ''not found''), w)"
    and "run_state (api_Create (cl_CreationRequest mem_client) c) w = (Inr c, w\<lparr>m_CreationRequests := [c]\<rparr>)"
  using assms by (simp_all add: mem_client_def mem_api_def Let_def)

theorem gated_pod_has_workload_witness:
  "\<exists>p s'. run_state (Handle mem_client context_TODO ''podtato'' (Inr (ex_pod []))) (ex_pods StatePending) = (Patched p, s') \<and>
    hasKeptnSchedulingGate p \<and>
    stored_workload (env_World s') (''podtato'', getWorkloadName (pod_meta p) (getAppName (pod_meta p))) \<noteq> None"
proof -
  let ?pod = "ex_pod [KeptnGate]"
  let ?s = "ex_pods StatePending"
  have pod_empty: "m_Workloads (env_World ?s) = []" "m_CreationRequests (env_World ?s) = []"
    by (simp_all add: pod_defs)
  have ns: "\<exists>ns. run_state (api_Get (cl_Namespace mem_client) [] ''podtato'') (env_World ?s) = (Inr ns, env_World ?s) \<and>
      gm_str (om_Annotations (nsp_meta ns)) NamespaceEnabledAnnotation = ''enabled''"
    by (simp add: mem_client_def mem_api_def pod_defs gm_str_def gm_lookup_def)
  have owner: "or_Kind (GetOwnerReference (pod_meta (ex_pod []))) \<noteq> []"
    by (simp add: GetOwnerReference_def IsOwnerSupported_def pod_defs)
  have ann: "isPodAnnotated (ex_pod []) = (ex_pod [], True)" "handleScheduling (ex_pod []) = (?pod, False)"
    by (simp_all add: isPodAnnotated_def handleScheduling_def GetLabelOrAnnotation_def Let_def pod_defs gm_str_def gm_lookup_def)
  have "\<exists>s1. run_state (Workload_Handle mem_client context_TODO ?pod ''podtato'') ?s = (None, s1) \<and>
      m_CreationRequests (env_World s1) = []"
    by (simp add: Workload_Handle_def createWorkload_def env_simps Let_def empty_workloads pod_empty)
  then obtain s1 where s1: "run_state (Workload_Handle mem_client context_TODO ?pod ''podtato'') ?s = (None, s1)"
    "m_CreationRequests (env_World s1) = []" by blast
  have "\<exists>p s2. run_state (AppCreationRequest_Handle mem_client context_TODO ?pod ''podtato'') s1 = ((p, None), s2) \<and>
      pod_SchedulingGates p = [KeptnGate]"
    using s1(2)
    by (simp add: AppCreationRequest_Handle_def createResource_def generateResource_def env_simps Let_def empty_requests
        split: prod.splits) (simp add: ex_pod_def)
  then obtain p s2 where run: "run_state (Handle mem_client context_TODO ''podtato'' (Inr (ex_pod []))) ?s = (Patched p, s2)"
    and gate: "hasKeptnSchedulingGate p"
    using ns owner ann s1(1)
    by (auto simp: Handle_def IsAnnotated_def handle_annotated_def env_simps hasKeptnSchedulingGate_def)
  have "\<not> hasKeptnSchedulingGate (ex_pod [])" by (simp add: hasKeptnSchedulingGate_def ex_pod_def)
  from gated_pod_has_workload [OF mem_webhook_server run gate this] run gate show ?thesis by auto
qed

theorem released_pod_stays_released_witness:
  "let (response, s') = run_state (Handle mem_client context_TODO ''podtato'' (Inr (ungated (ex_pod [KeptnGate]))))
     (ex_pods StateProgressing)
   in m_Workloads (env_World s') = [] \<and> \<not> (\<exists>p. response = Patched p \<and> pod_SchedulingGates p \<noteq> [])"
proof -
  let ?run = "run_state (Handle mem_client context_TODO ''podtato'' (Inr (ungated (ex_pod [KeptnGate]))))
    (ex_pods StateProgressing)"
  have "parent_reads (\<lambda>w. m_Workloads w = []) mem_client"
    by (simp add: parent_reads_def mem_client_def reads_mem no_api_def)
  moreover have "m_Workloads (env_World (ex_pods StateProgressing)) = []" by (simp add: pod_defs)
  ultimately show ?thesis
    using released_pod_stays_released [OF _ _ run_pair, of "\<lambda>w. m_Workloads w = []" mem_client "ex_pods StateProgressing"]
    by (simp add: case_prod_beta)
qed

end
