(* ===== verification/Float_Arithmetic.thy ===== *)
theory Float_Arithmetic
  imports Floats
begin

text \<open>
  Arithmetic and the remaining comparisons of \<^verbatim>\<open>float64\<close>, as the metrics operator uses them for the score of
  an analysis: every operation computes the exact result and rounds it.  A number is compared with NaN
  to false.
\<close>

section \<open>Operations\<close>

fun float_le :: "float64 \<Rightarrow> float64 \<Rightarrow> bool" where
  "float_le (Finite x) (Finite y) \<longleftrightarrow> x \<le> y"
| "float_le (Infinite neg) (Finite y) \<longleftrightarrow> neg"
| "float_le (Finite x) (Infinite neg) \<longleftrightarrow> \<not> neg"
| "float_le (Infinite m) (Infinite n) \<longleftrightarrow> m \<or> \<not> n"
| "float_le _ _ \<longleftrightarrow> False"

definition float_eq :: "float64 \<Rightarrow> float64 \<Rightarrow> bool" where
  "float_eq x y \<longleftrightarrow> x \<noteq> NaN \<and> x = y"

definition float_of_int :: "int \<Rightarrow> float64" where
  "float_of_int i = float_of_rat (of_int i)"

fun float_add :: "float64 \<Rightarrow> float64 \<Rightarrow> float64" where
  "float_add (Finite x) (Finite y) = float_of_rat (x + y)"
| "float_add (Finite x) (Infinite n) = Infinite n"
| "float_add (Infinite m) (Finite y) = Infinite m"
| "float_add (Infinite m) (Infinite n) = (if m = n then Infinite m else NaN)"
| "float_add _ _ = NaN"

fun float_mul :: "float64 \<Rightarrow> float64 \<Rightarrow> float64" where
  "float_mul (Finite x) (Finite y) = float_of_rat (x * y)"
| "float_mul (Finite x) (Infinite n) = (if x = 0 then NaN else Infinite (n \<noteq> (x < 0)))"
| "float_mul (Infinite m) (Finite y) = (if y = 0 then NaN else Infinite (m \<noteq> (y < 0)))"
| "float_mul (Infinite m) (Infinite n) = Infinite (m \<noteq> n)"
| "float_mul _ _ = NaN"

text \<open>The zero of the type is the positive one; the program never divides by zero.\<close>

fun float_div :: "float64 \<Rightarrow> float64 \<Rightarrow> float64" where
  "float_div (Finite x) (Finite y) =
     (if y = 0 then (if x = 0 then NaN else Infinite (x < 0)) else float_of_rat (x / y))"
| "float_div (Finite x) (Infinite n) = Finite 0"
| "float_div (Infinite m) (Finite y) = Infinite (m \<noteq> (y < 0))"
| "float_div (Infinite m) (Infinite n) = NaN"
| "float_div _ _ = NaN"

section \<open>Comparison\<close>

lemma float_le_iff: "float_le x y \<longleftrightarrow> float_less x y \<or> float_eq x y"
  by (cases "(x, y)" rule: float_le.cases) (auto simp: float_eq_def)

lemma float_le_NaN [simp]: "\<not> float_le NaN y" "\<not> float_le x NaN"
  by (cases y; simp) (cases x; simp)

lemma float_less_NaN [simp]: "\<not> float_less NaN y" "\<not> float_less x NaN"
  by (cases y; simp) (cases x; simp)

lemma float_le_trans: "float_le x y \<Longrightarrow> float_le y z \<Longrightarrow> float_le x z"
  by (cases x; cases y; cases z) auto

lemma float_not_le: "x \<noteq> NaN \<Longrightarrow> y \<noteq> NaN \<Longrightarrow> \<not> float_le x y \<longleftrightarrow> float_less y x"
  by (cases x; cases y) auto

section \<open>Numbers that are kept exactly\<close>

lemma expo_less: "0 < q \<Longrightarrow> q < pow2 k \<Longrightarrow> expo q < k"
  using expo_bounds [of q] pow2_mono [of k "expo q"] by fastforce

lemma round_pos_exact:
  assumes "0 < m" and "m < 2 ^ 53" and "- 1074 \<le> k"
  shows "round_pos (of_int m * pow2 k) = of_int m * pow2 k"
proof -
  define q where "q = of_int m * pow2 k"
  have pos: "0 < q" using assms(1) by (simp add: q_def)
  have "(of_int m :: rat) < of_int (2 ^ 53)" using assms(2) by (simp only: of_int_less_iff)
  then have "q < of_int (2 ^ 53) * pow2 k" unfolding q_def by (rule mult_strict_right_mono) simp
  also have "\<dots> = pow2 (k + 53)" using pow2_add_nat [of k 53] by simp
  finally have "expo q < k + 53" by (rule expo_less [OF pos])
  define d where "d = nat (k - (max (expo q) (- 1022) - 52))"
  have "k = (max (expo q) (- 1022) - 52) + int d"
    using \<open>expo q < k + 53\<close> assms(3) by (simp add: d_def max_def)
  then have "pow2 k = ulp q * 2 ^ d" using pow2_add_nat [of "max (expo q) (- 1022) - 52" d]
    by (simp add: ulp_def)
  then have q: "q = of_int (m * 2 ^ d) * ulp q" by (simp add: q_def mult.commute)
  then have "q / ulp q = of_int (m * 2 ^ d)"
    using ulp_pos [of q] by (metis less_irrefl nonzero_mult_div_cancel_right)
  then have "round_pos q = of_int (m * 2 ^ d) * ulp q" by (simp only: round_pos_def round_half_even_of_int)
  also have "\<dots> = q" by (simp only: q [symmetric])
  finally show ?thesis by (simp add: q_def)
qed

lemma round_rat_exact:
  assumes "\<bar>m\<bar> < 2 ^ 53" and "- 1074 \<le> k"
  shows "round_rat (of_int m * pow2 k) = of_int m * pow2 k"
proof -
  have "0 < m \<Longrightarrow> round_rat (of_int m * pow2 k) = of_int m * pow2 k"
    using round_pos_exact [of m k] assms by (simp add: round_rat_def)
  moreover have "m < 0 \<Longrightarrow> round_rat (of_int m * pow2 k) = of_int m * pow2 k"
    using round_pos_exact [of "- m" k] assms mult_neg_pos [of "of_int m :: rat" "pow2 k"]
    by (simp add: round_rat_def)
  ultimately show ?thesis by (cases m "0 :: int" rule: linorder_cases) (simp_all add: round_rat_def)
qed

lemma float_of_exact:
  assumes "\<bar>m\<bar> < 2 ^ 53" and "- 1074 \<le> k" and "k \<le> 971"
  shows "float_of_rat (of_int m * pow2 k) = Finite (of_int m * pow2 k)"
proof -
  define h :: rat where "h = of_int m * pow2 k"
  have "round_rat h = h" using round_rat_exact [OF assms(1,2)] by (simp add: h_def)
  moreover have "\<bar>h\<bar> < pow2 1024"
  proof -
    have "(of_int \<bar>m\<bar> :: rat) < of_int (2 ^ 53)" using assms(1) by (simp only: of_int_less_iff)
    then have "of_int \<bar>m\<bar> * pow2 k < of_int (2 ^ 53) * pow2 k" by (rule mult_strict_right_mono) simp
    then have "\<bar>h\<bar> < pow2 (k + 53)" using pow2_add_nat [of k 53] by (simp add: h_def abs_mult less_imp_le)
    also have "\<dots> \<le> pow2 1024" using assms(3) by (intro pow2_mono) simp
    finally show ?thesis .
  qed
  ultimately have "float_of_rat h = Finite h" by (simp add: float_of_rat_def Let_def not_le)
  then show ?thesis by (simp only: h_def)
qed

text \<open>A multiple of one half below \<open>2\<^sup>5\<^sup>2\<close> is a \<^verbatim>\<open>float64\<close>.\<close>

lemma float_of_half:
  assumes "\<bar>m\<bar> < 2 ^ 53"
  shows "float_of_rat (of_int m / 2) = Finite (of_int m / 2)"
  using float_of_exact [OF assms, of "- 1"] by (simp add: pow2_def)

lemma float_of_small_int:
  assumes "\<bar>m\<bar> < 2 ^ 52"
  shows "float_of_int m = Finite (of_int m)"
  using float_of_half [of "2 * m"] assms by (simp add: float_of_int_def)

section \<open>Order and rounding\<close>

lemma float_of_rat_mono: "q \<le> r \<Longrightarrow> float_le (float_of_rat q) (float_of_rat r)"
  using round_rat_mono [of q r] pow2_pos [of 1024]
  by (auto simp: float_of_rat_def Let_def)

lemma float_of_rat_not_NaN [simp]: "float_of_rat q \<noteq> NaN"
  by (simp add: float_of_rat_def Let_def)

lemma float_mul_mono:
  assumes "float_le x y" and "0 < c"
  shows "float_le (float_mul x (Finite c)) (float_mul y (Finite c))"
proof -
  consider p q where "x = Finite p" "y = Finite q" | n where "x = Infinite n" | n where "y = Infinite n" "\<exists>p. x = Finite p"
    using assms(1) by (cases x; cases y) auto
  then show ?thesis
  proof cases
    case 1
    with assms show ?thesis by (simp add: float_of_rat_mono mult_right_mono)
  next
    case 2
    with assms show ?thesis
      by (cases y) (auto simp: float_of_rat_def Let_def)
  next
    case 3
    with assms show ?thesis by (auto simp: float_of_rat_def Let_def)
  qed
qed

lemma float_div_mono:
  assumes "x \<le> y" and "0 < c"
  shows "float_le (float_div (Finite x) (Finite c)) (float_div (Finite y) (Finite c))"
  using assms by (auto intro!: float_of_rat_mono divide_right_mono)

lemma float_of_rat_between:
  assumes "float_of_rat lo = Finite lo" and "float_of_rat hi = Finite hi" and "lo \<le> x" and "x \<le> hi"
  obtains q where "float_of_rat x = Finite q" "lo \<le> q" "q \<le> hi"
  using float_of_rat_mono [OF assms(3)] float_of_rat_mono [OF assms(4)] assms(1,2)
  by (cases "float_of_rat x") auto

end
