(* ===== verification/Analysis.thy ===== *)
theory Analysis
  imports Cluster Float_Arithmetic
begin

text \<open>
  Analyses of the metrics operator: the resources \<^verbatim>\<open>AnalysisDefinition\<close>, \<^verbatim>\<open>Analysis\<close> and
  \<^verbatim>\<open>AnalysisValueTemplate\<close> with their admission webhooks (\<^verbatim>\<open>metrics-operator/api/v1\<close>) and the evaluators
  that turn the vals of the objectives into a verdict
  (\<^verbatim>\<open>metrics-operator/controllers/common/analysis\<close>).  \<^verbatim>\<open>resource.Quantity\<close> is a type of Kubernetes; what
  its method \<^verbatim>\<open>AsApproximateFloat64\<close> returns is the argument \<open>approx\<close>.
\<close>

named_theorems analysis_simps \<open>the definitions of the evaluators, for unfolding\<close>

section \<open>Resources\<close>

record ObjectReference =
  or_Name :: string
  or_Namespace :: string

definition IsNamespaceSet :: "ObjectReference \<Rightarrow> bool" where
  "IsNamespaceSet ob = (or_Namespace ob \<noteq> [])"

definition ObjectReference_GetNamespace :: "string \<Rightarrow> ObjectReference \<Rightarrow> string" where
  "ObjectReference_GetNamespace defaultNamespace ob =
     (if IsNamespaceSet ob then or_Namespace ob else defaultNamespace)"

text \<open>A state of an analysis is a string; the empty one counts as pending.\<close>

type_synonym AnalysisState = string

definition AnalysisState_Pending :: AnalysisState where
  "AnalysisState_Pending = ''Pending''"

definition AnalysisState_Progressing :: AnalysisState where
  "AnalysisState_Progressing = ''Progressing''"

definition AnalysisState_Completed :: AnalysisState where
  "AnalysisState_Completed = ''Completed''"

definition AnalysisState_IsPending :: "AnalysisState \<Rightarrow> bool" where
  "AnalysisState_IsPending s \<longleftrightarrow> s = AnalysisState_Pending \<or> s = []"

definition AnalysisState_IsCompleted :: "AnalysisState \<Rightarrow> bool" where
  "AnalysisState_IsCompleted s \<longleftrightarrow> s = AnalysisState_Completed"

record OperatorValue =
  ov_FixedValue :: Quantity

record RangeValue =
  rv_LowBound :: Quantity
  rv_HighBound :: Quantity

record Operator =
  op_LessThanOrEqual :: "OperatorValue option"
  op_LessThan :: "OperatorValue option"
  op_GreaterThan :: "OperatorValue option"
  op_GreaterThanOrEqual :: "OperatorValue option"
  op_EqualTo :: "OperatorValue option"
  op_InRange :: "RangeValue option"
  op_NotInRange :: "RangeValue option"

definition GetFloatValue :: "(Quantity \<Rightarrow> float64) \<Rightarrow> OperatorValue \<Rightarrow> float64" where
  "GetFloatValue approx ob = approx (ov_FixedValue ob)"

record Target =
  tg_Failure :: "Operator option"
  tg_Warning :: "Operator option"

record AnalysisObjective =
  ao_AnalysisValueTemplateRef :: ObjectReference
  ao_Target :: Target
  ao_Weight :: int
  ao_KeyObjective :: bool

record TotalScore =
  ts_PassPercentage :: int
  ts_WarningPercentage :: int

record AnalysisDefinition =
  ad_meta :: ObjectMeta
  ad_Objectives :: "AnalysisObjective list"
  ad_TotalScore :: TotalScore

record ProviderResult =
  pr_Objective :: ObjectReference
  pr_Query :: string
  pr_Value :: string
  pr_ErrMsg :: string

record Timeframe =
  tf_From :: time
  tf_To :: time
  tf_Recent :: duration

record AnalysisSpec =
  as_Timeframe :: Timeframe
  as_Args :: smap
  as_AnalysisDefinition :: ObjectReference

record AnalysisStatus =
  ast_Timeframe :: Timeframe
  ast_Raw :: string
  ast_Pass :: bool
  ast_Warning :: bool
  ast_State :: AnalysisState
  ast_StoredValues :: "(string, ProviderResult) gomap"

record Analysis =
  an_meta :: ObjectMeta
  an_Spec :: AnalysisSpec
  an_Status :: AnalysisStatus

record AnalysisValueTemplate =
  avt_meta :: ObjectMeta
  avt_Provider :: ObjectReference
  avt_Query :: string

section \<open>Time frames\<close>

text \<open>Each call reads the clock anew.\<close>

definition Timeframe_GetFrom :: "('w, time) state \<Rightarrow> Timeframe \<Rightarrow> ('w, time) state" where
  "Timeframe_GetFrom now t =
     (if tf_Recent t > 0 then do { n \<leftarrow> now; ret (n - tf_Recent t) } else ret (tf_From t))"

definition Timeframe_GetTo :: "('w, time) state \<Rightarrow> Timeframe \<Rightarrow> ('w, time) state" where
  "Timeframe_GetTo now t = (if tf_Recent t > 0 then now else ret (tf_To t))"

definition Analysis_GetFrom :: "('w, time) state \<Rightarrow> Analysis \<Rightarrow> ('w, time) state" where
  "Analysis_GetFrom now a = Timeframe_GetFrom now (ast_Timeframe (an_Status a))"

definition Analysis_GetTo :: "('w, time) state \<Rightarrow> Analysis \<Rightarrow> ('w, time) state" where
  "Analysis_GetTo now a = Timeframe_GetTo now (ast_Timeframe (an_Status a))"

definition EnsureTimeframeIsSet :: "('w, time) state \<Rightarrow> Analysis \<Rightarrow> ('w, Analysis) state" where
  "EnsureTimeframeIsSet now a =
     (let st = an_Status a; tf = ast_Timeframe st in
      if IsZero (tf_From tf) \<or> IsZero (tf_To tf) then do {
        f \<leftarrow> Timeframe_GetFrom now (as_Timeframe (an_Spec a));
        t \<leftarrow> Timeframe_GetTo now (as_Timeframe (an_Spec a));
        ret (a\<lparr>an_Status := st\<lparr>ast_Timeframe := tf\<lparr>tf_From := f, tf_To := t\<rparr>\<rparr>\<rparr>)
      } else ret a)"

section \<open>Validation\<close>

text \<open>
  The error that \<^verbatim>\<open>field.Invalid\<close> builds from the path, the offending value and the detail is the argument
  \<open>invalid\<close>.
\<close>

definition validateTimeframe ::
    "(string \<Rightarrow> Timeframe \<Rightarrow> string \<Rightarrow> error) \<Rightarrow> Analysis \<Rightarrow> error option" where
  "validateTimeframe invalid a =
     (let tf = as_Timeframe (an_Spec a) in
      if tf_Recent tf \<noteq> 0 then
        (if \<not> IsZero (tf_From tf) \<or> \<not> IsZero (tf_To tf) then
           Some (invalid ''spec.timeframe'' tf
             (''the field '' @ [CHR 0x27] @ ''recent'' @ [CHR 0x27] @ '' can not be used in conjunction with '' @
              [CHR 0x27] @ ''from'' @ [CHR 0x27] @ ''/'' @ [CHR 0x27] @ ''to'' @ [CHR 0x27]))
         else None)
      else if IsZero (tf_From tf) \<or> IsZero (tf_To tf) then
        Some (invalid ''spec.timeframe'' tf
          (''either '' @ [CHR 0x27] @ ''recent'' @ [CHR 0x27] @ '' or both '' @ [CHR 0x27] @ ''from'' @ [CHR 0x27] @
           '' and '' @ [CHR 0x27] @ ''to'' @ [CHR 0x27] @ ''  must be set''))
      else if \<not> tf_From tf < tf_To tf then
        Some (invalid ''spec.timeframe'' tf
          (''value of '' @ [CHR 0x27] @ ''to'' @ [CHR 0x27] @ '' must be a timestamp later than '' @
           [CHR 0x27] @ ''from'' @ [CHR 0x27]))
      else None)"

definition Analysis_ValidateCreate ::
    "(string \<Rightarrow> Timeframe \<Rightarrow> string \<Rightarrow> error) \<Rightarrow> Analysis \<Rightarrow> string list \<times> error option" where
  "Analysis_ValidateCreate invalid a =
     (case validateTimeframe invalid a of Some err \<Rightarrow> ([], Some err) | None \<Rightarrow> ([], None))"

definition Analysis_ValidateUpdate ::
    "(string \<Rightarrow> Timeframe \<Rightarrow> string \<Rightarrow> error) \<Rightarrow> Analysis \<Rightarrow> Analysis \<Rightarrow> string list \<times> error option" where
  "Analysis_ValidateUpdate invalid a old =
     (case validateTimeframe invalid a of Some err \<Rightarrow> ([], Some err) | None \<Rightarrow> ([], None))"

definition Analysis_ValidateDelete :: "Analysis \<Rightarrow> string list \<times> error option" where
  "Analysis_ValidateDelete a = ([], None)"

definition RangeValue_validate :: "(Quantity \<Rightarrow> float64) \<Rightarrow> RangeValue \<Rightarrow> error option" where
  "RangeValue_validate approx r =
     (if float_le (approx (rv_HighBound r)) (approx (rv_LowBound r)) then
        Some (Message ''RangeValue: lower bound of the range needs to be smaller than higher bound'')
      else None)"

definition Operator_validate :: "(Quantity \<Rightarrow> float64) \<Rightarrow> Operator \<Rightarrow> error option" where
  "Operator_validate approx ob =
     (let one = (\<lambda>b. if b then 1 else 0);
          counter = one (op_LessThan ob \<noteq> None) + one (op_LessThanOrEqual ob \<noteq> None) +
            one (op_GreaterThan ob \<noteq> None) + one (op_GreaterThanOrEqual ob \<noteq> None) +
            one (op_EqualTo ob \<noteq> None) + one (op_InRange ob \<noteq> None) + one (op_NotInRange ob \<noteq> None) :: int
      in if counter > 1 then Some (Message ''Operator: multiple operators can not be set'')
         else if counter = 0 then Some (Message ''Operator: no operator set'')
         else
           (case op_InRange ob of
              Some r \<Rightarrow> RangeValue_validate approx r
            | None \<Rightarrow>
                (case op_NotInRange ob of Some r \<Rightarrow> RangeValue_validate approx r | None \<Rightarrow> None)))"

definition Target_validate :: "(Quantity \<Rightarrow> float64) \<Rightarrow> Target \<Rightarrow> error option" where
  "Target_validate approx t =
     (case (case tg_Failure t of Some ob \<Rightarrow> Operator_validate approx ob | None \<Rightarrow> None) of
        Some err \<Rightarrow> Some err
      | None \<Rightarrow> (case tg_Warning t of Some ob \<Rightarrow> Operator_validate approx ob | None \<Rightarrow> None))"

definition Objective_validate :: "(Quantity \<Rightarrow> float64) \<Rightarrow> AnalysisObjective \<Rightarrow> error option" where
  "Objective_validate approx ob = Target_validate approx (ao_Target ob)"

definition TotalScore_validate :: "TotalScore \<Rightarrow> error option" where
  "TotalScore_validate s =
     (if ts_WarningPercentage s \<ge> ts_PassPercentage s then
        Some (Message ''warn percentage score cannot be higher or equal than Pass percentage score'')
      else None)"

text \<open>The loop over the objectives stops at the first error.\<close>

fun validate_objectives :: "(Quantity \<Rightarrow> float64) \<Rightarrow> AnalysisObjective list \<Rightarrow> error option" where
  "validate_objectives approx [] = None"
| "validate_objectives approx (ob # obs) =
     (case Objective_validate approx ob of Some err \<Rightarrow> Some err | None \<Rightarrow> validate_objectives approx obs)"

definition AnalysisDefinition_ValidateCreate ::
    "(Quantity \<Rightarrow> float64) \<Rightarrow> AnalysisDefinition \<Rightarrow> string list \<times> error option" where
  "AnalysisDefinition_ValidateCreate approx r =
     (case validate_objectives approx (ad_Objectives r) of
        Some err \<Rightarrow> ([], Some err)
      | None \<Rightarrow> ([], TotalScore_validate (ad_TotalScore r)))"

definition AnalysisDefinition_ValidateUpdate ::
    "(Quantity \<Rightarrow> float64) \<Rightarrow> AnalysisDefinition \<Rightarrow> AnalysisDefinition \<Rightarrow> string list \<times> error option" where
  "AnalysisDefinition_ValidateUpdate approx r old =
     (case validate_objectives approx (ad_Objectives r) of
        Some err \<Rightarrow> ([], Some err)
      | None \<Rightarrow> ([], TotalScore_validate (ad_TotalScore r)))"

definition AnalysisDefinition_ValidateDelete :: "AnalysisDefinition \<Rightarrow> string list \<times> error option" where
  "AnalysisDefinition_ValidateDelete r = ([], None)"

section \<open>Results\<close>

record OperatorResult =
  opr_Operator :: Operator
  opr_Fulfilled :: bool

record TargetResult =
  tr_FailResult :: OperatorResult
  tr_WarnResult :: OperatorResult
  tr_Warning :: bool
  tr_Pass :: bool

definition TargetResult_IsFail :: "TargetResult \<Rightarrow> bool" where
  [analysis_simps]: "TargetResult_IsFail t = opr_Fulfilled (tr_FailResult t)"

definition TargetResult_IsWarn :: "TargetResult \<Rightarrow> bool" where
  [analysis_simps]: "TargetResult_IsWarn t = opr_Fulfilled (tr_WarnResult t)"

record ObjectiveResult =
  obr_Result :: TargetResult
  obr_Objective :: AnalysisObjective
  obr_Value :: float64
  obr_Query :: string
  obr_Score :: float64
  obr_Error :: "error option"

definition ObjectiveResult_IsFail :: "ObjectiveResult \<Rightarrow> bool" where
  "ObjectiveResult_IsFail ob = float_eq (obr_Score ob) (Finite 0)"

definition ObjectiveResult_IsPass :: "ObjectiveResult \<Rightarrow> bool" where
  [analysis_simps]: "ObjectiveResult_IsPass ob = tr_Pass (obr_Result ob)"

definition ObjectiveResult_IsWarn :: "ObjectiveResult \<Rightarrow> bool" where
  [analysis_simps]: "ObjectiveResult_IsWarn ob = tr_Warning (obr_Result ob)"

record AnalysisResult =
  anr_ObjectiveResults :: "ObjectiveResult list"
  anr_TotalScore :: float64
  anr_MaximumScore :: float64
  anr_Pass :: bool
  anr_Warning :: bool

definition GetAchievedPercentage :: "AnalysisResult \<Rightarrow> float64" where
  "GetAchievedPercentage a =
     (if float_eq (anr_MaximumScore a) (Finite 0) then Finite 0
      else if float_eq (anr_TotalScore a) (anr_MaximumScore a) then Finite 100
      else float_mul (float_div (anr_TotalScore a) (anr_MaximumScore a)) (Finite 100))"

definition no_operator :: Operator where
  "no_operator = \<lparr>op_LessThanOrEqual = None, op_LessThan = None, op_GreaterThan = None,
     op_GreaterThanOrEqual = None, op_EqualTo = None, op_InRange = None, op_NotInRange = None\<rparr>"

definition no_operator_result :: OperatorResult where
  "no_operator_result = \<lparr>opr_Operator = no_operator, opr_Fulfilled = False\<rparr>"

definition no_target_result :: TargetResult where
  "no_target_result = \<lparr>tr_FailResult = no_operator_result, tr_WarnResult = no_operator_result,
     tr_Warning = False, tr_Pass = False\<rparr>"

section \<open>The evaluators\<close>

definition OperatorEvaluator_Evaluate :: "(Quantity \<Rightarrow> float64) \<Rightarrow> float64 \<Rightarrow> Operator \<Rightarrow> OperatorResult" where
  "OperatorEvaluator_Evaluate approx val t =
     \<lparr>opr_Operator = t, opr_Fulfilled =
       (case op_EqualTo t of Some v \<Rightarrow> float_eq val (GetFloatValue approx v) | None \<Rightarrow>
       (case op_LessThanOrEqual t of Some v \<Rightarrow> float_le val (GetFloatValue approx v) | None \<Rightarrow>
       (case op_LessThan t of Some v \<Rightarrow> float_less val (GetFloatValue approx v) | None \<Rightarrow>
       (case op_GreaterThanOrEqual t of Some v \<Rightarrow> float_le (GetFloatValue approx v) val | None \<Rightarrow>
       (case op_GreaterThan t of Some v \<Rightarrow> float_less (GetFloatValue approx v) val | None \<Rightarrow>
       (case op_InRange t of
          Some r \<Rightarrow> float_le (approx (rv_LowBound r)) val \<and> float_le val (approx (rv_HighBound r))
        | None \<Rightarrow>
       (case op_NotInRange t of
          Some r \<Rightarrow> float_less val (approx (rv_LowBound r)) \<or> float_less (approx (rv_HighBound r)) val
        | None \<Rightarrow> False)))))))\<rparr>"

definition TargetEvaluator_Evaluate :: "(Quantity \<Rightarrow> float64) \<Rightarrow> float64 \<Rightarrow> Target \<Rightarrow> TargetResult" where
  "TargetEvaluator_Evaluate approx val t =
     (let result = (case tg_Failure t of
            None \<Rightarrow> no_target_result
          | Some f \<Rightarrow> no_target_result\<lparr>tr_FailResult := OperatorEvaluator_Evaluate approx val f\<rparr>)
      in if tg_Failure t \<noteq> None \<and> TargetResult_IsFail result then result
         else
           (let result = (case tg_Warning t of
                  None \<Rightarrow> result
                | Some w \<Rightarrow> result\<lparr>tr_WarnResult := OperatorEvaluator_Evaluate approx val w\<rparr>)
            in if tg_Warning t \<noteq> None \<and> TargetResult_IsWarn result then result\<lparr>tr_Warning := True\<rparr>
               else result\<lparr>tr_Pass := True\<rparr>))"

definition ComputeKey :: "ObjectReference \<Rightarrow> string" where
  "ComputeKey obj =
     (if \<not> IsNamespaceSet obj then or_Name obj else or_Name obj @ ''-'' @ or_Namespace obj)"

type_synonym provider_values = "(string, ProviderResult) fmap"

definition getResultFromMap ::
    "(string \<Rightarrow> string) \<Rightarrow> provider_values \<Rightarrow> string \<Rightarrow> float64 \<times> string \<times> error option" where
  "getResultFromMap quote vals key =
     (case fmlookup vals key of
        None \<Rightarrow> (Finite 0, [], Some (Message (''required value '' @ [CHR 0x27] @ key @ [CHR 0x27] @ '' not available'')))
      | Some val \<Rightarrow>
          (case ParseFloat quote (pr_Value val) of
             Inl err \<Rightarrow> (Finite 0, pr_Query val, Some err)
           | Inr floatVal \<Rightarrow> (floatVal, pr_Query val, None)))"

definition ObjectiveEvaluator_Evaluate ::
    "(string \<Rightarrow> string) \<Rightarrow> (Quantity \<Rightarrow> float64) \<Rightarrow> provider_values \<Rightarrow> AnalysisObjective \<Rightarrow> ObjectiveResult" where
  "ObjectiveEvaluator_Evaluate quote approx vals obj =
     (case getResultFromMap quote vals (ComputeKey (ao_AnalysisValueTemplateRef obj)) of
        (floatVal, query, err) \<Rightarrow>
          (let result = \<lparr>obr_Result = no_target_result, obr_Objective = obj, obr_Value = Finite 0,
                 obr_Query = query, obr_Score = Finite 0, obr_Error = None\<rparr>
           in if err \<noteq> None then result\<lparr>obr_Error := err\<rparr>
              else
                (let result = result\<lparr>obr_Value := floatVal,
                       obr_Result := TargetEvaluator_Evaluate approx floatVal (ao_Target obj)\<rparr>
                 in if ObjectiveResult_IsPass result then result\<lparr>obr_Score := float_of_int (ao_Weight obj)\<rparr>
                    else if ObjectiveResult_IsWarn result then
                      result\<lparr>obr_Score := float_div (float_of_int (ao_Weight obj)) (Finite 2)\<rparr>
                    else result)))"

text \<open>
  One turn of the loop over the objectives: the result of the objective, the two scores and the flag.
\<close>

definition score_objective ::
    "(string \<Rightarrow> string) \<Rightarrow> (Quantity \<Rightarrow> float64) \<Rightarrow> provider_values \<Rightarrow> AnalysisObjective \<Rightarrow>
     AnalysisResult \<times> bool \<Rightarrow> AnalysisResult \<times> bool" where
  "score_objective quote approx vals objective acc =
     (case acc of (result, keyObjectiveFailed) \<Rightarrow>
       (let objectiveResult = ObjectiveEvaluator_Evaluate quote approx vals objective in
        (result\<lparr>anr_ObjectiveResults := anr_ObjectiveResults result @ [objectiveResult],
           anr_MaximumScore := float_add (anr_MaximumScore result) (float_of_int (ao_Weight objective)),
           anr_TotalScore := float_add (anr_TotalScore result) (obr_Score objectiveResult)\<rparr>,
         keyObjectiveFailed \<or> ObjectiveResult_IsFail objectiveResult \<and> ao_KeyObjective objective)))"

definition empty_result :: AnalysisResult where
  "empty_result = \<lparr>anr_ObjectiveResults = [], anr_TotalScore = Finite 0, anr_MaximumScore = Finite 0,
     anr_Pass = False, anr_Warning = False\<rparr>"

definition AnalysisEvaluator_Evaluate ::
    "(string \<Rightarrow> string) \<Rightarrow> (Quantity \<Rightarrow> float64) \<Rightarrow> provider_values \<Rightarrow> AnalysisDefinition \<Rightarrow> AnalysisResult" where
  "AnalysisEvaluator_Evaluate quote approx vals ad =
     (case fold (score_objective quote approx vals) (ad_Objectives ad) (empty_result, False) of
        (result, keyObjectiveFailed) \<Rightarrow>
          (let achievedPercentage = GetAchievedPercentage result;
               result =
                 (if float_le (float_of_int (ts_PassPercentage (ad_TotalScore ad))) achievedPercentage then
                    result\<lparr>anr_Pass := True\<rparr>
                  else if float_le (float_of_int (ts_WarningPercentage (ad_TotalScore ad))) achievedPercentage then
                    result\<lparr>anr_Warning := True\<rparr>
                  else result)
           in if keyObjectiveFailed then result\<lparr>anr_Pass := False, anr_Warning := False\<rparr> else result))"

section \<open>What the evaluators compute\<close>

text \<open>
  The reference: whether a criterion is set and met, the value of an objective, if it can be read, and
  twice the score it earns, an integer.
\<close>

definition met :: "(Quantity \<Rightarrow> float64) \<Rightarrow> float64 \<Rightarrow> Operator option \<Rightarrow> bool" where
  "met approx val criterion =
     (case criterion of None \<Rightarrow> False | Some f \<Rightarrow> opr_Fulfilled (OperatorEvaluator_Evaluate approx val f))"

definition objective_value :: "(string \<Rightarrow> string) \<Rightarrow> provider_values \<Rightarrow> AnalysisObjective \<Rightarrow> float64 option" where
  "objective_value quote vals obj =
     (case fmlookup vals (ComputeKey (ao_AnalysisValueTemplateRef obj)) of
        None \<Rightarrow> None
      | Some r \<Rightarrow> (case ParseFloat quote (pr_Value r) of Inl err \<Rightarrow> None | Inr v \<Rightarrow> Some v))"

definition double_score ::
    "(string \<Rightarrow> string) \<Rightarrow> (Quantity \<Rightarrow> float64) \<Rightarrow> provider_values \<Rightarrow> AnalysisObjective \<Rightarrow> int" where
  "double_score quote approx vals obj =
     (case objective_value quote vals obj of
        None \<Rightarrow> 0
      | Some v \<Rightarrow>
          if met approx v (tg_Failure (ao_Target obj)) then 0
          else if met approx v (tg_Warning (ao_Target obj)) then ao_Weight obj
          else 2 * ao_Weight obj)"

lemma target_result:
  "tr_Pass (TargetEvaluator_Evaluate approx v t) \<longleftrightarrow>
     \<not> met approx v (tg_Failure t) \<and> \<not> met approx v (tg_Warning t)"
  "tr_Warning (TargetEvaluator_Evaluate approx v t) \<longleftrightarrow>
     \<not> met approx v (tg_Failure t) \<and> met approx v (tg_Warning t)"
  by (auto simp: TargetEvaluator_Evaluate_def met_def no_target_result_def no_operator_result_def analysis_simps
      Let_def split: option.splits)

lemma objective_score:
  "obr_Score (ObjectiveEvaluator_Evaluate quote approx vals obj) =
     (case objective_value quote vals obj of
        None \<Rightarrow> Finite 0
      | Some v \<Rightarrow>
          if met approx v (tg_Failure (ao_Target obj)) then Finite 0
          else if met approx v (tg_Warning (ao_Target obj)) then float_div (float_of_int (ao_Weight obj)) (Finite 2)
          else float_of_int (ao_Weight obj))"
  by (simp add: ObjectiveEvaluator_Evaluate_def getResultFromMap_def objective_value_def target_result
      ObjectiveResult_IsPass_def ObjectiveResult_IsWarn_def Let_def split: option.splits sum.splits)

lemma objective_score_exact:
  assumes "\<bar>ao_Weight obj\<bar> < 2 ^ 52"
  shows "obr_Score (ObjectiveEvaluator_Evaluate quote approx vals obj) =
     Finite (of_int (double_score quote approx vals obj) / 2)"
  using float_of_small_int [OF assms] float_of_half [of "ao_Weight obj"] assms
  by (simp add: objective_score double_score_def split: option.splits)

lemma double_score_bounds:
  assumes "0 \<le> ao_Weight obj"
  shows "0 \<le> double_score quote approx vals obj" "double_score quote approx vals obj \<le> 2 * ao_Weight obj"
  using assms by (simp_all add: double_score_def split: option.splits)

lemma fold_score_objective:
  "fold (score_objective quote approx vals) objs (result, k) =
     (result\<lparr>anr_ObjectiveResults := anr_ObjectiveResults result @ map (ObjectiveEvaluator_Evaluate quote approx vals) objs,
        anr_MaximumScore := foldl float_add (anr_MaximumScore result) (map (float_of_int \<circ> ao_Weight) objs),
        anr_TotalScore := foldl float_add (anr_TotalScore result)
          (map (obr_Score \<circ> ObjectiveEvaluator_Evaluate quote approx vals) objs)\<rparr>,
      k \<or> (\<exists>ob\<in>set objs. ObjectiveResult_IsFail (ObjectiveEvaluator_Evaluate quote approx vals ob) \<and> ao_KeyObjective ob))"
  by (induction objs arbitrary: result k) (auto simp: score_objective_def Let_def)

text \<open>The scores that an analysis adds up, and its percentage.\<close>

definition scores ::
    "(string \<Rightarrow> string) \<Rightarrow> (Quantity \<Rightarrow> float64) \<Rightarrow> provider_values \<Rightarrow> AnalysisDefinition \<Rightarrow> AnalysisResult" where
  "scores quote approx vals ad =
     \<lparr>anr_ObjectiveResults = map (ObjectiveEvaluator_Evaluate quote approx vals) (ad_Objectives ad),
      anr_TotalScore = foldl float_add (Finite 0)
        (map (obr_Score \<circ> ObjectiveEvaluator_Evaluate quote approx vals) (ad_Objectives ad)),
      anr_MaximumScore = foldl float_add (Finite 0) (map (float_of_int \<circ> ao_Weight) (ad_Objectives ad)),
      anr_Pass = False, anr_Warning = False\<rparr>"

definition key_objective_failed ::
    "(string \<Rightarrow> string) \<Rightarrow> (Quantity \<Rightarrow> float64) \<Rightarrow> provider_values \<Rightarrow> AnalysisDefinition \<Rightarrow> bool" where
  "key_objective_failed quote approx vals ad \<longleftrightarrow>
     (\<exists>ob\<in>set (ad_Objectives ad). ao_KeyObjective ob \<and>
        ObjectiveResult_IsFail (ObjectiveEvaluator_Evaluate quote approx vals ob))"

lemma Evaluate_eq:
  "AnalysisEvaluator_Evaluate quote approx vals ad =
     (let s = scores quote approx vals ad;
          passed = float_le (float_of_int (ts_PassPercentage (ad_TotalScore ad))) (GetAchievedPercentage s);
          warned = float_le (float_of_int (ts_WarningPercentage (ad_TotalScore ad))) (GetAchievedPercentage s);
          failed = key_objective_failed quote approx vals ad
      in s\<lparr>anr_Pass := passed \<and> \<not> failed, anr_Warning := \<not> passed \<and> warned \<and> \<not> failed\<rparr>)"
  by (auto simp: AnalysisEvaluator_Evaluate_def fold_score_objective empty_result_def scores_def
      key_objective_failed_def Let_def)

text \<open>
  The target of an objective is missed when there is no value for it, when the value cannot be read, or
  when the value meets the failure criterion.
\<close>

definition target_missed ::
    "(string \<Rightarrow> string) \<Rightarrow> (Quantity \<Rightarrow> float64) \<Rightarrow> provider_values \<Rightarrow> AnalysisObjective \<Rightarrow> bool" where
  "target_missed quote approx vals ob \<longleftrightarrow>
     (case objective_value quote vals ob of
        None \<Rightarrow> True
      | Some v \<Rightarrow> met approx v (tg_Failure (ao_Target ob)))"

lemma weighty_objective_fails:
  assumes "0 < ao_Weight ob" and "ao_Weight ob < 2 ^ 52"
  shows "ObjectiveResult_IsFail (ObjectiveEvaluator_Evaluate quote approx vals ob) \<longleftrightarrow>
    target_missed quote approx vals ob"
proof -
  have "\<bar>ao_Weight ob\<bar> < 2 ^ 52" using assms by simp
  from objective_score_exact [OF this, of quote approx vals] show ?thesis
    using assms(1) unfolding ObjectiveResult_IsFail_def target_missed_def double_score_def
    by (simp add: float_eq_def split: option.splits)
qed

text \<open>
  C19: the verdict of an analysis whose key objectives have a positive weight. It has one result per
  objective, in order; its scores are the sums of the scores and of the weights; it passes when the
  achieved percentage reaches the pass percentage and no key objective has missed its target, and warns
  when, still with no such key objective, the percentage reaches only the warning percentage. (A key
  objective of weight zero fails every analysis, \<open>weightless_key_objective_fails\<close>.)
\<close>

theorem analysis_verdict:
  assumes "\<forall>ob\<in>set (ad_Objectives ad). ao_KeyObjective ob \<longrightarrow> 0 < ao_Weight ob \<and> ao_Weight ob < 2 ^ 52"
  shows "let r = AnalysisEvaluator_Evaluate quote approx vals ad;
       rs = map (ObjectiveEvaluator_Evaluate quote approx vals) (ad_Objectives ad);
       pct = GetAchievedPercentage r;
       pass = float_le (float_of_int (ts_PassPercentage (ad_TotalScore ad))) pct;
       warn = float_le (float_of_int (ts_WarningPercentage (ad_TotalScore ad))) pct;
       failed = (\<exists>ob\<in>set (ad_Objectives ad). ao_KeyObjective ob \<and> target_missed quote approx vals ob)
   in anr_ObjectiveResults r = rs \<and>
      anr_TotalScore r = foldl float_add (Finite 0) (map obr_Score rs) \<and>
      anr_MaximumScore r = foldl float_add (Finite 0) (map (\<lambda>ob. float_of_int (ao_Weight ob)) (ad_Objectives ad)) \<and>
      (anr_Pass r \<longleftrightarrow> pass \<and> \<not> failed) \<and>
      (anr_Warning r \<longleftrightarrow> \<not> pass \<and> warn \<and> \<not> failed)"
proof -
  have "GetAchievedPercentage (AnalysisEvaluator_Evaluate quote approx vals ad) =
      GetAchievedPercentage (scores quote approx vals ad)"
    by (simp add: Evaluate_eq Let_def GetAchievedPercentage_def)
  moreover have "key_objective_failed quote approx vals ad \<longleftrightarrow>
      (\<exists>ob\<in>set (ad_Objectives ad). ao_KeyObjective ob \<and> target_missed quote approx vals ob)"
    unfolding key_objective_failed_def using assms weighty_objective_fails by blast
  ultimately show ?thesis
    by (simp add: Evaluate_eq scores_def Let_def comp_def)
qed

section \<open>Scores are exact, and better values never hurt\<close>

lemma sum_halves:
  assumes "0 \<le> k" and "\<forall>m\<in>set ms. 0 \<le> m" and "k + sum_list ms < 2 ^ 53"
  shows "foldl float_add (Finite (of_int k / 2)) (map (\<lambda>m. Finite (of_int m / 2)) ms) =
     Finite (of_int (k + sum_list ms) / 2)"
  using assms
proof (induction ms arbitrary: k)
  case (Cons m ms)
  have "0 \<le> sum_list ms" using Cons.prems(2) by (simp add: sum_list_nonneg)
  then have "float_of_rat (of_int (k + m) / 2) = Finite (of_int (k + m) / 2)"
    using Cons.prems by (intro float_of_half) auto
  then show ?case
    using Cons.IH [of "k + m"] Cons.prems by (simp add: add_divide_distrib add.assoc)
qed simp

definition weight_sum :: "AnalysisDefinition \<Rightarrow> int" where
  "weight_sum ad = sum_list (map ao_Weight (ad_Objectives ad))"

definition double_total ::
    "(string \<Rightarrow> string) \<Rightarrow> (Quantity \<Rightarrow> float64) \<Rightarrow> provider_values \<Rightarrow> AnalysisDefinition \<Rightarrow> int" where
  "double_total quote approx vals ad = sum_list (map (double_score quote approx vals) (ad_Objectives ad))"

definition modest_weights :: "AnalysisDefinition \<Rightarrow> bool" where
  "modest_weights ad \<longleftrightarrow> (\<forall>ob\<in>set (ad_Objectives ad). 0 \<le> ao_Weight ob) \<and> weight_sum ad < 2 ^ 52"

lemma modest_weight:
  assumes "modest_weights ad" and "ob \<in> set (ad_Objectives ad)"
  shows "0 \<le> ao_Weight ob" "ao_Weight ob < 2 ^ 52"
proof -
  show "0 \<le> ao_Weight ob" using assms by (simp add: modest_weights_def)
  have "\<And>x. x \<in> set (map ao_Weight (ad_Objectives ad)) \<Longrightarrow> 0 \<le> x"
    using assms(1) by (auto simp: modest_weights_def)
  from member_le_sum_list [OF _ this, of "ao_Weight ob" "map ao_Weight (ad_Objectives ad)"] assms
  show "ao_Weight ob < 2 ^ 52" by (auto simp: modest_weights_def weight_sum_def)
qed

lemma double_total_bounds:
  assumes "modest_weights ad"
  shows "0 \<le> double_total quote approx vals ad" "double_total quote approx vals ad \<le> 2 * weight_sum ad"
proof -
  note b = double_score_bounds [OF modest_weight(1) [OF assms]]
  show "0 \<le> double_total quote approx vals ad"
    unfolding double_total_def by (rule sum_list_nonneg) (auto simp: b)
  have "double_total quote approx vals ad \<le> sum_list (map (\<lambda>ob. 2 * ao_Weight ob) (ad_Objectives ad))"
    unfolding double_total_def by (rule sum_list_mono) (simp add: b)
  then show "double_total quote approx vals ad \<le> 2 * weight_sum ad"
    by (simp add: weight_sum_def sum_list_const_mult)
qed

lemma scores_exact:
  assumes "modest_weights ad"
  shows "anr_MaximumScore (scores quote approx vals ad) = Finite (of_int (weight_sum ad))"
    and "anr_TotalScore (scores quote approx vals ad) = Finite (of_int (double_total quote approx vals ad) / 2)"
proof -
  note b = modest_weight [OF assms]
  have "map (float_of_int \<circ> ao_Weight) (ad_Objectives ad) =
      map (\<lambda>m. Finite (of_int m / 2)) (map (\<lambda>ob. 2 * ao_Weight ob) (ad_Objectives ad))"
    using b by (auto simp: float_of_small_int)
  moreover have "sum_list (map (\<lambda>ob. 2 * ao_Weight ob) (ad_Objectives ad)) = 2 * weight_sum ad"
    by (simp add: weight_sum_def sum_list_const_mult)
  ultimately show "anr_MaximumScore (scores quote approx vals ad) = Finite (of_int (weight_sum ad))"
    using sum_halves [of 0 "map (\<lambda>ob. 2 * ao_Weight ob) (ad_Objectives ad)"] assms b
    by (simp add: scores_def modest_weights_def del: map_map)
  have "map (obr_Score \<circ> ObjectiveEvaluator_Evaluate quote approx vals) (ad_Objectives ad) =
      map (\<lambda>m. Finite (of_int m / 2)) (map (double_score quote approx vals) (ad_Objectives ad))"
    using b by (auto intro!: objective_score_exact)
  then show "anr_TotalScore (scores quote approx vals ad) = Finite (of_int (double_total quote approx vals ad) / 2)"
    using sum_halves [of 0 "map (double_score quote approx vals) (ad_Objectives ad)"] assms b
      double_score_bounds double_total_bounds [OF assms, of quote approx vals]
    by (simp add: scores_def double_total_def modest_weights_def del: map_map)
qed

text \<open>
  With weights that are not negative and add up to less than \<open>2\<^sup>5\<^sup>2\<close> nothing is rounded while the scores
  are summed: the maximum is the sum of the weights, the total is the weight of every objective that
  passed and half the weight of every one that warned, an objective whose value is missing or cannot be
  read earns nothing, and the total lies between zero and the maximum.
\<close>

theorem analysis_scores_exact:
  assumes "modest_weights ad"
  shows "let r = AnalysisEvaluator_Evaluate quote approx vals ad in
     anr_MaximumScore r = Finite (of_int (sum_list (map ao_Weight (ad_Objectives ad)))) \<and>
     anr_TotalScore r = Finite (of_int (sum_list (map (double_score quote approx vals) (ad_Objectives ad))) / 2) \<and>
     float_le (Finite 0) (anr_TotalScore r) \<and> float_le (anr_TotalScore r) (anr_MaximumScore r)"
  using scores_exact [OF assms, of quote approx vals] double_total_bounds [OF assms, of quote approx vals]
  by (simp add: Evaluate_eq Let_def weight_sum_def double_total_def field_simps)

lemma percentage_exact:
  assumes "modest_weights ad"
  shows "GetAchievedPercentage (scores quote approx vals ad) =
     (if weight_sum ad = 0 then Finite 0
      else if double_total quote approx vals ad = 2 * weight_sum ad then Finite 100
      else float_mul (float_div (Finite (of_int (double_total quote approx vals ad) / 2)) (Finite (of_int (weight_sum ad))))
        (Finite 100))"
proof -
  have "(of_int (double_total quote approx vals ad) / 2 :: rat) = of_int (weight_sum ad) \<longleftrightarrow>
      (of_int (double_total quote approx vals ad) :: rat) = of_int (2 * weight_sum ad)"
    by (simp add: field_simps)
  then show ?thesis
    by (simp add: GetAchievedPercentage_def scores_exact [OF assms] float_eq_def of_int_eq_iff del: of_int_mult)
qed

lemma percentage_le_100:
  assumes "0 < c" and "x \<le> c"
  shows "float_le (float_mul (float_div (Finite x) (Finite c)) (Finite 100)) (Finite 100)"
proof -
  have "float_div (Finite c) (Finite c) = Finite 1" using assms float_of_half [of 2] by simp
  moreover have "float_mul (Finite 1) (Finite 100) = Finite 100" using float_of_half [of 200] by simp
  ultimately show ?thesis using float_mul_mono [OF float_div_mono [OF assms(2,1)], of 100] by simp
qed

lemma percentage_mono:
  assumes "modest_weights ad" and "double_total quote approx vals ad \<le> double_total quote approx vals' ad"
  shows "float_le (GetAchievedPercentage (scores quote approx vals ad)) (GetAchievedPercentage (scores quote approx vals' ad))"
proof -
  let ?t = "double_total quote approx vals ad" and ?t' = "double_total quote approx vals' ad"
  have le: "?t' \<le> 2 * weight_sum ad" "?t \<le> 2 * weight_sum ad" "0 \<le> weight_sum ad"
    using double_total_bounds [OF assms(1), of quote approx vals] double_total_bounds [OF assms(1), of quote approx vals']
    by simp_all
  have "(of_int ?t / 2 :: rat) \<le> of_int ?t' / 2" using assms(2) by (simp add: divide_right_mono)
  moreover have "weight_sum ad \<noteq> 0 \<Longrightarrow> (0 :: rat) < of_int (weight_sum ad)" using le by simp
  moreover have "(of_int ?t / 2 :: rat) \<le> of_int (weight_sum ad)"
    using le(2) of_int_le_iff [where 'a = rat, of ?t "2 * weight_sum ad"] by simp
  ultimately show ?thesis using assms(2) le
    by (auto simp: percentage_exact [OF assms(1)] simp del: float_div.simps float_mul.simps
        intro!: percentage_le_100 float_mul_mono float_div_mono)
qed

definition verdict_rank :: "AnalysisResult \<Rightarrow> nat" where
  "verdict_rank r = (if anr_Pass r then 2 else if anr_Warning r then 1 else 0)"

lemma failed_objective:
  assumes "modest_weights ad" and "ob \<in> set (ad_Objectives ad)"
  shows "ObjectiveResult_IsFail (ObjectiveEvaluator_Evaluate quote approx vals ob) \<longleftrightarrow>
     double_score quote approx vals ob = 0"
  using modest_weight [OF assms]
  by (subst ObjectiveResult_IsFail_def, subst objective_score_exact) (auto simp: float_eq_def)

text \<open>
  C20: better values never give a worse verdict. When every objective scores at least as much with the second
  set of values as with the first, the percentage is not smaller and the verdict, failure, warning or pass,
  is not worse, although the percentage is computed with two roundings.
\<close>

theorem better_values_not_worse:
  assumes "modest_weights ad"
    and "\<forall>ob\<in>set (ad_Objectives ad). double_score quote approx vals ob \<le> double_score quote approx vals' ob"
  shows "float_le (GetAchievedPercentage (AnalysisEvaluator_Evaluate quote approx vals ad))
       (GetAchievedPercentage (AnalysisEvaluator_Evaluate quote approx vals' ad)) \<and>
     verdict_rank (AnalysisEvaluator_Evaluate quote approx vals ad) \<le>
       verdict_rank (AnalysisEvaluator_Evaluate quote approx vals' ad)"
proof -
  have "double_total quote approx vals ad \<le> double_total quote approx vals' ad"
    unfolding double_total_def using assms(2) by (auto intro: sum_list_mono)
  from percentage_mono [OF assms(1) this]
  have le: "float_le (GetAchievedPercentage (scores quote approx vals ad)) (GetAchievedPercentage (scores quote approx vals' ad))" .
  have pct: "GetAchievedPercentage (AnalysisEvaluator_Evaluate quote approx v ad) =
      GetAchievedPercentage (scores quote approx v ad)" for v
    by (simp add: Evaluate_eq Let_def GetAchievedPercentage_def)
  have key: "key_objective_failed quote approx vals ad" if failed: "key_objective_failed quote approx vals' ad"
  proof -
    from failed obtain ob where ob: "ob \<in> set (ad_Objectives ad)" "ao_KeyObjective ob"
      "double_score quote approx vals' ob = 0"
      using failed_objective [OF assms(1)] by (auto simp: key_objective_failed_def)
    with assms(2) double_score_bounds(1) [OF modest_weight(1) [OF assms(1) ob(1)], of quote approx vals]
    have "double_score quote approx vals ob = 0" by fastforce
    with ob show ?thesis using failed_objective [OF assms(1)] by (auto simp: key_objective_failed_def)
  qed
  have "verdict_rank (AnalysisEvaluator_Evaluate quote approx vals ad) \<le>
      verdict_rank (AnalysisEvaluator_Evaluate quote approx vals' ad)"
    using key float_le_trans [OF _ le] by (auto simp: verdict_rank_def Evaluate_eq Let_def)
  with le show ?thesis by (simp only: pct)
qed

text \<open>
  A key objective of weight zero makes every analysis fail, whatever its value: an objective is taken to
  have failed when its score is zero.
\<close>

theorem weightless_key_objective_fails:
  assumes "ob \<in> set (ad_Objectives ad)" and "ao_KeyObjective ob" and "ao_Weight ob = 0"
  shows "let r = AnalysisEvaluator_Evaluate quote approx vals ad in \<not> anr_Pass r \<and> \<not> anr_Warning r"
proof -
  have "obr_Score (ObjectiveEvaluator_Evaluate quote approx vals ob) = Finite 0"
    using assms(3) objective_score_exact [of ob quote approx vals] double_score_bounds [of ob quote approx vals] by simp
  then have "key_objective_failed quote approx vals ad"
    using assms by (auto simp: key_objective_failed_def ObjectiveResult_IsFail_def float_eq_def)
  then show ?thesis by (simp add: Evaluate_eq Let_def)
qed

text \<open>
  A value that is not a number meets no criterion, so that its objective passes with the full score.
\<close>

theorem not_a_number_passes:
  assumes "objective_value quote vals obj = Some NaN"
  shows "obr_Score (ObjectiveEvaluator_Evaluate quote approx vals obj) = float_of_int (ao_Weight obj)"
proof -
  have "\<not> met approx NaN c" for c
    by (auto simp: met_def OperatorEvaluator_Evaluate_def float_eq_def split: option.splits)
  with assms show ?thesis by (simp add: objective_score)
qed

text \<open>
  An analysis in which every objective passes, that is meets neither its failure nor its warning
  criterion, passes, when its definition is accepted, some weight is positive, no key objective has weight
  zero and the pass percentage is at most 100.
\<close>

theorem all_objectives_pass:
  assumes "modest_weights ad" and "0 < weight_sum ad" and "ts_PassPercentage (ad_TotalScore ad) \<le> 100"
    and "\<bar>ts_PassPercentage (ad_TotalScore ad)\<bar> < 2 ^ 52"
    and "\<forall>ob\<in>set (ad_Objectives ad). ObjectiveResult_IsPass (ObjectiveEvaluator_Evaluate quote approx vals ob)"
    and "\<forall>ob\<in>set (ad_Objectives ad). ao_KeyObjective ob \<longrightarrow> ao_Weight ob \<noteq> 0"
  shows "anr_Pass (AnalysisEvaluator_Evaluate quote approx vals ad)"
proof -
  have ds: "double_score quote approx vals ob = 2 * ao_Weight ob" if "ob \<in> set (ad_Objectives ad)" for ob
    using assms(5) that
    by (auto simp: double_score_def ObjectiveResult_IsPass_def ObjectiveEvaluator_Evaluate_def getResultFromMap_def
        objective_value_def target_result no_target_result_def Let_def split: option.splits sum.splits if_splits)
  then have "double_total quote approx vals ad = sum_list (map (\<lambda>ob. 2 * ao_Weight ob) (ad_Objectives ad))"
    unfolding double_total_def by (metis (no_types, lifting) map_eq_conv)
  then have "double_total quote approx vals ad = 2 * weight_sum ad"
    by (simp add: weight_sum_def sum_list_const_mult)
  then have "GetAchievedPercentage (scores quote approx vals ad) = Finite 100"
    using assms(2) by (simp add: percentage_exact [OF assms(1)])
  moreover have "float_of_int (ts_PassPercentage (ad_TotalScore ad)) = Finite (of_int (ts_PassPercentage (ad_TotalScore ad)))"
    using assms(4) by (rule float_of_small_int)
  moreover have "\<not> key_objective_failed quote approx vals ad"
    using assms(6) failed_objective [OF assms(1)] ds by (auto simp: key_objective_failed_def)
  ultimately show ?thesis
    using assms(3) of_int_le_iff [where 'a = rat, of "ts_PassPercentage (ad_TotalScore ad)" 100]
    by (simp add: Evaluate_eq Let_def)
qed

section \<open>Accepted definitions\<close>

definition operators_set :: "Operator \<Rightarrow> nat" where
  "operators_set p = length (filter id [op_LessThan p \<noteq> None, op_LessThanOrEqual p \<noteq> None, op_GreaterThan p \<noteq> None,
     op_GreaterThanOrEqual p \<noteq> None, op_EqualTo p \<noteq> None, op_InRange p \<noteq> None, op_NotInRange p \<noteq> None])"

lemma Operator_validate_None:
  "Operator_validate approx p = None \<longleftrightarrow>
     operators_set p = 1 \<and>
     (\<forall>r. op_InRange p = Some r \<or> op_NotInRange p = Some r \<longrightarrow>
        \<not> float_le (approx (rv_HighBound r)) (approx (rv_LowBound r)))"
  by (cases "op_InRange p"; cases "op_NotInRange p")
    (auto simp: Operator_validate_def operators_set_def RangeValue_validate_def)

lemma validate_objectives_None:
  "validate_objectives approx objs = None \<longleftrightarrow> (\<forall>ob\<in>set objs. Objective_validate approx ob = None)"
  by (induction objs) (auto split: option.splits)

lemma Target_validate_None:
  "Target_validate approx t = None \<longleftrightarrow>
     (\<forall>p. tg_Failure t = Some p \<or> tg_Warning t = Some p \<longrightarrow> Operator_validate approx p = None)"
  by (auto simp: Target_validate_def split: option.splits)

text \<open>
  C24: the webhook accepts a definition exactly when the warning percentage is below the pass percentage and
  every criterion of every objective has exactly one operator, a range being one whose lower bound is
  not at or above its upper bound; it answers an update as it answers a creation, and never refuses a
  deletion.
\<close>

theorem definition_accepted_iff:
  "(snd (AnalysisDefinition_ValidateCreate approx ad) = None \<longleftrightarrow>
      ts_WarningPercentage (ad_TotalScore ad) < ts_PassPercentage (ad_TotalScore ad) \<and>
      (\<forall>ob\<in>set (ad_Objectives ad). \<forall>p. tg_Failure (ao_Target ob) = Some p \<or> tg_Warning (ao_Target ob) = Some p \<longrightarrow>
         operators_set p = 1 \<and>
         (\<forall>r. op_InRange p = Some r \<or> op_NotInRange p = Some r \<longrightarrow>
            \<not> float_le (approx (rv_HighBound r)) (approx (rv_LowBound r))))) \<and>
   AnalysisDefinition_ValidateUpdate approx ad old = AnalysisDefinition_ValidateCreate approx ad \<and>
   snd (AnalysisDefinition_ValidateDelete ad) = None"
proof -
  have "snd (AnalysisDefinition_ValidateCreate approx ad) = None \<longleftrightarrow>
      TotalScore_validate (ad_TotalScore ad) = None \<and> validate_objectives approx (ad_Objectives ad) = None"
    by (auto simp: AnalysisDefinition_ValidateCreate_def split: option.splits)
  moreover have "AnalysisDefinition_ValidateUpdate approx ad old = AnalysisDefinition_ValidateCreate approx ad"
    by (simp add: AnalysisDefinition_ValidateUpdate_def AnalysisDefinition_ValidateCreate_def)
  moreover have "TotalScore_validate (ad_TotalScore ad) = None \<longleftrightarrow>
      ts_WarningPercentage (ad_TotalScore ad) < ts_PassPercentage (ad_TotalScore ad)"
    by (auto simp: TotalScore_validate_def)
  ultimately show ?thesis
    by (simp add: validate_objectives_None Objective_validate_def Target_validate_None Operator_validate_None
        AnalysisDefinition_ValidateDelete_def)
qed

text \<open>The two range operators are opposites on numbers.\<close>

lemma ranges_opposite:
  assumes "val \<noteq> NaN" and "approx (rv_LowBound r) \<noteq> NaN" and "approx (rv_HighBound r) \<noteq> NaN"
  shows "opr_Fulfilled (OperatorEvaluator_Evaluate approx val (no_operator\<lparr>op_NotInRange := Some r\<rparr>)) \<longleftrightarrow>
     \<not> opr_Fulfilled (OperatorEvaluator_Evaluate approx val (no_operator\<lparr>op_InRange := Some r\<rparr>))"
  using assms float_not_le by (simp add: OperatorEvaluator_Evaluate_def no_operator_def)

text \<open>
  The time frame of an accepted analysis. With a clock that does not run backwards, an analysis whose
  time frame is accepted and whose \<^verbatim>\<open>recent\<close> is not negative gets, the first time, a status whose start lies
  before its end, at least \<^verbatim>\<open>recent\<close> apart, and every later call leaves it alone without reading the clock.
\<close>

theorem timeframe_stays:
  assumes "validateTimeframe invalid a = None" and "0 \<le> tf_Recent (as_Timeframe (an_Spec a))"
    and "IsZero (tf_From (ast_Timeframe (an_Status a)))"
    and "run_state now w = (n, w')" and "run_state now w' = (n', w'')" and "n \<le> n'"
    and "tf_Recent (as_Timeframe (an_Spec a)) < n"
  shows "let (a', v) = run_state (EnsureTimeframeIsSet now a) w; tf = ast_Timeframe (an_Status a') in
     tf_From tf < tf_To tf \<and> tf_Recent (as_Timeframe (an_Spec a)) \<le> tf_To tf - tf_From tf \<and>
     run_state (EnsureTimeframeIsSet now a') v = (a', v)"
  using assms
  by (auto simp: validateTimeframe_def EnsureTimeframeIsSet_def Timeframe_GetFrom_def Timeframe_GetTo_def Let_def
      split: if_splits)

text \<open>
  A negative \<^verbatim>\<open>recent\<close> is accepted by the webhook, and the time frame of such an analysis is never set: both
  ends stay the zero time.
\<close>

theorem negative_recent_accepted:
  assumes "tf_Recent (as_Timeframe (an_Spec a)) < 0" and "as_Timeframe (an_Spec a) = \<lparr>tf_From = 0, tf_To = 0, tf_Recent = d\<rparr>"
    and "IsZero (tf_From (ast_Timeframe (an_Status a)))"
  shows "validateTimeframe invalid a = None \<and>
     (let (a', v) = run_state (EnsureTimeframeIsSet now a) w in
      tf_From (ast_Timeframe (an_Status a')) = 0 \<and> tf_To (ast_Timeframe (an_Status a')) = 0)"
  using assms
  by (auto simp: validateTimeframe_def EnsureTimeframeIsSet_def Timeframe_GetFrom_def Timeframe_GetTo_def Let_def)

end
