(* ===== verification/Metrics.thy ===== *)
theory Metrics
  imports Analysis "HOL-Library.Multiset"
begin

text \<open>
  KeptnMetrics: the resources of the metrics operator with the admission webhook, the choice of a provider,
  the aggregation of values and the controller that keeps the value of a metric up to date
  (\<^verbatim>\<open>metrics-operator/controllers/metrics\<close>).  What a provider answers to a query, the API server and the clock
  are arguments.
\<close>

section \<open>Durations\<close>

text \<open>
  \<^verbatim>\<open>time.ParseDuration\<close>: a sign and a sequence of decimal numbers with units, or the number zero alone.  The
  quoting of the messages is the argument \<open>quote\<close>.
\<close>

fun leadingInt :: "int \<Rightarrow> string \<Rightarrow> (int \<times> string) option" where
  "leadingInt x [] = Some (x, [])"
| "leadingInt x (c # s) =
     (if \<not> is_dec c then Some (x, c # s)
      else if x > 2 ^ 63 div 10 then None
      else
        (let y = x * 10 + digit_of c in
         if y > 2 ^ 63 then None else leadingInt y s))"

fun leadingFraction :: "int \<Rightarrow> int \<Rightarrow> bool \<Rightarrow> string \<Rightarrow> int \<times> int \<times> string" where
  "leadingFraction x scale overflow [] = (x, scale, [])"
| "leadingFraction x scale overflow (c # s) =
     (if \<not> is_dec c then (x, scale, c # s)
      else if overflow then leadingFraction x scale True s
      else if x > (2 ^ 63 - 1) div 10 then leadingFraction x scale True s
      else
        (let y = x * 10 + digit_of c in
         if y > 2 ^ 63 then leadingFraction x scale True s else leadingFraction y (scale * 10) False s))"

definition unitMap :: "string \<Rightarrow> int option" where
  "unitMap u =
     (if u = ''ns'' then Some 1
      else if u = ''us'' then Some 1000
      else if u = [CHR 0xC2, CHR 0xB5, CHR ''s''] then Some 1000
      else if u = [CHR 0xCE, CHR 0xBC, CHR ''s''] then Some 1000
      else if u = ''ms'' then Some 1000000
      else if u = ''s'' then Some second
      else if u = ''m'' then Some (60 * second)
      else if u = ''h'' then Some (60 * 60 * second)
      else None)"

definition is_unit_char :: "char \<Rightarrow> bool" where
  "is_unit_char c \<longleftrightarrow> c \<noteq> CHR ''.'' \<and> \<not> is_dec c"

text \<open>The part of a value after the point, in units: a product of \<^verbatim>\<open>float64\<close> numbers that is cut off.\<close>

definition fraction_of_unit :: "int \<Rightarrow> int \<Rightarrow> int \<Rightarrow> int" where
  "fraction_of_unit f unit scale =
     (case float_mul (float_of_int f) (float_div (float_of_int unit) (float_of_int scale)) of
        Finite q \<Rightarrow> \<lfloor>q\<rfloor>
      | _ \<Rightarrow> 0)"

text \<open>A number: the digits before the point, those after it with their scale, and what follows.\<close>

definition duration_number :: "string \<Rightarrow> (int \<times> int \<times> int \<times> string) option" where
  "duration_number s =
     (if s = [] \<or> \<not> (hd s = CHR ''.'' \<or> is_dec (hd s)) then None
      else
        (case leadingInt 0 s of
           None \<Rightarrow> None
         | Some (v, t) \<Rightarrow>
             if t \<noteq> [] \<and> hd t = CHR ''.'' then
               (case leadingFraction 0 1 False (tl t) of
                  (f, scale, u) \<Rightarrow>
                    if length s = length t \<and> length (tl t) = length u then None else Some (v, f, scale, u))
             else if length s = length t then None
             else Some (v, 0, 1, t)))"

text \<open>A number with its unit: the nanoseconds and the rest, or what is wrong.\<close>

definition duration_item :: "(string \<Rightarrow> string) \<Rightarrow> string \<Rightarrow> string \<Rightarrow> error + int \<times> string" where
  "duration_item quote orig s =
     (let invalid = Inl (Message (''time: invalid duration '' @ quote orig)) in
      case duration_number s of
        None \<Rightarrow> invalid
      | Some (v, f, scale, t) \<Rightarrow>
          (let u = takeWhile is_unit_char t; rest = dropWhile is_unit_char t in
           if u = [] then Inl (Message (''time: missing unit in duration '' @ quote orig))
           else
             (case unitMap u of
                None \<Rightarrow> Inl (Message (''time: unknown unit '' @ quote u @ '' in duration '' @ quote orig))
              | Some unit \<Rightarrow>
                  if v > 2 ^ 63 div unit then invalid
                  else
                    (let w = v * unit + (if f > 0 then fraction_of_unit f unit scale else 0) in
                     if w > 2 ^ 63 then invalid else Inr (w, rest)))))"

lemma leadingInt_length: "leadingInt x s = Some (y, t) \<Longrightarrow> length t \<le> length s"
  by (induction x s rule: leadingInt.induct) (auto simp: Let_def split: if_splits)

lemma leadingFraction_length: "leadingFraction x sc b s = (y, sc', t) \<Longrightarrow> length t \<le> length s"
  by (induction x sc b s rule: leadingFraction.induct) (auto simp: Let_def split: if_splits)

lemma duration_number_length:
  assumes "duration_number s = Some (v, f, scale, t)"
  shows "length t \<le> length s"
  using assms leadingInt_length [of 0 s] leadingFraction_length [of 0 1 False]
  by (fastforce simp: duration_number_def split: if_splits option.splits prod.splits)

lemma duration_item_length:
  assumes "duration_item quote orig s = Inr (w, rest)"
  shows "length rest < length s"
proof -
  obtain v f scale t where t: "duration_number s = Some (v, f, scale, t)"
    using assms by (auto simp: duration_item_def Let_def split: option.splits)
  then have u: "takeWhile is_unit_char t \<noteq> []" "rest = dropWhile is_unit_char t"
    using assms by (auto simp: duration_item_def Let_def split: option.splits if_splits)
  have "length t = length (takeWhile is_unit_char t) + length rest"
    unfolding u(2) by (metis length_append takeWhile_dropWhile_id)
  with u duration_number_length [OF t] show ?thesis by (cases "takeWhile is_unit_char t") auto
qed

function duration_items :: "(string \<Rightarrow> string) \<Rightarrow> string \<Rightarrow> int \<Rightarrow> string \<Rightarrow> error + int" where
  "duration_items quote orig d s =
     (if s = [] then Inr d
      else
        (case duration_item quote orig s of
           Inl err \<Rightarrow> Inl err
         | Inr (w, rest) \<Rightarrow>
             (let d' = (d + w) mod 2 ^ 64 in
              if d' > 2 ^ 63 then Inl (Message (''time: invalid duration '' @ quote orig))
              else duration_items quote orig d' rest)))"
  by pat_completeness auto

termination
  by (relation "measure (\<lambda>(_, _, _, s). length s)") (auto dest: duration_item_length)

declare duration_items.simps [simp del]

definition ParseDuration :: "(string \<Rightarrow> string) \<Rightarrow> string \<Rightarrow> error + duration" where
  "ParseDuration quote orig =
     (let (neg, s) = drop_sign orig in
      if s = ''0'' then Inr 0
      else if s = [] then Inl (Message (''time: invalid duration '' @ quote orig))
      else
        (case duration_items quote orig 0 s of
           Inl err \<Rightarrow> Inl err
         | Inr d \<Rightarrow>
             if neg then Inr (- d)
             else if d > 2 ^ 63 - 1 then Inl (Message (''time: invalid duration '' @ quote orig))
             else Inr d))"

section \<open>Resources\<close>

record SecretKeySelector =
  sks_Name :: string
  sks_Key :: string
  sks_Optional :: "bool option"

record KeptnMetricsProvider =
  kmp_meta :: ObjectMeta
  kmp_Type :: string
  kmp_TargetServer :: string
  kmp_SecretKeyRef :: SecretKeySelector
  kmp_InsecureSkipTlsVerify :: bool

definition no_secret :: SecretKeySelector where
  "no_secret = \<lparr>sks_Name = [], sks_Key = [], sks_Optional = None\<rparr>"

text \<open>\<^verbatim>\<open>strings.TrimSpace\<close> on ASCII space; names of secrets have no other characters.\<close>

definition is_space :: "char \<Rightarrow> bool" where
  "is_space c \<longleftrightarrow> c \<in> set [CHR '' '', CHR 0x09, CHR 0x0A, CHR 0x0B, CHR 0x0C, CHR 0x0D]"

definition trim_space :: "string \<Rightarrow> string" where
  "trim_space s = rev (dropWhile is_space (rev (dropWhile is_space s)))"

definition HasSecretDefined :: "KeptnMetricsProvider \<Rightarrow> bool" where
  "HasSecretDefined p =
     (if kmp_SecretKeyRef p = no_secret then False
      else if trim_space (sks_Name (kmp_SecretKeyRef p)) = [] then False
      else True)"

definition HasSecretKeyDefined :: "KeptnMetricsProvider \<Rightarrow> bool" where
  "HasSecretKeyDefined p =
     (if kmp_SecretKeyRef p = no_secret then False
      else if trim_space (sks_Key (kmp_SecretKeyRef p)) = [] then False
      else True)"

definition KeptnMetricsProvider_GetType :: "KeptnMetricsProvider \<Rightarrow> string" where
  "KeptnMetricsProvider_GetType p = (if kmp_Type p \<noteq> [] then kmp_Type p else om_Name (kmp_meta p))"

record RangeSpec =
  rs_Interval :: string
  rs_Step :: string
  rs_Aggregation :: string
  rs_StoredResults :: int

record IntervalResult =
  ir_Value :: string
  ir_Range :: "RangeSpec option"
  ir_LastUpdated :: time
  ir_ErrMsg :: string

record MetricStatus =
  ms_Value :: string
  ms_RawValue :: string
  ms_LastUpdated :: time
  ms_ErrMsg :: string
  ms_IntervalResults :: "IntervalResult list"

record Metric =
  mt_meta :: ObjectMeta
  mt_Provider :: string
  mt_Query :: string
  mt_FetchIntervalSeconds :: int
  mt_Range :: "RangeSpec option"
  mt_Status :: MetricStatus

definition IsStatusSet :: "Metric \<Rightarrow> bool" where
  "IsStatusSet s \<longleftrightarrow> ms_Value (mt_Status s) \<noteq> []"

section \<open>Validation\<close>

datatype FieldError =
    FieldInvalid string string string
  | FieldRequired string string

definition unparsable :: string where
  "unparsable = ''Forbidden! The time interval cannot be parsed. Please check for suitable conventions''"

definition validateRangeInterval :: "(string \<Rightarrow> string) \<Rightarrow> Metric \<Rightarrow> FieldError option" where
  "validateRangeInterval quote s =
     (case mt_Range s of
        None \<Rightarrow> None
      | Some r \<Rightarrow>
          (case ParseDuration quote (rs_Interval r) of
             Inl err \<Rightarrow> Some (FieldInvalid ''spec.range.interval'' (rs_Interval r) unparsable)
           | Inr d \<Rightarrow> None))"

definition validateRangeStep :: "(string \<Rightarrow> string) \<Rightarrow> Metric \<Rightarrow> FieldError option" where
  "validateRangeStep quote s =
     (case mt_Range s of
        None \<Rightarrow> None
      | Some r \<Rightarrow>
          if rs_Step r = [] then None
          else
            (case ParseDuration quote (rs_Step r) of
               Inl err \<Rightarrow> Some (FieldInvalid ''spec.range.step'' (rs_Step r) unparsable)
             | Inr d \<Rightarrow> None))"

definition validateAggregation :: "Metric \<Rightarrow> FieldError option" where
  "validateAggregation s =
     (case mt_Range s of
        None \<Rightarrow> None
      | Some r \<Rightarrow>
          if rs_Step r \<noteq> [] \<and> rs_Aggregation r = [] then
            Some (FieldRequired ''spec.range.aggregation'' ''Forbidden! Aggregation field is required if defining the step field'')
          else if rs_Step r = [] \<and> rs_Aggregation r \<noteq> [] then
            Some (FieldRequired ''spec.range.step'' ''Forbidden! Step interval is required for the aggregation to work'')
          else None)"

text \<open>\<^verbatim>\<open>apierrors.NewInvalid\<close> builds one error from the list; it is the argument \<open>newInvalid\<close>.\<close>

definition validateKeptnMetric ::
    "(string \<Rightarrow> string) \<Rightarrow> (string \<Rightarrow> string \<Rightarrow> string \<Rightarrow> FieldError list \<Rightarrow> error) \<Rightarrow> Metric \<Rightarrow> error option" where
  "validateKeptnMetric quote newInvalid s =
     (let add = (\<lambda>errs e. case e of Some err \<Rightarrow> errs @ [err] | None \<Rightarrow> errs);
          allErrs = add (add (add [] (validateRangeInterval quote s)) (validateRangeStep quote s)) (validateAggregation s)
      in if allErrs = [] then None
         else Some (newInvalid ''metrics.keptn.sh'' ''KeptnMetric'' (om_Name (mt_meta s)) allErrs))"

definition Metric_ValidateCreate ::
    "(string \<Rightarrow> string) \<Rightarrow> (string \<Rightarrow> string \<Rightarrow> string \<Rightarrow> FieldError list \<Rightarrow> error) \<Rightarrow> Metric \<Rightarrow>
     string list \<times> error option" where
  "Metric_ValidateCreate quote newInvalid r = ([], validateKeptnMetric quote newInvalid r)"

definition Metric_ValidateUpdate ::
    "(string \<Rightarrow> string) \<Rightarrow> (string \<Rightarrow> string \<Rightarrow> string \<Rightarrow> FieldError list \<Rightarrow> error) \<Rightarrow> Metric \<Rightarrow> Metric \<Rightarrow>
     string list \<times> error option" where
  "Metric_ValidateUpdate quote newInvalid r old = ([], validateKeptnMetric quote newInvalid r)"

definition Metric_ValidateDelete :: "Metric \<Rightarrow> string list \<times> error option" where
  "Metric_ValidateDelete r = ([], None)"

section \<open>Providers\<close>

definition SupportedProviders :: "string list" where
  "SupportedProviders = [''dynatrace'', ''dql'', ''prometheus'', ''datadog'', ''cortex'', ''thanos'']"

datatype ProviderKind = PrometheusProvider | DynatraceProvider bool | DynatraceDQLProvider bool | DataDogProvider bool

definition NewProvider :: "KeptnMetricsProvider \<Rightarrow> error + ProviderKind" where
  "NewProvider provider =
     (let t = to_lower (kmp_Type provider); skip = kmp_InsecureSkipTlsVerify provider in
      if t = ''prometheus'' \<or> t = ''thanos'' \<or> t = ''cortex'' then Inr PrometheusProvider
      else if t = ''dynatrace'' then Inr (DynatraceProvider skip)
      else if t = ''dql'' then Inr (DynatraceDQLProvider skip)
      else if t = ''datadog'' then Inr (DataDogProvider skip)
      else Inl (Message (''provider '' @ kmp_Type provider @ '' not supported'')))"

lemma supported_provider:
  "kmp_Type p \<in> set SupportedProviders \<Longrightarrow> \<exists>k. NewProvider p = Inr k"
  by (auto simp: SupportedProviders_def NewProvider_def to_lower_def to_lower_char_def Let_def)

text \<open>What a provider answers: the operations of \<^verbatim>\<open>KeptnSLIProvider\<close>; nothing is a panic.\<close>

record 'w SLIProvider =
  sli_EvaluateQuery :: "Metric \<Rightarrow> KeptnMetricsProvider \<Rightarrow> ('w, (string \<times> string \<times> error option) option) state"
  sli_EvaluateQueryForStep :: "Metric \<Rightarrow> KeptnMetricsProvider \<Rightarrow> ('w, (string list \<times> string \<times> error option) option) state"

record 'w MetricsClient =
  mc_Metric :: "('w, Metric) api"
  mc_Provider :: "('w, KeptnMetricsProvider) api"
  mc_Analysis :: "('w, Analysis) api"
  mc_AnalysisDefinition :: "('w, AnalysisDefinition) api"
  mc_Now :: "('w, time) state"
  mc_Implementation :: "ProviderKind \<Rightarrow> 'w SLIProvider"

section \<open>Aggregation\<close>

fun max_from :: "float64 \<Rightarrow> float64 list \<Rightarrow> float64" where
  "max_from m [] = m"
| "max_from m (v # vs) = max_from (if float_less m v then v else m) vs"

definition CalculateMax :: "float64 list \<Rightarrow> float64" where
  "CalculateMax vs = (if vs = [] then Finite 0 else max_from (hd vs) vs)"

fun min_from :: "float64 \<Rightarrow> float64 list \<Rightarrow> float64" where
  "min_from m [] = m"
| "min_from m (v # vs) = min_from (if float_less v m then v else m) vs"

definition CalculateMin :: "float64 list \<Rightarrow> float64" where
  "CalculateMin vs = (if vs = [] then Finite 0 else min_from (hd vs) vs)"

text \<open>\<^verbatim>\<open>sort.Float64s\<close> puts what is not a number first.\<close>

definition float_before :: "float64 \<Rightarrow> float64 \<Rightarrow> bool" where
  "float_before x y \<longleftrightarrow> float_less x y \<or> x = NaN \<and> y \<noteq> NaN"

fun float_insert :: "float64 \<Rightarrow> float64 list \<Rightarrow> float64 list" where
  "float_insert x [] = [x]"
| "float_insert x (y # ys) = (if float_before y x then y # float_insert x ys else x # y # ys)"

definition sort_Float64s :: "float64 list \<Rightarrow> float64 list" where
  "sort_Float64s vs = foldr float_insert vs []"

definition CalculateMedian :: "float64 list \<Rightarrow> float64" where
  "CalculateMedian vs =
     (if vs = [] then Finite 0
      else
        (let sorted = sort_Float64s vs; middle = length sorted div 2 in
         if length sorted mod 2 = 0 then
           float_div (float_add (sorted ! (middle - 1)) (sorted ! middle)) (Finite 2)
         else sorted ! middle))"

definition CalculateAverage :: "float64 list \<Rightarrow> float64" where
  "CalculateAverage vs =
     (let s = foldl float_add (Finite 0) vs in
      if length vs > 0 then float_div s (float_of_int (int (length vs))) else Finite 0)"

text \<open>An index out of rng panics.\<close>

definition percentile_index :: "nat \<Rightarrow> int \<Rightarrow> int" where
  "percentile_index n perc =
     (case float_div (float_mul (float_of_int (int n)) (float_of_int perc)) (Finite 100) of
        Finite q \<Rightarrow> \<lceil>q\<rceil> - 1
      | _ \<Rightarrow> - 1)"

definition CalculatePercentile :: "float64 list \<Rightarrow> int \<Rightarrow> float64 option" where
  "CalculatePercentile vs perc =
     (if vs = [] then Some (Finite 0)
      else
        (let i = percentile_index (length vs) perc in
         if 0 \<le> i \<and> i < int (length vs) then Some (vs ! nat i) else None))"

fun stringSliceToFloatSlice :: "(string \<Rightarrow> string) \<Rightarrow> string list \<Rightarrow> error + float64 list" where
  "stringSliceToFloatSlice quote [] = Inr []"
| "stringSliceToFloatSlice quote (s # ss) =
     (case ParseFloat quote s of
        Inl err \<Rightarrow> Inl err
      | Inr x \<Rightarrow>
          (case stringSliceToFloatSlice quote ss of Inl err \<Rightarrow> Inl err | Inr xs \<Rightarrow> Inr (x # xs)))"

text \<open>
  Nothing is the panic of an index.  \<^verbatim>\<open>sort.Float64Slice\<close> is a conversion that leaves the order as it is.  The
  format \<^verbatim>\<open>%v\<close> of a number is the argument \<open>format\<close>.
\<close>

definition aggregateValues ::
    "(string \<Rightarrow> string) \<Rightarrow> (float64 \<Rightarrow> string) \<Rightarrow> string list \<Rightarrow> string \<Rightarrow> (error + string) option" where
  "aggregateValues quote format stringSlice aggFunc =
     (case stringSliceToFloatSlice quote stringSlice of
        Inl err \<Rightarrow> Some (Inl err)
      | Inr vs \<Rightarrow>
          map_option (\<lambda>x. Inr (format x))
            (if aggFunc = ''max'' then Some (CalculateMax vs)
             else if aggFunc = ''min'' then Some (CalculateMin vs)
             else if aggFunc = ''median'' then Some (CalculateMedian vs)
             else if aggFunc = ''avg'' then Some (CalculateAverage vs)
             else if aggFunc = ''p90'' then CalculatePercentile vs 90
             else if aggFunc = ''p95'' then CalculatePercentile vs 95
             else if aggFunc = ''p99'' then CalculatePercentile vs 99
             else Some (Finite 0)))"

section \<open>The controller\<close>

definition MB :: nat where
  "MB = 2 ^ 20"

definition cupSize :: "string \<Rightarrow> string" where
  "cupSize v = (if length v = 0 then [] else if length v > MB then take MB v else v)"

definition getQueryResults ::
    "Metric \<Rightarrow> 'w SLIProvider \<Rightarrow> KeptnMetricsProvider \<Rightarrow> ('w, (string \<times> string \<times> error option) option) state" where
  "getQueryResults metric provider metricsProvider = do {
     r \<leftarrow> sli_EvaluateQuery provider metric metricsProvider;
     ret (case r of
         None \<Rightarrow> None
       | Some (v, raw, err) \<Rightarrow> Some (if err \<noteq> None then ([], cupSize raw, err) else (v, cupSize raw, None)))
   }"

definition getStepQueryResults ::
    "(string \<Rightarrow> string) \<Rightarrow> (float64 \<Rightarrow> string) \<Rightarrow> Metric \<Rightarrow> RangeSpec \<Rightarrow> 'w SLIProvider \<Rightarrow> KeptnMetricsProvider \<Rightarrow>
     ('w, (string \<times> string \<times> error option) option) state" where
  "getStepQueryResults quote format metric rng provider metricsProvider = do {
     r \<leftarrow> sli_EvaluateQueryForStep provider metric metricsProvider;
     ret (case r of
         None \<Rightarrow> None
       | Some (v, raw, err) \<Rightarrow>
           if err \<noteq> None then Some ([], cupSize raw, err)
           else
             (case aggregateValues quote format v (rs_Aggregation rng) of
                None \<Rightarrow> None
              | Some (Inl e) \<Rightarrow> Some ([], [], Some e)
              | Some (Inr agg) \<Rightarrow> Some (agg, cupSize raw, None)))
   }"

definition getResults ::
    "(string \<Rightarrow> string) \<Rightarrow> (float64 \<Rightarrow> string) \<Rightarrow> Metric \<Rightarrow> 'w SLIProvider \<Rightarrow> KeptnMetricsProvider \<Rightarrow>
     ('w, (string \<times> string \<times> error option) option) state" where
  "getResults quote format metric provider metricsProvider =
     (case mt_Range metric of
        Some rng \<Rightarrow>
          if rs_Step rng \<noteq> [] then getStepQueryResults quote format metric rng provider metricsProvider
          else getQueryResults metric provider metricsProvider
      | None \<Rightarrow> getQueryResults metric provider metricsProvider)"

text \<open>Drop the oldest result when the limit is reached, and append the new one.\<close>

definition store_result :: "int \<Rightarrow> IntervalResult list \<Rightarrow> IntervalResult \<Rightarrow> IntervalResult list" where
  "store_result limit results r = (if int (length results) \<ge> limit then tl results @ [r] else results @ [r])"

definition updateMetric ::
    "'w MetricsClient \<Rightarrow> Metric \<Rightarrow> string \<Rightarrow> string \<Rightarrow> Result \<Rightarrow> error option \<Rightarrow> ('w, Result \<times> Metric) state" where
  "updateMetric cl metric v raw reconcile err = do {
     st \<leftarrow> (case mt_Range metric of
         Some rng \<Rightarrow>
           if rs_StoredResults rng > 0 then do {
             now \<leftarrow> mc_Now cl;
             let intervalResult =
               (case err of
                  Some e \<Rightarrow> \<lparr>ir_Value = [], ir_Range = None, ir_LastUpdated = now, ir_ErrMsg = error_string e\<rparr>
                | None \<Rightarrow> \<lparr>ir_Value = v, ir_Range = Some rng, ir_LastUpdated = now, ir_ErrMsg = []\<rparr>);
             ret ((mt_Status metric)\<lparr>ms_IntervalResults :=
               store_result (rs_StoredResults rng) (ms_IntervalResults (mt_Status metric)) intervalResult\<rparr>)
           } else
             ret (case err of
                Some e \<Rightarrow> (mt_Status metric)\<lparr>ms_ErrMsg := error_string e\<rparr>
              | None \<Rightarrow> (mt_Status metric)\<lparr>ms_ErrMsg := [], ms_Value := v, ms_RawValue := cupSize raw\<rparr>)
       | None \<Rightarrow>
           ret (case err of
              Some e \<Rightarrow> (mt_Status metric)\<lparr>ms_ErrMsg := error_string e\<rparr>
            | None \<Rightarrow> (mt_Status metric)\<lparr>ms_ErrMsg := [], ms_Value := v, ms_RawValue := cupSize raw\<rparr>));
     now \<leftarrow> mc_Now cl;
     ret (reconcile, metric\<lparr>mt_Status := st\<lparr>ms_LastUpdated := now\<rparr>\<rparr>)
   }"

definition fetchProvider :: "'w MetricsClient \<Rightarrow> string \<Rightarrow> string \<Rightarrow> ('w, error + KeptnMetricsProvider) state" where
  "fetchProvider cl namespace name = api_Get (mc_Provider cl) namespace name"

text \<open>The query and what follows it, once the provider is known.\<close>

definition fetch_and_store ::
    "(string \<Rightarrow> string) \<Rightarrow> (float64 \<Rightarrow> string) \<Rightarrow> 'w MetricsClient \<Rightarrow> Metric \<Rightarrow> ProviderKind \<Rightarrow> KeptnMetricsProvider \<Rightarrow>
     ('w, outcome option) state" where
  "fetch_and_store quote format cl metric kind metricsProvider = do {
     r \<leftarrow> getResults quote format metric (mc_Implementation cl kind) metricsProvider;
     case r of
       None \<Rightarrow> ret None
     | Some (v, raw, err) \<Rightarrow> do {
         (reconcile, metric) \<leftarrow> updateMetric cl metric v raw (requeue_after 10) err;
         u \<leftarrow> api_StatusUpdate (mc_Metric cl) metric;
         ret (case u of Inl e \<Rightarrow> Some (no_requeue, Some e) | Inr m \<Rightarrow> Some (reconcile, err))
       }
   }"

definition Metric_Reconcile ::
    "(string \<Rightarrow> string) \<Rightarrow> (float64 \<Rightarrow> string) \<Rightarrow> 'w MetricsClient \<Rightarrow> Request \<Rightarrow> ('w, outcome option) state" where
  "Metric_Reconcile quote format cl req = do {
     g \<leftarrow> api_Get (mc_Metric cl) (req_Namespace req) (req_Name req);
     case g of
       Inl err \<Rightarrow> ret (Some (no_requeue, None))
     | Inr metric \<Rightarrow> do {
         let fetchTime = ms_LastUpdated (mt_Status metric) + wrap64 (second * wrap64 (mt_FetchIntervalSeconds metric));
         now \<leftarrow> mc_Now cl;
         if now < fetchTime then do {
           now \<leftarrow> mc_Now cl;
           ret (Some (\<lparr>Requeue = True, RequeueAfter = time_sub fetchTime now\<rparr>, None))
         } else do {
           p \<leftarrow> fetchProvider cl (om_Namespace (mt_meta metric)) (mt_Provider metric);
           case p of
             Inl err \<Rightarrow>
               if IsNotFound err then ret (Some (requeue_after 10, None))
               else ret (Some (\<lparr>Requeue = False, RequeueAfter = 10 * second\<rparr>, None))
           | Inr metricsProvider \<Rightarrow>
               (case NewProvider metricsProvider of
                  Inl err2 \<Rightarrow> ret (Some (no_requeue, Some err2))
                | Inr kind \<Rightarrow> fetch_and_store quote format cl metric kind metricsProvider)
         }
       }
   }"

section \<open>Aggregates\<close>

lemma percentile_index_bounds:
  assumes "0 < n" and "n < 2 ^ 45" and "50 \<le> perc" and "perc \<le> 100"
  shows "0 \<le> percentile_index n perc" "percentile_index n perc < int n"
proof -
  have le: "int n * perc \<le> int n * 100" "int n * 50 \<le> int n * perc"
    using assms(3,4) by (simp_all add: mult_left_mono)
  have n: "int n < 35184372088832" using assms(2) by simp
  then have "int n * perc < 4503599627370496" using le(1) by linarith
  then have small: "\<bar>int n * perc\<bar> < 2 ^ 52" "\<bar>int n\<bar> < 2 ^ 52" "\<bar>perc\<bar> < 2 ^ 52"
    using assms(3,4) n by (simp_all add: abs_mult)
  have "float_mul (float_of_int (int n)) (float_of_int perc) = Finite (of_int (int n * perc))"
    using float_of_small_int [OF small(1)] float_of_small_int [OF small(2)] float_of_small_int [OF small(3)]
    by (simp add: float_of_int_def)
  moreover have "float_of_rat (of_int (int n)) = Finite (of_int (int n))"
    using float_of_small_int [OF small(2)] by (simp add: float_of_int_def)
  moreover have "float_of_rat (1 / 2) = Finite (1 / 2)" using float_of_half [of 1] by simp
  moreover have "(1 / 2 :: rat) \<le> of_int (int n * perc) / 100"
  proof -
    have "50 \<le> int n * perc" using le(2) assms(1) by linarith
    then have "(50 :: rat) \<le> of_int (int n * perc)" by (metis of_int_le_iff of_int_numeral)
    then show ?thesis by simp
  qed
  moreover have "(of_int (int n * perc) / 100 :: rat) \<le> of_int (int n)"
    using le(1) of_int_le_iff [where 'a = rat, of "int n * perc" "int n * 100"] by (simp add: field_simps)
  ultimately obtain q where q: "float_div (float_mul (float_of_int (int n)) (float_of_int perc)) (Finite 100) = Finite q"
    "1 / 2 \<le> q" "q \<le> of_int (int n)"
    by (metis float_div.simps(1) float_of_rat_between zero_neq_numeral)
  then have "0 < \<lceil>q\<rceil>" "\<lceil>q\<rceil> \<le> int n" by (auto simp: ceiling_le_iff less_ceiling_iff)
  with q(1) show "0 \<le> percentile_index n perc" "percentile_index n perc < int n"
    by (simp_all add: percentile_index_def)
qed

lemma CalculatePercentile_total:
  assumes "length vs < 2 ^ 45" and "50 \<le> perc" and "perc \<le> 100"
  shows "\<exists>x. CalculatePercentile vs perc = Some x"
  using percentile_index_bounds [of "length vs" perc] assms by (auto simp: CalculatePercentile_def Let_def)

lemma length_stringSliceToFloatSlice: "stringSliceToFloatSlice quote ss = Inr vs \<Longrightarrow> length vs = length ss"
  by (induction ss arbitrary: vs) (auto split: sum.splits)

text \<open>
  No index of an aggregation is out of range: with fewer than \<open>2\<^sup>4\<^sup>5\<close> values an aggregation ends with a
  value or the error of the first value that is not a number, and no values at all aggregate to zero.
\<close>

theorem aggregation_no_panic:
  assumes "length ss < 2 ^ 45"
  shows "(case stringSliceToFloatSlice quote ss of
       Inl err \<Rightarrow> aggregateValues quote format ss aggFunc = Some (Inl err)
     | Inr vs \<Rightarrow> (\<exists>x. aggregateValues quote format ss aggFunc = Some (Inr (format x)) \<and> (ss = [] \<longrightarrow> x = Finite 0)))"
proof (cases "stringSliceToFloatSlice quote ss")
  case (Inr vs)
  then have len: "length vs < 2 ^ 45" using assms length_stringSliceToFloatSlice by metis
  have "aggregateValues quote format ss aggFunc \<noteq> None"
    using Inr CalculatePercentile_total [OF len, of 90] CalculatePercentile_total [OF len, of 95]
      CalculatePercentile_total [OF len, of 99] by (auto simp: aggregateValues_def)
  then obtain x where x: "aggregateValues quote format ss aggFunc = Some (Inr (format x))"
    using Inr by (auto simp: aggregateValues_def split: if_splits)
  show ?thesis
  proof (cases "ss = []")
    case True
    then have "aggregateValues quote format ss aggFunc = Some (Inr (format (Finite 0)))"
      by (simp add: aggregateValues_def CalculateMax_def CalculateMin_def CalculateMedian_def CalculateAverage_def
          CalculatePercentile_def)
    with Inr show ?thesis by auto
  qed (use x Inr in auto)
qed (simp add: aggregateValues_def)

subsection \<open>Sorting\<close>

lemma mset_float_insert [simp]: "mset (float_insert x ys) = add_mset x (mset ys)"
  by (induction ys) auto

lemma mset_sort_Float64s [simp]: "mset (sort_Float64s vs) = mset vs"
  by (induction vs) (simp_all add: sort_Float64s_def)

lemma float_before_total: "float_before x y \<or> x = y \<or> float_before y x"
  by (cases x; cases y) (auto simp: float_before_def)

lemma float_before_trans: "float_before x y \<Longrightarrow> float_before y z \<Longrightarrow> float_before x z"
  by (cases x; cases y; cases z) (auto simp: float_before_def)

lemma float_before_irrefl: "\<not> float_before x x"
  by (cases x) (auto simp: float_before_def)

abbreviation float_sorted :: "float64 list \<Rightarrow> bool" where
  "float_sorted \<equiv> sorted_wrt (\<lambda>x y. \<not> float_before y x)"

lemma sorted_float_insert: "float_sorted ys \<Longrightarrow> float_sorted (float_insert x ys)"
proof (induction ys)
  case (Cons y ys)
  have set: "set (float_insert x ys) = insert x (set ys)"
    by (metis mset_float_insert set_mset_mset set_mset_add_mset_insert)
  show ?case
  proof (cases "float_before y x")
    case True
    then have "\<not> float_before x y" using float_before_trans float_before_irrefl by blast
    with True Cons set show ?thesis by auto
  next
    case False
    have "\<not> float_before z x" if "z \<in> set ys" for z
      using that Cons.prems False float_before_total float_before_trans by (metis sorted_wrt.simps(2))
    with False Cons.prems show ?thesis by auto
  qed
qed simp

lemma sorted_sort_Float64s: "float_sorted (sort_Float64s vs)"
  by (induction vs) (simp_all add: sort_Float64s_def sorted_float_insert)

lemma float_sorted_unique:
  assumes "float_sorted xs" and "float_sorted ys" and "mset xs = mset ys"
  shows "xs = ys"
  using assms
proof (induction xs arbitrary: ys)
  case (Cons x xs)
  then obtain y ys' where ys: "ys = y # ys'" by (cases ys) auto
  have "x \<in> set ys" "y \<in> set (x # xs)" using Cons.prems(3) ys by (metis list.set_intros(1) set_mset_mset)+
  then have "x = y" using Cons.prems ys float_before_total [of x y] by (auto simp: float_before_irrefl)
  with Cons ys show ?case by simp
qed simp

lemma max_from_bound:
  assumes "NaN \<notin> set (m # vs)"
  shows "max_from m vs \<in> set (m # vs) \<and> (\<forall>v\<in>set (m # vs). float_le v (max_from m vs))"
  using assms
proof (induction vs arbitrary: m)
  case Nil
  then show ?case by (cases m) auto
next
  case (Cons v vs)
  let ?m = "if float_less m v then v else m"
  have "float_le m ?m \<and> float_le v ?m" using Cons.prems by (cases m; cases v) auto
  with Cons.IH [of ?m] Cons.prems show ?case by (auto intro: float_le_trans split: if_splits)
qed

lemma min_from_bound:
  assumes "NaN \<notin> set (m # vs)"
  shows "min_from m vs \<in> set (m # vs) \<and> (\<forall>v\<in>set (m # vs). float_le (min_from m vs) v)"
  using assms
proof (induction vs arbitrary: m)
  case Nil
  then show ?case by (cases m) auto
next
  case (Cons v vs)
  let ?m = "if float_less v m then v else m"
  have "float_le ?m m \<and> float_le ?m v" using Cons.prems by (cases m; cases v) auto
  with Cons.IH [of ?m] Cons.prems show ?case by (auto intro: float_le_trans split: if_splits)
qed

text \<open>
  C23: the maximum and the minimum are values of the list that bound all others, when every value is a
  number, and the median is the middle of the sorted values, whatever the order in which they come.
\<close>

theorem aggregates_correct:
  assumes "vs \<noteq> []" and "NaN \<notin> set vs" and "mset ws = mset vs" and "float_sorted ws"
  shows "CalculateMax vs = last ws \<and> CalculateMin vs = hd ws \<and>
     CalculateMedian vs =
       (if even (length vs) then
          float_div (float_add (ws ! (length vs div 2 - 1)) (ws ! (length vs div 2))) (Finite 2)
        else ws ! (length vs div 2))"
proof -
  have set: "set ws = set vs" using assms(3) by (metis set_mset_mset)
  have len: "length ws = length vs" using assms(3) by (metis size_mset)
  have ws: "ws \<noteq> []" using assms(1) len by auto
  have last: "\<forall>v\<in>set vs. float_le v (last ws)"
  proof
    fix v assume "v \<in> set vs"
    then have "v = last ws \<or> \<not> float_before (last ws) v"
      using assms(4) ws set by (cases ws rule: rev_cases) (auto simp: sorted_wrt_append)
    moreover have "v \<noteq> NaN" "last ws \<noteq> NaN" using \<open>v \<in> set vs\<close> assms(2) set ws by (metis, metis last_in_set)
    ultimately show "float_le v (last ws)" by (cases v; cases "last ws") (auto simp: float_before_def)
  qed
  have hd: "\<forall>v\<in>set vs. float_le (hd ws) v"
  proof
    fix v assume "v \<in> set vs"
    then have "v = hd ws \<or> \<not> float_before v (hd ws)" using assms(4) ws set by (cases ws) auto
    moreover have "v \<noteq> NaN" "hd ws \<noteq> NaN" using \<open>v \<in> set vs\<close> assms(2) set ws by (metis, metis hd_in_set)
    ultimately show "float_le (hd ws) v" by (cases v; cases "hd ws") (auto simp: float_before_def)
  qed
  have anti: "float_le x y \<Longrightarrow> float_le y x \<Longrightarrow> x = y" for x y by (cases x; cases y) auto
  have "set (hd vs # vs) = set vs" using assms(1) by auto
  then have "CalculateMax vs = last ws" "CalculateMin vs = hd ws"
    using max_from_bound [of "hd vs" vs] min_from_bound [of "hd vs" vs] assms(1,2) last hd anti ws set
    unfolding CalculateMax_def CalculateMin_def by (metis last_in_set, metis hd_in_set)
  moreover have "sort_Float64s vs = ws"
    using assms(3,4) by (intro float_sorted_unique sorted_sort_Float64s) simp_all
  ultimately show ?thesis using assms(1) len by (simp add: CalculateMedian_def Let_def even_iff_mod_2_eq_zero)
qed

text \<open>
  A percentile is a position, not a rank: with fewer than ten values the 90th percentile is the one the
  provider reported last, however large the others are, because the values are not sorted.
\<close>

theorem percentile_is_last:
  assumes "vs \<noteq> []" and "length vs < 10"
  shows "CalculatePercentile vs 90 = Some (last vs)"
proof -
  let ?n = "length vs"
  have n: "0 < int ?n" "int ?n < 10" using assms by auto
  then have small: "\<bar>int ?n\<bar> < 2 ^ 52" "\<bar>int ?n * 90\<bar> < 2 ^ 52" "\<bar>int ?n * 16 - 15\<bar> < 2 ^ 53" by simp_all
  have "float_mul (float_of_int (int ?n)) (float_of_int 90) = Finite (of_int (int ?n * 90))"
    using float_of_small_int [OF small(1)] float_of_small_int [OF small(2)] float_of_small_int [of 90]
    by (simp add: float_of_int_def)
  moreover have "float_of_rat (of_int (int ?n)) = Finite (of_int (int ?n))"
    using float_of_small_int [OF small(1)] by (simp add: float_of_int_def)
  moreover have lo: "float_of_rat (of_int (int ?n * 16 - 15) / 16) = Finite (of_int (int ?n * 16 - 15) / 16)"
    using float_of_exact [OF small(3), of "- 4"] by (simp add: pow2_def)
  moreover have "(of_int (int ?n * 16 - 15) / 16 :: rat) \<le> of_int (int ?n * 90) / 100"
    using n(2) of_int_le_iff [where 'a = rat, of "int ?n * 16" "150"] by (simp add: field_simps)
  moreover have "(of_int (int ?n * 90) / 100 :: rat) \<le> of_int (int ?n)" by simp
  ultimately obtain q where q: "float_div (float_mul (float_of_int (int ?n)) (float_of_int 90)) (Finite 100) = Finite q"
    "of_int (int ?n * 16 - 15) / 16 \<le> q" "q \<le> of_int (int ?n)"
    by (metis float_div.simps(1) float_of_rat_between zero_neq_numeral)
  have "of_int (int ?n) - 1 < q" using q(2) by (simp add: field_simps)
  with q(3) have "\<lceil>q\<rceil> = int ?n" by (simp add: ceiling_eq_iff)
  then have "percentile_index ?n 90 = int ?n - 1" using q(1) by (simp add: percentile_index_def)
  moreover have "nat (int ?n - 1) = ?n - Suc 0" by simp
  ultimately show ?thesis using assms(1) by (simp add: CalculatePercentile_def Let_def last_conv_nth)
qed

section \<open>The life of a metric\<close>

text \<open>
  As long as the limit is the same, the stored results of a metric are the last ones, as many as the
  limit allows, in the order in which they were taken.
\<close>

theorem stored_results_window:
  assumes "0 < limit"
  shows "foldl (store_result (int limit)) [] rs = drop (length rs - limit) rs"
proof (induction rs rule: rev_induct)
  case (snoc r rs)
  then show ?case
    using assms by (cases "limit \<le> length rs") (auto simp: store_result_def drop_Suc Suc_diff_le tl_drop [symmetric] drop_tl)
qed simp

text \<open>
  The limit is not enforced when it is lowered: once a metric stores more results than its limit, every
  update keeps as many as there were.
\<close>

theorem lowered_limit_not_enforced:
  assumes "0 < limit" and "limit < int (length results)"
  shows "length (store_result limit results r) = length results"
  using assms by (cases results) (auto simp: store_result_def)

definition due :: "Metric \<Rightarrow> time" where
  "due metric = ms_LastUpdated (mt_Status metric) + wrap64 (second * wrap64 (mt_FetchIntervalSeconds metric))"

text \<open>
  A metric whose interval has not passed is left alone: no provider is asked, nothing is written, and the
  reconciliation comes back after the time that is left.
\<close>

theorem metric_not_fetched_early:
  assumes "run_state (api_Get (mc_Metric cl) (req_Namespace req) (req_Name req)) w = (Inr metric, w1)"
    and "run_state (mc_Now cl) w1 = (now, w2)" and "now < due metric" and "run_state (mc_Now cl) w2 = (now', w3)"
  shows "run_state (Metric_Reconcile quote format cl req) w =
     (Some (\<lparr>Requeue = True, RequeueAfter = time_sub (due metric) now'\<rparr>, None), w3)"
  using assms by (simp add: Metric_Reconcile_def due_def State_Monad.bind_def Let_def)

lemma length_cupSize: "length (cupSize v) \<le> MB"
  by (auto simp: cupSize_def)

text \<open>
  What a due metric without a range becomes. An answered query replaces the value, with at most one
  megabyte of the raw value, and clears the error; a failed one leaves the value as it was and records the
  error; both note the time, and both come back after ten seconds with the error of the query.
\<close>

theorem metric_refreshed:
  assumes "run_state (api_Get (mc_Metric cl) (req_Namespace req) (req_Name req)) w = (Inr metric, w1)"
    and "run_state (mc_Now cl) w1 = (now, w2)" and "due metric \<le> now"
    and "run_state (api_Get (mc_Provider cl) (om_Namespace (mt_meta metric)) (mt_Provider metric)) w2 = (Inr p, w3)"
    and "NewProvider p = Inr k" and "mt_Range metric = None"
    and "run_state (sli_EvaluateQuery (mc_Implementation cl k) metric p) w3 = (Some (v, raw, err), w4)"
    and "run_state (mc_Now cl) w4 = (now', w5)"
    and "run_state (api_StatusUpdate (mc_Metric cl) metric') w5 = (Inr stored, w6)"
    and "metric' = metric\<lparr>mt_Status := (case err of
        None \<Rightarrow> (mt_Status metric)\<lparr>ms_ErrMsg := [], ms_Value := v, ms_RawValue := take MB raw, ms_LastUpdated := now'\<rparr>
      | Some e \<Rightarrow> (mt_Status metric)\<lparr>ms_ErrMsg := error_string e, ms_LastUpdated := now'\<rparr>)\<rparr>"
  shows "run_state (Metric_Reconcile quote format cl req) w = (Some (requeue_after 10, err), w6)"
proof -
  have [simp]: "cupSize (cupSize raw) = take MB raw" by (simp add: cupSize_def)
  show ?thesis
    using assms
    by (cases err) (simp_all add: Metric_Reconcile_def due_def fetchProvider_def fetch_and_store_def getResults_def
        getQueryResults_def updateMetric_def not_less [symmetric] State_Monad.bind_def Let_def)
qed

end
