(* ===== verification/Worker_Pool.thy ===== *)
theory Worker_Pool
  imports Metrics
begin

text \<open>
  The worker pool that fetches the values of the objectives of an analysis
  (\<^verbatim>\<open>metrics-operator/controllers/analysis\<close>): the tasks are dealt out to workers, every worker looks up the
  template and the provider of each of its objectives and passes the query on to the goroutine of that
  provider, the providers put their answers on one channel, and a collector takes as many results from it
  as there are objectives.  The goroutines are the processes of a step relation; channels are queues
  with a capacity, and sending on a closed channel panics.  The API server and the providers
  may answer anything at any time.
\<close>

section \<open>Dealing out the tasks\<close>

text \<open>The loop of \<^verbatim>\<open>assignTasks\<close>.\<close>

function assign_from ::
    "'a list \<Rightarrow> nat \<Rightarrow> nat \<Rightarrow> nat \<Rightarrow> (nat, 'a list) fmap \<Rightarrow> (nat, 'a list) fmap" where
  "assign_from tasks numWorkers i start taskMap =
     (if i < numWorkers \<and> start < length tasks then
        (let end = start + length tasks div numWorkers + (if i < length tasks mod numWorkers then 1 else 0)
         in assign_from tasks numWorkers (i + 1) end (fmupd (i + 1) (take (end - start) (drop start tasks)) taskMap))
      else taskMap)"
  by pat_completeness auto

termination
  by (relation "measure (\<lambda>(_, n, i, _). n - i)") auto

declare assign_from.simps [simp del]

definition assignTasks :: "nat \<Rightarrow> 'a list \<Rightarrow> (nat, 'a list) fmap" where
  "assignTasks numWorkers tasks =
     (if numWorkers = 0 then fmempty else assign_from tasks numWorkers 0 0 fmempty)"

text \<open>The tasks of a worker: a map gives nil for a key it has not.\<close>

definition tasks_of :: "(nat, 'a list) fmap \<Rightarrow> nat \<Rightarrow> 'a list" where
  "tasks_of m i = (case fmlookup m i of None \<Rightarrow> [] | Some ts \<Rightarrow> ts)"

section \<open>Jobs\<close>

record ProviderRequest =
  prq_Objective :: AnalysisObjective
  prq_Query :: string
  prq_Provider :: KeptnMetricsProvider

text \<open>\<^verbatim>\<open>text/template\<close>: parsing a query and executing it on the arguments of the analysis.\<close>

record Templating =
  tpl_Parse :: "string \<Rightarrow> error + nat"
  tpl_Execute :: "nat \<Rightarrow> smap \<Rightarrow> error + string"

definition generateQuery :: "Templating \<Rightarrow> string \<Rightarrow> smap \<Rightarrow> error + string" where
  "generateQuery tpl query selectors =
     (case tpl_Parse tpl query of
        Inl err \<Rightarrow> Inl (Wrapped ''could not create a template: '' err)
      | Inr tmpl \<Rightarrow>
          (case tpl_Execute tpl tmpl selectors of
             Inl err \<Rightarrow> Inl (Wrapped ''could not template the args: '' err)
           | Inr s \<Rightarrow> Inr s))"

text \<open>\<^verbatim>\<open>StartProviders\<close> registers a channel for every supported provider before any worker runs.\<close>

definition isProviderTypeRegistered :: "string \<Rightarrow> bool" where
  "isProviderTypeRegistered t \<longleftrightarrow> t \<in> set SupportedProviders"

text \<open>What a worker sends for one objective: a result with an error, or a request to a provider.\<close>

datatype dispatch = Answer ProviderResult | Ask string ProviderRequest

record pool_config =
  pc_Workers :: nat
  pc_Jobs :: nat
  pc_Namespace :: string
  pc_Args :: smap
  pc_Templating :: Templating

definition error_result :: "AnalysisObjective \<Rightarrow> string \<Rightarrow> ProviderResult" where
  "error_result j msg = \<lparr>pr_Objective = ao_AnalysisValueTemplateRef j, pr_Query = [], pr_Value = [], pr_ErrMsg = msg\<rparr>"

definition prepare_job ::
    "pool_config \<Rightarrow> (string \<Rightarrow> string \<Rightarrow> error + AnalysisValueTemplate) \<Rightarrow>
     (string \<Rightarrow> string \<Rightarrow> error + KeptnMetricsProvider) \<Rightarrow> AnalysisObjective \<Rightarrow> dispatch" where
  "prepare_job cfg getTemplate getProvider j =
     (let ref = ao_AnalysisValueTemplateRef j in
      case getTemplate (ObjectReference_GetNamespace (pc_Namespace cfg) ref) (or_Name ref) of
        Inl err \<Rightarrow> Answer (error_result j (error_string err))
      | Inr templ \<Rightarrow>
          (case getProvider (ObjectReference_GetNamespace (pc_Namespace cfg) (avt_Provider templ)) (or_Name (avt_Provider templ)) of
             Inl err \<Rightarrow> Answer (error_result j (error_string err))
           | Inr providerRef \<Rightarrow>
               if \<not> isProviderTypeRegistered (kmp_Type providerRef) then
                 Answer (error_result j (''unsupported provider: '' @ kmp_Type providerRef))
               else
                 (case generateQuery (pc_Templating cfg) (avt_Query templ) (pc_Args cfg) of
                    Inl err \<Rightarrow> Answer (error_result j (error_string err))
                  | Inr templatedQuery \<Rightarrow>
                      Ask (kmp_Type providerRef)
                        \<lparr>prq_Objective = j, prq_Query = templatedQuery, prq_Provider = providerRef\<rparr>)))"

text \<open>The result of \<^verbatim>\<open>FetchAnalysisValue\<close>, a value and an error that may be nil.\<close>

definition provider_result :: "ProviderRequest \<Rightarrow> string \<Rightarrow> error option \<Rightarrow> ProviderResult" where
  "provider_result q v err =
     \<lparr>pr_Objective = ao_AnalysisValueTemplateRef (prq_Objective q), pr_Query = prq_Query q, pr_Value = v,
      pr_ErrMsg = (case err of Some e \<Rightarrow> error_string e | None \<Rightarrow> [])\<rparr>"

text \<open>The provider that a goroutine is started for has a type and nothing else.\<close>

definition bare_provider :: "ObjectMeta \<Rightarrow> string \<Rightarrow> KeptnMetricsProvider" where
  "bare_provider meta p =
     \<lparr>kmp_meta = meta, kmp_Type = p, kmp_TargetServer = [], kmp_SecretKeyRef = no_secret,
      kmp_InsecureSkipTlsVerify = False\<rparr>"

section \<open>The processes\<close>

text \<open>
  A worker is between two objectives, looks one up, or is about to send what it found.
\<close>

datatype worker =
    Idle "AnalysisObjective list"
  | Preparing AnalysisObjective "AnalysisObjective list"
  | Sending dispatch "AnalysisObjective list"

datatype provider =
    Starting
  | Waiting
  | Fetching ProviderRequest
  | Delivering ProviderResult
  | Stopped

text \<open>
  The collector has finished a number of rounds, waits in \<^verbatim>\<open>GetResult\<close>, closes the channels in
  \<^verbatim>\<open>StopProviders\<close> (those of the providers that are left, then the results) or has returned.
\<close>

datatype collector =
    Collecting nat
  | Getting nat
  | Closing "string list"
  | Returned

text \<open>
  A panic of any goroutine ends the process: sending on a channel that is closed, or a panic of
  \<^verbatim>\<open>FetchAnalysisValue\<close>, which some providers do not rule out.
\<close>

datatype panic = ClosedChannel | ProviderPanic

record pool =
  pl_Workers :: "nat \<Rightarrow> worker"
  pl_Providers :: "string \<Rightarrow> provider"
  pl_Queues :: "string \<Rightarrow> ProviderRequest list"
  pl_QueueClosed :: "string \<Rightarrow> bool"
  pl_Results :: "ProviderResult list"
  pl_ResultsClosed :: bool
  pl_Done :: bool
  pl_Collector :: collector
  pl_Collected :: provider_values
  pl_Err :: "error option"
  pl_Panicked :: "panic option"

text \<open>
  \<^verbatim>\<open>NewWorkersPool\<close> with the goroutines that \<^verbatim>\<open>DispatchAndCollect\<close> starts: never more workers than jobs.
\<close>

definition NewWorkersPool :: "AnalysisObjective list \<Rightarrow> nat \<Rightarrow> string \<Rightarrow> smap \<Rightarrow> Templating \<Rightarrow> pool_config \<times> pool" where
  "NewWorkersPool objectives numWorkers namespace args tpl =
     (let numJobs = length objectives;
          numWorkers = (if numJobs \<le> numWorkers then numJobs else numWorkers);
          taskMap = assignTasks numWorkers objectives
      in (\<lparr>pc_Workers = numWorkers, pc_Jobs = numJobs, pc_Namespace = namespace, pc_Args = args, pc_Templating = tpl\<rparr>,
          \<lparr>pl_Workers = (\<lambda>w. if w \<in> {1..numWorkers} then Idle (tasks_of taskMap w) else Idle []),
           pl_Providers = (\<lambda>p. if p \<in> set SupportedProviders then Starting else Stopped),
           pl_Queues = (\<lambda>p. []), pl_QueueClosed = (\<lambda>p. False), pl_Results = [], pl_ResultsClosed = False,
           pl_Done = False, pl_Collector = Collecting 0, pl_Collected = fmempty, pl_Err = None, pl_Panicked = None\<rparr>))"

text \<open>
  One step of a goroutine.  A select takes the branch of the context when it is done and the default
  only when it is not; a receive and the context may compete.  A provider that fetches may come to a
  value, to an error or to a panic.
\<close>

inductive pool_step :: "pool_config \<Rightarrow> pool \<Rightarrow> pool \<Rightarrow> bool" for cfg where
  worker_exit:
    "\<lbrakk>pl_Panicked s = None; w \<in> {1..pc_Workers cfg}; pl_Workers s w = Idle (j # js); pl_Done s\<rbrakk> \<Longrightarrow>
     pool_step cfg s (s\<lparr>pl_Workers := (pl_Workers s)(w := Idle [])\<rparr>)"
| worker_take:
    "\<lbrakk>pl_Panicked s = None; w \<in> {1..pc_Workers cfg}; pl_Workers s w = Idle (j # js); \<not> pl_Done s\<rbrakk> \<Longrightarrow>
     pool_step cfg s (s\<lparr>pl_Workers := (pl_Workers s)(w := Preparing j js)\<rparr>)"
| worker_prepare:
    "\<lbrakk>pl_Panicked s = None; w \<in> {1..pc_Workers cfg}; pl_Workers s w = Preparing j js\<rbrakk> \<Longrightarrow>
     pool_step cfg s (s\<lparr>pl_Workers := (pl_Workers s)(w := Sending (prepare_job cfg getTemplate getProvider j) js)\<rparr>)"
| worker_answer:
    "\<lbrakk>pl_Panicked s = None; w \<in> {1..pc_Workers cfg}; pl_Workers s w = Sending (Answer r) js;
      \<not> pl_ResultsClosed s; length (pl_Results s) < pc_Jobs cfg\<rbrakk> \<Longrightarrow>
     pool_step cfg s (s\<lparr>pl_Workers := (pl_Workers s)(w := Idle js), pl_Results := pl_Results s @ [r]\<rparr>)"
| worker_answer_closed:
    "\<lbrakk>pl_Panicked s = None; w \<in> {1..pc_Workers cfg}; pl_Workers s w = Sending (Answer r) js; pl_ResultsClosed s\<rbrakk> \<Longrightarrow>
     pool_step cfg s (s\<lparr>pl_Panicked := Some ClosedChannel\<rparr>)"
| worker_ask:
    "\<lbrakk>pl_Panicked s = None; w \<in> {1..pc_Workers cfg}; pl_Workers s w = Sending (Ask p q) js;
      \<not> pl_QueueClosed s p; length (pl_Queues s p) < pc_Jobs cfg\<rbrakk> \<Longrightarrow>
     pool_step cfg s (s\<lparr>pl_Workers := (pl_Workers s)(w := Idle js),
       pl_Queues := (pl_Queues s)(p := pl_Queues s p @ [q])\<rparr>)"
| worker_ask_closed:
    "\<lbrakk>pl_Panicked s = None; w \<in> {1..pc_Workers cfg}; pl_Workers s w = Sending (Ask p q) js; pl_QueueClosed s p\<rbrakk> \<Longrightarrow>
     pool_step cfg s (s\<lparr>pl_Panicked := Some ClosedChannel\<rparr>)"
| provider_start:
    "\<lbrakk>pl_Panicked s = None; p \<in> set SupportedProviders; pl_Providers s p = Starting; NewProvider (bare_provider meta p) = Inr k\<rbrakk> \<Longrightarrow>
     pool_step cfg s (s\<lparr>pl_Providers := (pl_Providers s)(p := Waiting)\<rparr>)"
| provider_unknown:
    "\<lbrakk>pl_Panicked s = None; p \<in> set SupportedProviders; pl_Providers s p = Starting; NewProvider (bare_provider meta p) = Inl err\<rbrakk> \<Longrightarrow>
     pool_step cfg s (s\<lparr>pl_Providers := (pl_Providers s)(p := Stopped), pl_Done := True\<rparr>)"
| provider_receive:
    "\<lbrakk>pl_Panicked s = None; p \<in> set SupportedProviders; pl_Providers s p = Waiting; pl_Queues s p = q # qs\<rbrakk> \<Longrightarrow>
     pool_step cfg s (s\<lparr>pl_Providers := (pl_Providers s)(p := Fetching q), pl_Queues := (pl_Queues s)(p := qs)\<rparr>)"
| provider_end:
    "\<lbrakk>pl_Panicked s = None; p \<in> set SupportedProviders; pl_Providers s p = Waiting; pl_Queues s p = []; pl_QueueClosed s p\<rbrakk> \<Longrightarrow>
     pool_step cfg s (s\<lparr>pl_Providers := (pl_Providers s)(p := Stopped)\<rparr>)"
| provider_fetch:
    "\<lbrakk>pl_Panicked s = None; p \<in> set SupportedProviders; pl_Providers s p = Fetching q\<rbrakk> \<Longrightarrow>
     pool_step cfg s (s\<lparr>pl_Providers := (pl_Providers s)(p := Delivering (provider_result q v err))\<rparr>)"
| provider_panic:
    "\<lbrakk>pl_Panicked s = None; p \<in> set SupportedProviders; pl_Providers s p = Fetching q\<rbrakk> \<Longrightarrow>
     pool_step cfg s (s\<lparr>pl_Panicked := Some ProviderPanic\<rparr>)"
| provider_deliver:
    "\<lbrakk>pl_Panicked s = None; p \<in> set SupportedProviders; pl_Providers s p = Delivering r;
      \<not> pl_ResultsClosed s; length (pl_Results s) < pc_Jobs cfg\<rbrakk> \<Longrightarrow>
     pool_step cfg s (s\<lparr>pl_Providers := (pl_Providers s)(p := Waiting), pl_Results := pl_Results s @ [r]\<rparr>)"
| provider_deliver_closed:
    "\<lbrakk>pl_Panicked s = None; p \<in> set SupportedProviders; pl_Providers s p = Delivering r; pl_ResultsClosed s\<rbrakk> \<Longrightarrow>
     pool_step cfg s (s\<lparr>pl_Panicked := Some ClosedChannel\<rparr>)"
| collect_terminated:
    "\<lbrakk>pl_Panicked s = None; pl_Collector s = Collecting a; a < pc_Jobs cfg; pl_Done s\<rbrakk> \<Longrightarrow>
     pool_step cfg s (s\<lparr>pl_Collector := Collecting (Suc a), pl_Err := Some (Message ''Collection terminated'')\<rparr>)"
| collect_get:
    "\<lbrakk>pl_Panicked s = None; pl_Collector s = Collecting a; a < pc_Jobs cfg; \<not> pl_Done s\<rbrakk> \<Longrightarrow>
     pool_step cfg s (s\<lparr>pl_Collector := Getting a\<rparr>)"
| get_cancelled:
    "\<lbrakk>pl_Panicked s = None; pl_Collector s = Getting a; pl_Done s\<rbrakk> \<Longrightarrow>
     pool_step cfg s (s\<lparr>pl_Collector := Collecting (Suc a), pl_Err := Some (Message ''context has been cancelled'')\<rparr>)"
| get_result:
    "\<lbrakk>pl_Panicked s = None; pl_Collector s = Getting a; pl_Results s = r # rs\<rbrakk> \<Longrightarrow>
     pool_step cfg s (s\<lparr>pl_Collector := Collecting (Suc a), pl_Results := rs,
       pl_Collected := fmupd (ComputeKey (pr_Objective r)) r (pl_Collected s),
       pl_Err := (if pr_ErrMsg r \<noteq> [] then Some (Message (pr_ErrMsg r)) else pl_Err s)\<rparr>)"
| collect_end:
    "\<lbrakk>pl_Panicked s = None; pl_Collector s = Collecting a; \<not> a < pc_Jobs cfg\<rbrakk> \<Longrightarrow>
     pool_step cfg s (s\<lparr>pl_Collector := Closing SupportedProviders\<rparr>)"
| close_queue:
    "\<lbrakk>pl_Panicked s = None; pl_Collector s = Closing ps; p \<in> set ps\<rbrakk> \<Longrightarrow>
     pool_step cfg s (s\<lparr>pl_Collector := Closing (remove1 p ps), pl_QueueClosed := (pl_QueueClosed s)(p := True)\<rparr>)"
| close_results:
    "\<lbrakk>pl_Panicked s = None; pl_Collector s = Closing []\<rbrakk> \<Longrightarrow>
     pool_step cfg s (s\<lparr>pl_Collector := Returned, pl_ResultsClosed := True\<rparr>)"

text \<open>Besides, the context may end at any time: its timeout passes or the caller cancels it.\<close>

inductive pool_trans :: "pool_config \<Rightarrow> pool \<Rightarrow> pool \<Rightarrow> bool" for cfg where
  goroutine: "pool_step cfg s s' \<Longrightarrow> pool_trans cfg s s'"
| context_done: "pl_Panicked s = None \<Longrightarrow> \<not> pl_Done s \<Longrightarrow> pool_trans cfg s (s\<lparr>pl_Done := True\<rparr>)"

inductive_cases pool_stepE: "pool_step cfg s s'"
inductive_cases pool_transE: "pool_trans cfg s s'"

section \<open>The tasks are dealt out evenly\<close>

text \<open>Where the share of worker \<open>i\<close> begins, and how long it is.\<close>

definition share_start :: "nat \<Rightarrow> nat \<Rightarrow> nat \<Rightarrow> nat" where
  "share_start n t i = i * (t div n) + min i (t mod n)"

definition share_size :: "nat \<Rightarrow> nat \<Rightarrow> nat \<Rightarrow> nat" where
  "share_size n t i = t div n + (if i < t mod n then 1 else 0)"

lemma share_start_Suc: "share_start n t (Suc i) = share_start n t i + share_size n t i"
  by (auto simp: share_start_def share_size_def min_def)

lemma share_start_n: "0 < n \<Longrightarrow> share_start n t n = t"
  using mod_less_divisor [of n t] by (simp add: share_start_def min_def less_imp_le_nat del: mod_less_divisor)

lemma share_start_mono: "i \<le> j \<Longrightarrow> share_start n t i \<le> share_start n t j"
  by (simp add: share_start_def add_mono)

lemma assign_from_share:
  assumes "0 < n"
  shows "tasks_of (assign_from ts n i (share_start n (length ts) i) m) (Suc k) =
     (if i \<le> k \<and> k < n then
        (if share_start n (length ts) k < length ts then
           take (share_size n (length ts) k) (drop (share_start n (length ts) k) ts)
         else tasks_of m (Suc k))
      else tasks_of m (Suc k))"
proof (induction "n - i" arbitrary: i m)
  case 0
  then have "\<not> (i \<le> k \<and> k < n)" "n \<le> i" by simp_all
  then show ?case by (simp only: assign_from.simps [of ts n i] if_False not_less [symmetric] simp_thms)
next
  case (Suc d)
  show ?case
  proof (cases "share_start n (length ts) i < length ts")
    case True
    then have step: "assign_from ts n i (share_start n (length ts) i) m =
        assign_from ts n (Suc i) (share_start n (length ts) (Suc i))
          (fmupd (Suc i) (take (share_size n (length ts) i) (drop (share_start n (length ts) i) ts)) m)"
    proof -
      have "i < n" using Suc.hyps(2) by simp
      with True show ?thesis by (subst assign_from.simps) (simp add: share_start_Suc share_size_def Let_def)
    qed
    show ?thesis unfolding step using Suc.hyps(1) [of "Suc i"] Suc.hyps(2) True
      by (auto simp: tasks_of_def)
  next
    case False
    then have "i \<le> k \<Longrightarrow> \<not> share_start n (length ts) k < length ts"
      using share_start_mono [of i k n "length ts"] by simp
    with False show ?thesis by (simp add: assign_from.simps)
  qed
qed

lemma tasks_of_assign:
  assumes "0 < n" and "k < n"
  shows "tasks_of (assignTasks n ts) (Suc k) = take (share_size n (length ts) k) (drop (share_start n (length ts) k) ts)"
  using assms assign_from_share [of n ts 0 fmempty k]
  by (auto simp: assignTasks_def share_start_def [of _ _ 0] tasks_of_def)

lemma concat_shares:
  assumes "0 < n" and "k \<le> n"
  shows "concat (map (\<lambda>i. tasks_of (assignTasks n ts) (Suc i)) [0..<k]) = take (share_start n (length ts) k) ts"
  using assms(2)
proof (induction k)
  case (Suc k)
  then show ?case by (simp add: tasks_of_assign assms(1) share_start_Suc take_add)
qed (simp add: share_start_def)

lemma length_share:
  assumes "0 < n" and "k < n"
  shows "length (tasks_of (assignTasks n ts) (Suc k)) = share_size n (length ts) k"
proof -
  have "share_start n (length ts) k + share_size n (length ts) k \<le> length ts"
    using share_start_mono [of "Suc k" n n "length ts"] share_start_n [OF assms(1)] assms(2)
    by (simp add: share_start_Suc)
  then show ?thesis by (simp add: tasks_of_assign assms)
qed

lemma image_Suc_upt: "map (\<lambda>i. f (Suc i)) [0..<n] = map f [1..<Suc n]"
  by (induction n) auto

text \<open>
  The tasks are dealt out to the workers without loss: read in the order of the workers the shares are
  the tasks in their order, and no two workers differ by more than one task.
\<close>

theorem tasks_dealt_evenly:
  assumes "0 < numWorkers"
  shows "concat (map (tasks_of (assignTasks numWorkers tasks)) [1..<Suc numWorkers]) = tasks \<and>
     (\<forall>i\<in>{1..numWorkers}. \<forall>j\<in>{1..numWorkers}.
        length (tasks_of (assignTasks numWorkers tasks) i) \<le> length (tasks_of (assignTasks numWorkers tasks) j) + 1)"
proof
  show "concat (map (tasks_of (assignTasks numWorkers tasks)) [1..<Suc numWorkers]) = tasks"
    using concat_shares [OF assms order_refl, of tasks]
    by (simp add: image_Suc_upt share_start_n assms del: upt_Suc)
  have "length (tasks_of (assignTasks numWorkers tasks) i) = share_size numWorkers (length tasks) (i - 1)"
    if "i \<in> {1..numWorkers}" for i
    using that length_share [OF assms, of "i - 1"] by (cases i) auto
  then show "\<forall>i\<in>{1..numWorkers}. \<forall>j\<in>{1..numWorkers}.
      length (tasks_of (assignTasks numWorkers tasks) i) \<le> length (tasks_of (assignTasks numWorkers tasks) j) + 1"
    by (simp add: share_size_def)
qed

section \<open>The pool stops\<close>

text \<open>The sum of what a family of processes or channels holds.\<close>

definition load_of :: "'a set \<Rightarrow> ('b \<Rightarrow> 'c::comm_monoid_add) \<Rightarrow> ('a \<Rightarrow> 'b) \<Rightarrow> 'c" where
  "load_of S f g = (\<Sum>x\<in>S. f (g x))"

lemma load_upd:
  assumes "finite S" and "w \<in> S"
  shows "load_of S f (g(w := v)) + f (g w) = load_of S f g + f v"
proof -
  have "(\<Sum>x\<in>S - {w}. f ((g(w := v)) x)) = (\<Sum>x\<in>S - {w}. f (g x))" by (rule sum.cong) auto
  then show ?thesis
    using sum.remove [OF assms, of "\<lambda>x. f ((g(w := v)) x)"] sum.remove [OF assms, of "\<lambda>x. f (g x)"]
    by (simp add: load_of_def ac_simps)
qed

lemma load_upd_other: "w \<notin> S \<Longrightarrow> load_of S f (g(w := v)) = load_of S f g"
  by (auto simp: load_of_def intro: sum.cong)

abbreviation worker_ids :: "pool_config \<Rightarrow> nat set" where
  "worker_ids cfg \<equiv> {1..pc_Workers cfg}"

lemmas worker_upd = load_upd [OF finite_atLeastAtMost]
lemmas provider_upd = load_upd [OF finite_set]

fun worker_work :: "worker \<Rightarrow> nat" where
  "worker_work (Idle js) = 10 * length js"
| "worker_work (Preparing j js) = 9 + 10 * length js"
| "worker_work (Sending d js) = 8 + 10 * length js"

fun provider_work :: "provider \<Rightarrow> nat" where
  "provider_work Starting = 3"
| "provider_work Waiting = 2"
| "provider_work (Fetching q) = 7"
| "provider_work (Delivering r) = 6"
| "provider_work Stopped = 0"

fun collector_work :: "nat \<Rightarrow> collector \<Rightarrow> nat" where
  "collector_work n (Collecting a) = 2 * (n - a) + 9"
| "collector_work n (Getting a) = (if a < n then 2 * (n - a) + 8 else 10)"
| "collector_work n (Closing ps) = length ps + 1"
| "collector_work n Returned = 0"

definition pool_work :: "pool_config \<Rightarrow> pool \<Rightarrow> nat" where
  "pool_work cfg s =
     load_of (worker_ids cfg) worker_work (pl_Workers s) +
     load_of (set SupportedProviders) provider_work (pl_Providers s) +
     load_of (set SupportedProviders) (\<lambda>qs. 6 * length qs) (pl_Queues s) +
     collector_work (pc_Jobs cfg) (pl_Collector s) +
     (if pl_Done s then 0 else 1) + (if pl_Panicked s = None then 1 else 0)"

lemma pool_step_work: "pool_step cfg s s' \<Longrightarrow> pool_work cfg s' < pool_work cfg s"
proof (erule pool_step.cases, goal_cases)
  case (6 s w p q js)
  then have "load_of (set SupportedProviders) (\<lambda>qs. 6 * length qs) ((pl_Queues s)(p := pl_Queues s p @ [q])) \<le>
      load_of (set SupportedProviders) (\<lambda>qs. 6 * length qs) (pl_Queues s) + 6"
    using provider_upd [of p SupportedProviders "\<lambda>qs. 6 * length qs" "pl_Queues s" "pl_Queues s p @ [q]"]
      load_upd_other [of p "set SupportedProviders" "\<lambda>qs. 6 * length qs" "pl_Queues s" "pl_Queues s p @ [q]"]
    by (cases "p \<in> set SupportedProviders") auto
  with 6 show ?case
    using worker_upd [of w 1 "pc_Workers cfg" worker_work "pl_Workers s" "Idle js"] by (simp add: pool_work_def)
next
  case (1 s w j js)
  then show ?case using worker_upd [of w 1 "pc_Workers cfg" worker_work "pl_Workers s" "Idle []"] by (simp add: pool_work_def)
next
  case (2 s w j js)
  then show ?case using worker_upd [of w 1 "pc_Workers cfg" worker_work "pl_Workers s" "Preparing j js"] by (simp add: pool_work_def)
next
  case (3 s w j js gt gp)
  then show ?case
    using worker_upd [of w 1 "pc_Workers cfg" worker_work "pl_Workers s" "Sending (prepare_job cfg gt gp j) js"]
    by (simp add: pool_work_def)
next
  case (4 s w r js)
  then show ?case using worker_upd [of w 1 "pc_Workers cfg" worker_work "pl_Workers s" "Idle js"] by (simp add: pool_work_def)
next
  case (8 s p meta k)
  then show ?case using provider_upd [of p SupportedProviders provider_work "pl_Providers s" Waiting] by (simp add: pool_work_def)
next
  case (9 s p meta err)
  then show ?case using provider_upd [of p SupportedProviders provider_work "pl_Providers s" Stopped] by (simp add: pool_work_def)
next
  case (10 s p q qs)
  then show ?case
    using provider_upd [of p SupportedProviders provider_work "pl_Providers s" "Fetching q"]
      provider_upd [of p SupportedProviders "\<lambda>qs. 6 * length qs" "pl_Queues s" qs] by (simp add: pool_work_def)
next
  case (11 s p)
  then show ?case using provider_upd [of p SupportedProviders provider_work "pl_Providers s" Stopped] by (simp add: pool_work_def)
next
  case (12 s p q v err)
  then show ?case
    using provider_upd [of p SupportedProviders provider_work "pl_Providers s" "Delivering (provider_result q v err)"]
    by (simp add: pool_work_def)
next
  case (14 s p r)
  then show ?case using provider_upd [of p SupportedProviders provider_work "pl_Providers s" Waiting] by (simp add: pool_work_def)
next
  case (21 s ps p)
  moreover from 21 have "0 < length ps" by auto
  ultimately show ?case by (simp add: pool_work_def length_remove1)
qed (auto simp: pool_work_def SupportedProviders_def)

lemma pool_trans_work: "pool_trans cfg s s' \<Longrightarrow> pool_work cfg s' < pool_work cfg s"
  by (erule pool_transE) (erule pool_step_work, simp add: pool_work_def)

text \<open>
  C15: the pool stops: whatever the server and the providers answer and however the goroutines are scheduled,
  there is no infinite run of the pool.
\<close>

theorem pool_terminates:
  "\<nexists>run. \<forall>i. pool_trans cfg (run i) (run (Suc i))"
proof
  assume "\<exists>run. \<forall>i. pool_trans cfg (run i) (run (Suc i))"
  then obtain run where "\<And>i. pool_trans cfg (run i) (run (Suc i))" by blast
  then have "\<And>i. pool_work cfg (run (Suc i)) < pool_work cfg (run i)" by (simp add: pool_trans_work)
  then have "\<exists>f :: nat \<Rightarrow> nat. \<forall>i. f (Suc i) < f i" by (intro exI [of _ "\<lambda>i. pool_work cfg (run i)"]) simp
  then show False using wf_less [unfolded wf_iff_no_infinite_down_chain] by auto
qed

section \<open>Every objective is accounted for\<close>

abbreviation job_ref :: "AnalysisObjective \<Rightarrow> ObjectReference" where
  "job_ref \<equiv> ao_AnalysisValueTemplateRef"

fun dispatch_ref :: "dispatch \<Rightarrow> ObjectReference" where
  "dispatch_ref (Answer r) = pr_Objective r"
| "dispatch_ref (Ask p q) = job_ref (prq_Objective q)"

fun worker_refs :: "worker \<Rightarrow> ObjectReference multiset" where
  "worker_refs (Idle js) = mset (map job_ref js)"
| "worker_refs (Preparing j js) = add_mset (job_ref j) (mset (map job_ref js))"
| "worker_refs (Sending d js) = add_mset (dispatch_ref d) (mset (map job_ref js))"

fun provider_refs :: "provider \<Rightarrow> ObjectReference multiset" where
  "provider_refs (Fetching q) = {#job_ref (prq_Objective q)#}"
| "provider_refs (Delivering r) = {#pr_Objective r#}"
| "provider_refs _ = {#}"

abbreviation queue_refs :: "ProviderRequest list \<Rightarrow> ObjectReference multiset" where
  "queue_refs qs \<equiv> mset (map (job_ref \<circ> prq_Objective) qs)"

definition outstanding :: "pool_config \<Rightarrow> pool \<Rightarrow> ObjectReference multiset" where
  "outstanding cfg s =
     load_of (worker_ids cfg) worker_refs (pl_Workers s) +
     load_of (set SupportedProviders) provider_refs (pl_Providers s) +
     load_of (set SupportedProviders) queue_refs (pl_Queues s) + mset (map pr_Objective (pl_Results s))"

lemma dispatch_ref_prepare [simp]: "dispatch_ref (prepare_job cfg gt gp j) = job_ref j"
  by (simp add: prepare_job_def error_result_def Let_def split: sum.splits)

lemma prepare_job_registered: "prepare_job cfg gt gp j = Ask p q \<Longrightarrow> p \<in> set SupportedProviders"
  by (auto simp: prepare_job_def isProviderTypeRegistered_def Let_def split: sum.splits if_splits)

lemma pr_Objective_provider_result [simp]: "pr_Objective (provider_result q v err) = job_ref (prq_Objective q)"
  by (simp add: provider_result_def)

lemma bare_provider_known: "p \<in> set SupportedProviders \<Longrightarrow> NewProvider (bare_provider meta p) \<noteq> Inl err"
  using supported_provider [of "bare_provider meta p"] by (auto simp: bare_provider_def)

text \<open>The shape of a state: which channels are closed when, and who may be where.\<close>

fun closing :: "collector \<Rightarrow> bool" where
  "closing (Closing ps) = True"
| "closing Returned = True"
| "closing _ = False"

fun rounds :: "nat \<Rightarrow> collector \<Rightarrow> nat" where
  "rounds n (Collecting a) = a"
| "rounds n (Getting a) = a"
| "rounds n _ = n"

definition well_shaped :: "pool_config \<Rightarrow> pool \<Rightarrow> bool" where
  "well_shaped cfg s \<longleftrightarrow>
     (\<forall>p. pl_QueueClosed s p \<longrightarrow> closing (pl_Collector s)) \<and>
     (pl_ResultsClosed s \<longrightarrow> closing (pl_Collector s)) \<and>
     rounds (pc_Jobs cfg) (pl_Collector s) \<le> pc_Jobs cfg \<and>
     (\<forall>a. pl_Collector s = Getting a \<longrightarrow> a < pc_Jobs cfg) \<and>
     (\<forall>p\<in>set SupportedProviders. pl_Providers s p = Stopped \<longrightarrow> pl_QueueClosed s p \<and> pl_Queues s p = []) \<and>
     (\<forall>w p q js. pl_Workers s w = Sending (Ask p q) js \<longrightarrow> p \<in> set SupportedProviders)"

text \<open>
  Every objective is with a worker, a provider, on a channel or among the results received; none is lost
  before the context ends, and none is ever handled twice.
\<close>

definition balanced :: "pool_config \<Rightarrow> ObjectReference multiset \<Rightarrow> pool \<Rightarrow> ProviderResult list \<Rightarrow> bool" where
  "balanced cfg refs s received \<longleftrightarrow>
     outstanding cfg s + mset (map pr_Objective received) \<subseteq># refs \<and>
     fmdom' (pl_Collected s) = ComputeKey ` pr_Objective ` set received \<and>
     (pl_Err s = None \<longrightarrow>
        rounds (pc_Jobs cfg) (pl_Collector s) = length received \<and> (\<forall>r\<in>fmran' (pl_Collected s). pr_ErrMsg r = [])) \<and>
     (\<not> pl_Done s \<longrightarrow>
        outstanding cfg s + mset (map pr_Objective received) = refs \<and>
        rounds (pc_Jobs cfg) (pl_Collector s) = length received)"

definition pool_inv :: "pool_config \<Rightarrow> ObjectReference multiset \<Rightarrow> pool \<Rightarrow> bool" where
  "pool_inv cfg refs s \<longleftrightarrow>
     well_shaped cfg s \<and> (\<exists>received. balanced cfg refs s received) \<and> (pl_Panicked s = Some ClosedChannel \<longrightarrow> pl_Done s)"

lemma well_shaped_step:
  assumes "pool_step cfg s s'" and "well_shaped cfg s"
  shows "well_shaped cfg s'"
  using assms
proof (cases rule: pool_step.cases)
  case (worker_prepare w j js gt gp)
  then show ?thesis using assms(2) prepare_job_registered [of cfg gt gp j] by (auto simp: well_shaped_def)
next
  case (provider_unknown p meta err)
  then show ?thesis using bare_provider_known by blast
next
  case (worker_ask w p q js)
  then show ?thesis using assms(2) by (auto simp: well_shaped_def)
qed (auto simp: well_shaped_def)

lemma load_same:
  fixes f :: "'b \<Rightarrow> 'c::cancel_comm_monoid_add"
  assumes "finite S" and "w \<in> S" and "f v = f (g w)"
  shows "load_of S f (g(w := v)) = load_of S f g"
  using load_upd [OF assms(1,2), of f g v] assms(3) by simp

text \<open>Steps other than the receipt of a result keep the objectives; a worker that exits drops its own.\<close>

lemma worker_load:
  "w \<in> worker_ids cfg \<Longrightarrow> load_of (worker_ids cfg) worker_refs ((pl_Workers s)(w := v)) + worker_refs (pl_Workers s w) =
     load_of (worker_ids cfg) worker_refs (pl_Workers s) + worker_refs v"
  by (simp add: load_upd)

definition takes_result :: "pool \<Rightarrow> pool \<Rightarrow> bool" where
  "takes_result s s' \<longleftrightarrow> (\<exists>a r rs. pl_Collector s = Getting a \<and> pl_Results s = r # rs \<and> pl_Results s' = rs)"

lemma outstanding_step:
  assumes "pool_step cfg s s'" and "well_shaped cfg s"
    and "\<not> takes_result s s'"
  shows "outstanding cfg s' \<subseteq># outstanding cfg s \<and> (outstanding cfg s' = outstanding cfg s \<or> pl_Done s)"
  using assms(1)
proof (cases rule: pool_step.cases)
  case (worker_exit w j js)
  have "load_of (worker_ids cfg) worker_refs (pl_Workers s) =
      load_of (worker_ids cfg) worker_refs ((pl_Workers s)(w := Idle [])) + worker_refs (pl_Workers s w)"
    using worker_load [OF worker_exit(3), of s "Idle []"] by simp
  with worker_exit show ?thesis by (simp add: outstanding_def)
next
  case (worker_take w j js)
  then show ?thesis using load_same [of "worker_ids cfg" w worker_refs "Preparing j js" "pl_Workers s"]
    by (simp add: outstanding_def)
next
  case (worker_prepare w j js gt gp)
  then show ?thesis
    using load_same [of "worker_ids cfg" w worker_refs "Sending (prepare_job cfg gt gp j) js" "pl_Workers s"]
    by (simp add: outstanding_def)
next
  case (worker_answer w r js)
  then show ?thesis using worker_load [OF worker_answer(3), of s "Idle js"] by (simp add: outstanding_def)
next
  case (worker_ask w p q js)
  then have "p \<in> set SupportedProviders" using assms(2) unfolding well_shaped_def by blast
  with worker_ask show ?thesis
    using worker_load [OF worker_ask(3), of s "Idle js"]
      load_upd [of "set SupportedProviders" p queue_refs "pl_Queues s" "pl_Queues s p @ [q]"]
    by (simp add: outstanding_def)
next
  case (provider_receive p q qs)
  then show ?thesis
    using load_upd [of "set SupportedProviders" p queue_refs "pl_Queues s" qs]
      load_upd [of "set SupportedProviders" p provider_refs "pl_Providers s" "Fetching q"]
    by (simp add: outstanding_def)
next
  case (provider_fetch p q v err)
  then show ?thesis
    using load_same [of "set SupportedProviders" p provider_refs "Delivering (provider_result q v err)" "pl_Providers s"]
    by (simp add: outstanding_def)
next
  case (provider_deliver p r)
  then show ?thesis
    using load_upd [of "set SupportedProviders" p provider_refs "pl_Providers s" Waiting] by (simp add: outstanding_def)
next
  case (provider_start p meta k)
  then show ?thesis
    using load_same [of "set SupportedProviders" p provider_refs Waiting "pl_Providers s"] by (simp add: outstanding_def)
next
  case (provider_unknown p meta err)
  then show ?thesis using bare_provider_known by blast
next
  case (provider_end p)
  then show ?thesis
    using load_same [of "set SupportedProviders" p provider_refs Stopped "pl_Providers s"] by (simp add: outstanding_def)
qed (use assms(3) in \<open>auto simp: outstanding_def takes_result_def\<close>)

lemma err_step:
  assumes "pool_step cfg s s'" and "well_shaped cfg s"
    and "\<not> takes_result s s'"
  shows "pl_Collected s' = pl_Collected s \<and> (pl_Err s' = None \<longrightarrow> pl_Err s = None) \<and>
     (rounds (pc_Jobs cfg) (pl_Collector s') = rounds (pc_Jobs cfg) (pl_Collector s) \<or> pl_Err s' \<noteq> None \<and> pl_Done s) \<and>
     (pl_Done s \<longrightarrow> pl_Done s')"
  using assms by (cases rule: pool_step.cases) (auto simp: well_shaped_def takes_result_def)

lemma balanced_step:
  assumes "pool_step cfg s s'" and "well_shaped cfg s" and "balanced cfg refs s received"
  shows "\<exists>received'. balanced cfg refs s' received'"
proof (cases "takes_result s s'")
  case True
  obtain a r rs where g: "pl_Collector s = Getting a" "pl_Results s = r # rs"
    "s' = s\<lparr>pl_Collector := Collecting (Suc a), pl_Results := rs,
       pl_Collected := fmupd (ComputeKey (pr_Objective r)) r (pl_Collected s),
       pl_Err := (if pr_ErrMsg r \<noteq> [] then Some (Message (pr_ErrMsg r)) else pl_Err s)\<rparr>"
    using assms(1) True by (cases rule: pool_step.cases) (auto simp: takes_result_def)
  then have "outstanding cfg s = add_mset (pr_Objective r) (outstanding cfg s')"
    by (simp add: outstanding_def)
  moreover have "fmran' (pl_Collected s') \<subseteq> insert r (fmran' (pl_Collected s))"
    using g(3) by (auto simp: fmran'_alt_def fmlookup_ran_iff fmran'I split: if_splits)
  moreover have "pl_Done s' = pl_Done s" "pl_Collector s' = Collecting (Suc a)" "pl_Err s' = None \<longrightarrow> pr_ErrMsg r = [] \<and> pl_Err s = None"
    "fmdom' (pl_Collected s') = insert (ComputeKey (pr_Objective r)) (fmdom' (pl_Collected s))"
    using g(3) by auto
  ultimately have "balanced cfg refs s' (r # received)"
    using assms(3) g(1) unfolding balanced_def by auto
  then show ?thesis ..
next
  case False
  note out = outstanding_step [OF assms(1,2) False] and err = err_step [OF assms(1,2) False]
  have "outstanding cfg s' + mset (map pr_Objective received) \<subseteq># outstanding cfg s + mset (map pr_Objective received)"
    using out by simp
  also have "\<dots> \<subseteq># refs" using assms(3) by (simp add: balanced_def)
  finally have le: "outstanding cfg s' + mset (map pr_Objective received) \<subseteq># refs" .
  have "outstanding cfg s' + mset (map pr_Objective received) = refs \<and>
      rounds (pc_Jobs cfg) (pl_Collector s') = length received" if "\<not> pl_Done s'"
  proof -
    have "\<not> pl_Done s" using err that by blast
    then have "outstanding cfg s' = outstanding cfg s"
      "rounds (pc_Jobs cfg) (pl_Collector s') = rounds (pc_Jobs cfg) (pl_Collector s)" using out err by auto
    then show ?thesis using assms(3) \<open>\<not> pl_Done s\<close> by (simp add: balanced_def)
  qed
  moreover have "rounds (pc_Jobs cfg) (pl_Collector s') = length received \<and> (\<forall>r\<in>fmran' (pl_Collected s'). pr_ErrMsg r = [])"
    if "pl_Err s' = None"
    using err assms(3) that by (simp add: balanced_def)
  ultimately have "balanced cfg refs s' received"
    using le err assms(3) by (simp add: balanced_def)
  then show ?thesis ..
qed

text \<open>Before the context ends, nothing is left to be sent once the collector closes the channels.\<close>

lemma load_empty:
  fixes f :: "'b \<Rightarrow> 'd multiset"
  assumes "finite S" and "load_of S f g = {#}" and "x \<in> S"
  shows "f (g x) = {#}"
  using assms sum.remove [OF assms(1,3), of "\<lambda>x. f (g x)"] by (simp add: load_of_def)

lemma closed_means_idle:
  assumes "pool_inv cfg refs s" and "size refs = pc_Jobs cfg" and "\<not> pl_Done s" and "closing (pl_Collector s)"
  shows "outstanding cfg s = {#}"
proof -
  obtain received where b: "balanced cfg refs s received" using assms(1) by (auto simp: pool_inv_def)
  then have "size (outstanding cfg s) + length received = pc_Jobs cfg"
    using assms(2,3) unfolding balanced_def by (metis size_union size_mset length_map)
  moreover have "length received = pc_Jobs cfg"
    using b assms(3,4) unfolding balanced_def by (cases "pl_Collector s") auto
  ultimately show ?thesis by simp
qed

lemma idle_pool:
  assumes "outstanding cfg s = {#}"
  shows "w \<in> worker_ids cfg \<Longrightarrow> worker_refs (pl_Workers s w) = {#}"
    and "p \<in> set SupportedProviders \<Longrightarrow> provider_refs (pl_Providers s p) = {#}"
  using assms load_empty [of "worker_ids cfg" worker_refs "pl_Workers s" w]
    load_empty [of "set SupportedProviders" provider_refs "pl_Providers s" p]
  by (auto simp: outstanding_def)

lemma pool_inv_step:
  assumes "pool_trans cfg s s'" and "pool_inv cfg refs s" and "size refs = pc_Jobs cfg"
  shows "pool_inv cfg refs s'"
  using assms(1)
proof (cases rule: pool_trans.cases)
  case goroutine
  have "pl_Done s'" if p: "pl_Panicked s' = Some ClosedChannel"
  proof (rule ccontr)
    assume n: "\<not> pl_Done s'"
    have nd: "\<not> pl_Done s" using goroutine n by (cases rule: pool_step.cases) auto
    show False using goroutine
    proof (cases rule: pool_step.cases)
      case (worker_answer_closed w r js)
      then have "closing (pl_Collector s)" using assms(2) by (auto simp: pool_inv_def well_shaped_def)
      then show False using idle_pool(1) [OF closed_means_idle [OF assms(2,3) nd]] worker_answer_closed by fastforce
    next
      case (worker_ask_closed w p q js)
      then have "closing (pl_Collector s)" using assms(2) by (auto simp: pool_inv_def well_shaped_def)
      then show False using idle_pool(1) [OF closed_means_idle [OF assms(2,3) nd]] worker_ask_closed by fastforce
    next
      case (provider_deliver_closed p r)
      then have "closing (pl_Collector s)" using assms(2) by (auto simp: pool_inv_def well_shaped_def)
      then show False using idle_pool(2) [OF closed_means_idle [OF assms(2,3) nd]] provider_deliver_closed by fastforce
    qed (use p n in auto)
  qed
  then show ?thesis
    using assms(2) well_shaped_step [OF goroutine] balanced_step [OF goroutine] by (auto simp: pool_inv_def)
next
  case context_done
  then show ?thesis using assms(2) by (auto simp: pool_inv_def well_shaped_def balanced_def outstanding_def)
qed

subsection \<open>The beginning\<close>

lemma load_const_empty: "(\<And>x. x \<in> S \<Longrightarrow> f (g x) = 0) \<Longrightarrow> load_of S f g = 0"
  by (simp add: load_of_def)

lemma load_tasks:
  "load_of {1..n} worker_refs (\<lambda>w. Idle (f w)) = mset (map job_ref (concat (map f [1..<Suc n])))"
proof (induction n)
  case (Suc n)
  have "load_of {1..Suc n} worker_refs (\<lambda>w. Idle (f w)) =
      load_of {1..n} worker_refs (\<lambda>w. Idle (f w)) + worker_refs (Idle (f (Suc n)))"
    by (simp add: load_of_def)
  then show ?case using Suc by simp
qed (simp add: load_of_def)

definition effective_workers :: "nat \<Rightarrow> nat \<Rightarrow> nat" where
  "effective_workers numJobs numWorkers = (if numJobs \<le> numWorkers then numJobs else numWorkers)"

lemma pool_inv_start:
  assumes "NewWorkersPool objectives numWorkers ns args tpl = (cfg, s)" and "0 < numWorkers"
  shows "pool_inv cfg (mset (map job_ref objectives)) s" and "pc_Jobs cfg = length objectives" and "\<not> pl_Done s"
proof -
  define n where "n = effective_workers (length objectives) numWorkers"
  have cfg: "pc_Workers cfg = n" "pc_Jobs cfg = length objectives"
    and s: "pl_Workers s = (\<lambda>w. if w \<in> {1..n} then Idle (tasks_of (assignTasks n objectives) w) else Idle [])"
      "pl_Providers s = (\<lambda>p. if p \<in> set SupportedProviders then Starting else Stopped)" "pl_Queues s = (\<lambda>p. [])"
      "pl_QueueClosed s = (\<lambda>p. False)" "pl_Results s = []" "\<not> pl_ResultsClosed s" "\<not> pl_Done s"
      "pl_Collector s = Collecting 0" "pl_Collected s = fmempty" "pl_Panicked s = None"
    using assms(1) by (auto simp: NewWorkersPool_def n_def effective_workers_def Let_def)
  have "load_of (worker_ids cfg) worker_refs (pl_Workers s) =
      load_of {1..n} worker_refs (\<lambda>w. Idle (tasks_of (assignTasks n objectives) w))"
    unfolding cfg s by (simp add: load_of_def)
  also have "\<dots> = mset (map job_ref (concat (map (tasks_of (assignTasks n objectives)) [1..<Suc n])))"
    by (rule load_tasks)
  also have "concat (map (tasks_of (assignTasks n objectives)) [1..<Suc n]) = objectives"
  proof (cases "n = 0")
    case True
    then show ?thesis using assms(2) by (simp add: n_def effective_workers_def split: if_splits)
  next
    case False
    then show ?thesis using concat_shares [of n n objectives] by (simp add: image_Suc_upt share_start_n del: upt_Suc)
  qed
  finally have "outstanding cfg s = mset (map job_ref objectives)"
    by (simp add: outstanding_def s load_const_empty)
  then have "balanced cfg (mset (map job_ref objectives)) s []" by (simp add: balanced_def s fmran'_alt_def)
  moreover have "well_shaped cfg s" by (auto simp: well_shaped_def s)
  ultimately show "pool_inv cfg (mset (map job_ref objectives)) s" using s by (auto simp: pool_inv_def)
  show "pc_Jobs cfg = length objectives" "\<not> pl_Done s" using cfg s by auto
qed

lemma pool_inv_reachable:
  assumes "NewWorkersPool objectives numWorkers ns args tpl = (cfg, s0)" and "0 < numWorkers"
    and "(pool_trans cfg)\<^sup>*\<^sup>* s0 s"
  shows "pool_inv cfg (mset (map job_ref objectives)) s"
  using assms(3)
proof (induction rule: rtranclp_induct)
  case base
  then show ?case using pool_inv_start [OF assms(1,2)] by blast
next
  case (step s s')
  then show ?case using pool_inv_step pool_inv_start(2) [OF assms(1,2)] by (metis size_mset length_map)
qed

section \<open>What the pool guarantees\<close>

lemma all_received:
  assumes "balanced cfg (mset (map job_ref objectives)) s received" and "length received = length objectives"
  shows "fmdom' (pl_Collected s) = (\<lambda>ob. ComputeKey (job_ref ob)) ` set objectives"
proof -
  have "mset (map pr_Objective received) \<subseteq># mset (map job_ref objectives)"
    using assms(1) subset_mset.order_trans [OF mset_subset_eq_add_right] unfolding balanced_def by blast
  moreover have "size (mset (map pr_Objective received)) = size (mset (map job_ref objectives))" using assms(2) by simp
  ultimately have "mset (map pr_Objective received) = mset (map job_ref objectives)"
    by (metis mset_subset_size order_less_irrefl subset_mset.le_neq_trans)
  then have "pr_Objective ` set received = job_ref ` set objectives" by (metis set_mset_mset set_map)
  then show ?thesis using assms(1) by (simp add: balanced_def image_image)
qed

lemma pool_result:
  assumes "NewWorkersPool objectives numWorkers ns args tpl = (cfg, s0)" and "0 < numWorkers"
    and "(pool_trans cfg)\<^sup>*\<^sup>* s0 s"
  shows "(pl_Collector s = Returned \<and> (pl_Err s = None \<or> \<not> pl_Done s) \<longrightarrow>
       fmdom' (pl_Collected s) = (\<lambda>ob. ComputeKey (ao_AnalysisValueTemplateRef ob)) ` set objectives) \<and>
     (pl_Err s = None \<longrightarrow> (\<forall>r\<in>fmran' (pl_Collected s). pr_ErrMsg r = [])) \<and>
     (\<not> pl_Done s \<longrightarrow> pl_Panicked s \<noteq> Some ClosedChannel)"
proof -
  note inv = pool_inv_reachable [OF assms]
  then obtain received where b: "balanced cfg (mset (map job_ref objectives)) s received" by (auto simp: pool_inv_def)
  have "length received = length objectives" if "pl_Collector s = Returned" "pl_Err s = None \<or> \<not> pl_Done s"
    using b that pool_inv_start(2) [OF assms(1,2)] by (auto simp: balanced_def)
  then show ?thesis using all_received [OF b] inv b by (auto simp: pool_inv_def balanced_def)
qed

text \<open>
  C16: when the collector returns without an error, whether or not the context has ended meanwhile, there is a
  value without an error for the key of every objective and for no other key. Before the context ends nothing
  is sent on a closed channel, so that only a provider that panics in \<^verbatim>\<open>FetchAnalysisValue\<close> can end the
  process, and a collector that returns by then has a value for every key even if it reports an error.
\<close>

theorem pool_collects_all:
  assumes "NewWorkersPool objectives numWorkers ns args tpl = (cfg, s0)" and "0 < numWorkers"
    and "(pool_trans cfg)\<^sup>*\<^sup>* s0 s"
  shows "(pl_Collector s = Returned \<and> (pl_Err s = None \<or> \<not> pl_Done s) \<longrightarrow>
       fmdom' (pl_Collected s) = (\<lambda>ob. ComputeKey (ao_AnalysisValueTemplateRef ob)) ` set objectives) \<and>
     (pl_Err s = None \<longrightarrow> (\<forall>r\<in>fmran' (pl_Collected s). pr_ErrMsg r = [])) \<and>
     (\<not> pl_Done s \<longrightarrow> pl_Panicked s \<noteq> Some ClosedChannel)"
  using assms by (rule pool_result)

lemma pool_result_complete:
  assumes "NewWorkersPool objectives numWorkers ns args tpl = (cfg, s0)" and "0 < numWorkers"
    and "(pool_trans cfg)\<^sup>*\<^sup>* s0 s" and "pl_Collector s = Returned" and "pl_Err s = None"
  shows "fmdom' (pl_Collected s) = (\<lambda>ob. ComputeKey (ao_AnalysisValueTemplateRef ob)) ` set objectives"
    and "r \<in> fmran' (pl_Collected s) \<Longrightarrow> pr_ErrMsg r = []"
  using pool_result [OF assms(1-3)] assms(4,5) by auto

subsection \<open>No deadlock\<close>

lemma load_member:
  fixes f :: "'b \<Rightarrow> 'd multiset"
  assumes "finite S" and "x \<in> S"
  shows "f (g x) \<subseteq># load_of S f g"
  using sum.remove [OF assms, of "\<lambda>x. f (g x)"] by (simp add: load_of_def)

lemma room:
  assumes "pool_inv cfg refs s" and "size refs = pc_Jobs cfg"
  shows "w \<in> worker_ids cfg \<Longrightarrow> size (worker_refs (pl_Workers s w)) + length (pl_Results s) \<le> pc_Jobs cfg"
    and "w \<in> worker_ids cfg \<Longrightarrow> p \<in> set SupportedProviders \<Longrightarrow>
      size (worker_refs (pl_Workers s w)) + length (pl_Queues s p) \<le> pc_Jobs cfg"
    and "p \<in> set SupportedProviders \<Longrightarrow> size (provider_refs (pl_Providers s p)) + length (pl_Results s) \<le> pc_Jobs cfg"
proof -
  obtain received where "balanced cfg refs s received" using assms(1) by (auto simp: pool_inv_def)
  then have "outstanding cfg s + mset (map pr_Objective received) \<subseteq># refs" by (simp add: balanced_def)
  then have "size (outstanding cfg s) \<le> pc_Jobs cfg" using size_mset_mono assms(2) by fastforce
  then have le: "size (load_of (worker_ids cfg) worker_refs (pl_Workers s)) +
      size (load_of (set SupportedProviders) provider_refs (pl_Providers s)) +
      size (load_of (set SupportedProviders) queue_refs (pl_Queues s)) + length (pl_Results s) \<le> pc_Jobs cfg"
    by (simp add: outstanding_def)
  have W: "size (worker_refs (pl_Workers s w)) \<le> size (load_of (worker_ids cfg) worker_refs (pl_Workers s))"
    if "w \<in> worker_ids cfg" using load_member [OF _ that, of worker_refs "pl_Workers s"] size_mset_mono by blast
  have P: "size (provider_refs (pl_Providers s p)) \<le> size (load_of (set SupportedProviders) provider_refs (pl_Providers s))"
    and Q: "length (pl_Queues s p) \<le> size (load_of (set SupportedProviders) queue_refs (pl_Queues s))"
    if "p \<in> set SupportedProviders"
    using load_member [OF _ that, of provider_refs "pl_Providers s"] load_member [OF _ that, of queue_refs "pl_Queues s"]
      size_mset_mono by (fastforce, fastforce)
  show "w \<in> worker_ids cfg \<Longrightarrow> size (worker_refs (pl_Workers s w)) + length (pl_Results s) \<le> pc_Jobs cfg"
    using W le by linarith
  show "w \<in> worker_ids cfg \<Longrightarrow> p \<in> set SupportedProviders \<Longrightarrow>
      size (worker_refs (pl_Workers s w)) + length (pl_Queues s p) \<le> pc_Jobs cfg"
    using W Q le by linarith
  show "p \<in> set SupportedProviders \<Longrightarrow> size (provider_refs (pl_Providers s p)) + length (pl_Results s) \<le> pc_Jobs cfg"
    using P le by linarith
qed

text \<open>A process that is not at rest can take a step: no channel is ever full.\<close>

lemma busy_worker_steps:
  assumes "pool_inv cfg refs s" and "size refs = pc_Jobs cfg" and "pl_Panicked s = None"
    and "w \<in> worker_ids cfg" and "pl_Workers s w \<noteq> Idle []"
  shows "\<exists>s'. pool_step cfg s s'"
proof (cases "pl_Workers s w")
  case (Idle js)
  then obtain j js' where "pl_Workers s w = Idle (j # js')" using assms(5) by (cases js) auto
  then show ?thesis using worker_exit worker_take assms(3,4) by metis
next
  case (Preparing j js)
  then show ?thesis using worker_prepare [OF assms(3,4)] by blast
next
  case (Sending d js)
  show ?thesis
  proof (cases d)
    case (Answer r)
    then have "length (pl_Results s) < pc_Jobs cfg" using room(1) [OF assms(1,2,4)] Sending by simp
    then show ?thesis using worker_answer worker_answer_closed assms(3,4) Sending Answer by metis
  next
    case (Ask p q)
    then have "p \<in> set SupportedProviders" using assms(1) Sending unfolding pool_inv_def well_shaped_def by blast
    then have "length (pl_Queues s p) < pc_Jobs cfg" using room(2) [OF assms(1,2,4)] Sending by fastforce
    then show ?thesis using worker_ask worker_ask_closed assms(3,4) Sending Ask by metis
  qed
qed

lemma busy_provider_steps:
  assumes "pool_inv cfg refs s" and "size refs = pc_Jobs cfg" and "pl_Panicked s = None"
    and "p \<in> set SupportedProviders" and "provider_refs (pl_Providers s p) \<noteq> {#} \<or> pl_Queues s p \<noteq> []"
  shows "\<exists>s'. pool_step cfg s s'"
proof (cases "pl_Providers s p")
  case Starting
  then show ?thesis using provider_start provider_unknown assms(3,4) by (metis obj_sumE)
next
  case Waiting
  then obtain q qs where "pl_Queues s p = q # qs" using assms(5) by (cases "pl_Queues s p") auto
  then show ?thesis using provider_receive [OF assms(3,4) Waiting] by blast
next
  case (Fetching q)
  then show ?thesis using provider_fetch [OF assms(3,4)] by blast
next
  case (Delivering r)
  then have "length (pl_Results s) < pc_Jobs cfg" using room(3) [OF assms(1,2,4)] by simp
  then show ?thesis using provider_deliver provider_deliver_closed assms(3,4) Delivering by metis
next
  case Stopped
  then show ?thesis using assms(1,4,5) by (auto simp: pool_inv_def well_shaped_def)
qed

lemma never_stuck:
  assumes "NewWorkersPool objectives numWorkers ns args tpl = (cfg, s0)" and "0 < numWorkers"
    and "(pool_trans cfg)\<^sup>*\<^sup>* s0 s" and "\<nexists>s'. pool_step cfg s s'"
  shows "pl_Panicked s \<noteq> None \<or> pl_Collector s = Returned"
proof (rule ccontr)
  assume "\<not> ?thesis"
  then have np: "pl_Panicked s = None" and nr: "pl_Collector s \<noteq> Returned" by auto
  note inv = pool_inv_reachable [OF assms(1-3)]
  have size: "size (mset (map job_ref objectives)) = pc_Jobs cfg" using pool_inv_start(2) [OF assms(1,2)] by simp
  have "pl_Workers s w = Idle []" if "w \<in> worker_ids cfg" for w
    using busy_worker_steps [OF inv size np that] assms(4) by blast
  moreover have "provider_refs (pl_Providers s p) = {#} \<and> pl_Queues s p = []" if "p \<in> set SupportedProviders" for p
    using busy_provider_steps [OF inv size np that] assms(4) by blast
  ultimately have "load_of (worker_ids cfg) worker_refs (pl_Workers s) = {#}"
    "load_of (set SupportedProviders) provider_refs (pl_Providers s) = {#}"
    "load_of (set SupportedProviders) queue_refs (pl_Queues s) = {#}"
    by (auto intro!: load_const_empty)
  then have out: "outstanding cfg s = mset (map pr_Objective (pl_Results s))"
    by (simp add: outstanding_def)
  show False
  proof (cases "pl_Collector s")
    case (Collecting a)
    then show ?thesis using collect_terminated collect_get collect_end np assms(4) by metis
  next
    case (Getting a)
    have "\<not> pl_Done s" "pl_Results s = []"
      using get_cancelled [OF np Getting] get_result [OF np Getting] assms(4) by (blast, metis neq_Nil_conv)
    moreover obtain received where "balanced cfg (mset (map job_ref objectives)) s received"
      using inv by (auto simp: pool_inv_def)
    ultimately have "mset (map pr_Objective received) = mset (map job_ref objectives)" "a = length received"
      using out Getting by (auto simp: balanced_def)
    then have "a = pc_Jobs cfg" using size by (metis size_mset length_map)
    then show ?thesis using inv Getting by (auto simp: pool_inv_def well_shaped_def)
  next
    case (Closing ps)
    show ?thesis
    proof (cases ps)
      case Nil
      then show ?thesis using close_results [OF np] Closing assms(4) by blast
    next
      case (Cons p ps')
      then have "p \<in> set ps" by simp
      then show ?thesis using close_queue [OF np Closing] assms(4) by blast
    qed
  qed (use nr in simp)
qed

text \<open>
  The pool is never stuck. In every state it can reach, whether or not its context has ended, some
  goroutine can go on, unless the collector has returned or the process has panicked.
\<close>

theorem pool_never_stuck:
  assumes "NewWorkersPool objectives numWorkers ns args tpl = (cfg, s0)" and "0 < numWorkers"
    and "(pool_trans cfg)\<^sup>*\<^sup>* s0 s" and "\<nexists>s'. pool_step cfg s s'"
  shows "pl_Panicked s \<noteq> None \<or> pl_Collector s = Returned"
  using assms by (rule never_stuck)

text \<open>Goroutines alone do not end the context: every supported provider can be created.\<close>

lemma step_keeps_context: "pool_step cfg s s' \<Longrightarrow> \<not> pl_Done s \<Longrightarrow> \<not> pl_Done s'"
  by (erule pool_step.cases) (auto dest: bare_provider_known)

text \<open>A provider that could panic can come to a result as well.\<close>

lemma step_without_provider_panic:
  assumes "pool_step cfg s t"
  shows "\<exists>t. pool_step cfg s t \<and> pl_Panicked t \<noteq> Some ProviderPanic"
  using assms
proof (cases rule: pool_step.cases)
  case (provider_panic p q)
  have "pool_step cfg s (s\<lparr>pl_Providers := (pl_Providers s)(p := Delivering (provider_result q [] None))\<rparr>)"
    using provider_panic by (intro provider_fetch)
  with provider_panic show ?thesis by fastforce
qed (use assms in fastforce)+

text \<open>
  C17: as long as the context does not end and no provider has panicked, the pool can always be run to the
  end by its own steps: the collector then returns, and the process has not panicked.
\<close>

theorem pool_returns:
  assumes "NewWorkersPool objectives numWorkers ns args tpl = (cfg, s0)" and "0 < numWorkers"
    and "(pool_trans cfg)\<^sup>*\<^sup>* s0 s" and "\<not> pl_Done s" and "pl_Panicked s \<noteq> Some ProviderPanic"
  shows "\<exists>s'. (pool_step cfg)\<^sup>*\<^sup>* s s' \<and> pl_Collector s' = Returned \<and> pl_Panicked s' = None"
  using assms(3-5)
proof (induction "pool_work cfg s" arbitrary: s rule: less_induct)
  case less
  have "pl_Panicked s \<noteq> Some ClosedChannel"
    using pool_inv_reachable [OF assms(1,2) less.prems(1)] less.prems(2) by (auto simp: pool_inv_def)
  then have np: "pl_Panicked s = None"
    using less.prems(3) by (metis panic.exhaust option.exhaust)
  show ?case
  proof (cases "pl_Collector s = Returned")
    case False
    then obtain t where t: "pool_step cfg s t" "pl_Panicked t \<noteq> Some ProviderPanic"
      using never_stuck [OF assms(1,2) less.prems(1)] np step_without_provider_panic by metis
    have "\<exists>s'. (pool_step cfg)\<^sup>*\<^sup>* t s' \<and> pl_Collector s' = Returned \<and> pl_Panicked s' = None"
      using t less.prems pool_step_work [OF t(1)] step_keeps_context [OF t(1)]
      by (intro less.hyps) (auto intro: rtranclp.rtrancl_into_rtrancl goroutine)
    then show ?thesis using t(1) by (metis converse_rtranclp_into_rtranclp)
  qed (use np in blast)
qed

subsection \<open>After the context has ended\<close>

lemma collector_gives_up:
  assumes "pl_Panicked s = None" and "pl_Done s" and "pl_Collector s = Collecting a" and "a \<le> pc_Jobs cfg"
  shows "\<exists>s'. (pool_trans cfg)\<^sup>*\<^sup>* s s' \<and> pl_Panicked s' = None \<and> pl_Collector s' = Collecting (pc_Jobs cfg) \<and>
     pl_Workers s' = pl_Workers s"
  using assms
proof (induction "pc_Jobs cfg - a" arbitrary: a s)
  case 0
  then show ?case by (intro exI [of _ s]) simp
next
  case (Suc k)
  define t where "t = s\<lparr>pl_Collector := Collecting (Suc a), pl_Err := Some (Message ''Collection terminated'')\<rparr>"
  have "pool_trans cfg s t" unfolding t_def using Suc by (intro goroutine collect_terminated) auto
  moreover have "\<exists>s'. (pool_trans cfg)\<^sup>*\<^sup>* t s' \<and> pl_Panicked s' = None \<and> pl_Collector s' = Collecting (pc_Jobs cfg) \<and>
      pl_Workers s' = pl_Workers t"
    using Suc by (intro Suc.hyps(1) [of "Suc a" t]) (auto simp: t_def)
  moreover have "pl_Workers t = pl_Workers s" by (simp add: t_def)
  ultimately show ?case by (metis converse_rtranclp_into_rtranclp)
qed

lemma collector_closes:
  assumes "pl_Panicked s = None" and "pl_Collector s = Closing ps"
  shows "\<exists>s'. (pool_trans cfg)\<^sup>*\<^sup>* s s' \<and> pl_Panicked s' = None \<and> pl_ResultsClosed s' \<and> pl_Workers s' = pl_Workers s \<and>
     pl_Collector s' = Returned \<and> pl_Collected s' = pl_Collected s \<and> pl_Err s' = pl_Err s"
  using assms
proof (induction ps arbitrary: s)
  case Nil
  then have "pool_trans cfg s (s\<lparr>pl_Collector := Returned, pl_ResultsClosed := True\<rparr>)"
    by (intro goroutine close_results)
  then show ?case using Nil by (intro exI [of _ "s\<lparr>pl_Collector := Returned, pl_ResultsClosed := True\<rparr>"]) auto
next
  case (Cons p ps)
  define t where "t = s\<lparr>pl_Collector := Closing (remove1 p (p # ps)), pl_QueueClosed := (pl_QueueClosed s)(p := True)\<rparr>"
  have "pool_trans cfg s t" unfolding t_def using Cons.prems by (intro goroutine close_queue) auto
  moreover have "\<exists>s'. (pool_trans cfg)\<^sup>*\<^sup>* t s' \<and> pl_Panicked s' = None \<and> pl_ResultsClosed s' \<and> pl_Workers s' = pl_Workers t \<and>
      pl_Collector s' = Returned \<and> pl_Collected s' = pl_Collected t \<and> pl_Err s' = pl_Err t"
    using Cons by (intro Cons.IH) (auto simp: t_def)
  moreover have "pl_Workers t = pl_Workers s" "pl_Collected t = pl_Collected s" "pl_Err t = pl_Err s" by (simp_all add: t_def)
  ultimately show ?case by (metis converse_rtranclp_into_rtranclp)
qed

lemma first_worker_has_a_task:
  assumes "NewWorkersPool objectives numWorkers ns args tpl = (cfg, s0)" and "0 < numWorkers" and "objectives \<noteq> []"
  shows "1 \<in> worker_ids cfg \<and> (\<exists>j js. pl_Workers s0 1 = Idle (j # js))"
proof -
  define n where "n = effective_workers (length objectives) numWorkers"
  have n: "0 < n" "n \<le> length objectives" using assms(2,3) by (auto simp: n_def effective_workers_def)
  have s0: "pc_Workers cfg = n" "pl_Workers s0 1 = Idle (tasks_of (assignTasks n objectives) 1)"
    using assms(1) n(1) [unfolded n_def effective_workers_def]
    by (auto simp: NewWorkersPool_def n_def effective_workers_def Suc_le_eq Let_def)
  have "0 < share_size n (length objectives) 0" using n by (simp add: share_size_def div_greater_zero_iff)
  then have "length (tasks_of (assignTasks n objectives) 1) \<noteq> 0" using length_share [OF n(1) n(1), of objectives] by simp
  then show ?thesis using s0 n by (cases "tasks_of (assignTasks n objectives) 1") auto
qed

text \<open>
  C18: the pool can crash the operator. When the context ends while a worker is looking up an objective, the
  collector stops waiting and closes the channels, and the worker then sends its result on a closed
  channel: every pool with an objective can reach a panic.
\<close>

theorem timeout_can_panic:
  assumes "NewWorkersPool objectives numWorkers ns args tpl = (cfg, s0)" and "0 < numWorkers" and "objectives \<noteq> []"
  shows "\<exists>s. (pool_trans cfg)\<^sup>*\<^sup>* s0 s \<and> pl_Panicked s = Some ClosedChannel"
proof -
  obtain j js where w: "1 \<in> worker_ids cfg" "pl_Workers s0 1 = Idle (j # js)"
    using first_worker_has_a_task [OF assms] by blast
  have s0: "pl_Panicked s0 = None" "\<not> pl_Done s0" "pl_Collector s0 = Collecting 0"
    using assms(1) by (auto simp: NewWorkersPool_def Let_def)
  define s1 where "s1 = s0\<lparr>pl_Workers := (pl_Workers s0)(1 := Preparing j js)\<rparr>"
  define s2 where "s2 = s1\<lparr>pl_Done := True\<rparr>"
  have "pool_trans cfg s0 s1" unfolding s1_def using s0 w by (intro goroutine worker_take)
  moreover have "pool_trans cfg s1 s2" unfolding s2_def using s0 by (intro context_done) (auto simp: s1_def)
  ultimately have run2: "(pool_trans cfg)\<^sup>*\<^sup>* s0 s2" by simp
  have s2: "pl_Panicked s2 = None" "pl_Done s2" "pl_Collector s2 = Collecting 0" "pl_Workers s2 1 = Preparing j js"
    using s0 by (simp_all add: s1_def s2_def)
  obtain s3 where s3: "(pool_trans cfg)\<^sup>*\<^sup>* s2 s3" "pl_Panicked s3 = None" "pl_Collector s3 = Collecting (pc_Jobs cfg)"
    "pl_Workers s3 1 = Preparing j js"
    using collector_gives_up [OF s2(1-3) le0] s2(4) by metis
  define s4 where "s4 = s3\<lparr>pl_Collector := Closing SupportedProviders\<rparr>"
  have s4: "pool_trans cfg s3 s4" unfolding s4_def using s3 by (intro goroutine collect_end) auto
  obtain s5 where s5: "(pool_trans cfg)\<^sup>*\<^sup>* s4 s5" "pl_Panicked s5 = None" "pl_ResultsClosed s5" "pl_Workers s5 1 = Preparing j js"
    using collector_closes [of s4 SupportedProviders cfg] s3 by (auto simp: s4_def)
  define d where "d = prepare_job cfg (\<lambda>_ _. Inl (ApiError [])) (\<lambda>_ _. Inl (ApiError [])) j"
  have d: "d = Answer (error_result j [])" by (simp add: d_def prepare_job_def Let_def)
  define s6 where "s6 = s5\<lparr>pl_Workers := (pl_Workers s5)(1 := Sending d js)\<rparr>"
  have s6: "pool_trans cfg s5 s6" unfolding s6_def d_def using s5 w by (intro goroutine worker_prepare)
  have "pool_trans cfg s6 (s6\<lparr>pl_Panicked := Some ClosedChannel\<rparr>)"
    using s5 w by (intro goroutine worker_answer_closed [where w = 1 and r = "error_result j []" and js = js]) (simp_all add: s6_def d)
  with run2 s3(1) s4 s5(1) s6 have "(pool_trans cfg)\<^sup>*\<^sup>* s0 (s6\<lparr>pl_Panicked := Some ClosedChannel\<rparr>)"
    by (meson rtranclp.rtrancl_into_rtrancl rtranclp_trans)
  then show ?thesis by (intro exI [of _ "s6\<lparr>pl_Panicked := Some ClosedChannel\<rparr>"]) simp
qed

end
