(* ===== verification/Analysis_Controller.thy ===== *)
theory Analysis_Controller
  imports Worker_Pool
begin

text \<open>
  The controller of Analyses (\<^verbatim>\<open>metrics-operator/controllers/analysis/controller.go\<close>) and the reporter of their
  results (\<^verbatim>\<open>metrics-operator/pkg/metrics/analysis/results.go\<close>).  The controller asks a pool of workers for the
  values that are missing; the pool is an argument here, as it is a factory function in the code, and
  \<^verbatim>\<open>json.Marshal\<close> of a result is one too.
\<close>

section \<open>The controller\<close>

record AnalysisCompletion =
  acm_Result :: AnalysisResult
  acm_Analysis :: Analysis

record 'w AnalysisReconciler =
  arc_Client :: "'w MetricsClient"
  arc_MaxWorkers :: nat
  arc_Pool :: "Analysis \<Rightarrow> AnalysisObjective list \<Rightarrow> nat \<Rightarrow> string \<Rightarrow> ('w, provider_values \<times> error option) state"
  arc_Marshal :: "AnalysisResult \<Rightarrow> error + string"
  arc_Quote :: "string \<Rightarrow> string"
  arc_Approx :: "Quantity \<Rightarrow> float64"
  arc_analysisResults :: "(AnalysisCompletion \<Rightarrow> ('w, unit) state) option"

text \<open>One objective in the loop of \<^verbatim>\<open>extractMissingObjectives\<close>.\<close>

definition extract_objective ::
    "provider_values \<Rightarrow> AnalysisObjective \<Rightarrow> AnalysisObjective list \<times> provider_values \<Rightarrow>
     AnalysisObjective list \<times> provider_values" where
  "extract_objective status obj acc =
     (case acc of (todo, finished) \<Rightarrow>
       (let key = ComputeKey (ao_AnalysisValueTemplateRef obj) in
        case fmlookup status key of
          Some v \<Rightarrow> if pr_ErrMsg v \<noteq> [] then (todo @ [obj], finished) else (todo, fmupd key v finished)
        | None \<Rightarrow> (todo @ [obj], finished)))"

definition extractMissingObjectives ::
    "AnalysisObjective list \<Rightarrow> provider_values \<Rightarrow> AnalysisObjective list \<times> provider_values" where
  "extractMissingObjectives objectives status = fold (extract_objective status) objectives ([], fmempty)"

definition updateStatus :: "'w AnalysisReconciler \<Rightarrow> Analysis \<Rightarrow> ('w, error option) state" where
  "updateStatus a analysis = do {
     r \<leftarrow> api_StatusUpdate (mc_Analysis (arc_Client a)) analysis;
     ret (case r of Inl err \<Rightarrow> Some err | Inr x \<Rightarrow> None)
   }"

definition retrieveAnalysisDefinition :: "'w AnalysisReconciler \<Rightarrow> Analysis \<Rightarrow> ('w, error + AnalysisDefinition) state" where
  "retrieveAnalysisDefinition a analysis =
     (let ref = as_AnalysisDefinition (an_Spec analysis) in
      api_Get (mc_AnalysisDefinition (arc_Client a))
        (ObjectReference_GetNamespace (om_Namespace (an_meta analysis)) ref) (or_Name ref))"

text \<open>The result is sent by a goroutine; a channel that is nil is not used.\<close>

definition reportAnalysisResult :: "'w AnalysisReconciler \<Rightarrow> AnalysisResult \<Rightarrow> Analysis \<Rightarrow> ('w, unit) state" where
  "reportAnalysisResult a eval analysis =
     (case arc_analysisResults a of
        None \<Rightarrow> ret ()
      | Some send \<Rightarrow> send \<lparr>acm_Result = eval, acm_Analysis = analysis\<rparr>)"

definition SetAnalysisResultsChannel ::
    "(AnalysisCompletion \<Rightarrow> ('w, unit) state) option \<Rightarrow> 'w AnalysisReconciler \<Rightarrow> 'w AnalysisReconciler" where
  "SetAnalysisResultsChannel c a = a\<lparr>arc_analysisResults := c\<rparr>"

text \<open>The status that an evaluation leaves.\<close>

definition evaluated_status :: "'w AnalysisReconciler \<Rightarrow> AnalysisResult \<Rightarrow> AnalysisStatus \<Rightarrow> AnalysisStatus" where
  "evaluated_status a eval st =
     st\<lparr>ast_Raw := (case arc_Marshal a eval of Inl err \<Rightarrow> ast_Raw st | Inr json \<Rightarrow> json),
       ast_Warning := anr_Warning eval, ast_Pass := anr_Pass eval, ast_State := AnalysisState_Completed,
       ast_StoredValues := None\<rparr>"

definition analysis_evaluateObjectives ::
    "'w AnalysisReconciler \<Rightarrow> provider_values \<Rightarrow> AnalysisDefinition \<Rightarrow> Analysis \<Rightarrow> ('w, Analysis) state" where
  "analysis_evaluateObjectives a res analysisDef analysis =
     (let eval = AnalysisEvaluator_Evaluate (arc_Quote a) (arc_Approx a) res analysisDef;
          analysis = analysis\<lparr>an_Status := evaluated_status a eval (an_Status analysis)\<rparr>
      in do { reportAnalysisResult a eval analysis; ret analysis })"

text \<open>What is left to fetch, and what is there already.\<close>

definition split_objectives :: "Analysis \<Rightarrow> AnalysisDefinition \<Rightarrow> AnalysisObjective list \<times> provider_values" where
  "split_objectives analysis analysisDef =
     (case ast_StoredValues (an_Status analysis) of
        None \<Rightarrow> (ad_Objectives analysisDef, fmempty)
      | Some stored \<Rightarrow> extractMissingObjectives (ad_Objectives analysisDef) stored)"

definition collect_and_evaluate ::
    "'w AnalysisReconciler \<Rightarrow> AnalysisDefinition \<Rightarrow> Analysis \<Rightarrow> ('w, outcome) state" where
  "collect_and_evaluate a analysisDef analysis =
     (case split_objectives analysis analysisDef of
        (todo, finished) \<Rightarrow> do {
          (res, err) \<leftarrow> arc_Pool a analysis todo (arc_MaxWorkers a) (om_Namespace (ad_meta analysisDef));
          if err \<noteq> None then do {
            e \<leftarrow> updateStatus a (analysis\<lparr>an_Status := (an_Status analysis)\<lparr>ast_StoredValues := Some res\<rparr>\<rparr>);
            ret (requeue_after 10, e)
          } else do {
            analysis \<leftarrow> analysis_evaluateObjectives a (res ++\<^sub>f finished) analysisDef analysis;
            e \<leftarrow> updateStatus a analysis;
            ret (case e of Some err \<Rightarrow> (requeue_after 10, Some err) | None \<Rightarrow> (no_requeue, None))
          }
        })"

definition Analysis_Reconcile :: "'w AnalysisReconciler \<Rightarrow> Request \<Rightarrow> ('w, outcome) state" where
  "Analysis_Reconcile a req = do {
     g \<leftarrow> api_Get (mc_Analysis (arc_Client a)) (req_Namespace req) (req_Name req);
     case g of
       Inl err \<Rightarrow> ret (no_requeue, if IsNotFound err then None else Some err)
     | Inr analysis \<Rightarrow>
         if AnalysisState_IsCompleted (ast_State (an_Status analysis)) then ret (no_requeue, None)
         else do {
           analysis \<leftarrow> EnsureTimeframeIsSet (mc_Now (arc_Client a)) analysis;
           d \<leftarrow> retrieveAnalysisDefinition a analysis;
           case d of
             Inl err \<Rightarrow> do {
               e \<leftarrow> updateStatus a analysis;
               ret (requeue_after 10, e)
             }
           | Inr analysisDef \<Rightarrow>
               collect_and_evaluate a analysisDef
                 (if AnalysisState_IsPending (ast_State (an_Status analysis))
                  then analysis\<lparr>an_Status := (an_Status analysis)\<lparr>ast_State := AnalysisState_Progressing\<rparr>\<rparr>
                  else analysis)
         }
   }"

section \<open>The reporter\<close>

text \<open>
  The gauges hold one number for each combination of labels.  The printed form of a time is the argument
  \<open>timeString\<close>.
\<close>

record gauges =
  gau_AnalysisResult :: "((string \<times> string) list, float64) fmap"
  gau_ObjectiveResult :: "((string \<times> string) list, float64) fmap"

definition bool_string :: "bool \<Rightarrow> string" where
  "bool_string b = (if b then ''true'' else ''false'')"

definition report_objective ::
    "string \<Rightarrow> string \<Rightarrow> Analysis \<Rightarrow> ObjectiveResult \<Rightarrow> gauges \<Rightarrow> gauges" where
  "report_objective from to analysis ob g =
     g\<lparr>gau_ObjectiveResult := fmupd
       [(''name'', or_Name (ao_AnalysisValueTemplateRef (obr_Objective ob))),
        (''namespace'', or_Namespace (ao_AnalysisValueTemplateRef (obr_Objective ob))),
        (''analysis_name'', om_Name (an_meta analysis)),
        (''analysis_namespace'', om_Namespace (an_meta analysis)),
        (''key_objective'', bool_string (ao_KeyObjective (obr_Objective ob))),
        (''weight'', itoa (ao_Weight (obr_Objective ob))),
        (''from'', from), (''to'', to)] (obr_Value ob) (gau_ObjectiveResult g)\<rparr>"

definition reportResult ::
    "('w, time) state \<Rightarrow> (time \<Rightarrow> string) \<Rightarrow> AnalysisCompletion \<Rightarrow> gauges \<Rightarrow> ('w, gauges) state" where
  "reportResult now timeString finished g = do {
     f \<leftarrow> Analysis_GetFrom now (acm_Analysis finished);
     t \<leftarrow> Analysis_GetTo now (acm_Analysis finished);
     let analysis = acm_Analysis finished;
         g = g\<lparr>gau_AnalysisResult := fmupd
           [(''name'', om_Name (an_meta analysis)), (''namespace'', om_Namespace (an_meta analysis)),
            (''from'', timeString f), (''to'', timeString t)]
           (GetAchievedPercentage (acm_Result finished)) (gau_AnalysisResult g)\<rparr>
     in ret (fold (report_objective (timeString f) (timeString t) analysis) (anr_ObjectiveResults (acm_Result finished)) g)
   }"

section \<open>What is fetched again\<close>

definition stored_ok :: "provider_values \<Rightarrow> AnalysisObjective \<Rightarrow> bool" where
  "stored_ok stored obj =
     (case fmlookup stored (ComputeKey (ao_AnalysisValueTemplateRef obj)) of
        Some v \<Rightarrow> pr_ErrMsg v = []
      | None \<Rightarrow> False)"

lemma fold_extract:
  "fold (extract_objective stored) objs (todo, finished) =
     (todo @ filter (\<lambda>ob. \<not> stored_ok stored ob) objs,
      fold (\<lambda>ob m. case fmlookup stored (ComputeKey (ao_AnalysisValueTemplateRef ob)) of
          Some v \<Rightarrow> if pr_ErrMsg v = [] then fmupd (ComputeKey (ao_AnalysisValueTemplateRef ob)) v m else m
        | None \<Rightarrow> m) objs finished)"
  by (induction objs arbitrary: todo finished) (auto simp: extract_objective_def stored_ok_def Let_def split: option.splits)

lemma lookup_finished:
  "fmlookup (fold (\<lambda>ob m. case fmlookup stored (ComputeKey (ao_AnalysisValueTemplateRef ob)) of
        Some v \<Rightarrow> if pr_ErrMsg v = [] then fmupd (ComputeKey (ao_AnalysisValueTemplateRef ob)) v m else m
      | None \<Rightarrow> m) objs finished) k =
     (if \<exists>ob\<in>set objs. k = ComputeKey (ao_AnalysisValueTemplateRef ob) \<and> stored_ok stored ob then fmlookup stored k
      else fmlookup finished k)"
  by (induction objs arbitrary: finished) (auto simp: stored_ok_def split: option.splits)

text \<open>
  Only missing values are fetched. The objectives to do are, in their order, those with no stored value or
  one with an error, and the values that are kept are the stored values of all others.
\<close>

theorem extract_missing:
  "case extractMissingObjectives objectives stored of (todo, finished) \<Rightarrow>
     todo = filter (\<lambda>ob. \<not> stored_ok stored ob) objectives \<and>
     (\<forall>k. fmlookup finished k =
        (if \<exists>ob\<in>set objectives. k = ComputeKey (ao_AnalysisValueTemplateRef ob) \<and> stored_ok stored ob
         then fmlookup stored k else None))"
  by (auto simp: extractMissingObjectives_def fold_extract lookup_finished)

section \<open>The pool as the controller sees it\<close>

text \<open>
  The interface \<^verbatim>\<open>IAnalysisPool\<close>: which values and which error may come back for a list of objectives, and what
  a pool promises when it reports no error.
\<close>

locale analysis_pool =
  fixes delivers :: "AnalysisObjective list \<Rightarrow> provider_values \<Rightarrow> error option \<Rightarrow> bool"
  assumes complete: "delivers objectives res None \<Longrightarrow>
      fmdom' res = (\<lambda>ob. ComputeKey (ao_AnalysisValueTemplateRef ob)) ` set objectives"
    and without_error: "delivers objectives res None \<Longrightarrow> r \<in> fmran' res \<Longrightarrow> pr_ErrMsg r = []"
begin

lemma values_for_all:
  assumes "extractMissingObjectives objectives stored = (todo, finished)" and "delivers todo res None"
    and "ob \<in> set objectives"
  shows "\<exists>v. fmlookup (res ++\<^sub>f finished) (ComputeKey (ao_AnalysisValueTemplateRef ob)) = Some v \<and> pr_ErrMsg v = []"
proof (cases "stored_ok stored ob")
  case True
  then have "fmlookup finished (ComputeKey (ao_AnalysisValueTemplateRef ob)) =
      fmlookup stored (ComputeKey (ao_AnalysisValueTemplateRef ob))"
    using assms(1,3) by (auto simp: extractMissingObjectives_def fold_extract lookup_finished)
  with True show ?thesis by (auto simp: stored_ok_def fmdom_notI fmlookup_dom_iff split: option.splits)
next
  case False
  let ?k = "ComputeKey (ao_AnalysisValueTemplateRef ob)"
  have "ob \<in> set todo" using False assms(1,3) by (auto simp: extractMissingObjectives_def fold_extract)
  then have "?k \<in> fmdom' res" using complete [OF assms(2)] by auto
  then obtain v where v: "fmlookup res ?k = Some v" by (metis fmlookup_dom'_iff)
  then have "pr_ErrMsg v = []" using without_error [OF assms(2)] by (metis fmran'I)
  moreover have "fmlookup finished ?k = None \<or> (\<exists>u. fmlookup finished ?k = Some u \<and> pr_ErrMsg u = [])"
  proof (cases "fmlookup finished ?k")
    case (Some u)
    then obtain ob' where "?k = ComputeKey (ao_AnalysisValueTemplateRef ob')" "stored_ok stored ob'" "fmlookup stored ?k = Some u"
      using assms(1) by (auto simp: extractMissingObjectives_def fold_extract lookup_finished split: if_splits)
    then show ?thesis using Some by (auto simp: stored_ok_def)
  qed simp
  ultimately show ?thesis using v by (auto simp: fmlookup_dom_iff)
qed

end

text \<open>What the collector of the worker pool may return for a list of objectives.\<close>

definition pool_delivers :: "AnalysisObjective list \<Rightarrow> provider_values \<Rightarrow> error option \<Rightarrow> bool" where
  "pool_delivers objectives res err \<longleftrightarrow>
     (\<exists>numWorkers ns args tpl cfg s0 s. 0 < numWorkers \<and>
        NewWorkersPool objectives numWorkers ns args tpl = (cfg, s0) \<and> (pool_trans cfg)\<^sup>*\<^sup>* s0 s \<and>
        pl_Collector s = Returned \<and> pl_Collected s = res \<and> pl_Err s = err)"

interpretation workers: analysis_pool pool_delivers
proof
  fix objectives res r
  assume "pool_delivers objectives res None"
  then obtain numWorkers ns args tpl cfg s0 s where run: "0 < numWorkers"
    "NewWorkersPool objectives numWorkers ns args tpl = (cfg, s0)" "(pool_trans cfg)\<^sup>*\<^sup>* s0 s"
    "pl_Collector s = Returned" "pl_Collected s = res" "pl_Err s = None"
    unfolding pool_delivers_def by blast
  note complete = pool_result_complete [OF run(2,1,3,4,6)]
  show "fmdom' res = (\<lambda>ob. ComputeKey (ao_AnalysisValueTemplateRef ob)) ` set objectives"
    using complete(1) run(5) by simp
  show "pr_ErrMsg r = []" if "r \<in> fmran' res" using complete(2) run(5) that by simp
qed

text \<open>
  C21: an analysis is evaluated on all its values. Whatever is stored from earlier rounds, when the worker pool
  returns without an error the evaluators are given, for every objective of the definition, a value whose
  retrieval did not fail.
\<close>

theorem evaluated_on_all_values:
  assumes "extractMissingObjectives objectives stored = (todo, finished)" and "pool_delivers todo res None"
    and "ob \<in> set objectives"
  shows "\<exists>v. fmlookup (res ++\<^sub>f finished) (ComputeKey (ao_AnalysisValueTemplateRef ob)) = Some v \<and> pr_ErrMsg v = []"
  using assms by (rule workers.values_for_all)

section \<open>The life of an analysis\<close>

text \<open>
  An analysis that is complete stays as it is: its reconciliation reads it and does nothing else.
\<close>

theorem completed_analysis_untouched:
  assumes "run_state (api_Get (mc_Analysis (arc_Client a)) (req_Namespace req) (req_Name req)) w = (Inr analysis, w')"
    and "AnalysisState_IsCompleted (ast_State (an_Status analysis))"
  shows "run_state (Analysis_Reconcile a req) w = ((no_requeue, None), w')"
  using assms by (simp add: Analysis_Reconcile_def State_Monad.bind_def)

definition progressing :: "Analysis \<Rightarrow> Analysis" where
  "progressing analysis =
     (if AnalysisState_IsPending (ast_State (an_Status analysis))
      then analysis\<lparr>an_Status := (an_Status analysis)\<lparr>ast_State := AnalysisState_Progressing\<rparr>\<rparr>
      else analysis)"

lemma Reconcile_eq:
  assumes "run_state (api_Get (mc_Analysis (arc_Client a)) (req_Namespace req) (req_Name req)) w = (Inr analysis, w1)"
    and "\<not> AnalysisState_IsCompleted (ast_State (an_Status analysis))"
    and "run_state (EnsureTimeframeIsSet (mc_Now (arc_Client a)) analysis) w1 = (timed, w2)"
    and "run_state (retrieveAnalysisDefinition a timed) w2 = (Inr analysisDef, w3)"
  shows "run_state (Analysis_Reconcile a req) w = run_state (collect_and_evaluate a analysisDef (progressing timed)) w3"
  using assms by (simp add: Analysis_Reconcile_def progressing_def State_Monad.bind_def)

text \<open>
  C22: an analysis completes in the round in which the pool delivers the values that were missing. The status
  written then is complete, its verdict is that of the evaluators on the fetched values together with those
  kept from earlier rounds, its time frame is the one of the first round, and no values stay stored.
\<close>

theorem analysis_completes:
  assumes "run_state (api_Get (mc_Analysis (arc_Client a)) (req_Namespace req) (req_Name req)) w = (Inr analysis, w1)"
    and "\<not> AnalysisState_IsCompleted (ast_State (an_Status analysis))"
    and "run_state (EnsureTimeframeIsSet (mc_Now (arc_Client a)) analysis) w1 = (timed, w2)"
    and "run_state (retrieveAnalysisDefinition a timed) w2 = (Inr analysisDef, w3)"
    and "split_objectives timed analysisDef = (todo, held)"
    and "run_state (arc_Pool a (progressing timed) todo (arc_MaxWorkers a) (om_Namespace (ad_meta analysisDef))) w3 = ((res, None), w4)"
    and "verdict = AnalysisEvaluator_Evaluate (arc_Quote a) (arc_Approx a) (res ++\<^sub>f held) analysisDef"
  shows "\<exists>final w5. run_state (reportAnalysisResult a verdict final) w4 = ((), w5) \<and>
     run_state (Analysis_Reconcile a req) w =
       (let (r, w6) = run_state (api_StatusUpdate (mc_Analysis (arc_Client a)) final) w5
        in (case r of Inl e \<Rightarrow> (requeue_after 10, Some e) | Inr stored \<Rightarrow> (no_requeue, None), w6)) \<and>
     ast_State (an_Status final) = AnalysisState_Completed \<and>
     ast_Pass (an_Status final) = anr_Pass verdict \<and> ast_Warning (an_Status final) = anr_Warning verdict \<and>
     ast_Timeframe (an_Status final) = ast_Timeframe (an_Status timed) \<and>
     ast_StoredValues (an_Status final) = None \<and> an_Spec final = an_Spec timed"
proof -
  define final where "final = (progressing timed)\<lparr>an_Status := evaluated_status a verdict (an_Status (progressing timed))\<rparr>"
  obtain w5 where w5: "run_state (reportAnalysisResult a verdict final) w4 = ((), w5)"
    by (metis old.unit.exhaust surj_pair)
  have "split_objectives (progressing timed) analysisDef = (todo, held)"
    using assms(5) by (simp add: split_objectives_def progressing_def)
  then have "run_state (Analysis_Reconcile a req) w =
       (let (r, w6) = run_state (api_StatusUpdate (mc_Analysis (arc_Client a)) final) w5
        in (case r of Inl e \<Rightarrow> (requeue_after 10, Some e) | Inr stored \<Rightarrow> (no_requeue, None), w6))"
    unfolding Reconcile_eq [OF assms(1-4)]
    using assms(6,7) w5
    by (simp add: collect_and_evaluate_def analysis_evaluateObjectives_def updateStatus_def final_def Let_def
        State_Monad.bind_def split: prod.splits sum.splits)
  then show ?thesis
    using w5 by (intro exI [of _ final] exI [of _ w5]) (simp add: final_def evaluated_status_def progressing_def)
qed

text \<open>
  A round in which the pool fails loses the values of earlier rounds. The stored values it writes are
  those of this round alone; a value that had been stored, and was therefore not fetched again, is gone, and
  its objective is to be done again in the next round.
\<close>

theorem failed_round_drops_values:
  assumes "run_state (api_Get (mc_Analysis (arc_Client a)) (req_Namespace req) (req_Name req)) w = (Inr analysis, w1)"
    and "\<not> AnalysisState_IsCompleted (ast_State (an_Status analysis))"
    and "run_state (EnsureTimeframeIsSet (mc_Now (arc_Client a)) analysis) w1 = (timed, w2)"
    and "run_state (retrieveAnalysisDefinition a timed) w2 = (Inr analysisDef, w3)"
    and "ast_StoredValues (an_Status timed) = Some stored"
    and "ob \<in> set (ad_Objectives analysisDef)" and "stored_ok stored ob"
    and "run_state (arc_Pool a (progressing timed) (fst (extractMissingObjectives (ad_Objectives analysisDef) stored))
        (arc_MaxWorkers a) (om_Namespace (ad_meta analysisDef))) w3 = ((res, Some err), w4)"
    and "fmlookup res (ComputeKey (ao_AnalysisValueTemplateRef ob)) = None"
  shows "\<exists>written. run_state (Analysis_Reconcile a req) w =
       (let (r, w5) = run_state (api_StatusUpdate (mc_Analysis (arc_Client a)) written) w4
        in ((requeue_after 10, case r of Inl e \<Rightarrow> Some e | Inr x \<Rightarrow> None), w5)) \<and>
     ast_StoredValues (an_Status written) = Some res \<and>
     ob \<notin> set (fst (extractMissingObjectives (ad_Objectives analysisDef) stored)) \<and>
     ob \<in> set (fst (split_objectives written analysisDef))"
proof -
  define written where "written = (progressing timed)\<lparr>an_Status := (an_Status (progressing timed))\<lparr>ast_StoredValues := Some res\<rparr>\<rparr>"
  have split: "split_objectives (progressing timed) analysisDef = extractMissingObjectives (ad_Objectives analysisDef) stored"
    using assms(5) by (simp add: split_objectives_def progressing_def)
  have "run_state (Analysis_Reconcile a req) w =
       (let (r, w5) = run_state (api_StatusUpdate (mc_Analysis (arc_Client a)) written) w4
        in ((requeue_after 10, case r of Inl e \<Rightarrow> Some e | Inr x \<Rightarrow> None), w5))"
    unfolding Reconcile_eq [OF assms(1-4)]
    using assms(8)
    by (cases "extractMissingObjectives (ad_Objectives analysisDef) stored")
      (simp add: collect_and_evaluate_def split updateStatus_def written_def Let_def State_Monad.bind_def split: prod.splits)
  moreover have "ob \<notin> set (fst (extractMissingObjectives (ad_Objectives analysisDef) stored))"
    using assms(7) by (simp add: extractMissingObjectives_def fold_extract)
  moreover have "ob \<in> set (fst (split_objectives written analysisDef))"
    using assms(6,9) by (simp add: split_objectives_def written_def extractMissingObjectives_def fold_extract stored_ok_def)
  ultimately show ?thesis by (intro exI [of _ written]) (simp add: written_def)
qed

end
