(* ===== verification/Slo_Converter.thy ===== *)
theory Slo_Converter
  imports Analysis
begin

text \<open>
  The converter of the quality gates of earlier Keptn releases (\<^verbatim>\<open>metrics-operator/converter\<close>): a file of service
  level objectives becomes an AnalysisDefinition, a file of indicators a list of AnalysisValueTemplates.
  Reading and writing YAML is the caller's; the decimal numbers of \<^verbatim>\<open>inf.Dec\<close> and \<^verbatim>\<open>resource.Quantity\<close> are
  arguments: what \<^verbatim>\<open>SetString\<close> reads and the quantity that \<^verbatim>\<open>NewDecimalQuantity\<close> makes of it.
\<close>

section \<open>Resource names\<close>

definition MaxResourceNameLength :: nat where
  "MaxResourceNameLength = 253"

definition K8sResourceNameRegexp :: string where
  "K8sResourceNameRegexp = ''^[a-z0-9]([-a-z0-9.]*[a-z0-9])?$''"

definition is_lower_alnum :: "char \<Rightarrow> bool" where
  "is_lower_alnum c \<longleftrightarrow> is_dec c \<or> 97 \<le> (of_char c :: nat) \<and> (of_char c :: nat) \<le> 122"

text \<open>A match of the pattern: the ends are letters or digits, hyphens and dots are allowed inside.\<close>

definition matches_name :: "string \<Rightarrow> bool" where
  "matches_name s \<longleftrightarrow>
     s \<noteq> [] \<and> is_lower_alnum (hd s) \<and> is_lower_alnum (last s) \<and>
     (\<forall>c\<in>set s. is_lower_alnum c \<or> c = CHR ''-'' \<or> c = CHR ''.'')"

definition NewUnsupportedResourceNameErr :: "string \<Rightarrow> error" where
  "NewUnsupportedResourceNameErr name = Message
     (''unsupported resource name: '' @ name @ ''. Provided resource name must match the pattern '' @
      K8sResourceNameRegexp @ '' and must not have more than '' @ itoa (int MaxResourceNameLength) @ '' characters.'')"

definition ValidateResourceName :: "string \<Rightarrow> error option" where
  "ValidateResourceName name =
     (if \<not> matches_name name \<or> length name > MaxResourceNameLength then Some (NewUnsupportedResourceNameErr name)
      else None)"

text \<open>Every run of other characters becomes one hyphen.\<close>

fun hyphenate :: "string \<Rightarrow> string" where
  "hyphenate [] = []"
| "hyphenate (c # s) =
     (if is_lower_alnum c then c # hyphenate s
      else (case s of
              [] \<Rightarrow> ''-''
            | d # t \<Rightarrow> if is_lower_alnum d then CHR ''-'' # hyphenate s else hyphenate s))"

definition trim_hyphens :: "string \<Rightarrow> string" where
  "trim_hyphens s = rev (dropWhile (\<lambda>c. c = CHR ''-'') (rev (dropWhile (\<lambda>c. c = CHR ''-'') s)))"

definition ConvertResourceName :: "string \<Rightarrow> string" where
  "ConvertResourceName name =
     (let normalized = trim_hyphens (hyphenate (to_lower name)) in
      if length normalized > MaxResourceNameLength then take MaxResourceNameLength normalized else normalized)"

section \<open>Operators\<close>

definition quoted :: "string \<Rightarrow> string" where
  "quoted s = CHR 0x27 # s @ [CHR 0x27]"

text \<open>A list of strings printed with \<^verbatim>\<open>%v\<close>.\<close>

definition list_string :: "string list \<Rightarrow> string" where
  "list_string ss = ''['' @ join '' '' ss @ '']''"

definition NewInvalidOperatorErr :: "string \<Rightarrow> error" where
  "NewInvalidOperatorErr msg = Message (''invalid operator: '' @ quoted msg)"

definition NewInconvertibleValueErr :: "string \<Rightarrow> error" where
  "NewInconvertibleValueErr msg = Message (''unable to convert value '' @ quoted msg @ '' to decimal'')"

definition NewUnsupportedIntervalCombinationErr :: "string list \<Rightarrow> error" where
  "NewUnsupportedIntervalCombinationErr op = Message (''unsupported interval combination '' @ quoted (list_string op))"

definition NewEmptyOperatorErr :: "string list \<Rightarrow> error" where
  "NewEmptyOperatorErr op = Message (''empty operators: '' @ quoted (list_string op))"

definition NewInconvertibleOperatorCombinationErr :: "string \<Rightarrow> string \<Rightarrow> error" where
  "NewInconvertibleOperatorCombinationErr op1 op2 =
     Message (''inconvertible combination of operators: '' @ quoted op1 @ '', '' @ quoted op2)"

record decimals =
  dc_SetString :: "string \<Rightarrow> rat option"
  dc_NewDecimalQuantity :: "rat \<Rightarrow> Quantity"

definition MaxInt :: int where
  "MaxInt = 2 ^ 63 - 1"

definition MinInt :: int where
  "MinInt = - MaxInt - 1"

record BoundOperator =
  bo_Value :: rat
  bo_Operation :: string

record Interval =
  iv_Start :: rat
  iv_End :: rat

definition isGreaterOrEqual :: "string \<Rightarrow> bool" where
  "isGreaterOrEqual op \<longleftrightarrow> op = ''>'' \<or> op = ''>=''"

definition isLessOrEqual :: "string \<Rightarrow> bool" where
  "isLessOrEqual op \<longleftrightarrow> op = ''<'' \<or> op = ''<=''"

definition decodeOperatorAndValue :: "string \<Rightarrow> error + string \<times> string" where
  "decodeOperatorAndValue op =
     (case find (has_prefix op) [''<='', ''<'', ''>='', ''>''] of
        Some operator \<Rightarrow> Inr (operator, trim_prefix op operator)
      | None \<Rightarrow> Inl (NewInvalidOperatorErr op))"

definition decideIntervalBounds ::
    "decimals \<Rightarrow> string \<Rightarrow> string \<Rightarrow> string \<Rightarrow> string \<Rightarrow> error + BoundOperator \<times> BoundOperator" where
  "decideIntervalBounds dc op1 value1 op2 value2 =
     (case dc_SetString dc value1 of
        None \<Rightarrow> Inl (NewInconvertibleValueErr value1)
      | Some dec1 \<Rightarrow>
          (case dc_SetString dc value2 of
             None \<Rightarrow> Inl (NewInconvertibleValueErr value2)
           | Some dec2 \<Rightarrow>
               (let operator1 = \<lparr>bo_Value = dec1, bo_Operation = op1\<rparr>;
                    operator2 = \<lparr>bo_Value = dec2, bo_Operation = op2\<rparr>
                in if dec1 < dec2 then Inr (operator1, operator2) else Inr (operator2, operator1))))"

definition fixed_value :: "decimals \<Rightarrow> rat \<Rightarrow> OperatorValue option" where
  "fixed_value dc q = Some \<lparr>ov_FixedValue = dc_NewDecimalQuantity dc q\<rparr>"

definition negateSingleOperator :: "decimals \<Rightarrow> string \<Rightarrow> string \<Rightarrow> error + Operator" where
  "negateSingleOperator dc op val =
     (case dc_SetString dc val of
        None \<Rightarrow> Inl (NewInconvertibleValueErr val)
      | Some dec \<Rightarrow>
          if op = ''<='' then Inr (no_operator\<lparr>op_GreaterThan := fixed_value dc dec\<rparr>)
          else if op = ''<'' then Inr (no_operator\<lparr>op_GreaterThanOrEqual := fixed_value dc dec\<rparr>)
          else if op = ''>='' then Inr (no_operator\<lparr>op_LessThan := fixed_value dc dec\<rparr>)
          else if op = ''>'' then Inr (no_operator\<lparr>op_LessThanOrEqual := fixed_value dc dec\<rparr>)
          else Inl (NewInvalidOperatorErr op))"

definition createSingleOperator :: "decimals \<Rightarrow> string \<Rightarrow> string \<Rightarrow> error + Operator" where
  "createSingleOperator dc op val =
     (case dc_SetString dc val of
        None \<Rightarrow> Inl (NewInconvertibleValueErr val)
      | Some dec \<Rightarrow>
          if op = ''<='' then Inr (no_operator\<lparr>op_LessThanOrEqual := fixed_value dc dec\<rparr>)
          else if op = ''<'' then Inr (no_operator\<lparr>op_LessThan := fixed_value dc dec\<rparr>)
          else if op = ''>='' then Inr (no_operator\<lparr>op_GreaterThanOrEqual := fixed_value dc dec\<rparr>)
          else if op = ''>'' then Inr (no_operator\<lparr>op_GreaterThan := fixed_value dc dec\<rparr>)
          else Inl (NewInvalidOperatorErr op))"

definition createDoubleOperator :: "decimals \<Rightarrow> string \<Rightarrow> string \<Rightarrow> string \<Rightarrow> string \<Rightarrow> error + Operator" where
  "createDoubleOperator dc op1 value1 op2 value2 =
     (case decideIntervalBounds dc op1 value1 op2 value2 of
        Inl err \<Rightarrow> Inl err
      | Inr (smaller, bigger) \<Rightarrow>
          (let r = \<lparr>rv_LowBound = dc_NewDecimalQuantity dc (bo_Value smaller),
                 rv_HighBound = dc_NewDecimalQuantity dc (bo_Value bigger)\<rparr>
           in if isGreaterOrEqual (bo_Operation smaller) \<and> isLessOrEqual (bo_Operation bigger) then
                Inr (no_operator\<lparr>op_InRange := Some r\<rparr>)
              else if isLessOrEqual (bo_Operation smaller) \<and> isGreaterOrEqual (bo_Operation bigger) then
                Inr (no_operator\<lparr>op_NotInRange := Some r\<rparr>)
              else Inl (NewInconvertibleOperatorCombinationErr op1 op2)))"

definition negateDoubleOperator :: "decimals \<Rightarrow> string \<Rightarrow> string \<Rightarrow> string \<Rightarrow> string \<Rightarrow> error + Operator" where
  "negateDoubleOperator dc op1 value1 op2 value2 =
     (case createDoubleOperator dc op1 value1 op2 value2 of
        Inl err \<Rightarrow> Inl err
      | Inr operator \<Rightarrow>
          if op_NotInRange operator \<noteq> None then Inr (no_operator\<lparr>op_InRange := op_NotInRange operator\<rparr>)
          else Inr (no_operator\<lparr>op_NotInRange := op_InRange operator\<rparr>))"

definition newOperator :: "decimals \<Rightarrow> string list \<Rightarrow> bool \<Rightarrow> error + Operator" where
  "newOperator dc op negate =
     (case op of
        [] \<Rightarrow> Inl (NewEmptyOperatorErr op)
      | [o1] \<Rightarrow>
          (case decodeOperatorAndValue o1 of
             Inl err \<Rightarrow> Inl err
           | Inr (operator, val) \<Rightarrow>
               if negate then negateSingleOperator dc operator val else createSingleOperator dc operator val)
      | o1 # o2 # rest \<Rightarrow>
          (case decodeOperatorAndValue o1 of
             Inl err \<Rightarrow> Inl err
           | Inr (operator1, value1) \<Rightarrow>
               (case decodeOperatorAndValue o2 of
                  Inl err \<Rightarrow> Inl err
                | Inr (operator2, value2) \<Rightarrow>
                    if negate then negateDoubleOperator dc operator1 value1 operator2 value2
                    else createDoubleOperator dc operator1 value1 operator2 value2)))"

section \<open>Intervals\<close>

definition createUnboundedInterval :: "decimals \<Rightarrow> string \<Rightarrow> error + Interval" where
  "createUnboundedInterval dc op =
     (case decodeOperatorAndValue op of
        Inl err \<Rightarrow> Inl err
      | Inr (operator, val) \<Rightarrow>
          (case dc_SetString dc val of
             None \<Rightarrow> Inl (NewInconvertibleValueErr val)
           | Some dec \<Rightarrow>
               if isGreaterOrEqual operator then Inr \<lparr>iv_Start = dec, iv_End = of_int MaxInt\<rparr>
               else Inr \<lparr>iv_Start = of_int MinInt, iv_End = dec\<rparr>))"

definition createBoundedInterval :: "decimals \<Rightarrow> string list \<Rightarrow> error + Interval" where
  "createBoundedInterval dc op =
     (case op of
        o1 # o2 # rest \<Rightarrow>
          (case decodeOperatorAndValue o1 of
             Inl err \<Rightarrow> Inl err
           | Inr (operator1, value1) \<Rightarrow>
               (case decodeOperatorAndValue o2 of
                  Inl err \<Rightarrow> Inl err
                | Inr (operator2, value2) \<Rightarrow>
                    (case decideIntervalBounds dc operator1 value1 operator2 value2 of
                       Inl err \<Rightarrow> Inl err
                     | Inr (smaller, bigger) \<Rightarrow>
                         if isGreaterOrEqual (bo_Operation smaller) \<and> isLessOrEqual (bo_Operation bigger) then
                           Inr \<lparr>iv_Start = bo_Value smaller, iv_End = bo_Value bigger\<rparr>
                         else Inl (NewUnsupportedIntervalCombinationErr op))))
      | _ \<Rightarrow> Inl (NewUnsupportedIntervalCombinationErr op))"

definition createInterval :: "decimals \<Rightarrow> string list \<Rightarrow> error + Interval" where
  "createInterval dc op = (case op of [o1] \<Rightarrow> createUnboundedInterval dc o1 | _ \<Rightarrow> createBoundedInterval dc op)"

definition isSuperInterval :: "decimals \<Rightarrow> string list \<Rightarrow> string list \<Rightarrow> error + bool" where
  "isSuperInterval dc op1 op2 =
     (case createInterval dc op1 of
        Inl err \<Rightarrow> Inl err
      | Inr super \<Rightarrow>
          (case createInterval dc op2 of
             Inl err \<Rightarrow> Inl err
           | Inr sub \<Rightarrow> Inr (iv_Start super \<le> iv_Start sub \<and> iv_End sub \<le> iv_End super)))"

section \<open>Objectives\<close>

type_synonym Criteria = "string list"

record SloObjective =
  slo_Name :: string
  slo_KeySLI :: bool
  slo_Weight :: int
  slo_Warning :: "Criteria list"
  slo_Pass :: "Criteria list"

record SLO =
  slo_Objectives :: "SloObjective option list"
  slo_TotalPass :: string
  slo_TotalWarning :: string

definition hasNotSupportedCriteria :: "SloObjective \<Rightarrow> bool" where
  "hasNotSupportedCriteria ob =
     (if length (slo_Pass ob) = 0 then True
      else if length (slo_Warning ob) > 1 then True
      else if length (slo_Warning ob) = 1 then length (slo_Pass ob) > 1
      else False)"

text \<open>\<^verbatim>\<open>strings.Replace\<close> of every space by nothing.\<close>

definition clean_operators :: "string list \<Rightarrow> string list" where
  "clean_operators operators =
     map (filter (\<lambda>c. c \<noteq> CHR '' '')) (filter (\<lambda>op. CHR ''%'' \<notin> set op) operators)"

definition cleanupCriteria :: "Criteria list \<Rightarrow> Criteria list" where
  "cleanupCriteria criteria = filter (\<lambda>ops. length ops > 0) (map clean_operators criteria)"

definition cleanupObjective :: "SloObjective \<Rightarrow> SloObjective" where
  "cleanupObjective ob = ob\<lparr>slo_Pass := cleanupCriteria (slo_Pass ob), slo_Warning := cleanupCriteria (slo_Warning ob)\<rparr>"

text \<open>A conversion fails with an error, or panics on a missing entry.\<close>

datatype failure = Crash | Failed error

definition no_target :: Target where
  "no_target = \<lparr>tg_Failure = None, tg_Warning = None\<rparr>"

definition both_operators ::
    "(error + Operator) \<Rightarrow> (error + Operator) \<Rightarrow> (Operator \<Rightarrow> Operator \<Rightarrow> Target) \<Rightarrow> failure + Target" where
  "both_operators r1 r2 build =
     (case r1 of
        Inl err \<Rightarrow> Inl (Failed err)
      | Inr op1 \<Rightarrow> (case r2 of Inl err \<Rightarrow> Inl (Failed err) | Inr op2 \<Rightarrow> Inr (build op1 op2)))"

definition fail_when :: "(error + Operator) \<Rightarrow> failure + Target" where
  "fail_when r = (case r of Inl err \<Rightarrow> Inl (Failed err) | Inr op \<Rightarrow> Inr (no_target\<lparr>tg_Failure := Some op\<rparr>))"

text \<open>Pass and warning criteria, one of each.\<close>

definition nested_target :: "decimals \<Rightarrow> Criteria \<Rightarrow> Criteria \<Rightarrow> failure + Target" where
  "nested_target dc pass warning =
     (case isSuperInterval dc warning pass of
        Inl err \<Rightarrow> Inl (Failed err)
      | Inr isWarningSuperInterval \<Rightarrow>
          if length pass = 1 \<and> length warning = 1 \<or> isWarningSuperInterval then
            both_operators (newOperator dc pass True) (newOperator dc warning True)
              (\<lambda>op1 op2. \<lparr>tg_Failure = Some op2, tg_Warning = Some op1\<rparr>)
          else
            (case isSuperInterval dc pass warning of
               Inl err \<Rightarrow> Inl (Failed err)
             | Inr isPassSuperInterval \<Rightarrow>
                 if isPassSuperInterval then
                   both_operators (newOperator dc warning False) (newOperator dc pass True)
                     (\<lambda>op1 op2. \<lparr>tg_Failure = Some op2, tg_Warning = Some op1\<rparr>)
                 else Inr no_target))"

definition setupTarget :: "decimals \<Rightarrow> SloObjective \<Rightarrow> failure + Target" where
  "setupTarget dc ob =
     (if hasNotSupportedCriteria ob then Inr no_target
      else
        (case slo_Pass ob of
           [] \<Rightarrow> Inl Crash
         | p1 # p2 # rest \<Rightarrow>
             if p1 = [] \<or> p2 = [] then Inl Crash
             else fail_when (newOperator dc [hd p1, hd p2] True)
         | [pass] \<Rightarrow>
             (case slo_Warning ob of
                [] \<Rightarrow> if length pass > 0 then fail_when (newOperator dc pass True) else Inl Crash
              | warning # ws \<Rightarrow> nested_target dc pass warning)))"

section \<open>Definitions\<close>

text \<open>
  \<^verbatim>\<open>math.Round\<close> rounds halves away from zero.  What the conversion to an integer makes of a number that is none
  or too large is left to the implementation of Go: the argument \<open>wild\<close>.
\<close>

definition round_away :: "rat \<Rightarrow> int" where
  "round_away q = (if 0 \<le> q then \<lfloor>q + 1 / 2\<rfloor> else - \<lfloor>- q + 1 / 2\<rfloor>)"

definition removePercentage :: "(string \<Rightarrow> string) \<Rightarrow> (float64 \<Rightarrow> int) \<Rightarrow> string \<Rightarrow> error + int" where
  "removePercentage quote wild str =
     (case ParseFloat quote (filter (\<lambda>c. c \<noteq> CHR ''%'') str) of
        Inl err \<Rightarrow> Inl err
      | Inr (Finite q) \<Rightarrow>
          if MinInt \<le> round_away q \<and> round_away q \<le> MaxInt then Inr (round_away q) else Inr (wild (Finite q))
      | Inr x \<Rightarrow> Inr (wild x))"

fun convert_objectives :: "decimals \<Rightarrow> string \<Rightarrow> SloObjective option list \<Rightarrow> failure + AnalysisObjective list" where
  "convert_objectives dc namespace [] = Inr []"
| "convert_objectives dc namespace (None # obs) = Inl Crash"
| "convert_objectives dc namespace (Some ob # obs) =
     (case setupTarget dc (cleanupObjective ob) of
        Inl err \<Rightarrow> Inl err
      | Inr target \<Rightarrow>
          (case convert_objectives dc namespace obs of
             Inl err \<Rightarrow> Inl err
           | Inr rest \<Rightarrow> Inr (
               \<lparr>ao_AnalysisValueTemplateRef = \<lparr>or_Name = ConvertResourceName (slo_Name ob), or_Namespace = namespace\<rparr>,
                ao_Target = target, ao_Weight = slo_Weight ob, ao_KeyObjective = slo_KeySLI ob\<rparr> # rest)))"

definition convertSLO ::
    "(string \<Rightarrow> string) \<Rightarrow> (float64 \<Rightarrow> int) \<Rightarrow> decimals \<Rightarrow> ObjectMeta \<Rightarrow> SLO \<Rightarrow> string \<Rightarrow> string \<Rightarrow> failure + AnalysisDefinition" where
  "convertSLO quote wild dc meta slo name namespace =
     (case removePercentage quote wild (slo_TotalPass slo) of
        Inl err \<Rightarrow> Inl (Failed err)
      | Inr passPercentage \<Rightarrow>
          (case removePercentage quote wild (slo_TotalWarning slo) of
             Inl err \<Rightarrow> Inl (Failed err)
           | Inr warnPercentage \<Rightarrow>
               (case convert_objectives dc namespace (slo_Objectives slo) of
                  Inl err \<Rightarrow> Inl err
                | Inr objectives \<Rightarrow> Inr
                    \<lparr>ad_meta = meta\<lparr>om_Name := name\<rparr>, ad_Objectives = objectives,
                     ad_TotalScore = \<lparr>ts_PassPercentage = passPercentage, ts_WarningPercentage = warnPercentage\<rparr>\<rparr>)))"

definition SLO_validateInput :: "string \<Rightarrow> string \<Rightarrow> error option" where
  "SLO_validateInput analysisDef namespace =
     (if analysisDef = [] \<or> namespace = [] then
        Some (Message (''missing arguments: '' @ quoted ''analysis-definition-name'' @ '' and '' @
          quoted ''analysis-value-template-namespace'' @ '' needs to be set for conversion''))
      else
        (case ValidateResourceName analysisDef of
           Some err \<Rightarrow> Some err
         | None \<Rightarrow> ValidateResourceName namespace))"

record 'c yaml =
  ym_Unmarshal :: "string \<Rightarrow> error + 'c"

definition SLO_Convert ::
    "(string \<Rightarrow> string) \<Rightarrow> (float64 \<Rightarrow> int) \<Rightarrow> decimals \<Rightarrow> ObjectMeta \<Rightarrow> SLO yaml \<Rightarrow> (AnalysisDefinition \<Rightarrow> error + string) \<Rightarrow>
     string \<Rightarrow> string \<Rightarrow> string \<Rightarrow> failure + string" where
  "SLO_Convert quote wild dc meta yaml marshal fileContent analysisDef namespace =
     (case SLO_validateInput analysisDef namespace of
        Some err \<Rightarrow> Inl (Failed err)
      | None \<Rightarrow>
          (case ym_Unmarshal yaml fileContent of
             Inl err \<Rightarrow> Inl (Failed (Message (''error unmarshalling file content: '' @ error_string err)))
           | Inr content \<Rightarrow>
               (case convertSLO quote wild dc meta content analysisDef namespace of
                  Inl err \<Rightarrow> Inl err
                | Inr def \<Rightarrow>
                    (case marshal def of
                       Inl err \<Rightarrow> Inl (Failed (Message (''error marshalling data: '' @ error_string err)))
                     | Inr yamlData \<Rightarrow> Inr yamlData))))"

section \<open>Indicators\<close>

definition is_upper_alnum :: "char \<Rightarrow> bool" where
  "is_upper_alnum c \<longleftrightarrow> is_upper c \<or> is_dec c"

definition is_word_char :: "char \<Rightarrow> bool" where
  "is_word_char c \<longleftrightarrow> is_upper_alnum c \<or> is_lower_alnum c \<or> c = CHR ''_''"

text \<open>The matches of the pattern for variables, from left to right.\<close>

function find_variables :: "string \<Rightarrow> string list" where
  "find_variables [] = []"
| "find_variables (c # s) =
     (if c = CHR ''$'' \<and> s \<noteq> [] \<and> is_upper (hd s) then
        (let run = takeWhile is_upper_alnum s; rest = dropWhile is_upper_alnum s in
         if rest = [] \<or> \<not> is_word_char (hd rest) then (c # run) # find_variables rest else find_variables s)
      else find_variables s)"
  by pat_completeness auto

termination
  by (relation "measure length") (auto simp: le_imp_less_Suc length_dropWhile_le)

text \<open>\<^verbatim>\<open>strings.ReplaceAll\<close> of a string that is not empty.\<close>

function replace_all :: "string \<Rightarrow> string \<Rightarrow> string \<Rightarrow> string" where
  "replace_all old new s =
     (if s = [] \<or> old = [] then s
      else if has_prefix s old then new @ replace_all old new (drop (length old) s)
      else hd s # replace_all old new (tl s))"
  by pat_completeness auto

termination
  by (relation "measure (\<lambda>(_, _, s). length s)") auto

declare replace_all.simps [simp del]

definition template_variable :: "string \<Rightarrow> string" where
  "template_variable v = ''{{.'' @ to_lower (trim_prefix v ''$'') @ ''}}''"

definition convertQuery :: "string \<Rightarrow> string" where
  "convertQuery query =
     (let variables = find_variables query in
      if variables = [] then query
      else foldl (\<lambda>q v. replace_all v (template_variable v) q) query variables)"

text \<open>The indicators are a map; the order in which it is run through is that of the list.\<close>

definition convertMapToAnalysisValueTemplate ::
    "ObjectMeta \<Rightarrow> (string \<times> string) list \<Rightarrow> string \<Rightarrow> string \<Rightarrow> AnalysisValueTemplate list" where
  "convertMapToAnalysisValueTemplate meta slis provider namespace =
     map (\<lambda>(key, query). \<lparr>avt_meta = meta\<lparr>om_Name := ConvertResourceName key\<rparr>,
       avt_Provider = \<lparr>or_Name = provider, or_Namespace = namespace\<rparr>, avt_Query = convertQuery query\<rparr>) slis"

definition SLI_validateInput :: "string \<Rightarrow> string \<Rightarrow> error option" where
  "SLI_validateInput provider namespace =
     (if provider = [] \<or> namespace = [] then
        Some (Message (''missing arguments: '' @ quoted ''keptn-provider-name'' @ '' and '' @
          quoted ''keptn-provider-namespace'' @ '' needs to be set for conversion''))
      else
        (case ValidateResourceName provider of
           Some err \<Rightarrow> Some err
         | None \<Rightarrow> ValidateResourceName namespace))"

fun marshal_templates :: "(AnalysisValueTemplate \<Rightarrow> error + string) \<Rightarrow> string \<Rightarrow> AnalysisValueTemplate list \<Rightarrow> error + string" where
  "marshal_templates marshal result [] = Inr result"
| "marshal_templates marshal result (v # vs) =
     (case marshal v of
        Inl err \<Rightarrow> Inl (Message (''error marshalling data: '' @ error_string err))
      | Inr yamlData \<Rightarrow> marshal_templates marshal (result @ ''---'' @ [CHR 0x0A] @ yamlData) vs)"

definition SLI_Convert ::
    "ObjectMeta \<Rightarrow> (string \<times> string) list yaml \<Rightarrow> (AnalysisValueTemplate \<Rightarrow> error + string) \<Rightarrow>
     string \<Rightarrow> string \<Rightarrow> string \<Rightarrow> error + string" where
  "SLI_Convert meta yaml marshal fileContent provider namespace =
     (case SLI_validateInput provider namespace of
        Some err \<Rightarrow> Inl err
      | None \<Rightarrow>
          (case ym_Unmarshal yaml fileContent of
             Inl err \<Rightarrow> Inl (Message (''error unmarshalling file content: '' @ error_string err))
           | Inr indicators \<Rightarrow>
               marshal_templates marshal [] (convertMapToAnalysisValueTemplate meta indicators provider namespace)))"

section \<open>Names\<close>

lemma hyphenate_chars: "c \<in> set (hyphenate s) \<Longrightarrow> is_lower_alnum c \<or> c = CHR ''-''"
  by (induction s rule: hyphenate.induct) (auto split: if_splits list.splits)

lemma hyphenate_id: "\<forall>c\<in>set s. is_lower_alnum c \<Longrightarrow> hyphenate s = s"
  by (induction s) auto

lemma dropWhile_hd: "dropWhile P s \<noteq> [] \<Longrightarrow> \<not> P (hd (dropWhile P s))"
  by (rule hd_dropWhile) (metis dropWhile_eq_Nil_conv)

lemma trim_hyphens_ends:
  assumes "trim_hyphens s \<noteq> []"
  shows "hd (trim_hyphens s) \<noteq> CHR ''-''" "last (trim_hyphens s) \<noteq> CHR ''-''" "set (trim_hyphens s) \<subseteq> set s"
proof -
  let ?h = "\<lambda>c. c = CHR ''-''"
  define t where "t = dropWhile ?h s"
  have trim: "trim_hyphens s = rev (dropWhile ?h (rev t))" by (simp add: trim_hyphens_def t_def)
  then have ne: "dropWhile ?h (rev t) \<noteq> []" using assms by simp
  then show "last (trim_hyphens s) \<noteq> CHR ''-''" using dropWhile_hd [of ?h "rev t"] by (simp add: trim last_rev)
  have "t \<noteq> []" using ne by auto
  then have "hd t \<noteq> CHR ''-''" using dropWhile_hd [of ?h s] by (simp add: t_def)
  moreover have "hd (trim_hyphens s) = hd t"
  proof -
    have "rev t = takeWhile ?h (rev t) @ dropWhile ?h (rev t)" by simp
    then have "t = rev (dropWhile ?h (rev t)) @ rev (takeWhile ?h (rev t))" by (metis rev_append rev_rev_ident)
    then show ?thesis using ne trim by (metis hd_append2 rev_is_Nil_conv)
  qed
  ultimately show "hd (trim_hyphens s) \<noteq> CHR ''-''" by simp
  show "set (trim_hyphens s) \<subseteq> set s" by (auto simp: trim t_def dest!: set_dropWhileD)
qed

text \<open>
  A converted name is a name that the operator accepts, whatever the name was, when something is left of it
  and it does not have to be cut.
\<close>

theorem converted_name_valid:
  assumes "ConvertResourceName name \<noteq> []" and "length (ConvertResourceName name) < MaxResourceNameLength"
  shows "ValidateResourceName (ConvertResourceName name) = None"
proof -
  define n where "n = trim_hyphens (hyphenate (to_lower name))"
  have n: "ConvertResourceName name = n"
    using assms(2) by (auto simp: ConvertResourceName_def n_def Let_def split: if_splits)
  then have ne: "n \<noteq> []" using assms(1) by simp
  have chars: "is_lower_alnum c \<or> c = CHR ''-''" if "c \<in> set n" for c
    using that hyphenate_chars trim_hyphens_ends(3) ne unfolding n_def by blast
  then have "is_lower_alnum (hd n)" "is_lower_alnum (last n)"
    using trim_hyphens_ends(1,2) ne chars [of "hd n"] chars [of "last n"] unfolding n_def by auto
  then show ?thesis
    using ne chars assms(2) n by (auto simp: ValidateResourceName_def matches_name_def)
qed

lemma is_lower_alnum_hyphen: "\<not> is_lower_alnum CHR ''-''"
  by (simp add: is_lower_alnum_def is_dec_def)

text \<open>
  Cutting a long name can make it unusable: when the character at the limit is a hyphen the converted name
  ends in it and is refused by the validation of names.
\<close>

theorem cut_name_invalid:
  assumes "length (trim_hyphens (hyphenate (to_lower name))) > MaxResourceNameLength"
    and "trim_hyphens (hyphenate (to_lower name)) ! (MaxResourceNameLength - 1) = CHR ''-''"
  shows "ValidateResourceName (ConvertResourceName name) \<noteq> None"
proof -
  let ?n = "trim_hyphens (hyphenate (to_lower name))"
  have "ConvertResourceName name = take MaxResourceNameLength ?n" using assms(1) by (simp add: ConvertResourceName_def Let_def)
  moreover have "take MaxResourceNameLength ?n \<noteq> []" using assms(1) by (auto simp: MaxResourceNameLength_def)
  moreover have "last (take MaxResourceNameLength ?n) = CHR ''-''"
    using assms by (subst last_conv_nth) (auto simp: MaxResourceNameLength_def min_def)
  ultimately show ?thesis using is_lower_alnum_hyphen by (simp add: ValidateResourceName_def matches_name_def)
qed

section \<open>What a converted objective means\<close>

text \<open>
  The number that a bound becomes: \<^verbatim>\<open>AsApproximateFloat64\<close> of the decimal quantity. It may lose precision, and it
  is an infinity for a bound out of range; all that is relied on is that it is a number.
\<close>

definition bound :: "(Quantity \<Rightarrow> float64) \<Rightarrow> decimals \<Rightarrow> rat \<Rightarrow> float64" where
  "bound approx dc q = approx (dc_NewDecimalQuantity dc q)"

definition bounds_are_numbers :: "(Quantity \<Rightarrow> float64) \<Rightarrow> decimals \<Rightarrow> bool" where
  "bounds_are_numbers approx dc \<longleftrightarrow> (\<forall>q. bound approx dc q \<noteq> NaN)"

text \<open>
  The meaning of the criteria of an SLO: a criterion holds when all its operators do, and an objective passes
  when one of its pass criteria holds, warns when one of its warning criteria does, and fails otherwise.
\<close>

definition op_holds :: "(Quantity \<Rightarrow> float64) \<Rightarrow> decimals \<Rightarrow> float64 \<Rightarrow> string \<Rightarrow> bool" where
  "op_holds approx dc v s =
     (case decodeOperatorAndValue s of
        Inl err \<Rightarrow> False
      | Inr (op, val) \<Rightarrow>
          (case dc_SetString dc val of
             None \<Rightarrow> False
           | Some q \<Rightarrow>
               if op = ''<='' then float_le v (bound approx dc q)
               else if op = ''<'' then float_less v (bound approx dc q)
               else if op = ''>='' then float_le (bound approx dc q) v
               else float_less (bound approx dc q) v))"

definition criterion_holds :: "(Quantity \<Rightarrow> float64) \<Rightarrow> decimals \<Rightarrow> float64 \<Rightarrow> Criteria \<Rightarrow> bool" where
  "criterion_holds approx dc v c \<longleftrightarrow> (\<forall>s\<in>set c. op_holds approx dc v s)"

datatype verdict = Passed | Warned | Rejected

definition slo_verdict :: "(Quantity \<Rightarrow> float64) \<Rightarrow> decimals \<Rightarrow> SloObjective \<Rightarrow> float64 \<Rightarrow> verdict" where
  "slo_verdict approx dc ob v =
     (if \<exists>c\<in>set (slo_Pass ob). criterion_holds approx dc v c then Passed
      else if \<exists>c\<in>set (slo_Warning ob). criterion_holds approx dc v c then Warned
      else Rejected)"

definition target_verdict :: "(Quantity \<Rightarrow> float64) \<Rightarrow> Target \<Rightarrow> float64 \<Rightarrow> verdict" where
  "target_verdict approx t v =
     (let r = TargetEvaluator_Evaluate approx v t in
      if tr_Pass r then Passed else if tr_Warning r then Warned else Rejected)"

lemma target_verdict_eq:
  "target_verdict approx t v =
     (if met approx v (tg_Failure t) then Rejected else if met approx v (tg_Warning t) then Warned else Passed)"
  by (simp add: target_verdict_def target_result Let_def)

lemma decode_operator:
  "decodeOperatorAndValue s = Inr (op, val) \<Longrightarrow> op = ''<='' \<or> op = ''<'' \<or> op = ''>='' \<or> op = ''>''"
  by (auto simp: decodeOperatorAndValue_def split: option.splits if_splits)

lemma operator_result:
  "opr_Fulfilled (OperatorEvaluator_Evaluate approx v (no_operator\<lparr>op_GreaterThan := Some x\<rparr>)) = float_less (GetFloatValue approx x) v"
  "opr_Fulfilled (OperatorEvaluator_Evaluate approx v (no_operator\<lparr>op_GreaterThanOrEqual := Some x\<rparr>)) = float_le (GetFloatValue approx x) v"
  "opr_Fulfilled (OperatorEvaluator_Evaluate approx v (no_operator\<lparr>op_LessThan := Some x\<rparr>)) = float_less v (GetFloatValue approx x)"
  "opr_Fulfilled (OperatorEvaluator_Evaluate approx v (no_operator\<lparr>op_LessThanOrEqual := Some x\<rparr>)) = float_le v (GetFloatValue approx x)"
  "opr_Fulfilled (OperatorEvaluator_Evaluate approx v (no_operator\<lparr>op_InRange := Some r\<rparr>)) =
     (float_le (approx (rv_LowBound r)) v \<and> float_le v (approx (rv_HighBound r)))"
  "opr_Fulfilled (OperatorEvaluator_Evaluate approx v (no_operator\<lparr>op_NotInRange := Some r\<rparr>)) =
     (float_less v (approx (rv_LowBound r)) \<or> float_less (approx (rv_HighBound r)) v)"
  by (simp_all add: OperatorEvaluator_Evaluate_def no_operator_def)

lemma float_not_less: "x \<noteq> NaN \<Longrightarrow> y \<noteq> NaN \<Longrightarrow> \<not> float_less x y \<longleftrightarrow> float_le y x"
  using float_not_le [of y x] by blast

lemma negated_single:
  assumes "newOperator dc [s] True = Inr p" and "bounds_are_numbers approx dc" and "v \<noteq> NaN"
  shows "met approx v (Some p) \<longleftrightarrow> \<not> op_holds approx dc v s"
proof -
  obtain op val where d: "decodeOperatorAndValue s = Inr (op, val)" and n: "negateSingleOperator dc op val = Inr p"
    using assms(1) by (auto simp: newOperator_def split: sum.splits)
  obtain q where q: "dc_SetString dc val = Some q" using n by (auto simp: negateSingleOperator_def split: option.splits)
  have "GetFloatValue approx \<lparr>ov_FixedValue = dc_NewDecimalQuantity dc q\<rparr> = bound approx dc q"
    by (simp add: GetFloatValue_def bound_def)
  moreover have "bound approx dc q \<noteq> NaN" using assms(2) by (simp add: bounds_are_numbers_def)
  ultimately show ?thesis
    using n decode_operator [OF d] assms(3) float_not_le [of v "bound approx dc q"] float_not_le [of "bound approx dc q" v]
      float_not_less [of v "bound approx dc q"] float_not_less [of "bound approx dc q" v]
    by (auto simp: negateSingleOperator_def q d op_holds_def met_def fixed_value_def operator_result)
qed

text \<open>
  C34: objectives with one operator are converted faithfully. When an objective has one pass criterion with one
  operator, and no warning criterion or one with one operator that includes the pass criterion, the evaluators
  of the metrics operator come to the same verdict on the converted target as the SLO, for every value that is
  a number. The bounds of both are read as \<^verbatim>\<open>AsApproximateFloat64\<close> reads them, with whatever precision.
\<close>

theorem single_criteria_faithful:
  assumes "slo_Pass ob = [[p]]" and "slo_Warning ob = [] \<or> slo_Warning ob = [[w]]"
    and "\<forall>v. op_holds approx dc v p \<longrightarrow> op_holds approx dc v w"
    and "setupTarget dc ob = Inr t" and "bounds_are_numbers approx dc" and "v \<noteq> NaN"
  shows "target_verdict approx t v = slo_verdict approx dc ob v"
proof (cases "slo_Warning ob")
  case Nil
  then obtain op where op: "newOperator dc [p] True = Inr op" "t = no_target\<lparr>tg_Failure := Some op\<rparr>"
    using assms(1,4) by (auto simp: setupTarget_def hasNotSupportedCriteria_def fail_when_def split: sum.splits)
  then show ?thesis
    using Nil assms(1) negated_single [OF op(1) assms(5,6)]
    by (auto simp: target_verdict_eq slo_verdict_def criterion_holds_def no_target_def met_def)
next
  case (Cons c cs)
  then have w: "slo_Warning ob = [[w]]" using assms(2) by simp
  then obtain op1 op2 where op: "newOperator dc [p] True = Inr op1" "newOperator dc [w] True = Inr op2"
    "t = \<lparr>tg_Failure = Some op2, tg_Warning = Some op1\<rparr>"
    using assms(1,4)
    by (auto simp: setupTarget_def hasNotSupportedCriteria_def nested_target_def both_operators_def split: sum.splits)
  then show ?thesis
    using w assms(1,3) negated_single [OF op(1) assms(5,6)] negated_single [OF op(2) assms(5,6)]
    by (auto simp: target_verdict_eq slo_verdict_def criterion_holds_def)
qed

subsection \<open>Ranges\<close>

text \<open>A lower and an upper bound, in either order and strict or not, become a range that includes both.\<close>

lemma negated_range:
  assumes "decodeOperatorAndValue s1 = Inr (op1, val1)" and "decodeOperatorAndValue s2 = Inr (op2, val2)"
    and "dc_SetString dc val1 = Some lo" and "dc_SetString dc val2 = Some hi" and "lo < hi"
    and "isGreaterOrEqual op1" and "isLessOrEqual op2"
  shows "newOperator dc [s1, s2] True = Inr (no_operator\<lparr>op_NotInRange :=
     Some \<lparr>rv_LowBound = dc_NewDecimalQuantity dc lo, rv_HighBound = dc_NewDecimalQuantity dc hi\<rparr>\<rparr>)"
  using assms
  by (simp add: newOperator_def negateDoubleOperator_def createDoubleOperator_def decideIntervalBounds_def no_operator_def)

lemma range_met:
  assumes "bounds_are_numbers approx dc" and "v \<noteq> NaN"
  shows "met approx v (Some (no_operator\<lparr>op_NotInRange :=
       Some \<lparr>rv_LowBound = dc_NewDecimalQuantity dc lo, rv_HighBound = dc_NewDecimalQuantity dc hi\<rparr>\<rparr>)) \<longleftrightarrow>
     \<not> (float_le (bound approx dc lo) v \<and> float_le v (bound approx dc hi))"
  using assms float_not_le [of "bound approx dc lo" v] float_not_le [of v "bound approx dc hi"]
  by (auto simp: met_def operator_result bounds_are_numbers_def bound_def)

lemma bound_le_refl: "bounds_are_numbers approx dc \<Longrightarrow> float_le (bound approx dc q) (bound approx dc q)"
  by (cases "bound approx dc q") (auto simp: bounds_are_numbers_def float_le_iff float_eq_def)

lemma lower_bound_holds:
  assumes "decodeOperatorAndValue s = Inr (op, val)" and "dc_SetString dc val = Some q" and "isGreaterOrEqual op"
    and "v \<noteq> NaN" and "v \<noteq> bound approx dc q"
  shows "op_holds approx dc v s \<longleftrightarrow> float_le (bound approx dc q) v"
  using assms by (auto simp: op_holds_def isGreaterOrEqual_def float_le_iff float_eq_def)

lemma upper_bound_holds:
  assumes "decodeOperatorAndValue s = Inr (op, val)" and "dc_SetString dc val = Some q" and "isLessOrEqual op"
    and "v \<noteq> NaN" and "v \<noteq> bound approx dc q"
  shows "op_holds approx dc v s \<longleftrightarrow> float_le v (bound approx dc q)"
  using assms by (auto simp: op_holds_def isLessOrEqual_def float_le_iff float_eq_def)

text \<open>
  A pass criterion with a lower and an upper bound, which stay in this order as floating point numbers, is
  converted faithfully except at the bounds: for every number other than the two bounds the verdicts agree,
  and at a bound the converted objective always passes, also where the criterion excludes it.
\<close>

theorem range_criteria_faithful:
  assumes "slo_Pass ob = [[s1, s2]]" and "slo_Warning ob = []"
    and "decodeOperatorAndValue s1 = Inr (op1, val1)" and "decodeOperatorAndValue s2 = Inr (op2, val2)"
    and "dc_SetString dc val1 = Some lo" and "dc_SetString dc val2 = Some hi" and "lo < hi"
    and "isGreaterOrEqual op1" and "isLessOrEqual op2" and "bounds_are_numbers approx dc" and "v \<noteq> NaN"
    and "float_le (bound approx dc lo) (bound approx dc hi)"
  shows "\<exists>t. setupTarget dc ob = Inr t \<and>
     (v \<noteq> bound approx dc lo \<and> v \<noteq> bound approx dc hi \<longrightarrow> target_verdict approx t v = slo_verdict approx dc ob v) \<and>
     (v = bound approx dc lo \<or> v = bound approx dc hi \<longrightarrow> target_verdict approx t v = Passed)"
proof -
  let ?p = "no_operator\<lparr>op_NotInRange :=
     Some \<lparr>rv_LowBound = dc_NewDecimalQuantity dc lo, rv_HighBound = dc_NewDecimalQuantity dc hi\<rparr>\<rparr>"
  have t: "setupTarget dc ob = Inr (no_target\<lparr>tg_Failure := Some ?p\<rparr>)"
    using assms(1,2) negated_range [OF assms(3-9)]
    by (simp add: setupTarget_def hasNotSupportedCriteria_def fail_when_def)
  have verdict: "target_verdict approx (no_target\<lparr>tg_Failure := Some ?p\<rparr>) v =
      (if float_le (bound approx dc lo) v \<and> float_le v (bound approx dc hi) then Passed else Rejected)"
    using range_met [OF assms(10,11), of lo hi] by (simp add: target_verdict_eq no_target_def met_def [of _ _ None])
  note assms(12)
  moreover have "float_le (bound approx dc q) (bound approx dc q)" for q by (rule bound_le_refl [OF assms(10)])
  moreover have "slo_verdict approx dc ob v = (if op_holds approx dc v s1 \<and> op_holds approx dc v s2 then Passed else Rejected)"
    using assms(1,2) by (simp add: slo_verdict_def criterion_holds_def)
  ultimately show ?thesis
    using t verdict lower_bound_holds [OF assms(3,5,8,11)] upper_bound_holds [OF assms(4,6,9,11)] by auto
qed

text \<open>
  Alternatives are converted as if both were required. An objective that passes above a bound or below a
  larger one, that is for every value, is converted to one that fails outside the two bounds.
\<close>

theorem alternatives_become_range:
  assumes "slo_Pass ob = [[s1], [s2]]" and "slo_Warning ob = []"
    and "decodeOperatorAndValue s1 = Inr (op1, val1)" and "decodeOperatorAndValue s2 = Inr (op2, val2)"
    and "dc_SetString dc val1 = Some lo" and "dc_SetString dc val2 = Some hi" and "lo < hi"
    and "isGreaterOrEqual op1" and "isLessOrEqual op2" and "bounds_are_numbers approx dc"
    and "float_less v (bound approx dc lo)" and "float_le (bound approx dc lo) (bound approx dc hi)"
  shows "slo_verdict approx dc ob v = Passed \<and>
     (\<exists>t. setupTarget dc ob = Inr t \<and> target_verdict approx t v = Rejected)"
proof
  have "v \<noteq> NaN" using assms(11) by auto
  note le = assms(12)
  have "float_less v (bound approx dc hi)"
    using assms(11) le by (cases v; cases "bound approx dc lo"; cases "bound approx dc hi") auto
  then have "op_holds approx dc v s2"
    using assms(4,6,9) by (auto simp: op_holds_def isLessOrEqual_def float_le_iff)
  then show "slo_verdict approx dc ob v = Passed" using assms(1) by (simp add: slo_verdict_def criterion_holds_def)
  let ?p = "no_operator\<lparr>op_NotInRange :=
     Some \<lparr>rv_LowBound = dc_NewDecimalQuantity dc lo, rv_HighBound = dc_NewDecimalQuantity dc hi\<rparr>\<rparr>"
  have "setupTarget dc ob = Inr (no_target\<lparr>tg_Failure := Some ?p\<rparr>)"
    using assms(1,2) negated_range [OF assms(3-9)]
    by (simp add: setupTarget_def hasNotSupportedCriteria_def fail_when_def)
  moreover have "\<not> float_le (bound approx dc lo) v"
    using assms(10,11) \<open>v \<noteq> NaN\<close> float_not_le [of "bound approx dc lo" v] by (simp add: bounds_are_numbers_def)
  ultimately show "\<exists>t. setupTarget dc ob = Inr t \<and> target_verdict approx t v = Rejected"
    using range_met [OF assms(10) \<open>v \<noteq> NaN\<close>, of lo hi] by (auto simp: target_verdict_eq no_target_def)
qed

subsection \<open>Converted operators\<close>

lemma operators_set_updates [simp]:
  "operators_set (no_operator\<lparr>op_GreaterThan := Some x\<rparr>) = 1" "operators_set (no_operator\<lparr>op_GreaterThanOrEqual := Some x\<rparr>) = 1"
  "operators_set (no_operator\<lparr>op_LessThan := Some x\<rparr>) = 1" "operators_set (no_operator\<lparr>op_LessThanOrEqual := Some x\<rparr>) = 1"
  "operators_set (no_operator\<lparr>op_InRange := Some r\<rparr>) = 1" "operators_set (no_operator\<lparr>op_NotInRange := Some r\<rparr>) = 1"
  by (simp_all add: operators_set_def no_operator_def)

lemma createDouble_cases:
  assumes "createDoubleOperator dc o1 v1 o2 v2 = Inr p"
  shows "\<exists>r. p = no_operator\<lparr>op_InRange := Some r\<rparr> \<or> p = no_operator\<lparr>op_NotInRange := Some r\<rparr>"
  using assms by (auto simp: createDoubleOperator_def Let_def split: sum.splits if_splits)

lemma newOperator_one:
  assumes "newOperator dc ops negate = Inr p"
  shows "operators_set p = 1"
proof -
  have single: "negateSingleOperator dc a b = Inr p \<Longrightarrow> operators_set p = 1"
    "createSingleOperator dc a b = Inr p \<Longrightarrow> operators_set p = 1" for a b
    by (auto simp: negateSingleOperator_def createSingleOperator_def fixed_value_def split: option.splits if_splits)
  have double: "createDoubleOperator dc a b c d = Inr p \<Longrightarrow> operators_set p = 1" for a b c d
    using createDouble_cases by fastforce
  have neg: "negateDoubleOperator dc a b c d = Inr p \<Longrightarrow> operators_set p = 1" for a b c d
  proof -
    assume n: "negateDoubleOperator dc a b c d = Inr p"
    then obtain p' where p': "createDoubleOperator dc a b c d = Inr p'"
      by (auto simp: negateDoubleOperator_def split: sum.splits)
    from createDouble_cases [OF p'] n show ?thesis
      by (auto simp: negateDoubleOperator_def p' no_operator_def operators_set_def)
  qed
  show ?thesis
    using assms single double neg by (auto simp: newOperator_def split: list.splits sum.splits if_splits)
qed

text \<open>
  Every criterion of a converted objective has exactly one operator, as the webhook of analysis definitions
  demands.
\<close>

theorem converted_criteria_one_operator:
  assumes "setupTarget dc ob = Inr t" and "tg_Failure t = Some p \<or> tg_Warning t = Some p"
  shows "operators_set p = 1"
  using assms newOperator_one
  by (fastforce simp: setupTarget_def nested_target_def both_operators_def fail_when_def no_target_def
      split: if_splits list.splits sum.splits)

section \<open>Variables in queries\<close>

lemma replace_all_absent: "\<not> contains s old \<Longrightarrow> replace_all old new s = s"
proof (induction s)
  case (Cons c s)
  then show ?case by (subst replace_all.simps) (simp add: Cons.IH)
qed (simp add: replace_all.simps)

text \<open>
  A variable whose name begins with that of an earlier one is not recognised: only its beginning is
  replaced.
\<close>

theorem variable_prefix_replaced:
  "convertQuery ''$A + $AB'' = ''{{.a}} + {{.a}}B''"
  by code_simp

end
