(* ===== verification/Metrics_Examples.thy ===== *)
theory Metrics_Examples
  imports Analysis_Controller Slo_Converter
begin

text \<open>
  Concrete inputs for the theorems on the metrics operator: an analysis with two objectives, a run of the worker
  pool, lists of values.
\<close>

section \<open>An analysis\<close>

definition demo_ref :: "string \<Rightarrow> ObjectReference" where
  "demo_ref n = \<lparr>or_Name = n, or_Namespace = ''default''\<rparr>"

text \<open>Fails above 10.\<close>

definition demo_objective :: "string \<Rightarrow> AnalysisObjective" where
  "demo_objective n = \<lparr>ao_AnalysisValueTemplateRef = demo_ref n,
     ao_Target = \<lparr>tg_Failure = Some (no_operator\<lparr>op_GreaterThan := Some \<lparr>ov_FixedValue = NewQuantity 10 ''''\<rparr>\<rparr>), tg_Warning = None\<rparr>,
     ao_Weight = 1, ao_KeyObjective = False\<rparr>"

definition demo_definition :: AnalysisDefinition where
  "demo_definition = \<lparr>ad_meta = named_meta ''def'' ''default'', ad_Objectives = [demo_objective ''a'', demo_objective ''b''],
     ad_TotalScore = \<lparr>ts_PassPercentage = 90, ts_WarningPercentage = 50\<rparr>\<rparr>"

fun demo_approx :: "Quantity \<Rightarrow> float64" where
  "demo_approx (NewQuantity i _) = Finite (of_int i)"
| "demo_approx _ = NaN"

definition demo_result :: "string \<Rightarrow> string \<Rightarrow> ProviderResult" where
  "demo_result n v = \<lparr>pr_Objective = demo_ref n, pr_Query = ''q'', pr_Value = v, pr_ErrMsg = []\<rparr>"

definition demo_values :: "string \<Rightarrow> provider_values" where
  "demo_values v = fmap_of_list [(ComputeKey (demo_ref ''a''), demo_result ''a'' ''5''), (ComputeKey (demo_ref ''b''), demo_result ''b'' v)]"

lemma demo_numerals:
  "readFloat ''5'' = Some 5" "readFloat ''20'' = Some 20" "special ''5'' = None" "special ''20'' = None"
  by code_simp+

lemma demo_parse: "ParseFloat q ''5'' = Inr (Finite 5)" "ParseFloat q ''20'' = Inr (Finite 20)"
  using float_of_small_int [of 5] float_of_small_int [of 20]
  by (simp_all add: ParseFloat_def demo_numerals float_of_int_def)

lemma demo_keys: "ComputeKey (demo_ref n) = n @ ''-default''"
  by (simp add: ComputeKey_def IsNamespaceSet_def demo_ref_def)

lemmas demo_defs = demo_definition_def demo_objective_def demo_values_def demo_result_def no_operator_def

lemma demo_scores:
  "double_score id demo_approx (demo_values v) (demo_objective ''a'') = 2"
  "double_score id demo_approx (demo_values ''20'') (demo_objective ''b'') = 0"
  "double_score id demo_approx (demo_values ''5'') (demo_objective ''b'') = 2"
  by (simp_all add: double_score_def objective_value_def demo_keys demo_defs demo_parse met_def
      OperatorEvaluator_Evaluate_def GetFloatValue_def)

lemma demo_modest: "modest_weights demo_definition"
  by (simp add: modest_weights_def weight_sum_def demo_definition_def demo_objective_def)

theorem better_values_not_worse_witness:
  "verdict_rank (AnalysisEvaluator_Evaluate id demo_approx (demo_values ''20'') demo_definition) \<le>
     verdict_rank (AnalysisEvaluator_Evaluate id demo_approx (demo_values ''5'') demo_definition)"
  using better_values_not_worse [OF demo_modest, of id demo_approx "demo_values ''20''" "demo_values ''5''"]
    demo_scores
  by (simp add: demo_definition_def)

text \<open>The second objective decides, and its value 20 misses the target.\<close>

definition key_definition :: AnalysisDefinition where
  "key_definition = demo_definition\<lparr>ad_Objectives :=
     [demo_objective ''a'', demo_objective ''b''\<lparr>ao_KeyObjective := True\<rparr>]\<rparr>"

theorem analysis_verdict_witness:
  "let r = AnalysisEvaluator_Evaluate id demo_approx (demo_values ''20'') key_definition in
   length (anr_ObjectiveResults r) = 2 \<and> \<not> anr_Pass r \<and> \<not> anr_Warning r"
proof -
  have "target_missed id demo_approx (demo_values ''20'') (demo_objective ''b''\<lparr>ao_KeyObjective := True\<rparr>)"
    by (simp add: target_missed_def objective_value_def demo_keys demo_defs demo_parse met_def
        OperatorEvaluator_Evaluate_def GetFloatValue_def)
  moreover have "\<forall>ob\<in>set (ad_Objectives key_definition). ao_KeyObjective ob \<longrightarrow> 0 < ao_Weight ob \<and> ao_Weight ob < 2 ^ 52"
    by (simp add: key_definition_def demo_objective_def)
  ultimately show ?thesis
    using analysis_verdict [of key_definition id demo_approx "demo_values ''20''"]
    by (simp add: key_definition_def Let_def)
qed

theorem definition_accepted_iff_witness:
  "snd (AnalysisDefinition_ValidateCreate demo_approx demo_definition) = None"
proof -
  have "operators_set p = 1 \<and> op_InRange p = None \<and> op_NotInRange p = None"
    if "ob \<in> set (ad_Objectives demo_definition)" "tg_Failure (ao_Target ob) = Some p \<or> tg_Warning (ao_Target ob) = Some p" for ob p
    using that by (auto simp: demo_defs operators_set_def)
  moreover have "ts_WarningPercentage (ad_TotalScore demo_definition) < ts_PassPercentage (ad_TotalScore demo_definition)"
    by (simp add: demo_definition_def)
  ultimately show ?thesis
    unfolding definition_accepted_iff [THEN conjunct1] by fastforce
qed

section \<open>Aggregation\<close>

theorem aggregates_correct_witness:
  "CalculateMax [Finite 3, Finite 1, Finite 2] = Finite 3 \<and> CalculateMin [Finite 3, Finite 1, Finite 2] = Finite 1 \<and>
   CalculateMedian [Finite 3, Finite 1, Finite 2] = Finite 2"
  using aggregates_correct [of "[Finite 3, Finite 1, Finite 2]" "[Finite 1, Finite 2, Finite 3]"]
  by (simp add: add_mset_commute float_before_def)

section \<open>A run of the worker pool\<close>

theorem tasks_dealt_evenly_witness:
  "concat (map (tasks_of (assignTasks 3 ''abcdefgh'')) [1, 2, 3]) = ''abcdefgh'' \<and>
   length (tasks_of (assignTasks 3 ''abcdefgh'') 1) \<le> length (tasks_of (assignTasks 3 ''abcdefgh'') 3) + 1"
  using tasks_dealt_evenly [of 3 "''abcdefgh''"] by (simp add: upt_rec numeral_2_eq_2 numeral_3_eq_3)

definition demo_templating :: Templating where
  "demo_templating = \<lparr>tpl_Parse = \<lambda>q. Inr 0, tpl_Execute = \<lambda>t args. Inr ''q''\<rparr>"

definition demo_cfg :: pool_config where
  "demo_cfg = fst (NewWorkersPool [demo_objective ''a''] 1 ''default'' None demo_templating)"

definition demo_start :: pool where
  "demo_start = snd (NewWorkersPool [demo_objective ''a''] 1 ''default'' None demo_templating)"

definition demo_provider :: KeptnMetricsProvider where
  "demo_provider = bare_provider (named_meta ''p'' ''default'') ''prometheus''"

definition demo_request :: ProviderRequest where
  "demo_request = \<lparr>prq_Objective = demo_objective ''a'', prq_Query = ''q'', prq_Provider = demo_provider\<rparr>"

lemma demo_pool: "NewWorkersPool [demo_objective ''a''] 1 ''default'' None demo_templating = (demo_cfg, demo_start)"
  by (simp add: demo_cfg_def demo_start_def)

lemma demo_cfg_simps [simp]: "pc_Workers demo_cfg = 1" "pc_Jobs demo_cfg = 1" "pc_Templating demo_cfg = demo_templating"
  by (simp_all add: demo_cfg_def NewWorkersPool_def Let_def)

lemma demo_share: "tasks_of (assignTasks (Suc 0) [ob]) (Suc 0) = [ob]"
  using tasks_of_assign [of 1 0 "[ob]"] by (simp add: share_size_def share_start_def)

lemma demo_start_simps [simp]:
  "pl_Workers demo_start 1 = Idle [demo_objective ''a'']" "pl_Workers demo_start (Suc 0) = Idle [demo_objective ''a'']"
  "pl_Providers demo_start ''prometheus'' = Starting" "pl_Queues demo_start p = []" "pl_QueueClosed demo_start p = False"
  "pl_Results demo_start = []" "pl_ResultsClosed demo_start = False" "pl_Done demo_start = False"
  "pl_Collector demo_start = Collecting 0" "pl_Collected demo_start = fmempty" "pl_Err demo_start = None"
  "pl_Panicked demo_start = None"
  by (simp_all add: demo_start_def NewWorkersPool_def Let_def demo_share SupportedProviders_def)

lemma prometheus_supported [simp]: "''prometheus'' \<in> set SupportedProviders"
  by (simp add: SupportedProviders_def)

lemma demo_dispatch:
  "prepare_job demo_cfg (\<lambda>ns n. Inr \<lparr>avt_meta = named_meta n ns, avt_Provider = demo_ref ''p'', avt_Query = ''q''\<rparr>)
     (\<lambda>ns n. Inr demo_provider) (demo_objective ''a'') = Ask ''prometheus'' demo_request"
  by (simp add: prepare_job_def Let_def demo_provider_def bare_provider_def isProviderTypeRegistered_def generateQuery_def
      demo_templating_def demo_request_def)

text \<open>The worker passes its only objective on, the provider answers, and the collector takes the result.\<close>

lemma demo_dispatched:
  "\<exists>s. (pool_trans demo_cfg)\<^sup>*\<^sup>* demo_start s \<and> pl_Results s = [provider_result demo_request ''5'' None] \<and>
     pl_Collector s = Collecting 0 \<and> \<not> pl_Done s \<and> pl_Panicked s = None \<and> pl_Err s = None \<and> pl_Collected s = fmempty"
proof -
  let ?p = "''prometheus''" let ?step = "pool_trans demo_cfg"
  let ?r = "provider_result demo_request ''5'' None"
  define s1 where "s1 = demo_start\<lparr>pl_Workers := (pl_Workers demo_start)(1 := Preparing (demo_objective ''a'') [])\<rparr>"
  define s2 where "s2 = s1\<lparr>pl_Workers := (pl_Workers s1)(1 := Sending (Ask ?p demo_request) [])\<rparr>"
  define s3 where "s3 = s2\<lparr>pl_Workers := (pl_Workers s2)(1 := Idle []), pl_Queues := (pl_Queues s2)(?p := pl_Queues s2 ?p @ [demo_request])\<rparr>"
  define s4 where "s4 = s3\<lparr>pl_Providers := (pl_Providers s3)(?p := Waiting)\<rparr>"
  define s5 where "s5 = s4\<lparr>pl_Providers := (pl_Providers s4)(?p := Fetching demo_request), pl_Queues := (pl_Queues s4)(?p := [])\<rparr>"
  define s6 where "s6 = s5\<lparr>pl_Providers := (pl_Providers s5)(?p := Delivering ?r)\<rparr>"
  define s7 where "s7 = s6\<lparr>pl_Providers := (pl_Providers s6)(?p := Waiting), pl_Results := pl_Results s6 @ [?r]\<rparr>"
  note defs = s1_def s2_def s3_def s4_def s5_def s6_def s7_def
  have 1: "?step demo_start s1" unfolding s1_def by (intro goroutine worker_take [where js = "[]"]) simp_all
  have 2: "?step s1 s2"
    unfolding s2_def demo_dispatch [symmetric] by (intro goroutine worker_prepare) (simp_all add: s1_def)
  have 3: "?step s2 s3" unfolding s3_def by (intro goroutine worker_ask) (simp_all add: s2_def s1_def)
  have 4: "?step s3 s4"
    unfolding s4_def by (intro goroutine provider_start [where k = PrometheusProvider and meta = "named_meta [] []"])
      (simp_all add: s3_def s2_def s1_def bare_provider_def NewProvider_def to_lower_def to_lower_char_def Let_def)
  have 5: "?step s4 s5" unfolding s5_def by (intro goroutine provider_receive) (simp_all add: s4_def s3_def s2_def s1_def)
  have 6: "?step s5 s6" unfolding s6_def by (intro goroutine provider_fetch) (simp_all add: s5_def s4_def s3_def s2_def s1_def)
  have 7: "?step s6 s7"
    unfolding s7_def by (intro goroutine provider_deliver) (simp_all add: s6_def s5_def s4_def s3_def s2_def s1_def)
  have "?step\<^sup>*\<^sup>* demo_start s7"
    using 1 2 3 4 5 6 7 by (meson converse_rtranclp_into_rtranclp rtranclp.rtrancl_refl)
  then show ?thesis by (intro exI [of _ s7]) (simp add: defs)
qed

lemma demo_run:
  "\<exists>s. (pool_trans demo_cfg)\<^sup>*\<^sup>* demo_start s \<and> pl_Collector s = Returned \<and> pl_Err s = None \<and>
     pl_Collected s = fmupd ''a-default'' (demo_result ''a'' ''5'') fmempty"
proof -
  let ?r = "provider_result demo_request ''5'' None"
  have r: "?r = demo_result ''a'' ''5''"
    by (simp add: provider_result_def demo_result_def demo_request_def demo_objective_def)
  obtain s where s: "(pool_trans demo_cfg)\<^sup>*\<^sup>* demo_start s" "pl_Results s = [?r]" "pl_Collector s = Collecting 0"
      "\<not> pl_Done s" "pl_Panicked s = None" "pl_Err s = None" "pl_Collected s = fmempty"
    using demo_dispatched by blast
  define t1 where "t1 = s\<lparr>pl_Collector := Getting 0\<rparr>"
  define t2 where "t2 = t1\<lparr>pl_Collector := Collecting (Suc 0), pl_Results := [],
     pl_Collected := fmupd (ComputeKey (pr_Objective ?r)) ?r (pl_Collected t1),
     pl_Err := (if pr_ErrMsg ?r \<noteq> [] then Some (Message (pr_ErrMsg ?r)) else pl_Err t1)\<rparr>"
  define t3 where "t3 = t2\<lparr>pl_Collector := Closing SupportedProviders\<rparr>"
  have t1: "pool_trans demo_cfg s t1" unfolding t1_def using s by (intro goroutine collect_get [where a = 0]) simp_all
  have t2: "pool_trans demo_cfg t1 t2" unfolding t2_def using s by (intro goroutine get_result) (simp_all add: t1_def)
  have t3: "pool_trans demo_cfg t2 t3"
    unfolding t3_def using s by (intro goroutine collect_end [where a = "Suc 0"]) (simp_all add: t2_def t1_def)
  obtain s' where s': "(pool_trans demo_cfg)\<^sup>*\<^sup>* t3 s'" "pl_Collector s' = Returned"
      "pl_Collected s' = pl_Collected t3" "pl_Err s' = pl_Err t3"
    using collector_closes [of t3 SupportedProviders demo_cfg] s by (auto simp: t3_def t2_def t1_def)
  have "pl_Collected t3 = fmupd ''a-default'' (demo_result ''a'' ''5'') fmempty" "pl_Err t3 = None"
    using s by (simp_all add: t3_def t2_def t1_def r demo_result_def demo_keys)
  moreover have "(pool_trans demo_cfg)\<^sup>*\<^sup>* demo_start t3"
    using s(1) t1 t2 t3 by (meson rtranclp.rtrancl_into_rtrancl)
  ultimately show ?thesis using s' rtranclp_trans by force
qed

theorem pool_collects_all_witness:
  "\<exists>s. (pool_trans demo_cfg)\<^sup>*\<^sup>* demo_start s \<and> pl_Collector s = Returned \<and> fmdom' (pl_Collected s) = {''a-default''}"
proof -
  obtain s where s: "(pool_trans demo_cfg)\<^sup>*\<^sup>* demo_start s" "pl_Collector s = Returned" "pl_Err s = None"
    using demo_run by blast
  show ?thesis
    using pool_collects_all [OF demo_pool _ s(1)] s by (auto simp: demo_objective_def demo_keys)
qed

theorem pool_returns_witness:
  "\<exists>s. (pool_step demo_cfg)\<^sup>*\<^sup>* demo_start s \<and> pl_Collector s = Returned \<and> pl_Panicked s = None"
  by (rule pool_returns [OF demo_pool]) simp_all

theorem timeout_can_panic_witness: "\<exists>s. (pool_trans demo_cfg)\<^sup>*\<^sup>* demo_start s \<and> pl_Panicked s = Some ClosedChannel"
  by (rule timeout_can_panic [OF demo_pool]) simp_all

section \<open>The controller\<close>

lemma demo_delivers: "pool_delivers [demo_objective ''a''] (fmupd ''a-default'' (demo_result ''a'' ''5'') fmempty) None"
proof -
  obtain s where "(pool_trans demo_cfg)\<^sup>*\<^sup>* demo_start s" "pl_Collector s = Returned" "pl_Err s = None"
      "pl_Collected s = fmupd ''a-default'' (demo_result ''a'' ''5'') fmempty"
    using demo_run by blast
  then show ?thesis unfolding pool_delivers_def using demo_pool zero_less_one by blast
qed

text \<open>One value is stored, the other one is fetched by the pool.\<close>

theorem evaluated_on_all_values_witness:
  "\<exists>v. fmlookup (fmupd ''a-default'' (demo_result ''a'' ''5'') fmempty ++\<^sub>f fmupd ''b-default'' (demo_result ''b'' ''20'') fmempty)
     ''a-default'' = Some v \<and> pr_ErrMsg v = []"
proof -
  let ?stored = "fmupd ''b-default'' (demo_result ''b'' ''20'') fmempty"
  have "extractMissingObjectives [demo_objective ''a'', demo_objective ''b''] ?stored = ([demo_objective ''a''], ?stored)"
    by (simp add: extractMissingObjectives_def extract_objective_def demo_objective_def demo_keys demo_result_def)
  from evaluated_on_all_values [OF this demo_delivers, of "demo_objective ''a''"] show ?thesis
    by (simp add: demo_objective_def demo_keys)
qed

text \<open>A server that holds one analysis and one definition.\<close>

definition no_api :: "('w, 'o) api" where
  "no_api = \<lparr>api_Get = \<lambda>ns n. ret (Inl (ApiNotFound n)), api_List = \<lambda>ns l. ret (Inr []), api_Create = \<lambda>x. ret (Inl (ApiError [])),
     api_Update = \<lambda>x. ret (Inl (ApiError [])), api_StatusUpdate = \<lambda>x. ret (Inl (ApiError [])),
     api_Delete = \<lambda>x. ret (Inl (ApiError []))\<rparr>"

definition demo_client :: "Analysis MetricsClient" where
  "demo_client = \<lparr>mc_Metric = no_api, mc_Provider = no_api,
     mc_Analysis = no_api\<lparr>api_Get := \<lambda>ns n. State (\<lambda>a. (Inr a, a)), api_StatusUpdate := \<lambda>x. State (\<lambda>a. (Inr x, x))\<rparr>,
     mc_AnalysisDefinition = no_api\<lparr>api_Get := \<lambda>ns n. ret (Inr demo_definition)\<rparr>, mc_Now = ret 5000,
     mc_Implementation = \<lambda>k. \<lparr>sli_EvaluateQuery = \<lambda>m p. ret (Some ([], [], None)), sli_EvaluateQueryForStep = \<lambda>m p. ret (Some ([], [], None))\<rparr>\<rparr>"

definition demo_reconciler :: "Analysis AnalysisReconciler" where
  "demo_reconciler = \<lparr>arc_Client = demo_client, arc_MaxWorkers = 2,
     arc_Pool = \<lambda>a todo n ns. ret (demo_values ''5'', None), arc_Marshal = \<lambda>r. Inr ''{}'', arc_Quote = id,
     arc_Approx = demo_approx, arc_analysisResults = None\<rparr>"

definition demo_analysis :: Analysis where
  "demo_analysis = \<lparr>an_meta = named_meta ''analysis'' ''default'',
     an_Spec = \<lparr>as_Timeframe = \<lparr>tf_From = 10, tf_To = 20, tf_Recent = 0\<rparr>, as_Args = None, as_AnalysisDefinition = demo_ref ''def''\<rparr>,
     an_Status = \<lparr>ast_Timeframe = \<lparr>tf_From = 0, tf_To = 0, tf_Recent = 0\<rparr>, ast_Raw = [], ast_Pass = False, ast_Warning = False,
       ast_State = [], ast_StoredValues = None\<rparr>\<rparr>"

theorem analysis_completes_witness:
  "\<exists>final. run_state (Analysis_Reconcile demo_reconciler \<lparr>req_Name = ''analysis'', req_Namespace = ''default''\<rparr>) demo_analysis =
       ((no_requeue, None), final) \<and> ast_State (an_Status final) = AnalysisState_Completed \<and>
     ast_Pass (an_Status final) = anr_Pass (AnalysisEvaluator_Evaluate id demo_approx (demo_values ''5'') demo_definition) \<and>
     ast_Timeframe (an_Status final) = \<lparr>tf_From = 10, tf_To = 20, tf_Recent = 0\<rparr>"
proof -
  let ?req = "\<lparr>req_Name = ''analysis'', req_Namespace = ''default''\<rparr>"
  let ?timed = "demo_analysis\<lparr>an_Status := (an_Status demo_analysis)\<lparr>ast_Timeframe := \<lparr>tf_From = 10, tf_To = 20, tf_Recent = 0\<rparr>\<rparr>\<rparr>"
  have get: "run_state (api_Get (mc_Analysis (arc_Client demo_reconciler)) (req_Namespace ?req) (req_Name ?req)) demo_analysis =
      (Inr demo_analysis, demo_analysis)"
    by (simp add: demo_reconciler_def demo_client_def)
  have pending: "\<not> AnalysisState_IsCompleted (ast_State (an_Status demo_analysis))"
    by (simp add: AnalysisState_IsCompleted_def AnalysisState_Completed_def demo_analysis_def)
  have timed: "run_state (EnsureTimeframeIsSet (mc_Now (arc_Client demo_reconciler)) demo_analysis) demo_analysis = (?timed, demo_analysis)"
    by (simp add: EnsureTimeframeIsSet_def Timeframe_GetFrom_def Timeframe_GetTo_def demo_analysis_def Let_def)
  have def: "run_state (retrieveAnalysisDefinition demo_reconciler ?timed) demo_analysis = (Inr demo_definition, demo_analysis)"
    by (simp add: retrieveAnalysisDefinition_def demo_reconciler_def demo_client_def Let_def)
  have split: "split_objectives ?timed demo_definition = (ad_Objectives demo_definition, fmempty)"
    by (simp add: split_objectives_def demo_analysis_def)
  have pool: "run_state (arc_Pool demo_reconciler (progressing ?timed) (ad_Objectives demo_definition)
      (arc_MaxWorkers demo_reconciler) (om_Namespace (ad_meta demo_definition))) demo_analysis = ((demo_values ''5'', None), demo_analysis)"
    by (simp add: demo_reconciler_def)
  from analysis_completes [OF get pending timed def split pool refl] show ?thesis
    by (auto simp: demo_reconciler_def demo_client_def reportAnalysisResult_def)
qed

section \<open>A converted objective\<close>

text \<open>Decimal numbers as fractions: the denominator is the length of the suffix.\<close>

definition demo_decimals :: decimals where
  "demo_decimals = \<lparr>dc_SetString = (\<lambda>s. if s = ''10'' then Some 10 else if s = ''20'' then Some 20 else None),
     dc_NewDecimalQuantity = (\<lambda>q. NewQuantity (fst (quotient_of q)) (replicate (nat (snd (quotient_of q))) CHR ''1''))\<rparr>"

fun demo_float :: "Quantity \<Rightarrow> float64" where
  "demo_float (NewQuantity n s) = float_of_rat (of_int n / of_nat (length s))"
| "demo_float (ParsedQuantity s) = NaN"

definition demo_slo :: SloObjective where
  "demo_slo = \<lparr>slo_Name = ''latency'', slo_KeySLI = False, slo_Weight = 1, slo_Warning = [[''<=20'']], slo_Pass = [[''<=10'']]\<rparr>"

lemma demo_bound: "bound demo_float demo_decimals q = float_of_rat q"
proof -
  have "demo_float (dc_NewDecimalQuantity demo_decimals q) = float_of_rat q"
  proof -
    obtain n d where nd: "quotient_of q = (n, d)" by fastforce
    then have "0 < d" "q = of_int n / of_int d" by (rule quotient_of_denom_pos, rule quotient_of_div)
    then have "of_int n / of_nat (nat d) = q" by simp
    then show ?thesis by (simp add: demo_decimals_def nd)
  qed
  then show ?thesis by (simp add: bound_def)
qed

lemma demo_bounds: "bounds_are_numbers demo_float demo_decimals"
  by (simp add: bounds_are_numbers_def demo_bound)

lemma demo_decode: "decodeOperatorAndValue ''<=20'' = Inr (''<='', ''20'')" "decodeOperatorAndValue ''<=10'' = Inr (''<='', ''10'')"
  by code_simp+

lemma demo_SetString: "dc_SetString demo_decimals ''10'' = Some 10" "dc_SetString demo_decimals ''20'' = Some 20"
  by (simp_all add: demo_decimals_def)

lemma demo_op_holds:
  "op_holds demo_float demo_decimals v ''<=10'' \<longleftrightarrow> float_le v (Finite 10)"
  "op_holds demo_float demo_decimals v ''<=20'' \<longleftrightarrow> float_le v (Finite 20)"
  using float_of_small_int [of 10] float_of_small_int [of 20]
  by (simp_all add: op_holds_def demo_decode demo_bound demo_SetString float_of_int_def)

lemma demo_target: "\<exists>t. setupTarget demo_decimals demo_slo = Inr t"
proof -
  have "(case setupTarget demo_decimals demo_slo of Inr t \<Rightarrow> True | Inl f \<Rightarrow> False) = True"
    by code_simp
  then show ?thesis by (auto split: sum.splits)
qed

theorem single_criteria_faithful_witness:
  "\<exists>t. setupTarget demo_decimals demo_slo = Inr t \<and> target_verdict demo_float t (Finite 5) = Passed \<and>
     target_verdict demo_float t (Finite 15) = Warned \<and> target_verdict demo_float t (Finite 25) = Rejected"
proof -
  obtain t where t: "setupTarget demo_decimals demo_slo = Inr t" using demo_target by blast
  have "\<forall>v. op_holds demo_float demo_decimals v ''<=10'' \<longrightarrow> op_holds demo_float demo_decimals v ''<=20''"
    unfolding demo_op_holds
  proof (intro allI impI)
    fix v assume "float_le v (Finite 10)"
    then show "float_le v (Finite 20)" by (cases v) auto
  qed
  from single_criteria_faithful [OF _ _ this t demo_bounds, of "Finite _"] show ?thesis
    using t by (auto simp: demo_slo_def slo_verdict_def criterion_holds_def demo_op_holds)
qed

end
