(* ===== verification/Certificates.thy ===== *)
theory Certificates
  imports Cluster
begin

text \<open>
  The certificate manager (\<^verbatim>\<open>src/keptn-cert-manager\<close>).  Its controller keeps a root and a server certificate
  in a Secret, renews them before they expire and writes the root certificate into the configurations
  of the admission webhooks and of the conversion webhooks of custom resources; a watcher in each operator
  copies the server certificate to files.  What the code uses of \<^verbatim>\<open>crypto/ecdsa\<close>, \<^verbatim>\<open>crypto/x509\<close>, \<^verbatim>\<open>encoding/pem\<close>
  and of the file system is an argument; bytes are strings.  A panic is the result \<open>None\<close>.
\<close>

section \<open>Certificates and the packages that make them\<close>

datatype KeyUsage = KeyUsageKeyEncipherment | KeyUsageDigitalSignature | KeyUsageCertSign

datatype ExtKeyUsage = ExtKeyUsageServerAuth

record Name =
  nm_Country :: "string list"
  nm_Province :: "string list"
  nm_Locality :: "string list"
  nm_Organization :: "string list"
  nm_OrganizationalUnit :: "string list"
  nm_CommonName :: string

record Certificate =
  crt_SerialNumber :: int
  crt_Subject :: Name
  crt_IsCA :: bool
  crt_DNSNames :: "string list"
  crt_NotBefore :: time
  crt_NotAfter :: time
  crt_KeyUsage :: "KeyUsage list"
  crt_ExtKeyUsage :: "ExtKeyUsage list"
  crt_BasicConstraintsValid :: bool

text \<open>\<open>'k\<close> is the type of private keys, \<open>'p\<close> that of public keys.\<close>

record ('w, 'k, 'p) Crypto =
  ecdsa_GenerateKey :: "('w, error + 'k) state"
  ecdsa_Public :: "'k \<Rightarrow> 'p"
  rand_Int :: "int \<Rightarrow> ('w, error + int) state"
  x509_CreateCertificate ::
    "Certificate \<Rightarrow> Certificate option \<Rightarrow> 'p \<Rightarrow> 'k option \<Rightarrow> ('w, error + string) state"
  x509_ParseCertificate :: "string \<Rightarrow> error + Certificate"
  x509_MarshalECPrivateKey :: "'k \<Rightarrow> error + string"
  x509_ParseECPrivateKey :: "string \<Rightarrow> error + 'k"
  pem_Decode :: "string \<Rightarrow> string option"
  pem_EncodeToMemory :: "string \<Rightarrow> string \<Rightarrow> string"
  time_Now :: "('w, time) state"

abbreviation hour :: duration where
  "hour \<equiv> 60 * 60 * second"

definition serialNumberLimit :: int where
  "serialNumberLimit = 2 ^ 128"

definition renewalThreshold :: duration where
  "renewalThreshold = 12 * hour"

abbreviation RootKey :: string where "RootKey \<equiv> ''ca.key''"
abbreviation RootCert :: string where "RootCert \<equiv> ''ca.crt''"
abbreviation RootCertOld :: string where "RootCertOld \<equiv> ''ca.crt.old''"
abbreviation ServerKey :: string where "ServerKey \<equiv> ''tls.key''"
abbreviation ServerCert :: string where "ServerCert \<equiv> ''tls.crt''"

text \<open>The data of a Secret: a slice may be nil, also under a key that is present.\<close>

type_synonym data = "(string, string option) fmap"

definition entry :: "data \<Rightarrow> string \<Rightarrow> string option" where
  "entry d k = (case fmlookup d k of None \<Rightarrow> None | Some v \<Rightarrow> v)"

definition bytes :: "string option \<Rightarrow> string" where
  "bytes v = (case v of None \<Rightarrow> [] | Some b \<Rightarrow> b)"

record 'k Certs =
  cs_Domain :: string
  cs_SrcData :: "data option"
  cs_Data :: data
  cs_Now :: time
  cs_rootPrivateKey :: "'k option"
  cs_rootPublicCert :: "Certificate option"

text \<open>Errors of \<^verbatim>\<open>github.com/pkg/errors\<close> and \<^verbatim>\<open>fmt.Errorf\<close>.\<close>

abbreviation WithStack :: "error \<Rightarrow> error" where
  "WithStack err \<equiv> Wrapped [] err"

section \<open>Checking and making certificates\<close>

definition ValidateCertificateExpiration ::
    "('w, 'k, 'p) Crypto \<Rightarrow> string \<Rightarrow> duration \<Rightarrow> time \<Rightarrow> bool \<times> error option" where
  "ValidateCertificateExpiration cr certData threshold now =
     (case pem_Decode cr certData of
        None \<Rightarrow> (False, None)
      | Some block \<Rightarrow>
          (case x509_ParseCertificate cr block of
             Inl err \<Rightarrow> (False, Some err)
           | Inr cert \<Rightarrow> if now > crt_NotAfter cert - threshold then (False, None) else (True, None)))"

definition validateRootCerts :: "('w, 'k, 'p) Crypto \<Rightarrow> 'k Certs \<Rightarrow> time \<Rightarrow> 'k Certs \<times> bool" where
  "validateRootCerts cr cs now =
     (if entry (cs_Data cs) RootKey = None \<or> entry (cs_Data cs) RootCert = None then (cs, True)
      else
        (case pem_Decode cr (bytes (entry (cs_Data cs) RootCert)) of
           None \<Rightarrow> (cs, True)
         | Some block \<Rightarrow>
             (case x509_ParseCertificate cr block of
                Inl err \<Rightarrow> (cs\<lparr>cs_rootPublicCert := None\<rparr>, True)
              | Inr cert \<Rightarrow>
                  (let cs = cs\<lparr>cs_rootPublicCert := Some cert\<rparr> in
                   if now > crt_NotAfter cert - renewalThreshold then (cs, True)
                   else
                     (case pem_Decode cr (bytes (entry (cs_Data cs) RootKey)) of
                        None \<Rightarrow> (cs, True)
                      | Some block \<Rightarrow>
                          (case x509_ParseECPrivateKey cr block of
                             Inl err \<Rightarrow> (cs\<lparr>cs_rootPrivateKey := None\<rparr>, True)
                           | Inr key \<Rightarrow> (cs\<lparr>cs_rootPrivateKey := Some key\<rparr>, False)))))))"

definition validateServerCerts :: "('w, 'k, 'p) Crypto \<Rightarrow> 'k Certs \<Rightarrow> time \<Rightarrow> bool" where
  "validateServerCerts cr cs now =
     (if entry (cs_Data cs) ServerKey = None \<or> entry (cs_Data cs) ServerCert = None then True
      else
        (case ValidateCertificateExpiration cr (bytes (entry (cs_Data cs) ServerCert)) renewalThreshold now of
           (isValid, err) \<Rightarrow> err \<noteq> None \<or> \<not> isValid))"

definition generatePrivateKey ::
    "('w, 'k, 'p) Crypto \<Rightarrow> 'k Certs \<Rightarrow> string \<Rightarrow> ('w, 'k Certs \<times> (error + 'k)) state" where
  "generatePrivateKey cr cs dataKey = do {
     g \<leftarrow> ecdsa_GenerateKey cr;
     case g of
       Inl err \<Rightarrow> ret (cs, Inl (Wrapped ''failed to generate server private key: '' err))
     | Inr privateKey \<Rightarrow>
         (case x509_MarshalECPrivateKey cr privateKey of
            Inl err \<Rightarrow> ret (cs, Inl err)
          | Inr x509Encoded \<Rightarrow>
              ret (cs\<lparr>cs_Data := fmupd dataKey (Some (pem_EncodeToMemory cr ''PRIVATE KEY'' x509Encoded)) (cs_Data cs)\<rparr>,
                Inr privateKey))
   }"

definition subject :: "string \<Rightarrow> Name" where
  "subject domain = \<lparr>nm_Country = [''AT''], nm_Province = [''KL''], nm_Locality = [''Klagenfurt''],
     nm_Organization = [''Keptn''], nm_OrganizationalUnit = [''LifecycleToolkit''], nm_CommonName = domain\<rparr>"

definition root_template :: "int \<Rightarrow> string \<Rightarrow> time \<Rightarrow> Certificate" where
  "root_template serialNumber domain now =
     \<lparr>crt_SerialNumber = serialNumber, crt_Subject = subject domain, crt_IsCA = True,
     crt_DNSNames = [], crt_NotBefore = now, crt_NotAfter = now + 365 * 24 * hour,
     crt_KeyUsage = [KeyUsageKeyEncipherment, KeyUsageDigitalSignature, KeyUsageCertSign],
     crt_ExtKeyUsage = [ExtKeyUsageServerAuth], crt_BasicConstraintsValid = True\<rparr>"

definition server_template :: "int \<Rightarrow> string \<Rightarrow> time \<Rightarrow> Certificate" where
  "server_template serialNumber domain now =
     \<lparr>crt_SerialNumber = serialNumber, crt_Subject = subject domain, crt_IsCA = False,
     crt_DNSNames = [domain], crt_NotBefore = now, crt_NotAfter = now + 7 * 24 * hour,
     crt_KeyUsage = [KeyUsageKeyEncipherment, KeyUsageDigitalSignature],
     crt_ExtKeyUsage = [ExtKeyUsageServerAuth], crt_BasicConstraintsValid = True\<rparr>"

definition generateRootCerts ::
    "('w, 'k, 'p) Crypto \<Rightarrow> 'k Certs \<Rightarrow> string \<Rightarrow> time \<Rightarrow> ('w, 'k Certs \<times> error option) state" where
  "generateRootCerts cr cs domain now = do {
     (cs, g) \<leftarrow> generatePrivateKey cr cs RootKey;
     case g of
       Inl err \<Rightarrow> ret (cs, Some err)
     | Inr privateKey \<Rightarrow> do {
         let cs = cs\<lparr>cs_rootPrivateKey := Some privateKey\<rparr>;
         n \<leftarrow> rand_Int cr serialNumberLimit;
         case n of
           Inl err \<Rightarrow> ret (cs, Some (Wrapped ''failed to generate serial number for root certificate: '' err))
         | Inr serialNumber \<Rightarrow> do {
             let cert = root_template serialNumber domain now;
             let cs = cs\<lparr>cs_rootPublicCert := Some cert\<rparr>;
             c \<leftarrow> x509_CreateCertificate cr cert (cs_rootPublicCert cs) (ecdsa_Public cr privateKey) (cs_rootPrivateKey cs);
             case c of
               Inl err \<Rightarrow> ret (cs, Some (Wrapped ''failed to generate root certificate: '' err))
             | Inr der \<Rightarrow>
                 ret (cs\<lparr>cs_Data := fmupd RootCert (Some (pem_EncodeToMemory cr ''CERTIFICATE'' der))
                   (fmupd RootCertOld (entry (cs_Data cs) RootCert) (cs_Data cs))\<rparr>, None)
           }
       }
   }"

definition generateServerCerts ::
    "('w, 'k, 'p) Crypto \<Rightarrow> 'k Certs \<Rightarrow> string \<Rightarrow> time \<Rightarrow> ('w, 'k Certs \<times> error option) state" where
  "generateServerCerts cr cs domain now = do {
     (cs, g) \<leftarrow> generatePrivateKey cr cs ServerKey;
     case g of
       Inl err \<Rightarrow> ret (cs, Some err)
     | Inr privateKey \<Rightarrow> do {
         n \<leftarrow> rand_Int cr serialNumberLimit;
         case n of
           Inl err \<Rightarrow> ret (cs, Some (Wrapped ''failed to generate serial number for server certificate: '' err))
         | Inr serialNumber \<Rightarrow> do {
             let tpl = server_template serialNumber domain now;
             c \<leftarrow> x509_CreateCertificate cr tpl (cs_rootPublicCert cs) (ecdsa_Public cr privateKey) (cs_rootPrivateKey cs);
             case c of
               Inl err \<Rightarrow> ret (cs, Some (Wrapped ''failed to generate server certificate: '' err))
             | Inr der \<Rightarrow>
                 ret (cs\<lparr>cs_Data := fmupd ServerCert (Some (pem_EncodeToMemory cr ''CERTIFICATE'' der)) (cs_Data cs)\<rparr>, None)
           }
       }
   }"

definition Certs_Validate :: "('w, 'k, 'p) Crypto \<Rightarrow> 'k Certs \<Rightarrow> ('w, 'k Certs \<times> error option) state" where
  "Certs_Validate cr cs = do {
     let cs = cs\<lparr>cs_Data := (case cs_SrcData cs of None \<Rightarrow> fmempty | Some d \<Rightarrow> d)\<rparr>;
     now \<leftarrow> (if IsZero (cs_Now cs) then time_Now cr else ret (cs_Now cs));
     let (cs, renewRootCerts) = validateRootCerts cr cs now;
     (cs, err) \<leftarrow> (if renewRootCerts then generateRootCerts cr cs (cs_Domain cs) now else ret (cs, None));
     case err of
       Some e \<Rightarrow> ret (cs, Some e)
     | None \<Rightarrow>
         if renewRootCerts \<or> validateServerCerts cr cs now then generateServerCerts cr cs (cs_Domain cs) now
         else ret (cs, None)
   }"

section \<open>The objects and the API server\<close>

record Secret =
  sec_meta :: ObjectMeta
  sec_Data :: "data option"

record WebhookClientConfig =
  wcc_Service :: string
  wcc_CABundle :: string

record Webhook =
  wh_Name :: string
  wh_ClientConfig :: WebhookClientConfig

text \<open>\<^verbatim>\<open>MutatingWebhookConfiguration\<close> and \<^verbatim>\<open>ValidatingWebhookConfiguration\<close> have the same fields here.\<close>

record WebhookConfiguration =
  wc_meta :: ObjectMeta
  wc_Webhooks :: "Webhook list"

record WebhookConversion =
  wcv_ClientConfig :: "WebhookClientConfig option"

record CustomResourceConversion =
  crc_Strategy :: string
  crc_Webhook :: "WebhookConversion option"

record CustomResourceDefinition =
  crd_meta :: ObjectMeta
  crd_Conversion :: "CustomResourceConversion option"

record 'w CertClient =
  cc_Secret :: "('w, Secret) api"
  cc_Mutating :: "('w, WebhookConfiguration) api"
  cc_Validating :: "('w, WebhookConfiguration) api"
  cc_CRD :: "('w, CustomResourceDefinition) api"

abbreviation NoneConverter :: string where "NoneConverter \<equiv> ''None''"

definition SuccessDuration :: duration where
  "SuccessDuration = 3 * hour"

abbreviation SecretName :: string where "SecretName \<equiv> ''keptn-certs''"

abbreviation CertificatesSecretEmptyErr :: string where
  "CertificatesSecretEmptyErr \<equiv> ''certificates secret is empty''"

abbreviation ErrCouldNotUpdateCRD :: error where
  "ErrCouldNotUpdateCRD \<equiv> Sentinel ''could not update CRD config''"

section \<open>Secrets\<close>

definition SecretQuery_Get :: "'w CertClient \<Rightarrow> string \<Rightarrow> string \<Rightarrow> ('w, error + Secret) state" where
  "SecretQuery_Get cl namespace name = do {
     g \<leftarrow> api_Get (cc_Secret cl) namespace name;
     ret (case g of Inl err \<Rightarrow> Inl (WithStack err) | Inr secret \<Rightarrow> Inr secret)
   }"

definition SecretQuery_Create :: "'w CertClient \<Rightarrow> Secret \<Rightarrow> ('w, error option) state" where
  "SecretQuery_Create cl secret = do {
     r \<leftarrow> api_Create (cc_Secret cl) secret;
     ret (case r of Inl err \<Rightarrow> Some (WithStack err) | Inr _ \<Rightarrow> None)
   }"

definition SecretQuery_Update :: "'w CertClient \<Rightarrow> Secret \<Rightarrow> ('w, error option) state" where
  "SecretQuery_Update cl secret = do {
     r \<leftarrow> api_Update (cc_Secret cl) secret;
     ret (case r of Inl err \<Rightarrow> Some (WithStack err) | Inr _ \<Rightarrow> None)
   }"

definition AreSecretsEqual :: "Secret \<Rightarrow> Secret \<Rightarrow> bool" where
  "AreSecretsEqual secret other \<longleftrightarrow>
     sec_Data secret = sec_Data other \<and> om_Labels (sec_meta secret) = om_Labels (sec_meta other)"

definition SecretQuery_CreateOrUpdate :: "'w CertClient \<Rightarrow> Secret \<Rightarrow> ('w, error option) state" where
  "SecretQuery_CreateOrUpdate cl secret = do {
     g \<leftarrow> SecretQuery_Get cl (om_Namespace (sec_meta secret)) (om_Name (sec_meta secret));
     case g of
       Inl err \<Rightarrow>
         if IsNotFound err then do {
           err \<leftarrow> SecretQuery_Create cl secret;
           ret (case err of Some e \<Rightarrow> Some (WithStack e) | None \<Rightarrow> None)
         } else ret (Some (WithStack err))
     | Inr currentSecret \<Rightarrow>
         if AreSecretsEqual secret currentSecret then ret None
         else do {
           err \<leftarrow> SecretQuery_Update cl secret;
           ret (case err of Some e \<Rightarrow> Some (WithStack e) | None \<Rightarrow> None)
         }
   }"

definition NewSecret :: "string \<Rightarrow> string \<Rightarrow> data \<Rightarrow> Secret" where
  "NewSecret name namespace d = \<lparr>sec_meta = named_meta name namespace, sec_Data = Some d\<rparr>"

section \<open>The secret of the certificates\<close>

record 'k certificateSecret =
  css_secret :: "Secret option"
  css_certificates :: "'k Certs option"
  css_existsInCluster :: bool

definition newCertificateSecret :: "'k certificateSecret" where
  "newCertificateSecret = \<lparr>css_secret = None, css_certificates = None, css_existsInCluster = False\<rparr>"

definition getDomain :: "string \<Rightarrow> string" where
  "getDomain namespace = ''*.'' @ namespace @ ''.svc''"

definition setSecretFromReader ::
    "'w CertClient \<Rightarrow> 'k certificateSecret \<Rightarrow> string \<Rightarrow> ('w, 'k certificateSecret \<times> error option) state" where
  "setSecretFromReader cl certSecret namespace = do {
     g \<leftarrow> SecretQuery_Get cl namespace SecretName;
     ret (case g of
       Inl err \<Rightarrow>
         if IsNotFound err then
           (certSecret\<lparr>css_secret := Some (NewSecret SecretName namespace fmempty), css_existsInCluster := False\<rparr>, None)
         else (certSecret, Some (WithStack err))
     | Inr secret \<Rightarrow> (certSecret\<lparr>css_secret := Some secret, css_existsInCluster := True\<rparr>, None))
   }"

text \<open>\<^verbatim>\<open>reflect.DeepEqual\<close> tells a nil map from an empty one, and a nil slice from an empty one.\<close>

definition isRecent :: "'k certificateSecret \<Rightarrow> bool" where
  "isRecent certSecret =
     (case (css_secret certSecret, css_certificates certSecret) of
        (None, None) \<Rightarrow> True
      | (Some secret, Some certs) \<Rightarrow> sec_Data secret = Some (cs_Data certs)
      | _ \<Rightarrow> False)"

text \<open>\<^verbatim>\<open>certSecret.secret\<close> has been set when this is called.\<close>

definition setCertificates ::
    "('w, 'k, 'p) Crypto \<Rightarrow> 'k certificateSecret \<Rightarrow> string \<Rightarrow> ('w, 'k certificateSecret \<times> error option) state" where
  "setCertificates cr certSecret namespace = do {
     now \<leftarrow> time_Now cr;
     (certs, err) \<leftarrow> Certs_Validate cr
       \<lparr>cs_Domain = getDomain namespace, cs_SrcData = Option.bind (css_secret certSecret) sec_Data, cs_Data = fmempty,
        cs_Now = now, cs_rootPrivateKey = None, cs_rootPublicCert = None\<rparr>;
     ret (case err of
       Some e \<Rightarrow> (certSecret, Some (WithStack e))
     | None \<Rightarrow> (certSecret\<lparr>css_certificates := Some certs\<rparr>, None))
   }"

definition certificates_data :: "'k certificateSecret \<Rightarrow> data" where
  "certificates_data certSecret =
     (case css_certificates certSecret of None \<Rightarrow> fmempty | Some certs \<Rightarrow> cs_Data certs)"

definition isBundleValid :: "'k certificateSecret \<Rightarrow> string \<Rightarrow> bool" where
  "isBundleValid certSecret bundle \<longleftrightarrow>
     bundle \<noteq> [] \<and> bundle = bytes (entry (certificates_data certSecret) RootCert)"

fun areWebhookConfigsValid :: "'k certificateSecret \<Rightarrow> WebhookClientConfig list \<Rightarrow> bool" where
  "areWebhookConfigsValid certSecret [] = True"
| "areWebhookConfigsValid certSecret (c # configs) =
     (if \<not> isBundleValid certSecret (wcc_CABundle c) then False else areWebhookConfigsValid certSecret configs)"

text \<open>A conversion that is nil, or a webhook without a client configuration, is a nil dereference.\<close>

definition isCRDConversionValid :: "'k certificateSecret \<Rightarrow> CustomResourceConversion option \<Rightarrow> bool option" where
  "isCRDConversionValid certSecret conversion =
     (case conversion of
        None \<Rightarrow> None
      | Some c \<Rightarrow>
          if crc_Strategy c = NoneConverter then Some True
          else
            (case crc_Webhook c of
               None \<Rightarrow> Some True
             | Some wh \<Rightarrow>
                 (case wcv_ClientConfig wh of
                    None \<Rightarrow> None
                  | Some cfg \<Rightarrow> Some (isBundleValid certSecret (wcc_CABundle cfg)))))"

fun areCRDConversionsValid :: "'k certificateSecret \<Rightarrow> CustomResourceDefinition list \<Rightarrow> bool option" where
  "areCRDConversionsValid certSecret [] = Some True"
| "areCRDConversionsValid certSecret (crd # crds) =
     (case isCRDConversionValid certSecret (crd_Conversion crd) of
        None \<Rightarrow> None
      | Some False \<Rightarrow> Some False
      | Some True \<Rightarrow> areCRDConversionsValid certSecret crds)"

text \<open>
  The client fills the secret with the answer of the server; the code reads from it afterwards.  With no
  secret or no certificates the code would panic; both have been set when this is called.
\<close>

definition createOrUpdateIfNecessary ::
    "'w CertClient \<Rightarrow> 'k certificateSecret \<Rightarrow> ('w, 'k certificateSecret \<times> error option) state" where
  "createOrUpdateIfNecessary cl certSecret =
     (if isRecent certSecret \<and> css_existsInCluster certSecret then ret (certSecret, None)
      else
        (case css_secret certSecret of
           None \<Rightarrow> ret (certSecret, None)
         | Some secret \<Rightarrow> do {
             let secret = secret\<lparr>sec_Data := Some (certificates_data certSecret)\<rparr>;
             r \<leftarrow> (if css_existsInCluster certSecret then api_Update (cc_Secret cl) secret
                 else api_Create (cc_Secret cl) secret);
             ret (case r of
               Inl err \<Rightarrow> (certSecret\<lparr>css_secret := Some secret\<rparr>, Some (WithStack err))
             | Inr stored \<Rightarrow> (certSecret\<lparr>css_secret := Some stored\<rparr>, None))
           }))"

definition loadCombinedBundle :: "'k certificateSecret \<Rightarrow> error + string" where
  "loadCombinedBundle certSecret =
     (let d = (case Option.bind (css_secret certSecret) sec_Data of None \<Rightarrow> fmempty | Some d \<Rightarrow> d) in
      case fmlookup d RootCert of
        None \<Rightarrow> Inl (Message CertificatesSecretEmptyErr)
      | Some dat \<Rightarrow>
          Inr (case fmlookup d RootCertOld of
             None \<Rightarrow> bytes dat
           | Some oldData \<Rightarrow> bytes dat @ bytes oldData))"

section \<open>Finding the configurations\<close>

record ObservedObjects =
  oo_MutatingWebhooks :: "string list"
  oo_ValidatingWebhooks :: "string list"
  oo_CustomResourceDefinitions :: "string list"
  oo_Deployments :: "string list"

record CertificateReconcilerConfig =
  crf_WatchResources :: "ObservedObjects option"
  crf_MatchLabels :: "(string \<times> string) list"
  crf_Namespace :: string

datatype ResourceRetriever =
    ResourceNameRetriever ObservedObjects
  | LabelSelectorRetriever "(string \<times> string) list"

definition NewResourceRetriever :: "CertificateReconcilerConfig \<Rightarrow> ResourceRetriever" where
  "NewResourceRetriever config =
     (case crf_WatchResources config of
        Some watch \<Rightarrow> ResourceNameRetriever watch
      | None \<Rightarrow> LabelSelectorRetriever (crf_MatchLabels config))"

text \<open>The loop over the names; a name that cannot be read is logged and left out.\<close>

fun get_named :: "('w, 'o) api \<Rightarrow> string list \<Rightarrow> ('w, 'o list) state" where
  "get_named k [] = ret []"
| "get_named k (n # names) = do {
     g \<leftarrow> api_Get k [] n;
     rest \<leftarrow> get_named k names;
     ret (case g of Inl err \<Rightarrow> rest | Inr x \<Rightarrow> x # rest)
   }"

text \<open>With an error the list is nil.\<close>

definition GetMutatingWebhooks ::
    "'w CertClient \<Rightarrow> ResourceRetriever \<Rightarrow> ('w, error + WebhookConfiguration list) state" where
  "GetMutatingWebhooks cl r =
     (case r of
        LabelSelectorRetriever matchLabels \<Rightarrow> api_List (cc_Mutating cl) [] matchLabels
      | ResourceNameRetriever watch \<Rightarrow> do {
          xs \<leftarrow> get_named (cc_Mutating cl) (oo_MutatingWebhooks watch);
          ret (Inr xs)
        })"

definition GetValidatingWebhooks ::
    "'w CertClient \<Rightarrow> ResourceRetriever \<Rightarrow> ('w, error + WebhookConfiguration list) state" where
  "GetValidatingWebhooks cl r =
     (case r of
        LabelSelectorRetriever matchLabels \<Rightarrow> api_List (cc_Validating cl) [] matchLabels
      | ResourceNameRetriever watch \<Rightarrow> do {
          xs \<leftarrow> get_named (cc_Validating cl) (oo_ValidatingWebhooks watch);
          ret (Inr xs)
        })"

definition GetCRDs ::
    "'w CertClient \<Rightarrow> ResourceRetriever \<Rightarrow> ('w, error + CustomResourceDefinition list) state" where
  "GetCRDs cl r =
     (case r of
        LabelSelectorRetriever matchLabels \<Rightarrow> api_List (cc_CRD cl) [] matchLabels
      | ResourceNameRetriever watch \<Rightarrow> do {
          xs \<leftarrow> get_named (cc_CRD cl) (oo_CustomResourceDefinitions watch);
          ret (Inr xs)
        })"

definition getClientConfigsFromMutatingWebhook :: "WebhookConfiguration list \<Rightarrow> WebhookClientConfig list" where
  "getClientConfigsFromMutatingWebhook items = concat (map (\<lambda>i. map wh_ClientConfig (wc_Webhooks i)) items)"

definition getClientConfigsFromValidatingWebhook :: "WebhookConfiguration list \<Rightarrow> WebhookClientConfig list" where
  "getClientConfigsFromValidatingWebhook items = concat (map (\<lambda>i. map wh_ClientConfig (wc_Webhooks i)) items)"

text \<open>
  The filter of the events (\<^verbatim>\<open>eventfilter.go\<close>).  \<open>selects\<close> is \<^verbatim>\<open>labels.SelectorFromSet\<close> of Kubernetes with the method
  \<^verbatim>\<open>Matches\<close>.
\<close>

definition isInNamespace :: "ObjectMeta \<Rightarrow> string \<Rightarrow> bool" where
  "isInNamespace obj namespace \<longleftrightarrow> om_Namespace obj = namespace"

fun matchesName :: "ObjectMeta \<Rightarrow> string list \<Rightarrow> bool" where
  "matchesName obj [] = False"
| "matchesName obj (name # names) = (if om_Name obj = name then True else matchesName obj names)"

definition matchesLabels :: "ObjectMeta \<Rightarrow> (smap \<Rightarrow> bool) \<Rightarrow> bool" where
  "matchesLabels obj selector = selector (om_Labels obj)"

definition ForNamesAndNamespace :: "string list \<Rightarrow> string \<Rightarrow> ObjectMeta \<Rightarrow> bool" where
  "ForNamesAndNamespace names namespace obj \<longleftrightarrow> isInNamespace obj namespace \<and> matchesName obj names"

definition ForLabelsAndNamespace :: "(smap \<Rightarrow> bool) \<Rightarrow> string \<Rightarrow> ObjectMeta \<Rightarrow> bool" where
  "ForLabelsAndNamespace selector namespace obj \<longleftrightarrow> isInNamespace obj namespace \<and> matchesLabels obj selector"

definition getFilterPredicate ::
    "((string \<times> string) list \<Rightarrow> smap \<Rightarrow> bool) \<Rightarrow> CertificateReconcilerConfig \<Rightarrow> ObjectMeta \<Rightarrow> bool" where
  "getFilterPredicate selects config =
     (case crf_WatchResources config of
        Some watch \<Rightarrow>
          if length (oo_Deployments watch) > 0 then ForNamesAndNamespace (oo_Deployments watch) (crf_Namespace config)
          else ForLabelsAndNamespace (selects (crf_MatchLabels config)) (crf_Namespace config)
      | None \<Rightarrow> ForLabelsAndNamespace (selects (crf_MatchLabels config)) (crf_Namespace config))"

section \<open>The controller\<close>

record ('w, 'k, 'p) KeptnWebhookCertificateReconciler =
  wcr_Client :: "'w CertClient"
  wcr_Crypto :: "('w, 'k, 'p) Crypto"
  wcr_CancelMgrFunc :: "('w, unit) state option"
  wcr_Namespace :: string
  wcr_ResourceRetriever :: ResourceRetriever

definition NewReconciler ::
    "'w CertClient \<Rightarrow> ('w, 'k, 'p) Crypto \<Rightarrow> ('w, unit) state option \<Rightarrow> CertificateReconcilerConfig \<Rightarrow>
     ('w, 'k, 'p) KeptnWebhookCertificateReconciler" where
  "NewReconciler cl cr cancel config = \<lparr>wcr_Client = cl, wcr_Crypto = cr, wcr_CancelMgrFunc = cancel,
     wcr_Namespace = crf_Namespace config, wcr_ResourceRetriever = NewResourceRetriever config\<rparr>"

definition cancelMgr :: "('w, 'k, 'p) KeptnWebhookCertificateReconciler \<Rightarrow> ('w, unit) state" where
  "cancelMgr r = (case wcr_CancelMgrFunc r of None \<Rightarrow> ret () | Some f \<Rightarrow> f)"

definition Reconciler_setCertificates ::
    "('w, 'k, 'p) KeptnWebhookCertificateReconciler \<Rightarrow> 'k certificateSecret \<Rightarrow>
     ('w, 'k certificateSecret \<times> error option) state" where
  "Reconciler_setCertificates r certSecret = do {
     (certSecret, err) \<leftarrow> setSecretFromReader (wcr_Client r) certSecret (wcr_Namespace r);
     case err of
       Some e \<Rightarrow> ret (certSecret, Some e)
     | None \<Rightarrow> setCertificates (wcr_Crypto r) certSecret (wcr_Namespace r)
   }"

definition set_bundle :: "string \<Rightarrow> WebhookConfiguration \<Rightarrow> WebhookConfiguration" where
  "set_bundle bundle c =
     c\<lparr>wc_Webhooks := map (\<lambda>w. w\<lparr>wh_ClientConfig := (wh_ClientConfig w)\<lparr>wcc_CABundle := bundle\<rparr>\<rparr>) (wc_Webhooks c)\<rparr>"

text \<open>
  The client configurations are pointers into the whole list: the first call sets the bundle in all items
  of the list, and each call writes one of them.
\<close>

definition updateClientConfigurations ::
    "('w, WebhookConfiguration) api \<Rightarrow> string \<Rightarrow> WebhookConfiguration list \<Rightarrow> nat \<Rightarrow>
     ('w, WebhookConfiguration list \<times> error option) state" where
  "updateClientConfigurations k bundle items i = do {
     let items = map (set_bundle bundle) items;
     r \<leftarrow> api_Update k (items ! i);
     ret (items, case r of Inl err \<Rightarrow> Some err | Inr _ \<Rightarrow> None)
   }"

fun update_webhooks ::
    "('w, WebhookConfiguration) api \<Rightarrow> string \<Rightarrow> WebhookConfiguration list \<Rightarrow> nat list \<Rightarrow> ('w, error option) state" where
  "update_webhooks k bundle items [] = ret None"
| "update_webhooks k bundle items (i # is) = do {
     (items, err) \<leftarrow> updateClientConfigurations k bundle items i;
     case err of
       Some e \<Rightarrow> ret (Some e)
     | None \<Rightarrow> update_webhooks k bundle items is
   }"

definition hasConversionWebhook :: "CustomResourceDefinition \<Rightarrow> bool" where
  "hasConversionWebhook crd =
     (case crd_Conversion crd of
        None \<Rightarrow> False
      | Some c \<Rightarrow> (case crc_Webhook c of None \<Rightarrow> False | Some wh \<Rightarrow> wcv_ClientConfig wh \<noteq> None))"

definition set_crd_bundle :: "string \<Rightarrow> CustomResourceDefinition \<Rightarrow> CustomResourceDefinition" where
  "set_crd_bundle bundle crd =
     crd\<lparr>crd_Conversion := map_option (\<lambda>c. c\<lparr>crc_Webhook :=
       map_option (\<lambda>wh. wh\<lparr>wcv_ClientConfig := map_option (\<lambda>cfg. cfg\<lparr>wcc_CABundle := bundle\<rparr>) (wcv_ClientConfig wh)\<rparr>)
         (crc_Webhook c)\<rparr>) (crd_Conversion crd)\<rparr>"

definition updateCRDConfiguration :: "'w CertClient \<Rightarrow> string \<Rightarrow> string \<Rightarrow> ('w, error option) state" where
  "updateCRDConfiguration cl crdName bundle = do {
     g \<leftarrow> api_Get (cc_CRD cl) [] crdName;
     case g of
       Inl err \<Rightarrow> ret (Some err)
     | Inr crd \<Rightarrow>
         if \<not> hasConversionWebhook crd then ret None
         else do {
           r \<leftarrow> api_Update (cc_CRD cl) (set_crd_bundle bundle crd);
           ret (case r of Inl err \<Rightarrow> Some err | Inr _ \<Rightarrow> None)
         }
   }"

fun update_crds :: "'w CertClient \<Rightarrow> CustomResourceDefinition list \<Rightarrow> string \<Rightarrow> bool \<Rightarrow> ('w, bool) state" where
  "update_crds cl [] bundle fail = ret fail"
| "update_crds cl (crd # crds) bundle fail = do {
     err \<leftarrow> updateCRDConfiguration cl (om_Name (crd_meta crd)) bundle;
     update_crds cl crds bundle (if err \<noteq> None then True else fail)
   }"

definition updateCRDsConfiguration ::
    "'w CertClient \<Rightarrow> CustomResourceDefinition list \<Rightarrow> string \<Rightarrow> ('w, error option) state" where
  "updateCRDsConfiguration cl crds bundle = do {
     fail \<leftarrow> update_crds cl crds bundle False;
     ret (if fail then Some ErrCouldNotUpdateCRD else None)
   }"

definition updateConfigurations ::
    "('w, 'k, 'p) KeptnWebhookCertificateReconciler \<Rightarrow> 'k certificateSecret \<Rightarrow> CustomResourceDefinition list \<Rightarrow>
     WebhookConfiguration list \<Rightarrow> WebhookConfiguration list \<Rightarrow> ('w, error option) state" where
  "updateConfigurations r certSecret crds mutating validating = do {
     let cl = wcr_Client r;
     (certSecret, err) \<leftarrow> createOrUpdateIfNecessary cl certSecret;
     case err of
       Some e \<Rightarrow> ret (Some e)
     | None \<Rightarrow>
         (case loadCombinedBundle certSecret of
            Inl e \<Rightarrow> ret (Some e)
          | Inr bundle \<Rightarrow> do {
              err \<leftarrow> update_webhooks (cc_Mutating cl) bundle mutating [0..<length mutating];
              case err of
                Some e \<Rightarrow> ret (Some e)
              | None \<Rightarrow> do {
                  err \<leftarrow> update_webhooks (cc_Validating cl) bundle validating [0..<length validating];
                  case err of
                    Some e \<Rightarrow> ret (Some e)
                  | None \<Rightarrow> updateCRDsConfiguration cl crds bundle
                }
            })
   }"

definition inject_certificates ::
    "('w, 'k, 'p) KeptnWebhookCertificateReconciler \<Rightarrow> WebhookConfiguration list \<Rightarrow> WebhookConfiguration list \<Rightarrow>
     CustomResourceDefinition list \<Rightarrow> ('w, outcome option) state" where
  "inject_certificates r mutating validating crds = do {
     (certSecret, err) \<leftarrow> Reconciler_setCertificates r newCertificateSecret;
     case err of
       Some e \<Rightarrow> ret (Some (no_requeue, Some (WithStack e)))
     | None \<Rightarrow>
         (case areCRDConversionsValid certSecret crds of
            None \<Rightarrow> ret None
          | Some crds_valid \<Rightarrow>
              if isRecent certSecret
                \<and> areWebhookConfigsValid certSecret (getClientConfigsFromMutatingWebhook mutating)
                \<and> areWebhookConfigsValid certSecret (getClientConfigsFromValidatingWebhook validating)
                \<and> crds_valid
              then do {
                cancelMgr r;
                ret (Some (\<lparr>Requeue = False, RequeueAfter = SuccessDuration\<rparr>, None))
              } else do {
                err \<leftarrow> updateConfigurations r certSecret crds mutating validating;
                case err of
                  Some e \<Rightarrow> ret (Some (no_requeue, Some (WithStack e)))
                | None \<Rightarrow> do {
                    cancelMgr r;
                    ret (Some (\<lparr>Requeue = False, RequeueAfter = SuccessDuration\<rparr>, None))
                  }
              })
   }"

text \<open>A lookup that fails is logged, and the length of the nil list is taken for the next log entry.\<close>

definition WebhookCertificate_Reconcile ::
    "('w, 'k, 'p) KeptnWebhookCertificateReconciler \<Rightarrow> Request \<Rightarrow> ('w, outcome option) state" where
  "WebhookCertificate_Reconcile r req = do {
     m \<leftarrow> GetMutatingWebhooks (wcr_Client r) (wcr_ResourceRetriever r);
     case m of
       Inl err \<Rightarrow> ret None
     | Inr mutating \<Rightarrow> do {
         v \<leftarrow> GetValidatingWebhooks (wcr_Client r) (wcr_ResourceRetriever r);
         case v of
           Inl err \<Rightarrow> ret None
         | Inr validating \<Rightarrow> do {
             c \<leftarrow> GetCRDs (wcr_Client r) (wcr_ResourceRetriever r);
             case c of
               Inl err \<Rightarrow> ret None
             | Inr crds \<Rightarrow> inject_certificates r mutating validating crds
           }
       }
   }"

section \<open>Renewal\<close>

text \<open>
  What the packages promise: a PEM block can be decoded, a certificate that was created can be parsed and
  expires at the time of the template, to the second, and a key can be read back.
\<close>

definition x509_laws :: "('w, 'k, 'p) Crypto \<Rightarrow> bool" where
  "x509_laws cr \<longleftrightarrow>
     (\<forall>ty b. pem_Decode cr (pem_EncodeToMemory cr ty b) = Some b) \<and>
     (\<forall>tpl parent pub key w der w'.
        run_state (x509_CreateCertificate cr tpl (Some parent) pub (Some key)) w = (Inr der, w') \<longrightarrow>
        (\<exists>c. x509_ParseCertificate cr der = Inr c \<and> crt_NotAfter c = crt_NotAfter tpl - crt_NotAfter tpl mod second)) \<and>
     (\<forall>k b. x509_MarshalECPrivateKey cr k = Inr b \<longrightarrow> x509_ParseECPrivateKey cr b = Inr k)"

text \<open>An entry that holds a certificate which expires at \<open>t\<close> or later, an entry that holds a private key.\<close>

definition lasts_until :: "('w, 'k, 'p) Crypto \<Rightarrow> string option \<Rightarrow> time \<Rightarrow> bool" where
  "lasts_until cr v t \<longleftrightarrow>
     (\<exists>b block cert. v = Some b \<and> pem_Decode cr b = Some block \<and> x509_ParseCertificate cr block = Inr cert \<and>
        t \<le> crt_NotAfter cert)"

definition holds_key :: "('w, 'k, 'p) Crypto \<Rightarrow> string option \<Rightarrow> bool" where
  "holds_key cr v \<longleftrightarrow>
     (\<exists>b block key. v = Some b \<and> pem_Decode cr b = Some block \<and> x509_ParseECPrivateKey cr block = Inr key)"

lemma entry_simps [simp]:
  "entry (fmupd k v d) k' = (if k' = k then v else entry d k')" "entry fmempty k = None"
  by (auto simp: entry_def)

lemma bytes_simps [simp]: "bytes None = []" "bytes (Some b) = b"
  by (simp_all add: bytes_def)

lemma lasts_until_mono: "lasts_until cr v t \<Longrightarrow> s \<le> t \<Longrightarrow> lasts_until cr v s"
  by (force simp: lasts_until_def)

lemma expiration_valid_iff:
  "ValidateCertificateExpiration cr b threshold now = (True, err) \<longleftrightarrow>
     err = None \<and> lasts_until cr (Some b) (now + threshold)"
  by (auto simp: ValidateCertificateExpiration_def lasts_until_def split: option.splits sum.splits if_splits)

lemma server_certs_valid_iff:
  "\<not> validateServerCerts cr cs now \<longleftrightarrow>
     entry (cs_Data cs) ServerKey \<noteq> None \<and> lasts_until cr (entry (cs_Data cs) ServerCert) (now + renewalThreshold)"
proof (cases "entry (cs_Data cs) ServerCert")
  case None
  then show ?thesis by (simp add: validateServerCerts_def lasts_until_def)
next
  case (Some b)
  obtain v err where v: "ValidateCertificateExpiration cr b renewalThreshold now = (v, err)" by fastforce
  have "(v \<and> err = None) = lasts_until cr (Some b) (now + renewalThreshold)"
    using expiration_valid_iff [of cr b renewalThreshold now None] v by auto
  then show ?thesis
    unfolding validateServerCerts_def Some bytes_simps v by auto
qed

lemma root_certs_valid:
  assumes "validateRootCerts cr cs now = (cs', renew)"
  shows "cs_Data cs' = cs_Data cs" "cs_Domain cs' = cs_Domain cs"
    and "\<not> renew \<longleftrightarrow> holds_key cr (entry (cs_Data cs) RootKey) \<and>
      lasts_until cr (entry (cs_Data cs) RootCert) (now + renewalThreshold)"
    and "\<not> renew \<Longrightarrow> (\<exists>c. cs_rootPublicCert cs' = Some c) \<and> (\<exists>k. cs_rootPrivateKey cs' = Some k)"
  using assms
  by (auto simp: validateRootCerts_def lasts_until_def holds_key_def Let_def
      split: if_splits option.splits sum.splits)

lemma generated_key:
  assumes "x509_laws cr" and "run_state (generatePrivateKey cr cs k) w = ((cs', Inr key), w')"
  shows "\<exists>b. cs' = cs\<lparr>cs_Data := fmupd k (Some b) (cs_Data cs)\<rparr> \<and> holds_key cr (Some b)"
  using assms
  by (fastforce simp: generatePrivateKey_def holds_key_def x509_laws_def
      split: prod.splits sum.splits)

lemma created_certificate:
  assumes "x509_laws cr"
    and "run_state (x509_CreateCertificate cr tpl (Some parent) pub (Some key)) w = (Inr der, w')"
    and "t + second \<le> crt_NotAfter tpl"
  shows "lasts_until cr (Some (pem_EncodeToMemory cr ty der)) t"
proof -
  have "\<exists>c. x509_ParseCertificate cr der = Inr c \<and> crt_NotAfter c = crt_NotAfter tpl - crt_NotAfter tpl mod second"
    using assms(1,2) unfolding x509_laws_def by blast
  moreover have "crt_NotAfter tpl mod second < second" by (simp add: second_def)
  moreover have "pem_Decode cr (pem_EncodeToMemory cr ty der) = Some der"
    using assms(1) by (simp add: x509_laws_def)
  ultimately show ?thesis using assms(3) by (auto simp: lasts_until_def)
qed

lemma generated_root:
  assumes laws: "x509_laws cr" and run: "run_state (generateRootCerts cr cs domain now) w = ((cs', None), w')"
  shows "\<exists>key b. cs_Data cs' = fmupd RootCert (Some b) (fmupd RootCertOld (entry (cs_Data cs) RootCert)
        (fmupd RootKey (Some key) (cs_Data cs))) \<and>
      holds_key cr (Some key) \<and> lasts_until cr (Some b) (now + renewalThreshold) \<and> cs_Domain cs' = cs_Domain cs \<and>
      (\<exists>c. cs_rootPublicCert cs' = Some c) \<and> (\<exists>k. cs_rootPrivateKey cs' = Some k)"
proof -
  obtain cs1 g w1 where g: "run_state (generatePrivateKey cr cs RootKey) w = ((cs1, g), w1)"
    by (metis prod.collapse)
  with run obtain key where key: "g = Inr key"
    by (cases g) (auto simp: generateRootCerts_def)
  obtain b where cs1: "cs1 = cs\<lparr>cs_Data := fmupd RootKey (Some b) (cs_Data cs)\<rparr>" and b: "holds_key cr (Some b)"
    using generated_key [OF laws g [unfolded key]] by auto
  obtain n w2 where n: "run_state (rand_Int cr serialNumberLimit) w1 = (n, w2)" by fastforce
  with run g key obtain serial where serial: "n = Inr serial"
    by (cases n) (auto simp: generateRootCerts_def Let_def)
  let ?tpl = "root_template serial domain now"
  obtain c w3 where c: "run_state (x509_CreateCertificate cr ?tpl (Some ?tpl) (ecdsa_Public cr key) (Some key)) w2 = (c, w3)"
    by fastforce
  note calls = g key n serial c cs1
  obtain der where der: "c = Inr der"
    using run calls by (cases c) (simp_all add: generateRootCerts_def Let_def)
  have "cs_Data cs' = fmupd RootCert (Some (pem_EncodeToMemory cr ''CERTIFICATE'' der))
      (fmupd RootCertOld (entry (cs_Data cs) RootCert) (fmupd RootKey (Some b) (cs_Data cs)))"
    "cs_Domain cs' = cs_Domain cs" "\<exists>c. cs_rootPublicCert cs' = Some c" "\<exists>k. cs_rootPrivateKey cs' = Some k"
    using run calls der by (auto simp: generateRootCerts_def Let_def)
  moreover have "lasts_until cr (Some (pem_EncodeToMemory cr ''CERTIFICATE'' der)) (now + renewalThreshold)"
    by (rule created_certificate [OF laws c [unfolded der]])
      (simp add: root_template_def renewalThreshold_def second_def)
  ultimately show ?thesis using b by blast
qed

lemma generated_server:
  assumes laws: "x509_laws cr" and run: "run_state (generateServerCerts cr cs domain now) w = ((cs', None), w')"
    and root: "cs_rootPublicCert cs = Some parent" "cs_rootPrivateKey cs = Some k"
  shows "\<exists>key b. cs_Data cs' = fmupd ServerCert (Some b) (fmupd ServerKey (Some key) (cs_Data cs)) \<and>
      holds_key cr (Some key) \<and> lasts_until cr (Some b) (now + renewalThreshold)"
proof -
  obtain cs1 g w1 where g: "run_state (generatePrivateKey cr cs ServerKey) w = ((cs1, g), w1)"
    by (metis prod.collapse)
  with run obtain key where key: "g = Inr key"
    by (cases g) (auto simp: generateServerCerts_def)
  obtain b where cs1: "cs1 = cs\<lparr>cs_Data := fmupd ServerKey (Some b) (cs_Data cs)\<rparr>" and b: "holds_key cr (Some b)"
    using generated_key [OF laws g [unfolded key]] by auto
  obtain n w2 where n: "run_state (rand_Int cr serialNumberLimit) w1 = (n, w2)" by fastforce
  with run g key obtain serial where serial: "n = Inr serial"
    by (cases n) (auto simp: generateServerCerts_def Let_def)
  let ?tpl = "server_template serial domain now"
  obtain c w3 where c: "run_state (x509_CreateCertificate cr ?tpl (Some parent) (ecdsa_Public cr key) (Some k)) w2 = (c, w3)"
    by fastforce
  note calls = g key n serial c cs1 root
  obtain der where der: "c = Inr der"
    using run calls by (cases c) (simp_all add: generateServerCerts_def Let_def)
  have "cs_Data cs' = fmupd ServerCert (Some (pem_EncodeToMemory cr ''CERTIFICATE'' der))
      (fmupd ServerKey (Some b) (cs_Data cs))"
    using run calls der by (auto simp: generateServerCerts_def Let_def)
  moreover have "lasts_until cr (Some (pem_EncodeToMemory cr ''CERTIFICATE'' der)) (now + renewalThreshold)"
    by (rule created_certificate [OF laws c [unfolded der]])
      (simp add: server_template_def renewalThreshold_def second_def)
  ultimately show ?thesis using b by blast
qed


lemma validated:
  assumes "x509_laws cr" and "run_state (Certs_Validate cr cs) w = ((cs', None), w')"
    and "cs_SrcData cs = Some src" and "\<not> IsZero (cs_Now cs)"
  shows "let d = cs_Data cs'; t = cs_Now cs + 12 * hour;
             root_ok = (holds_key cr (entry src RootKey) \<and> lasts_until cr (entry src RootCert) t);
             server_ok = (entry src ServerKey \<noteq> None \<and> lasts_until cr (entry src ServerCert) t)
      in holds_key cr (entry d RootKey) \<and> lasts_until cr (entry d RootCert) t \<and>
         entry d ServerKey \<noteq> None \<and> lasts_until cr (entry d ServerCert) t \<and>
         (root_ok \<longrightarrow> (\<forall>k\<in>{RootKey, RootCert, RootCertOld}. entry d k = entry src k)) \<and>
         (root_ok \<and> server_ok \<longrightarrow> d = src) \<and>
         (\<not> root_ok \<longrightarrow> entry d RootCertOld = entry src RootCert)"
proof -
  let ?cs = "cs\<lparr>cs_Data := src\<rparr>"
  obtain cs1 renew where root: "validateRootCerts cr ?cs (cs_Now cs) = (cs1, renew)" by fastforce
  note facts = root_certs_valid [OF root] server_certs_valid_iff [of cr cs1 "cs_Now cs"]
  show ?thesis
  proof (cases renew)
    case True
    obtain cs2 err w2 where gen: "run_state (generateRootCerts cr cs1 (cs_Domain cs1) (cs_Now cs)) w = ((cs2, err), w2)"
      by (metis prod.collapse)
    have err: "err = None" and server: "run_state (generateServerCerts cr cs2 (cs_Domain cs2) (cs_Now cs)) w2 = ((cs', None), w')"
      using assms(2-4) root True gen by (auto simp: Certs_Validate_def split: option.splits)
    obtain key b c k where cs2: "cs_Data cs2 = fmupd RootCert (Some b) (fmupd RootCertOld (entry (cs_Data cs1) RootCert)
          (fmupd RootKey (Some key) (cs_Data cs1)))" "holds_key cr (Some key)"
        "lasts_until cr (Some b) (cs_Now cs + renewalThreshold)"
        and root2: "cs_rootPublicCert cs2 = Some c" "cs_rootPrivateKey cs2 = Some k"
      using generated_root [OF assms(1) gen [unfolded err]] by blast
    show ?thesis
      using generated_server [OF assms(1) server root2] cs2 facts True
      by (auto simp: renewalThreshold_def Let_def)
  next
    case False
    then obtain c k where root1: "cs_rootPublicCert cs1 = Some c" "cs_rootPrivateKey cs1 = Some k"
      using facts by blast
    show ?thesis
    proof (cases "validateServerCerts cr cs1 (cs_Now cs)")
      case True
      then have server: "run_state (generateServerCerts cr cs1 (cs_Domain cs1) (cs_Now cs)) w = ((cs', None), w')"
        using assms(2-4) root False by (simp add: Certs_Validate_def)
      show ?thesis
        using generated_server [OF assms(1) server root1] facts True False
        by (auto simp: renewalThreshold_def Let_def)
    next
      case server: False
      then have "cs' = cs1"
        using assms(2-4) root False by (simp add: Certs_Validate_def)
      then show ?thesis
        using facts server False by (simp add: renewalThreshold_def Let_def)
    qed
  qed
qed

text \<open>
  C25: \<open>Certs.Validate\<close> that ends without an error leaves a root certificate and a server certificate that
  are valid for twelve more hours, with their keys.  What is still valid is kept: with a valid
  root its entries stay, and if the server certificate is valid too nothing changes.  A root that
  is replaced is kept as the old one.
\<close>

theorem certificates_renewed:
  assumes "x509_laws cr" and "run_state (Certs_Validate cr cs) w = ((cs', None), w')"
    and "cs_SrcData cs = Some src" and "\<not> IsZero (cs_Now cs)"
  shows "let d = cs_Data cs'; t = cs_Now cs + 12 * hour;
             root_ok = (holds_key cr (entry src RootKey) \<and> lasts_until cr (entry src RootCert) t);
             server_ok = (entry src ServerKey \<noteq> None \<and> lasts_until cr (entry src ServerCert) t)
      in holds_key cr (entry d RootKey) \<and> lasts_until cr (entry d RootCert) t \<and>
         entry d ServerKey \<noteq> None \<and> lasts_until cr (entry d ServerCert) t \<and>
         (root_ok \<longrightarrow> (\<forall>k\<in>{RootKey, RootCert, RootCertOld}. entry d k = entry src k)) \<and>
         (root_ok \<and> server_ok \<longrightarrow> d = src) \<and>
         (\<not> root_ok \<longrightarrow> entry d RootCertOld = entry src RootCert)"
  using assms by (rule validated)

section \<open>Injection\<close>

text \<open>The reference for the loops over the configurations: each is written once with the bundle, up to the first error.\<close>

fun write_all :: "('w, 'o) api \<Rightarrow> 'o list \<Rightarrow> ('w, error option) state" where
  "write_all k [] = ret None"
| "write_all k (x # xs) = do {
     r \<leftarrow> api_Update k x;
     case r of Inl err \<Rightarrow> ret (Some err) | Inr _ \<Rightarrow> write_all k xs
   }"

lemma set_bundle_idem [simp]: "set_bundle b (set_bundle b c) = set_bundle b c"
  by (simp add: set_bundle_def)

lemma update_webhooks_write:
  assumes "\<forall>i\<in>set is. i < length items"
  shows "update_webhooks k b items is = write_all k (map (\<lambda>i. set_bundle b (items ! i)) is)"
  using assms
proof (induction "is" arbitrary: items)
  case (Cons i "is")
  have *: "update_webhooks k b (map (set_bundle b) items) is = write_all k (map (\<lambda>i. set_bundle b (items ! i)) is)"
    using Cons.IH [of "map (set_bundle b) items"] Cons.prems by (simp cong: map_cong)
  show ?case
    using Cons.prems
    by (intro state.expand ext)
      (auto simp: updateClientConfigurations_def Let_def * split: prod.splits sum.splits)
qed simp

lemma webhooks_written:
  "update_webhooks k b items [0..<length items] = write_all k (map (set_bundle b) items)"
proof -
  have "map (\<lambda>i. set_bundle b (items ! i)) [0..<length items] = map (set_bundle b) items"
    by (rule nth_equalityI) simp_all
  then show ?thesis by (simp add: update_webhooks_write)
qed

text \<open>A custom resource definition that has the bundle, or needs none.\<close>

definition carries :: "string \<Rightarrow> CustomResourceDefinition \<Rightarrow> bool" where
  "carries bundle crd \<longleftrightarrow>
     (\<exists>c. crd_Conversion crd = Some c \<and>
        (crc_Strategy c = NoneConverter \<or> crc_Webhook c = None \<or>
         (\<exists>wh cfg. crc_Webhook c = Some wh \<and> wcv_ClientConfig wh = Some cfg \<and> wcc_CABundle cfg = bundle)))"

lemma areWebhookConfigsValid_iff:
  "areWebhookConfigsValid cs configs \<longleftrightarrow> (\<forall>c\<in>set configs. isBundleValid cs (wcc_CABundle c))"
  by (induction configs) auto

lemma areCRDConversionsValid_carries:
  assumes "\<forall>crd\<in>set crds. carries bundle crd"
  shows "\<exists>v. areCRDConversionsValid cs crds = Some v \<and> (isBundleValid cs bundle \<longrightarrow> v)"
  using assms
proof (induction crds)
  case (Cons crd crds)
  then have "carries bundle crd" by simp
  then have "\<exists>v. isCRDConversionValid cs (crd_Conversion crd) = Some v \<and> (isBundleValid cs bundle \<longrightarrow> v)"
    by (auto simp: carries_def isCRDConversionValid_def)
  with Cons show ?case by (auto split: bool.splits)
qed auto

lemma bundle_valid_iff:
  assumes "isRecent cs" and "css_secret cs = Some secret" and "loadCombinedBundle cs = Inr bundle"
    and "bytes (entry (certificates_data cs) RootCert) \<noteq> []"
  shows "isBundleValid cs bundle \<longleftrightarrow> bytes (entry (certificates_data cs) RootCertOld) = []"
proof -
  obtain certs where "css_certificates cs = Some certs" "sec_Data secret = Some (cs_Data certs)"
    using assms(1,2) by (auto simp: isRecent_def split: option.splits)
  with assms show ?thesis
    by (auto simp: isBundleValid_def loadCombinedBundle_def certificates_data_def entry_def split: option.splits)
qed

text \<open>
  When the certificates need no renewal and every configuration has the bundle that the controller writes,
  the next reconciliation writes nothing and asks to be called in three hours, as long as
  there is no old root certificate.  Once the root has been renewed the bundle is compared with
  the new root alone, and every reconciliation goes on to write all configurations again.
\<close>

theorem settled_unless_root_renewed:
  assumes "run_state (Reconciler_setCertificates r newCertificateSecret) w = ((cs, None), w1)"
    and "isRecent cs" and "css_secret cs = Some secret" and "loadCombinedBundle cs = Inr bundle"
    and "bytes (entry (certificates_data cs) RootCert) \<noteq> []"
    and "\<forall>c\<in>set (getClientConfigsFromMutatingWebhook mutating @ getClientConfigsFromValidatingWebhook validating).
      wcc_CABundle c = bundle"
    and "\<forall>crd\<in>set crds. carries bundle crd"
    and "getClientConfigsFromMutatingWebhook mutating \<noteq> []"
  shows "if bytes (entry (certificates_data cs) RootCertOld) = [] then
      run_state (inject_certificates r mutating validating crds) w =
        (Some (\<lparr>Requeue = False, RequeueAfter = SuccessDuration\<rparr>, None), snd (run_state (cancelMgr r) w1))
    else
      (case run_state (updateConfigurations r cs crds mutating validating) w1 of
         (Some e, w2) \<Rightarrow>
           run_state (inject_certificates r mutating validating crds) w = (Some (no_requeue, Some (WithStack e)), w2)
       | (None, w2) \<Rightarrow>
           run_state (inject_certificates r mutating validating crds) w =
             (Some (\<lparr>Requeue = False, RequeueAfter = SuccessDuration\<rparr>, None), snd (run_state (cancelMgr r) w2)))"
proof -
  note valid = bundle_valid_iff [OF assms(2-5)]
  obtain v where v: "areCRDConversionsValid cs crds = Some v" "isBundleValid cs bundle \<longrightarrow> v"
    using areCRDConversionsValid_carries [OF assms(7), of cs] by blast
  have configs: "areWebhookConfigsValid cs (getClientConfigsFromMutatingWebhook mutating) \<longleftrightarrow> isBundleValid cs bundle"
      "isBundleValid cs bundle \<Longrightarrow> areWebhookConfigsValid cs (getClientConfigsFromValidatingWebhook validating)"
    using assms(6,8) by (auto simp: areWebhookConfigsValid_iff neq_Nil_conv)
  show ?thesis
    using assms(1,2) valid v configs
    by (auto simp: inject_certificates_def split: prod.splits option.splits)
qed

text \<open>
  The configurations of the webhooks are written in order, each with the bundle in all its client
  configurations, up to the first error; the definitions of custom resources are written
  only after all of them.
\<close>

theorem configurations_written:
  "updateConfigurations r cs crds mutating validating = do {
     (cs, err) \<leftarrow> createOrUpdateIfNecessary (wcr_Client r) cs;
     case (err, loadCombinedBundle cs) of
       (Some e, _) \<Rightarrow> ret (Some e)
     | (None, Inl e) \<Rightarrow> ret (Some e)
     | (None, Inr bundle) \<Rightarrow> do {
         err \<leftarrow> write_all (cc_Mutating (wcr_Client r)) (map (set_bundle bundle) mutating);
         if err \<noteq> None then ret err else do {
           err \<leftarrow> write_all (cc_Validating (wcr_Client r)) (map (set_bundle bundle) validating);
           if err \<noteq> None then ret err else updateCRDsConfiguration (wcr_Client r) crds bundle
         }
       }
   }"
  unfolding updateConfigurations_def webhooks_written Let_def
  by (intro state.expand ext) (auto split: prod.splits option.splits sum.splits)

text \<open>
  When the mutating webhooks cannot be listed by their labels, the controller
  takes the length of a nil list and panics.
\<close>

theorem unlisted_webhooks_panic:
  assumes "wcr_ResourceRetriever r = LabelSelectorRetriever ls"
    and "run_state (api_List (cc_Mutating (wcr_Client r)) [] ls) w = (Inl err, w')"
  shows "run_state (WebhookCertificate_Reconcile r req) w = (None, w')"
  using assms by (simp add: WebhookCertificate_Reconcile_def GetMutatingWebhooks_def)

end
