(* ===== verification/Certificate_Watcher.thy ===== *)
theory Certificate_Watcher
  imports Certificates
begin

text \<open>
  The watcher of certificates (\<^verbatim>\<open>keptn-cert-manager/pkg/certificates/watcher.go\<close>), which the operators run to
  copy the server certificate and its key from the Secret to files: it waits for the first copy at the start, and
  copies again every six hours.  The file system is an argument.
\<close>

section \<open>Paths\<close>

text \<open>\<^verbatim>\<open>filepath.Join\<close> on Unix: the non-empty elements are joined by slashes and the result is cleaned.\<close>

fun clean_elements :: "bool \<Rightarrow> string list \<Rightarrow> string list \<Rightarrow> string list" where
  "clean_elements rooted out [] = rev out"
| "clean_elements rooted out (e # es) =
     (if e = [] \<or> e = ''.'' then clean_elements rooted out es
      else if e = ''..'' then
        (case out of
           x # xs \<Rightarrow> if x \<noteq> ''..'' then clean_elements rooted xs es else clean_elements rooted (e # out) es
         | [] \<Rightarrow> if rooted then clean_elements rooted [] es else clean_elements rooted [e] es)
      else clean_elements rooted (e # out) es)"

definition path_Clean :: "string \<Rightarrow> string" where
  "path_Clean p =
     (let rooted = (case p of c # _ \<Rightarrow> c = CHR ''/'' | [] \<Rightarrow> False);
          body = join ''/'' (clean_elements rooted [] (split_on (CHR ''/'') p))
      in if rooted then CHR ''/'' # body else if body = [] then ''.'' else body)"

definition path_Join :: "string list \<Rightarrow> string" where
  "path_Join es =
     (let es = dropWhile (\<lambda>e. e = []) es in
      if es = [] then [] else path_Clean (join ''/'' es))"

section \<open>The watcher\<close>

record 'w FileSystem =
  fs_Stat :: "string \<Rightarrow> ('w, error option) state"
  fs_MkdirAll :: "string \<Rightarrow> ('w, error option) state"
  fs_ReadFile :: "string \<Rightarrow> ('w, string \<times> error option) state"
  fs_WriteFile :: "string \<Rightarrow> string \<Rightarrow> ('w, error option) state"
  os_IsNotExist :: "error \<Rightarrow> bool"

record ('w, 'k, 'p) CertificateWatcher =
  cw_apiReader :: "('w, Secret) api"
  cw_fs :: "'w FileSystem"
  cw_Crypto :: "('w, 'k, 'p) Crypto"
  cw_Sleep :: "duration \<Rightarrow> ('w, unit) state"
  cw_certificateDirectory :: string
  cw_namespace :: string
  cw_certificateSecretName :: string
  cw_certificateThreshold :: duration

definition certificateRenewalInterval :: duration where
  "certificateRenewalInterval = 6 * hour"

definition CertThreshold :: duration where
  "CertThreshold = 5 * 60 * second"

definition NewCertificateWatcher ::
    "('w, Secret) api \<Rightarrow> 'w FileSystem \<Rightarrow> ('w, 'k, 'p) Crypto \<Rightarrow> (duration \<Rightarrow> ('w, unit) state) \<Rightarrow>
     string \<Rightarrow> string \<Rightarrow> string \<Rightarrow> ('w, 'k, 'p) CertificateWatcher" where
  "NewCertificateWatcher reader fs cr sleep certDir namespace secretName =
     \<lparr>cw_apiReader = reader, cw_fs = fs, cw_Crypto = cr, cw_Sleep = sleep, cw_certificateDirectory = certDir,
      cw_namespace = namespace, cw_certificateSecretName = secretName, cw_certificateThreshold = CertThreshold\<rparr>"

definition secret_entry :: "Secret \<Rightarrow> string \<Rightarrow> string option" where
  "secret_entry secret k = (case sec_Data secret of None \<Rightarrow> None | Some d \<Rightarrow> entry d k)"

definition is_not_exist :: "'w FileSystem \<Rightarrow> error option \<Rightarrow> bool" where
  "is_not_exist fs err = (case err of None \<Rightarrow> False | Some e \<Rightarrow> os_IsNotExist fs e)"

definition ensureCertificateFile ::
    "('w, 'k, 'p) CertificateWatcher \<Rightarrow> Secret \<Rightarrow> string \<Rightarrow> ('w, error option) state" where
  "ensureCertificateFile watcher secret filename = do {
     let f = path_Join [cw_certificateDirectory watcher, filename];
     (dat, err) \<leftarrow> fs_ReadFile (cw_fs watcher) f;
     if is_not_exist (cw_fs watcher) err \<or> dat \<noteq> bytes (secret_entry secret filename) then
       fs_WriteFile (cw_fs watcher) f (bytes (secret_entry secret filename))
     else ret err
   }"

fun ensure_files ::
    "('w, 'k, 'p) CertificateWatcher \<Rightarrow> Secret \<Rightarrow> string list \<Rightarrow> ('w, error option) state" where
  "ensure_files watcher secret [] = ret None"
| "ensure_files watcher secret (f # fs) = do {
     err \<leftarrow> ensureCertificateFile watcher secret f;
     case err of Some e \<Rightarrow> ret (Some e) | None \<Rightarrow> ensure_files watcher secret fs
   }"

text \<open>The method of the watcher repeats the function of \<^verbatim>\<open>kubeutils\<close>.\<close>

definition Watcher_ValidateCertificateExpiration ::
    "('w, 'k, 'p) CertificateWatcher \<Rightarrow> string \<Rightarrow> duration \<Rightarrow> time \<Rightarrow> bool \<times> error option" where
  "Watcher_ValidateCertificateExpiration watcher certData threshold now =
     (case pem_Decode (cw_Crypto watcher) certData of
        None \<Rightarrow> (False, None)
      | Some block \<Rightarrow>
          (case x509_ParseCertificate (cw_Crypto watcher) block of
             Inl err \<Rightarrow> (False, Some err)
           | Inr cert \<Rightarrow> if now > crt_NotAfter cert - threshold then (False, None) else (True, None)))"

definition updateCertificatesFromSecret :: "('w, 'k, 'p) CertificateWatcher \<Rightarrow> ('w, error option) state" where
  "updateCertificatesFromSecret watcher = do {
     g \<leftarrow> api_Get (cw_apiReader watcher) (cw_namespace watcher) (cw_certificateSecretName watcher);
     case g of
       Inl err \<Rightarrow> ret (Some err)
     | Inr secret \<Rightarrow> do {
         err \<leftarrow> fs_Stat (cw_fs watcher) (cw_certificateDirectory watcher);
         err \<leftarrow> (if is_not_exist (cw_fs watcher) err then fs_MkdirAll (cw_fs watcher) (cw_certificateDirectory watcher)
             else ret None);
         case err of
           Some e \<Rightarrow> ret (Some (Wrapped ''could not create cert directory: '' e))
         | None \<Rightarrow> do {
             err \<leftarrow> ensure_files watcher secret [ServerCert, ServerKey];
             case err of
               Some e \<Rightarrow> ret (Some e)
             | None \<Rightarrow> do {
                 now \<leftarrow> time_Now (cw_Crypto watcher);
                 ret (case Watcher_ValidateCertificateExpiration watcher (bytes (secret_entry secret ServerCert))
                     certificateRenewalInterval now of
                   (isValid, Some e) \<Rightarrow> Some e
                 | (isValid, None) \<Rightarrow> if \<not> isValid then Some (Message ''certificate is outdated'') else None)
               }
           }
       }
   }"

text \<open>
  The loop of \<^verbatim>\<open>WaitForCertificates\<close>; it need not end when the clock stands still.  Then the
  goroutine \<^verbatim>\<open>watchForCertificatesSecret\<close> starts, whose rounds are \<open>watch_round\<close>.
\<close>

partial_function (option) wait_loop :: "('w, 'k, 'p) CertificateWatcher \<Rightarrow> time \<Rightarrow> 'w \<Rightarrow> 'w option" where
  "wait_loop watcher threshold w =
     (case run_state (time_Now (cw_Crypto watcher)) w of
        (now, w) \<Rightarrow>
          if now < threshold then
            (case run_state (updateCertificatesFromSecret watcher) w of
               (None, w) \<Rightarrow> Some w
             | (Some err, w) \<Rightarrow> wait_loop watcher threshold (snd (run_state (cw_Sleep watcher (10 * second)) w)))
          else Some w)"

definition WaitForCertificates :: "('w, 'k, 'p) CertificateWatcher \<Rightarrow> 'w \<Rightarrow> 'w option" where
  "WaitForCertificates watcher w =
     (case run_state (time_Now (cw_Crypto watcher)) w of
        (now, w) \<Rightarrow> wait_loop watcher (now + cw_certificateThreshold watcher) w)"

definition watch_round :: "('w, 'k, 'p) CertificateWatcher \<Rightarrow> ('w, error option) state" where
  "watch_round watcher = do {
     cw_Sleep watcher certificateRenewalInterval;
     updateCertificatesFromSecret watcher
   }"

section \<open>Copying\<close>

lemma clean_elements_snoc:
  assumes "f \<notin> {[], ''.'', ''..''}"
  shows "clean_elements rooted out (es @ [f]) = clean_elements rooted out es @ [f]"
  using assms by (induction rooted out es rule: clean_elements.induct) (auto split: list.splits)

lemma join_snoc: "join sep (xs @ [f]) = (if xs = [] then [] else join sep xs @ sep) @ f"
  by (induction sep xs rule: join.induct) auto

lemma split_on_snoc: "c \<notin> set f \<Longrightarrow> split_on c (d @ c # f) = split_on c d @ [f]"
  by (induction d) (auto simp: split_on_no_sep split: list.splits)

lemma path_Join_file:
  "\<exists>stem. \<forall>f. f \<notin> {[], ''.'', ''..''} \<and> CHR ''/'' \<notin> set f \<longrightarrow> path_Join [d, f] = stem @ f"
proof (cases d)
  case Nil
  have "path_Join [d, f] = [] @ f" if f: "f \<notin> {[], ''.'', ''..''}" "CHR ''/'' \<notin> set f" for f
  proof -
    have "(case f of [] \<Rightarrow> False | c # _ \<Rightarrow> c = CHR ''/'') = False" using f by (cases f) auto
    then show ?thesis using f Nil by (simp add: path_Join_def path_Clean_def split_on_no_sep Let_def)
  qed
  then show ?thesis by blast
next
  case (Cons c cs)
  let ?es = "clean_elements (c = CHR ''/'') [] (split_on (CHR ''/'') d)"
  let ?stem = "(if c = CHR ''/'' then ''/'' else []) @ (if ?es = [] then [] else join ''/'' ?es @ ''/'')"
  have "path_Join [d, f] = ?stem @ f" if f: "f \<notin> {[], ''.'', ''..''}" "CHR ''/'' \<notin> set f" for f
  proof -
    have *: "clean_elements (c = CHR ''/'') [] (split_on (CHR ''/'') (d @ CHR ''/'' # f)) = ?es @ [f]"
      unfolding split_on_snoc [OF f(2)] by (rule clean_elements_snoc [OF f(1)])
    have rooted: "(case d @ CHR ''/'' # f of [] \<Rightarrow> False | x # _ \<Rightarrow> x = CHR ''/'') = (c = CHR ''/'')"
      and "path_Join [d, f] = path_Clean (d @ CHR ''/'' # f)"
      using Cons by (simp_all add: path_Join_def)
    then show ?thesis
      using f(1) unfolding path_Clean_def rooted Let_def * by (simp add: join_snoc)
  qed
  then show ?thesis by blast
qed

lemma certificate_paths_differ: "path_Join [d, ServerCert] \<noteq> path_Join [d, ServerKey]"
proof -
  obtain stem where "\<forall>f. f \<notin> {[], ''.'', ''..''} \<and> CHR ''/'' \<notin> set f \<longrightarrow> path_Join [d, f] = stem @ f"
    using path_Join_file [of d] by blast
  then have "path_Join [d, ServerCert] = stem @ ServerCert" "path_Join [d, ServerKey] = stem @ ServerKey" by auto
  then show ?thesis by simp
qed

text \<open>
  The laws of the file system, where \<open>files\<close> reads the files of a state: a file that is read or was written is
  as the answer says, and no other operation changes it.
\<close>

definition keeps :: "('w \<Rightarrow> 'a) \<Rightarrow> ('w, 'b) state \<Rightarrow> bool" where
  "keeps f m \<longleftrightarrow> (\<forall>w r w'. run_state m w = (r, w') \<longrightarrow> f w' = f w)"

definition fs_laws :: "('w \<Rightarrow> string \<Rightarrow> string option) \<Rightarrow> ('w, 'k, 'p) CertificateWatcher \<Rightarrow> bool" where
  "fs_laws files watcher \<longleftrightarrow>
     (\<forall>ns n. keeps files (api_Get (cw_apiReader watcher) ns n)) \<and> keeps files (time_Now (cw_Crypto watcher)) \<and>
     (\<forall>f. keeps files (fs_Stat (cw_fs watcher) f)) \<and> (\<forall>f. keeps files (fs_MkdirAll (cw_fs watcher) f)) \<and>
     (\<forall>f. keeps files (fs_ReadFile (cw_fs watcher) f)) \<and>
     (\<forall>f w b w'. run_state (fs_ReadFile (cw_fs watcher) f) w = ((b, None), w') \<longrightarrow> files w f = Some b) \<and>
     (\<forall>f b w w'. run_state (fs_WriteFile (cw_fs watcher) f b) w = (None, w') \<longrightarrow> files w' = (files w)(f \<mapsto> b))"

lemma fs_lawsD:
  assumes "fs_laws files watcher"
  shows "run_state (api_Get (cw_apiReader watcher) ns n) w = (g, w') \<Longrightarrow> files w' = files w"
    and "run_state (time_Now (cw_Crypto watcher)) w = (now, w') \<Longrightarrow> files w' = files w"
    and "run_state (fs_Stat (cw_fs watcher) f) w = (r, w') \<Longrightarrow> files w' = files w"
    and "run_state (fs_MkdirAll (cw_fs watcher) f) w = (r, w') \<Longrightarrow> files w' = files w"
    and "run_state (fs_ReadFile (cw_fs watcher) f) w = (br, w') \<Longrightarrow> files w' = files w"
    and "run_state (fs_ReadFile (cw_fs watcher) f) w = ((b, None), w') \<Longrightarrow> files w f = Some b"
    and "run_state (fs_WriteFile (cw_fs watcher) f b) w = (None, w') \<Longrightarrow> files w' = (files w)(f \<mapsto> b)"
  using assms unfolding fs_laws_def keeps_def by (blast | metis)+

lemma ensured_file:
  assumes laws: "fs_laws files watcher" and run: "run_state (ensureCertificateFile watcher secret f) w = (None, w')"
  shows "files w' = (files w)(path_Join [cw_certificateDirectory watcher, f] \<mapsto> bytes (secret_entry secret f))"
proof -
  let ?p = "path_Join [cw_certificateDirectory watcher, f]"
  obtain b err w1 where read: "run_state (fs_ReadFile (cw_fs watcher) ?p) w = ((b, err), w1)"
    by (metis prod.collapse)
  note keep = fs_lawsD(5) [OF laws read]
  show ?thesis
  proof (cases "is_not_exist (cw_fs watcher) err \<or> b \<noteq> bytes (secret_entry secret f)")
    case True
    then have "run_state (fs_WriteFile (cw_fs watcher) ?p (bytes (secret_entry secret f))) w1 = (None, w')"
      using run read by (simp add: ensureCertificateFile_def Let_def)
    then show ?thesis using fs_lawsD(7) [OF laws] keep by simp
  next
    case False
    then have "err = None" "w' = w1" "b = bytes (secret_entry secret f)"
      using run read by (simp_all add: ensureCertificateFile_def Let_def)
    then show ?thesis using fs_lawsD(6) [OF laws] read keep by (simp add: fun_upd_idem)
  qed
qed

lemma ensured_files:
  assumes laws: "fs_laws files watcher"
    and run: "run_state (ensure_files watcher secret [ServerCert, ServerKey]) w = (None, w')"
  shows "\<forall>f\<in>{ServerCert, ServerKey}.
    files w' (path_Join [cw_certificateDirectory watcher, f]) = Some (bytes (secret_entry secret f))"
proof -
  obtain e w1 where 1: "run_state (ensureCertificateFile watcher secret ServerCert) w = (e, w1)" by fastforce
  with run have e: "e = None" by (cases e) auto
  obtain e2 w2 where 2: "run_state (ensureCertificateFile watcher secret ServerKey) w1 = (e2, w2)" by fastforce
  with run 1 e have e2: "e2 = None" "w2 = w'" by (cases e2; auto)+
  show ?thesis
    using ensured_file [OF laws 1 [unfolded e]] ensured_file [OF laws 2 [unfolded e2]]
      certificate_paths_differ [of "cw_certificateDirectory watcher"]
    by simp
qed

lemma watcher_expiration_valid:
  "Watcher_ValidateCertificateExpiration watcher b threshold now =
     ValidateCertificateExpiration (cw_Crypto watcher) b threshold now"
  by (simp add: Watcher_ValidateCertificateExpiration_def ValidateCertificateExpiration_def)

text \<open>A round without an error copies both files, and the certificate lasts until the next round.\<close>

lemma copied:
  assumes laws: "fs_laws files watcher" and run: "run_state (updateCertificatesFromSecret watcher) w = (None, w')"
  shows "\<exists>secret w1 now. run_state (api_Get (cw_apiReader watcher) (cw_namespace watcher) (cw_certificateSecretName watcher)) w
        = (Inr secret, w1) \<and>
      (\<forall>f\<in>{ServerCert, ServerKey}.
         files w' (path_Join [cw_certificateDirectory watcher, f]) = Some (bytes (secret_entry secret f))) \<and>
      lasts_until (cw_Crypto watcher) (Some (bytes (secret_entry secret ServerCert))) (now + certificateRenewalInterval)"
proof -
  let ?get = "api_Get (cw_apiReader watcher) (cw_namespace watcher) (cw_certificateSecretName watcher)"
  let ?mkdir = "\<lambda>err. if is_not_exist (cw_fs watcher) err then fs_MkdirAll (cw_fs watcher) (cw_certificateDirectory watcher)
    else ret None"
  obtain g w1 where get: "run_state ?get w = (g, w1)" by fastforce
  with run obtain secret where g: "g = Inr secret" by (cases g) (auto simp: updateCertificatesFromSecret_def)
  obtain e2 w2 where stat: "run_state (fs_Stat (cw_fs watcher) (cw_certificateDirectory watcher)) w1 = (e2, w2)" by fastforce
  obtain e3 w3 where mk: "run_state (?mkdir e2) w2 = (e3, w3)" by fastforce
  have e3: "e3 = None"
    using run get g stat mk by (cases e3) (auto simp: updateCertificatesFromSecret_def)
  obtain e4 w4 where ens: "run_state (ensure_files watcher secret [ServerCert, ServerKey]) w3 = (e4, w4)" by fastforce
  have e4: "e4 = None"
    using run get g stat mk e3 ens by (cases e4) (auto simp: updateCertificatesFromSecret_def simp del: ensure_files.simps)
  obtain now w5 where now: "run_state (time_Now (cw_Crypto watcher)) w4 = (now, w5)" by fastforce
  obtain v e5 where v: "Watcher_ValidateCertificateExpiration watcher (bytes (secret_entry secret ServerCert))
      certificateRenewalInterval now = (v, e5)" by fastforce
  have "v \<and> e5 = None" "w5 = w'"
    using run get g stat mk e3 ens e4 now v
    by (auto simp: updateCertificatesFromSecret_def simp del: ensure_files.simps split: option.splits if_splits)
  then show ?thesis
    using get g ensured_files [OF laws ens [unfolded e4]] fs_lawsD(2) [OF laws now] v
      expiration_valid_iff [of "cw_Crypto watcher" "bytes (secret_entry secret ServerCert)" certificateRenewalInterval now e5]
    by (auto simp: watcher_expiration_valid)
qed

section \<open>Clocks\<close>

text \<open>
  A clock that no call turns back and that reads what \<^verbatim>\<open>time.Now\<close> returns; a pause takes the time it
  is asked for, or more.
\<close>

definition ticks :: "('w \<Rightarrow> time) \<Rightarrow> ('w, 'a) state \<Rightarrow> bool" where
  "ticks clock m \<longleftrightarrow> (\<forall>w. clock w \<le> clock (snd (run_state m w)))"

definition clock_laws :: "('w \<Rightarrow> time) \<Rightarrow> ('w, 'k, 'p) CertificateWatcher \<Rightarrow> bool" where
  "clock_laws clock watcher \<longleftrightarrow>
     (\<forall>w. fst (run_state (time_Now (cw_Crypto watcher)) w) = clock w) \<and> ticks clock (time_Now (cw_Crypto watcher)) \<and>
     (\<forall>ns n. ticks clock (api_Get (cw_apiReader watcher) ns n)) \<and>
     (\<forall>f. ticks clock (fs_Stat (cw_fs watcher) f)) \<and> (\<forall>f. ticks clock (fs_MkdirAll (cw_fs watcher) f)) \<and>
     (\<forall>f. ticks clock (fs_ReadFile (cw_fs watcher) f)) \<and> (\<forall>f b. ticks clock (fs_WriteFile (cw_fs watcher) f b)) \<and>
     (\<forall>d w. clock w + d \<le> clock (snd (run_state (cw_Sleep watcher d) w)))"

named_theorems ticking \<open>introduction rules for \<open>ticks\<close>\<close>

lemma ticks_ret [ticking]: "ticks clock (ret x)"
  by (simp add: ticks_def)

lemma ticks_bind [ticking]:
  assumes "ticks clock m" and "\<And>x. ticks clock (f x)"
  shows "ticks clock (State_Monad.bind m f)"
  unfolding ticks_def
proof
  fix w
  obtain x w1 where m: "run_state m w = (x, w1)" by fastforce
  have "clock w \<le> clock w1" using assms(1) m unfolding ticks_def by (metis snd_conv)
  also have "\<dots> \<le> clock (snd (run_state (f x) w1))" using assms(2) by (simp add: ticks_def)
  finally show "clock w \<le> clock (snd (run_state (State_Monad.bind m f) w))" using m by simp
qed

lemma ticks_if [ticking]: "ticks clock m \<Longrightarrow> ticks clock n \<Longrightarrow> ticks clock (if b then m else n)"
  by simp

lemma ticks_case_option [ticking]:
  "ticks clock m \<Longrightarrow> (\<And>x. ticks clock (f x)) \<Longrightarrow> ticks clock (case z of None \<Rightarrow> m | Some x \<Rightarrow> f x)"
  by (cases z) simp_all

lemma ticks_case_sum [ticking]:
  "(\<And>x. ticks clock (f x)) \<Longrightarrow> (\<And>x. ticks clock (g x)) \<Longrightarrow> ticks clock (case z of Inl x \<Rightarrow> f x | Inr x \<Rightarrow> g x)"
  by (cases z) simp_all

lemma ticks_case_prod [ticking]:
  "(\<And>x y. ticks clock (f x y)) \<Longrightarrow> ticks clock (case z of (x, y) \<Rightarrow> f x y)"
  by (cases z) simp_all

lemma update_ticks:
  assumes "clock_laws clock watcher"
  shows "ticks clock (updateCertificatesFromSecret watcher)"
proof -
  note laws = assms [unfolded clock_laws_def]
  have one: "ticks clock (ensureCertificateFile watcher secret f)" for secret f
    using laws unfolding ensureCertificateFile_def Let_def by (intro ticking) auto
  show ?thesis
    unfolding updateCertificatesFromSecret_def ensure_files.simps
    using laws by (intro ticking one) auto
qed

text \<open>
  C27: \<open>WaitForCertificates\<close> returns, whatever the API server and the file system answer: with the certificates
  copied, or after its deadline.
\<close>

theorem wait_ends:
  assumes "clock_laws clock watcher"
  shows "\<exists>w'. WaitForCertificates watcher w = Some w' \<and>
     ((\<exists>v. run_state (updateCertificatesFromSecret watcher) v = (None, w')) \<or>
      clock w + cw_certificateThreshold watcher \<le> clock w')"
proof -
  have now: "fst (run_state (time_Now (cw_Crypto watcher)) w) = clock w"
      "clock w \<le> clock (snd (run_state (time_Now (cw_Crypto watcher)) w))"
      and sleep: "clock w + d \<le> clock (snd (run_state (cw_Sleep watcher d) w))" for w d
    using assms by (simp_all add: clock_laws_def ticks_def)
  have loop: "\<exists>w'. wait_loop watcher t w = Some w' \<and>
     ((\<exists>v. run_state (updateCertificatesFromSecret watcher) v = (None, w')) \<or> t \<le> clock w')" for t w
  proof (induction "nat (t - clock w)" arbitrary: w rule: less_induct)
    case less
    obtain w1 where w1: "run_state (time_Now (cw_Crypto watcher)) w = (clock w, w1)" "clock w \<le> clock w1"
      using now [of w] by (metis prod.collapse)
    obtain err w2 where w2: "run_state (updateCertificatesFromSecret watcher) w1 = (err, w2)" by fastforce
    then have "clock w1 \<le> clock w2"
      using update_ticks [OF assms] unfolding ticks_def by (metis snd_conv)
    let ?w3 = "snd (run_state (cw_Sleep watcher (10 * second)) w2)"
    have later: "clock w < clock ?w3"
      using w1(2) \<open>clock w1 \<le> clock w2\<close> sleep [of w2 "10 * second"] by (simp add: second_def)
    show ?case
    proof (cases "clock w < t \<and> err \<noteq> None")
      case True
      then have "wait_loop watcher t w = wait_loop watcher t ?w3"
        using w1 w2 by (subst wait_loop.simps) auto
      then show ?thesis using less [of ?w3] later True by (simp add: zless_nat_conj)
    next
      case False
      then show ?thesis using w1 w2 by (subst wait_loop.simps) (auto split: option.splits)
    qed
  qed
  obtain w1 where "run_state (time_Now (cw_Crypto watcher)) w = (clock w, w1)"
    using now [of w] by (metis prod.collapse)
  then show ?thesis using loop [of "clock w + cw_certificateThreshold watcher" w1] by (simp add: WaitForCertificates_def)
qed

section \<open>The controller and the watcher together\<close>

text \<open>A file system on which nothing fails but reading a file that is not there.\<close>

definition working_fs :: "('w, 'k, 'p) CertificateWatcher \<Rightarrow> bool" where
  "working_fs watcher \<longleftrightarrow>
     (\<forall>f w. fst (run_state (fs_MkdirAll (cw_fs watcher) f) w) = None) \<and>
     (\<forall>f b w. fst (run_state (fs_WriteFile (cw_fs watcher) f b) w) = None) \<and>
     (\<forall>f w. let err = snd (fst (run_state (fs_ReadFile (cw_fs watcher) f) w)) in
        err = None \<or> is_not_exist (cw_fs watcher) err)"

lemma ensured_works:
  assumes "working_fs watcher"
  shows "fst (run_state (ensureCertificateFile watcher secret f) w) = None"
  using assms
  by (auto simp: working_fs_def ensureCertificateFile_def Let_def split: prod.splits)
    (metis fst_conv snd_conv)+

lemma working_update:
  assumes working: "working_fs watcher"
    and get: "run_state (api_Get (cw_apiReader watcher) (cw_namespace watcher) (cw_certificateSecretName watcher)) w = (Inr secret, w1)"
    and run: "run_state (updateCertificatesFromSecret watcher) w = (err, w')"
  shows "\<exists>v now. run_state (time_Now (cw_Crypto watcher)) v = (now, w') \<and>
     (lasts_until (cw_Crypto watcher) (Some (bytes (secret_entry secret ServerCert))) (now + certificateRenewalInterval) \<longrightarrow>
      err = None)"
proof -
  let ?mkdir = "\<lambda>err. if is_not_exist (cw_fs watcher) err then fs_MkdirAll (cw_fs watcher) (cw_certificateDirectory watcher)
    else ret None"
  obtain e2 w2 where stat: "run_state (fs_Stat (cw_fs watcher) (cw_certificateDirectory watcher)) w1 = (e2, w2)" by fastforce
  have "fst (run_state (?mkdir e2) w2) = None" using working by (simp add: working_fs_def)
  then obtain w3 where mk: "run_state (?mkdir e2) w2 = (None, w3)" by (metis prod.collapse)
  obtain w4 where 4: "run_state (ensureCertificateFile watcher secret ServerCert) w3 = (None, w4)"
    using ensured_works [OF working] by (metis prod.collapse)
  obtain w5 where 5: "run_state (ensureCertificateFile watcher secret ServerKey) w4 = (None, w5)"
    using ensured_works [OF working] by (metis prod.collapse)
  obtain now w6 where now: "run_state (time_Now (cw_Crypto watcher)) w5 = (now, w6)" by fastforce
  have "w6 = w'" "lasts_until (cw_Crypto watcher) (Some (bytes (secret_entry secret ServerCert)))
      (now + certificateRenewalInterval) \<longrightarrow> err = None"
    using run get stat mk 4 5 now
      expiration_valid_iff [of "cw_Crypto watcher" "bytes (secret_entry secret ServerCert)" certificateRenewalInterval now None]
    by (auto simp: updateCertificatesFromSecret_def watcher_expiration_valid split: option.splits if_splits)
  then show ?thesis using now by blast
qed

text \<open>
  C26: when the watcher copies what the controller has stored at most three hours before, the round
  succeeds and the certificate file stays valid for nine more hours, longer than the six hours
  until the next round: the served certificate does not expire.
\<close>

theorem served_certificate_valid:
  assumes "x509_laws (cw_Crypto watcher)"
    and "run_state (Certs_Validate (cw_Crypto watcher) cs) v = ((cs', None), v')"
    and "cs_SrcData cs = Some src" and "\<not> IsZero (cs_Now cs)"
    and "fs_laws files watcher" and "clock_laws clock watcher" and "working_fs watcher"
    and "run_state (api_Get (cw_apiReader watcher) (cw_namespace watcher) (cw_certificateSecretName watcher)) w = (Inr secret, w1)"
    and "sec_Data secret = Some (cs_Data cs')"
    and "run_state (updateCertificatesFromSecret watcher) w = (err, w')"
    and "clock w' \<le> cs_Now cs + SuccessDuration"
  shows "err = None \<and>
     (\<exists>b. files w' (path_Join [cw_certificateDirectory watcher, ServerCert]) = Some b \<and>
        lasts_until (cw_Crypto watcher) (Some b) (clock w' + 9 * hour) \<and>
        certificateRenewalInterval < 9 * hour)"
proof -
  let ?b = "bytes (secret_entry secret ServerCert)"
  have "lasts_until (cw_Crypto watcher) (entry (cs_Data cs') ServerCert) (cs_Now cs + 12 * hour)"
    using validated [OF assms(1-4)] by (simp add: Let_def)
  then have lasts: "lasts_until (cw_Crypto watcher) (Some ?b) (cs_Now cs + 12 * hour)"
    using assms(9) by (auto simp: secret_entry_def lasts_until_def)
  obtain u now where now: "run_state (time_Now (cw_Crypto watcher)) u = (now, w')"
      and ok: "lasts_until (cw_Crypto watcher) (Some ?b) (now + certificateRenewalInterval) \<longrightarrow> err = None"
    using working_update [OF assms(7,8,10)] by blast
  have "now = clock u" "clock u \<le> clock w'"
    using assms(6) now unfolding clock_laws_def ticks_def by (metis fst_conv, metis snd_conv)
  then have "now + certificateRenewalInterval \<le> cs_Now cs + 12 * hour"
    using assms(11) by (simp add: certificateRenewalInterval_def SuccessDuration_def second_def)
  then have err: "err = None" using ok lasts_until_mono [OF lasts] by blast
  have "files w' (path_Join [cw_certificateDirectory watcher, ServerCert]) = Some ?b"
    using copied [OF assms(5) assms(10) [unfolded err]] assms(8) by auto
  moreover have "clock w' + 9 * hour \<le> cs_Now cs + 12 * hour"
    using assms(11) by (simp add: SuccessDuration_def second_def)
  ultimately show ?thesis
    using err lasts_until_mono [OF lasts] by (auto simp: certificateRenewalInterval_def second_def)
qed

end
