(* ===== verification/Certificate_Examples.thy ===== *)
theory Certificate_Examples
  imports Certificate_Watcher
begin

text \<open>
  Concrete inputs for the theorems on certificates: a certificate is the number of seconds at which it expires,
  written in strokes, and a state holds the clock, the files and the Secret.
\<close>

section \<open>Packages and a state\<close>

record demo_world =
  dw_clock :: time
  dw_files :: "string \<Rightarrow> string option"
  dw_secret :: Secret

definition strokes :: "int \<Rightarrow> string" where
  "strokes i = (if 0 \<le> i then replicate (nat i) CHR ''1'' else CHR ''-'' # replicate (nat (- i)) CHR ''1'')"

definition count_strokes :: "string \<Rightarrow> int" where
  "count_strokes s = (case s of [] \<Rightarrow> 0 | c # r \<Rightarrow> if c = CHR ''-'' then - int (length r) else int (length s))"

lemma count_strokes [simp]: "count_strokes (strokes i) = i"
  by (cases "nat i") (auto simp: count_strokes_def strokes_def)

definition demo_certificate :: "int \<Rightarrow> Certificate" where
  "demo_certificate secs = (server_template 0 [] 0)\<lparr>crt_NotAfter := secs * second\<rparr>"

definition demo_crypto :: "(demo_world, unit, unit) Crypto" where
  "demo_crypto = \<lparr>ecdsa_GenerateKey = ret (Inr ()), ecdsa_Public = id, rand_Int = \<lambda>n. ret (Inr 7),
     x509_CreateCertificate = \<lambda>tpl parent pub key. ret (Inr (strokes (crt_NotAfter tpl div second))),
     x509_ParseCertificate = \<lambda>der. Inr (demo_certificate (count_strokes der)),
     x509_MarshalECPrivateKey = \<lambda>k. Inr ''k'', x509_ParseECPrivateKey = \<lambda>b. Inr (),
     pem_Decode = (\<lambda>b. case b of [] \<Rightarrow> None | c # r \<Rightarrow> if c = CHR ''P'' then Some r else None),
     pem_EncodeToMemory = \<lambda>ty b. CHR ''P'' # b, time_Now = State (\<lambda>w. (dw_clock w, w))\<rparr>"

lemma demo_x509: "x509_laws demo_crypto"
  by (auto simp: x509_laws_def demo_crypto_def demo_certificate_def minus_mod_eq_div_mult)

section \<open>The controller\<close>

definition demo_certs :: "unit Certs" where
  "demo_certs = \<lparr>cs_Domain = ''*.keptn.svc'', cs_SrcData = Some fmempty, cs_Data = fmempty, cs_Now = second,
     cs_rootPrivateKey = None, cs_rootPublicCert = None\<rparr>"

lemma demo_validate: "\<exists>cs'. run_state (Certs_Validate demo_crypto demo_certs) w = ((cs', None), w)"
  by (simp add: Certs_Validate_def demo_certs_def validateRootCerts_def generateRootCerts_def generateServerCerts_def
      generatePrivateKey_def demo_crypto_def second_def Let_def)

definition demo_data :: data where
  "demo_data = fmap_of_list [(RootKey, Some ''Pk''), (RootCert, Some (CHR ''P'' # strokes 1000000)), (ServerKey, Some ''Pk''),
     (ServerCert, Some (CHR ''P'' # strokes 1000000))]"

definition demo_secret :: Secret where
  "demo_secret = \<lparr>sec_meta = named_meta SecretName ''keptn'', sec_Data = Some demo_data\<rparr>"

definition demo_state :: demo_world where
  "demo_state = \<lparr>dw_clock = second, dw_files = (\<lambda>f. None), dw_secret = demo_secret\<rparr>"

theorem certificates_renewed_witness:
  "\<exists>cs'. run_state (Certs_Validate demo_crypto demo_certs) demo_state = ((cs', None), demo_state) \<and>
     lasts_until demo_crypto (entry (cs_Data cs') RootCert) (second + 12 * hour) \<and>
     lasts_until demo_crypto (entry (cs_Data cs') ServerCert) (second + 12 * hour)"
proof -
  obtain cs' where cs': "run_state (Certs_Validate demo_crypto demo_certs) demo_state = ((cs', None), demo_state)"
    using demo_validate by blast
  have "cs_SrcData demo_certs = Some fmempty" "\<not> IsZero (cs_Now demo_certs)" "cs_Now demo_certs = second"
    by (simp_all add: demo_certs_def second_def)
  then show ?thesis using certificates_renewed [OF demo_x509 cs'] cs' by (simp add: Let_def)
qed

definition secret_api :: "(demo_world, Secret) api" where
  "secret_api = \<lparr>api_Get = \<lambda>ns n. State (\<lambda>w. (Inr (dw_secret w), w)), api_List = \<lambda>ns l. State (\<lambda>w. (Inr [dw_secret w], w)),
     api_Create = \<lambda>x. State (\<lambda>w. (Inr x, w\<lparr>dw_secret := x\<rparr>)), api_Update = \<lambda>x. State (\<lambda>w. (Inr x, w\<lparr>dw_secret := x\<rparr>)),
     api_StatusUpdate = \<lambda>x. ret (Inl (ApiError [])), api_Delete = \<lambda>x. ret (Inl (ApiError []))\<rparr>"

definition void_api :: "(demo_world, 'o) api" where
  "void_api = \<lparr>api_Get = \<lambda>ns n. ret (Inl (ApiNotFound n)), api_List = \<lambda>ns l. ret (Inr []), api_Create = \<lambda>x. ret (Inr x),
     api_Update = \<lambda>x. ret (Inr x), api_StatusUpdate = \<lambda>x. ret (Inr x), api_Delete = \<lambda>x. ret (Inr ())\<rparr>"

definition demo_controller :: "(demo_world, unit, unit) KeptnWebhookCertificateReconciler" where
  "demo_controller = NewReconciler \<lparr>cc_Secret = secret_api, cc_Mutating = void_api, cc_Validating = void_api, cc_CRD = void_api\<rparr>
     demo_crypto None \<lparr>crf_WatchResources = None, crf_MatchLabels = [], crf_Namespace = ''keptn''\<rparr>"

definition demo_webhooks :: "WebhookConfiguration list" where
  "demo_webhooks = [\<lparr>wc_meta = named_meta ''hook'' [], wc_Webhooks =
     [\<lparr>wh_Name = ''hook'', wh_ClientConfig = \<lparr>wcc_Service = ''svc'', wcc_CABundle = CHR ''P'' # strokes 1000000\<rparr>\<rparr>]\<rparr>]"

lemma demo_lookups:
  "fmlookup demo_data RootKey = Some (Some ''Pk'')" "fmlookup demo_data RootCert = Some (Some (CHR ''P'' # strokes 1000000))"
  "fmlookup demo_data ServerKey = Some (Some ''Pk'')" "fmlookup demo_data ServerCert = Some (Some (CHR ''P'' # strokes 1000000))"
  "fmlookup demo_data RootCertOld = None"
  by (simp_all add: demo_data_def)

lemma demo_entries:
  "entry demo_data RootKey = Some ''Pk''" "entry demo_data RootCert = Some (CHR ''P'' # strokes 1000000)"
  "entry demo_data ServerKey = Some ''Pk''" "entry demo_data ServerCert = Some (CHR ''P'' # strokes 1000000)"
  "entry demo_data RootCertOld = None"
  by (simp_all add: entry_def demo_lookups)

lemma demo_certs_set:
  "\<exists>cs certs. run_state (Reconciler_setCertificates demo_controller newCertificateSecret) demo_state = ((cs, None), demo_state) \<and>
     css_secret cs = Some demo_secret \<and> css_certificates cs = Some certs \<and> cs_Data certs = demo_data"
  by (simp add: Reconciler_setCertificates_def demo_controller_def NewReconciler_def setSecretFromReader_def SecretQuery_Get_def
      secret_api_def demo_state_def setCertificates_def newCertificateSecret_def Certs_Validate_def validateRootCerts_def
      validateServerCerts_def ValidateCertificateExpiration_def demo_entries demo_secret_def demo_crypto_def demo_certificate_def
      renewalThreshold_def second_def Let_def)

theorem settled_unless_root_renewed_witness:
  "run_state (inject_certificates demo_controller demo_webhooks [] []) demo_state =
     (Some (\<lparr>Requeue = False, RequeueAfter = SuccessDuration\<rparr>, None), demo_state)"
proof -
  obtain cs certs where cs: "run_state (Reconciler_setCertificates demo_controller newCertificateSecret) demo_state = ((cs, None), demo_state)"
      "css_secret cs = Some demo_secret" "css_certificates cs = Some certs" "cs_Data certs = demo_data"
    using demo_certs_set by blast
  have recent: "isRecent cs" and d: "certificates_data cs = demo_data"
    using cs by (simp_all add: isRecent_def certificates_data_def demo_secret_def)
  have combined: "loadCombinedBundle cs = Inr (CHR ''P'' # strokes 1000000)"
    using cs by (simp add: loadCombinedBundle_def demo_secret_def demo_lookups Let_def)
  show ?thesis
    using settled_unless_root_renewed [OF cs(1) recent cs(2) combined, of demo_webhooks "[]" "[]"]
    by (simp add: d demo_entries demo_webhooks_def getClientConfigsFromMutatingWebhook_def
        getClientConfigsFromValidatingWebhook_def cancelMgr_def demo_controller_def NewReconciler_def)
qed

section \<open>The watcher\<close>

definition demo_fs :: "demo_world FileSystem" where
  "demo_fs = \<lparr>fs_Stat = \<lambda>f. ret None, fs_MkdirAll = \<lambda>f. ret None,
     fs_ReadFile = \<lambda>f. State (\<lambda>w. (case dw_files w f of None \<Rightarrow> ([], Some (ApiNotFound f)) | Some b \<Rightarrow> (b, None), w)),
     fs_WriteFile = \<lambda>f b. State (\<lambda>w. (None, w\<lparr>dw_files := (dw_files w)(f \<mapsto> b)\<rparr>)), os_IsNotExist = IsNotFound\<rparr>"

definition demo_watcher :: "(demo_world, unit, unit) CertificateWatcher" where
  "demo_watcher = NewCertificateWatcher secret_api demo_fs demo_crypto
     (\<lambda>d. State (\<lambda>w. ((), w\<lparr>dw_clock := dw_clock w + \<bar>d\<bar>\<rparr>))) ''/certs'' ''keptn'' SecretName"

lemma demo_fs_laws: "fs_laws dw_files demo_watcher"
  by (auto simp: fs_laws_def keeps_def demo_watcher_def NewCertificateWatcher_def secret_api_def demo_fs_def demo_crypto_def
      split: option.splits)

lemma demo_clock_laws: "clock_laws dw_clock demo_watcher"
  by (auto simp: clock_laws_def ticks_def demo_watcher_def NewCertificateWatcher_def secret_api_def demo_fs_def demo_crypto_def)

lemma demo_working: "working_fs demo_watcher"
  by (auto simp: working_fs_def demo_watcher_def NewCertificateWatcher_def demo_fs_def is_not_exist_def Let_def split: option.splits)

theorem wait_ends_witness: "\<exists>w'. WaitForCertificates demo_watcher demo_state = Some w'"
  using wait_ends [OF demo_clock_laws, of demo_state] by blast

lemma demo_clock_stands:
  "dw_clock (snd (run_state (updateCertificatesFromSecret demo_watcher) w)) = dw_clock w"
  by (auto simp: updateCertificatesFromSecret_def ensureCertificateFile_def demo_watcher_def NewCertificateWatcher_def
      secret_api_def demo_fs_def demo_crypto_def is_not_exist_def Let_def split: option.splits)

theorem served_certificate_valid_witness:
  "\<exists>b w w'. run_state (updateCertificatesFromSecret demo_watcher) w = (None, w') \<and>
     dw_files w' (path_Join [''/certs'', ServerCert]) = Some b \<and> lasts_until demo_crypto (Some b) (dw_clock w' + 9 * hour)"
proof -
  obtain cs' where cs': "run_state (Certs_Validate demo_crypto demo_certs) demo_state = ((cs', None), demo_state)"
    using demo_validate by blast
  let ?secret = "\<lparr>sec_meta = named_meta SecretName ''keptn'', sec_Data = Some (cs_Data cs')\<rparr>"
  let ?w = "demo_state\<lparr>dw_secret := ?secret\<rparr>"
  have crypto: "cw_Crypto demo_watcher = demo_crypto" "cw_certificateDirectory demo_watcher = ''/certs''"
    by (simp_all add: demo_watcher_def NewCertificateWatcher_def)
  have get: "run_state (api_Get (cw_apiReader demo_watcher) (cw_namespace demo_watcher) (cw_certificateSecretName demo_watcher)) ?w =
      (Inr ?secret, ?w)"
    by (simp add: demo_watcher_def NewCertificateWatcher_def secret_api_def)
  have times: "cs_SrcData demo_certs = Some fmempty" "\<not> IsZero (cs_Now demo_certs)" "cs_Now demo_certs = second"
      "dw_clock ?w = second"
    by (simp_all add: demo_certs_def demo_state_def second_def)
  obtain err w' where run: "run_state (updateCertificatesFromSecret demo_watcher) ?w = (err, w')" by fastforce
  have "dw_clock w' = second" using demo_clock_stands [of ?w] run times(4) by simp
  then have "dw_clock w' \<le> cs_Now demo_certs + SuccessDuration" by (simp add: times SuccessDuration_def second_def)
  then show ?thesis
    using served_certificate_valid [OF demo_x509 [folded crypto(1)] cs' [folded crypto(1)] times(1,2) demo_fs_laws demo_clock_laws
        demo_working get _ run] run crypto
    by auto
qed

end
