(* ===== verification/Conversion.thy ===== *)
theory Conversion
  imports Api_Types
begin

text \<open>
  The conversion webhooks of KeptnApp and KeptnAppVersion (\<^verbatim>\<open>apis/lifecycle/v*/keptnapp_conversion.go\<close> and
  \<^verbatim>\<open>keptnappversion_conversion.go\<close>): every older version of the API is converted to and from the hub, version
  \<^verbatim>\<open>v1\<close>.  A conversion writes into an object it is given, which the API machinery has just
  created; lists are appended to, maps are made anew.
\<close>

named_theorems conversion_simps \<open>the definitions of the conversions, for unfolding\<close>

section \<open>The older versions\<close>

text \<open>
  Versions \<^verbatim>\<open>v1alpha1\<close> to \<^verbatim>\<open>v1alpha3\<close> keep the tasks and evaluations of an app in the app itself;
  \<^verbatim>\<open>v1alpha1\<close> has no revision and its own types of task and evaluation states.  \<^verbatim>\<open>v1alpha2\<close> and \<^verbatim>\<open>v1alpha3\<close> have
  the same types, and \<^verbatim>\<open>v1beta1\<close> has those of \<^verbatim>\<open>v1\<close>.
\<close>

record KeptnAppSpec_v1alpha1 =
  a1s_Version :: string
  a1s_Workloads :: "KeptnWorkloadRef list"
  a1s_PreDeploymentTasks :: "string list"
  a1s_PostDeploymentTasks :: "string list"
  a1s_PreDeploymentEvaluations :: "string list"
  a1s_PostDeploymentEvaluations :: "string list"

record KeptnApp_v1alpha1 =
  a1_meta :: ObjectMeta
  a1_Spec :: KeptnAppSpec_v1alpha1
  a1_CurrentVersion :: string

record KeptnAppSpec_v1alpha2 =
  a2s_Version :: string
  a2s_Revision :: nat
  a2s_Workloads :: "KeptnWorkloadRef list"
  a2s_PreDeploymentTasks :: "string list"
  a2s_PostDeploymentTasks :: "string list"
  a2s_PreDeploymentEvaluations :: "string list"
  a2s_PostDeploymentEvaluations :: "string list"

record KeptnApp_v1alpha2 =
  a2_meta :: ObjectMeta
  a2_Spec :: KeptnAppSpec_v1alpha2
  a2_CurrentVersion :: string

type_synonym KeptnApp_v1alpha3 = KeptnApp_v1alpha2
type_synonym KeptnApp_v1beta1 = KeptnApp

record TaskStatus_v1alpha1 =
  tks_TaskDefinitionName :: string
  tks_Status :: KeptnState
  tks_TaskName :: string
  tks_StartTime :: time
  tks_EndTime :: time

record EvaluationStatus_v1alpha1 =
  evs_EvaluationDefinitionName :: string
  evs_Status :: KeptnState
  evs_EvaluationName :: string
  evs_StartTime :: time
  evs_EndTime :: time

record ('t, 'e) AppVersionStatus_alpha =
  aas_PreDeploymentStatus :: KeptnState
  aas_PostDeploymentStatus :: KeptnState
  aas_PreDeploymentEvaluationStatus :: KeptnState
  aas_PostDeploymentEvaluationStatus :: KeptnState
  aas_WorkloadOverallStatus :: KeptnState
  aas_WorkloadStatus :: "WorkloadStatus list"
  aas_CurrentPhase :: string
  aas_PreDeploymentTaskStatus :: "'t list"
  aas_PostDeploymentTaskStatus :: "'t list"
  aas_PreDeploymentEvaluationTaskStatus :: "'e list"
  aas_PostDeploymentEvaluationTaskStatus :: "'e list"
  aas_PhaseTraceIDs :: PhaseTraceID
  aas_Status :: KeptnState
  aas_StartTime :: time
  aas_EndTime :: time

record ('s, 't, 'e) AppVersion_alpha =
  aa_meta :: ObjectMeta
  aa_AppSpec :: 's
  aa_AppName :: string
  aa_PreviousVersion :: string
  aa_TraceId :: smap
  aa_Status :: "('t, 'e) AppVersionStatus_alpha"

type_synonym KeptnAppVersion_v1alpha1 =
  "(KeptnAppSpec_v1alpha1, TaskStatus_v1alpha1, EvaluationStatus_v1alpha1) AppVersion_alpha"
type_synonym KeptnAppVersion_v1alpha2 = "(KeptnAppSpec_v1alpha2, ItemStatus, ItemStatus) AppVersion_alpha"
type_synonym KeptnAppVersion_v1alpha3 = KeptnAppVersion_v1alpha2
type_synonym KeptnAppVersion_v1beta1 = KeptnAppVersion

text \<open>An object that may or may not be a hub of the expected type.\<close>

datatype Hub = HubApp KeptnApp | HubAppVersion KeptnAppVersion | HubOther string

fun hub_type :: "Hub \<Rightarrow> string" where
  "hub_type (HubApp a) = ''*v1.KeptnApp''"
| "hub_type (HubAppVersion v) = ''*v1.KeptnAppVersion''"
| "hub_type (HubOther t) = t"

definition cannot_cast_app :: "Hub \<Rightarrow> error" where
  "cannot_cast_app h = Wrapped (''type '' @ hub_type h @ '' '') (Sentinel ''cannot cast KeptnApp to v1'')"

definition cannot_cast_version :: "Hub \<Rightarrow> error" where
  "cannot_cast_version h = Wrapped (''type '' @ hub_type h @ '' '') (Sentinel ''cannot cast KeptnAppVersion to v1'')"

text \<open>The loops that copy lists and maps.\<close>

definition copy_workload :: "KeptnWorkloadRef \<Rightarrow> KeptnWorkloadRef" where
  [conversion_simps]: "copy_workload w = \<lparr>wr_Name = wr_Name w, wr_Version = wr_Version w\<rparr>"

definition copy_workload_status :: "WorkloadStatus \<Rightarrow> WorkloadStatus" where
  [conversion_simps]: "copy_workload_status s = \<lparr>ws_Workload = copy_workload (ws_Workload s), ws_Status = ws_Status s\<rparr>"

definition copy_item :: "ItemStatus \<Rightarrow> ItemStatus" where
  [conversion_simps]: "copy_item i = \<lparr>is_DefinitionName = is_DefinitionName i, is_Status = is_Status i, is_Name = is_Name i,
     is_StartTime = is_StartTime i, is_EndTime = is_EndTime i\<rparr>"

definition item_of_task :: "TaskStatus_v1alpha1 \<Rightarrow> ItemStatus" where
  [conversion_simps]: "item_of_task i = \<lparr>is_DefinitionName = tks_TaskDefinitionName i, is_Status = tks_Status i,
     is_Name = tks_TaskName i, is_StartTime = tks_StartTime i, is_EndTime = tks_EndTime i\<rparr>"

definition task_of_item :: "ItemStatus \<Rightarrow> TaskStatus_v1alpha1" where
  [conversion_simps]: "task_of_item i = \<lparr>tks_TaskDefinitionName = is_DefinitionName i, tks_Status = is_Status i,
     tks_TaskName = is_Name i, tks_StartTime = is_StartTime i, tks_EndTime = is_EndTime i\<rparr>"

definition item_of_evaluation :: "EvaluationStatus_v1alpha1 \<Rightarrow> ItemStatus" where
  [conversion_simps]: "item_of_evaluation i = \<lparr>is_DefinitionName = evs_EvaluationDefinitionName i, is_Status = evs_Status i,
     is_Name = evs_EvaluationName i, is_StartTime = evs_StartTime i, is_EndTime = evs_EndTime i\<rparr>"

definition evaluation_of_item :: "ItemStatus \<Rightarrow> EvaluationStatus_v1alpha1" where
  [conversion_simps]: "evaluation_of_item i = \<lparr>evs_EvaluationDefinitionName = is_DefinitionName i, evs_Status = is_Status i,
     evs_EvaluationName = is_Name i, evs_StartTime = is_StartTime i, evs_EndTime = is_EndTime i\<rparr>"

definition copy_map :: "('k, 'v) gomap \<Rightarrow> ('k, 'v) gomap" where
  "copy_map m = Some (gm_fmap m)"

definition copy_trace_ids :: "PhaseTraceID \<Rightarrow> PhaseTraceID" where
  "copy_trace_ids m = Some (fmmap copy_map (gm_fmap m))"

section \<open>KeptnApp\<close>

definition KeptnApp_v1alpha1_ConvertTo :: "KeptnApp_v1alpha1 \<Rightarrow> Hub \<Rightarrow> error + KeptnApp" where
  "KeptnApp_v1alpha1_ConvertTo src dstRaw =
     (case dstRaw of
        HubApp dst \<Rightarrow> Inr (dst\<lparr>a_meta := a1_meta src,
          a_Spec := (a_Spec dst)\<lparr>as_Version := a1s_Version (a1_Spec src),
            as_Revision := 1,
            as_Workloads := as_Workloads (a_Spec dst) @ map copy_workload (a1s_Workloads (a1_Spec src))\<rparr>,
          a_CurrentVersion := a1_CurrentVersion src\<rparr>)
      | _ \<Rightarrow> Inl (cannot_cast_app dstRaw))"

definition KeptnApp_v1alpha1_ConvertFrom :: "KeptnApp_v1alpha1 \<Rightarrow> Hub \<Rightarrow> error + KeptnApp_v1alpha1" where
  "KeptnApp_v1alpha1_ConvertFrom dst srcRaw =
     (case srcRaw of
        HubApp src \<Rightarrow> Inr (dst\<lparr>a1_meta := a_meta src,
          a1_Spec := (a1_Spec dst)\<lparr>a1s_Version := as_Version (a_Spec src),
            a1s_Workloads := a1s_Workloads (a1_Spec dst) @ map copy_workload (as_Workloads (a_Spec src))\<rparr>,
          a1_CurrentVersion := a_CurrentVersion src\<rparr>)
      | _ \<Rightarrow> Inl (cannot_cast_app srcRaw))"

definition KeptnApp_v1alpha2_ConvertTo :: "KeptnApp_v1alpha2 \<Rightarrow> Hub \<Rightarrow> error + KeptnApp" where
  "KeptnApp_v1alpha2_ConvertTo src dstRaw =
     (case dstRaw of
        HubApp dst \<Rightarrow> Inr (dst\<lparr>a_meta := a2_meta src,
          a_Spec := (a_Spec dst)\<lparr>as_Version := a2s_Version (a2_Spec src),
            as_Revision := a2s_Revision (a2_Spec src),
            as_Workloads := as_Workloads (a_Spec dst) @ map copy_workload (a2s_Workloads (a2_Spec src))\<rparr>,
          a_CurrentVersion := a2_CurrentVersion src\<rparr>)
      | _ \<Rightarrow> Inl (cannot_cast_app dstRaw))"

definition KeptnApp_v1alpha2_ConvertFrom :: "KeptnApp_v1alpha2 \<Rightarrow> Hub \<Rightarrow> error + KeptnApp_v1alpha2" where
  "KeptnApp_v1alpha2_ConvertFrom dst srcRaw =
     (case srcRaw of
        HubApp src \<Rightarrow> Inr (dst\<lparr>a2_meta := a_meta src,
          a2_Spec := (a2_Spec dst)\<lparr>a2s_Version := as_Version (a_Spec src),
            a2s_Revision := as_Revision (a_Spec src),
            a2s_Workloads := a2s_Workloads (a2_Spec dst) @ map copy_workload (as_Workloads (a_Spec src))\<rparr>,
          a2_CurrentVersion := a_CurrentVersion src\<rparr>)
      | _ \<Rightarrow> Inl (cannot_cast_app srcRaw))"

definition KeptnApp_v1alpha3_ConvertTo :: "KeptnApp_v1alpha3 \<Rightarrow> Hub \<Rightarrow> error + KeptnApp" where
  "KeptnApp_v1alpha3_ConvertTo src dstRaw =
     (case dstRaw of
        HubApp dst \<Rightarrow> Inr (dst\<lparr>a_meta := a2_meta src,
          a_Spec := (a_Spec dst)\<lparr>as_Version := a2s_Version (a2_Spec src),
            as_Revision := a2s_Revision (a2_Spec src),
            as_Workloads := as_Workloads (a_Spec dst) @ map copy_workload (a2s_Workloads (a2_Spec src))\<rparr>,
          a_CurrentVersion := a2_CurrentVersion src\<rparr>)
      | _ \<Rightarrow> Inl (cannot_cast_app dstRaw))"

definition KeptnApp_v1alpha3_ConvertFrom :: "KeptnApp_v1alpha3 \<Rightarrow> Hub \<Rightarrow> error + KeptnApp_v1alpha3" where
  "KeptnApp_v1alpha3_ConvertFrom dst srcRaw =
     (case srcRaw of
        HubApp src \<Rightarrow> Inr (dst\<lparr>a2_meta := a_meta src,
          a2_Spec := (a2_Spec dst)\<lparr>a2s_Version := as_Version (a_Spec src),
            a2s_Revision := as_Revision (a_Spec src),
            a2s_Workloads := a2s_Workloads (a2_Spec dst) @ map copy_workload (as_Workloads (a_Spec src))\<rparr>,
          a2_CurrentVersion := a_CurrentVersion src\<rparr>)
      | _ \<Rightarrow> Inl (cannot_cast_app srcRaw))"

definition KeptnApp_v1beta1_ConvertTo :: "KeptnApp_v1beta1 \<Rightarrow> Hub \<Rightarrow> error + KeptnApp" where
  "KeptnApp_v1beta1_ConvertTo src dstRaw =
     (case dstRaw of
        HubApp dst \<Rightarrow> Inr (dst\<lparr>a_meta := a_meta src,
          a_Spec := (a_Spec dst)\<lparr>as_Version := as_Version (a_Spec src),
            as_Revision := as_Revision (a_Spec src),
            as_Workloads := as_Workloads (a_Spec dst) @ map copy_workload (as_Workloads (a_Spec src))\<rparr>,
          a_CurrentVersion := a_CurrentVersion src\<rparr>)
      | _ \<Rightarrow> Inl (cannot_cast_app dstRaw))"

definition KeptnApp_v1beta1_ConvertFrom :: "KeptnApp_v1beta1 \<Rightarrow> Hub \<Rightarrow> error + KeptnApp_v1beta1" where
  "KeptnApp_v1beta1_ConvertFrom dst srcRaw =
     (case srcRaw of
        HubApp src \<Rightarrow> Inr (dst\<lparr>a_meta := a_meta src,
          a_Spec := (a_Spec dst)\<lparr>as_Version := as_Version (a_Spec src),
            as_Revision := as_Revision (a_Spec src),
            as_Workloads := as_Workloads (a_Spec dst) @ map copy_workload (as_Workloads (a_Spec src))\<rparr>,
          a_CurrentVersion := a_CurrentVersion src\<rparr>)
      | _ \<Rightarrow> Inl (cannot_cast_app srcRaw))"

section \<open>KeptnAppVersion\<close>

definition KeptnAppVersion_v1alpha1_ConvertTo :: "KeptnAppVersion_v1alpha1 \<Rightarrow> Hub \<Rightarrow> error + KeptnAppVersion" where
  "KeptnAppVersion_v1alpha1_ConvertTo src dstRaw =
     (case dstRaw of
        HubAppVersion dst \<Rightarrow>
          (let spec = aa_AppSpec src; st = aa_Status src; dspec = av_Spec dst; dst' = av_Status dst;
               dctx = avs_ContextSpec dspec; dapp = avs_AppSpec dspec
           in Inr (dst\<lparr>av_meta := aa_meta src,
             av_Spec := dspec\<lparr>
               avs_ContextSpec := dctx\<lparr>acs_DeploymentTaskSpec := (acs_DeploymentTaskSpec dctx)\<lparr>
                 dts_PreDeploymentTasks := a1s_PreDeploymentTasks spec,
                 dts_PostDeploymentTasks := a1s_PostDeploymentTasks spec,
                 dts_PreDeploymentEvaluations := a1s_PreDeploymentEvaluations spec,
                 dts_PostDeploymentEvaluations := a1s_PostDeploymentEvaluations spec\<rparr>\<rparr>,
               avs_AppSpec := dapp\<lparr>as_Version := a1s_Version spec, as_Revision := 1,
                 as_Workloads := as_Workloads dapp @ map copy_workload (a1s_Workloads spec)\<rparr>,
               avs_AppName := aa_AppName src, avs_PreviousVersion := aa_PreviousVersion src,
               avs_TraceId := copy_map (aa_TraceId src)\<rparr>,
             av_Status := dst'\<lparr>
               avst_PreDeploymentStatus := aas_PreDeploymentStatus st,
               avst_PostDeploymentStatus := aas_PostDeploymentStatus st,
               avst_PreDeploymentEvaluationStatus := aas_PreDeploymentEvaluationStatus st,
               avst_PostDeploymentEvaluationStatus := aas_PostDeploymentEvaluationStatus st,
               avst_WorkloadOverallStatus := aas_WorkloadOverallStatus st,
               avst_Status := aas_Status st,
               avst_WorkloadStatus := avst_WorkloadStatus dst' @ map copy_workload_status (aas_WorkloadStatus st),
               avst_CurrentPhase := aas_CurrentPhase st,
               avst_PreDeploymentTaskStatus :=
                 avst_PreDeploymentTaskStatus dst' @ map item_of_task (aas_PreDeploymentTaskStatus st),
               avst_PostDeploymentTaskStatus :=
                 avst_PostDeploymentTaskStatus dst' @ map item_of_task (aas_PostDeploymentTaskStatus st),
               avst_PreDeploymentEvaluationTaskStatus :=
                 avst_PreDeploymentEvaluationTaskStatus dst' @ map item_of_evaluation (aas_PreDeploymentEvaluationTaskStatus st),
               avst_PostDeploymentEvaluationTaskStatus :=
                 avst_PostDeploymentEvaluationTaskStatus dst' @ map item_of_evaluation (aas_PostDeploymentEvaluationTaskStatus st),
               avst_PhaseTraceIDs := copy_trace_ids (aas_PhaseTraceIDs st),
               avst_StartTime := aas_StartTime st, avst_EndTime := aas_EndTime st\<rparr>\<rparr>))
      | _ \<Rightarrow> Inl (cannot_cast_version dstRaw))"

definition KeptnAppVersion_v1alpha1_ConvertFrom :: "KeptnAppVersion_v1alpha1 \<Rightarrow> Hub \<Rightarrow> error + KeptnAppVersion_v1alpha1" where
  "KeptnAppVersion_v1alpha1_ConvertFrom dst srcRaw =
     (case srcRaw of
        HubAppVersion src \<Rightarrow>
          (let app = avs_AppSpec (av_Spec src); tasks = acs_DeploymentTaskSpec (avs_ContextSpec (av_Spec src));
               st = av_Status src; dspec = aa_AppSpec dst; dst' = aa_Status dst
           in Inr (dst\<lparr>aa_meta := av_meta src,
             aa_AppSpec := dspec\<lparr>a1s_Version := as_Version app,
               a1s_Workloads := a1s_Workloads dspec @ map copy_workload (as_Workloads app),
               a1s_PreDeploymentTasks := dts_PreDeploymentTasks tasks,
               a1s_PostDeploymentTasks := dts_PostDeploymentTasks tasks,
               a1s_PreDeploymentEvaluations := dts_PreDeploymentEvaluations tasks,
               a1s_PostDeploymentEvaluations := dts_PostDeploymentEvaluations tasks\<rparr>,
             aa_AppName := avs_AppName (av_Spec src), aa_PreviousVersion := avs_PreviousVersion (av_Spec src),
             aa_TraceId := copy_map (avs_TraceId (av_Spec src)),
             aa_Status := dst'\<lparr>
               aas_PreDeploymentStatus := avst_PreDeploymentStatus st,
               aas_PostDeploymentStatus := avst_PostDeploymentStatus st,
               aas_PreDeploymentEvaluationStatus := avst_PreDeploymentEvaluationStatus st,
               aas_PostDeploymentEvaluationStatus := avst_PostDeploymentEvaluationStatus st,
               aas_WorkloadOverallStatus := avst_WorkloadOverallStatus st,
               aas_Status := avst_Status st,
               aas_WorkloadStatus := aas_WorkloadStatus dst' @ map copy_workload_status (avst_WorkloadStatus st),
               aas_CurrentPhase := avst_CurrentPhase st,
               aas_PreDeploymentTaskStatus :=
                 aas_PreDeploymentTaskStatus dst' @ map task_of_item (avst_PreDeploymentTaskStatus st),
               aas_PostDeploymentTaskStatus :=
                 aas_PostDeploymentTaskStatus dst' @ map task_of_item (avst_PostDeploymentTaskStatus st),
               aas_PreDeploymentEvaluationTaskStatus :=
                 aas_PreDeploymentEvaluationTaskStatus dst' @ map evaluation_of_item (avst_PreDeploymentEvaluationTaskStatus st),
               aas_PostDeploymentEvaluationTaskStatus :=
                 aas_PostDeploymentEvaluationTaskStatus dst' @ map evaluation_of_item (avst_PostDeploymentEvaluationTaskStatus st),
               aas_PhaseTraceIDs := copy_trace_ids (avst_PhaseTraceIDs st),
               aas_StartTime := avst_StartTime st, aas_EndTime := avst_EndTime st\<rparr>\<rparr>))
      | _ \<Rightarrow> Inl (cannot_cast_version srcRaw))"

definition KeptnAppVersion_v1alpha2_ConvertTo :: "KeptnAppVersion_v1alpha2 \<Rightarrow> Hub \<Rightarrow> error + KeptnAppVersion" where
  "KeptnAppVersion_v1alpha2_ConvertTo src dstRaw =
     (case dstRaw of
        HubAppVersion dst \<Rightarrow>
          (let spec = aa_AppSpec src; st = aa_Status src; dspec = av_Spec dst; dst' = av_Status dst;
               dctx = avs_ContextSpec dspec; dapp = avs_AppSpec dspec
           in Inr (dst\<lparr>av_meta := aa_meta src,
             av_Spec := dspec\<lparr>
               avs_ContextSpec := dctx\<lparr>acs_DeploymentTaskSpec := (acs_DeploymentTaskSpec dctx)\<lparr>
                 dts_PreDeploymentTasks := a2s_PreDeploymentTasks spec,
                 dts_PostDeploymentTasks := a2s_PostDeploymentTasks spec,
                 dts_PreDeploymentEvaluations := a2s_PreDeploymentEvaluations spec,
                 dts_PostDeploymentEvaluations := a2s_PostDeploymentEvaluations spec\<rparr>\<rparr>,
               avs_AppSpec := dapp\<lparr>as_Version := a2s_Version spec, as_Revision := 1,
                 as_Workloads := as_Workloads dapp @ map copy_workload (a2s_Workloads spec)\<rparr>,
               avs_AppName := aa_AppName src, avs_PreviousVersion := aa_PreviousVersion src,
               avs_TraceId := copy_map (aa_TraceId src)\<rparr>,
             av_Status := dst'\<lparr>
               avst_PreDeploymentStatus := aas_PreDeploymentStatus st,
               avst_PostDeploymentStatus := aas_PostDeploymentStatus st,
               avst_PreDeploymentEvaluationStatus := aas_PreDeploymentEvaluationStatus st,
               avst_PostDeploymentEvaluationStatus := aas_PostDeploymentEvaluationStatus st,
               avst_WorkloadOverallStatus := aas_WorkloadOverallStatus st,
               avst_Status := aas_Status st,
               avst_WorkloadStatus := avst_WorkloadStatus dst' @ map copy_workload_status (aas_WorkloadStatus st),
               avst_CurrentPhase := aas_CurrentPhase st,
               avst_PreDeploymentTaskStatus :=
                 avst_PreDeploymentTaskStatus dst' @ map copy_item (aas_PreDeploymentTaskStatus st),
               avst_PostDeploymentTaskStatus :=
                 avst_PostDeploymentTaskStatus dst' @ map copy_item (aas_PostDeploymentTaskStatus st),
               avst_PreDeploymentEvaluationTaskStatus :=
                 avst_PreDeploymentEvaluationTaskStatus dst' @ map copy_item (aas_PreDeploymentEvaluationTaskStatus st),
               avst_PostDeploymentEvaluationTaskStatus :=
                 avst_PostDeploymentEvaluationTaskStatus dst' @ map copy_item (aas_PostDeploymentEvaluationTaskStatus st),
               avst_PhaseTraceIDs := copy_trace_ids (aas_PhaseTraceIDs st),
               avst_StartTime := aas_StartTime st, avst_EndTime := aas_EndTime st\<rparr>\<rparr>))
      | _ \<Rightarrow> Inl (cannot_cast_version dstRaw))"

definition KeptnAppVersion_v1alpha2_ConvertFrom :: "KeptnAppVersion_v1alpha2 \<Rightarrow> Hub \<Rightarrow> error + KeptnAppVersion_v1alpha2" where
  "KeptnAppVersion_v1alpha2_ConvertFrom dst srcRaw =
     (case srcRaw of
        HubAppVersion src \<Rightarrow>
          (let app = avs_AppSpec (av_Spec src); tasks = acs_DeploymentTaskSpec (avs_ContextSpec (av_Spec src));
               st = av_Status src; dspec = aa_AppSpec dst; dst' = aa_Status dst
           in Inr (dst\<lparr>aa_meta := av_meta src,
             aa_AppSpec := dspec\<lparr>a2s_Version := as_Version app,
               a2s_Workloads := a2s_Workloads dspec @ map copy_workload (as_Workloads app),
               a2s_PreDeploymentTasks := dts_PreDeploymentTasks tasks,
               a2s_PostDeploymentTasks := dts_PostDeploymentTasks tasks,
               a2s_PreDeploymentEvaluations := dts_PreDeploymentEvaluations tasks,
               a2s_PostDeploymentEvaluations := dts_PostDeploymentEvaluations tasks\<rparr>,
             aa_AppName := avs_AppName (av_Spec src), aa_PreviousVersion := avs_PreviousVersion (av_Spec src),
             aa_TraceId := copy_map (avs_TraceId (av_Spec src)),
             aa_Status := dst'\<lparr>
               aas_PreDeploymentStatus := avst_PreDeploymentStatus st,
               aas_PostDeploymentStatus := avst_PostDeploymentStatus st,
               aas_PreDeploymentEvaluationStatus := avst_PreDeploymentEvaluationStatus st,
               aas_PostDeploymentEvaluationStatus := avst_PostDeploymentEvaluationStatus st,
               aas_WorkloadOverallStatus := avst_WorkloadOverallStatus st,
               aas_Status := avst_Status st,
               aas_WorkloadStatus := aas_WorkloadStatus dst' @ map copy_workload_status (avst_WorkloadStatus st),
               aas_CurrentPhase := avst_CurrentPhase st,
               aas_PreDeploymentTaskStatus :=
                 aas_PreDeploymentTaskStatus dst' @ map copy_item (avst_PreDeploymentTaskStatus st),
               aas_PostDeploymentTaskStatus :=
                 aas_PostDeploymentTaskStatus dst' @ map copy_item (avst_PostDeploymentTaskStatus st),
               aas_PreDeploymentEvaluationTaskStatus :=
                 aas_PreDeploymentEvaluationTaskStatus dst' @ map copy_item (avst_PreDeploymentEvaluationTaskStatus st),
               aas_PostDeploymentEvaluationTaskStatus :=
                 aas_PostDeploymentEvaluationTaskStatus dst' @ map copy_item (avst_PostDeploymentEvaluationTaskStatus st),
               aas_PhaseTraceIDs := copy_trace_ids (avst_PhaseTraceIDs st),
               aas_StartTime := avst_StartTime st, aas_EndTime := avst_EndTime st\<rparr>\<rparr>))
      | _ \<Rightarrow> Inl (cannot_cast_version srcRaw))"

definition KeptnAppVersion_v1alpha3_ConvertTo :: "KeptnAppVersion_v1alpha3 \<Rightarrow> Hub \<Rightarrow> error + KeptnAppVersion" where
  "KeptnAppVersion_v1alpha3_ConvertTo src dstRaw =
     (case dstRaw of
        HubAppVersion dst \<Rightarrow>
          (let spec = aa_AppSpec src; st = aa_Status src; dspec = av_Spec dst; dst' = av_Status dst;
               dctx = avs_ContextSpec dspec; dapp = avs_AppSpec dspec
           in Inr (dst\<lparr>av_meta := aa_meta src,
             av_Spec := dspec\<lparr>
               avs_ContextSpec := dctx\<lparr>acs_DeploymentTaskSpec := (acs_DeploymentTaskSpec dctx)\<lparr>
                 dts_PreDeploymentTasks := a2s_PreDeploymentTasks spec,
                 dts_PostDeploymentTasks := a2s_PostDeploymentTasks spec,
                 dts_PreDeploymentEvaluations := a2s_PreDeploymentEvaluations spec,
                 dts_PostDeploymentEvaluations := a2s_PostDeploymentEvaluations spec\<rparr>\<rparr>,
               avs_AppSpec := dapp\<lparr>as_Version := a2s_Version spec, as_Revision := a2s_Revision spec,
                 as_Workloads := as_Workloads dapp @ map copy_workload (a2s_Workloads spec)\<rparr>,
               avs_AppName := aa_AppName src, avs_PreviousVersion := aa_PreviousVersion src,
               avs_TraceId := copy_map (aa_TraceId src)\<rparr>,
             av_Status := dst'\<lparr>
               avst_PreDeploymentStatus := aas_PreDeploymentStatus st,
               avst_PostDeploymentStatus := aas_PostDeploymentStatus st,
               avst_PreDeploymentEvaluationStatus := aas_PreDeploymentEvaluationStatus st,
               avst_PostDeploymentEvaluationStatus := aas_PostDeploymentEvaluationStatus st,
               avst_WorkloadOverallStatus := aas_WorkloadOverallStatus st,
               avst_Status := aas_Status st,
               avst_WorkloadStatus := avst_WorkloadStatus dst' @ map copy_workload_status (aas_WorkloadStatus st),
               avst_CurrentPhase := aas_CurrentPhase st,
               avst_PreDeploymentTaskStatus :=
                 avst_PreDeploymentTaskStatus dst' @ map copy_item (aas_PreDeploymentTaskStatus st),
               avst_PostDeploymentTaskStatus :=
                 avst_PostDeploymentTaskStatus dst' @ map copy_item (aas_PostDeploymentTaskStatus st),
               avst_PreDeploymentEvaluationTaskStatus :=
                 avst_PreDeploymentEvaluationTaskStatus dst' @ map copy_item (aas_PreDeploymentEvaluationTaskStatus st),
               avst_PostDeploymentEvaluationTaskStatus :=
                 avst_PostDeploymentEvaluationTaskStatus dst' @ map copy_item (aas_PostDeploymentEvaluationTaskStatus st),
               avst_PhaseTraceIDs := copy_trace_ids (aas_PhaseTraceIDs st),
               avst_StartTime := aas_StartTime st, avst_EndTime := aas_EndTime st\<rparr>\<rparr>))
      | _ \<Rightarrow> Inl (cannot_cast_version dstRaw))"

definition KeptnAppVersion_v1alpha3_ConvertFrom :: "KeptnAppVersion_v1alpha3 \<Rightarrow> Hub \<Rightarrow> error + KeptnAppVersion_v1alpha3" where
  "KeptnAppVersion_v1alpha3_ConvertFrom dst srcRaw =
     (case srcRaw of
        HubAppVersion src \<Rightarrow>
          (let app = avs_AppSpec (av_Spec src); tasks = acs_DeploymentTaskSpec (avs_ContextSpec (av_Spec src));
               st = av_Status src; dspec = aa_AppSpec dst; dst' = aa_Status dst
           in Inr (dst\<lparr>aa_meta := av_meta src,
             aa_AppSpec := dspec\<lparr>a2s_Version := as_Version app, a2s_Revision := as_Revision app,
               a2s_Workloads := a2s_Workloads dspec @ map copy_workload (as_Workloads app),
               a2s_PreDeploymentTasks := dts_PreDeploymentTasks tasks,
               a2s_PostDeploymentTasks := dts_PostDeploymentTasks tasks,
               a2s_PreDeploymentEvaluations := dts_PreDeploymentEvaluations tasks,
               a2s_PostDeploymentEvaluations := dts_PostDeploymentEvaluations tasks\<rparr>,
             aa_AppName := avs_AppName (av_Spec src), aa_PreviousVersion := avs_PreviousVersion (av_Spec src),
             aa_TraceId := copy_map (avs_TraceId (av_Spec src)),
             aa_Status := dst'\<lparr>
               aas_PreDeploymentStatus := avst_PreDeploymentStatus st,
               aas_PostDeploymentStatus := avst_PostDeploymentStatus st,
               aas_PreDeploymentEvaluationStatus := avst_PreDeploymentEvaluationStatus st,
               aas_PostDeploymentEvaluationStatus := avst_PostDeploymentEvaluationStatus st,
               aas_WorkloadOverallStatus := avst_WorkloadOverallStatus st,
               aas_Status := avst_Status st,
               aas_WorkloadStatus := aas_WorkloadStatus dst' @ map copy_workload_status (avst_WorkloadStatus st),
               aas_CurrentPhase := avst_CurrentPhase st,
               aas_PreDeploymentTaskStatus :=
                 aas_PreDeploymentTaskStatus dst' @ map copy_item (avst_PreDeploymentTaskStatus st),
               aas_PostDeploymentTaskStatus :=
                 aas_PostDeploymentTaskStatus dst' @ map copy_item (avst_PostDeploymentTaskStatus st),
               aas_PreDeploymentEvaluationTaskStatus :=
                 aas_PreDeploymentEvaluationTaskStatus dst' @ map copy_item (avst_PreDeploymentEvaluationTaskStatus st),
               aas_PostDeploymentEvaluationTaskStatus :=
                 aas_PostDeploymentEvaluationTaskStatus dst' @ map copy_item (avst_PostDeploymentEvaluationTaskStatus st),
               aas_PhaseTraceIDs := copy_trace_ids (avst_PhaseTraceIDs st),
               aas_StartTime := avst_StartTime st, aas_EndTime := avst_EndTime st\<rparr>\<rparr>))
      | _ \<Rightarrow> Inl (cannot_cast_version srcRaw))"

definition KeptnAppVersion_v1beta1_ConvertTo :: "KeptnAppVersion_v1beta1 \<Rightarrow> Hub \<Rightarrow> error + KeptnAppVersion" where
  "KeptnAppVersion_v1beta1_ConvertTo src dstRaw =
     (case dstRaw of
        HubAppVersion dst \<Rightarrow>
          (let tasks = acs_DeploymentTaskSpec (avs_ContextSpec (av_Spec src)); app = avs_AppSpec (av_Spec src);
               st = av_Status src; dspec = av_Spec dst; dst' = av_Status dst;
               dctx = avs_ContextSpec dspec; dapp = avs_AppSpec dspec
           in Inr (dst\<lparr>av_meta := av_meta src,
             av_Spec := dspec\<lparr>
               avs_ContextSpec := dctx\<lparr>acs_DeploymentTaskSpec := (acs_DeploymentTaskSpec dctx)\<lparr>
                 dts_PreDeploymentTasks := dts_PreDeploymentTasks tasks,
                 dts_PostDeploymentTasks := dts_PostDeploymentTasks tasks,
                 dts_PreDeploymentEvaluations := dts_PreDeploymentEvaluations tasks,
                 dts_PostDeploymentEvaluations := dts_PostDeploymentEvaluations tasks,
                 dts_PromotionTasks := dts_PromotionTasks tasks\<rparr>\<rparr>,
               avs_AppSpec := dapp\<lparr>as_Version := as_Version app, as_Revision := as_Revision app,
                 as_Workloads := as_Workloads dapp @ map copy_workload (as_Workloads app)\<rparr>,
               avs_AppName := avs_AppName (av_Spec src), avs_PreviousVersion := avs_PreviousVersion (av_Spec src),
               avs_TraceId := copy_map (avs_TraceId (av_Spec src))\<rparr>,
             av_Status := dst'\<lparr>
               avst_PreDeploymentStatus := avst_PreDeploymentStatus st,
               avst_PostDeploymentStatus := avst_PostDeploymentStatus st,
               avst_PreDeploymentEvaluationStatus := avst_PreDeploymentEvaluationStatus st,
               avst_PostDeploymentEvaluationStatus := avst_PostDeploymentEvaluationStatus st,
               avst_WorkloadOverallStatus := avst_WorkloadOverallStatus st,
               avst_PromotionStatus := avst_PromotionStatus st,
               avst_Status := avst_Status st,
               avst_WorkloadStatus := avst_WorkloadStatus dst' @ map copy_workload_status (avst_WorkloadStatus st),
               avst_CurrentPhase := avst_CurrentPhase st,
               avst_PreDeploymentTaskStatus :=
                 avst_PreDeploymentTaskStatus dst' @ map copy_item (avst_PreDeploymentTaskStatus st),
               avst_PostDeploymentTaskStatus :=
                 avst_PostDeploymentTaskStatus dst' @ map copy_item (avst_PostDeploymentTaskStatus st),
               avst_PreDeploymentEvaluationTaskStatus :=
                 avst_PreDeploymentEvaluationTaskStatus dst' @ map copy_item (avst_PreDeploymentEvaluationTaskStatus st),
               avst_PostDeploymentEvaluationTaskStatus :=
                 avst_PostDeploymentEvaluationTaskStatus dst' @ map copy_item (avst_PostDeploymentEvaluationTaskStatus st),
               avst_PromotionTaskStatus :=
                 avst_PromotionTaskStatus dst' @ map copy_item (avst_PromotionTaskStatus st),
               avst_PhaseTraceIDs := copy_trace_ids (avst_PhaseTraceIDs st),
               avst_StartTime := avst_StartTime st, avst_EndTime := avst_EndTime st\<rparr>\<rparr>))
      | _ \<Rightarrow> Inl (cannot_cast_version dstRaw))"

definition KeptnAppVersion_v1beta1_ConvertFrom :: "KeptnAppVersion_v1beta1 \<Rightarrow> Hub \<Rightarrow> error + KeptnAppVersion" where
  "KeptnAppVersion_v1beta1_ConvertFrom dst srcRaw =
     (case srcRaw of
        HubAppVersion src \<Rightarrow>
          (let tasks = acs_DeploymentTaskSpec (avs_ContextSpec (av_Spec src)); app = avs_AppSpec (av_Spec src);
               st = av_Status src; dspec = av_Spec dst; dst' = av_Status dst;
               dctx = avs_ContextSpec dspec; dapp = avs_AppSpec dspec
           in Inr (dst\<lparr>av_meta := av_meta src,
             av_Spec := dspec\<lparr>
               avs_ContextSpec := dctx\<lparr>acs_DeploymentTaskSpec := (acs_DeploymentTaskSpec dctx)\<lparr>
                 dts_PreDeploymentTasks := dts_PreDeploymentTasks tasks,
                 dts_PostDeploymentTasks := dts_PostDeploymentTasks tasks,
                 dts_PreDeploymentEvaluations := dts_PreDeploymentEvaluations tasks,
                 dts_PostDeploymentEvaluations := dts_PostDeploymentEvaluations tasks,
                 dts_PromotionTasks := dts_PromotionTasks tasks\<rparr>\<rparr>,
               avs_AppSpec := dapp\<lparr>as_Version := as_Version app, as_Revision := as_Revision app,
                 as_Workloads := as_Workloads dapp @ map copy_workload (as_Workloads app)\<rparr>,
               avs_AppName := avs_AppName (av_Spec src), avs_PreviousVersion := avs_PreviousVersion (av_Spec src),
               avs_TraceId := copy_map (avs_TraceId (av_Spec src))\<rparr>,
             av_Status := dst'\<lparr>
               avst_PreDeploymentStatus := avst_PreDeploymentStatus st,
               avst_PostDeploymentStatus := avst_PostDeploymentStatus st,
               avst_PreDeploymentEvaluationStatus := avst_PreDeploymentEvaluationStatus st,
               avst_PostDeploymentEvaluationStatus := avst_PostDeploymentEvaluationStatus st,
               avst_WorkloadOverallStatus := avst_WorkloadOverallStatus st,
               avst_PromotionStatus := avst_PromotionStatus st,
               avst_Status := avst_Status st,
               avst_WorkloadStatus := avst_WorkloadStatus dst' @ map copy_workload_status (avst_WorkloadStatus st),
               avst_CurrentPhase := avst_CurrentPhase st,
               avst_PreDeploymentTaskStatus :=
                 avst_PreDeploymentTaskStatus dst' @ map copy_item (avst_PreDeploymentTaskStatus st),
               avst_PostDeploymentTaskStatus :=
                 avst_PostDeploymentTaskStatus dst' @ map copy_item (avst_PostDeploymentTaskStatus st),
               avst_PreDeploymentEvaluationTaskStatus :=
                 avst_PreDeploymentEvaluationTaskStatus dst' @ map copy_item (avst_PreDeploymentEvaluationTaskStatus st),
               avst_PostDeploymentEvaluationTaskStatus :=
                 avst_PostDeploymentEvaluationTaskStatus dst' @ map copy_item (avst_PostDeploymentEvaluationTaskStatus st),
               avst_PromotionTaskStatus :=
                 avst_PromotionTaskStatus dst' @ map copy_item (avst_PromotionTaskStatus st),
               avst_PhaseTraceIDs := copy_trace_ids (avst_PhaseTraceIDs st),
               avst_StartTime := avst_StartTime st, avst_EndTime := avst_EndTime st\<rparr>\<rparr>))
      | _ \<Rightarrow> Inl (cannot_cast_version srcRaw))"

section \<open>Round trips\<close>

text \<open>What the API machinery allocates: objects whose fields all have their zero values.\<close>

definition zero_meta :: ObjectMeta where
  "zero_meta = \<lparr>om_Name = [], om_Namespace = [], om_UID = [], om_Labels = None, om_Annotations = None,
     om_Generation = 0, om_CreationTimestamp = 0, om_OwnerReferences = []\<rparr>"

definition zero_app :: KeptnApp where
  "zero_app = \<lparr>a_meta = zero_meta, a_Spec = \<lparr>as_Version = [], as_Revision = 0, as_Workloads = []\<rparr>, a_CurrentVersion = []\<rparr>"

definition zero_app_v1alpha1 :: KeptnApp_v1alpha1 where
  "zero_app_v1alpha1 = \<lparr>a1_meta = zero_meta, a1_Spec = \<lparr>a1s_Version = [], a1s_Workloads = [],
     a1s_PreDeploymentTasks = [], a1s_PostDeploymentTasks = [], a1s_PreDeploymentEvaluations = [],
     a1s_PostDeploymentEvaluations = []\<rparr>, a1_CurrentVersion = []\<rparr>"

definition zero_app_v1alpha2 :: KeptnApp_v1alpha2 where
  "zero_app_v1alpha2 = \<lparr>a2_meta = zero_meta, a2_Spec = \<lparr>a2s_Version = [], a2s_Revision = 0, a2s_Workloads = [],
     a2s_PreDeploymentTasks = [], a2s_PostDeploymentTasks = [], a2s_PreDeploymentEvaluations = [],
     a2s_PostDeploymentEvaluations = []\<rparr>, a2_CurrentVersion = []\<rparr>"

definition zero_app_version :: KeptnAppVersion where
  "zero_app_version =
     \<lparr>av_meta = zero_meta,
      av_Spec = \<lparr>avs_ContextSpec = \<lparr>acs_DeploymentTaskSpec = \<lparr>dts_PreDeploymentTasks = [], dts_PostDeploymentTasks = [],
          dts_PreDeploymentEvaluations = [], dts_PostDeploymentEvaluations = [], dts_PromotionTasks = []\<rparr>,
          acs_Metadata = None, acs_SpanLinks = []\<rparr>,
        avs_AppSpec = a_Spec zero_app, avs_AppName = [], avs_PreviousVersion = [], avs_TraceId = None\<rparr>,
      av_Status = \<lparr>avst_PreDeploymentStatus = StateEmpty, avst_PostDeploymentStatus = StateEmpty,
        avst_PromotionStatus = StateEmpty, avst_PreDeploymentEvaluationStatus = StateEmpty,
        avst_PostDeploymentEvaluationStatus = StateEmpty, avst_WorkloadOverallStatus = StateEmpty,
        avst_WorkloadStatus = [], avst_CurrentPhase = [], avst_PreDeploymentTaskStatus = [],
        avst_PostDeploymentTaskStatus = [], avst_PromotionTaskStatus = [],
        avst_PreDeploymentEvaluationTaskStatus = [], avst_PostDeploymentEvaluationTaskStatus = [],
        avst_PhaseTraceIDs = None, avst_Status = StateEmpty, avst_StartTime = 0, avst_EndTime = 0\<rparr>\<rparr>"

definition zero_alpha :: "'s \<Rightarrow> ('s, 't, 'e) AppVersion_alpha" where
  "zero_alpha spec =
     \<lparr>aa_meta = zero_meta, aa_AppSpec = spec, aa_AppName = [], aa_PreviousVersion = [], aa_TraceId = None,
      aa_Status = \<lparr>aas_PreDeploymentStatus = StateEmpty, aas_PostDeploymentStatus = StateEmpty,
        aas_PreDeploymentEvaluationStatus = StateEmpty, aas_PostDeploymentEvaluationStatus = StateEmpty,
        aas_WorkloadOverallStatus = StateEmpty, aas_WorkloadStatus = [], aas_CurrentPhase = [],
        aas_PreDeploymentTaskStatus = [], aas_PostDeploymentTaskStatus = [],
        aas_PreDeploymentEvaluationTaskStatus = [], aas_PostDeploymentEvaluationTaskStatus = [],
        aas_PhaseTraceIDs = None, aas_Status = StateEmpty, aas_StartTime = 0, aas_EndTime = 0\<rparr>\<rparr>"

lemmas zero_defs [conversion_simps] =
  zero_app_def zero_app_v1alpha1_def zero_app_v1alpha2_def zero_app_version_def zero_alpha_def

text \<open>A conversion makes maps that were nil into empty ones.\<close>

definition maps_made :: "('s, 't, 'e) AppVersion_alpha \<Rightarrow> ('s, 't, 'e) AppVersion_alpha" where
  "maps_made v = v\<lparr>aa_TraceId := copy_map (aa_TraceId v),
     aa_Status := (aa_Status v)\<lparr>aas_PhaseTraceIDs := copy_trace_ids (aas_PhaseTraceIDs (aa_Status v))\<rparr>\<rparr>"

definition v1_maps_made :: "KeptnAppVersion \<Rightarrow> KeptnAppVersion" where
  "v1_maps_made v = v\<lparr>av_Spec := (av_Spec v)\<lparr>avs_TraceId := copy_map (avs_TraceId (av_Spec v))\<rparr>,
     av_Status := (av_Status v)\<lparr>avst_PhaseTraceIDs := copy_trace_ids (avst_PhaseTraceIDs (av_Status v))\<rparr>\<rparr>"

lemma copy_map_idem [simp]: "copy_map (copy_map m) = copy_map m"
  by (simp add: copy_map_def gm_fmap_def)

lemma copy_map_Some: "copy_map (Some m) = Some m"
  by (simp add: copy_map_def gm_fmap_def)

lemma copy_trace_ids_idem [simp]: "copy_trace_ids (copy_trace_ids m) = copy_trace_ids m"
proof -
  have "fmmap copy_map (fmmap copy_map f) = fmmap copy_map f" for f :: "('a, MapCarrier) fmap"
    by (rule fmap_ext) (simp add: option.map_comp comp_def)
  then show ?thesis by (simp add: copy_trace_ids_def gm_fmap_def)
qed

lemma copies [simp]:
  "copy_workload w = w" "copy_workload_status s = s" "copy_item i = i"
  "task_of_item (item_of_task t) = t" "evaluation_of_item (item_of_evaluation e) = e"
  "item_of_task (task_of_item i) = i" "item_of_evaluation (evaluation_of_item i) = i"
  by (simp_all add: conversion_simps)

lemma map_copies [simp]:
  "map copy_workload ws = ws" "map copy_workload_status ss = ss" "map copy_item js = js"
  "map task_of_item (map item_of_task ts) = ts" "map evaluation_of_item (map item_of_evaluation es) = es"
  by (simp_all add: map_idI)

text \<open>
  The contract of a version of the API: it converts to the hub and back, and what comes back is the normal
  form of what was converted.
\<close>

locale spoke =
  fixes convert_to :: "'s \<Rightarrow> Hub \<Rightarrow> error + 'h"
    and convert_from :: "'s \<Rightarrow> Hub \<Rightarrow> error + 's"
    and hub :: "'h \<Rightarrow> Hub"
    and fresh_hub :: 'h
    and fresh :: 's
    and normal :: "'s \<Rightarrow> 's"
  assumes to_hub: "\<exists>h. convert_to s (hub fresh_hub) = Inr h"
    and from_hub: "convert_to s (hub fresh_hub) = Inr h \<Longrightarrow> convert_from fresh (hub h) = Inr (normal s)"
    and normal_idem: "normal (normal s) = normal s"
begin

definition round_trip :: "'s \<Rightarrow> error + 's" where
  "round_trip s = (case convert_to s (hub fresh_hub) of Inl e \<Rightarrow> Inl e | Inr h \<Rightarrow> convert_from fresh (hub h))"

lemma round_trip_normal: "round_trip s = Inr (normal s)"
  using to_hub [of s] from_hub by (auto simp: round_trip_def)

lemma round_trip_stable: "round_trip s = Inr t \<Longrightarrow> round_trip t = Inr t"
  by (simp add: round_trip_normal normal_idem) (metis normal_idem)

end

interpretation app1: spoke KeptnApp_v1alpha1_ConvertTo KeptnApp_v1alpha1_ConvertFrom HubApp zero_app zero_app_v1alpha1
  "\<lambda>a. zero_app_v1alpha1\<lparr>a1_meta := a1_meta a, a1_CurrentVersion := a1_CurrentVersion a,
     a1_Spec := (a1_Spec zero_app_v1alpha1)\<lparr>a1s_Version := a1s_Version (a1_Spec a), a1s_Workloads := a1s_Workloads (a1_Spec a)\<rparr>\<rparr>"
  by unfold_locales (auto simp: KeptnApp_v1alpha1_ConvertTo_def KeptnApp_v1alpha1_ConvertFrom_def conversion_simps)

interpretation app2: spoke KeptnApp_v1alpha2_ConvertTo KeptnApp_v1alpha2_ConvertFrom HubApp zero_app zero_app_v1alpha2
  "\<lambda>a. zero_app_v1alpha2\<lparr>a2_meta := a2_meta a, a2_CurrentVersion := a2_CurrentVersion a,
     a2_Spec := (a2_Spec zero_app_v1alpha2)\<lparr>a2s_Version := a2s_Version (a2_Spec a), a2s_Revision := a2s_Revision (a2_Spec a),
       a2s_Workloads := a2s_Workloads (a2_Spec a)\<rparr>\<rparr>"
  by unfold_locales (auto simp: KeptnApp_v1alpha2_ConvertTo_def KeptnApp_v1alpha2_ConvertFrom_def conversion_simps)

interpretation app3: spoke KeptnApp_v1alpha3_ConvertTo KeptnApp_v1alpha3_ConvertFrom HubApp zero_app zero_app_v1alpha2
  "\<lambda>a. zero_app_v1alpha2\<lparr>a2_meta := a2_meta a, a2_CurrentVersion := a2_CurrentVersion a,
     a2_Spec := (a2_Spec zero_app_v1alpha2)\<lparr>a2s_Version := a2s_Version (a2_Spec a), a2s_Revision := a2s_Revision (a2_Spec a),
       a2s_Workloads := a2s_Workloads (a2_Spec a)\<rparr>\<rparr>"
  by unfold_locales (auto simp: KeptnApp_v1alpha3_ConvertTo_def KeptnApp_v1alpha3_ConvertFrom_def conversion_simps)

interpretation app_beta: spoke KeptnApp_v1beta1_ConvertTo KeptnApp_v1beta1_ConvertFrom HubApp zero_app zero_app "\<lambda>a. a"
  by unfold_locales (auto simp: KeptnApp_v1beta1_ConvertTo_def KeptnApp_v1beta1_ConvertFrom_def conversion_simps)

interpretation version1: spoke KeptnAppVersion_v1alpha1_ConvertTo KeptnAppVersion_v1alpha1_ConvertFrom HubAppVersion
  zero_app_version "zero_alpha (a1_Spec zero_app_v1alpha1)" maps_made
  by unfold_locales (auto simp: KeptnAppVersion_v1alpha1_ConvertTo_def KeptnAppVersion_v1alpha1_ConvertFrom_def
      maps_made_def zero_defs Let_def simp del: map_map)

interpretation version2: spoke KeptnAppVersion_v1alpha2_ConvertTo KeptnAppVersion_v1alpha2_ConvertFrom HubAppVersion
  zero_app_version "zero_alpha (a2_Spec zero_app_v1alpha2)"
  "\<lambda>v. (maps_made v)\<lparr>aa_AppSpec := (aa_AppSpec v)\<lparr>a2s_Revision := 0\<rparr>\<rparr>"
  by unfold_locales (auto simp: KeptnAppVersion_v1alpha2_ConvertTo_def KeptnAppVersion_v1alpha2_ConvertFrom_def
      maps_made_def zero_defs Let_def simp del: map_map)

interpretation version3: spoke KeptnAppVersion_v1alpha3_ConvertTo KeptnAppVersion_v1alpha3_ConvertFrom HubAppVersion
  zero_app_version "zero_alpha (a2_Spec zero_app_v1alpha2)" maps_made
  by unfold_locales (auto simp: KeptnAppVersion_v1alpha3_ConvertTo_def KeptnAppVersion_v1alpha3_ConvertFrom_def
      maps_made_def zero_defs Let_def simp del: map_map)

interpretation version_beta: spoke KeptnAppVersion_v1beta1_ConvertTo KeptnAppVersion_v1beta1_ConvertFrom HubAppVersion
  zero_app_version zero_app_version
  "\<lambda>v. (v1_maps_made v)\<lparr>av_Spec := (av_Spec (v1_maps_made v))\<lparr>avs_ContextSpec :=
     (avs_ContextSpec (av_Spec v))\<lparr>acs_Metadata := None, acs_SpanLinks := []\<rparr>\<rparr>\<rparr>"
  by unfold_locales (auto simp: KeptnAppVersion_v1beta1_ConvertTo_def KeptnAppVersion_v1beta1_ConvertFrom_def
      v1_maps_made_def zero_defs Let_def simp del: map_map)

text \<open>
  C33: app versions survive the conversion. A KeptnAppVersion of \<^verbatim>\<open>v1alpha1\<close> or \<^verbatim>\<open>v1alpha3\<close> that is converted to the
  hub and back is the same in every field, except that its maps of trace identifiers are empty where they
  were nil, although \<^verbatim>\<open>v1alpha1\<close> has other types for the states of tasks and evaluations.
\<close>

theorem app_version_round_trip:
  "(\<exists>h. KeptnAppVersion_v1alpha1_ConvertTo u (HubAppVersion zero_app_version) = Inr h \<and>
      KeptnAppVersion_v1alpha1_ConvertFrom (zero_alpha (a1_Spec zero_app_v1alpha1)) (HubAppVersion h) =
        Inr (u\<lparr>aa_TraceId := copy_map (aa_TraceId u),
          aa_Status := (aa_Status u)\<lparr>aas_PhaseTraceIDs := copy_trace_ids (aas_PhaseTraceIDs (aa_Status u))\<rparr>\<rparr>)) \<and>
   (\<exists>h. KeptnAppVersion_v1alpha3_ConvertTo v (HubAppVersion zero_app_version) = Inr h \<and>
      KeptnAppVersion_v1alpha3_ConvertFrom (zero_alpha (a2_Spec zero_app_v1alpha2)) (HubAppVersion h) =
        Inr (v\<lparr>aa_TraceId := copy_map (aa_TraceId v),
          aa_Status := (aa_Status v)\<lparr>aas_PhaseTraceIDs := copy_trace_ids (aas_PhaseTraceIDs (aa_Status v))\<rparr>\<rparr>))"
  unfolding maps_made_def [symmetric]
  using version1.to_hub [of u] version1.from_hub [of u] version3.to_hub [of v] version3.from_hub [of v] by blast

text \<open>
  The metadata and the span links of an app version of \<^verbatim>\<open>v1beta1\<close> do not reach the hub: whatever they were,
  the converted app version has none, while its tasks, its evaluations, its revision and its state are those
  it had.
\<close>

theorem beta_version_loses_context:
  "\<exists>h. KeptnAppVersion_v1beta1_ConvertTo v (HubAppVersion zero_app_version) = Inr h \<and>
     acs_Metadata (avs_ContextSpec (av_Spec h)) = None \<and> acs_SpanLinks (avs_ContextSpec (av_Spec h)) = [] \<and>
     acs_DeploymentTaskSpec (avs_ContextSpec (av_Spec h)) = acs_DeploymentTaskSpec (avs_ContextSpec (av_Spec v)) \<and>
     avs_AppSpec (av_Spec h) = avs_AppSpec (av_Spec v) \<and>
     av_Status h = (av_Status v)\<lparr>avst_PhaseTraceIDs := copy_trace_ids (avst_PhaseTraceIDs (av_Status v))\<rparr>"
  by (simp add: KeptnAppVersion_v1beta1_ConvertTo_def zero_defs Let_def)

text \<open>
  The revision of an app version of \<^verbatim>\<open>v1alpha2\<close> is lost: it is 1 in the hub, whatever it was, and 0 after the
  way back.
\<close>

theorem alpha2_version_loses_revision:
  "\<exists>h v'. KeptnAppVersion_v1alpha2_ConvertTo v (HubAppVersion zero_app_version) = Inr h \<and>
     as_Revision (avs_AppSpec (av_Spec h)) = 1 \<and>
     KeptnAppVersion_v1alpha2_ConvertFrom (zero_alpha (a2_Spec zero_app_v1alpha2)) (HubAppVersion h) = Inr v' \<and>
     a2s_Revision (aa_AppSpec v') = 0"
proof -
  obtain h where h: "KeptnAppVersion_v1alpha2_ConvertTo v (HubAppVersion zero_app_version) = Inr h"
    using version2.to_hub by blast
  then have "as_Revision (avs_AppSpec (av_Spec h)) = 1"
    by (auto simp: KeptnAppVersion_v1alpha2_ConvertTo_def Let_def)
  then show ?thesis using h version2.from_hub [OF h] by auto
qed

text \<open>
  The tasks and evaluations of an app are dropped when it is converted from \<^verbatim>\<open>v1alpha3\<close>: the hub keeps them
  in another resource, and after the way back the app has none.
\<close>

theorem app_tasks_lost:
  "\<exists>h a'. KeptnApp_v1alpha3_ConvertTo a (HubApp zero_app) = Inr h \<and>
     KeptnApp_v1alpha3_ConvertFrom zero_app_v1alpha2 (HubApp h) = Inr a' \<and>
     a' = a\<lparr>a2_Spec := (a2_Spec a)\<lparr>a2s_PreDeploymentTasks := [], a2s_PostDeploymentTasks := [],
       a2s_PreDeploymentEvaluations := [], a2s_PostDeploymentEvaluations := []\<rparr>\<rparr>"
proof -
  obtain h where h: "KeptnApp_v1alpha3_ConvertTo a (HubApp zero_app) = Inr h" using app3.to_hub by blast
  from app3.from_hub [OF h] show ?thesis using h by (auto simp: zero_app_v1alpha2_def)
qed

section \<open>The conversion of manifests\<close>

text \<open>
  The tool \<^verbatim>\<open>converter/convert_app.go\<close> turns the manifest of an app of \<^verbatim>\<open>v1alpha3\<close> into manifests of an app and an app
  context of \<^verbatim>\<open>v1\<close>.  Reading and printing YAML (\<^verbatim>\<open>sigs.k8s.io/yaml\<close>) is an argument.
\<close>

record 'o manifest =
  mf_Kind :: string
  mf_APIVersion :: string
  mf_Object :: 'o

record Yaml =
  yaml_UnmarshalV1alpha3 :: "string \<Rightarrow> error + KeptnApp_v1alpha3"
  yaml_UnmarshalV1 :: "string \<Rightarrow> error + KeptnApp manifest"
  yaml_MarshalApp :: "KeptnApp manifest \<Rightarrow> error + string"
  yaml_MarshalContext :: "KeptnAppContext manifest \<Rightarrow> error + string"

definition addKeptnAnnotation :: "ObjectMeta \<Rightarrow> ObjectMeta" where
  "addKeptnAnnotation resource =
     resource\<lparr>om_Annotations := Some (fmupd ''app.kubernetes.io/managed-by'' ''keptn''
       (case om_Annotations resource of None \<Rightarrow> fmempty | Some m \<Rightarrow> m))\<rparr>"

definition transformKeptnAppContext :: "KeptnApp_v1alpha3 \<Rightarrow> KeptnAppContext manifest" where
  "transformKeptnAppContext keptnApp =
     \<lparr>mf_Kind = ''KeptnAppContext'', mf_APIVersion = ''lifecycle.keptn.sh/v1'',
      mf_Object = \<lparr>ac_meta = named_meta (om_Name (a2_meta keptnApp)) (om_Namespace (a2_meta keptnApp)),
        ac_Spec = \<lparr>acs_DeploymentTaskSpec =
          \<lparr>dts_PreDeploymentTasks = a2s_PreDeploymentTasks (a2_Spec keptnApp),
           dts_PostDeploymentTasks = a2s_PostDeploymentTasks (a2_Spec keptnApp),
           dts_PreDeploymentEvaluations = a2s_PreDeploymentEvaluations (a2_Spec keptnApp),
           dts_PostDeploymentEvaluations = a2s_PostDeploymentEvaluations (a2_Spec keptnApp),
           dts_PromotionTasks = []\<rparr>,
          acs_Metadata = None, acs_SpanLinks = []\<rparr>\<rparr>\<rparr>"

definition parseAndTransform :: "Yaml \<Rightarrow> string \<Rightarrow> error + string \<times> string" where
  "parseAndTransform y inputContent =
     (case yaml_UnmarshalV1alpha3 y inputContent of
        Inl err \<Rightarrow> Inl (Wrapped ''error unmarshalling KeptnApp: '' err)
      | Inr keptnApp \<Rightarrow>
          (case yaml_UnmarshalV1 y inputContent of
             Inl err \<Rightarrow> Inl (Wrapped ''error unmarshalling KeptnAppV1: '' err)
           | Inr keptnAppV1 \<Rightarrow>
               (let keptnAppV1 = keptnAppV1\<lparr>mf_APIVersion := ''lifecycle.keptn.sh/v1'',
                      mf_Object := (mf_Object keptnAppV1)\<lparr>a_meta := addKeptnAnnotation (a_meta (mf_Object keptnAppV1))\<rparr>\<rparr>
                in case yaml_MarshalApp y keptnAppV1 of
                     Inl err \<Rightarrow> Inl (Wrapped ''error marshalling KeptnAppV1 to YAML: '' err)
                   | Inr appYAML \<Rightarrow>
                       (case yaml_MarshalContext y (transformKeptnAppContext keptnApp) of
                          Inl err \<Rightarrow> Inl (Wrapped ''error marshalling KeptnAppContext to YAML: '' err)
                        | Inr contextYAML \<Rightarrow> Inr (appYAML, contextYAML)))))"

definition combineYAML :: "string \<Rightarrow> string \<Rightarrow> string" where
  "combineYAML keptnAppV1YAML keptnAppContextYAML =
     keptnAppV1YAML @ [CHR 0x0A] @ ''---'' @ [CHR 0x0A] @ keptnAppContextYAML"

text \<open>
  Unlike the conversion in the cluster the tool keeps the tasks and evaluations of an app: the app context that it
  prints, together with the converted app, determines the app it was made from, up to the metadata.
\<close>

theorem transformed_app_keeps_tasks:
  assumes "KeptnApp_v1alpha3_ConvertTo a (HubApp zero_app) = Inr h"
  shows "let t = acs_DeploymentTaskSpec (ac_Spec (mf_Object (transformKeptnAppContext a))) in
     \<exists>a'. KeptnApp_v1alpha3_ConvertFrom zero_app_v1alpha2 (HubApp h) = Inr a' \<and>
       a = a'\<lparr>a2_Spec := (a2_Spec a')\<lparr>a2s_PreDeploymentTasks := dts_PreDeploymentTasks t,
         a2s_PostDeploymentTasks := dts_PostDeploymentTasks t,
         a2s_PreDeploymentEvaluations := dts_PreDeploymentEvaluations t,
         a2s_PostDeploymentEvaluations := dts_PostDeploymentEvaluations t\<rparr>\<rparr>"
  using app3.from_hub [OF assms] by (auto simp: transformKeptnAppContext_def zero_app_v1alpha2_def Let_def)

end
