(* ===== verification/App_Converter.thy ===== *)
theory App_Converter
  imports Conversion
begin

text \<open>
  The program that converts a file with a KeptnApp of the API version v1alpha3 to a file with a KeptnApp and a
  KeptnAppContext (\<^verbatim>\<open>lifecycle-operator/converter/convert_app.go\<close>). The files are an argument.
\<close>

record 'w Files =
  fi_ReadFile :: "string \<Rightarrow> ('w, error + string) state"
  fi_WriteFile :: "string \<Rightarrow> string \<Rightarrow> ('w, error option) state"

definition transformKeptnApp :: "'w Files \<Rightarrow> Yaml \<Rightarrow> string \<Rightarrow> string \<Rightarrow> ('w, error option) state" where
  "transformKeptnApp fi y inputFile outputFile = do {
     r \<leftarrow> fi_ReadFile fi inputFile;
     case r of
       Inl err \<Rightarrow> ret (Some (Wrapped ''error reading input file: '' err))
     | Inr inputContent \<Rightarrow>
         (case parseAndTransform y inputContent of
            Inl err \<Rightarrow> ret (Some err)
          | Inr (keptnAppV1, keptnAppContext) \<Rightarrow> do {
              e \<leftarrow> fi_WriteFile fi outputFile (combineYAML keptnAppV1 keptnAppContext);
              ret (case e of Some err \<Rightarrow> Some (Wrapped ''error writing to output file: '' err) | None \<Rightarrow> None)
            })
   }"

text \<open>The exit code of the program, whose arguments include its own name.\<close>

definition converter_main :: "'w Files \<Rightarrow> Yaml \<Rightarrow> string list \<Rightarrow> ('w, int) state" where
  "converter_main fi y args =
     (case args of
        [program, inputFile, outputFile] \<Rightarrow> do {
          err \<leftarrow> transformKeptnApp fi y inputFile outputFile;
          ret (if err = None then 0 else 1)
        }
      | _ \<Rightarrow> ret 1)"

text \<open>
  The program ends with zero exactly when the file has been read, converted and written, and the output then holds
  both documents. When reading or converting fails nothing is written.
\<close>

theorem converter_all_or_nothing:
  assumes "run_state (fi_ReadFile fi inputFile) w = (r, w1)"
  shows "run_state (converter_main fi y [program, inputFile, outputFile]) w =
     (case r of
        Inl err \<Rightarrow> (1, w1)
      | Inr content \<Rightarrow>
          (case parseAndTransform y content of
             Inl err \<Rightarrow> (1, w1)
           | Inr (app, context) \<Rightarrow>
               (case run_state (fi_WriteFile fi outputFile (app @ [CHR 0x0A] @ ''---'' @ [CHR 0x0A] @ context)) w1 of
                  (e, w2) \<Rightarrow> (if e = None then 0 else 1, w2))))"
  using assms
  by (auto simp: converter_main_def transformKeptnApp_def combineYAML_def State_Monad.bind_def State_Monad.return_def
      split: sum.splits option.splits prod.splits)

end
