(* ===== verification/Telemetry.thy ===== *)
theory Telemetry
  imports Cluster Float_Arithmetic
begin

text \<open>
  Telemetry of the lifecycle operator (\<^verbatim>\<open>controllers/common/telemetry\<close>) and the controller of its configuration
  (\<^verbatim>\<open>controllers/options\<close>): the gauges that are computed from the stored versions, the OpenTelemetry
  collector that traces are sent to, and the values of a \<^verbatim>\<open>KeptnConfig\<close>.  Exporters are opened by third-party
  packages and are arguments; what is observed is the result of an observer.
\<close>

section \<open>Objects that are observed\<close>

text \<open>The interfaces \<^verbatim>\<open>MetricsObject\<close> and \<^verbatim>\<open>ActiveMetricsObject\<close> as tables of the methods of one type of object.\<close>

record 'o MetricsObject =
  mo_GetName :: "'o \<Rightarrow> string"
  mo_GetDurationMetricsAttributes :: "'o \<Rightarrow> KeyValue list"
  mo_GetEndTime :: "'o \<Rightarrow> time"
  mo_GetStartTime :: "'o \<Rightarrow> time"
  mo_IsEndTimeSet :: "'o \<Rightarrow> bool"
  mo_GetPreviousVersion :: "'o \<Rightarrow> string"
  mo_GetParentName :: "'o \<Rightarrow> string"

record 'o ActiveMetricsObject =
  amo_GetActiveMetricsAttributes :: "'o \<Rightarrow> KeyValue list"
  amo_IsEndTimeSet :: "'o \<Rightarrow> bool"

definition app_version_metrics :: "KeptnAppVersion MetricsObject" where
  "app_version_metrics = \<lparr>mo_GetName = \<lambda>a. om_Name (av_meta a),
     mo_GetDurationMetricsAttributes = AppVersion_GetDurationMetricsAttributes, mo_GetEndTime = AppVersion_GetEndTime,
     mo_GetStartTime = AppVersion_GetStartTime, mo_IsEndTimeSet = AppVersion_IsEndTimeSet,
     mo_GetPreviousVersion = AppVersion_GetPreviousVersion, mo_GetParentName = AppVersion_GetParentName\<rparr>"

definition workload_version_metrics :: "KeptnWorkloadVersion MetricsObject" where
  "workload_version_metrics = \<lparr>mo_GetName = \<lambda>w. om_Name (wv_meta w),
     mo_GetDurationMetricsAttributes = WorkloadVersion_GetDurationMetricsAttributes,
     mo_GetEndTime = WorkloadVersion_GetEndTime, mo_GetStartTime = WorkloadVersion_GetStartTime,
     mo_IsEndTimeSet = WorkloadVersion_IsEndTimeSet, mo_GetPreviousVersion = WorkloadVersion_GetPreviousVersion,
     mo_GetParentName = WorkloadVersion_GetParentName\<rparr>"

definition app_version_active :: "KeptnAppVersion ActiveMetricsObject" where
  "app_version_active = \<lparr>amo_GetActiveMetricsAttributes = AppVersion_GetActiveMetricsAttributes,
     amo_IsEndTimeSet = AppVersion_IsEndTimeSet\<rparr>"

definition workload_version_active :: "KeptnWorkloadVersion ActiveMetricsObject" where
  "workload_version_active = \<lparr>amo_GetActiveMetricsAttributes = WorkloadVersion_GetActiveMetricsAttributes,
     amo_IsEndTimeSet = WorkloadVersion_IsEndTimeSet\<rparr>"

definition task_active :: "KeptnTask ActiveMetricsObject" where
  "task_active = \<lparr>amo_GetActiveMetricsAttributes = Task_GetActiveMetricsAttributes, amo_IsEndTimeSet = Task_IsEndTimeSet\<rparr>"

definition evaluation_active :: "KeptnEvaluation ActiveMetricsObject" where
  "evaluation_active = \<lparr>amo_GetActiveMetricsAttributes = Evaluation_GetActiveMetricsAttributes,
     amo_IsEndTimeSet = Evaluation_IsEndTimeSet\<rparr>"

section \<open>Gauges\<close>

text \<open>\<^verbatim>\<open>Duration.Seconds\<close>: whole seconds and the rest, each truncated towards zero.\<close>

definition Seconds :: "duration \<Rightarrow> float64" where
  "Seconds d =
     (let sec = sgn d * (\<bar>d\<bar> div second); nsec = sgn d * (\<bar>d\<bar> mod second)
      in float_add (float_of_int sec) (float_div (float_of_int nsec) (float_of_int second)))"

abbreviation ErrCannotRetrieveInstancesMsg :: "error \<Rightarrow> error" where
  "ErrCannotRetrieveInstancesMsg err \<equiv> Wrapped ''could not retrieve instances: '' err"

type_synonym 'v observation = "'v \<times> KeyValue list"

fun duration_observations :: "'o MetricsObject \<Rightarrow> 'o list \<Rightarrow> float64 observation list" where
  "duration_observations mo [] = []"
| "duration_observations mo (ro # items) =
     (if mo_IsEndTimeSet mo ro then
        (Seconds (time_sub (mo_GetEndTime mo ro) (mo_GetStartTime mo ro)), mo_GetDurationMetricsAttributes mo ro) #
        duration_observations mo items
      else duration_observations mo items)"

definition ObserveDeploymentDuration ::
    "('w, 'o) api \<Rightarrow> 'o MetricsObject \<Rightarrow> ('w, float64 observation list \<times> error option) state" where
  "ObserveDeploymentDuration k mo = do {
     l \<leftarrow> api_List k [] [];
     ret (case l of
       Inl err \<Rightarrow> ([], Some (ErrCannotRetrieveInstancesMsg err))
     | Inr items \<Rightarrow> (duration_observations mo items, None))
   }"

text \<open>The earliest item whose name starts with the name of the parent and the previous version.\<close>

fun predecessor_from :: "'o MetricsObject \<Rightarrow> 'o \<Rightarrow> 'o option \<Rightarrow> 'o list \<Rightarrow> 'o option" where
  "predecessor_from mo successor predecessor [] = predecessor"
| "predecessor_from mo successor predecessor (item # items) =
     predecessor_from mo successor
       (if has_prefix (mo_GetName mo item) (mo_GetParentName mo successor @ ''-'' @ mo_GetPreviousVersion mo successor) then
          (case predecessor of
             None \<Rightarrow> Some item
           | Some p \<Rightarrow> if mo_GetStartTime mo item < mo_GetStartTime mo p then Some item else predecessor)
        else predecessor) items"

definition getPredecessor :: "'o MetricsObject \<Rightarrow> 'o \<Rightarrow> 'o list \<Rightarrow> 'o option" where
  "getPredecessor mo successor items = predecessor_from mo successor None items"

fun interval_observations :: "'o MetricsObject \<Rightarrow> 'o list \<Rightarrow> 'o list \<Rightarrow> float64 observation list" where
  "interval_observations mo all [] = []"
| "interval_observations mo all (ro # items) =
     (if mo_GetPreviousVersion mo ro \<noteq> [] \<and> mo_IsEndTimeSet mo ro then
        (case getPredecessor mo ro all of
           None \<Rightarrow> interval_observations mo all items
         | Some predecessor \<Rightarrow>
             (Seconds (time_sub (mo_GetEndTime mo ro) (mo_GetEndTime mo predecessor)), mo_GetDurationMetricsAttributes mo ro) #
             interval_observations mo all items)
      else interval_observations mo all items)"

definition ObserveDeploymentInterval ::
    "('w, 'o) api \<Rightarrow> 'o MetricsObject \<Rightarrow> ('w, float64 observation list \<times> error option) state" where
  "ObserveDeploymentInterval k mo = do {
     l \<leftarrow> api_List k [] [];
     ret (case l of
       Inl err \<Rightarrow> ([], Some (ErrCannotRetrieveInstancesMsg err))
     | Inr items \<Rightarrow> (interval_observations mo items items, None))
   }"

definition ObserveActiveInstances ::
    "('w, 'o) api \<Rightarrow> 'o ActiveMetricsObject \<Rightarrow> ('w, int observation list \<times> error option) state" where
  "ObserveActiveInstances k amo = do {
     l \<leftarrow> api_List k [] [];
     ret (case l of
       Inl err \<Rightarrow> ([], Some (ErrCannotRetrieveInstancesMsg err))
     | Inr items \<Rightarrow>
         (map (\<lambda>ro. (if \<not> amo_IsEndTimeSet amo ro then 1 else 0, amo_GetActiveMetricsAttributes amo ro)) items, None))
   }"

text \<open>
  The callback that \<^verbatim>\<open>SetUpKeptnMeters\<close> registers: every gauge with its observations.  An error of one gauge is
  logged.
\<close>

datatype gauge = WorkloadsActive | AppsActive | TasksActive | EvaluationsActive
  | AppInterval | WorkloadInterval | AppDuration | WorkloadDuration

definition observe_ints :: "gauge \<Rightarrow> ('w, int observation list \<times> error option) state \<Rightarrow>
    ('w, (gauge \<times> (int + float64) \<times> KeyValue list) list) state" where
  "observe_ints g m = do { (obs, _) \<leftarrow> m; ret (map (\<lambda>(v, a). (g, Inl v, a)) obs) }"

definition observe_floats :: "gauge \<Rightarrow> ('w, float64 observation list \<times> error option) state \<Rightarrow>
    ('w, (gauge \<times> (int + float64) \<times> KeyValue list) list) state" where
  "observe_floats g m = do { (obs, _) \<leftarrow> m; ret (map (\<lambda>(v, a). (g, Inr v, a)) obs) }"

definition observeActiveInstances :: "'w Client \<Rightarrow> ('w, (gauge \<times> (int + float64) \<times> KeyValue list) list) state" where
  "observeActiveInstances cl = do {
     d \<leftarrow> observe_ints WorkloadsActive (ObserveActiveInstances (cl_WorkloadVersion cl) workload_version_active);
     a \<leftarrow> observe_ints AppsActive (ObserveActiveInstances (cl_AppVersion cl) app_version_active);
     t \<leftarrow> observe_ints TasksActive (ObserveActiveInstances (cl_Task cl) task_active);
     e \<leftarrow> observe_ints EvaluationsActive (ObserveActiveInstances (cl_Evaluation cl) evaluation_active);
     ret (d @ a @ t @ e)
   }"

definition observeDeploymentInterval :: "'w Client \<Rightarrow> ('w, (gauge \<times> (int + float64) \<times> KeyValue list) list) state" where
  "observeDeploymentInterval cl = do {
     a \<leftarrow> observe_floats AppInterval (ObserveDeploymentInterval (cl_AppVersion cl) app_version_metrics);
     w \<leftarrow> observe_floats WorkloadInterval (ObserveDeploymentInterval (cl_WorkloadVersion cl) workload_version_metrics);
     ret (a @ w)
   }"

definition observeDuration :: "'w Client \<Rightarrow> ('w, (gauge \<times> (int + float64) \<times> KeyValue list) list) state" where
  "observeDuration cl = do {
     a \<leftarrow> observe_floats AppDuration (ObserveDeploymentDuration (cl_AppVersion cl) app_version_metrics);
     w \<leftarrow> observe_floats WorkloadDuration (ObserveDeploymentDuration (cl_WorkloadVersion cl) workload_version_metrics);
     ret (a @ w)
   }"

definition observe_all :: "'w Client \<Rightarrow> ('w, (gauge \<times> (int + float64) \<times> KeyValue list) list) state" where
  "observe_all cl = do {
     a \<leftarrow> observeActiveInstances cl;
     i \<leftarrow> observeDeploymentInterval cl;
     d \<leftarrow> observeDuration cl;
     ret (a @ i @ d)
   }"

section \<open>The collector\<close>

text \<open>A tracer provider is known by the exporters it was made with; a tracer by the provider and its name.\<close>

datatype 'e exporter = Collector 'e | StdOut 'e

record 'e otelConfig =
  otel_TracerProvider :: "'e exporter list option"
  otel_OtelExporter :: "'e option"
  otel_lastAppliedCollectorURL :: string
  otel_tracers :: "(string, 'e exporter list option) fmap"

definition GetOtelInstance :: "'e otelConfig" where
  "GetOtelInstance = \<lparr>otel_TracerProvider = None, otel_OtelExporter = None, otel_lastAppliedCollectorURL = [],
     otel_tracers = fmempty\<rparr>"

text \<open>The exporters of the packages \<^verbatim>\<open>otlptracegrpc\<close> and \<^verbatim>\<open>stdouttrace\<close>.\<close>

record ('w, 'e) Exporters =
  newOTelExporter :: "string \<Rightarrow> ('w, error + 'e) state"
  newStdOutExporter :: "('w, error + 'e) state"

text \<open>
  The exporter of the collector is bound to a new variable inside the branch, so that the variable that is
  returned stays nil.
\<close>

definition GetOTelTracerProviderOptions ::
    "('w, 'e) Exporters \<Rightarrow> string \<Rightarrow> ('w, error + 'e exporter list \<times> 'e option) state" where
  "GetOTelTracerProviderOptions ex url =
     (if url \<noteq> [] then do {
        r \<leftarrow> newOTelExporter ex url;
        ret (case r of Inl err \<Rightarrow> Inl err | Inr e \<Rightarrow> Inr ([Collector e], None))
      } else do {
        r \<leftarrow> newStdOutExporter ex;
        ret (case r of
          Inl err \<Rightarrow> Inl (Wrapped ''could not create stdout OTel exporter: '' err)
        | Inr e \<Rightarrow> Inr ([StdOut e], None))
      })"

definition cleanTracers :: "'e otelConfig \<Rightarrow> 'e otelConfig" where
  "cleanTracers o' = o'\<lparr>otel_tracers := fmempty\<rparr>"

definition InitOtelCollector ::
    "('w, 'e) Exporters \<Rightarrow> 'e otelConfig \<Rightarrow> string \<Rightarrow> ('w, 'e otelConfig \<times> error option) state" where
  "InitOtelCollector ex o' url =
     (if otel_lastAppliedCollectorURL o' = url then ret (o', None)
      else do {
        r \<leftarrow> GetOTelTracerProviderOptions ex url;
        ret (case r of
          Inl err \<Rightarrow> (o', Some err)
        | Inr (tpOptions, otelExporter) \<Rightarrow>
            ((cleanTracers (o'\<lparr>otel_TracerProvider := Some tpOptions, otel_OtelExporter := otelExporter\<rparr>))
               \<lparr>otel_lastAppliedCollectorURL := url\<rparr>, None))
      })"

text \<open>\<^verbatim>\<open>otel.Tracer\<close> takes the tracer from the provider that is set at that time.\<close>

definition GetTracer :: "'e otelConfig \<Rightarrow> string \<Rightarrow> 'e otelConfig \<times> 'e exporter list option" where
  "GetTracer o' name =
     (case fmlookup (otel_tracers o') name of
        Some t \<Rightarrow> (o', t)
      | None \<Rightarrow>
          (o'\<lparr>otel_tracers := fmupd name (otel_TracerProvider o') (otel_tracers o')\<rparr>, otel_TracerProvider o'))"

section \<open>The configuration\<close>

record KeptnConfigSpec =
  kcs_OTelCollectorUrl :: string
  kcs_KeptnAppCreationRequestTimeoutSeconds :: nat
  kcs_CloudEventsEndpoint :: string
  kcs_BlockDeployment :: bool
  kcs_ObservabilityTimeout :: duration
  kcs_RestApiEnabled :: bool

record KeptnConfig =
  kc_meta :: ObjectMeta
  kc_Spec :: KeptnConfigSpec

record 'e KeptnConfigReconciler =
  kcr_LastAppliedSpec :: "KeptnConfigSpec option"
  kcr_config :: ControllerConfig
  kcr_otel :: "'e otelConfig"

definition zero_KeptnConfigSpec :: KeptnConfigSpec where
  "zero_KeptnConfigSpec = \<lparr>kcs_OTelCollectorUrl = [], kcs_KeptnAppCreationRequestTimeoutSeconds = 0,
     kcs_CloudEventsEndpoint = [], kcs_BlockDeployment = False, kcs_ObservabilityTimeout = 0, kcs_RestApiEnabled = False\<rparr>"

definition initConfig :: "'e KeptnConfigReconciler \<Rightarrow> 'e KeptnConfigReconciler" where
  "initConfig r = r\<lparr>kcr_LastAppliedSpec := Some zero_KeptnConfigSpec\<rparr>"

definition reconcileOtelCollectorUrl ::
    "('w, 'e) Exporters \<Rightarrow> 'e KeptnConfigReconciler \<Rightarrow> KeptnConfig \<Rightarrow> ('w, 'e KeptnConfigReconciler \<times> outcome) state" where
  "reconcileOtelCollectorUrl ex r config = do {
     (o', err) \<leftarrow> InitOtelCollector ex (kcr_otel r) (kcs_OTelCollectorUrl (kc_Spec config));
     let r = r\<lparr>kcr_otel := o'\<rparr>;
     ret (case err of
       Some e \<Rightarrow> (r, requeue_after 10, Some e)
     | None \<Rightarrow> (r, no_requeue, None))
   }"

definition KeptnConfig_Reconcile ::
    "('w, KeptnConfig) api \<Rightarrow> ('w, 'e) Exporters \<Rightarrow> 'e KeptnConfigReconciler \<Rightarrow> Request \<Rightarrow>
     ('w, 'e KeptnConfigReconciler \<times> outcome) state" where
  "KeptnConfig_Reconcile k ex r req = do {
     g \<leftarrow> api_Get k (req_Namespace req) (req_Name req);
     case g of
       Inl err \<Rightarrow>
         if IsNotFound err then ret (r, no_requeue, None)
         else ret (r, no_requeue, Some (Wrapped ''could not retrieve KeptnConfig: '' err))
     | Inr cfg \<Rightarrow> do {
         let r = (if kcr_LastAppliedSpec r = None then initConfig r else r);
         let spec = kc_Spec cfg;
         let c = kcr_config r;
         let c = SetCreationRequestTimeout (wrap64 (wrap64 (int (kcs_KeptnAppCreationRequestTimeoutSeconds spec)) * second)) c;
         let c = SetCloudEventsEndpoint (kcs_CloudEventsEndpoint spec) c;
         let c = SetBlockDeployment (kcs_BlockDeployment spec) c;
         let c = SetObservabilityTimeout (kcs_ObservabilityTimeout spec) c;
         let c = SetRestApiEnabled (kcs_RestApiEnabled spec) c;
         (r, result, err) \<leftarrow> reconcileOtelCollectorUrl ex (r\<lparr>kcr_config := c\<rparr>) cfg;
         case err of
           Some e \<Rightarrow> ret (r, result, Some e)
         | None \<Rightarrow> ret (r\<lparr>kcr_LastAppliedSpec := Some spec\<rparr>, no_requeue, None)
       }
   }"

section \<open>Properties\<close>

text \<open>The predecessor is the earliest of the items whose names start as the code asks for.\<close>

lemma predecessor_from_spec:
  fixes mo :: "'o MetricsObject" and s :: 'o
  defines "fits q \<equiv> has_prefix (mo_GetName mo q) (mo_GetParentName mo s @ ''-'' @ mo_GetPreviousVersion mo s)"
  shows "case predecessor_from mo s acc items of
      None \<Rightarrow> acc = None \<and> (\<forall>q\<in>set items. \<not> fits q)
    | Some p \<Rightarrow> (acc = Some p \<or> p \<in> set items \<and> fits p) \<and>
        (\<forall>q. acc = Some q \<or> q \<in> set items \<and> fits q \<longrightarrow> mo_GetStartTime mo p \<le> mo_GetStartTime mo q)"
proof (induction items arbitrary: acc)
  case (Cons item items)
  define acc' where "acc' = (if fits item then
      (case acc of None \<Rightarrow> Some item
       | Some p \<Rightarrow> if mo_GetStartTime mo item < mo_GetStartTime mo p then Some item else acc) else acc)"
  have step: "predecessor_from mo s acc (item # items) = predecessor_from mo s acc' items"
    by (simp add: acc'_def fits_def)
  show ?case
    unfolding step using Cons.IH [of acc']
    by (auto simp: acc'_def split: option.splits if_splits)
qed (auto split: option.splits)

lemma getPredecessor_spec:
  "case getPredecessor mo s items of
     None \<Rightarrow> \<forall>q\<in>set items. \<not> has_prefix (mo_GetName mo q) (mo_GetParentName mo s @ ''-'' @ mo_GetPreviousVersion mo s)
   | Some p \<Rightarrow> p \<in> set items \<and> has_prefix (mo_GetName mo p) (mo_GetParentName mo s @ ''-'' @ mo_GetPreviousVersion mo s) \<and>
       (\<forall>q\<in>set items. has_prefix (mo_GetName mo q) (mo_GetParentName mo s @ ''-'' @ mo_GetPreviousVersion mo s) \<longrightarrow>
          mo_GetStartTime mo p \<le> mo_GetStartTime mo q)"
  using predecessor_from_spec [where mo = mo and s = s and acc = None and items = items] by (auto simp: getPredecessor_def split: option.splits)

text \<open>
  A version whose predecessor has no end time yet is observed with the largest duration, about 292 years, since
  the difference to the zero time saturates.
\<close>

theorem unfinished_predecessor_observed:
  assumes "a \<in> set items" and "AppVersion_GetPreviousVersion a \<noteq> []" and "max_duration \<le> AppVersion_GetEndTime a"
    and "getPredecessor app_version_metrics a items = Some p" and "IsZero (AppVersion_GetEndTime p)"
  shows "(Seconds max_duration, AppVersion_GetDurationMetricsAttributes a)
     \<in> set (interval_observations app_version_metrics items items)"
proof -
  have ended: "AppVersion_IsEndTimeSet a"
    using assms(3) by (auto simp: AppVersion_IsEndTimeSet_def AppVersion_GetEndTime_def max_duration_def)
  have sat: "time_sub (AppVersion_GetEndTime a) (AppVersion_GetEndTime p) = max_duration"
    using assms(3,5) by (auto simp: time_sub_def max_duration_def min_duration_def)
  have "a \<in> set rest \<Longrightarrow>
      (Seconds max_duration, AppVersion_GetDurationMetricsAttributes a) \<in> set (interval_observations app_version_metrics items rest)" for rest
  proof (induction rest)
    case (Cons b rest)
    note sel = app_version_metrics_def [THEN arg_cong, of mo_IsEndTimeSet] app_version_metrics_def [THEN arg_cong, of mo_GetEndTime]
      app_version_metrics_def [THEN arg_cong, of mo_GetPreviousVersion]
      app_version_metrics_def [THEN arg_cong, of mo_GetDurationMetricsAttributes]
    show ?case
    proof (cases "b = a")
      case True
      then show ?thesis using assms(2,4) ended sat by (simp add: sel)
    next
      case False
      then show ?thesis using Cons by (auto split: option.splits)
    qed
  qed simp
  then show ?thesis using assms(1) .
qed

text \<open>Every tracer that is held comes from the provider that is set.\<close>

definition tracers_current :: "'e otelConfig \<Rightarrow> bool" where
  "tracers_current o' \<longleftrightarrow> (\<forall>n t. fmlookup (otel_tracers o') n = Some t \<longrightarrow> t = otel_TracerProvider o')"

text \<open>
  A tracer that is handed out belongs to the collector that was configured last: the tables of tracers agree with
  the provider at the start, after a change of the collector and after a tracer has been made.  A change that
  fails keeps everything.
\<close>

theorem tracers_follow_collector:
  "tracers_current (GetOtelInstance :: 'e otelConfig) \<and>
   (tracers_current (o' :: 'e otelConfig) \<longrightarrow>
      (case run_state (InitOtelCollector ex o' url) w of ((o1, err), w') \<Rightarrow>
         tracers_current o1 \<and> (err \<noteq> None \<longrightarrow> o1 = o') \<and> (err = None \<longrightarrow> otel_lastAppliedCollectorURL o1 = url)) \<and>
      (case GetTracer o' name of (o1, t) \<Rightarrow> tracers_current o1 \<and> t = otel_TracerProvider o'))"
proof -
  have start: "tracers_current (GetOtelInstance :: 'e otelConfig)"
    by (simp add: GetOtelInstance_def tracers_current_def)
  have init: "case run_state (InitOtelCollector ex o' url) w of ((o1, err), w') \<Rightarrow>
      tracers_current o1 \<and> (err \<noteq> None \<longrightarrow> o1 = o') \<and> (err = None \<longrightarrow> otel_lastAppliedCollectorURL o1 = url)"
    if "tracers_current o'"
    using that by (auto simp: InitOtelCollector_def cleanTracers_def tracers_current_def split: prod.splits sum.splits)
  have tracer: "case GetTracer o' name of (o1, t) \<Rightarrow> tracers_current o1 \<and> t = otel_TracerProvider o'"
    if "tracers_current o'"
    using that
    by (auto simp: GetTracer_def tracers_current_def split: option.splits if_splits)
  show ?thesis by (intro conjI impI start init tracer)
qed

text \<open>
  With no collector configured the first initialization does nothing, so that traces are not printed to the
  standard output; and no initialization records its exporter.
\<close>

theorem no_stdout_exporter:
  "run_state (InitOtelCollector ex GetOtelInstance []) w = ((GetOtelInstance, None), w) \<and>
   (case run_state (InitOtelCollector ex o' url) w of ((o1, err), w') \<Rightarrow> o1 \<noteq> o' \<longrightarrow> otel_OtelExporter o1 = None)"
proof -
  have "run_state (InitOtelCollector ex GetOtelInstance []) w = ((GetOtelInstance, None), w)"
    by (simp add: InitOtelCollector_def GetOtelInstance_def)
  moreover have "case run_state (InitOtelCollector ex o' url) w of ((o1, err), w') \<Rightarrow> o1 \<noteq> o' \<longrightarrow> otel_OtelExporter o1 = None"
    by (auto simp: InitOtelCollector_def GetOTelTracerProviderOptions_def cleanTracers_def split: prod.splits sum.splits if_splits)
  ultimately show ?thesis by blast
qed

text \<open>
  A reconciliation that reads a \<open>KeptnConfig\<close> applies all its values, also when the collector cannot be set up;
  then it is tried again and the spec is not recorded as applied.  The default namespace stays.
\<close>

theorem config_applied:
  assumes "run_state (api_Get k (req_Namespace req) (req_Name req)) w = (Inr cfg, w1)"
    and "run_state (KeptnConfig_Reconcile k ex r req) w = ((r', res, err), w')"
    and "int (kcs_KeptnAppCreationRequestTimeoutSeconds (kc_Spec cfg)) * second < 2 ^ 63"
  shows "let c = kcr_config r'; s = kc_Spec cfg in
      GetCreationRequestTimeout c = int (kcs_KeptnAppCreationRequestTimeoutSeconds s) * second \<and>
      GetCloudEventsEndpoint c = kcs_CloudEventsEndpoint s \<and> GetBlockDeployment c = kcs_BlockDeployment s \<and>
      GetObservabilityTimeout c = kcs_ObservabilityTimeout s \<and> GetRestApiEnabled c = kcs_RestApiEnabled s \<and>
      GetDefaultNamespace c = GetDefaultNamespace (kcr_config r) \<and>
      (if err = None then kcr_LastAppliedSpec r' = Some s \<and> res = no_requeue \<and>
           otel_lastAppliedCollectorURL (kcr_otel r') = kcs_OTelCollectorUrl s
       else res = requeue_after 10 \<and> kcr_otel r' = kcr_otel r)"
proof -
  let ?n = "int (kcs_KeptnAppCreationRequestTimeoutSeconds (kc_Spec cfg))"
  have "?n < 2 ^ 63" using assms(3) by (simp add: second_def)
  then have time: "wrap64 (wrap64 ?n * second) = ?n * second"
    using assms(3) by (simp add: wrap64_id second_def)
  obtain o1 e w2 where init: "run_state (InitOtelCollector ex (kcr_otel r) (kcs_OTelCollectorUrl (kc_Spec cfg))) w1 = ((o1, e), w2)"
    by (metis prod.collapse)
  have o1: "(e \<noteq> None \<longrightarrow> o1 = kcr_otel r) \<and> (e = None \<longrightarrow> otel_lastAppliedCollectorURL o1 = kcs_OTelCollectorUrl (kc_Spec cfg))"
    using init by (auto simp: InitOtelCollector_def split: prod.splits sum.splits if_splits)
  note sets = SetCreationRequestTimeout_def SetCloudEventsEndpoint_def SetBlockDeployment_def
    SetObservabilityTimeout_def SetRestApiEnabled_def GetCreationRequestTimeout_def GetCloudEventsEndpoint_def
    GetBlockDeployment_def GetObservabilityTimeout_def GetRestApiEnabled_def GetDefaultNamespace_def
  show ?thesis
    using assms(1,2) time init o1
    by (cases e; cases "kcr_LastAppliedSpec r") (auto simp: KeptnConfig_Reconcile_def reconcileOtelCollectorUrl_def initConfig_def sets Let_def)
qed

end
