(* ===== verification/Instruments.thy ===== *)
theory Instruments
  imports Telemetry
begin

text \<open>
  How telemetry is set up (\<^verbatim>\<open>controllers/common/telemetry/otel_utils.go\<close>): the instruments that the controllers add
  to, the gauges with the callback that observes them, the exporter that is opened for a collector.  The meter
  and the packages \<^verbatim>\<open>net\<close> and \<^verbatim>\<open>grpc\<close> are arguments.  An instrument that could not be created is used all the same.
\<close>

section \<open>Instruments\<close>

record ('w, 'i) Meter =
  ins_Int64Counter :: "string \<Rightarrow> ('w, 'i \<times> error option) state"
  ins_Float64Histogram :: "string \<Rightarrow> ('w, 'i \<times> error option) state"
  ins_Int64ObservableGauge :: "string \<Rightarrow> ('w, 'i \<times> error option) state"
  ins_Float64ObservableGauge :: "string \<Rightarrow> ('w, 'i \<times> error option) state"
  ins_RegisterCallback :: "'i list \<Rightarrow> ('w, error option) state"

record 'i KeptnMeters =
  km_TaskCount :: 'i
  km_TaskDuration :: 'i
  km_DeploymentCount :: 'i
  km_DeploymentDuration :: 'i
  km_AppCount :: 'i
  km_AppDuration :: 'i
  km_EvaluationCount :: 'i
  km_EvaluationDuration :: 'i
  km_PromotionCount :: 'i

definition SetUpKeptnTaskMeters :: "('w, 'i) Meter \<Rightarrow> ('w, 'i KeptnMeters) state" where
  "SetUpKeptnTaskMeters meter = do {
     (deploymentCount, err) \<leftarrow> ins_Int64Counter meter ''keptn.deployment.count'';
     (deploymentDuration, err) \<leftarrow> ins_Float64Histogram meter ''keptn.deployment.duration'';
     (taskCount, err) \<leftarrow> ins_Int64Counter meter ''keptn.task.count'';
     (taskDuration, err) \<leftarrow> ins_Float64Histogram meter ''keptn.task.duration'';
     (appCount, err) \<leftarrow> ins_Int64Counter meter ''keptn.app.count'';
     (appDuration, err) \<leftarrow> ins_Float64Histogram meter ''keptn.app.duration'';
     (evaluationCount, err) \<leftarrow> ins_Int64Counter meter ''keptn.evaluation.count'';
     (evaluationDuration, err) \<leftarrow> ins_Float64Histogram meter ''keptn.evaluation.duration'';
     (promotionCount, err) \<leftarrow> ins_Int64Counter meter ''keptn.promotion.count'';
     ret \<lparr>km_TaskCount = taskCount, km_TaskDuration = taskDuration, km_DeploymentCount = deploymentCount,
       km_DeploymentDuration = deploymentDuration, km_AppCount = appCount, km_AppDuration = appDuration,
       km_EvaluationCount = evaluationCount, km_EvaluationDuration = evaluationDuration, km_PromotionCount = promotionCount\<rparr>
   }"

text \<open>
  The gauges in the order in which they are created. The callback is registered for all of them, and a failure of
  that is a panic.
\<close>

definition new_gauge :: "('w, 'i) Meter \<Rightarrow> gauge \<Rightarrow> ('w, 'i \<times> error option) state" where
  "new_gauge meter g =
     (case g of
        WorkloadsActive \<Rightarrow> ins_Int64ObservableGauge meter ''keptn.deployment.active''
      | TasksActive \<Rightarrow> ins_Int64ObservableGauge meter ''keptn.task.active''
      | AppsActive \<Rightarrow> ins_Int64ObservableGauge meter ''keptn.app.active''
      | EvaluationsActive \<Rightarrow> ins_Int64ObservableGauge meter ''keptn.evaluation.active''
      | AppInterval \<Rightarrow> ins_Float64ObservableGauge meter ''keptn.app.deploymentinterval''
      | AppDuration \<Rightarrow> ins_Float64ObservableGauge meter ''keptn.app.deploymentduration''
      | WorkloadInterval \<Rightarrow> ins_Float64ObservableGauge meter ''keptn.deployment.deploymentinterval''
      | WorkloadDuration \<Rightarrow> ins_Float64ObservableGauge meter ''keptn.deployment.deploymentduration'')"

definition gauges_in_order :: "gauge list" where
  "gauges_in_order =
     [WorkloadsActive, TasksActive, AppsActive, EvaluationsActive, AppInterval, AppDuration, WorkloadInterval, WorkloadDuration]"

fun new_gauges :: "('w, 'i) Meter \<Rightarrow> gauge list \<Rightarrow> ('w, (gauge \<times> 'i) list) state" where
  "new_gauges meter [] = ret []"
| "new_gauges meter (g # gs) = do {
     (i, err) \<leftarrow> new_gauge meter g;
     rest \<leftarrow> new_gauges meter gs;
     ret ((g, i) # rest)
   }"

text \<open>The instruments of the gauges, to which the callback adds what \<^const>\<open>observe_all\<close> finds, or a panic.\<close>

definition SetUpKeptnMeters :: "('w, 'i) Meter \<Rightarrow> ('w, (gauge \<times> 'i) list option) state" where
  "SetUpKeptnMeters meter = do {
     gs \<leftarrow> new_gauges meter gauges_in_order;
     err \<leftarrow> ins_RegisterCallback meter (map snd gs);
     ret (case err of None \<Rightarrow> Some gs | Some e \<Rightarrow> None)
   }"

definition callback :: "(gauge \<times> 'i) list \<Rightarrow> 'w Client \<Rightarrow> ('w, ('i option \<times> (int + float64) \<times> KeyValue list) list) state" where
  "callback gs cl = do {
     obs \<leftarrow> observe_all cl;
     ret (map (\<lambda>(g, v, a). (map_of gs g, v, a)) obs)
   }"

section \<open>The exporter of a collector\<close>

text \<open>The connection that is dialled first only shows whether the collector can be reached; it is not closed.\<close>

record ('w, 'c, 'e) Grpc =
  gr_DialTimeout :: "string \<Rightarrow> ('w, error option) state"
  gr_NewClient :: "string \<Rightarrow> ('w, error + 'c) state"
  gr_NewExporter :: "'c \<Rightarrow> ('w, error + 'e) state"

definition open_exporter :: "('w, 'c, 'e) Grpc \<Rightarrow> string \<Rightarrow> ('w, error + 'e) state" where
  "open_exporter gr url = do {
     err \<leftarrow> gr_DialTimeout gr url;
     case err of
       Some e \<Rightarrow> ret (Inl (Wrapped (''failed to create gRPC connection to collector at '' @ url @ '': '') e))
     | None \<Rightarrow> do {
         c \<leftarrow> gr_NewClient gr url;
         case c of
           Inl e \<Rightarrow> ret (Inl (Wrapped (''failed to create gRPC connection to collector at '' @ url @ '': '') e))
         | Inr conn \<Rightarrow> do {
             x \<leftarrow> gr_NewExporter gr conn;
             ret (case x of Inl e \<Rightarrow> Inl (Wrapped ''failed to create trace exporter: '' e) | Inr exporter \<Rightarrow> Inr exporter)
           }
       }
   }"

definition exporters_of :: "('w, 'c, 'e) Grpc \<Rightarrow> ('w, error + 'e) state \<Rightarrow> ('w, 'e) Exporters" where
  "exporters_of gr stdout = \<lparr>newOTelExporter = open_exporter gr, newStdOutExporter = stdout\<rparr>"

section \<open>Properties\<close>

lemma new_gauges_fst: "run_state (new_gauges meter gs) w = (is, w') \<Longrightarrow> map fst is = gs"
  by (induction gs arbitrary: w "is" w') (auto simp: State_Monad.bind_def State_Monad.return_def split: prod.splits)

text \<open>
  Every observation of the callback is for an instrument that it was registered for.
\<close>

theorem observed_gauges_registered:
  assumes "run_state (SetUpKeptnMeters meter) w = (Some gs, w')"
    and "run_state (callback gs cl) v = (obs, v')" and "(i, x, a) \<in> set obs"
  shows "\<exists>instrument. i = Some instrument \<and> instrument \<in> snd ` set gs"
proof -
  have "map fst gs = gauges_in_order"
    using assms(1) new_gauges_fst
    by (auto simp: SetUpKeptnMeters_def State_Monad.bind_def State_Monad.return_def split: prod.splits option.splits)
  moreover have "g \<in> set gauges_in_order" for g by (cases g) (simp_all add: gauges_in_order_def)
  ultimately have "map_of gs g \<noteq> None" for g by (metis map_of_eq_None_iff set_map)
  moreover obtain g where "i = map_of gs g"
    using assms(2,3) by (auto simp: callback_def State_Monad.bind_def State_Monad.return_def split: prod.splits)
  ultimately show ?thesis by (metis image_eqI map_of_SomeD not_None_eq snd_conv)
qed

text \<open>
  A collector that cannot be reached leaves the configuration of telemetry as it was: with the exporter of the
  code the previous tracers stay in use, and the address is tried again with the next reconciliation.
\<close>

theorem unreachable_collector:
  assumes "run_state (gr_DialTimeout gr url) w = (Some e, w')" and "url \<noteq> []" and "otel_lastAppliedCollectorURL c \<noteq> url"
  shows "run_state (InitOtelCollector (exporters_of gr stdout) c url) w =
     ((c, Some (Wrapped (''failed to create gRPC connection to collector at '' @ url @ '': '') e)), w')"
  using assms
  by (simp add: InitOtelCollector_def GetOTelTracerProviderOptions_def exporters_of_def open_exporter_def
      State_Monad.bind_def)

end
