(* ===== verification/Metric_Providers.thy ===== *)
theory Metric_Providers
  imports Metrics Json Certificates
begin

text \<open>
  The providers of metrics (\<^verbatim>\<open>metrics-operator/controllers/common/providers\<close>): Prometheus, Datadog, Dynatrace and
  the Dynatrace query language with its authenticated client.  A provider builds the request, sends it
  and reads a value, or the values of the steps of an interval, from the answer.

  The API server, HTTP servers and the clock are the record \<open>ProviderClient\<close>; what \<^verbatim>\<open>encoding/json\<close> and the client
  libraries of Prometheus and Datadog read from an answer is the record \<open>Decoders\<close>.  The deadline of a context
  only shows in what a server answers, and log entries are left out.  The result \<^term>\<open>None\<close> is a panic.
\<close>

section \<open>Numbers as strings\<close>

text \<open>The digits of a non-negative number, rounded to so many after the point.\<close>

definition pad_zeros :: "nat \<Rightarrow> string \<Rightarrow> string" where
  "pad_zeros n s = replicate (n - length s) CHR ''0'' @ s"

definition fmt_fixed :: "nat \<Rightarrow> rat \<Rightarrow> string" where
  "fmt_fixed prec q =
     (let m = nat (round_half_even (q * 10 ^ prec)) in
      nat_digits (m div 10 ^ prec) @
      (if prec = 0 then [] else CHR ''.'' # pad_zeros prec (nat_digits (m mod 10 ^ prec))))"

definition fmt_special :: "(rat \<Rightarrow> string) \<Rightarrow> float64 \<Rightarrow> string" where
  "fmt_special f x =
     (case x of
        NaN \<Rightarrow> ''NaN''
      | Infinite neg \<Rightarrow> if neg then ''-Inf'' else ''+Inf''
      | Finite q \<Rightarrow> if q < 0 then CHR ''-'' # f (- q) else f q)"

text \<open>\<^verbatim>\<open>fmt.Sprintf("%f", x)\<close>\<close>

definition fmt_f :: "float64 \<Rightarrow> string" where
  "fmt_f = fmt_special (fmt_fixed 6)"

text \<open>
  \<^verbatim>\<open>strconv.FormatFloat(x, 'g', 5, 64)\<close>: five significant digits without trailing zeros, with an exponent when it
  is less than -4 or at least 5.
\<close>

definition pow10 :: "int \<Rightarrow> rat" where
  "pow10 k = (if 0 \<le> k then 10 ^ nat k else 1 / 10 ^ nat (- k))"

definition expo10 :: "rat \<Rightarrow> int" where
  "expo10 q =
     (let (a, b) = quotient_of q; k = int (length (nat_digits (nat a))) - int (length (nat_digits (nat b)))
      in if pow10 k \<le> q then k else k - 1)"

definition strip_zeros :: "string \<Rightarrow> string" where
  "strip_zeros s = rev (dropWhile (\<lambda>c. c = CHR ''0'') (rev s))"

definition fmt_exponent :: "int \<Rightarrow> string" where
  "fmt_exponent e = CHR ''e'' # (if e < 0 then CHR ''-'' else CHR ''+'') # pad_zeros 2 (nat_digits (nat \<bar>e\<bar>))"

definition fmt_general :: "rat \<Rightarrow> string" where
  "fmt_general q =
     (if q = 0 then ''0''
      else
        (let e0 = expo10 q;
             m0 = round_half_even (q / pow10 (e0 - 4));
             (m, e) = (if m0 = 100000 then (10000, e0 + 1) else (m0, e0));
             digs = strip_zeros (nat_digits (nat m))
         in if e < - 4 \<or> 5 \<le> e then
              hd digs # (if tl digs = [] then [] else CHR ''.'' # tl digs) @ fmt_exponent e
            else fmt_fixed (nat (int (length digs) - (e + 1))) (of_int m * pow10 (e - 4))))"

definition FormatFloat_g5 :: "float64 \<Rightarrow> string" where
  "FormatFloat_g5 = fmt_special fmt_general"

definition json_strings :: "string list \<Rightarrow> string" where
  "json_strings ss = CHR ''['' # join '','' (map json_string ss) @ [CHR '']'']"

section \<open>Queries in a URL\<close>

definition is_unreserved :: "char \<Rightarrow> bool" where
  "is_unreserved c \<longleftrightarrow>
     is_dec c \<or> byte_in 65 90 c \<or> byte_in 97 122 c \<or> c \<in> set ''-_.~''"

definition upper_hex :: "nat \<Rightarrow> char" where
  "upper_hex n = (if n < 10 then char_of (48 + n) else char_of (55 + n))"

definition escape_char :: "char \<Rightarrow> string" where
  "escape_char c =
     (if is_unreserved c then [c]
      else if c = CHR '' '' then ''+''
      else [CHR ''%'', upper_hex (byte c div 16), upper_hex (byte c mod 16)])"

text \<open>\<^verbatim>\<open>url.QueryEscape\<close>\<close>

definition QueryEscape :: "string \<Rightarrow> string" where
  "QueryEscape s = concat (map escape_char s)"

text \<open>\<^verbatim>\<open>url.Values.Encode\<close>, with one value for a key: in the order of the keys.\<close>

definition Values_Encode :: "(string \<times> string) list \<Rightarrow> string" where
  "Values_Encode kvs = join ''&'' (map (\<lambda>(k, v). QueryEscape k @ ''='' @ QueryEscape v) (sort_key fst kvs))"

section \<open>The world of a provider\<close>

record HttpRequest =
  rq_Method :: string
  rq_URL :: string
  rq_Header :: "(string \<times> string) list"
  rq_Body :: string

text \<open>An answer: its status, the bytes that could be read and the error that ended the reading, if any.\<close>

record HttpResponse =
  rp_StatusCode :: int
  rp_Body :: string
  rp_ReadErr :: "error option"

record Range =
  rg_Start :: time
  rg_End :: time
  rg_Step :: duration

text \<open>
  The values of the Prometheus client: of a matrix the samples of its series, of a vector its samples.
\<close>

datatype PromValue = PromMatrix "float64 list list" | PromVector "float64 list" | PromOther

text \<open>How Prometheus is reached: with basic authentication or without.\<close>

datatype RoundTripper = DefaultRoundTripper | BasicAuthRoundTripper string string

record 'w ProviderClient =
  pcl_Secret :: "('w, Secret) api"
  pcl_Now :: "('w, time) state"
  pcl_After :: "duration \<Rightarrow> ('w, unit) state"
  pcl_RangeOrder :: "string fset \<Rightarrow> ('w, string list) state"
  pcl_NewRequest :: "string \<Rightarrow> string \<Rightarrow> error option"
  pcl_Do :: "bool \<Rightarrow> HttpRequest \<Rightarrow> ('w, error + HttpResponse) state"
  pcl_NewPromClient :: "string \<Rightarrow> error option"
  pcl_QueryRange :: "string \<Rightarrow> RoundTripper \<Rightarrow> string \<Rightarrow> Range \<Rightarrow> ('w, error + PromValue) state"
  pcl_Query :: "string \<Rightarrow> RoundTripper \<Rightarrow> string \<Rightarrow> time \<Rightarrow> ('w, error + PromValue) state"

section \<open>Answers\<close>

text \<open>A value of type \<^verbatim>\<open>any\<close>.\<close>

datatype any =
    AnyNil
  | AnyBool bool
  | AnyFloat float64
  | AnyInt int
  | AnyString string
  | AnyArray "any list"
  | AnyMap "(string, any) fmap"

record Error =
  de_Code :: int
  de_Message :: string

definition no_error :: Error where
  "no_error = \<lparr>de_Code = 0, de_Message = []\<rparr>"

record DynatraceData =
  dd_Timestamps :: "int list"
  dd_Values :: "float64 option list"

record DynatraceResult =
  dr_MetricId :: string
  dr_Data :: "DynatraceData list"

record DynatraceResponse =
  dres_TotalCount :: int
  dres_Resolution :: string
  dres_Result :: "DynatraceResult list"
  dres_Error :: Error

type_synonym DynatraceDQLHandler = string

record DQLResult =
  dqr_Records :: "(string, any) gomap list"

record DynatraceDQLResult =
  dq_State :: string
  dq_Result :: DQLResult
  dq_Error :: Error

record DQLSecret =
  dqs_Token :: string
  dqs_AuthUrl :: string

text \<open>Of a Datadog response the error and, for each series, its points.\<close>

record MetricsQueryResponse =
  mq_Error :: "string option"
  mq_Series :: "float64 option list list list"

text \<open>
  Where the code hands out the address of a pointer to be filled, a JSON \<^verbatim>\<open>null\<close> leaves a nil pointer, here
  \<^term>\<open>None\<close>.
\<close>

record Decoders =
  dec_Datadog :: "string \<Rightarrow> error + MetricsQueryResponse"
  dec_Dynatrace :: "string \<Rightarrow> error + DynatraceResponse"
  dec_DQLResult :: "string \<Rightarrow> error + DynatraceDQLResult option"
  dec_DQLHandler :: "string \<Rightarrow> error + DynatraceDQLHandler option"
  dec_DQLSecret :: "string \<Rightarrow> error + DQLSecret"
  dec_OAuth :: "string \<Rightarrow> error + string"
  enc_DQLResult :: "DQLResult \<Rightarrow> error + string"
  dec_ParseRequestURI :: "string \<Rightarrow> error option"
  dec_RFC3339 :: "time \<Rightarrow> string"
  dec_SampleString :: "float64 \<Rightarrow> string"
  dec_SampleJSON :: "float64 \<Rightarrow> error + string"
  dec_Quote :: "string \<Rightarrow> string"

text \<open>An entry of a Secret; an entry that is missing is nil.\<close>

definition secret_bytes :: "Secret \<Rightarrow> string \<Rightarrow> string" where
  "secret_bytes s k =
     (case sec_Data s of
        None \<Rightarrow> []
      | Some d \<Rightarrow> (case fmlookup d k of Some (Some b) \<Rightarrow> b | _ \<Rightarrow> []))"

definition has_entry :: "Secret \<Rightarrow> string \<Rightarrow> bool" where
  "has_entry s k = (case sec_Data s of None \<Rightarrow> False | Some d \<Rightarrow> fmlookup d k \<noteq> None)"

definition read_secret :: "'w ProviderClient \<Rightarrow> KeptnMetricsProvider \<Rightarrow> ('w, error + Secret) state" where
  "read_secret pc provider =
     api_Get (pcl_Secret pc) (om_Namespace (kmp_meta provider)) (sks_Name (kmp_SecretKeyRef provider))"

text \<open>Times count from the year 1, and \<^verbatim>\<open>Unix\<close> from 1970.\<close>

definition Unix :: "time \<Rightarrow> int" where
  "Unix t = t div second - 62135596800"

definition before :: "time \<Rightarrow> duration \<Rightarrow> time" where
  "before t d = t + wrap64 (- d)"


section \<open>Prometheus\<close>

definition ErrPromSecretKeyRefNotDefined :: error where
  "ErrPromSecretKeyRefNotDefined = Sentinel ''the SecretKeyRef property with the Prometheus API Key is missing''"

definition ErrInvalidSecretFormat :: error where
  "ErrInvalidSecretFormat = Sentinel ''secret key does not contain user and password''"

record SecretData =
  sd_User :: string
  sd_Password :: string

definition getPrometheusSecret :: "'w ProviderClient \<Rightarrow> KeptnMetricsProvider \<Rightarrow> ('w, error + SecretData) state" where
  "getPrometheusSecret pc provider =
     (if \<not> HasSecretDefined provider then ret (Inl ErrPromSecretKeyRefNotDefined)
      else do {
        g \<leftarrow> read_secret pc provider;
        case g of
          Inl err \<Rightarrow> ret (Inl err)
        | Inr secret \<Rightarrow>
            if \<not> has_entry secret ''user'' \<or> \<not> has_entry secret ''password'' then ret (Inl ErrInvalidSecretFormat)
            else ret (Inr \<lparr>sd_User = secret_bytes secret ''user'', sd_Password = secret_bytes secret ''password''\<rparr>)
      })"

definition GetRoundTripper :: "'w ProviderClient \<Rightarrow> KeptnMetricsProvider \<Rightarrow> ('w, error + RoundTripper) state" where
  "GetRoundTripper pc provider = do {
     g \<leftarrow> getPrometheusSecret pc provider;
     case g of
       Inl err \<Rightarrow> ret (if error_is err ErrPromSecretKeyRefNotDefined then Inr DefaultRoundTripper else Inl err)
     | Inr secret \<Rightarrow> ret (Inr (BasicAuthRoundTripper (sd_User secret) (sd_Password secret)))
   }"

text \<open>The API is the address of the server and how to reach it.\<close>

definition setupApi :: "'w ProviderClient \<Rightarrow> KeptnMetricsProvider \<Rightarrow> ('w, error + string \<times> RoundTripper) state" where
  "setupApi pc provider = do {
     g \<leftarrow> GetRoundTripper pc provider;
     case g of
       Inl err \<Rightarrow> ret (Inl err)
     | Inr rt \<Rightarrow>
         (case pcl_NewPromClient pc (kmp_TargetServer provider) of
            Some err \<Rightarrow> ret (Inl err)
          | None \<Rightarrow> ret (Inr (kmp_TargetServer provider, rt)))
   }"

definition errCouldNotCast :: error where
  "errCouldNotCast = Sentinel ''could not cast result''"

definition errNoValues :: error where
  "errNoValues = Sentinel ''no values in query result''"

definition errTooManyValues :: error where
  "errTooManyValues = Sentinel ''too many values in query result''"

definition sample_result :: "Decoders \<Rightarrow> float64 \<Rightarrow> string \<times> string \<times> error option" where
  "sample_result de v =
     (case dec_SampleJSON de v of
        Inl err \<Rightarrow> ([], [], Some err)
      | Inr b \<Rightarrow> (dec_SampleString de v, b, None))"

definition getResultForMatrix :: "Decoders \<Rightarrow> PromValue \<Rightarrow> (string \<times> string \<times> error option) option" where
  "getResultForMatrix de result =
     (case result of
        PromMatrix resultMatrix \<Rightarrow>
          (case resultMatrix of
             [] \<Rightarrow> Some ([], [], Some errNoValues)
           | [stream] \<Rightarrow> (case stream of [] \<Rightarrow> None | v # vs \<Rightarrow> Some (sample_result de v))
           | _ \<Rightarrow> Some ([], [], Some errTooManyValues))
      | _ \<Rightarrow> Some ([], [], Some errCouldNotCast))"

definition getResultForVector :: "Decoders \<Rightarrow> PromValue \<Rightarrow> string \<times> string \<times> error option" where
  "getResultForVector de result =
     (case result of
        PromVector resultVector \<Rightarrow>
          (case resultVector of
             [] \<Rightarrow> ([], [], Some errNoValues)
           | [v] \<Rightarrow> sample_result de v
           | _ \<Rightarrow> ([], [], Some errTooManyValues))
      | _ \<Rightarrow> ([], [], Some errCouldNotCast))"

definition getResultForStepMatrix :: "Decoders \<Rightarrow> PromValue \<Rightarrow> string list \<times> string \<times> error option" where
  "getResultForStepMatrix de result =
     (case result of
        PromMatrix resultMatrix \<Rightarrow>
          (case resultMatrix of
             [] \<Rightarrow> ([], [], Some errNoValues)
           | [stream] \<Rightarrow>
               (let resultSlice = map (dec_SampleString de) stream in (resultSlice, json_strings resultSlice, None))
           | _ \<Rightarrow> ([], [], Some errTooManyValues))
      | _ \<Rightarrow> ([], [], Some errCouldNotCast))"

definition Prometheus_FetchAnalysisValue ::
    "'w ProviderClient \<Rightarrow> Decoders \<Rightarrow> string \<Rightarrow> Analysis \<Rightarrow> KeptnMetricsProvider \<Rightarrow>
     ('w, (string \<times> error option) option) state" where
  "Prometheus_FetchAnalysisValue pc de query analysis provider = do {
     a \<leftarrow> setupApi pc provider;
     case a of
       Inl err \<Rightarrow> ret (Some ([], Some err))
     | Inr (address, rt) \<Rightarrow> do {
         from_logged \<leftarrow> Analysis_GetFrom (pcl_Now pc) analysis;
         to_logged \<leftarrow> Analysis_GetTo (pcl_Now pc) analysis;
         from \<leftarrow> Analysis_GetFrom (pcl_Now pc) analysis;
         to \<leftarrow> Analysis_GetTo (pcl_Now pc) analysis;
         r \<leftarrow> pcl_QueryRange pc address rt query \<lparr>rg_Start = from, rg_End = to, rg_Step = 60 * second\<rparr>;
         case r of
           Inl err \<Rightarrow> ret (Some ([], Some err))
         | Inr result \<Rightarrow> ret (map_option (\<lambda>(res, _, err). (res, err)) (getResultForMatrix de result))
       }
   }"

text \<open>Without a range the code dereferences a nil pointer.\<close>

definition evaluateQueryWithRange ::
    "'w ProviderClient \<Rightarrow> Decoders \<Rightarrow> Metric \<Rightarrow> string \<times> RoundTripper \<Rightarrow> ('w, (error + PromValue) option) state" where
  "evaluateQueryWithRange pc de metric api = do {
     queryTime \<leftarrow> pcl_Now pc;
     case mt_Range metric of
       None \<Rightarrow> ret None
     | Some rng \<Rightarrow>
         (case ParseDuration (dec_Quote de) (rs_Interval rng) of
            Inl err \<Rightarrow> ret (Some (Inl err))
          | Inr queryInterval \<Rightarrow>
              (case (if rs_Step rng \<noteq> [] then ParseDuration (dec_Quote de) (rs_Step rng) else Inr queryInterval) of
                 Inl err \<Rightarrow> ret (Some (Inl err))
               | Inr stepInterval \<Rightarrow> do {
                   r \<leftarrow> pcl_QueryRange pc (fst api) (snd api) (mt_Query metric)
                     \<lparr>rg_Start = before queryTime queryInterval, rg_End = queryTime, rg_Step = stepInterval\<rparr>;
                   ret (Some r)
                 }))
   }"

definition evaluateQueryWithoutRange ::
    "'w ProviderClient \<Rightarrow> Metric \<Rightarrow> string \<times> RoundTripper \<Rightarrow> ('w, error + PromValue) state" where
  "evaluateQueryWithoutRange pc metric api = do {
     queryTime \<leftarrow> pcl_Now pc;
     pcl_Query pc (fst api) (snd api) (mt_Query metric) queryTime
   }"

definition Prometheus_EvaluateQuery ::
    "'w ProviderClient \<Rightarrow> Decoders \<Rightarrow> Metric \<Rightarrow> KeptnMetricsProvider \<Rightarrow>
     ('w, (string \<times> string \<times> error option) option) state" where
  "Prometheus_EvaluateQuery pc de metric provider = do {
     a \<leftarrow> setupApi pc provider;
     case a of
       Inl err \<Rightarrow> ret (Some ([], [], Some err))
     | Inr api \<Rightarrow>
         (case mt_Range metric of
            Some rng \<Rightarrow> do {
              r \<leftarrow> evaluateQueryWithRange pc de metric api;
              ret (case r of
                  None \<Rightarrow> None
                | Some (Inl err) \<Rightarrow> Some ([], [], Some err)
                | Some (Inr result) \<Rightarrow> getResultForMatrix de result)
            }
          | None \<Rightarrow> do {
              r \<leftarrow> evaluateQueryWithoutRange pc metric api;
              ret (Some (case r of Inl err \<Rightarrow> ([], [], Some err) | Inr result \<Rightarrow> getResultForVector de result))
            })
   }"

definition Prometheus_EvaluateQueryForStep ::
    "'w ProviderClient \<Rightarrow> Decoders \<Rightarrow> Metric \<Rightarrow> KeptnMetricsProvider \<Rightarrow>
     ('w, (string list \<times> string \<times> error option) option) state" where
  "Prometheus_EvaluateQueryForStep pc de metric provider = do {
     a \<leftarrow> setupApi pc provider;
     case a of
       Inl err \<Rightarrow> ret (Some ([], [], Some err))
     | Inr api \<Rightarrow> do {
         r \<leftarrow> evaluateQueryWithRange pc de metric api;
         ret (case r of
             None \<Rightarrow> None
           | Some (Inl err) \<Rightarrow> Some ([], [], Some err)
           | Some (Inr result) \<Rightarrow> Some (getResultForStepMatrix de result))
       }
   }"

section \<open>Datadog\<close>

definition ErrDDSecretKeyRefNotDefined :: error where
  "ErrDDSecretKeyRefNotDefined = Sentinel ''the SecretKeyRef property with the DataDog API Key is missing''"

definition getDDSecret :: "'w ProviderClient \<Rightarrow> KeptnMetricsProvider \<Rightarrow> ('w, error + string \<times> string) state" where
  "getDDSecret pc provider =
     (if \<not> HasSecretDefined provider then ret (Inl ErrDDSecretKeyRefNotDefined)
      else do {
        g \<leftarrow> read_secret pc provider;
        case g of
          Inl err \<Rightarrow> ret (Inl err)
        | Inr secret \<Rightarrow>
            (let apiKeyVal = secret_bytes secret ''DD_CLIENT_API_KEY''; appKeyVal = secret_bytes secret ''DD_CLIENT_APP_KEY'' in
             if apiKeyVal = [] \<or> appKeyVal = [] then
               ret (Inl (Message ''secret does not contain DD_CLIENT_API_KEY or DD_CLIENT_APP_KEY''))
             else ret (Inr (apiKeyVal, appKeyVal)))
      })"

text \<open>Reading the body may end with an error, which is ignored.\<close>

definition Datadog_executeQuery ::
    "'w ProviderClient \<Rightarrow> bool \<Rightarrow> string \<Rightarrow> string \<Rightarrow> string \<Rightarrow> ('w, error + string) state" where
  "Datadog_executeQuery pc skip qURL apiKeyVal appKeyVal =
     (case pcl_NewRequest pc ''GET'' qURL of
        Some err \<Rightarrow> ret (Inl err)
      | None \<Rightarrow> do {
          res \<leftarrow> pcl_Do pc skip
            \<lparr>rq_Method = ''GET'', rq_URL = qURL,
             rq_Header = [(''Accept'', ''application/json''), (''Dd-Api-Key'', apiKeyVal), (''Dd-Application-Key'', appKeyVal)],
             rq_Body = []\<rparr>;
          ret (case res of Inl err \<Rightarrow> Inl err | Inr r \<Rightarrow> Inr (rp_Body r))
        })"

text \<open>The loop over the points: the sum and the number of values so far.  A point without a second part panics.\<close>

fun sum_points :: "float64 option list list \<Rightarrow> float64 \<Rightarrow> nat \<Rightarrow> (float64 \<times> nat) option" where
  "sum_points [] s n = Some (s, n)"
| "sum_points (point # points) s n =
     (if length point < 2 then None
      else
        (case point ! 1 of
           Some v \<Rightarrow> sum_points points (float_add s v) (n + 1)
         | None \<Rightarrow> sum_points points s n))"

definition Datadog_getSingleValue :: "float64 option list list \<Rightarrow> float64 option" where
  "Datadog_getSingleValue points =
     (case sum_points points (Finite 0) 0 of
        None \<Rightarrow> None
      | Some (s, n) \<Rightarrow> Some (if n < 1 then Finite 0 else float_div s (float_of_int (int n))))"

fun Datadog_getResultSlice :: "float64 option list list \<Rightarrow> string list" where
  "Datadog_getResultSlice [] = []"
| "Datadog_getResultSlice (point # points) =
     (if 1 < length point then
        (case point ! 1 of
           Some v \<Rightarrow> fmt_f v # Datadog_getResultSlice points
         | None \<Rightarrow> Datadog_getResultSlice points)
      else Datadog_getResultSlice points)"

definition errNoMetricPoints :: error where
  "errNoMetricPoints = Sentinel ''no metric points in query result''"

text \<open>The points of the first series of an answer, or the bytes and the error that are returned.\<close>

definition Datadog_points :: "Decoders \<Rightarrow> string \<Rightarrow> string \<times> error + float64 option list list" where
  "Datadog_points de b =
     (case dec_Datadog de b of
        Inl err \<Rightarrow> Inl (b, err)
      | Inr result \<Rightarrow>
          (case mq_Error result of
             Some msg \<Rightarrow> Inl (b, Message msg)
           | None \<Rightarrow>
               (case mq_Series result of
                  [] \<Rightarrow> Inl ([], errNoValues)
                | points # _ \<Rightarrow> if points = [] then Inl (b, errNoMetricPoints) else Inr points)))"

definition Datadog_query ::
    "'w ProviderClient \<Rightarrow> Decoders \<Rightarrow> bool \<Rightarrow> string \<Rightarrow> KeptnMetricsProvider \<Rightarrow> int \<Rightarrow> int \<Rightarrow>
     ('w, (string \<times> string \<times> error option) option) state" where
  "Datadog_query pc de skip query provider fromTime toTime = do {
     let qURL = kmp_TargetServer provider @ ''/api/v1/query?from='' @ itoa fromTime @ ''&to='' @ itoa toTime @
       ''&query='' @ QueryEscape query;
     k \<leftarrow> getDDSecret pc provider;
     case k of
       Inl err \<Rightarrow> ret (Some ([], [], Some err))
     | Inr (apiKeyVal, appKeyVal) \<Rightarrow> do {
         e \<leftarrow> Datadog_executeQuery pc skip qURL apiKeyVal appKeyVal;
         case e of
           Inl err \<Rightarrow> ret (Some ([], [], Some err))
         | Inr b \<Rightarrow>
             ret (case Datadog_points de b of
                 Inl (raw, err) \<Rightarrow> Some ([], raw, Some err)
               | Inr points \<Rightarrow>
                   map_option (\<lambda>r. (FormatFloat_g5 r, b, None)) (Datadog_getSingleValue points))
       }
   }"

definition Datadog_FetchAnalysisValue ::
    "'w ProviderClient \<Rightarrow> Decoders \<Rightarrow> bool \<Rightarrow> string \<Rightarrow> Analysis \<Rightarrow> KeptnMetricsProvider \<Rightarrow>
     ('w, (string \<times> error option) option) state" where
  "Datadog_FetchAnalysisValue pc de skip query analysis provider = do {
     from \<leftarrow> Analysis_GetFrom (pcl_Now pc) analysis;
     to \<leftarrow> Analysis_GetTo (pcl_Now pc) analysis;
     r \<leftarrow> Datadog_query pc de skip query provider (Unix from) (Unix to);
     ret (map_option (\<lambda>(res, _, err). (res, err)) r)
   }"

definition getTimeRange :: "'w ProviderClient \<Rightarrow> Decoders \<Rightarrow> Metric \<Rightarrow> ('w, error + int \<times> int) state" where
  "getTimeRange pc de metric =
     (case ParseDuration (dec_Quote de) (case mt_Range metric of Some rng \<Rightarrow> rs_Interval rng | None \<Rightarrow> ''5m'') of
        Inl err \<Rightarrow> ret (Inl err)
      | Inr intervalDuration \<Rightarrow> do {
          from \<leftarrow> pcl_Now pc;
          to \<leftarrow> pcl_Now pc;
          ret (Inr (Unix (before from intervalDuration), Unix to))
        })"

definition Milliseconds :: "duration \<Rightarrow> int" where
  "Milliseconds d = (if 0 \<le> d then d div 1000000 else - (- d div 1000000))"

definition getTimeRangeForStep ::
    "'w ProviderClient \<Rightarrow> Decoders \<Rightarrow> RangeSpec \<Rightarrow> ('w, error + int \<times> int \<times> int) state" where
  "getTimeRangeForStep pc de rng =
     (case ParseDuration (dec_Quote de) (rs_Interval rng) of
        Inl err \<Rightarrow> ret (Inl err)
      | Inr intervalDuration \<Rightarrow>
          (case ParseDuration (dec_Quote de) (rs_Step rng) of
             Inl err \<Rightarrow> ret (Inl err)
           | Inr stepDuration \<Rightarrow> do {
               from \<leftarrow> pcl_Now pc;
               to \<leftarrow> pcl_Now pc;
               ret (Inr (Unix (before from intervalDuration), Unix to, Milliseconds stepDuration))
             }))"

definition Datadog_EvaluateQuery ::
    "'w ProviderClient \<Rightarrow> Decoders \<Rightarrow> bool \<Rightarrow> Metric \<Rightarrow> KeptnMetricsProvider \<Rightarrow>
     ('w, (string \<times> string \<times> error option) option) state" where
  "Datadog_EvaluateQuery pc de skip metric provider = do {
     t \<leftarrow> getTimeRange pc de metric;
     case t of
       Inl err \<Rightarrow> ret (Some ([], [], Some err))
     | Inr (fromTime, toTime) \<Rightarrow> Datadog_query pc de skip (mt_Query metric) provider fromTime toTime
   }"

definition Datadog_EvaluateQueryForStep ::
    "'w ProviderClient \<Rightarrow> Decoders \<Rightarrow> bool \<Rightarrow> Metric \<Rightarrow> KeptnMetricsProvider \<Rightarrow>
     ('w, (string list \<times> string \<times> error option) option) state" where
  "Datadog_EvaluateQueryForStep pc de skip metric provider =
     (case mt_Range metric of
        None \<Rightarrow> ret None
      | Some rng \<Rightarrow> do {
          t \<leftarrow> getTimeRangeForStep pc de rng;
          case t of
            Inl err \<Rightarrow> ret (Some ([], [], Some err))
          | Inr (fromTime, toTime, stepInterval) \<Rightarrow> do {
              let qURL = kmp_TargetServer provider @ ''/api/v1/query?from='' @ itoa fromTime @ ''&to='' @ itoa toTime @
                ''&interval='' @ itoa stepInterval @ ''&query='' @ QueryEscape (mt_Query metric);
              k \<leftarrow> getDDSecret pc provider;
              case k of
                Inl err \<Rightarrow> ret (Some ([], [], Some err))
              | Inr (apiKeyVal, appKeyVal) \<Rightarrow> do {
                  e \<leftarrow> Datadog_executeQuery pc skip qURL apiKeyVal appKeyVal;
                  ret (Some (case e of
                      Inl err \<Rightarrow> ([], [], Some err)
                    | Inr b \<Rightarrow>
                        (case Datadog_points de b of
                           Inl (raw, err) \<Rightarrow> ([], raw, Some err)
                         | Inr points \<Rightarrow> (Datadog_getResultSlice points, b, None))))
                }
            }
        })"


section \<open>Dynatrace\<close>

definition ErrSecretKeyRefNotDefined :: error where
  "ErrSecretKeyRefNotDefined = Sentinel ''the SecretKeyRef property with the Dynatrace token is missing''"

definition ErrInvalidResult :: error where
  "ErrInvalidResult = Sentinel ''the answer does not contain any data''"

definition ErrDQLQueryTimeout :: error where
  "ErrDQLQueryTimeout = Sentinel ''timed out waiting for result of DQL query''"

definition ErrInvalidAuthURL :: error where
  "ErrInvalidAuthURL = Sentinel ''the Dynatrace auth URL is not a valid URL''"

definition ErrInvalidToken :: error where
  "ErrInvalidToken = Sentinel ''the Dynatrace token has an invalid format''"

definition dtTokenPrefix :: string where
  "dtTokenPrefix = ''dt0s08''"

definition DQLSecret_validate :: "Decoders \<Rightarrow> DQLSecret \<Rightarrow> error option" where
  "DQLSecret_validate de s =
     (if \<not> has_prefix (dqs_Token s) dtTokenPrefix then
        Some (Wrapped (''secret does not start with required prefix '' @ dtTokenPrefix @ '': '') ErrInvalidToken)
      else
        (let parts = split_on CHR ''.'' (dqs_Token s) in
         if length parts \<noteq> 3 then Some (Wrapped ''secret does not contain three components: '' ErrInvalidToken)
         else if length (parts ! 2) \<noteq> 64 then
           Some (Wrapped (''length of secret is '' @ itoa (int (length (parts ! 2))) @ '', which is not equal to 64: '') ErrInvalidToken)
         else if dqs_AuthUrl s \<noteq> [] \<and> dec_ParseRequestURI de (dqs_AuthUrl s) \<noteq> None then
           Some (Wrapped ''authurl is not a valid url: '' ErrInvalidAuthURL)
         else None))"

definition trim_newlines :: "string \<Rightarrow> string" where
  "trim_newlines s = rev (dropWhile (\<lambda>c. c = CHR 0x0A) (rev (dropWhile (\<lambda>c. c = CHR 0x0A) s)))"

definition getDTSecret :: "'w ProviderClient \<Rightarrow> KeptnMetricsProvider \<Rightarrow> ('w, error + string) state" where
  "getDTSecret pc provider =
     (if \<not> HasSecretDefined provider \<or> \<not> HasSecretKeyDefined provider then ret (Inl ErrSecretKeyRefNotDefined)
      else do {
        g \<leftarrow> read_secret pc provider;
        case g of
          Inl err \<Rightarrow> ret (Inl err)
        | Inr secret \<Rightarrow>
            (let token = secret_bytes secret (sks_Key (kmp_SecretKeyRef provider)) in
             ret (if token = [] then Inl (Message (''secret contains invalid key '' @ sks_Key (kmp_SecretKeyRef provider)))
               else Inr (trim_newlines token)))
      })"

definition getDQLSecret ::
    "'w ProviderClient \<Rightarrow> Decoders \<Rightarrow> KeptnMetricsProvider \<Rightarrow> ('w, error + DQLSecret) state" where
  "getDQLSecret pc de provider =
     (if \<not> HasSecretDefined provider \<or> \<not> HasSecretKeyDefined provider then ret (Inl ErrSecretKeyRefNotDefined)
      else do {
        g \<leftarrow> read_secret pc provider;
        case g of
          Inl err \<Rightarrow> ret (Inl err)
        | Inr secret \<Rightarrow>
            ret (case dec_DQLSecret de (secret_bytes secret (sks_Key (kmp_SecretKeyRef provider))) of
                Inl err \<Rightarrow> Inl (Wrapped ''could not unmarshal secret containing access credentials: '' err)
              | Inr credentialsObj \<Rightarrow>
                  (case DQLSecret_validate de credentialsObj of
                     Some err \<Rightarrow> Inl (Wrapped ''secret contains invalid credentials: '' err)
                   | None \<Rightarrow> Inr credentialsObj))
      })"

text \<open>The loop over the parameters, with the result so far: what is not a key and a value is left out.\<close>

fun encode_params :: "nat \<Rightarrow> string list \<Rightarrow> string \<Rightarrow> string" where
  "encode_params i [] result = result"
| "encode_params i (param # params) result =
     (case split_on CHR ''='' param of
        [k, v] \<Rightarrow>
          encode_params (i + 1) params (result @ (if 0 < i then ''&'' else []) @ k @ ''='' @ QueryEscape v)
      | _ \<Rightarrow> encode_params (i + 1) params result)"

definition urlEncodeQuery :: "string \<Rightarrow> string" where
  "urlEncodeQuery query = encode_params 0 (split_on CHR ''&'' query) []"

definition has_suffix :: "string \<Rightarrow> string \<Rightarrow> bool" where
  "has_suffix s p = (length p \<le> length s \<and> drop (length s - length p) s = p)"

definition normalizeAPIURL :: "string \<Rightarrow> string" where
  "normalizeAPIURL url =
     (let out = url;
          out = (if \<not> has_suffix out ''/'' then out @ ''/'' else out);
          out = (if \<not> has_suffix out ''api/'' then out @ ''api/'' else out)
      in out)"

definition metricsBasePath :: string where
  "metricsBasePath = ''v2/metrics/query?''"

definition metricSelectorParam :: string where
  "metricSelectorParam = ''metricSelector''"

text \<open>The three loops of \<^verbatim>\<open>getSingleValue\<close>, with the sum and the number of values so far.\<close>

fun add_values :: "float64 option list \<Rightarrow> float64 \<times> nat \<Rightarrow> float64 \<times> nat" where
  "add_values [] acc = acc"
| "add_values (None # vs) acc = add_values vs acc"
| "add_values (Some v # vs) (s, n) = add_values vs (float_add s v, n + 1)"

definition Dynatrace_getSingleValue :: "DynatraceResponse \<Rightarrow> float64" where
  "Dynatrace_getSingleValue result =
     (let (s, n) = fold (\<lambda>r. fold (\<lambda>points. add_values (dd_Values points)) (dr_Data r)) (dres_Result result) (Finite 0, 0)
      in if n < 1 then Finite 0 else float_div s (float_of_int (int n)))"

fun append_values :: "float64 option list \<Rightarrow> string list \<Rightarrow> string list" where
  "append_values [] res = res"
| "append_values (None # vs) res = append_values vs res"
| "append_values (Some v # vs) res = append_values vs (res @ [fmt_f v])"

definition Dynatrace_getResultSlice :: "DynatraceResponse \<Rightarrow> string list" where
  "Dynatrace_getResultSlice result =
     fold (\<lambda>r. fold (\<lambda>points. append_values (dd_Values points)) (dr_Data r)) (dres_Result result) []"

definition provider_api_error :: "Error \<Rightarrow> error" where
  "provider_api_error e = Message (''provider api response: '' @ de_Message e)"

definition performRequest ::
    "'w ProviderClient \<Rightarrow> Decoders \<Rightarrow> bool \<Rightarrow> KeptnMetricsProvider \<Rightarrow> string \<Rightarrow>
     ('w, string \<times> error + DynatraceResponse \<times> string) state" where
  "performRequest pc de skip provider query =
     (case pcl_NewRequest pc ''GET'' query of
        Some err \<Rightarrow> ret (Inl ([], err))
      | None \<Rightarrow> do {
          t \<leftarrow> getDTSecret pc provider;
          case t of
            Inl err \<Rightarrow> ret (Inl ([], err))
          | Inr token \<Rightarrow> do {
              res \<leftarrow> pcl_Do pc skip
                \<lparr>rq_Method = ''GET'', rq_URL = query, rq_Header = [(''Authorization'', ''Api-Token '' @ token)], rq_Body = []\<rparr>;
              case res of
                Inl err \<Rightarrow> ret (Inl ([], err))
              | Inr r \<Rightarrow>
                  (let b = rp_Body r in
                   ret (case dec_Dynatrace de b of
                       Inl err \<Rightarrow> Inl (b, err)
                     | Inr result \<Rightarrow>
                         if dres_Error result \<noteq> no_error then Inl (b, provider_api_error (dres_Error result))
                         else Inr (result, b)))
            }
        })"

definition runQuery ::
    "'w ProviderClient \<Rightarrow> Decoders \<Rightarrow> bool \<Rightarrow> string \<Rightarrow> KeptnMetricsProvider \<Rightarrow>
     ('w, string \<times> string \<times> error option) state" where
  "runQuery pc de skip qURL provider = do {
     r \<leftarrow> performRequest pc de skip provider qURL;
     ret (case r of
         Inl (b, err) \<Rightarrow> ([], b, Some err)
       | Inr (result, b) \<Rightarrow> (fmt_f (Dynatrace_getSingleValue result), b, None))
   }"

definition Dynatrace_FetchAnalysisValue ::
    "'w ProviderClient \<Rightarrow> Decoders \<Rightarrow> bool \<Rightarrow> string \<Rightarrow> Analysis \<Rightarrow> KeptnMetricsProvider \<Rightarrow>
     ('w, string \<times> error option) state" where
  "Dynatrace_FetchAnalysisValue pc de skip query analysis provider = do {
     let baseURL = normalizeAPIURL (kmp_TargetServer provider);
     from \<leftarrow> Analysis_GetFrom (pcl_Now pc) analysis;
     to \<leftarrow> Analysis_GetTo (pcl_Now pc) analysis;
     let qURL = metricSelectorParam @ ''='' @ query @ ''&from='' @ itoa (wrap64 (Unix from * 1000)) @ ''&to='' @
       itoa (wrap64 (Unix to * 1000));
     let qURL = urlEncodeQuery qURL;
     let qURL = baseURL @ metricsBasePath @ qURL;
     (res, _, err) \<leftarrow> runQuery pc de skip qURL provider;
     ret (res, err)
   }"

definition Dynatrace_EvaluateQuery ::
    "'w ProviderClient \<Rightarrow> Decoders \<Rightarrow> bool \<Rightarrow> Metric \<Rightarrow> KeptnMetricsProvider \<Rightarrow>
     ('w, string \<times> string \<times> error option) state" where
  "Dynatrace_EvaluateQuery pc de skip metric provider =
     (let baseURL = normalizeAPIURL (kmp_TargetServer provider);
          qURL = (case mt_Range metric of
              Some rng \<Rightarrow> metricSelectorParam @ ''='' @ mt_Query metric @ ''&from=now-'' @ rs_Interval rng
            | None \<Rightarrow> metricSelectorParam @ ''='' @ mt_Query metric);
          qURL = urlEncodeQuery qURL;
          qURL = baseURL @ metricsBasePath @ qURL
      in runQuery pc de skip qURL provider)"

definition Dynatrace_EvaluateQueryForStep ::
    "'w ProviderClient \<Rightarrow> Decoders \<Rightarrow> bool \<Rightarrow> Metric \<Rightarrow> KeptnMetricsProvider \<Rightarrow>
     ('w, string list \<times> string \<times> error option) state" where
  "Dynatrace_EvaluateQueryForStep pc de skip metric provider =
     (case mt_Range metric of
        None \<Rightarrow> ret ([], [], Some (Message ''spec.range is not defined!''))
      | Some rng \<Rightarrow> do {
          let baseURL = normalizeAPIURL (kmp_TargetServer provider);
          let qURL = metricSelectorParam @ ''='' @ mt_Query metric @ ''&from=now-'' @ rs_Interval rng @
            ''&resolution='' @ rs_Step rng;
          let qURL = urlEncodeQuery qURL;
          let qURL = baseURL @ metricsBasePath @ qURL;
          r \<leftarrow> performRequest pc de skip provider qURL;
          ret (case r of
              Inl (b, err) \<Rightarrow> ([], b, Some err)
            | Inr (result, b) \<Rightarrow> (Dynatrace_getResultSlice result, b, None))
        })"

section \<open>The client of the Dynatrace query language\<close>

record oAuthCredentials =
  oac_ClientID :: string
  oac_ClientSecret :: string
  oac_Scopes :: "string list"
  oac_AccessToken :: string

record apiConfig =
  acf_ServerURL :: string
  acf_AuthURL :: string
  acf_Credentials :: oAuthCredentials

record apiClient =
  ac_Config :: apiConfig
  ac_InsecureSkipVerify :: bool

definition ErrRequestFailed :: error where
  "ErrRequestFailed = Sentinel ''the API returned a response with a status outside of the 2xx range''"

definition ErrAuthenticationFailed :: error where
  "ErrAuthenticationFailed = Sentinel ''could not retrieve an OAuth token from the API''"

definition isErrorStatus :: "int \<Rightarrow> bool" where
  "isErrorStatus statusCode \<longleftrightarrow> statusCode < 200 \<or> statusCode \<ge> 300"

definition defaultAuthURL :: string where
  "defaultAuthURL = ''https://dev.token.internal.dynatracelabs.com/sso/oauth2/token''"

fun scopes_from :: "nat \<Rightarrow> string list \<Rightarrow> string \<Rightarrow> string" where
  "scopes_from i [] scopeStr = scopeStr"
| "scopes_from i (sc # scs) scopeStr = scopes_from (i + 1) scs (if i = 0 then scopeStr @ sc else scopeStr @ '' '' @ sc)"

definition getScopesAsString :: "oAuthCredentials \<Rightarrow> string" where
  "getScopesAsString oac = scopes_from 0 (oac_Scopes oac) []"

definition urlValues :: "oAuthCredentials \<Rightarrow> (string \<times> string) list" where
  "urlValues oac =
     [(''grant_type'', ''client_credentials''), (''scope'', getScopesAsString oac), (''client_id'', oac_ClientID oac),
      (''client_secret'', oac_ClientSecret oac)]"

definition WithAuthURL :: "string \<Rightarrow> apiConfig \<Rightarrow> apiConfig" where
  "WithAuthURL authURL config = (if authURL \<noteq> [] then config\<lparr>acf_AuthURL := authURL\<rparr> else config)"

definition WithScopes :: "string list \<Rightarrow> apiConfig \<Rightarrow> apiConfig" where
  "WithScopes scopes config = config\<lparr>acf_Credentials := (acf_Credentials config)\<lparr>oac_Scopes := scopes\<rparr>\<rparr>"

text \<open>A token with fewer than three parts makes the code index out of range.\<close>

definition NewAPIConfig :: "string \<Rightarrow> string \<Rightarrow> (apiConfig \<Rightarrow> apiConfig) list \<Rightarrow> apiConfig option" where
  "NewAPIConfig serverURL token opts =
     (let secretParts = split_on CHR ''.'' token in
      if length secretParts < 3 then None
      else
        (let clientId = secretParts ! 0 @ ''.'' @ secretParts ! 1;
             clientSecret = clientId @ ''.'' @ secretParts ! 2;
             cfg = \<lparr>acf_ServerURL = serverURL, acf_AuthURL = defaultAuthURL,
               acf_Credentials = \<lparr>oac_ClientID = clientId, oac_ClientSecret = clientSecret,
                 oac_Scopes = [''storage:metrics:read'', ''environment:roles:viewer''], oac_AccessToken = []\<rparr>\<rparr>
         in Some (fold (\<lambda>opt. opt) opts cfg)))"

definition auth :: "'w ProviderClient \<Rightarrow> Decoders \<Rightarrow> apiClient \<Rightarrow> ('w, apiClient \<times> error option) state" where
  "auth pc de client =
     (if oac_AccessToken (acf_Credentials (ac_Config client)) \<noteq> [] then ret (client, None)
      else
        (let body = Values_Encode (urlValues (acf_Credentials (ac_Config client))) in
         case pcl_NewRequest pc ''POST'' (acf_AuthURL (ac_Config client)) of
           Some err \<Rightarrow> ret (client, Some err)
         | None \<Rightarrow> do {
             res \<leftarrow> pcl_Do pc (ac_InsecureSkipVerify client)
               \<lparr>rq_Method = ''POST'', rq_URL = acf_AuthURL (ac_Config client),
                rq_Header = [(''Content-Type'', ''application/x-www-form-urlencoded'')], rq_Body = body\<rparr>;
             ret (case res of
                 Inl err \<Rightarrow> (client, Some err)
               | Inr r \<Rightarrow>
                   if isErrorStatus (rp_StatusCode r) then (client, Some ErrRequestFailed)
                   else
                     (case dec_OAuth de (rp_Body r) of
                        Inl err \<Rightarrow> (client, Some err)
                      | Inr token \<Rightarrow>
                          if token = [] then (client, Some ErrAuthenticationFailed)
                          else
                            (client\<lparr>ac_Config := (ac_Config client)\<lparr>acf_Credentials :=
                               (acf_Credentials (ac_Config client))\<lparr>oac_AccessToken := token\<rparr>\<rparr>\<rparr>, None)))
           }))"

definition apiClient_Do ::
    "'w ProviderClient \<Rightarrow> Decoders \<Rightarrow> apiClient \<Rightarrow> string \<Rightarrow> string \<Rightarrow> string \<Rightarrow>
     ('w, apiClient \<times> string \<times> int \<times> error option) state" where
  "apiClient_Do pc de client path method payload = do {
     (client, e) \<leftarrow> auth pc de client;
     case e of
       Some err \<Rightarrow> ret (client, [], 401, Some err)
     | None \<Rightarrow>
         (let api = acf_ServerURL (ac_Config client) @ path in
          case pcl_NewRequest pc method api of
            Some err \<Rightarrow> ret (client, [], 500, Some err)
          | None \<Rightarrow> do {
              res \<leftarrow> pcl_Do pc (ac_InsecureSkipVerify client)
                \<lparr>rq_Method = method, rq_URL = api,
                 rq_Header = [(''Content-Type'', ''application/json''),
                   (''Authorization'', ''Bearer '' @ oac_AccessToken (acf_Credentials (ac_Config client)))],
                 rq_Body = payload\<rparr>;
              ret (case res of
                  Inl err \<Rightarrow> (client, [], 500, Some err)
                | Inr r \<Rightarrow>
                    if isErrorStatus (rp_StatusCode r) then (client, [], rp_StatusCode r, Some ErrRequestFailed)
                    else
                      (case rp_ReadErr r of
                         Some err \<Rightarrow> (client, [], 500, Some err)
                       | None \<Rightarrow> (client, rp_Body r, rp_StatusCode r, None)))
            })
   }"


section \<open>The provider for the Dynatrace query language\<close>

record keptnDynatraceDQLProvider =
  dp_DtClient :: "apiClient option"
  dp_InsecureSkipTlsVerify :: bool

definition NewKeptnDynatraceDQLProvider :: "bool \<Rightarrow> keptnDynatraceDQLProvider" where
  "NewKeptnDynatraceDQLProvider skip = \<lparr>dp_DtClient = None, dp_InsecureSkipTlsVerify = skip\<rparr>"

record metricRequest =
  mr_Query :: string
  mr_Timeframe :: "(time \<times> time) option"

definition newMetricRequestFromMetric ::
    "'w ProviderClient \<Rightarrow> Decoders \<Rightarrow> Metric \<Rightarrow> ('w, error + metricRequest) state" where
  "newMetricRequestFromMetric pc de metric =
     (case mt_Range metric of
        None \<Rightarrow> ret (Inr \<lparr>mr_Query = mt_Query metric, mr_Timeframe = None\<rparr>)
      | Some rng \<Rightarrow>
          (case ParseDuration (dec_Quote de) (rs_Interval rng) of
             Inl err \<Rightarrow> ret (Inl err)
           | Inr intervalDuration \<Rightarrow> do {
               from \<leftarrow> pcl_Now pc;
               to \<leftarrow> pcl_Now pc;
               ret (Inr \<lparr>mr_Query = mt_Query metric, mr_Timeframe = Some (before from intervalDuration, to)\<rparr>)
             }))"

definition newMetricRequestFromAnalysis ::
    "'w ProviderClient \<Rightarrow> string \<Rightarrow> Analysis \<Rightarrow> ('w, metricRequest) state" where
  "newMetricRequestFromAnalysis pc query analysis = do {
     from \<leftarrow> Analysis_GetFrom (pcl_Now pc) analysis;
     to \<leftarrow> Analysis_GetTo (pcl_Now pc) analysis;
     ret \<lparr>mr_Query = query, mr_Timeframe = Some (from, to)\<rparr>
   }"

text \<open>
  \<^verbatim>\<open>json.Marshal\<close> of a \<^verbatim>\<open>DQLRequest\<close>, whose two times are left out when they are empty.
\<close>

definition json_field :: "string \<Rightarrow> string \<Rightarrow> string" where
  "json_field k v = json_string k @ '':'' @ v"

definition json_DQLRequest :: "Decoders \<Rightarrow> metricRequest \<Rightarrow> string" where
  "json_DQLRequest de req =
     (let (start, stop) =
        (case mr_Timeframe req of Some (from, to) \<Rightarrow> (dec_RFC3339 de from, dec_RFC3339 de to) | None \<Rightarrow> ([], []))
      in ''{'' @ join '',''
           ([json_field ''query'' (json_string (mr_Query req))] @
            (if start = [] then [] else [json_field ''defaultTimeframeStart'' (json_string start)]) @
            (if stop = [] then [] else [json_field ''defaultTimeframeEnd'' (json_string stop)]) @
            [json_field ''timezone'' (json_string ''UTC''), json_field ''locale'' (json_string ''en_US''),
             json_field ''fetchTimeoutSeconds'' (itoa 60), json_field ''requestTimeoutMilliseconds'' (itoa 1000)]) @ ''}'')"

definition defaultPath :: string where
  "defaultPath = ''/platform/storage/query/v1/query:''"

definition dqlQuerySucceeded :: string where
  "dqlQuerySucceeded = ''SUCCEEDED''"

definition ensureDTClientIsSetUp ::
    "'w ProviderClient \<Rightarrow> Decoders \<Rightarrow> keptnDynatraceDQLProvider \<Rightarrow> KeptnMetricsProvider \<Rightarrow>
     ('w, (keptnDynatraceDQLProvider \<times> error option) option) state" where
  "ensureDTClientIsSetUp pc de d provider =
     (case dp_DtClient d of
        Some client \<Rightarrow> ret (Some (d, None))
      | None \<Rightarrow> do {
          g \<leftarrow> getDQLSecret pc de provider;
          ret (case g of
              Inl err \<Rightarrow> Some (d, Some err)
            | Inr secret \<Rightarrow>
                map_option
                  (\<lambda>config. (d\<lparr>dp_DtClient := Some \<lparr>ac_Config = config, ac_InsecureSkipVerify = dp_InsecureSkipTlsVerify d\<rparr>\<rparr>, None))
                  (NewAPIConfig (kmp_TargetServer provider) (dqs_Token secret) [WithAuthURL (dqs_AuthUrl secret)]))
        })"

text \<open>With a client that is set up: the request, and the client with the token that it may have fetched.\<close>

definition postDQL ::
    "'w ProviderClient \<Rightarrow> Decoders \<Rightarrow> apiClient \<Rightarrow> metricRequest \<Rightarrow> ('w, apiClient \<times> (error + string \<times> int)) state" where
  "postDQL pc de client metricsReq = do {
     (client, b, status, e) \<leftarrow> apiClient_Do pc de client (defaultPath @ ''execute'') ''POST'' (json_DQLRequest de metricsReq);
     ret (client, case e of Some err \<Rightarrow> Inl err | None \<Rightarrow> Inr (b, status))
   }"

definition retrieveDQLResults ::
    "'w ProviderClient \<Rightarrow> Decoders \<Rightarrow> apiClient \<Rightarrow> DynatraceDQLHandler \<Rightarrow>
     ('w, apiClient \<times> (error + DynatraceDQLResult) option) state" where
  "retrieveDQLResults pc de client handler = do {
     let path = defaultPath @ ''poll?'' @ Values_Encode [(''request-token'', handler)];
     (client, b, _, e) \<leftarrow> apiClient_Do pc de client path ''GET'' [];
     ret (client,
       case e of
         Some err \<Rightarrow> Some (Inl err)
       | None \<Rightarrow>
           (case dec_DQLResult de b of
              Inl err \<Rightarrow> Some (Inl err)
            | Inr None \<Rightarrow> None
            | Inr (Some result) \<Rightarrow>
                if dq_Error result \<noteq> no_error then Some (Inl (provider_api_error (dq_Error result)))
                else Some (Inr result)))
   }"

text \<open>The loop that waits for a result, with the tries that are left; there are five.\<close>

definition maxRetries :: nat where
  "maxRetries = 5"

fun poll_DQL ::
    "'w ProviderClient \<Rightarrow> Decoders \<Rightarrow> nat \<Rightarrow> apiClient \<Rightarrow> DynatraceDQLHandler \<Rightarrow>
     ('w, apiClient \<times> (error + DQLResult) option) state" where
  "poll_DQL pc de 0 client handler = ret (client, Some (Inl ErrDQLQueryTimeout))"
| "poll_DQL pc de (Suc n) client handler = do {
     (client, r) \<leftarrow> retrieveDQLResults pc de client handler;
     case r of
       None \<Rightarrow> ret (client, None)
     | Some (Inl err) \<Rightarrow> ret (client, Some (Inl err))
     | Some (Inr result) \<Rightarrow>
         if dq_State result = dqlQuerySucceeded then ret (client, Some (Inr (dq_Result result)))
         else do {
           pcl_After pc (10 * second);
           poll_DQL pc de n client handler
         }
   }"

definition getDQL ::
    "'w ProviderClient \<Rightarrow> Decoders \<Rightarrow> apiClient \<Rightarrow> DynatraceDQLHandler \<Rightarrow>
     ('w, apiClient \<times> (error + DQLResult) option) state" where
  "getDQL pc de = poll_DQL pc de maxRetries"

definition require_records :: "DQLResult \<Rightarrow> error + DQLResult" where
  "require_records results = (if dqr_Records results = [] then Inl ErrInvalidResult else Inr results)"

definition unmarshal_error :: "string \<Rightarrow> error \<Rightarrow> error" where
  "unmarshal_error b err = Wrapped (''could not unmarshal response '' @ b @ '': '') err"

definition parseDQLResults ::
    "'w ProviderClient \<Rightarrow> Decoders \<Rightarrow> apiClient \<Rightarrow> string \<Rightarrow> int \<Rightarrow> ('w, apiClient \<times> (error + DQLResult) option) state" where
  "parseDQLResults pc de client b status =
     (if status = 200 then
        ret (client,
          case dec_DQLResult de b of
            Inl err \<Rightarrow> Some (Inl (unmarshal_error b err))
          | Inr None \<Rightarrow> None
          | Inr (Some r) \<Rightarrow>
              Some (require_records (if dq_State r = dqlQuerySucceeded then dq_Result r else \<lparr>dqr_Records = []\<rparr>)))
      else
        (case dec_DQLHandler de b of
           Inl err \<Rightarrow> ret (client, Some (Inl (unmarshal_error b err)))
         | Inr None \<Rightarrow> ret (client, None)
         | Inr (Some dqlHandler) \<Rightarrow> do {
             (client, r) \<leftarrow> getDQL pc de client dqlHandler;
             ret (client,
               case r of
                 None \<Rightarrow> None
               | Some (Inl err) \<Rightarrow> Some (Inl err)
               | Some (Inr results) \<Rightarrow> Some (require_records results))
           }))"

definition DQL_getResults ::
    "'w ProviderClient \<Rightarrow> Decoders \<Rightarrow> keptnDynatraceDQLProvider \<Rightarrow> metricRequest \<Rightarrow> KeptnMetricsProvider \<Rightarrow>
     ('w, keptnDynatraceDQLProvider \<times> (error + DQLResult) option) state" where
  "DQL_getResults pc de d metricsReq provider = do {
     u \<leftarrow> ensureDTClientIsSetUp pc de d provider;
     case u of
       None \<Rightarrow> ret (d, None)
     | Some (d, Some err) \<Rightarrow> ret (d, Some (Inl err))
     | Some (d, None) \<Rightarrow>
         (case dp_DtClient d of
            None \<Rightarrow> ret (d, None)
          | Some client \<Rightarrow> do {
              (client, p) \<leftarrow> postDQL pc de client metricsReq;
              case p of
                Inl err \<Rightarrow> ret (d\<lparr>dp_DtClient := Some client\<rparr>, Some (Inl err))
              | Inr (b, status) \<Rightarrow> do {
                  (client, r) \<leftarrow> parseDQLResults pc de client b status;
                  ret (d\<lparr>dp_DtClient := Some client\<rparr>, r)
                }
            })
   }"

fun toFloatArray_from :: "any list \<Rightarrow> float64 list option" where
  "toFloatArray_from [] = Some []"
| "toFloatArray_from (val # vals) =
     (case val of
        AnyFloat v \<Rightarrow> map_option (\<lambda>vs. v # vs) (toFloatArray_from vals)
      | AnyInt i \<Rightarrow> map_option (\<lambda>vs. float_of_int i # vs) (toFloatArray_from vals)
      | _ \<Rightarrow> None)"

definition toFloatArray :: "any \<Rightarrow> float64 list option" where
  "toFloatArray obj = (case obj of AnyArray valuesArr \<Rightarrow> toFloatArray_from valuesArr | _ \<Rightarrow> None)"

text \<open>A loop over a map sees its keys in an arbitrary order: the first entry that is an array of numbers.\<close>

fun first_array :: "(string, any) fmap \<Rightarrow> string list \<Rightarrow> float64 list option" where
  "first_array record [] = None"
| "first_array record (k # ks) =
     (case (case fmlookup record k of Some item \<Rightarrow> toFloatArray item | None \<Rightarrow> None) of
        Some valuesArr \<Rightarrow> Some valuesArr
      | None \<Rightarrow> first_array record ks)"

text \<open>The last value of the array; an empty one makes the code index at minus one.\<close>

definition extractValueFromRecord :: "'w ProviderClient \<Rightarrow> (string, any) gomap \<Rightarrow> ('w, string option) state" where
  "extractValueFromRecord pc record = do {
     ks \<leftarrow> pcl_RangeOrder pc (fmdom (gm_fmap record));
     ret (case first_array (gm_fmap record) ks of
         Some valuesArr \<Rightarrow> if valuesArr = [] then None else Some (fmt_f (last valuesArr))
       | None \<Rightarrow> Some [])
   }"

definition extractValuesFromRecord :: "'w ProviderClient \<Rightarrow> (string, any) gomap \<Rightarrow> ('w, string list) state" where
  "extractValuesFromRecord pc record = do {
     ks \<leftarrow> pcl_RangeOrder pc (fmdom (gm_fmap record));
     ret (case first_array (gm_fmap record) ks of
         Some valuesArr \<Rightarrow> map fmt_f valuesArr
       | None \<Rightarrow> [])
   }"

definition DQL_FetchAnalysisValue ::
    "'w ProviderClient \<Rightarrow> Decoders \<Rightarrow> keptnDynatraceDQLProvider \<Rightarrow> string \<Rightarrow> Analysis \<Rightarrow> KeptnMetricsProvider \<Rightarrow>
     ('w, keptnDynatraceDQLProvider \<times> (string \<times> error option) option) state" where
  "DQL_FetchAnalysisValue pc de d query analysis provider = do {
     metricsReq \<leftarrow> newMetricRequestFromAnalysis pc query analysis;
     (d, r) \<leftarrow> DQL_getResults pc de d metricsReq provider;
     case r of
       None \<Rightarrow> ret (d, None)
     | Some (Inl err) \<Rightarrow> ret (d, Some ([], Some err))
     | Some (Inr results) \<Rightarrow>
         (case dqr_Records results of
            [] \<Rightarrow> ret (d, None)
          | record # _ \<Rightarrow> do {
              v \<leftarrow> extractValueFromRecord pc record;
              ret (d, map_option (\<lambda>val. (val, None)) v)
            })
   }"

definition marshal_results :: "Decoders \<Rightarrow> DQLResult \<Rightarrow> string" where
  "marshal_results de results = (case enc_DQLResult de results of Inl err \<Rightarrow> [] | Inr b \<Rightarrow> b)"

definition DQL_EvaluateQuery ::
    "'w ProviderClient \<Rightarrow> Decoders \<Rightarrow> keptnDynatraceDQLProvider \<Rightarrow> Metric \<Rightarrow> KeptnMetricsProvider \<Rightarrow>
     ('w, keptnDynatraceDQLProvider \<times> (string \<times> string \<times> error option) option) state" where
  "DQL_EvaluateQuery pc de d metric provider = do {
     m \<leftarrow> newMetricRequestFromMetric pc de metric;
     case m of
       Inl err \<Rightarrow> ret (d, Some ([], [], Some err))
     | Inr metricsReq \<Rightarrow> do {
         (d, r) \<leftarrow> DQL_getResults pc de d metricsReq provider;
         case r of
           None \<Rightarrow> ret (d, None)
         | Some (Inl err) \<Rightarrow> ret (d, Some ([], [], Some err))
         | Some (Inr results) \<Rightarrow>
             (case dqr_Records results of
                [] \<Rightarrow> ret (d, Some ([], [], Some ErrInvalidResult))
              | record # _ \<Rightarrow> do {
                  v \<leftarrow> extractValueFromRecord pc record;
                  ret (d, map_option (\<lambda>val. (val, marshal_results de results, None)) v)
                })
       }
   }"

definition DQL_EvaluateQueryForStep ::
    "'w ProviderClient \<Rightarrow> Decoders \<Rightarrow> keptnDynatraceDQLProvider \<Rightarrow> Metric \<Rightarrow> KeptnMetricsProvider \<Rightarrow>
     ('w, keptnDynatraceDQLProvider \<times> (string list \<times> string \<times> error option) option) state" where
  "DQL_EvaluateQueryForStep pc de d metric provider = do {
     m \<leftarrow> newMetricRequestFromMetric pc de metric;
     case m of
       Inl err \<Rightarrow> ret (d, Some ([], [], Some err))
     | Inr metricsReq \<Rightarrow> do {
         (d, r) \<leftarrow> DQL_getResults pc de d metricsReq provider;
         case r of
           None \<Rightarrow> ret (d, None)
         | Some (Inl err) \<Rightarrow> ret (d, Some ([], [], Some err))
         | Some (Inr results) \<Rightarrow>
             (case dqr_Records results of
                [] \<Rightarrow> ret (d, None)
              | record # _ \<Rightarrow> do {
                  r \<leftarrow> extractValuesFromRecord pc record;
                  ret (d, Some (r, marshal_results de results, None))
                })
       }
   }"

end
