(* ===== verification/Provider_Results.thy ===== *)
theory Provider_Results
  imports Metric_Providers
begin

text \<open>
  What the providers of metrics return: the mean of the values in an answer, printed so that it can be read
  again; a query of the Dynatrace query language only when it has succeeded; and when a provider panics.
\<close>

section \<open>Mean values\<close>

text \<open>The numbers in an answer: the second parts of the points, and the values of all series.\<close>

definition point_values :: "float64 option list list \<Rightarrow> float64 list" where
  "point_values points = List.map_filter (\<lambda>point. if 1 < length point then point ! 1 else None) points"

definition response_values :: "DynatraceResponse \<Rightarrow> float64 list" where
  "response_values result =
     List.map_filter id (concat (map (\<lambda>r. concat (map dd_Values (dr_Data r))) (dres_Result result)))"

lemma sum_points_foldl:
  "\<forall>point\<in>set points. 1 < length point \<Longrightarrow>
   sum_points points s n = Some (foldl float_add s (point_values points), n + length (point_values points))"
  by (induction points s n rule: sum_points.induct)
    (auto simp: point_values_def map_filter_simps split: option.splits)

lemma add_values_foldl:
  "add_values vs (s, n) = (foldl float_add s (List.map_filter id vs), n + length (List.map_filter id vs))"
  by (induction vs "(s, n)" arbitrary: s n rule: add_values.induct) (simp_all add: map_filter_simps)

lemma map_filter_append: "List.map_filter f (xs @ ys) = List.map_filter f xs @ List.map_filter f ys"
  by (simp add: List.map_filter_def)

lemma fold_add_values:
  "fold (\<lambda>points. add_values (f points)) ps (s, n) =
   (let vs = List.map_filter id (concat (map f ps)) in (foldl float_add s vs, n + length vs))"
  by (induction ps arbitrary: s n) (simp_all add: add_values_foldl map_filter_simps map_filter_append Let_def)

lemma fold_response_values:
  "fold (\<lambda>r. fold (\<lambda>points. add_values (dd_Values points)) (dr_Data r)) rs (s, n) =
   (let vs = List.map_filter id (concat (map (\<lambda>r. concat (map dd_Values (dr_Data r))) rs))
    in (foldl float_add s vs, n + length vs))"
  by (induction rs arbitrary: s n) (simp_all add: fold_add_values map_filter_simps map_filter_append Let_def)

lemma append_values_map: "append_values vs ss = ss @ map fmt_f (List.map_filter id vs)"
  by (induction vs ss rule: append_values.induct) (simp_all add: map_filter_simps)

lemma fold_append_values:
  "fold (\<lambda>points. append_values (f points)) ps ss = ss @ map fmt_f (List.map_filter id (concat (map f ps)))"
  by (induction ps arbitrary: ss) (simp_all add: append_values_map map_filter_simps map_filter_append)

lemma Dynatrace_getSingleValue_mean:
  "Dynatrace_getSingleValue result = CalculateAverage (response_values result)"
  by (simp add: Dynatrace_getSingleValue_def fold_response_values CalculateAverage_def response_values_def Let_def Suc_le_eq)

lemma Dynatrace_getResultSlice_values:
  "Dynatrace_getResultSlice result = map fmt_f (response_values result)"
proof -
  have "fold (\<lambda>r. fold (\<lambda>points. append_values (dd_Values points)) (dr_Data r)) rs ss =
      ss @ map fmt_f (List.map_filter id (concat (map (\<lambda>r. concat (map dd_Values (dr_Data r))) rs)))" for rs ss
    by (induction rs arbitrary: ss) (simp_all add: fold_append_values map_filter_simps map_filter_append)
  from this [of "dres_Result result" "[]"] show ?thesis
    by (simp only: Dynatrace_getResultSlice_def response_values_def append_Nil)
qed

lemma Datadog_getResultSlice_values: "Datadog_getResultSlice points = map fmt_f (point_values points)"
  by (induction points rule: Datadog_getResultSlice.induct)
    (auto simp: point_values_def map_filter_simps split: option.splits)

lemma Datadog_getSingleValue_mean:
  assumes "\<forall>point\<in>set points. 1 < length point"
  shows "Datadog_getSingleValue points = Some (CalculateAverage (point_values points))"
  using assms by (simp add: Datadog_getSingleValue_def sum_points_foldl CalculateAverage_def Let_def Suc_le_eq)

lemma Datadog_short_point_panics:
  "Datadog_getSingleValue points = None \<longleftrightarrow> (\<exists>point\<in>set points. length point < 2)"
proof -
  have "sum_points points s n = None \<longleftrightarrow> (\<exists>point\<in>set points. length point < 2)" for s n
    by (induction points s n rule: sum_points.induct) (auto split: option.splits)
  from this [of "Finite 0" 0] show ?thesis
    by (cases "sum_points points (Finite 0) 0") (auto simp: Datadog_getSingleValue_def)
qed

section \<open>Queries\<close>

lemma encode_params_one:
  assumes "CHR ''='' \<notin> set k" and "CHR ''='' \<notin> set v"
  shows "encode_params i ((k @ CHR ''='' # v) # ps) r =
     encode_params (i + 1) ps (r @ (if 0 < i then ''&'' else []) @ k @ CHR ''='' # QueryEscape v)"
  using assms by (simp add: split_on_append split_on_no_sep)

lemma length_split_on: "length (split_on c s) = Suc (length (filter (\<lambda>x. x = c) s))"
  by (induction s) (auto split: list.splits)

lemma encode_params_dropped:
  assumes "length (filter (\<lambda>x. x = CHR ''='') p) \<noteq> 1"
  shows "encode_params i (p # ps) r = encode_params (i + 1) ps r"
proof -
  have "length (split_on CHR ''='' p) \<noteq> 2" using assms by (simp add: length_split_on)
  then show ?thesis by (auto split: list.splits)
qed

lemma split_interval_query:
  assumes "CHR ''&'' \<notin> set q" and "CHR ''&'' \<notin> set i"
  shows "urlEncodeQuery (metricSelectorParam @ ''='' @ q @ ''&from=now-'' @ i) =
     encode_params 0 [''metricSelector'' @ CHR ''='' # q, ''from'' @ CHR ''='' # ''now-'' @ i] []"
proof -
  have "split_on CHR ''&'' ((''metricSelector='' @ q) @ CHR ''&'' # ''from=now-'' @ i) =
      (''metricSelector='' @ q) # split_on CHR ''&'' (''from=now-'' @ i)"
    using assms(1) by (intro split_on_append) simp
  also have "split_on CHR ''&'' (''from=now-'' @ i) = [''from=now-'' @ i]"
    using assms(2) by (intro split_on_no_sep) simp
  finally show ?thesis by (simp add: urlEncodeQuery_def metricSelectorParam_def del: encode_params.simps split_on.simps)
qed

text \<open>
  The query of a metric with an interval: the selector is sent, escaped, when it has neither of the
  characters that the code splits at; with an equals sign in it the selector is left out of the request.
\<close>

theorem selector_sent:
  assumes "set q \<inter> set ''&='' = {}" and "set i \<inter> set ''&='' = {}"
  shows "urlEncodeQuery (metricSelectorParam @ ''='' @ q @ ''&from=now-'' @ i) =
     ''metricSelector='' @ QueryEscape q @ ''&from='' @ QueryEscape (''now-'' @ i)"
proof -
  have "encode_params 0 [''metricSelector'' @ CHR ''='' # q, ''from'' @ CHR ''='' # ''now-'' @ i] [] =
      encode_params 1 [''from'' @ CHR ''='' # ''now-'' @ i] (''metricSelector='' @ QueryEscape q)"
    using assms by (subst encode_params_one) auto
  also have "\<dots> = ''metricSelector='' @ QueryEscape q @ ''&from='' @ QueryEscape (''now-'' @ i)"
    using assms by (subst encode_params_one) auto
  finally show ?thesis using assms by (subst split_interval_query) auto
qed

theorem selector_dropped:
  assumes "CHR ''='' \<in> set q" and "CHR ''&'' \<notin> set q" and "set i \<inter> set ''&='' = {}"
  shows "urlEncodeQuery (metricSelectorParam @ ''='' @ q @ ''&from=now-'' @ i) = ''&from='' @ QueryEscape (''now-'' @ i)"
proof -
  have "encode_params 0 [''metricSelector'' @ CHR ''='' # q, ''from'' @ CHR ''='' # ''now-'' @ i] [] =
      encode_params 1 [''from'' @ CHR ''='' # ''now-'' @ i] []"
    using assms(1) by (subst encode_params_dropped) (auto simp: filter_empty_conv)
  also have "\<dots> = ''&from='' @ QueryEscape (''now-'' @ i)"
    using assms by (subst encode_params_one) auto
  finally show ?thesis using assms by (subst split_interval_query) auto
qed


section \<open>Numbers that are printed can be read\<close>

definition all_digits :: "string \<Rightarrow> bool" where
  "all_digits s \<longleftrightarrow> list_all is_dec s"

lemma of_char_char_of: "n < 256 \<Longrightarrow> (of_char (char_of n :: char) :: nat) = n"
  by simp

lemma is_dec_digit: "n < 10 \<Longrightarrow> is_dec (char_of (48 + n))" "n < 10 \<Longrightarrow> digit_of (char_of (48 + n)) = int n"
proof -
  assume "n < 10"
  then have "(of_char (char_of (48 + n) :: char) :: nat) = 48 + n" by (intro of_char_char_of) simp
  moreover from this have "(of_char (char_of (48 + n) :: char) :: int) = 48 + int n"
    by (metis of_nat_add of_nat_numeral of_nat_of_char)
  ultimately show "is_dec (char_of (48 + n))" "digit_of (char_of (48 + n)) = int n"
    using \<open>n < 10\<close> by (simp_all add: is_dec_def digit_of_def)
qed

lemma nat_digits_not_Nil [simp]: "nat_digits n \<noteq> []"
  by (subst nat_digits.simps) simp

lemma all_digits_nat_digits: "all_digits (nat_digits n)"
  by (induction n rule: nat_digits.induct) (subst nat_digits.simps, simp add: all_digits_def is_dec_digit)

lemma all_digits_pad_zeros: "all_digits (pad_zeros k (nat_digits n))"
  using all_digits_nat_digits [of n] by (auto simp: all_digits_def pad_zeros_def list_all_iff is_dec_def)

definition digits_value :: "int \<Rightarrow> string \<Rightarrow> int" where
  "digits_value = foldl (\<lambda>a c. a * 10 + digit_of c)"

lemma digits_value_append: "digits_value a (s @ t) = digits_value (digits_value a s) t"
  by (simp add: digits_value_def)

lemma digits_value_nat_digits: "digits_value a (nat_digits n) = a * 10 ^ length (nat_digits n) + int n"
proof (induction n arbitrary: a rule: nat_digits.induct)
  case (1 n)
  show ?case
  proof (cases "n < 10")
    case True
    then have "nat_digits n = [char_of (48 + n)]" by (subst nat_digits.simps) simp
    with True show ?thesis by (simp add: digits_value_def is_dec_digit)
  next
    case False
    then have n: "nat_digits n = nat_digits (n div 10) @ [char_of (48 + n mod 10)]" by (subst nat_digits.simps) simp
    have "digits_value a (nat_digits n) = digits_value a (nat_digits (n div 10)) * 10 + int (n mod 10)"
      unfolding n digits_value_append by (simp add: digits_value_def is_dec_digit)
    also have "\<dots> = a * 10 ^ length (nat_digits n) + int (n div 10 * 10 + n mod 10)"
      unfolding 1 [OF False] n by (simp only: length_append length_Cons list.size(3) power_add power_Suc of_nat_add of_nat_mult, simp add: algebra_simps)
    finally show ?thesis by (simp only: div_mult_mod_eq)
  qed
qed

lemma digits_value_zeros: "digits_value a (replicate k CHR ''0'') = a * 10 ^ k"
proof -
  have "digit_of CHR ''0'' = 0" by (simp add: digit_of_def is_dec_def)
  then show ?thesis by (induction k arbitrary: a) (simp_all add: digits_value_def algebra_simps)
qed

lemma length_nat_digits_le: "n < 10 ^ Suc k \<Longrightarrow> length (nat_digits n) \<le> Suc k"
proof (induction k arbitrary: n)
  case 0
  then show ?case by (subst nat_digits.simps) simp
next
  case (Suc k)
  then have "n div 10 < 10 ^ Suc k" by (simp add: div_less_iff_less_mult)
  from Suc.IH [OF this] show ?case by (subst nat_digits.simps) simp
qed

lemma digits_value_pad_zeros:
  assumes "n < 10 ^ k" and "0 < k"
  shows "length (pad_zeros k (nat_digits n)) = k" "digits_value a (pad_zeros k (nat_digits n)) = a * 10 ^ k + int n"
proof -
  have k: "length (nat_digits n) \<le> k" using assms length_nat_digits_le [of n "k - 1"] by simp
  then show "length (pad_zeros k (nat_digits n)) = k" by (simp add: pad_zeros_def)
  have "a * 10 ^ (k - length (nat_digits n)) * 10 ^ length (nat_digits n) = a * 10 ^ k"
    using k by (simp flip: power_add)
  then show "digits_value a (pad_zeros k (nat_digits n)) = a * 10 ^ k + int n"
    by (simp add: pad_zeros_def digits_value_append digits_value_zeros digits_value_nat_digits)
qed

lemma read_digits:
  assumes "all_digits ds" and "ds \<noteq> []"
  shows "read_mantissa False m (ds @ rest) =
     read_mantissa False (m\<lparr>mn_Value := digits_value (mn_Value m) ds,
       mn_Fraction := (if mn_Dot m then mn_Fraction m + length ds else 0), mn_Digits := True\<rparr>) rest"
  using assms
proof (induction ds arbitrary: m)
  case (Cons d ds)
  have d: "is_dec d" "d \<noteq> CHR ''_''" "d \<noteq> CHR ''.''" using Cons.prems by (auto simp: all_digits_def is_dec_def)
  show ?case
  proof (cases "ds = []")
    case True
    with d show ?thesis by (simp add: digits_value_def)
  next
    case False
    with Cons d show ?thesis by (simp add: digits_value_def all_digits_def)
  qed
qed simp


lemma is_dec_neq:
  "is_dec c \<Longrightarrow> \<not> is_dec d \<Longrightarrow> c \<noteq> d"
  by auto

lemma not_dec [simp]:
  "\<not> is_dec CHR ''-''" "\<not> is_dec CHR ''+''" "\<not> is_dec CHR ''_''" "\<not> is_dec CHR ''.''" "\<not> is_dec CHR ''x''"
  "\<not> is_dec CHR ''i''" "\<not> is_dec CHR ''n''" "\<not> is_dec CHR ''b''" "\<not> is_dec CHR ''o''"
  by (simp_all add: is_dec_def)

lemma to_lower_char_dec: "is_dec c \<Longrightarrow> to_lower_char c = c"
  by (simp add: is_dec_def to_lower_char_def Let_def)

lemma underscores_between_none:
  "CHR ''_'' \<notin> set s \<Longrightarrow> prev \<noteq> CHR ''_'' \<Longrightarrow> underscores_between h prev s"
  by (induction h prev s rule: underscores_between.induct) auto

lemma drop_sign_digits:
  assumes "is_dec d"
  shows "drop_sign ((if neg then ''-'' else []) @ d # s) = (neg, d # s)"
  using assms by (auto simp: drop_sign_def)

lemma underscoreOK_digits:
  assumes "is_dec d" and "CHR ''_'' \<notin> set (d # s)" and "s \<noteq> [] \<Longrightarrow> to_lower_char (hd s) \<notin> set ''box''"
  shows "underscoreOK ((if neg then ''-'' else []) @ d # s)"
proof (cases s)
  case Nil
  with assms show ?thesis
    unfolding underscoreOK_def drop_sign_digits [OF assms(1)] by (auto simp: underscores_between_none)
next
  case (Cons p u)
  with assms show ?thesis
    unfolding underscoreOK_def drop_sign_digits [OF assms(1)] by (auto simp: underscores_between_none)
qed

lemma readFloat_decimal:
  assumes "all_digits ds" and "ds \<noteq> []" and "all_digits fs" and "fs \<noteq> []"
  shows "readFloat ((if neg then ''-'' else []) @ ds @ CHR ''.'' # fs) =
     Some ((if neg then - 1 else 1) * of_int (digits_value (digits_value 0 ds) fs) / 10 ^ length fs)"
proof -
  obtain d u where d: "ds = d # u" "is_dec d" "all_digits u" using assms(1,2) by (cases ds) (auto simp: all_digits_def)
  define s where "s = u @ CHR ''.'' # fs"
  have ds: "ds @ CHR ''.'' # fs = d # s" by (simp add: d s_def)
  have second: "s \<noteq> []" "to_lower_char (hd s) \<notin> set ''box''" "to_lower_char (hd s) \<noteq> CHR ''x''"
  proof -
    have "is_dec (hd s) \<or> hd s = CHR ''.''" using d(3) by (cases u) (auto simp: s_def all_digits_def)
    then show "to_lower_char (hd s) \<notin> set ''box''" "to_lower_char (hd s) \<noteq> CHR ''x''"
      by (auto simp: to_lower_char_dec) (auto simp: to_lower_char_def)
  qed (simp add: s_def)
  have no_us: "CHR ''_'' \<notin> set (d # s)"
    using d assms(3) by (auto simp: s_def all_digits_def list_all_iff)
  have hexa: "(case d # s of z # p # c # v \<Rightarrow> z = CHR ''0'' \<and> to_lower_char p = CHR ''x'' | _ \<Rightarrow> False) = False"
    using second by (auto split: list.splits)
  have "read_mantissa False m (ds @ CHR ''.'' # fs @ []) =
      (m\<lparr>mn_Value := digits_value (digits_value (mn_Value m) ds) fs, mn_Fraction := length fs, mn_Dot := True, mn_Digits := True\<rparr>, [])"
    if "\<not> mn_Dot m" for m
    unfolding read_digits [OF assms(1,2)] using that assms(3,4) by (simp add: read_digits del: append_Nil2)
  then have rm: "read_mantissa False \<lparr>mn_Value = 0, mn_Fraction = 0, mn_Dot = False, mn_Digits = False\<rparr> (d # s) =
      (\<lparr>mn_Value = digits_value (digits_value 0 ds) fs, mn_Fraction = length fs, mn_Dot = True, mn_Digits = True\<rparr>, [])"
    by (simp flip: ds)
  have "underscoreOK ((if neg then ''-'' else []) @ d # s)"
    using d(2) no_us second(2) by (intro underscoreOK_digits) auto
  then show ?thesis
    unfolding ds readFloat_def drop_sign_digits [OF d(2)] Let_def prod.case hexa if_False rm by simp
qed

lemma special_digits:
  assumes "is_dec d"
  shows "special ((if neg then ''-'' else []) @ d # s) = None"
proof -
  have "to_lower d' \<noteq> ''nan''" "snd (drop_sign (to_lower d')) \<noteq> ''inf''" "snd (drop_sign (to_lower d')) \<noteq> ''infinity''"
    if "d' = (if neg then ''-'' else []) @ d # s" for d'
    using that assms by (auto simp: to_lower_def to_lower_char_dec drop_sign_def split: if_splits)
      (auto simp: to_lower_char_def)
  then show ?thesis by (simp add: special_def Let_def)
qed


text \<open>A number rounded to six digits after the point, half to even, as \<^verbatim>\<open>%f\<close> prints it.\<close>

definition six_digits :: "rat \<Rightarrow> rat" where
  "six_digits q = (if q < 0 then - 1 else 1) * of_int (round_half_even (\<bar>q\<bar> * 10 ^ 6)) / 10 ^ 6"

lemma round_half_even_error: "\<bar>of_int (round_half_even q) - q\<bar> \<le> 1 / 2"
proof -
  define f where "f = \<lfloor>q\<rfloor>"
  have "of_int f \<le> q" "q < of_int f + 1" unfolding f_def by (rule of_int_floor_le, rule floor_less_iff [THEN iffD1, of q "\<lfloor>q\<rfloor> + 1", simplified])
  then show ?thesis by (auto simp: round_half_even_def Let_def f_def [symmetric])
qed

lemma six_digits_error: "\<bar>six_digits q - q\<bar> \<le> 1 / (2 * 10 ^ 6)"
proof -
  define r where "r = (of_int (round_half_even (\<bar>q\<bar> * 10 ^ 6)) :: rat)"
  have "\<bar>r - \<bar>q\<bar> * 10 ^ 6\<bar> \<le> 1 / 2" unfolding r_def by (rule round_half_even_error)
  then have "\<bar>r / 10 ^ 6 - \<bar>q\<bar>\<bar> \<le> 1 / (2 * 10 ^ 6)" by (auto simp: abs_le_iff field_simps)
  moreover have "six_digits q - q = (if q < 0 then - 1 else 1) * (r / 10 ^ 6 - \<bar>q\<bar>)"
    by (simp add: six_digits_def r_def)
  ultimately show ?thesis by (cases "q < 0") (simp_all only: abs_mult if_True if_False abs_minus abs_one mult_1 abs_neg_one)
qed

lemma six_digits_bound:
  assumes "\<bar>q\<bar> \<le> of_int n"
  shows "\<bar>six_digits q\<bar> \<le> of_int n"
proof -
  have "0 \<le> round_half_even (\<bar>q\<bar> * 10 ^ 6)" by (rule round_half_even_ge) simp
  moreover have "round_half_even (\<bar>q\<bar> * 10 ^ 6) \<le> n * 10 ^ 6" using assms by (intro round_half_even_le) simp
  then have "(of_int (round_half_even (\<bar>q\<bar> * 10 ^ 6)) :: rat) \<le> of_int (n * 10 ^ 6)" by (simp only: of_int_le_iff)
  ultimately show ?thesis by (auto simp: six_digits_def abs_mult)
qed

lemma fmt_f_decimal:
  obtains ds fs where "fmt_f (Finite q) = (if q < 0 then ''-'' else []) @ ds @ CHR ''.'' # fs"
    "all_digits ds" "ds \<noteq> []" "all_digits fs" "length fs = 6"
    "digits_value (digits_value 0 ds) fs = round_half_even (\<bar>q\<bar> * 10 ^ 6)"
proof -
  define m where "m = nat (round_half_even (\<bar>q\<bar> * 10 ^ 6))"
  have m: "int m = round_half_even (\<bar>q\<bar> * 10 ^ 6)"
    using round_half_even_ge [of 0 "\<bar>q\<bar> * 10 ^ 6"] by (simp add: m_def)
  have rest: "m mod 10 ^ 6 < 10 ^ 6" by simp
  have "int (m div 1000000) * 1000000 + int (m mod 1000000) = int m"
    using div_mult_mod_eq [of "int m" 1000000] by (simp only: zdiv_int zmod_int of_nat_numeral)
  then have "digits_value (digits_value 0 (nat_digits (m div 10 ^ 6))) (pad_zeros 6 (nat_digits (m mod 10 ^ 6))) =
      round_half_even (\<bar>q\<bar> * 10 ^ 6)"
    using digits_value_pad_zeros(2) [OF rest] digits_value_nat_digits [of 0 "m div 10 ^ 6"] m by simp
  moreover have "fmt_f (Finite q) = (if q < 0 then ''-'' else []) @ nat_digits (m div 10 ^ 6) @ CHR ''.'' #
      pad_zeros 6 (nat_digits (m mod 10 ^ 6))"
    by (simp add: fmt_f_def fmt_special_def fmt_fixed_def m_def Let_def)
  ultimately show ?thesis
    using that [of "nat_digits (m div 10 ^ 6)" "pad_zeros 6 (nat_digits (m mod 10 ^ 6))"]
    by (simp add: all_digits_nat_digits all_digits_pad_zeros digits_value_pad_zeros(1))
qed

lemma ParseFloat_fmt_f:
  assumes "\<bar>q\<bar> \<le> pow2 1023"
  obtains y where "ParseFloat quote (fmt_f (Finite q)) = Inr (Finite y)" "float_of_rat (six_digits q) = Finite y"
proof -
  obtain ds fs where f: "fmt_f (Finite q) = (if q < 0 then ''-'' else []) @ ds @ CHR ''.'' # fs"
    "all_digits ds" "ds \<noteq> []" "all_digits fs" "length fs = 6"
    "digits_value (digits_value 0 ds) fs = round_half_even (\<bar>q\<bar> * 10 ^ 6)" by (rule fmt_f_decimal)
  then have "fs \<noteq> []" by auto
  with f have "readFloat (fmt_f (Finite q)) = Some (six_digits q)"
    by (simp add: readFloat_decimal six_digits_def)
  moreover have "special (fmt_f (Finite q)) = None"
    using f(2,3) special_digits [of "hd ds" "q < 0" "tl ds @ CHR ''.'' # fs"]
    unfolding f(1) by (cases ds) (auto simp: all_digits_def)
  moreover obtain y where "float_of_rat (six_digits q) = Finite y"
  proof -
    have "\<bar>six_digits q\<bar> \<le> of_int (2 ^ 1023)" using assms by (intro six_digits_bound) (simp add: pow2_def)
    then have "- pow2 1023 \<le> six_digits q" "six_digits q \<le> pow2 1023" by (auto simp: pow2_def abs_le_iff)
    moreover have "pow2 1023 = of_int (2 ^ 52) * pow2 971" using pow2_add_nat [of 971 52] by simp
    then have "float_of_rat (pow2 1023) = Finite (pow2 1023)" "float_of_rat (- pow2 1023) = Finite (- pow2 1023)"
      using float_of_exact [of "2 ^ 52" 971] float_of_exact [of "- (2 ^ 52)" 971] by simp_all
    ultimately show ?thesis using float_of_rat_between that by metis
  qed
  ultimately show ?thesis using that by (simp add: ParseFloat_def)
qed

end
