(* ===== verification/Provider_Safety.thy ===== *)
theory Provider_Safety
  imports Provider_Results
begin

text \<open>
  The provider for the Dynatrace query language takes values from queries that have succeeded, gives up after
  a bounded number of tries and does not panic on the credentials it accepts; the interface of providers is
  implemented by the four kinds of them, so that the controller of metrics stores what they report.
\<close>

section \<open>Results of a program, whatever the world answers\<close>

definition returns :: "('w, 'a) state \<Rightarrow> ('a \<Rightarrow> bool) \<Rightarrow> bool" where
  "returns m Q \<longleftrightarrow> (\<forall>w. Q (fst (run_state m w)))"

lemma returns_ret [simp]: "returns (ret x) Q \<longleftrightarrow> Q x"
  by (simp add: returns_def)

lemma returns_bind:
  assumes "returns m R" and "\<And>x. R x \<Longrightarrow> returns (f x) Q"
  shows "returns (State_Monad.bind m f) Q"
  using assms by (auto simp: returns_def State_Monad.bind_def split: prod.splits) (metis fst_conv)

lemma returns_any: "(\<And>x. returns (f x) Q) \<Longrightarrow> returns (State_Monad.bind m f) Q"
  by (rule returns_bind [of m "\<lambda>_. True"]) (simp_all add: returns_def)

lemma returnsD: "returns m Q \<Longrightarrow> run_state m w = (x, w') \<Longrightarrow> Q x"
  by (metis returns_def fst_conv)

section \<open>Credentials\<close>

text \<open>
  A token that passes the validation is cut into its parts and put together again: the client secret is the
  token, and the code does not index out of range.
\<close>

lemma join_three: "length ps = 3 \<Longrightarrow> ps ! 0 @ sep @ ps ! 1 @ sep @ ps ! 2 = join sep ps"
  by (auto simp: numeral_3_eq_3 length_Suc_conv)

lemma join_split_on: "join [c] (split_on c s) = s"
proof (induction s)
  case (Cons x s)
  obtain p ps where "split_on c s = p # ps" by (cases "split_on c s") auto
  with Cons show ?case by (cases ps) auto
qed simp

theorem validated_token_accepted:
  assumes "DQLSecret_validate de secret = None"
  shows "\<exists>cfg. NewAPIConfig server (dqs_Token secret) [WithAuthURL (dqs_AuthUrl secret)] = Some cfg \<and>
     acf_ServerURL cfg = server \<and> oac_ClientSecret (acf_Credentials cfg) = dqs_Token secret \<and>
     acf_AuthURL cfg = (if dqs_AuthUrl secret = [] then defaultAuthURL else dqs_AuthUrl secret) \<and>
     oac_AccessToken (acf_Credentials cfg) = []"
proof -
  have three: "length (split_on CHR ''.'' (dqs_Token secret)) = 3"
    using assms by (auto simp: DQLSecret_validate_def Let_def split: if_splits)
  from join_three [OF this, of "''.''"] have "oac_ClientSecret (acf_Credentials cfg) = dqs_Token secret"
    if "NewAPIConfig server (dqs_Token secret) [WithAuthURL (dqs_AuthUrl secret)] = Some cfg" for cfg
    using that by (auto simp: NewAPIConfig_def WithAuthURL_def Let_def join_split_on split: if_splits)
  then show ?thesis using three by (auto simp: NewAPIConfig_def WithAuthURL_def Let_def)
qed

section \<open>Queries\<close>

text \<open>
  The bodies of the answers that servers send: \<open>A\<close> holds of all of them. A query has succeeded when the server
  says so in an answer.
\<close>

definition answers :: "(string \<Rightarrow> bool) \<Rightarrow> 'w ProviderClient \<Rightarrow> bool" where
  "answers A pc \<longleftrightarrow>
     (\<forall>skip rq w r w'. run_state (pcl_Do pc skip rq) w = (Inr r, w') \<longrightarrow> A (rp_Body r))"

definition succeeded_result :: "(string \<Rightarrow> bool) \<Rightarrow> Decoders \<Rightarrow> DQLResult \<Rightarrow> bool" where
  "succeeded_result A de res \<longleftrightarrow>
     (\<exists>b dq. A b \<and> dec_DQLResult de b = Inr (Some dq) \<and> dq_State dq = dqlQuerySucceeded \<and> dq_Result dq = res)"

lemma succeeded_resultI [intro]:
  "A b \<Longrightarrow> dec_DQLResult de b = Inr (Some dq) \<Longrightarrow> dq_State dq = dqlQuerySucceeded \<Longrightarrow>
   succeeded_result A de (dq_Result dq)"
  by (auto simp: succeeded_result_def)

text \<open>An answer is the JSON \<^verbatim>\<open>null\<close>.\<close>

definition null_answer :: "(string \<Rightarrow> bool) \<Rightarrow> Decoders \<Rightarrow> bool" where
  "null_answer A de \<longleftrightarrow> (\<exists>b. A b \<and> (dec_DQLResult de b = Inr None \<or> dec_DQLHandler de b = Inr None))"

definition dql_spec ::
    "(string \<Rightarrow> bool) \<Rightarrow> Decoders \<Rightarrow> (DQLResult \<Rightarrow> bool) \<Rightarrow> (error + DQLResult) option \<Rightarrow> bool" where
  "dql_spec A de P r \<longleftrightarrow> (r = None \<longrightarrow> null_answer A de) \<and> (\<forall>res. r = Some (Inr res) \<longrightarrow> P res)"

lemma apiClient_Do_body:
  assumes "answers A pc"
  shows "returns (apiClient_Do pc de client path meth payload) (\<lambda>(_, b, _, e). e = None \<longrightarrow> A b)"
proof -
  have answer: "returns (pcl_Do pc skip rq) (\<lambda>res. \<forall>r. res = Inr r \<longrightarrow> A (rp_Body r))" for skip rq
    using assms unfolding returns_def answers_def by (metis prod.collapse)
  show ?thesis
    unfolding apiClient_Do_def Let_def
    by (rule returns_any) (auto intro!: returns_bind [OF answer] split: option.splits sum.splits)
qed

lemma postDQL_body:
  assumes "answers A pc"
  shows "returns (postDQL pc de client req) (\<lambda>(_, r). \<forall>b status. r = Inr (b, status) \<longrightarrow> A b)"
  unfolding postDQL_def
  by (auto intro!: returns_bind [OF apiClient_Do_body [OF assms]] split: option.splits)

lemma retrieveDQLResults_spec:
  assumes "answers A pc"
  shows "returns (retrieveDQLResults pc de client handler)
     (\<lambda>(_, r). (r = None \<longrightarrow> null_answer A de) \<and>
        (\<forall>dq. r = Some (Inr dq) \<longrightarrow> (\<exists>b. A b \<and> dec_DQLResult de b = Inr (Some dq))))"
  unfolding retrieveDQLResults_def Let_def
  by (rule returns_bind [OF apiClient_Do_body [OF assms]])
    (auto simp: null_answer_def split: prod.splits option.splits sum.splits)

lemma poll_DQL_spec:
  assumes "answers A pc"
  shows "returns (poll_DQL pc de n client handler) (\<lambda>(_, r). dql_spec A de (succeeded_result A de) r)"
proof (induction n arbitrary: client)
  case (Suc n)
  show ?case unfolding poll_DQL.simps
  proof (rule returns_bind [OF retrieveDQLResults_spec [OF assms]], clarsimp, goal_cases)
    case (1 c r)
    then show ?case
      by (auto simp: dql_spec_def intro!: returns_any Suc split: option.splits sum.splits)
  qed
qed (simp add: dql_spec_def)

lemma parseDQLResults_spec:
  assumes "answers A pc" and "A b"
  shows "returns (parseDQLResults pc de client b status)
     (\<lambda>(_, r). dql_spec A de (\<lambda>res. succeeded_result A de res \<and> dqr_Records res \<noteq> []) r)"
  unfolding parseDQLResults_def
  using assms(2)
  by (auto simp: dql_spec_def null_answer_def require_records_def getDQL_def
      intro!: returns_bind [OF poll_DQL_spec [OF assms(1), of de maxRetries]]
      split: option.splits sum.splits prod.splits)

lemma ensureDTClientIsSetUp_spec:
  "returns (ensureDTClientIsSetUp pc de d provider)
     (\<lambda>u. u \<noteq> None \<and> (\<forall>d'. u = Some (d', None) \<longrightarrow> dp_DtClient d' \<noteq> None))"
proof -
  have secret: "returns (getDQLSecret pc de provider) (\<lambda>g. \<forall>s. g = Inr s \<longrightarrow> DQLSecret_validate de s = None)"
    unfolding getDQLSecret_def
    by (auto intro!: returns_any split: sum.splits option.splits)
  show ?thesis
    unfolding ensureDTClientIsSetUp_def
    using validated_token_accepted [of de]
    by (auto intro!: returns_bind [OF secret] split: option.splits sum.splits) (metis option.distinct(1))+
qed

lemma DQL_getResults_spec:
  assumes "answers A pc"
  shows "returns (DQL_getResults pc de d metricsReq provider)
     (\<lambda>(_, r). dql_spec A de (\<lambda>res. succeeded_result A de res \<and> dqr_Records res \<noteq> []) r)"
  unfolding DQL_getResults_def
proof (rule returns_bind [OF ensureDTClientIsSetUp_spec], goal_cases)
  case (1 u)
  have after: "returns (State_Monad.bind (postDQL pc de client metricsReq) f) Q"
    if "\<And>c r. \<forall>b status. r = Inr (b, status) \<longrightarrow> A b \<Longrightarrow> returns (f (c, r)) Q" for client f Q
    by (rule returns_bind [OF postDQL_body [OF assms]]) (use that in auto)
  from 1 show ?case
    by (auto simp: dql_spec_def intro!: after returns_bind [OF parseDQLResults_spec [OF assms]]
        split: option.splits sum.splits prod.splits)
qed

lemma first_array_entry:
  "first_array record ks = Some arr \<Longrightarrow> \<exists>k item. fmlookup record k = Some item \<and> toFloatArray item = Some arr"
  by (induction ks) (auto split: option.splits)

text \<open>A record of a query that has succeeded has a series without a value.\<close>

definition empty_series :: "(string \<Rightarrow> bool) \<Rightarrow> Decoders \<Rightarrow> bool" where
  "empty_series A de \<longleftrightarrow>
     (\<exists>res record k item. succeeded_result A de res \<and> record \<in> set (dqr_Records res) \<and>
        fmlookup (gm_fmap record) k = Some item \<and> toFloatArray item = Some [])"

text \<open>A value of a record: the last one of a series of numbers, or nothing when there is no such series.\<close>

definition value_of_record :: "(string, any) gomap \<Rightarrow> string \<Rightarrow> bool" where
  "value_of_record record v \<longleftrightarrow>
     v = [] \<or> (\<exists>k item arr. fmlookup (gm_fmap record) k = Some item \<and> toFloatArray item = Some arr \<and> arr \<noteq> [] \<and>
       v = fmt_f (last arr))"

lemma extractValueFromRecord_spec:
  "returns (extractValueFromRecord pc record)
     (\<lambda>v. (\<forall>s. v = Some s \<longrightarrow> value_of_record record s) \<and>
        ((\<forall>k item. fmlookup (gm_fmap record) k = Some item \<longrightarrow> toFloatArray item \<noteq> Some []) \<longrightarrow> v \<noteq> None))"
  unfolding extractValueFromRecord_def value_of_record_def
  by (rule returns_any) (auto dest: first_array_entry split: option.splits)

text \<open>The value of the first record of a query that has succeeded.\<close>

definition fetched_value :: "(string \<Rightarrow> bool) \<Rightarrow> Decoders \<Rightarrow> string \<Rightarrow> bool" where
  "fetched_value A de v \<longleftrightarrow>
     (\<exists>res record rest. succeeded_result A de res \<and> dqr_Records res = record # rest \<and> value_of_record record v)"

lemma fetched_valueI [intro]:
  "succeeded_result A de res \<Longrightarrow> dqr_Records res = record # rest \<Longrightarrow> value_of_record record v \<Longrightarrow>
   fetched_value A de v"
  by (auto simp: fetched_value_def)

lemma DQL_FetchAnalysisValue_spec:
  assumes "answers A pc"
  shows "returns (DQL_FetchAnalysisValue pc de d query analysis provider)
     (\<lambda>(_, r). (r = None \<longrightarrow> null_answer A de \<or> empty_series A de) \<and>
        (\<forall>v. r = Some (v, None) \<longrightarrow> fetched_value A de v))"
  unfolding DQL_FetchAnalysisValue_def
proof (rule returns_any, rule returns_bind [OF DQL_getResults_spec [OF assms]], clarsimp, goal_cases)
  case (1 d' r)
  show ?case
  proof (cases "\<exists>res. r = Some (Inr res)")
    case True
    then obtain res where res: "r = Some (Inr res)" by blast
    with 1 have "succeeded_result A de res" "dqr_Records res \<noteq> []" by (auto simp: dql_spec_def)
    moreover from this obtain rcd rest where "dqr_Records res = rcd # rest" by (cases "dqr_Records res") auto
    ultimately show ?thesis
      unfolding res option.case sum.case
      by (auto intro!: returns_bind [OF extractValueFromRecord_spec] simp: empty_series_def)
        (metis list.set_intros(1), blast)
  next
    case False
    with 1 show ?thesis by (auto simp: dql_spec_def split: option.splits sum.splits)
  qed
qed

section \<open>Giving up\<close>

text \<open>A measure of the world that a wait increases by one, and that nothing else changes.\<close>

definition counts_waits :: "('w \<Rightarrow> nat) \<Rightarrow> 'w ProviderClient \<Rightarrow> bool" where
  "counts_waits waits pc \<longleftrightarrow>
     (\<forall>d w. waits (snd (run_state (pcl_After pc d) w)) = Suc (waits w)) \<and>
     (\<forall>skip rq w. waits (snd (run_state (pcl_Do pc skip rq) w)) = waits w)"

lemma counts_waits_Do:
  assumes "counts_waits waits pc"
  shows "waits (snd (run_state (apiClient_Do pc de client path meth payload) w)) = waits w"
proof -
  have "waits (snd (run_state (pcl_Do pc skip rq) v)) = waits v" for skip rq v
    using assms by (simp add: counts_waits_def)
  then have step: "run_state (pcl_Do pc skip rq) v = (x, v') \<Longrightarrow> waits v' = waits v" for skip rq v x v'
    by (metis snd_conv)
  have "run_state (auth pc de client) w = (x, w') \<Longrightarrow> waits w' = waits w" for x w'
    by (auto simp: auth_def State_Monad.bind_def Let_def dest: step split: if_splits option.splits prod.splits)
  then show ?thesis
    by (auto simp: apiClient_Do_def State_Monad.bind_def Let_def dest: step split: option.splits prod.splits)
qed

lemma counts_waits_retrieve:
  assumes "counts_waits waits pc" and "run_state (retrieveDQLResults pc de client handler) w = (x, w')"
  shows "waits w' = waits w"
proof -
  obtain y v where y: "run_state (apiClient_Do pc de client
      (defaultPath @ ''poll?'' @ Values_Encode [(''request-token'', handler)]) ''GET'' []) w = (y, v)"
    by fastforce
  then have "w' = v" using assms(2) by (simp add: retrieveDQLResults_def State_Monad.bind_def Let_def split: prod.splits)
  with y counts_waits_Do [OF assms(1)] show ?thesis by (metis snd_conv)
qed

lemma poll_DQL_waits:
  assumes "counts_waits waits pc" and "run_state (poll_DQL pc de n client handler) w = ((client', r), w')"
  shows "waits w' \<le> waits w + n \<and> (waits w' = waits w + n \<longrightarrow> r = Some (Inl ErrDQLQueryTimeout))"
  using assms(2)
proof (induction n arbitrary: client w)
  case (Suc n)
  obtain c a v where a: "run_state (retrieveDQLResults pc de client handler) w = ((c, a), v)" by (metis prod.exhaust)
  have v: "waits v = waits w" using counts_waits_retrieve [OF assms(1) a] .
  show ?case
  proof (cases "\<exists>dq. a = Some (Inr dq) \<and> dq_State dq \<noteq> dqlQuerySucceeded")
    case True
    then have "run_state (poll_DQL pc de n c handler) (snd (run_state (pcl_After pc (10 * second)) v)) = ((client', r), w')"
      using Suc.prems a by (auto simp: State_Monad.bind_def split: prod.splits)
    from Suc.IH [OF this] v assms(1) show ?thesis by (auto simp: counts_waits_def)
  next
    case False
    then have "w' = v" using Suc.prems a by (auto simp: State_Monad.bind_def split: option.splits sum.splits if_splits)
    with v show ?thesis by simp
  qed
qed simp


text \<open>
  C29: a query in the Dynatrace query language for an analysis comes to an end. Without an error its value is that
  of a query which the server reported as succeeded, in one of its answers. It panics only when an answer of the
  server is the JSON null or a record of a succeeded query has a series without values. Waiting for the result
  of a query takes at most five rounds, and after five it ends with the error for a timeout.
\<close>

theorem dql_query_ends:
  assumes "answers A pc" and "counts_waits waits pc"
  shows "(\<exists>d' r w'. run_state (DQL_FetchAnalysisValue pc de d query analysis provider) w = ((d', r), w') \<and>
       (case r of
          Some (v, err) \<Rightarrow> err = None \<longrightarrow> fetched_value A de v
        | None \<Rightarrow> null_answer A de \<or> empty_series A de)) \<and>
     (\<exists>client' r w'. run_state (getDQL pc de client handler) w = ((client', r), w') \<and>
       waits w' \<le> waits w + 5 \<and> (waits w' = waits w + 5 \<longrightarrow> r = Some (Inl ErrDQLQueryTimeout)))"
proof
  obtain d' r w' where run: "run_state (DQL_FetchAnalysisValue pc de d query analysis provider) w = ((d', r), w')"
    by (metis prod.exhaust)
  from returnsD [OF DQL_FetchAnalysisValue_spec [OF assms(1)] run] run
  show "\<exists>d' r w'. run_state (DQL_FetchAnalysisValue pc de d query analysis provider) w = ((d', r), w') \<and>
       (case r of
          Some (v, err) \<Rightarrow> err = None \<longrightarrow> fetched_value A de v
        | None \<Rightarrow> null_answer A de \<or> empty_series A de)"
    by (auto split: option.splits)
next
  obtain client' r w' where "run_state (getDQL pc de client handler) w = ((client', r), w')" by (metis prod.exhaust)
  then show "\<exists>client' r w'. run_state (getDQL pc de client handler) w = ((client', r), w') \<and>
     waits w' \<le> waits w + 5 \<and> (waits w' = waits w + 5 \<longrightarrow> r = Some (Inl ErrDQLQueryTimeout))"
    using poll_DQL_waits [OF assms(2), of de maxRetries client handler w] by (auto simp: getDQL_def maxRetries_def)
qed

text \<open>
  A series without a value makes the code index at minus one: the goroutine of the provider panics, and the
  operator with it.
\<close>

theorem empty_series_panics:
  assumes "record = Some (fmap_of_list [(''avg'', AnyArray [])])"
    and "run_state (pcl_RangeOrder pc {|''avg''|}) w = ([''avg''], w')"
  shows "run_state (extractValueFromRecord pc record) w = (None, w')"
  using assms by (simp add: extractValueFromRecord_def gm_fmap_def toFloatArray_def State_Monad.bind_def)

section \<open>One client for all\<close>

lemma auth_server:
  "returns (auth pc de client) (\<lambda>(c, _). acf_ServerURL (ac_Config c) = acf_ServerURL (ac_Config client))"
  unfolding auth_def Let_def by (auto intro!: returns_any split: option.splits sum.splits)

lemma Do_server:
  "returns (apiClient_Do pc de client path meth payload)
     (\<lambda>(c, _). acf_ServerURL (ac_Config c) = acf_ServerURL (ac_Config client))"
  unfolding apiClient_Do_def Let_def
  by (rule returns_bind [OF auth_server]) (auto intro!: returns_any split: option.splits sum.splits)

lemma postDQL_server:
  "returns (postDQL pc de client req) (\<lambda>(c, _). acf_ServerURL (ac_Config c) = acf_ServerURL (ac_Config client))"
  unfolding postDQL_def by (auto intro!: returns_bind [OF Do_server])

lemma retrieve_server:
  "returns (retrieveDQLResults pc de client handler)
     (\<lambda>(c, _). acf_ServerURL (ac_Config c) = acf_ServerURL (ac_Config client))"
  unfolding retrieveDQLResults_def Let_def by (auto intro!: returns_bind [OF Do_server])

lemma poll_server:
  "returns (poll_DQL pc de n client handler) (\<lambda>(c, _). acf_ServerURL (ac_Config c) = acf_ServerURL (ac_Config client))"
proof (induction n arbitrary: client)
  case (Suc n)
  show ?case unfolding poll_DQL.simps
  proof (rule returns_bind [OF retrieve_server], clarsimp, goal_cases)
    case (1 c r)
    then show ?case using Suc [of c] by (auto intro!: returns_any split: option.splits sum.splits)
  qed
qed simp

lemma parse_server:
  "returns (parseDQLResults pc de client b status)
     (\<lambda>(c, _). acf_ServerURL (ac_Config c) = acf_ServerURL (ac_Config client))"
  unfolding parseDQLResults_def getDQL_def
  by (auto intro!: returns_bind [OF poll_server] split: option.splits sum.splits)

definition asks :: "keptnDynatraceDQLProvider \<Rightarrow> string \<Rightarrow> bool" where
  "asks d server \<longleftrightarrow> (\<exists>c. dp_DtClient d = Some c \<and> acf_ServerURL (ac_Config c) = server)"

lemma getResults_server:
  assumes "dp_DtClient d = None"
  shows "returns (DQL_getResults pc de d req provider)
     (\<lambda>(d', r). (\<exists>res. r = Some (Inr res)) \<longrightarrow> asks d' (kmp_TargetServer provider))"
proof -
  have ready: "returns (ensureDTClientIsSetUp pc de d provider) (\<lambda>u. \<forall>d'. u = Some (d', None) \<longrightarrow> asks d' (kmp_TargetServer provider))"
    unfolding ensureDTClientIsSetUp_def assms option.case
    by (rule returns_any) (auto simp: asks_def NewAPIConfig_def WithAuthURL_def Let_def split: sum.splits if_splits)
  have after: "returns (State_Monad.bind (postDQL pc de client req) f) Q"
    if "\<And>c p. acf_ServerURL (ac_Config c) = acf_ServerURL (ac_Config client) \<Longrightarrow> returns (f (c, p)) Q" for client f Q
    by (rule returns_bind [OF postDQL_server]) (use that in auto)
  show ?thesis
    unfolding DQL_getResults_def
  proof (rule returns_bind [OF ready], goal_cases)
    case (1 u)
    then show ?case
      by (auto simp: asks_def intro!: after returns_bind [OF parse_server] split: option.splits sum.splits)
  qed
qed

text \<open>
  A provider for the Dynatrace query language keeps the client that it makes for its first query. The pool of an
  analysis has one such provider for all objectives: once a query to one server has been answered, every
  other KeptnMetricsProvider of this type is asked at that server, with the credentials of the first.
\<close>

theorem first_server_asked:
  assumes "run_state (DQL_FetchAnalysisValue pc de (NewKeptnDynatraceDQLProvider skip) query analysis provider) w =
     ((d, Some (v, None)), w')"
  shows "asks d (kmp_TargetServer provider) \<and>
     DQL_FetchAnalysisValue pc de d query' analysis' other = DQL_FetchAnalysisValue pc de d query' analysis' provider"
proof -
  have "returns (DQL_FetchAnalysisValue pc de (NewKeptnDynatraceDQLProvider skip) query analysis provider)
      (\<lambda>(d', r). (\<exists>x. r = Some (x, None)) \<longrightarrow> asks d' (kmp_TargetServer provider))"
    unfolding DQL_FetchAnalysisValue_def
    by (rule returns_any, rule returns_bind [OF getResults_server])
      (auto intro!: returns_any simp: NewKeptnDynatraceDQLProvider_def split: option.splits sum.splits list.splits)
  from returnsD [OF this assms] have "asks d (kmp_TargetServer provider)" by auto
  then show ?thesis
    by (auto simp: asks_def DQL_FetchAnalysisValue_def DQL_getResults_def ensureDTClientIsSetUp_def)
qed


section \<open>What a metric becomes\<close>

text \<open>The providers as the controller of metrics sees them; it makes a new one for every query.\<close>

definition provider_implementation :: "'w ProviderClient \<Rightarrow> Decoders \<Rightarrow> ProviderKind \<Rightarrow> 'w SLIProvider" where
  "provider_implementation pc de kind =
     (case kind of
        PrometheusProvider \<Rightarrow>
          \<lparr>sli_EvaluateQuery = Prometheus_EvaluateQuery pc de,
           sli_EvaluateQueryForStep = Prometheus_EvaluateQueryForStep pc de\<rparr>
      | DynatraceProvider skip \<Rightarrow>
          \<lparr>sli_EvaluateQuery = \<lambda>m p. do { r \<leftarrow> Dynatrace_EvaluateQuery pc de skip m p; ret (Some r) },
           sli_EvaluateQueryForStep = \<lambda>m p. do { r \<leftarrow> Dynatrace_EvaluateQueryForStep pc de skip m p; ret (Some r) }\<rparr>
      | DynatraceDQLProvider skip \<Rightarrow>
          \<lparr>sli_EvaluateQuery =
             \<lambda>m p. do { (d, r) \<leftarrow> DQL_EvaluateQuery pc de (NewKeptnDynatraceDQLProvider skip) m p; ret r },
           sli_EvaluateQueryForStep =
             \<lambda>m p. do { (d, r) \<leftarrow> DQL_EvaluateQueryForStep pc de (NewKeptnDynatraceDQLProvider skip) m p; ret r }\<rparr>
      | DataDogProvider skip \<Rightarrow>
          \<lparr>sli_EvaluateQuery = Datadog_EvaluateQuery pc de skip,
           sli_EvaluateQueryForStep = Datadog_EvaluateQueryForStep pc de skip\<rparr>)"

lemma runQuery_value:
  "returns (runQuery pc de skip qURL provider)
     (\<lambda>(v, raw, err). err = None \<longrightarrow>
        (\<exists>result. dec_Dynatrace de raw = Inr result \<and> dres_Error result = no_error \<and>
           v = fmt_f (CalculateAverage (response_values result))))"
proof -
  have "returns (performRequest pc de skip provider qURL)
      (\<lambda>r. \<forall>result b. r = Inr (result, b) \<longrightarrow> dec_Dynatrace de b = Inr result \<and> dres_Error result = no_error)"
    unfolding performRequest_def Let_def by (auto intro!: returns_any split: option.splits sum.splits)
  then show ?thesis
    unfolding runQuery_def
    by (rule returns_bind) (auto simp: Dynatrace_getSingleValue_mean split: sum.splits prod.splits)
qed

text \<open>
  C28: the value of a Dynatrace metric is the mean of all values in the answer that are not null. It is printed
  with six digits after the point, so that who reads the metric gets a number that differs from the mean by at
  most half of a millionth, up to the rounding of \<^verbatim>\<open>float64\<close>.
\<close>

theorem dynatrace_value_is_mean:
  assumes "run_state (Dynatrace_EvaluateQuery pc de skip metric provider) w = ((v, raw, None), w')"
  shows "\<exists>result. dec_Dynatrace de raw = Inr result \<and> v = fmt_f (CalculateAverage (response_values result)) \<and>
     (\<forall>m. CalculateAverage (response_values result) = Finite m \<longrightarrow> \<bar>m\<bar> \<le> pow2 1023 \<longrightarrow>
        (\<exists>x. ParseFloat quote v = Inr (float_of_rat x) \<and> \<bar>x - m\<bar> \<le> 1 / (2 * 10 ^ 6)))"
proof -
  obtain result where r: "dec_Dynatrace de raw = Inr result" "v = fmt_f (CalculateAverage (response_values result))"
    using returnsD [OF runQuery_value] assms by (fastforce simp: Dynatrace_EvaluateQuery_def Let_def)
  moreover have "\<exists>x. ParseFloat quote v = Inr (float_of_rat x) \<and> \<bar>x - m\<bar> \<le> 1 / (2 * 10 ^ 6)"
    if "CalculateAverage (response_values result) = Finite m" "\<bar>m\<bar> \<le> pow2 1023" for m
    using that r(2) six_digits_error [of m] ParseFloat_fmt_f [OF that(2), of quote] by metis
  ultimately show ?thesis by blast
qed

text \<open>
  An answer without any value is reported as the number zero, without an error.
\<close>

theorem missing_data_is_zero:
  assumes "response_values result = []"
  shows "fmt_f (Dynatrace_getSingleValue result) = ''0.000000''"
  using assms
  by (simp add: Dynatrace_getSingleValue_mean CalculateAverage_def fmt_f_def fmt_special_def fmt_fixed_def
      round_half_even_def pad_zeros_def nat_digits.simps Let_def) code_simp

text \<open>
  A due metric without a range stores what its Dynatrace provider reports.
\<close>

theorem dynatrace_metric_stored:
  assumes "mc_Implementation cl = provider_implementation pc de"
    and "run_state (api_Get (mc_Metric cl) (req_Namespace req) (req_Name req)) w = (Inr metric, w1)"
    and "run_state (mc_Now cl) w1 = (now, w2)" and "due metric \<le> now" and "mt_Range metric = None"
    and "run_state (api_Get (mc_Provider cl) (om_Namespace (mt_meta metric)) (mt_Provider metric)) w2 = (Inr p, w3)"
    and "to_lower (kmp_Type p) = ''dynatrace''"
    and "run_state (Dynatrace_EvaluateQuery pc de (kmp_InsecureSkipTlsVerify p) metric p) w3 = ((v, raw, None), w4)"
    and "run_state (mc_Now cl) w4 = (now', w5)"
    and "run_state (api_StatusUpdate (mc_Metric cl) (metric\<lparr>mt_Status :=
      (mt_Status metric)\<lparr>ms_ErrMsg := [], ms_Value := v, ms_RawValue := take MB raw, ms_LastUpdated := now'\<rparr>\<rparr>)) w5 = (Inr stored, w6)"
  shows "run_state (Metric_Reconcile quote format cl req) w = (Some (requeue_after 10, None), w6)"
proof (rule metric_refreshed [OF assms(2-4,6)])
  show "NewProvider p = Inr (DynatraceProvider (kmp_InsecureSkipTlsVerify p))"
    using assms(7) by (simp add: NewProvider_def Let_def)
  show "run_state (sli_EvaluateQuery (mc_Implementation cl (DynatraceProvider (kmp_InsecureSkipTlsVerify p))) metric p) w3 =
      (Some (v, raw, None), w4)"
    using assms(8) by (simp add: assms(1) provider_implementation_def State_Monad.bind_def)
qed (use assms in simp_all)

end
