(* ===== verification/Metrics_Adapter.thy ===== *)
theory Metrics_Adapter
  imports Metrics Json
begin

text \<open>
  The adapter that serves KeptnMetrics through the custom metrics API of Kubernetes
  (\<^verbatim>\<open>metrics-operator/cmd/metrics/adapter/provider\<close>): a cache, which an informer fills, and the requests by name
  and by selector.  Informers, label selectors and the parsing of quantities are arguments.  The locks of the
  cache make its operations atomic.
\<close>

section \<open>The cache\<close>

record NamespacedName =
  nn_Namespace :: string
  nn_Name :: string

record MetricObjectReference =
  mor_APIVersion :: string
  mor_Kind :: string
  mor_Name :: string
  mor_Namespace :: string

record MetricValue =
  mv_MetricName :: string
  mv_MatchLabels :: smap
  mv_Timestamp :: time
  mv_Value :: Quantity
  mv_DescribedObject :: MetricObjectReference

record CustomMetricValue =
  cmv_Value :: MetricValue
  cmv_Labels :: smap

record CustomMetricInfo =
  cmi_Group :: string
  cmi_Resource :: string
  cmi_Metric :: string
  cmi_Namespaced :: bool

type_synonym CustomMetricsCache = "(string, CustomMetricValue) gomap"

definition ErrMetricNotFound :: error where
  "ErrMetricNotFound = Sentinel ''no metric value found''"

definition getMetricKey :: "string \<Rightarrow> string \<Rightarrow> string" where
  "getMetricKey metricName metricNamespace =
     (let metricNamespace = (if metricNamespace = [] then ''default'' else metricNamespace)
      in metricNamespace @ ''-'' @ metricName)"

definition cache_Update :: "string \<Rightarrow> CustomMetricValue \<Rightarrow> CustomMetricsCache \<Rightarrow> CustomMetricsCache" where
  "cache_Update metricName metricValue cm =
     Some (fmupd (getMetricKey metricName (mor_Namespace (mv_DescribedObject (cmv_Value metricValue)))) metricValue (gm_fmap cm))"

definition cache_Delete :: "NamespacedName \<Rightarrow> CustomMetricsCache \<Rightarrow> CustomMetricsCache" where
  "cache_Delete metricName cm =
     map_option (fmdrop (getMetricKey (nn_Name metricName) (nn_Namespace metricName))) cm"

definition cache_Get :: "CustomMetricsCache \<Rightarrow> NamespacedName \<Rightarrow> error + CustomMetricValue" where
  "cache_Get cm metricName =
     (case gm_lookup cm (getMetricKey (nn_Name metricName) (nn_Namespace metricName)) of
        None \<Rightarrow> Inl ErrMetricNotFound
      | Some metric \<Rightarrow> Inr metric)"

definition generateCustomMetricInfo :: "string \<Rightarrow> CustomMetricInfo" where
  "generateCustomMetricInfo name =
     \<lparr>cmi_Group = ''metrics.keptn.sh'', cmi_Resource = ''keptnmetrics'', cmi_Metric = name, cmi_Namespaced = True\<rparr>"

text \<open>A loop over the map sees its entries in the order \<open>ks\<close> of the keys.\<close>

definition cache_entries :: "string list \<Rightarrow> CustomMetricsCache \<Rightarrow> CustomMetricValue list" where
  "cache_entries ks cm = List.map_filter (gm_lookup cm) ks"

definition cache_List :: "string list \<Rightarrow> CustomMetricsCache \<Rightarrow> CustomMetricInfo list" where
  "cache_List ks cm = map (\<lambda>v. generateCustomMetricInfo (mv_MetricName (cmv_Value v))) (cache_entries ks cm)"

definition ListByLabelSelector :: "string list \<Rightarrow> (smap \<Rightarrow> bool) \<Rightarrow> CustomMetricsCache \<Rightarrow> CustomMetricInfo list" where
  "ListByLabelSelector ks selector cm =
     map (\<lambda>v. generateCustomMetricInfo (mv_MetricName (cmv_Value v)))
       (filter (\<lambda>v. selector (cmv_Labels v)) (cache_entries ks cm))"

definition GetValuesByLabel :: "string list \<Rightarrow> (smap \<Rightarrow> bool) \<Rightarrow> CustomMetricsCache \<Rightarrow> CustomMetricValue list" where
  "GetValuesByLabel ks selector cm = filter (\<lambda>v. selector (cmv_Labels v)) (cache_entries ks cm)"

section \<open>The provider of custom metrics\<close>

definition ListAllMetrics :: "string list \<Rightarrow> CustomMetricsCache \<Rightarrow> CustomMetricInfo list" where
  "ListAllMetrics = cache_List"

text \<open>
  The errors for a metric that is not there and for any other failure come from the API machinery.
\<close>

definition GetMetricByName ::
    "(CustomMetricInfo \<Rightarrow> string \<Rightarrow> error) \<Rightarrow> (error \<Rightarrow> error) \<Rightarrow> CustomMetricsCache \<Rightarrow> NamespacedName \<Rightarrow> CustomMetricInfo \<Rightarrow>
     error + MetricValue" where
  "GetMetricByName notFound internal cm name info =
     (case cache_Get cm name of
        Inl err \<Rightarrow> Inl (if error_is err ErrMetricNotFound then notFound info (nn_Name name) else internal err)
      | Inr val \<Rightarrow> Inr (cmv_Value val))"

text \<open>Neither the namespace nor the selector for metrics of the request is looked at.\<close>

definition GetMetricBySelector ::
    "string list \<Rightarrow> CustomMetricsCache \<Rightarrow> string \<Rightarrow> (smap \<Rightarrow> bool) \<Rightarrow> CustomMetricInfo \<Rightarrow> (smap \<Rightarrow> bool) \<Rightarrow> MetricValue list" where
  "GetMetricBySelector ks cm namespace selector info metricSelector = map cmv_Value (GetValuesByLabel ks selector cm)"

text \<open>
  A KeptnMetric as the informer hands it over: of its content the nested string \<^verbatim>\<open>status.value\<close>, which may be
  missing or of another type.  A deletion that the informer missed is reported by a tombstone.
\<close>

record UnstructuredMetric =
  um_Name :: string
  um_Namespace :: string
  um_Labels :: smap
  um_Value :: "error + string option"

datatype informer_object = Object UnstructuredMetric | DeletedFinalStateUnknown

definition metric_value :: "(string \<Rightarrow> error + Quantity) \<Rightarrow> time \<Rightarrow> UnstructuredMetric \<Rightarrow> CustomMetricValue option" where
  "metric_value parseQuantity now obj =
     (case um_Value obj of
        Inl err \<Rightarrow> None
      | Inr found \<Rightarrow>
          (case parseQuantity (case found of Some v \<Rightarrow> v | None \<Rightarrow> ''0.0'') of
             Inl err \<Rightarrow> None
           | Inr metricValue \<Rightarrow>
               Some \<lparr>cmv_Value = \<lparr>mv_MetricName = um_Name obj, mv_MatchLabels = um_Labels obj, mv_Timestamp = now,
                   mv_Value = metricValue,
                   mv_DescribedObject = \<lparr>mor_APIVersion = ''metrics.keptn.sh/v1'', mor_Kind = ''KeptnMetric'',
                     mor_Name = um_Name obj, mor_Namespace = um_Namespace obj\<rparr>\<rparr>,
                 cmv_Labels = um_Labels obj\<rparr>))"

definition adapter_updateMetric ::
    "(string \<Rightarrow> error + Quantity) \<Rightarrow> time \<Rightarrow> UnstructuredMetric \<Rightarrow> CustomMetricsCache \<Rightarrow> CustomMetricsCache" where
  "adapter_updateMetric parseQuantity now obj cm =
     (case metric_value parseQuantity now obj of
        None \<Rightarrow> cm
      | Some metricObj \<Rightarrow> cache_Update (um_Name obj) metricObj cm)"

text \<open>The handlers of the informer, which assert the type of what they get: another type is a panic.\<close>

datatype informer_event =
    AddFunc informer_object
  | UpdateFunc informer_object informer_object
  | DeleteFunc informer_object

fun handle_event ::
    "(string \<Rightarrow> error + Quantity) \<Rightarrow> time \<times> informer_event \<Rightarrow> CustomMetricsCache \<Rightarrow> CustomMetricsCache option" where
  "handle_event parse (now, AddFunc (Object obj)) cm = Some (adapter_updateMetric parse now obj cm)"
| "handle_event parse (now, UpdateFunc old (Object obj)) cm = Some (adapter_updateMetric parse now obj cm)"
| "handle_event parse (now, DeleteFunc (Object obj)) cm =
     Some (cache_Delete \<lparr>nn_Namespace = um_Namespace obj, nn_Name = um_Name obj\<rparr> cm)"
| "handle_event parse _ cm = None"

fun watchMetrics ::
    "(string \<Rightarrow> error + Quantity) \<Rightarrow> (time \<times> informer_event) list \<Rightarrow> CustomMetricsCache \<Rightarrow> CustomMetricsCache option" where
  "watchMetrics parse [] cm = Some cm"
| "watchMetrics parse (e # es) cm =
     (case handle_event parse e cm of None \<Rightarrow> None | Some cm' \<Rightarrow> watchMetrics parse es cm')"

section \<open>A cache as a map from keys\<close>

text \<open>
  The contract of a cache whose entries are found by a key: what is read after a write.  It follows that a
  sequence of writes leaves the last one for each key, and that names with different keys do not
  disturb each other.
\<close>

locale keyed_cache =
  fixes lookup :: "'c \<Rightarrow> 'n \<Rightarrow> 'v option"
    and update :: "'n \<Rightarrow> 'v \<Rightarrow> 'c \<Rightarrow> 'c"
    and delete :: "'n \<Rightarrow> 'c \<Rightarrow> 'c"
    and key :: "'n \<Rightarrow> 'k"
  assumes lookup_update: "lookup (update n v c) m = (if key m = key n then Some v else lookup c m)"
    and lookup_delete: "lookup (delete n c) m = (if key m = key n then None else lookup c m)"
begin

definition apply_write :: "'n \<times> 'v option \<Rightarrow> 'c \<Rightarrow> 'c" where
  "apply_write w c = (case snd w of Some v \<Rightarrow> update (fst w) v c | None \<Rightarrow> delete (fst w) c)"

lemma lookup_write: "lookup (apply_write w c) m = (if key m = key (fst w) then snd w else lookup c m)"
  by (simp add: apply_write_def lookup_update lookup_delete split: option.splits)

lemma lookup_writes:
  "lookup (fold apply_write ws c) m = fold (\<lambda>w found. if key (fst w) = key m then snd w else found) ws (lookup c m)"
  by (induction ws arbitrary: c) (auto simp: lookup_write)

lemma colliding_write: "key m = key n \<Longrightarrow> lookup (update n v c) m = Some v"
  by (simp add: lookup_update)

end

text \<open>The cache of the adapter, read and written by the name and the namespace of a metric.\<close>

definition name_key :: "NamespacedName \<Rightarrow> string" where
  "name_key n = getMetricKey (nn_Name n) (nn_Namespace n)"

definition cached :: "CustomMetricsCache \<Rightarrow> NamespacedName \<Rightarrow> CustomMetricValue option" where
  "cached cm n = gm_lookup cm (name_key n)"

definition put :: "NamespacedName \<Rightarrow> CustomMetricValue \<Rightarrow> CustomMetricsCache \<Rightarrow> CustomMetricsCache" where
  "put n v cm = Some (fmupd (name_key n) v (gm_fmap cm))"

interpretation adapter_cache: keyed_cache cached put cache_Delete name_key
proof
  fix n m :: NamespacedName and v :: CustomMetricValue and c :: CustomMetricsCache
  show "cached (put n v c) m = (if name_key m = name_key n then Some v else cached c m)"
    by (simp add: cached_def put_def gm_lookup_fmap) (simp add: gm_fmap_def)
  show "cached (cache_Delete n c) m = (if name_key m = name_key n then None else cached c m)"
    by (cases c) (simp_all add: cached_def cache_Delete_def gm_lookup_def name_key_def)
qed


section \<open>The cache follows the informer\<close>

definition object_name :: "UnstructuredMetric \<Rightarrow> NamespacedName" where
  "object_name obj = \<lparr>nn_Namespace = um_Namespace obj, nn_Name = um_Name obj\<rparr>"

text \<open>What an event says about a metric: its value, that it is gone, or nothing that can be read.\<close>

fun event_reports :: "(string \<Rightarrow> error + Quantity) \<Rightarrow> time \<times> informer_event \<Rightarrow> (NamespacedName \<times> CustomMetricValue option) list" where
  "event_reports parse (now, AddFunc (Object obj)) =
     (case metric_value parse now obj of Some v \<Rightarrow> [(object_name obj, Some v)] | None \<Rightarrow> [])"
| "event_reports parse (now, UpdateFunc old (Object obj)) =
     (case metric_value parse now obj of Some v \<Rightarrow> [(object_name obj, Some v)] | None \<Rightarrow> [])"
| "event_reports parse (now, DeleteFunc (Object obj)) = [(object_name obj, None)]"
| "event_reports parse _ = []"

fun is_object_event :: "informer_event \<Rightarrow> bool" where
  "is_object_event (AddFunc (Object obj)) = True"
| "is_object_event (UpdateFunc old (Object obj)) = True"
| "is_object_event (DeleteFunc (Object obj)) = True"
| "is_object_event _ = False"

text \<open>
  The latest report for a metric, and the latest report under its key: the specification that the cache
  implements.  They are the same unless another metric that is reported has the same key.
\<close>

definition latest_report ::
    "(string \<Rightarrow> error + Quantity) \<Rightarrow> (time \<times> informer_event) list \<Rightarrow> NamespacedName \<Rightarrow> CustomMetricValue option" where
  "latest_report parse es n =
     fold (\<lambda>w found. if fst w = n then snd w else found) (concat (map (event_reports parse) es)) None"

definition latest_under_key ::
    "(string \<Rightarrow> error + Quantity) \<Rightarrow> (time \<times> informer_event) list \<Rightarrow> NamespacedName \<Rightarrow> CustomMetricValue option" where
  "latest_under_key parse es n =
     fold (\<lambda>w found. if name_key (fst w) = name_key n then snd w else found)
       (concat (map (event_reports parse) es)) None"

lemma latest_own:
  assumes "\<forall>w\<in>set (concat (map (event_reports parse) es)). name_key (fst w) = name_key n \<longrightarrow> fst w = n"
  shows "latest_under_key parse es n = latest_report parse es n"
  unfolding latest_under_key_def latest_report_def using assms
  by (intro fold_cong refl) (auto simp: fun_eq_iff)

lemma cache_Update_put:
  "metric_value parse now obj = Some v \<Longrightarrow> cache_Update (um_Name obj) v cm = put (object_name obj) v cm"
  by (auto simp: metric_value_def cache_Update_def put_def name_key_def object_name_def split: sum.splits)

lemma handle_event_reports:
  "is_object_event (snd e) \<Longrightarrow> handle_event parse e cm = Some (fold adapter_cache.apply_write (event_reports parse e) cm)"
  by (cases "(parse, e, cm)" rule: handle_event.cases)
    (auto simp: adapter_updateMetric_def adapter_cache.apply_write_def cache_Update_put object_name_def split: option.splits)

lemma watchMetrics_reports:
  "\<forall>e\<in>set es. is_object_event (snd e) \<Longrightarrow>
   watchMetrics parse es cm = Some (fold adapter_cache.apply_write (concat (map (event_reports parse) es)) cm)"
  by (induction es arbitrary: cm) (simp_all add: handle_event_reports)

text \<open>
  C30: the cache of the adapter refines the reports of the informer. As long as all events report an object (a
  tombstone for a deletion that was missed panics, \<open>missed_deletion_panics\<close>), they are handled in whatever order
  they come. A metric is then found with the value that was reported last under its key, or not found when
  nothing was or it was deleted last. That is the latest report of the metric itself as long as no other
  reported metric has the same key (\<open>colliding_metrics\<close>). An event whose value cannot be read changes nothing.
\<close>

theorem cache_refines_reports:
  assumes "\<forall>e\<in>set es. is_object_event (snd e)"
  shows "\<exists>cm. watchMetrics parse es (Some fmempty) = Some cm \<and>
     GetMetricByName notFound internal cm n info =
       (case latest_under_key parse es n of
          Some v \<Rightarrow> Inr (cmv_Value v)
        | None \<Rightarrow> Inl (notFound info (nn_Name n))) \<and>
     ((\<forall>w\<in>set (concat (map (event_reports parse) es)). name_key (fst w) = name_key n \<longrightarrow> fst w = n) \<longrightarrow>
       latest_under_key parse es n = latest_report parse es n)"
proof -
  let ?ws = "concat (map (event_reports parse) es)"
  have "cached (Some fmempty) n = None" by (simp add: cached_def gm_lookup_def)
  then have "cached (fold adapter_cache.apply_write ?ws (Some fmempty)) n = latest_under_key parse es n"
    by (simp only: adapter_cache.lookup_writes latest_under_key_def)
  moreover note latest_own
  ultimately show ?thesis
    using watchMetrics_reports [OF assms]
    by (auto simp: GetMetricByName_def cache_Get_def cached_def name_key_def [symmetric] ErrMetricNotFound_def
        split: option.splits)
qed

text \<open>Names in namespaces without a hyphen have different keys.\<close>

lemma name_key_inj:
  "inj_on name_key {n. nn_Namespace n \<noteq> [] \<and> CHR ''-'' \<notin> set (nn_Namespace n)}"
proof (rule inj_onI, clarsimp)
  fix n m :: NamespacedName
  assume eq: "name_key n = name_key m" and ne: "nn_Namespace n \<noteq> []" "nn_Namespace m \<noteq> []"
    and n: "CHR ''-'' \<notin> set (nn_Namespace n)" and m: "CHR ''-'' \<notin> set (nn_Namespace m)"
  have key: "name_key k = nn_Namespace k @ CHR ''-'' # nn_Name k" if "nn_Namespace k \<noteq> []" for k
    using that by (simp add: name_key_def getMetricKey_def)
  have "a = a' \<and> b = b'" if "a @ CHR ''-'' # b = a' @ CHR ''-'' # b'" "CHR ''-'' \<notin> set a" "CHR ''-'' \<notin> set a'"
    for a a' b b' :: string
    using that split_on_append [OF that(2), of b] split_on_append [OF that(3), of b'] by auto
  with eq n m have "nn_Namespace n = nn_Namespace m" "nn_Name n = nn_Name m"
    unfolding key [OF ne(1)] key [OF ne(2)] by blast+
  then show "n = m" by simp
qed

text \<open>
  With a hyphen they may not: the metric \<open>c\<close> of the namespace \<open>a-b\<close> replaces the metric \<open>b-c\<close> of the namespace \<open>a\<close>.
\<close>

theorem colliding_metrics:
  assumes "n = \<lparr>nn_Namespace = ns @ ''-'' @ x, nn_Name = y\<rparr>" and "m = \<lparr>nn_Namespace = ns, nn_Name = x @ ''-'' @ y\<rparr>"
    and "ns \<noteq> []"
  shows "n \<noteq> m \<and> GetMetricByName notFound internal (put n v cm) m info = Inr (cmv_Value v)"
proof -
  have "name_key m = name_key n" using assms by (simp add: name_key_def getMetricKey_def)
  from adapter_cache.colliding_write [OF this] have "cached (put n v cm) m = Some v" .
  then show ?thesis using assms by (auto simp: GetMetricByName_def cache_Get_def cached_def name_key_def)
qed

theorem missed_deletion_panics:
  "watchMetrics parse ((now, DeleteFunc DeletedFinalStateUnknown) # es) cm = None"
  by simp

end
