(* ===== verification/Metrics_Server.thy ===== *)
theory Metrics_Server
  imports Metrics Json
begin

text \<open>
  The server that exposes KeptnMetrics to Prometheus and over HTTP (\<^verbatim>\<open>metrics-operator/pkg/metrics/server.go\<close>).  A
  feature flag turns it on and off while the operator runs.  The flags, the HTTP server, the clock and the
  registry of the Prometheus client are the record \<open>ServerWorld\<close>, whose gauges are of the type \<^typ>\<open>'g\<close>.
\<close>

section \<open>The manager\<close>

record ('w, 'g) ServerWorld =
  sw_Metric :: "('w, Metric) api"
  sw_BooleanValue :: "string \<Rightarrow> bool \<Rightarrow> ('w, bool \<times> error option) state"
  sw_After :: "duration \<Rightarrow> ('w, unit) state"
  sw_ListenAndServe :: "string \<Rightarrow> ('w, unit) state"
  sw_Shutdown :: "string \<Rightarrow> ('w, error option) state"
  sw_NewGauge :: "string \<Rightarrow> string \<Rightarrow> ('w, 'g) state"
  sw_Register :: "'g \<Rightarrow> ('w, error option) state"
  sw_Set :: "'g \<Rightarrow> float64 \<Rightarrow> ('w, unit) state"

text \<open>The server is nil or has an address; \<^verbatim>\<open>setup\<close> makes the map of gauges before it is used.\<close>

record 'g serverManager =
  sm_Server :: "string option"
  sm_ExposeMetrics :: bool
  sm_Gauges :: "(string, 'g) fmap"

definition shutDownServer ::
    "('w, 'g) ServerWorld \<Rightarrow> 'g serverManager \<Rightarrow> ('w, 'g serverManager \<times> error option) state" where
  "shutDownServer sw m =
     (case sm_Server m of
        Some addr \<Rightarrow> do { err \<leftarrow> sw_Shutdown sw addr; ret (m\<lparr>sm_Server := None\<rparr>, err) }
      | None \<Rightarrow> ret (m\<lparr>sm_Server := None\<rparr>, None))"

text \<open>
  The flag is read up to three times, with the tries that are left and the value so far: as long as its
  provider is not ready.
\<close>

fun read_flag :: "('w, 'g) ServerWorld \<Rightarrow> bool \<Rightarrow> nat \<Rightarrow> bool \<Rightarrow> ('w, bool) state" where
  "read_flag sw expose 0 serverEnabled = ret serverEnabled"
| "read_flag sw expose (Suc i) serverEnabled = do {
     (serverEnabled, err) \<leftarrow> sw_BooleanValue sw ''keptn.gms.expose'' expose;
     case err of
       None \<Rightarrow> ret serverEnabled
     | Some e \<Rightarrow>
         if contains (error_string e) ''PROVIDER_NOT_READY'' then do {
           sw_After sw (2 * second);
           read_flag sw expose i serverEnabled
         } else ret serverEnabled
   }"

definition server_setup ::
    "('w, 'g) ServerWorld \<Rightarrow> 'g serverManager \<Rightarrow> ('w, 'g serverManager \<times> error option) state" where
  "server_setup sw m = do {
     serverEnabled \<leftarrow> read_flag sw (sm_ExposeMetrics m) 3 False;
     if serverEnabled \<and> sm_Server m = None then do {
       sw_ListenAndServe sw '':9999'';
       ret (m\<lparr>sm_Gauges := fmempty, sm_Server := Some '':9999''\<rparr>, None)
     } else if \<not> serverEnabled \<and> sm_Server m \<noteq> None then do {
       (m, e) \<leftarrow> shutDownServer sw m;
       ret (m, case e of Some err \<Rightarrow> Some (Wrapped ''could not shut down keptn-metrics server: '' err) | None \<Rightarrow> None)
     } else ret (m, None)
   }"

text \<open>One turn of the loop of \<^verbatim>\<open>start\<close>: the context is done, or the ticker has fired.\<close>

definition manager_turn ::
    "('w, 'g) ServerWorld \<Rightarrow> bool \<Rightarrow> 'g serverManager \<Rightarrow> ('w, 'g serverManager \<times> bool) state" where
  "manager_turn sw finished m =
     (if finished then do { (m, err) \<leftarrow> shutDownServer sw m; ret (m, False) }
      else do { (m, err) \<leftarrow> server_setup sw m; ret (m, True) })"

section \<open>A metric over HTTP\<close>

text \<open>
  The status and the body of the answer.  An error of the API server has a status (\<open>api_status\<close>); after
  any other error nothing is written, which is an empty answer with the status 200.
\<close>

definition returnMetric ::
    "('w, 'g) ServerWorld \<Rightarrow> (error \<Rightarrow> int option) \<Rightarrow> string \<Rightarrow> string \<Rightarrow> ('w, int \<times> string) state" where
  "returnMetric sw api_status namespace metric = do {
     g \<leftarrow> api_Get (sw_Metric sw) namespace metric;
     ret (case g of
         Inl err \<Rightarrow> ((case api_status err of Some code \<Rightarrow> code | None \<Rightarrow> 200), [])
       | Inr metricObj \<Rightarrow>
           (200, json_object [(''metric'', metric), (''namespace'', namespace), (''value'', ms_Value (mt_Status metricObj))] @
             [CHR 0x0A]))
   }"

section \<open>Metrics for Prometheus\<close>

text \<open>
  \<^verbatim>\<open>strings.FieldsFunc\<close>, on names of resources, whose letters and digits are those of ASCII.
\<close>

definition is_letter_or_digit :: "char \<Rightarrow> bool" where
  "is_letter_or_digit c \<longleftrightarrow> is_dec c \<or> byte_in 65 90 c \<or> byte_in 97 122 c"

function fields :: "string \<Rightarrow> string list" where
  "fields s =
     (case dropWhile (\<lambda>c. \<not> is_letter_or_digit c) s of
        [] \<Rightarrow> []
      | c # t \<Rightarrow> (c # takeWhile is_letter_or_digit t) # fields (dropWhile is_letter_or_digit t))"
  by pat_completeness auto

termination
proof (relation "measure length", simp)
  fix s c t assume "dropWhile (\<lambda>c. \<not> is_letter_or_digit c) s = c # t"
  then have "length (c # t) \<le> length s" by (metis length_dropWhile_le)
  then show "(dropWhile is_letter_or_digit t, s) \<in> measure length"
    using length_dropWhile_le [of is_letter_or_digit t] by simp
qed

declare fields.simps [simp del]

definition normalizeMetricName :: "string \<Rightarrow> string" where
  "normalizeMetricName s = join ''_'' (fields s)"

text \<open>
  The first result of \<^verbatim>\<open>strconv.ParseFloat\<close>, whose error is ignored: zero for a string that is no number,
  infinity for a number out of range.
\<close>

definition parsed_value :: "(string \<Rightarrow> string) \<Rightarrow> string \<Rightarrow> float64" where
  "parsed_value quote s =
     (case ParseFloat quote s of
        Inr x \<Rightarrow> x
      | Inl err \<Rightarrow> (case readFloat s of Some q \<Rightarrow> float_of_rat q | None \<Rightarrow> Finite 0))"

definition record_metric ::
    "('w, 'g) ServerWorld \<Rightarrow> (string \<Rightarrow> string) \<Rightarrow> Metric \<Rightarrow> (string, 'g) fmap \<Rightarrow> ('w, (string, 'g) fmap) state" where
  "record_metric sw quote metric gauges = do {
     let normName = normalizeMetricName (om_Name (mt_meta metric));
     let val = parsed_value quote (ms_Value (mt_Status metric));
     case fmlookup gauges normName of
       Some g \<Rightarrow> do { sw_Set sw g val; ret gauges }
     | None \<Rightarrow> do {
         g \<leftarrow> sw_NewGauge sw normName (om_Name (mt_meta metric));
         err \<leftarrow> sw_Register sw g;
         sw_Set sw g val;
         ret (fmupd normName g gauges)
       }
   }"

fun record_metrics ::
    "('w, 'g) ServerWorld \<Rightarrow> (string \<Rightarrow> string) \<Rightarrow> Metric list \<Rightarrow> (string, 'g) fmap \<Rightarrow> ('w, (string, 'g) fmap) state" where
  "record_metrics sw quote [] gauges = ret gauges"
| "record_metrics sw quote (m # ms) gauges = do {
     gauges \<leftarrow> record_metric sw quote m gauges;
     record_metrics sw quote ms gauges
   }"

text \<open>One turn of the loop of \<^verbatim>\<open>recordMetrics\<close>, and whether there is another one.\<close>

definition recordMetrics_turn ::
    "('w, 'g) ServerWorld \<Rightarrow> (string \<Rightarrow> string) \<Rightarrow> 'g serverManager \<Rightarrow> ('w, 'g serverManager \<times> bool) state" where
  "recordMetrics_turn sw quote m =
     (if sm_Server m = None then ret (m, False)
      else do {
        l \<leftarrow> api_List (sw_Metric sw) [] [];
        gauges \<leftarrow> record_metrics sw quote (case l of Inl err \<Rightarrow> [] | Inr items \<Rightarrow> items) (sm_Gauges m);
        sw_After sw (10 * second);
        ret (m\<lparr>sm_Gauges := gauges\<rparr>, True)
      })"


section \<open>The flag\<close>

text \<open>
  After a turn of the manager without an error the server runs exactly when the flag was read as true; a
  failed shutdown forgets the server as well.
\<close>

theorem server_follows_flag:
  assumes "run_state (server_setup sw m) w = ((m', err), w')"
  shows "\<exists>enabled. fst (run_state (read_flag sw (sm_ExposeMetrics m) 3 False) w) = enabled \<and>
     (sm_Server m' \<noteq> None \<longleftrightarrow> enabled) \<and> (enabled \<and> sm_Server m \<noteq> None \<longrightarrow> m' = m)"
  using assms
  by (auto simp: server_setup_def shutDownServer_def State_Monad.bind_def split: prod.splits if_splits option.splits)

section \<open>The registry of Prometheus\<close>

text \<open>
  What the code relies on, with three observations of the world: the gauge that is registered under a name, the
  value of a gauge and, of a gauge itself, its name. A new gauge is not registered; a gauge is
  registered when its name is valid and not taken; setting a value changes no other gauge.
\<close>

definition registry_laws ::
    "('w \<Rightarrow> string \<Rightarrow> 'g option) \<Rightarrow> ('w \<Rightarrow> 'g \<Rightarrow> float64) \<Rightarrow> ('g \<Rightarrow> string) \<Rightarrow> (string \<Rightarrow> bool) \<Rightarrow>
     ('w, 'g) ServerWorld \<Rightarrow> bool" where
  "registry_laws registered gauge_value gauge_name valid_name sw \<longleftrightarrow>
     (\<forall>name descr w g w'. run_state (sw_NewGauge sw name descr) w = (g, w') \<longrightarrow>
        gauge_name g = name \<and> (\<forall>n. registered w n \<noteq> Some g) \<and> registered w' = registered w \<and>
        (\<forall>g'. g' \<noteq> g \<longrightarrow> gauge_value w' g' = gauge_value w g')) \<and>
     (\<forall>g w err w'. run_state (sw_Register sw g) w = (err, w') \<longrightarrow>
        gauge_value w' = gauge_value w \<and>
        (err = None \<longleftrightarrow> valid_name (gauge_name g) \<and> registered w (gauge_name g) = None) \<and>
        registered w' = (if err = None then (registered w)(gauge_name g := Some g) else registered w)) \<and>
     (\<forall>g v w u w'. run_state (sw_Set sw g v) w = (u, w') \<longrightarrow>
        registered w' = registered w \<and> gauge_value w' = (gauge_value w)(g := v))"

lemma registry_NewGauge:
  assumes "registry_laws registered gauge_value gauge_name valid_name sw" and "run_state (sw_NewGauge sw name descr) w = (g, w')"
  shows "gauge_name g = name \<and> (\<forall>n. registered w n \<noteq> Some g) \<and> registered w' = registered w \<and>
     (\<forall>g'. g' \<noteq> g \<longrightarrow> gauge_value w' g' = gauge_value w g')"
  using assms unfolding registry_laws_def by blast

lemma registry_Register:
  assumes "registry_laws registered gauge_value gauge_name valid_name sw" and "run_state (sw_Register sw g) w = (err, w')"
  shows "gauge_value w' = gauge_value w \<and>
     registered w' = (if valid_name (gauge_name g) \<and> registered w (gauge_name g) = None
       then (registered w)(gauge_name g := Some g) else registered w)"
  using assms unfolding registry_laws_def by simp

lemma registry_Set:
  assumes "registry_laws registered gauge_value gauge_name valid_name sw" and "run_state (sw_Set sw g v) w = (u, w')"
  shows "registered w' = registered w \<and> gauge_value w' = (gauge_value w)(g := v)"
  using assms unfolding registry_laws_def by blast

text \<open>What a scrape finds under a name.\<close>

definition exposed :: "('w \<Rightarrow> string \<Rightarrow> 'g option) \<Rightarrow> ('w \<Rightarrow> 'g \<Rightarrow> float64) \<Rightarrow> 'w \<Rightarrow> string \<Rightarrow> float64 option" where
  "exposed registered gauge_value w n = map_option (gauge_value w) (registered w n)"

definition metric_key :: "Metric \<Rightarrow> string" where
  "metric_key m = normalizeMetricName (om_Name (mt_meta m))"

definition current_value :: "(string \<Rightarrow> string) \<Rightarrow> Metric \<Rightarrow> float64" where
  "current_value quote m = parsed_value quote (ms_Value (mt_Status m))"

text \<open>The two ways through \<^const>\<open>record_metric\<close>: the metric has a gauge, or it gets one.\<close>

lemma record_metric_cases:
  assumes laws: "registry_laws registered gauge_value gauge_name valid_name sw"
    and run: "run_state (record_metric sw quote m gauges) w = (gauges', w')"
  obtains (known) g where "fmlookup gauges (metric_key m) = Some g" "gauges' = gauges" "registered w' = registered w"
      "gauge_value w' = (gauge_value w)(g := current_value quote m)"
  | (new) g where "fmlookup gauges (metric_key m) = None" "gauges' = fmupd (metric_key m) g gauges"
      "gauge_name g = metric_key m" "\<forall>n. registered w n \<noteq> Some g"
      "registered w' = (if valid_name (metric_key m) \<and> registered w (metric_key m) = None
         then (registered w)(metric_key m := Some g) else registered w)"
      "gauge_value w' g = current_value quote m" "\<forall>g'. g' \<noteq> g \<longrightarrow> gauge_value w' g' = gauge_value w g'"
proof (cases "fmlookup gauges (metric_key m)")
  case (Some g)
  with run obtain u where "run_state (sw_Set sw g (current_value quote m)) w = (u, w')" "gauges' = gauges"
    by (auto simp: record_metric_def metric_key_def current_value_def Let_def State_Monad.bind_def split: prod.splits)
  with registry_Set [OF laws this(1)] Some show ?thesis by (intro known) auto
next
  case None
  obtain g w1 where g: "run_state (sw_NewGauge sw (metric_key m) (om_Name (mt_meta m))) w = (g, w1)" by fastforce
  obtain e w2 where e: "run_state (sw_Register sw g) w1 = (e, w2)" by fastforce
  obtain u w3 where u: "run_state (sw_Set sw g (current_value quote m)) w2 = (u, w3)" by (metis prod.exhaust)
  have "gauges' = fmupd (metric_key m) g gauges" "w' = w3"
    using run None g e u
    by (simp_all add: record_metric_def metric_key_def [symmetric] current_value_def [symmetric] Let_def State_Monad.bind_def)
  with None registry_NewGauge [OF laws g] registry_Register [OF laws e] registry_Set [OF laws u] show ?thesis
    by (intro new [of g]) auto
qed

text \<open>The gauges of the manager are registered, and what is registered is so under its name.\<close>

definition in_step :: "('w \<Rightarrow> string \<Rightarrow> 'g option) \<Rightarrow> ('g \<Rightarrow> string) \<Rightarrow> (string, 'g) fmap \<Rightarrow> 'w \<Rightarrow> bool" where
  "in_step registered gauge_name gauges w \<longleftrightarrow>
     (\<forall>n g. fmlookup gauges n = Some g \<longrightarrow> registered w n = Some g) \<and>
     (\<forall>n g. registered w n = Some g \<longrightarrow> gauge_name g = n)"

text \<open>A metric without a gauge can be given one.\<close>

definition registrable ::
    "('w \<Rightarrow> string \<Rightarrow> 'g option) \<Rightarrow> (string \<Rightarrow> bool) \<Rightarrow> Metric list \<Rightarrow> (string, 'g) fmap \<Rightarrow> 'w \<Rightarrow> bool" where
  "registrable registered valid_name ms gauges w \<longleftrightarrow>
     (\<forall>m\<in>set ms. fmlookup gauges (metric_key m) = None \<longrightarrow> valid_name (metric_key m) \<and> registered w (metric_key m) = None)"

lemma record_metric_exposed:
  assumes "registry_laws registered gauge_value gauge_name valid_name sw"
    and "in_step registered gauge_name gauges w" and "registrable registered valid_name (m # ms) gauges w"
    and "run_state (record_metric sw quote m gauges) w = (gauges', w')"
  shows "in_step registered gauge_name gauges' w' \<and> registrable registered valid_name ms gauges' w' \<and>
     exposed registered gauge_value w' = (exposed registered gauge_value w)(metric_key m := Some (current_value quote m))"
  using assms(1,4)
proof (cases rule: record_metric_cases)
  case (known g)
  then have reg: "registered w (metric_key m) = Some g" using assms(2) by (simp add: in_step_def)
  have other: "registered w n \<noteq> Some g" if "n \<noteq> metric_key m" for n
    using that assms(2) reg by (metis in_step_def)
  have "exposed registered gauge_value w' n =
      ((exposed registered gauge_value w)(metric_key m := Some (current_value quote m))) n" for n
    using known(3,4) reg other by (cases "registered w n") (auto simp: exposed_def)
  then show ?thesis using known assms(2,3) by (auto simp: in_step_def registrable_def)
next
  case (new g)
  then have "registered w' = (registered w)(metric_key m := Some g)" using assms(3) by (auto simp: registrable_def)
  moreover from this have "exposed registered gauge_value w' n =
      ((exposed registered gauge_value w)(metric_key m := Some (current_value quote m))) n" for n
    using new(4,6,7) by (cases "registered w n") (auto simp: exposed_def)
  moreover have "in_step registered gauge_name gauges' w'"
    using new assms(2) calculation(1) by (auto simp: in_step_def)
  moreover have "registrable registered valid_name ms gauges' w'"
    using new assms(3) calculation(1) by (auto simp: registrable_def)
  ultimately show ?thesis by blast
qed

lemma record_metrics_exposed:
  assumes "registry_laws registered gauge_value gauge_name valid_name sw"
    and "in_step registered gauge_name gauges w" and "registrable registered valid_name ms gauges w"
    and "run_state (record_metrics sw quote ms gauges) w = (gauges', w')"
  shows "in_step registered gauge_name gauges' w' \<and>
     exposed registered gauge_value w' = fold (\<lambda>m f. f(metric_key m := Some (current_value quote m))) ms (exposed registered gauge_value w)"
  using assms(2-4)
proof (induction ms arbitrary: gauges w)
  case (Cons m ms)
  obtain gs v where gs: "run_state (record_metric sw quote m gauges) w = (gs, v)" by fastforce
  with Cons.prems have "run_state (record_metrics sw quote ms gs) v = (gauges', w')" by (simp add: State_Monad.bind_def)
  with Cons.IH [of gs v] record_metric_exposed [OF assms(1) Cons.prems(1,2) gs] show ?case by simp
qed simp

section \<open>The turns of the loop\<close>

text \<open>
  The first turns of the loop of a server that has been started, with the manager that they leave.
\<close>

fun recordMetrics_turns ::
    "('w, 'g) ServerWorld \<Rightarrow> (string \<Rightarrow> string) \<Rightarrow> nat \<Rightarrow> 'g serverManager \<Rightarrow> ('w, 'g serverManager) state" where
  "recordMetrics_turns sw quote 0 m = ret m"
| "recordMetrics_turns sw quote (Suc k) m = do {
     (m, again) \<leftarrow> recordMetrics_turn sw quote m;
     recordMetrics_turns sw quote k m
   }"

text \<open>
  Waiting and listing metrics leave the registry alone. The metrics that are listed have names that are valid for
  Prometheus and that are not taken in the world \<open>w0\<close>.
\<close>

definition registry_untouched :: "('w \<Rightarrow> string \<Rightarrow> 'g option) \<Rightarrow> ('w \<Rightarrow> 'g \<Rightarrow> float64) \<Rightarrow> ('w, 'g) ServerWorld \<Rightarrow> bool" where
  "registry_untouched registered gauge_value sw \<longleftrightarrow>
     (\<forall>d w u w'. run_state (sw_After sw d) w = (u, w') \<longrightarrow>
        registered w' = registered w \<and> gauge_value w' = gauge_value w) \<and>
     (\<forall>w l w'. run_state (api_List (sw_Metric sw) [] []) w = (l, w') \<longrightarrow>
        registered w' = registered w \<and> gauge_value w' = gauge_value w)"

definition free_names ::
    "('w \<Rightarrow> string \<Rightarrow> 'g option) \<Rightarrow> (string \<Rightarrow> bool) \<Rightarrow> ('w, 'g) ServerWorld \<Rightarrow> 'w \<Rightarrow> bool" where
  "free_names registered valid_name sw w0 \<longleftrightarrow>
     (\<forall>w items w' m. run_state (api_List (sw_Metric sw) [] []) w = (Inr items, w') \<longrightarrow> m \<in> set items \<longrightarrow>
        valid_name (metric_key m) \<and> registered w0 (metric_key m) = None)"

text \<open>Beyond what was registered at first, only gauges of the manager are.\<close>

definition grown ::
    "('w \<Rightarrow> string \<Rightarrow> 'g option) \<Rightarrow> ('g \<Rightarrow> string) \<Rightarrow> 'w \<Rightarrow> (string, 'g) fmap \<Rightarrow> 'w \<Rightarrow> bool" where
  "grown registered gauge_name w0 gauges w \<longleftrightarrow>
     in_step registered gauge_name gauges w \<and>
     (\<forall>n. registered w n \<noteq> None \<longrightarrow> registered w0 n \<noteq> None \<or> fmlookup gauges n \<noteq> None)"

lemma grown_same:
  "grown registered gauge_name w0 gauges w \<Longrightarrow> registered w' = registered w \<Longrightarrow> grown registered gauge_name w0 gauges w'"
  by (simp add: grown_def in_step_def)

lemma record_metric_grown:
  assumes "registry_laws registered gauge_value gauge_name valid_name sw"
    and "\<forall>n. registered w n \<noteq> None \<longrightarrow> registered w0 n \<noteq> None \<or> fmlookup gauges n \<noteq> None"
    and "run_state (record_metric sw quote m gauges) w = (gauges', w')"
  shows "\<forall>n. registered w' n \<noteq> None \<longrightarrow> registered w0 n \<noteq> None \<or> fmlookup gauges' n \<noteq> None"
  using assms(1,3)
proof (cases rule: record_metric_cases)
  case (known g)
  with assms(2) show ?thesis by simp
next
  case (new g)
  with assms(2) show ?thesis by (auto split: if_splits)
qed

lemma record_metrics_grown:
  assumes "registry_laws registered gauge_value gauge_name valid_name sw"
    and "\<forall>n. registered w n \<noteq> None \<longrightarrow> registered w0 n \<noteq> None \<or> fmlookup gauges n \<noteq> None"
    and "run_state (record_metrics sw quote ms gauges) w = (gauges', w')"
  shows "\<forall>n. registered w' n \<noteq> None \<longrightarrow> registered w0 n \<noteq> None \<or> fmlookup gauges' n \<noteq> None"
  using assms(2,3)
proof (induction ms arbitrary: gauges w)
  case (Cons m ms)
  obtain gs v where gs: "run_state (record_metric sw quote m gauges) w = (gs, v)" by fastforce
  with Cons.prems have "run_state (record_metrics sw quote ms gs) v = (gauges', w')" by (simp add: State_Monad.bind_def)
  with Cons.IH [OF record_metric_grown [OF assms(1) Cons.prems(1) gs]] show ?case by simp
qed simp

text \<open>One turn: what it records, and what it keeps for the next one.\<close>

lemma turn_exposes:
  assumes laws: "registry_laws registered gauge_value gauge_name valid_name sw"
    and quiet: "registry_untouched registered gauge_value sw" and free: "free_names registered valid_name sw w0"
    and grown: "grown registered gauge_name w0 (sm_Gauges m) w" and "sm_Server m \<noteq> None"
    and list: "run_state (api_List (sw_Metric sw) [] []) w = (l, v)"
    and run: "run_state (recordMetrics_turn sw quote m) w = ((m', again), w')"
  shows "sm_Server m' \<noteq> None" and "grown registered gauge_name w0 (sm_Gauges m') w'"
    and "exposed registered gauge_value w' = fold (\<lambda>m f. f(metric_key m := Some (current_value quote m)))
      (case l of Inl err \<Rightarrow> [] | Inr items \<Rightarrow> items) (exposed registered gauge_value w)"
proof -
  let ?items = "case l of Inl err \<Rightarrow> [] | Inr items \<Rightarrow> items"
  obtain gs u where gs: "run_state (record_metrics sw quote ?items (sm_Gauges m)) v = (gs, u)" by fastforce
  obtain x where after: "run_state (sw_After sw (10 * second)) u = (x, w')" and m': "m' = m\<lparr>sm_Gauges := gs\<rparr>"
    using run assms(5) list gs by (auto simp: recordMetrics_turn_def State_Monad.bind_def split: prod.splits)
  have v: "registered v = registered w" "gauge_value v = gauge_value w"
    using quiet list unfolding registry_untouched_def by blast+
  have w': "registered w' = registered u" "gauge_value w' = gauge_value u"
    using quiet after unfolding registry_untouched_def by blast+
  have known: "\<forall>n. registered v n \<noteq> None \<longrightarrow> registered w0 n \<noteq> None \<or> fmlookup (sm_Gauges m) n \<noteq> None"
    and step: "in_step registered gauge_name (sm_Gauges m) v"
    using grown_same [OF grown v(1)] by (simp_all add: grown_def)
  have "valid_name (metric_key x) \<and> registered w0 (metric_key x) = None" if "x \<in> set ?items" for x
    using free list that unfolding free_names_def by (cases l) auto
  then have "registrable registered valid_name ?items (sm_Gauges m) v"
    using known unfolding registrable_def by blast
  note rec = record_metrics_exposed [OF laws step this gs] and known' = record_metrics_grown [OF laws known gs]
  show "sm_Server m' \<noteq> None" using m' assms(5) by simp
  have "grown registered gauge_name w0 (sm_Gauges m') u" using rec known' m' by (simp add: grown_def)
  then show "grown registered gauge_name w0 (sm_Gauges m') w'" by (rule grown_same) (rule w'(1))
  have "exposed registered gauge_value w' = exposed registered gauge_value u"
    "exposed registered gauge_value v = exposed registered gauge_value w"
    by (simp_all add: fun_eq_iff exposed_def v w')
  with rec show "exposed registered gauge_value w' = fold (\<lambda>m f. f(metric_key m := Some (current_value quote m))) ?items
      (exposed registered gauge_value w)" by simp
qed

lemma turns_grown:
  assumes "registry_laws registered gauge_value gauge_name valid_name sw"
    and "registry_untouched registered gauge_value sw" and "free_names registered valid_name sw w0"
    and "grown registered gauge_name w0 (sm_Gauges m) w" and "sm_Server m \<noteq> None"
    and "run_state (recordMetrics_turns sw quote k m) w = (m', w')"
  shows "grown registered gauge_name w0 (sm_Gauges m') w' \<and> sm_Server m' \<noteq> None"
  using assms(4-6)
proof (induction k arbitrary: m w)
  case (Suc k)
  obtain l v where l: "run_state (api_List (sw_Metric sw) [] []) w = (l, v)" by fastforce
  obtain m1 again w1 where turn: "run_state (recordMetrics_turn sw quote m) w = ((m1, again), w1)" by (metis prod.exhaust)
  then have "run_state (recordMetrics_turns sw quote k m1) w1 = (m', w')"
    using Suc.prems(3) by (simp add: State_Monad.bind_def)
  with turn_exposes(1,2) [OF assms(1-3) Suc.prems(1,2) l turn] Suc.IH show ?case by blast
qed simp

lemma fold_record_last:
  assumes "key x \<notin> key ` set bs"
  shows "fold (\<lambda>m f. f(key m := Some (val m))) (as @ x # bs) f (key x) = Some (val x)"
proof -
  have other: "n \<notin> key ` set ms \<Longrightarrow> fold (\<lambda>m f. f(key m := Some (val m))) ms g n = g n" for n ms g
    by (induction ms arbitrary: g) auto
  show ?thesis using other [OF assms] by simp
qed

text \<open>
  C31: what a scrape finds. From the first start of the server of the metrics operator, when it has no gauges yet,
  after any number of turns of its loop, a turn exposes the current value of every metric that it lists under
  the normalised name of the metric, unless a later metric in the list has the same normalised name; then the
  value of the last one of these is exposed. The names of the metrics are valid for Prometheus and not
  taken when the server starts. (They are taken when it is turned off and on again, \<open>restarted_server_is_stale\<close>.)
\<close>

theorem metrics_exposed:
  assumes "registry_laws registered gauge_value gauge_name valid_name sw"
    and "registry_untouched registered gauge_value sw" and "free_names registered valid_name sw w0"
    and "\<forall>n g. registered w0 n = Some g \<longrightarrow> gauge_name g = n"
    and "sm_Server m \<noteq> None" and "sm_Gauges m = fmempty"
    and "run_state (recordMetrics_turns sw quote k m) w0 = (m1, w1)"
    and "run_state (api_List (sw_Metric sw) [] []) w1 = (Inr (earlier @ metric # later), u)"
    and "metric_key metric \<notin> metric_key ` set later"
    and "run_state (recordMetrics_turn sw quote m1) w1 = ((m2, again), w2)"
  shows "exposed registered gauge_value w2 (metric_key metric) = Some (current_value quote metric)"
proof -
  have "grown registered gauge_name w0 (sm_Gauges m) w0"
    using assms(4,6) by (simp add: grown_def in_step_def)
  from turns_grown [OF assms(1-3) this assms(5,7)]
  have "grown registered gauge_name w0 (sm_Gauges m1) w1" "sm_Server m1 \<noteq> None" by simp_all
  from turn_exposes(3) [OF assms(1-3) this assms(8,10)] show ?thesis
    using fold_record_last [of metric_key metric later "current_value quote" earlier, OF assms(9)] by simp
qed

section \<open>A server that is turned on again\<close>

definition detached :: "('w \<Rightarrow> string \<Rightarrow> 'g option) \<Rightarrow> ('g \<Rightarrow> string) \<Rightarrow> 'g \<Rightarrow> (string, 'g) fmap \<Rightarrow> 'w \<Rightarrow> bool" where
  "detached registered gauge_name g gauges w \<longleftrightarrow>
     registered w (gauge_name g) = Some g \<and> (\<forall>n. fmlookup gauges n \<noteq> Some g)"

lemma record_metric_detached:
  assumes "registry_laws registered gauge_value gauge_name valid_name sw"
    and "detached registered gauge_name g0 gauges w"
    and "run_state (record_metric sw quote m gauges) w = (gauges', w')"
  shows "detached registered gauge_name g0 gauges' w' \<and> gauge_value w' g0 = gauge_value w g0"
  using assms(1,3)
proof (cases rule: record_metric_cases)
  case (known g)
  with assms(2) show ?thesis by (auto simp: detached_def)
next
  case (new g)
  then have "g \<noteq> g0" using assms(2) by (auto simp: detached_def)
  with new assms(2) show ?thesis by (auto simp: detached_def split: if_splits)
qed

lemma record_metrics_detached:
  assumes "registry_laws registered gauge_value gauge_name valid_name sw"
    and "detached registered gauge_name g0 gauges w"
    and "run_state (record_metrics sw quote ms gauges) w = (gauges', w')"
  shows "detached registered gauge_name g0 gauges' w' \<and> gauge_value w' g0 = gauge_value w g0"
  using assms(2,3)
proof (induction ms arbitrary: gauges w)
  case (Cons m ms)
  obtain gs v where gs: "run_state (record_metric sw quote m gauges) w = (gs, v)" by fastforce
  with Cons.prems have "run_state (record_metrics sw quote ms gs) v = (gauges', w')" by (simp add: State_Monad.bind_def)
  with Cons.IH [of gs v] record_metric_detached [OF assms(1) Cons.prems(1) gs] show ?case by simp
qed simp

text \<open>
  When the flag turns the server off and on again, the manager makes new gauges, which cannot be registered because
  the old ones still are: whatever the metrics are from then on, a scrape finds the values from before.
\<close>

theorem restarted_server_is_stale:
  assumes "registry_laws registered gauge_value gauge_name valid_name sw"
    and "in_step registered gauge_name old_gauges w" and "sm_Server m = None"
    and "run_state (server_setup sw m) v = ((m', None), v')" and "sm_Server m' \<noteq> None"
    and "run_state (record_metrics sw quote ms (sm_Gauges m')) w = (gauges', w')" and "registered w n \<noteq> None"
  shows "exposed registered gauge_value w' n = exposed registered gauge_value w n"
proof -
  have "sm_Gauges m' = fmempty"
    using assms(3-5) by (auto simp: server_setup_def shutDownServer_def State_Monad.bind_def split: prod.splits if_splits option.splits)
  moreover obtain g where g: "registered w n = Some g" using assms(7) by auto
  then have "gauge_name g = n" using assms(2) by (simp add: in_step_def)
  ultimately have "detached registered gauge_name g (sm_Gauges m') w" using g by (simp add: detached_def)
  from record_metrics_detached [OF assms(1) this assms(6)] g \<open>gauge_name g = n\<close> show ?thesis
    by (simp add: detached_def exposed_def)
qed

end
