(* ===== verification/Provider_Examples.thy ===== *)
theory Provider_Examples
  imports Provider_Safety Metrics_Adapter Metrics_Server
begin

text \<open>
  The theorems about the providers, the adapter and the server of metrics, applied to concrete inputs.
\<close>

section \<open>Providers\<close>

text \<open>A world that counts waits, a server that answers every request, and answers that are read as fixed values.\<close>

definition demo_response :: DynatraceResponse where
  "demo_response =
     \<lparr>dres_TotalCount = 1, dres_Resolution = ''1m'',
      dres_Result = [\<lparr>dr_MetricId = ''cpu'',
        dr_Data = [\<lparr>dd_Timestamps = [1, 2, 3], dd_Values = [Some (Finite 1), None, Some (Finite 2)]\<rparr>]\<rparr>],
      dres_Error = no_error\<rparr>"

definition demo_dql :: DynatraceDQLResult where
  "demo_dql =
     \<lparr>dq_State = ''SUCCEEDED'',
      dq_Result = \<lparr>dqr_Records = [Some (fmap_of_list [(''avg'', AnyArray [AnyFloat (Finite 1)])])]\<rparr>, dq_Error = no_error\<rparr>"

definition demo_decoders :: Decoders where
  "demo_decoders =
     \<lparr>dec_Datadog = \<lambda>b. Inl (Message ''no json''), dec_Dynatrace = \<lambda>b. Inr demo_response,
      dec_DQLResult = \<lambda>b. if b = ''answer'' then Inr (Some demo_dql) else Inr None, dec_DQLHandler = \<lambda>b. Inr (Some ''token''),
      dec_DQLSecret = \<lambda>b. Inl (Message ''no json''), dec_OAuth = \<lambda>b. Inr ''access'', enc_DQLResult = \<lambda>r. Inr [],
      dec_ParseRequestURI = \<lambda>u. None, dec_RFC3339 = \<lambda>t. [], dec_SampleString = fmt_f, dec_SampleJSON = \<lambda>x. Inr (fmt_f x),
      dec_Quote = id\<rparr>"

definition demo_token :: Secret where
  "demo_token = \<lparr>sec_meta = zero_ObjectMeta, sec_Data = Some (fmap_of_list [(''key'', Some ''dt0c01'')])\<rparr>"

definition no_secret_api :: "(nat, Secret) api" where
  "no_secret_api =
     \<lparr>api_Get = \<lambda>ns n. ret (Inr demo_token), api_List = \<lambda>ns fs. ret (Inr []), api_Create = \<lambda>s. ret (Inr s),
      api_Update = \<lambda>s. ret (Inr s), api_StatusUpdate = \<lambda>s. ret (Inr s), api_Delete = \<lambda>s. ret (Inr ())\<rparr>"

definition demo_world :: "nat ProviderClient" where
  "demo_world =
     \<lparr>pcl_Secret = no_secret_api, pcl_Now = ret 0, pcl_After = \<lambda>d. modify Suc, pcl_RangeOrder = \<lambda>ks. ret [''avg''],
      pcl_NewRequest = \<lambda>m u. None,
      pcl_Do = \<lambda>skip rq. ret (Inr \<lparr>rp_StatusCode = 200, rp_Body = ''answer'', rp_ReadErr = None\<rparr>),
      pcl_NewPromClient = \<lambda>a. None, pcl_QueryRange = \<lambda>a rt q r. ret (Inr (PromMatrix [])),
      pcl_Query = \<lambda>a rt q t. ret (Inr (PromVector []))\<rparr>"

definition demo_kmp :: KeptnMetricsProvider where
  "demo_kmp =
     \<lparr>kmp_meta = named_meta ''dt'' ''keptn'', kmp_Type = ''dynatrace'', kmp_TargetServer = ''https://dt'',
      kmp_SecretKeyRef = \<lparr>sks_Name = ''dt-token'', sks_Key = ''key'', sks_Optional = None\<rparr>,
      kmp_InsecureSkipTlsVerify = False\<rparr>"

definition demo_cpu :: Metric where
  "demo_cpu =
     \<lparr>mt_meta = named_meta ''cpu'' ''keptn'', mt_Provider = ''dt'', mt_Query = ''builtin:host.cpu.usage'',
      mt_FetchIntervalSeconds = 5, mt_Range = None,
      mt_Status = \<lparr>ms_Value = [], ms_RawValue = [], ms_LastUpdated = 0, ms_ErrMsg = [], ms_IntervalResults = []\<rparr>\<rparr>"

lemma demo_mean: "CalculateAverage (response_values demo_response) = Finite (3 / 2)"
proof -
  have "response_values demo_response = [Finite 1, Finite 2]"
    by (simp add: response_values_def demo_response_def map_filter_simps)
  then show ?thesis
    using float_of_half [of 2] float_of_half [of 4] float_of_half [of 6] float_of_half [of 3]
    by (simp add: CalculateAverage_def float_of_int_def)
qed

lemma demo_mean_printed: "fmt_f (Finite (3 / 2)) = ''1.500000''"
proof -
  have "round_half_even (3 / 2 * 10 ^ 6) = 1500000" using round_half_even_of_int [of 1500000] by simp
  moreover have "nat_digits 1 = ''1''" "nat_digits 500000 = ''500000''" by (simp add: nat_digits.simps, code_simp)+
  then have "nat_digits 1 = ''1''" "pad_zeros 6 (nat_digits 500000) = ''500000''" by (simp_all add: pad_zeros_def)
  ultimately show ?thesis by (simp add: fmt_f_def fmt_special_def fmt_fixed_def Let_def)
qed

lemma demo_query:
  "run_state (Dynatrace_EvaluateQuery demo_world demo_decoders False demo_cpu demo_kmp) 0 = ((''1.500000'', ''answer'', None), 0)"
proof -
  have "Dynatrace_getSingleValue demo_response = Finite (3 / 2)" by (simp only: Dynatrace_getSingleValue_mean demo_mean)
  moreover have "HasSecretDefined demo_kmp" "HasSecretKeyDefined demo_kmp" by code_simp+
  moreover have "secret_bytes demo_token ''key'' = ''dt0c01''" by code_simp
  ultimately show ?thesis
    by (simp add: Dynatrace_EvaluateQuery_def runQuery_def performRequest_def getDTSecret_def read_secret_def demo_world_def
        demo_kmp_def demo_decoders_def no_secret_api_def demo_mean_printed State_Monad.bind_def Let_def) (simp add: demo_response_def)
qed

lemma dynatrace_value_is_mean_witness:
  "\<exists>x. ParseFloat id ''1.500000'' = Inr (float_of_rat x) \<and> \<bar>x - 3 / 2\<bar> \<le> 1 / (2 * 10 ^ 6)"
proof -
  have "pow2 1 \<le> pow2 1023" by (rule pow2_mono) simp
  then have "\<bar>3 / 2 :: rat\<bar> \<le> pow2 1023" by (simp add: pow2_def [of 1])
  then show ?thesis
    using dynatrace_value_is_mean [OF demo_query, of id] demo_mean by (auto simp: demo_decoders_def)
qed


lemma demo_counts_waits: "counts_waits id demo_world"
  by (simp add: counts_waits_def demo_world_def)

lemma demo_answers: "answers (\<lambda>b. b = ''answer'') demo_world"
  by (simp add: answers_def demo_world_def)

lemma demo_answers_not_null: "\<not> null_answer (\<lambda>b. b = ''answer'') demo_decoders"
  by (simp add: null_answer_def demo_decoders_def)

lemma demo_series_not_empty: "\<not> empty_series (\<lambda>b. b = ''answer'') demo_decoders"
  by (auto simp: empty_series_def succeeded_result_def demo_decoders_def demo_dql_def gm_fmap_def fmap_of_list.rep_eq
      toFloatArray_def map_of_Cons_code split: if_splits)

lemma dql_query_ends_witness:
  "(\<exists>d' v err w'. run_state (DQL_FetchAnalysisValue demo_world demo_decoders
       \<lparr>dp_DtClient = Some \<lparr>ac_Config = \<lparr>acf_ServerURL = ''https://dt'', acf_AuthURL = ''https://auth'',
          acf_Credentials = \<lparr>oac_ClientID = ''id'', oac_ClientSecret = ''secret'', oac_Scopes = [], oac_AccessToken = []\<rparr>\<rparr>,
          ac_InsecureSkipVerify = False\<rparr>, dp_InsecureSkipTlsVerify = False\<rparr>
       ''timeseries avg(cpu)''
       \<lparr>an_meta = named_meta ''an'' ''keptn'',
        an_Spec = \<lparr>as_Timeframe = \<lparr>tf_From = 10, tf_To = 20, tf_Recent = 0\<rparr>, as_Args = None,
          as_AnalysisDefinition = \<lparr>or_Name = ''def'', or_Namespace = []\<rparr>\<rparr>,
        an_Status = \<lparr>ast_Timeframe = \<lparr>tf_From = 10, tf_To = 20, tf_Recent = 0\<rparr>, ast_Raw = [], ast_Pass = False,
          ast_Warning = False, ast_State = [], ast_StoredValues = None\<rparr>\<rparr>
       demo_kmp) 0 = ((d', Some (v, err)), w')) \<and>
   (\<exists>client' r w'. run_state (getDQL demo_world demo_decoders
       \<lparr>ac_Config = \<lparr>acf_ServerURL = ''https://dt'', acf_AuthURL = ''https://auth'',
          acf_Credentials = \<lparr>oac_ClientID = ''id'', oac_ClientSecret = ''secret'', oac_Scopes = [], oac_AccessToken = []\<rparr>\<rparr>,
        ac_InsecureSkipVerify = False\<rparr> ''token'') 0 = ((client', r), w') \<and> w' \<le> 5)"
  using dql_query_ends [OF demo_answers demo_counts_waits, where w = 0 and de = demo_decoders]
    demo_answers_not_null demo_series_not_empty
  by (fastforce split: option.splits)

section \<open>The adapter\<close>

definition demo_object :: "string \<Rightarrow> UnstructuredMetric" where
  "demo_object v = \<lparr>um_Name = ''cpu'', um_Namespace = ''keptn'', um_Labels = None, um_Value = Inr (Some v)\<rparr>"

definition demo_events :: "(time \<times> informer_event) list" where
  "demo_events =
     [(1, AddFunc (Object (demo_object ''1''))), (2, UpdateFunc (Object (demo_object ''1'')) (Object (demo_object ''2'')))]"

lemma cache_refines_reports_witness:
  "\<exists>cm v. watchMetrics (\<lambda>s. Inr (ParsedQuantity s)) demo_events (Some fmempty) = Some cm \<and>
     GetMetricByName (\<lambda>i n. ApiNotFound n) (\<lambda>e. e) cm \<lparr>nn_Namespace = ''keptn'', nn_Name = ''cpu''\<rparr>
       (generateCustomMetricInfo ''cpu'') = Inr v \<and> mv_Value v = ParsedQuantity ''2''"
proof -
  let ?parse = "\<lambda>s. Inr (ParsedQuantity s)"
  have objects: "\<forall>e\<in>set demo_events. is_object_event (snd e)" by (simp add: demo_events_def)
  have "latest_under_key ?parse demo_events \<lparr>nn_Namespace = ''keptn'', nn_Name = ''cpu''\<rparr> =
      metric_value ?parse 2 (demo_object ''2'')"
    by (simp add: latest_under_key_def demo_events_def demo_object_def metric_value_def object_name_def)
  then show ?thesis
    using cache_refines_reports [OF objects, of ?parse "\<lambda>i n. ApiNotFound n" "\<lambda>e. e"
        "\<lparr>nn_Namespace = ''keptn'', nn_Name = ''cpu''\<rparr>" "generateCustomMetricInfo ''cpu''"]
    by (auto simp: demo_object_def metric_value_def)
qed

section \<open>The server\<close>

text \<open>
  A registry: the gauges that are registered and the values of all gauges. A gauge is its name and a number that
  no registered gauge has.
\<close>

type_synonym demo_gauge = "string \<times> nat"

type_synonym demo_registry = "demo_gauge list \<times> (demo_gauge \<Rightarrow> float64)"

definition demo_registered :: "demo_registry \<Rightarrow> string \<Rightarrow> demo_gauge option" where
  "demo_registered w n = find (\<lambda>g. fst g = n) (fst w)"

definition demo_valid :: "string \<Rightarrow> bool" where
  "demo_valid n \<longleftrightarrow> n \<noteq> [] \<and> \<not> is_dec (hd n)"

definition demo_server :: "(demo_registry, demo_gauge) ServerWorld" where
  "demo_server =
     \<lparr>sw_Metric = \<lparr>api_Get = \<lambda>ns n. ret (Inr demo_cpu), api_List = \<lambda>ns fs. ret (Inr [demo_cpu]), api_Create = \<lambda>s. ret (Inr s),
        api_Update = \<lambda>s. ret (Inr s), api_StatusUpdate = \<lambda>s. ret (Inr s), api_Delete = \<lambda>s. ret (Inr ())\<rparr>,
      sw_BooleanValue = \<lambda>flag d. ret (d, None), sw_After = \<lambda>d. ret (), sw_ListenAndServe = \<lambda>a. ret (),
      sw_Shutdown = \<lambda>a. ret None,
      sw_NewGauge = \<lambda>name descr. State (\<lambda>w. ((name, Suc (sum_list (map snd (fst w)))), w)),
      sw_Register = \<lambda>g. State (\<lambda>w.
        if demo_valid (fst g) \<and> demo_registered w (fst g) = None then (None, (g # fst w, snd w))
        else (Some (Message ''duplicate metrics collector registration attempted''), w)),
      sw_Set = \<lambda>g v. State (\<lambda>w. ((), (fst w, (snd w)(g := v))))\<rparr>"

lemma demo_fresh: "g \<in> set gs \<Longrightarrow> snd g < Suc (sum_list (map snd gs))" for gs :: "demo_gauge list"
  using member_le_sum_list [of "snd g" "map snd gs"] by simp

lemma demo_registry_laws: "registry_laws demo_registered snd fst demo_valid demo_server"
proof -
  have "demo_registered w n \<noteq> Some (name, Suc (sum_list (map snd (fst w))))" for w n name
  proof
    assume "demo_registered w n = Some (name, Suc (sum_list (map snd (fst w))))"
    then have "(name, Suc (sum_list (map snd (fst w)))) \<in> set (fst w)"
      by (auto simp: demo_registered_def find_Some_iff)
    from demo_fresh [OF this] show False by simp
  qed
  then show ?thesis
    by (auto simp: registry_laws_def demo_server_def demo_registered_def fun_eq_iff split: if_splits)
qed

lemma demo_key: "metric_key demo_cpu = ''cpu''"
  by (simp add: metric_key_def demo_cpu_def normalizeMetricName_def named_meta_def fields.simps
      is_letter_or_digit_def is_dec_def byte_in_def)

lemma demo_untouched: "registry_untouched demo_registered snd demo_server"
  by (simp add: registry_untouched_def demo_server_def)

lemma demo_free: "free_names demo_registered demo_valid demo_server ([], \<lambda>_. Finite 0)"
  by (auto simp: free_names_def demo_server_def demo_key demo_valid_def demo_registered_def is_dec_def)

text \<open>The second turn of a server that has just been started.\<close>

lemma metrics_exposed_witness:
  "let (m, w) = run_state (recordMetrics_turns demo_server id 1 \<lparr>sm_Server = Some '':9999'', sm_ExposeMetrics = True, sm_Gauges = fmempty\<rparr>)
         ([], \<lambda>_. Finite 0);
       (r, w') = run_state (recordMetrics_turn demo_server id m) w
   in exposed demo_registered snd w' ''cpu'' = Some (current_value id demo_cpu)"
proof -
  let ?m = "\<lparr>sm_Server = Some '':9999'', sm_ExposeMetrics = True, sm_Gauges = fmempty\<rparr>"
  obtain m1 w1 where turns: "run_state (recordMetrics_turns demo_server id 1 ?m) ([], \<lambda>_. Finite 0) = (m1, w1)"
    by (metis prod.exhaust)
  obtain m2 again w2 where turn: "run_state (recordMetrics_turn demo_server id m1) w1 = ((m2, again), w2)"
    by (metis prod.exhaust)
  have "run_state (api_List (sw_Metric demo_server) [] []) w1 = (Inr ([] @ demo_cpu # []), w1)"
    by (simp add: demo_server_def)
  from metrics_exposed [OF demo_registry_laws demo_untouched demo_free _ _ _ turns this _ turn]
  have "exposed demo_registered snd w2 ''cpu'' = Some (current_value id demo_cpu)"
    by (simp add: demo_registered_def demo_key)
  then show ?thesis by (simp only: turns turn prod.case Let_def)
qed

end
