(* ===== verification/Startup.thy ===== *)
theory Startup
  imports Slo_Converter Certificates Telemetry
begin

text \<open>
  How the three programs start: \<^verbatim>\<open>main.go\<close> of the lifecycle operator, of the metrics operator and of the certificate
  manager, with the builder of the webhook server (\<^verbatim>\<open>keptn-cert-manager/pkg/webhook/builder.go\<close>).  A program reads its
  environment and its flags, sets up controllers, webhooks and probes one after another and then starts its manager.

  What a program does is the list of its actions so far; whether an action succeeds may depend on all of
  them.  The environment as \<^verbatim>\<open>envconfig\<close> reads it, the flags of the libraries, files and what the converters use are arguments.  A program
  ends with an exit code or, with \<^term>\<open>None\<close>, by returning from \<^verbatim>\<open>main\<close>; a panic is the exit code 2.  The
  adapter, which the metrics operator starts in a goroutine and which parses flags of its own there, is a single action.
\<close>

section \<open>Flags\<close>

text \<open>
  The flags that are defined. Those of a library decide themselves whether they take a value and which.
\<close>

datatype flag_kind = StringFlag | BoolFlag | LibraryFlag bool "string \<Rightarrow> bool"

definition true_values :: "string list" where
  "true_values = [''1'', ''t'', ''T'', ''true'', ''TRUE'', ''True'']"

definition false_values :: "string list" where
  "false_values = [''0'', ''f'', ''F'', ''false'', ''FALSE'', ''False'']"

fun is_bool_flag :: "flag_kind \<Rightarrow> bool" where
  "is_bool_flag StringFlag = False"
| "is_bool_flag BoolFlag = True"
| "is_bool_flag (LibraryFlag b accepts) = b"

fun accepts_value :: "flag_kind \<Rightarrow> string \<Rightarrow> bool" where
  "accepts_value StringFlag v = True"
| "accepts_value BoolFlag v = (v \<in> set true_values \<union> set false_values)"
| "accepts_value (LibraryFlag b accepts) v = accepts v"

text \<open>A flag without its hyphens is split at the first equals sign, which is not its first character.\<close>

definition split_flag :: "string \<Rightarrow> string \<times> string option" where
  "split_flag s =
     (let n = hd s # takeWhile (\<lambda>c. c \<noteq> CHR ''='') (tl s); v = dropWhile (\<lambda>c. c \<noteq> CHR ''='') (tl s)
      in (n, if v = [] then None else Some (tl v)))"

datatype flag_arg = NoFlag | BadFlag | Flag string "string option"

definition parse_arg :: "string \<Rightarrow> flag_arg" where
  "parse_arg s =
     (if length s < 2 \<or> hd s \<noteq> CHR ''-'' then NoFlag
      else
        (let name = (if s ! 1 = CHR ''-'' then drop 2 s else drop 1 s) in
         if s = ''--'' then NoFlag
         else if name = [] \<or> hd name = CHR ''-'' \<or> hd name = CHR ''='' then BadFlag
         else (case split_flag name of (n, v) \<Rightarrow> Flag n v)))"

text \<open>
  \<^verbatim>\<open>flag.Parse\<close> with the flags that are defined at the time: the values that are set, in their order, or the exit
  code. What follows the first argument that is no flag is not looked at.
\<close>

fun flag_Parse :: "(string \<times> flag_kind) list \<Rightarrow> string list \<Rightarrow> int + (string \<times> string) list" where
  "flag_Parse formal [] = Inr []"
| "flag_Parse formal (s # args) =
     (case parse_arg s of
        NoFlag \<Rightarrow> Inr []
      | BadFlag \<Rightarrow> Inl 2
      | Flag name val \<Rightarrow>
          (case map_of formal name of
             None \<Rightarrow> if name = ''help'' \<or> name = ''h'' then Inl 0 else Inl 2
           | Some kind \<Rightarrow>
               if is_bool_flag kind then
                 (let v = (case val of Some v \<Rightarrow> v | None \<Rightarrow> ''true'') in
                  if accepts_value kind v then map_sum id (\<lambda>vs. (name, v) # vs) (flag_Parse formal args) else Inl 2)
               else
                 (case val of
                    Some v \<Rightarrow>
                      if accepts_value kind v then map_sum id (\<lambda>vs. (name, v) # vs) (flag_Parse formal args) else Inl 2
                  | None \<Rightarrow>
                      (case args of
                         [] \<Rightarrow> Inl 2
                       | v # rest \<Rightarrow>
                           if accepts_value kind v then map_sum id (\<lambda>vs. (name, v) # vs) (flag_Parse formal rest)
                           else Inl 2))))"

definition string_flag :: "(string \<times> string) list \<Rightarrow> string \<Rightarrow> string \<Rightarrow> string" where
  "string_flag vs name d = (case map_of (rev vs) name of Some v \<Rightarrow> v | None \<Rightarrow> d)"

definition bool_flag :: "(string \<times> string) list \<Rightarrow> string \<Rightarrow> bool" where
  "bool_flag vs name = (case map_of (rev vs) name of Some v \<Rightarrow> v \<in> set true_values | None \<Rightarrow> False)"

section \<open>Actions\<close>

record WebhookOptions =
  wo_Port :: int
  wo_CertDir :: string
  wo_CertName :: string
  wo_KeyName :: string

record ManagerOptions =
  mo_MetricsAddr :: string
  mo_ProbeAddr :: string
  mo_LeaderElection :: bool
  mo_LeaderElectionID :: string
  mo_WebhookServer :: "WebhookOptions option"
  mo_DisableCacheFor :: "string list"
  mo_Namespaces :: "string list"

datatype ICertificateWatcher =
    SecretWatcher (watched_dir: string) (watched_namespace: string) (watched_secret: string)
  | NoOpCertificateWatcher

text \<open>A controller with its log level and with what is configured of it.\<close>

datatype Reconciler =
    PlainReconciler string int
  | AppVersionReconciler int bool
  | AnalysisReconciler int nat
  | CertificateReconciler string string string

datatype Action =
    NewExporter
  | NewCounter string
  | SetUpKeptnTaskMeters
  | ServeMetrics int
  | SetDefaultNamespace string
  | NewManager ManagerOptions
  | InitOtelCollector string
  | NewCloudEventsClient
  | SetupWithManager Reconciler
  | SetupWebhookWithManager string
  | SetUpKeptnMeters
  | AddHealthzCheck
  | AddReadyzCheck
  | CountActive
  | WaitFor ICertificateWatcher
  | RegisterWebhook string
  | StartAdapter string
  | StartServerManager bool duration
  | StartReporter
  | Print string
  | StartManager

text \<open>The environment variables.\<close>

record LifecycleEnv =
  le_PodNamespace :: string
  le_PodName :: string
  le_AppLogLevel :: int
  le_AppCreationRequestLogLevel :: int
  le_AppVersionLogLevel :: int
  le_EvaluationLogLevel :: int
  le_TaskLogLevel :: int
  le_TaskDefinitionLogLevel :: int
  le_WorkloadLogLevel :: int
  le_WorkloadVersionLogLevel :: int
  le_SchedulingGatesLogLevel :: int
  le_DoraMetricsPort :: int
  le_OptionsLogLevel :: int
  le_PromotionTasksEnabled :: bool
  le_CertManagerEnabled :: bool

record MetricsEnv =
  me_PodNamespace :: string
  me_PodName :: string
  me_MetricLogLevel :: int
  me_AnalysisLogLevel :: int
  me_ExposeKeptnMetrics :: bool
  me_EnableCustomMetricsAPIService :: bool
  me_CertManagerEnabled :: bool

record CertificateEnv =
  ce_KeptnNamespace :: string
  ce_LabelSelectorKey :: string
  ce_LabelSelectorValue :: string

record Host =
  ho_LifecycleEnv :: "error + LifecycleEnv"
  ho_MetricsEnv :: "error + MetricsEnv"
  ho_CertificateEnv :: "error + CertificateEnv"
  ho_Args :: "string list"
  ho_LibraryFlags :: "(string \<times> flag_kind) list"
  ho_Outcome :: "Action list \<Rightarrow> error option"
  ho_ReadFile :: "string \<Rightarrow> error + string"
  ho_Quote :: "string \<Rightarrow> string"
  ho_Wild :: "float64 \<Rightarrow> int"
  ho_Decimals :: decimals
  ho_Meta :: ObjectMeta
  ho_SLO :: "SLO yaml"
  ho_SLI :: "(string \<times> string) list yaml"
  ho_MarshalDefinition :: "AnalysisDefinition \<Rightarrow> error + string"
  ho_MarshalTemplate :: "AnalysisValueTemplate \<Rightarrow> error + string"

type_synonym 'a process = "(Action list, 'a) state"

definition perform :: "Host \<Rightarrow> Action \<Rightarrow> error option process" where
  "perform ho a = do {
     h \<leftarrow> State_Monad.get;
     State_Monad.set (h @ [a]);
     ret (ho_Outcome ho (h @ [a]))
   }"

text \<open>An action whose error is at most logged, and those whose error ends the program.\<close>

definition go_on :: "Host \<Rightarrow> Action \<Rightarrow> int option process" where
  "go_on ho a = do { perform ho a; ret None }"

definition or_exit :: "Host \<Rightarrow> Action \<Rightarrow> int option process" where
  "or_exit ho a = do { e \<leftarrow> perform ho a; ret (case e of None \<Rightarrow> None | Some err \<Rightarrow> Some 1) }"

definition or_panic :: "Host \<Rightarrow> Action \<Rightarrow> int option process" where
  "or_panic ho a = do { e \<leftarrow> perform ho a; ret (case e of None \<Rightarrow> None | Some err \<Rightarrow> Some 2) }"

text \<open>One piece of a program after another, until one ends it.\<close>

fun in_order :: "int option process list \<Rightarrow> int option process" where
  "in_order [] = ret None"
| "in_order (p # ps) = do {
     e \<leftarrow> p;
     case e of None \<Rightarrow> in_order ps | Some code \<Rightarrow> ret (Some code)
   }"

section \<open>The builder of the webhook server\<close>

record Builder =
  wb_Namespace :: string
  wb_PodName :: string
  wb_CertificateWatcher :: "ICertificateWatcher option"
  wb_Options :: WebhookOptions

definition NewWebhookServerBuilder :: Builder where
  "NewWebhookServerBuilder =
     \<lparr>wb_Namespace = [], wb_PodName = [], wb_CertificateWatcher = None,
      wb_Options = \<lparr>wo_Port = 0, wo_CertDir = [], wo_CertName = [], wo_KeyName = []\<rparr>\<rparr>"

definition SetNamespace :: "string \<Rightarrow> Builder \<Rightarrow> Builder" where
  "SetNamespace namespace b = b\<lparr>wb_Namespace := namespace\<rparr>"

definition SetPort :: "int \<Rightarrow> Builder \<Rightarrow> Builder" where
  "SetPort port b = b\<lparr>wb_Options := (wb_Options b)\<lparr>wo_Port := port\<rparr>\<rparr>"

definition SetPodName :: "string \<Rightarrow> Builder \<Rightarrow> Builder" where
  "SetPodName podName b = b\<lparr>wb_PodName := podName\<rparr>"

definition SetCertificateWatcher :: "ICertificateWatcher \<Rightarrow> Builder \<Rightarrow> Builder" where
  "SetCertificateWatcher watcher b = b\<lparr>wb_CertificateWatcher := Some watcher\<rparr>"

definition certificate_flags :: "(string \<times> flag_kind) list" where
  "certificate_flags = [(''certs-dir'', StringFlag), (''cert'', StringFlag), (''cert-key'', StringFlag)]"

text \<open>The flags of certificates are defined here, and the whole command line is parsed once more.\<close>

definition LoadCertOptionsFromFlag ::
    "(string \<times> flag_kind) list \<Rightarrow> string list \<Rightarrow> Builder \<Rightarrow> int + Builder" where
  "LoadCertOptionsFromFlag formal args b =
     map_sum id
       (\<lambda>vs. b\<lparr>wb_Options := (wb_Options b)
          \<lparr>wo_CertDir := string_flag vs ''certs-dir'' ''/tmp/webhook/certs'',
           wo_CertName := string_flag vs ''cert'' ''tls.crt'',
           wo_KeyName := string_flag vs ''cert-key'' ''tls.key''\<rparr>\<rparr>)
       (flag_Parse (certificate_flags @ formal) args)"

text \<open>\<^verbatim>\<open>Register\<close> waits for the certificates first. Without a watcher it dereferences a nil interface.\<close>

definition Builder_Register :: "Host \<Rightarrow> Builder \<Rightarrow> string list \<Rightarrow> int option process" where
  "Builder_Register ho b webhooks =
     (case wb_CertificateWatcher b of
        None \<Rightarrow> ret (Some 2)
      | Some w \<Rightarrow> in_order (go_on ho (WaitFor w) # map (\<lambda>path. go_on ho (RegisterWebhook path)) webhooks))"

text \<open>
  The part that both operators have: the builder for the options of the manager, and the watcher that is set
  before webhooks are registered.
\<close>

definition webhook_builder ::
    "(string \<times> flag_kind) list \<Rightarrow> string list \<Rightarrow> string \<Rightarrow> string \<Rightarrow> int + Builder" where
  "webhook_builder formal args namespace podName =
     map_sum id (\<lambda>b. SetPodName podName (SetNamespace namespace (SetPort 9443 b)))
       (LoadCertOptionsFromFlag formal args NewWebhookServerBuilder)"

definition certificate_watcher :: "bool \<Rightarrow> Builder \<Rightarrow> string \<Rightarrow> ICertificateWatcher" where
  "certificate_watcher certManagerEnabled b namespace =
     (if certManagerEnabled then SecretWatcher (wo_CertDir (wb_Options b)) namespace SecretName
      else NoOpCertificateWatcher)"

definition register_webhooks ::
    "Host \<Rightarrow> Builder option \<Rightarrow> bool \<Rightarrow> string \<Rightarrow> string list \<Rightarrow> int option process" where
  "register_webhooks ho webhookBuilder certManagerEnabled namespace webhooks =
     (case webhookBuilder of
        None \<Rightarrow> ret None
      | Some b \<Rightarrow>
          Builder_Register ho (SetCertificateWatcher (certificate_watcher certManagerEnabled b namespace) b) webhooks)"

section \<open>The lifecycle operator\<close>

definition manager_flags :: "(string \<times> flag_kind) list" where
  "manager_flags =
     [(''metrics-bind-address'', StringFlag), (''health-probe-bind-address'', StringFlag), (''leader-elect'', BoolFlag)]"

definition lifecycle_flags :: "(string \<times> flag_kind) list" where
  "lifecycle_flags = (''disable-webhook'', BoolFlag) # manager_flags"

definition KeptnLifecycleActiveMetric :: string where
  "KeptnLifecycleActiveMetric = ''keptn_lifecycle_active''"

definition manager_options ::
    "(string \<times> string) list \<Rightarrow> string \<Rightarrow> Builder option \<Rightarrow> string list \<Rightarrow> string list \<Rightarrow> ManagerOptions" where
  "manager_options vs electionID webhookBuilder disableCacheFor namespaces =
     \<lparr>mo_MetricsAddr = string_flag vs ''metrics-bind-address'' '':8080'',
      mo_ProbeAddr = string_flag vs ''health-probe-bind-address'' '':8081'',
      mo_LeaderElection = bool_flag vs ''leader-elect'', mo_LeaderElectionID = electionID,
      mo_WebhookServer = map_option wb_Options webhookBuilder,
      mo_DisableCacheFor = disableCacheFor, mo_Namespaces = namespaces\<rparr>"

text \<open>The webhook server is built unless webhooks are disabled.\<close>

definition with_builder ::
    "Host \<Rightarrow> (string \<times> flag_kind) list \<Rightarrow> bool \<Rightarrow> string \<Rightarrow> string \<Rightarrow> (Builder option \<Rightarrow> int option process) \<Rightarrow>
     int option process" where
  "with_builder ho formal disableWebhook namespace podName rest =
     (if disableWebhook then rest None
      else
        (case webhook_builder formal (ho_Args ho) namespace podName of
           Inl code \<Rightarrow> ret (Some code)
         | Inr b \<Rightarrow> rest (Some b)))"

definition lifecycle_controllers :: "LifecycleEnv \<Rightarrow> Reconciler list" where
  "lifecycle_controllers env =
     [PlainReconciler ''KeptnTask'' (le_TaskLogLevel env),
      PlainReconciler ''KeptnTaskDefinition'' (le_TaskDefinitionLogLevel env),
      PlainReconciler ''KeptnApp'' (le_AppLogLevel env),
      PlainReconciler ''KeptnAppCreationRequest'' (le_AppCreationRequestLogLevel env),
      PlainReconciler ''KeptnWorkload'' (le_WorkloadLogLevel env),
      PlainReconciler ''KeptnWorkloadVersion'' (le_WorkloadVersionLogLevel env),
      AppVersionReconciler (le_AppVersionLogLevel env) (le_PromotionTasksEnabled env),
      PlainReconciler ''KeptnEvaluation'' (le_EvaluationLogLevel env),
      PlainReconciler ''KeptnConfig'' (le_OptionsLogLevel env),
      PlainReconciler ''SchedulingGates'' (le_SchedulingGatesLogLevel env)]"

definition lifecycle_webhooks :: "string list" where
  "lifecycle_webhooks = [''KeptnApp'', ''KeptnAppVersion'', ''KeptnTaskDefinition'']"

definition setup_probes :: "Host \<Rightarrow> int option process" where
  "setup_probes ho = in_order [or_exit ho AddHealthzCheck, or_exit ho AddReadyzCheck]"

definition lifecycle_run :: "Host \<Rightarrow> LifecycleEnv \<Rightarrow> (string \<times> string) list \<Rightarrow> Builder option \<Rightarrow> int option process" where
  "lifecycle_run ho env vs webhookBuilder =
     in_order
       [or_exit ho (NewManager (manager_options vs ''6b866dd9.keptn.sh'' webhookBuilder [''Secret''] [])),
        go_on ho (InitOtelCollector []),
        or_exit ho NewCloudEventsClient,
        in_order (map (\<lambda>r. or_exit ho (SetupWithManager r)) (lifecycle_controllers env)),
        in_order (map (\<lambda>w. or_exit ho (SetupWebhookWithManager w)) lifecycle_webhooks),
        or_panic ho SetUpKeptnMeters,
        setup_probes ho,
        go_on ho CountActive,
        register_webhooks ho webhookBuilder (le_CertManagerEnabled env) (le_PodNamespace env) [''/mutate-v1-pod''],
        or_exit ho StartManager]"

definition lifecycle_main :: "Host \<Rightarrow> int option process" where
  "lifecycle_main ho =
     (case ho_LifecycleEnv ho of
        Inl err \<Rightarrow> ret (Some 1)
      | Inr env \<Rightarrow>
          in_order
            [go_on ho NewExporter,
             or_exit ho (NewCounter KeptnLifecycleActiveMetric),
             go_on ho SetUpKeptnTaskMeters,
             go_on ho (ServeMetrics (le_DoraMetricsPort env)),
             (let formal = lifecycle_flags @ ho_LibraryFlags ho in
              case flag_Parse formal (ho_Args ho) of
                Inl code \<Rightarrow> ret (Some code)
              | Inr vs \<Rightarrow>
                  in_order
                    [go_on ho (SetDefaultNamespace (le_PodNamespace env)),
                     with_builder ho formal (bool_flag vs ''disable-webhook'') (le_PodNamespace env) (le_PodName env)
                       (lifecycle_run ho env vs)])])"

section \<open>The metrics operator\<close>

definition metrics_flags :: "(string \<times> flag_kind) list" where
  "metrics_flags =
     [(''convert-sli'', StringFlag), (''keptn-provider-name'', StringFlag), (''keptn-provider-namespace'', StringFlag),
      (''convert-slo'', StringFlag), (''analysis-definition-name'', StringFlag),
      (''analysis-value-template-namespace'', StringFlag), (''disable-webhook'', BoolFlag)] @ manager_flags"

text \<open>Two flags are bound to the variable \<^verbatim>\<open>namespace\<close>: the last one on the command line counts.\<close>

definition namespace_flag :: "(string \<times> string) list \<Rightarrow> string" where
  "namespace_flag vs =
     (case find (\<lambda>(n, v). n = ''keptn-provider-namespace'' \<or> n = ''analysis-value-template-namespace'') (rev vs) of
        Some (n, v) \<Rightarrow> v
      | None \<Rightarrow> [])"

definition convertSLI :: "Host \<Rightarrow> string \<Rightarrow> string \<Rightarrow> string \<Rightarrow> failure + string" where
  "convertSLI ho path provider namespace =
     (case ho_ReadFile ho path of
        Inl err \<Rightarrow> Inl (Failed (Message (''error reading file content: '' @ error_string err)))
      | Inr fileContent \<Rightarrow>
          map_sum Failed id (SLI_Convert (ho_Meta ho) (ho_SLI ho) (ho_MarshalTemplate ho) fileContent provider namespace))"

definition convertSLO :: "Host \<Rightarrow> string \<Rightarrow> string \<Rightarrow> string \<Rightarrow> failure + string" where
  "convertSLO ho path analysisDefinition namespace =
     (case ho_ReadFile ho path of
        Inl err \<Rightarrow> Inl (Failed (Message (''error reading file content: '' @ error_string err)))
      | Inr fileContent \<Rightarrow>
          SLO_Convert (ho_Quote ho) (ho_Wild ho) (ho_Decimals ho) (ho_Meta ho) (ho_SLO ho) (ho_MarshalDefinition ho)
            fileContent analysisDefinition namespace)"

definition print_converted :: "Host \<Rightarrow> failure + string \<Rightarrow> int option process" where
  "print_converted ho r =
     (case r of
        Inl Crash \<Rightarrow> ret (Some 2)
      | Inl (Failed err) \<Rightarrow> ret (Some 1)
      | Inr content \<Rightarrow> go_on ho (Print content))"

definition setupValidationWebhooks :: "Host \<Rightarrow> int option process" where
  "setupValidationWebhooks ho =
     in_order (map (\<lambda>w. or_exit ho (SetupWebhookWithManager w)) [''KeptnMetric'', ''AnalysisDefinition'', ''Analysis''])"

definition metrics_run :: "Host \<Rightarrow> MetricsEnv \<Rightarrow> (string \<times> string) list \<Rightarrow> Builder option \<Rightarrow> int option process" where
  "metrics_run ho env vs webhookBuilder =
     in_order
       [or_exit ho (NewManager (manager_options vs ''3f8532ca.keptn.sh'' webhookBuilder [''Secret''] [])),
        go_on ho (StartServerManager (me_ExposeKeptnMetrics env) (10 * second)),
        or_exit ho (SetupWithManager (PlainReconciler ''KeptnMetric'' (me_MetricLogLevel env))),
        or_exit ho (SetupWithManager (AnalysisReconciler (me_AnalysisLogLevel env) 2)),
        go_on ho StartReporter,
        setupValidationWebhooks ho,
        setup_probes ho,
        register_webhooks ho webhookBuilder (me_CertManagerEnabled env) (me_PodNamespace env) [],
        or_exit ho StartManager]"

definition metrics_main :: "Host \<Rightarrow> int option process" where
  "metrics_main ho =
     (case ho_MetricsEnv ho of
        Inl err \<Rightarrow> ret (Some 1)
      | Inr env \<Rightarrow>
          (let formal = metrics_flags @ ho_LibraryFlags ho in
           case flag_Parse formal (ho_Args ho) of
             Inl code \<Rightarrow> ret (Some code)
           | Inr vs \<Rightarrow>
               (let SLIFilePath = string_flag vs ''convert-sli'' []; SLOFilePath = string_flag vs ''convert-slo'' [] in
                if SLIFilePath \<noteq> [] then
                  print_converted ho
                    (convertSLI ho SLIFilePath (string_flag vs ''keptn-provider-name'' []) (namespace_flag vs))
                else if SLOFilePath \<noteq> [] then
                  print_converted ho
                    (convertSLO ho SLOFilePath (string_flag vs ''analysis-definition-name'' []) (namespace_flag vs))
                else
                  in_order
                    [if me_EnableCustomMetricsAPIService env then go_on ho (StartAdapter (me_PodNamespace env)) else ret None,
                     with_builder ho formal (bool_flag vs ''disable-webhook'') (me_PodNamespace env) (me_PodName env)
                       (metrics_run ho env vs)])))"

section \<open>The certificate manager\<close>

definition certificate_options :: "CertificateEnv \<Rightarrow> (string \<times> string) list \<Rightarrow> ManagerOptions" where
  "certificate_options env vs =
     (manager_options vs ''f9d59293.keptn.sh'' None [''CustomResourceDefinition''] [ce_KeptnNamespace env])
       \<lparr>mo_WebhookServer := Some \<lparr>wo_Port = 9443, wo_CertDir = [], wo_CertName = [], wo_KeyName = []\<rparr>\<rparr>"

definition certificate_main :: "Host \<Rightarrow> int option process" where
  "certificate_main ho =
     (case ho_CertificateEnv ho of
        Inl err \<Rightarrow> ret (Some 1)
      | Inr env \<Rightarrow>
          (case flag_Parse (manager_flags @ ho_LibraryFlags ho) (ho_Args ho) of
             Inl code \<Rightarrow> ret (Some code)
           | Inr vs \<Rightarrow>
               in_order
                 [or_exit ho (NewManager (certificate_options env vs)),
                  or_exit ho (SetupWithManager (CertificateReconciler (ce_KeptnNamespace env)
                    (ce_LabelSelectorKey env) (ce_LabelSelectorValue env))),
                  setup_probes ho,
                  or_exit ho StartManager]))"

section \<open>What a start does\<close>

text \<open>A plan: actions in order, with the exit code if an error of the action ends the program.\<close>

fun follow :: "Host \<Rightarrow> (int option \<times> Action) list \<Rightarrow> int option process" where
  "follow ho [] = ret None"
| "follow ho ((code, a) # plan) = do {
     e \<leftarrow> perform ho a;
     if code \<noteq> None \<and> e \<noteq> None then ret code else follow ho plan
   }"

definition succeeded :: "Host \<Rightarrow> Action list \<Rightarrow> Action \<Rightarrow> bool" where
  "succeeded ho h a \<longleftrightarrow> (\<exists>h1 h2. h = h1 @ a # h2 \<and> ho_Outcome ho (h1 @ [a]) = None)"

lemma run_perform: "run_state (perform ho a) h = (ho_Outcome ho (h @ [a]), h @ [a])"
  by (simp add: perform_def State_Monad.bind_def State_Monad.get_def State_Monad.set_def)

lemma follow_append:
  "follow ho (xs @ ys) = do { e \<leftarrow> follow ho xs; case e of None \<Rightarrow> follow ho ys | Some code \<Rightarrow> ret (Some code) }"
proof (induction xs)
  case (Cons x xs)
  have "run_state (follow ho ((x # xs) @ ys)) h =
      run_state (do { e \<leftarrow> follow ho (x # xs); case e of None \<Rightarrow> follow ho ys | Some code \<Rightarrow> ret (Some code) }) h" for h
    by (cases x) (auto simp: Cons State_Monad.bind_def State_Monad.return_def split: prod.splits option.splits)
  then show ?case by (simp add: state.expand fun_eq_iff)
qed simp

lemma in_order_follow: "in_order (map (follow ho) plans) = follow ho (concat plans)"
  by (induction plans) (simp_all add: follow_append)

lemma go_on_follow: "go_on ho a = follow ho [(None, a)]"
  by (simp add: go_on_def)

lemma or_panic_follow: "or_panic ho a = follow ho [(Some 2, a)]"
  by (rule state.expand)
    (auto simp: or_panic_def fun_eq_iff State_Monad.bind_def State_Monad.return_def split: prod.splits option.splits)

lemma or_exit_follow: "or_exit ho a = follow ho [(Some 1, a)]"
  by (rule state.expand)
    (auto simp: or_exit_def fun_eq_iff State_Monad.bind_def State_Monad.return_def split: prod.splits option.splits)

text \<open>
  A program that follows a plan does a first part of it, in which every mandatory action has succeeded but
  perhaps the last; it goes on to the end unless that one has failed.
\<close>

lemma follow_done:
  assumes "run_state (follow ho plan) h = (r, h')"
  shows "(r = None \<and> h' = h @ map snd plan \<and>
        (\<forall>xs c a ys. plan = xs @ (Some c, a) # ys \<longrightarrow> ho_Outcome ho (h @ map snd xs @ [a]) = None)) \<or>
     (r \<noteq> None \<and> (\<exists>xs a ys. plan = xs @ (r, a) # ys \<and> h' = h @ map snd xs @ [a] \<and>
        (\<forall>xs' c b ys'. xs = xs' @ (Some c, b) # ys' \<longrightarrow> ho_Outcome ho (h @ map snd xs' @ [b]) = None)))"
  using assms
proof (induction plan arbitrary: h)
  case (Cons p plan)
  obtain m a where p: "p = (m, a)" by (cases p)
  show ?case
  proof (cases "m \<noteq> None \<and> ho_Outcome ho (h @ [a]) \<noteq> None")
    case True
    with Cons.prems p have "r = m" "h' = h @ [a]"
      by (auto simp: State_Monad.bind_def run_perform State_Monad.return_def)
    then show ?thesis using p True by (intro disjI2 conjI exI [of _ "[]"]) auto
  next
    case False
    with Cons.prems p have "run_state (follow ho plan) (h @ [a]) = (r, h')"
      by (auto simp: State_Monad.bind_def run_perform)
    from Cons.IH [OF this] show ?thesis
    proof (elim disjE conjE exE)
      assume "r = None" "h' = (h @ [a]) @ map snd plan"
        and "\<forall>xs c b ys. plan = xs @ (Some c, b) # ys \<longrightarrow> ho_Outcome ho ((h @ [a]) @ map snd xs @ [b]) = None"
      then show ?thesis using p False by (auto simp: Cons_eq_append_conv)
    next
      fix xs b ys
      assume "r \<noteq> None" "plan = xs @ (r, b) # ys" "h' = (h @ [a]) @ map snd xs @ [b]"
        and "\<forall>xs' n c ys'. xs = xs' @ (Some n, c) # ys' \<longrightarrow> ho_Outcome ho ((h @ [a]) @ map snd xs' @ [c]) = None"
      then show ?thesis using p False
        by (intro disjI2 conjI exI [of _ "p # xs"] exI [of _ b] exI [of _ ys]) (auto simp: Cons_eq_append_conv)
    qed
  qed
qed (simp add: State_Monad.return_def)

lemma in_order_mandatory: "in_order (map (\<lambda>x. or_exit ho (f x)) xs) = follow ho (map (\<lambda>x. (Some 1, f x)) xs)"
  using in_order_follow [of ho "map (\<lambda>x. [(Some 1, f x)]) xs"] by (simp add: or_exit_follow comp_def)

lemma in_order_optional: "in_order (map (\<lambda>x. go_on ho (f x)) xs) = follow ho (map (\<lambda>x. (None, f x)) xs)"
  using in_order_follow [of ho "map (\<lambda>x. [(None, f x)]) xs"] by (simp add: go_on_follow comp_def)

lemma in_order_last [simp]: "in_order [p] = p"
  by (rule state.expand)
    (auto simp: fun_eq_iff State_Monad.bind_def State_Monad.return_def split: prod.splits option.splits)

declare in_order.simps [simp del]

lemma run_in_order_Cons:
  "run_state (in_order (p # ps)) h =
     (case run_state p h of (e, h') \<Rightarrow> (case e of None \<Rightarrow> run_state (in_order ps) h' | Some code \<Rightarrow> (Some code, h')))"
  by (auto simp: in_order.simps State_Monad.bind_def State_Monad.return_def split: prod.splits option.splits)

lemma run_go_on: "run_state (go_on ho a) h = (None, h @ [a])"
  by (simp add: go_on_def State_Monad.bind_def run_perform)

lemma run_or_exit: "run_state (or_exit ho a) h = (case ho_Outcome ho (h @ [a]) of None \<Rightarrow> None | Some err \<Rightarrow> Some 1, h @ [a])"
  by (simp add: or_exit_def State_Monad.bind_def run_perform)

lemma run_or_panic: "run_state (or_panic ho a) h = (case ho_Outcome ho (h @ [a]) of None \<Rightarrow> None | Some err \<Rightarrow> Some 2, h @ [a])"
  by (simp add: or_panic_def State_Monad.bind_def run_perform)

text \<open>The last actions before the manager is started: those for the webhooks.\<close>

definition webhook_plan :: "Builder option \<Rightarrow> bool \<Rightarrow> string \<Rightarrow> string list \<Rightarrow> Action list" where
  "webhook_plan webhookBuilder certManagerEnabled namespace webhooks =
     (case webhookBuilder of
        None \<Rightarrow> []
      | Some b \<Rightarrow> WaitFor (certificate_watcher certManagerEnabled b namespace) # map RegisterWebhook webhooks)"

lemma register_webhooks_follow:
  "register_webhooks ho wb enabled ns ws = follow ho (map (Pair None) (webhook_plan wb enabled ns ws))"
proof (cases wb)
  case (Some b)
  let ?w = "certificate_watcher enabled b ns"
  have "in_order (map (go_on ho) (WaitFor ?w # map RegisterWebhook ws)) =
      follow ho (map (Pair None) (WaitFor ?w # map RegisterWebhook ws))"
    by (rule in_order_optional)
  then show ?thesis
    using Some by (simp add: register_webhooks_def Builder_Register_def SetCertificateWatcher_def webhook_plan_def comp_def)
qed (simp add: register_webhooks_def webhook_plan_def)

definition lifecycle_setups :: "LifecycleEnv \<Rightarrow> (string \<times> string) list \<Rightarrow> Builder option \<Rightarrow> (int option \<times> Action) list" where
  "lifecycle_setups env vs wb =
     [(Some 1, NewManager (manager_options vs ''6b866dd9.keptn.sh'' wb [''Secret''] [])), (None, InitOtelCollector []),
      (Some 1, NewCloudEventsClient)] @
     map (\<lambda>r. (Some 1, SetupWithManager r)) (lifecycle_controllers env) @
     map (\<lambda>w. (Some 1, SetupWebhookWithManager w)) lifecycle_webhooks @
     [(Some 2, SetUpKeptnMeters), (Some 1, AddHealthzCheck), (Some 1, AddReadyzCheck), (None, CountActive)]"

definition lifecycle_plan :: "LifecycleEnv \<Rightarrow> (string \<times> string) list \<Rightarrow> Builder option \<Rightarrow> (int option \<times> Action) list" where
  "lifecycle_plan env vs wb =
     lifecycle_setups env vs wb @
     map (Pair None) (webhook_plan wb (le_CertManagerEnabled env) (le_PodNamespace env) [''/mutate-v1-pod'']) @
     [(Some 1, StartManager)]"

lemma lifecycle_run_follow: "lifecycle_run ho env vs wb = follow ho (lifecycle_plan env vs wb)"
proof -
  have "lifecycle_run ho env vs wb = in_order (map (follow ho)
      [[(Some 1, NewManager (manager_options vs ''6b866dd9.keptn.sh'' wb [''Secret''] []))], [(None, InitOtelCollector [])],
       [(Some 1, NewCloudEventsClient)], map (\<lambda>r. (Some 1, SetupWithManager r)) (lifecycle_controllers env),
       map (\<lambda>w. (Some 1, SetupWebhookWithManager w)) lifecycle_webhooks, [(Some 2, SetUpKeptnMeters)],
       concat [[(Some 1, AddHealthzCheck)], [(Some 1, AddReadyzCheck)]], [(None, CountActive)],
       map (Pair None) (webhook_plan wb (le_CertManagerEnabled env) (le_PodNamespace env) [''/mutate-v1-pod'']),
       [(Some 1, StartManager)]])"
    unfolding lifecycle_run_def setup_probes_def list.map
    by (simp only: or_exit_follow or_panic_follow go_on_follow in_order_mandatory [unfolded or_exit_follow] register_webhooks_follow
        in_order_follow [symmetric] list.map)
  then show ?thesis by (simp only: in_order_follow) (simp add: lifecycle_plan_def lifecycle_setups_def)
qed

definition metrics_setups :: "MetricsEnv \<Rightarrow> (string \<times> string) list \<Rightarrow> Builder option \<Rightarrow> (int option \<times> Action) list" where
  "metrics_setups env vs wb =
     [(Some 1, NewManager (manager_options vs ''3f8532ca.keptn.sh'' wb [''Secret''] [])),
      (None, StartServerManager (me_ExposeKeptnMetrics env) (10 * second)),
      (Some 1, SetupWithManager (PlainReconciler ''KeptnMetric'' (me_MetricLogLevel env))),
      (Some 1, SetupWithManager (AnalysisReconciler (me_AnalysisLogLevel env) 2)), (None, StartReporter)] @
     map (\<lambda>w. (Some 1, SetupWebhookWithManager w)) [''KeptnMetric'', ''AnalysisDefinition'', ''Analysis''] @
     [(Some 1, AddHealthzCheck), (Some 1, AddReadyzCheck)]"

definition metrics_plan :: "MetricsEnv \<Rightarrow> (string \<times> string) list \<Rightarrow> Builder option \<Rightarrow> (int option \<times> Action) list" where
  "metrics_plan env vs wb =
     metrics_setups env vs wb @ map (Pair None) (webhook_plan wb (me_CertManagerEnabled env) (me_PodNamespace env) []) @
     [(Some 1, StartManager)]"

lemma metrics_run_follow: "metrics_run ho env vs wb = follow ho (metrics_plan env vs wb)"
proof -
  have "metrics_run ho env vs wb = in_order (map (follow ho)
      [[(Some 1, NewManager (manager_options vs ''3f8532ca.keptn.sh'' wb [''Secret''] []))],
       [(None, StartServerManager (me_ExposeKeptnMetrics env) (10 * second))],
       [(Some 1, SetupWithManager (PlainReconciler ''KeptnMetric'' (me_MetricLogLevel env)))],
       [(Some 1, SetupWithManager (AnalysisReconciler (me_AnalysisLogLevel env) 2))], [(None, StartReporter)],
       concat [[(Some 1, SetupWebhookWithManager ''KeptnMetric'')], [(Some 1, SetupWebhookWithManager ''AnalysisDefinition'')],
         [(Some 1, SetupWebhookWithManager ''Analysis'')]],
       concat [[(Some 1, AddHealthzCheck)], [(Some 1, AddReadyzCheck)]],
       map (Pair None) (webhook_plan wb (me_CertManagerEnabled env) (me_PodNamespace env) []),
       [(Some 1, StartManager)]])"
    unfolding metrics_run_def setup_probes_def setupValidationWebhooks_def list.map
    by (simp only: or_exit_follow go_on_follow register_webhooks_follow in_order_follow [symmetric] list.map)
  then show ?thesis by (simp only: in_order_follow) (simp add: metrics_plan_def metrics_setups_def)
qed

lemma plan_started:
  assumes "run_state (follow ho (plan @ [(Some 1, StartManager)])) h = (r, h')" and "StartManager \<in> set h'"
    and "StartManager \<notin> set h" and "StartManager \<notin> snd ` set plan"
  shows "h' = h @ map snd plan @ [StartManager] \<and> (\<forall>c a. (Some c, a) \<in> set plan \<longrightarrow> succeeded ho (h @ map snd plan) a)"
proof -
  have ok: "succeeded ho (h @ map snd plan) a"
    if "(Some c, a) \<in> set plan"
      and "\<forall>xs n b ys. plan = xs @ (Some n, b) # ys \<longrightarrow> ho_Outcome ho (h @ map snd xs @ [b]) = None" for c a
  proof -
    from that(1) obtain xs ys where split: "plan = xs @ (Some c, a) # ys" by (meson split_list)
    with that(2) have "ho_Outcome ho ((h @ map snd xs) @ [a]) = None" by simp
    then show ?thesis
      unfolding succeeded_def using split by (intro exI [of _ "h @ map snd xs"] exI [of _ "map snd ys"]) simp
  qed
  from follow_done [OF assms(1)] show ?thesis
  proof (elim disjE conjE exE)
    assume "h' = h @ map snd (plan @ [(Some 1, StartManager)])"
      and all: "\<forall>xs c a ys. plan @ [(Some 1, StartManager)] = xs @ (Some c, a) # ys \<longrightarrow> ho_Outcome ho (h @ map snd xs @ [a]) = None"
    moreover from all have "\<forall>xs n b ys. plan = xs @ (Some n, b) # ys \<longrightarrow> ho_Outcome ho (h @ map snd xs @ [b]) = None" by auto
    ultimately show ?thesis using ok by simp
  next
    fix xs a ys
    assume "plan @ [(Some 1, StartManager)] = xs @ (r, a) # ys" and h': "h' = h @ map snd xs @ [a]"
      and before: "\<forall>xs' n b ys'. xs = xs' @ (Some n, b) # ys' \<longrightarrow> ho_Outcome ho (h @ map snd xs' @ [b]) = None"
    then consider "plan = xs" "a = StartManager" | zs where "plan = xs @ (r, a) # zs"
      by (cases ys rule: rev_cases) auto
    then show ?thesis
    proof cases
      case 1
      with h' before ok show ?thesis by auto
    next
      case 2
      with h' assms(2-4) show ?thesis by (auto simp: image_iff)
    qed
  qed
qed

lemma succeeded_before:
  assumes "succeeded ho (h @ h') a" and "a \<notin> set h'"
  shows "succeeded ho h a"
proof -
  obtain h1 h2 where split: "h @ h' = h1 @ a # h2" and ok: "ho_Outcome ho (h1 @ [a]) = None"
    using assms(1) by (auto simp: succeeded_def)
  from split assms(2) obtain h3 where "h = h1 @ a # h3"
    by (auto simp: append_eq_append_conv2 append_eq_Cons_conv Cons_eq_append_conv)
  with ok show ?thesis by (auto simp: succeeded_def)
qed

text \<open>
  The end of a start: after the set-up come the actions for the webhooks and then the manager.
\<close>

lemma setups_succeeded:
  assumes "run_state (follow ho (setups @ map (Pair None) (webhook_plan wb enabled ns ws) @ [(Some 1, StartManager)])) h = (r, h')"
    and "StartManager \<in> set h'" and "StartManager \<notin> set h" and "StartManager \<notin> snd ` set setups"
    and "\<forall>w path. WaitFor w \<notin> snd ` set setups \<and> RegisterWebhook path \<notin> snd ` set setups"
  shows "h' = (h @ map snd setups) @ webhook_plan wb enabled ns ws @ [StartManager] \<and>
     (\<forall>c a. (Some c, a) \<in> set setups \<longrightarrow> succeeded ho (h @ map snd setups) a)"
proof -
  let ?tail = "webhook_plan wb enabled ns ws"
  have tail: "a \<in> set ?tail \<Longrightarrow> (\<exists>w. a = WaitFor w) \<or> (\<exists>path. a = RegisterWebhook path)" for a
    by (auto simp: webhook_plan_def split: option.splits)
  have "StartManager \<notin> snd ` set (setups @ map (Pair None) ?tail)" using assms(4) by (auto dest: tail)
  from plan_started [OF assms(1) [folded append_assoc] assms(2,3) this]
  have h': "h' = h @ map snd setups @ ?tail @ [StartManager]"
    and ok: "(Some c, a) \<in> set setups \<Longrightarrow> succeeded ho (h @ map snd setups @ ?tail) a" for c a
    by (auto simp: comp_def)
  have "succeeded ho (h @ map snd setups) a" if "(Some c, a) \<in> set setups" for c a
  proof (rule succeeded_before [of ho _ ?tail])
    show "succeeded ho ((h @ map snd setups) @ ?tail) a" using ok [OF that] by simp
    show "a \<notin> set ?tail" using tail [of a] assms(5) that by (metis image_eqI snd_conv)
  qed
  with h' show ?thesis by simp
qed

lemma webhook_plan_options:
  "webhook_plan wb enabled ns ws =
     (case mo_WebhookServer (manager_options vs electionID wb cache namespaces) of
        None \<Rightarrow> []
      | Some server \<Rightarrow>
          WaitFor (if enabled then SecretWatcher (wo_CertDir server) ns SecretName else NoOpCertificateWatcher) #
          map RegisterWebhook ws)"
  by (simp add: manager_options_def webhook_plan_def certificate_watcher_def split: option.splits)

lemma lifecycle_main_run:
  assumes "run_state (lifecycle_main ho) [] = (r, h)"
  shows "(r \<noteq> None \<and> StartManager \<notin> set h) \<or>
     (\<exists>env vs wb h0. ho_LifecycleEnv ho = Inr env \<and> StartManager \<notin> set h0 \<and>
        run_state (lifecycle_run ho env vs wb) h0 = (r, h))"
proof (cases "ho_LifecycleEnv ho")
  case (Inr env)
  let ?h0 = "[NewExporter, NewCounter KeptnLifecycleActiveMetric, SetUpKeptnTaskMeters, ServeMetrics (le_DoraMetricsPort env),
    Action.SetDefaultNamespace (le_PodNamespace env)]"
  from assms Inr have "(r \<noteq> None \<and> StartManager \<notin> set h) \<or> (\<exists>vs wb. run_state (lifecycle_run ho env vs wb) ?h0 = (r, h))"
    by (auto simp: lifecycle_main_def run_in_order_Cons run_go_on run_or_exit Let_def with_builder_def
        split: sum.splits option.splits if_splits)
  moreover have "StartManager \<notin> set ?h0" by simp
  ultimately show ?thesis using Inr by blast
qed (use assms in \<open>auto simp: lifecycle_main_def\<close>)

lemma follow_actions:
  "run_state (follow ho plan) h = (r, h') \<Longrightarrow> set h' \<subseteq> set h \<union> snd ` set plan"
  using follow_done [of ho plan h r h'] by auto

text \<open>
  C32: the lifecycle operator starts its manager only when it is complete. Then all its controllers, webhooks and
  probes have been set up without an error, the certificates have been waited for before the webhook for pods
  was registered, and the watcher copies them into the directory from which the webhook server of the
  manager reads them.
\<close>

theorem started_when_complete:
  assumes "run_state (lifecycle_main ho) [] = (r, h)" and "StartManager \<in> set h"
  shows "\<exists>env pre tail options. ho_LifecycleEnv ho = Inr env \<and> h = pre @ tail @ [StartManager] \<and>
     (\<forall>a \<in> {NewManager options, NewCloudEventsClient, AddHealthzCheck, AddReadyzCheck} \<union>
        SetupWithManager ` set (lifecycle_controllers env) \<union> SetupWebhookWithManager ` set lifecycle_webhooks.
        succeeded ho pre a) \<and>
     tail =
       (case mo_WebhookServer options of
          None \<Rightarrow> []
        | Some server \<Rightarrow>
            [WaitFor (if le_CertManagerEnabled env then SecretWatcher (wo_CertDir server) (le_PodNamespace env) SecretName
               else NoOpCertificateWatcher), RegisterWebhook ''/mutate-v1-pod''])"
proof -
  from lifecycle_main_run [OF assms(1)] assms(2) obtain env vs wb h0 where env: "ho_LifecycleEnv ho = Inr env"
    and h0: "StartManager \<notin> set h0" and run: "run_state (lifecycle_run ho env vs wb) h0 = (r, h)" by auto
  let ?pre = "h0 @ map snd (lifecycle_setups env vs wb)"
  let ?options = "manager_options vs ''6b866dd9.keptn.sh'' wb [''Secret''] []"
  from run have "run_state (follow ho (lifecycle_setups env vs wb @ map (Pair None) (webhook_plan wb (le_CertManagerEnabled env)
      (le_PodNamespace env) [''/mutate-v1-pod'']) @ [(Some 1, StartManager)])) h0 = (r, h)"
    by (simp only: lifecycle_run_follow lifecycle_plan_def)
  moreover have "StartManager \<notin> snd ` set (lifecycle_setups env vs wb)"
    and "\<forall>w path. WaitFor w \<notin> snd ` set (lifecycle_setups env vs wb) \<and> RegisterWebhook path \<notin> snd ` set (lifecycle_setups env vs wb)"
    by (auto simp: lifecycle_setups_def)
  ultimately have "h = ?pre @ webhook_plan wb (le_CertManagerEnabled env) (le_PodNamespace env) [''/mutate-v1-pod''] @ [StartManager] \<and>
      (\<forall>c a. (Some c, a) \<in> set (lifecycle_setups env vs wb) \<longrightarrow> succeeded ho ?pre a)"
    using setups_succeeded assms(2) h0 by blast
  then have h: "h = ?pre @ webhook_plan wb (le_CertManagerEnabled env) (le_PodNamespace env) [''/mutate-v1-pod''] @ [StartManager]"
    and ok: "(Some c, a) \<in> set (lifecycle_setups env vs wb) \<Longrightarrow> succeeded ho ?pre a" for c a
    by blast+
  have "succeeded ho ?pre a"
    if "a \<in> {NewManager ?options, NewCloudEventsClient, AddHealthzCheck, AddReadyzCheck} \<union>
        SetupWithManager ` set (lifecycle_controllers env) \<union> SetupWebhookWithManager ` set lifecycle_webhooks" for a
    by (rule ok [of 1]) (use that in \<open>auto simp: lifecycle_setups_def\<close>)
  then show ?thesis
    using env h webhook_plan_options [of wb "le_CertManagerEnabled env" "le_PodNamespace env" "[''/mutate-v1-pod'']" vs]
    by (intro exI [of _ env] exI [of _ ?pre] exI [of _ "webhook_plan wb (le_CertManagerEnabled env) (le_PodNamespace env)
      [''/mutate-v1-pod'']"] exI [of _ ?options] conjI ballI) (simp_all only: list.map)
qed

text \<open>
  The same of the metrics operator, which registers no webhook of its own at the server but waits for its
  certificates too.
\<close>

theorem metrics_started_when_complete:
  assumes "run_state (metrics_main ho) [] = (r, h)" and "StartManager \<in> set h"
  shows "\<exists>env pre tail options. ho_MetricsEnv ho = Inr env \<and> h = pre @ tail @ [StartManager] \<and>
     (\<forall>a \<in> {NewManager options, SetupWithManager (PlainReconciler ''KeptnMetric'' (me_MetricLogLevel env)),
          SetupWithManager (AnalysisReconciler (me_AnalysisLogLevel env) 2), AddHealthzCheck, AddReadyzCheck} \<union>
        SetupWebhookWithManager ` {''KeptnMetric'', ''AnalysisDefinition'', ''Analysis''}. succeeded ho pre a) \<and>
     tail =
       (case mo_WebhookServer options of
          None \<Rightarrow> []
        | Some server \<Rightarrow>
            [WaitFor (if me_CertManagerEnabled env then SecretWatcher (wo_CertDir server) (me_PodNamespace env) SecretName
               else NoOpCertificateWatcher)])"
proof -
  obtain env vs wb h0 where env: "ho_MetricsEnv ho = Inr env" and h0: "StartManager \<notin> set h0"
    and run: "run_state (metrics_run ho env vs wb) h0 = (r, h)"
  proof (cases "ho_MetricsEnv ho")
    case (Inr env)
    let ?h0 = "if me_EnableCustomMetricsAPIService env then [StartAdapter (me_PodNamespace env)] else []"
    from assms Inr obtain vs wb where "run_state (metrics_run ho env vs wb) ?h0 = (r, h)"
      by (auto simp: metrics_main_def run_in_order_Cons run_go_on Let_def with_builder_def print_converted_def
          split: sum.splits option.splits if_splits failure.splits)
    with Inr show ?thesis by (intro that [of env ?h0]) auto
  qed (use assms in \<open>simp add: metrics_main_def\<close>)
  let ?pre = "h0 @ map snd (metrics_setups env vs wb)"
  let ?options = "manager_options vs ''3f8532ca.keptn.sh'' wb [''Secret''] []"
  from run have "run_state (follow ho (metrics_setups env vs wb @ map (Pair None) (webhook_plan wb (me_CertManagerEnabled env)
      (me_PodNamespace env) []) @ [(Some 1, StartManager)])) h0 = (r, h)"
    by (simp only: metrics_run_follow metrics_plan_def)
  moreover have "StartManager \<notin> snd ` set (metrics_setups env vs wb)"
    and "\<forall>w path. WaitFor w \<notin> snd ` set (metrics_setups env vs wb) \<and> RegisterWebhook path \<notin> snd ` set (metrics_setups env vs wb)"
    by (auto simp: metrics_setups_def)
  ultimately have "h = ?pre @ webhook_plan wb (me_CertManagerEnabled env) (me_PodNamespace env) [] @ [StartManager] \<and>
      (\<forall>c a. (Some c, a) \<in> set (metrics_setups env vs wb) \<longrightarrow> succeeded ho ?pre a)"
    using setups_succeeded assms(2) h0 by blast
  then have h: "h = ?pre @ webhook_plan wb (me_CertManagerEnabled env) (me_PodNamespace env) [] @ [StartManager]"
    and ok: "(Some c, a) \<in> set (metrics_setups env vs wb) \<Longrightarrow> succeeded ho ?pre a" for c a
    by blast+
  have "succeeded ho ?pre a"
    if "a \<in> {NewManager ?options, SetupWithManager (PlainReconciler ''KeptnMetric'' (me_MetricLogLevel env)),
          SetupWithManager (AnalysisReconciler (me_AnalysisLogLevel env) 2), AddHealthzCheck, AddReadyzCheck} \<union>
        SetupWebhookWithManager ` {''KeptnMetric'', ''AnalysisDefinition'', ''Analysis''}" for a
    by (rule ok [of 1]) (use that in \<open>auto simp: metrics_setups_def\<close>)
  then show ?thesis
    using env h webhook_plan_options [of wb "me_CertManagerEnabled env" "me_PodNamespace env" "[]" vs]
    by (intro exI [of _ env] exI [of _ ?pre] exI [of _ "webhook_plan wb (me_CertManagerEnabled env) (me_PodNamespace env) []"]
        exI [of _ ?options] conjI ballI) (simp_all only: list.map)
qed

text \<open>
  What fails before: the program ends with an exit code other than zero.
\<close>

theorem returns_only_after_start:
  assumes "run_state (lifecycle_main ho) [] = (None, h)"
  shows "\<exists>h0. h = h0 @ [StartManager] \<and> ho_Outcome ho h = None"
proof -
  from lifecycle_main_run [OF assms] obtain env vs wb h0 where "run_state (lifecycle_run ho env vs wb) h0 = (None, h)" by auto
  from follow_done [OF this [unfolded lifecycle_run_follow]]
  have h: "h = h0 @ map snd (lifecycle_plan env vs wb)"
    and ok: "lifecycle_plan env vs wb = xs @ (Some c, a) # ys \<Longrightarrow> ho_Outcome ho (h0 @ map snd xs @ [a]) = None" for xs c a ys
    by auto
  obtain xs where plan: "lifecycle_plan env vs wb = xs @ [(Some 1, StartManager)]"
    by (metis append.assoc lifecycle_plan_def)
  show ?thesis using ok [of xs 1 StartManager "[]"] by (intro exI [of _ "h0 @ map snd xs"]) (simp add: h plan)
qed

text \<open>
  The manifests of the metrics operator give it the argument \<open>webhook-server\<close> first. All flags after it are ignored,
  among them the one for the election of a leader, and the manager is made without it.
\<close>

theorem flags_after_argument_ignored:
  assumes "ho_Args ho = ''webhook-server'' # args" and "run_state (metrics_main ho) [] = (r, h)"
    and "NewManager options \<in> set h"
  shows "\<not> mo_LeaderElection options \<and> mo_MetricsAddr options = '':8080'' \<and>
     (\<forall>server. mo_WebhookServer options = Some server \<longrightarrow> wo_CertDir server = ''/tmp/webhook/certs'')"
proof -
  have parse: "flag_Parse formal (ho_Args ho) = Inr []" for formal
    using assms(1) by (simp add: parse_arg_def)
  then obtain env wb h0 where run: "run_state (metrics_run ho env [] wb) h0 = (r, h)"
    and h0: "NewManager options \<notin> set h0"
    and wb: "\<forall>b. wb = Some b \<longrightarrow> wo_CertDir (wb_Options b) = ''/tmp/webhook/certs''"
    using assms(2,3)
    by (auto simp: metrics_main_def Let_def string_flag_def bool_flag_def with_builder_def webhook_builder_def
        LoadCertOptionsFromFlag_def run_in_order_Cons run_go_on SetPodName_def SetNamespace_def SetPort_def
        split: sum.splits if_splits)
  from follow_actions [OF run [unfolded metrics_run_follow]] h0 assms(3)
  have "options = manager_options [] ''3f8532ca.keptn.sh'' wb [''Secret''] []"
    by (auto simp: metrics_plan_def metrics_setups_def webhook_plan_def split: option.splits)
  with wb show ?thesis by (auto simp: manager_options_def bool_flag_def string_flag_def)
qed

text \<open>
  The flags for certificates are defined after the flags have been parsed for the first time, so that a command
  line that begins with one of them ends both operators before they set up anything.
\<close>

theorem certificate_flags_refused:
  assumes "ho_Args ho = (''--certs-dir='' @ d) # args" and "''certs-dir'' \<notin> fst ` set (ho_LibraryFlags ho)"
    and "ho_LifecycleEnv ho = Inr env" and "ho_MetricsEnv ho = Inr env'"
    and "ho_Outcome ho [NewExporter, NewCounter KeptnLifecycleActiveMetric] = None"
  shows "\<exists>h. run_state (lifecycle_main ho) [] = (Some 2, h) \<and> (\<forall>options. NewManager options \<notin> set h)"
    and "run_state (metrics_main ho) [] = (Some 2, [])"
proof -
  have arg: "parse_arg (''--certs-dir='' @ d) = Flag ''certs-dir'' (Some d)"
    by (simp add: parse_arg_def split_flag_def)
  have undefined_flag: "map_of (lifecycle_flags @ ho_LibraryFlags ho) ''certs-dir'' = None"
    "map_of (metrics_flags @ ho_LibraryFlags ho) ''certs-dir'' = None"
    using assms(2) by (auto simp: map_of_eq_None_iff lifecycle_flags_def metrics_flags_def manager_flags_def)
  have parse: "flag_Parse formal (ho_Args ho) = Inl 2" if "map_of formal ''certs-dir'' = None" for formal
    unfolding assms(1) flag_Parse.simps arg using that by simp
  show "\<exists>h. run_state (lifecycle_main ho) [] = (Some 2, h) \<and> (\<forall>options. NewManager options \<notin> set h)"
    unfolding lifecycle_main_def using assms(3,5) parse [OF undefined_flag(1)]
    by (simp add: run_in_order_Cons run_go_on run_or_exit Let_def)
  show "run_state (metrics_main ho) [] = (Some 2, [])"
    unfolding metrics_main_def using assms(4) parse [OF undefined_flag(2)] by (simp add: Let_def)
qed

text \<open>
  With a file to convert the metrics operator does nothing but print what the converter makes of it.
\<close>

theorem conversion_only:
  assumes "ho_MetricsEnv ho = Inr env" and "flag_Parse (metrics_flags @ ho_LibraryFlags ho) (ho_Args ho) = Inr vs"
    and "string_flag vs ''convert-sli'' [] = path" and "path \<noteq> []" and "ho_ReadFile ho path = Inr content"
    and "SLI_Convert (ho_Meta ho) (ho_SLI ho) (ho_MarshalTemplate ho) content
      (string_flag vs ''keptn-provider-name'' []) (namespace_flag vs) = Inr converted"
  shows "run_state (metrics_main ho) [] = (None, [Print converted])"
  unfolding metrics_main_def using assms by (simp add: Let_def convertSLI_def print_converted_def run_go_on)

end
