(* ===== verification/Startup_Examples.thy ===== *)
theory Startup_Examples
  imports Startup
begin

text \<open>
  A host on which everything succeeds: what the lifecycle operator does there, and the metrics operator with the
  arguments of its manifest.
\<close>

definition demo_lifecycle_env :: LifecycleEnv where
  "demo_lifecycle_env =
     \<lparr>le_PodNamespace = ''keptn'', le_PodName = ''operator'', le_AppLogLevel = 0, le_AppCreationRequestLogLevel = 0,
      le_AppVersionLogLevel = 0, le_EvaluationLogLevel = 0, le_TaskLogLevel = 0, le_TaskDefinitionLogLevel = 0,
      le_WorkloadLogLevel = 0, le_WorkloadVersionLogLevel = 0, le_SchedulingGatesLogLevel = 0, le_DoraMetricsPort = 2222,
      le_OptionsLogLevel = 0, le_PromotionTasksEnabled = False, le_CertManagerEnabled = True\<rparr>"

definition demo_metrics_env :: MetricsEnv where
  "demo_metrics_env =
     \<lparr>me_PodNamespace = ''keptn'', me_PodName = ''metrics'', me_MetricLogLevel = 0, me_AnalysisLogLevel = 0,
      me_ExposeKeptnMetrics = True, me_EnableCustomMetricsAPIService = True, me_CertManagerEnabled = True\<rparr>"

definition demo_host :: "string list \<Rightarrow> Host" where
  "demo_host args =
     \<lparr>ho_LifecycleEnv = Inr demo_lifecycle_env, ho_MetricsEnv = Inr demo_metrics_env,
      ho_CertificateEnv = Inl (Message ''not set''), ho_Args = args,
      ho_LibraryFlags = [(''kubeconfig'', LibraryFlag False (\<lambda>_. True))], ho_Outcome = (\<lambda>_. None),
      ho_ReadFile = (\<lambda>_. Inr []), ho_Quote = id, ho_Wild = (\<lambda>_. 0),
      ho_Decimals = \<lparr>dc_SetString = \<lambda>_. None, dc_NewDecimalQuantity = \<lambda>_. ParsedQuantity ''0''\<rparr>,
      ho_Meta = zero_ObjectMeta, ho_SLO = \<lparr>ym_Unmarshal = \<lambda>_. Inl (Message ''no document'')\<rparr>,
      ho_SLI = \<lparr>ym_Unmarshal = \<lambda>_. Inl (Message ''no document'')\<rparr>,
      ho_MarshalDefinition = (\<lambda>_. Inr []), ho_MarshalTemplate = (\<lambda>_. Inr [])\<rparr>"

lemmas startup_defs =
  demo_host_def demo_lifecycle_env_def demo_metrics_env_def lifecycle_main_def lifecycle_run_def metrics_main_def
  metrics_run_def run_in_order_Cons run_go_on run_or_exit run_or_panic with_builder_def webhook_builder_def LoadCertOptionsFromFlag_def
  lifecycle_controllers_def lifecycle_webhooks_def setup_probes_def setupValidationWebhooks_def register_webhooks_def
  Builder_Register_def SetCertificateWatcher_def in_order.simps(1)

lemma demo_flags:
  "flag_Parse (lifecycle_flags @ ho_LibraryFlags (demo_host [])) [''--leader-elect'', ''--metrics-bind-address'', '':9000''] =
     Inr [(''leader-elect'', ''true''), (''metrics-bind-address'', '':9000'')]"
  by code_simp

lemma started_when_complete_witness:
  "\<exists>pre tail options. snd (run_state (lifecycle_main (demo_host [])) []) = pre @ tail @ [StartManager] \<and>
     succeeded (demo_host []) pre (NewManager options) \<and> succeeded (demo_host []) pre AddReadyzCheck"
proof -
  obtain r h where run: "run_state (lifecycle_main (demo_host [])) [] = (r, h)" by fastforce
  have "StartManager \<in> set (snd (run_state (lifecycle_main (demo_host [])) []))"
    by (simp add: startup_defs Let_def bool_flag_def)
  with started_when_complete [OF run] run show ?thesis by auto
qed

end
