(* ===== verification/Spec2Isabelle.thy ===== *)
theory Spec2Isabelle
  imports Examples_Checks Metrics_Examples Certificate_Examples App_Converter Instruments Provider_Examples Startup_Examples
begin

text \<open>
  \<^bold>\<open>The Keptn lifecycle toolkit.\<close>

  The repository has three programs, each a set of Kubernetes controllers.  All state is kept in custom
  resources on the API server; a controller is a function \<open>Reconcile\<close> that reads an object, does the next
  piece of work, writes the status back and asks to be called again.
  \<^item> The lifecycle operator (\<^verbatim>\<open>src/lifecycle-operator\<close>).  A user deploys workloads; the operator groups them into
    apps and takes every version of an app and of a workload through a fixed sequence of phases: tasks and
    evaluations before the deployment, the deployment itself, tasks and evaluations after it and, for apps,
    a promotion.  A webhook holds back the pods of a workload until its deployment may begin.
  \<^item> The metrics operator (\<^verbatim>\<open>src/metrics-operator\<close>) queries providers for metrics, keeps their values and the
    aggregates of them, and evaluates analyses: weighted objectives with criteria for pass and warning,
    whose values a pool of worker goroutines fetches.  Values come from Prometheus, Datadog and Dynatrace.
    Evaluations of the lifecycle operator read the metrics that it keeps; a server exposes them to Prometheus and
    an adapter to the custom metrics API of Kubernetes.  It also converts SLIs and SLOs of earlier releases.
  \<^item> The certificate manager (\<^verbatim>\<open>src/keptn-cert-manager\<close>) keeps the TLS certificates of the webhooks of the other two
    in a Secret, renews them and writes the bundle into the webhook configurations; the other two link its
    package that copies the Secret into the files which their webhook server serves.

  \<^bold>\<open>How the programs are modelled.\<close>  A controller's method is a term of the state monad over \<open>Env\<close>
  (\<open>Cluster\<close>), whose fields are the world outside the operator, the events and log entries emitted and
  the tables of open spans.  The world is a type parameter: the API server is a record of functions
  (\<open>Client\<close>, \<open>api\<close>) that a controller calls and whose answers, errors included, are arbitrary.  What
  a theorem needs of it is a named hypothesis, e.g. \<open>wv_server\<close>, \<open>serves\<close>, \<open>evaluation_server\<close>,
  \<open>webhook_server\<close>: what is read was stored, a status update stores the status with the defaults of the
  schema.  Other writers of the cluster are the steps \<open>elsewhere\<close> in \<open>System\<close>.  The theory \<open>Memory_Server\<close>
  has a server for which
  all the laws hold.  Every error of the code is a value of \<open>error\<close>; a call that would panic in Go sets
  \<open>env_Panicked\<close> or is a value of its own.  What is not part of the repository is an argument, with its documented
  behaviour as a hypothesis: the packages \<^verbatim>\<open>mergo\<close> and \<^verbatim>\<open>strconv.Quote\<close>, \<^verbatim>\<open>crypto/x509\<close> (\<open>x509_laws\<close>: a certificate
  that was made is read back), the file system (\<open>fs_laws\<close>: what is written is read), the clock (\<open>clock_laws\<close>:
  waiting lets time pass), the registry of Prometheus (\<open>registry_laws\<close>: a name is registered once, a gauge holds the
  value that was set), HTTP servers and the decoding of their answers (\<open>ProviderClient\<close>, \<open>Decoders\<close>, of which nothing is assumed).

  The operator computes with 64-bit floating point numbers: \<open>Floats\<close> rounds exact rationals, and
  \<open>Float_Arithmetic\<close> has the operations with infinities and NaN.  Durations are 64-bit integers that wrap
  (\<open>wrap64\<close>).  Loops over lists are structural recursion; loops with another measure (\<open>CreateResourceName\<close>, decimal
  printing, parsing of patterns) have a termination proof.  The loop of \<^verbatim>\<open>WaitForCertificates\<close> is a \<open>partial_function\<close>
  in the option monad, and that it returns is proved (C27).  The loop that polls a query has five tries, as in the code.  The worker pool of analyses is a step relation on
  the goroutines and channels (\<open>pool_step\<close>), so that its theorems hold for every schedule.  There is no fuel.

  \<^bold>\<open>The theories.\<close>
  \<^item> \<open>Prelude\<close>: Go's strings and maps, lemmas on lists and options, 64-bit wrap-around, the \<open>named_theorems\<close> collections.
  \<^item> \<open>Names\<close>: \<^verbatim>\<open>common/common.go\<close>, resource names that fit a length limit.
  \<^item> \<open>Hashes\<close>: SHA-256 on 32-bit words, as \<^verbatim>\<open>crypto/sha256\<close> computes it, for the names of app versions.
  \<^item> \<open>Keptn_Common\<close>: \<^verbatim>\<open>apis/lifecycle/v1/common/common.go\<close>: states, phases, the overall state of a
    summary, generated names.
  \<^item> \<open>Api_Types\<close>: \<^verbatim>\<open>apis/lifecycle/v1/*_types.go\<close>: the custom resources and their methods, the
    validation of task definitions.
  \<^item> \<open>Cluster\<close>: the API server, configuration, events, spans, errors and the helper functions of
    \<^verbatim>\<open>controllers/common\<close>; the Hoare-style predicate \<open>maintains\<close> and its rules.
  \<^item> \<open>Phase\<close>: \<^verbatim>\<open>controllers/common/phase/handler.go\<close> over the interface \<open>PhaseItem\<close>; the locale
    \<open>phased\<close> states what a phase may rely on, and is interpreted for both kinds of versions.
  \<^item> \<open>Items\<close>: \<^verbatim>\<open>controllers/common/task\<close> and \<^verbatim>\<open>controllers/common/evaluation\<close>, the handlers that create
    and watch the tasks and evaluations of a phase.
  \<^item> \<open>Workload_Version\<close>, \<open>App_Version\<close>, \<open>Keptn_App\<close>, \<open>Keptn_Workload\<close>, \<open>App_Creation\<close>: the controllers
    under \<^verbatim>\<open>controllers/lifecycle\<close> of the same names.
  \<^item> \<open>Json\<close>, \<open>Floats\<close>: what the operator uses of \<^verbatim>\<open>encoding/json\<close> and of \<^verbatim>\<open>strconv.ParseFloat\<close>: the JSON of
    a task context, 64-bit floating point numbers as rounded rationals.
  \<^item> \<open>Keptn_Evaluation\<close>, \<open>Task_Definition\<close>, \<open>Keptn_Task\<close>, \<open>Scheduling_Gates\<close>: the controllers of
    evaluations (with the metric provider), task definitions, tasks (with the builders of Jobs) and
    scheduling gates.
  \<^item> \<open>Pod_Mutator\<close>: \<^verbatim>\<open>webhooks/pod_mutator\<close>, the admission webhook that gates pods and creates workloads
    and creation requests from their annotations.
  \<^item> \<open>Operator\<close>: the locale \<open>bystander\<close>, with what the controllers keep that write no versions.
  \<^item> \<open>System\<close>: all controllers and the webhook interleaved with each other and with other writers,
    reachable states; \<open>bystander\<close> is interpreted for the server in memory.
  \<^item> \<open>Conversion\<close>: \<^verbatim>\<open>apis/lifecycle/v1alpha1\<close> to \<^verbatim>\<open>v1beta1\<close>, the conversion of resources of earlier versions of the API,
    and the converter of manifests.
  \<^item> \<open>App_Converter\<close>: the program around that converter.
  \<^item> \<open>Telemetry\<close>, \<open>Instruments\<close>: \<^verbatim>\<open>controllers/common/telemetry\<close> and \<^verbatim>\<open>controllers/options\<close>: gauges of durations and
    intervals, the tracer provider, the KeptnConfig controller; the instruments and the exporter of a collector.
  \<^item> \<open>Float_Arithmetic\<close>, \<open>Analysis\<close>: 64-bit operations; the evaluators of targets, objectives and analyses
    (\<^verbatim>\<open>controllers/common/analysis\<close>) and the validation of the resources (\<^verbatim>\<open>metrics-operator/api/v1\<close>).
  \<^item> \<open>Metrics\<close>: the controller of metrics, with its aggregation functions.
  \<^item> \<open>Metric_Providers\<close>, \<open>Provider_Results\<close>, \<open>Provider_Safety\<close>: \<^verbatim>\<open>controllers/common/providers\<close>: the requests to Prometheus,
    Datadog and Dynatrace and the values in their answers; means and printed numbers; what holds whatever a
    server answers.
  \<^item> \<open>Metrics_Adapter\<close>, \<open>Metrics_Server\<close>: \<^verbatim>\<open>cmd/metrics/adapter/provider\<close> and \<^verbatim>\<open>pkg/metrics/server.go\<close>: the cache of the
    adapter, an instance of the locale \<open>keyed_cache\<close>, and the server with its recording loop.
  \<^item> \<open>Worker_Pool\<close>, \<open>Analysis_Controller\<close>: \<^verbatim>\<open>controllers/analysis\<close>, the pool that fetches the values of an analysis,
    and the controller.
  \<^item> \<open>Slo_Converter\<close>: \<^verbatim>\<open>metrics-operator/converter\<close>, from SLIs and SLOs to templates and analysis definitions.
  \<^item> \<open>Certificates\<close>, \<open>Certificate_Watcher\<close>: \<^verbatim>\<open>keptn-cert-manager/controllers\<close> and \<^verbatim>\<open>keptn-cert-manager/pkg\<close>.
  \<^item> \<open>Startup\<close>: the three \<^verbatim>\<open>main.go\<close> and \<^verbatim>\<open>keptn-cert-manager/pkg/webhook\<close>: environment, flags and the order of the set-up.
  \<^item> \<open>Memory_Server\<close>, \<open>Examples\<close>, \<open>Examples_Checks\<close>, \<open>Metrics_Examples\<close>, \<open>Certificate_Examples\<close>, \<open>Provider_Examples\<close>,
    \<open>Startup_Examples\<close>: a server in memory, and theorems with hypotheses applied to concrete inputs.

  \<^bold>\<open>What is proved.\<close>
  \<^item> The order of the phases is an invariant of the stored versions that every controller keeps
    (C1, C2), and in every reachable state a version that is marked as succeeded has passed its phases; the
    promotion of an app has ended, but may have failed (C3, \<open>failed_promotion_finishes\<close>).  A version that failed is not written again (\<open>failed_workload_version_untouched\<close>,
    \<open>failed_app_version_untouched\<close>).
  \<^item> One round of the phase handler refines an abstract description of what happens to a phase (C4);
    when a phase fails all later phases are deprecated (\<open>failed_app_phase_deprecates_rest\<close>).
  \<^item> The handler of tasks records the states of the tasks that the server has, summarises them (C5), and never
    creates a task that the status already records (C6).
  \<^item> An evaluation comes to an end (C7; what comes after a success with the last retry is
    \<open>last_retry_success_fails\<close>), and succeeds only when every objective is met, also in exact arithmetic, as long
    as the objectives name distinct metrics (C8, \<open>shared_metric_hides_failure\<close>).  A task follows its Job while
    that exists (C9, \<open>finished_task_runs_again\<close>); the parts of the Job fit together (C38) and it is told the
    context of its task, which can be read back (C39).
  \<^item> A workload waits until its app has passed its first tasks and evaluations (C10; the code waits for longer,
    \<open>warning_blocks_workload\<close>); the state of the workloads of an app is what the resources say (C11).
  \<^item> A pod is gated only when what releases it has been stored, released exactly when a workload version that was
    not given up has passed its first checks and begun its deployment (\<open>failed_predeployment_releases_pod\<close> has the
    other case), and never gated again (C12, C13, C14).
  \<^item> Apps, workloads and their versions are kept in step (C35 for the revisions of the current version string, C37), generated apps follow
    their workloads (C36), and names are bounded (C40).
  \<^item> The worker pool stops on every schedule, collects exactly the values asked for, and can return while its
    context lasts and no provider panics (C15, C16, C17); when its context ends, the pool itself may panic (C18).
  \<^item> The verdict of an analysis is the one its definition describes, when its key objectives have a weight
    (\<open>weightless_key_objective_fails\<close> is the other case), is monotone in the values, and is computed
    when and only when all values are there (C19 to C22); aggregates and the validation are as
    documented (C23, C24).
  \<^item> Certificates are renewed before they expire, what is served stays valid until the next round and waiting for
    them ends (C25, C26, C27).
  \<^item> The value of a Dynatrace metric is the mean of what was measured, up to six digits (C28); a query in the query
    language ends, only values of queries that succeeded are reported, and the two kinds of answers on which it
    panics are named (C29).
  \<^item> The adapter answers with the value that was reported last under the key of a metric (C30), and the server
    exposes the current values, from its first start on, where of metrics with one name the last counts (C31).
  \<^item> The operators start their managers only when they are complete, and a webhook server finds the certificates
    that it has waited for (C32, \<open>metrics_started_when_complete\<close>).
  \<^item> App versions survive a round trip through the hub version of the API (C33); an SLO with single criteria
    whose warning includes the pass keeps its meaning (C34).
  \<^item> What the code does that it may not mean to do is proved beside the functions it is about, e.g.
    \<open>unfinished_predecessor_observed\<close>, \<open>no_stdout_exporter\<close>, \<open>unlisted_webhooks_panic\<close>, \<open>first_server_asked\<close>,
    \<open>selector_dropped\<close>, \<open>missing_data_is_zero\<close>, \<open>empty_series_panics\<close>, \<open>colliding_metrics\<close>, \<open>missed_deletion_panics\<close>,
    \<open>restarted_server_is_stale\<close>, \<open>flags_after_argument_ignored\<close>, \<open>certificate_flags_refused\<close>.

  \<^bold>\<open>Not modelled.\<close>  The methods \<^verbatim>\<open>SetupWithManager\<close>, which register controllers and their filters of events at
  \<^verbatim>\<open>controller-runtime\<close>, and \<^verbatim>\<open>cmd/metrics/adapter/adapter.go\<close>, which starts the API server of a library: in
  \<open>Startup\<close> they are single actions.  Deep copies and mocks are generated, and the types of resources of earlier
  API versions without a conversion have no operations.
\<close>

end
